(* ===== verification/Prelude.thy ===== *)
theory Prelude
  imports Main "HOL-Library.Word"
begin

text \<open>
  Shared vocabulary of the development.

  \<^item> Rust's \<open>Result\<close> as the sum \<open>program_error + 'a\<close>, with the early-return forms
    \<open>require!\<close>, \<open>.ok_or(e)?\<close> and \<open>?\<close> in continuation style
    (\<open>require\<close>, \<open>ok_or\<close>, \<open>try_in\<close>);
  \<^item> the checked integer operations the program uses, at their width, over
    HOL-Library's \<open>'w word\<close> (\<open>u8\<close>, \<open>u16\<close>, \<open>u64\<close>, \<open>u128\<close>, and \<open>i64\<close> read through
    \<^const>\<open>sint\<close>), each with an equivalence that turns a successful operation into an
    equation between natural numbers or integers;
  \<^item> Anchor's \<open>Account\<close> (an address with its deserialized contents) and the runtime
    values a handler reads from outside its accounts.
\<close>

section \<open>Integers and byte strings\<close>

type_synonym u8 = "8 word"
type_synonym u16 = "16 word"
type_synonym u64 = "64 word"
type_synonym u128 = "128 word"
type_synonym i64 = "64 word"
type_synonym bytes = "8 word list"
type_synonym pubkey = "256 word"
type_synonym hash32 = "256 word"

definition checked_add :: "'a::len word \<Rightarrow> 'a word \<Rightarrow> 'a word option" where
  "checked_add a b = (if unat a + unat b < 2 ^ LENGTH('a) then Some (a + b) else None)"

definition checked_sub :: "'a::len word \<Rightarrow> 'a word \<Rightarrow> 'a word option" where
  "checked_sub a b = (if b \<le> a then Some (a - b) else None)"

definition checked_mul :: "'a::len word \<Rightarrow> 'a word \<Rightarrow> 'a word option" where
  "checked_mul a b = (if unat a * unat b < 2 ^ LENGTH('a) then Some (a * b) else None)"

definition checked_div :: "'a::len word \<Rightarrow> 'a word \<Rightarrow> 'a word option" where
  "checked_div a b = (if b = 0 then None else Some (a div b))"

definition checked_pow :: "'a::len word \<Rightarrow> nat \<Rightarrow> 'a word option" where
  "checked_pow a n = (if unat a ^ n < 2 ^ LENGTH('a) then Some (a ^ n) else None)"

definition is_multiple_of :: "u64 \<Rightarrow> u64 \<Rightarrow> bool" where
  "is_multiple_of a b = (if b = 0 then a = 0 else a mod b = 0)"

definition u128_from :: "u64 \<Rightarrow> u128" where
  "u128_from a = ucast a"

definition u64_try_from :: "u128 \<Rightarrow> u64 option" where
  "u64_try_from a = (if unat a < 2 ^ 64 then Some (ucast a) else None)"

text \<open>Signed 64-bit values share the representation of \<^typ>\<open>u64\<close>; they are compared and
  added through \<^const>\<open>sint\<close>.\<close>

definition ilt :: "i64 \<Rightarrow> i64 \<Rightarrow> bool" where
  "ilt a b = (sint a < sint b)"

definition ile :: "i64 \<Rightarrow> i64 \<Rightarrow> bool" where
  "ile a b = (sint a \<le> sint b)"

definition in_i64 :: "int \<Rightarrow> bool" where
  "in_i64 x = (- (2 ^ 63) \<le> x \<and> x < 2 ^ 63)"

definition checked_add_i64 :: "i64 \<Rightarrow> i64 \<Rightarrow> i64 option" where
  "checked_add_i64 a b = (if in_i64 (sint a + sint b) then Some (a + b) else None)"

definition checked_sub_i64 :: "i64 \<Rightarrow> i64 \<Rightarrow> i64 option" where
  "checked_sub_i64 a b = (if in_i64 (sint a - sint b) then Some (a - b) else None)"

definition i64_try_from :: "u64 \<Rightarrow> i64 option" where
  "i64_try_from a = (if unat a < 2 ^ 63 then Some a else None)"

subsection \<open>What a successful checked operation says\<close>

lemma unat_less_2p [simp]: "unat (a :: 'a::len word) < 2 ^ LENGTH('a)"
  by (rule unsigned_less)

lemma unat_u64_bound: "unat (a :: u64) < 2 ^ 64"
  using unat_less_2p [of a] by simp

lemma word_of_unat: "n < 2 ^ LENGTH('a) \<Longrightarrow> \<exists>w :: 'a::len word. unat w = n"
  by (rule exI [of _ "of_nat n"]) (simp add: unsigned_of_nat take_bit_nat_eq_self_iff)

lemma checked_add_Some [simp]:
  "checked_add a b = Some c \<longleftrightarrow> unat c = unat a + unat (b :: 'a::len word)"
proof
  assume "checked_add a b = Some c"
  then show "unat c = unat a + unat b"
    by (auto simp: checked_add_def unat_word_ariths split: if_splits)
next
  assume eq: "unat c = unat a + unat b"
  then have lt: "unat a + unat b < 2 ^ LENGTH('a)"
    by (metis unat_less_2p)
  then have "unat (a + b) = unat c"
    by (simp add: unat_word_ariths eq)
  then show "checked_add a b = Some c"
    using lt by (simp add: checked_add_def word_unat_eq_iff)
qed

lemma checked_sub_Some [simp]:
  "checked_sub a b = Some c \<longleftrightarrow> unat a = unat b + unat (c :: 'a::len word)"
proof
  assume "checked_sub a b = Some c"
  then show "unat a = unat b + unat c"
    by (auto simp: checked_sub_def unat_sub word_le_nat_alt split: if_splits)
next
  assume eq: "unat a = unat b + unat c"
  then have le: "b \<le> a" by (simp add: word_le_nat_alt)
  then have "unat (a - b) = unat c" by (simp add: unat_sub eq)
  then show "checked_sub a b = Some c"
    using le by (simp add: checked_sub_def word_unat_eq_iff)
qed

lemma checked_mul_Some [simp]:
  "checked_mul a b = Some c \<longleftrightarrow> unat c = unat a * unat (b :: 'a::len word)"
proof
  assume "checked_mul a b = Some c"
  then show "unat c = unat a * unat b"
    by (auto simp: checked_mul_def unat_word_ariths split: if_splits)
next
  assume eq: "unat c = unat a * unat b"
  then have lt: "unat a * unat b < 2 ^ LENGTH('a)"
    by (metis unat_less_2p)
  then have "unat (a * b) = unat c"
    by (simp add: unat_word_ariths eq)
  then show "checked_mul a b = Some c"
    using lt by (simp add: checked_mul_def word_unat_eq_iff)
qed

lemma checked_add_None: "checked_add a b = None \<longleftrightarrow> 2 ^ LENGTH('a) \<le> unat a + unat (b :: 'a::len word)"
  by (auto simp: checked_add_def)

lemma checked_sub_None: "checked_sub a b = None \<longleftrightarrow> unat a < unat (b :: 'a::len word)"
  by (auto simp: checked_sub_def word_le_nat_alt)

lemma checked_mul_None: "checked_mul a b = None \<longleftrightarrow> 2 ^ LENGTH('a) \<le> unat a * unat (b :: 'a::len word)"
  by (auto simp: checked_mul_def)

lemma checked_div_Some [simp]:
  "checked_div a b = Some c \<longleftrightarrow> b \<noteq> 0 \<and> unat c = unat a div unat (b :: 'a::len word)"
  by (auto simp: checked_div_def unat_div word_unat_eq_iff)

lemma unat_power_small:
  "unat a ^ n < 2 ^ LENGTH('a) \<Longrightarrow> unat ((a :: 'a::len word) ^ n) = unat a ^ n"
proof (induction n)
  case 0
  then show ?case by simp
next
  case (Suc n)
  show ?case
  proof (cases "unat a = 0")
    case True
    then have "a = 0" by (simp add: unat_eq_zero)
    then show ?thesis by simp
  next
    case False
    have "unat a ^ n \<le> unat a ^ Suc n" using False by simp
    with Suc.prems have "unat a ^ n < 2 ^ LENGTH('a)" by linarith
    then have ih: "unat (a ^ n) = unat a ^ n" by (rule Suc.IH)
    have "unat (a ^ Suc n) = unat a * unat (a ^ n) mod 2 ^ LENGTH('a)"
      by (simp add: unat_word_ariths)
    also have "\<dots> = unat a ^ Suc n" using Suc.prems by (simp add: ih)
    finally show ?thesis .
  qed
qed

lemma checked_pow_Some [simp]:
  "checked_pow a n = Some c \<longleftrightarrow> unat c = unat (a :: 'a::len word) ^ n"
proof
  assume "checked_pow a n = Some c"
  then show "unat c = unat a ^ n"
    by (auto simp: checked_pow_def unat_power_small split: if_splits)
next
  assume eq: "unat c = unat a ^ n"
  then have lt: "unat a ^ n < 2 ^ LENGTH('a)" by (metis unat_less_2p)
  then have "unat (a ^ n) = unat c" by (simp add: unat_power_small eq)
  then show "checked_pow a n = Some c"
    using lt by (simp add: checked_pow_def word_unat_eq_iff)
qed

lemma unat_u128_from [simp]: "unat (u128_from a) = unat a"
  unfolding u128_from_def
  by (simp add: unsigned_ucast_eq take_bit_nat_eq_self_iff)
    (rule order_less_trans [OF unat_u64_bound], simp)

lemma u64_try_from_Some [simp]: "u64_try_from a = Some c \<longleftrightarrow> unat c = unat a"
proof
  assume "u64_try_from a = Some c"
  then show "unat c = unat a"
    by (auto simp: u64_try_from_def unsigned_ucast_eq take_bit_nat_eq_self_iff split: if_splits)
next
  assume eq: "unat c = unat a"
  then have lt: "unat a < 2 ^ 64" using unat_u64_bound [of c] by simp
  then have "unat (ucast a :: u64) = unat c"
    by (simp add: unsigned_ucast_eq take_bit_nat_eq_self_iff eq)
  then show "u64_try_from a = Some c"
    using lt by (simp add: u64_try_from_def word_unat_eq_iff)
qed

lemma u64_try_from_None: "u64_try_from a = None \<longleftrightarrow> 2 ^ 64 \<le> unat a"
  by (auto simp: u64_try_from_def)

lemma is_multiple_of_iff: "is_multiple_of a b \<longleftrightarrow> unat b dvd unat a"
  by (cases "b = 0")
    (simp_all add: is_multiple_of_def word_unat_eq_iff unat_mod mod_eq_0_iff_dvd)


lemma sint_i64_bounds: "- (2 ^ 63) \<le> sint (a :: i64) \<and> sint a < 2 ^ 63"
  using sint_ge [of a] sint_less [of a] by simp

lemma signed_take_bit_i64: "in_i64 x \<Longrightarrow> signed_take_bit 63 x = x"
  by (simp add: in_i64_def signed_take_bit_int_eq_self_iff)

lemma checked_add_i64_Some [simp]:
  "checked_add_i64 a b = Some c \<longleftrightarrow> sint c = sint a + sint b"
proof
  assume "checked_add_i64 a b = Some c"
  then show "sint c = sint a + sint b"
    by (auto simp: checked_add_i64_def signed_take_bit_i64 sint_word_ariths split: if_splits)
next
  assume eq: "sint c = sint a + sint b"
  then have "in_i64 (sint a + sint b)"
    using sint_i64_bounds [of c] by (simp add: in_i64_def)
  then show "checked_add_i64 a b = Some c"
  proof -
    assume r: "in_i64 (sint a + sint b)"
    then have "sint (a + b) = sint c" by (simp add: sint_word_ariths signed_take_bit_i64 eq)
    then have "word_of_int (sint (a + b)) = (word_of_int (sint c) :: i64)" by (rule arg_cong)
    then have "a + b = c" by simp
    with r show ?thesis by (simp add: checked_add_i64_def)
  qed
qed

lemma checked_sub_i64_Some [simp]:
  "checked_sub_i64 a b = Some c \<longleftrightarrow> sint c = sint a - sint b"
proof
  assume "checked_sub_i64 a b = Some c"
  then show "sint c = sint a - sint b"
    by (auto simp: checked_sub_i64_def signed_take_bit_i64 sint_word_ariths split: if_splits)
next
  assume eq: "sint c = sint a - sint b"
  then have "in_i64 (sint a - sint b)"
    using sint_i64_bounds [of c] by (simp add: in_i64_def)
  then show "checked_sub_i64 a b = Some c"
  proof -
    assume r: "in_i64 (sint a - sint b)"
    then have "sint (a - b) = sint c" by (simp add: sint_word_ariths signed_take_bit_i64 eq)
    then have "word_of_int (sint (a - b)) = (word_of_int (sint c) :: i64)" by (rule arg_cong)
    then have "a - b = c" by simp
    with r show ?thesis by (simp add: checked_sub_i64_def)
  qed
qed

text \<open>A word with the right natural-number value is the result of the operation.\<close>

lemma word_add_eq: "unat c = unat a + unat b \<Longrightarrow> a + b = (c :: 'a::len word)"
  using unat_less_2p [of c] by (simp add: word_unat_eq_iff unat_word_ariths)

lemma word_succ_eq: "unat c = unat a + 1 \<Longrightarrow> a + 1 = (c :: u64)"
  by (rule word_add_eq) simp

lemma word_sub_eq: "unat a = unat b + unat c \<Longrightarrow> a - b = (c :: 'a::len word)"
  by (auto simp: word_unat_eq_iff unat_sub word_le_nat_alt)

lemma i64_try_from_Some: "i64_try_from a = Some c \<longleftrightarrow> c = a \<and> unat a < 2 ^ 63"
  by (auto simp: i64_try_from_def)

lemma sint_of_small_unat: "unat (a :: u64) < 2 ^ 63 \<Longrightarrow> sint a = int (unat a)"
proof -
  assume "unat a < 2 ^ 63"
  then have "int (unat a) < int (2 ^ 63)" by (simp only: of_nat_less_iff)
  then have "uint a < 2 ^ 63" by simp
  then have "sint a = uint a"
    by (simp add: sint_uint signed_take_bit_int_eq_self_iff order_trans [OF _ uint_ge_0])
  then show ?thesis by (simp only: uint_nat)
qed

text \<open>Little-endian bytes of an order id or a price (\<open>u64::to_le_bytes\<close>), and the 32
  bytes of an address; both have a left inverse.\<close>

fun le_bytes_n :: "nat \<Rightarrow> 'a::len word \<Rightarrow> bytes" where
  "le_bytes_n 0 w = []"
| "le_bytes_n (Suc n) w = ucast w # le_bytes_n n (drop_bit 8 w)"

fun from_le_bytes :: "bytes \<Rightarrow> 'a::len word" where
  "from_le_bytes [] = 0"
| "from_le_bytes (b # bs) = or (ucast b) (push_bit 8 (from_le_bytes bs))"

definition to_le_bytes :: "u64 \<Rightarrow> bytes" where
  "to_le_bytes w = le_bytes_n 8 w"

definition key_bytes :: "pubkey \<Rightarrow> bytes" where
  "key_bytes k = le_bytes_n 32 k"

lemma length_le_bytes_n [simp]: "length (le_bytes_n n w) = n"
  by (induction n arbitrary: w) auto

lemma length_to_le_bytes [simp]: "length (to_le_bytes w) = 8"
  by (simp add: to_le_bytes_def)

lemma length_key_bytes [simp]: "length (key_bytes k) = 32"
  by (simp add: key_bytes_def)

lemma or_low_high: "or (ucast (ucast w :: u8)) (push_bit 8 (drop_bit 8 w)) = (w :: 'a::len word)"
proof (rule bit_word_eqI)
  fix n
  assume "n < LENGTH('a)"
  then show "bit (or (ucast (ucast w :: u8)) (push_bit 8 (drop_bit 8 w))) n = bit w n"
    by (cases "n < 8") (auto simp: bit_or_iff bit_ucast_iff bit_push_bit_iff bit_drop_bit_eq)
qed

lemma from_le_bytes_n:
  "LENGTH('a) \<le> 8 * n \<Longrightarrow> from_le_bytes (le_bytes_n n w) = (w :: 'a::len word)"
proof -
  have "(\<forall>i. 8 * n \<le> i \<longrightarrow> \<not> bit w i) \<Longrightarrow> from_le_bytes (le_bytes_n n w) = w" for w :: "'a word"
  proof (induction n arbitrary: w)
    case 0
    then show ?case by (auto intro: bit_word_eqI)
  next
    case (Suc n)
    have "from_le_bytes (le_bytes_n n (drop_bit 8 w)) = drop_bit 8 w"
      by (rule Suc.IH) (use Suc.prems in \<open>auto simp: bit_drop_bit_eq\<close>)
    then show ?case by (simp add: or_low_high)
  qed
  then show "from_le_bytes (le_bytes_n n w) = w" if "LENGTH('a) \<le> 8 * n"
    using that by (meson bit_imp_le_length le_trans not_le)
qed

lemma from_to_le_bytes [simp]: "from_le_bytes (to_le_bytes w) = w"
  by (simp add: to_le_bytes_def from_le_bytes_n)

lemma from_key_bytes [simp]: "from_le_bytes (key_bytes k) = k"
  by (simp add: key_bytes_def from_le_bytes_n)

lemma to_le_bytes_inject [simp]: "to_le_bytes a = to_le_bytes b \<longleftrightarrow> a = b"
  by (metis from_to_le_bytes)

lemma key_bytes_inject [simp]: "key_bytes a = key_bytes b \<longleftrightarrow> a = b"
  by (metis from_key_bytes)

section \<open>Results and early return\<close>

text \<open>
  Errors: the program's own catalogue (\<open>#[error_code] enum TidebookError\<close>) is carried by
  its declared discriminant, named constant by constant in theory \<open>Errors\<close>; the other
  constructors are the failures the Anchor account layer or a CPI raises before or inside a
  handler.
\<close>

datatype program_error =
    TidebookError nat
  | AccountNotInitialized
  | AccountDiscriminatorMismatch
  | AccountAlreadyInUse
  | ConstraintSeeds
  | ConstraintHasOne
  | ConstraintAddress
  | ConstraintOwner
  | ConstraintTokenMint
  | ConstraintTokenOwner
  | ConstraintDuplicateMutableAccount
  | ConstraintRaw
  | TokenProgramError nat

type_synonym 'a res = "program_error + 'a"

definition require :: "bool \<Rightarrow> program_error \<Rightarrow> 'a res \<Rightarrow> 'a res" where
  "require b e k = (if b then k else Inl e)"

definition ok_or :: "'a option \<Rightarrow> program_error \<Rightarrow> ('a \<Rightarrow> 'b res) \<Rightarrow> 'b res" where
  "ok_or x e k = (case x of None \<Rightarrow> Inl e | Some a \<Rightarrow> k a)"

definition try_in :: "'a res \<Rightarrow> ('a \<Rightarrow> 'b res) \<Rightarrow> 'b res" where
  "try_in x k = (case x of Inl e \<Rightarrow> Inl e | Inr a \<Rightarrow> k a)"

text \<open>Inversion of a successful run: every guard held, every fallible step returned.\<close>

named_theorems run_simps "a handler that returned Ok passed every guard"

lemma require_Inr [run_simps]: "require b e k = Inr y \<longleftrightarrow> b \<and> k = Inr y"
  by (simp add: require_def)

lemma ok_or_Inr [run_simps]: "ok_or x e k = Inr y \<longleftrightarrow> (\<exists>a. x = Some a \<and> k a = Inr y)"
  by (simp add: ok_or_def split: option.splits)

lemma try_in_Inr [run_simps]: "try_in x k = Inr y \<longleftrightarrow> (\<exists>a. x = Inr a \<and> k a = Inr y)"
  by (simp add: try_in_def split: sum.splits)

lemma if_Inr [run_simps]:
  "(if b then x else k) = Inr y \<longleftrightarrow> (b \<longrightarrow> x = Inr y) \<and> (\<not> b \<longrightarrow> k = Inr y)"
  by simp

text \<open>Evaluation, for error paths and concrete inputs.\<close>

lemma require_simps [simp]:
  "require True e k = k" "require False e k = Inl e"
  by (simp_all add: require_def)

lemma ok_or_simps [simp]:
  "ok_or (Some a) e f = f a" "ok_or None e f = Inl e"
  by (simp_all add: ok_or_def)

lemma try_in_simps [simp]:
  "try_in (Inr a) f = f a" "try_in (Inl e) f = Inl e"
  by (simp_all add: try_in_def)

definition is_ok :: "'a res \<Rightarrow> bool" where
  "is_ok x = (case x of Inl _ \<Rightarrow> False | Inr _ \<Rightarrow> True)"

lemma is_ok_iff: "is_ok x \<longleftrightarrow> (\<exists>y. x = Inr y)"
  by (auto simp: is_ok_def split: sum.splits)

lemma is_ok_simps [simp]: "is_ok (Inr y)" "\<not> is_ok (Inl e)"
  by (simp_all add: is_ok_def)

section \<open>Strings\<close>

text \<open>\<open>str::strip_prefix\<close>, on characters or bytes.\<close>

definition strip_prefix :: "'a list \<Rightarrow> 'a list \<Rightarrow> 'a list option" where
  "strip_prefix p s = (if take (length p) s = p then Some (drop (length p) s) else None)"

lemma strip_prefix_Some: "strip_prefix p s = Some t \<longleftrightarrow> s = p @ t"
  by (auto simp: strip_prefix_def) (metis append_take_drop_id)

lemma strip_prefix_None: "strip_prefix p s = None \<longleftrightarrow> (\<forall>t. s \<noteq> p @ t)"
  using strip_prefix_Some [of p s] by (metis option.distinct(1) option.exhaust)

section \<open>Accounts and the runtime\<close>

text \<open>Anchor's \<open>Account<'info, T>\<close>: the address and the deserialized contents.\<close>

datatype 'a account = Account (key: pubkey) (inner: 'a)

definition upd_inner :: "('a \<Rightarrow> 'a) \<Rightarrow> 'a account \<Rightarrow> 'a account" where
  "upd_inner f a = Account (key a) (f (inner a))"

lemma upd_inner_simps [simp]:
  "key (upd_inner f a) = key a" "inner (upd_inner f a) = f (inner a)"
  by (simp_all add: upd_inner_def)

text \<open>
  What a handler reads from outside its accounts and arguments. The address derivation
  \<open>Pubkey::find_program_address\<close> is a hash computed by the Solana runtime: it stays a
  parameter, a function from the seed list and the program id to an address and bump.
  \<open>unix_timestamp\<close> is \<open>Clock::get()?.unix_timestamp\<close>.
\<close>

record runtime =
  find_program_address :: "bytes list \<Rightarrow> pubkey \<Rightarrow> pubkey \<times> u8"
  program_id :: pubkey
  unix_timestamp :: i64

definition default_key :: pubkey where
  "default_key = 0"

section \<open>Transition systems\<close>

text \<open>States reachable from an initial state by steps, and the invariant rule every
  component's reachability theorem uses.\<close>

inductive reach :: "('s \<Rightarrow> bool) \<Rightarrow> ('s \<Rightarrow> 's \<Rightarrow> bool) \<Rightarrow> 's \<Rightarrow> bool"
  for init :: "'s \<Rightarrow> bool" and step :: "'s \<Rightarrow> 's \<Rightarrow> bool" where
  reach_init: "init s \<Longrightarrow> reach init step s"
| reach_step: "reach init step s \<Longrightarrow> step s t \<Longrightarrow> reach init step t"

locale transition_invariant =
  fixes init :: "'s \<Rightarrow> bool"
    and step :: "'s \<Rightarrow> 's \<Rightarrow> bool"
    and inv :: "'s \<Rightarrow> bool"
  assumes init_inv: "init s \<Longrightarrow> inv s"
    and step_inv: "inv s \<Longrightarrow> step s t \<Longrightarrow> inv t"
begin

lemma reach_inv: "reach init step s \<Longrightarrow> inv s"
  by (induction rule: reach.induct) (auto intro: init_inv step_inv)

lemma steps_inv: "step\<^sup>*\<^sup>* s t \<Longrightarrow> inv s \<Longrightarrow> inv t"
  by (induction rule: rtranclp_induct) (auto intro: step_inv)

end

end
