(* ===== verification/Errors.thy ===== *)
theory Errors
  imports Prelude
begin

text \<open>
  The canonical error catalogue, \<open>errors/catalog.rs\<close>: every variant of
  \<open>#[error_code] enum TidebookError\<close> under its own name, carried by the discriminant the
  source pins. The domain modules \<open>errors/*.rs\<close> only re-export these names.
\<close>

abbreviation MarketPaused :: program_error where "MarketPaused \<equiv> TidebookError 0"
abbreviation InvalidMarketStatus :: program_error where "InvalidMarketStatus \<equiv> TidebookError 1"
abbreviation MarketAlreadyInitialized :: program_error where "MarketAlreadyInitialized \<equiv> TidebookError 2"
abbreviation MarketNotFound :: program_error where "MarketNotFound \<equiv> TidebookError 3"
abbreviation MarketAlreadyPaused :: program_error where "MarketAlreadyPaused \<equiv> TidebookError 4"
abbreviation MarketAlreadyActive :: program_error where "MarketAlreadyActive \<equiv> TidebookError 5"
abbreviation Unauthorized :: program_error where "Unauthorized \<equiv> TidebookError 6"
abbreviation MarketMustBePaused :: program_error where "MarketMustBePaused \<equiv> TidebookError 7"
abbreviation MarketNotActive :: program_error where "MarketNotActive \<equiv> TidebookError 8"
abbreviation InvalidOrderId :: program_error where "InvalidOrderId \<equiv> TidebookError 9"
abbreviation InvalidPrice :: program_error where "InvalidPrice \<equiv> TidebookError 10"
abbreviation InvalidQuantity :: program_error where "InvalidQuantity \<equiv> TidebookError 11"
abbreviation IdenticalMints :: program_error where "IdenticalMints \<equiv> TidebookError 12"
abbreviation UnauthorizedAdmin :: program_error where "UnauthorizedAdmin \<equiv> TidebookError 13"
abbreviation InvalidDeployer :: program_error where "InvalidDeployer \<equiv> TidebookError 14"
abbreviation UnauthorizedSuperAdmin :: program_error where "UnauthorizedSuperAdmin \<equiv> TidebookError 15"
abbreviation InvalidAdmin :: program_error where "InvalidAdmin \<equiv> TidebookError 16"
abbreviation AdminAlreadyDisabled :: program_error where "AdminAlreadyDisabled \<equiv> TidebookError 17"
abbreviation AdminAlreadyActive :: program_error where "AdminAlreadyActive \<equiv> TidebookError 18"
abbreviation CannotModifySuperAdmin :: program_error where "CannotModifySuperAdmin \<equiv> TidebookError 19"
abbreviation AdminMustBeDisabled :: program_error where "AdminMustBeDisabled \<equiv> TidebookError 20"
abbreviation AdminDisabled :: program_error where "AdminDisabled \<equiv> TidebookError 21"
abbreviation UnauthorizedOrderOwner :: program_error where "UnauthorizedOrderOwner \<equiv> TidebookError 22"
abbreviation OrderMarketMismatch :: program_error where "OrderMarketMismatch \<equiv> TidebookError 23"
abbreviation OrderNotOpen :: program_error where "OrderNotOpen \<equiv> TidebookError 24"
abbreviation InvalidPriceTickSize :: program_error where "InvalidPriceTickSize \<equiv> TidebookError 25"
abbreviation InvalidQuantityLotSize :: program_error where "InvalidQuantityLotSize \<equiv> TidebookError 26"
abbreviation PriceNotOnTick :: program_error where "PriceNotOnTick \<equiv> TidebookError 27"
abbreviation QuantityNotOnLot :: program_error where "QuantityNotOnLot \<equiv> TidebookError 28"
abbreviation OrderNotionalOverflow :: program_error where "OrderNotionalOverflow \<equiv> TidebookError 29"
abbreviation OrderNotionalTooSmall :: program_error where "OrderNotionalTooSmall \<equiv> TidebookError 30"
abbreviation InvalidCollateralMint :: program_error where "InvalidCollateralMint \<equiv> TidebookError 31"
abbreviation InvalidCollateralOwner :: program_error where "InvalidCollateralOwner \<equiv> TidebookError 32"
abbreviation InsufficientCollateral :: program_error where "InsufficientCollateral \<equiv> TidebookError 33"
abbreviation OpenOrderCountOverflow :: program_error where "OpenOrderCountOverflow \<equiv> TidebookError 34"
abbreviation OpenOrderCountUnderflow :: program_error where "OpenOrderCountUnderflow \<equiv> TidebookError 35"
abbreviation MarketHasOpenOrders :: program_error where "MarketHasOpenOrders \<equiv> TidebookError 36"
abbreviation MarketVaultNotEmpty :: program_error where "MarketVaultNotEmpty \<equiv> TidebookError 37"
abbreviation InvalidVaultAuthority :: program_error where "InvalidVaultAuthority \<equiv> TidebookError 38"
abbreviation PriceLevelMarketMismatch :: program_error where "PriceLevelMarketMismatch \<equiv> TidebookError 39"
abbreviation PriceLevelSideMismatch :: program_error where "PriceLevelSideMismatch \<equiv> TidebookError 40"
abbreviation PriceLevelPriceMismatch :: program_error where "PriceLevelPriceMismatch \<equiv> TidebookError 41"
abbreviation InvalidPriceLevelTail :: program_error where "InvalidPriceLevelTail \<equiv> TidebookError 42"
abbreviation OrderPriceLevelMismatch :: program_error where "OrderPriceLevelMismatch \<equiv> TidebookError 43"
abbreviation PriceLevelOrderCountOverflow :: program_error where "PriceLevelOrderCountOverflow \<equiv> TidebookError 44"
abbreviation PriceLevelQuantityOverflow :: program_error where "PriceLevelQuantityOverflow \<equiv> TidebookError 45"
abbreviation OrderIdOverflow :: program_error where "OrderIdOverflow \<equiv> TidebookError 46"
abbreviation InvalidPriceLevelNeighbors :: program_error where "InvalidPriceLevelNeighbors \<equiv> TidebookError 47"
abbreviation BestPriceLevelMismatch :: program_error where "BestPriceLevelMismatch \<equiv> TidebookError 48"
abbreviation InvalidPriceLevelOrdering :: program_error where "InvalidPriceLevelOrdering \<equiv> TidebookError 49"
abbreviation NoncanonicalPriceLevel :: program_error where "NoncanonicalPriceLevel \<equiv> TidebookError 50"
abbreviation InvalidOrderNeighbor :: program_error where "InvalidOrderNeighbor \<equiv> TidebookError 51"
abbreviation BrokenOrderQueueLink :: program_error where "BrokenOrderQueueLink \<equiv> TidebookError 52"
abbreviation PriceLevelOrderCountUnderflow :: program_error where "PriceLevelOrderCountUnderflow \<equiv> TidebookError 53"
abbreviation PriceLevelQuantityUnderflow :: program_error where "PriceLevelQuantityUnderflow \<equiv> TidebookError 54"
abbreviation NoncanonicalOrder :: program_error where "NoncanonicalOrder \<equiv> TidebookError 55"
abbreviation InvalidPriceLevelRentRecipient :: program_error where "InvalidPriceLevelRentRecipient \<equiv> TidebookError 56"
abbreviation InvalidPriceLevelEndpoints :: program_error where "InvalidPriceLevelEndpoints \<equiv> TidebookError 57"
abbreviation InvalidPriceLevelAggregate :: program_error where "InvalidPriceLevelAggregate \<equiv> TidebookError 58"
abbreviation InvalidDepositAmount :: program_error where "InvalidDepositAmount \<equiv> TidebookError 59"
abbreviation InvalidDepositMint :: program_error where "InvalidDepositMint \<equiv> TidebookError 60"
abbreviation TraderBalanceMarketMismatch :: program_error where "TraderBalanceMarketMismatch \<equiv> TidebookError 61"
abbreviation TraderBalanceOwnerMismatch :: program_error where "TraderBalanceOwnerMismatch \<equiv> TidebookError 62"
abbreviation FreeBalanceOverflow :: program_error where "FreeBalanceOverflow \<equiv> TidebookError 63"
abbreviation LockedBalanceOverflow :: program_error where "LockedBalanceOverflow \<equiv> TidebookError 64"
abbreviation LockedBalanceUnderflow :: program_error where "LockedBalanceUnderflow \<equiv> TidebookError 65"
abbreviation InsufficientDepositFunds :: program_error where "InsufficientDepositFunds \<equiv> TidebookError 66"
abbreviation InvalidWithdrawalAmount :: program_error where "InvalidWithdrawalAmount \<equiv> TidebookError 67"
abbreviation InvalidWithdrawalMint :: program_error where "InvalidWithdrawalMint \<equiv> TidebookError 68"
abbreviation InsufficientFreeBalance :: program_error where "InsufficientFreeBalance \<equiv> TidebookError 69"
abbreviation InvalidWithdrawalDestinationOwner :: program_error where "InvalidWithdrawalDestinationOwner \<equiv> TidebookError 70"
abbreviation InsufficientVaultFunds :: program_error where "InsufficientVaultFunds \<equiv> TidebookError 71"
abbreviation MatchingSameSide :: program_error where "MatchingSameSide \<equiv> TidebookError 72"
abbreviation OrdersDoNotCross :: program_error where "OrdersDoNotCross \<equiv> TidebookError 73"
abbreviation InvalidMakerCollateral :: program_error where "InvalidMakerCollateral \<equiv> TidebookError 74"
abbreviation SelfTradeNotAllowed :: program_error where "SelfTradeNotAllowed \<equiv> TidebookError 75"
abbreviation MakerNotAtBestPrice :: program_error where "MakerNotAtBestPrice \<equiv> TidebookError 76"
abbreviation MakerNotFifoHead :: program_error where "MakerNotFifoHead \<equiv> TidebookError 77"
abbreviation FeeRateTooHigh :: program_error where "FeeRateTooHigh \<equiv> TidebookError 78"
abbreviation FeeCalculationOverflow :: program_error where "FeeCalculationOverflow \<equiv> TidebookError 79"
abbreviation MarketFeesMarketMismatch :: program_error where "MarketFeesMarketMismatch \<equiv> TidebookError 80"
abbreviation MarketFeesQuoteMintMismatch :: program_error where "MarketFeesQuoteMintMismatch \<equiv> TidebookError 81"
abbreviation MarketFeesNotEmpty :: program_error where "MarketFeesNotEmpty \<equiv> TidebookError 82"
abbreviation FeeAccrualOverflow :: program_error where "FeeAccrualOverflow \<equiv> TidebookError 83"
abbreviation InvalidFeeWithdrawalAmount :: program_error where "InvalidFeeWithdrawalAmount \<equiv> TidebookError 84"
abbreviation InsufficientAccruedFees :: program_error where "InsufficientAccruedFees \<equiv> TidebookError 85"
abbreviation InvalidFeeDestinationMint :: program_error where "InvalidFeeDestinationMint \<equiv> TidebookError 86"
abbreviation InvalidFaucetClaimAmount :: program_error where "InvalidFaucetClaimAmount \<equiv> TidebookError 87"
abbreviation FaucetMintSupplyNotZero :: program_error where "FaucetMintSupplyNotZero \<equiv> TidebookError 88"
abbreviation InvalidFaucetMintAuthority :: program_error where "InvalidFaucetMintAuthority \<equiv> TidebookError 89"
abbreviation FaucetMarketMismatch :: program_error where "FaucetMarketMismatch \<equiv> TidebookError 90"
abbreviation FaucetMintMismatch :: program_error where "FaucetMintMismatch \<equiv> TidebookError 91"
abbreviation InvalidFaucetDestinationOwner :: program_error where "InvalidFaucetDestinationOwner \<equiv> TidebookError 92"
abbreviation FaucetMustBeClosed :: program_error where "FaucetMustBeClosed \<equiv> TidebookError 93"
abbreviation InvalidMarketSymbol :: program_error where "InvalidMarketSymbol \<equiv> TidebookError 94"
abbreviation InvalidMarketDisplayName :: program_error where "InvalidMarketDisplayName \<equiv> TidebookError 95"
abbreviation PredictionMarketUnavailable :: program_error where "PredictionMarketUnavailable \<equiv> TidebookError 96"
abbreviation MarketMetadataMismatch :: program_error where "MarketMetadataMismatch \<equiv> TidebookError 97"
abbreviation InvalidPredictionCloseTime :: program_error where "InvalidPredictionCloseTime \<equiv> TidebookError 98"
abbreviation InvalidPredictionResolutionTime :: program_error where "InvalidPredictionResolutionTime \<equiv> TidebookError 99"
abbreviation InvalidPredictionFallback :: program_error where "InvalidPredictionFallback \<equiv> TidebookError 100"
abbreviation InvalidPredictionResolver :: program_error where "InvalidPredictionResolver \<equiv> TidebookError 101"
abbreviation InvalidPredictionResolutionDelay :: program_error where "InvalidPredictionResolutionDelay \<equiv> TidebookError 102"
abbreviation InvalidPredictionPayout :: program_error where "InvalidPredictionPayout \<equiv> TidebookError 103"
abbreviation InvalidPredictionPriceTick :: program_error where "InvalidPredictionPriceTick \<equiv> TidebookError 104"
abbreviation InvalidPredictionRulesUri :: program_error where "InvalidPredictionRulesUri \<equiv> TidebookError 105"
abbreviation InvalidPredictionRulesHash :: program_error where "InvalidPredictionRulesHash \<equiv> TidebookError 106"
abbreviation PredictionTimestampOverflow :: program_error where "PredictionTimestampOverflow \<equiv> TidebookError 107"
abbreviation PredictionPositionMarketMismatch :: program_error where "PredictionPositionMarketMismatch \<equiv> TidebookError 108"
abbreviation PredictionPositionOwnerMismatch :: program_error where "PredictionPositionOwnerMismatch \<equiv> TidebookError 109"
abbreviation InvalidPredictionCollateralMint :: program_error where "InvalidPredictionCollateralMint \<equiv> TidebookError 110"
abbreviation InvalidPredictionVault :: program_error where "InvalidPredictionVault \<equiv> TidebookError 111"
abbreviation PredictionDepositAfterResolution :: program_error where "PredictionDepositAfterResolution \<equiv> TidebookError 112"
abbreviation InvalidPredictionTokenOwner :: program_error where "InvalidPredictionTokenOwner \<equiv> TidebookError 113"
abbreviation InvalidPredictionContractQuantity :: program_error where "InvalidPredictionContractQuantity \<equiv> TidebookError 114"
abbreviation PredictionSplitUnavailable :: program_error where "PredictionSplitUnavailable \<equiv> TidebookError 115"
abbreviation PredictionMergeUnavailable :: program_error where "PredictionMergeUnavailable \<equiv> TidebookError 116"
abbreviation InsufficientPredictionPositions :: program_error where "InsufficientPredictionPositions \<equiv> TidebookError 117"
abbreviation PredictionAccountingOverflow :: program_error where "PredictionAccountingOverflow \<equiv> TidebookError 118"
abbreviation PredictionBackingUnderflow :: program_error where "PredictionBackingUnderflow \<equiv> TidebookError 119"
abbreviation UnauthorizedPredictionAuthority :: program_error where "UnauthorizedPredictionAuthority \<equiv> TidebookError 120"
abbreviation PredictionNotDraft :: program_error where "PredictionNotDraft \<equiv> TidebookError 121"
abbreviation PredictionOpeningClosed :: program_error where "PredictionOpeningClosed \<equiv> TidebookError 122"
abbreviation PredictionCreatorMustResolve :: program_error where "PredictionCreatorMustResolve \<equiv> TidebookError 123"
abbreviation PredictionBookMarketMismatch :: program_error where "PredictionBookMarketMismatch \<equiv> TidebookError 124"
abbreviation PredictionOrderUnavailable :: program_error where "PredictionOrderUnavailable \<equiv> TidebookError 125"
abbreviation PredictionSideNotEmpty :: program_error where "PredictionSideNotEmpty \<equiv> TidebookError 126"
abbreviation InvalidPredictionOrderPrice :: program_error where "InvalidPredictionOrderPrice \<equiv> TidebookError 127"
abbreviation PredictionOrderWouldCross :: program_error where "PredictionOrderWouldCross \<equiv> TidebookError 128"
abbreviation InvalidPredictionOrderId :: program_error where "InvalidPredictionOrderId \<equiv> TidebookError 129"
abbreviation InvalidPredictionPriceLevel :: program_error where "InvalidPredictionPriceLevel \<equiv> TidebookError 130"
abbreviation InvalidPredictionTail :: program_error where "InvalidPredictionTail \<equiv> TidebookError 131"
abbreviation PredictionOrderNotOpen :: program_error where "PredictionOrderNotOpen \<equiv> TidebookError 132"
abbreviation UnauthorizedPredictionOrderOwner :: program_error where "UnauthorizedPredictionOrderOwner \<equiv> TidebookError 133"
abbreviation InvalidPredictionOrderNeighbor :: program_error where "InvalidPredictionOrderNeighbor \<equiv> TidebookError 134"
abbreviation InvalidPredictionRentRecipient :: program_error where "InvalidPredictionRentRecipient \<equiv> TidebookError 135"
abbreviation PredictionOrderAccountingMismatch :: program_error where "PredictionOrderAccountingMismatch \<equiv> TidebookError 136"
abbreviation PredictionMatchingSameSide :: program_error where "PredictionMatchingSameSide \<equiv> TidebookError 137"
abbreviation PredictionOrdersDoNotCross :: program_error where "PredictionOrdersDoNotCross \<equiv> TidebookError 138"
abbreviation PredictionSelfTrade :: program_error where "PredictionSelfTrade \<equiv> TidebookError 139"
abbreviation PredictionMakerNotBest :: program_error where "PredictionMakerNotBest \<equiv> TidebookError 140"
abbreviation PredictionMakerNotHead :: program_error where "PredictionMakerNotHead \<equiv> TidebookError 141"
abbreviation InvalidAssetBalance :: program_error where "InvalidAssetBalance \<equiv> TidebookError 142"
abbreviation SharedMarketKindMismatch :: program_error where "SharedMarketKindMismatch \<equiv> TidebookError 143"
abbreviation InvalidSharedBook :: program_error where "InvalidSharedBook \<equiv> TidebookError 144"
abbreviation InvalidSharedNeighbor :: program_error where "InvalidSharedNeighbor \<equiv> TidebookError 145"
abbreviation UnauthorizedSharedOrderOwner :: program_error where "UnauthorizedSharedOrderOwner \<equiv> TidebookError 146"
abbreviation SharedBookNotEmpty :: program_error where "SharedBookNotEmpty \<equiv> TidebookError 147"
abbreviation SharedBookMustBeClosed :: program_error where "SharedBookMustBeClosed \<equiv> TidebookError 148"
abbreviation PredictionResolutionUnavailable :: program_error where "PredictionResolutionUnavailable \<equiv> TidebookError 149"
abbreviation UnauthorizedPredictionResolver :: program_error where "UnauthorizedPredictionResolver \<equiv> TidebookError 150"
abbreviation InvalidPredictionEvidence :: program_error where "InvalidPredictionEvidence \<equiv> TidebookError 151"
abbreviation PredictionProposalUnavailable :: program_error where "PredictionProposalUnavailable \<equiv> TidebookError 152"
abbreviation PredictionFallbackUnavailable :: program_error where "PredictionFallbackUnavailable \<equiv> TidebookError 153"
abbreviation PredictionNotResolved :: program_error where "PredictionNotResolved \<equiv> TidebookError 154"
abbreviation NothingToRedeem :: program_error where "NothingToRedeem \<equiv> TidebookError 155"

end
