(* ===== verification/State.thy ===== *)
theory State
  imports Errors
begin

text \<open>
  Persistent account layouts: \<open>state.rs\<close>, \<open>state/prediction.rs\<close>,
  \<open>state/prediction_book.rs\<close> and \<open>state/shared.rs\<close>. A struct is a record whose fields carry
  the source's names behind a short prefix (\<open>mkt_\<close> for \<open>Market\<close>, \<open>ord_\<close> for \<open>Order\<close>, and so
  on); an enum is a datatype with the source's variants, suffixed where two enums share one.
\<close>

section \<open>Spot trading and governance\<close>

datatype MarketStatus = MarketActive | MarketPausedStatus

datatype MarketKind = Spot | Prediction | Other

datatype OrderSide = Bid | Ask

datatype OrderStatus = Open | Filled | Canceled

datatype AdminStatus = AdminActive | AdminDisabledStatus

record Market =
  mkt_authority :: pubkey
  mkt_base_mint :: pubkey
  mkt_quote_mint :: pubkey
  mkt_status :: MarketStatus
  mkt_next_order_id :: u64
  mkt_base_decimals :: u8
  mkt_quote_decimals :: u8
  mkt_price_tick_size :: u64
  mkt_quantity_lot_size :: u64
  mkt_best_bid :: "u64 option"
  mkt_best_ask :: "u64 option"
  mkt_open_order_count :: u64
  mkt_bump :: u8

record MarketMetadata =
  md_market :: pubkey
  md_base_symbol :: bytes
  md_quote_symbol :: bytes
  md_display_name :: bytes
  md_kind :: MarketKind
  md_bump :: u8

record Order =
  ord_owner :: pubkey
  ord_market :: pubkey
  ord_order_id :: u64
  ord_side :: OrderSide
  ord_price :: u64
  ord_price_level :: pubkey
  ord_previous_order :: "pubkey option"
  ord_next_order :: "pubkey option"
  ord_quantity :: u64
  ord_remaining_quantity :: u64
  ord_locked_collateral :: u64
  ord_status :: OrderStatus
  ord_bump :: u8

record ProtocolConfig =
  cfg_super_admin :: pubkey
  cfg_taker_fee_bps :: u16
  cfg_bump :: u8

record MarketFees =
  mf_market :: pubkey
  mf_quote_mint :: pubkey
  mf_accrued_quote_fees :: u64
  mf_bump :: u8

record TestFaucet =
  tf_market :: pubkey
  tf_base_mint :: pubkey
  tf_quote_mint :: pubkey
  tf_base_claim_amount :: u64
  tf_quote_claim_amount :: u64
  tf_authority_bump :: u8
  tf_bump :: u8

record AdminRecord =
  adm_authority :: pubkey
  adm_added_by :: pubkey
  adm_status :: AdminStatus
  adm_bump :: u8

record PriceLevel =
  lvl_market :: pubkey
  lvl_side :: OrderSide
  lvl_price :: u64
  lvl_better_price :: "u64 option"
  lvl_worse_price :: "u64 option"
  lvl_first_order :: "pubkey option"
  lvl_last_order :: "pubkey option"
  lvl_total_remaining_quantity :: u64
  lvl_order_count :: u64
  lvl_rent_payer :: pubkey
  lvl_bump :: u8

record TraderBalance =
  tb_market :: pubkey
  tb_owner :: pubkey
  tb_base_free :: u64
  tb_base_locked :: u64
  tb_quote_free :: u64
  tb_quote_locked :: u64
  tb_bump :: u8

section \<open>Prediction markets\<close>

datatype PredictionOutcome = YesOutcome | NoOutcome

datatype PredictionResolution = ResolveYes | ResolveNo | ResolveInvalid

datatype PredictionStatus = Draft | OpenTrading | Frozen | Proposed | Resolved

datatype PredictionResolutionPhase = Primary | Fallback

record PredictionFallback =
  fb_resolver :: pubkey
  fb_available_ts :: i64
  fb_deadline_ts :: "i64 option"

record PredictionProposal =
  prop_outcome :: PredictionResolution
  prop_proposed_at :: i64
  prop_evidence_uri :: bytes
  prop_evidence_hash :: hash32

record PredictionMarket =
  pm_market_id :: hash32
  pm_authority :: pubkey
  pm_resolver :: pubkey
  pm_fallback :: "PredictionFallback option"
  pm_collateral_mint :: pubkey
  pm_collateral_vault :: pubkey
  pm_metadata :: pubkey
  pm_question_hash :: hash32
  pm_rules_hash :: hash32
  pm_rules_uri :: bytes
  pm_close_ts :: i64
  pm_earliest_resolution_ts :: "i64 option"
  pm_resolution_delay_seconds :: u64
  pm_resolution_phase :: PredictionResolutionPhase
  pm_status :: PredictionStatus
  pm_proposal :: "PredictionProposal option"
  pm_final_outcome :: "PredictionResolution option"
  pm_payout_per_contract :: u64
  pm_price_tick :: u64
  pm_yes_supply :: u64
  pm_no_supply :: u64
  pm_backing_reserve :: u64
  pm_open_order_count :: u64
  pm_bump :: u8

record PredictionPosition =
  pos_market :: pubkey
  pos_owner :: pubkey
  pos_collateral_free :: u64
  pos_collateral_locked :: u64
  pos_yes_free :: u64
  pos_yes_locked :: u64
  pos_no_free :: u64
  pos_no_locked :: u64
  pos_bump :: u8

record PredictionOrderBook =
  pob_market :: pubkey
  pob_next_order_id :: u64
  pob_yes_best_bid :: "u64 option"
  pob_yes_best_ask :: "u64 option"
  pob_no_best_bid :: "u64 option"
  pob_no_best_ask :: "u64 option"
  pob_bump :: u8

record PredictionPriceLevel =
  pl_market :: pubkey
  pl_outcome :: PredictionOutcome
  pl_side :: OrderSide
  pl_price :: u64
  pl_better_price :: "u64 option"
  pl_worse_price :: "u64 option"
  pl_first_order :: "pubkey option"
  pl_last_order :: "pubkey option"
  pl_total_remaining_quantity :: u64
  pl_order_count :: u64
  pl_rent_payer :: pubkey
  pl_bump :: u8

record PredictionOrder =
  po_owner :: pubkey
  po_market :: pubkey
  po_order_id :: u64
  po_outcome :: PredictionOutcome
  po_side :: OrderSide
  po_price :: u64
  po_price_level :: pubkey
  po_previous_order :: "pubkey option"
  po_next_order :: "pubkey option"
  po_quantity :: u64
  po_remaining_quantity :: u64
  po_locked_collateral :: u64
  po_status :: OrderStatus
  po_bump :: u8

text \<open>\<open>PredictionOrderBook::best_price\<close> and \<open>set_best_price\<close>: one head per outcome and side.\<close>

fun best_price :: "PredictionOrderBook \<Rightarrow> PredictionOutcome \<Rightarrow> OrderSide \<Rightarrow> u64 option" where
  "best_price b YesOutcome Bid = pob_yes_best_bid b"
| "best_price b YesOutcome Ask = pob_yes_best_ask b"
| "best_price b NoOutcome Bid = pob_no_best_bid b"
| "best_price b NoOutcome Ask = pob_no_best_ask b"

fun set_best_price ::
  "PredictionOrderBook \<Rightarrow> PredictionOutcome \<Rightarrow> OrderSide \<Rightarrow> u64 option \<Rightarrow> PredictionOrderBook" where
  "set_best_price b YesOutcome Bid p = b\<lparr>pob_yes_best_bid := p\<rparr>"
| "set_best_price b YesOutcome Ask p = b\<lparr>pob_yes_best_ask := p\<rparr>"
| "set_best_price b NoOutcome Bid p = b\<lparr>pob_no_best_bid := p\<rparr>"
| "set_best_price b NoOutcome Ask p = b\<lparr>pob_no_best_ask := p\<rparr>"

lemma best_price_set_best_price:
  "best_price (set_best_price b oc sd p) oc' sd' =
     (if oc = oc' \<and> sd = sd' then p else best_price b oc' sd')"
  by (cases oc; cases sd; cases oc'; cases sd') simp_all

lemma set_best_price_frame [simp]:
  "pob_market (set_best_price b oc sd p) = pob_market b"
  "pob_next_order_id (set_best_price b oc sd p) = pob_next_order_id b"
  "pob_bump (set_best_price b oc sd p) = pob_bump b"
  by (cases oc; cases sd; simp)+

section \<open>Shared-wallet books\<close>

datatype SharedOutcome = SpotList | YesList | NoList

record AssetBalance =
  ab_owner :: pubkey
  ab_mint :: pubkey
  ab_free :: u64
  ab_locked :: u64
  ab_bump :: u8

record SharedBook =
  sbk_market :: pubkey
  sbk_authority :: pubkey
  sbk_kind :: MarketKind
  sbk_base_mint :: pubkey
  sbk_quote_mint :: pubkey
  sbk_base_decimals :: u8
  sbk_quote_decimals :: u8
  sbk_price_tick :: u64
  sbk_quantity_lot :: u64
  sbk_payout_per_contract :: u64
  sbk_best_prices :: "u64 option list"
  sbk_next_order_id :: u64
  sbk_open_order_count :: u64
  sbk_accrued_quote_fees :: u64
  sbk_bump :: u8

record SharedOrder =
  so_owner :: pubkey
  so_market :: pubkey
  so_book :: pubkey
  so_order_id :: u64
  so_outcome :: SharedOutcome
  so_side :: OrderSide
  so_price :: u64
  so_price_level :: pubkey
  so_previous_order :: "pubkey option"
  so_next_order :: "pubkey option"
  so_quantity :: u64
  so_remaining_quantity :: u64
  so_locked_collateral :: u64
  so_status :: OrderStatus
  so_bump :: u8

record SharedPriceLevel =
  sl_book :: pubkey
  sl_market :: pubkey
  sl_outcome :: SharedOutcome
  sl_side :: OrderSide
  sl_price :: u64
  sl_better_price :: "u64 option"
  sl_worse_price :: "u64 option"
  sl_first_order :: "pubkey option"
  sl_last_order :: "pubkey option"
  sl_total_remaining_quantity :: u64
  sl_order_count :: u64
  sl_rent_payer :: pubkey
  sl_bump :: u8

text \<open>\<open>SharedBook::slot\<close>: the index of a list's head in \<open>best_prices\<close>. The array has four
  entries, which \<open>shared_book_wf\<close> records.\<close>

definition slot :: "SharedBook \<Rightarrow> SharedOutcome \<Rightarrow> OrderSide \<Rightarrow> nat res" where
  "slot b oc sd =
     (let group = (case (sbk_kind b, oc) of
          (Spot, SpotList) \<Rightarrow> Inr 0
        | (Prediction, YesList) \<Rightarrow> Inr 0
        | (Prediction, NoList) \<Rightarrow> Inr 2
        | _ \<Rightarrow> Inl SharedMarketKindMismatch)
      in try_in group (\<lambda>g. Inr (g + (if sd = Ask then 1 else 0))))"

definition shared_book_wf :: "SharedBook \<Rightarrow> bool" where
  "shared_book_wf b = (length (sbk_best_prices b) = 4)"

lemma slot_less_4: "slot b oc sd = Inr i \<Longrightarrow> i < 4"
  by (auto simp: slot_def run_simps split: MarketKind.splits SharedOutcome.splits if_splits)

lemma slot_inject:
  "slot b oc sd = Inr i \<Longrightarrow> slot b oc' sd' = Inr i \<Longrightarrow> oc = oc' \<and> sd = sd'"
  by (cases sd; cases sd')
    (auto simp: slot_def run_simps split: MarketKind.splits SharedOutcome.splits)

end
