(* ===== verification/Fees.thy ===== *)
theory Fees
  imports State
begin

text \<open>
  Protocol-fee calculation, \<open>fees.rs\<close>. The model keeps the \<open>u128\<close> intermediate and every
  checked step; the lemmas show that none of them can fail below the rate cap, and that the
  result is the exact ceiling.
\<close>

definition BASIS_POINTS_DENOMINATOR :: u128 where
  "BASIS_POINTS_DENOMINATOR = 10000"

definition MAX_TAKER_FEE_BPS :: u16 where
  "MAX_TAKER_FEE_BPS = 1000"

definition calculate_taker_fee :: "u64 \<Rightarrow> u16 \<Rightarrow> u64 res" where
  "calculate_taker_fee quote_quantity fee_bps =
     require (fee_bps \<le> MAX_TAKER_FEE_BPS) FeeRateTooHigh
     (if quote_quantity = 0 \<or> fee_bps = 0 then Inr 0
      else
        ok_or (Option.bind (checked_mul (u128_from quote_quantity) (ucast fee_bps))
                 (\<lambda>value. checked_add value (BASIS_POINTS_DENOMINATOR - 1)))
          FeeCalculationOverflow (\<lambda>numerator.
        let fee = numerator div BASIS_POINTS_DENOMINATOR in
        ok_or (u64_try_from fee) FeeCalculationOverflow Inr))"

text \<open>The ceiling the source documents, over natural numbers.\<close>

definition fee_ceiling :: "nat \<Rightarrow> nat \<Rightarrow> nat" where
  "fee_ceiling q bps = (q * bps + 9999) div 10000"

lemma unat_ucast_u16_u128 [simp]: "unat (ucast (b :: u16) :: u128) = unat b"
proof -
  have "unat b < 2 ^ 16" using unat_less_2p [of b] by simp
  then show ?thesis by (simp add: unsigned_ucast_eq take_bit_nat_eq_self_iff)
qed

lemma fee_cap_iff: "b \<le> MAX_TAKER_FEE_BPS \<longleftrightarrow> unat b \<le> 1000"
  by (simp add: MAX_TAKER_FEE_BPS_def word_le_nat_alt)

lemma fee_ceiling_le: "bps \<le> 10000 \<Longrightarrow> fee_ceiling q bps \<le> q"
proof -
  assume "bps \<le> 10000"
  then have "q * bps \<le> q * 10000" by simp
  then have "q * bps + 9999 < (q + 1) * 10000" unfolding add_mult_distrib by linarith
  then have "fee_ceiling q bps < q + 1"
    unfolding fee_ceiling_def by (rule less_mult_imp_div_less)
  then show ?thesis by simp
qed

lemma fee_ceiling_lower: "q * bps \<le> 10000 * fee_ceiling q bps"
  unfolding fee_ceiling_def by linarith

lemma fee_ceiling_upper: "10000 * fee_ceiling q bps < q * bps + 10000"
  unfolding fee_ceiling_def by linarith

lemma fee_ceiling_subadd: "fee_ceiling (a + b) bps \<le> fee_ceiling a bps + fee_ceiling b bps"
  unfolding fee_ceiling_def add_mult_distrib by linarith

lemma fee_ceiling_superadd: "fee_ceiling a bps + fee_ceiling b bps \<le> fee_ceiling (a + b) bps + 1"
  unfolding fee_ceiling_def add_mult_distrib by linarith

lemma fee_ceiling_mono: "a \<le> b \<Longrightarrow> fee_ceiling a bps \<le> fee_ceiling b bps"
  unfolding fee_ceiling_def by (intro div_le_mono add_le_mono mult_le_mono) simp_all

lemma calculate_taker_fee_numerator:
  assumes "unat b \<le> 1000"
  shows "unat (q :: u64) * unat b + 9999 < 2 ^ 128"
proof -
  have "unat q * unat b \<le> 2 ^ 64 * 1000"
    by (rule mult_le_mono) (use unat_u64_bound [of q] assms in simp_all)
  then show ?thesis by simp
qed

text \<open>Every checked step of the calculation succeeds below the cap.\<close>

lemma calculate_taker_fee_value:
  assumes cap: "unat b \<le> 1000"
  shows "\<exists>f. calculate_taker_fee q b = Inr f \<and> unat f = fee_ceiling (unat q) (unat b)"
proof (cases "q = 0 \<or> b = 0")
  case True
  then show ?thesis
    using cap by (auto simp: calculate_taker_fee_def fee_cap_iff fee_ceiling_def)
next
  case False
  have num: "unat q * unat b + 9999 < 2 ^ 128"
    by (rule calculate_taker_fee_numerator [OF cap])
  obtain n m :: u128 where n: "unat n = unat q * unat b + 9999" and m: "unat m = unat q * unat b"
    using num word_of_unat [of "unat q * unat b + 9999", where 'a = 128]
      word_of_unat [of "unat q * unat b", where 'a = 128] by auto
  have mul: "checked_mul (u128_from q) (ucast b) = Some m" by (simp add: m)
  have add: "checked_add m (BASIS_POINTS_DENOMINATOR - 1) = Some n"
    by (simp add: m n BASIS_POINTS_DENOMINATOR_def)
  have quot: "unat (n div BASIS_POINTS_DENOMINATOR) = fee_ceiling (unat q) (unat b)"
    by (simp add: unat_div n BASIS_POINTS_DENOMINATOR_def fee_ceiling_def)
  have "fee_ceiling (unat q) (unat b) \<le> unat q"
    by (rule fee_ceiling_le) (use cap in simp)
  then have small: "fee_ceiling (unat q) (unat b) < 2 ^ 64"
    using unat_u64_bound [of q] by linarith
  then obtain f :: u64 where f: "unat f = fee_ceiling (unat q) (unat b)"
    using word_of_unat [where 'a = 64] by force
  then have conv: "u64_try_from (n div BASIS_POINTS_DENOMINATOR) = Some f"
    by (simp add: quot)
  have "calculate_taker_fee q b = Inr f"
    using False cap
    by (simp add: calculate_taker_fee_def fee_cap_iff mul add conv Let_def del: checked_mul_Some
        checked_add_Some u64_try_from_Some)
  with f show ?thesis by blast
qed

lemma calculate_taker_fee_Inr [run_simps]:
  "calculate_taker_fee q b = Inr f \<longleftrightarrow> unat b \<le> 1000 \<and> unat f = fee_ceiling (unat q) (unat b)"
proof
  assume ok: "calculate_taker_fee q b = Inr f"
  then have cap: "unat b \<le> 1000"
    by (simp add: calculate_taker_fee_def require_Inr fee_cap_iff)
  with calculate_taker_fee_value [OF cap, of q] ok
  show "unat b \<le> 1000 \<and> unat f = fee_ceiling (unat q) (unat b)" by simp
next
  assume r: "unat b \<le> 1000 \<and> unat f = fee_ceiling (unat q) (unat b)"
  then obtain g where "calculate_taker_fee q b = Inr g" "unat g = unat f"
    using calculate_taker_fee_value [of b q] by auto
  then show "calculate_taker_fee q b = Inr f" by (simp add: word_unat_eq_iff)
qed

section \<open>Properties\<close>

text \<open>C7: The taker fee is exact and total below the cap. For every quote amount and every rate of
  at most 1000 basis points the checked 128-bit calculation returns the ceiling of
  \<open>quote * rate / 10000\<close>, which never exceeds the quote itself; any higher rate is refused with
  \<open>FeeRateTooHigh\<close>. No other outcome exists.\<close>

theorem taker_fee_exact:
  "calculate_taker_fee q b =
     (if unat b \<le> 1000 then Inr (of_nat (fee_ceiling (unat q) (unat b))) else Inl FeeRateTooHigh) \<and>
   (unat b \<le> 1000 \<longrightarrow> fee_ceiling (unat q) (unat b) \<le> unat q)"
proof (cases "unat b \<le> 1000")
  case True
  then obtain f where "calculate_taker_fee q b = Inr f" and f: "unat f = fee_ceiling (unat q) (unat b)"
    using calculate_taker_fee_value by blast
  moreover have "f = of_nat (fee_ceiling (unat q) (unat b))" by (simp flip: f)
  ultimately show ?thesis using True fee_ceiling_le by simp
next
  case False
  then show ?thesis by (simp add: calculate_taker_fee_def fee_cap_iff)
qed

theorem taker_fee_exact_witness:
  "calculate_taker_fee 35 100 = Inr 1 \<and> fee_ceiling 35 100 \<le> 35"
  using taker_fee_exact [of 35 100] by (simp add: fee_ceiling_def)

text \<open>Fragmenting an order never lowers its fee. The fees of two fills together are at least
  the fee of one fill of the combined quote, and at most one atom more.\<close>

theorem taker_fee_fragmentation:
  assumes "calculate_taker_fee a b = Inr fa" "calculate_taker_fee c b = Inr fc"
    and "calculate_taker_fee ac b = Inr f" "unat ac = unat a + unat c"
  shows "unat f \<le> unat fa + unat fc \<and> unat fa + unat fc \<le> unat f + 1"
  using assms fee_ceiling_subadd [of "unat a" "unat c" "unat b"] fee_ceiling_superadd [of "unat a" "unat b" "unat c"]
  by (simp add: calculate_taker_fee_Inr)

theorem taker_fee_fragmentation_witness:
  "calculate_taker_fee 35 100 = Inr 1 \<and> calculate_taker_fee 70 100 = Inr 1 \<and> unat (1 :: u64) \<le> unat (1 :: u64) + unat (1 :: u64)"
  using taker_fee_fragmentation [of 35 100 1 35 1 70 1]
  by (simp add: calculate_taker_fee_Inr fee_ceiling_def)

end
