(* ===== verification/Matching.thy ===== *)
theory Matching
  imports Fees
begin

text \<open>
  The pure calculations of the matching engine, \<open>matching.rs\<close>: price crossing, one fill at
  the maker's price, and the settlement plan with the rounding dust of a bid.
\<close>

record FillCalculation =
  base_quantity :: u64
  quote_quantity :: u64
  execution_price :: u64

record SettlementPlan =
  fill :: FillCalculation
  maker_locked_debit :: u64
  maker_quote_refund :: u64
  maker_fully_filled :: bool
  taker_fully_filled :: bool

fun prices_cross :: "OrderSide \<Rightarrow> u64 \<Rightarrow> u64 \<Rightarrow> bool" where
  "prices_cross Bid taker_limit_price maker_price = (taker_limit_price \<ge> maker_price)"
| "prices_cross Ask taker_limit_price maker_price = (taker_limit_price \<le> maker_price)"

definition calculate_fill :: "u64 \<Rightarrow> u64 \<Rightarrow> u64 \<Rightarrow> u8 \<Rightarrow> FillCalculation res" where
  "calculate_fill maker_price taker_remaining maker_remaining base_decimals =
     (let base = min taker_remaining maker_remaining in
      require (base > 0) InvalidQuantity
      (ok_or (checked_pow (10 :: u128) (unat base_decimals)) OrderNotionalOverflow (\<lambda>base_scale.
       ok_or (checked_mul (u128_from maker_price) (u128_from base)) OrderNotionalOverflow (\<lambda>product.
       ok_or (checked_div product base_scale) OrderNotionalOverflow (\<lambda>quote.
       require (quote > 0) OrderNotionalTooSmall
       (ok_or (u64_try_from quote) OrderNotionalOverflow (\<lambda>quote64.
        Inr \<lparr>base_quantity = base, quote_quantity = quote64, execution_price = maker_price\<rparr>)))))))"

definition calculate_settlement ::
  "OrderSide \<Rightarrow> u64 \<Rightarrow> u64 \<Rightarrow> OrderSide \<Rightarrow> u64 \<Rightarrow> u64 \<Rightarrow> u64 \<Rightarrow> u8 \<Rightarrow> SettlementPlan res" where
  "calculate_settlement taker_side taker_limit_price taker_remaining
      maker_side maker_price maker_remaining maker_locked_collateral base_decimals =
     require (taker_side \<noteq> maker_side) MatchingSameSide
     (require (prices_cross taker_side taker_limit_price maker_price) OrdersDoNotCross
     (try_in (calculate_fill maker_price taker_remaining maker_remaining base_decimals) (\<lambda>fl.
      let maker_full = (base_quantity fl = maker_remaining);
          taker_full = (base_quantity fl = taker_remaining) in
      try_in
        (case maker_side of
           Ask \<Rightarrow>
             require (maker_locked_collateral = maker_remaining) InvalidMakerCollateral
             (Inr (base_quantity fl, 0))
         | Bid \<Rightarrow>
             let locked_debit =
               (if maker_full then maker_locked_collateral else quote_quantity fl) in
             require (locked_debit \<ge> quote_quantity fl \<and> maker_locked_collateral \<ge> locked_debit)
               InvalidMakerCollateral
             (Inr (locked_debit, locked_debit - quote_quantity fl)))
        (\<lambda>(debit, refund).
          Inr \<lparr>fill = fl, maker_locked_debit = debit, maker_quote_refund = refund,
               maker_fully_filled = maker_full, taker_fully_filled = taker_full\<rparr>))))"

text \<open>The fixed-point notional the program charges: floor of price times base atoms over the
  base mint's scale.\<close>

definition notional :: "u64 \<Rightarrow> nat \<Rightarrow> u8 \<Rightarrow> nat" where
  "notional price base decimals = unat price * base div 10 ^ unat decimals"

lemma notional_mono: "a \<le> b \<Longrightarrow> notional p a d \<le> notional p b d"
  unfolding notional_def by (intro div_le_mono mult_le_mono) simp_all

lemma div_add_superadd: "0 < (s::nat) \<Longrightarrow> x div s + y div s \<le> (x + y) div s"
  by (metis div_add1_eq le_add1)

lemma notional_split: "notional p a d + notional p b d \<le> notional p (a + b) d"
  unfolding notional_def add_mult_distrib2 by (rule div_add_superadd) simp

lemma notional_price_mono: "unat p \<le> unat p' \<Longrightarrow> notional p b d \<le> notional p' b d"
  unfolding notional_def by (intro div_le_mono mult_le_mono) simp_all

lemma unat_mul_u64: "unat (a :: u64) * unat (b :: u64) < 2 ^ 128"
proof -
  have "unat a * unat b < 2 ^ 64 * 2 ^ 64"
    by (rule mult_strict_mono) (use unat_u64_bound [of a] unat_u64_bound [of b] in simp_all)
  then show ?thesis by simp
qed

lemma mul_u64_u128: "\<exists>c :: u128. unat c = unat (a :: u64) * unat (b :: u64)"
  using word_of_unat [where 'a = 128] unat_mul_u64 [of a b] by simp

lemma unat_pow10_u128: "unat (sc :: u128) = 10 ^ n \<Longrightarrow> sc \<noteq> 0"
  by (auto simp: word_unat_eq_iff)

lemma calculate_fill_Inr [run_simps]:
  "calculate_fill p t m d = Inr f \<longleftrightarrow>
     base_quantity f = min t m \<and> execution_price f = p \<and> 0 < min t m \<and>
     (\<exists>sc :: u128. unat sc = 10 ^ unat d) \<and>
     unat (quote_quantity f) = notional p (unat (min t m)) d \<and> 0 < quote_quantity f"
    (is "?L \<longleftrightarrow> ?R")
proof
  assume L: ?L
  define b where "b = min t m"
  from L obtain sc :: u128 and pr :: u128 and q :: u128 and q64 :: u64
    where "0 < b" and sc: "unat sc = 10 ^ unat d"
      and pr: "unat pr = unat p * unat b" and q: "unat q = unat pr div unat sc" and "0 < q"
      and q64: "unat q64 = unat q"
      and f: "f = \<lparr>base_quantity = b, quote_quantity = q64, execution_price = p\<rparr>"
    unfolding calculate_fill_def Let_def b_def [symmetric] by (auto simp: run_simps)
  have "unat q64 = notional p (unat b) d" by (simp add: q64 q pr sc notional_def)
  moreover have "0 < q64" using \<open>0 < q\<close> q64 by (simp add: word_less_nat_alt)
  ultimately show ?R
    using \<open>0 < b\<close> sc by (auto simp: f b_def [symmetric])
next
  assume r: ?R
  define b where "b = min t m"
  obtain sc :: u128 where sc: "unat sc = 10 ^ unat d" using r by blast
  obtain pr :: u128 where pr: "unat pr = unat p * unat b" using mul_u64_u128 by blast
  have nz: "sc \<noteq> 0" by (rule unat_pow10_u128 [OF sc])
  have q: "unat (pr div sc) = unat (quote_quantity f)"
    using r pr sc by (simp add: unat_div notional_def b_def)
  then have qpos: "0 < pr div sc" using r by (simp add: word_less_nat_alt)
  have steps: "checked_pow (10 :: u128) (unat d) = Some sc"
    "checked_mul (u128_from p) (u128_from b) = Some pr"
    "checked_div pr sc = Some (pr div sc)" "u64_try_from (pr div sc) = Some (quote_quantity f)"
    using sc pr nz q by (simp_all add: unat_div)
  have "0 < b" and fields: "base_quantity f = b" "execution_price f = p"
    using r by (simp_all add: b_def)
  then show ?L
    unfolding calculate_fill_def Let_def b_def [symmetric] steps by (simp add: steps qpos)
qed

lemma calculate_settlement_Inr [run_simps]:
  "calculate_settlement ts lim tr ms mp mr lc d = Inr plan \<longleftrightarrow>
     ts \<noteq> ms \<and> prices_cross ts lim mp \<and> calculate_fill mp tr mr d = Inr (fill plan) \<and>
     maker_fully_filled plan = (base_quantity (fill plan) = mr) \<and>
     taker_fully_filled plan = (base_quantity (fill plan) = tr) \<and>
     (case ms of
        Ask \<Rightarrow> lc = mr \<and> maker_locked_debit plan = base_quantity (fill plan) \<and>
               maker_quote_refund plan = 0
      | Bid \<Rightarrow> maker_locked_debit plan =
                 (if maker_fully_filled plan then lc else quote_quantity (fill plan)) \<and>
               quote_quantity (fill plan) \<le> maker_locked_debit plan \<and>
               maker_locked_debit plan \<le> lc \<and>
               maker_quote_refund plan = maker_locked_debit plan - quote_quantity (fill plan))"
  by (cases plan; cases ms)
    (auto simp: calculate_settlement_def Let_def require_Inr try_in_Inr)

text \<open>A resting order is funded when its recorded lock covers its remainder: exactly the
  remaining base atoms for an ask, at least the notional of the remainder for a bid.\<close>

definition order_funded :: "OrderSide \<Rightarrow> u64 \<Rightarrow> u64 \<Rightarrow> u64 \<Rightarrow> u8 \<Rightarrow> bool" where
  "order_funded side price remaining locked d =
     (case side of
        Ask \<Rightarrow> locked = remaining
      | Bid \<Rightarrow> notional price (unat remaining) d \<le> unat locked)"

lemma settlement_debit_le_lock:
  assumes "calculate_settlement ts lim tr ms mp mr lc d = Inr plan"
  shows "unat (maker_locked_debit plan) \<le> unat lc"
  using assms
  by (auto simp: run_simps word_le_nat_alt min_def split: OrderSide.splits)

lemma settlement_base_le:
  assumes "calculate_settlement ts lim tr ms mp mr lc d = Inr plan"
  shows "unat (base_quantity (fill plan)) \<le> unat mr" "unat (base_quantity (fill plan)) \<le> unat tr"
  using assms by (auto simp: run_simps word_le_nat_alt min_def split: OrderSide.splits)

lemma settlement_bid_dust:
  assumes "calculate_settlement Ask lim tr Bid mp mr lc d = Inr plan"
  shows "unat (maker_locked_debit plan) =
           unat (quote_quantity (fill plan)) + unat (maker_quote_refund plan)"
    and "maker_fully_filled plan \<Longrightarrow> maker_locked_debit plan = lc"
    and "\<not> maker_fully_filled plan \<Longrightarrow> maker_quote_refund plan = 0"
  using assms by (auto simp: run_simps word_le_nat_alt unat_sub split: if_splits)

lemma settlement_funded_step:
  assumes ok: "calculate_settlement ts lim tr ms mp mr lc d = Inr plan"
    and funded: "order_funded ms mp mr lc d"
    and rem: "unat mr = unat (base_quantity (fill plan)) + unat mr'"
    and coll: "unat lc = unat (maker_locked_debit plan) + unat lc'"
  shows "order_funded ms mp mr' lc' d"
proof (cases ms)
  case Ask
  with ok funded rem coll show ?thesis
    by (auto simp: order_funded_def run_simps word_unat_eq_iff)
next
  case Bid
  show ?thesis
  proof (cases "maker_fully_filled plan")
    case True
    then have "base_quantity (fill plan) = mr"
      using ok by (simp add: calculate_settlement_Inr)
    with rem have "unat mr' = 0" by simp
    then show ?thesis by (simp add: order_funded_def Bid notional_def)
  next
    case False
    have quote: "unat (maker_locked_debit plan) =
        notional mp (unat (base_quantity (fill plan))) d"
      using ok Bid False by (simp add: run_simps)
    have "notional mp (unat (base_quantity (fill plan))) d + notional mp (unat mr') d
        \<le> notional mp (unat mr) d"
      unfolding rem by (rule notional_split)
    with funded coll quote show ?thesis by (simp add: order_funded_def Bid)
  qed
qed

text \<open>When the fill itself can be computed, a funded maker settles it.\<close>

lemma settlement_funded_ok:
  assumes side: "ts \<noteq> ms" and cross: "prices_cross ts lim mp"
    and fl: "calculate_fill mp tr mr d = Inr fl"
    and funded: "order_funded ms mp mr lc d"
  shows "\<exists>plan. calculate_settlement ts lim tr ms mp mr lc d = Inr plan \<and> fill plan = fl"
proof -
  have base: "unat (base_quantity fl) \<le> unat mr" and
    quote: "unat (quote_quantity fl) = notional mp (unat (base_quantity fl)) d"
    using fl by (simp_all add: calculate_fill_Inr min_def word_le_nat_alt)
  have "notional mp (unat (base_quantity fl)) d \<le> notional mp (unat mr) d"
    by (rule notional_mono [OF base])
  then have covered: "ms = Bid \<Longrightarrow> quote_quantity fl \<le> lc"
    using funded quote by (simp add: order_funded_def word_le_nat_alt)
  show ?thesis
    using side cross fl funded covered
    by (cases ms) (auto simp: calculate_settlement_def Let_def order_funded_def)
qed

subsection \<open>A bid's life over many takers\<close>

text \<open>Successive fills of one resting bid, each planned by \<^const>\<open>calculate_settlement\<close>, with
  the order's remainder and lock updated as the match instruction updates them. The result is
  the final \<open>(remaining, locked)\<close>, the quote paid to takers and the quote refunded.\<close>

fun bid_fills :: "u8 \<Rightarrow> u64 \<Rightarrow> u64 \<times> u64 \<Rightarrow> (u64 \<times> u64) list \<Rightarrow> ((u64 \<times> u64) \<times> nat \<times> nat) res" where
  "bid_fills d price (rem, lock) [] = Inr ((rem, lock), 0, 0)"
| "bid_fills d price (rem, lock) ((limit, qty) # takers) =
     try_in (calculate_settlement Ask limit qty Bid price rem lock d) (\<lambda>plan.
     ok_or (checked_sub rem (base_quantity (fill plan))) PriceLevelQuantityUnderflow (\<lambda>rem'.
     ok_or (checked_sub lock (maker_locked_debit plan)) InvalidMakerCollateral (\<lambda>lock'.
     try_in (bid_fills d price (rem', lock') takers) (\<lambda>(end, paid, refunded).
       Inr (end, unat (quote_quantity (fill plan)) + paid,
            unat (maker_quote_refund plan) + refunded)))))"

lemma bid_fills_conserve:
  "bid_fills d p (rem, lock) ts = Inr ((rem', lock'), paid, refunded) \<Longrightarrow>
     unat lock = paid + refunded + unat lock' \<and>
     (notional p (unat rem) d \<le> unat lock \<longrightarrow> notional p (unat rem') d \<le> unat lock')"
proof (induction ts arbitrary: rem lock paid refunded)
  case Nil
  then show ?case by simp
next
  case (Cons t ts)
  obtain limit qty where t: "t = (limit, qty)" by (cases t)
  from Cons.prems obtain plan r l pd rf where
    ok: "calculate_settlement Ask limit qty Bid p rem lock d = Inr plan"
    and r: "unat rem = unat (base_quantity (fill plan)) + unat r"
    and l: "unat lock = unat (maker_locked_debit plan) + unat l"
    and rest: "bid_fills d p (r, l) ts = Inr ((rem', lock'), pd, rf)"
    and sums: "paid = unat (quote_quantity (fill plan)) + pd"
      "refunded = unat (maker_quote_refund plan) + rf"
    unfolding t by (auto simp: ok_or_Inr try_in_Inr split: prod.splits)
  have "notional p (unat rem) d \<le> unat lock \<Longrightarrow> notional p (unat r) d \<le> unat l"
    using settlement_funded_step [OF ok _ r l] by (simp add: order_funded_def)
  with Cons.IH [OF rest] settlement_bid_dust(1) [OF ok] l sums show ?case by auto
qed

lemma bid_fills_drained:
  "bid_fills d p (rem, lock) ts = Inr ((rem', lock'), paid, refunded) \<Longrightarrow> unat rem' = 0 \<Longrightarrow>
     unat rem = 0 \<or> unat lock' = 0"
proof (induction ts arbitrary: rem lock paid refunded)
  case Nil
  then show ?case by simp
next
  case (Cons t ts)
  obtain limit qty where t: "t = (limit, qty)" by (cases t)
  from Cons.prems obtain plan r l pd rf where
    ok: "calculate_settlement Ask limit qty Bid p rem lock d = Inr plan"
    and r: "unat rem = unat (base_quantity (fill plan)) + unat r"
    and l: "unat lock = unat (maker_locked_debit plan) + unat l"
    and rest: "bid_fills d p (r, l) ts = Inr ((rem', lock'), pd, rf)"
    unfolding t by (auto simp: ok_or_Inr try_in_Inr split: prod.splits)
  show ?case
  proof (cases "unat r = 0")
    case True
    with r have "maker_fully_filled plan" using ok by (auto simp: calculate_settlement_Inr word_unat_eq_iff)
    then have "unat l = 0" using settlement_bid_dust(2) [OF ok] l by simp
    with bid_fills_conserve [OF rest] show ?thesis by simp
  next
    case False
    with Cons.IH [OF rest Cons.prems(2)] show ?thesis by simp
  qed
qed

section \<open>Properties\<close>

text \<open>A settlement respects both orders. Whenever a plan is produced, the fill takes no more than
  either side has left, executes at the maker's price with the floored notional as its quote, is
  never free, and the taker's limit is honoured: a buying taker pays at most the notional at its
  limit, a selling taker receives at least it.\<close>

theorem settlement_respects_limits:
  assumes ok: "calculate_settlement ts lim tr ms mp mr lc d = Inr plan"
  shows "unat (base_quantity (fill plan)) = min (unat tr) (unat mr) \<and>
    unat (quote_quantity (fill plan)) = notional mp (unat (base_quantity (fill plan))) d \<and>
    execution_price (fill plan) = mp \<and> 0 < unat (quote_quantity (fill plan)) \<and>
    (case ts of
       Bid \<Rightarrow> unat (quote_quantity (fill plan)) \<le> notional lim (unat (base_quantity (fill plan))) d
     | Ask \<Rightarrow> notional lim (unat (base_quantity (fill plan))) d \<le> unat (quote_quantity (fill plan)))"
proof -
  have fl: "calculate_fill mp tr mr d = Inr (fill plan)" and cross: "prices_cross ts lim mp"
    using ok by (simp_all add: calculate_settlement_Inr)
  have "unat (min tr mr) = min (unat tr) (unat mr)" by (simp add: min_def word_le_nat_alt)
  then show ?thesis
    using fl cross by (cases ts) (auto simp: calculate_fill_Inr word_le_nat_alt word_less_nat_alt
        intro: notional_price_mono)
qed

theorem settlement_respects_limits_witness:
  "notional 7 5 0 \<le> notional 8 5 0"
  using settlement_respects_limits [of Bid 8 5 Ask 7 20 20 0
      "\<lparr>fill = \<lparr>base_quantity = 5, quote_quantity = 35, execution_price = 7\<rparr>, maker_locked_debit = 5,
        maker_quote_refund = 0, maker_fully_filled = False, taker_fully_filled = True\<rparr>"]
  by (auto simp: calculate_settlement_Inr calculate_fill_Inr notional_def min_def intro: exI [of _ 1])

lemma calculate_fill_errors:
  assumes "0 < min t m"
  shows "2 ^ 128 \<le> (10 :: nat) ^ unat d \<or> 2 ^ 64 \<le> notional p (unat (min t m)) d \<Longrightarrow>
      calculate_fill p t m d = Inl OrderNotionalOverflow"
    and "(10 :: nat) ^ unat d < 2 ^ 128 \<Longrightarrow> notional p (unat (min t m)) d = 0 \<Longrightarrow>
      calculate_fill p t m d = Inl OrderNotionalTooSmall"
    and "(10 :: nat) ^ unat d < 2 ^ 128 \<Longrightarrow> 0 < notional p (unat (min t m)) d \<Longrightarrow>
      notional p (unat (min t m)) d < 2 ^ 64 \<Longrightarrow>
      \<exists>f. calculate_fill p t m d = Inr f \<and> base_quantity f = min t m \<and>
        unat (quote_quantity f) = notional p (unat (min t m)) d"
proof -
  define b where "b = min t m"
  obtain pr :: u128 where pr: "unat pr = unat p * unat b" using mul_u64_u128 by blast
  then have mul: "checked_mul (u128_from p) (u128_from b) = Some pr" by simp
  have step: "calculate_fill p t m d = ok_or (u64_try_from (pr div sc)) OrderNotionalOverflow (\<lambda>q.
        Inr \<lparr>base_quantity = b, quote_quantity = q, execution_price = p\<rparr>)"
      "unat (pr div sc) = notional p (unat b) d"
    if "0 < notional p (unat b) d" "checked_pow (10 :: u128) (unat d) = Some sc" "unat sc = 10 ^ unat d" for sc
  proof -
    show eq: "unat (pr div sc) = notional p (unat b) d" using that(3) pr by (simp add: unat_div notional_def)
    have div: "checked_div pr sc = Some (pr div sc)" using unat_pow10_u128 [OF that(3)] by (simp add: unat_div)
    have "0 < pr div sc" using that(1) eq by (simp add: word_less_nat_alt)
    then show "calculate_fill p t m d = ok_or (u64_try_from (pr div sc)) OrderNotionalOverflow (\<lambda>q.
        Inr \<lparr>base_quantity = b, quote_quantity = q, execution_price = p\<rparr>)"
      using assms by (simp add: calculate_fill_def Let_def b_def [symmetric] that(2) mul div)
  qed
  have pow: "\<exists>sc. checked_pow (10 :: u128) (unat d) = Some sc \<and> unat sc = 10 ^ unat d"
    if small: "(10 :: nat) ^ unat d < 2 ^ 128"
  proof -
    obtain sc :: u128 where "unat sc = 10 ^ unat d"
      using word_of_unat [where 'a = 128, of "10 ^ unat d"] small by auto
    then show ?thesis by (intro exI [of _ sc]) simp
  qed
  show "calculate_fill p t m d = Inl OrderNotionalTooSmall"
    if small: "(10 :: nat) ^ unat d < 2 ^ 128" and zero: "notional p (unat (min t m)) d = 0"
  proof -
    obtain sc :: u128 where sc: "checked_pow (10 :: u128) (unat d) = Some sc" "unat sc = 10 ^ unat d"
      using pow small by blast
    have "unat (pr div sc) = 0" using zero sc(2) pr by (simp add: unat_div notional_def b_def)
    then have "pr div sc = 0" by (simp add: word_unat_eq_iff)
    moreover have "checked_div pr sc = Some (pr div sc)" using unat_pow10_u128 [OF sc(2)] by (simp add: unat_div)
    ultimately have "checked_div pr sc = Some 0" by (simp only:)
    with assms show ?thesis
      by (simp add: calculate_fill_def Let_def b_def [symmetric] sc(1) mul \<open>checked_div pr sc = Some 0\<close>)
  qed
  show "calculate_fill p t m d = Inl OrderNotionalOverflow"
    if "2 ^ 128 \<le> (10 :: nat) ^ unat d \<or> 2 ^ 64 \<le> notional p (unat (min t m)) d"
  proof (cases "(10 :: nat) ^ unat d < 2 ^ 128")
    case True
    then obtain sc where sc: "checked_pow (10 :: u128) (unat d) = Some sc" "unat sc = 10 ^ unat d" using pow by blast
    have big: "2 ^ 64 \<le> notional p (unat b) d" using True that by (simp add: b_def)
    then have pos: "0 < notional p (unat b) d" by simp
    have "u64_try_from (pr div sc) = None" using big by (simp add: u64_try_from_def step(2) [OF pos sc])
    then show ?thesis by (simp add: step(1) [OF pos sc])
  next
    case False
    then have "checked_pow (10 :: u128) (unat d) = None" by (simp add: checked_pow_def)
    with assms show ?thesis by (simp add: calculate_fill_def Let_def)
  qed
  show "\<exists>f. calculate_fill p t m d = Inr f \<and> base_quantity f = min t m \<and>
      unat (quote_quantity f) = notional p (unat (min t m)) d"
    if fits: "(10 :: nat) ^ unat d < 2 ^ 128" "0 < notional p (unat (min t m)) d" "notional p (unat (min t m)) d < 2 ^ 64"
  proof -
    obtain sc where sc: "checked_pow (10 :: u128) (unat d) = Some sc" "unat sc = 10 ^ unat d"
      using pow fits(1) by blast
    have pos: "0 < notional p (unat b) d" using fits(2) by (simp add: b_def)
    have small: "unat (pr div sc) < 2 ^ 64" using fits(3) by (simp only: step(2) [OF pos sc] b_def)
    have conv: "u64_try_from (pr div sc) = Some (ucast (pr div sc))"
      unfolding u64_try_from_def using small by (simp only: if_True)
    then have "unat (ucast (pr div sc) :: u64) = notional p (unat b) d"
      using step(2) [OF pos sc] by simp
    then show ?thesis by (simp add: step(1) [OF pos sc] b_def conv del: u64_try_from_Some)
  qed
qed

text \<open>C6: What a funded maker still refuses. A taker that crosses a funded maker settles exactly when the
  quote value of the fill is positive and representable; then base and quote are those of the fill, the debit
  fits the lock and the rest of the lock covers the remainder. Otherwise the settlement fails, with
  \<open>OrderNotionalTooSmall\<close> when the quote value rounds to zero and with \<open>OrderNotionalOverflow\<close> when the scale or
  the quote value is too large, which for a funded bid only an impossible scale can cause. So the collateral
  never stands in the way, but a dust remainder, worth less than one quote atom, refuses every taker.\<close>

theorem funded_maker_settles:
  assumes "ts \<noteq> ms" "prices_cross ts lim mp" "0 < tr" "0 < mr" and funded: "order_funded ms mp mr lc d"
  defines "q \<equiv> notional mp (unat (min tr mr)) d"
    and "settlement \<equiv> calculate_settlement ts lim tr ms mp mr lc d"
  shows "(if 2 ^ 128 \<le> (10 :: nat) ^ unat d \<or> 2 ^ 64 \<le> q then settlement = Inl OrderNotionalOverflow
     else if q = 0 then settlement = Inl OrderNotionalTooSmall
     else \<exists>plan. settlement = Inr plan \<and> base_quantity (fill plan) = min tr mr \<and>
       unat (quote_quantity (fill plan)) = q \<and> maker_locked_debit plan \<le> lc \<and>
       order_funded ms mp (mr - min tr mr) (lc - maker_locked_debit plan) d) \<and>
    (ms = Bid \<longrightarrow> q < 2 ^ 64) \<and> (notional mp (unat mr) d = 0 \<longrightarrow> q = 0)"
proof -
  have pos: "0 < min tr mr" using assms(3,4) by (simp add: min_def)
  have le: "q \<le> notional mp (unat mr) d"
    unfolding q_def by (rule notional_mono) (simp add: min_def word_le_nat_alt)
  then have dust: "notional mp (unat mr) d = 0 \<Longrightarrow> q = 0" by simp
  have bid: "ms = Bid \<Longrightarrow> q < 2 ^ 64"
    using le funded unat_u64_bound [of lc] by (simp add: order_funded_def)
  have failed: "settlement = Inl e" if "calculate_fill mp tr mr d = Inl e" for e
    using assms(1,2) that by (simp add: settlement_def calculate_settlement_def)
  note fills = calculate_fill_errors [OF pos, of d mp, folded q_def]
  have "if 2 ^ 128 \<le> (10 :: nat) ^ unat d \<or> 2 ^ 64 \<le> q then settlement = Inl OrderNotionalOverflow
     else if q = 0 then settlement = Inl OrderNotionalTooSmall
     else \<exists>plan. settlement = Inr plan \<and> base_quantity (fill plan) = min tr mr \<and>
       unat (quote_quantity (fill plan)) = q \<and> maker_locked_debit plan \<le> lc \<and>
       order_funded ms mp (mr - min tr mr) (lc - maker_locked_debit plan) d"
  proof (split if_split, intro conjI impI, goal_cases)
    case 1
    then show ?case by (intro failed fills(1))
  next
    case 2
    show ?case
    proof (split if_split, intro conjI impI)
      assume "q = 0"
      with 2 show "settlement = Inl OrderNotionalTooSmall" by (intro failed fills(2)) simp_all
    next
      assume "q \<noteq> 0"
      with 2 obtain fl where fl: "calculate_fill mp tr mr d = Inr fl" "base_quantity fl = min tr mr" "unat (quote_quantity fl) = q"
        using fills(3) by auto
      obtain plan where ok: "calculate_settlement ts lim tr ms mp mr lc d = Inr plan" and plan: "fill plan = fl"
        using settlement_funded_ok [OF assms(1,2) fl(1) funded] by blast
      have debit: "maker_locked_debit plan \<le> lc" and base: "base_quantity fl \<le> mr"
        using settlement_debit_le_lock [OF ok] settlement_base_le(1) [OF ok] plan by (simp_all add: word_le_nat_alt)
      have "order_funded ms mp (mr - base_quantity fl) (lc - maker_locked_debit plan) d"
        by (rule settlement_funded_step [OF ok funded])
          (use debit base in \<open>simp_all add: plan unat_sub word_le_nat_alt\<close>)
      with ok plan fl debit show "\<exists>plan. settlement = Inr plan \<and> base_quantity (fill plan) = min tr mr \<and>
          unat (quote_quantity (fill plan)) = q \<and> maker_locked_debit plan \<le> lc \<and>
          order_funded ms mp (mr - min tr mr) (lc - maker_locked_debit plan) d"
        by (auto simp: settlement_def)
    qed
  qed
  with dust bid show ?thesis by blast
qed

text \<open>A sale of 5 into an ask of 20 settles; the last atom of an order at price 1 and scale 10 does not.\<close>

theorem funded_maker_settles_witness:
  "(\<exists>plan. calculate_settlement Bid 8 5 Ask 7 20 20 0 = Inr plan \<and> base_quantity (fill plan) = 5 \<and>
      unat (quote_quantity (fill plan)) = 35 \<and> order_funded Ask 7 15 (20 - maker_locked_debit plan) 0) \<and>
   calculate_settlement Bid 1 10 Ask 1 1 1 1 = Inl OrderNotionalTooSmall"
proof -
  have m: "min (5 :: u64) 20 = 5" "min (10 :: u64) 1 = 1" by (simp_all add: min_def word_le_nat_alt)
  show ?thesis
    using funded_maker_settles [of Bid Ask 8 7 5 20 20 0] funded_maker_settles [of Bid Ask 1 1 10 1 1 1]
    by (auto simp: notional_def m order_funded_def)
qed

text \<open>C5: A bid's life conserves its lock. Over any sequence of takers, every quote atom locked by a
  bid is either paid to a taker, refunded to the maker, or still locked; the lock keeps covering
  the remainder; and when the order is completely filled nothing stays locked, so the rounding
  dust of partial fills is returned.\<close>

theorem bid_lifetime_conservation:
  assumes run: "bid_fills d p (rem, lock) takers = Inr ((rem', lock'), paid, refunded)"
  shows "unat lock = paid + refunded + unat lock' \<and>
    (notional p (unat rem) d \<le> unat lock \<longrightarrow> notional p (unat rem') d \<le> unat lock') \<and>
    (0 < unat rem \<and> unat rem' = 0 \<longrightarrow> unat lock' = 0)"
  using bid_fills_conserve [OF run] bid_fills_drained [OF run] by auto

text \<open>Three sales of one atom each into a bid of three at price 15 and scale 10: each pays one quote
  atom, and the fourth atom of the lock comes back with the last fill.\<close>

lemma example_fills:
  "calculate_settlement Ask 15 1 Bid 15 3 4 1 = Inr \<lparr>fill = \<lparr>base_quantity = 1, quote_quantity = 1,
     execution_price = 15\<rparr>, maker_locked_debit = 1, maker_quote_refund = 0,
     maker_fully_filled = False, taker_fully_filled = True\<rparr>"
  "calculate_settlement Ask 15 1 Bid 15 2 3 1 = Inr \<lparr>fill = \<lparr>base_quantity = 1, quote_quantity = 1,
     execution_price = 15\<rparr>, maker_locked_debit = 1, maker_quote_refund = 0,
     maker_fully_filled = False, taker_fully_filled = True\<rparr>"
  "calculate_settlement Ask 15 1 Bid 15 1 2 1 = Inr \<lparr>fill = \<lparr>base_quantity = 1, quote_quantity = 1,
     execution_price = 15\<rparr>, maker_locked_debit = 2, maker_quote_refund = 1,
     maker_fully_filled = True, taker_fully_filled = True\<rparr>"
  by (auto simp: calculate_settlement_Inr calculate_fill_Inr notional_def min_def intro: exI [of _ 10])

lemma example_life: "bid_fills 1 15 (3, 4) [(15, 1), (15, 1), (15, 1)] = Inr ((0, 0), 3, 1)"
  by (simp add: example_fills checked_sub_def)

theorem bid_lifetime_conservation_witness:
  "bid_fills 1 15 (3, 4) [(15, 1), (15, 1), (15, 1)] = Inr ((0, 0), 3, 1) \<and> (4 :: nat) = 3 + 1 + 0"
  using bid_lifetime_conservation [OF example_life] example_life by simp

text \<open>A remainder worth less than one quote atom can be filled by nobody.\<close>

lemma dust_refuses_takers:
  assumes "notional mp (unat mr) d = 0"
  shows "calculate_settlement ts lim tr ms mp mr lc d \<noteq> Inr plan"
proof
  assume "calculate_settlement ts lim tr ms mp mr lc d = Inr plan"
  then have fl: "calculate_fill mp tr mr d = Inr (fill plan)" by (simp add: calculate_settlement_Inr)
  have "notional mp (unat (min tr mr)) d \<le> notional mp (unat mr) d"
    by (rule notional_mono) (simp add: min_def word_le_nat_alt)
  with fl assms show False by (simp add: calculate_fill_Inr word_less_nat_alt)
qed

text \<open>From here on a plan and a fee stay folded in inversions.\<close>

declare calculate_fill_Inr [run_simps del] calculate_settlement_Inr [run_simps del]
  calculate_taker_fee_Inr [run_simps del]

end
