(* ===== verification/Linked.thy ===== *)
theory Linked
  imports Prelude
begin

text \<open>
  Doubly linked lists over a key space, the shape of both index structures of every order
  book: the price levels of one side (linked by price through \<open>better_price\<close> and
  \<open>worse_price\<close>) and the FIFO queue of one level (linked by address through
  \<open>previous_order\<close> and \<open>next_order\<close>). The functions \<open>prv\<close> and \<open>nxt\<close> are the two link fields
  read through the account store.
\<close>

definition first_of :: "'k list \<Rightarrow> 'k option" where
  "first_of ks = (case ks of [] \<Rightarrow> None | k # _ \<Rightarrow> Some k)"

definition last_of :: "'k list \<Rightarrow> 'k option" where
  "last_of ks = (if ks = [] then None else Some (last ks))"

lemma first_of_simps [simp]:
  "first_of [] = None" "first_of (k # ks) = Some k"
  by (simp_all add: first_of_def)

lemma last_of_simps [simp]:
  "last_of [] = None" "last_of (ks @ [k]) = Some k" "last_of [k] = Some k"
  by (simp_all add: last_of_def)

lemma last_of_Cons: "last_of (k # ks) = (if ks = [] then Some k else last_of ks)"
  by (simp add: last_of_def)

lemma first_of_None [simp]: "first_of ks = None \<longleftrightarrow> ks = []"
  by (cases ks) simp_all

lemma last_of_None [simp]: "last_of ks = None \<longleftrightarrow> ks = []"
  by (simp add: last_of_def)

lemma first_of_Some: "first_of ks = Some k \<longleftrightarrow> (\<exists>t. ks = k # t)"
  by (cases ks) auto

lemma last_of_Some: "last_of ks = Some k \<longleftrightarrow> (\<exists>t. ks = t @ [k])"
  by (cases ks rule: rev_cases) auto

lemma first_of_append: "first_of (xs @ ys) = (if xs = [] then first_of ys else first_of xs)"
  by (cases xs) simp_all

lemma last_of_append: "last_of (xs @ ys) = (if ys = [] then last_of xs else last_of ys)"
  by (simp add: last_of_def)

lemma first_of_in: "first_of ks = Some k \<Longrightarrow> k \<in> set ks"
  by (auto simp: first_of_Some)

lemma last_of_in: "last_of ks = Some k \<Longrightarrow> k \<in> set ks"
  by (auto simp: last_of_Some)

text \<open>The neighbours of a position: what the two link fields hold.\<close>

definition linked :: "('k \<Rightarrow> 'k option) \<Rightarrow> ('k \<Rightarrow> 'k option) \<Rightarrow> 'k list \<Rightarrow> bool" where
  "linked prv nxt ks \<longleftrightarrow>
     (\<forall>xs k ys. ks = xs @ k # ys \<longrightarrow> prv k = last_of xs \<and> nxt k = first_of ys)"

lemma linkedD:
  "linked prv nxt (xs @ k # ys) \<Longrightarrow> prv k = last_of xs \<and> nxt k = first_of ys"
  by (simp add: linked_def)

lemma linkedI:
  "(\<And>xs k ys. ks = xs @ k # ys \<Longrightarrow> prv k = last_of xs \<and> nxt k = first_of ys) \<Longrightarrow>
     linked prv nxt ks"
  by (simp add: linked_def)

lemma linked_Nil [simp]: "linked prv nxt []"
  by (simp add: linked_def)

lemma linked_single: "linked prv nxt [k] \<longleftrightarrow> prv k = None \<and> nxt k = None"
  by (auto simp: linked_def append_eq_Cons_conv Cons_eq_append_conv)

lemma linked_cong:
  assumes "linked prv nxt ks" and "\<And>k. k \<in> set ks \<Longrightarrow> prv' k = prv k \<and> nxt' k = nxt k"
  shows "linked prv' nxt' ks"
  using assms by (auto simp: linked_def)

lemma linked_prev_None:
  assumes "linked prv nxt ks" "k \<in> set ks" "prv k = None"
  shows "first_of ks = Some k"
proof -
  obtain xs ys where "ks = xs @ k # ys" using assms(2) by (auto dest: split_list)
  with assms linkedD [of prv nxt xs k ys] show ?thesis by simp
qed

lemma linked_next_None:
  assumes "linked prv nxt ks" "k \<in> set ks" "nxt k = None"
  shows "last_of ks = Some k"
proof -
  obtain xs ys where "ks = xs @ k # ys" using assms(2) by (auto dest: split_list)
  with assms linkedD [of prv nxt xs k ys] show ?thesis by simp
qed

lemma linked_prev_iff:
  "linked prv nxt ks \<Longrightarrow> distinct ks \<Longrightarrow> k \<in> set ks \<Longrightarrow> prv k = None \<longleftrightarrow> first_of ks = Some k"
  by (auto dest: linked_prev_None) (auto simp: first_of_Some dest: linkedD [of prv nxt "[]", simplified])

text \<open>A list is determined by its links and its first element.\<close>

lemma linked_next:
  "linked prv nxt (xs @ k # ys) \<Longrightarrow> nxt k = first_of ys"
  by (simp add: linkedD)

lemma linked_split_next:
  assumes "linked prv nxt ks" "k \<in> set ks" "nxt k = Some k'"
  obtains xs ys where "ks = xs @ k # k' # ys"
proof -
  obtain xs ys where "ks = xs @ k # ys" using assms(2) by (auto dest: split_list)
  moreover from this have "first_of ys = Some k'" using assms(1,3) by (auto dest: linkedD)
  then obtain zs where "ys = k' # zs" by (auto simp: first_of_Some)
  ultimately show thesis using that by blast
qed

section \<open>The three edits\<close>

text \<open>\<open>set_opt\<close> writes a link field of an optional neighbour.\<close>

definition set_opt :: "'k option \<Rightarrow> 'v \<Rightarrow> ('k \<Rightarrow> 'v) \<Rightarrow> 'k \<Rightarrow> 'v" where
  "set_opt ko v f = (case ko of None \<Rightarrow> f | Some k \<Rightarrow> f(k := v))"

lemma set_opt_simps [simp]:
  "set_opt None v f = f" "set_opt (Some k) v f = f(k := v)"
  by (simp_all add: set_opt_def)

lemma set_opt_apply: "set_opt ko v f k = (if ko = Some k then v else f k)"
  by (cases ko) auto

lemma split_cases:
  assumes "xs @ ys = us @ j # vs"
  obtains (left) zs where "xs = us @ j # zs" "vs = zs @ ys"
    | (right) zs where "us = xs @ zs" "ys = zs @ j # vs"
  using assms by (force simp: append_eq_append_conv2 append_eq_Cons_conv)

lemma split_cases_mid:
  assumes "xs @ k # ys = us @ j # vs"
  obtains (mid) "us = xs" "j = k" "vs = ys"
    | (left) zs where "xs = us @ j # zs" "vs = zs @ k # ys"
    | (right) zs where "us = xs @ k # zs" "ys = zs @ j # vs"
  using assms
  by (cases rule: split_cases) (auto simp: Cons_eq_append_conv)

text \<open>Splicing a fresh key between two halves.\<close>

lemma linked_insert:
  assumes lk: "linked prv nxt (xs @ ys)" and d: "distinct (xs @ k # ys)"
  shows "linked (set_opt (first_of ys) (Some k) (prv(k := last_of xs)))
                (set_opt (last_of xs) (Some k) (nxt(k := first_of ys))) (xs @ k # ys)"
proof (rule linkedI)
  fix us j vs
  assume eq: "xs @ k # ys = us @ j # vs"
  let ?p = "set_opt (first_of ys) (Some k) (prv(k := last_of xs))"
  let ?n = "set_opt (last_of xs) (Some k) (nxt(k := first_of ys))"
  from eq show "?p j = last_of us \<and> ?n j = first_of vs"
  proof (cases rule: split_cases_mid)
    case mid
    with d show ?thesis
      by (auto simp: set_opt_apply dest: first_of_in last_of_in)
  next
    case (left zs)
    then have old: "prv j = last_of us \<and> nxt j = first_of (zs @ ys)"
      using lk by (intro linkedD) simp
    with left d show ?thesis
      by (auto simp: set_opt_apply last_of_append last_of_Cons first_of_append
          dest: first_of_in last_of_in split: if_splits)
  next
    case (right zs)
    then have old: "prv j = last_of (xs @ zs) \<and> nxt j = first_of vs"
      using lk by (intro linkedD) simp
    with right d show ?thesis
      by (auto simp: set_opt_apply last_of_append last_of_Cons first_of_append
          dest: first_of_in last_of_in split: if_splits)
  qed
qed

text \<open>Appending at the tail is the special case with nothing behind.\<close>

lemma linked_append:
  assumes "linked prv nxt xs" and "distinct (xs @ [k])"
  shows "linked (prv(k := last_of xs)) (set_opt (last_of xs) (Some k) (nxt(k := None))) (xs @ [k])"
  using linked_insert [of prv nxt xs "[]" k] assms by simp

text \<open>Unlinking a key: its two neighbours are joined, its own fields no longer matter.\<close>

lemma linked_remove:
  assumes lk: "linked prv nxt (xs @ k # ys)" and d: "distinct (xs @ k # ys)"
  shows "linked (set_opt (first_of ys) (last_of xs) prv)
                (set_opt (last_of xs) (first_of ys) nxt) (xs @ ys)"
proof (rule linkedI)
  fix us j vs
  assume eq: "xs @ ys = us @ j # vs"
  let ?p = "set_opt (first_of ys) (last_of xs) prv"
  let ?n = "set_opt (last_of xs) (first_of ys) nxt"
  from eq show "?p j = last_of us \<and> ?n j = first_of vs"
  proof (cases rule: split_cases)
    case (left zs)
    then have old: "prv j = last_of us \<and> nxt j = first_of (zs @ k # ys)"
      using lk by (intro linkedD) simp
    with left d show ?thesis
      by (auto simp: set_opt_apply last_of_append last_of_Cons first_of_append
          dest: first_of_in last_of_in split: if_splits)
  next
    case (right zs)
    then have old: "prv j = last_of (xs @ k # zs) \<and> nxt j = first_of vs"
      using lk by (intro linkedD) simp
    with right d show ?thesis
      by (auto simp: set_opt_apply last_of_append last_of_Cons first_of_append
          dest: first_of_in last_of_in split: if_splits)
  qed
qed

end
