(* ===== verification/Book_Index.thy ===== *)
theory Book_Index
  imports Linked
begin

text \<open>
  The order-book index all three books of the program share: per list (a side, or an outcome
  and a side) a doubly linked chain of price levels from best to worst, per level a doubly
  linked FIFO of open orders, the head pointer, the per-level totals and counters, the
  monotonic id counter and the open-order counter.

  \<open>gbook\<close> is the index as the accounts hold it; \<open>bspec\<close> is what it stands for, the sorted
  price lists and the FIFO lists themselves. \<open>book_rep\<close> relates the two. The four edits
  (\<open>g_insert\<close>, \<open>g_append\<close>, \<open>g_take\<close>, \<open>g_remove\<close>) are the writes the instructions perform; each is
  shown to implement its list operation. The books of the program refine this index through
  the locale at the end of the theory.
\<close>

record 'l gorder =
  go_list :: 'l
  go_price :: u64
  go_id :: u64
  go_prev :: "pubkey option"
  go_next :: "pubkey option"
  go_remaining :: u64
  go_open :: bool

record glevel =
  gl_better :: "u64 option"
  gl_worse :: "u64 option"
  gl_first :: "pubkey option"
  gl_last :: "pubkey option"
  gl_total :: u64
  gl_count :: u64

record 'l gbook =
  gb_orders :: "pubkey \<Rightarrow> 'l gorder option"
  gb_levels :: "'l \<times> u64 \<Rightarrow> glevel option"
  gb_best :: "'l \<Rightarrow> u64 option"
  gb_next_id :: u64
  gb_open :: u64

record 'l bspec =
  sp_prices :: "'l \<Rightarrow> u64 list"
  sp_queue :: "'l \<times> u64 \<Rightarrow> pubkey list"

text \<open>Matching priority: higher bids first, lower asks first.\<close>

definition precedes :: "bool \<Rightarrow> u64 \<Rightarrow> u64 \<Rightarrow> bool" where
  "precedes is_bid a b = (if is_bid then a > b else a < b)"

lemma precedes_trans: "precedes s a b \<Longrightarrow> precedes s b c \<Longrightarrow> precedes s a c"
  by (auto simp: precedes_def split: if_splits)

lemma precedes_irrefl [simp]: "\<not> precedes s a a"
  by (simp add: precedes_def)

lemma precedes_asym: "precedes s a b \<Longrightarrow> \<not> precedes s b a"
  by (auto simp: precedes_def split: if_splits)

lemma precedes_total: "a \<noteq> b \<Longrightarrow> precedes s a b \<or> precedes s b a"
  by (auto simp: precedes_def)

lemma sorted_precedes_distinct: "sorted_wrt (precedes s) ps \<Longrightarrow> distinct ps"
  by (induction ps) auto

section \<open>Reading the store\<close>

definition order_prev :: "'l gbook \<Rightarrow> pubkey \<Rightarrow> pubkey option" where
  "order_prev g k = Option.bind (gb_orders g k) go_prev"

definition order_next :: "'l gbook \<Rightarrow> pubkey \<Rightarrow> pubkey option" where
  "order_next g k = Option.bind (gb_orders g k) go_next"

definition level_better :: "'l gbook \<Rightarrow> 'l \<Rightarrow> u64 \<Rightarrow> u64 option" where
  "level_better g l p = Option.bind (gb_levels g (l, p)) gl_better"

definition level_worse :: "'l gbook \<Rightarrow> 'l \<Rightarrow> u64 \<Rightarrow> u64 option" where
  "level_worse g l p = Option.bind (gb_levels g (l, p)) gl_worse"

definition remaining_of :: "'l gbook \<Rightarrow> pubkey \<Rightarrow> nat" where
  "remaining_of g k = (case gb_orders g k of None \<Rightarrow> 0 | Some r \<Rightarrow> unat (go_remaining r))"

definition id_of :: "'l gbook \<Rightarrow> pubkey \<Rightarrow> nat" where
  "id_of g k = (case gb_orders g k of None \<Rightarrow> 0 | Some r \<Rightarrow> unat (go_id r))"

definition open_keys :: "'l gbook \<Rightarrow> pubkey set" where
  "open_keys g = {k. \<exists>r. gb_orders g k = Some r \<and> go_open r}"

lemmas store_reads = order_prev_def order_next_def level_better_def level_worse_def
  remaining_of_def id_of_def

section \<open>Representation\<close>

definition prices_ok :: "('l \<Rightarrow> bool) \<Rightarrow> 'l gbook \<Rightarrow> 'l \<Rightarrow> u64 list \<Rightarrow> bool" where
  "prices_ok bid g l ps \<longleftrightarrow>
     sorted_wrt (precedes (bid l)) ps \<and>
     gb_best g l = first_of ps \<and>
     linked (level_better g l) (level_worse g l) ps \<and>
     (\<forall>p. gb_levels g (l, p) \<noteq> None \<longleftrightarrow> p \<in> set ps)"

definition queue_ok :: "'l gbook \<Rightarrow> 'l \<Rightarrow> u64 \<Rightarrow> pubkey list \<Rightarrow> bool" where
  "queue_ok g l p q \<longleftrightarrow>
     q \<noteq> [] \<and> distinct q \<and>
     linked (order_prev g) (order_next g) q \<and>
     (\<forall>k\<in>set q. \<exists>r. gb_orders g k = Some r \<and> go_open r \<and> go_list r = l \<and> go_price r = p \<and>
        0 < go_remaining r) \<and>
     sorted_wrt (\<lambda>a b. id_of g a < id_of g b) q"

definition level_ok :: "'l gbook \<Rightarrow> glevel \<Rightarrow> pubkey list \<Rightarrow> bool" where
  "level_ok g lv q \<longleftrightarrow>
     gl_first lv = first_of q \<and> gl_last lv = last_of q \<and>
     unat (gl_total lv) = sum_list (map (remaining_of g) q) \<and>
     unat (gl_count lv) = length q"

definition orders_ok :: "'l gbook \<Rightarrow> 'l bspec \<Rightarrow> bool" where
  "orders_ok g sp \<longleftrightarrow>
     (\<forall>k r. gb_orders g k = Some r \<longrightarrow>
        go_id r < gb_next_id g \<and>
        (go_open r \<longrightarrow> go_price r \<in> set (sp_prices sp (go_list r)) \<and>
                       k \<in> set (sp_queue sp (go_list r, go_price r))))"

definition count_ok :: "'l gbook \<Rightarrow> bool" where
  "count_ok g \<longleftrightarrow> finite (open_keys g) \<and> unat (gb_open g) = card (open_keys g)"

definition book_rep :: "('l \<Rightarrow> bool) \<Rightarrow> 'l gbook \<Rightarrow> 'l bspec \<Rightarrow> bool" where
  "book_rep bid g sp \<longleftrightarrow>
     (\<forall>l. prices_ok bid g l (sp_prices sp l)) \<and>
     (\<forall>l p lv. gb_levels g (l, p) = Some lv \<longrightarrow>
        level_ok g lv (sp_queue sp (l, p)) \<and> queue_ok g l p (sp_queue sp (l, p))) \<and>
     orders_ok g sp \<and> count_ok g"

definition book_inv :: "('l \<Rightarrow> bool) \<Rightarrow> 'l gbook \<Rightarrow> bool" where
  "book_inv bid g \<longleftrightarrow> (\<exists>sp. book_rep bid g sp)"

text \<open>Price-time priority: the order in which a list's liquidity is consumed.\<close>

definition priority_list :: "'l bspec \<Rightarrow> 'l \<Rightarrow> pubkey list" where
  "priority_list sp l = concat (map (\<lambda>p. sp_queue sp (l, p)) (sp_prices sp l))"

section \<open>Store writes\<close>

definition mod_at :: "('k \<Rightarrow> 'v option) \<Rightarrow> 'k \<Rightarrow> ('v \<Rightarrow> 'v) \<Rightarrow> 'k \<Rightarrow> 'v option" where
  "mod_at m k f = (case m k of None \<Rightarrow> m | Some v \<Rightarrow> m(k \<mapsto> f v))"

definition mod_opt :: "('k \<Rightarrow> 'v option) \<Rightarrow> 'k option \<Rightarrow> ('v \<Rightarrow> 'v) \<Rightarrow> 'k \<Rightarrow> 'v option" where
  "mod_opt m ko f = (case ko of None \<Rightarrow> m | Some k \<Rightarrow> mod_at m k f)"

lemma mod_at_apply: "mod_at m k f j = (if j = k then map_option f (m k) else m j)"
  by (auto simp: mod_at_def split: option.splits)

lemma mod_opt_apply: "mod_opt m ko f j = (if ko = Some j then map_option f (m j) else m j)"
  by (auto simp: mod_opt_def mod_at_apply split: option.splits)

lemma mod_opt_simps [simp]: "mod_opt m None f = m" "mod_opt m (Some k) f = mod_at m k f"
  by (simp_all add: mod_opt_def)

definition new_gorder :: "'l \<Rightarrow> u64 \<Rightarrow> u64 \<Rightarrow> pubkey option \<Rightarrow> u64 \<Rightarrow> 'l gorder" where
  "new_gorder l p i prev q =
     \<lparr>go_list = l, go_price = p, go_id = i, go_prev = prev, go_next = None,
      go_remaining = q, go_open = True\<rparr>"

text \<open>A new price with its first order, between the supplied neighbours.\<close>

definition g_insert ::
  "'l \<Rightarrow> u64 \<Rightarrow> pubkey \<Rightarrow> u64 \<Rightarrow> u64 option \<Rightarrow> u64 option \<Rightarrow> 'l gbook \<Rightarrow> 'l gbook" where
  "g_insert l p k q bp wp g =
     g\<lparr>gb_orders := (gb_orders g)(k \<mapsto> new_gorder l p (gb_next_id g) None q),
       gb_levels := (mod_opt (mod_opt (gb_levels g)
             (map_option (Pair l) bp) (\<lambda>v. v\<lparr>gl_worse := Some p\<rparr>))
             (map_option (Pair l) wp) (\<lambda>v. v\<lparr>gl_better := Some p\<rparr>))
           ((l, p) \<mapsto> \<lparr>gl_better = bp, gl_worse = wp, gl_first = Some k, gl_last = Some k,
                        gl_total = q, gl_count = 1\<rparr>),
       gb_best := (if bp = None then (gb_best g)(l := Some p) else gb_best g),
       gb_next_id := gb_next_id g + 1,
       gb_open := gb_open g + 1\<rparr>"

text \<open>A new order behind the tail of an existing level.\<close>

definition g_append :: "'l \<Rightarrow> u64 \<Rightarrow> pubkey \<Rightarrow> u64 \<Rightarrow> pubkey \<Rightarrow> 'l gbook \<Rightarrow> 'l gbook" where
  "g_append l p k q t g =
     g\<lparr>gb_orders := (mod_at (gb_orders g) t (\<lambda>r. r\<lparr>go_next := Some k\<rparr>))
           (k \<mapsto> new_gorder l p (gb_next_id g) (Some t) q),
       gb_levels := mod_at (gb_levels g) (l, p)
           (\<lambda>v. v\<lparr>gl_last := Some k, gl_total := gl_total v + q, gl_count := gl_count v + 1\<rparr>),
       gb_next_id := gb_next_id g + 1,
       gb_open := gb_open g + 1\<rparr>"

text \<open>A partial fill: quantities only.\<close>

definition g_take :: "'l \<Rightarrow> u64 \<Rightarrow> pubkey \<Rightarrow> u64 \<Rightarrow> 'l gbook \<Rightarrow> 'l gbook" where
  "g_take l p k amount g =
     g\<lparr>gb_orders := mod_at (gb_orders g) k (\<lambda>r. r\<lparr>go_remaining := go_remaining r - amount\<rparr>),
       gb_levels := mod_at (gb_levels g) (l, p) (\<lambda>v. v\<lparr>gl_total := gl_total v - amount\<rparr>)\<rparr>"

text \<open>Cancellation or a full fill: the order leaves its queue, an emptied level leaves the
  price list. \<open>left\<close> is the quantity the closed record keeps.\<close>

definition g_remove :: "'l \<Rightarrow> u64 \<Rightarrow> pubkey \<Rightarrow> u64 \<Rightarrow> 'l gorder \<Rightarrow> glevel \<Rightarrow> 'l gbook \<Rightarrow> 'l gbook" where
  "g_remove l p k left r lv g =
     g\<lparr>gb_orders := (mod_opt (mod_opt (gb_orders g)
             (go_prev r) (\<lambda>x. x\<lparr>go_next := go_next r\<rparr>))
             (go_next r) (\<lambda>x. x\<lparr>go_prev := go_prev r\<rparr>))
           (k \<mapsto> r\<lparr>go_prev := None, go_next := None, go_remaining := left, go_open := False\<rparr>),
       gb_levels :=
         (if gl_count lv = 1
          then (mod_opt (mod_opt (gb_levels g)
                   (map_option (Pair l) (gl_better lv)) (\<lambda>v. v\<lparr>gl_worse := gl_worse lv\<rparr>))
                   (map_option (Pair l) (gl_worse lv)) (\<lambda>v. v\<lparr>gl_better := gl_better lv\<rparr>))
               ((l, p) := None)
          else (gb_levels g)((l, p) \<mapsto> lv\<lparr>
                   gl_first := (if go_prev r = None then go_next r else gl_first lv),
                   gl_last := (if go_next r = None then go_prev r else gl_last lv),
                   gl_total := gl_total lv - go_remaining r,
                   gl_count := gl_count lv - 1\<rparr>)),
       gb_best := (if gl_count lv = 1 \<and> gl_better lv = None
                   then (gb_best g)(l := gl_worse lv) else gb_best g),
       gb_open := gb_open g - 1\<rparr>"

section \<open>Frame lemmas of the representation\<close>

lemma book_repD:
  assumes "book_rep bid g sp"
  shows "prices_ok bid g l (sp_prices sp l)"
    and "gb_levels g (l, p) = Some lv \<Longrightarrow> level_ok g lv (sp_queue sp (l, p))"
    and "gb_levels g (l, p) = Some lv \<Longrightarrow> queue_ok g l p (sp_queue sp (l, p))"
    and "orders_ok g sp" and "count_ok g"
  using assms by (auto simp: book_rep_def)

lemma prices_ok_distinct: "prices_ok bid g l ps \<Longrightarrow> distinct ps"
  by (auto simp: prices_ok_def dest: sorted_precedes_distinct)

lemma prices_ok_cong:
  assumes "prices_ok bid g l ps"
    and "gb_best g' l = gb_best g l" and "\<And>p. gb_levels g' (l, p) = None \<longleftrightarrow> gb_levels g (l, p) = None"
    and "\<And>p. p \<in> set ps \<Longrightarrow> level_better g' l p = level_better g l p \<and> level_worse g' l p = level_worse g l p"
  shows "prices_ok bid g' l ps"
  using assms unfolding prices_ok_def by (auto intro: linked_cong)

lemma queue_ok_cong:
  assumes "queue_ok g l p q" and "\<And>k. k \<in> set q \<Longrightarrow> gb_orders g' k = gb_orders g k"
  shows "queue_ok g' l p q"
proof -
  have "linked (order_prev g') (order_next g') q"
    by (rule linked_cong [of "order_prev g" "order_next g"])
      (use assms in \<open>auto simp: queue_ok_def store_reads\<close>)
  moreover have "sorted_wrt (\<lambda>a b. id_of g' a < id_of g' b) q"
    by (rule sorted_wrt_mono_rel [of _ "\<lambda>a b. id_of g a < id_of g b"])
      (use assms in \<open>auto simp: queue_ok_def store_reads\<close>)
  ultimately show ?thesis using assms by (auto simp: queue_ok_def)
qed

lemma level_ok_cong:
  assumes "level_ok g lv q" and "\<And>k. k \<in> set q \<Longrightarrow> gb_orders g' k = gb_orders g k"
    and "gl_first lv' = gl_first lv" "gl_last lv' = gl_last lv" "gl_total lv' = gl_total lv"
      "gl_count lv' = gl_count lv"
  shows "level_ok g' lv' q"
proof -
  have "sum_list (map (remaining_of g') q) = sum_list (map (remaining_of g) q)"
    by (rule arg_cong [of _ _ sum_list]) (use assms(2) in \<open>auto simp: store_reads\<close>)
  then show ?thesis using assms by (simp add: level_ok_def)
qed

text \<open>Queues of different levels share no order, and a key outside the store is in none.\<close>

lemma queue_member:
  assumes "book_rep bid g sp" "gb_levels g (l, p) \<noteq> None" "k \<in> set (sp_queue sp (l, p))"
  obtains r where "gb_orders g k = Some r" "go_open r" "go_list r = l" "go_price r = p"
    "0 < go_remaining r" "go_id r < gb_next_id g"
proof -
  obtain lv where "gb_levels g (l, p) = Some lv" using assms(2) by auto
  then have "queue_ok g l p (sp_queue sp (l, p))"
    using assms(1) by (simp add: book_rep_def)
  with assms(3) obtain r where "gb_orders g k = Some r" "go_open r" "go_list r = l" "go_price r = p"
    "0 < go_remaining r"
    unfolding queue_ok_def by blast
  moreover from this have "go_id r < gb_next_id g"
    using assms(1) by (auto simp: book_rep_def orders_ok_def)
  ultimately show thesis using that by blast
qed

lemma queue_in_store:
  "book_rep bid g sp \<Longrightarrow> gb_levels g (l, p) \<noteq> None \<Longrightarrow> k \<in> set (sp_queue sp (l, p)) \<Longrightarrow>
     gb_orders g k \<noteq> None"
  by (erule (2) queue_member) simp

lemma queue_disjoint:
  assumes "book_rep bid g sp" "gb_levels g (l, p) \<noteq> None" "gb_levels g (l', p') \<noteq> None"
    "k \<in> set (sp_queue sp (l, p))" "k \<in> set (sp_queue sp (l', p'))"
  shows "l' = l \<and> p' = p"
  using queue_member [OF assms(1,2,4)] queue_member [OF assms(1,3,5)] by (metis option.inject)

lemma price_iff_level: "book_rep bid g sp \<Longrightarrow> p \<in> set (sp_prices sp l) \<longleftrightarrow> gb_levels g (l, p) \<noteq> None"
  by (auto simp: book_rep_def prices_ok_def)

lemma open_order_in_queue:
  assumes "book_rep bid g sp" "gb_orders g k = Some r" "go_open r"
  shows "gb_levels g (go_list r, go_price r) \<noteq> None" "k \<in> set (sp_queue sp (go_list r, go_price r))"
  using assms price_iff_level [OF assms(1), of "go_price r" "go_list r"]
  by (auto simp: book_rep_def orders_ok_def)

lemma id_lt_next:
  "book_rep bid g sp \<Longrightarrow> gb_orders g k = Some r \<Longrightarrow> unat (go_id r) < unat (gb_next_id g)"
  by (auto simp: book_rep_def orders_ok_def word_less_nat_alt)

lemma unat_succ: "unat (a :: u64) + 1 < 2 ^ 64 \<Longrightarrow> unat (a + 1) = unat a + 1"
  by (simp add: unat_word_ariths)

lemma open_keys_add:
  assumes "count_ok g" "gb_orders g k = None" "unat (gb_open g) + 1 < 2 ^ 64"
    and "open_keys g' = insert k (open_keys g)" "gb_open g' = gb_open g + 1"
  shows "count_ok g'"
proof -
  have "k \<notin> open_keys g" using assms(2) by (simp add: open_keys_def)
  with assms show ?thesis by (simp add: count_ok_def unat_succ)
qed

section \<open>Insertion\<close>

definition insert_spec :: "'l \<Rightarrow> u64 \<Rightarrow> pubkey \<Rightarrow> u64 list \<Rightarrow> u64 list \<Rightarrow> 'l bspec \<Rightarrow> 'l bspec" where
  "insert_spec l p k xs ys sp =
     sp\<lparr>sp_prices := (sp_prices sp)(l := xs @ p # ys), sp_queue := (sp_queue sp)((l, p) := [k])\<rparr>"

lemma g_insert_orders: "gb_orders (g_insert l p k q bp wp g) j =
    (if j = k then Some (new_gorder l p (gb_next_id g) None q) else gb_orders g j)"
  by (simp add: g_insert_def)

lemma g_insert_levels: "gb_levels (g_insert l p k q bp wp g) (l', p') =
    (if l' = l \<and> p' = p then Some \<lparr>gl_better = bp, gl_worse = wp, gl_first = Some k,
        gl_last = Some k, gl_total = q, gl_count = 1\<rparr>
     else map_option (\<lambda>v. v\<lparr>
        gl_better := (if l' = l \<and> wp = Some p' then Some p else gl_better v),
        gl_worse := (if l' = l \<and> bp = Some p' then Some p else gl_worse v)\<rparr>)
        (gb_levels g (l', p')))"
  by (cases bp; cases wp; cases "gb_levels g (l', p')") (auto simp: g_insert_def mod_at_apply)

definition insert_ok ::
  "('l \<Rightarrow> bool) \<Rightarrow> 'l gbook \<Rightarrow> 'l bspec \<Rightarrow> 'l \<Rightarrow> u64 \<Rightarrow> pubkey \<Rightarrow> u64 \<Rightarrow> u64 list \<Rightarrow> u64 list \<Rightarrow> bool" where
  "insert_ok bid g sp l p k q xs ys \<longleftrightarrow>
     book_rep bid g sp \<and> sp_prices sp l = xs @ ys \<and>
     sorted_wrt (precedes (bid l)) (xs @ p # ys) \<and> gb_orders g k = None \<and> 0 < q \<and>
     unat (gb_next_id g) + 1 < 2 ^ 64 \<and> unat (gb_open g) + 1 < 2 ^ 64"

lemma insert_okD:
  assumes "insert_ok bid g sp l p k q xs ys"
  shows "book_rep bid g sp" and "sp_prices sp l = xs @ ys"
    and "sorted_wrt (precedes (bid l)) (xs @ p # ys)" and "gb_orders g k = None" and "0 < q"
    and "unat (gb_next_id g) + 1 < 2 ^ 64" and "unat (gb_open g) + 1 < 2 ^ 64"
  using assms by (simp_all add: insert_ok_def)

lemma insert_new_price:
  assumes "insert_ok bid g sp l p k q xs ys"
  shows "gb_levels g (l, p) = None"
  using price_iff_level [OF insert_okD(1) [OF assms], of p l]
    sorted_precedes_distinct [OF insert_okD(3) [OF assms]] insert_okD(2) [OF assms]
  by auto

lemma insert_prices:
  assumes ok: "insert_ok bid g sp l p k q xs ys"
  shows "prices_ok bid (g_insert l p k q (last_of xs) (first_of ys) g) l (xs @ p # ys)"
    (is "prices_ok _ ?g _ _")
proof -
  have d: "distinct (xs @ p # ys)" by (rule sorted_precedes_distinct [OF insert_okD(3) [OF ok]])
  have old: "prices_ok bid g l (xs @ ys)"
    using book_repD(1) [OF insert_okD(1) [OF ok], of l] insert_okD(2) [OF ok] by simp
  then have lk: "linked (level_better g l) (level_worse g l) (xs @ ys)" by (simp add: prices_ok_def)
  have ex: "\<exists>v. gb_levels g (l, z) = Some v" if "z \<in> set xs \<union> set ys" for z
    using old that by (auto simp: prices_ok_def)
  have links: "level_better ?g l z =
        set_opt (first_of ys) (Some p) ((level_better g l)(p := last_of xs)) z \<and>
      level_worse ?g l z =
        set_opt (last_of xs) (Some p) ((level_worse g l)(p := first_of ys)) z"
    if z: "z \<in> set (xs @ p # ys)" for z
  proof (cases "z = p")
    case True
    then show ?thesis
      using d by (auto simp: level_better_def level_worse_def g_insert_levels set_opt_apply
          dest: first_of_in last_of_in)
  next
    case False
    with z ex obtain v where "gb_levels g (l, z) = Some v" by auto
    with False show ?thesis
      by (simp add: level_better_def level_worse_def g_insert_levels set_opt_apply)
  qed
  have "linked (level_better ?g l) (level_worse ?g l) (xs @ p # ys)"
    by (rule linked_cong [OF linked_insert [OF lk d] links])
  moreover have "gb_best ?g l = first_of (xs @ p # ys)"
    using old by (auto simp: g_insert_def first_of_append prices_ok_def)
  moreover have "\<forall>z. gb_levels ?g (l, z) \<noteq> None \<longleftrightarrow> z \<in> set (xs @ p # ys)"
    using old by (auto simp: g_insert_levels prices_ok_def)
  ultimately show ?thesis using insert_okD(3) [OF ok] by (simp add: prices_ok_def)
qed

lemma insert_prices_other:
  assumes "prices_ok bid g l' ps" and "l' \<noteq> l"
  shows "prices_ok bid (g_insert l p k q bp wp g) l' ps"
  by (rule prices_ok_cong [OF assms(1)])
    (use assms(2) in \<open>simp_all add: level_better_def level_worse_def g_insert_levels
       Option.bind_map_option o_def, simp_all add: g_insert_def\<close>)

lemma rep_insert:
  assumes ok: "insert_ok bid g sp l p k q xs ys"
  shows "book_rep bid (g_insert l p k q (last_of xs) (first_of ys) g) (insert_spec l p k xs ys sp)"
    (is "book_rep _ ?g ?sp")
proof -
  note rep = insert_okD(1) [OF ok] and fresh = insert_okD(4) [OF ok] and room = insert_okD(6,7) [OF ok]
  have prices': "prices_ok bid ?g l' (sp_prices ?sp l')" for l'
    using insert_prices [OF ok] insert_prices_other [OF book_repD(1) [OF rep], of l']
    by (simp add: insert_spec_def)
  have levels: "level_ok ?g lv (sp_queue ?sp (l', p')) \<and> queue_ok ?g l' p' (sp_queue ?sp (l', p'))"
    if lv: "gb_levels ?g (l', p') = Some lv" for l' p' lv
  proof (cases "l' = l \<and> p' = p")
    case True
    with lv insert_okD(5) [OF ok] show ?thesis
      by (auto simp: insert_spec_def g_insert_levels level_ok_def queue_ok_def linked_single
          store_reads g_insert_orders new_gorder_def word_less_nat_alt)
  next
    case False
    with lv obtain v where v: "gb_levels g (l', p') = Some v"
      and same: "gl_first lv = gl_first v" "gl_last lv = gl_last v" "gl_total lv = gl_total v"
        "gl_count lv = gl_count v"
      by (auto simp: g_insert_levels split: if_splits)
    have frame: "gb_orders ?g j = gb_orders g j" if "j \<in> set (sp_queue sp (l', p'))" for j
    proof -
      have "gb_orders g j \<noteq> None" using v by (intro queue_in_store [OF rep _ that]) simp
      with fresh show ?thesis by (auto simp: g_insert_orders)
    qed
    have "sp_queue ?sp (l', p') = sp_queue sp (l', p')" using False by (auto simp: insert_spec_def)
    then show ?thesis
      using level_ok_cong [OF book_repD(2) [OF rep v] frame same]
        queue_ok_cong [OF book_repD(3) [OF rep v] frame] by simp
  qed
  have orders: "orders_ok ?g ?sp"
    unfolding orders_ok_def
  proof (intro allI impI)
    fix j r
    assume j: "gb_orders ?g j = Some r"
    show "go_id r < gb_next_id ?g \<and> (go_open r \<longrightarrow>
        go_price r \<in> set (sp_prices ?sp (go_list r)) \<and> j \<in> set (sp_queue ?sp (go_list r, go_price r)))"
    proof (cases "j = k")
      case True
      with j room show ?thesis
        by (auto simp: g_insert_orders new_gorder_def insert_spec_def word_less_nat_alt unat_succ
            g_insert_def)
    next
      case False
      with j have old: "gb_orders g j = Some r" by (simp add: g_insert_orders)
      have "go_id r < gb_next_id ?g"
        using id_lt_next [OF rep old] room by (simp add: g_insert_def word_less_nat_alt unat_succ)
      moreover have "go_price r \<in> set (sp_prices ?sp (go_list r)) \<and>
          j \<in> set (sp_queue ?sp (go_list r, go_price r))" if "go_open r"
        using open_order_in_queue [OF rep old that] insert_new_price [OF ok]
          price_iff_level [OF rep, of "go_price r" "go_list r"] insert_okD(2) [OF ok]
        by (cases "go_list r = l") (auto simp: insert_spec_def)
      ultimately show ?thesis by blast
    qed
  qed
  have "count_ok ?g"
    by (rule open_keys_add [OF book_repD(5) [OF rep] fresh room(2)])
      (auto simp: open_keys_def g_insert_def new_gorder_def fresh)
  with prices' levels orders show ?thesis by (simp add: book_rep_def)
qed

section \<open>Appending behind the tail\<close>

definition append_spec :: "'l \<Rightarrow> u64 \<Rightarrow> pubkey \<Rightarrow> 'l bspec \<Rightarrow> 'l bspec" where
  "append_spec l p k sp = sp\<lparr>sp_queue := (sp_queue sp)((l, p) := sp_queue sp (l, p) @ [k])\<rparr>"

definition append_ok ::
  "('l \<Rightarrow> bool) \<Rightarrow> 'l gbook \<Rightarrow> 'l bspec \<Rightarrow> 'l \<Rightarrow> u64 \<Rightarrow> pubkey \<Rightarrow> u64 \<Rightarrow> pubkey \<Rightarrow> glevel \<Rightarrow> bool" where
  "append_ok bid g sp l p k q t lv \<longleftrightarrow>
     book_rep bid g sp \<and> gb_levels g (l, p) = Some lv \<and> gl_last lv = Some t \<and>
     gb_orders g k = None \<and> 0 < q \<and>
     unat (gb_next_id g) + 1 < 2 ^ 64 \<and> unat (gb_open g) + 1 < 2 ^ 64 \<and>
     unat (gl_total lv) + unat q < 2 ^ 64 \<and> unat (gl_count lv) + 1 < 2 ^ 64"

lemma append_okD:
  assumes "append_ok bid g sp l p k q t lv"
  shows "book_rep bid g sp" and "gb_levels g (l, p) = Some lv" and "gl_last lv = Some t"
    and "gb_orders g k = None" and "0 < q"
    and "unat (gb_next_id g) + 1 < 2 ^ 64" and "unat (gb_open g) + 1 < 2 ^ 64"
    and "unat (gl_total lv) + unat q < 2 ^ 64" and "unat (gl_count lv) + 1 < 2 ^ 64"
  using assms by (simp_all add: append_ok_def)

lemma g_append_orders: "gb_orders (g_append l p k q t g) j =
    (if j = k then Some (new_gorder l p (gb_next_id g) (Some t) q)
     else if j = t then map_option (\<lambda>r. r\<lparr>go_next := Some k\<rparr>) (gb_orders g t)
     else gb_orders g j)"
  by (auto simp: g_append_def mod_at_apply)

lemma g_append_levels: "gb_levels (g_append l p k q t g) x =
    (if x = (l, p) then map_option (\<lambda>v. v\<lparr>gl_last := Some k, gl_total := gl_total v + q,
        gl_count := gl_count v + 1\<rparr>) (gb_levels g x)
     else gb_levels g x)"
  by (simp add: g_append_def mod_at_apply)

lemma unat_add_ok: "unat (a :: u64) + unat b < 2 ^ 64 \<Longrightarrow> unat (a + b) = unat a + unat b"
  by (simp add: unat_word_ariths)

lemma append_queue:
  assumes ok: "append_ok bid g sp l p k q t lv"
  shows "queue_ok (g_append l p k q t g) l p (sp_queue sp (l, p) @ [k])" (is "queue_ok ?g _ _ (?q @ _)")
    and "level_ok (g_append l p k q t g) (lv\<lparr>gl_last := Some k, gl_total := gl_total lv + q,
           gl_count := gl_count lv + 1\<rparr>) (sp_queue sp (l, p) @ [k])"
proof -
  note rep = append_okD(1) [OF ok] and lv = append_okD(2) [OF ok] and fresh = append_okD(4) [OF ok]
  have lo: "level_ok g lv ?q" and qo: "queue_ok g l p ?q"
    using book_repD(2,3) [OF rep lv] by auto
  have t: "last_of ?q = Some t" using lo append_okD(3) [OF ok] by (simp add: level_ok_def)
  then have tq: "t \<in> set ?q" by (rule last_of_in)
  have kq: "k \<notin> set ?q" using queue_in_store [OF rep, of l p k] lv fresh by auto
  have member: "\<exists>r. gb_orders g j = Some r \<and> go_open r \<and> go_list r = l \<and> go_price r = p \<and>
      0 < go_remaining r \<and> go_id r < gb_next_id g" if "j \<in> set ?q" for j
    using queue_member [OF rep _ that] lv by (metis option.distinct(1))
  have lk: "linked (order_prev g) (order_next g) ?q" using qo by (simp add: queue_ok_def)
  have links: "order_prev ?g j = ((order_prev g)(k := last_of ?q)) j \<and>
      order_next ?g j = set_opt (last_of ?q) (Some k) ((order_next g)(k := None)) j" for j
    using t kq tq member [OF tq]
    by (auto simp: store_reads g_append_orders new_gorder_def t)
  have "linked (order_prev ?g) (order_next ?g) (?q @ [k])"
    by (rule linked_cong [OF linked_append [OF lk] links])
      (use qo kq in \<open>simp add: queue_ok_def\<close>)
  moreover have "\<exists>r. gb_orders ?g j = Some r \<and> go_open r \<and> go_list r = l \<and> go_price r = p \<and>
      0 < go_remaining r" if "j \<in> set (?q @ [k])" for j
    using that member [of j] append_okD(5) [OF ok]
    by (auto simp: g_append_orders new_gorder_def)
  moreover have ids: "id_of ?g j = id_of g j" "id_of g j < id_of ?g k" "j \<noteq> k" if "j \<in> set ?q" for j
    using member [OF that] that kq
    by (auto simp: store_reads g_append_orders new_gorder_def word_less_nat_alt)
  have "sorted_wrt (\<lambda>a b. id_of ?g a < id_of ?g b) ?q"
    by (rule sorted_wrt_mono_rel [of _ "\<lambda>a b. id_of g a < id_of g b"])
      (use qo ids(1) in \<open>simp_all add: queue_ok_def\<close>)
  then have "sorted_wrt (\<lambda>a b. id_of ?g a < id_of ?g b) (?q @ [k])"
    using ids by (simp add: sorted_wrt_append)
  ultimately show "queue_ok ?g l p (?q @ [k])"
    using qo kq by (auto simp: queue_ok_def)
  have "remaining_of ?g j = remaining_of g j" if "j \<in> set ?q" for j
    using member [OF that] that kq by (auto simp: store_reads g_append_orders)
  then have "sum_list (map (remaining_of ?g) ?q) = sum_list (map (remaining_of g) ?q)"
    by (intro arg_cong [of _ _ sum_list]) auto
  moreover have "remaining_of ?g k = unat q"
    by (simp add: store_reads g_append_orders new_gorder_def)
  ultimately show "level_ok ?g (lv\<lparr>gl_last := Some k, gl_total := gl_total lv + q,
      gl_count := gl_count lv + 1\<rparr>) (?q @ [k])"
    using lo qo append_okD(8,9) [OF ok]
    by (simp add: level_ok_def unat_add_ok unat_succ first_of_append queue_ok_def)
qed

lemma rep_append:
  assumes ok: "append_ok bid g sp l p k q t lv"
  shows "book_rep bid (g_append l p k q t g) (append_spec l p k sp)" (is "book_rep _ ?g ?sp")
proof -
  note rep = append_okD(1) [OF ok] and lv = append_okD(2) [OF ok] and fresh = append_okD(4) [OF ok]
    and room = append_okD(6,7) [OF ok]
  have lo: "level_ok g lv (sp_queue sp (l, p))" using book_repD(2) [OF rep lv] .
  have tq: "t \<in> set (sp_queue sp (l, p))"
    using lo append_okD(3) [OF ok] by (intro last_of_in) (simp add: level_ok_def)
  have prices: "prices_ok bid ?g l' (sp_prices ?sp l')" for l'
    by (rule prices_ok_cong [of bid g])
      (use book_repD(1) [OF rep] in \<open>auto simp: append_spec_def g_append_levels level_better_def
        level_worse_def Option.bind_map_option o_def, auto simp: g_append_def\<close>)
  have levels: "level_ok ?g v (sp_queue ?sp (l', p')) \<and> queue_ok ?g l' p' (sp_queue ?sp (l', p'))"
    if v: "gb_levels ?g (l', p') = Some v" for l' p' v
  proof (cases "l' = l \<and> p' = p")
    case True
    with v lv append_queue [OF ok] show ?thesis by (simp add: g_append_levels append_spec_def)
  next
    case False
    with v have old: "gb_levels g (l', p') = Some v" by (auto simp: g_append_levels)
    have frame: "gb_orders ?g j = gb_orders g j" if "j \<in> set (sp_queue sp (l', p'))" for j
    proof -
      have "j \<noteq> k" using queue_in_store [OF rep _ that] old fresh by auto
      moreover have "j \<noteq> t" using queue_disjoint [OF rep _ _ tq, of l' p'] old lv that False by auto
      ultimately show ?thesis by (simp add: g_append_orders)
    qed
    have "sp_queue ?sp (l', p') = sp_queue sp (l', p')" using False by (auto simp: append_spec_def)
    then show ?thesis
      using level_ok_cong [OF book_repD(2) [OF rep old] frame]
        queue_ok_cong [OF book_repD(3) [OF rep old] frame] by simp
  qed
  have orders: "orders_ok ?g ?sp"
    unfolding orders_ok_def
  proof (intro allI impI)
    fix j r
    assume j: "gb_orders ?g j = Some r"
    show "go_id r < gb_next_id ?g \<and> (go_open r \<longrightarrow>
        go_price r \<in> set (sp_prices ?sp (go_list r)) \<and> j \<in> set (sp_queue ?sp (go_list r, go_price r)))"
    proof (cases "j = k")
      case True
      with j room lv price_iff_level [OF rep, of p l] show ?thesis
        by (auto simp: g_append_orders new_gorder_def append_spec_def word_less_nat_alt unat_succ
            g_append_def)
    next
      case False
      with j obtain o' where old: "gb_orders g j = Some o'" and
        same: "go_id r = go_id o'" "go_open r = go_open o'" "go_list r = go_list o'"
          "go_price r = go_price o'"
        by (auto simp: g_append_orders split: if_splits)
      have "go_id r < gb_next_id ?g"
        using id_lt_next [OF rep old] room same
        by (simp add: g_append_def word_less_nat_alt unat_succ)
      moreover have "go_price r \<in> set (sp_prices ?sp (go_list r)) \<and>
          j \<in> set (sp_queue ?sp (go_list r, go_price r))" if "go_open r"
        using open_order_in_queue [OF rep old] that same
          price_iff_level [OF rep, of "go_price o'" "go_list o'"]
        by (auto simp: append_spec_def)
      ultimately show ?thesis by blast
    qed
  qed
  have t: "gb_orders g t \<noteq> None" using queue_in_store [OF rep _ tq] lv by simp
  then have "open_keys ?g = insert k (open_keys g)"
    by (auto simp: open_keys_def g_append_orders new_gorder_def)
  then have "count_ok ?g"
    by (intro open_keys_add [OF book_repD(5) [OF rep] fresh room(2)]) (simp_all add: g_append_def)
  with prices levels orders show ?thesis by (simp add: book_rep_def)
qed

section \<open>A partial fill\<close>

definition take_ok ::
  "('l \<Rightarrow> bool) \<Rightarrow> 'l gbook \<Rightarrow> 'l bspec \<Rightarrow> 'l \<Rightarrow> u64 \<Rightarrow> pubkey \<Rightarrow> u64 \<Rightarrow> bool" where
  "take_ok bid g sp l p k amount \<longleftrightarrow>
     book_rep bid g sp \<and> gb_levels g (l, p) \<noteq> None \<and> k \<in> set (sp_queue sp (l, p)) \<and>
     unat amount < remaining_of g k"

lemma g_take_orders: "gb_orders (g_take l p k a g) j =
    (if j = k then map_option (\<lambda>r. r\<lparr>go_remaining := go_remaining r - a\<rparr>) (gb_orders g j)
     else gb_orders g j)"
  by (simp add: g_take_def mod_at_apply)

lemma g_take_levels: "gb_levels (g_take l p k a g) x =
    (if x = (l, p) then map_option (\<lambda>v. v\<lparr>gl_total := gl_total v - a\<rparr>) (gb_levels g x)
     else gb_levels g x)"
  by (simp add: g_take_def mod_at_apply)

lemma g_take_fields: "gb_best (g_take l p k a g) = gb_best g"
  "gb_next_id (g_take l p k a g) = gb_next_id g" "gb_open (g_take l p k a g) = gb_open g"
  by (simp_all add: g_take_def)

lemma sum_list_eqI:
  "(\<And>j. j \<in> set q \<Longrightarrow> f' j = f j) \<Longrightarrow> sum_list (map f' q) = sum_list (map f q)"
  by (rule arg_cong [of _ _ sum_list]) simp

lemma sum_list_point:
  assumes "distinct q" "k \<in> set q" "\<And>j. j \<in> set q \<Longrightarrow> j \<noteq> k \<Longrightarrow> f' j = f j"
  shows "sum_list (map f' q) + f k = sum_list (map f q) + (f' k :: nat)"
proof -
  obtain us vs where q: "q = us @ k # vs" using assms(2) by (auto dest: split_list)
  then have "sum_list (map f' us) = sum_list (map f us)" "sum_list (map f' vs) = sum_list (map f vs)"
    using assms(1,3) by (auto intro!: sum_list_eqI)
  then show ?thesis by (simp add: q)
qed

lemma take_queue:
  assumes ok: "take_ok bid g sp l p k a" and lv: "gb_levels g (l, p) = Some lv"
  shows "queue_ok (g_take l p k a g) l p (sp_queue sp (l, p))" (is "queue_ok ?g _ _ ?q")
    and "level_ok (g_take l p k a g) (lv\<lparr>gl_total := gl_total lv - a\<rparr>) (sp_queue sp (l, p))"
proof -
  have rep: "book_rep bid g sp" and kq: "k \<in> set ?q" and lt: "unat a < remaining_of g k"
    using ok by (simp_all add: take_ok_def)
  have lo: "level_ok g lv ?q" and qo: "queue_ok g l p ?q"
    using book_repD(2,3) [OF rep lv] by auto
  have reads: "order_prev ?g j = order_prev g j" "order_next ?g j = order_next g j"
    "id_of ?g j = id_of g j" for j
    unfolding store_reads g_take_orders by (auto split: option.splits bind_splits)
  obtain r where r: "gb_orders g k = Some r" using queue_in_store [OF rep _ kq] lv by auto
  have le: "a \<le> go_remaining r" using lt r by (simp add: store_reads word_le_nat_alt)
  have rem: "remaining_of ?g k = remaining_of g k - unat a"
    using r le by (simp add: store_reads g_take_orders unat_sub word_le_nat_alt)
  have "0 < go_remaining r - a"
    using lt r le by (simp add: store_reads word_less_nat_alt unat_sub word_le_nat_alt)
  then have "\<exists>r. gb_orders ?g j = Some r \<and> go_open r \<and> go_list r = l \<and> go_price r = p \<and>
      0 < go_remaining r" if "j \<in> set ?q" for j
    using qo that r by (fastforce simp: queue_ok_def g_take_orders)
  moreover have "order_prev ?g = order_prev g" "order_next ?g = order_next g" "id_of ?g = id_of g"
    using reads by auto
  ultimately show "queue_ok ?g l p ?q" using qo by (simp add: queue_ok_def)
  have "sum_list (map (remaining_of ?g) ?q) + remaining_of g k =
      sum_list (map (remaining_of g) ?q) + remaining_of ?g k"
    using qo kq by (intro sum_list_point) (auto simp: queue_ok_def store_reads g_take_orders)
  with rem lt have sums: "sum_list (map (remaining_of ?g) ?q) + unat a =
      sum_list (map (remaining_of g) ?q)" by linarith
  then have "unat a \<le> unat (gl_total lv)" using lo by (simp add: level_ok_def)
  with sums lo show "level_ok ?g (lv\<lparr>gl_total := gl_total lv - a\<rparr>) ?q"
    by (simp add: level_ok_def unat_sub word_le_nat_alt)
qed

lemma rep_take:
  assumes ok: "take_ok bid g sp l p k a"
  shows "book_rep bid (g_take l p k a g) sp" (is "book_rep _ ?g _")
proof -
  have rep: "book_rep bid g sp" and kq: "k \<in> set (sp_queue sp (l, p))"
    and lv0: "gb_levels g (l, p) \<noteq> None"
    using ok by (simp_all add: take_ok_def)
  have prices: "prices_ok bid ?g l' (sp_prices sp l')" for l'
    by (rule prices_ok_cong [of bid g])
      (use book_repD(1) [OF rep] in \<open>simp_all add: g_take_levels level_better_def
        level_worse_def Option.bind_map_option o_def g_take_fields\<close>)
  have levels: "level_ok ?g v (sp_queue sp (l', p')) \<and> queue_ok ?g l' p' (sp_queue sp (l', p'))"
    if v: "gb_levels ?g (l', p') = Some v" for l' p' v
  proof (cases "l' = l \<and> p' = p")
    case True
    with v lv0 take_queue [OF ok] show ?thesis by (auto simp: g_take_levels)
  next
    case False
    with v have old: "gb_levels g (l', p') = Some v" by (auto simp: g_take_levels)
    have frame: "gb_orders ?g j = gb_orders g j" if "j \<in> set (sp_queue sp (l', p'))" for j
      using queue_disjoint [OF rep lv0 _ kq, of l' p'] old that False
      by (auto simp: g_take_orders)
    show ?thesis
      using level_ok_cong [OF book_repD(2) [OF rep old] frame]
        queue_ok_cong [OF book_repD(3) [OF rep old] frame] by simp
  qed
  have orders: "orders_ok ?g sp"
    using book_repD(4) [OF rep] by (fastforce simp: orders_ok_def g_take_orders g_take_fields)
  have "open_keys ?g = open_keys g" by (auto simp: open_keys_def g_take_orders)
  then have "count_ok ?g" using book_repD(5) [OF rep] by (simp add: count_ok_def g_take_fields)
  with prices levels orders show ?thesis by (simp add: book_rep_def)
qed

section \<open>Removal\<close>

definition remove_spec :: "'l \<Rightarrow> u64 \<Rightarrow> pubkey \<Rightarrow> 'l bspec \<Rightarrow> 'l bspec" where
  "remove_spec l p k sp =
     (let q = remove1 k (sp_queue sp (l, p)) in
      sp\<lparr>sp_prices := (if q = [] then (sp_prices sp)(l := remove1 p (sp_prices sp l)) else sp_prices sp),
         sp_queue := (sp_queue sp)((l, p) := q)\<rparr>)"

definition remove_ok ::
  "('l \<Rightarrow> bool) \<Rightarrow> 'l gbook \<Rightarrow> 'l bspec \<Rightarrow> 'l \<Rightarrow> u64 \<Rightarrow> pubkey \<Rightarrow> 'l gorder \<Rightarrow> glevel \<Rightarrow> bool" where
  "remove_ok bid g sp l p k r lv \<longleftrightarrow>
     book_rep bid g sp \<and> gb_orders g k = Some r \<and> go_open r \<and> go_list r = l \<and> go_price r = p \<and>
     gb_levels g (l, p) = Some lv"

lemma remove_okD:
  assumes "remove_ok bid g sp l p k r lv"
  shows "book_rep bid g sp" and "gb_orders g k = Some r" and "go_open r" and "go_list r = l"
    and "go_price r = p" and "gb_levels g (l, p) = Some lv" and "k \<in> set (sp_queue sp (l, p))"
  using assms open_order_in_queue [of bid g sp k r] by (auto simp: remove_ok_def)

lemma remove_split:
  assumes "remove_ok bid g sp l p k r lv"
  obtains us vs where "sp_queue sp (l, p) = us @ k # vs" "distinct (us @ k # vs)"
    "go_prev r = last_of us" "go_next r = first_of vs" "remove1 k (us @ k # vs) = us @ vs"
proof -
  have "queue_ok g l p (sp_queue sp (l, p))"
    using book_repD(3) [OF remove_okD(1,6) [OF assms]] .
  then have lk: "linked (order_prev g) (order_next g) (sp_queue sp (l, p))"
    and d: "distinct (sp_queue sp (l, p))"
    by (simp_all add: queue_ok_def)
  obtain us vs where q: "sp_queue sp (l, p) = us @ k # vs"
    using remove_okD(7) [OF assms] by (auto dest: split_list)
  with lk have "order_prev g k = last_of us \<and> order_next g k = first_of vs"
    by (auto dest: linkedD)
  with that q d remove_okD(2) [OF assms] show thesis
    by (auto simp: store_reads remove1_append)
qed

definition relink :: "'l gorder \<Rightarrow> pubkey \<Rightarrow> 'l gorder \<Rightarrow> 'l gorder" where
  "relink r j x = x\<lparr>
     go_next := (if go_prev r = Some j then go_next r else go_next x),
     go_prev := (if go_next r = Some j then go_prev r else go_prev x)\<rparr>"

lemma relink_fields [simp]:
  "go_next (relink r j x) = (if go_prev r = Some j then go_next r else go_next x)"
  "go_prev (relink r j x) = (if go_next r = Some j then go_prev r else go_prev x)"
  "go_list (relink r j x) = go_list x" "go_price (relink r j x) = go_price x"
  "go_id (relink r j x) = go_id x" "go_remaining (relink r j x) = go_remaining x"
  "go_open (relink r j x) = go_open x"
  by (simp_all add: relink_def)

lemma relink_other: "go_prev r \<noteq> Some j \<Longrightarrow> go_next r \<noteq> Some j \<Longrightarrow> relink r j x = x"
  by (simp add: relink_def)

lemma g_remove_orders: "gb_orders (g_remove l p k left r lv g) j =
    (if j = k then Some (r\<lparr>go_prev := None, go_next := None, go_remaining := left, go_open := False\<rparr>)
     else map_option (relink r j) (gb_orders g j))"
  by (cases "gb_orders g j") (auto simp: g_remove_def mod_opt_apply relink_def)

lemma g_remove_levels_one: "gl_count lv = 1 \<Longrightarrow> gb_levels (g_remove l p k left r lv g) (l', p') =
    (if l' = l \<and> p' = p then None
     else map_option (\<lambda>v. v\<lparr>
        gl_worse := (if l' = l \<and> gl_better lv = Some p' then gl_worse lv else gl_worse v),
        gl_better := (if l' = l \<and> gl_worse lv = Some p' then gl_better lv else gl_better v)\<rparr>)
        (gb_levels g (l', p')))"
  by (cases "gl_better lv"; cases "gl_worse lv"; cases "gb_levels g (l', p')")
    (auto simp: g_remove_def mod_opt_apply mod_at_apply)

lemma g_remove_levels_many: "gl_count lv \<noteq> 1 \<Longrightarrow> gb_levels (g_remove l p k left r lv g) x =
    (if x = (l, p) then Some (lv\<lparr>
        gl_first := (if go_prev r = None then go_next r else gl_first lv),
        gl_last := (if go_next r = None then go_prev r else gl_last lv),
        gl_total := gl_total lv - go_remaining r, gl_count := gl_count lv - 1\<rparr>)
     else gb_levels g x)"
  by (simp add: g_remove_def)

lemma remove_neighbor:
  assumes ok: "remove_ok bid g sp l p k r lv" and j: "go_prev r = Some j \<or> go_next r = Some j"
  shows "gb_orders g j \<noteq> None"
proof -
  obtain us vs where q: "sp_queue sp (l, p) = us @ k # vs"
    and "go_prev r = last_of us" "go_next r = first_of vs"
    using remove_split [OF ok] .
  then have "j \<in> set (sp_queue sp (l, p))" using j by (auto dest: last_of_in first_of_in)
  moreover have "gb_levels g (l, p) \<noteq> None" using remove_okD(6) [OF ok] by simp
  ultimately show ?thesis by (intro queue_in_store [OF remove_okD(1) [OF ok]])
qed

lemma remove_count:
  assumes "remove_ok bid g sp l p k r lv"
  shows "gl_count lv = 1 \<longleftrightarrow> remove1 k (sp_queue sp (l, p)) = []"
proof -
  have "unat (gl_count lv) = length (sp_queue sp (l, p))"
    using book_repD(2) [OF remove_okD(1,6) [OF assms]] by (simp add: level_ok_def)
  then have "gl_count lv = 1 \<longleftrightarrow> length (sp_queue sp (l, p)) = 1"
    by (simp add: word_unat_eq_iff)
  moreover obtain us vs where "sp_queue sp (l, p) = us @ k # vs"
    "remove1 k (us @ k # vs) = us @ vs"
    using remove_split [OF assms] .
  ultimately show ?thesis by simp
qed

text \<open>The queue without the order, when others stay behind.\<close>

lemma remove_queue:
  assumes ok: "remove_ok bid g sp l p k r lv" and many: "remove1 k (sp_queue sp (l, p)) \<noteq> []"
  shows "queue_ok (g_remove l p k left r lv g) l p (remove1 k (sp_queue sp (l, p)))"
      (is "queue_ok ?g _ _ _")
    and "level_ok (g_remove l p k left r lv g) (lv\<lparr>
        gl_first := (if go_prev r = None then go_next r else gl_first lv),
        gl_last := (if go_next r = None then go_prev r else gl_last lv),
        gl_total := gl_total lv - go_remaining r, gl_count := gl_count lv - 1\<rparr>)
        (remove1 k (sp_queue sp (l, p)))" (is "level_ok _ ?lv _")
proof -
  note rep = remove_okD(1) [OF ok] and r = remove_okD(2) [OF ok] and lv = remove_okD(6) [OF ok]
  obtain us vs where q: "sp_queue sp (l, p) = us @ k # vs" and d: "distinct (us @ k # vs)"
    and rp: "go_prev r = last_of us" and rn: "go_next r = first_of vs"
    and q': "remove1 k (us @ k # vs) = us @ vs"
    using remove_split [OF ok] .
  have lo: "level_ok g lv (us @ k # vs)" and qo: "queue_ok g l p (us @ k # vs)"
    using book_repD(2,3) [OF rep lv] by (simp_all add: q)
  have member: "\<exists>r. gb_orders g j = Some r \<and> go_open r \<and> go_list r = l \<and> go_price r = p \<and>
      0 < go_remaining r" if "j \<in> set (us @ vs)" for j
    using qo that unfolding queue_ok_def by simp
  have frame: "order_prev ?g j = set_opt (first_of vs) (last_of us) (order_prev g) j \<and>
      order_next ?g j = set_opt (last_of us) (first_of vs) (order_next g) j"
    "id_of ?g j = id_of g j" "remaining_of ?g j = remaining_of g j"
    "\<exists>r. gb_orders ?g j = Some r \<and> go_open r \<and> go_list r = l \<and> go_price r = p \<and> 0 < go_remaining r"
    if j: "j \<in> set (us @ vs)" for j
    using member [OF j] j d
    by (auto simp: store_reads g_remove_orders rp rn set_opt_apply)
  have "linked (order_prev g) (order_next g) (us @ k # vs)" using qo by (simp add: queue_ok_def)
  then have "linked (order_prev ?g) (order_next ?g) (us @ vs)"
    by (rule linked_cong [OF linked_remove [OF _ d] frame(1)])
  moreover have "sorted_wrt (\<lambda>a b. id_of ?g a < id_of ?g b) (us @ vs)"
    by (rule sorted_wrt_mono_rel [of _ "\<lambda>a b. id_of g a < id_of g b"])
      (use qo frame(2) in \<open>auto simp: queue_ok_def sorted_wrt_append\<close>)
  ultimately show "queue_ok ?g l p (remove1 k (sp_queue sp (l, p)))"
    using many d frame(4) unfolding q q' queue_ok_def by simp
  have "sum_list (map (remaining_of ?g) (us @ vs)) = sum_list (map (remaining_of g) (us @ vs))"
    by (rule sum_list_eqI) (rule frame(3))
  moreover have "unat (gl_total lv) = unat (go_remaining r) + sum_list (map (remaining_of g) (us @ vs))"
    using lo r by (simp add: level_ok_def store_reads)
  ultimately have "unat (gl_total lv - go_remaining r) = sum_list (map (remaining_of ?g) (us @ vs))"
    by (simp add: unat_sub word_le_nat_alt)
  moreover have "unat (gl_count lv - 1) = length (us @ vs)"
    using lo by (simp add: level_ok_def unat_sub word_le_nat_alt)
  ultimately show "level_ok ?g ?lv (remove1 k (sp_queue sp (l, p)))"
    using lo many unfolding q q' level_ok_def rp rn
    by (auto simp: first_of_append last_of_append last_of_Cons)
qed

text \<open>The price list without an emptied level.\<close>

lemma remove_prices:
  assumes ok: "remove_ok bid g sp l p k r lv" and one: "gl_count lv = 1"
  shows "prices_ok bid (g_remove l p k left r lv g) l (remove1 p (sp_prices sp l))"
    (is "prices_ok _ ?g _ _")
proof -
  have old: "prices_ok bid g l (sp_prices sp l)" by (rule book_repD(1) [OF remove_okD(1) [OF ok]])
  then have lk: "linked (level_better g l) (level_worse g l) (sp_prices sp l)"
    and d: "distinct (sp_prices sp l)" and mem: "p \<in> set (sp_prices sp l)"
    using remove_okD(6) [OF ok]
    by (auto simp: prices_ok_def dest: sorted_precedes_distinct)
  from mem obtain xs ys where ps: "sp_prices sp l = xs @ p # ys" by (auto dest: split_list)
  with lk have "level_better g l p = last_of xs \<and> level_worse g l p = first_of ys"
    by (auto dest: linkedD)
  then have b: "gl_better lv = last_of xs" and w: "gl_worse lv = first_of ys"
    using remove_okD(6) [OF ok] by (simp_all add: store_reads)
  have rm: "remove1 p (sp_prices sp l) = xs @ ys" using d by (simp add: ps remove1_append)
  have ex: "\<exists>v. gb_levels g (l, z) = Some v" if "z \<in> set (xs @ ys)" for z
    using old that by (auto simp: prices_ok_def ps)
  have links: "level_better ?g l z = set_opt (first_of ys) (last_of xs) (level_better g l) z \<and>
      level_worse ?g l z = set_opt (last_of xs) (first_of ys) (level_worse g l) z"
    if z: "z \<in> set (xs @ ys)" for z
  proof -
    have "z \<noteq> p" using z d by (auto simp: ps)
    then show ?thesis
      using ex [OF z]
      by (auto simp: level_better_def level_worse_def g_remove_levels_one [OF one] b w set_opt_apply)
  qed
  have "linked (level_better ?g l) (level_worse ?g l) (xs @ ys)"
    by (rule linked_cong [OF linked_remove [of "level_better g l" "level_worse g l" xs p ys] links])
      (use lk d in \<open>simp_all add: ps\<close>)
  moreover have "gb_best ?g l = first_of (xs @ ys)"
    using old one by (simp add: g_remove_def prices_ok_def ps b w first_of_append)
  moreover have "\<forall>z. gb_levels ?g (l, z) \<noteq> None \<longleftrightarrow> z \<in> set (xs @ ys)"
    using old d by (auto simp: g_remove_levels_one [OF one] prices_ok_def ps)
  moreover have "sorted_wrt (precedes (bid l)) (xs @ ys)"
    using old by (simp add: prices_ok_def ps sorted_wrt_append)
  ultimately show ?thesis by (simp add: rm prices_ok_def)
qed

lemma remove_prices_frame:
  assumes "prices_ok bid g l' ps" and "l' \<noteq> l \<or> gl_count lv \<noteq> 1"
    and "gb_levels g (l, p) = Some lv"
  shows "prices_ok bid (g_remove l p k left r lv g) l' ps"
proof (rule prices_ok_cong [OF assms(1)])
  show "gb_best (g_remove l p k left r lv g) l' = gb_best g l'"
    using assms(2) by (auto simp: g_remove_def)
next
  fix z
  show "gb_levels (g_remove l p k left r lv g) (l', z) = None \<longleftrightarrow> gb_levels g (l', z) = None"
    using assms(2,3)
    by (cases "gl_count lv = 1") (auto simp: g_remove_levels_one g_remove_levels_many)
  show "level_better (g_remove l p k left r lv g) l' z = level_better g l' z \<and>
      level_worse (g_remove l p k left r lv g) l' z = level_worse g l' z"
    using assms(2,3)
    by (cases "gl_count lv = 1")
      (auto simp: level_better_def level_worse_def g_remove_levels_one g_remove_levels_many
        Option.bind_map_option o_def)
qed

lemma rep_remove:
  assumes ok: "remove_ok bid g sp l p k r lv"
  shows "book_rep bid (g_remove l p k left r lv g) (remove_spec l p k sp)" (is "book_rep _ ?g ?sp")
proof -
  note rep = remove_okD(1) [OF ok] and r = remove_okD(2) [OF ok] and lv = remove_okD(6) [OF ok]
    and kq = remove_okD(7) [OF ok]
  let ?q = "remove1 k (sp_queue sp (l, p))"
  have cnt: "gl_count lv = 1 \<longleftrightarrow> ?q = []" by (rule remove_count [OF ok])
  have prices: "prices_ok bid ?g l' (sp_prices ?sp l')" for l'
  proof (cases "l' = l \<and> ?q = []")
    case True
    then show ?thesis using remove_prices [OF ok] cnt by (simp add: remove_spec_def)
  next
    case False
    then show ?thesis
      using remove_prices_frame [OF book_repD(1) [OF rep] _ lv, of l'] cnt
      by (auto simp: remove_spec_def Let_def)
  qed
  have queue_other: "sp_queue ?sp (l', p') = sp_queue sp (l', p')" if "\<not> (l' = l \<and> p' = p)" for l' p'
    using that by (auto simp: remove_spec_def Let_def)
  have levels: "level_ok ?g v (sp_queue ?sp (l', p')) \<and> queue_ok ?g l' p' (sp_queue ?sp (l', p'))"
    if v: "gb_levels ?g (l', p') = Some v" for l' p' v
  proof (cases "l' = l \<and> p' = p")
    case True
    with v have many: "gl_count lv \<noteq> 1" by (auto simp: g_remove_levels_one)
    with True v remove_queue [OF ok] cnt show ?thesis
      by (auto simp: g_remove_levels_many remove_spec_def Let_def)
  next
    case False
    then have "\<exists>v'. gb_levels g (l', p') = Some v' \<and> gl_first v = gl_first v' \<and>
        gl_last v = gl_last v' \<and> gl_total v = gl_total v' \<and> gl_count v = gl_count v'"
      using v by (cases "gl_count lv = 1") (auto simp: g_remove_levels_one g_remove_levels_many)
    then obtain v' where v': "gb_levels g (l', p') = Some v'"
      and same: "gl_first v = gl_first v'" "gl_last v = gl_last v'" "gl_total v = gl_total v'"
        "gl_count v = gl_count v'"
      by blast
    have frame: "gb_orders ?g j = gb_orders g j" if j: "j \<in> set (sp_queue sp (l', p'))" for j
    proof -
      have out: "j \<notin> set (sp_queue sp (l, p))"
        using queue_disjoint [OF rep _ _ j, of l p] v' lv False by auto
      obtain us vs where "sp_queue sp (l, p) = us @ k # vs" "go_prev r = last_of us"
        "go_next r = first_of vs"
        using remove_split [OF ok] by metis
      then have "j \<noteq> k" "go_prev r \<noteq> Some j" "go_next r \<noteq> Some j"
        using out by (auto dest: last_of_in first_of_in)
      then show ?thesis
        by (cases "gb_orders g j") (simp_all add: g_remove_orders relink_other)
    qed
    show ?thesis
      using level_ok_cong [OF book_repD(2) [OF rep v'] frame same]
        queue_ok_cong [OF book_repD(3) [OF rep v'] frame] queue_other [OF False] by simp
  qed
  have orders: "orders_ok ?g ?sp"
    unfolding orders_ok_def
  proof (intro allI impI)
    fix j x
    assume j: "gb_orders ?g j = Some x"
    show "go_id x < gb_next_id ?g \<and> (go_open x \<longrightarrow>
        go_price x \<in> set (sp_prices ?sp (go_list x)) \<and> j \<in> set (sp_queue ?sp (go_list x, go_price x)))"
    proof (cases "j = k")
      case True
      with j id_lt_next [OF rep r] show ?thesis
        by (auto simp: g_remove_orders g_remove_def word_less_nat_alt)
    next
      case False
      with j obtain o' where old: "gb_orders g j = Some o'" and
        same: "go_id x = go_id o'" "go_open x = go_open o'" "go_list x = go_list o'"
          "go_price x = go_price o'"
        by (auto simp: g_remove_orders)
      have "go_id x < gb_next_id ?g"
        using id_lt_next [OF rep old] same by (simp add: g_remove_def word_less_nat_alt)
      moreover have "go_price x \<in> set (sp_prices ?sp (go_list x)) \<and>
          j \<in> set (sp_queue ?sp (go_list x, go_price x))" if "go_open x"
      proof -
        have q: "j \<in> set (sp_queue sp (go_list o', go_price o'))"
          and pr: "go_price o' \<in> set (sp_prices sp (go_list o'))"
          using open_order_in_queue [OF rep old] that same
            price_iff_level [OF rep, of "go_price o'" "go_list o'"] by auto
        have "j \<in> set (sp_queue ?sp (go_list o', go_price o'))"
          using q False by (auto simp: remove_spec_def Let_def in_set_remove1)
        moreover from this have "go_price o' \<in> set (sp_prices ?sp (go_list o'))"
          using pr by (auto simp: remove_spec_def Let_def in_set_remove1 split: if_splits)
        ultimately show ?thesis by (simp add: same)
      qed
      ultimately show ?thesis by blast
    qed
  qed
  have "open_keys ?g = open_keys g - {k}" by (auto simp: open_keys_def g_remove_orders)
  moreover have "k \<in> open_keys g" using r remove_okD(3) [OF ok] by (simp add: open_keys_def)
  moreover have "count_ok g" by (rule book_repD(5) [OF rep])
  moreover have "unat (gb_open ?g) = unat (gb_open g) - 1" if "0 < unat (gb_open g)"
    using that by (simp add: g_remove_def unat_sub word_le_nat_alt Suc_le_eq)
  moreover have "0 < card (open_keys g)" if "finite (open_keys g)"
    using that \<open>k \<in> open_keys g\<close> by (auto simp: card_gt_0_iff)
  ultimately have "count_ok ?g"
    by (simp add: count_ok_def)
  with prices levels orders show ?thesis by (simp add: book_rep_def)
qed

end
