(* ===== verification/Book_Steps.thy ===== *)
theory Book_Steps
  imports Book_Index
begin

text \<open>
  The order-book index as a transition system. An event is one of the four edits of theory
  \<open>Book_Index\<close> under the guards the instructions check on the accounts the client supplied;
  \<open>spec_event\<close> is what the event does to the sorted price lists and FIFO queues. The main
  results are the simulation (\<open>gstep_sound\<close>), price-time priority of what a match consumes
  (\<open>head_is_first\<close>), and the interface \<open>order_book\<close>: a book of the program whose steps
  refine these events inherits both.
\<close>

section \<open>Neighbour hints\<close>

text \<open>The insertion check of \<open>insert_limit_order.rs\<close> over the index: which combinations of
  head pointer and supplied neighbours are accepted.\<close>

definition hints_ok :: "('l \<Rightarrow> bool) \<Rightarrow> 'l gbook \<Rightarrow> 'l \<Rightarrow> u64 \<Rightarrow> u64 option \<Rightarrow> u64 option \<Rightarrow> bool" where
  "hints_ok bid g l p bp wp =
     (case (gb_best g l, bp, wp) of
        (None, None, None) \<Rightarrow> True
      | (Some best, None, Some w) \<Rightarrow>
          w = best \<and> gb_levels g (l, w) \<noteq> None \<and> precedes (bid l) p w
      | (Some _, Some b, Some w) \<Rightarrow>
          gb_levels g (l, b) \<noteq> None \<and> gb_levels g (l, w) \<noteq> None \<and>
          level_worse g l b = Some w \<and> precedes (bid l) b p \<and> precedes (bid l) p w
      | (Some _, Some b, None) \<Rightarrow>
          gb_levels g (l, b) \<noteq> None \<and> level_worse g l b = None \<and> precedes (bid l) b p
      | _ \<Rightarrow> False)"

definition prices_before :: "('l \<Rightarrow> bool) \<Rightarrow> 'l bspec \<Rightarrow> 'l \<Rightarrow> u64 \<Rightarrow> u64 list" where
  "prices_before bid sp l p = takeWhile (\<lambda>x. precedes (bid l) x p) (sp_prices sp l)"

definition prices_after :: "('l \<Rightarrow> bool) \<Rightarrow> 'l bspec \<Rightarrow> 'l \<Rightarrow> u64 \<Rightarrow> u64 list" where
  "prices_after bid sp l p = dropWhile (\<lambda>x. precedes (bid l) x p) (sp_prices sp l)"

lemma sorted_split:
  assumes "sorted_wrt (precedes s) (xs @ ys)"
    and "\<And>b. last_of xs = Some b \<Longrightarrow> precedes s b p" and "\<And>w. first_of ys = Some w \<Longrightarrow> precedes s p w"
  shows "sorted_wrt (precedes s) (xs @ p # ys)"
    and "takeWhile (\<lambda>x. precedes s x p) (xs @ ys) = xs"
    and "dropWhile (\<lambda>x. precedes s x p) (xs @ ys) = ys"
proof -
  have left: "precedes s x p" if "x \<in> set xs" for x
  proof (cases xs rule: rev_cases)
    case Nil
    with that show ?thesis by simp
  next
    case (snoc zs b)
    with assms(1,2) that show ?thesis
      by (auto simp: sorted_wrt_append intro: precedes_trans)
  qed
  have right: "precedes s p y" if "y \<in> set ys" for y
  proof (cases ys)
    case Nil
    with that show ?thesis by simp
  next
    case (Cons w zs)
    with assms(1,3) that show ?thesis
      by (auto simp: sorted_wrt_append intro: precedes_trans)
  qed
  show "sorted_wrt (precedes s) (xs @ p # ys)"
    using assms(1) left right by (auto simp: sorted_wrt_append)
  have stop: "ys = [] \<or> \<not> precedes s (hd ys) p"
    using right precedes_asym by (cases ys) auto
  show "takeWhile (\<lambda>x. precedes s x p) (xs @ ys) = xs"
    using left stop by (cases ys) (auto simp: takeWhile_append2)
  show "dropWhile (\<lambda>x. precedes s x p) (xs @ ys) = ys"
    using left stop by (cases ys) (auto simp: dropWhile_append2)
qed

lemma hints_split:
  assumes rep: "book_rep bid g sp" and ok: "hints_ok bid g l p bp wp"
  obtains xs ys where "sp_prices sp l = xs @ ys" "bp = last_of xs" "wp = first_of ys"
    "\<forall>b. last_of xs = Some b \<longrightarrow> precedes (bid l) b p"
    "\<forall>w. first_of ys = Some w \<longrightarrow> precedes (bid l) p w"
proof -
  have pr: "gb_best g l = first_of (sp_prices sp l)"
    and lk: "linked (level_better g l) (level_worse g l) (sp_prices sp l)"
    using book_repD(1) [OF rep, of l] by (simp_all add: prices_ok_def)
  note mem = price_iff_level [OF rep]
  show thesis
  proof (cases bp)
    case None
    with ok pr that [of "[]" "sp_prices sp l"] show thesis
      by (auto simp: hints_ok_def split: option.splits)
  next
    case (Some b)
    with ok have b: "b \<in> set (sp_prices sp l)" "precedes (bid l) b p" "level_worse g l b = wp"
      and w: "\<And>w. wp = Some w \<Longrightarrow> precedes (bid l) p w"
      by (auto simp: hints_ok_def mem split: option.splits)
    then obtain xs ys where ps: "sp_prices sp l = xs @ b # ys" by (auto dest: split_list)
    with lk b(3) have "wp = first_of ys" by (auto dest: linkedD)
    with that [of "xs @ [b]" ys] ps Some b w show thesis by simp
  qed
qed

section \<open>Events\<close>

datatype 'l gevent =
    GInsert 'l u64 pubkey u64
  | GAppend 'l u64 pubkey u64
  | GFillPart 'l u64 pubkey u64
  | GFillAll 'l u64 pubkey
  | GCancel 'l u64 pubkey

inductive gstep :: "('l \<Rightarrow> bool) \<Rightarrow> 'l gbook \<Rightarrow> 'l gevent \<Rightarrow> 'l gbook \<Rightarrow> bool"
  for bid :: "'l \<Rightarrow> bool" where
  insert: "\<lbrakk>hints_ok bid g l p bp wp; gb_orders g k = None; 0 < q;
      unat (gb_next_id g) + 1 < 2 ^ 64; unat (gb_open g) + 1 < 2 ^ 64\<rbrakk> \<Longrightarrow>
    gstep bid g (GInsert l p k q) (g_insert l p k q bp wp g)"
| append: "\<lbrakk>gb_levels g (l, p) = Some lv; gl_last lv = Some t; gb_orders g k = None; 0 < q;
      unat (gb_next_id g) + 1 < 2 ^ 64; unat (gb_open g) + 1 < 2 ^ 64;
      unat (gl_total lv) + unat q < 2 ^ 64; unat (gl_count lv) + 1 < 2 ^ 64\<rbrakk> \<Longrightarrow>
    gstep bid g (GAppend l p k q) (g_append l p k q t g)"
| part: "\<lbrakk>gb_best g l = Some p; gb_levels g (l, p) = Some lv; gl_first lv = Some k;
      unat a < remaining_of g k\<rbrakk> \<Longrightarrow>
    gstep bid g (GFillPart l p k a) (g_take l p k a g)"
| full: "\<lbrakk>gb_best g l = Some p; gb_levels g (l, p) = Some lv; gl_first lv = Some k;
      gb_orders g k = Some r\<rbrakk> \<Longrightarrow>
    gstep bid g (GFillAll l p k) (g_remove l p k left r lv g)"
| cancel: "\<lbrakk>gb_orders g k = Some r; go_open r; go_list r = l; go_price r = p;
      gb_levels g (l, p) = Some lv\<rbrakk> \<Longrightarrow>
    gstep bid g (GCancel l p k) (g_remove l p k left r lv g)"

inductive_cases gstep_partE: "gstep bid g (GFillPart l p k a) g'"
inductive_cases gstep_fullE: "gstep bid g (GFillAll l p k) g'"

fun spec_event :: "('l \<Rightarrow> bool) \<Rightarrow> 'l gevent \<Rightarrow> 'l bspec \<Rightarrow> 'l bspec" where
  "spec_event bid (GInsert l p k q) sp =
     insert_spec l p k (prices_before bid sp l p) (prices_after bid sp l p) sp"
| "spec_event bid (GAppend l p k q) sp = append_spec l p k sp"
| "spec_event bid (GFillPart l p k a) sp = sp"
| "spec_event bid (GFillAll l p k) sp = remove_spec l p k sp"
| "spec_event bid (GCancel l p k) sp = remove_spec l p k sp"

lemma first_in_queue:
  assumes "book_rep bid g sp" "gb_levels g (l, p) = Some lv" "gl_first lv = Some k"
  shows "first_of (sp_queue sp (l, p)) = Some k" "k \<in> set (sp_queue sp (l, p))"
proof -
  show "first_of (sp_queue sp (l, p)) = Some k"
    using book_repD(2) [OF assms(1,2)] assms(3) by (simp add: level_ok_def)
  then show "k \<in> set (sp_queue sp (l, p))" by (rule first_of_in)
qed

theorem gstep_sound:
  assumes step: "gstep bid g e g'" and rep: "book_rep bid g sp"
  shows "book_rep bid g' (spec_event bid e sp)"
  using step
proof cases
  case (insert l p bp wp k q)
  obtain xs ys where ps: "sp_prices sp l = xs @ ys" and hints: "bp = last_of xs" "wp = first_of ys"
    and ord: "\<forall>b. last_of xs = Some b \<longrightarrow> precedes (bid l) b p"
      "\<forall>w. first_of ys = Some w \<longrightarrow> precedes (bid l) p w"
    using hints_split [OF rep insert(3)] .
  have "sorted_wrt (precedes (bid l)) (xs @ ys)"
    using book_repD(1) [OF rep, of l] ps by (simp add: prices_ok_def)
  note split = sorted_split [OF this ord(1) [rule_format] ord(2) [rule_format]]
  have "insert_ok bid g sp l p k q xs ys"
    using insert rep ps split(1) by (simp add: insert_ok_def)
  from rep_insert [OF this] show ?thesis
    using insert split ps hints by (simp add: prices_before_def prices_after_def)
next
  case (append l p lv t k q)
  then have "append_ok bid g sp l p k q t lv" using rep by (simp add: append_ok_def)
  from rep_append [OF this] append show ?thesis by simp
next
  case (part l p lv k a)
  then have "take_ok bid g sp l p k a"
    using rep first_in_queue [OF rep part(4,5)] by (simp add: take_ok_def)
  from rep_take [OF this] part show ?thesis by simp
next
  case (full l p lv k r left)
  have "k \<in> set (sp_queue sp (l, p))" by (rule first_in_queue [OF rep full(4,5)])
  then have "remove_ok bid g sp l p k r lv"
    using rep full queue_member [OF rep, of l p k thesis] unfolding remove_ok_def
    by (metis option.distinct(1) option.inject queue_member)
  from rep_remove [OF this] full show ?thesis by simp
next
  case (cancel k r l p lv left)
  then have "remove_ok bid g sp l p k r lv" using rep by (simp add: remove_ok_def)
  from rep_remove [OF this] cancel show ?thesis by simp
qed

lemma gstep_inv: "gstep bid g e g' \<Longrightarrow> book_inv bid g \<Longrightarrow> book_inv bid g'"
  unfolding book_inv_def by (blast intro: gstep_sound)

section \<open>Price-time priority\<close>

text \<open>The head of the best level comes before every other open order of its list: a better
  price, or the same price and an older id.\<close>

lemma head_is_first:
  assumes inv: "book_inv bid g" and best: "gb_best g l = Some p"
    and lv: "gb_levels g (l, p) = Some lv" and head: "gl_first lv = Some k"
    and other: "gb_orders g k' = Some r'" "go_open r'" "go_list r' = l" "k' \<noteq> k"
  shows "precedes (bid l) p (go_price r') \<or> (go_price r' = p \<and> id_of g k < unat (go_id r'))"
proof -
  obtain sp where rep: "book_rep bid g sp" using inv by (auto simp: book_inv_def)
  let ?ps = "sp_prices sp l"
  have ok: "prices_ok bid g l ?ps" by (rule book_repD(1) [OF rep])
  have "go_price r' \<in> set ?ps" and q': "k' \<in> set (sp_queue sp (l, go_price r'))"
    using open_order_in_queue [OF rep other(1,2)] price_iff_level [OF rep] other(3) by auto
  have "first_of ?ps = Some p" using ok best by (simp add: prices_ok_def)
  then obtain rest where ps: "?ps = p # rest" by (auto simp: first_of_Some)
  show ?thesis
  proof (cases "go_price r' = p")
    case False
    with ps \<open>go_price r' \<in> set ?ps\<close> ok show ?thesis by (auto simp: prices_ok_def)
  next
    case True
    obtain q where q: "sp_queue sp (l, p) = k # q"
      using first_in_queue [OF rep lv head] by (auto simp: first_of_Some)
    with q' True other(4) have "k' \<in> set q" by auto
    moreover have "sorted_wrt (\<lambda>a b. id_of g a < id_of g b) (k # q)"
      using book_repD(3) [OF rep lv] q by (simp add: queue_ok_def)
    ultimately show ?thesis using True other(1) by (auto simp: id_of_def)
  qed
qed

text \<open>A head always exists where the best price is set, and its level has an open order: the
  book cannot get stuck with an empty best level.\<close>

lemma best_has_head:
  assumes inv: "book_inv bid g" and best: "gb_best g l = Some p"
  shows "\<exists>lv k r. gb_levels g (l, p) = Some lv \<and> gl_first lv = Some k \<and>
      gb_orders g k = Some r \<and> go_open r \<and> go_list r = l \<and> go_price r = p \<and> 0 < go_remaining r"
proof -
  obtain sp where rep: "book_rep bid g sp" using inv by (auto simp: book_inv_def)
  have "p \<in> set (sp_prices sp l)"
    using book_repD(1) [OF rep, of l] best by (auto simp: prices_ok_def intro: first_of_in)
  then obtain lv where lv: "gb_levels g (l, p) = Some lv" using price_iff_level [OF rep] by auto
  have "sp_queue sp (l, p) \<noteq> []" "gl_first lv = first_of (sp_queue sp (l, p))"
    using book_repD(2,3) [OF rep lv] by (simp_all add: level_ok_def queue_ok_def)
  then obtain k where k: "gl_first lv = Some k" "k \<in> set (sp_queue sp (l, p))"
    by (metis first_of_None first_of_in not_None_eq)
  have "gb_levels g (l, p) \<noteq> None" using lv by simp
  from queue_member [OF rep this k(2)] lv k show ?thesis by metis
qed

text \<open>Two representations of one index agree on the price lists and on every live queue.\<close>

lemma sorted_wrt_unique:
  assumes "sorted_wrt R xs" "sorted_wrt R ys" "set xs = set ys"
    and asym: "\<And>a b. R a b \<Longrightarrow> \<not> R b a"
  shows "xs = ys"
  using assms(1-3)
proof (induction xs arbitrary: ys)
  case Nil
  then show ?case by simp
next
  case (Cons x xs)
  then obtain y zs where ys: "ys = y # zs" by (cases ys) auto
  have xy: "x = y"
    using Cons.prems asym unfolding ys by (metis insert_iff list.simps(15) sorted_wrt.simps(2))
  have "\<not> R a a" for a using asym by blast
  then have "x \<notin> set xs" "y \<notin> set zs" using Cons.prems(1,2) by (auto simp: ys)
  then have "set xs = set zs" using Cons.prems(3) xy by (auto simp: ys)
  with Cons xy show ?case by (simp add: ys)
qed

lemma book_rep_unique:
  assumes "book_rep bid g sp" "book_rep bid g sp'"
  shows "sp_prices sp l = sp_prices sp' l"
    and "p \<in> set (sp_prices sp l) \<Longrightarrow> sp_queue sp (l, p) = sp_queue sp' (l, p)"
proof -
  show "sp_prices sp l = sp_prices sp' l"
    by (rule sorted_wrt_unique [where R = "precedes (bid l)"])
      (use assms book_repD(1) [of bid g] price_iff_level [of bid g] in
        \<open>auto simp: prices_ok_def dest: precedes_asym\<close>)
next
  assume "p \<in> set (sp_prices sp l)"
  then have lv: "gb_levels g (l, p) \<noteq> None" using price_iff_level [OF assms(1)] by simp
  have mem: "k \<in> set (sp_queue s (l, p)) \<longleftrightarrow>
      (\<exists>r. gb_orders g k = Some r \<and> go_open r \<and> go_list r = l \<and> go_price r = p)"
    if rep: "book_rep bid g s" for s k
    using queue_member [OF rep lv] open_order_in_queue(2) [OF rep] by metis
  show "sp_queue sp (l, p) = sp_queue sp' (l, p)"
    by (rule sorted_wrt_unique [where R = "\<lambda>a b. id_of g a < id_of g b"])
      (use lv assms book_repD(3) [of bid g] mem [OF assms(1)] mem [OF assms(2)] in
        \<open>auto simp: queue_ok_def\<close>)
qed

lemma priority_list_unique:
  assumes "book_rep bid g sp" "book_rep bid g sp'"
  shows "priority_list sp l = priority_list sp' l"
proof -
  have "map (\<lambda>p. sp_queue sp (l, p)) (sp_prices sp l) = map (\<lambda>p. sp_queue sp' (l, p)) (sp_prices sp l)"
    using book_rep_unique(2) [OF assms] by simp
  then show ?thesis unfolding priority_list_def using book_rep_unique(1) [OF assms] by metis
qed

section \<open>The interface of a book\<close>

text \<open>
  What the program's instructions promise of the book they edit: on a well-formed store, each
  successful instruction is one event of the index. The lemmas below hold for every such book.
\<close>

locale order_book =
  fixes bid :: "'l \<Rightarrow> bool"
    and view :: "'s \<Rightarrow> 'l gbook"
    and wf :: "'s \<Rightarrow> bool"
    and step :: "'s \<Rightarrow> 'l gevent \<Rightarrow> 's \<Rightarrow> bool"
  assumes refines: "wf s \<Longrightarrow> book_inv bid (view s) \<Longrightarrow> step s e t \<Longrightarrow> gstep bid (view s) e (view t)"
    and keeps_wf: "wf s \<Longrightarrow> step s e t \<Longrightarrow> wf t"
begin

lemma step_simulates:
  assumes "wf s" "book_rep bid (view s) sp" "step s e t"
  shows "book_rep bid (view t) (spec_event bid e sp)"
proof -
  have "book_inv bid (view s)" using assms(2) by (auto simp: book_inv_def)
  from gstep_sound [OF refines [OF assms(1) this assms(3)] assms(2)] show ?thesis .
qed

lemma step_book_inv:
  "wf s \<Longrightarrow> book_inv bid (view s) \<Longrightarrow> step s e t \<Longrightarrow> book_inv bid (view t)"
  by (rule gstep_inv [OF refines])

lemma fill_takes_first:
  assumes wf: "wf s" and inv: "book_inv bid (view s)"
    and step: "step s (GFillPart l p k a) t \<or> step s (GFillAll l p k) t"
    and other: "gb_orders (view s) k' = Some r'" "go_open r'" "go_list r' = l" "k' \<noteq> k"
  shows "precedes (bid l) p (go_price r') \<or> (go_price r' = p \<and> id_of (view s) k < unat (go_id r'))"
proof -
  have "\<exists>lv. gb_best (view s) l = Some p \<and> gb_levels (view s) (l, p) = Some lv \<and> gl_first lv = Some k"
    using step
  proof
    assume "step s (GFillPart l p k a) t"
    from refines [OF wf inv this] show ?thesis by (auto elim: gstep_partE)
  next
    assume "step s (GFillAll l p k) t"
    from refines [OF wf inv this] show ?thesis by (auto elim: gstep_fullE)
  qed
  then show ?thesis using head_is_first [OF inv _ _ _ other] by blast
qed

end

sublocale order_book \<subseteq> transition_invariant
  "\<lambda>s. wf s \<and> book_inv bid (view s)" "\<lambda>s t. \<exists>e. step s e t" "\<lambda>s. wf s \<and> book_inv bid (view s)"
  by unfold_locales (auto intro: keeps_wf step_book_inv)

end
