(* ===== verification/Pda.thy ===== *)
theory Pda
  imports State
begin

text \<open>
  Program-derived addresses: the seed constants of \<open>constants.rs\<close>, the derivation helpers of
  \<open>pda.rs\<close>, and the seed lists the account contexts spell out in place. The hash behind
  \<open>find_program_address\<close> is the runtime's; it sees the concatenated seed bytes. The main fact
  here is that the program never presents the same bytes for two different purposes.
\<close>

definition ascii :: "string \<Rightarrow> bytes" where
  "ascii s = map (\<lambda>c. of_nat (of_char c)) s"

definition MARKET_SEED :: bytes where "MARKET_SEED = ascii ''market''"
definition PREDICTION_MARKET_SEED :: bytes where "PREDICTION_MARKET_SEED = ascii ''prediction_market''"
definition PREDICTION_POSITION_SEED :: bytes where "PREDICTION_POSITION_SEED = ascii ''prediction_position''"
definition PREDICTION_BOOK_SEED :: bytes where "PREDICTION_BOOK_SEED = ascii ''prediction_book''"
definition PREDICTION_PRICE_LEVEL_SEED :: bytes where "PREDICTION_PRICE_LEVEL_SEED = ascii ''prediction_level''"
definition PREDICTION_ORDER_SEED :: bytes where "PREDICTION_ORDER_SEED = ascii ''prediction_order''"
definition MARKET_METADATA_SEED :: bytes where "MARKET_METADATA_SEED = ascii ''market_metadata''"
definition ORDER_SEED :: bytes where "ORDER_SEED = ascii ''order''"
definition PROTOCOL_CONFIG_SEED :: bytes where "PROTOCOL_CONFIG_SEED = ascii ''protocol_config''"
definition ADMIN_SEED :: bytes where "ADMIN_SEED = ascii ''admin''"
definition VAULT_AUTHORITY_SEED :: bytes where "VAULT_AUTHORITY_SEED = ascii ''vault-authority''"
definition VAULT_SEED :: bytes where "VAULT_SEED = ascii ''vault''"
definition PRICE_LEVEL_SEED :: bytes where "PRICE_LEVEL_SEED = ascii ''price_level''"
definition TRADER_BALANCE_SEED :: bytes where "TRADER_BALANCE_SEED = ascii ''trader_balance''"
definition MARKET_FEES_SEED :: bytes where "MARKET_FEES_SEED = ascii ''market_fees''"
definition TEST_FAUCET_SEED :: bytes where "TEST_FAUCET_SEED = ascii ''test_faucet''"
definition TEST_FAUCET_AUTHORITY_SEED :: bytes where "TEST_FAUCET_AUTHORITY_SEED = ascii ''test_faucet_authority''"
definition ASSET_BALANCE_SEED :: bytes where "ASSET_BALANCE_SEED = ascii ''asset_balance''"
definition ASSET_VAULT_SEED :: bytes where "ASSET_VAULT_SEED = ascii ''asset_vault''"
definition ASSET_AUTHORITY_SEED :: bytes where "ASSET_AUTHORITY_SEED = ascii ''asset_authority''"
definition SHARED_BOOK_SEED :: bytes where "SHARED_BOOK_SEED = ascii ''shared_book''"
definition SHARED_ORDER_SEED :: bytes where "SHARED_ORDER_SEED = ascii ''shared_order''"
definition SHARED_LEVEL_SEED :: bytes where "SHARED_LEVEL_SEED = ascii ''shared_level''"

fun side_seed :: "OrderSide \<Rightarrow> bytes" where
  "side_seed Bid = ascii ''bid''"
| "side_seed Ask = ascii ''ask''"

fun outcome_seed :: "PredictionOutcome \<Rightarrow> bytes" where
  "outcome_seed YesOutcome = ascii ''yes''"
| "outcome_seed NoOutcome = ascii ''no''"

fun shared_outcome_seed :: "SharedOutcome \<Rightarrow> bytes" where
  "shared_outcome_seed SpotList = ascii ''spot''"
| "shared_outcome_seed YesList = ascii ''yes''"
| "shared_outcome_seed NoList = ascii ''no''"

section \<open>The helpers of pda.rs\<close>

definition derive_prediction_book_pda :: "runtime \<Rightarrow> pubkey \<Rightarrow> pubkey \<Rightarrow> pubkey \<times> u8" where
  "derive_prediction_book_pda rt pid market =
     find_program_address rt [PREDICTION_BOOK_SEED, key_bytes market] pid"

definition derive_prediction_price_level_pda ::
  "runtime \<Rightarrow> pubkey \<Rightarrow> pubkey \<Rightarrow> PredictionOutcome \<Rightarrow> OrderSide \<Rightarrow> u64 \<Rightarrow> pubkey \<times> u8" where
  "derive_prediction_price_level_pda rt pid market outcome side price =
     find_program_address rt
       [PREDICTION_PRICE_LEVEL_SEED, key_bytes market, outcome_seed outcome, side_seed side,
        to_le_bytes price] pid"

definition derive_prediction_order_pda :: "runtime \<Rightarrow> pubkey \<Rightarrow> pubkey \<Rightarrow> u64 \<Rightarrow> pubkey \<times> u8" where
  "derive_prediction_order_pda rt pid market order_id =
     find_program_address rt [PREDICTION_ORDER_SEED, key_bytes market, to_le_bytes order_id] pid"

definition derive_price_level_pda ::
  "runtime \<Rightarrow> pubkey \<Rightarrow> pubkey \<Rightarrow> OrderSide \<Rightarrow> u64 \<Rightarrow> pubkey \<times> u8" where
  "derive_price_level_pda rt pid market side price =
     find_program_address rt
       [PRICE_LEVEL_SEED, key_bytes market, side_seed side, to_le_bytes price] pid"

definition derive_trader_balance_pda :: "runtime \<Rightarrow> pubkey \<Rightarrow> pubkey \<Rightarrow> pubkey \<Rightarrow> pubkey \<times> u8" where
  "derive_trader_balance_pda rt pid market owner =
     find_program_address rt [TRADER_BALANCE_SEED, key_bytes market, key_bytes owner] pid"

definition derive_market_fees_pda :: "runtime \<Rightarrow> pubkey \<Rightarrow> pubkey \<Rightarrow> pubkey \<times> u8" where
  "derive_market_fees_pda rt pid market =
     find_program_address rt [MARKET_FEES_SEED, key_bytes market] pid"

definition derive_market_metadata_pda :: "runtime \<Rightarrow> pubkey \<Rightarrow> pubkey \<Rightarrow> pubkey \<times> u8" where
  "derive_market_metadata_pda rt pid market =
     find_program_address rt [MARKET_METADATA_SEED, key_bytes market] pid"

definition derive_prediction_market_pda :: "runtime \<Rightarrow> pubkey \<Rightarrow> hash32 \<Rightarrow> pubkey \<times> u8" where
  "derive_prediction_market_pda rt pid market_id =
     find_program_address rt [PREDICTION_MARKET_SEED, key_bytes market_id] pid"

definition derive_prediction_position_pda ::
  "runtime \<Rightarrow> pubkey \<Rightarrow> pubkey \<Rightarrow> pubkey \<Rightarrow> pubkey \<times> u8" where
  "derive_prediction_position_pda rt pid market owner =
     find_program_address rt [PREDICTION_POSITION_SEED, key_bytes market, key_bytes owner] pid"

section \<open>Every address the program asks for\<close>

text \<open>One constructor per seed list that occurs in \<open>pda.rs\<close>, in an account context's
  \<open>seeds = [...]\<close> or in \<open>shared_trading.rs\<close>.\<close>

datatype pda_request =
    MarketPda pubkey pubkey
  | MarketFeesPda pubkey
  | MarketMetadataPda pubkey
  | VaultAuthorityPda pubkey
  | VaultPda pubkey pubkey
  | OrderPda pubkey u64
  | PriceLevelPda pubkey OrderSide u64
  | TraderBalancePda pubkey pubkey
  | ProtocolConfigPda
  | AdminPda pubkey
  | TestFaucetPda pubkey
  | TestFaucetAuthorityPda pubkey
  | PredictionMarketPda hash32
  | PredictionPositionPda pubkey pubkey
  | PredictionBookPda pubkey
  | PredictionLevelPda pubkey PredictionOutcome OrderSide u64
  | PredictionOrderPda pubkey u64
  | AssetBalancePda pubkey pubkey
  | AssetVaultPda pubkey
  | AssetAuthorityPda pubkey
  | SharedBookPda pubkey
  | SharedOrderPda pubkey u64
  | SharedLevelPda pubkey SharedOutcome OrderSide u64

fun seeds :: "pda_request \<Rightarrow> bytes list" where
  "seeds (MarketPda base quote) = [MARKET_SEED, key_bytes base, key_bytes quote]"
| "seeds (MarketFeesPda m) = [MARKET_FEES_SEED, key_bytes m]"
| "seeds (MarketMetadataPda m) = [MARKET_METADATA_SEED, key_bytes m]"
| "seeds (VaultAuthorityPda m) = [VAULT_AUTHORITY_SEED, key_bytes m]"
| "seeds (VaultPda m mint) = [VAULT_SEED, key_bytes m, key_bytes mint]"
| "seeds (OrderPda m order_id) = [ORDER_SEED, key_bytes m, to_le_bytes order_id]"
| "seeds (PriceLevelPda m side price) =
     [PRICE_LEVEL_SEED, key_bytes m, side_seed side, to_le_bytes price]"
| "seeds (TraderBalancePda m owner) = [TRADER_BALANCE_SEED, key_bytes m, key_bytes owner]"
| "seeds ProtocolConfigPda = [PROTOCOL_CONFIG_SEED]"
| "seeds (AdminPda a) = [ADMIN_SEED, key_bytes a]"
| "seeds (TestFaucetPda m) = [TEST_FAUCET_SEED, key_bytes m]"
| "seeds (TestFaucetAuthorityPda f) = [TEST_FAUCET_AUTHORITY_SEED, key_bytes f]"
| "seeds (PredictionMarketPda market_id) = [PREDICTION_MARKET_SEED, key_bytes market_id]"
| "seeds (PredictionPositionPda m owner) = [PREDICTION_POSITION_SEED, key_bytes m, key_bytes owner]"
| "seeds (PredictionBookPda m) = [PREDICTION_BOOK_SEED, key_bytes m]"
| "seeds (PredictionLevelPda m outcome side price) =
     [PREDICTION_PRICE_LEVEL_SEED, key_bytes m, outcome_seed outcome, side_seed side,
      to_le_bytes price]"
| "seeds (PredictionOrderPda m order_id) =
     [PREDICTION_ORDER_SEED, key_bytes m, to_le_bytes order_id]"
| "seeds (AssetBalancePda owner mint) = [ASSET_BALANCE_SEED, key_bytes owner, key_bytes mint]"
| "seeds (AssetVaultPda mint) = [ASSET_VAULT_SEED, key_bytes mint]"
| "seeds (AssetAuthorityPda mint) = [ASSET_AUTHORITY_SEED, key_bytes mint]"
| "seeds (SharedBookPda m) = [SHARED_BOOK_SEED, key_bytes m]"
| "seeds (SharedOrderPda b order_id) = [SHARED_ORDER_SEED, key_bytes b, to_le_bytes order_id]"
| "seeds (SharedLevelPda b outcome side price) =
     [SHARED_LEVEL_SEED, key_bytes b, shared_outcome_seed outcome, side_seed side,
      to_le_bytes price]"

definition pda :: "runtime \<Rightarrow> pda_request \<Rightarrow> pubkey \<times> u8" where
  "pda rt r = find_program_address rt (seeds r) (program_id rt)"

lemma derive_is_pda:
  "derive_prediction_book_pda rt (program_id rt) m = pda rt (PredictionBookPda m)"
  "derive_prediction_price_level_pda rt (program_id rt) m oc sd p = pda rt (PredictionLevelPda m oc sd p)"
  "derive_prediction_order_pda rt (program_id rt) m i = pda rt (PredictionOrderPda m i)"
  "derive_price_level_pda rt (program_id rt) m sd p = pda rt (PriceLevelPda m sd p)"
  "derive_trader_balance_pda rt (program_id rt) m w = pda rt (TraderBalancePda m w)"
  "derive_market_fees_pda rt (program_id rt) m = pda rt (MarketFeesPda m)"
  "derive_market_metadata_pda rt (program_id rt) m = pda rt (MarketMetadataPda m)"
  "derive_prediction_market_pda rt (program_id rt) h = pda rt (PredictionMarketPda h)"
  "derive_prediction_position_pda rt (program_id rt) m w = pda rt (PredictionPositionPda m w)"
  by (simp_all add: pda_def derive_prediction_book_pda_def derive_prediction_price_level_pda_def
      derive_prediction_order_pda_def derive_price_level_pda_def derive_trader_balance_pda_def
      derive_market_fees_pda_def derive_market_metadata_pda_def derive_prediction_market_pda_def
      derive_prediction_position_pda_def)

section \<open>Seed separation\<close>

lemma length_ascii [simp]: "length (ascii s) = length s"
  by (simp add: ascii_def)

lemma byte_of_char_inject: "(of_nat (of_char c) :: u8) = of_nat (of_char d) \<Longrightarrow> c = d"
proof -
  assume eq: "(of_nat (of_char c) :: u8) = of_nat (of_char d)"
  have small: "take_bit 8 (of_char e :: nat) = of_char e" for e
    by (simp add: take_bit_nat_eq_self_iff)
  have "unat (of_nat (of_char c) :: u8) = unat (of_nat (of_char d) :: u8)"
    by (simp only: eq)
  then have "(of_char c :: nat) = of_char d"
    by (simp add: unsigned_of_nat small)
  then show ?thesis by simp
qed

lemma ascii_inject [simp]: "ascii s = ascii t \<longleftrightarrow> s = t"
  by (auto simp: ascii_def dest: byte_of_char_inject intro: map_injective injI)

lemma ascii_prefix:
  "ascii s @ x = ascii t @ y \<Longrightarrow> take (min (length s) (length t)) s = take (min (length s) (length t)) t"
proof -
  let ?n = "min (length s) (length t)"
  assume "ascii s @ x = ascii t @ y"
  then have "take ?n (ascii s @ x) = take ?n (ascii t @ y)" by simp
  then have "ascii (take ?n s) = ascii (take ?n t)"
    by (simp add: ascii_def take_map)
  then show ?thesis by simp
qed

lemma ascii_len_neq: "ascii s @ x = ascii t @ y \<Longrightarrow> length s + length x = length t + length y"
  by (drule arg_cong [of _ _ length]) simp

lemmas seed_tags =
  MARKET_SEED_def PREDICTION_MARKET_SEED_def PREDICTION_POSITION_SEED_def PREDICTION_BOOK_SEED_def
  PREDICTION_PRICE_LEVEL_SEED_def PREDICTION_ORDER_SEED_def MARKET_METADATA_SEED_def ORDER_SEED_def
  PROTOCOL_CONFIG_SEED_def ADMIN_SEED_def VAULT_AUTHORITY_SEED_def VAULT_SEED_def
  PRICE_LEVEL_SEED_def TRADER_BALANCE_SEED_def MARKET_FEES_SEED_def TEST_FAUCET_SEED_def
  TEST_FAUCET_AUTHORITY_SEED_def ASSET_BALANCE_SEED_def ASSET_VAULT_SEED_def
  ASSET_AUTHORITY_SEED_def SHARED_BOOK_SEED_def SHARED_ORDER_SEED_def SHARED_LEVEL_SEED_def


text \<open>Distinct purposes start with different tags, or have different total lengths; within one
  purpose every part has a fixed width, but for the outcome words, whose lengths differ.\<close>

fun tag :: "pda_request \<Rightarrow> string" where
  "tag (MarketPda _ _) = ''market''"
| "tag (MarketFeesPda _) = ''market_fees''"
| "tag (MarketMetadataPda _) = ''market_metadata''"
| "tag (VaultAuthorityPda _) = ''vault-authority''"
| "tag (VaultPda _ _) = ''vault''"
| "tag (OrderPda _ _) = ''order''"
| "tag (PriceLevelPda _ _ _) = ''price_level''"
| "tag (TraderBalancePda _ _) = ''trader_balance''"
| "tag ProtocolConfigPda = ''protocol_config''"
| "tag (AdminPda _) = ''admin''"
| "tag (TestFaucetPda _) = ''test_faucet''"
| "tag (TestFaucetAuthorityPda _) = ''test_faucet_authority''"
| "tag (PredictionMarketPda _) = ''prediction_market''"
| "tag (PredictionPositionPda _ _) = ''prediction_position''"
| "tag (PredictionBookPda _) = ''prediction_book''"
| "tag (PredictionLevelPda _ _ _ _) = ''prediction_level''"
| "tag (PredictionOrderPda _ _) = ''prediction_order''"
| "tag (AssetBalancePda _ _) = ''asset_balance''"
| "tag (AssetVaultPda _) = ''asset_vault''"
| "tag (AssetAuthorityPda _) = ''asset_authority''"
| "tag (SharedBookPda _) = ''shared_book''"
| "tag (SharedOrderPda _ _) = ''shared_order''"
| "tag (SharedLevelPda _ _ _ _) = ''shared_level''"

definition tags :: "string list" where
  "tags = [''market'', ''market_fees'', ''market_metadata'', ''vault-authority'', ''vault'',
     ''order'', ''price_level'', ''trader_balance'', ''protocol_config'', ''admin'',
     ''test_faucet'', ''test_faucet_authority'', ''prediction_market'', ''prediction_position'',
     ''prediction_book'', ''prediction_level'', ''prediction_order'', ''asset_balance'',
     ''asset_vault'', ''asset_authority'', ''shared_book'', ''shared_order'', ''shared_level'']"

lemma tag_in_tags: "tag r \<in> set tags"
  by (cases r) (simp_all add: tags_def)

lemma concat_seeds: "concat (seeds r) = ascii (tag r) @ concat (tl (seeds r))"
  by (cases r) (simp_all add: seed_tags)

text \<open>Which tags are prefixes of one another.\<close>

lemma tag_prefixes:
  "list_all (\<lambda>s. list_all (\<lambda>t.
     take (min (length s) (length t)) s = take (min (length s) (length t)) t \<longrightarrow>
       s = t \<or> {s, t} \<in> {{''market'', ''market_fees''}, {''market'', ''market_metadata''},
         {''vault'', ''vault-authority''}, {''test_faucet'', ''test_faucet_authority''}}) tags) tags"
  by (simp add: tags_def doubleton_eq_iff)

lemma length_side_seed [simp]: "length (side_seed sd) = 3"
  by (cases sd) simp_all

lemma side_seed_inject [simp]: "side_seed a = side_seed b \<longleftrightarrow> a = b"
  by (cases a; cases b) simp_all

lemma length_seeds_tail:
  "length (concat (tl (seeds r))) =
     (case r of
        MarketPda _ _ \<Rightarrow> 64 | MarketFeesPda _ \<Rightarrow> 32 | MarketMetadataPda _ \<Rightarrow> 32
      | VaultAuthorityPda _ \<Rightarrow> 32 | VaultPda _ _ \<Rightarrow> 64 | OrderPda _ _ \<Rightarrow> 40
      | PriceLevelPda _ _ _ \<Rightarrow> 43 | TraderBalancePda _ _ \<Rightarrow> 64 | ProtocolConfigPda \<Rightarrow> 0
      | AdminPda _ \<Rightarrow> 32 | TestFaucetPda _ \<Rightarrow> 32 | TestFaucetAuthorityPda _ \<Rightarrow> 32
      | PredictionMarketPda _ \<Rightarrow> 32 | PredictionPositionPda _ _ \<Rightarrow> 64
      | PredictionBookPda _ \<Rightarrow> 32
      | PredictionLevelPda _ oc _ _ \<Rightarrow> 43 + length (outcome_seed oc)
      | PredictionOrderPda _ _ \<Rightarrow> 40 | AssetBalancePda _ _ \<Rightarrow> 64 | AssetVaultPda _ \<Rightarrow> 32
      | AssetAuthorityPda _ \<Rightarrow> 32 | SharedBookPda _ \<Rightarrow> 32 | SharedOrderPda _ _ \<Rightarrow> 40
      | SharedLevelPda _ oc _ _ \<Rightarrow> 43 + length (shared_outcome_seed oc))"
  by (cases r) simp_all

lemma tag_MARKET: "tag r = ''market'' \<longleftrightarrow> (\<exists>a b. r = MarketPda a b)" by (cases r) simp_all
lemma tag_FEES: "tag r = ''market_fees'' \<longleftrightarrow> (\<exists>a. r = MarketFeesPda a)" by (cases r) simp_all
lemma tag_META: "tag r = ''market_metadata'' \<longleftrightarrow> (\<exists>a. r = MarketMetadataPda a)" by (cases r) simp_all
lemma tag_VAUTH: "tag r = ''vault-authority'' \<longleftrightarrow> (\<exists>a. r = VaultAuthorityPda a)" by (cases r) simp_all
lemma tag_VAULT: "tag r = ''vault'' \<longleftrightarrow> (\<exists>a b. r = VaultPda a b)" by (cases r) simp_all
lemma tag_FAUCET: "tag r = ''test_faucet'' \<longleftrightarrow> (\<exists>a. r = TestFaucetPda a)" by (cases r) simp_all
lemma tag_FAUTH: "tag r = ''test_faucet_authority'' \<longleftrightarrow> (\<exists>a. r = TestFaucetAuthorityPda a)" by (cases r) simp_all

lemma same_bytes_same_tag:
  assumes eq: "concat (seeds a) = concat (seeds b)"
  shows "tag a = tag b"
proof (rule ccontr)
  assume ne: "tag a \<noteq> tag b"
  have bytes: "ascii (tag a) @ concat (tl (seeds a)) = ascii (tag b) @ concat (tl (seeds b))"
    using eq by (simp only: concat_seeds)
  have "{tag a, tag b} \<in> {{''market'', ''market_fees''}, {''market'', ''market_metadata''},
         {''vault'', ''vault-authority''}, {''test_faucet'', ''test_faucet_authority''}}"
    using tag_prefixes tag_in_tags [of a] tag_in_tags [of b] ascii_prefix [OF bytes] ne
    by (simp only: list_all_iff) blast
  then show False
    using ascii_len_neq [OF bytes]
    by (auto simp: doubleton_eq_iff tag_MARKET tag_FEES tag_META tag_VAUTH tag_VAULT tag_FAUCET
        tag_FAUTH length_seeds_tail)
qed

lemma outcome_seed_append:
  "outcome_seed a @ side_seed s @ to_le_bytes p = outcome_seed b @ side_seed t @ to_le_bytes q
     \<longleftrightarrow> a = b \<and> s = t \<and> p = q"
proof
  assume eq: "outcome_seed a @ side_seed s @ to_le_bytes p = outcome_seed b @ side_seed t @ to_le_bytes q"
  then have "length (outcome_seed a) = length (outcome_seed b)" by (drule_tac arg_cong [of _ _ length]) simp
  then have "a = b" by (cases a; cases b) simp_all
  with eq show "a = b \<and> s = t \<and> p = q" by simp
qed simp

lemma shared_outcome_seed_append:
  "shared_outcome_seed a @ side_seed s @ to_le_bytes p = shared_outcome_seed b @ side_seed t @ to_le_bytes q
     \<longleftrightarrow> a = b \<and> s = t \<and> p = q"
proof
  assume eq: "shared_outcome_seed a @ side_seed s @ to_le_bytes p = shared_outcome_seed b @ side_seed t @ to_le_bytes q"
  then have "length (shared_outcome_seed a) = length (shared_outcome_seed b)"
    by (drule_tac arg_cong [of _ _ length]) simp
  then have "a = b" by (cases a; cases b) simp_all
  with eq show "a = b \<and> s = t \<and> p = q" by simp
qed simp

lemma seeds_tail_inject:
  assumes "tag a = tag b" and "concat (tl (seeds a)) = concat (tl (seeds b))"
  shows "a = b"
  using assms
  by (cases a; cases b; simp add: outcome_seed_append shared_outcome_seed_append)

lemma seed_bytes_injective: "concat (seeds a) = concat (seeds b) \<longleftrightarrow> a = b"
proof
  assume eq: "concat (seeds a) = concat (seeds b)"
  then have t: "tag a = tag b" by (rule same_bytes_same_tag)
  with eq have "concat (tl (seeds a)) = concat (tl (seeds b))"
    by (simp only: concat_seeds [of a] concat_seeds [of b]) simp
  with t show "a = b" by (rule seeds_tail_inject)
qed simp

text \<open>C8: Addresses of distinct purposes or parameters never share their seed bytes. The program
  passes the runtime the concatenation of a request's seeds; two requests of any kinds (markets,
  vaults, orders, levels, balances, prediction and shared accounts) concatenate to the same
  bytes exactly when they are the same request.\<close>

theorem pda_seeds_separate: "concat (seeds a) = concat (seeds b) \<longleftrightarrow> a = b"
  by (rule seed_bytes_injective)

text \<open>
  The runtime's hash is collision free on a set of requests when equal addresses come from
  equal bytes. No hash into 32 bytes is collision free on all requests, so the assumption is
  always made for the addresses of one kind inside one market or book.
\<close>

definition collision_free_on :: "runtime \<Rightarrow> pda_request set \<Rightarrow> bool" where
  "collision_free_on rt S \<longleftrightarrow>
     (\<forall>a\<in>S. \<forall>b\<in>S. fst (pda rt a) = fst (pda rt b) \<longrightarrow> concat (seeds a) = concat (seeds b))"

lemma collision_freeD:
  "collision_free_on rt S \<Longrightarrow> a \<in> S \<Longrightarrow> b \<in> S \<Longrightarrow> fst (pda rt a) = fst (pda rt b) \<longleftrightarrow> a = b"
  by (auto simp: collision_free_on_def seed_bytes_injective)


section \<open>A concrete derivation\<close>

text \<open>
  A computable stand-in for the hash, used where a hypothesis about the runtime is to be shown
  satisfiable: the address is read from the last 32 seed bytes. For a fixed market or book it
  is collision free on orders and on price levels.
\<close>

lemma bit_from_le_bytes:
  "bit (from_le_bytes bs :: 'a::len word) n \<longleftrightarrow>
     n < LENGTH('a) \<and> n div 8 < length bs \<and> bit (bs ! (n div 8)) (n mod 8)"
proof (induction bs arbitrary: n)
  case Nil
  then show ?case by simp
next
  case (Cons b bs)
  show ?case
  proof (cases "n < 8")
    case True
    then show ?thesis by (auto simp: bit_or_iff bit_ucast_iff bit_push_bit_iff)
  next
    case False
    then have d: "n div 8 = Suc ((n - 8) div 8)" "n mod 8 = (n - 8) mod 8"
      by (simp_all add: le_div_geq le_mod_geq)
    have "\<not> bit b n" using False by (auto dest: bit_imp_le_length)
    with False show ?thesis
      by (auto simp: bit_or_iff bit_ucast_iff bit_push_bit_iff Cons.IH d)
  qed
qed

lemma from_le_bytes_inject:
  assumes len: "length a = length b" "length a \<le> 32"
    and eq: "(from_le_bytes a :: pubkey) = from_le_bytes b"
  shows "a = b"
proof (rule nth_equalityI [OF len(1)], rule bit_word_eqI)
  fix i j
  assume i: "i < length a" and j: "j < LENGTH(8)"
  have ij: "(8 * i + j) div 8 = i" "(8 * i + j) mod 8 = j" "8 * i + j < 256"
    using i j len by simp_all
  show "bit (a ! i) j = bit (b ! i) j"
    using arg_cong [OF eq, of "\<lambda>w. bit w (8 * i + j)"] i len(1) ij
    by (simp add: bit_from_le_bytes)
qed

definition example_find :: "bytes list \<Rightarrow> pubkey \<Rightarrow> pubkey \<times> u8" where
  "example_find ss pid = (from_le_bytes (take 32 (rev (concat ss))), 255)"

definition example_runtime :: "i64 \<Rightarrow> runtime" where
  "example_runtime now =
     \<lparr>find_program_address = example_find, program_id = 1, unix_timestamp = now\<rparr>"

lemma example_address_inject:
  assumes "fst (pda (example_runtime now) a) = fst (pda (example_runtime now) b)"
    and "32 \<le> length (concat (seeds a))" "32 \<le> length (concat (seeds b))"
  shows "take 32 (rev (concat (seeds a))) = take 32 (rev (concat (seeds b)))"
  using assms
  by (intro from_le_bytes_inject) (simp_all add: pda_def example_runtime_def example_find_def)

lemma example_collision_free_orders:
  "collision_free_on (example_runtime now) (range (OrderPda m))"
  unfolding collision_free_on_def
proof (intro ballI impI)
  fix a b
  assume "a \<in> range (OrderPda m)" "b \<in> range (OrderPda m)"
    and eq: "fst (pda (example_runtime now) a) = fst (pda (example_runtime now) b)"
  then obtain i j where ab: "a = OrderPda m i" "b = OrderPda m j" by blast
  have "take 8 (take 32 (rev (concat (seeds a)))) = take 8 (take 32 (rev (concat (seeds b))))"
    using example_address_inject [OF eq] by (simp add: ab seed_tags)
  then show "concat (seeds a) = concat (seeds b)" by (simp add: ab)
qed

lemma example_collision_free_levels:
  "collision_free_on (example_runtime now) (range (\<lambda>(sd, p). PriceLevelPda m sd p))"
  unfolding collision_free_on_def
proof (intro ballI impI)
  fix a b
  assume "a \<in> range (\<lambda>(sd, p). PriceLevelPda m sd p)" "b \<in> range (\<lambda>(sd, p). PriceLevelPda m sd p)"
    and eq: "fst (pda (example_runtime now) a) = fst (pda (example_runtime now) b)"
  then obtain s p t q where ab: "a = PriceLevelPda m s p" "b = PriceLevelPda m t q" by auto
  have "take 11 (take 32 (rev (concat (seeds a)))) = take 11 (take 32 (rev (concat (seeds b))))"
    using example_address_inject [OF eq] by (simp add: ab seed_tags)
  then have "rev (side_seed s @ to_le_bytes p) = rev (side_seed t @ to_le_bytes q)"
    by (simp add: ab)
  then show "concat (seeds a) = concat (seeds b)" by (simp add: ab)
qed

lemma example_collision_free_balances:
  "collision_free_on (example_runtime now) (range (TraderBalancePda m))"
  unfolding collision_free_on_def
proof (intro ballI impI)
  fix a b
  assume "a \<in> range (TraderBalancePda m)" "b \<in> range (TraderBalancePda m)"
    and eq: "fst (pda (example_runtime now) a) = fst (pda (example_runtime now) b)"
  then obtain v w where ab: "a = TraderBalancePda m v" "b = TraderBalancePda m w" by auto
  have "rev (key_bytes v) = rev (key_bytes w)"
    using example_address_inject [OF eq] by (simp add: ab)
  then show "concat (seeds a) = concat (seeds b)" by (simp add: ab)
qed

end
