(* ===== verification/Accounts.thy ===== *)
theory Accounts
  imports Pda
begin

text \<open>
  The Anchor account layer. An instruction names its accounts by address; the program reads
  the ones that exist with the right discriminator (here: one map per account type), refuses
  writable accounts named twice, checks seeds, runs the handler on the deserialized values, and
  writes them back. A failed instruction changes nothing: it returns the error.

  \<open>seeds = [...], bump = x.bump\<close> is checked against the canonical derivation. The program
  stores in \<open>bump\<close> what \<open>find_program_address\<close> returned when it created the account, so the
  two derivations agree on every account the program owns.
\<close>

definition load :: "(pubkey \<Rightarrow> 'a option) \<Rightarrow> pubkey \<Rightarrow> ('a account \<Rightarrow> 'b res) \<Rightarrow> 'b res" where
  "load m k f = ok_or (m k) AccountNotInitialized (\<lambda>v. f (Account k v))"

definition load_opt ::
  "(pubkey \<Rightarrow> 'a option) \<Rightarrow> pubkey option \<Rightarrow> ('a account option \<Rightarrow> 'b res) \<Rightarrow> 'b res" where
  "load_opt m ko f = (case ko of None \<Rightarrow> f None | Some k \<Rightarrow> load m k (\<lambda>a. f (Some a)))"

definition save :: "'a account \<Rightarrow> (pubkey \<Rightarrow> 'a option) \<Rightarrow> pubkey \<Rightarrow> 'a option" where
  "save a m = m(key a \<mapsto> inner a)"

definition save_opt :: "'a account option \<Rightarrow> (pubkey \<Rightarrow> 'a option) \<Rightarrow> pubkey \<Rightarrow> 'a option" where
  "save_opt ao m = (case ao of None \<Rightarrow> m | Some a \<Rightarrow> save a m)"

definition keys_of :: "pubkey option list \<Rightarrow> pubkey list" where
  "keys_of ks = concat (map (\<lambda>k. case k of None \<Rightarrow> [] | Some x \<Rightarrow> [x]) ks)"

definition address :: "runtime \<Rightarrow> pda_request \<Rightarrow> pubkey" where
  "address rt r = fst (pda rt r)"

lemma load_Inr [run_simps]: "load m k f = Inr y \<longleftrightarrow> (\<exists>v. m k = Some v \<and> f (Account k v) = Inr y)"
  by (simp add: load_def ok_or_Inr)

text \<open>An optional account that was named is the stored one.\<close>

definition loaded :: "(pubkey \<Rightarrow> 'a option) \<Rightarrow> pubkey option \<Rightarrow> 'a account option \<Rightarrow> bool" where
  "loaded m ko ao \<longleftrightarrow> map_option key ao = ko \<and> (\<forall>a. ao = Some a \<longrightarrow> m (key a) = Some (inner a))"

lemma load_opt_Inr [run_simps]:
  "load_opt m ko f = Inr y \<longleftrightarrow> (\<exists>ao. loaded m ko ao \<and> f ao = Inr y)"
proof
  assume L: "load_opt m ko f = Inr y"
  show "\<exists>ao. loaded m ko ao \<and> f ao = Inr y"
  proof (cases ko)
    case None
    with L show ?thesis by (auto simp: load_opt_def loaded_def)
  next
    case (Some k)
    with L obtain v where v: "m k = Some v" "f (Some (Account k v)) = Inr y"
      by (auto simp: load_opt_def load_Inr)
    then show ?thesis
      by (intro exI [of _ "Some (Account k v)"]) (simp add: loaded_def Some)
  qed
next
  assume "\<exists>ao. loaded m ko ao \<and> f ao = Inr y"
  then obtain ao where ao: "loaded m ko ao" "f ao = Inr y" by blast
  then show "load_opt m ko f = Inr y"
  proof (cases ao)
    case None
    with ao show ?thesis by (simp add: load_opt_def loaded_def)
  next
    case (Some a)
    with ao have "ko = Some (key a)" "m (key a) = Some (inner a)" by (auto simp: loaded_def)
    with ao Some show ?thesis by (cases a) (simp add: load_opt_def load_def)
  qed
qed

lemma loaded_None [simp]: "loaded m ko None \<longleftrightarrow> ko = None"
  by (auto simp: loaded_def)

lemma loaded_Some [simp]: "loaded m ko (Some a) \<longleftrightarrow> ko = Some (key a) \<and> m (key a) = Some (inner a)"
  by (auto simp: loaded_def)

lemma save_apply: "save a m k = (if k = key a then Some (inner a) else m k)"
  by (simp add: save_def)

lemma save_opt_apply:
  "save_opt ao m k = (case ao of None \<Rightarrow> m k | Some a \<Rightarrow> if k = key a then Some (inner a) else m k)"
  by (simp add: save_opt_def save_apply split: option.splits)

lemma save_opt_upd:
  "loaded m ko ao \<Longrightarrow> save_opt (map_option (upd_inner f) ao) m' j =
     (if ko = Some j then map_option f (m j) else m' j)"
  by (cases ao) (auto simp: save_opt_apply)

lemma loaded_key: "loaded m ko ao \<Longrightarrow> map_option key ao = ko"
  by (simp add: loaded_def)

lemma keys_of_simps [simp]:
  "keys_of [] = []" "keys_of (None # ks) = keys_of ks" "keys_of (Some k # ks) = k # keys_of ks"
  by (simp_all add: keys_of_def)

lemma set_keys_of [simp]: "x \<in> set (keys_of ks) \<longleftrightarrow> Some x \<in> set ks"
  by (induction ks) (auto simp: keys_of_def split: option.splits)

lemma distinct_keys_of2 [simp]: "distinct (keys_of [a, b]) \<longleftrightarrow> (a = b \<longrightarrow> a = None)"
  by (cases a; cases b) (simp_all add: keys_of_def)

lemma address_eq:
  "collision_free_on rt S \<Longrightarrow> a \<in> S \<Longrightarrow> b \<in> S \<Longrightarrow> address rt a = address rt b \<longleftrightarrow> a = b"
  unfolding address_def by (rule collision_freeD)

end
