(* ===== verification/Book_Records.thy ===== *)
theory Book_Records
  imports Book_Steps Accounts
begin

text \<open>
  Books as account records. The accounts of an order book are records in two stores: orders, each
  naming its book, and price levels at the address of their list and price. \<open>book_records\<close> is the
  interface of such records; under it, what an instruction writes to single accounts is compared once
  with the edits of \<open>Book_Index\<close>, for every book of the program that is kept this way.
\<close>

definition orders_of ::
  "('o \<Rightarrow> bool) \<Rightarrow> ('o \<Rightarrow> 'l gorder) \<Rightarrow> (pubkey \<Rightarrow> 'o option) \<Rightarrow> pubkey \<Rightarrow> 'l gorder option" where
  "orders_of mine ov os k = (case os k of None \<Rightarrow> None | Some r \<Rightarrow> if mine r then Some (ov r) else None)"

definition levels_of ::
  "('l \<Rightarrow> u64 \<Rightarrow> pubkey) \<Rightarrow> ('v \<Rightarrow> glevel) \<Rightarrow> (pubkey \<Rightarrow> 'v option) \<Rightarrow> 'l \<times> u64 \<Rightarrow> glevel option" where
  "levels_of addr lview ls x = map_option lview (ls (addr (fst x) (snd x)))"

lemma orders_of_Some: "orders_of mine ov os k = Some x \<longleftrightarrow> (\<exists>r. os k = Some r \<and> mine r \<and> x = ov r)"
  by (auto simp: orders_of_def split: option.splits)

text \<open>Index equality, component by component: how each instruction's effect is compared with
  the edit it implements.\<close>

lemma gbook_eqI:
  assumes "\<And>k. gb_orders a k = gb_orders b k" "\<And>l p. gb_levels a (l, p) = gb_levels b (l, p)"
    and "\<And>l. gb_best a l = gb_best b l" "gb_next_id a = gb_next_id b" "gb_open a = gb_open b"
  shows "a = (b :: 'l gbook)"
proof -
  have "gb_orders a = gb_orders b" "gb_levels a = gb_levels b" "gb_best a = gb_best b"
    using assms(1,2,3) by (auto intro!: ext)
  with assms(4,5) show ?thesis by (cases a; cases b) simp
qed

text \<open>The stores a view of a book is taken from.\<close>

definition kept_in ::
  "('o \<Rightarrow> bool) \<Rightarrow> ('o \<Rightarrow> 'l gorder) \<Rightarrow> ('l \<Rightarrow> u64 \<Rightarrow> pubkey) \<Rightarrow> ('v \<Rightarrow> glevel) \<Rightarrow>
     (pubkey \<Rightarrow> 'o option) \<Rightarrow> (pubkey \<Rightarrow> 'v option) \<Rightarrow> 'l gbook \<Rightarrow> bool" where
  "kept_in mine ov addr lview os ls g \<longleftrightarrow>
     gb_orders g = orders_of mine ov os \<and> gb_levels g = levels_of addr lview ls"

lemma kept_inD:
  assumes "kept_in mine ov addr lview os ls g"
  shows "gb_orders g k = (case os k of None \<Rightarrow> None | Some r \<Rightarrow> if mine r then Some (ov r) else None)"
    and "gb_levels g (l, p) = map_option lview (ls (addr l p))"
  using assms by (simp_all add: kept_in_def orders_of_def levels_of_def)

locale book_records =
  fixes mine :: "'o \<Rightarrow> bool"
    and ov :: "'o \<Rightarrow> 'l gorder"
    and addr :: "'l \<Rightarrow> u64 \<Rightarrow> pubkey"
    and lview :: "'v \<Rightarrow> glevel"
    and set_prev :: "pubkey option \<Rightarrow> 'o \<Rightarrow> 'o"
    and set_next :: "pubkey option \<Rightarrow> 'o \<Rightarrow> 'o"
    and set_better :: "u64 option \<Rightarrow> 'v \<Rightarrow> 'v"
    and set_worse :: "u64 option \<Rightarrow> 'v \<Rightarrow> 'v"
  assumes mine_prev: "mine (set_prev x r) = mine r"
    and mine_next: "mine (set_next x r) = mine r"
    and ov_prev: "ov (set_prev x r) = (ov r)\<lparr>go_prev := x\<rparr>"
    and ov_next: "ov (set_next x r) = (ov r)\<lparr>go_next := x\<rparr>"
    and lview_better: "lview (set_better y v) = (lview v)\<lparr>gl_better := y\<rparr>"
    and lview_worse: "lview (set_worse y v) = (lview v)\<lparr>gl_worse := y\<rparr>"
begin

lemma insert_view:
  assumes kept: "kept_in mine ov addr lview os ls g" "kept_in mine ov addr lview os' ls' g'"
    and os': "\<And>j. os' j = (if j = k then Some r' else os j)"
    and r': "mine r'" "ov r' = new_gorder l p (gb_next_id g) None q"
    and ls': "\<And>l' p'. ls' (addr l' p') = (if l' = l \<and> p' = p then Some v'
      else if l' = l \<and> wp = Some p' then map_option (set_better (Some p)) (ls (addr l' p'))
      else if l' = l \<and> bp = Some p' then map_option (set_worse (Some p)) (ls (addr l' p'))
      else ls (addr l' p'))"
    and v': "lview v' = \<lparr>gl_better = bp, gl_worse = wp, gl_first = Some k, gl_last = Some k,
      gl_total = q, gl_count = 1\<rparr>"
    and apart: "bp = wp \<longrightarrow> bp = None"
    and root: "gb_best g' = (if bp = None then (gb_best g)(l := Some p) else gb_best g)"
      "gb_next_id g' = gb_next_id g + 1" "gb_open g' = gb_open g + 1"
  shows "g' = g_insert l p k q bp wp g"
proof (rule gbook_eqI)
  show "gb_orders g' j = gb_orders (g_insert l p k q bp wp g) j" for j
    by (simp add: kept_inD(1) [OF kept(1)] kept_inD(1) [OF kept(2)] os' r' g_insert_orders)
  show "gb_levels g' (l', p') = gb_levels (g_insert l p k q bp wp g) (l', p')" for l' p'
    using apart
    by (cases "ls (addr l' p')")
      (auto simp: kept_inD(2) [OF kept(1)] kept_inD(2) [OF kept(2)] ls' v' g_insert_levels lview_better lview_worse)
qed (simp_all add: root g_insert_def)

lemma append_view:
  assumes kept: "kept_in mine ov addr lview os ls g" "kept_in mine ov addr lview os' ls' g'"
    and os': "\<And>j. os' j = (if j = k then Some r' else if j = t then map_option (set_next (Some k)) (os j) else os j)"
    and r': "mine r'" "ov r' = new_gorder l p (gb_next_id g) (Some t) q"
    and ls': "\<And>l' p'. ls' (addr l' p') = (if l' = l \<and> p' = p then Some v' else ls (addr l' p'))"
    and v: "ls (addr l p) = Some v"
    and v': "lview v' = (lview v)\<lparr>gl_last := Some k, gl_total := gl_total (lview v) + q,
      gl_count := gl_count (lview v) + 1\<rparr>"
    and root: "gb_best g' = gb_best g" "gb_next_id g' = gb_next_id g + 1" "gb_open g' = gb_open g + 1"
  shows "g' = g_append l p k q t g"
proof (rule gbook_eqI)
  show "gb_orders g' j = gb_orders (g_append l p k q t g) j" for j
    by (cases "os j")
      (auto simp: kept_inD(1) [OF kept(1)] kept_inD(1) [OF kept(2)] os' r' g_append_orders mine_next ov_next)
  show "gb_levels g' (l', p') = gb_levels (g_append l p k q t g) (l', p')" for l' p'
    using v by (auto simp: kept_inD(2) [OF kept(1)] kept_inD(2) [OF kept(2)] ls' v' g_append_levels)
qed (simp_all add: root g_append_def)

lemma take_view:
  assumes kept: "kept_in mine ov addr lview os ls g" "kept_in mine ov addr lview os' ls' g'"
    and os': "\<And>j. os' j = (if j = k then Some r' else os j)"
    and r: "os k = Some r" "mine r"
    and r': "mine r'" "ov r' = (ov r)\<lparr>go_remaining := go_remaining (ov r) - a\<rparr>"
    and ls': "\<And>l' p'. ls' (addr l' p') = (if l' = l \<and> p' = p then Some v' else ls (addr l' p'))"
    and v: "ls (addr l p) = Some v" "lview v' = (lview v)\<lparr>gl_total := gl_total (lview v) - a\<rparr>"
    and root: "gb_best g' = gb_best g" "gb_next_id g' = gb_next_id g" "gb_open g' = gb_open g"
  shows "g' = g_take l p k a g"
proof (rule gbook_eqI)
  show "gb_orders g' j = gb_orders (g_take l p k a g) j" for j
    using r by (auto simp: kept_inD(1) [OF kept(1)] kept_inD(1) [OF kept(2)] os' r' g_take_orders)
  show "gb_levels g' (l', p') = gb_levels (g_take l p k a g) (l', p')" for l' p'
    using v by (auto simp: kept_inD(2) [OF kept(1)] kept_inD(2) [OF kept(2)] ls' g_take_levels)
qed (simp_all add: root g_take_fields)

lemma remove_orders:
  assumes kept: "kept_in mine ov addr lview os ls g" "kept_in mine ov addr lview os' ls' g'"
    and r: "os k = Some r" "mine r"
    and r': "mine r'" "ov r' = (ov r)\<lparr>go_prev := None, go_next := None, go_remaining := left, go_open := False\<rparr>"
    and apart: "go_prev (ov r) = go_next (ov r) \<longrightarrow> go_prev (ov r) = None"
    and os': "\<And>j. os' j = (if j = k then Some r'
      else if go_next (ov r) = Some j then map_option (set_prev (go_prev (ov r))) (os j)
      else if go_prev (ov r) = Some j then map_option (set_next (go_next (ov r))) (os j)
      else os j)"
  shows "gb_orders g' j = gb_orders (g_remove l p k left (ov r) lv g) j"
  using r apart
  by (cases "os j")
    (auto simp: kept_inD(1) [OF kept(1)] kept_inD(1) [OF kept(2)] os' r' g_remove_orders relink_def
      mine_prev mine_next ov_prev ov_next)

lemma remove_levels_one:
  assumes kept: "kept_in mine ov addr lview os ls g" "kept_in mine ov addr lview os' ls' g'"
    and one: "gl_count (lview v) = 1"
    and apart: "gl_better (lview v) = gl_worse (lview v) \<longrightarrow> gl_better (lview v) = None"
    and ls': "\<And>l' p'. ls' (addr l' p') = (if l' = l \<and> p' = p then None
      else if l' = l \<and> gl_worse (lview v) = Some p' then map_option (set_better (gl_better (lview v))) (ls (addr l' p'))
      else if l' = l \<and> gl_better (lview v) = Some p' then map_option (set_worse (gl_worse (lview v))) (ls (addr l' p'))
      else ls (addr l' p'))"
  shows "gb_levels g' (l', p') = gb_levels (g_remove l p k left r (lview v) g) (l', p')"
  using one apart
  by (cases "ls (addr l' p')")
    (auto simp: kept_inD(2) [OF kept(1)] kept_inD(2) [OF kept(2)] ls' g_remove_levels_one lview_better lview_worse)

lemma remove_levels_many:
  assumes kept: "kept_in mine ov addr lview os ls g" "kept_in mine ov addr lview os' ls' g'"
    and many: "gl_count (lview v) \<noteq> 1"
    and ls': "\<And>l' p'. ls' (addr l' p') = (if l' = l \<and> p' = p then Some v' else ls (addr l' p'))"
    and v': "lview v' = (lview v)\<lparr>gl_first := (if go_prev r = None then go_next r else gl_first (lview v)),
        gl_last := (if go_next r = None then go_prev r else gl_last (lview v)),
        gl_total := gl_total (lview v) - go_remaining r, gl_count := gl_count (lview v) - 1\<rparr>"
  shows "gb_levels g' (l', p') = gb_levels (g_remove l p k left r (lview v) g) (l', p')"
  using many by (auto simp: kept_inD(2) [OF kept(1)] kept_inD(2) [OF kept(2)] ls' v' g_remove_levels_many)

lemma remove_view:
  assumes "\<And>j. gb_orders g' j = gb_orders (g_remove l p k left r lv g) j"
    and "\<And>l' p'. gb_levels g' (l', p') = gb_levels (g_remove l p k left r lv g) (l', p')"
    and "gb_best g' = (if gl_count lv = 1 \<and> gl_better lv = None then (gb_best g)(l := gl_worse lv) else gb_best g)"
      "gb_next_id g' = gb_next_id g" "gb_open g' = gb_open g - 1"
  shows "g' = g_remove l p k left r lv g"
  by (rule gbook_eqI) (use assms in \<open>simp_all add: g_remove_def\<close>)

end

end
