(* ===== verification/Spot_Store.thy ===== *)
theory Spot_Store
  imports Matching Book_Records
begin

text \<open>
  The spot program's account store and the pieces its four order instructions share:
  the order's collateral, the move between a trader's free and locked balance, and the
  choice of a side's best-price field.
\<close>

record spot_store =
  ss_markets :: "pubkey \<Rightarrow> Market option"
  ss_fees :: "pubkey \<Rightarrow> MarketFees option"
  ss_configs :: "pubkey \<Rightarrow> ProtocolConfig option"
  ss_orders :: "pubkey \<Rightarrow> Order option"
  ss_levels :: "pubkey \<Rightarrow> PriceLevel option"
  ss_balances :: "pubkey \<Rightarrow> TraderBalance option"

fun market_best :: "Market \<Rightarrow> OrderSide \<Rightarrow> u64 option" where
  "market_best m Bid = mkt_best_bid m"
| "market_best m Ask = mkt_best_ask m"

fun set_market_best :: "Market \<Rightarrow> OrderSide \<Rightarrow> u64 option \<Rightarrow> Market" where
  "set_market_best m Bid p = m\<lparr>mkt_best_bid := p\<rparr>"
| "set_market_best m Ask p = m\<lparr>mkt_best_ask := p\<rparr>"

lemma market_best_set [simp]:
  "market_best (set_market_best m sd p) sd' = (if sd' = sd then p else market_best m sd')"
  by (cases sd; cases sd') simp_all

lemma set_market_best_frame [simp]:
  "mkt_next_order_id (set_market_best m sd p) = mkt_next_order_id m"
  "mkt_open_order_count (set_market_best m sd p) = mkt_open_order_count m"
  "mkt_base_mint (set_market_best m sd p) = mkt_base_mint m"
  "mkt_quote_mint (set_market_best m sd p) = mkt_quote_mint m"
  "mkt_base_decimals (set_market_best m sd p) = mkt_base_decimals m"
  "mkt_status (set_market_best m sd p) = mkt_status m"
  by (cases sd; simp)+

lemma market_best_update [simp]:
  "market_best (mkt_next_order_id_update f m) sd = market_best m sd"
  "market_best (mkt_open_order_count_update f m) sd = market_best m sd"
  by (cases sd; simp)+

text \<open>The collateral an order must lock: its base quantity, or its quote notional.\<close>

definition required_collateral :: "OrderSide \<Rightarrow> u64 \<Rightarrow> u64 \<Rightarrow> u8 \<Rightarrow> u64 res" where
  "required_collateral side price quantity base_decimals =
     ok_or (checked_pow (10 :: u128) (unat base_decimals)) OrderNotionalOverflow (\<lambda>base_scale.
     ok_or (checked_mul (u128_from price) (u128_from quantity)) OrderNotionalOverflow (\<lambda>product.
     ok_or (checked_div product base_scale) OrderNotionalOverflow (\<lambda>quote_notional.
     require (quote_notional > 0) OrderNotionalTooSmall
     (case side of
        Ask \<Rightarrow> Inr quantity
      | Bid \<Rightarrow> ok_or (u64_try_from quote_notional) OrderNotionalOverflow Inr))))"

text \<open>\<open>(next_free_balance, next_locked_balance)\<close> when an order locks collateral.\<close>

fun lock_amounts :: "OrderSide \<Rightarrow> TraderBalance \<Rightarrow> u64 \<Rightarrow> (u64 \<times> u64) res" where
  "lock_amounts Ask b locked_collateral =
     ok_or (checked_sub (tb_base_free b) locked_collateral) InsufficientFreeBalance (\<lambda>free.
     ok_or (checked_add (tb_base_locked b) locked_collateral) LockedBalanceOverflow (\<lambda>locked.
     Inr (free, locked)))"
| "lock_amounts Bid b locked_collateral =
     ok_or (checked_sub (tb_quote_free b) locked_collateral) InsufficientFreeBalance (\<lambda>free.
     ok_or (checked_add (tb_quote_locked b) locked_collateral) LockedBalanceOverflow (\<lambda>locked.
     Inr (free, locked)))"

text \<open>The same pair when a cancellation releases it.\<close>

fun release_amounts :: "OrderSide \<Rightarrow> TraderBalance \<Rightarrow> u64 \<Rightarrow> (u64 \<times> u64) res" where
  "release_amounts Ask b locked_collateral =
     ok_or (checked_add (tb_base_free b) locked_collateral) FreeBalanceOverflow (\<lambda>free.
     ok_or (checked_sub (tb_base_locked b) locked_collateral) LockedBalanceUnderflow (\<lambda>locked.
     Inr (free, locked)))"
| "release_amounts Bid b locked_collateral =
     ok_or (checked_add (tb_quote_free b) locked_collateral) FreeBalanceOverflow (\<lambda>free.
     ok_or (checked_sub (tb_quote_locked b) locked_collateral) LockedBalanceUnderflow (\<lambda>locked.
     Inr (free, locked)))"

fun set_side_balance :: "OrderSide \<Rightarrow> u64 \<Rightarrow> u64 \<Rightarrow> TraderBalance \<Rightarrow> TraderBalance" where
  "set_side_balance Ask free locked b = b\<lparr>tb_base_free := free, tb_base_locked := locked\<rparr>"
| "set_side_balance Bid free locked b = b\<lparr>tb_quote_free := free, tb_quote_locked := locked\<rparr>"

text \<open>A trader's claim on each side of the market: what it can use plus what its orders hold.\<close>

definition base_claim :: "TraderBalance \<Rightarrow> nat" where
  "base_claim b = unat (tb_base_free b) + unat (tb_base_locked b)"

definition quote_claim :: "TraderBalance \<Rightarrow> nat" where
  "quote_claim b = unat (tb_quote_free b) + unat (tb_quote_locked b)"

fun side_locked :: "OrderSide \<Rightarrow> TraderBalance \<Rightarrow> nat" where
  "side_locked Ask b = unat (tb_base_locked b)"
| "side_locked Bid b = unat (tb_quote_locked b)"

fun side_free :: "OrderSide \<Rightarrow> TraderBalance \<Rightarrow> nat" where
  "side_free Ask b = unat (tb_base_free b)"
| "side_free Bid b = unat (tb_quote_free b)"

lemma lock_amounts_Inr [run_simps]:
  "lock_amounts side b c = Inr (free, locked) \<longleftrightarrow>
     side_free side b = unat c + unat free \<and> unat locked = side_locked side b + unat c"
  by (cases side) (auto simp: ok_or_Inr)

lemma release_amounts_Inr [run_simps]:
  "release_amounts side b c = Inr (free, locked) \<longleftrightarrow>
     unat free = side_free side b + unat c \<and> side_locked side b = unat c + unat locked"
  by (cases side) (auto simp: ok_or_Inr)

lemma set_side_balance_reads [simp]:
  "side_free sd (set_side_balance sd f l b) = unat f"
  "side_locked sd (set_side_balance sd f l b) = unat l"
  "sd' \<noteq> sd \<Longrightarrow> side_free sd' (set_side_balance sd f l b) = side_free sd' b"
  "sd' \<noteq> sd \<Longrightarrow> side_locked sd' (set_side_balance sd f l b) = side_locked sd' b"
  "tb_market (set_side_balance sd f l b) = tb_market b"
  "tb_owner (set_side_balance sd f l b) = tb_owner b"
  by (cases sd; cases sd'; simp)+

lemma claims_by_side:
  "base_claim b = side_free Ask b + side_locked Ask b"
  "quote_claim b = side_free Bid b + side_locked Bid b"
  by (simp_all add: base_claim_def quote_claim_def)

lemma lock_keeps_claims:
  assumes "lock_amounts side b c = Inr (free, locked)"
  shows "base_claim (set_side_balance side free locked b) = base_claim b"
    and "quote_claim (set_side_balance side free locked b) = quote_claim b"
  using assms by (cases side; auto simp: run_simps base_claim_def quote_claim_def)+

lemma release_keeps_claims:
  assumes "release_amounts side b c = Inr (free, locked)"
  shows "base_claim (set_side_balance side free locked b) = base_claim b"
    and "quote_claim (set_side_balance side free locked b) = quote_claim b"
  using assms by (cases side; auto simp: run_simps base_claim_def quote_claim_def)+

lemma required_collateral_Inr [run_simps]:
  "required_collateral side p q d = Inr c \<longleftrightarrow>
     (\<exists>sc :: u128. unat sc = 10 ^ unat d) \<and> 0 < notional p (unat q) d \<and>
     (case side of Ask \<Rightarrow> c = q | Bid \<Rightarrow> unat c = notional p (unat q) d)"
proof -
  obtain pr :: u128 where pr: "unat pr = unat p * unat q" using mul_u64_u128 by blast
  have mul: "checked_mul (u128_from p) (u128_from q) = Some pr" by (simp add: pr)
  show ?thesis
  proof (cases "\<exists>sc :: u128. unat sc = 10 ^ unat d")
    case False
    have "checked_pow (10 :: u128) (unat d) = None"
    proof (rule ccontr)
      assume "checked_pow (10 :: u128) (unat d) \<noteq> None"
      then obtain c :: u128 where "checked_pow 10 (unat d) = Some c" by blast
      with False show False by simp
    qed
    with False show ?thesis by (simp add: required_collateral_def)
  next
    case True
    then obtain sc :: u128 where sc: "unat sc = 10 ^ unat d" by blast
    have steps: "checked_pow (10 :: u128) (unat d) = Some sc" "checked_div pr sc = Some (pr div sc)"
      using sc unat_pow10_u128 [OF sc] by (simp_all add: unat_div)
    have quot: "unat (pr div sc) = notional p (unat q) d"
      by (simp add: unat_div pr sc notional_def)
    show ?thesis
      unfolding required_collateral_def mul steps
      using True quot
      by (cases side) (auto simp: steps require_Inr ok_or_Inr word_less_nat_alt)
  qed
qed

lemma required_collateral_funded:
  "required_collateral side p q d = Inr c \<Longrightarrow> order_funded side p q c d"
  by (cases side) (auto simp: run_simps order_funded_def)

section \<open>The book a market's accounts hold\<close>

definition is_bid :: "OrderSide \<Rightarrow> bool" where
  "is_bid sd = (sd = Bid)"

definition order_view :: "Order \<Rightarrow> OrderSide gorder" where
  "order_view r = \<lparr>go_list = ord_side r, go_price = ord_price r, go_id = ord_order_id r,
     go_prev = ord_previous_order r, go_next = ord_next_order r,
     go_remaining = ord_remaining_quantity r, go_open = (ord_status r = Open)\<rparr>"

definition level_view :: "PriceLevel \<Rightarrow> glevel" where
  "level_view v = \<lparr>gl_better = lvl_better_price v, gl_worse = lvl_worse_price v,
     gl_first = lvl_first_order v, gl_last = lvl_last_order v,
     gl_total = lvl_total_remaining_quantity v, gl_count = lvl_order_count v\<rparr>"

definition level_address :: "runtime \<Rightarrow> pubkey \<Rightarrow> OrderSide \<Rightarrow> u64 \<Rightarrow> pubkey" where
  "level_address rt m side price = address rt (PriceLevelPda m side price)"

definition spot_orders :: "pubkey \<Rightarrow> spot_store \<Rightarrow> pubkey \<Rightarrow> OrderSide gorder option" where
  "spot_orders m st k =
     (case ss_orders st k of
        None \<Rightarrow> None
      | Some r \<Rightarrow> if ord_market r = m then Some (order_view r) else None)"

definition spot_view :: "runtime \<Rightarrow> pubkey \<Rightarrow> spot_store \<Rightarrow> OrderSide gbook" where
  "spot_view rt m st =
     \<lparr>gb_orders = spot_orders m st,
      gb_levels = (\<lambda>(sd, p). map_option level_view (ss_levels st (level_address rt m sd p))),
      gb_best = (\<lambda>sd. Option.bind (ss_markets st m) (\<lambda>mk. market_best mk sd)),
      gb_next_id = (case ss_markets st m of None \<Rightarrow> 0 | Some mk \<Rightarrow> mkt_next_order_id mk),
      gb_open = (case ss_markets st m of None \<Rightarrow> 0 | Some mk \<Rightarrow> mkt_open_order_count mk)\<rparr>"

text \<open>The assumption on the runtime: distinct levels of this market have distinct addresses.\<close>

definition levels_separate :: "runtime \<Rightarrow> pubkey \<Rightarrow> bool" where
  "levels_separate rt m = collision_free_on rt (range (\<lambda>(sd, p). PriceLevelPda m sd p))"

lemma level_address_eq:
  assumes "levels_separate rt m"
  shows "level_address rt m sd p = level_address rt m sd' p' \<longleftrightarrow> sd = sd' \<and> p = p'"
  unfolding level_address_def
  by (subst address_eq [OF assms [unfolded levels_separate_def]]) auto

lemma order_view_fields [simp]:
  "go_list (order_view r) = ord_side r" "go_price (order_view r) = ord_price r"
  "go_id (order_view r) = ord_order_id r" "go_prev (order_view r) = ord_previous_order r"
  "go_next (order_view r) = ord_next_order r" "go_remaining (order_view r) = ord_remaining_quantity r"
  "go_open (order_view r) = (ord_status r = Open)"
  by (simp_all add: order_view_def)

lemma level_view_fields [simp]:
  "gl_better (level_view v) = lvl_better_price v" "gl_worse (level_view v) = lvl_worse_price v"
  "gl_first (level_view v) = lvl_first_order v" "gl_last (level_view v) = lvl_last_order v"
  "gl_total (level_view v) = lvl_total_remaining_quantity v" "gl_count (level_view v) = lvl_order_count v"
  by (simp_all add: level_view_def)

lemma spot_view_fields [simp]:
  "gb_orders (spot_view rt m st) k = spot_orders m st k"
  "gb_levels (spot_view rt m st) (sd, p) = map_option level_view (ss_levels st (level_address rt m sd p))"
  "gb_best (spot_view rt m st) sd = Option.bind (ss_markets st m) (\<lambda>mk. market_best mk sd)"
  by (simp_all add: spot_view_def)

lemma spot_view_market:
  assumes "ss_markets st m = Some mk"
  shows "gb_best (spot_view rt m st) = market_best mk"
    and "gb_next_id (spot_view rt m st) = mkt_next_order_id mk"
    and "gb_open (spot_view rt m st) = mkt_open_order_count mk"
  using assms by (auto simp: spot_view_def)

lemma spot_orders_Some:
  "spot_orders m st k = Some x \<longleftrightarrow>
     (\<exists>r. ss_orders st k = Some r \<and> ord_market r = m \<and> x = order_view r)"
  by (auto simp: spot_orders_def split: option.splits)

text \<open>The market's accounts are such records.\<close>

interpretation spot_records: book_records "\<lambda>r. ord_market r = m" order_view "level_address rt m" level_view
  "\<lambda>x r. r\<lparr>ord_previous_order := x\<rparr>" "\<lambda>x r. r\<lparr>ord_next_order := x\<rparr>"
  "\<lambda>y v. v\<lparr>lvl_better_price := y\<rparr>" "\<lambda>y v. v\<lparr>lvl_worse_price := y\<rparr>"
  for rt m
  by unfold_locales (simp_all add: order_view_def level_view_def)

lemma spot_kept: "kept_in (\<lambda>r. ord_market r = m) order_view (level_address rt m) level_view
    (ss_orders st) (ss_levels st) (spot_view rt m st)"
  by (auto simp: kept_in_def orders_of_def levels_of_def spot_orders_def fun_eq_iff spot_view_def
    split: option.splits)

section \<open>Unlinking an order, shared by cancellation and matching\<close>

text \<open>What both write to an order that leaves the book.\<close>

definition closed_order :: "OrderStatus \<Rightarrow> Order \<Rightarrow> Order" where
  "closed_order status r = r\<lparr>ord_locked_collateral := 0, ord_remaining_quantity := 0,
     ord_previous_order := None, ord_next_order := None, ord_status := status\<rparr>"

lemma unlink_orders_view:
  fixes st st' :: spot_store
  assumes r: "ss_orders st k = Some r" "ord_market r = m"
    and pa: "loaded (ss_orders st) (ord_previous_order r) pa"
    and na: "loaded (ss_orders st) (ord_next_order r) na"
    and apart: "ord_previous_order r = ord_next_order r \<longrightarrow> ord_previous_order r = None"
    and st': "ss_orders st' = (save_opt (map_option (upd_inner (\<lambda>x. x\<lparr>ord_previous_order := ord_previous_order r\<rparr>)) na)
       (save_opt (map_option (upd_inner (\<lambda>x. x\<lparr>ord_next_order := ord_next_order r\<rparr>)) pa)
         (ss_orders st)))(k \<mapsto> closed_order status r)"
    and status: "status \<noteq> Open"
  shows "spot_orders m st' j = gb_orders (g_remove l p k 0 (order_view r) lv (spot_view rt m st)) j"
proof -
  have "gb_orders (spot_view rt m st') j = gb_orders (g_remove l p k 0 (order_view r) lv (spot_view rt m st)) j"
    by (rule spot_records.remove_orders [OF spot_kept spot_kept r, of "closed_order status r"])
      (use r apart status in \<open>auto simp: closed_order_def order_view_def st' save_opt_upd [OF pa] save_opt_upd [OF na]\<close>)
  then show ?thesis by simp
qed

text \<open>The level side: an emptied level joins its neighbours, otherwise only the level changes.\<close>

lemma unlink_levels_view:
  fixes st st' :: spot_store
  assumes sep: "levels_separate rt m"
    and lv: "ss_levels st (level_address rt m sd p) = Some lv"
    and ba: "loaded (ss_levels st) (map_option (level_address rt m sd) (lvl_better_price lv)) ba"
    and wa: "loaded (ss_levels st) (map_option (level_address rt m sd) (lvl_worse_price lv)) wa"
    and one: "lvl_order_count lv = 1"
    and apart: "lvl_better_price lv = lvl_worse_price lv \<longrightarrow> lvl_better_price lv = None"
      "lvl_better_price lv \<noteq> Some p" "lvl_worse_price lv \<noteq> Some p"
    and st': "ss_levels st' = (save_opt (map_option (upd_inner (\<lambda>v. v\<lparr>lvl_better_price := lvl_better_price lv\<rparr>)) wa)
       (save_opt (map_option (upd_inner (\<lambda>v. v\<lparr>lvl_worse_price := lvl_worse_price lv\<rparr>)) ba)
         (ss_levels st)))(level_address rt m sd p := None)"
  shows "map_option level_view (ss_levels st' (level_address rt m l' p')) =
    gb_levels (g_remove sd p k left r (level_view lv) (spot_view rt m st)) (l', p')"
proof -
  have "gb_levels (spot_view rt m st') (l', p') =
      gb_levels (g_remove sd p k left r (level_view lv) (spot_view rt m st)) (l', p')"
  proof (rule spot_records.remove_levels_one [OF spot_kept spot_kept])
    have addr: "map_option (level_address rt m sd) z = Some (level_address rt m l' p') \<longleftrightarrow>
        l' = sd \<and> z = Some p'" for z l' p'
      by (cases z) (auto simp: level_address_eq [OF sep])
    show "ss_levels st' (level_address rt m l' p') = (if l' = sd \<and> p' = p then None
      else if l' = sd \<and> gl_worse (level_view lv) = Some p'
        then map_option (lvl_better_price_update (\<lambda>_. gl_better (level_view lv))) (ss_levels st (level_address rt m l' p'))
      else if l' = sd \<and> gl_better (level_view lv) = Some p'
        then map_option (lvl_worse_price_update (\<lambda>_. gl_worse (level_view lv))) (ss_levels st (level_address rt m l' p'))
      else ss_levels st (level_address rt m l' p'))" for l' p'
      by (simp add: st' save_opt_upd [OF ba] save_opt_upd [OF wa] addr level_address_eq [OF sep] del: map_option_eq_Some)
  qed (use one apart(1) in simp_all)
  then show ?thesis by simp
qed

end
