(* ===== verification/Spot_Place.thy ===== *)
theory Spot_Place
  imports Spot_Store
begin

text \<open>
  Placing a spot order: \<open>insert_limit_order.rs\<close> (a new price level with its first order) and
  \<open>append_limit_order.rs\<close> (behind the tail of an existing level). For each: the accounts
  struct, the handler, and the whole instruction on the account store.
\<close>

section \<open>insert_limit_order\<close>

record InsertLimitOrder =
  ilo_trader :: pubkey
  ilo_market :: "Market account"
  ilo_order :: "Order option account"
  ilo_price_level :: "PriceLevel option account"
  ilo_trader_balance :: "TraderBalance account"
  ilo_better_level :: "PriceLevel account option"
  ilo_worse_level :: "PriceLevel account option"
  ilo_bump_order :: u8
  ilo_bump_price_level :: u8

text \<open>\<open>validate_level\<close>: a supplied neighbour is the canonical level of this market and side.\<close>

definition validate_level :: "runtime \<Rightarrow> PriceLevel account \<Rightarrow> pubkey \<Rightarrow> OrderSide \<Rightarrow> unit res" where
  "validate_level rt level market side =
     require (lvl_market (inner level) = market) PriceLevelMarketMismatch
     (require (lvl_side (inner level) = side) PriceLevelSideMismatch
     (require (key level =
          fst (derive_price_level_pda rt (program_id rt) market side (lvl_price (inner level))))
        NoncanonicalPriceLevel
     (Inr ())))"

text \<open>The four insertion positions the handler accepts.\<close>

definition check_insert_position ::
  "runtime \<Rightarrow> pubkey \<Rightarrow> OrderSide \<Rightarrow> u64 \<Rightarrow> u64 option \<Rightarrow>
   PriceLevel account option \<Rightarrow> PriceLevel account option \<Rightarrow> unit res" where
  "check_insert_position rt market_key side price current_best_price better_level worse_level =
     (case (current_best_price, better_level, worse_level) of
        (None, None, None) \<Rightarrow> Inr ()
      | (Some current_best, None, Some worse) \<Rightarrow>
          try_in (validate_level rt worse market_key side) (\<lambda>_.
          require (lvl_price (inner worse) = current_best) BestPriceLevelMismatch
          (require (lvl_better_price (inner worse) = None) BestPriceLevelMismatch
          (require (case side of
               Bid \<Rightarrow> price > lvl_price (inner worse)
             | Ask \<Rightarrow> price < lvl_price (inner worse)) InvalidPriceLevelOrdering
          (Inr ()))))
      | (Some _, Some better, Some worse) \<Rightarrow>
          try_in (validate_level rt better market_key side) (\<lambda>_.
          try_in (validate_level rt worse market_key side) (\<lambda>_.
          require (lvl_worse_price (inner better) = Some (lvl_price (inner worse)))
            InvalidPriceLevelNeighbors
          (require (lvl_better_price (inner worse) = Some (lvl_price (inner better)))
            InvalidPriceLevelNeighbors
          (require (case side of
               Bid \<Rightarrow> lvl_price (inner better) > price \<and> price > lvl_price (inner worse)
             | Ask \<Rightarrow> lvl_price (inner better) < price \<and> price < lvl_price (inner worse))
            InvalidPriceLevelOrdering
          (Inr ())))))
      | (Some _, Some better, None) \<Rightarrow>
          try_in (validate_level rt better market_key side) (\<lambda>_.
          require (lvl_worse_price (inner better) = None) InvalidPriceLevelNeighbors
          (require (case side of
               Bid \<Rightarrow> lvl_price (inner better) > price
             | Ask \<Rightarrow> lvl_price (inner better) < price) InvalidPriceLevelOrdering
          (Inr ())))
      | _ \<Rightarrow> Inl InvalidPriceLevelNeighbors)"

text \<open>The mutation phase: ledger, neighbours, new level, new order, market.\<close>

definition commit_insert ::
  "InsertLimitOrder \<Rightarrow> OrderSide \<Rightarrow> u64 \<Rightarrow> u64 \<Rightarrow> u64 \<Rightarrow> u64 \<Rightarrow> u64 \<Rightarrow> u64 \<Rightarrow> u64 \<Rightarrow> InsertLimitOrder" where
  "commit_insert acc side price quantity locked_collateral next_free_balance next_locked_balance
      next_order_id next_open_order_count =
     (let market_key = key (ilo_market acc);
          order_key = key (ilo_order acc);
          price_level_key = key (ilo_price_level acc);
          trader_key = ilo_trader acc;
          market = inner (ilo_market acc);
          order_id = mkt_next_order_id market;
          better_price = map_option (\<lambda>a. lvl_price (inner a)) (ilo_better_level acc);
           worse_price = map_option (\<lambda>a. lvl_price (inner a)) (ilo_worse_level acc);
           market' = (if ilo_better_level acc = None then set_market_best market side (Some price)
                      else market) in
       acc\<lparr>
         ilo_trader_balance := upd_inner
           (set_side_balance side next_free_balance next_locked_balance) (ilo_trader_balance acc),
         ilo_better_level := map_option (upd_inner (\<lambda>v. v\<lparr>lvl_worse_price := Some price\<rparr>))
           (ilo_better_level acc),
         ilo_worse_level := map_option (upd_inner (\<lambda>v. v\<lparr>lvl_better_price := Some price\<rparr>))
           (ilo_worse_level acc),
         ilo_price_level := Account price_level_key (Some
           \<lparr>lvl_market = market_key, lvl_side = side, lvl_price = price,
            lvl_better_price = better_price, lvl_worse_price = worse_price,
            lvl_first_order = Some order_key, lvl_last_order = Some order_key,
            lvl_total_remaining_quantity = quantity, lvl_order_count = 1,
            lvl_rent_payer = trader_key, lvl_bump = ilo_bump_price_level acc\<rparr>),
         ilo_order := Account order_key (Some
           \<lparr>ord_owner = trader_key, ord_market = market_key, ord_order_id = order_id,
            ord_side = side, ord_price = price, ord_price_level = price_level_key,
            ord_previous_order = None, ord_next_order = None, ord_quantity = quantity,
            ord_remaining_quantity = quantity, ord_locked_collateral = locked_collateral,
            ord_status = Open, ord_bump = ilo_bump_order acc\<rparr>),
         ilo_market := Account market_key
           (market'\<lparr>mkt_next_order_id := next_order_id,
              mkt_open_order_count := next_open_order_count\<rparr>)\<rparr>)"

definition handle_insert_limit_order ::
  "runtime \<Rightarrow> InsertLimitOrder \<Rightarrow> OrderSide \<Rightarrow> u64 \<Rightarrow> u64 \<Rightarrow> InsertLimitOrder res" where
  "handle_insert_limit_order rt acc side price quantity =
     require (price > 0) InvalidPrice
     (require (quantity > 0) InvalidQuantity
     (let market_key = key (ilo_market acc);
          market = inner (ilo_market acc);
          balance = inner (ilo_trader_balance acc) in
      require (is_multiple_of price (mkt_price_tick_size market)) PriceNotOnTick
      (require (is_multiple_of quantity (mkt_quantity_lot_size market)) QuantityNotOnLot
      (try_in (check_insert_position rt market_key side price (market_best market side)
                 (ilo_better_level acc) (ilo_worse_level acc)) (\<lambda>_.
       try_in (required_collateral side price quantity (mkt_base_decimals market)) (\<lambda>locked_collateral.
       try_in (lock_amounts side balance locked_collateral) (\<lambda>(next_free_balance, next_locked_balance).
       let order_id = mkt_next_order_id market in
       ok_or (checked_add order_id 1) OrderIdOverflow (\<lambda>next_order_id.
       ok_or (checked_add (mkt_open_order_count market) 1) OpenOrderCountOverflow (\<lambda>next_open_order_count.
       Inr (commit_insert acc side price quantity locked_collateral next_free_balance
         next_locked_balance next_order_id next_open_order_count))))))))))"

text \<open>The instruction: the addresses the client names, the account constraints, the handler,
  and the accounts written back.\<close>

record InsertLimitOrderKeys =
  ilk_trader :: pubkey
  ilk_market :: pubkey
  ilk_order :: pubkey
  ilk_price_level :: pubkey
  ilk_trader_balance :: pubkey
  ilk_better_level :: "pubkey option"
  ilk_worse_level :: "pubkey option"

definition insert_limit_order ::
  "runtime \<Rightarrow> spot_store \<Rightarrow> InsertLimitOrderKeys \<Rightarrow> OrderSide \<Rightarrow> u64 \<Rightarrow> u64 \<Rightarrow> spot_store res" where
  "insert_limit_order rt st ks side price quantity =
     load (ss_markets st) (ilk_market ks) (\<lambda>market.
     require (mkt_status (inner market) = MarketActive) MarketNotActive
     (let order_pda = pda rt (OrderPda (key market) (mkt_next_order_id (inner market)));
          level_pda = pda rt (PriceLevelPda (key market) side price) in
     require (ilk_order ks = fst order_pda) ConstraintSeeds
     (require (ss_orders st (ilk_order ks) = None) AccountAlreadyInUse
     (require (ilk_price_level ks = fst level_pda) ConstraintSeeds
     (require (ss_levels st (ilk_price_level ks) = None) AccountAlreadyInUse
     (load (ss_balances st) (ilk_trader_balance ks) (\<lambda>trader_balance.
     require (key trader_balance = address rt (TraderBalancePda (key market) (ilk_trader ks)))
       ConstraintSeeds
     (require (tb_market (inner trader_balance) = key market) TraderBalanceMarketMismatch
     (require (tb_owner (inner trader_balance) = ilk_trader ks) TraderBalanceOwnerMismatch
     (load_opt (ss_levels st) (ilk_better_level ks) (\<lambda>better_level.
      load_opt (ss_levels st) (ilk_worse_level ks) (\<lambda>worse_level.
     require (distinct (keys_of [ilk_better_level ks, ilk_worse_level ks]))
       ConstraintDuplicateMutableAccount
     (try_in (handle_insert_limit_order rt
          \<lparr>ilo_trader = ilk_trader ks, ilo_market = market,
           ilo_order = Account (ilk_order ks) None,
           ilo_price_level = Account (ilk_price_level ks) None,
           ilo_trader_balance = trader_balance,
           ilo_better_level = better_level, ilo_worse_level = worse_level,
           ilo_bump_order = snd order_pda, ilo_bump_price_level = snd level_pda\<rparr>
          side price quantity) (\<lambda>acc.
     Inr (st\<lparr>
       ss_markets := save (ilo_market acc) (ss_markets st),
       ss_orders := (ss_orders st)(key (ilo_order acc) := inner (ilo_order acc)),
       ss_levels := (save_opt (ilo_worse_level acc) (save_opt (ilo_better_level acc)
          (ss_levels st)))(key (ilo_price_level acc) := inner (ilo_price_level acc)),
       ss_balances := save (ilo_trader_balance acc) (ss_balances st)\<rparr>)))))))))))))))"

section \<open>append_limit_order\<close>

record AppendLimitOrder =
  alo_trader :: pubkey
  alo_market :: "Market account"
  alo_order :: "Order option account"
  alo_price_level :: "PriceLevel account"
  alo_previous_order :: "Order account"
  alo_trader_balance :: "TraderBalance account"
  alo_bump_order :: u8

definition handle_append_limit_order ::
  "AppendLimitOrder \<Rightarrow> OrderSide \<Rightarrow> u64 \<Rightarrow> u64 \<Rightarrow> AppendLimitOrder res" where
  "handle_append_limit_order acc side price quantity =
     require (price > 0) InvalidPrice
     (require (quantity > 0) InvalidQuantity
     (let market_key = key (alo_market acc);
          order_key = key (alo_order acc);
          price_level_key = key (alo_price_level acc);
          previous_order_key = key (alo_previous_order acc);
          trader_key = alo_trader acc;
          market = inner (alo_market acc);
          level = inner (alo_price_level acc);
          balance = inner (alo_trader_balance acc) in
      require (is_multiple_of price (mkt_price_tick_size market)) PriceNotOnTick
      (require (is_multiple_of quantity (mkt_quantity_lot_size market)) QuantityNotOnLot
      (try_in (required_collateral side price quantity (mkt_base_decimals market)) (\<lambda>locked_collateral.
       try_in (lock_amounts side balance locked_collateral) (\<lambda>(next_free_balance, next_locked_balance).
       let order_id = mkt_next_order_id market in
       ok_or (checked_add order_id 1) OrderIdOverflow (\<lambda>next_order_id.
       ok_or (checked_add (mkt_open_order_count market) 1) OpenOrderCountOverflow (\<lambda>next_open_order_count.
       ok_or (checked_add (lvl_total_remaining_quantity level) quantity) PriceLevelQuantityOverflow
         (\<lambda>next_level_quantity.
       ok_or (checked_add (lvl_order_count level) 1) PriceLevelOrderCountOverflow (\<lambda>next_level_count.
       Inr (acc\<lparr>
         alo_trader_balance := upd_inner
           (set_side_balance side next_free_balance next_locked_balance) (alo_trader_balance acc),
         alo_previous_order := upd_inner (\<lambda>r. r\<lparr>ord_next_order := Some order_key\<rparr>)
           (alo_previous_order acc),
         alo_order := Account order_key (Some
           \<lparr>ord_owner = trader_key, ord_market = market_key, ord_order_id = order_id,
            ord_side = side, ord_price = price, ord_price_level = price_level_key,
            ord_previous_order = Some previous_order_key, ord_next_order = None,
            ord_quantity = quantity, ord_remaining_quantity = quantity,
            ord_locked_collateral = locked_collateral, ord_status = Open,
            ord_bump = alo_bump_order acc\<rparr>),
         alo_price_level := upd_inner (\<lambda>v. v\<lparr>lvl_last_order := Some order_key,
           lvl_total_remaining_quantity := next_level_quantity,
           lvl_order_count := next_level_count\<rparr>) (alo_price_level acc),
         alo_market := upd_inner (\<lambda>m. m\<lparr>mkt_next_order_id := next_order_id,
           mkt_open_order_count := next_open_order_count\<rparr>) (alo_market acc)\<rparr>)))))))))))"

record AppendLimitOrderKeys =
  alk_trader :: pubkey
  alk_market :: pubkey
  alk_order :: pubkey
  alk_price_level :: pubkey
  alk_previous_order :: pubkey
  alk_trader_balance :: pubkey

definition append_limit_order ::
  "runtime \<Rightarrow> spot_store \<Rightarrow> AppendLimitOrderKeys \<Rightarrow> OrderSide \<Rightarrow> u64 \<Rightarrow> u64 \<Rightarrow> spot_store res" where
  "append_limit_order rt st ks side price quantity =
     load (ss_markets st) (alk_market ks) (\<lambda>market.
     require (mkt_status (inner market) = MarketActive) MarketNotActive
     (let order_pda = pda rt (OrderPda (key market) (mkt_next_order_id (inner market))) in
     require (alk_order ks = fst order_pda) ConstraintSeeds
     (require (ss_orders st (alk_order ks) = None) AccountAlreadyInUse
     (load (ss_levels st) (alk_price_level ks) (\<lambda>price_level.
     require (key price_level = address rt (PriceLevelPda (key market) side price)) ConstraintSeeds
     (require (lvl_market (inner price_level) = key market) PriceLevelMarketMismatch
     (require (lvl_side (inner price_level) = side) PriceLevelSideMismatch
     (require (lvl_price (inner price_level) = price) PriceLevelPriceMismatch
     (load (ss_orders st) (alk_previous_order ks) (\<lambda>previous_order.
     require (lvl_last_order (inner price_level) = Some (key previous_order)) InvalidPriceLevelTail
     (require (ord_price_level (inner previous_order) = key price_level) OrderPriceLevelMismatch
     (require (ord_status (inner previous_order) = Open) OrderNotOpen
     (require (ord_next_order (inner previous_order) = None) InvalidPriceLevelTail
     (load (ss_balances st) (alk_trader_balance ks) (\<lambda>trader_balance.
     require (key trader_balance = address rt (TraderBalancePda (key market) (alk_trader ks)))
       ConstraintSeeds
     (require (tb_market (inner trader_balance) = key market) TraderBalanceMarketMismatch
     (require (tb_owner (inner trader_balance) = alk_trader ks) TraderBalanceOwnerMismatch
     (try_in (handle_append_limit_order
          \<lparr>alo_trader = alk_trader ks, alo_market = market,
           alo_order = Account (alk_order ks) None, alo_price_level = price_level,
           alo_previous_order = previous_order, alo_trader_balance = trader_balance,
           alo_bump_order = snd order_pda\<rparr> side price quantity) (\<lambda>acc.
     Inr (st\<lparr>
       ss_markets := save (alo_market acc) (ss_markets st),
       ss_orders := (save (alo_previous_order acc) (ss_orders st))
          (key (alo_order acc) := inner (alo_order acc)),
       ss_levels := save (alo_price_level acc) (ss_levels st),
       ss_balances := save (alo_trader_balance acc) (ss_balances st)\<rparr>))))))))))))))))))))"

section \<open>Placing an order is one event of the book\<close>

lemma validate_level_Inr [run_simps]:
  "validate_level rt lv m side = Inr u \<longleftrightarrow>
     lvl_market (inner lv) = m \<and> lvl_side (inner lv) = side \<and>
     key lv = level_address rt m side (lvl_price (inner lv))"
  by (simp add: validate_level_def run_simps derive_is_pda level_address_def address_def)

lemma precedes_side:
  "precedes (is_bid side) a b = (case side of Bid \<Rightarrow> a > b | Ask \<Rightarrow> a < b)"
  by (cases side) (simp_all add: precedes_def is_bid_def)

lemma check_insert_position_hints:
  assumes ok: "check_insert_position rt m side p (market_best mk side) bl wl = Inr u"
    and mk: "ss_markets st m = Some mk"
    and bl: "loaded (ss_levels st) bk bl" and wl: "loaded (ss_levels st) wk wl"
  shows "hints_ok is_bid (spot_view rt m st) side p
      (map_option (\<lambda>a. lvl_price (inner a)) bl) (map_option (\<lambda>a. lvl_price (inner a)) wl)"
    and "\<forall>a. bl = Some a \<or> wl = Some a \<longrightarrow> key a = level_address rt m side (lvl_price (inner a)) \<and>
      ss_levels st (key a) = Some (inner a)"
proof -
  show keys: "\<forall>a. bl = Some a \<or> wl = Some a \<longrightarrow>
      key a = level_address rt m side (lvl_price (inner a)) \<and> ss_levels st (key a) = Some (inner a)"
    using ok bl wl
    by (auto simp: check_insert_position_def run_simps split: option.splits)
  have level: "ss_levels st (level_address rt m side (lvl_price (inner a))) = Some (inner a)"
    if "bl = Some a \<or> wl = Some a" for a
    using keys that by metis
  show "hints_ok is_bid (spot_view rt m st) side p
      (map_option (\<lambda>a. lvl_price (inner a)) bl) (map_option (\<lambda>a. lvl_price (inner a)) wl)"
    using ok level
    by (cases "market_best mk side"; cases bl; cases wl)
      (auto simp: check_insert_position_def hints_ok_def run_simps mk precedes_side level_worse_def
        split: OrderSide.splits)
qed

text \<open>What a successful insertion did: the facts it checked and the store it left.\<close>

definition placed_order ::
  "pubkey \<Rightarrow> pubkey \<Rightarrow> u64 \<Rightarrow> OrderSide \<Rightarrow> u64 \<Rightarrow> pubkey \<Rightarrow> pubkey option \<Rightarrow> u64 \<Rightarrow> u64 \<Rightarrow> u8 \<Rightarrow> Order" where
  "placed_order trader m i side price level prev quantity locked bump =
     \<lparr>ord_owner = trader, ord_market = m, ord_order_id = i, ord_side = side, ord_price = price,
      ord_price_level = level, ord_previous_order = prev, ord_next_order = None,
      ord_quantity = quantity, ord_remaining_quantity = quantity, ord_locked_collateral = locked,
      ord_status = Open, ord_bump = bump\<rparr>"

definition insert_effect ::
  "runtime \<Rightarrow> InsertLimitOrderKeys \<Rightarrow> OrderSide \<Rightarrow> u64 \<Rightarrow> u64 \<Rightarrow> Market \<Rightarrow> PriceLevel account option \<Rightarrow>
   PriceLevel account option \<Rightarrow> TraderBalance \<Rightarrow> u64 \<Rightarrow> u64 \<Rightarrow> u64 \<Rightarrow> u64 \<Rightarrow> u64 \<Rightarrow> spot_store \<Rightarrow> spot_store" where
  "insert_effect rt ks side p q mk bl wl tb c free locked next_id next_open st =
     st\<lparr>
       ss_markets := (ss_markets st)(ilk_market ks \<mapsto>
         (if bl = None then set_market_best mk side (Some p) else mk)
           \<lparr>mkt_next_order_id := next_id, mkt_open_order_count := next_open\<rparr>),
       ss_orders := (ss_orders st)(ilk_order ks \<mapsto> placed_order (ilk_trader ks) (ilk_market ks)
         (mkt_next_order_id mk) side p (ilk_price_level ks) None q c
         (snd (pda rt (OrderPda (ilk_market ks) (mkt_next_order_id mk))))),
       ss_levels := (save_opt (map_option (upd_inner (\<lambda>v. v\<lparr>lvl_better_price := Some p\<rparr>)) wl)
           (save_opt (map_option (upd_inner (\<lambda>v. v\<lparr>lvl_worse_price := Some p\<rparr>)) bl) (ss_levels st)))
         (ilk_price_level ks \<mapsto>
           \<lparr>lvl_market = ilk_market ks, lvl_side = side, lvl_price = p,
            lvl_better_price = map_option (\<lambda>a. lvl_price (inner a)) bl,
            lvl_worse_price = map_option (\<lambda>a. lvl_price (inner a)) wl,
            lvl_first_order = Some (ilk_order ks), lvl_last_order = Some (ilk_order ks),
            lvl_total_remaining_quantity = q, lvl_order_count = 1,
            lvl_rent_payer = ilk_trader ks,
            lvl_bump = snd (pda rt (PriceLevelPda (ilk_market ks) side p))\<rparr>),
       ss_balances := (ss_balances st)(ilk_trader_balance ks \<mapsto> set_side_balance side free locked tb)\<rparr>"

lemma insert_limit_order_ok:
  assumes "insert_limit_order rt st ks side p q = Inr st'"
  obtains mk tb bl wl c free locked next_id next_open where
    "ss_markets st (ilk_market ks) = Some mk" "mkt_status mk = MarketActive" "0 < p" "0 < q"
    "is_multiple_of p (mkt_price_tick_size mk)" "is_multiple_of q (mkt_quantity_lot_size mk)"
    "ilk_order ks = address rt (OrderPda (ilk_market ks) (mkt_next_order_id mk))"
    "ss_orders st (ilk_order ks) = None"
    "ilk_price_level ks = level_address rt (ilk_market ks) side p"
    "ss_levels st (ilk_price_level ks) = None"
    "ss_balances st (ilk_trader_balance ks) = Some tb"
    "ilk_trader_balance ks = address rt (TraderBalancePda (ilk_market ks) (ilk_trader ks))"
    "tb_market tb = ilk_market ks" "tb_owner tb = ilk_trader ks"
    "loaded (ss_levels st) (ilk_better_level ks) bl" "loaded (ss_levels st) (ilk_worse_level ks) wl"
    "check_insert_position rt (ilk_market ks) side p (market_best mk side) bl wl = Inr ()"
    "required_collateral side p q (mkt_base_decimals mk) = Inr c"
    "lock_amounts side tb c = Inr (free, locked)"
    "unat next_id = unat (mkt_next_order_id mk) + 1"
    "unat next_open = unat (mkt_open_order_count mk) + 1"
    "st' = insert_effect rt ks side p q mk bl wl tb c free locked next_id next_open st"
proof -
  show thesis
    using assms
    unfolding insert_limit_order_def handle_insert_limit_order_def commit_insert_def Let_def insert_effect_def
    by (auto simp: run_simps save_def address_def level_address_def placed_order_def upd_inner_def
        split: prod.splits intro!: that [unfolded insert_effect_def] simp del: fun_upd_apply)
qed

lemma insert_limit_order_refines:
  assumes ok: "insert_limit_order rt st ks side p q = Inr st'"
    and sep: "levels_separate rt (ilk_market ks)"
  shows "gstep is_bid (spot_view rt (ilk_market ks) st) (GInsert side p (ilk_order ks) q)
           (spot_view rt (ilk_market ks) st')"
proof -
  let ?m = "ilk_market ks" and ?k = "ilk_order ks"
  obtain mk tb bl wl c free locked next_id next_open where
    mk: "ss_markets st ?m = Some mk" and q: "0 < q" and fresh: "ss_orders st ?k = None"
    and level: "ilk_price_level ks = level_address rt ?m side p"
    and bl: "loaded (ss_levels st) (ilk_better_level ks) bl"
    and wl: "loaded (ss_levels st) (ilk_worse_level ks) wl"
    and pos: "check_insert_position rt ?m side p (market_best mk side) bl wl = Inr ()"
    and ids: "unat next_id = unat (mkt_next_order_id mk) + 1"
      "unat next_open = unat (mkt_open_order_count mk) + 1"
    and st': "st' = insert_effect rt ks side p q mk bl wl tb c free locked next_id next_open st"
    by (rule insert_limit_order_ok [OF ok])
  let ?bp = "map_option (\<lambda>a. lvl_price (inner a)) bl"
  let ?wp = "map_option (\<lambda>a. lvl_price (inner a)) wl"
  note hints = check_insert_position_hints [OF pos mk bl wl]
  have bkey: "key b = level_address rt ?m side (lvl_price (inner b))"
      "ss_levels st (level_address rt ?m side (lvl_price (inner b))) = Some (inner b)"
    if "bl = Some b \<or> wl = Some b" for b
    using hints(2) that by metis+
  have apart: "lvl_price (inner b) \<noteq> lvl_price (inner w)" if "bl = Some b" "wl = Some w" for b w
    using hints(1) that by (auto simp: hints_ok_def dest: precedes_asym split: option.splits)
  have succs: "mkt_next_order_id mk + 1 = next_id" "mkt_open_order_count mk + 1 = next_open"
    using ids by (simp_all add: word_succ_eq)
  have "spot_view rt ?m st' = g_insert side p ?k q ?bp ?wp (spot_view rt ?m st)"
  proof (rule gbook_eqI)
    show "gb_orders (spot_view rt ?m st') j = gb_orders (g_insert side p ?k q ?bp ?wp (spot_view rt ?m st)) j" for j
      using mk by (simp add: st' insert_effect_def g_insert_orders spot_orders_def placed_order_def new_gorder_def
          order_view_def spot_view_market)
  next
    show "gb_levels (spot_view rt ?m st') (l', p') =
        gb_levels (g_insert side p ?k q ?bp ?wp (spot_view rt ?m st)) (l', p')" for l' p'
      using bkey apart
      by (cases bl; cases wl; cases "ss_levels st (level_address rt ?m l' p')")
        (auto simp: st' insert_effect_def g_insert_levels level level_address_eq [OF sep] save_opt_apply
          level_view_def)
  next
    show "gb_best (spot_view rt ?m st') l = gb_best (g_insert side p ?k q ?bp ?wp (spot_view rt ?m st)) l" for l
      using mk by (auto simp: st' insert_effect_def g_insert_def)
  next
    show "gb_next_id (spot_view rt ?m st') = gb_next_id (g_insert side p ?k q ?bp ?wp (spot_view rt ?m st))"
      using mk by (simp add: st' insert_effect_def g_insert_def spot_view_market succs)
  next
    show "gb_open (spot_view rt ?m st') = gb_open (g_insert side p ?k q ?bp ?wp (spot_view rt ?m st))"
      using mk by (simp add: st' insert_effect_def g_insert_def spot_view_market succs)
  qed
  moreover have "gstep is_bid (spot_view rt ?m st) (GInsert side p ?k q)
      (g_insert side p ?k q ?bp ?wp (spot_view rt ?m st))"
    by (rule gstep.insert [OF hints(1) _ q])
      (use fresh ids unat_u64_bound [of next_id] unat_u64_bound [of next_open] in
        \<open>simp_all add: spot_orders_def spot_view_market [OF mk]\<close>)
  ultimately show ?thesis by simp
qed

definition append_effect ::
  "runtime \<Rightarrow> AppendLimitOrderKeys \<Rightarrow> OrderSide \<Rightarrow> u64 \<Rightarrow> u64 \<Rightarrow> Market \<Rightarrow> PriceLevel \<Rightarrow> Order \<Rightarrow>
   TraderBalance \<Rightarrow> u64 \<Rightarrow> u64 \<Rightarrow> u64 \<Rightarrow> u64 \<Rightarrow> u64 \<Rightarrow> u64 \<Rightarrow> u64 \<Rightarrow> spot_store \<Rightarrow> spot_store" where
  "append_effect rt ks side p q mk lv prev tb c free locked next_id next_open tot cnt st =
     st\<lparr>
       ss_markets := (ss_markets st)(alk_market ks \<mapsto>
         mk\<lparr>mkt_next_order_id := next_id, mkt_open_order_count := next_open\<rparr>),
       ss_orders := (ss_orders st)(alk_previous_order ks \<mapsto> prev\<lparr>ord_next_order := Some (alk_order ks)\<rparr>,
         alk_order ks \<mapsto> placed_order (alk_trader ks) (alk_market ks)
           (mkt_next_order_id mk) side p (alk_price_level ks) (Some (alk_previous_order ks)) q c
           (snd (pda rt (OrderPda (alk_market ks) (mkt_next_order_id mk))))),
       ss_levels := (ss_levels st)(alk_price_level ks \<mapsto> lv\<lparr>lvl_last_order := Some (alk_order ks),
         lvl_total_remaining_quantity := tot, lvl_order_count := cnt\<rparr>),
       ss_balances := (ss_balances st)(alk_trader_balance ks \<mapsto> set_side_balance side free locked tb)\<rparr>"

lemma append_limit_order_ok:
  assumes "append_limit_order rt st ks side p q = Inr st'"
  obtains mk lv prev tb c free locked next_id next_open tot cnt where
    "ss_markets st (alk_market ks) = Some mk" "mkt_status mk = MarketActive" "0 < p" "0 < q"
    "is_multiple_of p (mkt_price_tick_size mk)" "is_multiple_of q (mkt_quantity_lot_size mk)"
    "alk_order ks = address rt (OrderPda (alk_market ks) (mkt_next_order_id mk))"
    "ss_orders st (alk_order ks) = None"
    "alk_price_level ks = level_address rt (alk_market ks) side p"
    "ss_levels st (alk_price_level ks) = Some lv" "lvl_last_order lv = Some (alk_previous_order ks)"
    "ss_orders st (alk_previous_order ks) = Some prev"
    "ss_balances st (alk_trader_balance ks) = Some tb"
    "alk_trader_balance ks = address rt (TraderBalancePda (alk_market ks) (alk_trader ks))"
    "tb_market tb = alk_market ks" "tb_owner tb = alk_trader ks"
    "required_collateral side p q (mkt_base_decimals mk) = Inr c"
    "lock_amounts side tb c = Inr (free, locked)"
    "unat next_id = unat (mkt_next_order_id mk) + 1"
    "unat next_open = unat (mkt_open_order_count mk) + 1"
    "unat tot = unat (lvl_total_remaining_quantity lv) + unat q"
    "unat cnt = unat (lvl_order_count lv) + 1"
    "st' = append_effect rt ks side p q mk lv prev tb c free locked next_id next_open tot cnt st"
proof -
  show thesis
    using assms
    unfolding append_limit_order_def handle_append_limit_order_def Let_def append_effect_def
    by (auto simp: run_simps save_def address_def level_address_def placed_order_def upd_inner_def
        split: prod.splits intro!: that [unfolded append_effect_def] simp del: fun_upd_apply)
qed

lemma append_limit_order_refines:
  assumes ok: "append_limit_order rt st ks side p q = Inr st'"
    and sep: "levels_separate rt (alk_market ks)"
    and inv: "book_inv is_bid (spot_view rt (alk_market ks) st)"
  shows "gstep is_bid (spot_view rt (alk_market ks) st) (GAppend side p (alk_order ks) q)
           (spot_view rt (alk_market ks) st')"
proof -
  let ?m = "alk_market ks" and ?k = "alk_order ks" and ?t = "alk_previous_order ks"
  let ?g = "spot_view rt (alk_market ks) st"
  obtain mk lv prev tb c free locked next_id next_open tot cnt where
    mk: "ss_markets st ?m = Some mk" and q: "0 < q" and fresh: "ss_orders st ?k = None"
    and level: "alk_price_level ks = level_address rt ?m side p"
    and lv: "ss_levels st (alk_price_level ks) = Some lv" and tail: "lvl_last_order lv = Some ?t"
    and prev: "ss_orders st ?t = Some prev"
    and ids: "unat next_id = unat (mkt_next_order_id mk) + 1"
      "unat next_open = unat (mkt_open_order_count mk) + 1"
      "unat tot = unat (lvl_total_remaining_quantity lv) + unat q"
      "unat cnt = unat (lvl_order_count lv) + 1"
    and st': "st' = append_effect rt ks side p q mk lv prev tb c free locked next_id next_open tot cnt st"
    by (rule append_limit_order_ok [OF ok])
  have view_lv: "gb_levels ?g (side, p) = Some (level_view lv)" using lv level by simp
  have tail_in: "ord_market prev = ?m"
  proof -
    obtain sp where rep: "book_rep is_bid ?g sp" using inv by (auto simp: book_inv_def)
    have "last_of (sp_queue sp (side, p)) = Some ?t"
      using book_repD(2) [OF rep view_lv] tail by (simp add: level_ok_def)
    then have "?t \<in> set (sp_queue sp (side, p))" by (rule last_of_in)
    moreover have "gb_levels ?g (side, p) \<noteq> None" using lv level by simp
    ultimately have "gb_orders ?g ?t \<noteq> None" by (intro queue_in_store [OF rep])
    then show ?thesis using prev by (auto simp: spot_orders_def split: if_splits)
  qed
  have succs: "mkt_next_order_id mk + 1 = next_id" "mkt_open_order_count mk + 1 = next_open"
    "lvl_total_remaining_quantity lv + q = tot" "lvl_order_count lv + 1 = cnt"
    using ids by (simp_all add: word_succ_eq word_add_eq)
  have "spot_view rt ?m st' = g_append side p ?k q ?t ?g"
  proof (rule gbook_eqI)
    show "gb_orders (spot_view rt ?m st') j = gb_orders (g_append side p ?k q ?t ?g) j" for j
      using mk prev tail_in
      by (auto simp: st' append_effect_def g_append_orders spot_orders_def placed_order_def new_gorder_def
          order_view_def spot_view_market)
  next
    show "gb_levels (spot_view rt ?m st') (l', p') = gb_levels (g_append side p ?k q ?t ?g) (l', p')" for l' p'
      using lv by (auto simp: st' append_effect_def g_append_levels level level_address_eq [OF sep] level_view_def succs)
  next
    show "gb_best (spot_view rt ?m st') l = gb_best (g_append side p ?k q ?t ?g) l" for l
      using mk by (simp add: st' append_effect_def g_append_def)
  next
    show "gb_next_id (spot_view rt ?m st') = gb_next_id (g_append side p ?k q ?t ?g)"
      using mk by (simp add: st' append_effect_def g_append_def spot_view_market succs)
  next
    show "gb_open (spot_view rt ?m st') = gb_open (g_append side p ?k q ?t ?g)"
      using mk by (simp add: st' append_effect_def g_append_def spot_view_market succs)
  qed
  moreover have "gstep is_bid ?g (GAppend side p ?k q) (g_append side p ?k q ?t ?g)"
    by (rule gstep.append [OF view_lv _ _ q])
      (use fresh tail ids unat_u64_bound [of next_id] unat_u64_bound [of next_open]
        unat_u64_bound [of tot] unat_u64_bound [of cnt] in
        \<open>simp_all add: spot_orders_def spot_view_market [OF mk]\<close>)
  ultimately show ?thesis by simp
qed

end
