(* ===== verification/Spot_Cancel.thy ===== *)
theory Spot_Cancel
  imports Spot_Store
begin

text \<open>
  Cancelling a spot order, \<open>cancel_limit_order.rs\<close>: the accounts struct, the handler (queue
  and level checks, the refund, the unlinking and the closing of an emptied level), and the
  whole instruction on the account store. A successful cancellation is one removal event of
  the book.
\<close>

record CancelLimitOrder =
  clo_owner :: pubkey
  clo_market :: "Market account"
  clo_order :: "Order account"
  clo_price_level :: "PriceLevel account"
  clo_previous_order :: "Order account option"
  clo_next_order :: "Order account option"
  clo_better_level :: "PriceLevel account option"
  clo_worse_level :: "PriceLevel account option"
  clo_level_rent_recipient :: "pubkey option"
  clo_trader_balance :: "TraderBalance account"
  clo_level_closed :: bool

text \<open>The supplied FIFO neighbours are exactly the stored ones and link back.\<close>

definition check_queue_neighbors :: "CancelLimitOrder \<Rightarrow> unit res" where
  "check_queue_neighbors acc =
     (let order = inner (clo_order acc);
          order_key = key (clo_order acc);
          price_level_key = key (clo_price_level acc);
          previous_key = map_option key (clo_previous_order acc);
          next_key = map_option key (clo_next_order acc) in
      require (ord_previous_order order = previous_key) InvalidOrderNeighbor
      (require (ord_next_order order = next_key) InvalidOrderNeighbor
      (try_in (case clo_previous_order acc of
           None \<Rightarrow> Inr ()
         | Some previous_order \<Rightarrow>
             require (ord_status (inner previous_order) = Open) OrderNotOpen
             (require (ord_price_level (inner previous_order) = price_level_key)
               OrderPriceLevelMismatch
             (require (ord_next_order (inner previous_order) = Some order_key)
               BrokenOrderQueueLink
             (Inr ())))) (\<lambda>_.
       case clo_next_order acc of
           None \<Rightarrow> Inr ()
         | Some next_order \<Rightarrow>
             require (ord_status (inner next_order) = Open) OrderNotOpen
             (require (ord_price_level (inner next_order) = price_level_key)
               OrderPriceLevelMismatch
             (require (ord_previous_order (inner next_order) = Some order_key)
               BrokenOrderQueueLink
             (Inr ())))))))"

text \<open>An emptied level: its endpoints, aggregate, head pointer, rent and neighbours.\<close>

definition check_removed_level :: "runtime \<Rightarrow> CancelLimitOrder \<Rightarrow> u64 \<Rightarrow> unit res" where
  "check_removed_level rt acc next_level_quantity =
     (let order = inner (clo_order acc);
          order_key = key (clo_order acc);
          level = inner (clo_price_level acc);
          market_key = key (clo_market acc);
          level_pda = (\<lambda>price. fst (derive_price_level_pda rt (program_id rt) market_key
             (ord_side order) price)) in
      require (ord_previous_order order = None \<and> ord_next_order order = None)
        InvalidPriceLevelEndpoints
      (require (lvl_first_order level = Some order_key \<and> lvl_last_order level = Some order_key)
        InvalidPriceLevelEndpoints
      (require (next_level_quantity = 0) InvalidPriceLevelAggregate
      (require (lvl_better_price level = None \<longrightarrow>
          market_best (inner (clo_market acc)) (ord_side order) = Some (lvl_price level))
        BestPriceLevelMismatch
      (ok_or (clo_level_rent_recipient acc) InvalidPriceLevelRentRecipient (\<lambda>rent_recipient.
       require (rent_recipient = lvl_rent_payer level) InvalidPriceLevelRentRecipient
      (require (map_option key (clo_better_level acc) = map_option level_pda (lvl_better_price level)
          \<and> map_option key (clo_worse_level acc) = map_option level_pda (lvl_worse_price level))
        InvalidPriceLevelNeighbors
      (Inr ()))))))))"

text \<open>The supplied level neighbours, when both the account and the link are present.\<close>

definition check_level_neighbor ::
  "pubkey \<Rightarrow> OrderSide \<Rightarrow> u64 \<Rightarrow> (PriceLevel \<Rightarrow> u64 option) \<Rightarrow> PriceLevel account option \<Rightarrow>
   u64 option \<Rightarrow> unit res" where
  "check_level_neighbor market_key side level_price back_link neighbor expected =
     (case (neighbor, expected) of
        (Some a, Some expected_price) \<Rightarrow>
          require (lvl_market (inner a) = market_key) PriceLevelMarketMismatch
          (require (lvl_side (inner a) = side \<and> lvl_price (inner a) = expected_price \<and>
             back_link (inner a) = Some level_price) InvalidPriceLevelNeighbors
          (Inr ()))
      | _ \<Rightarrow> Inr ())"

text \<open>The mutation phase: refund, queue splice, level splice, order record, market, closing.\<close>

definition commit_cancel ::
  "CancelLimitOrder \<Rightarrow> u64 \<Rightarrow> u64 \<Rightarrow> u64 \<Rightarrow> u64 \<Rightarrow> u64 \<Rightarrow> CancelLimitOrder" where
  "commit_cancel acc next_free_balance next_locked_balance next_open_order_count
      next_level_order_count next_level_quantity =
     (let level = inner (clo_price_level acc);
          side = ord_side (inner (clo_order acc));
          previous_key = map_option key (clo_previous_order acc);
          next_key = map_option key (clo_next_order acc);
          removes_price_level = (next_level_order_count = 0) in
       acc\<lparr>
         clo_trader_balance := upd_inner
           (set_side_balance side next_free_balance next_locked_balance) (clo_trader_balance acc),
         clo_previous_order := map_option (upd_inner (\<lambda>r. r\<lparr>ord_next_order := next_key\<rparr>))
           (clo_previous_order acc),
         clo_next_order := map_option (upd_inner (\<lambda>r. r\<lparr>ord_previous_order := previous_key\<rparr>))
           (clo_next_order acc),
         clo_price_level := upd_inner (\<lambda>v. v\<lparr>
           lvl_first_order := (if clo_previous_order acc = None then next_key else lvl_first_order v),
           lvl_last_order := (if clo_next_order acc = None then previous_key else lvl_last_order v),
           lvl_order_count := next_level_order_count,
           lvl_total_remaining_quantity := next_level_quantity\<rparr>) (clo_price_level acc),
         clo_better_level := (if removes_price_level
           then map_option (upd_inner (\<lambda>v. v\<lparr>lvl_worse_price := lvl_worse_price level\<rparr>))
             (clo_better_level acc)
           else clo_better_level acc),
         clo_worse_level := (if removes_price_level
           then map_option (upd_inner (\<lambda>v. v\<lparr>lvl_better_price := lvl_better_price level\<rparr>))
             (clo_worse_level acc)
           else clo_worse_level acc),
         clo_order := upd_inner (\<lambda>r. r\<lparr>ord_locked_collateral := 0, ord_remaining_quantity := 0,
           ord_previous_order := None, ord_next_order := None, ord_status := Canceled\<rparr>)
           (clo_order acc),
         clo_market := upd_inner (\<lambda>m.
           (if removes_price_level \<and> clo_better_level acc = None
            then set_market_best m side (lvl_worse_price level) else m)
             \<lparr>mkt_open_order_count := next_open_order_count\<rparr>) (clo_market acc),
         clo_level_closed := removes_price_level\<rparr>)"

definition handle_cancel_limit_order :: "runtime \<Rightarrow> CancelLimitOrder \<Rightarrow> CancelLimitOrder res" where
  "handle_cancel_limit_order rt acc =
     (let market = inner (clo_market acc);
          market_key = key (clo_market acc);
          order = inner (clo_order acc);
          level = inner (clo_price_level acc);
          balance = inner (clo_trader_balance acc);
          side = ord_side order in
      require (ord_status order = Open) OrderNotOpen
      (try_in (check_queue_neighbors acc) (\<lambda>_.
       try_in (release_amounts side balance (ord_locked_collateral order))
         (\<lambda>(next_free_balance, next_locked_balance).
       ok_or (checked_sub (mkt_open_order_count market) 1) OpenOrderCountUnderflow (\<lambda>next_open_order_count.
       ok_or (checked_sub (lvl_order_count level) 1) PriceLevelOrderCountUnderflow (\<lambda>next_level_order_count.
       ok_or (checked_sub (lvl_total_remaining_quantity level) (ord_remaining_quantity order))
         PriceLevelQuantityUnderflow (\<lambda>next_level_quantity.
       let removes_price_level = (next_level_order_count = 0) in
       try_in (if removes_price_level then check_removed_level rt acc next_level_quantity
               else require (clo_better_level acc = None \<and> clo_worse_level acc = None \<and>
                      clo_level_rent_recipient acc = None) InvalidPriceLevelNeighbors (Inr ())) (\<lambda>_.
       try_in (check_level_neighbor market_key side (lvl_price level) lvl_worse_price
                 (clo_better_level acc) (lvl_better_price level)) (\<lambda>_.
       try_in (check_level_neighbor market_key side (lvl_price level) lvl_better_price
                 (clo_worse_level acc) (lvl_worse_price level)) (\<lambda>_.
       Inr (commit_cancel acc next_free_balance next_locked_balance next_open_order_count
         next_level_order_count next_level_quantity)))))))))))"

record CancelLimitOrderKeys =
  clk_owner :: pubkey
  clk_market :: pubkey
  clk_order :: pubkey
  clk_price_level :: pubkey
  clk_previous_order :: "pubkey option"
  clk_next_order :: "pubkey option"
  clk_better_level :: "pubkey option"
  clk_worse_level :: "pubkey option"
  clk_level_rent_recipient :: "pubkey option"
  clk_trader_balance :: pubkey

definition cancel_limit_order ::
  "runtime \<Rightarrow> spot_store \<Rightarrow> CancelLimitOrderKeys \<Rightarrow> u64 \<Rightarrow> spot_store res" where
  "cancel_limit_order rt st ks order_id =
     load (ss_markets st) (clk_market ks) (\<lambda>market.
     load (ss_orders st) (clk_order ks) (\<lambda>order.
     require (key order = address rt (OrderPda (key market) order_id)) ConstraintSeeds
     (require (ord_owner (inner order) = clk_owner ks) UnauthorizedOrderOwner
     (require (ord_market (inner order) = key market) OrderMarketMismatch
     (load (ss_levels st) (clk_price_level ks) (\<lambda>price_level.
     require (key price_level = address rt (PriceLevelPda (key market) (ord_side (inner order))
        (ord_price (inner order)))) ConstraintSeeds
     (require (ord_price_level (inner order) = key price_level) OrderPriceLevelMismatch
     (require (lvl_market (inner price_level) = key market) PriceLevelMarketMismatch
     (require (lvl_side (inner price_level) = ord_side (inner order)) PriceLevelSideMismatch
     (require (lvl_price (inner price_level) = ord_price (inner order)) PriceLevelPriceMismatch
     (load_opt (ss_orders st) (clk_previous_order ks) (\<lambda>previous_order.
      load_opt (ss_orders st) (clk_next_order ks) (\<lambda>next_order.
      load_opt (ss_levels st) (clk_better_level ks) (\<lambda>better_level.
      load_opt (ss_levels st) (clk_worse_level ks) (\<lambda>worse_level.
      load (ss_balances st) (clk_trader_balance ks) (\<lambda>trader_balance.
     require (key trader_balance = address rt (TraderBalancePda (key market) (clk_owner ks)))
       ConstraintSeeds
     (require (tb_market (inner trader_balance) = key market) TraderBalanceMarketMismatch
     (require (tb_owner (inner trader_balance) = clk_owner ks) TraderBalanceOwnerMismatch
     (require (distinct (keys_of [Some (clk_order ks), clk_previous_order ks, clk_next_order ks]) \<and>
         distinct (keys_of [Some (clk_price_level ks), clk_better_level ks, clk_worse_level ks]))
       ConstraintDuplicateMutableAccount
     (try_in (handle_cancel_limit_order rt
          \<lparr>clo_owner = clk_owner ks, clo_market = market, clo_order = order,
           clo_price_level = price_level, clo_previous_order = previous_order,
           clo_next_order = next_order, clo_better_level = better_level,
           clo_worse_level = worse_level,
           clo_level_rent_recipient = clk_level_rent_recipient ks,
           clo_trader_balance = trader_balance, clo_level_closed = False\<rparr>) (\<lambda>acc.
     Inr (st\<lparr>
       ss_markets := save (clo_market acc) (ss_markets st),
       ss_orders := save (clo_order acc) (save_opt (clo_next_order acc)
          (save_opt (clo_previous_order acc) (ss_orders st))),
       ss_levels := (save_opt (clo_worse_level acc) (save_opt (clo_better_level acc) (ss_levels st)))
          (key (clo_price_level acc) :=
             (if clo_level_closed acc then None else Some (inner (clo_price_level acc)))),
       ss_balances := save (clo_trader_balance acc) (ss_balances st)\<rparr>))))))))))))))))))))))"

section \<open>Cancelling is one removal from the book\<close>

text \<open>The store a successful cancellation leaves.\<close>

definition cancel_effect ::
  "CancelLimitOrderKeys \<Rightarrow> Market \<Rightarrow> Order \<Rightarrow> PriceLevel \<Rightarrow> TraderBalance \<Rightarrow>
   Order account option \<Rightarrow> Order account option \<Rightarrow> PriceLevel account option \<Rightarrow>
   PriceLevel account option \<Rightarrow> u64 \<Rightarrow> u64 \<Rightarrow> u64 \<Rightarrow> u64 \<Rightarrow> u64 \<Rightarrow> spot_store \<Rightarrow> spot_store" where
  "cancel_effect ks mk r lv tb pa na ba wa free locked next_open cnt tot st =
     st\<lparr>
       ss_markets := (ss_markets st)(clk_market ks \<mapsto>
         (if cnt = 0 \<and> ba = None then set_market_best mk (ord_side r) (lvl_worse_price lv) else mk)
           \<lparr>mkt_open_order_count := next_open\<rparr>),
       ss_orders := (save_opt (map_option (upd_inner (\<lambda>x. x\<lparr>ord_previous_order := map_option key pa\<rparr>)) na)
           (save_opt (map_option (upd_inner (\<lambda>x. x\<lparr>ord_next_order := map_option key na\<rparr>)) pa)
             (ss_orders st)))
         (clk_order ks \<mapsto> closed_order Canceled r),
       ss_levels := (save_opt (if cnt = 0
             then map_option (upd_inner (\<lambda>v. v\<lparr>lvl_better_price := lvl_better_price lv\<rparr>)) wa else wa)
           (save_opt (if cnt = 0
             then map_option (upd_inner (\<lambda>v. v\<lparr>lvl_worse_price := lvl_worse_price lv\<rparr>)) ba else ba)
             (ss_levels st)))
         (clk_price_level ks := (if cnt = 0 then None else Some (lv\<lparr>
             lvl_first_order := (if pa = None then map_option key na else lvl_first_order lv),
             lvl_last_order := (if na = None then map_option key pa else lvl_last_order lv),
             lvl_order_count := cnt, lvl_total_remaining_quantity := tot\<rparr>))),
       ss_balances := (ss_balances st)(clk_trader_balance ks \<mapsto>
         set_side_balance (ord_side r) free locked tb)\<rparr>"

lemma check_queue_neighbors_Inr [run_simps]:
  "check_queue_neighbors acc = Inr u \<longleftrightarrow>
     ord_previous_order (inner (clo_order acc)) = map_option key (clo_previous_order acc) \<and>
     ord_next_order (inner (clo_order acc)) = map_option key (clo_next_order acc) \<and>
     (\<forall>a. clo_previous_order acc = Some a \<longrightarrow> ord_status (inner a) = Open \<and>
        ord_price_level (inner a) = key (clo_price_level acc) \<and>
        ord_next_order (inner a) = Some (key (clo_order acc))) \<and>
     (\<forall>a. clo_next_order acc = Some a \<longrightarrow> ord_status (inner a) = Open \<and>
        ord_price_level (inner a) = key (clo_price_level acc) \<and>
        ord_previous_order (inner a) = Some (key (clo_order acc)))"
  unfolding check_queue_neighbors_def Let_def
  by (cases "clo_previous_order acc"; cases "clo_next_order acc") (auto simp: run_simps)

lemma check_removed_level_Inr [run_simps]:
  "check_removed_level rt acc tot = Inr u \<longleftrightarrow>
     (let r = inner (clo_order acc); lv = inner (clo_price_level acc) in
      ord_previous_order r = None \<and> ord_next_order r = None \<and>
      lvl_first_order lv = Some (key (clo_order acc)) \<and> lvl_last_order lv = Some (key (clo_order acc)) \<and>
      tot = 0 \<and>
      (lvl_better_price lv = None \<longrightarrow>
         market_best (inner (clo_market acc)) (ord_side r) = Some (lvl_price lv)) \<and>
      clo_level_rent_recipient acc = Some (lvl_rent_payer lv) \<and>
      map_option key (clo_better_level acc) =
        map_option (level_address rt (key (clo_market acc)) (ord_side r)) (lvl_better_price lv) \<and>
      map_option key (clo_worse_level acc) =
        map_option (level_address rt (key (clo_market acc)) (ord_side r)) (lvl_worse_price lv))"
proof -
  have "level_address rt (key (clo_market acc)) sd =
      (\<lambda>price. fst (derive_price_level_pda rt (program_id rt) (key (clo_market acc)) sd price))" for sd
    by (simp add: fun_eq_iff derive_is_pda level_address_def address_def)
  then show ?thesis
    unfolding check_removed_level_def Let_def by (auto simp: run_simps)
qed

lemma check_level_neighbor_Inr [run_simps]:
  "check_level_neighbor m side p link neighbor expected = Inr u \<longleftrightarrow>
     (\<forall>a e. neighbor = Some a \<longrightarrow> expected = Some e \<longrightarrow>
        lvl_market (inner a) = m \<and> lvl_side (inner a) = side \<and> lvl_price (inner a) = e \<and>
        link (inner a) = Some p)"
  by (auto simp: check_level_neighbor_def run_simps split: option.splits)

lemma cancel_limit_order_ok:
  assumes "cancel_limit_order rt st ks i = Inr st'"
  obtains mk r lv tb pa na ba wa free locked next_open cnt tot where
    "ss_markets st (clk_market ks) = Some mk"
    "ss_orders st (clk_order ks) = Some r" "ord_owner r = clk_owner ks" "ord_market r = clk_market ks"
    "ord_status r = Open"
    "clk_price_level ks = level_address rt (clk_market ks) (ord_side r) (ord_price r)"
    "ss_levels st (clk_price_level ks) = Some lv"
    "loaded (ss_orders st) (clk_previous_order ks) pa" "loaded (ss_orders st) (clk_next_order ks) na"
    "loaded (ss_levels st) (clk_better_level ks) ba" "loaded (ss_levels st) (clk_worse_level ks) wa"
    "distinct (keys_of [Some (clk_order ks), clk_previous_order ks, clk_next_order ks])"
    "distinct (keys_of [Some (clk_price_level ks), clk_better_level ks, clk_worse_level ks])"
    "ss_balances st (clk_trader_balance ks) = Some tb"
    "clk_trader_balance ks = address rt (TraderBalancePda (clk_market ks) (clk_owner ks))"
    "tb_market tb = clk_market ks" "tb_owner tb = clk_owner ks"
    "ord_previous_order r = map_option key pa" "ord_next_order r = map_option key na"
    "release_amounts (ord_side r) tb (ord_locked_collateral r) = Inr (free, locked)"
    "unat (mkt_open_order_count mk) = 1 + unat next_open"
    "unat (lvl_order_count lv) = 1 + unat cnt"
    "unat (lvl_total_remaining_quantity lv) = unat (ord_remaining_quantity r) + unat tot"
    "if cnt = 0
     then map_option key ba = map_option (level_address rt (clk_market ks) (ord_side r)) (lvl_better_price lv)
       \<and> map_option key wa = map_option (level_address rt (clk_market ks) (ord_side r)) (lvl_worse_price lv)
     else ba = None \<and> wa = None"
    "\<forall>a e. ba = Some a \<longrightarrow> lvl_better_price lv = Some e \<longrightarrow> lvl_price (inner a) = e"
    "\<forall>a e. wa = Some a \<longrightarrow> lvl_worse_price lv = Some e \<longrightarrow> lvl_price (inner a) = e"
    "st' = cancel_effect ks mk r lv tb pa na ba wa free locked next_open cnt tot st"
proof -
  show thesis
    using assms
    apply (simp only: cancel_limit_order_def handle_cancel_limit_order_def commit_cancel_def run_simps Let_def
        split_paired_Ex prod.case)
    apply (elim exE conjE)
    apply (simp add: upd_inner_def save_def level_address_def [symmetric] closed_order_def cong: if_cong del: fun_upd_apply)
    apply clarify
    apply (rule that [unfolded cancel_effect_def closed_order_def])
    apply (assumption | (simp add: run_simps save_def upd_inner_def cong: if_cong del: fun_upd_apply; fail))+
    done
qed

lemma cancel_limit_order_refines:
  assumes ok: "cancel_limit_order rt st ks i = Inr st'"
    and sep: "levels_separate rt (clk_market ks)"
    and inv: "book_inv is_bid (spot_view rt (clk_market ks) st)"
  shows "\<exists>r. ss_orders st (clk_order ks) = Some r \<and>
    gstep is_bid (spot_view rt (clk_market ks) st) (GCancel (ord_side r) (ord_price r) (clk_order ks))
      (spot_view rt (clk_market ks) st')"
proof -
  let ?m = "clk_market ks" and ?k = "clk_order ks"
  let ?g = "spot_view rt (clk_market ks) st"
  obtain mk r lv tb pa na ba wa free locked next_open cnt tot where
    mk: "ss_markets st ?m = Some mk" and r: "ss_orders st ?k = Some r" "ord_market r = ?m" "ord_status r = Open"
    and level: "clk_price_level ks = level_address rt ?m (ord_side r) (ord_price r)"
    and lv: "ss_levels st (clk_price_level ks) = Some lv"
    and accs: "loaded (ss_orders st) (clk_previous_order ks) pa" "loaded (ss_orders st) (clk_next_order ks) na"
      "loaded (ss_levels st) (clk_better_level ks) ba" "loaded (ss_levels st) (clk_worse_level ks) wa"
    and d: "distinct (keys_of [Some ?k, clk_previous_order ks, clk_next_order ks])"
      "distinct (keys_of [Some (clk_price_level ks), clk_better_level ks, clk_worse_level ks])"
    and links: "ord_previous_order r = map_option key pa" "ord_next_order r = map_option key na"
    and cnts: "unat (mkt_open_order_count mk) = 1 + unat next_open"
      "unat (lvl_order_count lv) = 1 + unat cnt"
      "unat (lvl_total_remaining_quantity lv) = unat (ord_remaining_quantity r) + unat tot"
    and ends: "if cnt = 0
      then map_option key ba = map_option (level_address rt ?m (ord_side r)) (lvl_better_price lv)
        \<and> map_option key wa = map_option (level_address rt ?m (ord_side r)) (lvl_worse_price lv)
      else ba = None \<and> wa = None"
    and st': "st' = cancel_effect ks mk r lv tb pa na ba wa free locked next_open cnt tot st"
    by (rule cancel_limit_order_ok [OF ok])
  obtain sp where rep: "book_rep is_bid ?g sp" using inv by (auto simp: book_inv_def)
  have rok: "remove_ok is_bid ?g sp (ord_side r) (ord_price r) ?k (order_view r) (level_view lv)"
    using rep r lv level by (simp add: remove_ok_def spot_orders_def)
  let ?g' = "g_remove (ord_side r) (ord_price r) ?k 0 (order_view r) (level_view lv) ?g"
  have diffs: "lvl_total_remaining_quantity lv - ord_remaining_quantity r = tot"
    "lvl_order_count lv - 1 = cnt"
    using cnts by (simp_all add: word_sub_eq)
  have one: "lvl_order_count lv = 1 \<longleftrightarrow> cnt = 0"
    using cnts(2) by (auto simp: word_unat_eq_iff)
  have "spot_view rt ?m st' = ?g'"
  proof (rule gbook_eqI)
    show "gb_orders (spot_view rt ?m st') j = gb_orders ?g' j" for j
    proof (simp only: spot_view_fields, rule unlink_orders_view [OF r(1,2)])
      show "loaded (ss_orders st) (ord_previous_order r) pa" "loaded (ss_orders st) (ord_next_order r) na"
        using accs(1,2) links by (simp_all add: loaded_key)
    qed (use d(1) links accs(1,2) remove_neighbor [OF rok] in
        \<open>auto simp: st' cancel_effect_def dest!: loaded_key\<close>)
  next
    show "gb_levels (spot_view rt ?m st') (l', p') = gb_levels ?g' (l', p')" for l' p'
    proof (cases "cnt = 0")
      case True
      then have keys: "map_option (level_address rt ?m (ord_side r)) (lvl_better_price lv) = clk_better_level ks"
        "map_option (level_address rt ?m (ord_side r)) (lvl_worse_price lv) = clk_worse_level ks"
        using ends accs(3,4) by (simp_all add: loaded_key)
      show ?thesis
        by (simp only: spot_view_fields prod.case, rule unlink_levels_view [OF sep _ _ _ one [THEN iffD2, OF True]])
          (use True keys accs(3,4) d(2) lv level in \<open>auto simp: st' cancel_effect_def\<close>)
    next
      case False
      with one ends lv links show ?thesis
        by (auto simp: st' cancel_effect_def g_remove_levels_many level level_view_def
            level_address_eq [OF sep] save_opt_def diffs)
    qed
  next
    show "gb_best (spot_view rt ?m st') l = gb_best ?g' l" for l
      using mk one ends by (auto simp: st' cancel_effect_def g_remove_def)
  next
    show "gb_next_id (spot_view rt ?m st') = gb_next_id ?g'"
      using mk by (simp add: st' cancel_effect_def g_remove_def spot_view_market)
  next
    show "gb_open (spot_view rt ?m st') = gb_open ?g'"
      using mk cnts(1) by (simp add: st' cancel_effect_def g_remove_def spot_view_market word_sub_eq)
  qed
  moreover have "gstep is_bid ?g (GCancel (ord_side r) (ord_price r) ?k) ?g'"
    by (rule gstep.cancel) (use r lv level in \<open>simp_all add: spot_orders_def\<close>)
  ultimately show ?thesis using r(1) by metis
qed

end
