(* ===== verification/Spot_Match.thy ===== *)
theory Spot_Match
  imports Spot_Store
begin

text \<open>
  Matching one taker against the best FIFO maker, \<open>match_limit_order.rs\<close>: the accounts
  struct, the handler (plan, fee, removal checks, balance settlement, book update), and the
  whole instruction on the account store. A successful match is one fill event of the book.
\<close>

record MatchLimitOrder =
  mlo_taker :: pubkey
  mlo_market :: "Market account"
  mlo_protocol_config :: "ProtocolConfig account"
  mlo_market_fees :: "MarketFees account"
  mlo_maker_order :: "Order account"
  mlo_maker_price_level :: "PriceLevel account"
  mlo_next_order :: "Order account option"
  mlo_worse_level :: "PriceLevel account option"
  mlo_level_rent_recipient :: "pubkey option"
  mlo_maker_balance :: "TraderBalance account"
  mlo_taker_balance :: "TraderBalance account"
  mlo_level_closed :: bool

text \<open>The book transition of a full fill, checked before any balance moves: an emptied level
  against its neighbour and rent payer, a surviving level against the next order.\<close>

definition check_level_removal ::
  "runtime \<Rightarrow> MatchLimitOrder \<Rightarrow> u64 \<Rightarrow> unit res" where
  "check_level_removal rt acc next_level_quantity =
     (let market_key = key (mlo_market acc);
          maker = inner (mlo_maker_order acc);
          level = inner (mlo_maker_price_level acc) in
      require (ord_next_order maker = None \<and>
          lvl_last_order level = Some (key (mlo_maker_order acc))) InvalidPriceLevelEndpoints
      (require (next_level_quantity = 0) InvalidPriceLevelAggregate
      (require (lvl_better_price level = None) BestPriceLevelMismatch
      (require (map_option key (mlo_worse_level acc) =
          map_option (\<lambda>price. fst (derive_price_level_pda rt (program_id rt) market_key
             (ord_side maker) price)) (lvl_worse_price level)) InvalidPriceLevelNeighbors
      (ok_or (mlo_level_rent_recipient acc) InvalidPriceLevelRentRecipient (\<lambda>rent_recipient.
       require (rent_recipient = lvl_rent_payer level) InvalidPriceLevelRentRecipient
      (case (mlo_worse_level acc, lvl_worse_price level) of
         (Some worse_level, Some expected_price) \<Rightarrow>
           require (lvl_market (inner worse_level) = market_key) PriceLevelMarketMismatch
           (require (lvl_side (inner worse_level) = ord_side maker \<and>
               lvl_price (inner worse_level) = expected_price \<and>
               lvl_better_price (inner worse_level) = Some (lvl_price level))
             InvalidPriceLevelNeighbors
           (Inr ()))
       | _ \<Rightarrow> Inr ())))))))"

definition check_next_head :: "MatchLimitOrder \<Rightarrow> u64 \<Rightarrow> unit res" where
  "check_next_head acc next_level_quantity =
     (let maker = inner (mlo_maker_order acc);
          level = inner (mlo_maker_price_level acc) in
      ok_or (mlo_next_order acc) InvalidOrderNeighbor (\<lambda>next_order.
      require (ord_status (inner next_order) = Open) OrderNotOpen
      (require (ord_market (inner next_order) = key (mlo_market acc)) OrderMarketMismatch
      (require (ord_price_level (inner next_order) = key (mlo_maker_price_level acc))
        OrderPriceLevelMismatch
      (require (key next_order \<noteq> key (mlo_maker_order acc) \<and>
          ord_side (inner next_order) = ord_side maker \<and>
          ord_price (inner next_order) = lvl_price level \<and>
          ord_previous_order (inner next_order) = Some (key (mlo_maker_order acc)))
        BrokenOrderQueueLink
      (require (next_level_quantity > 0) InvalidPriceLevelAggregate
      (require (mlo_worse_level acc = None \<and> mlo_level_rent_recipient acc = None)
        InvalidPriceLevelNeighbors
      (Inr ()))))))))"

definition check_book_transition ::
  "runtime \<Rightarrow> MatchLimitOrder \<Rightarrow> bool \<Rightarrow> bool \<Rightarrow> u64 \<Rightarrow> unit res" where
  "check_book_transition rt acc maker_full removes_price_level next_level_quantity =
     (if maker_full then
        require (ord_previous_order (inner (mlo_maker_order acc)) = None) BrokenOrderQueueLink
        (require (map_option key (mlo_next_order acc) = ord_next_order (inner (mlo_maker_order acc)))
          InvalidOrderNeighbor
        (if removes_price_level then check_level_removal rt acc next_level_quantity
         else check_next_head acc next_level_quantity))
      else
        require (mlo_next_order acc = None) InvalidOrderNeighbor
        (require (mlo_worse_level acc = None \<and> mlo_level_rent_recipient acc = None)
          InvalidPriceLevelNeighbors
        (Inr ())))"

text \<open>The internal ledger: \<open>(taker, maker)\<close> balances after the fill. The bid taker pays quote
  plus fee, the ask taker receives quote minus fee; the maker always trades at its price.\<close>

fun settle_balances ::
  "OrderSide \<Rightarrow> SettlementPlan \<Rightarrow> u64 \<Rightarrow> TraderBalance \<Rightarrow> TraderBalance \<Rightarrow>
   (TraderBalance \<times> TraderBalance) res" where
  "settle_balances Bid plan taker_fee_quote taker maker =
     ok_or (checked_add (quote_quantity (fill plan)) taker_fee_quote) FeeCalculationOverflow
       (\<lambda>taker_quote_debit.
     ok_or (checked_sub (tb_quote_free taker) taker_quote_debit) InsufficientFreeBalance
       (\<lambda>next_taker_quote_free.
     ok_or (checked_add (tb_base_free taker) (base_quantity (fill plan))) FreeBalanceOverflow
       (\<lambda>next_taker_base_free.
     ok_or (checked_sub (tb_base_locked maker) (maker_locked_debit plan)) LockedBalanceUnderflow
       (\<lambda>next_maker_base_locked.
     ok_or (checked_add (tb_quote_free maker) (quote_quantity (fill plan))) FreeBalanceOverflow
       (\<lambda>next_maker_quote_free.
     Inr (taker\<lparr>tb_quote_free := next_taker_quote_free, tb_base_free := next_taker_base_free\<rparr>,
          maker\<lparr>tb_base_locked := next_maker_base_locked,
            tb_quote_free := next_maker_quote_free\<rparr>))))))"
| "settle_balances Ask plan taker_fee_quote taker maker =
     ok_or (checked_sub (quote_quantity (fill plan)) taker_fee_quote) FeeCalculationOverflow
       (\<lambda>taker_quote_proceeds.
     ok_or (checked_sub (tb_base_free taker) (base_quantity (fill plan))) InsufficientFreeBalance
       (\<lambda>next_taker_base_free.
     ok_or (checked_add (tb_quote_free taker) taker_quote_proceeds) FreeBalanceOverflow
       (\<lambda>next_taker_quote_free.
     ok_or (checked_sub (tb_quote_locked maker) (maker_locked_debit plan)) LockedBalanceUnderflow
       (\<lambda>next_maker_quote_locked.
     ok_or (checked_add (tb_base_free maker) (base_quantity (fill plan))) FreeBalanceOverflow
       (\<lambda>next_maker_base_free.
     ok_or (checked_add (tb_quote_free maker) (maker_quote_refund plan)) FreeBalanceOverflow
       (\<lambda>next_maker_quote_free.
     Inr (taker\<lparr>tb_base_free := next_taker_base_free, tb_quote_free := next_taker_quote_free\<rparr>,
          maker\<lparr>tb_quote_locked := next_maker_quote_locked, tb_base_free := next_maker_base_free,
            tb_quote_free := next_maker_quote_free\<rparr>)))))))"

text \<open>The index after the fill.\<close>

definition update_book ::
  "MatchLimitOrder \<Rightarrow> bool \<Rightarrow> bool \<Rightarrow> u64 \<Rightarrow> u64 \<Rightarrow> u64 \<Rightarrow> u64 \<Rightarrow> u64 \<Rightarrow> MatchLimitOrder res" where
  "update_book acc maker_full removes_price_level next_order_remaining next_order_collateral
      next_level_quantity next_level_order_count next_open_order_count =
     (let maker = inner (mlo_maker_order acc);
          level = inner (mlo_maker_price_level acc) in
      if maker_full then
        try_in
          (if removes_price_level then
             Inr (acc\<lparr>
               mlo_worse_level := map_option (upd_inner (\<lambda>v. v\<lparr>lvl_better_price := None\<rparr>))
                 (mlo_worse_level acc),
               mlo_market := upd_inner (\<lambda>m. set_market_best m (ord_side maker)
                 (lvl_worse_price level)) (mlo_market acc)\<rparr>)
           else
             ok_or (mlo_next_order acc) InvalidOrderNeighbor (\<lambda>next_order.
             Inr (acc\<lparr>
               mlo_next_order := Some (upd_inner (\<lambda>r. r\<lparr>ord_previous_order := None\<rparr>) next_order),
               mlo_maker_price_level := upd_inner (\<lambda>v. v\<lparr>lvl_first_order := Some (key next_order)\<rparr>)
                 (mlo_maker_price_level acc)\<rparr>))) (\<lambda>acc.
        Inr (acc\<lparr>
          mlo_maker_price_level := upd_inner (\<lambda>v. v\<lparr>lvl_order_count := next_level_order_count,
            lvl_total_remaining_quantity := next_level_quantity\<rparr>) (mlo_maker_price_level acc),
          mlo_maker_order := upd_inner (closed_order Filled) (mlo_maker_order acc),
          mlo_market := upd_inner (\<lambda>m. m\<lparr>mkt_open_order_count := next_open_order_count\<rparr>)
            (mlo_market acc),
          mlo_level_closed := removes_price_level\<rparr>))
      else
        Inr (acc\<lparr>
          mlo_maker_order := upd_inner (\<lambda>r. r\<lparr>ord_remaining_quantity := next_order_remaining,
            ord_locked_collateral := next_order_collateral\<rparr>) (mlo_maker_order acc),
          mlo_maker_price_level := upd_inner (\<lambda>v. v\<lparr>lvl_total_remaining_quantity := next_level_quantity\<rparr>)
            (mlo_maker_price_level acc)\<rparr>))"

definition handle_match_limit_order ::
  "runtime \<Rightarrow> MatchLimitOrder \<Rightarrow> OrderSide \<Rightarrow> u64 \<Rightarrow> u64 \<Rightarrow> MatchLimitOrder res" where
  "handle_match_limit_order rt acc taker_side limit_price quantity =
     require (limit_price > 0) InvalidPrice
     (require (quantity > 0) InvalidQuantity
     (let market = inner (mlo_market acc);
          maker = inner (mlo_maker_order acc);
          level = inner (mlo_maker_price_level acc) in
      require (is_multiple_of limit_price (mkt_price_tick_size market)) PriceNotOnTick
      (require (is_multiple_of quantity (mkt_quantity_lot_size market)) QuantityNotOnLot
      (try_in (calculate_settlement taker_side limit_price quantity (ord_side maker) (ord_price maker)
          (ord_remaining_quantity maker) (ord_locked_collateral maker) (mkt_base_decimals market)) (\<lambda>plan.
       try_in (calculate_taker_fee (quote_quantity (fill plan))
          (cfg_taker_fee_bps (inner (mlo_protocol_config acc)))) (\<lambda>taker_fee_quote.
       ok_or (checked_add (mf_accrued_quote_fees (inner (mlo_market_fees acc))) taker_fee_quote)
         FeeAccrualOverflow (\<lambda>next_accrued_quote_fees.
       ok_or (checked_sub quantity (base_quantity (fill plan))) InvalidQuantity
         (\<lambda>taker_remaining_quantity.
       ok_or (checked_sub (ord_remaining_quantity maker) (base_quantity (fill plan)))
         PriceLevelQuantityUnderflow (\<lambda>next_order_remaining.
       ok_or (checked_sub (ord_locked_collateral maker) (maker_locked_debit plan))
         InvalidMakerCollateral (\<lambda>next_order_collateral.
       ok_or (checked_sub (lvl_total_remaining_quantity level) (base_quantity (fill plan)))
         PriceLevelQuantityUnderflow (\<lambda>next_level_quantity.
       ok_or (if maker_fully_filled plan then checked_sub (lvl_order_count level) 1
              else Some (lvl_order_count level)) PriceLevelOrderCountUnderflow (\<lambda>next_level_order_count.
       ok_or (if maker_fully_filled plan then checked_sub (mkt_open_order_count market) 1
              else Some (mkt_open_order_count market)) OpenOrderCountUnderflow (\<lambda>next_open_order_count.
       let removes_price_level = (maker_fully_filled plan \<and> next_level_order_count = 0) in
       try_in (check_book_transition rt acc (maker_fully_filled plan) removes_price_level
          next_level_quantity) (\<lambda>_.
       try_in (settle_balances taker_side plan taker_fee_quote
          (inner (mlo_taker_balance acc)) (inner (mlo_maker_balance acc))) (\<lambda>(taker', maker').
       let acc = acc\<lparr>
         mlo_taker_balance := upd_inner (\<lambda>_. taker') (mlo_taker_balance acc),
         mlo_maker_balance := upd_inner (\<lambda>_. maker') (mlo_maker_balance acc),
         mlo_market_fees := upd_inner (\<lambda>f. f\<lparr>mf_accrued_quote_fees := next_accrued_quote_fees\<rparr>)
           (mlo_market_fees acc)\<rparr> in
       update_book acc (maker_fully_filled plan) removes_price_level next_order_remaining
         next_order_collateral next_level_quantity next_level_order_count
         next_open_order_count)))))))))))))))"

record MatchLimitOrderKeys =
  mlk_taker :: pubkey
  mlk_market :: pubkey
  mlk_protocol_config :: pubkey
  mlk_market_fees :: pubkey
  mlk_maker_order :: pubkey
  mlk_maker_price_level :: pubkey
  mlk_next_order :: "pubkey option"
  mlk_worse_level :: "pubkey option"
  mlk_level_rent_recipient :: "pubkey option"
  mlk_maker_balance :: pubkey
  mlk_taker_balance :: pubkey

definition match_limit_order ::
  "runtime \<Rightarrow> spot_store \<Rightarrow> MatchLimitOrderKeys \<Rightarrow> OrderSide \<Rightarrow> u64 \<Rightarrow> u64 \<Rightarrow> spot_store res" where
  "match_limit_order rt st ks taker_side limit_price quantity =
     load (ss_markets st) (mlk_market ks) (\<lambda>market.
     require (key market = address rt (MarketPda (mkt_base_mint (inner market))
        (mkt_quote_mint (inner market)))) ConstraintSeeds
     (require (mkt_status (inner market) = MarketActive) MarketNotActive
     (load (ss_configs st) (mlk_protocol_config ks) (\<lambda>protocol_config.
     require (key protocol_config = address rt ProtocolConfigPda) ConstraintSeeds
     (load (ss_fees st) (mlk_market_fees ks) (\<lambda>market_fees.
     require (key market_fees = address rt (MarketFeesPda (key market))) ConstraintSeeds
     (require (mf_market (inner market_fees) = key market) MarketFeesMarketMismatch
     (require (mf_quote_mint (inner market_fees) = mkt_quote_mint (inner market))
       MarketFeesQuoteMintMismatch
     (load (ss_orders st) (mlk_maker_order ks) (\<lambda>maker_order.
     require (key maker_order = address rt (OrderPda (key market)
        (ord_order_id (inner maker_order)))) ConstraintSeeds
     (require (ord_market (inner maker_order) = key market) OrderMarketMismatch
     (require (ord_status (inner maker_order) = Open) OrderNotOpen
     (require (ord_owner (inner maker_order) \<noteq> mlk_taker ks) SelfTradeNotAllowed
     (load (ss_levels st) (mlk_maker_price_level ks) (\<lambda>maker_price_level.
     require (key maker_price_level = address rt (PriceLevelPda (key market)
        (ord_side (inner maker_order)) (ord_price (inner maker_order)))) ConstraintSeeds
     (require (ord_price_level (inner maker_order) = key maker_price_level) OrderPriceLevelMismatch
     (require (lvl_market (inner maker_price_level) = key market) PriceLevelMarketMismatch
     (require (lvl_side (inner maker_price_level) = ord_side (inner maker_order))
       PriceLevelSideMismatch
     (require (lvl_price (inner maker_price_level) = ord_price (inner maker_order))
       PriceLevelPriceMismatch
     (require (lvl_first_order (inner maker_price_level) = Some (key maker_order)) MakerNotFifoHead
     (require (market_best (inner market) (ord_side (inner maker_order)) =
        Some (ord_price (inner maker_order))) MakerNotAtBestPrice
     (load_opt (ss_orders st) (mlk_next_order ks) (\<lambda>next_order.
      load_opt (ss_levels st) (mlk_worse_level ks) (\<lambda>worse_level.
      load (ss_balances st) (mlk_maker_balance ks) (\<lambda>maker_balance.
     require (key maker_balance = address rt (TraderBalancePda (key market)
        (ord_owner (inner maker_order)))) ConstraintSeeds
     (require (tb_market (inner maker_balance) = key market) TraderBalanceMarketMismatch
     (require (tb_owner (inner maker_balance) = ord_owner (inner maker_order))
       TraderBalanceOwnerMismatch
     (load (ss_balances st) (mlk_taker_balance ks) (\<lambda>taker_balance.
     require (key taker_balance = address rt (TraderBalancePda (key market) (mlk_taker ks)))
       ConstraintSeeds
     (require (tb_market (inner taker_balance) = key market) TraderBalanceMarketMismatch
     (require (tb_owner (inner taker_balance) = mlk_taker ks) TraderBalanceOwnerMismatch
     (require (distinct (keys_of [Some (mlk_maker_order ks), mlk_next_order ks]) \<and>
         distinct (keys_of [Some (mlk_maker_price_level ks), mlk_worse_level ks]) \<and>
         mlk_maker_balance ks \<noteq> mlk_taker_balance ks) ConstraintDuplicateMutableAccount
     (try_in (handle_match_limit_order rt
          \<lparr>mlo_taker = mlk_taker ks, mlo_market = market, mlo_protocol_config = protocol_config,
           mlo_market_fees = market_fees, mlo_maker_order = maker_order,
           mlo_maker_price_level = maker_price_level, mlo_next_order = next_order,
           mlo_worse_level = worse_level, mlo_level_rent_recipient = mlk_level_rent_recipient ks,
           mlo_maker_balance = maker_balance, mlo_taker_balance = taker_balance,
           mlo_level_closed = False\<rparr> taker_side limit_price quantity) (\<lambda>acc.
     Inr (st\<lparr>
       ss_markets := save (mlo_market acc) (ss_markets st),
       ss_fees := save (mlo_market_fees acc) (ss_fees st),
       ss_orders := save (mlo_maker_order acc) (save_opt (mlo_next_order acc) (ss_orders st)),
       ss_levels := (save_opt (mlo_worse_level acc) (ss_levels st))
          (key (mlo_maker_price_level acc) :=
             (if mlo_level_closed acc then None else Some (inner (mlo_maker_price_level acc)))),
       ss_balances := save (mlo_taker_balance acc) (save (mlo_maker_balance acc)
          (ss_balances st))\<rparr>)))))))))))))))))))))))))))))))))))"

section \<open>What a successful match did\<close>

lemma check_level_removal_Inr [run_simps]:
  "check_level_removal rt acc tot = Inr u \<longleftrightarrow>
     (let r = inner (mlo_maker_order acc); lv = inner (mlo_maker_price_level acc) in
      ord_next_order r = None \<and> lvl_last_order lv = Some (key (mlo_maker_order acc)) \<and> tot = 0 \<and>
      lvl_better_price lv = None \<and>
      map_option key (mlo_worse_level acc) =
        map_option (level_address rt (key (mlo_market acc)) (ord_side r)) (lvl_worse_price lv) \<and>
      mlo_level_rent_recipient acc = Some (lvl_rent_payer lv) \<and>
      (\<forall>a e. mlo_worse_level acc = Some a \<longrightarrow> lvl_worse_price lv = Some e \<longrightarrow>
         lvl_market (inner a) = key (mlo_market acc) \<and> lvl_side (inner a) = ord_side r \<and>
         lvl_price (inner a) = e \<and> lvl_better_price (inner a) = Some (lvl_price lv)))"
proof -
  have "level_address rt (key (mlo_market acc)) sd =
      (\<lambda>price. fst (derive_price_level_pda rt (program_id rt) (key (mlo_market acc)) sd price))" for sd
    by (simp add: fun_eq_iff derive_is_pda level_address_def address_def)
  then show ?thesis
    unfolding check_level_removal_def Let_def by (auto simp: run_simps split: option.splits)
qed

lemma check_next_head_Inr [run_simps]:
  "check_next_head acc tot = Inr u \<longleftrightarrow>
     (\<exists>n. mlo_next_order acc = Some n \<and> ord_status (inner n) = Open \<and>
        ord_market (inner n) = key (mlo_market acc) \<and>
        ord_price_level (inner n) = key (mlo_maker_price_level acc) \<and>
        key n \<noteq> key (mlo_maker_order acc) \<and>
        ord_side (inner n) = ord_side (inner (mlo_maker_order acc)) \<and>
        ord_price (inner n) = lvl_price (inner (mlo_maker_price_level acc)) \<and>
        ord_previous_order (inner n) = Some (key (mlo_maker_order acc))) \<and>
     0 < tot \<and> mlo_worse_level acc = None \<and> mlo_level_rent_recipient acc = None"
  by (auto simp: check_next_head_def run_simps Let_def)

text \<open>The two ledgers of a settled fill, in natural numbers.\<close>

lemma settle_Bid_ok:
  assumes "settle_balances Bid plan fee t mk = Inr (t', mk')"
  shows "unat (tb_quote_free t) = unat (quote_quantity (fill plan)) + unat fee + unat (tb_quote_free t')"
    and "unat (tb_base_free t') = unat (tb_base_free t) + unat (base_quantity (fill plan))"
    and "unat (tb_base_locked mk) = unat (maker_locked_debit plan) + unat (tb_base_locked mk')"
    and "unat (tb_quote_free mk') = unat (tb_quote_free mk) + unat (quote_quantity (fill plan))"
    and "tb_base_locked t' = tb_base_locked t \<and> tb_quote_locked t' = tb_quote_locked t"
    and "tb_base_free mk' = tb_base_free mk \<and> tb_quote_locked mk' = tb_quote_locked mk"
  using assms by (auto simp: ok_or_Inr)

lemma settle_Ask_ok:
  assumes "settle_balances Ask plan fee t mk = Inr (t', mk')"
  shows "unat fee \<le> unat (quote_quantity (fill plan))"
    and "unat (tb_base_free t) = unat (base_quantity (fill plan)) + unat (tb_base_free t')"
    and "unat (tb_quote_free t') = unat (tb_quote_free t) + (unat (quote_quantity (fill plan)) - unat fee)"
    and "unat (tb_quote_locked mk) = unat (maker_locked_debit plan) + unat (tb_quote_locked mk')"
    and "unat (tb_base_free mk') = unat (tb_base_free mk) + unat (base_quantity (fill plan))"
    and "unat (tb_quote_free mk') = unat (tb_quote_free mk) + unat (maker_quote_refund plan)"
    and "tb_base_locked t' = tb_base_locked t \<and> tb_quote_locked t' = tb_quote_locked t"
    and "tb_base_locked mk' = tb_base_locked mk"
  using assms by (auto simp: ok_or_Inr)

lemma settle_identity:
  assumes "settle_balances ts plan fee t mk = Inr (t', mk')"
  shows "tb_market t' = tb_market t" "tb_owner t' = tb_owner t"
    "tb_market mk' = tb_market mk" "tb_owner mk' = tb_owner mk"
  using assms by (cases ts; auto simp: ok_or_Inr)+

text \<open>Nothing is created or destroyed: base moves between the two ledgers, quote between them
  and the protocol's accrued fees.\<close>

lemma settle_conserves:
  assumes ok: "settle_balances ts plan fee t mk = Inr (t', mk')"
    and plan: "calculate_settlement ts lim tr ms mp mr lc d = Inr plan"
  shows "base_claim t' + base_claim mk' = base_claim t + base_claim mk"
    and "quote_claim t' + quote_claim mk' + unat fee = quote_claim t + quote_claim mk"
proof -
  have ne: "ts \<noteq> ms" using plan by (simp add: calculate_settlement_Inr)
  have "base_claim t' + base_claim mk' = base_claim t + base_claim mk \<and>
    quote_claim t' + quote_claim mk' + unat fee = quote_claim t + quote_claim mk"
  proof (cases ts)
    case Bid
    with ne have ms: "ms = Ask" by (cases ms) auto
    then have "maker_locked_debit plan = base_quantity (fill plan)"
      using plan by (simp add: calculate_settlement_Inr)
    then show ?thesis
      using settle_Bid_ok [OF ok [unfolded Bid]] by (simp add: base_claim_def quote_claim_def)
  next
    case Ask
    with ne have ms: "ms = Bid" by (cases ms) auto
    then have "unat (maker_locked_debit plan) =
        unat (quote_quantity (fill plan)) + unat (maker_quote_refund plan)"
      using settlement_bid_dust(1) plan Ask by auto
    then show ?thesis
      using settle_Ask_ok [OF ok [unfolded Ask]] by (simp add: base_claim_def quote_claim_def)
  qed
  then show "base_claim t' + base_claim mk' = base_claim t + base_claim mk"
    and "quote_claim t' + quote_claim mk' + unat fee = quote_claim t + quote_claim mk" by simp_all
qed

text \<open>The handler, field by field.\<close>

definition match_checked :: "runtime \<Rightarrow> MatchLimitOrder \<Rightarrow> bool \<Rightarrow> u64 \<Rightarrow> u64 \<Rightarrow> bool" where
  "match_checked rt acc full cnt next_open =
     (let r = inner (mlo_maker_order acc); lv = inner (mlo_maker_price_level acc);
          na = mlo_next_order acc; wa = mlo_worse_level acc in
      if full then
        unat (lvl_order_count lv) = 1 + unat cnt \<and>
        unat (mkt_open_order_count (inner (mlo_market acc))) = 1 + unat next_open \<and>
        ord_previous_order r = None \<and> ord_next_order r = map_option key na \<and>
        (if cnt = 0 then na = None \<and> lvl_better_price lv = None \<and>
           map_option key wa =
             map_option (level_address rt (key (mlo_market acc)) (ord_side r)) (lvl_worse_price lv)
         else na \<noteq> None \<and> wa = None)
      else na = None \<and> wa = None)"

definition match_result ::
  "MatchLimitOrder \<Rightarrow> TraderBalance \<Rightarrow> TraderBalance \<Rightarrow> bool \<Rightarrow> u64 \<Rightarrow> u64 \<Rightarrow> u64 \<Rightarrow> u64 \<Rightarrow> u64 \<Rightarrow> u64 \<Rightarrow>
   MatchLimitOrder" where
  "match_result acc taker' maker' full accrued rem coll tot cnt next_open =
     (let r = inner (mlo_maker_order acc); lv = inner (mlo_maker_price_level acc);
          mk = inner (mlo_market acc); na = mlo_next_order acc; wa = mlo_worse_level acc in
      acc\<lparr>
        mlo_market := Account (key (mlo_market acc)) (if full
          then (if cnt = 0 then set_market_best mk (ord_side r) (lvl_worse_price lv) else mk)
            \<lparr>mkt_open_order_count := next_open\<rparr> else mk),
        mlo_market_fees := upd_inner (\<lambda>f. f\<lparr>mf_accrued_quote_fees := accrued\<rparr>) (mlo_market_fees acc),
        mlo_maker_order := Account (key (mlo_maker_order acc)) (if full then closed_order Filled r
          else r\<lparr>ord_remaining_quantity := rem, ord_locked_collateral := coll\<rparr>),
        mlo_maker_price_level := Account (key (mlo_maker_price_level acc)) (if full
          then (if cnt = 0 then lv else lv\<lparr>lvl_first_order := map_option key na\<rparr>)
            \<lparr>lvl_order_count := cnt, lvl_total_remaining_quantity := tot\<rparr>
          else lv\<lparr>lvl_total_remaining_quantity := tot\<rparr>),
        mlo_next_order := (if full \<and> cnt \<noteq> 0
          then map_option (upd_inner (\<lambda>x. x\<lparr>ord_previous_order := None\<rparr>)) na else na),
        mlo_worse_level := (if full \<and> cnt = 0
          then map_option (upd_inner (\<lambda>v. v\<lparr>lvl_better_price := None\<rparr>)) wa else wa),
        mlo_maker_balance := Account (key (mlo_maker_balance acc)) maker',
        mlo_taker_balance := Account (key (mlo_taker_balance acc)) taker',
        mlo_level_closed := (if full then cnt = 0 else mlo_level_closed acc)\<rparr>)"

lemma handle_match_ok:
  assumes "handle_match_limit_order rt acc ts lim q = Inr acc'"
  obtains plan fee mb' tb' accrued rem coll tot cnt next_open where
    "0 < lim" "0 < q" "is_multiple_of lim (mkt_price_tick_size (inner (mlo_market acc)))"
    "is_multiple_of q (mkt_quantity_lot_size (inner (mlo_market acc)))"
    "calculate_settlement ts lim q (ord_side (inner (mlo_maker_order acc)))
       (ord_price (inner (mlo_maker_order acc))) (ord_remaining_quantity (inner (mlo_maker_order acc)))
       (ord_locked_collateral (inner (mlo_maker_order acc)))
       (mkt_base_decimals (inner (mlo_market acc))) = Inr plan"
    "calculate_taker_fee (quote_quantity (fill plan))
       (cfg_taker_fee_bps (inner (mlo_protocol_config acc))) = Inr fee"
    "unat accrued = unat (mf_accrued_quote_fees (inner (mlo_market_fees acc))) + unat fee"
    "unat (ord_remaining_quantity (inner (mlo_maker_order acc))) =
       unat (base_quantity (fill plan)) + unat rem"
    "unat (ord_locked_collateral (inner (mlo_maker_order acc))) =
       unat (maker_locked_debit plan) + unat coll"
    "unat (lvl_total_remaining_quantity (inner (mlo_maker_price_level acc))) =
       unat (base_quantity (fill plan)) + unat tot"
    "match_checked rt acc (maker_fully_filled plan) cnt next_open"
    "settle_balances ts plan fee (inner (mlo_taker_balance acc)) (inner (mlo_maker_balance acc)) =
       Inr (tb', mb')"
    "acc' = match_result acc tb' mb' (maker_fully_filled plan) accrued rem coll tot cnt next_open"
proof -
  from assms obtain plan fee mb' tb' accrued rem coll tot cnt next_open u where
    guards: "0 < lim" "0 < q" "is_multiple_of lim (mkt_price_tick_size (inner (mlo_market acc)))"
    "is_multiple_of q (mkt_quantity_lot_size (inner (mlo_market acc)))"
    and plan: "calculate_settlement ts lim q (ord_side (inner (mlo_maker_order acc)))
       (ord_price (inner (mlo_maker_order acc))) (ord_remaining_quantity (inner (mlo_maker_order acc)))
       (ord_locked_collateral (inner (mlo_maker_order acc)))
       (mkt_base_decimals (inner (mlo_market acc))) = Inr plan"
    and fee: "calculate_taker_fee (quote_quantity (fill plan))
       (cfg_taker_fee_bps (inner (mlo_protocol_config acc))) = Inr fee"
    and sums: "unat accrued = unat (mf_accrued_quote_fees (inner (mlo_market_fees acc))) + unat fee"
    "unat (ord_remaining_quantity (inner (mlo_maker_order acc))) =
       unat (base_quantity (fill plan)) + unat rem"
    "unat (ord_locked_collateral (inner (mlo_maker_order acc))) =
       unat (maker_locked_debit plan) + unat coll"
    "unat (lvl_total_remaining_quantity (inner (mlo_maker_price_level acc))) =
       unat (base_quantity (fill plan)) + unat tot"
    and cnt: "(if maker_fully_filled plan then checked_sub (lvl_order_count (inner (mlo_maker_price_level acc))) 1
       else Some (lvl_order_count (inner (mlo_maker_price_level acc)))) = Some cnt"
    "(if maker_fully_filled plan then checked_sub (mkt_open_order_count (inner (mlo_market acc))) 1
       else Some (mkt_open_order_count (inner (mlo_market acc)))) = Some next_open"
    and check: "check_book_transition rt acc (maker_fully_filled plan)
       (maker_fully_filled plan \<and> cnt = 0) tot = Inr u"
    and settle: "settle_balances ts plan fee (inner (mlo_taker_balance acc))
       (inner (mlo_maker_balance acc)) = Inr (tb', mb')"
    and upd: "update_book (acc\<lparr>
         mlo_taker_balance := upd_inner (\<lambda>_. tb') (mlo_taker_balance acc),
         mlo_maker_balance := upd_inner (\<lambda>_. mb') (mlo_maker_balance acc),
         mlo_market_fees := upd_inner (\<lambda>f. f\<lparr>mf_accrued_quote_fees := accrued\<rparr>)
           (mlo_market_fees acc)\<rparr>) (maker_fully_filled plan) (maker_fully_filled plan \<and> cnt = 0)
         rem coll tot cnt next_open = Inr acc'"
    unfolding handle_match_limit_order_def run_simps Let_def split_paired_Ex prod.case
      checked_sub_Some checked_add_Some
    by (elim exE conjE) (rule that; assumption)
  have checked: "match_checked rt acc (maker_fully_filled plan) cnt next_open"
    using check cnt
    by (cases "maker_fully_filled plan"; cases "cnt = 0")
      (auto simp: check_book_transition_def match_checked_def run_simps Let_def)
  have "acc' = match_result acc tb' mb' (maker_fully_filled plan) accrued rem coll tot cnt next_open"
    using upd checked
    by (cases "maker_fully_filled plan"; cases "cnt = 0"; cases "mlo_next_order acc")
      (auto simp: update_book_def match_result_def match_checked_def upd_inner_def Let_def)
  from that [OF guards plan fee sums checked settle this] show thesis .
qed

definition match_effect ::
  "MatchLimitOrderKeys \<Rightarrow> Market \<Rightarrow> MarketFees \<Rightarrow> Order \<Rightarrow> PriceLevel \<Rightarrow> Order account option \<Rightarrow>
   PriceLevel account option \<Rightarrow> TraderBalance \<Rightarrow> TraderBalance \<Rightarrow> bool \<Rightarrow> u64 \<Rightarrow> u64 \<Rightarrow> u64 \<Rightarrow> u64 \<Rightarrow>
   u64 \<Rightarrow> u64 \<Rightarrow> spot_store \<Rightarrow> spot_store" where
  "match_effect ks mk fees r lv na wa taker' maker' full accrued rem coll tot cnt next_open st =
     st\<lparr>
       ss_markets := (ss_markets st)(mlk_market ks \<mapsto> if full
         then (if cnt = 0 then set_market_best mk (ord_side r) (lvl_worse_price lv) else mk)
           \<lparr>mkt_open_order_count := next_open\<rparr> else mk),
       ss_fees := (ss_fees st)(mlk_market_fees ks \<mapsto> fees\<lparr>mf_accrued_quote_fees := accrued\<rparr>),
       ss_orders := (save_opt (if full \<and> cnt \<noteq> 0
             then map_option (upd_inner (\<lambda>x. x\<lparr>ord_previous_order := None\<rparr>)) na else na) (ss_orders st))
         (mlk_maker_order ks \<mapsto> if full then closed_order Filled r
           else r\<lparr>ord_remaining_quantity := rem, ord_locked_collateral := coll\<rparr>),
       ss_levels := (save_opt (if full \<and> cnt = 0
             then map_option (upd_inner (\<lambda>v. v\<lparr>lvl_better_price := None\<rparr>)) wa else wa) (ss_levels st))
         (mlk_maker_price_level ks := if full \<and> cnt = 0 then None else Some (if full
           then (if cnt = 0 then lv else lv\<lparr>lvl_first_order := map_option key na\<rparr>)
             \<lparr>lvl_order_count := cnt, lvl_total_remaining_quantity := tot\<rparr>
           else lv\<lparr>lvl_total_remaining_quantity := tot\<rparr>)),
       ss_balances := (ss_balances st)(mlk_maker_balance ks \<mapsto> maker', mlk_taker_balance ks \<mapsto> taker')\<rparr>"

definition match_accounts ::
  "MatchLimitOrderKeys \<Rightarrow> Market \<Rightarrow> ProtocolConfig \<Rightarrow> MarketFees \<Rightarrow> Order \<Rightarrow> PriceLevel \<Rightarrow>
   Order account option \<Rightarrow> PriceLevel account option \<Rightarrow> TraderBalance \<Rightarrow> TraderBalance \<Rightarrow> MatchLimitOrder" where
  "match_accounts ks mk cfg fees r lv na wa mb tb =
     \<lparr>mlo_taker = mlk_taker ks, mlo_market = Account (mlk_market ks) mk,
      mlo_protocol_config = Account (mlk_protocol_config ks) cfg,
      mlo_market_fees = Account (mlk_market_fees ks) fees,
      mlo_maker_order = Account (mlk_maker_order ks) r,
      mlo_maker_price_level = Account (mlk_maker_price_level ks) lv,
      mlo_next_order = na, mlo_worse_level = wa,
      mlo_level_rent_recipient = mlk_level_rent_recipient ks,
      mlo_maker_balance = Account (mlk_maker_balance ks) mb,
      mlo_taker_balance = Account (mlk_taker_balance ks) tb, mlo_level_closed = False\<rparr>"

lemma match_accounts_sel [simp]:
  "mlo_market (match_accounts ks mk cfg fees r lv na wa mb tb) = Account (mlk_market ks) mk"
  "mlo_protocol_config (match_accounts ks mk cfg fees r lv na wa mb tb) = Account (mlk_protocol_config ks) cfg"
  "mlo_market_fees (match_accounts ks mk cfg fees r lv na wa mb tb) = Account (mlk_market_fees ks) fees"
  "mlo_maker_order (match_accounts ks mk cfg fees r lv na wa mb tb) = Account (mlk_maker_order ks) r"
  "mlo_maker_price_level (match_accounts ks mk cfg fees r lv na wa mb tb) = Account (mlk_maker_price_level ks) lv"
  "mlo_next_order (match_accounts ks mk cfg fees r lv na wa mb tb) = na"
  "mlo_worse_level (match_accounts ks mk cfg fees r lv na wa mb tb) = wa"
  "mlo_maker_balance (match_accounts ks mk cfg fees r lv na wa mb tb) = Account (mlk_maker_balance ks) mb"
  "mlo_taker_balance (match_accounts ks mk cfg fees r lv na wa mb tb) = Account (mlk_taker_balance ks) tb"
  by (simp_all add: match_accounts_def)

definition match_write_back :: "MatchLimitOrder \<Rightarrow> spot_store \<Rightarrow> spot_store" where
  "match_write_back acc st = st\<lparr>
       ss_markets := save (mlo_market acc) (ss_markets st),
       ss_fees := save (mlo_market_fees acc) (ss_fees st),
       ss_orders := save (mlo_maker_order acc) (save_opt (mlo_next_order acc) (ss_orders st)),
       ss_levels := (save_opt (mlo_worse_level acc) (ss_levels st))
          (key (mlo_maker_price_level acc) :=
             (if mlo_level_closed acc then None else Some (inner (mlo_maker_price_level acc)))),
       ss_balances := save (mlo_taker_balance acc) (save (mlo_maker_balance acc)
          (ss_balances st))\<rparr>"

lemma match_write_back_result:
  "match_write_back (match_result (match_accounts ks mk cfg fees r lv na wa mb tb) taker' maker' full
      accrued rem coll tot cnt next_open) st =
   match_effect ks mk fees r lv na wa taker' maker' full accrued rem coll tot cnt next_open st"
  by (simp add: match_write_back_def match_result_def match_accounts_def match_effect_def save_def
      upd_inner_def del: fun_upd_apply)

text \<open>The account constraints, collected.\<close>

lemma match_limit_order_loads:
  assumes "match_limit_order rt st ks ts lim q = Inr st'"
  obtains mk cfg fees r lv na wa mb tb acc where
    "ss_markets st (mlk_market ks) = Some mk" "mkt_status mk = MarketActive"
    "ss_configs st (mlk_protocol_config ks) = Some cfg"
    "mlk_protocol_config ks = address rt ProtocolConfigPda"
    "ss_fees st (mlk_market_fees ks) = Some fees"
    "mlk_market_fees ks = address rt (MarketFeesPda (mlk_market ks))"
    "ss_orders st (mlk_maker_order ks) = Some r" "ord_market r = mlk_market ks"
    "ord_status r = Open" "ord_owner r \<noteq> mlk_taker ks"
    "ss_levels st (mlk_maker_price_level ks) = Some lv"
    "mlk_maker_price_level ks = level_address rt (mlk_market ks) (ord_side r) (ord_price r)"
    "lvl_price lv = ord_price r" "lvl_first_order lv = Some (mlk_maker_order ks)"
    "market_best mk (ord_side r) = Some (ord_price r)"
    "loaded (ss_orders st) (mlk_next_order ks) na" "loaded (ss_levels st) (mlk_worse_level ks) wa"
    "ss_balances st (mlk_maker_balance ks) = Some mb"
    "mlk_maker_balance ks = address rt (TraderBalancePda (mlk_market ks) (ord_owner r))"
    "tb_market mb = mlk_market ks" "tb_owner mb = ord_owner r"
    "ss_balances st (mlk_taker_balance ks) = Some tb"
    "mlk_taker_balance ks = address rt (TraderBalancePda (mlk_market ks) (mlk_taker ks))"
    "tb_market tb = mlk_market ks" "tb_owner tb = mlk_taker ks"
    "distinct (keys_of [Some (mlk_maker_order ks), mlk_next_order ks])"
    "distinct (keys_of [Some (mlk_maker_price_level ks), mlk_worse_level ks])"
    "mlk_maker_balance ks \<noteq> mlk_taker_balance ks"
    "handle_match_limit_order rt (match_accounts ks mk cfg fees r lv na wa mb tb) ts lim q = Inr acc"
    "match_write_back acc st = st'"
  using assms
  unfolding match_limit_order_def run_simps Let_def split_paired_Ex prod.case
    match_accounts_def [symmetric] match_write_back_def [symmetric]
    account.sel level_address_def [symmetric] sum.inject
  by (elim exE conjE) (rule that; assumption)

text \<open>A successful match: the accounts it named, the plan and fee it computed, and the store it
  left.\<close>

lemma match_limit_order_ok:
  assumes "match_limit_order rt st ks ts lim q = Inr st'"
  obtains mk cfg fees r lv na wa mb tb plan fee mb' tb' accrued rem coll tot cnt next_open where
    "ss_markets st (mlk_market ks) = Some mk" "mkt_status mk = MarketActive"
    "ss_configs st (mlk_protocol_config ks) = Some cfg"
    "ss_fees st (mlk_market_fees ks) = Some fees"
    "mlk_market_fees ks = address rt (MarketFeesPda (mlk_market ks))"
    "ss_orders st (mlk_maker_order ks) = Some r" "ord_market r = mlk_market ks"
    "ord_status r = Open" "ord_owner r \<noteq> mlk_taker ks"
    "ss_levels st (mlk_maker_price_level ks) = Some lv"
    "mlk_maker_price_level ks = level_address rt (mlk_market ks) (ord_side r) (ord_price r)"
    "lvl_price lv = ord_price r" "lvl_first_order lv = Some (mlk_maker_order ks)"
    "market_best mk (ord_side r) = Some (ord_price r)"
    "loaded (ss_orders st) (mlk_next_order ks) na" "loaded (ss_levels st) (mlk_worse_level ks) wa"
    "mlk_next_order ks \<noteq> Some (mlk_maker_order ks)"
    "mlk_worse_level ks \<noteq> Some (mlk_maker_price_level ks)"
    "ss_balances st (mlk_maker_balance ks) = Some mb"
    "mlk_maker_balance ks = address rt (TraderBalancePda (mlk_market ks) (ord_owner r))"
    "tb_market mb = mlk_market ks" "tb_owner mb = ord_owner r"
    "ss_balances st (mlk_taker_balance ks) = Some tb"
    "mlk_taker_balance ks = address rt (TraderBalancePda (mlk_market ks) (mlk_taker ks))"
    "tb_market tb = mlk_market ks" "tb_owner tb = mlk_taker ks"
    "mlk_maker_balance ks \<noteq> mlk_taker_balance ks"
    "0 < lim" "0 < q" "is_multiple_of q (mkt_quantity_lot_size mk)"
    "calculate_settlement ts lim q (ord_side r) (ord_price r) (ord_remaining_quantity r)
       (ord_locked_collateral r) (mkt_base_decimals mk) = Inr plan"
    "calculate_taker_fee (quote_quantity (fill plan)) (cfg_taker_fee_bps cfg) = Inr fee"
    "unat accrued = unat (mf_accrued_quote_fees fees) + unat fee"
    "unat (ord_remaining_quantity r) = unat (base_quantity (fill plan)) + unat rem"
    "unat (ord_locked_collateral r) = unat (maker_locked_debit plan) + unat coll"
    "unat (lvl_total_remaining_quantity lv) = unat (base_quantity (fill plan)) + unat tot"
    "match_checked rt (match_accounts ks mk cfg fees r lv na wa mb tb) (maker_fully_filled plan)
       cnt next_open"
    "settle_balances ts plan fee tb mb = Inr (tb', mb')"
    "st' = match_effect ks mk fees r lv na wa tb' mb' (maker_fully_filled plan) accrued rem coll tot
       cnt next_open st"
proof -
  obtain mk cfg fees r lv na wa mb tb acc where
    loads: "ss_markets st (mlk_market ks) = Some mk" "mkt_status mk = MarketActive"
    "ss_configs st (mlk_protocol_config ks) = Some cfg"
    "ss_fees st (mlk_market_fees ks) = Some fees"
    "mlk_market_fees ks = address rt (MarketFeesPda (mlk_market ks))"
    "ss_orders st (mlk_maker_order ks) = Some r" "ord_market r = mlk_market ks"
    "ord_status r = Open" "ord_owner r \<noteq> mlk_taker ks"
    "ss_levels st (mlk_maker_price_level ks) = Some lv"
    "mlk_maker_price_level ks = level_address rt (mlk_market ks) (ord_side r) (ord_price r)"
    "lvl_price lv = ord_price r" "lvl_first_order lv = Some (mlk_maker_order ks)"
    "market_best mk (ord_side r) = Some (ord_price r)"
    "loaded (ss_orders st) (mlk_next_order ks) na" "loaded (ss_levels st) (mlk_worse_level ks) wa"
    and d: "distinct (keys_of [Some (mlk_maker_order ks), mlk_next_order ks])"
    "distinct (keys_of [Some (mlk_maker_price_level ks), mlk_worse_level ks])"
    and bals: "ss_balances st (mlk_maker_balance ks) = Some mb"
    "mlk_maker_balance ks = address rt (TraderBalancePda (mlk_market ks) (ord_owner r))"
    "tb_market mb = mlk_market ks" "tb_owner mb = ord_owner r"
    "ss_balances st (mlk_taker_balance ks) = Some tb"
    "mlk_taker_balance ks = address rt (TraderBalancePda (mlk_market ks) (mlk_taker ks))"
    "tb_market tb = mlk_market ks" "tb_owner tb = mlk_taker ks"
    "mlk_maker_balance ks \<noteq> mlk_taker_balance ks"
    and run: "handle_match_limit_order rt (match_accounts ks mk cfg fees r lv na wa mb tb) ts lim q = Inr acc"
    and st': "match_write_back acc st = st'"
    by (rule match_limit_order_loads [OF assms])
  have apart: "mlk_next_order ks \<noteq> Some (mlk_maker_order ks)"
    "mlk_worse_level ks \<noteq> Some (mlk_maker_price_level ks)"
    using d by auto
  show thesis
  proof (rule handle_match_ok [OF run], goal_cases)
    case (1 plan fee mb' tb' accrued rem coll tot cnt next_open)
    have "match_write_back acc st = match_effect ks mk fees r lv na wa tb' mb'
        (maker_fully_filled plan) accrued rem coll tot cnt next_open st"
      by (simp only: 1(13) match_write_back_result)
    with st' have eff: "st' = match_effect ks mk fees r lv na wa tb' mb'
        (maker_fully_filled plan) accrued rem coll tot cnt next_open st" by simp
    note calc = 1(1,2,4-12) [unfolded match_accounts_sel account.sel]
    show thesis
      by (rule that [OF loads apart bals calc eff])
  qed
qed

section \<open>A match is one fill event of the book\<close>

text \<open>A partial fill touches quantities only.\<close>

lemma partial_fill_view:
  assumes sep: "levels_separate rt m" and mk: "ss_markets st m = Some mk"
    and r: "ss_orders st k = Some r" "ord_market r = m"
    and lv: "ss_levels st (level_address rt m (ord_side r) (ord_price r)) = Some lv"
    and qs: "unat (ord_remaining_quantity r) = unat a + unat rem"
      "unat (lvl_total_remaining_quantity lv) = unat a + unat tot"
    and st': "ss_markets st' m = Some mk"
      "ss_orders st' = (ss_orders st)(k \<mapsto> r\<lparr>ord_remaining_quantity := rem, ord_locked_collateral := coll\<rparr>)"
      "ss_levels st' = (ss_levels st)(level_address rt m (ord_side r) (ord_price r) \<mapsto>
         lv\<lparr>lvl_total_remaining_quantity := tot\<rparr>)"
  shows "spot_view rt m st' = g_take (ord_side r) (ord_price r) k a (spot_view rt m st)"
proof (rule gbook_eqI)
  have diffs: "ord_remaining_quantity r - a = rem" "lvl_total_remaining_quantity lv - a = tot"
    using qs by (simp_all add: word_sub_eq)
  show "gb_orders (spot_view rt m st') j =
      gb_orders (g_take (ord_side r) (ord_price r) k a (spot_view rt m st)) j" for j
    using r by (simp add: st' g_take_orders spot_orders_def order_view_def diffs)
  show "gb_levels (spot_view rt m st') (l', p') =
      gb_levels (g_take (ord_side r) (ord_price r) k a (spot_view rt m st)) (l', p')" for l' p'
    using lv by (auto simp: st' g_take_levels level_view_def diffs level_address_eq [OF sep])
qed (simp_all add: g_take_fields spot_view_market [OF mk] spot_view_market [OF st'(1)] mk st'(1))

text \<open>A full fill removes the head, and with it an emptied level.\<close>

lemma full_fill_view:
  assumes sep: "levels_separate rt (mlk_market ks)"
    and inv: "book_inv is_bid (spot_view rt (mlk_market ks) st)"
    and mk: "ss_markets st (mlk_market ks) = Some mk"
    and r: "ss_orders st (mlk_maker_order ks) = Some r" "ord_market r = mlk_market ks" "ord_status r = Open"
    and lv: "ss_levels st (mlk_maker_price_level ks) = Some lv"
    and level: "mlk_maker_price_level ks = level_address rt (mlk_market ks) (ord_side r) (ord_price r)"
    and na: "loaded (ss_orders st) (mlk_next_order ks) na"
    and wa: "loaded (ss_levels st) (mlk_worse_level ks) wa"
    and apart: "mlk_worse_level ks \<noteq> Some (mlk_maker_price_level ks)"
    and whole: "a = ord_remaining_quantity r"
    and qs: "unat (ord_remaining_quantity r) = unat a + unat rem"
      "unat (lvl_total_remaining_quantity lv) = unat a + unat tot"
    and st': "st' = match_effect ks mk fees r lv na wa tb' mb' True accrued rem coll tot cnt next_open st"
    and chk: "match_checked rt (match_accounts ks mk cfg fees r lv na wa mb tb) True cnt next_open"
  shows "spot_view rt (mlk_market ks) st' =
    g_remove (ord_side r) (ord_price r) (mlk_maker_order ks) 0 (order_view r) (level_view lv)
      (spot_view rt (mlk_market ks) st)"
proof -
  let ?m = "mlk_market ks" and ?k = "mlk_maker_order ks" and ?g = "spot_view rt (mlk_market ks) st"
  have cnts: "unat (lvl_order_count lv) = 1 + unat cnt" "unat (mkt_open_order_count mk) = 1 + unat next_open"
    and links: "ord_previous_order r = None" "ord_next_order r = map_option key na"
    and ends: "if cnt = 0 then na = None \<and> lvl_better_price lv = None \<and>
        map_option key wa = map_option (level_address rt ?m (ord_side r)) (lvl_worse_price lv)
      else na \<noteq> None \<and> wa = None"
    using chk by (simp_all add: match_checked_def Let_def)
  have diffs: "lvl_total_remaining_quantity lv - ord_remaining_quantity r = tot"
    "lvl_order_count lv - 1 = cnt" "mkt_open_order_count mk - 1 = next_open"
    and one: "lvl_order_count lv = 1 \<longleftrightarrow> cnt = 0"
    using cnts qs(2) whole by (auto simp: word_sub_eq word_unat_eq_iff)
  obtain sp where rep: "book_rep is_bid ?g sp" using inv by (auto simp: book_inv_def)
  have rok: "remove_ok is_bid ?g sp (ord_side r) (ord_price r) ?k (order_view r) (level_view lv)"
    using rep r lv level by (simp add: remove_ok_def spot_orders_def)
  show ?thesis
  proof (rule gbook_eqI)
    show "gb_orders (spot_view rt ?m st') j =
        gb_orders (g_remove (ord_side r) (ord_price r) ?k 0 (order_view r) (level_view lv) ?g) j" for j
    proof (simp only: spot_view_fields, rule unlink_orders_view [where pa = None and na = na, OF r(1,2)])
      show "loaded (ss_orders st) (ord_next_order r) na" using na links by (simp add: loaded_key)
    qed (use links ends remove_neighbor [OF rok] in
        \<open>auto simp: st' match_effect_def save_opt_def split: if_splits\<close>)
  next
    show "gb_levels (spot_view rt ?m st') (l', p') =
        gb_levels (g_remove (ord_side r) (ord_price r) ?k 0 (order_view r) (level_view lv) ?g) (l', p')" for l' p'
    proof (cases "cnt = 0")
      case True
      with ends wa have wk: "map_option (level_address rt ?m (ord_side r)) (lvl_worse_price lv) = mlk_worse_level ks"
        and bk: "lvl_better_price lv = None" by (simp_all add: loaded_key)
      show ?thesis
        by (simp only: spot_view_fields prod.case,
            rule unlink_levels_view [where ba = None and wa = wa, OF sep _ _ _ one [THEN iffD2, OF True]])
          (use True wk bk wa apart lv level in \<open>auto simp: st' match_effect_def save_opt_def\<close>)
    next
      case False
      with one ends lv links show ?thesis
        by (auto simp: st' match_effect_def g_remove_levels_many level level_view_def
            level_address_eq [OF sep] save_opt_def diffs)
    qed
  next
    show "gb_best (spot_view rt ?m st') l =
        gb_best (g_remove (ord_side r) (ord_price r) ?k 0 (order_view r) (level_view lv) ?g) l" for l
      using mk one ends by (auto simp: st' match_effect_def g_remove_def)
  qed (use mk diffs in \<open>simp_all add: st' match_effect_def g_remove_def spot_view_market\<close>)
qed

text \<open>The event a match performs, read off the maker's record before and after.\<close>

definition fill_event :: "spot_store \<Rightarrow> pubkey \<Rightarrow> spot_store \<Rightarrow> OrderSide gevent" where
  "fill_event st k st' =
     (let r = the (ss_orders st k); r' = the (ss_orders st' k) in
      if ord_status r' = Filled then GFillAll (ord_side r) (ord_price r) k
      else GFillPart (ord_side r) (ord_price r) k
        (ord_remaining_quantity r - ord_remaining_quantity r'))"

lemma match_limit_order_refines:
  assumes ok: "match_limit_order rt st ks ts lim q = Inr st'"
    and sep: "levels_separate rt (mlk_market ks)"
    and inv: "book_inv is_bid (spot_view rt (mlk_market ks) st)"
  shows "gstep is_bid (spot_view rt (mlk_market ks) st) (fill_event st (mlk_maker_order ks) st')
           (spot_view rt (mlk_market ks) st')"
proof -
  let ?m = "mlk_market ks" and ?k = "mlk_maker_order ks"
  let ?g = "spot_view rt (mlk_market ks) st"
  obtain mk cfg fees r lv na wa mb tb plan fee mb' tb' accrued rem coll tot cnt next_open where
    mk: "ss_markets st ?m = Some mk" and r: "ss_orders st ?k = Some r" "ord_market r = ?m" "ord_status r = Open"
    and lv: "ss_levels st (mlk_maker_price_level ks) = Some lv"
    and level: "mlk_maker_price_level ks = level_address rt ?m (ord_side r) (ord_price r)"
    and head: "lvl_first_order lv = Some ?k" and best: "market_best mk (ord_side r) = Some (ord_price r)"
    and accs: "loaded (ss_orders st) (mlk_next_order ks) na" "loaded (ss_levels st) (mlk_worse_level ks) wa"
    and apart: "mlk_worse_level ks \<noteq> Some (mlk_maker_price_level ks)"
    and plan: "calculate_settlement ts lim q (ord_side r) (ord_price r) (ord_remaining_quantity r)
       (ord_locked_collateral r) (mkt_base_decimals mk) = Inr plan"
    and qs: "unat (ord_remaining_quantity r) = unat (base_quantity (fill plan)) + unat rem"
      "unat (lvl_total_remaining_quantity lv) = unat (base_quantity (fill plan)) + unat tot"
    and chk: "match_checked rt (match_accounts ks mk cfg fees r lv na wa mb tb)
       (maker_fully_filled plan) cnt next_open"
    and st': "st' = match_effect ks mk fees r lv na wa tb' mb' (maker_fully_filled plan) accrued rem
       coll tot cnt next_open st"
    by (rule match_limit_order_ok [OF ok])
  have view: "gb_best ?g (ord_side r) = Some (ord_price r)"
    "gb_levels ?g (ord_side r, ord_price r) = Some (level_view lv)"
    "gl_first (level_view lv) = Some ?k" "gb_orders ?g ?k = Some (order_view r)"
    using mk best lv level head r by (simp_all add: spot_orders_def)
  show ?thesis
  proof (cases "maker_fully_filled plan")
    case False
    then have no: "na = None" "wa = None" using chk by (simp_all add: match_checked_def Let_def)
    have "base_quantity (fill plan) \<noteq> ord_remaining_quantity r"
      using plan False by (simp add: calculate_settlement_Inr)
    then have less: "unat (base_quantity (fill plan)) < remaining_of ?g ?k"
      using view(4) qs(1) by (auto simp: remaining_of_def word_unat_eq_iff)
    have "spot_view rt ?m st' = g_take (ord_side r) (ord_price r) ?k (base_quantity (fill plan)) ?g"
      by (rule partial_fill_view [OF sep mk r(1,2) lv [unfolded level] qs])
        (simp_all add: st' match_effect_def False no save_opt_def level)
    moreover have "ord_remaining_quantity r - rem = base_quantity (fill plan)"
      using qs(1) by (intro word_sub_eq) simp
    then have "fill_event st ?k st' = GFillPart (ord_side r) (ord_price r) ?k (base_quantity (fill plan))"
      using r by (simp add: fill_event_def st' match_effect_def False)
    ultimately show ?thesis using gstep.part [OF view(1,2,3) less] by simp
  next
    case True
    have whole: "base_quantity (fill plan) = ord_remaining_quantity r"
      using plan True by (simp add: calculate_settlement_Inr)
    have chk': "match_checked rt (match_accounts ks mk cfg fees r lv na wa mb tb) True cnt next_open"
      and eff: "st' = match_effect ks mk fees r lv na wa tb' mb' True accrued rem coll tot cnt next_open st"
      using chk st' True by simp_all
    have "spot_view rt ?m st' = g_remove (ord_side r) (ord_price r) ?k 0 (order_view r) (level_view lv) ?g"
      by (rule full_fill_view [OF sep inv mk r lv level accs apart whole qs eff chk'])
    moreover have "fill_event st ?k st' = GFillAll (ord_side r) (ord_price r) ?k"
      using r by (simp add: fill_event_def eff match_effect_def closed_order_def)
    ultimately show ?thesis using gstep.full [OF view] by simp
  qed
qed

end
