(* ===== verification/Spot_Book.thy ===== *)
theory Spot_Book
  imports Spot_Place Spot_Cancel Spot_Match
begin

text \<open>
  The spot order book as a whole: the step relation of the four order instructions on one
  market, the interpretation of the book interface on it, and the properties of the book that
  follow. \<open>rt\<close> is the runtime (with the address derivation), \<open>m\<close> the market's address.
\<close>

inductive spot_step :: "runtime \<Rightarrow> pubkey \<Rightarrow> spot_store \<Rightarrow> OrderSide gevent \<Rightarrow> spot_store \<Rightarrow> bool"
  for rt :: runtime and m :: pubkey where
  spot_insert: "insert_limit_order rt st ks side p q = Inr st' \<Longrightarrow> ilk_market ks = m \<Longrightarrow>
    spot_step rt m st (GInsert side p (ilk_order ks) q) st'"
| spot_append: "append_limit_order rt st ks side p q = Inr st' \<Longrightarrow> alk_market ks = m \<Longrightarrow>
    spot_step rt m st (GAppend side p (alk_order ks) q) st'"
| spot_cancel: "cancel_limit_order rt st ks i = Inr st' \<Longrightarrow> clk_market ks = m \<Longrightarrow>
    ss_orders st (clk_order ks) = Some r \<Longrightarrow>
    spot_step rt m st (GCancel (ord_side r) (ord_price r) (clk_order ks)) st'"
| spot_match: "match_limit_order rt st ks ts lim q = Inr st' \<Longrightarrow> mlk_market ks = m \<Longrightarrow>
    spot_step rt m st (fill_event st (mlk_maker_order ks) st') st'"

inductive_cases spot_cancelE: "spot_step rt m st (GCancel side p k) st'"
inductive_cases spot_placeE: "spot_step rt m st (GInsert side p k q) st'"

lemma spot_step_refines:
  assumes sep: "levels_separate rt m" and inv: "book_inv is_bid (spot_view rt m st)"
    and step: "spot_step rt m st e st'"
  shows "gstep is_bid (spot_view rt m st) e (spot_view rt m st')"
  using step
proof cases
  case (spot_insert ks side p q)
  with insert_limit_order_refines [OF spot_insert(2)] sep show ?thesis by simp
next
  case (spot_append ks side p q)
  with append_limit_order_refines [OF spot_append(2)] sep inv show ?thesis by simp
next
  case (spot_cancel ks i r)
  with cancel_limit_order_refines [OF spot_cancel(2)] sep inv show ?thesis by auto
next
  case (spot_match ks ts lim q)
  with match_limit_order_refines [OF spot_match(2)] sep inv show ?thesis by simp
qed

interpretation spot: order_book is_bid "spot_view rt m" "\<lambda>_. levels_separate rt m" "spot_step rt m"
  for rt m
  by unfold_locales (auto intro: spot_step_refines)

section \<open>Properties\<close>

text \<open>A market without orders, levels or heads: what \<open>initialize_market\<close> leaves.\<close>

definition fresh_book :: "runtime \<Rightarrow> pubkey \<Rightarrow> spot_store \<Rightarrow> bool" where
  "fresh_book rt m st \<longleftrightarrow>
     (\<exists>mk. ss_markets st m = Some mk \<and> mkt_best_bid mk = None \<and> mkt_best_ask mk = None \<and>
        mkt_open_order_count mk = 0) \<and>
     (\<forall>k r. ss_orders st k = Some r \<longrightarrow> ord_market r \<noteq> m) \<and>
     (\<forall>sd p. ss_levels st (level_address rt m sd p) = None)"

lemma fresh_book_inv: "fresh_book rt m st \<Longrightarrow> book_inv is_bid (spot_view rt m st)"
proof -
  assume fresh: "fresh_book rt m st"
  then obtain mk where mk: "ss_markets st m = Some mk" "mkt_best_bid mk = None" "mkt_best_ask mk = None"
    "mkt_open_order_count mk = 0" by (auto simp: fresh_book_def)
  have best: "market_best mk sd = None" for sd using mk by (cases sd) simp_all
  have none: "spot_orders m st k = None" for k
    using fresh by (auto simp: fresh_book_def spot_orders_def split: option.splits)
  have "book_rep is_bid (spot_view rt m st) \<lparr>sp_prices = \<lambda>_. [], sp_queue = \<lambda>_. []\<rparr>"
    using fresh mk best none
    by (auto simp: book_rep_def prices_ok_def orders_ok_def count_ok_def open_keys_def fresh_book_def
        spot_view_market)
  then show ?thesis by (auto simp: book_inv_def)
qed

text \<open>C1: From an empty market on, every sequence of successful place, cancel and match
  instructions leaves a well-formed book: per side a doubly linked, strictly sorted list of
  non-empty price levels headed by the market's best price, per level a doubly linked FIFO of
  open orders in id order whose total and count are exact, and an exact open-order counter.\<close>

theorem spot_book_well_formed:
  assumes "levels_separate rt m"
    and "reach (fresh_book rt m) (\<lambda>s t. \<exists>e. spot_step rt m s e t) st"
  shows "book_inv is_bid (spot_view rt m st)"
  using assms(2)
proof induction
  case (reach_init s)
  then show ?case by (rule fresh_book_inv)
next
  case (reach_step s t)
  then show ?case using spot.step_book_inv assms(1) by blast
qed

text \<open>Which maker a match consumes.\<close>

lemma match_takes_first:
  assumes ok: "match_limit_order rt st ks ts lim q = Inr st'"
    and sep: "levels_separate rt (mlk_market ks)"
    and inv: "book_inv is_bid (spot_view rt (mlk_market ks) st)"
    and maker: "ss_orders st (mlk_maker_order ks) = Some mk"
    and other: "ss_orders st k = Some r" "ord_market r = mlk_market ks" "ord_status r = Open"
      "ord_side r = ord_side mk" "k \<noteq> mlk_maker_order ks"
  shows "(case ord_side mk of Bid \<Rightarrow> ord_price r < ord_price mk | Ask \<Rightarrow> ord_price mk < ord_price r) \<or>
    (ord_price r = ord_price mk \<and> ord_order_id mk < ord_order_id r)"
proof -
  have "ord_market mk = mlk_market ks"
    using maker by (rule_tac match_limit_order_ok [OF ok]) simp
  then have id: "id_of (spot_view rt (mlk_market ks) st) (mlk_maker_order ks) = unat (ord_order_id mk)"
    using maker by (simp add: id_of_def spot_orders_def)
  have "spot_step rt (mlk_market ks) st (fill_event st (mlk_maker_order ks) st') st'"
    using ok by (rule spot_match) simp
  then obtain a where step: "spot_step rt (mlk_market ks) st
        (GFillPart (ord_side mk) (ord_price mk) (mlk_maker_order ks) a) st' \<or>
      spot_step rt (mlk_market ks) st (GFillAll (ord_side mk) (ord_price mk) (mlk_maker_order ks)) st'"
    using maker by (auto simp: fill_event_def Let_def split: if_splits)
  have view: "gb_orders (spot_view rt (mlk_market ks) st) k = Some (order_view r)"
    using other by (simp add: spot_orders_def)
  have "precedes (is_bid (ord_side mk)) (ord_price mk) (ord_price r) \<or>
      (ord_price r = ord_price mk \<and> unat (ord_order_id mk) < unat (ord_order_id r))"
    using spot.fill_takes_first [OF sep inv step view] other by (simp add: id)
  then show ?thesis
    by (auto simp: precedes_def is_bid_def word_less_nat_alt split: OrderSide.splits)
qed

text \<open>C2: Price-time priority. A match consumes the maker that comes before every other open
  order on its side of the market: better priced, or same priced and older (a smaller id).\<close>

theorem spot_match_takes_best_order:
  assumes ok: "match_limit_order rt st ks ts lim q = Inr st'"
    and sep: "levels_separate rt (mlk_market ks)"
    and inv: "book_inv is_bid (spot_view rt (mlk_market ks) st)"
    and maker: "ss_orders st (mlk_maker_order ks) = Some mk"
    and other: "ss_orders st k = Some r" "ord_market r = mlk_market ks" "ord_status r = Open"
      "ord_side r = ord_side mk" "k \<noteq> mlk_maker_order ks"
  shows "(case ord_side mk of Bid \<Rightarrow> ord_price r < ord_price mk | Ask \<Rightarrow> ord_price mk < ord_price r) \<or>
    (ord_price r = ord_price mk \<and> ord_order_id mk < ord_order_id r)"
  by (rule match_takes_first [OF assms])

text \<open>One dust order stops a side. When the first order of a side is worth less than one quote atom, no match on
  that side succeeds, whatever maker and quantity it names, until that order is cancelled.\<close>

theorem dust_head_stops_side:
  assumes sep: "levels_separate rt m" and inv: "book_inv is_bid (spot_view rt m st)"
    and head: "ss_orders st j = Some r" "ord_market r = m" "ord_status r = Open"
    and first: "\<And>k o'. ss_orders st k = Some o' \<Longrightarrow> ord_market o' = m \<Longrightarrow> ord_status o' = Open \<Longrightarrow>
      ord_side o' = ord_side r \<Longrightarrow> k \<noteq> j \<Longrightarrow>
      (case ord_side r of Bid \<Rightarrow> ord_price o' < ord_price r | Ask \<Rightarrow> ord_price r < ord_price o') \<or>
      (ord_price o' = ord_price r \<and> ord_order_id r < ord_order_id o')"
    and mk: "ss_markets st m = Some mk" and dust: "notional (ord_price r) (unat (ord_remaining_quantity r)) (mkt_base_decimals mk) = 0"
    and ks: "mlk_market ks = m" "ss_orders st (mlk_maker_order ks) = Some maker" "ord_side maker = ord_side r"
  shows "match_limit_order rt st ks ts lim q \<noteq> Inr st'"
proof
  assume ok: "match_limit_order rt st ks ts lim q = Inr st'"
  show False
  proof (rule match_limit_order_ok [OF ok], goal_cases)
    case (1 mk' cfg fees r' lv na wa mb tb plan)
    have r': "r' = maker" "ord_market maker = m" "ord_status maker = Open" using 1(6-8) ks(1,2) by simp_all
    show False
    proof (cases "mlk_maker_order ks = j")
      case True
      then have "r' = r" "mk' = mk" using 1(1,6) head(1) mk ks(1) by simp_all
      then show False using dust_refuses_takers [OF dust] 1(31) by simp
    next
      case False
      from match_takes_first [OF ok _ _ ks(2) head(1) _ head(3)] sep inv ks head(2) False
      have "(case ord_side r of Bid \<Rightarrow> ord_price r < ord_price maker | Ask \<Rightarrow> ord_price maker < ord_price r) \<or>
          (ord_price r = ord_price maker \<and> ord_order_id maker < ord_order_id r)" by simp
      with first [OF ks(2) r'(2,3) ks(3) False] show False by (auto split: OrderSide.splits)
    qed
  qed
qed

end
