(* ===== verification/Spot_Ledger.thy ===== *)
theory Spot_Ledger
  imports Spot_Book
begin

text \<open>
  The money side of the spot book. Two quantities are followed through the four order
  instructions: the total claim on a market's two vaults (free plus locked balances of all
  traders, plus the fees accrued to the protocol), which trading never changes; and, per trader
  and side, the locked balance, which is always exactly the collateral recorded in the trader's
  open orders.
\<close>

section \<open>Sums over an account store\<close>

definition store_sum :: "('v \<Rightarrow> nat) \<Rightarrow> (pubkey \<Rightarrow> 'v option) \<Rightarrow> nat" where
  "store_sum f m = (\<Sum>k\<in>dom m. case m k of None \<Rightarrow> 0 | Some v \<Rightarrow> f v)"

lemma store_sum_upd:
  assumes "finite (dom m)" "m k = Some v"
  shows "store_sum f (m(k \<mapsto> w)) + f v = store_sum f m + f w"
proof -
  have rest: "(\<Sum>x\<in>dom m - {k}. case (m(k \<mapsto> w)) x of None \<Rightarrow> 0 | Some y \<Rightarrow> f y) =
      (\<Sum>x\<in>dom m - {k}. case m x of None \<Rightarrow> 0 | Some y \<Rightarrow> f y)"
    by (rule sum.cong) auto
  have "store_sum f (m(k \<mapsto> w)) = f w + (\<Sum>x\<in>dom m - {k}. case m x of None \<Rightarrow> 0 | Some y \<Rightarrow> f y)"
    using assms(1) rest unfolding store_sum_def by (simp add: sum.insert_remove)
  moreover have "store_sum f m = f v + (\<Sum>x\<in>dom m - {k}. case m x of None \<Rightarrow> 0 | Some y \<Rightarrow> f y)"
    unfolding store_sum_def by (subst sum.remove [OF assms(1), of k]) (use assms(2) in auto)
  ultimately show ?thesis by simp
qed

lemma store_sum_new:
  assumes "finite (dom m)" "m k = None"
  shows "store_sum f (m(k \<mapsto> w)) = store_sum f m + f w"
proof -
  have "(\<Sum>x\<in>dom m. case (m(k \<mapsto> w)) x of None \<Rightarrow> 0 | Some y \<Rightarrow> f y) =
      (\<Sum>x\<in>dom m. case m x of None \<Rightarrow> 0 | Some y \<Rightarrow> f y)"
    by (rule sum.cong) (use assms(2) in auto)
  then show ?thesis
    unfolding store_sum_def using assms by (simp add: domIff)
qed

lemma store_sum_same:
  "finite (dom m) \<Longrightarrow> m k = Some v \<Longrightarrow> f w = f v \<Longrightarrow> store_sum f (m(k \<mapsto> w)) = store_sum f m"
  using store_sum_upd [of m k v f w] by simp

lemma store_sum_member: "finite (dom m) \<Longrightarrow> m k = Some v \<Longrightarrow> f v \<le> store_sum f m"
  unfolding store_sum_def by (rule order_trans [OF _ member_le_sum [of k]]) auto

section \<open>Custody\<close>

definition of_market :: "pubkey \<Rightarrow> (TraderBalance \<Rightarrow> nat) \<Rightarrow> TraderBalance \<Rightarrow> nat" where
  "of_market m f b = (if tb_market b = m then f b else 0)"

definition total_base :: "pubkey \<Rightarrow> spot_store \<Rightarrow> nat" where
  "total_base m st = store_sum (of_market m base_claim) (ss_balances st)"

definition total_quote :: "pubkey \<Rightarrow> spot_store \<Rightarrow> nat" where
  "total_quote m st = store_sum (of_market m quote_claim) (ss_balances st)"

definition accrued_fees :: "runtime \<Rightarrow> pubkey \<Rightarrow> spot_store \<Rightarrow> nat" where
  "accrued_fees rt m st =
     (case ss_fees st (address rt (MarketFeesPda m)) of
        None \<Rightarrow> 0 | Some f \<Rightarrow> unat (mf_accrued_quote_fees f))"

lemma of_market_identity:
  "tb_market b' = tb_market b \<Longrightarrow> f b' = f b \<Longrightarrow> of_market m f b' = of_market m f b"
  by (simp add: of_market_def)

lemma single_balance_totals:
  assumes fin: "finite (dom (ss_balances st))" and b: "ss_balances st k = Some b"
    and st': "ss_balances st' = (ss_balances st)(k \<mapsto> b')" "ss_fees st' = ss_fees st"
    and same: "tb_market b' = tb_market b" "base_claim b' = base_claim b" "quote_claim b' = quote_claim b"
  shows "total_base m st' = total_base m st \<and> total_quote m st' = total_quote m st \<and>
    accrued_fees rt m st' = accrued_fees rt m st"
  using store_sum_same [OF fin b, of "of_market m base_claim" b']
    store_sum_same [OF fin b, of "of_market m quote_claim" b'] same
  by (simp add: total_base_def total_quote_def accrued_fees_def st' of_market_def)

lemma pair_balance_totals:
  assumes fin: "finite (dom M)" and a: "M ka = Some a" and b: "M kb = Some b" and ne: "ka \<noteq> kb"
    and mk: "tb_market a = m" "tb_market b = m" "tb_market a' = m" "tb_market b' = m"
  shows "store_sum (of_market m f) (M(ka \<mapsto> a', kb \<mapsto> b')) + f a + f b =
    store_sum (of_market m f) M + f a' + f b'"
proof -
  have "finite (dom (M(ka \<mapsto> a')))" "(M(ka \<mapsto> a')) kb = Some b" using fin b ne by simp_all
  from store_sum_upd [OF this, of "of_market m f" b'] store_sum_upd [OF fin a, of "of_market m f" a'] mk
  show ?thesis by (simp add: of_market_def del: fun_upd_apply)
qed

lemma match_conserves:
  assumes ok: "match_limit_order rt st ks ts lim q = Inr st'" and fin: "finite (dom (ss_balances st))"
  shows "total_base (mlk_market ks) st' = total_base (mlk_market ks) st \<and>
    total_quote (mlk_market ks) st' + accrued_fees rt (mlk_market ks) st' =
      total_quote (mlk_market ks) st + accrued_fees rt (mlk_market ks) st"
proof -
  let ?m = "mlk_market ks"
  obtain mk cfg fees r lv na wa mb tb plan fee mb' tb' accrued rem coll tot cnt next_open where
    fees: "ss_fees st (mlk_market_fees ks) = Some fees"
      "mlk_market_fees ks = address rt (MarketFeesPda ?m)"
    and mb: "ss_balances st (mlk_maker_balance ks) = Some mb" "tb_market mb = ?m"
    and tb: "ss_balances st (mlk_taker_balance ks) = Some tb" "tb_market tb = ?m"
    and ne: "mlk_maker_balance ks \<noteq> mlk_taker_balance ks"
    and plan: "calculate_settlement ts lim q (ord_side r) (ord_price r) (ord_remaining_quantity r)
       (ord_locked_collateral r) (mkt_base_decimals mk) = Inr plan"
    and acc: "unat accrued = unat (mf_accrued_quote_fees fees) + unat fee"
    and settle: "settle_balances ts plan fee tb mb = Inr (tb', mb')"
    and st': "st' = match_effect ks mk fees r lv na wa tb' mb' (maker_fully_filled plan) accrued rem
       coll tot cnt next_open st"
    by (rule match_limit_order_ok [OF ok])
  have bals: "ss_balances st' = (ss_balances st)(mlk_maker_balance ks \<mapsto> mb', mlk_taker_balance ks \<mapsto> tb')"
    by (simp add: st' match_effect_def del: fun_upd_apply)
  have "accrued_fees rt ?m st' = accrued_fees rt ?m st + unat fee"
    using fees acc by (simp add: accrued_fees_def st' match_effect_def)
  moreover have "tb_market mb' = ?m" "tb_market tb' = ?m"
    using settle_identity [OF settle] mb tb by simp_all
  note pair = pair_balance_totals [OF fin mb(1) tb(1) ne mb(2) tb(2) this]
  ultimately show ?thesis
    using pair [of base_claim] pair [of quote_claim] settle_conserves [OF settle plan]
    unfolding total_base_def total_quote_def bals by linarith
qed

lemma trading_conserves:
  assumes step: "spot_step rt m st e st'" and fin: "finite (dom (ss_balances st))"
  shows "total_base m st' = total_base m st \<and>
    total_quote m st' + accrued_fees rt m st' = total_quote m st + accrued_fees rt m st"
  using step
proof cases
  case (spot_insert ks side p q)
  show ?thesis
    by (rule insert_limit_order_ok [OF spot_insert(2)])
      (use single_balance_totals [OF fin, where m = m and rt = rt and st' = st'] lock_keeps_claims in
        \<open>force simp: insert_effect_def\<close>)
next
  case (spot_append ks side p q)
  show ?thesis
    by (rule append_limit_order_ok [OF spot_append(2)])
      (use single_balance_totals [OF fin, where m = m and rt = rt and st' = st'] lock_keeps_claims in
        \<open>force simp: append_effect_def\<close>)
next
  case (spot_cancel ks i r)
  show ?thesis
    by (rule cancel_limit_order_ok [OF spot_cancel(2)])
      (use single_balance_totals [OF fin, where m = m and rt = rt and st' = st'] release_keeps_claims in
        \<open>force simp: cancel_effect_def\<close>)
next
  case (spot_match ks ts lim q)
  then show ?thesis using match_conserves [OF spot_match(2) fin] by simp
qed

text \<open>C3: Trading conserves custody. A successful insert, append, cancel or match on a market
  leaves the total base claim of all its traders unchanged, and the total quote claim plus the
  protocol's accrued fees unchanged: no instruction of the book mints or burns a claim on the
  vaults, and the only way value leaves the traders is the recorded fee.\<close>

theorem spot_trading_conserves_custody:
  assumes step: "spot_step rt m st e st'" and fin: "finite (dom (ss_balances st))"
  shows "total_base m st' = total_base m st \<and>
    total_quote m st' + accrued_fees rt m st' = total_quote m st + accrued_fees rt m st"
  by (rule trading_conserves [OF step fin])

section \<open>Locked balances are exactly the open orders' collateral\<close>

definition order_lock :: "pubkey \<Rightarrow> pubkey \<Rightarrow> OrderSide \<Rightarrow> Order \<Rightarrow> nat" where
  "order_lock m owner side r =
     (if ord_status r = Open \<and> ord_market r = m \<and> ord_owner r = owner \<and> ord_side r = side
      then unat (ord_locked_collateral r) else 0)"

definition open_collateral :: "pubkey \<Rightarrow> pubkey \<Rightarrow> OrderSide \<Rightarrow> spot_store \<Rightarrow> nat" where
  "open_collateral m owner side st = store_sum (order_lock m owner side) (ss_orders st)"

definition locks_backed :: "runtime \<Rightarrow> pubkey \<Rightarrow> spot_store \<Rightarrow> bool" where
  "locks_backed rt m st \<longleftrightarrow> finite (dom (ss_orders st)) \<and>
     (\<forall>k b. ss_balances st k = Some b \<longrightarrow> tb_market b = m \<longrightarrow>
        k = address rt (TraderBalancePda m (tb_owner b)) \<and>
        (\<forall>side. side_locked side b = open_collateral m (tb_owner b) side st))"

lemma locks_backedD:
  assumes "locks_backed rt m st"
  shows "finite (dom (ss_orders st))"
    and "ss_balances st k = Some b \<Longrightarrow> tb_market b = m \<Longrightarrow> k = address rt (TraderBalancePda m (tb_owner b))"
    and "ss_balances st k = Some b \<Longrightarrow> tb_market b = m \<Longrightarrow>
      side_locked side b = open_collateral m (tb_owner b) side st"
  using assms by (auto simp: locks_backed_def)

lemma order_lock_links [simp]:
  "order_lock m w sd (r\<lparr>ord_next_order := x\<rparr>) = order_lock m w sd r"
  "order_lock m w sd (r\<lparr>ord_previous_order := x\<rparr>) = order_lock m w sd r"
  by (simp_all add: order_lock_def)

lemma order_lock_closed [simp]: "status \<noteq> Open \<Longrightarrow> order_lock m w sd (closed_order status r) = 0"
  by (simp add: order_lock_def closed_order_def)

lemma dom_save_opt_upd: "loaded m ko ao \<Longrightarrow> dom (save_opt (map_option (upd_inner g) ao) m) = dom m"
  by (cases ao) (auto simp: save_opt_def save_def)

lemma store_sum_save_opt:
  assumes "finite (dom m')" "loaded m ko ao"
    and "\<And>k v. ko = Some k \<Longrightarrow> m k = Some v \<Longrightarrow> \<exists>v'. m' k = Some v' \<and> f v' = f (g v)"
  shows "store_sum f (save_opt (map_option (upd_inner g) ao) m') = store_sum f m'"
    and "dom (save_opt (map_option (upd_inner g) ao) m') = dom m'"
proof -
  have "store_sum f (save_opt (map_option (upd_inner g) ao) m') = store_sum f m' \<and>
    dom (save_opt (map_option (upd_inner g) ao) m') = dom m'"
  proof (cases ao)
    case (Some a)
    with assms(2,3) obtain v' where "m' (key a) = Some v'" "f v' = f (g (inner a))" by auto
    with Some store_sum_same [OF assms(1), of "key a" v' f "g (inner a)"] show ?thesis
      by (auto simp: save_opt_def save_def upd_inner_def simp del: fun_upd_apply)
  qed (simp add: save_opt_def)
  then show "store_sum f (save_opt (map_option (upd_inner g) ao) m') = store_sum f m'"
    and "dom (save_opt (map_option (upd_inner g) ao) m') = dom m'" by blast+
qed

text \<open>The shape all four instructions share: one balance moves with one order.\<close>

lemma locks_backed_step:
  assumes backed: "locks_backed rt m st"
    and b: "ss_balances st kb = Some b" "tb_market b = m"
    and st': "ss_balances st' = (ss_balances st)(kb \<mapsto> b')" "finite (dom (ss_orders st'))"
    and id: "tb_market b' = m" "tb_owner b' = tb_owner b"
    and move: "\<And>w sd. open_collateral m w sd st' + (if w = tb_owner b then side_locked sd b else 0) =
      open_collateral m w sd st + (if w = tb_owner b then side_locked sd b' else 0)"
  shows "locks_backed rt m st'"
  unfolding locks_backed_def
proof (intro conjI allI impI)
  fix k x
  assume k: "ss_balances st' k = Some x" and x: "tb_market x = m"
  show "k = address rt (TraderBalancePda m (tb_owner x))"
    using locks_backedD(2) [OF backed] b k x id st'(1) by (auto split: if_splits)
  fix sd
  show "side_locked sd x = open_collateral m (tb_owner x) sd st'"
  proof (cases "k = kb")
    case True
    then have "x = b'" using k st'(1) by simp
    with move [of "tb_owner b" sd] locks_backedD(3) [OF backed b, of sd] id show ?thesis by simp
  next
    case False
    then have old: "ss_balances st k = Some x" using k st'(1) by simp
    then have "tb_owner x \<noteq> tb_owner b"
      using False locks_backedD(2) [OF backed old x] locks_backedD(2) [OF backed b] by metis
    with move [of "tb_owner x" sd] locks_backedD(3) [OF backed old x, of sd] show ?thesis by simp
  qed
qed (rule st'(2))

lemma insert_keeps_backing:
  assumes ok: "insert_limit_order rt st ks side p q = Inr st'"
    and backed: "locks_backed rt (ilk_market ks) st"
  shows "locks_backed rt (ilk_market ks) st'"
proof (rule insert_limit_order_ok [OF ok], goal_cases)
  case (1 mk tb bl wl c free locked next_id next_open)
  note fin = locks_backedD(1) [OF backed] and eff = 1(22)
  let ?r = "placed_order (ilk_trader ks) (ilk_market ks) (mkt_next_order_id mk) side p
    (ilk_price_level ks) None q c (snd (pda rt (OrderPda (ilk_market ks) (mkt_next_order_id mk))))"
  show ?case
  proof (rule locks_backed_step [OF backed 1(11,13)])
    show "ss_balances st' = (ss_balances st)(ilk_trader_balance ks \<mapsto> set_side_balance side free locked tb)"
      by (simp add: eff insert_effect_def del: fun_upd_apply)
    show "finite (dom (ss_orders st'))" using fin by (simp add: eff insert_effect_def)
    show "open_collateral (ilk_market ks) w sd st' + (if w = tb_owner tb then side_locked sd tb else 0) =
        open_collateral (ilk_market ks) w sd st +
        (if w = tb_owner tb then side_locked sd (set_side_balance side free locked tb) else 0)" for w sd
      using store_sum_new [OF fin 1(8), of "order_lock (ilk_market ks) w sd" ?r] 1(14,19)
      by (cases "sd = side") (auto simp: eff insert_effect_def open_collateral_def order_lock_def
          placed_order_def run_simps simp del: fun_upd_apply)
  qed (use 1(13) in simp_all)
qed

lemma locks_backed_frame:
  assumes backed: "locks_backed rt m st"
    and b: "ss_balances st kb = Some b" "tb_market b = m"
    and st': "ss_balances st' = (ss_balances st)(kb \<mapsto> b')" "ss_orders st' = ss_orders st"
    and same: "tb_market b' = m" "tb_owner b' = tb_owner b" "\<And>sd. side_locked sd b' = side_locked sd b"
  shows "locks_backed rt m st'"
  by (rule locks_backed_step [OF backed b st'(1) _ same(1,2)])
    (use locks_backedD(1) [OF backed] st'(2) same(3) in \<open>simp_all add: open_collateral_def\<close>)

lemma append_keeps_backing:
  assumes ok: "append_limit_order rt st ks side p q = Inr st'"
    and backed: "locks_backed rt (alk_market ks) st"
  shows "locks_backed rt (alk_market ks) st'"
proof (rule append_limit_order_ok [OF ok], goal_cases)
  case (1 mk lv prev tb c free locked next_id next_open tot cnt)
  note fin = locks_backedD(1) [OF backed] and eff = 1(23)
  let ?prev = "prev\<lparr>ord_next_order := Some (alk_order ks)\<rparr>"
  let ?M = "(ss_orders st)(alk_previous_order ks \<mapsto> ?prev)"
  let ?r = "placed_order (alk_trader ks) (alk_market ks) (mkt_next_order_id mk) side p
    (alk_price_level ks) (Some (alk_previous_order ks)) q c
    (snd (pda rt (OrderPda (alk_market ks) (mkt_next_order_id mk))))"
  have fin': "finite (dom ?M)" and fresh: "?M (alk_order ks) = None"
    using fin 1(8,12) by (auto split: if_splits)
  have same: "store_sum (order_lock (alk_market ks) w sd) ?M = store_sum (order_lock (alk_market ks) w sd) (ss_orders st)" for w sd
    by (rule store_sum_same [OF fin 1(12)]) simp
  show ?case
  proof (rule locks_backed_step [OF backed 1(13,15)])
    show "ss_balances st' = (ss_balances st)(alk_trader_balance ks \<mapsto> set_side_balance side free locked tb)"
      by (simp add: eff append_effect_def del: fun_upd_apply)
    show "finite (dom (ss_orders st'))" using fin by (simp add: eff append_effect_def)
    show "open_collateral (alk_market ks) w sd st' + (if w = tb_owner tb then side_locked sd tb else 0) =
        open_collateral (alk_market ks) w sd st +
        (if w = tb_owner tb then side_locked sd (set_side_balance side free locked tb) else 0)" for w sd
      using store_sum_new [OF fin' fresh, of "order_lock (alk_market ks) w sd" ?r] same [of w sd] 1(16,18)
      by (cases "sd = side") (auto simp: eff append_effect_def open_collateral_def order_lock_def
          placed_order_def run_simps simp del: fun_upd_apply)
  qed (use 1(15) in simp_all)
qed

text \<open>Relinking the neighbours of a removed order changes no lock.\<close>

lemma relinked_sum:
  assumes fin: "finite (dom M)" and pa: "loaded M kp pa" and na: "loaded M kn na"
    and k: "M k = Some r" "kp \<noteq> Some k" "kn \<noteq> Some k"
    and same: "\<And>x. f (gp x) = f x" "\<And>x. f (gn x) = f x"
  shows "store_sum f ((save_opt (map_option (upd_inner gn) na)
      (save_opt (map_option (upd_inner gp) pa) M))(k \<mapsto> r')) + f r = store_sum f M + f r'" (is ?sum)
    and "finite (dom ((save_opt (map_option (upd_inner gn) na)
      (save_opt (map_option (upd_inner gp) pa) M))(k \<mapsto> r')))" (is ?fin)
proof -
  define M1 where "M1 = save_opt (map_option (upd_inner gp) pa) M"
  define M2 where "M2 = save_opt (map_option (upd_inner gn) na) M1"
  have M1: "M1 j = (if kp = Some j then map_option gp (M j) else M j)" for j
    using pa by (simp add: save_opt_upd M1_def)
  have M2: "M2 j = (if kn = Some j then map_option gn (M j) else M1 j)" for j
    using na by (simp add: save_opt_upd M2_def)
  have sum1: "store_sum f M1 = store_sum f M"
    unfolding M1_def by (rule store_sum_save_opt(1) [OF fin pa]) (simp add: same)
  have dom1: "dom M1 = dom M"
    unfolding M1_def by (rule store_sum_save_opt(2) [OF fin pa, where f = f]) (simp add: same)
  have fin1: "finite (dom M1)" using fin by (simp add: dom1)
  have sum2: "store_sum f M2 = store_sum f M1"
    unfolding M2_def by (rule store_sum_save_opt(1) [OF fin1 na]) (simp add: M1 same)
  have dom2: "dom M2 = dom M1"
    unfolding M2_def by (rule store_sum_save_opt(2) [OF fin1 na, where f = f]) (simp add: M1 same)
  have fin2: "finite (dom M2)" using fin by (simp add: dom1 dom2)
  have "M2 k = Some r" using k by (simp add: M2 M1)
  from store_sum_upd [OF fin2 this, of f r'] sum1 sum2
  show ?sum by (simp add: M2_def M1_def del: fun_upd_apply)
  show ?fin using fin2 by (simp add: M2_def M1_def)
qed

lemma cancel_keeps_backing:
  assumes ok: "cancel_limit_order rt st ks i = Inr st'"
    and backed: "locks_backed rt (clk_market ks) st"
  shows "locks_backed rt (clk_market ks) st'"
proof (rule cancel_limit_order_ok [OF ok], goal_cases)
  case (1 mk r lv tb pa na ba wa free locked next_open cnt tot)
  note fin = locks_backedD(1) [OF backed] and eff = 1(27)
  have apart: "clk_previous_order ks \<noteq> Some (clk_order ks)" "clk_next_order ks \<noteq> Some (clk_order ks)"
    using 1(12) by (auto simp: keys_of_def split: option.splits)
  note sums = relinked_sum [OF fin 1(8,9,2) apart,
    where gp = "\<lambda>x. x\<lparr>ord_next_order := map_option key na\<rparr>" and
      gn = "\<lambda>x. x\<lparr>ord_previous_order := map_option key pa\<rparr>" and r' = "closed_order Canceled r"]
  show ?case
  proof (rule locks_backed_step [OF backed 1(14,16)])
    show "ss_balances st' = (ss_balances st)(clk_trader_balance ks \<mapsto> set_side_balance (ord_side r) free locked tb)"
      by (simp add: eff cancel_effect_def del: fun_upd_apply)
    show "finite (dom (ss_orders st'))"
      using sums(2) [where f = "\<lambda>_. 0"] by (simp add: eff cancel_effect_def del: fun_upd_apply)
    show "open_collateral (clk_market ks) w sd st' + (if w = tb_owner tb then side_locked sd tb else 0) =
        open_collateral (clk_market ks) w sd st +
        (if w = tb_owner tb then side_locked sd (set_side_balance (ord_side r) free locked tb) else 0)" for w sd
      using sums(1) [where f = "order_lock (clk_market ks) w sd"] 1(3,4,5,17,20)
      by (cases "sd = ord_side r") (auto simp: eff cancel_effect_def open_collateral_def order_lock_def [of _ _ _ r]
          run_simps simp del: fun_upd_apply)
  qed (use 1(16) in simp_all)
qed

text \<open>Only the maker's lock moves in a settlement, on the side the taker does not take.\<close>

lemma settle_locked:
  assumes "settle_balances ts plan fee t mk = Inr (t', mk')"
  shows "side_locked sd mk = side_locked sd mk' + (if sd \<noteq> ts then unat (maker_locked_debit plan) else 0)"
    and "side_locked sd t' = side_locked sd t"
  using assms by (cases ts; cases sd; auto simp: ok_or_Inr)+

lemma match_keeps_backing:
  assumes ok: "match_limit_order rt st ks ts lim q = Inr st'"
    and backed: "locks_backed rt (mlk_market ks) st"
  shows "locks_backed rt (mlk_market ks) st'"
proof -
  let ?m = "mlk_market ks"
  obtain mk cfg fees r lv na wa mb tb plan fee mb' tb' accrued rem coll tot cnt next_open where
    r: "ss_orders st (mlk_maker_order ks) = Some r" "ord_market r = ?m" "ord_status r = Open"
    and na: "loaded (ss_orders st) (mlk_next_order ks) na" "mlk_next_order ks \<noteq> Some (mlk_maker_order ks)"
    and mb: "ss_balances st (mlk_maker_balance ks) = Some mb" "tb_market mb = ?m" "tb_owner mb = ord_owner r"
    and tb: "ss_balances st (mlk_taker_balance ks) = Some tb" "tb_market tb = ?m"
    and ne: "mlk_maker_balance ks \<noteq> mlk_taker_balance ks"
    and plan: "calculate_settlement ts lim q (ord_side r) (ord_price r) (ord_remaining_quantity r)
       (ord_locked_collateral r) (mkt_base_decimals mk) = Inr plan"
    and coll: "unat (ord_locked_collateral r) = unat (maker_locked_debit plan) + unat coll"
    and settle: "settle_balances ts plan fee tb mb = Inr (tb', mb')"
    and st': "st' = match_effect ks mk fees r lv na wa tb' mb' (maker_fully_filled plan) accrued rem
       coll tot cnt next_open st"
    by (rule match_limit_order_ok [OF ok])
  note fin = locks_backedD(1) [OF backed]
  define full where "full = maker_fully_filled plan"
  define r' where "r' = (if full then closed_order Filled r
    else r\<lparr>ord_remaining_quantity := rem, ord_locked_collateral := coll\<rparr>)"
  define gn where "gn x = (if full \<and> cnt \<noteq> 0 then x\<lparr>ord_previous_order := None\<rparr> else x)" for x :: Order
  define st1 where "st1 = st'\<lparr>ss_balances := (ss_balances st)(mlk_maker_balance ks \<mapsto> mb')\<rparr>"
  have gn: "order_lock ?m w sd (gn x) = order_lock ?m w sd x" for w sd x by (simp add: gn_def)
  have map_gn: "map_option (upd_inner gn) na =
      (if full \<and> cnt \<noteq> 0 then map_option (upd_inner (\<lambda>x. x\<lparr>ord_previous_order := None\<rparr>)) na else na)"
    by (cases na) (auto simp: upd_inner_def gn_def)
  have orders: "ss_orders st' = (save_opt (map_option (upd_inner gn) na)
      (save_opt (map_option (upd_inner id) None) (ss_orders st)))(mlk_maker_order ks \<mapsto> r')"
    unfolding map_gn by (simp add: st' match_effect_def full_def r'_def save_opt_def)
  have none: "loaded (ss_orders st) None (None :: Order account option)" by simp
  note sums = relinked_sum [OF fin none na(1) r(1) _ na(2), where gp = id and gn = gn and r' = r', folded orders]
  have lock': "order_lock ?m w sd r' = (if w = ord_owner r \<and> sd = ord_side r \<and> \<not> full then unat coll else 0)" for w sd
    using r by (auto simp: r'_def order_lock_def closed_order_def)
  have lock: "order_lock ?m w sd r = (if w = ord_owner r \<and> sd = ord_side r then unat (ord_locked_collateral r) else 0)" for w sd
    using r by (auto simp: order_lock_def)
  have drained: "full \<Longrightarrow> unat (ord_locked_collateral r) = unat (maker_locked_debit plan)"
    using plan by (auto simp: full_def calculate_settlement_Inr split: OrderSide.splits if_splits)
  have side: "ts \<noteq> ord_side r" using plan by (simp add: calculate_settlement_Inr)
  have other: "sd \<noteq> ts \<longleftrightarrow> sd = ord_side r" for sd
    using side by (cases sd; cases ts; cases "ord_side r") auto
  note moved = settle_locked(1) [OF settle, unfolded other]
  have id: "tb_market mb' = ?m" "tb_owner mb' = tb_owner mb" "tb_market tb' = ?m" "tb_owner tb' = tb_owner tb"
    using settle_identity [OF settle] mb tb by simp_all
  have "locks_backed rt ?m st1"
  proof (rule locks_backed_step [OF backed mb(1,2)])
    show "ss_balances st1 = (ss_balances st)(mlk_maker_balance ks \<mapsto> mb')" by (simp add: st1_def)
    show "finite (dom (ss_orders st1))" using sums(2) [where f = "\<lambda>_. 0"] by (simp add: st1_def)
    show "open_collateral ?m w sd st1 + (if w = tb_owner mb then side_locked sd mb else 0) =
        open_collateral ?m w sd st + (if w = tb_owner mb then side_locked sd mb' else 0)" for w sd
      using sums(1) [where f = "order_lock ?m w sd"] moved [of sd] coll drained mb(3) gn
      by (cases full) (auto simp: open_collateral_def st1_def lock lock')
  qed (rule id)+
  then show ?thesis
    by (rule locks_backed_frame [where kb = "mlk_taker_balance ks" and b = tb and b' = tb'])
      (use tb ne id settle_locked(2) [OF settle] in \<open>simp_all add: st1_def st' match_effect_def\<close>)
qed

text \<open>C4: Locked balances are backed. If every trader's locked base and quote of a market equal the
  collateral recorded in its open asks and bids, then after any successful insert, append,
  cancel or match they still do.\<close>

theorem spot_locks_stay_backed:
  assumes step: "spot_step rt m st e st'" and backed: "locks_backed rt m st"
  shows "locks_backed rt m st'"
  using step
proof cases
  case (spot_insert ks side p q)
  with insert_keeps_backing [OF spot_insert(2)] backed show ?thesis by simp
next
  case (spot_append ks side p q)
  with append_keeps_backing [OF spot_append(2)] backed show ?thesis by simp
next
  case (spot_cancel ks i r)
  with cancel_keeps_backing [OF spot_cancel(2)] backed show ?thesis by simp
next
  case (spot_match ks ts lim q)
  with match_keeps_backing [OF spot_match(2)] backed show ?thesis by simp
qed

text \<open>An order's lock is always in its owner's balance. In a backed book the collateral of
  every open order is at most its owner's locked balance on the order's side, so the checked
  subtraction with which a cancellation releases it cannot underflow.\<close>

theorem spot_cancel_lock_available:
  assumes backed: "locks_backed rt m st"
    and r: "ss_orders st k = Some r" "ord_status r = Open" "ord_market r = m"
    and b: "ss_balances st kb = Some b" "tb_market b = m" "tb_owner b = ord_owner r"
  shows "unat (ord_locked_collateral r) \<le> side_locked (ord_side r) b"
proof -
  have "order_lock m (ord_owner r) (ord_side r) r \<le> open_collateral m (ord_owner r) (ord_side r) st"
    unfolding open_collateral_def by (rule store_sum_member [OF locks_backedD(1) [OF backed] r(1)])
  then show ?thesis
    using locks_backedD(3) [OF backed b(1,2)] b(3) r by (simp add: order_lock_def)
qed

end
