(* ===== verification/Spot_Demo.thy ===== *)
theory Spot_Demo
  imports Spot_Ledger
begin

text \<open>
  A concrete market, evaluated step by step: two asks are placed at one price and a bid taker
  matches the older one. The scenario shows that the hypotheses of the spot properties are met
  by an actual run of the instructions.
\<close>

definition demo_rt :: runtime where
  "demo_rt = example_runtime 0"

definition demo_market :: pubkey where
  "demo_market = address demo_rt (MarketPda 11 12)"

definition demo_balance :: "pubkey \<Rightarrow> u64 \<Rightarrow> u64 \<Rightarrow> TraderBalance" where
  "demo_balance owner base quote =
     \<lparr>tb_market = demo_market, tb_owner = owner, tb_base_free = base, tb_base_locked = 0,
      tb_quote_free = quote, tb_quote_locked = 0, tb_bump = 255\<rparr>"

definition demo_balance_key :: "pubkey \<Rightarrow> pubkey" where
  "demo_balance_key owner = address demo_rt (TraderBalancePda demo_market owner)"

definition demo0 :: spot_store where
  "demo0 =
     \<lparr>ss_markets = [demo_market \<mapsto>
        \<lparr>mkt_authority = 1, mkt_base_mint = 11, mkt_quote_mint = 12, mkt_status = MarketActive,
         mkt_next_order_id = 0, mkt_base_decimals = 0, mkt_quote_decimals = 0,
         mkt_price_tick_size = 1, mkt_quantity_lot_size = 1, mkt_best_bid = None,
         mkt_best_ask = None, mkt_open_order_count = 0, mkt_bump = 255\<rparr>],
      ss_fees = [address demo_rt (MarketFeesPda demo_market) \<mapsto>
        \<lparr>mf_market = demo_market, mf_quote_mint = 12, mf_accrued_quote_fees = 0, mf_bump = 255\<rparr>],
      ss_configs = [address demo_rt ProtocolConfigPda \<mapsto>
        \<lparr>cfg_super_admin = 1, cfg_taker_fee_bps = 100, cfg_bump = 255\<rparr>],
      ss_orders = Map.empty, ss_levels = Map.empty,
      ss_balances = [demo_balance_key 100 \<mapsto> demo_balance 100 50 0,
        demo_balance_key 101 \<mapsto> demo_balance 101 50 0,
        demo_balance_key 102 \<mapsto> demo_balance 102 0 1000]\<rparr>"

definition demo_order :: "u64 \<Rightarrow> pubkey" where
  "demo_order i = address demo_rt (OrderPda demo_market i)"

definition demo_level :: pubkey where
  "demo_level = level_address demo_rt demo_market Ask 7"

definition demo_insert_keys :: InsertLimitOrderKeys where
  "demo_insert_keys =
     \<lparr>ilk_trader = 100, ilk_market = demo_market, ilk_order = demo_order 0,
      ilk_price_level = demo_level, ilk_trader_balance = demo_balance_key 100,
      ilk_better_level = None, ilk_worse_level = None\<rparr>"

definition demo_append_keys :: AppendLimitOrderKeys where
  "demo_append_keys =
     \<lparr>alk_trader = 101, alk_market = demo_market, alk_order = demo_order 1,
      alk_price_level = demo_level, alk_previous_order = demo_order 0,
      alk_trader_balance = demo_balance_key 101\<rparr>"

definition demo_match_keys :: MatchLimitOrderKeys where
  "demo_match_keys =
     \<lparr>mlk_taker = 102, mlk_market = demo_market,
      mlk_protocol_config = address demo_rt ProtocolConfigPda,
      mlk_market_fees = address demo_rt (MarketFeesPda demo_market),
      mlk_maker_order = demo_order 0, mlk_maker_price_level = demo_level,
      mlk_next_order = None, mlk_worse_level = None, mlk_level_rent_recipient = None,
      mlk_maker_balance = demo_balance_key 100, mlk_taker_balance = demo_balance_key 102\<rparr>"

lemma demo_address_eq [simp]:
  "demo_balance_key v = demo_balance_key w \<longleftrightarrow> v = w"
  "demo_order i = demo_order j \<longleftrightarrow> i = j"
  unfolding demo_balance_key_def demo_order_def demo_rt_def
  using address_eq [OF example_collision_free_balances [of 0 demo_market]]
    address_eq [OF example_collision_free_orders [of 0 demo_market]] by auto

lemma demo_addresses:
  "address demo_rt (TraderBalancePda demo_market w) = demo_balance_key w"
  "address demo_rt (OrderPda demo_market i) = demo_order i"
  "address demo_rt (PriceLevelPda demo_market Ask 7) = demo_level"
  by (simp_all add: demo_order_def demo_level_def demo_balance_key_def address_def level_address_def)

lemma demo_levels_separate: "levels_separate demo_rt m"
  unfolding levels_separate_def demo_rt_def by (rule example_collision_free_levels)

lemma demo_collateral:
  "required_collateral Ask 7 20 0 = Inr 20" "required_collateral Ask 7 10 0 = Inr 10"
  by (auto simp: required_collateral_Inr notional_def intro: exI [of _ 1])

lemmas demo_eval = load_def load_opt_def Let_def save_opt_def demo_balance_def address_def [symmetric]
  checked_add_def checked_sub_def demo_collateral is_multiple_of_def

definition demo1 :: spot_store where
  "demo1 = insert_effect demo_rt demo_insert_keys Ask 7 20 (the (ss_markets demo0 demo_market)) None None
     (demo_balance 100 50 0) 20 30 20 1 1 demo0"

lemma demo_insert: "insert_limit_order demo_rt demo0 demo_insert_keys Ask 7 20 = Inr demo1"
  by (simp add: insert_limit_order_def handle_insert_limit_order_def commit_insert_def check_insert_position_def
      demo_insert_keys_def demo0_def demo_eval demo_addresses demo1_def insert_effect_def
      placed_order_def save_def upd_inner_def)

definition demo2 :: spot_store where
  "demo2 = append_effect demo_rt demo_append_keys Ask 7 10 (the (ss_markets demo1 demo_market))
     (the (ss_levels demo1 demo_level)) (the (ss_orders demo1 (demo_order 0)))
     (demo_balance 101 50 0) 10 40 10 2 2 30 2 demo1"

lemma demo_append: "append_limit_order demo_rt demo1 demo_append_keys Ask 7 10 = Inr demo2"
  by (simp add: append_limit_order_def handle_append_limit_order_def demo_append_keys_def
      demo_insert_keys_def demo1_def demo0_def demo_eval demo_addresses demo2_def insert_effect_def
      append_effect_def placed_order_def save_def upd_inner_def)

definition demo_plan :: SettlementPlan where
  "demo_plan =
     \<lparr>fill = \<lparr>base_quantity = 5, quote_quantity = 35, execution_price = 7\<rparr>, maker_locked_debit = 5,
      maker_quote_refund = 0, maker_fully_filled = False, taker_fully_filled = True\<rparr>"

lemma demo_settlement: "calculate_settlement Bid 8 5 Ask 7 20 20 0 = Inr demo_plan"
  by (auto simp: calculate_settlement_Inr calculate_fill_Inr demo_plan_def notional_def min_def
      intro: exI [of _ 1])

lemma demo_fee: "calculate_taker_fee 35 100 = Inr 1"
  by (simp add: calculate_taker_fee_Inr fee_ceiling_def)

definition demo3 :: spot_store where
  "demo3 = match_effect demo_match_keys (the (ss_markets demo2 demo_market))
     (the (ss_fees demo2 (address demo_rt (MarketFeesPda demo_market))))
     (the (ss_orders demo2 (demo_order 0))) (the (ss_levels demo2 demo_level)) None None
     ((demo_balance 102 0 1000)\<lparr>tb_quote_free := 964, tb_base_free := 5\<rparr>)
     ((demo_balance 100 30 0)\<lparr>tb_base_locked := 15, tb_quote_free := 35\<rparr>)
     False 1 15 15 25 2 2 demo2"

lemmas demo_stores = demo_append_keys_def demo_insert_keys_def demo_match_keys_def demo0_def demo1_def
  demo2_def demo3_def insert_effect_def append_effect_def match_effect_def placed_order_def

lemma demo_match: "match_limit_order demo_rt demo2 demo_match_keys Bid 8 5 = Inr demo3"
  by (simp add: match_limit_order_def handle_match_limit_order_def check_book_transition_def
      update_book_def demo_stores demo_eval demo_addresses demo_market_def [symmetric]
      demo_settlement demo_fee demo_plan_def closed_order_def save_def upd_inner_def)

lemma demo0_fresh: "fresh_book demo_rt demo_market demo0"
  by (simp add: fresh_book_def demo0_def)

lemma demo_reach1: "reach (fresh_book demo_rt demo_market) (\<lambda>s t. \<exists>e. spot_step demo_rt demo_market s e t) demo1"
proof (rule reach_step)
  show "reach (fresh_book demo_rt demo_market) (\<lambda>s t. \<exists>e. spot_step demo_rt demo_market s e t) demo0"
    by (rule reach_init) (rule demo0_fresh)
  have "ilk_market demo_insert_keys = demo_market" by (simp add: demo_insert_keys_def)
  with demo_insert show "\<exists>e. spot_step demo_rt demo_market demo0 e demo1" by (blast intro: spot_insert)
qed

lemma demo_reach2: "reach (fresh_book demo_rt demo_market) (\<lambda>s t. \<exists>e. spot_step demo_rt demo_market s e t) demo2"
proof (rule reach_step [OF demo_reach1])
  have "alk_market demo_append_keys = demo_market" by (simp add: demo_append_keys_def)
  with demo_append show "\<exists>e. spot_step demo_rt demo_market demo1 e demo2" by (blast intro: spot_append)
qed

text \<open>The invariant along the run, from the interface of the book.\<close>

lemma demo_inv: "book_inv is_bid (spot_view demo_rt demo_market demo2)"
proof -
  have "book_inv is_bid (spot_view demo_rt demo_market demo0)" by (rule fresh_book_inv [OF demo0_fresh])
  then have "book_inv is_bid (spot_view demo_rt demo_market demo1)"
    by (rule spot.step_book_inv [OF demo_levels_separate _ spot_insert [OF demo_insert]])
      (simp add: demo_insert_keys_def)
  then show ?thesis
    by (rule spot.step_book_inv [OF demo_levels_separate _ spot_append [OF demo_append]])
      (simp add: demo_append_keys_def)
qed

theorem spot_book_well_formed_witness: "book_inv is_bid (spot_view demo_rt demo_market demo2)"
  by (rule spot_book_well_formed [OF demo_levels_separate demo_reach2])

theorem spot_match_takes_best_order_witness:
  "\<exists>maker other. ss_orders demo2 (demo_order 0) = Some maker \<and> ss_orders demo2 (demo_order 1) = Some other \<and>
     ord_price other = ord_price maker \<and> ord_order_id maker < ord_order_id other"
  using spot_match_takes_best_order [OF demo_match, of
      "the (ss_orders demo2 (demo_order 0))" "demo_order 1" "the (ss_orders demo2 (demo_order 1))"]
    demo_inv demo_levels_separate [of demo_market]
  by (simp add: demo_stores demo_addresses)

section \<open>Money along the run\<close>

lemma demo_finite: "finite (dom (ss_balances demo2))"
  by (simp add: demo_stores)

theorem spot_trading_conserves_custody_witness:
  "match_limit_order demo_rt demo2 demo_match_keys Bid 8 5 = Inr demo3 \<and>
   accrued_fees demo_rt demo_market demo3 = 1 \<and>
   total_base demo_market demo3 = total_base demo_market demo2 \<and>
   total_quote demo_market demo3 + 1 = total_quote demo_market demo2"
proof -
  have fees: "accrued_fees demo_rt demo_market demo2 = 0" "accrued_fees demo_rt demo_market demo3 = 1"
    by (simp_all add: accrued_fees_def demo_stores)
  have "mlk_market demo_match_keys = demo_market" by (simp add: demo_match_keys_def)
  from spot_trading_conserves_custody [OF spot_match [OF demo_match this] demo_finite] fees demo_match
  show ?thesis by simp
qed

lemma demo_balance_sel [simp]:
  "tb_market (demo_balance w b q) = demo_market" "tb_owner (demo_balance w b q) = w"
  "side_locked sd (demo_balance w b q) = 0"
  by (cases sd; simp add: demo_balance_def)+

lemma demo0_backed: "locks_backed demo_rt demo_market demo0"
  by (auto simp: locks_backed_def demo0_def open_collateral_def store_sum_def
      demo_addresses split: if_splits)

lemma demo1_backed_step: "\<exists>e. spot_step demo_rt demo_market demo0 e demo1"
  using spot_insert [OF demo_insert] by (auto simp: demo_insert_keys_def)

theorem spot_locks_stay_backed_witness: "locks_backed demo_rt demo_market demo1"
  using demo1_backed_step spot_locks_stay_backed [OF _ demo0_backed] by blast

theorem spot_cancel_lock_available_witness:
  "\<exists>r b. ss_orders demo1 (demo_order 0) = Some r \<and> ss_balances demo1 (demo_balance_key 100) = Some b \<and>
     unat (ord_locked_collateral r) = 20 \<and> unat (ord_locked_collateral r) \<le> side_locked (ord_side r) b"
proof -
  have "locks_backed demo_rt demo_market demo1"
    using insert_keeps_backing [OF demo_insert] demo0_backed by (simp add: demo_insert_keys_def)
  from spot_cancel_lock_available [OF this, of "demo_order 0"
      "the (ss_orders demo1 (demo_order 0))" "demo_balance_key 100" "the (ss_balances demo1 (demo_balance_key 100))"]
  show ?thesis by (simp add: demo_stores demo_balance_def)
qed

end
