(* ===== verification/World.thy ===== *)
theory World
  imports Spot_Store
begin

text \<open>
  The accounts an instruction can reach besides one market's book: admin records, metadata,
  faucets, prediction markets and positions, shared ledgers and books, and the SPL mints and
  token accounts. The SPL token program is not part
  of the repository, so it is a parameter of every instruction that calls it; the documented
  behaviour the program relies on is stated here as laws, and a concrete token program that
  satisfies them shows they can hold.
\<close>

section \<open>Token accounts and the token program\<close>

record Mint =
  mint_decimals :: u8
  mint_supply :: u64
  mint_authority :: "pubkey option"

record TokenAccount =
  ta_mint :: pubkey
  ta_owner :: pubkey
  ta_amount :: u64
  ta_frozen :: bool

type_synonym tokens = "pubkey \<Rightarrow> TokenAccount option"
type_synonym mints = "pubkey \<Rightarrow> Mint option"

text \<open>\<open>token::transfer_checked\<close>, \<open>token::close_account\<close>, \<open>token::set_authority\<close> with
  \<open>AuthorityType::MintTokens\<close>, and \<open>token::mint_to\<close>, with the CPI's accounts in the order
  the calls name them, after the mint and token accounts the program reads (\<open>from\<close>, \<open>mint\<close>, \<open>to\<close>, \<open>authority\<close>; \<open>account\<close>, \<open>destination\<close>, \<open>authority\<close>;
  \<open>current_authority\<close>, \<open>account_or_mint\<close>; \<open>mint\<close>, \<open>to\<close>, \<open>authority\<close>).
  Runtime checks of signatures are part of the CPI.\<close>

record token_program =
  transfer_checked ::
    "mints \<Rightarrow> tokens \<Rightarrow> pubkey \<Rightarrow> pubkey \<Rightarrow> pubkey \<Rightarrow> pubkey \<Rightarrow> u64 \<Rightarrow> u8 \<Rightarrow> tokens res"
  close_token_account :: "tokens \<Rightarrow> pubkey \<Rightarrow> pubkey \<Rightarrow> pubkey \<Rightarrow> tokens res"
  set_mint_authority :: "mints \<Rightarrow> pubkey \<Rightarrow> pubkey \<Rightarrow> pubkey option \<Rightarrow> mints res"
  mint_to :: "mints \<times> tokens \<Rightarrow> pubkey \<Rightarrow> pubkey \<Rightarrow> pubkey \<Rightarrow> u64 \<Rightarrow> (mints \<times> tokens) res"

definition token_amount :: "tokens \<Rightarrow> pubkey \<Rightarrow> nat" where
  "token_amount ts k = (case ts k of None \<Rightarrow> 0 | Some a \<Rightarrow> unat (ta_amount a))"

text \<open>A successful transfer between two different accounts moves exactly the amount and touches
  nothing else. The law does not say whose signature it took, since an owner may have named a delegate. A
  successful close removes the account; the law does not say that it was empty, since an account of
  the native mint is closed with its balance.\<close>

definition transfer_law :: "token_program \<Rightarrow> bool" where
  "transfer_law tp \<longleftrightarrow>
     (\<forall>ms ts from mint to auth amt dec ts'.
        transfer_checked tp ms ts from mint to auth amt dec = Inr ts' \<longrightarrow> from \<noteq> to \<longrightarrow>
        (\<exists>a b. ts from = Some a \<and> ts to = Some b \<and>
           ta_mint a = mint \<and> ta_mint b = mint \<and>
           unat amt \<le> unat (ta_amount a) \<and> unat (ta_amount b) + unat amt < 2 ^ 64 \<and>
           ts' = ts(from \<mapsto> a\<lparr>ta_amount := ta_amount a - amt\<rparr>, to \<mapsto> b\<lparr>ta_amount := ta_amount b + amt\<rparr>)))"

definition close_law :: "token_program \<Rightarrow> bool" where
  "close_law tp \<longleftrightarrow>
     (\<forall>ts k dest auth ts'. close_token_account tp ts k dest auth = Inr ts' \<longrightarrow>
        ts k \<noteq> None \<and> ts' = ts(k := None))"

text \<open>Only a mint's authority hands it on or mints, and minting adds the same amount to the supply
  and to the destination.\<close>

definition set_authority_law :: "token_program \<Rightarrow> bool" where
  "set_authority_law tp \<longleftrightarrow>
     (\<forall>ms cur k new ms'. set_mint_authority tp ms cur k new = Inr ms' \<longrightarrow>
        (\<exists>m. ms k = Some m \<and> mint_authority m = Some cur \<and> ms' = ms(k \<mapsto> m\<lparr>mint_authority := new\<rparr>)))"

definition mint_law :: "token_program \<Rightarrow> bool" where
  "mint_law tp \<longleftrightarrow>
     (\<forall>ms ts k to auth amt ms' ts'. mint_to tp (ms, ts) k to auth amt = Inr (ms', ts') \<longrightarrow>
        (\<exists>m b. ms k = Some m \<and> ts to = Some b \<and> mint_authority m = Some auth \<and> ta_mint b = k \<and>
           unat (mint_supply m) + unat amt < 2 ^ 64 \<and> unat (ta_amount b) + unat amt < 2 ^ 64 \<and>
           ms' = ms(k \<mapsto> m\<lparr>mint_supply := mint_supply m + amt\<rparr>) \<and>
           ts' = ts(to \<mapsto> b\<lparr>ta_amount := ta_amount b + amt\<rparr>)))"

text \<open>A transfer the program may rely on to succeed: the mint exists and has the decimals named, both
  accounts exist, hold the mint and are not frozen, the authority owns the source, the source covers the
  amount and the destination does not overflow.\<close>

definition transfer_live :: "token_program \<Rightarrow> bool" where
  "transfer_live tp \<longleftrightarrow>
     (\<forall>ms ts from mint to auth amt dec a b m. ts from = Some a \<longrightarrow> ts to = Some b \<longrightarrow> from \<noteq> to \<longrightarrow>
        ms mint = Some m \<longrightarrow> mint_decimals m = dec \<longrightarrow> \<not> ta_frozen a \<longrightarrow> \<not> ta_frozen b \<longrightarrow>
        ta_owner a = auth \<longrightarrow> ta_mint a = mint \<longrightarrow> ta_mint b = mint \<longrightarrow>
        unat amt \<le> unat (ta_amount a) \<longrightarrow> unat (ta_amount b) + unat amt < 2 ^ 64 \<longrightarrow>
        (\<exists>ts'. transfer_checked tp ms ts from mint to auth amt dec = Inr ts'))"

lemma transfer_amounts:
  assumes law: "transfer_law tp" and ok: "transfer_checked tp ms ts from mint to auth amt dec = Inr ts'"
    and ne: "from \<noteq> to"
  shows "token_amount ts from = unat amt + token_amount ts' from"
    and "token_amount ts' to = token_amount ts to + unat amt"
    and "k \<noteq> from \<Longrightarrow> k \<noteq> to \<Longrightarrow> ts' k = ts k"
proof -
  obtain a b where ab: "ts from = Some a" "ts to = Some b" "unat amt \<le> unat (ta_amount a)"
    "unat (ta_amount b) + unat amt < 2 ^ 64"
    "ts' = ts(from \<mapsto> a\<lparr>ta_amount := ta_amount a - amt\<rparr>, to \<mapsto> b\<lparr>ta_amount := ta_amount b + amt\<rparr>)"
    using law ok ne unfolding transfer_law_def by blast
  have sum: "unat (ta_amount b + amt) = unat (ta_amount b) + unat amt"
    using ab(4) by (subst unat_add_lem [THEN iffD1]) simp_all
  show "token_amount ts from = unat amt + token_amount ts' from"
    using ab ne by (simp add: token_amount_def unat_sub word_le_nat_alt)
  show "token_amount ts' to = token_amount ts to + unat amt"
    using ab sum by (simp add: token_amount_def)
  show "k \<noteq> from \<Longrightarrow> k \<noteq> to \<Longrightarrow> ts' k = ts k" using ab by simp
qed

lemma close_effect: "close_law tp \<Longrightarrow> close_token_account tp ts k dest auth = Inr ts' \<Longrightarrow> ts' = ts(k := None)"
  unfolding close_law_def by blast

text \<open>A token program that satisfies the laws.\<close>

definition example_transfer ::
  "mints \<Rightarrow> tokens \<Rightarrow> pubkey \<Rightarrow> pubkey \<Rightarrow> pubkey \<Rightarrow> pubkey \<Rightarrow> u64 \<Rightarrow> u8 \<Rightarrow> tokens res" where
  "example_transfer ms ts from mint to auth amt dec =
     ok_or (ts from) (TokenProgramError 0) (\<lambda>a.
     ok_or (ts to) (TokenProgramError 0) (\<lambda>b.
     require (\<not> ta_frozen a \<and> \<not> ta_frozen b) (TokenProgramError 17)
     (ok_or (ms mint) (TokenProgramError 2) (\<lambda>m.
     require (mint_decimals m = dec) (TokenProgramError 18)
     (require (ta_mint a = mint \<and> ta_mint b = mint) (TokenProgramError 3)
     (require (ta_owner a = auth) (TokenProgramError 4)
     (require (amt \<le> ta_amount a) (TokenProgramError 1)
     (if from = to then Inr ts
      else ok_or (checked_add (ta_amount b) amt) (TokenProgramError 14) (\<lambda>sum.
        Inr (ts(from \<mapsto> a\<lparr>ta_amount := ta_amount a - amt\<rparr>, to \<mapsto> b\<lparr>ta_amount := sum\<rparr>)))))))))))"

definition example_close :: "tokens \<Rightarrow> pubkey \<Rightarrow> pubkey \<Rightarrow> pubkey \<Rightarrow> tokens res" where
  "example_close ts k dest auth =
     ok_or (ts k) (TokenProgramError 0) (\<lambda>a.
     require (ta_owner a = auth) (TokenProgramError 4)
     (require (ta_amount a = 0) (TokenProgramError 11)
     (Inr (ts(k := None)))))"

definition example_set_authority :: "mints \<Rightarrow> pubkey \<Rightarrow> pubkey \<Rightarrow> pubkey option \<Rightarrow> mints res" where
  "example_set_authority ms cur k new =
     ok_or (ms k) (TokenProgramError 0) (\<lambda>m.
     require (mint_authority m = Some cur) (TokenProgramError 4)
     (Inr (ms(k \<mapsto> m\<lparr>mint_authority := new\<rparr>))))"

definition example_mint_to ::
  "mints \<times> tokens \<Rightarrow> pubkey \<Rightarrow> pubkey \<Rightarrow> pubkey \<Rightarrow> u64 \<Rightarrow> (mints \<times> tokens) res" where
  "example_mint_to mt k to auth amt =
     ok_or (fst mt k) (TokenProgramError 0) (\<lambda>m.
     ok_or (snd mt to) (TokenProgramError 0) (\<lambda>b.
     require (mint_authority m = Some auth) (TokenProgramError 4)
     (require (ta_mint b = k) (TokenProgramError 3)
     (ok_or (checked_add (mint_supply m) amt) (TokenProgramError 14) (\<lambda>supply.
      ok_or (checked_add (ta_amount b) amt) (TokenProgramError 14) (\<lambda>sum.
      Inr ((fst mt)(k \<mapsto> m\<lparr>mint_supply := supply\<rparr>), (snd mt)(to \<mapsto> b\<lparr>ta_amount := sum\<rparr>))))))))"

definition example_token_program :: token_program where
  "example_token_program = \<lparr>transfer_checked = example_transfer, close_token_account = example_close,
     set_mint_authority = example_set_authority, mint_to = example_mint_to\<rparr>"

lemma unat_u64_eq_bound: "unat (w :: u64) = n \<Longrightarrow> n < 18446744073709551616"
  using unat_u64_bound [of w] by simp

lemma example_transfer_law: "transfer_law example_token_program"
  unfolding transfer_law_def example_token_program_def
  by (auto simp: example_transfer_def run_simps word_le_nat_alt word_add_eq dest: unat_u64_eq_bound)

lemma example_transfer_live: "transfer_live example_token_program"
  unfolding transfer_live_def example_token_program_def
  by (auto simp: example_transfer_def ok_or_def require_def word_le_nat_alt checked_add_def)

lemma example_close_law: "close_law example_token_program"
  unfolding close_law_def example_token_program_def by (auto simp: example_close_def run_simps)

lemma example_set_authority_law: "set_authority_law example_token_program"
  unfolding set_authority_law_def example_token_program_def
  by (auto simp: example_set_authority_def run_simps)

lemma example_mint_law: "mint_law example_token_program"
  unfolding mint_law_def example_token_program_def
  by (auto simp: example_mint_to_def run_simps word_add_eq dest: unat_u64_eq_bound)

section \<open>The accounts of the program\<close>

record world =
  w_spot :: spot_store
  w_admins :: "pubkey \<Rightarrow> AdminRecord option"
  w_metadata :: "pubkey \<Rightarrow> MarketMetadata option"
  w_faucets :: "pubkey \<Rightarrow> TestFaucet option"
  w_predictions :: "pubkey \<Rightarrow> PredictionMarket option"
  w_positions :: "pubkey \<Rightarrow> PredictionPosition option"
  w_prediction_books :: "pubkey \<Rightarrow> PredictionOrderBook option"
  w_prediction_levels :: "pubkey \<Rightarrow> PredictionPriceLevel option"
  w_prediction_orders :: "pubkey \<Rightarrow> PredictionOrder option"
  w_assets :: "pubkey \<Rightarrow> AssetBalance option"
  w_shared_books :: "pubkey \<Rightarrow> SharedBook option"
  w_shared_levels :: "pubkey \<Rightarrow> SharedPriceLevel option"
  w_shared_orders :: "pubkey \<Rightarrow> SharedOrder option"
  w_mints :: mints
  w_tokens :: tokens

definition vault :: "runtime \<Rightarrow> pubkey \<Rightarrow> pubkey \<Rightarrow> pubkey" where
  "vault rt m mint = address rt (VaultPda m mint)"

definition vault_amount :: "runtime \<Rightarrow> pubkey \<Rightarrow> pubkey \<Rightarrow> world \<Rightarrow> nat" where
  "vault_amount rt m mint w = token_amount (w_tokens w) (vault rt m mint)"

end
