(* ===== verification/Governance.thy ===== *)
theory Governance
  imports World Spot_Book
begin

text \<open>
  Protocol governance and the pause switch: \<open>initialize_protocol.rs\<close>, \<open>add_admin.rs\<close>,
  \<open>remove_admin.rs\<close>, \<open>manage_admin.rs\<close>, \<open>set_taker_fee.rs\<close>, \<open>pause.rs\<close>, \<open>unpause.rs\<close>. An
  instruction takes the keys it was given and returns the updated accounts.
\<close>

section \<open>Protocol configuration\<close>

text \<open>The signer must be the program's upgrade authority, which the loader records: it is the
  argument \<open>upgrade_authority\<close>.\<close>

record InitializeProtocol =
  ip_deployer :: pubkey
  ip_protocol_config :: pubkey
  ip_deployer_admin :: pubkey

definition initialize_protocol ::
  "runtime \<Rightarrow> pubkey option \<Rightarrow> world \<Rightarrow> InitializeProtocol \<Rightarrow> world res" where
  "initialize_protocol rt upgrade_authority w ks =
     (let config_key = address rt ProtocolConfigPda; config_bump = snd (pda rt ProtocolConfigPda);
          admin_key = address rt (AdminPda (ip_deployer ks));
          admin_bump = snd (pda rt (AdminPda (ip_deployer ks))) in
      require (ip_protocol_config ks = config_key) ConstraintSeeds
      (require (ss_configs (w_spot w) config_key = None) AccountAlreadyInUse
      (require (ip_deployer_admin ks = admin_key) ConstraintSeeds
      (require (w_admins w admin_key = None) AccountAlreadyInUse
      (require (upgrade_authority = Some (ip_deployer ks)) InvalidDeployer
      (Inr (w\<lparr>
         w_spot := (w_spot w)\<lparr>ss_configs := (ss_configs (w_spot w))(config_key \<mapsto>
           \<lparr>cfg_super_admin = ip_deployer ks, cfg_taker_fee_bps = 0, cfg_bump = config_bump\<rparr>)\<rparr>,
         w_admins := (w_admins w)(admin_key \<mapsto>
           \<lparr>adm_authority = ip_deployer ks, adm_added_by = ip_deployer ks,
            adm_status = AdminActive, adm_bump = admin_bump\<rparr>)\<rparr>)))))))"

text \<open>The account constraint every super-admin instruction shares: the canonical configuration,
  whose \<open>super_admin\<close> is the signer.\<close>

definition load_super_admin ::
  "runtime \<Rightarrow> world \<Rightarrow> pubkey \<Rightarrow> pubkey \<Rightarrow> (ProtocolConfig account \<Rightarrow> 'a res) \<Rightarrow> 'a res" where
  "load_super_admin rt w config super_admin body =
     load (ss_configs (w_spot w)) config (\<lambda>protocol_config.
     require (key protocol_config = address rt ProtocolConfigPda) ConstraintSeeds
     (require (cfg_super_admin (inner protocol_config) = super_admin) UnauthorizedSuperAdmin
     (body protocol_config)))"

record AddAdmin =
  aa_super_admin :: pubkey
  aa_protocol_config :: pubkey
  aa_admin_record :: pubkey

definition add_admin :: "runtime \<Rightarrow> world \<Rightarrow> AddAdmin \<Rightarrow> pubkey \<Rightarrow> world res" where
  "add_admin rt w ks new_admin =
     load_super_admin rt w (aa_protocol_config ks) (aa_super_admin ks) (\<lambda>_.
     let admin_key = address rt (AdminPda new_admin);
         admin_bump = snd (pda rt (AdminPda new_admin)) in
     require (aa_admin_record ks = admin_key) ConstraintSeeds
     (require (w_admins w admin_key = None) AccountAlreadyInUse
     (require (new_admin \<noteq> default_key) InvalidAdmin
     (Inr (w\<lparr>w_admins := (w_admins w)(admin_key \<mapsto>
        \<lparr>adm_authority = new_admin, adm_added_by = aa_super_admin ks,
         adm_status = AdminActive, adm_bump = admin_bump\<rparr>)\<rparr>)))))"

text \<open>\<open>ManageAdmin\<close> and \<open>RemoveAdmin\<close> carry the same constraints on the same accounts.\<close>

record ManageAdmin =
  ma_super_admin :: pubkey
  ma_protocol_config :: pubkey
  ma_admin_record :: pubkey

definition load_target_admin ::
  "runtime \<Rightarrow> world \<Rightarrow> ManageAdmin \<Rightarrow> pubkey \<Rightarrow> (AdminRecord account \<Rightarrow> 'a res) \<Rightarrow> 'a res" where
  "load_target_admin rt w ks target_admin body =
     load_super_admin rt w (ma_protocol_config ks) (ma_super_admin ks) (\<lambda>protocol_config.
     require (target_admin \<noteq> cfg_super_admin (inner protocol_config)) CannotModifySuperAdmin
     (load (w_admins w) (ma_admin_record ks) (\<lambda>admin_record.
     require (key admin_record = address rt (AdminPda target_admin)) ConstraintSeeds
     (require (adm_authority (inner admin_record) = target_admin) InvalidAdmin
     (body admin_record)))))"

definition disable_admin :: "runtime \<Rightarrow> world \<Rightarrow> ManageAdmin \<Rightarrow> pubkey \<Rightarrow> world res" where
  "disable_admin rt w ks target_admin =
     load_target_admin rt w ks target_admin (\<lambda>admin_record.
     require (adm_status (inner admin_record) = AdminActive) AdminAlreadyDisabled
     (Inr (w\<lparr>w_admins := save (upd_inner (\<lambda>a. a\<lparr>adm_status := AdminDisabledStatus\<rparr>) admin_record)
        (w_admins w)\<rparr>)))"

definition enable_admin :: "runtime \<Rightarrow> world \<Rightarrow> ManageAdmin \<Rightarrow> pubkey \<Rightarrow> world res" where
  "enable_admin rt w ks target_admin =
     load_target_admin rt w ks target_admin (\<lambda>admin_record.
     require (adm_status (inner admin_record) = AdminDisabledStatus) AdminAlreadyActive
     (Inr (w\<lparr>w_admins := save (upd_inner (\<lambda>a. a\<lparr>adm_status := AdminActive\<rparr>) admin_record)
        (w_admins w)\<rparr>)))"

definition remove_admin :: "runtime \<Rightarrow> world \<Rightarrow> ManageAdmin \<Rightarrow> pubkey \<Rightarrow> world res" where
  "remove_admin rt w ks target_admin =
     load_target_admin rt w ks target_admin (\<lambda>admin_record.
     require (adm_status (inner admin_record) = AdminDisabledStatus) AdminMustBeDisabled
     (Inr (w\<lparr>w_admins := (w_admins w)(key admin_record := None)\<rparr>)))"

record SetTakerFee =
  sf_super_admin :: pubkey
  sf_protocol_config :: pubkey

definition set_taker_fee :: "runtime \<Rightarrow> world \<Rightarrow> SetTakerFee \<Rightarrow> u16 \<Rightarrow> world res" where
  "set_taker_fee rt w ks taker_fee_bps =
     load_super_admin rt w (sf_protocol_config ks) (sf_super_admin ks) (\<lambda>protocol_config.
     require (taker_fee_bps \<le> MAX_TAKER_FEE_BPS) FeeRateTooHigh
     (Inr (w\<lparr>w_spot := (w_spot w)\<lparr>ss_configs :=
        save (upd_inner (\<lambda>c. c\<lparr>cfg_taker_fee_bps := taker_fee_bps\<rparr>) protocol_config)
          (ss_configs (w_spot w))\<rparr>\<rparr>)))"

section \<open>The pause switch\<close>

record MarketAuthority =
  mau_authority :: pubkey
  mau_market :: pubkey

definition pause_market :: "world \<Rightarrow> MarketAuthority \<Rightarrow> world res" where
  "pause_market w ks =
     load (ss_markets (w_spot w)) (mau_market ks) (\<lambda>market.
     require (mkt_authority (inner market) = mau_authority ks) ConstraintHasOne
     (require (mkt_status (inner market) = MarketActive) MarketAlreadyPaused
     (Inr (w\<lparr>w_spot := (w_spot w)\<lparr>ss_markets :=
        save (upd_inner (\<lambda>m. m\<lparr>mkt_status := MarketPausedStatus\<rparr>) market)
          (ss_markets (w_spot w))\<rparr>\<rparr>))))"

definition unpause_market :: "world \<Rightarrow> MarketAuthority \<Rightarrow> world res" where
  "unpause_market w ks =
     load (ss_markets (w_spot w)) (mau_market ks) (\<lambda>market.
     require (mkt_authority (inner market) = mau_authority ks) ConstraintHasOne
     (require (mkt_status (inner market) = MarketPausedStatus) MarketAlreadyActive
     (Inr (w\<lparr>w_spot := (w_spot w)\<lparr>ss_markets :=
        save (upd_inner (\<lambda>m. m\<lparr>mkt_status := MarketActive\<rparr>) market)
          (ss_markets (w_spot w))\<rparr>\<rparr>))))"

section \<open>Governance as a state machine\<close>

text \<open>The configuration exists at its address, its fee rate is within the cap, and its super
  admin holds an active admin record.\<close>

definition governed :: "runtime \<Rightarrow> world \<Rightarrow> bool" where
  "governed rt w \<longleftrightarrow>
     (\<exists>c a. ss_configs (w_spot w) (address rt ProtocolConfigPda) = Some c \<and>
        cfg_taker_fee_bps c \<le> MAX_TAKER_FEE_BPS \<and>
        w_admins w (address rt (AdminPda (cfg_super_admin c))) = Some a \<and>
        adm_authority a = cfg_super_admin c \<and> adm_status a = AdminActive)"

inductive gov_step :: "runtime \<Rightarrow> world \<Rightarrow> world \<Rightarrow> bool" for rt where
  gov_add: "add_admin rt w ks a = Inr w' \<Longrightarrow> gov_step rt w w'"
| gov_disable: "disable_admin rt w mks a = Inr w' \<Longrightarrow> gov_step rt w w'"
| gov_enable: "enable_admin rt w mks a = Inr w' \<Longrightarrow> gov_step rt w w'"
| gov_remove: "remove_admin rt w mks a = Inr w' \<Longrightarrow> gov_step rt w w'"
| gov_fee: "set_taker_fee rt w fks bps = Inr w' \<Longrightarrow> gov_step rt w w'"
| gov_pause: "pause_market w pks = Inr w' \<Longrightarrow> gov_step rt w w'"
| gov_unpause: "unpause_market w pks = Inr w' \<Longrightarrow> gov_step rt w w'"
| gov_trade: "spot_step rt m (w_spot w) e st' \<Longrightarrow> gov_step rt w (w\<lparr>w_spot := st'\<rparr>)"

definition protocol_start :: "runtime \<Rightarrow> world \<Rightarrow> bool" where
  "protocol_start rt w \<longleftrightarrow> (\<exists>ua w0 ks. initialize_protocol rt ua w0 ks = Inr w)"

lemma load_super_admin_Inr [run_simps]:
  "load_super_admin rt w config sa body = Inr y \<longleftrightarrow>
     config = address rt ProtocolConfigPda \<and>
     (\<exists>c. ss_configs (w_spot w) config = Some c \<and> cfg_super_admin c = sa \<and> body (Account config c) = Inr y)"
  by (auto simp: load_super_admin_def run_simps)

lemma load_target_admin_Inr [run_simps]:
  "load_target_admin rt w ks t body = Inr y \<longleftrightarrow>
     ma_protocol_config ks = address rt ProtocolConfigPda \<and>
     (\<exists>c a. ss_configs (w_spot w) (ma_protocol_config ks) = Some c \<and>
        cfg_super_admin c = ma_super_admin ks \<and> t \<noteq> ma_super_admin ks \<and>
        w_admins w (ma_admin_record ks) = Some a \<and>
        ma_admin_record ks = address rt (AdminPda t) \<and> adm_authority a = t \<and>
        body (Account (ma_admin_record ks) a) = Inr y)"
  by (auto simp: load_target_admin_def run_simps)

lemma spot_step_configs:
  assumes "spot_step rt m st e st'"
  shows "ss_configs st' = ss_configs st"
  using assms
proof cases
  case (spot_insert ks side p q)
  show ?thesis by (rule insert_limit_order_ok [OF spot_insert(2)]) (simp add: insert_effect_def)
next
  case (spot_append ks side p q)
  show ?thesis by (rule append_limit_order_ok [OF spot_append(2)]) (simp add: append_effect_def)
next
  case (spot_cancel ks i r)
  show ?thesis by (rule cancel_limit_order_ok [OF spot_cancel(2)]) (simp add: cancel_effect_def)
next
  case (spot_match ks ts lim q)
  show ?thesis by (rule match_limit_order_ok [OF spot_match(2)]) (simp add: match_effect_def)
qed

text \<open>Changing a record that is not the super admin's keeps the protocol governed: the record at the
  super admin's address carries its authority.\<close>

lemma governed_other_admin:
  assumes "governed rt w" "ss_configs (w_spot w) (address rt ProtocolConfigPda) = Some c"
    and "\<And>a. w_admins w k = Some a \<Longrightarrow> adm_authority a \<noteq> cfg_super_admin c"
  shows "governed rt (w\<lparr>w_admins := (w_admins w)(k := x)\<rparr>)"
  using assms by (auto simp: governed_def)

lemma governed_spot:
  "governed rt w \<Longrightarrow> ss_configs st = ss_configs (w_spot w) \<Longrightarrow> governed rt (w\<lparr>w_spot := st\<rparr>)"
  by (simp add: governed_def)

lemma target_admin_step:
  assumes gov: "governed rt w"
    and ok: "load_target_admin rt w ks t (\<lambda>r. require (P r) e (Inr (w\<lparr>w_admins := f r\<rparr>))) = Inr w'"
    and f: "\<And>r. \<exists>x. f r = (w_admins w)(key r := x)"
  shows "governed rt w'"
proof -
  obtain c a where c: "ss_configs (w_spot w) (address rt ProtocolConfigPda) = Some c"
    and t: "t \<noteq> cfg_super_admin c" and a: "w_admins w (ma_admin_record ks) = Some a" "adm_authority a = t"
    and w': "w' = w\<lparr>w_admins := f (Account (ma_admin_record ks) a)\<rparr>"
    using ok unfolding load_target_admin_Inr require_Inr by auto
  obtain x where "f (Account (ma_admin_record ks) a) = (w_admins w)(ma_admin_record ks := x)"
    using f [of "Account (ma_admin_record ks) a"] by auto
  then show ?thesis
    unfolding w' using governed_other_admin [OF gov c, of "ma_admin_record ks" x] a t by simp
qed

lemma gov_step_governed:
  assumes step: "gov_step rt w w'" and gov: "governed rt w"
  shows "governed rt w'"
  using step
proof cases
  case (gov_add ks a)
  then obtain c v where c: "ss_configs (w_spot w) (address rt ProtocolConfigPda) = Some c"
    and free: "w_admins w (address rt (AdminPda a)) = None"
    and w': "w' = w\<lparr>w_admins := (w_admins w)(address rt (AdminPda a) \<mapsto> v)\<rparr>"
    by (auto simp: add_admin_def run_simps Let_def)
  show ?thesis unfolding w' by (rule governed_other_admin [OF gov c]) (simp add: free)
next
  case (gov_disable mks a)
  show ?thesis
    by (rule target_admin_step [OF gov gov_disable [unfolded disable_admin_def]]) (auto simp: save_def)
next
  case (gov_enable mks a)
  show ?thesis
    by (rule target_admin_step [OF gov gov_enable [unfolded enable_admin_def]]) (auto simp: save_def)
next
  case (gov_remove mks a)
  show ?thesis
    by (rule target_admin_step [OF gov gov_remove [unfolded remove_admin_def]]) auto
next
  case (gov_fee fks bps)
  then obtain c where "ss_configs (w_spot w) (address rt ProtocolConfigPda) = Some c" "bps \<le> MAX_TAKER_FEE_BPS"
    and w': "w' = w\<lparr>w_spot := (w_spot w)\<lparr>ss_configs := (ss_configs (w_spot w))
      (address rt ProtocolConfigPda \<mapsto> c\<lparr>cfg_taker_fee_bps := bps\<rparr>)\<rparr>\<rparr>"
    by (auto simp: set_taker_fee_def run_simps save_def)
  with gov show ?thesis by (auto simp: governed_def)
next
  case (gov_pause pks)
  then have "\<exists>st. w' = w\<lparr>w_spot := st\<rparr> \<and> ss_configs st = ss_configs (w_spot w)"
    by (auto simp: pause_market_def run_simps)
  then show ?thesis using governed_spot [OF gov] by blast
next
  case (gov_unpause pks)
  then have "\<exists>st. w' = w\<lparr>w_spot := st\<rparr> \<and> ss_configs st = ss_configs (w_spot w)"
    by (auto simp: unpause_market_def run_simps)
  then show ?thesis using governed_spot [OF gov] by blast
next
  case (gov_trade m e st')
  then show ?thesis using governed_spot [OF gov] spot_step_configs [OF gov_trade(2)] by simp
qed

lemma protocol_start_governed: "protocol_start rt w \<Longrightarrow> governed rt w"
  by (auto simp: protocol_start_def initialize_protocol_def governed_def run_simps Let_def
      MAX_TAKER_FEE_BPS_def)

interpretation governance: transition_invariant "protocol_start rt" "gov_step rt" "governed rt" for rt
  by unfold_locales (auto intro: protocol_start_governed gov_step_governed)

section \<open>Properties\<close>

text \<open>From initialization on, whatever sequence of governance, pause and trading instructions
  runs, the configuration exists, its super admin holds an active admin record, and the taker
  rate stays within the cap; so the fee of any match is computable and no match can fail for its
  rate.\<close>

theorem protocol_stays_governed:
  assumes "reach (protocol_start rt) (gov_step rt) w"
  shows "governed rt w \<and>
    (\<exists>c. ss_configs (w_spot w) (address rt ProtocolConfigPda) = Some c \<and>
       (\<forall>q. \<exists>f. calculate_taker_fee q (cfg_taker_fee_bps c) = Inr f))"
proof -
  have gov: "governed rt w" by (rule governance.reach_inv [OF assms])
  then obtain c where c: "ss_configs (w_spot w) (address rt ProtocolConfigPda) = Some c"
    and cap: "cfg_taker_fee_bps c \<le> MAX_TAKER_FEE_BPS" by (auto simp: governed_def)
  have "\<exists>f. calculate_taker_fee q (cfg_taker_fee_bps c) = Inr f" for q
    using calculate_taker_fee_value [of "cfg_taker_fee_bps c" q] cap by (auto simp: fee_cap_iff)
  with gov c show ?thesis by blast
qed

text \<open>Only the super admin governs, and nobody demotes the super admin. Each admin and fee
  instruction succeeds only for the signer recorded as super admin; disabling, enabling and
  removing never target that super admin; and the recorded super admin never changes.\<close>

theorem only_super_admin_governs:
  assumes c: "ss_configs (w_spot w) (address rt ProtocolConfigPda) = Some c"
  shows "(add_admin rt w ks a = Inr w' \<longrightarrow> aa_super_admin ks = cfg_super_admin c) \<and>
    (disable_admin rt w mks t = Inr w' \<or> enable_admin rt w mks t = Inr w' \<or> remove_admin rt w mks t = Inr w' \<longrightarrow>
       ma_super_admin mks = cfg_super_admin c \<and> t \<noteq> cfg_super_admin c) \<and>
    (set_taker_fee rt w fks bps = Inr w' \<longrightarrow> sf_super_admin fks = cfg_super_admin c) \<and>
    (gov_step rt w w' \<longrightarrow> (\<exists>c'. ss_configs (w_spot w') (address rt ProtocolConfigPda) = Some c' \<and>
       cfg_super_admin c' = cfg_super_admin c))"
proof (intro conjI impI)
  show "aa_super_admin ks = cfg_super_admin c" if "add_admin rt w ks a = Inr w'"
    using that c by (auto simp: add_admin_def run_simps)
  show "ma_super_admin mks = cfg_super_admin c" "t \<noteq> cfg_super_admin c"
    if "disable_admin rt w mks t = Inr w' \<or> enable_admin rt w mks t = Inr w' \<or> remove_admin rt w mks t = Inr w'"
    using that c
    by (auto simp: disable_admin_def enable_admin_def remove_admin_def load_target_admin_Inr)
  show "sf_super_admin fks = cfg_super_admin c" if "set_taker_fee rt w fks bps = Inr w'"
    using that c by (auto simp: set_taker_fee_def run_simps)
  assume "gov_step rt w w'"
  then show "\<exists>c'. ss_configs (w_spot w') (address rt ProtocolConfigPda) = Some c' \<and>
      cfg_super_admin c' = cfg_super_admin c"
  proof cases
    case (gov_trade m e st')
    then show ?thesis using c spot_step_configs [OF gov_trade(2)] by simp
  qed (use c in \<open>auto simp: add_admin_def disable_admin_def enable_admin_def remove_admin_def
        set_taker_fee_def pause_market_def unpause_market_def require_Inr load_Inr Let_def
        load_super_admin_Inr load_target_admin_Inr save_def\<close>)
qed

text \<open>The admin lifecycle. In one governance step the record at any address is unchanged, or it
  is created active, disabled while active, enabled while disabled, or removed while disabled: an
  active admin is never removed in one step.\<close>

theorem admin_lifecycle:
  assumes "gov_step rt w w'"
  shows "w_admins w' k = w_admins w k \<or>
    (case (w_admins w k, w_admins w' k) of
       (None, Some b) \<Rightarrow> adm_status b = AdminActive
     | (Some a, Some b) \<Rightarrow> adm_status a \<noteq> adm_status b \<and> adm_authority b = adm_authority a
     | (Some a, None) \<Rightarrow> adm_status a = AdminDisabledStatus
     | (None, None) \<Rightarrow> True)"
  using assms
proof cases
  case (gov_trade m e st')
  then show ?thesis by simp
qed (auto simp: add_admin_def disable_admin_def enable_admin_def remove_admin_def
      set_taker_fee_def pause_market_def unpause_market_def require_Inr load_Inr Let_def
      load_super_admin_Inr load_target_admin_Inr save_def)

section \<open>What a pause does to trading\<close>

definition with_status :: "pubkey \<Rightarrow> MarketStatus \<Rightarrow> spot_store \<Rightarrow> spot_store" where
  "with_status m s st = st\<lparr>ss_markets := mod_at (ss_markets st) m (\<lambda>mk. mk\<lparr>mkt_status := s\<rparr>)\<rparr>"

definition res_map :: "('a \<Rightarrow> 'b) \<Rightarrow> 'a res \<Rightarrow> 'b res" where
  "res_map f = map_sum id f"

lemma res_map_push:
  "res_map f (Inl e) = Inl e" "res_map f (Inr y) = Inr (f y)"
  "res_map f (require b e rk) = require b e (res_map f rk)"
  "res_map f (ok_or x e g) = ok_or x e (\<lambda>a. res_map f (g a))"
  "res_map f (try_in r h) = try_in r (\<lambda>a. res_map f (h a))"
  "res_map f (load m j l) = load m j (\<lambda>a. res_map f (l a))"
  "res_map f (load_opt mo ko lo) = load_opt mo ko (\<lambda>a. res_map f (lo a))"
  "res_map f (case p of (u, v) \<Rightarrow> pr u v) = (case p of (u, v) \<Rightarrow> res_map f (pr u v))"
  by (auto simp: res_map_def require_def ok_or_def try_in_def load_def load_opt_def
      split: option.splits sum.splits prod.splits)

lemma try_in_res_map: "try_in (res_map f r) h = try_in r (\<lambda>a. h (f a))"
  by (auto simp: res_map_def try_in_def split: sum.splits)

definition acc_status :: "MarketStatus \<Rightarrow> CancelLimitOrder \<Rightarrow> CancelLimitOrder" where
  "acc_status s acc = acc\<lparr>clo_market := upd_inner (\<lambda>mk. mk\<lparr>mkt_status := s\<rparr>) (clo_market acc)\<rparr>"

lemma market_best_status [simp]:
  "market_best (mk\<lparr>mkt_status := s\<rparr>) sd = market_best mk sd"
  "set_market_best (mk\<lparr>mkt_status := s\<rparr>) sd p = (set_market_best mk sd p)\<lparr>mkt_status := s\<rparr>"
  by (cases sd; simp)+

lemma check_removed_level_status: "check_removed_level rt (acc_status s acc) tot = check_removed_level rt acc tot"
  by (simp add: check_removed_level_def acc_status_def Let_def)

lemma check_queue_neighbors_status: "check_queue_neighbors (acc_status s acc) = check_queue_neighbors acc"
  by (simp add: check_queue_neighbors_def acc_status_def Let_def)

lemma commit_cancel_status:
  "commit_cancel (acc_status s acc) f l n c t = acc_status s (commit_cancel acc f l n c t)"
  by (simp add: commit_cancel_def acc_status_def upd_inner_def Let_def)

lemma handle_cancel_status:
  "handle_cancel_limit_order rt (acc_status s acc) = res_map (acc_status s) (handle_cancel_limit_order rt acc)"
proof -
  have reads: "clo_order (acc_status s acc) = clo_order acc" "clo_price_level (acc_status s acc) = clo_price_level acc"
    "clo_trader_balance (acc_status s acc) = clo_trader_balance acc" "key (clo_market (acc_status s acc)) = key (clo_market acc)"
    "clo_better_level (acc_status s acc) = clo_better_level acc" "clo_worse_level (acc_status s acc) = clo_worse_level acc"
    "clo_level_rent_recipient (acc_status s acc) = clo_level_rent_recipient acc"
    "mkt_open_order_count (inner (clo_market (acc_status s acc))) = mkt_open_order_count (inner (clo_market acc))"
    by (simp_all add: acc_status_def)
  show ?thesis
    unfolding handle_cancel_limit_order_def Let_def reads check_queue_neighbors_status
      check_removed_level_status commit_cancel_status
    by (simp add: res_map_push)
qed

lemma load_status:
  "load (ss_markets (with_status m s st)) m l =
     load (ss_markets st) m (\<lambda>a. l (upd_inner (\<lambda>mk. mk\<lparr>mkt_status := s\<rparr>) a))"
  by (simp add: with_status_def load_def mod_at_apply ok_or_def upd_inner_def split: option.splits)

lemma cancel_with_status:
  "res_map (\<lambda>_. ()) (cancel_limit_order rt (with_status (clk_market ks) s st) ks i) =
     res_map (\<lambda>_. ()) (cancel_limit_order rt st ks i)"
proof -
  have acc: "\<lparr>clo_owner = a, clo_market = upd_inner (\<lambda>mk. mk\<lparr>mkt_status := s\<rparr>) mk, clo_order = b,
      clo_price_level = c, clo_previous_order = d, clo_next_order = e, clo_better_level = f,
      clo_worse_level = g, clo_level_rent_recipient = h, clo_trader_balance = j, clo_level_closed = l\<rparr> =
    acc_status s \<lparr>clo_owner = a, clo_market = mk, clo_order = b,
      clo_price_level = c, clo_previous_order = d, clo_next_order = e, clo_better_level = f,
      clo_worse_level = g, clo_level_rent_recipient = h, clo_trader_balance = j, clo_level_closed = l\<rparr>"
    for a mk b c d e f g h j l by (simp add: acc_status_def)
  have stores: "ss_orders (with_status m s st) = ss_orders st" "ss_levels (with_status m s st) = ss_levels st"
    "ss_balances (with_status m s st) = ss_balances st" for m
    by (simp_all add: with_status_def)
  show ?thesis
    unfolding cancel_limit_order_def load_status stores
    by (simp add: res_map_push acc handle_cancel_status try_in_res_map)
qed

end
