(* ===== verification/Custody.thy ===== *)
theory Custody
  imports World Spot_Ledger Governance
begin

text \<open>
  The life of a spot market's vaults: \<open>initialize.rs\<close>, \<open>initialize_trader_balance.rs\<close>,
  \<open>deposit.rs\<close>, \<open>withdraw.rs\<close>, \<open>withdraw_protocol_fees.rs\<close> and \<open>close.rs\<close>, each as the whole
  instruction on the accounts, with the SPL token program as a parameter. The vaults stay
  solvent: they always hold at least the claims of all traders and of the protocol.
\<close>

section \<open>Creating a market and a ledger\<close>

record InitializeMarket =
  im_authority :: pubkey
  im_admin_record :: pubkey
  im_market :: pubkey
  im_market_fees :: pubkey
  im_base_mint :: pubkey
  im_quote_mint :: pubkey
  im_vault_authority :: pubkey
  im_base_vault :: pubkey
  im_quote_vault :: pubkey

text \<open>The account Anchor's \<open>init, token::mint, token::authority\<close> creates.\<close>

definition new_token_account :: "pubkey \<Rightarrow> pubkey \<Rightarrow> TokenAccount" where
  "new_token_account mint authority = \<lparr>ta_mint = mint, ta_owner = authority, ta_amount = 0, ta_frozen = False\<rparr>"

definition initialize_market ::
  "runtime \<Rightarrow> world \<Rightarrow> InitializeMarket \<Rightarrow> u64 \<Rightarrow> u64 \<Rightarrow> world res" where
  "initialize_market rt w ks price_tick_size quantity_lot_size =
     (let st = w_spot w; m = im_market ks in
      load (w_admins w) (im_admin_record ks) (\<lambda>admin_record.
      require (key admin_record = address rt (AdminPda (im_authority ks))) ConstraintSeeds
      (require (adm_authority (inner admin_record) = im_authority ks) UnauthorizedAdmin
      (require (adm_status (inner admin_record) = AdminActive) AdminDisabled
      (require (m = address rt (MarketPda (im_base_mint ks) (im_quote_mint ks))) ConstraintSeeds
      (require (ss_markets st m = None) AccountAlreadyInUse
      (require (im_market_fees ks = address rt (MarketFeesPda m)) ConstraintSeeds
      (require (ss_fees st (im_market_fees ks) = None) AccountAlreadyInUse
      (load (w_mints w) (im_base_mint ks) (\<lambda>base_mint.
      load (w_mints w) (im_quote_mint ks) (\<lambda>quote_mint.
      require (key base_mint \<noteq> key quote_mint) IdenticalMints
      (require (im_vault_authority ks = address rt (VaultAuthorityPda m)) ConstraintSeeds
      (require (im_base_vault ks = vault rt m (key base_mint)) ConstraintSeeds
      (require (w_tokens w (im_base_vault ks) = None) AccountAlreadyInUse
      (require (im_quote_vault ks = vault rt m (key quote_mint)) ConstraintSeeds
      (require (w_tokens w (im_quote_vault ks) = None \<and> im_quote_vault ks \<noteq> im_base_vault ks)
        AccountAlreadyInUse
      (require (price_tick_size > 0) InvalidPriceTickSize
      (require (quantity_lot_size > 0) InvalidQuantityLotSize
      (Inr (w\<lparr>
         w_spot := st\<lparr>
           ss_markets := (ss_markets st)(m \<mapsto>
             \<lparr>mkt_authority = im_authority ks, mkt_base_mint = key base_mint,
              mkt_quote_mint = key quote_mint, mkt_status = MarketActive, mkt_next_order_id = 1,
              mkt_base_decimals = mint_decimals (inner base_mint),
              mkt_quote_decimals = mint_decimals (inner quote_mint),
              mkt_price_tick_size = price_tick_size, mkt_quantity_lot_size = quantity_lot_size,
              mkt_best_bid = None, mkt_best_ask = None, mkt_open_order_count = 0,
              mkt_bump = snd (pda rt (MarketPda (im_base_mint ks) (im_quote_mint ks)))\<rparr>),
           ss_fees := (ss_fees st)(im_market_fees ks \<mapsto>
             \<lparr>mf_market = m, mf_quote_mint = key quote_mint, mf_accrued_quote_fees = 0,
              mf_bump = snd (pda rt (MarketFeesPda m))\<rparr>)\<rparr>,
         w_tokens := (w_tokens w)
           (im_base_vault ks \<mapsto> new_token_account (key base_mint) (im_vault_authority ks),
            im_quote_vault ks \<mapsto> new_token_account (key quote_mint) (im_vault_authority ks))\<rparr>
        ))))))))))))))))))))"

record InitializeTraderBalance =
  itb_owner :: pubkey
  itb_market :: pubkey
  itb_trader_balance :: pubkey

definition initialize_trader_balance ::
  "runtime \<Rightarrow> world \<Rightarrow> InitializeTraderBalance \<Rightarrow> world res" where
  "initialize_trader_balance rt w ks =
     load (ss_markets (w_spot w)) (itb_market ks) (\<lambda>market.
     require (itb_trader_balance ks = address rt (TraderBalancePda (key market) (itb_owner ks)))
       ConstraintSeeds
     (require (ss_balances (w_spot w) (itb_trader_balance ks) = None) AccountAlreadyInUse
     (Inr (w\<lparr>w_spot := (w_spot w)\<lparr>ss_balances := (ss_balances (w_spot w))(itb_trader_balance ks \<mapsto>
        \<lparr>tb_market = key market, tb_owner = itb_owner ks, tb_base_free = 0, tb_base_locked = 0,
         tb_quote_free = 0, tb_quote_locked = 0,
         tb_bump = snd (pda rt (TraderBalancePda (key market) (itb_owner ks)))\<rparr>)\<rparr>\<rparr>))))"

section \<open>Deposits and withdrawals\<close>

record Deposit =
  dep_owner :: pubkey
  dep_market :: pubkey
  dep_trader_balance :: pubkey
  dep_deposit_mint :: pubkey
  dep_trader_token_account :: pubkey
  dep_vault_authority :: pubkey
  dep_market_vault :: pubkey

text \<open>The free bucket a mint selects, and its update.\<close>

definition credit_free :: "Market \<Rightarrow> pubkey \<Rightarrow> TraderBalance \<Rightarrow> u64 \<Rightarrow> u64 res" where
  "credit_free market mint b amount =
     (if mint = mkt_base_mint market then ok_or (checked_add (tb_base_free b) amount) FreeBalanceOverflow Inr
      else if mint = mkt_quote_mint market
      then ok_or (checked_add (tb_quote_free b) amount) FreeBalanceOverflow Inr
      else Inl InvalidDepositMint)"

definition debit_free :: "Market \<Rightarrow> pubkey \<Rightarrow> TraderBalance \<Rightarrow> u64 \<Rightarrow> u64 res" where
  "debit_free market mint b amount =
     (if mint = mkt_base_mint market
      then ok_or (checked_sub (tb_base_free b) amount) InsufficientFreeBalance Inr
      else if mint = mkt_quote_mint market
      then ok_or (checked_sub (tb_quote_free b) amount) InsufficientFreeBalance Inr
      else Inl InvalidWithdrawalMint)"

definition set_free :: "Market \<Rightarrow> pubkey \<Rightarrow> u64 \<Rightarrow> TraderBalance \<Rightarrow> TraderBalance" where
  "set_free market mint free b =
     (if mint = mkt_base_mint market then b\<lparr>tb_base_free := free\<rparr> else b\<lparr>tb_quote_free := free\<rparr>)"

definition deposit ::
  "runtime \<Rightarrow> token_program \<Rightarrow> world \<Rightarrow> Deposit \<Rightarrow> u64 \<Rightarrow> world res" where
  "deposit rt tp w ks amount =
     load (ss_markets (w_spot w)) (dep_market ks) (\<lambda>market.
     load (ss_balances (w_spot w)) (dep_trader_balance ks) (\<lambda>trader_balance.
     require (key trader_balance = address rt (TraderBalancePda (key market) (dep_owner ks)))
       ConstraintSeeds
     (require (tb_market (inner trader_balance) = key market) TraderBalanceMarketMismatch
     (require (tb_owner (inner trader_balance) = dep_owner ks) TraderBalanceOwnerMismatch
     (load (w_mints w) (dep_deposit_mint ks) (\<lambda>deposit_mint.
     load (w_tokens w) (dep_trader_token_account ks) (\<lambda>trader_token_account.
     require (ta_owner (inner trader_token_account) = dep_owner ks) TraderBalanceOwnerMismatch
     (require (ta_mint (inner trader_token_account) = key deposit_mint) InvalidDepositMint
     (require (dep_vault_authority ks = address rt (VaultAuthorityPda (key market))) ConstraintSeeds
     (load (w_tokens w) (dep_market_vault ks) (\<lambda>market_vault.
     require (key market_vault = vault rt (key market) (key deposit_mint)) ConstraintSeeds
     (require (ta_mint (inner market_vault) = key deposit_mint) ConstraintTokenMint
     (require (ta_owner (inner market_vault) = dep_vault_authority ks) ConstraintTokenOwner
     (require (key trader_token_account \<noteq> key market_vault) ConstraintDuplicateMutableAccount
     (require (amount > 0) InvalidDepositAmount
     (require (ta_amount (inner trader_token_account) \<ge> amount) InsufficientDepositFunds
     (let mint = key deposit_mint in
      try_in (credit_free (inner market) mint (inner trader_balance) amount) (\<lambda>next_free_balance.
      try_in (transfer_checked tp (w_mints w) (w_tokens w) (key trader_token_account) mint (key market_vault)
          (dep_owner ks) amount (mint_decimals (inner deposit_mint))) (\<lambda>tokens'.
      Inr (w\<lparr>
        w_spot := (w_spot w)\<lparr>ss_balances :=
          save (upd_inner (set_free (inner market) mint next_free_balance) trader_balance)
            (ss_balances (w_spot w))\<rparr>,
        w_tokens := tokens'\<rparr>))))))))))))))))))))"

record Withdraw =
  wd_owner :: pubkey
  wd_market :: pubkey
  wd_trader_balance :: pubkey
  wd_withdrawal_mint :: pubkey
  wd_owner_token_account :: pubkey
  wd_vault_authority :: pubkey
  wd_market_vault :: pubkey

definition withdraw ::
  "runtime \<Rightarrow> token_program \<Rightarrow> world \<Rightarrow> Withdraw \<Rightarrow> u64 \<Rightarrow> world res" where
  "withdraw rt tp w ks amount =
     load (ss_markets (w_spot w)) (wd_market ks) (\<lambda>market.
     load (ss_balances (w_spot w)) (wd_trader_balance ks) (\<lambda>trader_balance.
     require (key trader_balance = address rt (TraderBalancePda (key market) (wd_owner ks)))
       ConstraintSeeds
     (require (tb_market (inner trader_balance) = key market) TraderBalanceMarketMismatch
     (require (tb_owner (inner trader_balance) = wd_owner ks) TraderBalanceOwnerMismatch
     (load (w_mints w) (wd_withdrawal_mint ks) (\<lambda>withdrawal_mint.
     load (w_tokens w) (wd_owner_token_account ks) (\<lambda>owner_token_account.
     require (ta_owner (inner owner_token_account) = wd_owner ks) InvalidWithdrawalDestinationOwner
     (require (ta_mint (inner owner_token_account) = key withdrawal_mint) InvalidWithdrawalMint
     (require (wd_vault_authority ks = address rt (VaultAuthorityPda (key market))) ConstraintSeeds
     (load (w_tokens w) (wd_market_vault ks) (\<lambda>market_vault.
     require (key market_vault = vault rt (key market) (key withdrawal_mint)) ConstraintSeeds
     (require (ta_mint (inner market_vault) = key withdrawal_mint) ConstraintTokenMint
     (require (ta_owner (inner market_vault) = wd_vault_authority ks) ConstraintTokenOwner
     (require (key owner_token_account \<noteq> key market_vault) ConstraintDuplicateMutableAccount
     (require (amount > 0) InvalidWithdrawalAmount
     (let mint = key withdrawal_mint in
      try_in (debit_free (inner market) mint (inner trader_balance) amount) (\<lambda>next_free_balance.
      require (ta_amount (inner market_vault) \<ge> amount) InsufficientVaultFunds
      (try_in (transfer_checked tp (w_mints w) (w_tokens w) (key market_vault) mint (key owner_token_account)
          (wd_vault_authority ks) amount (mint_decimals (inner withdrawal_mint))) (\<lambda>tokens'.
      Inr (w\<lparr>
        w_spot := (w_spot w)\<lparr>ss_balances :=
          save (upd_inner (set_free (inner market) mint next_free_balance) trader_balance)
            (ss_balances (w_spot w))\<rparr>,
        w_tokens := tokens'\<rparr>))))))))))))))))))))"

record WithdrawProtocolFees =
  wpf_super_admin :: pubkey
  wpf_protocol_config :: pubkey
  wpf_market :: pubkey
  wpf_market_fees :: pubkey
  wpf_quote_mint :: pubkey
  wpf_destination_quote_account :: pubkey
  wpf_vault_authority :: pubkey
  wpf_quote_vault :: pubkey

definition withdraw_protocol_fees ::
  "runtime \<Rightarrow> token_program \<Rightarrow> world \<Rightarrow> WithdrawProtocolFees \<Rightarrow> u64 \<Rightarrow> world res" where
  "withdraw_protocol_fees rt tp w ks amount =
     load (ss_configs (w_spot w)) (wpf_protocol_config ks) (\<lambda>protocol_config.
     require (key protocol_config = address rt ProtocolConfigPda) ConstraintSeeds
     (require (cfg_super_admin (inner protocol_config) = wpf_super_admin ks) UnauthorizedSuperAdmin
     (load (ss_markets (w_spot w)) (wpf_market ks) (\<lambda>market.
     require (key market = address rt (MarketPda (mkt_base_mint (inner market))
        (mkt_quote_mint (inner market)))) ConstraintSeeds
     (load (ss_fees (w_spot w)) (wpf_market_fees ks) (\<lambda>market_fees.
     require (key market_fees = address rt (MarketFeesPda (key market))) ConstraintSeeds
     (require (mf_market (inner market_fees) = key market) MarketFeesMarketMismatch
     (require (mf_quote_mint (inner market_fees) = mkt_quote_mint (inner market))
       MarketFeesQuoteMintMismatch
     (load (w_mints w) (wpf_quote_mint ks) (\<lambda>quote_mint.
     require (key quote_mint = mkt_quote_mint (inner market)) InvalidFeeDestinationMint
     (load (w_tokens w) (wpf_destination_quote_account ks) (\<lambda>destination.
     require (ta_mint (inner destination) = key quote_mint) InvalidFeeDestinationMint
     (require (wpf_vault_authority ks = address rt (VaultAuthorityPda (key market))) ConstraintSeeds
     (load (w_tokens w) (wpf_quote_vault ks) (\<lambda>quote_vault.
     require (key quote_vault = vault rt (key market) (key quote_mint)) ConstraintSeeds
     (require (ta_mint (inner quote_vault) = key quote_mint) ConstraintTokenMint
     (require (ta_owner (inner quote_vault) = wpf_vault_authority ks) ConstraintTokenOwner
     (require (key destination \<noteq> key quote_vault) ConstraintDuplicateMutableAccount
     (require (amount > 0) InvalidFeeWithdrawalAmount
     (ok_or (checked_sub (mf_accrued_quote_fees (inner market_fees)) amount) InsufficientAccruedFees
       (\<lambda>next_accrued_quote_fees.
      require (ta_amount (inner quote_vault) \<ge> amount) InsufficientVaultFunds
      (try_in (transfer_checked tp (w_mints w) (w_tokens w) (key quote_vault) (key quote_mint) (key destination)
          (wpf_vault_authority ks) amount (mint_decimals (inner quote_mint))) (\<lambda>tokens'.
      Inr (w\<lparr>
        w_spot := (w_spot w)\<lparr>ss_fees :=
          save (upd_inner (\<lambda>f. f\<lparr>mf_accrued_quote_fees := next_accrued_quote_fees\<rparr>) market_fees)
            (ss_fees (w_spot w))\<rparr>,
        w_tokens := tokens'\<rparr>))))))))))))))))))))))))"

section \<open>Closing a market\<close>

record CloseMarket =
  cm_authority :: pubkey
  cm_market :: pubkey
  cm_market_fees :: pubkey
  cm_test_faucet :: pubkey
  cm_vault_authority :: pubkey
  cm_base_vault :: pubkey
  cm_quote_vault :: pubkey
  cm_shared_book :: pubkey

definition close_market :: "runtime \<Rightarrow> token_program \<Rightarrow> world \<Rightarrow> CloseMarket \<Rightarrow> world res" where
  "close_market rt tp w ks =
     load (ss_markets (w_spot w)) (cm_market ks) (\<lambda>market.
     require (mkt_authority (inner market) = cm_authority ks) ConstraintHasOne
     (require (mkt_status (inner market) = MarketPausedStatus) MarketMustBePaused
     (load (ss_fees (w_spot w)) (cm_market_fees ks) (\<lambda>market_fees.
     require (key market_fees = address rt (MarketFeesPda (key market))) ConstraintSeeds
     (require (mf_market (inner market_fees) = key market) MarketFeesMarketMismatch
     (require (mf_quote_mint (inner market_fees) = mkt_quote_mint (inner market))
       MarketFeesQuoteMintMismatch
     (require (cm_test_faucet ks = address rt (TestFaucetPda (key market))) ConstraintSeeds
     (require (cm_vault_authority ks = address rt (VaultAuthorityPda (key market))) ConstraintSeeds
     (load (w_tokens w) (cm_base_vault ks) (\<lambda>base_vault.
     require (key base_vault = vault rt (key market) (mkt_base_mint (inner market))) ConstraintSeeds
     (require (ta_mint (inner base_vault) = mkt_base_mint (inner market)) InvalidCollateralMint
     (require (ta_owner (inner base_vault) = cm_vault_authority ks) InvalidVaultAuthority
     (load (w_tokens w) (cm_quote_vault ks) (\<lambda>quote_vault.
     require (key quote_vault = vault rt (key market) (mkt_quote_mint (inner market))) ConstraintSeeds
     (require (ta_mint (inner quote_vault) = mkt_quote_mint (inner market)) InvalidCollateralMint
     (require (ta_owner (inner quote_vault) = cm_vault_authority ks) InvalidVaultAuthority
     (require (key base_vault \<noteq> key quote_vault) ConstraintDuplicateMutableAccount
     (require (cm_shared_book ks = address rt (SharedBookPda (key market))) ConstraintSeeds
     (require (mkt_open_order_count (inner market) = 0) MarketHasOpenOrders
     (require (mf_accrued_quote_fees (inner market_fees) = 0) MarketFeesNotEmpty
     (require (ta_amount (inner base_vault) = 0 \<and> ta_amount (inner quote_vault) = 0)
       MarketVaultNotEmpty
     (require (w_faucets w (cm_test_faucet ks) = None) FaucetMustBeClosed
     (require (w_shared_books w (cm_shared_book ks) = None) SharedBookMustBeClosed
     (try_in (close_token_account tp (w_tokens w) (key base_vault) (cm_authority ks)
        (cm_vault_authority ks)) (\<lambda>tokens'.
      try_in (close_token_account tp tokens' (key quote_vault) (cm_authority ks)
        (cm_vault_authority ks)) (\<lambda>tokens''.
      Inr (w\<lparr>
        w_spot := (w_spot w)\<lparr>
          ss_markets := (ss_markets (w_spot w))(key market := None),
          ss_fees := (ss_fees (w_spot w))(key market_fees := None)\<rparr>,
        w_tokens := tokens''\<rparr>)))))))))))))))))))))))))))"

section \<open>Solvency\<close>

text \<open>A vault account that belongs to its authority and holds at least \<open>n\<close> atoms.\<close>

definition holds :: "tokens \<Rightarrow> pubkey \<Rightarrow> pubkey \<Rightarrow> nat \<Rightarrow> bool" where
  "holds ts k auth n \<longleftrightarrow> (\<exists>a. ts k = Some a \<and> ta_owner a = auth \<and> n \<le> unat (ta_amount a))"

lemma transfer_lawD:
  assumes "transfer_law tp" "transfer_checked tp ms ts from mint to auth amt dec = Inr ts'" "from \<noteq> to"
  obtains a b where "ts from = Some a" "ts to = Some b"
    "unat amt \<le> unat (ta_amount a)" "unat (ta_amount b + amt) = unat (ta_amount b) + unat amt"
    "ts' = ts(from \<mapsto> a\<lparr>ta_amount := ta_amount a - amt\<rparr>, to \<mapsto> b\<lparr>ta_amount := ta_amount b + amt\<rparr>)"
proof -
  obtain a b where ab: "ts from = Some a" "ts to = Some b"
    "unat amt \<le> unat (ta_amount a)" "unat (ta_amount b) + unat amt < 2 ^ 64"
    "ts' = ts(from \<mapsto> a\<lparr>ta_amount := ta_amount a - amt\<rparr>, to \<mapsto> b\<lparr>ta_amount := ta_amount b + amt\<rparr>)"
    using assms unfolding transfer_law_def by blast
  moreover have "unat (ta_amount b + amt) = unat (ta_amount b) + unat amt"
    using ab(4) by (subst unat_add_lem [THEN iffD1]) simp_all
  ultimately show thesis using that by blast
qed

lemma holds_receive:
  assumes "transfer_law tp" "transfer_checked tp ms ts from mint k auth amt dec = Inr ts'" "from \<noteq> k"
    and "holds ts k own n"
  shows "holds ts' k own (n + unat amt)"
  by (rule transfer_lawD [OF assms(1-3)]) (use assms(4) in \<open>auto simp: holds_def\<close>)

lemma holds_pay:
  assumes "transfer_law tp" "transfer_checked tp ms ts k mint to auth amt dec = Inr ts'" "k \<noteq> to"
    and "holds ts k own (n + unat amt)"
  shows "holds ts' k own n"
  by (rule transfer_lawD [OF assms(1-3)])
    (use assms(3,4) in \<open>auto simp: holds_def unat_sub word_le_nat_alt\<close>)

lemma holds_keep:
  assumes "transfer_law tp" "transfer_checked tp ms ts from mint to auth amt dec = Inr ts'" "from \<noteq> to"
    and "k \<noteq> from" "holds ts k own n"
  shows "holds ts' k own n"
  by (rule transfer_lawD [OF assms(1-3)]) (use assms(4,5) in \<open>auto simp: holds_def\<close>)

definition solvent :: "runtime \<Rightarrow> pubkey \<Rightarrow> world \<Rightarrow> bool" where
  "solvent rt m w \<longleftrightarrow>
     finite (dom (ss_balances (w_spot w))) \<and>
     (\<exists>mk. ss_markets (w_spot w) m = Some mk \<and>
        vault rt m (mkt_base_mint mk) \<noteq> vault rt m (mkt_quote_mint mk) \<and>
        holds (w_tokens w) (vault rt m (mkt_base_mint mk)) (address rt (VaultAuthorityPda m))
          (total_base m (w_spot w)) \<and>
        holds (w_tokens w) (vault rt m (mkt_quote_mint mk)) (address rt (VaultAuthorityPda m))
          (total_quote m (w_spot w) + accrued_fees rt m (w_spot w)))"

text \<open>Everything else that may happen between two instructions on this market: other programs and
  other markets act, but this market's ledgers, fee record and mints stay, and nobody else can
  sign for its vault authority.\<close>

definition outside :: "runtime \<Rightarrow> pubkey \<Rightarrow> world \<Rightarrow> world \<Rightarrow> bool" where
  "outside rt m w w' \<longleftrightarrow>
     finite (dom (ss_balances (w_spot w'))) \<and>
     (\<forall>k b. tb_market b = m \<longrightarrow>
        (ss_balances (w_spot w') k = Some b \<longleftrightarrow> ss_balances (w_spot w) k = Some b)) \<and>
     ss_fees (w_spot w') (address rt (MarketFeesPda m)) = ss_fees (w_spot w) (address rt (MarketFeesPda m)) \<and>
     map_option mkt_base_mint (ss_markets (w_spot w') m) = map_option mkt_base_mint (ss_markets (w_spot w) m) \<and>
     map_option mkt_quote_mint (ss_markets (w_spot w') m) = map_option mkt_quote_mint (ss_markets (w_spot w) m) \<and>
     (\<forall>mint n. holds (w_tokens w) (vault rt m mint) (address rt (VaultAuthorityPda m)) n \<longrightarrow>
        holds (w_tokens w') (vault rt m mint) (address rt (VaultAuthorityPda m)) n)"

text \<open>A signer is never a program address: \<open>dep_owner\<close> signs, so it is not the vault authority.\<close>

inductive custody_step :: "runtime \<Rightarrow> token_program \<Rightarrow> pubkey \<Rightarrow> world \<Rightarrow> world \<Rightarrow> bool"
  for rt tp m where
  cs_trade: "spot_step rt m (w_spot w) e st' \<Longrightarrow> custody_step rt tp m w (w\<lparr>w_spot := st'\<rparr>)"
| cs_ledger: "initialize_trader_balance rt w iks = Inr w' \<Longrightarrow> itb_market iks = m \<Longrightarrow>
    custody_step rt tp m w w'"
| cs_deposit: "deposit rt tp w dks amount = Inr w' \<Longrightarrow> dep_market dks = m \<Longrightarrow>
    dep_owner dks \<noteq> address rt (VaultAuthorityPda m) \<Longrightarrow> custody_step rt tp m w w'"
| cs_withdraw: "withdraw rt tp w wks amount = Inr w' \<Longrightarrow> wd_market wks = m \<Longrightarrow> custody_step rt tp m w w'"
| cs_fees: "withdraw_protocol_fees rt tp w fks amount = Inr w' \<Longrightarrow> wpf_market fks = m \<Longrightarrow>
    custody_step rt tp m w w'"
| cs_outside: "outside rt m w w' \<Longrightarrow> custody_step rt tp m w w'"

section \<open>What a successful instruction did\<close>

lemma credit_free_Inr [run_simps]:
  "credit_free mk mint b amount = Inr free \<longleftrightarrow>
     (mint = mkt_base_mint mk \<and> unat free = unat (tb_base_free b) + unat amount) \<or>
     (mint \<noteq> mkt_base_mint mk \<and> mint = mkt_quote_mint mk \<and> unat free = unat (tb_quote_free b) + unat amount)"
  by (auto simp: credit_free_def ok_or_Inr)

lemma debit_free_Inr [run_simps]:
  "debit_free mk mint b amount = Inr free \<longleftrightarrow>
     (mint = mkt_base_mint mk \<and> unat (tb_base_free b) = unat amount + unat free) \<or>
     (mint \<noteq> mkt_base_mint mk \<and> mint = mkt_quote_mint mk \<and> unat (tb_quote_free b) = unat amount + unat free)"
  by (auto simp: debit_free_def ok_or_Inr)

definition put_balance :: "pubkey \<Rightarrow> TraderBalance \<Rightarrow> tokens \<Rightarrow> world \<Rightarrow> world" where
  "put_balance k b ts w =
     w\<lparr>w_spot := (w_spot w)\<lparr>ss_balances := (ss_balances (w_spot w))(k \<mapsto> b)\<rparr>, w_tokens := ts\<rparr>"

lemma put_balance_alt:
  "w\<lparr>w_spot := (w_spot w)\<lparr>ss_balances := save (upd_inner f (Account k b)) (ss_balances (w_spot w))\<rparr>,
     w_tokens := ts\<rparr> = put_balance k (f b) ts w"
  by (simp add: put_balance_def save_def)

lemma deposit_ok:
  assumes "deposit rt tp w ks amount = Inr w'"
  obtains mk b dm ta free ts where
    "ss_markets (w_spot w) (dep_market ks) = Some mk"
    "ss_balances (w_spot w) (dep_trader_balance ks) = Some b"
    "dep_trader_balance ks = address rt (TraderBalancePda (dep_market ks) (dep_owner ks))"
    "tb_market b = dep_market ks" "tb_owner b = dep_owner ks" "0 < amount" "w_mints w (dep_deposit_mint ks) = Some dm"
    "w_tokens w (dep_trader_token_account ks) = Some ta" "ta_owner ta = dep_owner ks"
    "dep_market_vault ks = vault rt (dep_market ks) (dep_deposit_mint ks)"
    "dep_trader_token_account ks \<noteq> dep_market_vault ks"
    "credit_free mk (dep_deposit_mint ks) b amount = Inr free"
    "transfer_checked tp (w_mints w) (w_tokens w) (dep_trader_token_account ks) (dep_deposit_mint ks)
       (dep_market_vault ks) (dep_owner ks) amount (mint_decimals dm) = Inr ts"
    "put_balance (dep_trader_balance ks) (set_free mk (dep_deposit_mint ks) free b) ts w = w'"
  using assms
  unfolding deposit_def load_Inr require_Inr try_in_Inr Let_def account.sel sum.inject put_balance_alt
  by (elim exE conjE) (rule that; assumption)

lemma withdraw_ok:
  assumes "withdraw rt tp w ks amount = Inr w'"
  obtains mk b dm ta free ts where
    "ss_markets (w_spot w) (wd_market ks) = Some mk"
    "ss_balances (w_spot w) (wd_trader_balance ks) = Some b"
    "wd_trader_balance ks = address rt (TraderBalancePda (wd_market ks) (wd_owner ks))"
    "tb_market b = wd_market ks" "tb_owner b = wd_owner ks" "0 < amount" "w_mints w (wd_withdrawal_mint ks) = Some dm"
    "w_tokens w (wd_owner_token_account ks) = Some ta" "ta_owner ta = wd_owner ks"
    "wd_vault_authority ks = address rt (VaultAuthorityPda (wd_market ks))"
    "wd_market_vault ks = vault rt (wd_market ks) (wd_withdrawal_mint ks)"
    "wd_owner_token_account ks \<noteq> wd_market_vault ks"
    "debit_free mk (wd_withdrawal_mint ks) b amount = Inr free"
    "transfer_checked tp (w_mints w) (w_tokens w) (wd_market_vault ks) (wd_withdrawal_mint ks)
       (wd_owner_token_account ks) (wd_vault_authority ks) amount (mint_decimals dm) = Inr ts"
    "put_balance (wd_trader_balance ks) (set_free mk (wd_withdrawal_mint ks) free b) ts w = w'"
  using assms
  unfolding withdraw_def load_Inr require_Inr try_in_Inr Let_def account.sel sum.inject put_balance_alt
  by (elim exE conjE) (rule that; assumption)

lemma withdraw_protocol_fees_ok:
  assumes "withdraw_protocol_fees rt tp w ks amount = Inr w'"
  obtains c mk f dm next_fees ts where
    "ss_configs (w_spot w) (wpf_protocol_config ks) = Some c"
    "wpf_protocol_config ks = address rt ProtocolConfigPda" "cfg_super_admin c = wpf_super_admin ks"
    "ss_markets (w_spot w) (wpf_market ks) = Some mk"
    "ss_fees (w_spot w) (wpf_market_fees ks) = Some f"
    "wpf_market_fees ks = address rt (MarketFeesPda (wpf_market ks))" "0 < amount"
    "w_mints w (wpf_quote_mint ks) = Some dm" "wpf_quote_mint ks = mkt_quote_mint mk"
    "wpf_vault_authority ks = address rt (VaultAuthorityPda (wpf_market ks))"
    "wpf_quote_vault ks = vault rt (wpf_market ks) (wpf_quote_mint ks)"
    "wpf_destination_quote_account ks \<noteq> wpf_quote_vault ks"
    "unat (mf_accrued_quote_fees f) = unat amount + unat next_fees"
    "transfer_checked tp (w_mints w) (w_tokens w) (wpf_quote_vault ks) (wpf_quote_mint ks)
       (wpf_destination_quote_account ks) (wpf_vault_authority ks) amount (mint_decimals dm) = Inr ts"
    "w\<lparr>w_spot := (w_spot w)\<lparr>ss_fees := save (upd_inner (\<lambda>f. f\<lparr>mf_accrued_quote_fees := next_fees\<rparr>)
        (Account (wpf_market_fees ks) f)) (ss_fees (w_spot w))\<rparr>, w_tokens := ts\<rparr> = w'"
  using assms
  unfolding withdraw_protocol_fees_def load_Inr require_Inr try_in_Inr ok_or_Inr Let_def account.sel
    sum.inject checked_sub_Some
  by (elim exE conjE) (rule that; assumption)

lemma close_market_ok:
  assumes "close_market rt tp w ks = Inr w'"
  obtains mk f bv qv ts ts' where
    "ss_markets (w_spot w) (cm_market ks) = Some mk" "mkt_authority mk = cm_authority ks"
    "mkt_status mk = MarketPausedStatus" "mkt_open_order_count mk = 0"
    "ss_fees (w_spot w) (cm_market_fees ks) = Some f"
    "cm_market_fees ks = address rt (MarketFeesPda (cm_market ks))" "mf_accrued_quote_fees f = 0"
    "w_tokens w (cm_base_vault ks) = Some bv" "cm_base_vault ks = vault rt (cm_market ks) (mkt_base_mint mk)"
    "w_tokens w (cm_quote_vault ks) = Some qv" "cm_quote_vault ks = vault rt (cm_market ks) (mkt_quote_mint mk)"
    "ta_amount bv = 0" "ta_amount qv = 0" "cm_base_vault ks \<noteq> cm_quote_vault ks"
    "close_token_account tp (w_tokens w) (cm_base_vault ks) (cm_authority ks) (cm_vault_authority ks) = Inr ts"
    "close_token_account tp ts (cm_quote_vault ks) (cm_authority ks) (cm_vault_authority ks) = Inr ts'"
    "w\<lparr>w_spot := (w_spot w)\<lparr>
        ss_markets := (ss_markets (w_spot w))(cm_market ks := None),
        ss_fees := (ss_fees (w_spot w))(cm_market_fees ks := None)\<rparr>, w_tokens := ts'\<rparr> = w'"
    "cm_test_faucet ks = address rt (TestFaucetPda (cm_market ks))" "w_faucets w (cm_test_faucet ks) = None"
    "cm_shared_book ks = address rt (SharedBookPda (cm_market ks))" "w_shared_books w (cm_shared_book ks) = None"
  using assms
  unfolding close_market_def load_Inr require_Inr try_in_Inr Let_def account.sel sum.inject
  by (elim exE conjE) (rule that; assumption)

section \<open>Every step keeps the vaults solvent\<close>

lemma credit_claims:
  assumes "credit_free mk mint b amount = Inr free"
  shows "base_claim (set_free mk mint free b) = base_claim b + (if mint = mkt_base_mint mk then unat amount else 0)"
    and "quote_claim (set_free mk mint free b) = quote_claim b + (if mint = mkt_base_mint mk then 0 else unat amount)"
  using assms by (auto simp: run_simps set_free_def base_claim_def quote_claim_def)

lemma debit_claims:
  assumes "debit_free mk mint b amount = Inr free"
  shows "base_claim b = base_claim (set_free mk mint free b) + (if mint = mkt_base_mint mk then unat amount else 0)"
    and "quote_claim b = quote_claim (set_free mk mint free b) + (if mint = mkt_base_mint mk then 0 else unat amount)"
  using assms by (auto simp: run_simps set_free_def base_claim_def quote_claim_def)

lemma set_free_sel [simp]:
  "tb_market (set_free mk mint free b) = tb_market b" "tb_owner (set_free mk mint free b) = tb_owner b"
  by (simp_all add: set_free_def)

lemma put_balance_sel [simp]:
  "w_tokens (put_balance k b ts w) = ts" "ss_markets (w_spot (put_balance k b ts w)) = ss_markets (w_spot w)"
  "ss_balances (w_spot (put_balance k b ts w)) = (ss_balances (w_spot w))(k \<mapsto> b)"
  "accrued_fees rt m (w_spot (put_balance k b ts w)) = accrued_fees rt m (w_spot w)"
  by (simp_all add: put_balance_def accrued_fees_def)

lemma put_balance_totals:
  assumes fin: "finite (dom (ss_balances (w_spot w)))" and b: "ss_balances (w_spot w) k = Some b"
    and m: "tb_market b = m" "tb_market b' = m"
  shows "total_base m (w_spot (put_balance k b' ts w)) + base_claim b = total_base m (w_spot w) + base_claim b'"
    and "total_quote m (w_spot (put_balance k b' ts w)) + quote_claim b = total_quote m (w_spot w) + quote_claim b'"
  using store_sum_upd [OF fin b, of "of_market m base_claim" b']
    store_sum_upd [OF fin b, of "of_market m quote_claim" b'] m
  by (simp_all add: total_base_def total_quote_def of_market_def del: fun_upd_apply)

lemma solventE:
  assumes "solvent rt m w"
  obtains mk where "finite (dom (ss_balances (w_spot w)))" "ss_markets (w_spot w) m = Some mk"
    "vault rt m (mkt_base_mint mk) \<noteq> vault rt m (mkt_quote_mint mk)"
    "holds (w_tokens w) (vault rt m (mkt_base_mint mk)) (address rt (VaultAuthorityPda m)) (total_base m (w_spot w))"
    "holds (w_tokens w) (vault rt m (mkt_quote_mint mk)) (address rt (VaultAuthorityPda m))
      (total_quote m (w_spot w) + accrued_fees rt m (w_spot w))"
  using assms by (auto simp: solvent_def)

lemma holds_less: "holds ts k auth n \<Longrightarrow> n' \<le> n \<Longrightarrow> holds ts k auth n'"
  by (auto simp: holds_def)

lemma deposit_solvent:
  assumes law: "transfer_law tp"
    and inv: "solvent rt (dep_market ks) w" and ok: "deposit rt tp w ks amount = Inr w'"
    and signer: "dep_owner ks \<noteq> address rt (VaultAuthorityPda (dep_market ks))"
  shows "solvent rt (dep_market ks) w'"
proof -
  let ?m = "dep_market ks" and ?mint = "dep_deposit_mint ks"
  let ?auth = "address rt (VaultAuthorityPda ?m)"
  obtain mk where fin: "finite (dom (ss_balances (w_spot w)))" and mk: "ss_markets (w_spot w) ?m = Some mk"
    and ne: "vault rt ?m (mkt_base_mint mk) \<noteq> vault rt ?m (mkt_quote_mint mk)"
    and base: "holds (w_tokens w) (vault rt ?m (mkt_base_mint mk)) ?auth (total_base ?m (w_spot w))"
    and quote: "holds (w_tokens w) (vault rt ?m (mkt_quote_mint mk)) ?auth
      (total_quote ?m (w_spot w) + accrued_fees rt ?m (w_spot w))"
    by (rule solventE [OF inv])
  obtain mk' b ta free ts and dm :: Mint where mk': "ss_markets (w_spot w) ?m = Some mk'"
    and b: "ss_balances (w_spot w) (dep_trader_balance ks) = Some b" "tb_market b = ?m"
    and ta: "w_tokens w (dep_trader_token_account ks) = Some ta" "ta_owner ta = dep_owner ks"
    and vlt: "dep_market_vault ks = vault rt ?m ?mint"
    and apart: "dep_trader_token_account ks \<noteq> dep_market_vault ks"
    and credit: "credit_free mk' ?mint b amount = Inr free"
    and pay: "transfer_checked tp (w_mints w) (w_tokens w) (dep_trader_token_account ks) ?mint
       (dep_market_vault ks) (dep_owner ks) amount (mint_decimals dm) = Inr ts"
    and w': "put_balance (dep_trader_balance ks) (set_free mk' ?mint free b) ts w = w'"
    by (rule deposit_ok [OF ok])
  have same: "mk' = mk" using mk mk' by simp
  have away: "dep_trader_token_account ks \<noteq> vault rt ?m mint"
    if "holds (w_tokens w) (vault rt ?m mint) ?auth n" for mint n
    using that ta signer by (auto simp: holds_def)
  have "tb_market (set_free mk ?mint free b) = ?m" using b(2) by simp
  note totals = put_balance_totals [OF fin b this, of ts, folded same, unfolded w']
  note claims = credit_claims [OF credit, unfolded same]
  have frame: "w_tokens w' = ts" "ss_markets (w_spot w') ?m = Some mk"
    "accrued_fees rt ?m (w_spot w') = accrued_fees rt ?m (w_spot w)" "finite (dom (ss_balances (w_spot w')))"
    using mk fin by (simp_all add: w' [symmetric])
  consider "?mint = mkt_base_mint mk" | "?mint = mkt_quote_mint mk" "?mint \<noteq> mkt_base_mint mk"
    using credit by (auto simp: run_simps same)
  then show ?thesis
  proof cases
    case 1
    have "holds ts (vault rt ?m (mkt_base_mint mk)) ?auth (total_base ?m (w_spot w'))"
      using holds_receive [OF law pay apart, unfolded vlt 1, OF base] totals claims 1 by (simp add: same)
    moreover have "holds ts (vault rt ?m (mkt_quote_mint mk)) ?auth (total_quote ?m (w_spot w') + accrued_fees rt ?m (w_spot w'))"
      using holds_keep [OF law pay apart away [OF quote, symmetric] quote] totals claims 1 frame by (simp add: same)
    ultimately show ?thesis unfolding solvent_def using frame ne by blast
  next
    case 2
    have "holds ts (vault rt ?m (mkt_quote_mint mk)) ?auth (total_quote ?m (w_spot w') + accrued_fees rt ?m (w_spot w'))"
      using holds_receive [OF law pay apart, unfolded vlt 2(1), OF quote] totals claims 2 frame
      by (simp add: same algebra_simps)
    moreover have "holds ts (vault rt ?m (mkt_base_mint mk)) ?auth (total_base ?m (w_spot w'))"
      using holds_keep [OF law pay apart away [OF base, symmetric] base] totals claims 2 by (simp add: same)
    ultimately show ?thesis unfolding solvent_def using frame ne by blast
  qed
qed

text \<open>A debit of a free bucket whose amount leaves the matching vault.\<close>

lemma paid_out_solvent:
  assumes law: "transfer_law tp" and inv: "solvent rt m w"
    and mk': "ss_markets (w_spot w) m = Some mk'"
    and b: "ss_balances (w_spot w) k = Some b" "tb_market b = m"
    and apart: "to \<noteq> vault rt m mint" and debit: "debit_free mk' mint b amount = Inr free"
    and pay: "transfer_checked tp (w_mints w) (w_tokens w) (vault rt m mint) mint to auth amount dec = Inr ts"
    and w': "w_spot w' = w_spot (put_balance k (set_free mk' mint free b) ts w)" "w_tokens w' = ts"
  shows "solvent rt m w'"
proof -
  let ?auth = "address rt (VaultAuthorityPda m)"
  obtain mk where fin: "finite (dom (ss_balances (w_spot w)))" and mk: "ss_markets (w_spot w) m = Some mk"
    and ne: "vault rt m (mkt_base_mint mk) \<noteq> vault rt m (mkt_quote_mint mk)"
    and base: "holds (w_tokens w) (vault rt m (mkt_base_mint mk)) ?auth (total_base m (w_spot w))"
    and quote: "holds (w_tokens w) (vault rt m (mkt_quote_mint mk)) ?auth
      (total_quote m (w_spot w) + accrued_fees rt m (w_spot w))"
    by (rule solventE [OF inv])
  have same: "mk' = mk" using mk mk' by simp
  have "tb_market (set_free mk mint free b) = m" using b(2) by simp
  note totals = put_balance_totals [OF fin b this, of ts, folded same, folded w'(1)]
  note claims = debit_claims [OF debit, unfolded same]
  have frame: "ss_markets (w_spot w') m = Some mk"
    "accrued_fees rt m (w_spot w') = accrued_fees rt m (w_spot w)" "finite (dom (ss_balances (w_spot w')))"
    using mk fin by (simp_all add: w')
  note pays = holds_pay [OF law pay apart [symmetric]] and keeps = holds_keep [OF law pay apart [symmetric]]
  consider "mint = mkt_base_mint mk" | "mint = mkt_quote_mint mk" "mint \<noteq> mkt_base_mint mk"
    using debit by (auto simp: run_simps same)
  then show ?thesis
  proof cases
    case 1
    have "total_base m (w_spot w) = total_base m (w_spot w') + unat amount"
      using totals claims 1 by (simp add: same)
    then have "holds ts (vault rt m (mkt_base_mint mk)) ?auth (total_base m (w_spot w'))"
      using pays [unfolded 1] base by simp
    moreover have "vault rt m (mkt_quote_mint mk) \<noteq> vault rt m mint"
      using ne 1 by simp
    then have "holds ts (vault rt m (mkt_quote_mint mk)) ?auth (total_quote m (w_spot w') + accrued_fees rt m (w_spot w'))"
      using keeps quote totals claims 1 frame by (simp add: same)
    ultimately show ?thesis unfolding solvent_def using frame ne w'(2) by blast
  next
    case 2
    have "total_quote m (w_spot w) + accrued_fees rt m (w_spot w) =
        total_quote m (w_spot w') + accrued_fees rt m (w_spot w') + unat amount"
      using totals claims 2 frame by (simp add: same)
    then have "holds ts (vault rt m (mkt_quote_mint mk)) ?auth (total_quote m (w_spot w') + accrued_fees rt m (w_spot w'))"
      using pays [unfolded 2(1)] quote by simp
    moreover have "vault rt m (mkt_base_mint mk) \<noteq> vault rt m mint"
      using ne 2 by simp
    then have "holds ts (vault rt m (mkt_base_mint mk)) ?auth (total_base m (w_spot w'))"
      using keeps base totals claims 2 by (simp add: same)
    ultimately show ?thesis unfolding solvent_def using frame ne w'(2) by blast
  qed
qed

lemma withdraw_solvent:
  assumes law: "transfer_law tp" and inv: "solvent rt (wd_market ks) w" and ok: "withdraw rt tp w ks amount = Inr w'"
  shows "solvent rt (wd_market ks) w'"
proof (rule withdraw_ok [OF ok], goal_cases)
  case (1 mk b dm ta free ts)
  show ?case
    by (rule paid_out_solvent [OF law inv 1(1,2,4) _ 1(13)]) (use 1(11,12,14,15) in auto)
qed

lemma fees_solvent:
  assumes law: "transfer_law tp"
    and inv: "solvent rt (wpf_market ks) w" and ok: "withdraw_protocol_fees rt tp w ks amount = Inr w'"
  shows "solvent rt (wpf_market ks) w'"
proof -
  let ?m = "wpf_market ks"
  let ?auth = "address rt (VaultAuthorityPda ?m)"
  obtain mk where fin: "finite (dom (ss_balances (w_spot w)))" and mk: "ss_markets (w_spot w) ?m = Some mk"
    and ne: "vault rt ?m (mkt_base_mint mk) \<noteq> vault rt ?m (mkt_quote_mint mk)"
    and base: "holds (w_tokens w) (vault rt ?m (mkt_base_mint mk)) ?auth (total_base ?m (w_spot w))"
    and quote: "holds (w_tokens w) (vault rt ?m (mkt_quote_mint mk)) ?auth
      (total_quote ?m (w_spot w) + accrued_fees rt ?m (w_spot w))"
    by (rule solventE [OF inv])
  obtain mk' f next_fees ts and dm :: Mint where mk': "ss_markets (w_spot w) ?m = Some mk'"
    and f: "ss_fees (w_spot w) (wpf_market_fees ks) = Some f" "wpf_market_fees ks = address rt (MarketFeesPda ?m)"
    and mint: "wpf_quote_mint ks = mkt_quote_mint mk'"
    and vlt: "wpf_quote_vault ks = vault rt ?m (wpf_quote_mint ks)"
    and apart: "wpf_destination_quote_account ks \<noteq> wpf_quote_vault ks"
    and debit: "unat (mf_accrued_quote_fees f) = unat amount + unat next_fees"
    and pay: "transfer_checked tp (w_mints w) (w_tokens w) (wpf_quote_vault ks) (wpf_quote_mint ks)
       (wpf_destination_quote_account ks) (wpf_vault_authority ks) amount (mint_decimals dm) = Inr ts"
    and w': "w\<lparr>w_spot := (w_spot w)\<lparr>ss_fees := save (upd_inner (\<lambda>f. f\<lparr>mf_accrued_quote_fees := next_fees\<rparr>)
        (Account (wpf_market_fees ks) f)) (ss_fees (w_spot w))\<rparr>, w_tokens := ts\<rparr> = w'"
    by (rule withdraw_protocol_fees_ok [OF ok])
  have same: "mk' = mk" using mk mk' by simp
  have frame: "w_tokens w' = ts" "ss_markets (w_spot w') ?m = Some mk" "ss_balances (w_spot w') = ss_balances (w_spot w)"
    using mk by (simp_all add: w' [symmetric])
  have fee: "accrued_fees rt ?m (w_spot w) = accrued_fees rt ?m (w_spot w') + unat amount"
    using f debit by (simp add: accrued_fees_def w' [symmetric] save_def)
  have totals: "total_base ?m (w_spot w') = total_base ?m (w_spot w)" "total_quote ?m (w_spot w') = total_quote ?m (w_spot w)"
    by (simp_all add: total_base_def total_quote_def frame)
  have "holds ts (vault rt ?m (mkt_quote_mint mk)) ?auth (total_quote ?m (w_spot w') + accrued_fees rt ?m (w_spot w'))"
    using holds_pay [OF law pay apart [symmetric], unfolded vlt mint same] quote fee totals
    by (simp add: algebra_simps)
  moreover have "holds ts (vault rt ?m (mkt_base_mint mk)) ?auth (total_base ?m (w_spot w'))"
    using holds_keep [OF law pay apart [symmetric] _ base] ne totals
    by (simp add: vlt mint same)
  ultimately show ?thesis unfolding solvent_def using frame fin ne by auto
qed

lemma ledger_solvent:
  assumes inv: "solvent rt m w" and ok: "initialize_trader_balance rt w ks = Inr w'"
  shows "solvent rt m w'"
proof -
  let ?b = "\<lparr>tb_market = itb_market ks, tb_owner = itb_owner ks, tb_base_free = 0, tb_base_locked = 0,
    tb_quote_free = 0, tb_quote_locked = 0,
    tb_bump = snd (pda rt (TraderBalancePda (itb_market ks) (itb_owner ks)))\<rparr>"
  have free: "ss_balances (w_spot w) (itb_trader_balance ks) = None"
    and w': "w' = w\<lparr>w_spot := (w_spot w)\<lparr>ss_balances := (ss_balances (w_spot w))(itb_trader_balance ks \<mapsto> ?b)\<rparr>\<rparr>"
    using ok by (auto simp: initialize_trader_balance_def run_simps)
  have b: "base_claim ?b = 0" "quote_claim ?b = 0" by (simp_all add: base_claim_def quote_claim_def)
  have fin: "finite (dom (ss_balances (w_spot w)))" using inv by (simp add: solvent_def)
  have "total_base m (w_spot w') = total_base m (w_spot w)" "total_quote m (w_spot w') = total_quote m (w_spot w)"
    using store_sum_new [OF fin free, of "of_market m base_claim" ?b]
      store_sum_new [OF fin free, of "of_market m quote_claim" ?b]
    by (simp_all add: total_base_def total_quote_def w' of_market_def base_claim_def quote_claim_def del: fun_upd_apply)
  moreover have "accrued_fees rt m (w_spot w') = accrued_fees rt m (w_spot w)"
    "ss_markets (w_spot w') = ss_markets (w_spot w)" "w_tokens w' = w_tokens w"
    "finite (dom (ss_balances (w_spot w')))"
    using fin by (simp_all add: w' accrued_fees_def)
  ultimately show ?thesis using inv unfolding solvent_def by simp
qed

lemma set_market_best_mints [simp]:
  "mkt_base_mint (set_market_best mk sd p) = mkt_base_mint mk"
  "mkt_quote_mint (set_market_best mk sd p) = mkt_quote_mint mk"
  by (cases sd; simp)+

lemma spot_step_frame:
  assumes "spot_step rt m st e st'" "ss_markets st m = Some mk" "finite (dom (ss_balances st))"
  shows "finite (dom (ss_balances st')) \<and> (\<exists>mk'. ss_markets st' m = Some mk' \<and>
    mkt_base_mint mk' = mkt_base_mint mk \<and> mkt_quote_mint mk' = mkt_quote_mint mk)"
  using assms(1)
proof cases
  case (spot_insert ks side p q)
  show ?thesis
    by (rule insert_limit_order_ok [OF spot_insert(2)])
      (use assms(2,3) spot_insert in \<open>simp add: insert_effect_def\<close>)
next
  case (spot_append ks side p q)
  show ?thesis
    by (rule append_limit_order_ok [OF spot_append(2)])
      (use assms(2,3) spot_append in \<open>simp add: append_effect_def\<close>)
next
  case (spot_cancel ks i r)
  show ?thesis
    by (rule cancel_limit_order_ok [OF spot_cancel(2)])
      (use assms(2,3) spot_cancel in \<open>simp add: cancel_effect_def\<close>)
next
  case (spot_match ks ts lim q)
  show ?thesis
    by (rule match_limit_order_ok [OF spot_match(2)])
      (use assms(2,3) spot_match in \<open>simp add: match_effect_def\<close>)
qed

lemma trade_solvent:
  assumes inv: "solvent rt m w" and step: "spot_step rt m (w_spot w) e st'"
  shows "solvent rt m (w\<lparr>w_spot := st'\<rparr>)"
proof -
  obtain mk where fin: "finite (dom (ss_balances (w_spot w)))" and mk: "ss_markets (w_spot w) m = Some mk"
    using inv by (auto simp: solvent_def)
  from trading_conserves [OF step fin] spot_step_frame [OF step mk fin] inv mk
  show ?thesis by (auto simp: solvent_def)
qed

lemma store_sum_cong_on:
  assumes fin: "finite (dom M)" "finite (dom M')"
    and same: "\<And>k. (case M k of None \<Rightarrow> 0 | Some v \<Rightarrow> f v) = (case M' k of None \<Rightarrow> 0 | Some v \<Rightarrow> f v)"
  shows "store_sum f M = store_sum f M'"
proof -
  let ?g = "\<lambda>M k. case M k of None \<Rightarrow> 0 | Some v \<Rightarrow> f v"
  have ext: "store_sum f N = (\<Sum>k\<in>dom M \<union> dom M'. ?g N k)" if "N = M \<or> N = M'" for N
    unfolding store_sum_def by (rule sum.mono_neutral_left) (use fin that in \<open>auto split: option.splits\<close>)
  show ?thesis using ext [of M] ext [of M'] same by simp
qed

lemma outside_totals:
  assumes fin: "finite (dom (ss_balances (w_spot w)))" and out: "outside rt m w w'"
  shows "total_base m (w_spot w') = total_base m (w_spot w)" "total_quote m (w_spot w') = total_quote m (w_spot w)"
proof -
  have fin': "finite (dom (ss_balances (w_spot w')))" using out by (simp add: outside_def)
  have one: "(case ss_balances (w_spot w') k of None \<Rightarrow> 0 | Some v \<Rightarrow> of_market m f v) =
      (case ss_balances (w_spot w) k of None \<Rightarrow> 0 | Some v \<Rightarrow> of_market m f v)" for f k
  proof -
    have iff: "tb_market b = m \<Longrightarrow> ss_balances (w_spot w') k = Some b \<longleftrightarrow> ss_balances (w_spot w) k = Some b" for b
      using out by (simp add: outside_def)
    show ?thesis
      using iff by (cases "ss_balances (w_spot w') k"; cases "ss_balances (w_spot w) k") (auto simp: of_market_def)
  qed
  show "total_base m (w_spot w') = total_base m (w_spot w)" "total_quote m (w_spot w') = total_quote m (w_spot w)"
    unfolding total_base_def total_quote_def by (rule store_sum_cong_on [OF fin' fin one])+
qed

lemma outside_solvent:
  assumes inv: "solvent rt m w" and out: "outside rt m w w'"
  shows "solvent rt m w'"
proof -
  obtain mk where fin: "finite (dom (ss_balances (w_spot w)))" and mk: "ss_markets (w_spot w) m = Some mk"
    using inv by (auto simp: solvent_def)
  note outside_totals [OF fin out]
  moreover have "accrued_fees rt m (w_spot w') = accrued_fees rt m (w_spot w)"
    using out by (simp add: outside_def accrued_fees_def)
  moreover obtain mk' where "ss_markets (w_spot w') m = Some mk'" "mkt_base_mint mk' = mkt_base_mint mk"
    "mkt_quote_mint mk' = mkt_quote_mint mk"
    using out mk by (cases "ss_markets (w_spot w') m") (auto simp: outside_def)
  ultimately show ?thesis
    using inv mk out unfolding solvent_def outside_def by auto
qed

lemma custody_step_solvent:
  assumes "transfer_law tp" and step: "custody_step rt tp m w w'" and inv: "solvent rt m w"
  shows "solvent rt m w'"
  using step
proof cases
  case (cs_trade e st')
  then show ?thesis using trade_solvent [OF inv] by simp
next
  case (cs_ledger iks)
  then show ?thesis using ledger_solvent [OF inv] by blast
next
  case (cs_deposit dks amount)
  then show ?thesis using deposit_solvent assms(1) inv by blast
next
  case (cs_withdraw wks amount)
  then show ?thesis using withdraw_solvent assms(1) inv by blast
next
  case (cs_fees fks amount)
  then show ?thesis using fees_solvent assms(1) inv by blast
next
  case cs_outside
  then show ?thesis using outside_solvent [OF inv] by blast
qed

lemma close_market_totals:
  assumes inv: "solvent rt (cm_market ks) w" and ok: "close_market rt tp w ks = Inr w'"
  shows "total_base (cm_market ks) (w_spot w) = 0" "total_quote (cm_market ks) (w_spot w) = 0"
proof -
  have "total_base (cm_market ks) (w_spot w) = 0 \<and> total_quote (cm_market ks) (w_spot w) = 0"
    by (rule close_market_ok [OF ok]) (use inv in \<open>auto simp: solvent_def holds_def\<close>)
  then show "total_base (cm_market ks) (w_spot w) = 0" "total_quote (cm_market ks) (w_spot w) = 0" by simp_all
qed

lemma initialize_market_ok:
  assumes "initialize_market rt w ks tick lot = Inr w'"
  obtains mk where "ss_markets (w_spot w') (im_market ks) = Some mk"
    "mkt_base_mint mk = im_base_mint ks" "mkt_quote_mint mk = im_quote_mint ks"
    "vault rt (im_market ks) (im_base_mint ks) \<noteq> vault rt (im_market ks) (im_quote_mint ks)" "mkt_next_order_id mk = 1"
    "mkt_best_bid mk = None" "mkt_best_ask mk = None" "mkt_open_order_count mk = 0"
    "ss_orders (w_spot w') = ss_orders (w_spot w)" "ss_levels (w_spot w') = ss_levels (w_spot w)"
    "ss_balances (w_spot w') = ss_balances (w_spot w)"
    "accrued_fees rt (im_market ks) (w_spot w') = 0"
    "w_tokens w' (vault rt (im_market ks) (im_base_mint ks)) =
       Some (new_token_account (im_base_mint ks) (address rt (VaultAuthorityPda (im_market ks))))"
    "w_tokens w' (vault rt (im_market ks) (im_quote_mint ks)) =
       Some (new_token_account (im_quote_mint ks) (address rt (VaultAuthorityPda (im_market ks))))"
    "ss_markets (w_spot w) (im_market ks) = None" "0 < mkt_price_tick_size mk" "0 < mkt_quantity_lot_size mk"
  using assms unfolding initialize_market_def Let_def run_simps account.sel sum.inject
  by (elim exE conjE) (auto simp: accrued_fees_def)

text \<open>A market just initialized, with no claim left over under its address.\<close>

definition custody_start :: "runtime \<Rightarrow> pubkey \<Rightarrow> world \<Rightarrow> bool" where
  "custody_start rt m w \<longleftrightarrow>
     (\<exists>w0 ks tick lot. initialize_market rt w0 ks tick lot = Inr w \<and> im_market ks = m \<and>
        finite (dom (ss_balances (w_spot w0))) \<and>
        total_base m (w_spot w0) = 0 \<and> total_quote m (w_spot w0) = 0)"

lemma custody_start_solvent: "custody_start rt m w \<Longrightarrow> solvent rt m w"
  unfolding custody_start_def
proof (elim exE conjE)
  fix w0 ks tick lot
  assume ok: "initialize_market rt w0 ks tick lot = Inr w" and m: "im_market ks = m"
    and fin: "finite (dom (ss_balances (w_spot w0)))"
    and zero: "total_base m (w_spot w0) = 0" "total_quote m (w_spot w0) = 0"
  show "solvent rt m w"
  proof (rule initialize_market_ok [OF ok], goal_cases)
    case (1 mk)
    have "total_base m (w_spot w) = 0" "total_quote m (w_spot w) = 0"
      using zero 1(11) by (simp_all add: total_base_def total_quote_def)
    with 1 fin m show ?case by (simp add: solvent_def holds_def new_token_account_def)
  qed
qed

section \<open>Properties\<close>

text \<open>The vaults stay solvent. From the initialization of a market without left-over claims on,
  after any sequence of trades, ledger creations, deposits, withdrawals, fee withdrawals and
  anything else outside the program, the base vault holds at least every trader's base claims
  and the quote vault at least every trader's quote claims plus the accrued fees. The token
  program is any that obeys \<open>transfer_law\<close>.\<close>

theorem vaults_stay_solvent:
  assumes law: "transfer_law tp"
    and run: "reach (custody_start rt m) (custody_step rt tp m) w"
  shows "\<exists>mk. ss_markets (w_spot w) m = Some mk \<and>
    total_base m (w_spot w) \<le> vault_amount rt m (mkt_base_mint mk) w \<and>
    total_quote m (w_spot w) + accrued_fees rt m (w_spot w) \<le> vault_amount rt m (mkt_quote_mint mk) w"
proof -
  have "solvent rt m w"
    using run
  proof induction
    case (reach_init s)
    then show ?case by (rule custody_start_solvent)
  next
    case (reach_step s t)
    then show ?case using custody_step_solvent [OF law] by blast
  qed
  then show ?thesis
    by (auto simp: solvent_def holds_def vault_amount_def token_amount_def)
qed

text \<open>No withdrawal can find the vault short. In a solvent market every single trader's free and
  locked claim, and the protocol's accrued fees besides, fit the vault: the vault-amount checks
  of \<open>withdraw\<close> and \<open>withdraw_protocol_fees\<close> never fail once the ledger check passed.\<close>

theorem withdrawals_covered:
  assumes inv: "solvent rt m w" and b: "ss_balances (w_spot w) k = Some b" "tb_market b = m"
    and mk: "ss_markets (w_spot w) m = Some mk"
  shows "(debit_free mk (mkt_base_mint mk) b amount = Inr free \<longrightarrow>
      unat amount \<le> vault_amount rt m (mkt_base_mint mk) w) \<and>
    (debit_free mk (mkt_quote_mint mk) b amount = Inr free \<longrightarrow>
      unat amount + accrued_fees rt m (w_spot w) \<le> vault_amount rt m (mkt_quote_mint mk) w)"
proof -
  have fin: "finite (dom (ss_balances (w_spot w)))" and ne: "mkt_base_mint mk \<noteq> mkt_quote_mint mk"
    and vaults: "total_base m (w_spot w) \<le> vault_amount rt m (mkt_base_mint mk) w"
      "total_quote m (w_spot w) + accrued_fees rt m (w_spot w) \<le> vault_amount rt m (mkt_quote_mint mk) w"
    using inv mk by (auto simp: solvent_def holds_def vault_amount_def token_amount_def)
  have "of_market m base_claim b \<le> total_base m (w_spot w)" "of_market m quote_claim b \<le> total_quote m (w_spot w)"
    unfolding total_base_def total_quote_def by (rule store_sum_member [OF fin b(1)])+
  with vaults b(2) ne show ?thesis
    by (auto simp: of_market_def run_simps base_claim_def quote_claim_def)
qed

lemma no_open_orders:
  assumes "book_inv is_bid (spot_view rt m st)" "ss_markets st m = Some mk" "mkt_open_order_count mk = 0"
    and "ss_orders st j = Some r" "ord_market r = m"
  shows "ord_status r \<noteq> Open"
proof
  assume "ord_status r = Open"
  with assms(4,5) have "j \<in> open_keys (spot_view rt m st)"
    by (simp add: open_keys_def spot_view_def spot_orders_def order_view_def)
  moreover have "open_keys (spot_view rt m st) = {}"
    using assms(1-3) by (auto simp: book_inv_def book_rep_def count_ok_def spot_view_def)
  ultimately show False by simp
qed

text \<open>C10: Closing strands nothing. A market closes only for its authority while it is paused, with
  no open order counted, no fee accrued, both vaults empty, no faucet and no shared book. The token program is
  not trusted to refuse a vault with a balance. What closes is the market, its fee record and the two vaults,
  no other account; if the market was solvent every trader's free and locked balances in it are zero, and if
  its book was well formed no order of it is open.\<close>

theorem close_strands_no_claim:
  assumes law: "close_law tp" and ok: "close_market rt tp w ks = Inr w'"
  defines "m \<equiv> cm_market ks"
  shows "\<exists>mk. ss_markets (w_spot w) m = Some mk \<and>
    mkt_authority mk = cm_authority ks \<and> mkt_status mk = MarketPausedStatus \<and> mkt_open_order_count mk = 0 \<and>
    accrued_fees rt m (w_spot w) = 0 \<and>
    vault_amount rt m (mkt_base_mint mk) w = 0 \<and> vault_amount rt m (mkt_quote_mint mk) w = 0 \<and>
    w_faucets w (address rt (TestFaucetPda m)) = None \<and> w_shared_books w (address rt (SharedBookPda m)) = None \<and>
    w' = w\<lparr>w_spot := (w_spot w)\<lparr>ss_markets := (ss_markets (w_spot w))(m := None),
        ss_fees := (ss_fees (w_spot w))(address rt (MarketFeesPda m) := None)\<rparr>,
      w_tokens := (w_tokens w)(vault rt m (mkt_base_mint mk) := None, vault rt m (mkt_quote_mint mk) := None)\<rparr> \<and>
    (solvent rt m w \<longrightarrow> (\<forall>k b. ss_balances (w_spot w) k = Some b \<longrightarrow> tb_market b = m \<longrightarrow>
       base_claim b = 0 \<and> quote_claim b = 0)) \<and>
    (book_inv is_bid (spot_view rt m (w_spot w)) \<longrightarrow> (\<forall>j r. ss_orders (w_spot w) j = Some r \<longrightarrow> ord_market r = m \<longrightarrow>
       ord_status r \<noteq> Open))"
proof (rule close_market_ok [OF ok], goal_cases)
  case (1 mk f bv qv ts ts')
  have claims: "base_claim b = 0 \<and> quote_claim b = 0"
    if inv: "solvent rt m w" and b: "ss_balances (w_spot w) k = Some b" "tb_market b = m" for k b
  proof -
    have fin: "finite (dom (ss_balances (w_spot w)))"
      and zero: "total_base m (w_spot w) = 0" "total_quote m (w_spot w) = 0"
      using inv close_market_totals [OF inv [unfolded m_def] ok] by (auto simp: solvent_def m_def)
    have "of_market m base_claim b \<le> total_base m (w_spot w)" "of_market m quote_claim b \<le> total_quote m (w_spot w)"
      unfolding total_base_def total_quote_def by (rule store_sum_member [OF fin b(1)])+
    then show ?thesis using zero b(2) by (simp add: of_market_def)
  qed
  have gone: "ts' = (w_tokens w)(cm_base_vault ks := None, cm_quote_vault ks := None)"
    using close_effect [OF law 1(15)] close_effect [OF law 1(16)] by simp
  note 1(1-7) 1(18-21) 1(17) [symmetric] gone
  moreover have "accrued_fees rt m (w_spot w) = 0" using 1(5-7) by (simp add: accrued_fees_def m_def)
  moreover have "vault_amount rt m (mkt_base_mint mk) w = 0" "vault_amount rt m (mkt_quote_mint mk) w = 0"
    using 1(8-13) by (simp_all add: vault_amount_def token_amount_def m_def)
  moreover have "book_inv is_bid (spot_view rt m (w_spot w)) \<longrightarrow> (\<forall>j r. ss_orders (w_spot w) j = Some r \<longrightarrow>
      ord_market r = m \<longrightarrow> ord_status r \<noteq> Open)"
    using no_open_orders 1(1,4) unfolding m_def by blast
  ultimately show ?case using claims 1(9,11) by (intro exI [of _ mk] conjI) (simp_all add: m_def)
qed

text \<open>Deposit and withdrawal are inverse. Depositing an amount and withdrawing it again, with the
  same ledger, mint and token account, leaves every account exactly as it was.\<close>

theorem deposit_withdraw_roundtrip:
  assumes law: "transfer_law tp"
    and dep: "deposit rt tp w dk amount = Inr w1" and wd: "withdraw rt tp w1 wk amount = Inr w2"
    and same: "wd_market wk = dep_market dk" "wd_trader_balance wk = dep_trader_balance dk"
      "wd_withdrawal_mint wk = dep_deposit_mint dk"
      "wd_owner_token_account wk = dep_trader_token_account dk"
  shows "w2 = w"
proof -
  let ?src = "dep_trader_token_account dk" and ?v = "dep_market_vault dk" and ?mint = "dep_deposit_mint dk"
  obtain mk b free ts and dm :: Mint where mk: "ss_markets (w_spot w) (dep_market dk) = Some mk"
    and b: "ss_balances (w_spot w) (dep_trader_balance dk) = Some b"
    and v: "?v = vault rt (dep_market dk) ?mint" and ne: "?src \<noteq> ?v"
    and credit: "credit_free mk ?mint b amount = Inr free"
    and t1: "transfer_checked tp (w_mints w) (w_tokens w) ?src ?mint ?v (dep_owner dk) amount (mint_decimals dm) = Inr ts"
    and w1: "put_balance (dep_trader_balance dk) (set_free mk ?mint free b) ts w = w1"
    by (rule deposit_ok [OF dep])
  obtain mk' b' free' ts' and dm' :: Mint where mk': "ss_markets (w_spot w1) (wd_market wk) = Some mk'"
    and b': "ss_balances (w_spot w1) (wd_trader_balance wk) = Some b'"
    and v': "wd_market_vault wk = vault rt (wd_market wk) (wd_withdrawal_mint wk)"
    and debit: "debit_free mk' (wd_withdrawal_mint wk) b' amount = Inr free'"
    and t2: "transfer_checked tp (w_mints w1) (w_tokens w1) (wd_market_vault wk) (wd_withdrawal_mint wk)
       (wd_owner_token_account wk) (wd_vault_authority wk) amount (mint_decimals dm') = Inr ts'"
    and w2: "put_balance (wd_trader_balance wk) (set_free mk' (wd_withdrawal_mint wk) free' b') ts' w1 = w2"
    by (rule withdraw_ok [OF wd])
  have eqs: "mk' = mk" "b' = set_free mk ?mint free b" "w_tokens w1 = ts" "wd_market_vault wk = ?v"
    using mk mk' b b' v v' w1 same by (auto simp: put_balance_def)
  have bal: "set_free mk ?mint free' b' = b"
  proof (cases "?mint = mkt_base_mint mk")
    case True
    with credit debit have "unat free' = unat (tb_base_free b)"
      by (auto simp: run_simps same eqs set_free_def)
    then show ?thesis using True by (simp add: eqs set_free_def word_unat_eq_iff)
  next
    case False
    with credit debit have "unat free' = unat (tb_quote_free b)"
      by (auto simp: run_simps same eqs set_free_def)
    then show ?thesis using False by (simp add: eqs set_free_def word_unat_eq_iff)
  qed
  have toks: "ts' = w_tokens w"
  proof (rule transfer_lawD [OF law t1 ne], rule transfer_lawD [OF law t2 [unfolded eqs same] ne [symmetric]], goal_cases)
    case (1 a c a' c')
    then show ?case using ne by (auto intro!: ext)
  qed
  show ?thesis
    unfolding w2 [symmetric] w1 [symmetric]
    using bal toks b by (simp add: same eqs put_balance_def fun_upd_idem)
qed

section \<open>A market address used twice\<close>

text \<open>Order accounts are history: no instruction ever closes one. A market that is closed and
  initialized again starts at order id 1, whose address is still taken if the first market ever
  had an order.\<close>

definition stuck :: "runtime \<Rightarrow> pubkey \<Rightarrow> spot_store \<Rightarrow> bool" where
  "stuck rt m st \<longleftrightarrow> (\<exists>mk. ss_markets st m = Some mk \<and>
     ss_orders st (address rt (OrderPda m (mkt_next_order_id mk))) \<noteq> None)"

lemma set_market_best_next_id [simp]: "mkt_next_order_id (set_market_best mk sd p) = mkt_next_order_id mk"
  by (cases sd; simp)

lemma stuck_insert: "stuck rt (ilk_market ks) st \<Longrightarrow> \<not> is_ok (insert_limit_order rt st ks side p q)"
  by (auto simp: is_ok_iff stuck_def elim: insert_limit_order_ok)

lemma stuck_append: "stuck rt (alk_market ks) st \<Longrightarrow> \<not> is_ok (append_limit_order rt st ks side p q)"
  by (auto simp: is_ok_iff stuck_def elim: append_limit_order_ok)

lemma save_opt_keeps: "m k \<noteq> None \<Longrightarrow> save_opt ao m k \<noteq> None"
  by (auto simp: save_opt_apply split: option.splits)

lemma cancel_effect_keeps:
  "ss_orders st k \<noteq> None \<Longrightarrow>
     ss_orders (cancel_effect ks mk r lv tb pa na ba wa free locked n c t st) k \<noteq> None"
  "\<exists>mk'. ss_markets (cancel_effect ks mk r lv tb pa na ba wa free locked n c t st) (clk_market ks) = Some mk' \<and>
     mkt_next_order_id mk' = mkt_next_order_id mk"
  by (simp_all add: cancel_effect_def save_opt_keeps del: not_None_eq)

lemma match_effect_keeps:
  "ss_orders st k \<noteq> None \<Longrightarrow>
     ss_orders (match_effect ks mk fees r lv na wa tb' mb' full acc rem coll t c n st) k \<noteq> None"
  "\<exists>mk'. ss_markets (match_effect ks mk fees r lv na wa tb' mb' full acc rem coll t c n st) (mlk_market ks) = Some mk' \<and>
     mkt_next_order_id mk' = mkt_next_order_id mk"
  by (simp_all add: match_effect_def save_opt_keeps del: not_None_eq)

lemma stuckI:
  "ss_markets st m = Some mk \<Longrightarrow> ss_orders st (address rt (OrderPda m (mkt_next_order_id mk))) \<noteq> None \<Longrightarrow>
     stuck rt m st"
  unfolding stuck_def by blast

lemma stuck_step:
  assumes "spot_step rt m st e st'" "stuck rt m st"
  shows "stuck rt m st'"
proof -
  obtain mk where mk: "ss_markets st m = Some mk"
    and taken: "ss_orders st (address rt (OrderPda m (mkt_next_order_id mk))) \<noteq> None"
    using assms(2) unfolding stuck_def by blast
  show ?thesis
    using assms(1)
  proof cases
    case (spot_insert ks side p q)
    then show ?thesis using stuck_insert [of rt ks st side p q] assms(2) by (simp add: is_ok_iff)
  next
    case (spot_append ks side p q)
    then show ?thesis using stuck_append [of rt ks st side p q] assms(2) by (simp add: is_ok_iff)
  next
    case (spot_cancel ks i r)
    obtain mk' r lv tb pa na ba wa free locked n c t where
      "ss_markets st (clk_market ks) = Some mk'"
      and st': "st' = cancel_effect ks mk' r lv tb pa na ba wa free locked n c t st"
      by (rule cancel_limit_order_ok [OF spot_cancel(2)])
    then have "mk' = mk" using mk spot_cancel by simp
    with st' cancel_effect_keeps(2) [of ks mk'] cancel_effect_keeps(1) [OF taken] spot_cancel
    show ?thesis by (metis stuckI)
  next
    case (spot_match ks ts lim q)
    obtain mk' fees r lv na wa mb tb full mb' tb' accrued rem coll tot cnt next_open where
      "ss_markets st (mlk_market ks) = Some mk'"
      and st': "st' = match_effect ks mk' fees r lv na wa tb' mb' full accrued rem coll tot
       cnt next_open st"
      by (rule match_limit_order_ok [OF spot_match(2)])
    then have "mk' = mk" using mk spot_match by simp
    with st' match_effect_keeps(2) [of ks mk'] match_effect_keeps(1) [OF taken] spot_match
    show ?thesis by (metis stuckI)
  qed
qed

text \<open>C11: A reopened market can never take an order. If a market is initialized while an order account
  with id 1 of an earlier market at the same address still exists, then whatever the program's
  trading instructions do afterwards, every insert and every append on it fails.\<close>

theorem reopened_market_never_trades:
  assumes init: "initialize_market rt w iks tick lot = Inr w'"
    and history: "ss_orders (w_spot w) (address rt (OrderPda (im_market iks) 1)) \<noteq> None"
    and run: "reach (\<lambda>s. s = w_spot w') (\<lambda>s t. \<exists>e. spot_step rt (im_market iks) s e t) st"
  shows "(ilk_market ik = im_market iks \<longrightarrow> \<not> is_ok (insert_limit_order rt st ik side p q)) \<and>
    (alk_market ak = im_market iks \<longrightarrow> \<not> is_ok (append_limit_order rt st ak side p q))"
proof -
  have "stuck rt (im_market iks) (w_spot w')"
    by (rule initialize_market_ok [OF init]) (use history in \<open>auto simp: stuck_def\<close>)
  with run have "stuck rt (im_market iks) st"
    by (induction rule: reach.induct) (auto intro: stuck_step)
  then show ?thesis using stuck_insert stuck_append by metis
qed

end
