(* ===== verification/Program_Demo.thy ===== *)
theory Program_Demo
  imports Spot_Demo Custody
begin

text \<open>
  A concrete life of a spot market around the order book: the protocol is initialized and
  configured, a market is created, a trader deposits and withdraws, and the market is closed and
  reopened. The runs show that the hypotheses of the governance and custody properties are met.
\<close>

section \<open>Governance\<close>

definition empty_spot :: spot_store where
  "empty_spot =
     \<lparr>ss_markets = Map.empty, ss_fees = Map.empty, ss_configs = Map.empty, ss_orders = Map.empty,
      ss_levels = Map.empty, ss_balances = Map.empty\<rparr>"

definition demo_mint :: Mint where
  "demo_mint = \<lparr>mint_decimals = 0, mint_supply = 0, mint_authority = Some 1\<rparr>"

definition gov0 :: world where
  "gov0 =
     \<lparr>w_spot = empty_spot, w_admins = Map.empty, w_metadata = Map.empty, w_faucets = Map.empty,
      w_predictions = Map.empty, w_positions = Map.empty, w_prediction_books = Map.empty,
      w_prediction_levels = Map.empty, w_prediction_orders = Map.empty, w_assets = Map.empty,
      w_shared_books = Map.empty, w_shared_levels = Map.empty, w_shared_orders = Map.empty,
      w_mints = [11 \<mapsto> demo_mint, 12 \<mapsto> demo_mint],
      w_tokens = Map.empty\<rparr>"

definition demo_config :: pubkey where
  "demo_config = address demo_rt ProtocolConfigPda"

definition demo_admin :: pubkey where
  "demo_admin = address demo_rt (AdminPda 1)"

definition gov1 :: world where
  "gov1 = gov0\<lparr>
     w_spot := empty_spot\<lparr>ss_configs := [demo_config \<mapsto>
       \<lparr>cfg_super_admin = 1, cfg_taker_fee_bps = 0, cfg_bump = 255\<rparr>]\<rparr>,
     w_admins := [demo_admin \<mapsto>
       \<lparr>adm_authority = 1, adm_added_by = 1, adm_status = AdminActive, adm_bump = 255\<rparr>]\<rparr>"

definition gov2 :: world where
  "gov2 = gov1\<lparr>w_spot := (w_spot gov1)\<lparr>ss_configs := [demo_config \<mapsto>
     \<lparr>cfg_super_admin = 1, cfg_taker_fee_bps = 100, cfg_bump = 255\<rparr>]\<rparr>\<rparr>"

lemma demo_bump [simp]: "snd (pda demo_rt r) = 255"
  by (simp add: pda_def demo_rt_def example_runtime_def example_find_def)

lemma demo_initialize:
  "initialize_protocol demo_rt (Some 1) gov0
     \<lparr>ip_deployer = 1, ip_protocol_config = demo_config, ip_deployer_admin = demo_admin\<rparr> = Inr gov1"
  by (simp add: initialize_protocol_def gov0_def gov1_def empty_spot_def demo_config_def demo_admin_def Let_def)

lemma demo_set_fee:
  "set_taker_fee demo_rt gov1 \<lparr>sf_super_admin = 1, sf_protocol_config = demo_config\<rparr> 100 = Inr gov2"
  by (simp add: set_taker_fee_def load_super_admin_def load_def gov1_def gov2_def demo_config_def
      save_def MAX_TAKER_FEE_BPS_def)

lemma demo_start: "protocol_start demo_rt gov1"
  unfolding protocol_start_def using demo_initialize by blast

theorem protocol_stays_governed_witness:
  "governed demo_rt gov2 \<and> (\<exists>f. calculate_taker_fee 35 100 = Inr f)"
proof -
  have "reach (protocol_start demo_rt) (gov_step demo_rt) gov2"
    by (rule reach_step, rule reach_init, rule demo_start, rule gov_fee, rule demo_set_fee)
  from protocol_stays_governed [OF this] show ?thesis by (auto simp: gov2_def demo_config_def)
qed

theorem only_super_admin_governs_witness:
  "set_taker_fee demo_rt gov1 \<lparr>sf_super_admin = 1, sf_protocol_config = demo_config\<rparr> 100 = Inr gov2 \<and>
   \<not> is_ok (set_taker_fee demo_rt gov1 \<lparr>sf_super_admin = 2, sf_protocol_config = demo_config\<rparr> 100)"
proof -
  have c: "ss_configs (w_spot gov1) (address demo_rt ProtocolConfigPda) =
      Some \<lparr>cfg_super_admin = 1, cfg_taker_fee_bps = 0, cfg_bump = 255\<rparr>"
    by (simp add: gov1_def demo_config_def)
  have "\<not> is_ok (set_taker_fee demo_rt gov1 \<lparr>sf_super_admin = 2, sf_protocol_config = demo_config\<rparr> 100)"
    using only_super_admin_governs [OF c, of undefined undefined _ undefined undefined
        "\<lparr>sf_super_admin = 2, sf_protocol_config = demo_config\<rparr>" 100]
    by (auto simp: is_ok_iff)
  with demo_set_fee show ?thesis by simp
qed

theorem admin_lifecycle_witness:
  "gov_step demo_rt gov1 gov2 \<and> w_admins gov2 demo_admin = w_admins gov1 demo_admin"
  using admin_lifecycle [OF gov_fee [OF demo_set_fee], of demo_admin] gov_fee [OF demo_set_fee]
  by (simp add: gov1_def gov2_def)

section \<open>Custody\<close>

lemma demo_vaults_separate: "collision_free_on demo_rt (range (VaultPda m))"
  unfolding demo_rt_def collision_free_on_def
proof (intro ballI impI)
  fix a b
  assume "a \<in> range (VaultPda m)" "b \<in> range (VaultPda m)"
    and eq: "fst (pda (example_runtime 0) a) = fst (pda (example_runtime 0) b)"
  then obtain v w where ab: "a = VaultPda m v" "b = VaultPda m w" by auto
  have "rev (key_bytes v) = rev (key_bytes w)"
    using example_address_inject [OF eq] by (simp add: ab)
  then show "concat (seeds a) = concat (seeds b)" by (simp add: ab)
qed

lemma demo_vault_eq [simp]: "vault demo_rt m a = vault demo_rt m b \<longleftrightarrow> a = b"
  unfolding vault_def by (subst address_eq [OF demo_vaults_separate]) auto

text \<open>The trader is some key that is not the vault authority; its token account lives at an address
  that is no vault of the market.\<close>

definition demo_authority :: pubkey where
  "demo_authority = address demo_rt (VaultAuthorityPda demo_market)"

definition demo_trader :: pubkey where
  "demo_trader = demo_authority + 1"

definition demo_account :: pubkey where
  "demo_account = vault demo_rt demo_market 13"

definition demo_funded :: TokenAccount where
  "demo_funded = \<lparr>ta_mint = 11, ta_owner = demo_trader, ta_amount = 50, ta_frozen = False\<rparr>"

definition cus0 :: world where
  "cus0 = gov2\<lparr>w_tokens := [demo_account \<mapsto> demo_funded]\<rparr>"

definition demo_market_keys :: InitializeMarket where
  "demo_market_keys =
     \<lparr>im_authority = 1, im_admin_record = demo_admin, im_market = demo_market,
      im_market_fees = address demo_rt (MarketFeesPda demo_market), im_base_mint = 11,
      im_quote_mint = 12, im_vault_authority = demo_authority,
      im_base_vault = vault demo_rt demo_market 11, im_quote_vault = vault demo_rt demo_market 12\<rparr>"

definition cus1 :: world where
  "cus1 = (case initialize_market demo_rt cus0 demo_market_keys 1 1 of Inr w \<Rightarrow> w | Inl _ \<Rightarrow> cus0)"

lemma word_not_succ [simp]: "(x :: pubkey) + 1 \<noteq> x"
  by simp

lemmas demo_custody_defs = cus0_def gov2_def gov1_def gov0_def empty_spot_def demo_market_keys_def
  demo_admin_def demo_authority_def demo_account_def demo_funded_def load_def Let_def

lemma demo_init_market: "initialize_market demo_rt cus0 demo_market_keys 1 1 = Inr cus1"
  by (simp add: cus1_def initialize_market_def demo_custody_defs demo_market_def)

definition demo_ledger_keys :: InitializeTraderBalance where
  "demo_ledger_keys = \<lparr>itb_owner = demo_trader, itb_market = demo_market,
     itb_trader_balance = demo_balance_key demo_trader\<rparr>"

definition cus2 :: world where
  "cus2 = (case initialize_trader_balance demo_rt cus1 demo_ledger_keys of Inr w \<Rightarrow> w | Inl _ \<Rightarrow> cus0)"

lemma demo_ledger: "initialize_trader_balance demo_rt cus1 demo_ledger_keys = Inr cus2"
  by (simp add: cus2_def cus1_def initialize_trader_balance_def initialize_market_def demo_ledger_keys_def
      demo_custody_defs demo_balance_key_def [symmetric] demo_market_def [symmetric] demo_addresses)

definition demo_deposit_keys :: Deposit where
  "demo_deposit_keys =
     \<lparr>dep_owner = demo_trader, dep_market = demo_market, dep_trader_balance = demo_balance_key demo_trader,
      dep_deposit_mint = 11, dep_trader_token_account = demo_account,
      dep_vault_authority = demo_authority, dep_market_vault = vault demo_rt demo_market 11\<rparr>"

definition cus3 :: world where
  "cus3 = (case deposit demo_rt example_token_program cus2 demo_deposit_keys 30 of Inr w \<Rightarrow> w | Inl _ \<Rightarrow> cus0)"

lemma demo_deposit: "deposit demo_rt example_token_program cus2 demo_deposit_keys 30 = Inr cus3"
  by (simp add: cus3_def cus2_def cus1_def deposit_def initialize_trader_balance_def initialize_market_def
      demo_ledger_keys_def demo_deposit_keys_def demo_custody_defs demo_addresses
      demo_market_def [symmetric] example_token_program_def example_transfer_def new_token_account_def
      credit_free_def checked_add_def)

lemma demo_custody_start: "custody_start demo_rt demo_market cus1"
proof -
  have "im_market demo_market_keys = demo_market" by (simp add: demo_market_keys_def)
  moreover have "finite (dom (ss_balances (w_spot cus0)))" "total_base demo_market (w_spot cus0) = 0"
    "total_quote demo_market (w_spot cus0) = 0"
    by (simp_all add: demo_custody_defs total_base_def total_quote_def store_sum_def)
  ultimately show ?thesis unfolding custody_start_def using demo_init_market by blast
qed

lemma demo_step_ledger: "custody_step demo_rt example_token_program demo_market cus1 cus2"
  by (rule cs_ledger [OF demo_ledger]) (simp add: demo_ledger_keys_def)

lemma demo_step_deposit: "custody_step demo_rt example_token_program demo_market cus2 cus3"
  by (rule cs_deposit [OF demo_deposit])
    (simp_all add: demo_deposit_keys_def demo_trader_def demo_authority_def)

lemma demo_solvent: "solvent demo_rt demo_market cus3" "solvent demo_rt demo_market cus2"
proof -
  show two: "solvent demo_rt demo_market cus2"
    by (rule custody_step_solvent [OF example_transfer_law demo_step_ledger
          custody_start_solvent [OF demo_custody_start]])
  show "solvent demo_rt demo_market cus3"
    by (rule custody_step_solvent [OF example_transfer_law demo_step_deposit two])
qed

lemma demo_reach_custody: "reach (custody_start demo_rt demo_market)
    (custody_step demo_rt example_token_program demo_market) cus3"
  by (rule reach_step, rule reach_step, rule reach_init, rule demo_custody_start, rule demo_step_ledger,
      rule demo_step_deposit)

lemma demo_vaults: "vault_amount demo_rt demo_market 11 cus3 = 30"
  by (simp add: vault_amount_def token_amount_def cus3_def cus2_def cus1_def deposit_def
      initialize_trader_balance_def initialize_market_def demo_ledger_keys_def demo_deposit_keys_def
      demo_custody_defs demo_addresses demo_market_def [symmetric] example_token_program_def
      example_transfer_def new_token_account_def credit_free_def checked_add_def)

lemma demo_markets:
  "\<exists>mk. ss_markets (w_spot cus3) demo_market = Some mk \<and> mkt_base_mint mk = 11 \<and> mkt_quote_mint mk = 12"
  by (simp add: cus3_def cus2_def cus1_def deposit_def
      initialize_trader_balance_def initialize_market_def demo_ledger_keys_def demo_deposit_keys_def
      demo_custody_defs demo_addresses demo_market_def [symmetric] example_token_program_def
      example_transfer_def new_token_account_def credit_free_def checked_add_def save_def)

theorem vaults_stay_solvent_witness:
  "total_base demo_market (w_spot cus3) \<le> 30 \<and> vault_amount demo_rt demo_market 11 cus3 = 30"
  using vaults_stay_solvent [OF example_transfer_law demo_reach_custody]
    demo_vaults demo_markets by auto

definition demo_ledger3 :: TraderBalance where
  "demo_ledger3 = \<lparr>tb_market = demo_market, tb_owner = demo_trader, tb_base_free = 30, tb_base_locked = 0,
     tb_quote_free = 0, tb_quote_locked = 0, tb_bump = 255\<rparr>"

lemma demo_balance3: "ss_balances (w_spot cus3) (demo_balance_key demo_trader) = Some demo_ledger3"
  by (simp add: cus3_def cus2_def cus1_def deposit_def demo_ledger3_def set_free_def
      initialize_trader_balance_def initialize_market_def demo_ledger_keys_def demo_deposit_keys_def
      demo_custody_defs demo_addresses demo_market_def [symmetric] example_token_program_def
      example_transfer_def new_token_account_def credit_free_def checked_add_def save_def)

theorem withdrawals_covered_witness:
  "unat (30 :: u64) \<le> vault_amount demo_rt demo_market 11 cus3"
proof -
  obtain mk where mk: "ss_markets (w_spot cus3) demo_market = Some mk" "mkt_base_mint mk = 11"
    using demo_markets by blast
  have "tb_market demo_ledger3 = demo_market" by (simp add: demo_ledger3_def)
  moreover have "debit_free mk (mkt_base_mint mk) demo_ledger3 30 = Inr 0"
    by (simp add: debit_free_def demo_ledger3_def checked_sub_def)
  ultimately show ?thesis
    using withdrawals_covered [OF demo_solvent(1) demo_balance3 _ mk(1), of 30 0] mk(2) by simp
qed

lemmas demo_run = cus3_def cus2_def cus1_def deposit_def withdraw_def set_free_def
  initialize_trader_balance_def initialize_market_def demo_ledger_keys_def demo_deposit_keys_def
  demo_custody_defs demo_addresses demo_market_def [symmetric] example_token_program_def
  example_transfer_def new_token_account_def credit_free_def debit_free_def checked_add_def
  checked_sub_def save_def

definition demo_withdraw_keys :: Withdraw where
  "demo_withdraw_keys =
     \<lparr>wd_owner = demo_trader, wd_market = demo_market, wd_trader_balance = demo_balance_key demo_trader,
      wd_withdrawal_mint = 11, wd_owner_token_account = demo_account,
      wd_vault_authority = demo_authority, wd_market_vault = vault demo_rt demo_market 11\<rparr>"

lemma demo_withdraw: "\<exists>w. withdraw demo_rt example_token_program cus3 demo_withdraw_keys 30 = Inr w"
  by (simp add: demo_withdraw_keys_def demo_run)

theorem deposit_withdraw_roundtrip_witness:
  "deposit demo_rt example_token_program cus2 demo_deposit_keys 30 = Inr cus3 \<and>
   withdraw demo_rt example_token_program cus3 demo_withdraw_keys 30 = Inr cus2"
proof -
  obtain w where wd: "withdraw demo_rt example_token_program cus3 demo_withdraw_keys 30 = Inr w"
    using demo_withdraw by blast
  have "w = cus2"
    by (rule deposit_withdraw_roundtrip [OF example_transfer_law demo_deposit wd])
      (simp_all add: demo_withdraw_keys_def demo_deposit_keys_def)
  with wd demo_deposit show ?thesis by simp
qed

section \<open>Closing and reopening\<close>

definition demo_pause :: world where
  "demo_pause = cus2\<lparr>w_spot := with_status demo_market MarketPausedStatus (w_spot cus2)\<rparr>"

definition demo_close_keys :: CloseMarket where
  "demo_close_keys =
     \<lparr>cm_authority = 1, cm_market = demo_market, cm_market_fees = address demo_rt (MarketFeesPda demo_market),
      cm_test_faucet = address demo_rt (TestFaucetPda demo_market), cm_vault_authority = demo_authority,
      cm_base_vault = vault demo_rt demo_market 11, cm_quote_vault = vault demo_rt demo_market 12,
      cm_shared_book = address demo_rt (SharedBookPda demo_market)\<rparr>"

definition cus4 :: world where
  "cus4 = (case close_market demo_rt example_token_program demo_pause demo_close_keys of
     Inr w \<Rightarrow> w | Inl _ \<Rightarrow> cus0)"

lemma demo_close: "close_market demo_rt example_token_program demo_pause demo_close_keys = Inr cus4"
  by (simp add: cus4_def demo_pause_def with_status_def mod_at_def demo_close_keys_def close_market_def
      example_close_def demo_run)

lemma demo_balance4:
  "ss_balances (w_spot cus4) (demo_balance_key demo_trader) = Some (demo_ledger3\<lparr>tb_base_free := 0\<rparr>)"
  by (simp add: cus4_def demo_ledger3_def demo_pause_def with_status_def mod_at_def demo_close_keys_def
      close_market_def example_close_def demo_run)

lemma demo_pause_solvent: "solvent demo_rt demo_market demo_pause"
proof (rule outside_solvent [OF demo_solvent(2)])
  have "finite (dom (ss_balances (w_spot cus2)))" using demo_solvent(2) by (simp add: solvent_def)
  then show "outside demo_rt demo_market cus2 demo_pause"
    by (cases "ss_markets (w_spot cus2) demo_market")
      (simp_all add: outside_def demo_pause_def with_status_def mod_at_def)
qed

theorem close_strands_no_claim_witness:
  "base_claim (demo_ledger3\<lparr>tb_base_free := 0\<rparr>) = 0 \<and> ss_markets (w_spot cus4) demo_market = None \<and>
   vault_amount demo_rt demo_market 11 demo_pause = 0"
proof -
  have m: "cm_market demo_close_keys = demo_market" by (simp add: demo_close_keys_def)
  from close_strands_no_claim [OF example_close_law demo_close] show ?thesis
    unfolding m
  proof (elim exE conjE, goal_cases)
    case (1 mk)
    have "mkt_base_mint mk = 11" using 1(1) by (auto simp: demo_pause_def with_status_def mod_at_def demo_run)
    moreover have w': "ss_markets (w_spot cus4) demo_market = None" "ss_balances (w_spot cus4) = ss_balances (w_spot demo_pause)"
      by (simp_all add: 1(10))
    moreover have "base_claim (demo_ledger3\<lparr>tb_base_free := 0\<rparr>) = 0"
      using 1(11) [THEN mp, OF demo_pause_solvent] demo_balance4 [unfolded w'(2)] by (auto simp: demo_ledger3_def)
    ultimately show ?case using 1(6) by simp
  qed
qed

text \<open>The first market had an order with id 1; it was filled and its account remains.\<close>

definition demo_history :: world where
  "demo_history = cus0\<lparr>w_spot := (w_spot cus0)\<lparr>ss_orders := [demo_order 1 \<mapsto>
     closed_order Filled (placed_order 100 demo_market 1 Ask 7 demo_level None 10 10 255)]\<rparr>\<rparr>"

lemma demo_reopen: "\<exists>w. initialize_market demo_rt demo_history demo_market_keys 1 1 = Inr w"
  by (simp add: demo_history_def demo_run)

theorem reopened_market_never_trades_witness:
  "\<exists>w. initialize_market demo_rt demo_history demo_market_keys 1 1 = Inr w \<and>
     (\<forall>ik side p q. ilk_market ik = demo_market \<longrightarrow>
        \<not> is_ok (insert_limit_order demo_rt (w_spot w) ik side p q))"
proof -
  obtain w where init: "initialize_market demo_rt demo_history demo_market_keys 1 1 = Inr w"
    using demo_reopen by blast
  have m: "im_market demo_market_keys = demo_market" by (simp add: demo_market_keys_def)
  have history: "ss_orders (w_spot demo_history) (address demo_rt (OrderPda (im_market demo_market_keys) 1)) \<noteq> None"
    by (simp add: m demo_addresses demo_history_def)
  have "reach (\<lambda>s. s = w_spot w) (\<lambda>s t. \<exists>e. spot_step demo_rt (im_market demo_market_keys) s e t) (w_spot w)"
    by (rule reach_init) simp
  from reopened_market_never_trades [OF init history this] init show ?thesis unfolding m by blast
qed

end
