(* ===== verification/Market_Metadata.thy ===== *)
theory Market_Metadata
  imports Custody
begin

text \<open>
  Presentation metadata of a market: \<open>market_metadata.rs\<close>. Labels are byte strings restricted to
  a bounded ASCII subset; the kind is chosen once. Prediction drafts write their own metadata
  (theory \<open>Prediction_Market\<close>) through the same label check.
\<close>

section \<open>Label validation\<close>

definition MARKET_SYMBOL_MAX_LENGTH :: nat where "MARKET_SYMBOL_MAX_LENGTH = 16"
definition MARKET_DISPLAY_NAME_MAX_LENGTH :: nat where "MARKET_DISPLAY_NAME_MAX_LENGTH = 64"

text \<open>Rust's \<open>u8::is_ascii_graphic\<close>, \<open>u8::is_ascii_alphanumeric\<close> and the ASCII part of
  \<open>char::is_whitespace\<close>. Whitespace beyond ASCII needs bytes that are not graphic, so a name that
  holds any is refused by the character test whatever \<open>trim\<close> makes of it.\<close>

definition is_ascii_graphic :: "u8 \<Rightarrow> bool" where
  "is_ascii_graphic c \<longleftrightarrow> 33 \<le> c \<and> c \<le> 126"

definition is_ascii_alphanumeric :: "u8 \<Rightarrow> bool" where
  "is_ascii_alphanumeric c \<longleftrightarrow> (48 \<le> c \<and> c \<le> 57) \<or> (65 \<le> c \<and> c \<le> 90) \<or> (97 \<le> c \<and> c \<le> 122)"

definition is_whitespace :: "u8 \<Rightarrow> bool" where
  "is_whitespace c \<longleftrightarrow> (9 \<le> c \<and> c \<le> 13) \<or> c = 32"

definition trim :: "bytes \<Rightarrow> bytes" where
  "trim s = rev (dropWhile is_whitespace (rev (dropWhile is_whitespace s)))"

definition valid_symbol :: "bytes \<Rightarrow> bool" where
  "valid_symbol symbol \<longleftrightarrow>
     symbol \<noteq> [] \<and> length symbol \<le> MARKET_SYMBOL_MAX_LENGTH \<and>
     list_all (\<lambda>c. is_ascii_alphanumeric c \<or> c = 46 \<or> c = 45 \<or> c = 95) symbol"

definition valid_display_name :: "bytes \<Rightarrow> bool" where
  "valid_display_name display_name \<longleftrightarrow>
     display_name \<noteq> [] \<and> length display_name \<le> MARKET_DISPLAY_NAME_MAX_LENGTH \<and>
     trim display_name = display_name \<and>
     list_all (\<lambda>c. c = 32 \<or> is_ascii_graphic c) display_name"

definition validate_labels :: "bytes \<Rightarrow> bytes \<Rightarrow> bytes \<Rightarrow> unit res" where
  "validate_labels base_symbol quote_symbol display_name =
     require (valid_symbol base_symbol) InvalidMarketSymbol
     (require (valid_symbol quote_symbol) InvalidMarketSymbol
     (require (valid_display_name display_name) InvalidMarketDisplayName
     (Inr ())))"

text \<open>A name is its own trim exactly when it neither starts nor ends with whitespace.\<close>

lemma dropWhile_fixed: "dropWhile P xs = xs \<longleftrightarrow> xs = [] \<or> \<not> P (hd xs)"
proof (cases xs)
  case (Cons x ys)
  have "length (dropWhile P ys) < length (x # ys)"
    using length_dropWhile_le [of P ys] by simp
  then have "dropWhile P ys \<noteq> x # ys" by (metis nat_neq_iff)
  then show ?thesis by (simp add: Cons)
qed simp

lemma trim_fixed: "trim s = s \<longleftrightarrow> s = [] \<or> (\<not> is_whitespace (hd s) \<and> \<not> is_whitespace (last s))"
proof
  assume fixed: "trim s = s"
  let ?d = "dropWhile is_whitespace s"
  have "length s \<le> length ?d"
    using arg_cong [OF fixed, of length] length_dropWhile_le [of is_whitespace "rev ?d"]
    by (simp add: trim_def)
  moreover have "s = takeWhile is_whitespace s @ ?d" by simp
  then have "length s = length (takeWhile is_whitespace s) + length ?d" by (metis length_append)
  ultimately have "length (takeWhile is_whitespace s) = 0" by linarith
  then have same: "?d = s" by (metis length_0_conv takeWhile_dropWhile_id append_Nil)
  then have "dropWhile is_whitespace (rev s) = rev s" using fixed by (metis rev_rev_ident trim_def)
  then show "s = [] \<or> (\<not> is_whitespace (hd s) \<and> \<not> is_whitespace (last s))"
    using same by (auto simp: dropWhile_fixed hd_rev)
next
  assume "s = [] \<or> (\<not> is_whitespace (hd s) \<and> \<not> is_whitespace (last s))"
  then have "dropWhile is_whitespace s = s" "dropWhile is_whitespace (rev s) = rev s"
    by (auto simp: dropWhile_fixed hd_rev)
  then show "trim s = s" by (simp add: trim_def)
qed

section \<open>The instructions\<close>

text \<open>The account constraint of every instruction an active administrator signs.\<close>

definition load_active_admin ::
  "runtime \<Rightarrow> world \<Rightarrow> pubkey \<Rightarrow> pubkey \<Rightarrow> 'a res \<Rightarrow> 'a res" where
  "load_active_admin rt w admin_key authority body =
     load (w_admins w) admin_key (\<lambda>admin_record.
     require (key admin_record = address rt (AdminPda authority)) ConstraintSeeds
     (require (adm_authority (inner admin_record) = authority) UnauthorizedAdmin
     (require (adm_status (inner admin_record) = AdminActive) AdminDisabled
     body)))"

definition active_admin :: "runtime \<Rightarrow> pubkey \<Rightarrow> world \<Rightarrow> bool" where
  "active_admin rt authority w \<longleftrightarrow>
     (\<exists>a. w_admins w (address rt (AdminPda authority)) = Some a \<and> adm_authority a = authority \<and>
        adm_status a = AdminActive)"

lemma load_active_admin_Inr [run_simps]:
  "load_active_admin rt w k authority body = Inr y \<longleftrightarrow>
     k = address rt (AdminPda authority) \<and> active_admin rt authority w \<and> body = Inr y"
  by (auto simp: load_active_admin_def active_admin_def load_Inr require_Inr)

record InitializeMarketMetadata =
  imm_authority :: pubkey
  imm_admin_record :: pubkey
  imm_market :: pubkey
  imm_market_metadata :: pubkey

definition initialize_market_metadata ::
  "runtime \<Rightarrow> world \<Rightarrow> InitializeMarketMetadata \<Rightarrow> bytes \<Rightarrow> bytes \<Rightarrow> bytes \<Rightarrow> MarketKind \<Rightarrow> world res" where
  "initialize_market_metadata rt w ks base_symbol quote_symbol display_name kind =
     load_active_admin rt w (imm_admin_record ks) (imm_authority ks)
     (load (ss_markets (w_spot w)) (imm_market ks) (\<lambda>market.
     require (imm_market_metadata ks = address rt (MarketMetadataPda (key market))) ConstraintSeeds
     (require (w_metadata w (imm_market_metadata ks) = None) AccountAlreadyInUse
     (try_in (validate_labels base_symbol quote_symbol display_name) (\<lambda>_.
     require (kind \<noteq> Prediction) PredictionMarketUnavailable
     (Inr (w\<lparr>w_metadata := (w_metadata w)(imm_market_metadata ks \<mapsto>
        \<lparr>md_market = key market, md_base_symbol = base_symbol, md_quote_symbol = quote_symbol,
         md_display_name = display_name, md_kind = kind,
         md_bump = snd (pda rt (MarketMetadataPda (key market)))\<rparr>)\<rparr>)))))))"

record UpdateMarketMetadata =
  umm_authority :: pubkey
  umm_admin_record :: pubkey
  umm_market :: pubkey
  umm_market_metadata :: pubkey

definition update_market_metadata ::
  "runtime \<Rightarrow> world \<Rightarrow> UpdateMarketMetadata \<Rightarrow> bytes \<Rightarrow> bytes \<Rightarrow> bytes \<Rightarrow> world res" where
  "update_market_metadata rt w ks base_symbol quote_symbol display_name =
     load_active_admin rt w (umm_admin_record ks) (umm_authority ks)
     (load (ss_markets (w_spot w)) (umm_market ks) (\<lambda>market.
     load (w_metadata w) (umm_market_metadata ks) (\<lambda>market_metadata.
     require (key market_metadata = address rt (MarketMetadataPda (key market))) ConstraintSeeds
     (require (md_market (inner market_metadata) = key market) MarketMetadataMismatch
     (try_in (validate_labels base_symbol quote_symbol display_name) (\<lambda>_.
     Inr (w\<lparr>w_metadata := save (upd_inner (\<lambda>md. md\<lparr>md_base_symbol := base_symbol,
        md_quote_symbol := quote_symbol, md_display_name := display_name\<rparr>) market_metadata)
        (w_metadata w)\<rparr>)))))))"

record CloseMarketMetadata =
  cmm_authority :: pubkey
  cmm_market :: pubkey
  cmm_market_metadata :: pubkey

definition close_market_metadata :: "runtime \<Rightarrow> world \<Rightarrow> CloseMarketMetadata \<Rightarrow> world res" where
  "close_market_metadata rt w ks =
     load (ss_markets (w_spot w)) (cmm_market ks) (\<lambda>market.
     require (mkt_authority (inner market) = cmm_authority ks) Unauthorized
     (require (mkt_status (inner market) = MarketPausedStatus) MarketMustBePaused
     (load (w_metadata w) (cmm_market_metadata ks) (\<lambda>market_metadata.
     require (key market_metadata = address rt (MarketMetadataPda (key market))) ConstraintSeeds
     (require (md_market (inner market_metadata) = key market) MarketMetadataMismatch
     (Inr (w\<lparr>w_metadata := (w_metadata w)(key market_metadata := None)\<rparr>)))))))"

end
