(* ===== verification/Prediction_Config.thy ===== *)
theory Prediction_Config
  imports Market_Metadata
begin

text \<open>
  The creation terms of a prediction market and their validation, \<open>prediction_config.rs\<close>. The
  checker is shown equal to a declarative reading of the terms, and the terms it accepts keep
  every later timestamp and price computation in range.
\<close>

section \<open>The terms\<close>

record PredictionMarketConfig =
  pc_resolver :: pubkey
  pc_fallback :: "PredictionFallback option"
  pc_close_ts :: i64
  pc_earliest_resolution_ts :: "i64 option"
  pc_resolution_delay_seconds :: u64
  pc_payout_per_contract :: u64
  pc_price_tick :: u64
  pc_rules_uri :: bytes
  pc_question_hash :: hash32
  pc_rules_hash :: hash32

definition PREDICTION_URI_MAX_LENGTH :: nat where "PREDICTION_URI_MAX_LENGTH = 200"

text \<open>\<open>uri.strip_prefix("ar://").or_else(|| uri.strip_prefix("https://"))\<close>.\<close>

definition uri_target :: "bytes \<Rightarrow> bytes option" where
  "uri_target uri =
     (case strip_prefix (ascii ''ar://'') uri of
        Some t \<Rightarrow> Some t
      | None \<Rightarrow> strip_prefix (ascii ''https://'') uri)"

definition rules_uri_ok :: "bytes \<Rightarrow> bool" where
  "rules_uri_ok uri \<longleftrightarrow>
     length uri \<le> PREDICTION_URI_MAX_LENGTH \<and> list_all is_ascii_graphic uri \<and>
     (case uri_target uri of
        None \<Rightarrow> False
      | Some t \<Rightarrow> t \<noteq> [] \<and> hd t \<notin> {47, 63, 35})"

text \<open>\<open>close_ts\<close> stands in when no earliest resolution time was agreed.\<close>

definition effective_earliest :: "i64 \<Rightarrow> i64 option \<Rightarrow> i64" where
  "effective_earliest close_ts earliest = (case earliest of None \<Rightarrow> close_ts | Some e \<Rightarrow> e)"

definition validate_fallback ::
  "pubkey \<Rightarrow> i64 \<Rightarrow> i64 \<Rightarrow> PredictionFallback \<Rightarrow> unit res" where
  "validate_fallback resolver earliest delay fallback =
     require (fb_resolver fallback \<noteq> default_key \<and> fb_resolver fallback \<noteq> resolver)
       InvalidPredictionResolver
     (require (ilt earliest (fb_available_ts fallback)) InvalidPredictionFallback
     (ok_or (checked_add_i64 (fb_available_ts fallback) delay) PredictionTimestampOverflow (\<lambda>_.
     case fb_deadline_ts fallback of
       None \<Rightarrow> Inr ()
     | Some deadline \<Rightarrow>
         require (ilt (fb_available_ts fallback) deadline) InvalidPredictionFallback
         (ok_or (checked_sub_i64 deadline 1) PredictionTimestampOverflow (\<lambda>latest_proposal.
         ok_or (checked_add_i64 latest_proposal delay) PredictionTimestampOverflow (\<lambda>_.
         Inr ()))))))"

definition validate_prediction_market_config :: "PredictionMarketConfig \<Rightarrow> i64 \<Rightarrow> unit res" where
  "validate_prediction_market_config config now =
     require (ilt now (pc_close_ts config)) InvalidPredictionCloseTime
     (let earliest = effective_earliest (pc_close_ts config) (pc_earliest_resolution_ts config) in
      require (ile (pc_close_ts config) earliest) InvalidPredictionResolutionTime
     (require (pc_resolver config \<noteq> default_key) InvalidPredictionResolver
     (ok_or (i64_try_from (pc_resolution_delay_seconds config)) InvalidPredictionResolutionDelay
       (\<lambda>delay.
      require (ilt 0 delay) InvalidPredictionResolutionDelay
     (ok_or (checked_add_i64 earliest delay) PredictionTimestampOverflow (\<lambda>_.
      try_in (case pc_fallback config of
          None \<Rightarrow> Inr ()
        | Some fallback \<Rightarrow> validate_fallback (pc_resolver config) earliest delay fallback) (\<lambda>_.
      require (0 < pc_payout_per_contract config \<and> is_multiple_of (pc_payout_per_contract config) 2)
        InvalidPredictionPayout
     (require (0 < pc_price_tick config \<and> pc_price_tick config < pc_payout_per_contract config \<and>
          is_multiple_of (pc_payout_per_contract config) (pc_price_tick config))
        InvalidPredictionPriceTick
     (require (rules_uri_ok (pc_rules_uri config)) InvalidPredictionRulesUri
     (require (pc_question_hash config \<noteq> 0 \<and> pc_rules_hash config \<noteq> 0) InvalidPredictionRulesHash
     (Inr ())))))))))))"

section \<open>What the terms mean\<close>

text \<open>The same conditions over integers and byte strings, without a rank among the errors.\<close>

definition fallback_terms :: "pubkey \<Rightarrow> int \<Rightarrow> int \<Rightarrow> PredictionFallback \<Rightarrow> bool" where
  "fallback_terms resolver earliest delay f \<longleftrightarrow>
     fb_resolver f \<noteq> default_key \<and> fb_resolver f \<noteq> resolver \<and>
     earliest < sint (fb_available_ts f) \<and> sint (fb_available_ts f) + delay < 2 ^ 63 \<and>
     (\<forall>d. fb_deadline_ts f = Some d \<longrightarrow>
        sint (fb_available_ts f) < sint d \<and> sint d - 1 + delay < 2 ^ 63)"

definition uri_terms :: "bytes \<Rightarrow> bool" where
  "uri_terms uri \<longleftrightarrow>
     (\<exists>scheme\<in>{ascii ''ar://'', ascii ''https://''}. \<exists>c rest. uri = scheme @ c # rest \<and>
        c \<noteq> 47 \<and> c \<noteq> 63 \<and> c \<noteq> 35) \<and>
     length uri \<le> 200 \<and> (\<forall>c\<in>set uri. 33 \<le> c \<and> c \<le> 126)"

definition config_terms :: "PredictionMarketConfig \<Rightarrow> int \<Rightarrow> bool" where
  "config_terms c now \<longleftrightarrow>
     (let earliest = sint (effective_earliest (pc_close_ts c) (pc_earliest_resolution_ts c));
          delay = int (unat (pc_resolution_delay_seconds c)) in
      now < sint (pc_close_ts c) \<and> sint (pc_close_ts c) \<le> earliest \<and> pc_resolver c \<noteq> default_key \<and>
      0 < delay \<and> delay < 2 ^ 63 \<and> earliest + delay < 2 ^ 63 \<and>
      (\<forall>f. pc_fallback c = Some f \<longrightarrow> fallback_terms (pc_resolver c) earliest delay f) \<and>
      0 < pc_payout_per_contract c \<and> even (unat (pc_payout_per_contract c)) \<and>
      0 < pc_price_tick c \<and> pc_price_tick c < pc_payout_per_contract c \<and>
      unat (pc_price_tick c) dvd unat (pc_payout_per_contract c) \<and>
      uri_terms (pc_rules_uri c) \<and> pc_question_hash c \<noteq> 0 \<and> pc_rules_hash c \<noteq> 0)"

lemma schemes_differ: "ascii ''ar://'' @ t \<noteq> ascii ''https://'' @ t'"
  using ascii_prefix [of "''ar://''" t "''https://''" t'] by auto

lemma uri_target_Some:
  "uri_target uri = Some t \<longleftrightarrow> uri = ascii ''ar://'' @ t \<or> uri = ascii ''https://'' @ t"
proof (cases "strip_prefix (ascii ''ar://'') uri")
  case None
  then have "\<forall>t. uri \<noteq> ascii ''ar://'' @ t" by (rule strip_prefix_None [THEN iffD1])
  with None show ?thesis unfolding uri_target_def by (simp add: strip_prefix_Some)
next
  case (Some u)
  then have "uri = ascii ''ar://'' @ u" by (simp add: strip_prefix_Some)
  then show ?thesis using Some schemes_differ by (auto simp: uri_target_def)
qed

lemma rules_uri_ok_terms: "rules_uri_ok uri \<longleftrightarrow> uri_terms uri"
proof -
  have "(case uri_target uri of None \<Rightarrow> False | Some t \<Rightarrow> t \<noteq> [] \<and> hd t \<notin> {47, 63, 35}) \<longleftrightarrow>
      (\<exists>c rest. uri_target uri = Some (c # rest) \<and> c \<noteq> 47 \<and> c \<noteq> 63 \<and> c \<noteq> 35)"
    by (auto simp: neq_Nil_conv split: option.splits)
  then show ?thesis
    unfolding rules_uri_ok_def uri_terms_def uri_target_Some PREDICTION_URI_MAX_LENGTH_def
    by (auto simp: list_all_iff is_ascii_graphic_def)
qed

lemma validate_fallback_Inr [run_simps]:
  assumes "in_i64 delay" "sint d = delay" "0 < delay"
  shows "validate_fallback resolver e d f = Inr u \<longleftrightarrow> fallback_terms resolver (sint e) delay f"
proof -
  have add: "(\<exists>c. checked_add_i64 x d = Some c) \<longleftrightarrow> sint x + delay < 2 ^ 63" for x
    using assms sint_i64_bounds [of x] by (auto simp: checked_add_i64_def in_i64_def)
  have last: "(\<exists>c. checked_sub_i64 x 1 = Some c \<and> (\<exists>c'. checked_add_i64 c d = Some c')) \<longleftrightarrow>
      sint x - 1 + delay < 2 ^ 63" if "sint y < sint x" for x y :: i64
  proof -
    have "in_i64 (sint x - 1)" using sint_i64_bounds [of x] sint_i64_bounds [of y] that by (simp add: in_i64_def)
    then have "checked_sub_i64 x 1 = Some (x - 1)" by (simp add: checked_sub_i64_def)
    moreover from this have "sint (x - 1) = sint x - 1" by (simp only: checked_sub_i64_Some) simp
    ultimately show ?thesis using add [of "x - 1"] by (simp only: option.inject) auto
  qed
  show ?thesis
  proof (cases "fb_deadline_ts f")
    case None
    then show ?thesis using add [of "fb_available_ts f"]
      by (auto simp: validate_fallback_def fallback_terms_def run_simps ilt_def)
  next
    case (Some dl)
    show ?thesis
      unfolding validate_fallback_def fallback_terms_def Some option.case run_simps ilt_def
      using add [of "fb_available_ts f"] last [of "fb_available_ts f" dl] by auto
  qed
qed

lemma sum_unit: "(\<exists>u. r = Inr u) \<longleftrightarrow> r = Inr ()"
  by simp

lemma ex_unit: "(\<exists>u :: unit. P u) \<longleftrightarrow> P ()"
  by (metis old.unit.exhaust)

lemma validate_config_iff:
  "validate_prediction_market_config c now = Inr () \<longleftrightarrow> config_terms c (sint now)"
proof (cases "0 < unat (pc_resolution_delay_seconds c) \<and> unat (pc_resolution_delay_seconds c) < 2 ^ 63")
  case False
  then consider "pc_resolution_delay_seconds c = 0" | "\<not> unat (pc_resolution_delay_seconds c) < 2 ^ 63"
    by (auto simp: unat_eq_zero)
  then show ?thesis
  proof cases
    case 1
    then show ?thesis
      by (auto simp: validate_prediction_market_config_def config_terms_def run_simps Let_def ilt_def
          i64_try_from_Some)
  next
    case 2
    then have "\<not> int (unat (pc_resolution_delay_seconds c)) < int (2 ^ 63)" by (simp only: of_nat_less_iff not_False_eq_True)
    with 2 show ?thesis
      by (auto simp: validate_prediction_market_config_def config_terms_def run_simps Let_def
          i64_try_from_Some simp del: checked_add_i64_Some)
  qed
next
  case True
  let ?delay = "pc_resolution_delay_seconds c" and ?d = "int (unat (pc_resolution_delay_seconds c))"
  let ?e = "effective_earliest (pc_close_ts c) (pc_earliest_resolution_ts c)"
  have "int (unat ?delay) < int (2 ^ 63)" using True by (simp only: of_nat_less_iff)
  then have small: "?d < 2 ^ 63" by simp
  have pos: "0 < ?d" using True by (simp only: of_nat_0_less_iff)
  have "in_i64 ?d" unfolding in_i64_def using small pos by linarith
  with small pos have d: "sint ?delay = ?d" "in_i64 ?d" "0 < ?d" "?d < 2 ^ 63"
    using True sint_of_small_unat [of ?delay] by blast+
  have sum: "(\<exists>x. checked_add_i64 ?e ?delay = Some x) \<longleftrightarrow> sint ?e + ?d < 2 ^ 63"
    using d sint_i64_bounds [of ?e] by (auto simp: checked_add_i64_def in_i64_def)
  have fb: "(case pc_fallback c of None \<Rightarrow> Inr () | Some f \<Rightarrow> validate_fallback (pc_resolver c) ?e ?delay f) = Inr () \<longleftrightarrow>
      (\<forall>f. pc_fallback c = Some f \<longrightarrow> fallback_terms (pc_resolver c) (sint ?e) ?d f)"
    by (cases "pc_fallback c") (simp_all add: validate_fallback_Inr [OF d(2,1,3)])
  show ?thesis
    unfolding validate_prediction_market_config_def config_terms_def Let_def run_simps sum_unit
      i64_try_from_Some ilt_def ile_def rules_uri_ok_terms is_multiple_of_iff
    using True d sum fb by (auto simp del: checked_add_i64_Some)
qed

text \<open>C26: The creation-time check is the published terms. \<open>validate_prediction_market_config\<close> accepts
  at time \<open>now\<close> exactly the configurations where: trading closes after \<open>now\<close> and no later than the earliest
  resolution time; the resolver is set; the delay is positive and fits \<open>i64\<close>, and so does the earliest time
  plus the delay; a fallback, if any, has a resolver that is set and is not the primary one, opens after the
  earliest time, with that opening plus the delay in \<open>i64\<close>, and has no deadline or one after its opening such that the
  last second before it plus the delay fits \<open>i64\<close>; the payout is positive, even and a multiple of
  a positive smaller tick; the rules URI is at most 200 printable ASCII bytes, \<open>ar://\<close> or \<open>https://\<close> followed by a
  target that does not begin with a slash, a question mark or a hash; and both hashes are set.\<close>

theorem config_check_is_terms:
  "validate_prediction_market_config c now = Inr () \<longleftrightarrow> config_terms c (sint now)"
  by (rule validate_config_iff)


text \<open>Accepted terms keep later arithmetic in range. Under terms the check accepts: a price on
  the grid inside the payout has its complement on the grid inside the payout; half a payout is
  exact; and when the fallback has a deadline, no proposal made inside the proposal window (from
  the earliest time to just before the deadline) has a maturity outside \<open>i64\<close>.\<close>

theorem accepted_terms_in_range:
  assumes ok: "validate_prediction_market_config c now = Inr ()"
  shows "(\<forall>p. is_multiple_of p (pc_price_tick c) \<and> 0 < p \<and> p < pc_payout_per_contract c \<longrightarrow>
      is_multiple_of (pc_payout_per_contract c - p) (pc_price_tick c) \<and>
      0 < pc_payout_per_contract c - p \<and> pc_payout_per_contract c - p < pc_payout_per_contract c) \<and>
    2 * (unat (pc_payout_per_contract c) div 2) = unat (pc_payout_per_contract c) \<and>
    (\<forall>f d t. pc_fallback c = Some f \<longrightarrow> fb_deadline_ts f = Some d \<longrightarrow>
      ile (effective_earliest (pc_close_ts c) (pc_earliest_resolution_ts c)) t \<longrightarrow> ilt t d \<longrightarrow>
      checked_add_i64 t (pc_resolution_delay_seconds c) \<noteq> None)"
proof -
  have terms: "config_terms c (sint now)" using ok by (rule validate_config_iff [THEN iffD1])
  let ?P = "pc_payout_per_contract c" and ?t = "pc_price_tick c" and ?delay = "pc_resolution_delay_seconds c"
  have grid: "unat ?t dvd unat ?P" "even (unat ?P)"
    using terms by (simp_all add: config_terms_def Let_def)
  have prices: "is_multiple_of (?P - p) ?t \<and> 0 < ?P - p \<and> ?P - p < ?P"
    if "is_multiple_of p ?t" "0 < p" "p < ?P" for p
  proof -
    have sub: "unat (?P - p) = unat ?P - unat p" using that(3) by (simp add: unat_sub word_le_nat_alt word_less_nat_alt)
    have pos: "0 < unat p" "unat p < unat ?P" using that by (simp_all add: word_less_nat_alt)
    with sub grid(1) that(1) show ?thesis
      by (simp add: is_multiple_of_iff word_less_nat_alt dvd_diff_nat)
  qed
  have times: "checked_add_i64 t ?delay \<noteq> None"
    if "pc_fallback c = Some f" "fb_deadline_ts f = Some d"
      "ile (effective_earliest (pc_close_ts c) (pc_earliest_resolution_ts c)) t" "ilt t d" for f d t
  proof -
    have small: "0 < int (unat ?delay)" "int (unat ?delay) < 2 ^ 63" "sint d - 1 + int (unat ?delay) < 2 ^ 63"
      using terms that by (simp_all only: config_terms_def Let_def fallback_terms_def)
    have "int (unat ?delay) < int (2 ^ 63)" using small(2) by simp
    then have "sint ?delay = int (unat ?delay)" by (intro sint_of_small_unat) (simp only: of_nat_less_iff)
    with small that(4) sint_i64_bounds [of t] show ?thesis
      unfolding checked_add_i64_def in_i64_def ilt_def by simp
  qed
  show ?thesis using prices grid(2) times by (simp add: dvd_mult_div_cancel)
qed

end
