(* ===== verification/Prediction_Market.thy ===== *)
theory Prediction_Market
  imports Prediction_Config
begin

text \<open>
  Creation and opening of prediction markets and positions: \<open>initialize_prediction_market.rs\<close>,
  \<open>open_prediction_market.rs\<close>, \<open>initialize_prediction_position.rs\<close>; and what every metadata
  record looks like, whichever initializer wrote it.
\<close>

section \<open>Creation\<close>

record InitializePredictionMarket =
  ipm_authority :: pubkey
  ipm_admin_record :: pubkey
  ipm_market :: pubkey
  ipm_collateral_mint :: pubkey
  ipm_vault_authority :: pubkey
  ipm_collateral_vault :: pubkey
  ipm_market_metadata :: pubkey
  ipm_market_fees :: pubkey
  ipm_order_book :: pubkey

text \<open>The record \<open>market.set_inner\<close> writes.\<close>

definition new_prediction_market ::
  "InitializePredictionMarket \<Rightarrow> hash32 \<Rightarrow> PredictionMarketConfig \<Rightarrow> u8 \<Rightarrow> PredictionMarket" where
  "new_prediction_market ks market_id config bump =
     \<lparr>pm_market_id = market_id, pm_authority = ipm_authority ks, pm_resolver = pc_resolver config,
      pm_fallback = pc_fallback config, pm_collateral_mint = ipm_collateral_mint ks,
      pm_collateral_vault = ipm_collateral_vault ks, pm_metadata = ipm_market_metadata ks,
      pm_question_hash = pc_question_hash config, pm_rules_hash = pc_rules_hash config,
      pm_rules_uri = pc_rules_uri config, pm_close_ts = pc_close_ts config,
      pm_earliest_resolution_ts = pc_earliest_resolution_ts config,
      pm_resolution_delay_seconds = pc_resolution_delay_seconds config,
      pm_resolution_phase = Primary, pm_status = Draft, pm_proposal = None,
      pm_final_outcome = None, pm_payout_per_contract = pc_payout_per_contract config,
      pm_price_tick = pc_price_tick config, pm_yes_supply = 0, pm_no_supply = 0,
      pm_backing_reserve = 0, pm_open_order_count = 0, pm_bump = bump\<rparr>"

definition initialize_prediction_market ::
  "runtime \<Rightarrow> world \<Rightarrow> InitializePredictionMarket \<Rightarrow> hash32 \<Rightarrow> PredictionMarketConfig \<Rightarrow> bytes \<Rightarrow>
     bytes \<Rightarrow> world res" where
  "initialize_prediction_market rt w ks market_id config display_name collateral_symbol =
     (let m = ipm_market ks; st = w_spot w in
      load_active_admin rt w (ipm_admin_record ks) (ipm_authority ks)
     (require (m = address rt (PredictionMarketPda market_id)) ConstraintSeeds
     (require (w_predictions w m = None) AccountAlreadyInUse
     (load (w_mints w) (ipm_collateral_mint ks) (\<lambda>collateral_mint.
      require (ipm_vault_authority ks = address rt (VaultAuthorityPda m)) ConstraintSeeds
     (require (ipm_collateral_vault ks = vault rt m (key collateral_mint)) ConstraintSeeds
     (require (w_tokens w (ipm_collateral_vault ks) = None) AccountAlreadyInUse
     (require (ipm_market_metadata ks = address rt (MarketMetadataPda m)) ConstraintSeeds
     (require (w_metadata w (ipm_market_metadata ks) = None) AccountAlreadyInUse
     (require (ipm_market_fees ks = address rt (MarketFeesPda m)) ConstraintSeeds
     (require (ss_fees st (ipm_market_fees ks) = None) AccountAlreadyInUse
     (require (ipm_order_book ks = address rt (PredictionBookPda m)) ConstraintSeeds
     (require (w_prediction_books w (ipm_order_book ks) = None) AccountAlreadyInUse
     (try_in (validate_prediction_market_config config (unix_timestamp rt)) (\<lambda>_.
      require (pc_resolver config = ipm_authority ks) PredictionCreatorMustResolve
     (try_in (validate_labels (ascii ''YES-NO'') collateral_symbol display_name) (\<lambda>_.
      ok_or (checked_pow 10 (unat (mint_decimals (inner collateral_mint)))) InvalidPredictionPayout
       (\<lambda>expected_payout.
      require (pc_payout_per_contract config = expected_payout) InvalidPredictionPayout
     (Inr (w\<lparr>
        w_predictions := (w_predictions w)(m \<mapsto>
          new_prediction_market ks market_id config (snd (pda rt (PredictionMarketPda market_id)))),
        w_metadata := (w_metadata w)(ipm_market_metadata ks \<mapsto>
          \<lparr>md_market = m, md_base_symbol = ascii ''YES-NO'', md_quote_symbol = collateral_symbol,
           md_display_name = display_name, md_kind = Prediction,
           md_bump = snd (pda rt (MarketMetadataPda m))\<rparr>),
        w_spot := st\<lparr>ss_fees := (ss_fees st)(ipm_market_fees ks \<mapsto>
          \<lparr>mf_market = m, mf_quote_mint = key collateral_mint, mf_accrued_quote_fees = 0,
           mf_bump = snd (pda rt (MarketFeesPda m))\<rparr>)\<rparr>,
        w_prediction_books := (w_prediction_books w)(ipm_order_book ks \<mapsto>
          \<lparr>pob_market = m, pob_next_order_id = 1, pob_yes_best_bid = None, pob_yes_best_ask = None,
           pob_no_best_bid = None, pob_no_best_ask = None,
           pob_bump = snd (pda rt (PredictionBookPda m))\<rparr>),
        w_tokens := (w_tokens w)(ipm_collateral_vault ks \<mapsto>
          new_token_account (key collateral_mint) (ipm_vault_authority ks))\<rparr>))))))))))))))))))))"

text \<open>\<open>seeds = [PREDICTION_MARKET_SEED, market.market_id.as_ref()]\<close>, the constraint under which
  every later instruction receives the market.\<close>

definition load_prediction ::
  "runtime \<Rightarrow> world \<Rightarrow> pubkey \<Rightarrow> (PredictionMarket account \<Rightarrow> 'a res) \<Rightarrow> 'a res" where
  "load_prediction rt w k body =
     load (w_predictions w) k (\<lambda>market.
     require (key market = address rt (PredictionMarketPda (pm_market_id (inner market)))) ConstraintSeeds
     (body market))"

lemma load_prediction_Inr [run_simps]:
  "load_prediction rt w k body = Inr y \<longleftrightarrow>
     (\<exists>m. w_predictions w k = Some m \<and> k = address rt (PredictionMarketPda (pm_market_id m)) \<and>
        body (Account k m) = Inr y)"
  by (simp add: load_prediction_def load_Inr require_Inr)

definition put_prediction :: "pubkey \<Rightarrow> PredictionMarket \<Rightarrow> world \<Rightarrow> world" where
  "put_prediction k m w = w\<lparr>w_predictions := (w_predictions w)(k \<mapsto> m)\<rparr>"

record InitializePredictionPosition =
  ipp_owner :: pubkey
  ipp_market :: pubkey
  ipp_position :: pubkey

definition initialize_prediction_position ::
  "runtime \<Rightarrow> world \<Rightarrow> InitializePredictionPosition \<Rightarrow> world res" where
  "initialize_prediction_position rt w ks =
     load_prediction rt w (ipp_market ks) (\<lambda>market.
     require (ipp_position ks = address rt (PredictionPositionPda (key market) (ipp_owner ks)))
       ConstraintSeeds
     (require (w_positions w (ipp_position ks) = None) AccountAlreadyInUse
     (Inr (w\<lparr>w_positions := (w_positions w)(ipp_position ks \<mapsto>
        \<lparr>pos_market = key market, pos_owner = ipp_owner ks, pos_collateral_free = 0,
         pos_collateral_locked = 0, pos_yes_free = 0, pos_yes_locked = 0, pos_no_free = 0,
         pos_no_locked = 0,
         pos_bump = snd (pda rt (PredictionPositionPda (key market) (ipp_owner ks)))\<rparr>)\<rparr>))))"

record OpenPredictionMarket =
  opm_authority :: pubkey
  opm_market :: pubkey
  opm_admin_record :: pubkey

definition open_prediction_market :: "runtime \<Rightarrow> world \<Rightarrow> OpenPredictionMarket \<Rightarrow> world res" where
  "open_prediction_market rt w ks =
     load_prediction rt w (opm_market ks) (\<lambda>market.
     require (pm_authority (inner market) = opm_authority ks) UnauthorizedPredictionAuthority
     (require (pm_resolver (inner market) = opm_authority ks) PredictionCreatorMustResolve
     (load_active_admin rt w (opm_admin_record ks) (opm_authority ks)
     (require (pm_status (inner market) = Draft) PredictionNotDraft
     (require (ilt (unix_timestamp rt) (pm_close_ts (inner market))) PredictionOpeningClosed
     (Inr (put_prediction (key market) ((inner market)\<lparr>pm_status := OpenTrading\<rparr>) w)))))))"

section \<open>What a successful creation did\<close>

lemma initialize_prediction_ok:
  assumes "initialize_prediction_market rt w ks market_id config name symbol = Inr w'"
  obtains b where
    "ipm_market ks = address rt (PredictionMarketPda market_id)" "w_predictions w (ipm_market ks) = None"
    "validate_prediction_market_config config (unix_timestamp rt) = Inr ()"
    "pc_resolver config = ipm_authority ks" "active_admin rt (ipm_authority ks) w"
    "validate_labels (ascii ''YES-NO'') symbol name = Inr ()"
    "ipm_market_metadata ks = address rt (MarketMetadataPda (ipm_market ks))"
    "w_metadata w (ipm_market_metadata ks) = None"
    "ipm_collateral_vault ks = vault rt (ipm_market ks) (ipm_collateral_mint ks)"
    "w_predictions w' = (w_predictions w)(ipm_market ks \<mapsto> new_prediction_market ks market_id config b)"
    "w_positions w' = w_positions w" "w_prediction_orders w' = w_prediction_orders w"
    "w_prediction_levels w' = w_prediction_levels w"
    "w_metadata w' = (w_metadata w)(ipm_market_metadata ks \<mapsto>
       \<lparr>md_market = ipm_market ks, md_base_symbol = ascii ''YES-NO'', md_quote_symbol = symbol,
        md_display_name = name, md_kind = Prediction,
        md_bump = snd (pda rt (MarketMetadataPda (ipm_market ks)))\<rparr>)"
    "w_tokens w' = (w_tokens w)(ipm_collateral_vault ks \<mapsto>
       new_token_account (ipm_collateral_mint ks) (address rt (VaultAuthorityPda (ipm_market ks))))"
    "\<exists>dm. w_mints w (ipm_collateral_mint ks) = Some dm \<and>
       unat (pc_payout_per_contract config) = 10 ^ unat (mint_decimals dm)"
    "accrued_fees rt (ipm_market ks) (w_spot w') = 0"
  using assms unfolding initialize_prediction_market_def Let_def run_simps account.sel sum.inject
  by (elim exE conjE) (auto simp: accrued_fees_def)

section \<open>Every metadata record\<close>

text \<open>The record sits at the address of the market it names; its labels passed the check.\<close>

definition labels_ok :: "MarketMetadata \<Rightarrow> bool" where
  "labels_ok md \<longleftrightarrow> valid_symbol (md_base_symbol md) \<and> valid_symbol (md_quote_symbol md) \<and>
     valid_display_name (md_display_name md)"

definition metadata_wf :: "runtime \<Rightarrow> world \<Rightarrow> bool" where
  "metadata_wf rt w \<longleftrightarrow> (\<forall>k md. w_metadata w k = Some md \<longrightarrow>
     k = address rt (MarketMetadataPda (md_market md)) \<and> labels_ok md)"

inductive metadata_step :: "runtime \<Rightarrow> world \<Rightarrow> world \<Rightarrow> bool" for rt where
  ms_init: "initialize_market_metadata rt w iks b q d kind = Inr w' \<Longrightarrow> metadata_step rt w w'"
| ms_update: "update_market_metadata rt w uks b q d = Inr w' \<Longrightarrow> metadata_step rt w w'"
| ms_close: "close_market_metadata rt w cks = Inr w' \<Longrightarrow> metadata_step rt w w'"
| ms_predict: "initialize_prediction_market rt w pks market_id config name symbol = Inr w' \<Longrightarrow>
    metadata_step rt w w'"
| ms_other: "w_metadata w' = w_metadata w \<Longrightarrow> metadata_step rt w w'"

lemma validate_labels_Inr [run_simps]:
  "validate_labels b q d = Inr u \<longleftrightarrow> valid_symbol b \<and> valid_symbol q \<and> valid_display_name d"
  by (simp add: validate_labels_def require_Inr)

lemma metadata_step_wf: "metadata_step rt w w' \<Longrightarrow> metadata_wf rt w \<Longrightarrow> metadata_wf rt w'"
proof (induction rule: metadata_step.induct)
  case (ms_predict w pks market_id config name symbol w')
  show ?case
    by (rule initialize_prediction_ok [OF ms_predict(1)])
      (use ms_predict(2) in \<open>auto simp: metadata_wf_def labels_ok_def run_simps\<close>)
qed (auto simp: initialize_market_metadata_def update_market_metadata_def close_market_metadata_def
      run_simps save_def metadata_wf_def labels_ok_def split: if_splits)

interpretation metadata: transition_invariant "\<lambda>w. w_metadata w = Map.empty" "metadata_step rt" "metadata_wf rt" for rt
  by unfold_locales (simp add: metadata_wf_def, rule metadata_step_wf)

text \<open>A printable name: no byte outside the ASCII range from space to tilde, no space at an edge.\<close>

definition printable_name :: "bytes \<Rightarrow> bool" where
  "printable_name s \<longleftrightarrow> s \<noteq> [] \<and> length s \<le> 64 \<and> hd s \<noteq> 32 \<and> last s \<noteq> 32 \<and> (\<forall>c\<in>set s. 32 \<le> c \<and> c \<le> 126)"

lemma ascii_graphic_not_space: "is_ascii_graphic c \<Longrightarrow> 32 \<le> c \<and> c \<le> 126 \<and> \<not> is_whitespace c"
  by (auto simp: is_ascii_graphic_def is_whitespace_def word_le_nat_alt)

lemma valid_display_name_printable: "valid_display_name s \<longleftrightarrow> printable_name s"
proof -
  have ws: "is_whitespace c \<longleftrightarrow> c = 32" if "c = 32 \<or> is_ascii_graphic c" for c
    using that ascii_graphic_not_space [of c] by (auto simp: is_whitespace_def)
  have chars: "c = 32 \<or> is_ascii_graphic c \<longleftrightarrow> 32 \<le> c \<and> c \<le> 126" for c :: u8
    by (auto simp: is_ascii_graphic_def word_le_nat_alt word_unat_eq_iff)
  show ?thesis
    unfolding valid_display_name_def printable_name_def trim_fixed MARKET_DISPLAY_NAME_MAX_LENGTH_def
      list_all_iff chars
    using ws chars by (metis hd_in_set last_in_set)
qed


lemma metadata_step_keeps:
  "metadata_step rt w w' \<Longrightarrow> w_metadata w k = Some md \<Longrightarrow> w_metadata w' k = Some md' \<Longrightarrow>
     md_kind md' = md_kind md \<and> md_market md' = md_market md"
proof (induction rule: metadata_step.induct)
  case (ms_predict w pks market_id config name symbol w')
  show ?case
    by (rule initialize_prediction_ok [OF ms_predict(1)])
      (use ms_predict(2,3) in \<open>auto split: if_splits\<close>)
qed (auto simp: initialize_market_metadata_def update_market_metadata_def close_market_metadata_def
      run_simps save_def split: if_splits)

text \<open>C27: Labels are printable and the kind is chosen once. Whatever sequence of metadata
  instructions (spot or prediction initializer, updates, closures) ran, every record is stored at
  the address derived from the market it names, its symbols are nonempty and at most 16 bytes,
  its name is printable ASCII without spaces at the edges; and no later instruction changes the
  kind or the market of a record.\<close>

theorem metadata_labels_and_kind:
  assumes "reach (\<lambda>w. w_metadata w = Map.empty) (metadata_step rt) w"
    and "w_metadata w k = Some md"
  shows "k = address rt (MarketMetadataPda (md_market md)) \<and> printable_name (md_display_name md) \<and>
    (\<forall>s\<in>{md_base_symbol md, md_quote_symbol md}. s \<noteq> [] \<and> length s \<le> 16) \<and>
    (\<forall>w' md'. metadata_step rt w w' \<longrightarrow> w_metadata w' k = Some md' \<longrightarrow>
       md_kind md' = md_kind md \<and> md_market md' = md_market md)"
proof -
  have "metadata_wf rt w" by (rule metadata.reach_inv [OF assms(1)])
  with assms(2) have wf: "k = address rt (MarketMetadataPda (md_market md))" "labels_ok md"
    by (auto simp: metadata_wf_def)
  have labels: "printable_name (md_display_name md)"
    "\<forall>s\<in>{md_base_symbol md, md_quote_symbol md}. s \<noteq> [] \<and> length s \<le> 16"
    using wf(2) by (simp_all add: labels_ok_def valid_display_name_printable valid_symbol_def
        MARKET_SYMBOL_MAX_LENGTH_def)
  show ?thesis
    using wf(1) labels metadata_step_keeps [OF _ assms(2)] by blast
qed

end
