(* ===== verification/Prediction_Resolution.thy ===== *)
theory Prediction_Resolution
  imports Prediction_Market
begin

text \<open>
  The lifecycle of a prediction market: \<open>prediction_resolution.rs\<close>, together with creation and
  opening, as a state machine over the accounts and the chain clock.
\<close>

section \<open>The instructions\<close>

record ResolvePrediction =
  rp_resolver :: pubkey
  rp_market :: pubkey
  rp_admin_record :: pubkey

record AdvancePrediction =
  ap_market :: pubkey

definition is_none_or :: "('a \<Rightarrow> bool) \<Rightarrow> 'a option \<Rightarrow> bool" where
  "is_none_or P x = (case x of None \<Rightarrow> True | Some a \<Rightarrow> P a)"

definition resolver_window :: "PredictionMarket \<Rightarrow> pubkey \<Rightarrow> i64 \<Rightarrow> unit res" where
  "resolver_window m signer now =
     require (ile (pm_close_ts m) now \<and>
         ile (effective_earliest (pm_close_ts m) (pm_earliest_resolution_ts m)) now)
       PredictionResolutionUnavailable
     (try_in (case pm_resolution_phase m of
          Primary \<Rightarrow>
            (case pm_fallback m of
               Some f \<Rightarrow> require (ilt now (fb_available_ts f)) PredictionFallbackUnavailable
                 (Inr (pm_resolver m))
             | None \<Rightarrow> Inr (pm_resolver m))
        | Fallback \<Rightarrow>
            ok_or (pm_fallback m) PredictionFallbackUnavailable (\<lambda>f.
            require (ile (fb_available_ts f) now \<and> is_none_or (\<lambda>end. ilt now end) (fb_deadline_ts f))
              PredictionFallbackUnavailable
            (Inr (fb_resolver f)))) (\<lambda>expected.
     require (expected = signer) UnauthorizedPredictionResolver
     (Inr ())))"

definition maturity :: "PredictionMarket \<Rightarrow> i64 res" where
  "maturity m =
     ok_or (pm_proposal m) PredictionProposalUnavailable (\<lambda>proposal.
     ok_or (i64_try_from (pm_resolution_delay_seconds m)) PredictionTimestampOverflow (\<lambda>delay.
     ok_or (checked_add_i64 (prop_proposed_at proposal) delay) PredictionTimestampOverflow Inr))"

definition evidence_ok :: "bytes \<Rightarrow> hash32 \<Rightarrow> bool" where
  "evidence_ok evidence_uri evidence_hash \<longleftrightarrow>
     length evidence_uri \<le> PREDICTION_URI_MAX_LENGTH \<and> list_all is_ascii_graphic evidence_uri \<and>
     (case uri_target evidence_uri of None \<Rightarrow> False | Some s \<Rightarrow> s \<noteq> []) \<and> evidence_hash \<noteq> 0"

definition propose_prediction ::
  "runtime \<Rightarrow> world \<Rightarrow> ResolvePrediction \<Rightarrow> PredictionResolution \<Rightarrow> bytes \<Rightarrow> hash32 \<Rightarrow> bool \<Rightarrow> world res" where
  "propose_prediction rt w ks outcome evidence_uri evidence_hash correction =
     load_prediction rt w (rp_market ks) (\<lambda>market.
     load_active_admin rt w (rp_admin_record ks) (rp_resolver ks)
     (let now = unix_timestamp rt; m = inner market in
      try_in (resolver_window m (rp_resolver ks) now) (\<lambda>_.
      require (pm_final_outcome m = None) PredictionProposalUnavailable
     (try_in (if correction
         then require (pm_status m = Proposed) PredictionProposalUnavailable
           (try_in (maturity m) (\<lambda>mature.
            require (ilt now mature) PredictionProposalUnavailable (Inr ())))
         else require ((pm_status m = OpenTrading \<or> pm_status m = Frozen) \<and> pm_proposal m = None)
           PredictionProposalUnavailable (Inr ())) (\<lambda>_.
      require (evidence_ok evidence_uri evidence_hash) InvalidPredictionEvidence
     (let m' = m\<lparr>pm_proposal := Some
            \<lparr>prop_outcome = outcome, prop_proposed_at = now, prop_evidence_uri = evidence_uri,
             prop_evidence_hash = evidence_hash\<rparr>\<rparr> in
      try_in (maturity m') (\<lambda>_.
      Inr (put_prediction (key market) (m'\<lparr>pm_status := Proposed\<rparr>) w))))))))"

definition close_prediction_trading :: "runtime \<Rightarrow> world \<Rightarrow> ResolvePrediction \<Rightarrow> world res" where
  "close_prediction_trading rt w ks =
     load_prediction rt w (rp_market ks) (\<lambda>market.
     load_active_admin rt w (rp_admin_record ks) (rp_resolver ks)
     (require (pm_authority (inner market) = rp_resolver ks) UnauthorizedPredictionAuthority
     (require (pm_status (inner market) = OpenTrading) PredictionResolutionUnavailable
     (Inr (put_prediction (key market) ((inner market)\<lparr>pm_status := Frozen\<rparr>) w)))))"

text \<open>One arm per action of \<open>handle_advance_prediction\<close>; the arms return the new market.\<close>

definition freeze_at_cutoff :: "i64 \<Rightarrow> PredictionMarket \<Rightarrow> PredictionMarket res" where
  "freeze_at_cutoff now m =
     require (pm_status m = OpenTrading \<and> ile (pm_close_ts m) now) PredictionResolutionUnavailable
     (Inr (m\<lparr>pm_status := Frozen\<rparr>))"

definition activate_fallback :: "i64 \<Rightarrow> PredictionMarket \<Rightarrow> PredictionMarket res" where
  "activate_fallback now m =
     ok_or (pm_fallback m) PredictionFallbackUnavailable (\<lambda>f.
     require ((pm_status m = OpenTrading \<or> pm_status m = Frozen) \<and> pm_proposal m = None \<and>
         pm_resolution_phase m = Primary \<and> ile (fb_available_ts f) now \<and>
         is_none_or (\<lambda>end. ilt now end) (fb_deadline_ts f)) PredictionFallbackUnavailable
     (Inr (m\<lparr>pm_status := Frozen, pm_resolution_phase := Fallback\<rparr>)))"

definition finalize_proposal :: "i64 \<Rightarrow> PredictionMarket \<Rightarrow> PredictionMarket res" where
  "finalize_proposal now m =
     require (pm_status m = Proposed) PredictionProposalUnavailable
     (try_in (maturity m) (\<lambda>mature.
      require (ile mature now) PredictionProposalUnavailable
     (ok_or (pm_proposal m) PredictionProposalUnavailable (\<lambda>p.
      Inr (m\<lparr>pm_final_outcome := Some (prop_outcome p), pm_status := Resolved\<rparr>)))))"

definition finalize_timeout :: "i64 \<Rightarrow> PredictionMarket \<Rightarrow> PredictionMarket res" where
  "finalize_timeout now m =
     ok_or (Option.bind (pm_fallback m) fb_deadline_ts) PredictionFallbackUnavailable (\<lambda>end.
     require ((pm_status m = OpenTrading \<or> pm_status m = Frozen) \<and> pm_proposal m = None \<and> ile end now)
       PredictionFallbackUnavailable
     (Inr (m\<lparr>pm_resolution_phase := Fallback, pm_final_outcome := Some ResolveInvalid,
        pm_status := Resolved\<rparr>)))"

definition advance_prediction :: "runtime \<Rightarrow> world \<Rightarrow> AdvancePrediction \<Rightarrow> u8 \<Rightarrow> world res" where
  "advance_prediction rt w ks action =
     load_prediction rt w (ap_market ks) (\<lambda>market.
     let m = inner market; now = unix_timestamp rt in
     require (pm_final_outcome m = None) PredictionResolutionUnavailable
     (try_in
        (if action = 0 then freeze_at_cutoff now m
         else if action = 1 then activate_fallback now m
         else if action = 2 then finalize_proposal now m
         else if action = 3 then finalize_timeout now m
         else Inl PredictionResolutionUnavailable) (\<lambda>m'.
      Inr (put_prediction (key market) m' w))))"

section \<open>What never changes, and what may\<close>

text \<open>The lifecycle of a market is everything but its claim counters; its terms are the lifecycle
  without its four moving fields.\<close>

definition lifecycle_of :: "PredictionMarket \<Rightarrow> PredictionMarket" where
  "lifecycle_of m = m\<lparr>pm_yes_supply := 0, pm_no_supply := 0, pm_backing_reserve := 0, pm_open_order_count := 0\<rparr>"

definition terms_of :: "PredictionMarket \<Rightarrow> PredictionMarket" where
  "terms_of m = (lifecycle_of m)\<lparr>pm_status := Draft, pm_resolution_phase := Primary,
     pm_proposal := None, pm_final_outcome := None\<rparr>"

definition config_of :: "PredictionMarket \<Rightarrow> PredictionMarketConfig" where
  "config_of m =
     \<lparr>pc_resolver = pm_resolver m, pc_fallback = pm_fallback m, pc_close_ts = pm_close_ts m,
      pc_earliest_resolution_ts = pm_earliest_resolution_ts m,
      pc_resolution_delay_seconds = pm_resolution_delay_seconds m,
      pc_payout_per_contract = pm_payout_per_contract m, pc_price_tick = pm_price_tick m,
      pc_rules_uri = pm_rules_uri m, pc_question_hash = pm_question_hash m,
      pc_rules_hash = pm_rules_hash m\<rparr>"

definition delay_of :: "PredictionMarket \<Rightarrow> int" where
  "delay_of m = int (unat (pm_resolution_delay_seconds m))"

definition deadline_of :: "PredictionMarket \<Rightarrow> i64 option" where
  "deadline_of m = Option.bind (pm_fallback m) fb_deadline_ts"

definition earliest_of :: "PredictionMarket \<Rightarrow> int" where
  "earliest_of m = sint (effective_earliest (pm_close_ts m) (pm_earliest_resolution_ts m))"

text \<open>A proposal made by \<open>now\<close> was made no earlier than the agreed time, before any deadline, and
  its maturity fits the clock.\<close>

definition proposal_ok :: "int \<Rightarrow> PredictionMarket \<Rightarrow> PredictionProposal \<Rightarrow> bool" where
  "proposal_ok now m p \<longleftrightarrow>
     earliest_of m \<le> sint (prop_proposed_at p) \<and> sint (prop_proposed_at p) \<le> now \<and>
     (\<forall>d. deadline_of m = Some d \<longrightarrow> sint (prop_proposed_at p) < sint d) \<and>
     sint (prop_proposed_at p) + delay_of m < 2 ^ 63 \<and>
     evidence_ok (prop_evidence_uri p) (prop_evidence_hash p)"

definition lifecycle_ok :: "int \<Rightarrow> PredictionMarket \<Rightarrow> bool" where
  "lifecycle_ok now m \<longleftrightarrow>
     (\<exists>t. config_terms (config_of m) t) \<and> pm_resolver m = pm_authority m \<and>
     (pm_resolution_phase m = Fallback \<longrightarrow>
        (\<exists>f. pm_fallback m = Some f \<and> sint (fb_available_ts f) \<le> now)) \<and>
     (case pm_status m of
        Draft \<Rightarrow> pm_resolution_phase m = Primary \<and> pm_proposal m = None \<and> pm_final_outcome m = None
      | OpenTrading \<Rightarrow> pm_resolution_phase m = Primary \<and> pm_proposal m = None \<and> pm_final_outcome m = None
      | Frozen \<Rightarrow> pm_proposal m = None \<and> pm_final_outcome m = None
      | Proposed \<Rightarrow> pm_final_outcome m = None \<and> (\<exists>p. pm_proposal m = Some p \<and> proposal_ok now m p)
      | Resolved \<Rightarrow>
          (case pm_proposal m of
             Some p \<Rightarrow> proposal_ok now m p \<and> pm_final_outcome m = Some (prop_outcome p) \<and>
               sint (prop_proposed_at p) + delay_of m \<le> now
           | None \<Rightarrow> pm_final_outcome m = Some ResolveInvalid \<and>
               (\<exists>d. deadline_of m = Some d \<and> sint d \<le> now)))"

definition lifecycles_ok :: "i64 \<times> world \<Rightarrow> bool" where
  "lifecycles_ok s \<longleftrightarrow> (\<forall>k m. w_predictions (snd s) k = Some m \<longrightarrow> lifecycle_ok (sint (fst s)) m)"

section \<open>The state machine\<close>

text \<open>A state is the clock and the accounts; the clock never runs backwards. Whatever else runs
  (funding, trading, redemption) leaves every lifecycle as it is.\<close>

definition at_time :: "i64 \<Rightarrow> runtime \<Rightarrow> runtime" where
  "at_time now rt = rt\<lparr>unix_timestamp := now\<rparr>"

definition lifecycles_kept :: "world \<Rightarrow> world \<Rightarrow> bool" where
  "lifecycles_kept w w' \<longleftrightarrow>
     (\<forall>k. map_option lifecycle_of (w_predictions w' k) = map_option lifecycle_of (w_predictions w k))"

inductive lifecycle_instruction :: "runtime \<Rightarrow> world \<Rightarrow> world \<Rightarrow> bool" for rt where
  li_init: "initialize_prediction_market rt w iks market_id config name symbol = Inr w' \<Longrightarrow>
    lifecycle_instruction rt w w'"
| li_open: "open_prediction_market rt w oks = Inr w' \<Longrightarrow> lifecycle_instruction rt w w'"
| li_propose: "propose_prediction rt w rks outcome uri hash correction = Inr w' \<Longrightarrow>
    lifecycle_instruction rt w w'"
| li_close: "close_prediction_trading rt w rks = Inr w' \<Longrightarrow> lifecycle_instruction rt w w'"
| li_advance: "advance_prediction rt w aks action = Inr w' \<Longrightarrow> lifecycle_instruction rt w w'"
| li_other: "lifecycles_kept w w' \<Longrightarrow> lifecycle_instruction rt w w'"

inductive lifecycle_step :: "runtime \<Rightarrow> i64 \<times> world \<Rightarrow> i64 \<times> world \<Rightarrow> bool" for rt where
  lifecycle_stepI: "ile now now' \<Longrightarrow> lifecycle_instruction (at_time now' rt) w w' \<Longrightarrow>
    lifecycle_step rt (now, w) (now', w')"

definition no_predictions :: "i64 \<times> world \<Rightarrow> bool" where
  "no_predictions s \<longleftrightarrow> w_predictions (snd s) = Map.empty"


section \<open>The abstract lifecycle\<close>

text \<open>What one market may do at time \<open>now\<close>: open once before its close, freeze, hand over to the
  fallback, receive a proposal or its replacement, and become final, by a mature proposal or by
  the agreed timeout.\<close>

inductive move :: "int \<Rightarrow> PredictionMarket \<Rightarrow> PredictionMarket \<Rightarrow> bool" for now where
  mv_open: "pm_status m = Draft \<Longrightarrow> now < sint (pm_close_ts m) \<Longrightarrow> move now m (m\<lparr>pm_status := OpenTrading\<rparr>)"
| mv_freeze: "pm_status m = OpenTrading \<Longrightarrow> move now m (m\<lparr>pm_status := Frozen\<rparr>)"
| mv_fallback: "pm_status m = OpenTrading \<or> pm_status m = Frozen \<Longrightarrow> pm_proposal m = None \<Longrightarrow>
    pm_resolution_phase m = Primary \<Longrightarrow> pm_fallback m = Some f \<Longrightarrow> sint (fb_available_ts f) \<le> now \<Longrightarrow>
    (\<And>d. deadline_of m = Some d \<Longrightarrow> now < sint d) \<Longrightarrow>
    move now m (m\<lparr>pm_status := Frozen, pm_resolution_phase := Fallback\<rparr>)"
| mv_propose: "(pm_status m = OpenTrading \<or> pm_status m = Frozen) \<and> pm_proposal m = None \<or>
      pm_status m = Proposed \<and> pm_proposal m = Some p0 \<and> now < sint (prop_proposed_at p0) + delay_of m \<Longrightarrow>
    pm_final_outcome m = None \<Longrightarrow> sint (prop_proposed_at p) = now \<Longrightarrow> proposal_ok now m p \<Longrightarrow>
    move now m (m\<lparr>pm_proposal := Some p, pm_status := Proposed\<rparr>)"
| mv_finalize: "pm_status m = Proposed \<Longrightarrow> pm_final_outcome m = None \<Longrightarrow> pm_proposal m = Some p \<Longrightarrow>
    sint (prop_proposed_at p) + delay_of m \<le> now \<Longrightarrow>
    move now m (m\<lparr>pm_final_outcome := Some (prop_outcome p), pm_status := Resolved\<rparr>)"
| mv_timeout: "pm_status m = OpenTrading \<or> pm_status m = Frozen \<Longrightarrow> pm_proposal m = None \<Longrightarrow>
    pm_final_outcome m = None \<Longrightarrow> deadline_of m = Some d \<Longrightarrow> sint d \<le> now \<Longrightarrow>
    move now m (m\<lparr>pm_resolution_phase := Fallback, pm_final_outcome := Some ResolveInvalid,
      pm_status := Resolved\<rparr>)"

definition fresh_draft :: "int \<Rightarrow> PredictionMarket \<Rightarrow> bool" where
  "fresh_draft now m \<longleftrightarrow> config_terms (config_of m) now \<and> pm_resolver m = pm_authority m \<and>
     m = terms_of m"

text \<open>One step of the abstract machine, at each address.\<close>

definition evolves :: "int \<Rightarrow> PredictionMarket option \<Rightarrow> PredictionMarket option \<Rightarrow> bool" where
  "evolves now a b \<longleftrightarrow> a = b \<or> (a = None \<and> (\<exists>m. b = Some m \<and> fresh_draft now m)) \<or>
     (\<exists>m m'. a = Some m \<and> b = Some m' \<and> move now m m')"

lemma at_time_simps [simp]:
  "address (at_time now rt) r = address rt r" "unix_timestamp (at_time now rt) = now"
  by (simp_all add: at_time_def address_def pda_def)

lemma lifecycle_reads [simp]:
  "pm_status (lifecycle_of m) = pm_status m" "pm_proposal (lifecycle_of m) = pm_proposal m"
  "pm_final_outcome (lifecycle_of m) = pm_final_outcome m" "pm_close_ts (lifecycle_of m) = pm_close_ts m"
  "pm_resolution_phase (lifecycle_of m) = pm_resolution_phase m" "pm_fallback (lifecycle_of m) = pm_fallback m"
  "pm_resolver (lifecycle_of m) = pm_resolver m" "pm_authority (lifecycle_of m) = pm_authority m"
  "delay_of (lifecycle_of m) = delay_of m" "deadline_of (lifecycle_of m) = deadline_of m"
  "earliest_of (lifecycle_of m) = earliest_of m" "config_of (lifecycle_of m) = config_of m"
  "proposal_ok now (lifecycle_of m) p = proposal_ok now m p"
  "lifecycle_of (lifecycle_of m) = lifecycle_of m" "terms_of (lifecycle_of m) = terms_of m"
  by (simp_all add: lifecycle_of_def terms_of_def delay_of_def deadline_of_def earliest_of_def
      config_of_def proposal_ok_def)

lemma lifecycle_ok_lifecycle [simp]: "lifecycle_ok now (lifecycle_of m) = lifecycle_ok now m"
  by (cases "pm_status m"; cases "pm_proposal m") (simp_all add: lifecycle_ok_def)

lemma lifecycle_writes [simp]:
  "lifecycle_of (m\<lparr>pm_status := s\<rparr>) = (lifecycle_of m)\<lparr>pm_status := s\<rparr>"
  "lifecycle_of (m\<lparr>pm_proposal := p\<rparr>) = (lifecycle_of m)\<lparr>pm_proposal := p\<rparr>"
  "lifecycle_of (m\<lparr>pm_final_outcome := fo\<rparr>) = (lifecycle_of m)\<lparr>pm_final_outcome := fo\<rparr>"
  "lifecycle_of (m\<lparr>pm_resolution_phase := ph\<rparr>) = (lifecycle_of m)\<lparr>pm_resolution_phase := ph\<rparr>"
  by (simp_all add: lifecycle_of_def)

lemma move_lifecycle: "move now m m' \<Longrightarrow> move now (lifecycle_of m) (lifecycle_of m')"
proof (induction rule: move.induct)
  case (mv_propose m p0 p)
  then show ?case using move.mv_propose [of "lifecycle_of m" p0 now p] by simp
next
  case (mv_fallback m f)
  then show ?case using move.mv_fallback [of "lifecycle_of m" f now] by simp
qed (auto simp: move.intros)

lemma terms_of_writes [simp]:
  "terms_of (m\<lparr>pm_status := s\<rparr>) = terms_of m" "terms_of (m\<lparr>pm_proposal := p\<rparr>) = terms_of m"
  "terms_of (m\<lparr>pm_final_outcome := fo\<rparr>) = terms_of m"
  "terms_of (m\<lparr>pm_resolution_phase := ph\<rparr>) = terms_of m"
  by (simp_all add: lifecycle_of_def terms_of_def)

lemma derived_terms_writes [simp]:
  "config_of (m\<lparr>pm_status := s\<rparr>) = config_of m" "config_of (m\<lparr>pm_proposal := p\<rparr>) = config_of m"
  "config_of (m\<lparr>pm_final_outcome := fo\<rparr>) = config_of m"
  "config_of (m\<lparr>pm_resolution_phase := ph\<rparr>) = config_of m"
  "delay_of (m\<lparr>pm_status := s\<rparr>) = delay_of m" "delay_of (m\<lparr>pm_proposal := p\<rparr>) = delay_of m"
  "delay_of (m\<lparr>pm_final_outcome := fo\<rparr>) = delay_of m"
  "delay_of (m\<lparr>pm_resolution_phase := ph\<rparr>) = delay_of m"
  "deadline_of (m\<lparr>pm_status := s\<rparr>) = deadline_of m" "deadline_of (m\<lparr>pm_proposal := p\<rparr>) = deadline_of m"
  "deadline_of (m\<lparr>pm_final_outcome := fo\<rparr>) = deadline_of m"
  "deadline_of (m\<lparr>pm_resolution_phase := ph\<rparr>) = deadline_of m"
  "proposal_ok now (m\<lparr>pm_status := s\<rparr>) = proposal_ok now m" "proposal_ok now (m\<lparr>pm_proposal := p\<rparr>) = proposal_ok now m"
  "proposal_ok now (m\<lparr>pm_final_outcome := fo\<rparr>) = proposal_ok now m"
  "proposal_ok now (m\<lparr>pm_resolution_phase := ph\<rparr>) = proposal_ok now m"
  by (simp_all add: config_of_def delay_of_def deadline_of_def proposal_ok_def earliest_of_def fun_eq_iff)

lemma move_terms: "move now m m' \<Longrightarrow> terms_of m' = terms_of m"
  by (induction rule: move.induct) simp_all


section \<open>Every instruction is an abstract step\<close>

lemma config_terms_of:
  assumes "config_terms (config_of m) t"
  shows "0 < delay_of m" "delay_of m < 2 ^ 63" "sint (pm_close_ts m) \<le> earliest_of m"
    "pm_fallback m = Some f \<Longrightarrow> earliest_of m < sint (fb_available_ts f)"
    "pm_fallback m = Some f \<Longrightarrow> fb_deadline_ts f = Some d \<Longrightarrow>
       sint (fb_available_ts f) < sint d \<and> sint d - 1 + delay_of m < 2 ^ 63"
    "deadline_of m = Some d \<Longrightarrow> earliest_of m < sint d \<and> sint d - 1 + delay_of m < 2 ^ 63"
  using assms
  unfolding config_terms_def Let_def fallback_terms_def config_of_def delay_of_def earliest_of_def
    deadline_of_def
  by (simp_all only: PredictionMarketConfig.select_convs) (force split: bind_splits)+

lemma maturity_Inr:
  "maturity m = Inr t \<longleftrightarrow> (\<exists>p. pm_proposal m = Some p \<and> delay_of m < 2 ^ 63 \<and>
     sint t = sint (prop_proposed_at p) + delay_of m)"
proof -
  have small: "unat d < 2 ^ 63 \<longleftrightarrow> int (unat d) < 2 ^ 63" for d :: u64
    using of_nat_less_iff [of "unat d" "2 ^ 63", where ?'a = int] by simp
  show ?thesis
    unfolding maturity_def ok_or_Inr delay_of_def i64_try_from_Some small [symmetric]
    using sint_of_small_unat [of "pm_resolution_delay_seconds m"] by auto
qed

lemma maturity_exists:
  assumes p: "pm_proposal m = Some p" and delay: "0 < delay_of m" "delay_of m < 2 ^ 63"
    and fits: "sint (prop_proposed_at p) + delay_of m < 2 ^ 63"
  shows "\<exists>t. maturity m = Inr t \<and> sint t = sint (prop_proposed_at p) + delay_of m"
proof -
  have "int (unat (pm_resolution_delay_seconds m)) < int (2 ^ 63)" using delay by (simp add: delay_of_def)
  then have "unat (pm_resolution_delay_seconds m) < 2 ^ 63" by (simp only: of_nat_less_iff)
  then have d: "sint (pm_resolution_delay_seconds m) = delay_of m"
    unfolding delay_of_def by (rule sint_of_small_unat)
  have "in_i64 (sint (prop_proposed_at p) + sint (pm_resolution_delay_seconds m))"
    using delay fits sint_i64_bounds [of "prop_proposed_at p"] by (simp add: in_i64_def d)
  then have "checked_add_i64 (prop_proposed_at p) (pm_resolution_delay_seconds m) =
      Some (prop_proposed_at p + pm_resolution_delay_seconds m)"
    by (simp add: checked_add_i64_def)
  then have "sint (prop_proposed_at p + pm_resolution_delay_seconds m) = sint (prop_proposed_at p) + delay_of m"
    unfolding d [symmetric] by (simp only: checked_add_i64_Some)
  with p delay show ?thesis by (auto simp: maturity_Inr)
qed

lemma resolver_window_Inr:
  assumes ok: "resolver_window m signer now = Inr u" and terms: "config_terms (config_of m) t"
  shows "earliest_of m \<le> sint now" "deadline_of m = Some d \<Longrightarrow> sint now < sint d"
    "case pm_resolution_phase m of
       Primary \<Rightarrow> signer = pm_resolver m
     | Fallback \<Rightarrow> \<exists>f. pm_fallback m = Some f \<and> sint (fb_available_ts f) \<le> sint now \<and> signer = fb_resolver f"
proof -
  show "earliest_of m \<le> sint now"
    using ok by (auto simp: resolver_window_def run_simps earliest_of_def ile_def)
  show "deadline_of m = Some d \<Longrightarrow> sint now < sint d"
    using ok config_terms_of(5) [OF terms]
    by (cases "pm_resolution_phase m"; cases "pm_fallback m")
      (fastforce simp: resolver_window_def run_simps deadline_of_def ile_def ilt_def is_none_or_def
        bind_eq_Some_conv)+
  show "case pm_resolution_phase m of Primary \<Rightarrow> signer = pm_resolver m
     | Fallback \<Rightarrow> \<exists>f. pm_fallback m = Some f \<and> sint (fb_available_ts f) \<le> sint now \<and> signer = fb_resolver f"
    using ok by (auto simp: resolver_window_def run_simps ile_def
        split: PredictionResolutionPhase.splits option.splits)
qed


text \<open>Each instruction names one market, makes one move on it, and touches no other market.\<close>

definition moves_at :: "int \<Rightarrow> pubkey \<Rightarrow> world \<Rightarrow> world \<Rightarrow> bool" where
  "moves_at now k w w' \<longleftrightarrow> (\<exists>m m'. w_predictions w k = Some m \<and> move now m m' \<and>
     w' = put_prediction k m' w)"

lemma moves_atI:
  "w_predictions w k = Some m \<Longrightarrow> move now m m' \<Longrightarrow> w' = put_prediction k m' w \<Longrightarrow> moves_at now k w w'"
  by (auto simp: moves_at_def)

lemma open_moves:
  "open_prediction_market rt w ks = Inr w' \<Longrightarrow> moves_at (sint (unix_timestamp rt)) (opm_market ks) w w'"
  unfolding open_prediction_market_def load_prediction_Inr load_active_admin_Inr require_Inr account.sel
    sum.inject ilt_def
  by (elim exE conjE) (rule moves_atI, assumption, rule mv_open, assumption+, simp)

lemma close_trading_moves:
  "close_prediction_trading rt w ks = Inr w' \<Longrightarrow> moves_at (sint (unix_timestamp rt)) (rp_market ks) w w'"
  unfolding close_prediction_trading_def load_prediction_Inr load_active_admin_Inr require_Inr account.sel
    sum.inject
  by (elim exE conjE) (rule moves_atI, assumption, rule mv_freeze, assumption, simp)

lemma action_moves:
  "freeze_at_cutoff now m = Inr m' \<Longrightarrow> move (sint now) m m'"
  "activate_fallback now m = Inr m' \<Longrightarrow> move (sint now) m m'"
  "finalize_proposal now m = Inr m' \<Longrightarrow> pm_final_outcome m = None \<Longrightarrow> move (sint now) m m'"
  "finalize_timeout now m = Inr m' \<Longrightarrow> pm_final_outcome m = None \<Longrightarrow> move (sint now) m m'"
proof -
  show "move (sint now) m m'" if "freeze_at_cutoff now m = Inr m'"
    using that by (auto simp: freeze_at_cutoff_def run_simps intro: mv_freeze)
  show "move (sint now) m m'" if ok: "activate_fallback now m = Inr m'"
  proof -
    obtain f where f: "pm_status m = OpenTrading \<or> pm_status m = Frozen" "pm_proposal m = None"
      "pm_resolution_phase m = Primary" "pm_fallback m = Some f" "ile (fb_available_ts f) now"
      "is_none_or (\<lambda>end. ilt now end) (fb_deadline_ts f)"
      and m': "m' = m\<lparr>pm_status := Frozen, pm_resolution_phase := Fallback\<rparr>"
      using ok unfolding activate_fallback_def run_simps by auto
    show ?thesis unfolding m'
      by (rule mv_fallback [OF f(1-4)])
        (use f in \<open>auto simp: ile_def ilt_def is_none_or_def deadline_of_def\<close>)
  qed
  show "move (sint now) m m'" if "finalize_proposal now m = Inr m'" "pm_final_outcome m = None"
    using that by (auto simp: finalize_proposal_def run_simps maturity_Inr ile_def intro: mv_finalize)
  show "move (sint now) m m'" if "finalize_timeout now m = Inr m'" "pm_final_outcome m = None"
    using that by (auto simp: finalize_timeout_def run_simps ile_def deadline_of_def intro: mv_timeout)
qed

lemma advance_moves:
  assumes "advance_prediction rt w ks action = Inr w'"
  shows "moves_at (sint (unix_timestamp rt)) (ap_market ks) w w'"
proof -
  obtain m m' where m: "w_predictions w (ap_market ks) = Some m" "pm_final_outcome m = None"
    and arm: "(if action = 0 then freeze_at_cutoff (unix_timestamp rt) m
      else if action = 1 then activate_fallback (unix_timestamp rt) m
      else if action = 2 then finalize_proposal (unix_timestamp rt) m
      else if action = 3 then finalize_timeout (unix_timestamp rt) m
      else Inl PredictionResolutionUnavailable) = Inr m'"
    and w': "put_prediction (ap_market ks) m' w = w'"
    using assms unfolding advance_prediction_def load_prediction_Inr Let_def require_Inr try_in_Inr
      account.sel sum.inject
    by (elim exE conjE) (rule that; assumption)
  have "move (sint (unix_timestamp rt)) m m'"
    using arm m(2) action_moves by (simp split: if_splits)
  then show ?thesis using m w' by (intro moves_atI [OF m(1)]) auto
qed

lemma propose_ok:
  assumes "propose_prediction rt w ks outcome uri hash correction = Inr w'"
  obtains m p where
    "w_predictions w (rp_market ks) = Some m" "active_admin rt (rp_resolver ks) w"
    "resolver_window m (rp_resolver ks) (unix_timestamp rt) = Inr ()" "pm_final_outcome m = None"
    "p = \<lparr>prop_outcome = outcome, prop_proposed_at = unix_timestamp rt, prop_evidence_uri = uri,
      prop_evidence_hash = hash\<rparr>"
    "evidence_ok uri hash" "sint (unix_timestamp rt) + delay_of m < 2 ^ 63"
    "(pm_status m = OpenTrading \<or> pm_status m = Frozen) \<and> pm_proposal m = None \<or>
     pm_status m = Proposed \<and> (\<exists>p0. pm_proposal m = Some p0 \<and>
       sint (unix_timestamp rt) < sint (prop_proposed_at p0) + delay_of m)"
    "w' = put_prediction (rp_market ks) (m\<lparr>pm_proposal := Some p, pm_status := Proposed\<rparr>) w"
proof -
  let ?p = "\<lparr>prop_outcome = outcome, prop_proposed_at = unix_timestamp rt, prop_evidence_uri = uri,
      prop_evidence_hash = hash\<rparr>"
  obtain m t where m: "w_predictions w (rp_market ks) = Some m" "active_admin rt (rp_resolver ks) w"
    "resolver_window m (rp_resolver ks) (unix_timestamp rt) = Inr ()" "pm_final_outcome m = None"
    "evidence_ok uri hash"
    and state: "(if correction
         then require (pm_status m = Proposed) PredictionProposalUnavailable
           (try_in (maturity m) (\<lambda>mature.
            require (ilt (unix_timestamp rt) mature) PredictionProposalUnavailable (Inr ())))
         else require ((pm_status m = OpenTrading \<or> pm_status m = Frozen) \<and> pm_proposal m = None)
           PredictionProposalUnavailable (Inr ())) = Inr ()"
    and t: "maturity (m\<lparr>pm_proposal := Some ?p\<rparr>) = Inr t"
    and w': "put_prediction (rp_market ks) (m\<lparr>pm_proposal := Some ?p, pm_status := Proposed\<rparr>) w = w'"
    using assms unfolding propose_prediction_def load_prediction_Inr load_active_admin_Inr Let_def
      require_Inr try_in_Inr account.sel sum.inject sum_unit ex_unit
    by (elim exE conjE) (rule that; assumption)
  have "sint (unix_timestamp rt) + delay_of m < 2 ^ 63"
    using t sint_i64_bounds [of t] by (auto simp: maturity_Inr delay_of_def)
  moreover have "(pm_status m = OpenTrading \<or> pm_status m = Frozen) \<and> pm_proposal m = None \<or>
     pm_status m = Proposed \<and> (\<exists>p0. pm_proposal m = Some p0 \<and>
       sint (unix_timestamp rt) < sint (prop_proposed_at p0) + delay_of m)"
    using state by (auto simp: run_simps maturity_Inr ilt_def split: if_splits)
  ultimately show thesis using that m w' by blast
qed

lemma propose_moves:
  assumes ok: "propose_prediction rt w ks outcome uri hash correction = Inr w'"
    and terms: "\<And>m. w_predictions w (rp_market ks) = Some m \<Longrightarrow> config_terms (config_of m) t"
  shows "moves_at (sint (unix_timestamp rt)) (rp_market ks) w w'"
proof (rule propose_ok [OF ok], goal_cases)
  case (1 m p)
  have window: "earliest_of m \<le> sint (unix_timestamp rt)"
    "\<And>d. deadline_of m = Some d \<Longrightarrow> sint (unix_timestamp rt) < sint d"
    using resolver_window_Inr(1,2) [OF 1(3) terms [OF 1(1)]] by blast+
  have good: "proposal_ok (sint (unix_timestamp rt)) m p" using window 1(5-7) by (simp add: proposal_ok_def)
  from 1(8) obtain p0 where p0: "(pm_status m = OpenTrading \<or> pm_status m = Frozen) \<and> pm_proposal m = None \<or>
      pm_status m = Proposed \<and> pm_proposal m = Some p0 \<and> sint (unix_timestamp rt) < sint (prop_proposed_at p0) + delay_of m"
    by blast
  have "move (sint (unix_timestamp rt)) m (m\<lparr>pm_proposal := Some p, pm_status := Proposed\<rparr>)"
    by (rule mv_propose [OF p0 1(4) _ good]) (simp add: 1(5))
  with 1(1,9) show ?case by (auto simp: moves_at_def)
qed


section \<open>The lifecycle invariant\<close>

lemma proposal_ok_mono: "proposal_ok t m p \<Longrightarrow> t \<le> now \<Longrightarrow> proposal_ok now m p"
  by (auto simp: proposal_ok_def)

lemma lifecycle_ok_mono:
  assumes "lifecycle_ok t m" "t \<le> now"
  shows "lifecycle_ok now m"
  using assms proposal_ok_mono [OF _ assms(2), of m]
  by (cases "pm_status m"; cases "pm_proposal m")
    (fastforce simp: lifecycle_ok_def)+

lemma move_lifecycle_ok:
  assumes "move now m m'" "lifecycle_ok now m"
  shows "lifecycle_ok now m'"
  using assms
proof cases
  case (mv_timeout d)
  obtain t where terms: "config_terms (config_of m) t" using assms(2) by (auto simp: lifecycle_ok_def)
  obtain f where f: "pm_fallback m = Some f" "fb_deadline_ts f = Some d"
    using mv_timeout by (auto simp: deadline_of_def bind_eq_Some_conv)
  have "sint (fb_available_ts f) \<le> now" using config_terms_of(5) [OF terms f] mv_timeout by simp
  with mv_timeout f assms(2) show ?thesis by (auto simp: lifecycle_ok_def)
qed (use assms(2) in \<open>auto simp: lifecycle_ok_def\<close>)

lemma fresh_draft_ok: "fresh_draft now m \<Longrightarrow> lifecycle_ok now m"
proof -
  assume fresh: "fresh_draft now m"
  then have m: "m = terms_of m" by (simp add: fresh_draft_def)
  have "pm_status (terms_of m) = Draft \<and> pm_resolution_phase (terms_of m) = Primary \<and>
      pm_proposal (terms_of m) = None \<and> pm_final_outcome (terms_of m) = None"
    by (simp add: terms_of_def)
  then have "pm_status m = Draft \<and> pm_resolution_phase m = Primary \<and> pm_proposal m = None \<and> pm_final_outcome m = None"
    by (simp only: m [symmetric])
  with fresh show ?thesis by (auto simp: lifecycle_ok_def fresh_draft_def)
qed

lemma evolves_refl: "evolves now a a" by (simp add: evolves_def)

lemma moves_at_evolves:
  assumes "moves_at now k w w'"
  shows "evolves now (map_option lifecycle_of (w_predictions w j)) (map_option lifecycle_of (w_predictions w' j))"
proof -
  obtain m m' where m: "w_predictions w k = Some m" "move now m m'" "w_predictions w' = (w_predictions w)(k \<mapsto> m')"
    using assms by (auto simp: moves_at_def put_prediction_def)
  show ?thesis
    using m move_lifecycle [OF m(2)] by (cases "j = k") (auto simp: evolves_def)
qed

lemma new_market_fresh:
  assumes "validate_prediction_market_config c now = Inr ()" "pc_resolver c = ipm_authority ks"
  shows "fresh_draft (sint now) (new_prediction_market ks market_id c b)"
proof -
  have "config_of (new_prediction_market ks market_id c b) = c"
    by (simp add: config_of_def new_prediction_market_def)
  with assms show ?thesis
    by (simp add: fresh_draft_def validate_config_iff) (simp add: new_prediction_market_def terms_of_def lifecycle_of_def)
qed

lemma instruction_evolves:
  assumes "lifecycle_instruction rt w w'"
    and terms: "\<And>k m. w_predictions w k = Some m \<Longrightarrow> \<exists>t. config_terms (config_of m) t"
  shows "evolves (sint (unix_timestamp rt)) (map_option lifecycle_of (w_predictions w j))
    (map_option lifecycle_of (w_predictions w' j))"
  using assms(1)
proof cases
  case (li_init iks market_id config name symbol)
  show ?thesis
  proof (rule initialize_prediction_ok [OF li_init], goal_cases)
    case (1 b)
    have "fresh_draft (sint (unix_timestamp rt)) (new_prediction_market iks market_id config b)"
      using 1(3,4) by (rule new_market_fresh)
    moreover have "lifecycle_of (new_prediction_market iks market_id config b) = new_prediction_market iks market_id config b"
      by (simp add: lifecycle_of_def new_prediction_market_def)
    ultimately show ?case using 1(2,10) by (auto simp: evolves_def)
  qed
next
  case (li_open oks)
  show ?thesis by (rule moves_at_evolves [OF open_moves [OF li_open]])
next
  case (li_propose rks outcome uri hash correction)
  show ?thesis
  proof (rule propose_ok [OF li_propose], goal_cases)
    case (1 m p)
    then obtain t where t: "config_terms (config_of m) t" using terms by blast
    show ?case
      by (rule moves_at_evolves [OF propose_moves [OF li_propose]]) (use 1(1) t in auto)
  qed
next
  case (li_close rks)
  show ?thesis by (rule moves_at_evolves [OF close_trading_moves [OF li_close]])
next
  case (li_advance aks action)
  show ?thesis by (rule moves_at_evolves [OF advance_moves [OF li_advance]])
next
  case li_other
  then show ?thesis by (simp add: lifecycles_kept_def evolves_refl)
qed

lemma lifecycle_step_ok:
  assumes "lifecycle_step rt s s'" "lifecycles_ok s"
  shows "lifecycles_ok s'"
  using assms(1)
proof cases
  case (lifecycle_stepI now now' w w')
  have ok: "lifecycle_ok (sint now') m" if "w_predictions w k = Some m" for k m
  proof (rule lifecycle_ok_mono)
    show "lifecycle_ok (sint now) m" using assms(2) that by (simp add: lifecycles_ok_def lifecycle_stepI)
    show "sint now \<le> sint now'" using lifecycle_stepI by (simp add: ile_def)
  qed
  have terms: "\<exists>t. config_terms (config_of m) t" if "w_predictions w k = Some m" for k m
    using ok [OF that] by (auto simp: lifecycle_ok_def)
  have "lifecycle_ok (sint now') m'" if m': "w_predictions w' k = Some m'" for k m'
  proof -
    have "evolves (sint now') (map_option lifecycle_of (w_predictions w k)) (Some (lifecycle_of m'))"
      using instruction_evolves [OF lifecycle_stepI(4) terms, where j = k] m' by simp
    then have "lifecycle_ok (sint now') (lifecycle_of m')"
      unfolding evolves_def
    proof (elim disjE exE conjE)
      assume "map_option lifecycle_of (w_predictions w k) = Some (lifecycle_of m')"
      then obtain m where "w_predictions w k = Some m" "lifecycle_of m = lifecycle_of m'" by auto
      then show ?thesis using ok [of k m] by (metis lifecycle_ok_lifecycle)
    next
      fix m assume "Some (lifecycle_of m') = Some m" "fresh_draft (sint now') m"
      then show ?thesis using fresh_draft_ok by simp
    next
      fix m1 m2
      assume "map_option lifecycle_of (w_predictions w k) = Some m1" "Some (lifecycle_of m') = Some m2"
        and mv: "move (sint now') m1 m2"
      then obtain m where "w_predictions w k = Some m" "m1 = lifecycle_of m" "m2 = lifecycle_of m'" by auto
      then show ?thesis using mv ok [of k m] move_lifecycle_ok by fastforce
    qed
    then show ?thesis by simp
  qed
  with lifecycle_stepI show ?thesis by (simp add: lifecycles_ok_def)
qed

interpretation prediction_lifecycle: transition_invariant no_predictions "lifecycle_step rt" lifecycles_ok for rt
  by unfold_locales (simp add: no_predictions_def lifecycles_ok_def, rule lifecycle_step_ok)


section \<open>Properties\<close>

fun status_rank :: "PredictionStatus \<Rightarrow> nat" where
  "status_rank Draft = 0"
| "status_rank OpenTrading = 1"
| "status_rank Frozen = 2"
| "status_rank Proposed = 3"
| "status_rank Resolved = 4"

lemma move_rank: "move now m m' \<Longrightarrow> status_rank (pm_status m) \<le> status_rank (pm_status m') \<and> pm_status m \<noteq> Resolved"
  by (induction rule: move.induct) auto

lemma lifecycle_eq_reads:
  "lifecycle_of a = lifecycle_of b \<Longrightarrow> pm_status a = pm_status b \<and> terms_of a = terms_of b"
  by (metis lifecycle_reads(1) lifecycle_reads(15))

lemma reach_terms:
  assumes "reach no_predictions (lifecycle_step rt) s" "w_predictions (snd s) k = Some m"
  shows "\<exists>t. config_terms (config_of m) t" "lifecycle_ok (sint (fst s)) m"
proof -
  have "lifecycles_ok s" by (rule prediction_lifecycle.reach_inv [OF assms(1)])
  with assms(2) show ok: "lifecycle_ok (sint (fst s)) m" by (simp add: lifecycles_ok_def)
  then show "\<exists>t. config_terms (config_of m) t" by (auto simp: lifecycle_ok_def)
qed

text \<open>C18: The resolution instructions implement the abstract lifecycle. In every reachable state, every
  instruction (creating, opening, proposing, correcting, freezing, advancing, or anything that
  leaves lifecycles alone) acts on each market's lifecycle as one step of \<open>move\<close>, as the creation of
  a fresh draft with valid terms, or not at all.\<close>

theorem resolution_refines_lifecycle:
  assumes "reach no_predictions (lifecycle_step rt) (now, w)"
    and "lifecycle_instruction (at_time now' rt) w w'"
  shows "evolves (sint now') (map_option lifecycle_of (w_predictions w k))
    (map_option lifecycle_of (w_predictions w' k))"
  using instruction_evolves [OF assms(2), of k] reach_terms(1) [OF assms(1)] by simp

text \<open>C19: An outcome is final only by the published rules. In every reachable state a market has a
  final outcome exactly when it is resolved, and then either it is the outcome of a proposal with
  valid evidence that was made no earlier than the agreed time and has stood for the whole agreed
  delay, or nobody proposed, the agreed deadline has passed and the outcome is Invalid.\<close>

theorem final_outcome_by_rules:
  assumes "reach no_predictions (lifecycle_step rt) (now, w)" "w_predictions w k = Some m"
  shows "(pm_final_outcome m = None \<longleftrightarrow> pm_status m \<noteq> Resolved) \<and>
    (\<forall>outcome. pm_final_outcome m = Some outcome \<longrightarrow>
       (case pm_proposal m of
          Some p \<Rightarrow> outcome = prop_outcome p \<and> evidence_ok (prop_evidence_uri p) (prop_evidence_hash p) \<and>
            earliest_of m \<le> sint (prop_proposed_at p) \<and> sint (prop_proposed_at p) + delay_of m \<le> sint now
        | None \<Rightarrow> outcome = ResolveInvalid \<and> (\<exists>d. deadline_of m = Some d \<and> sint d \<le> sint now)))"
  using reach_terms(2) [OF assms(1), of k m] assms(2)
  by (cases "pm_status m"; cases "pm_proposal m") (auto simp: lifecycle_ok_def proposal_ok_def)

text \<open>The lifecycle machine never goes back; \<open>Program_Lifecycle\<close> states it of the whole chain.\<close>

lemma lifecycle_irrevocable:
  assumes reach: "reach no_predictions (lifecycle_step rt) s" and run: "(lifecycle_step rt)\<^sup>*\<^sup>* s s'"
    and m: "w_predictions (snd s) k = Some m"
  shows "\<exists>m'. w_predictions (snd s') k = Some m' \<and> terms_of m' = terms_of m \<and>
    status_rank (pm_status m) \<le> status_rank (pm_status m') \<and>
    (pm_status m = Resolved \<longrightarrow> lifecycle_of m' = lifecycle_of m)"
  using run
proof (induction rule: rtranclp_induct)
  case base
  with m show ?case by simp
next
  case (step s1 s2)
  then obtain m1 where m1: "w_predictions (snd s1) k = Some m1" "terms_of m1 = terms_of m"
    "status_rank (pm_status m) \<le> status_rank (pm_status m1)"
    "pm_status m = Resolved \<longrightarrow> lifecycle_of m1 = lifecycle_of m" by blast
  have inv: "lifecycles_ok s1"
    using prediction_lifecycle.steps_inv [OF step(1)] prediction_lifecycle.reach_inv [OF reach] by blast
  from step(2) obtain now now' w w' where s: "s1 = (now, w)" "s2 = (now', w')"
    and instr: "lifecycle_instruction (at_time now' rt) w w'" by cases auto
  have terms: "\<exists>t. config_terms (config_of x) t" if "w_predictions w j = Some x" for j x
    using inv that by (auto simp: s lifecycles_ok_def lifecycle_ok_def)
  have ev: "evolves (sint now') (Some (lifecycle_of m1)) (map_option lifecycle_of (w_predictions w' k))"
    using instruction_evolves [OF instr terms, where j = k] m1(1) by (simp add: s)
  then obtain m2 where m2: "w_predictions w' k = Some m2"
    and "lifecycle_of m2 = lifecycle_of m1 \<or> move (sint now') (lifecycle_of m1) (lifecycle_of m2)"
    by (cases "w_predictions w' k") (auto simp: evolves_def)
  then show ?case
  proof (elim disjE)
    assume "lifecycle_of m2 = lifecycle_of m1"
    then show ?thesis using m2 m1(2-4) lifecycle_eq_reads [of m2 m1] by (auto simp: s)
  next
    assume "move (sint now') (lifecycle_of m1) (lifecycle_of m2)"
    then have "terms_of m2 = terms_of m1" "status_rank (pm_status m1) \<le> status_rank (pm_status m2)"
      "pm_status m1 \<noteq> Resolved"
      using move_terms move_rank by fastforce+
    moreover have "pm_status m = Resolved \<Longrightarrow> pm_status m1 = Resolved"
      using m1(4) lifecycle_eq_reads [of m1 m] by simp
    ultimately show ?thesis using m2 m1(2,3) by (auto simp: s)
  qed
qed

text \<open>C21: A market with a deadline cannot be held up. In every reachable state, an open, frozen or
  proposed market whose fallback has a deadline is resolved by a single permissionless
  \<open>advance_prediction\<close> (the mature proposal, or the Invalid timeout) as soon as the clock has passed
  the deadline and one delay more.\<close>

theorem deadline_market_resolves:
  assumes reach: "reach no_predictions (lifecycle_step rt) (now, w)" and m: "w_predictions w k = Some m"
    and canonical: "k = address rt (PredictionMarketPda (pm_market_id m))"
    and live: "pm_status m \<in> {OpenTrading, Frozen, Proposed}" and d: "deadline_of m = Some d"
    and late: "sint d + delay_of m \<le> sint now'"
  shows "\<exists>action w' m'. advance_prediction (at_time now' rt) w \<lparr>ap_market = k\<rparr> action = Inr w' \<and>
    w_predictions w' k = Some m' \<and> pm_status m' = Resolved"
proof -
  have ok: "lifecycle_ok (sint now) m" using reach_terms(2) [OF reach, of k m] m by simp
  then obtain t where terms: "config_terms (config_of m) t" by (auto simp: lifecycle_ok_def)
  have delay: "0 < delay_of m" "delay_of m < 2 ^ 63" using config_terms_of(1,2) [OF terms] .
  have arm: "\<exists>w' m'. advance_prediction (at_time now' rt) w \<lparr>ap_market = k\<rparr> action = Inr w' \<and>
      w_predictions w' k = Some m' \<and> pm_status m' = Resolved"
    if "pm_final_outcome m = None" "pm_status m' = Resolved"
      "action = 2 \<and> finalize_proposal now' m = Inr m' \<or> action = 3 \<and> finalize_timeout now' m = Inr m'" for action m'
    using that m canonical
    by (auto simp: advance_prediction_def load_prediction_def load_def put_prediction_def Let_def)
  show ?thesis
  proof (cases "pm_status m = Proposed")
    case True
    with ok obtain p where p: "pm_proposal m = Some p" "proposal_ok (sint now) m p" "pm_final_outcome m = None"
      by (auto simp: lifecycle_ok_def)
    have "sint (prop_proposed_at p) < sint d" "sint (prop_proposed_at p) + delay_of m < 2 ^ 63"
      using p(2) d by (simp_all add: proposal_ok_def)
    moreover from calculation obtain mt where "maturity m = Inr mt" "sint mt = sint (prop_proposed_at p) + delay_of m"
      using maturity_exists [OF p(1) delay] by blast
    ultimately have "finalize_proposal now' m =
        Inr (m\<lparr>pm_final_outcome := Some (prop_outcome p), pm_status := Resolved\<rparr>)"
      using True p late delay by (simp add: finalize_proposal_def ile_def)
    then show ?thesis using arm [OF p(3), of _ 2] by fastforce
  next
    case False
    then have st: "pm_status m = OpenTrading \<or> pm_status m = Frozen" "pm_proposal m = None" "pm_final_outcome m = None"
      using live ok by (auto simp: lifecycle_ok_def)
    then have "finalize_timeout now' m = Inr (m\<lparr>pm_resolution_phase := Fallback,
        pm_final_outcome := Some ResolveInvalid, pm_status := Resolved\<rparr>)"
      using d late delay by (auto simp: finalize_timeout_def deadline_of_def ile_def)
    then show ?thesis using arm [OF st(3), of _ 3] by fastforce
  qed
qed

text \<open>Only the published resolver proposes. From a reachable state, a proposal or correction
  succeeds only for an active admin who is the resolver of the current phase (the primary before
  any fallback opens, the fallback after), inside the agreed window, before any final outcome, and
  not once an earlier proposal has matured; it changes that market and nothing else.\<close>

theorem only_published_resolver_proposes:
  assumes reach: "reach no_predictions (lifecycle_step rt) (now, w)"
    and ok: "propose_prediction (at_time now' rt) w ks outcome uri hash correction = Inr w'"
  shows "\<exists>m m'. w_predictions w (rp_market ks) = Some m \<and> active_admin rt (rp_resolver ks) w \<and>
    pm_final_outcome m = None \<and> earliest_of m \<le> sint now' \<and>
    (case pm_resolution_phase m of
       Primary \<Rightarrow> rp_resolver ks = pm_resolver m \<and>
         (\<forall>f. pm_fallback m = Some f \<longrightarrow> sint now' < sint (fb_available_ts f))
     | Fallback \<Rightarrow> \<exists>f. pm_fallback m = Some f \<and> sint (fb_available_ts f) \<le> sint now' \<and>
         rp_resolver ks = fb_resolver f) \<and>
    (\<forall>d. deadline_of m = Some d \<longrightarrow> sint now' < sint d) \<and>
    (\<forall>p. pm_proposal m = Some p \<longrightarrow> sint now' < sint (prop_proposed_at p) + delay_of m) \<and>
    w' = put_prediction (rp_market ks) m' w \<and> terms_of m' = terms_of m"
proof (rule propose_ok [OF ok], goal_cases)
  case (1 m p)
  obtain t where terms: "config_terms (config_of m) t" using reach_terms(1) [OF reach, of "rp_market ks" m] 1(1) by auto
  have window: "resolver_window m (rp_resolver ks) now' = Inr ()" using 1(3) by simp
  note facts = resolver_window_Inr [OF window terms]
  have primary: "sint now' < sint (fb_available_ts f)" if "pm_resolution_phase m = Primary" "pm_fallback m = Some f" for f
    using window that by (auto simp: resolver_window_def run_simps ilt_def)
  have admin: "active_admin rt (rp_resolver ks) w" using 1(2) by (simp add: active_admin_def)
  have standing: "\<forall>q. pm_proposal m = Some q \<longrightarrow> sint now' < sint (prop_proposed_at q) + delay_of m"
    using 1(8) by auto
  have phase: "case pm_resolution_phase m of
       Primary \<Rightarrow> rp_resolver ks = pm_resolver m \<and>
         (\<forall>f. pm_fallback m = Some f \<longrightarrow> sint now' < sint (fb_available_ts f))
     | Fallback \<Rightarrow> \<exists>f. pm_fallback m = Some f \<and> sint (fb_available_ts f) \<le> sint now' \<and>
         rp_resolver ks = fb_resolver f"
    using facts(3) primary by (simp split: PredictionResolutionPhase.splits)
  have "terms_of (m\<lparr>pm_proposal := Some p, pm_status := Proposed\<rparr>) = terms_of m" by simp
  with 1(1,4,9) admin facts(1,2) standing phase show ?case by blast
qed

end
