(* ===== verification/Prediction_Collateral.thy ===== *)
theory Prediction_Collateral
  imports Prediction_Resolution
begin

text \<open>
  Collateral and complete sets of a prediction market: \<open>prediction_complete_set.rs\<close>,
  \<open>deposit_prediction_collateral.rs\<close> and \<open>withdraw_prediction_collateral.rs\<close>. A position holds
  cash, YES and NO claims, free and locked; the market counts the contracts it has issued and
  the reserve that backs them.
\<close>

section \<open>Positions\<close>

definition put_position :: "pubkey \<Rightarrow> PredictionPosition \<Rightarrow> world \<Rightarrow> world" where
  "put_position k p w = w\<lparr>w_positions := (w_positions w)(k \<mapsto> p)\<rparr>"

text \<open>\<open>seeds = [PREDICTION_POSITION_SEED, market, owner]\<close>, \<open>has_one = market\<close>, \<open>has_one = owner\<close>.\<close>

definition load_position ::
  "runtime \<Rightarrow> world \<Rightarrow> pubkey \<Rightarrow> pubkey \<Rightarrow> pubkey \<Rightarrow> (PredictionPosition account \<Rightarrow> 'a res) \<Rightarrow> 'a res" where
  "load_position rt w k market owner body =
     load (w_positions w) k (\<lambda>position.
     require (key position = address rt (PredictionPositionPda market owner)) ConstraintSeeds
     (require (pos_market (inner position) = market) PredictionPositionMarketMismatch
     (require (pos_owner (inner position) = owner) PredictionPositionOwnerMismatch
     (body position))))"

lemma load_position_Inr [run_simps]:
  "load_position rt w k market owner body = Inr y \<longleftrightarrow>
     (\<exists>p. w_positions w k = Some p \<and> k = address rt (PredictionPositionPda market owner) \<and>
        pos_market p = market \<and> pos_owner p = owner \<and> body (Account k p) = Inr y)"
  by (auto simp: load_position_def load_Inr require_Inr)

section \<open>Complete sets\<close>

record PredictionCompleteSet =
  pcs_owner :: pubkey
  pcs_market :: pubkey
  pcs_position :: pubkey

definition split_prediction_complete_set ::
  "runtime \<Rightarrow> world \<Rightarrow> PredictionCompleteSet \<Rightarrow> u64 \<Rightarrow> world res" where
  "split_prediction_complete_set rt w ks quantity =
     load_prediction rt w (pcs_market ks) (\<lambda>market.
     load_position rt w (pcs_position ks) (key market) (pcs_owner ks) (\<lambda>position.
     let m = inner market; p = inner position in
      require (pm_status m = OpenTrading \<and> ilt (unix_timestamp rt) (pm_close_ts m))
        PredictionSplitUnavailable
     (require (quantity > 0) InvalidPredictionContractQuantity
     (ok_or (checked_mul quantity (pm_payout_per_contract m)) PredictionAccountingOverflow (\<lambda>cost.
      ok_or (checked_sub (pos_collateral_free p) cost) InsufficientFreeBalance (\<lambda>free.
      ok_or (checked_add (pos_yes_free p) quantity) PredictionAccountingOverflow (\<lambda>yes.
      ok_or (checked_add (pos_no_free p) quantity) PredictionAccountingOverflow (\<lambda>no.
      ok_or (checked_add (pm_yes_supply m) quantity) PredictionAccountingOverflow (\<lambda>yes_supply.
      ok_or (checked_add (pm_no_supply m) quantity) PredictionAccountingOverflow (\<lambda>no_supply.
      ok_or (checked_add (pm_backing_reserve m) cost) PredictionAccountingOverflow (\<lambda>reserve.
      Inr (put_prediction (key market) (m\<lparr>pm_yes_supply := yes_supply, pm_no_supply := no_supply,
             pm_backing_reserve := reserve\<rparr>)
          (put_position (key position) (p\<lparr>pos_collateral_free := free, pos_yes_free := yes,
             pos_no_free := no\<rparr>) w)))))))))))))"

definition merge_prediction_complete_set ::
  "runtime \<Rightarrow> world \<Rightarrow> PredictionCompleteSet \<Rightarrow> u64 \<Rightarrow> world res" where
  "merge_prediction_complete_set rt w ks quantity =
     load_prediction rt w (pcs_market ks) (\<lambda>market.
     load_position rt w (pcs_position ks) (key market) (pcs_owner ks) (\<lambda>position.
     let m = inner market; p = inner position in
      require (pm_status m = OpenTrading \<or> pm_status m = Frozen \<or> pm_status m = Proposed)
        PredictionMergeUnavailable
     (require (quantity > 0) InvalidPredictionContractQuantity
     (ok_or (checked_mul quantity (pm_payout_per_contract m)) PredictionAccountingOverflow (\<lambda>refund.
      ok_or (checked_sub (pos_yes_free p) quantity) InsufficientPredictionPositions (\<lambda>yes.
      ok_or (checked_sub (pos_no_free p) quantity) InsufficientPredictionPositions (\<lambda>no.
      ok_or (checked_add (pos_collateral_free p) refund) FreeBalanceOverflow (\<lambda>free.
      ok_or (checked_sub (pm_yes_supply m) quantity) PredictionBackingUnderflow (\<lambda>yes_supply.
      ok_or (checked_sub (pm_no_supply m) quantity) PredictionBackingUnderflow (\<lambda>no_supply.
      ok_or (checked_sub (pm_backing_reserve m) refund) PredictionBackingUnderflow (\<lambda>reserve.
      Inr (put_prediction (key market) (m\<lparr>pm_yes_supply := yes_supply, pm_no_supply := no_supply,
             pm_backing_reserve := reserve\<rparr>)
          (put_position (key position) (p\<lparr>pos_collateral_free := free, pos_yes_free := yes,
             pos_no_free := no\<rparr>) w)))))))))))))"

section \<open>Deposits and withdrawals\<close>

text \<open>The question's vault: canonical address, the one recorded in the market, right mint and
  authority.\<close>

definition load_question_vault ::
  "runtime \<Rightarrow> world \<Rightarrow> pubkey \<Rightarrow> PredictionMarket account \<Rightarrow> pubkey \<Rightarrow> program_error \<Rightarrow>
     (TokenAccount account \<Rightarrow> 'a res) \<Rightarrow> 'a res" where
  "load_question_vault rt w k market mint wrong_vault body =
     load (w_tokens w) k (\<lambda>collateral_vault.
     require (key collateral_vault = vault rt (key market) mint) ConstraintSeeds
     (require (key collateral_vault = pm_collateral_vault (inner market)) wrong_vault
     (require (ta_mint (inner collateral_vault) = mint) ConstraintTokenMint
     (require (ta_owner (inner collateral_vault) = address rt (VaultAuthorityPda (key market)))
       ConstraintTokenOwner
     (body collateral_vault)))))"

lemma load_question_vault_Inr [run_simps]:
  "load_question_vault rt w k market mint e body = Inr y \<longleftrightarrow>
     (\<exists>v. w_tokens w k = Some v \<and> k = vault rt (key market) mint \<and> k = pm_collateral_vault (inner market) \<and>
        ta_mint v = mint \<and> ta_owner v = address rt (VaultAuthorityPda (key market)) \<and> body (Account k v) = Inr y)"
  by (auto simp: load_question_vault_def load_Inr require_Inr)

record DepositPredictionCollateral =
  dpc_owner :: pubkey
  dpc_market :: pubkey
  dpc_position :: pubkey
  dpc_collateral_mint :: pubkey
  dpc_source :: pubkey
  dpc_vault_authority :: pubkey
  dpc_collateral_vault :: pubkey

definition deposit_prediction_collateral ::
  "runtime \<Rightarrow> token_program \<Rightarrow> world \<Rightarrow> DepositPredictionCollateral \<Rightarrow> u64 \<Rightarrow> world res" where
  "deposit_prediction_collateral rt tp w ks amount =
     load_prediction rt w (dpc_market ks) (\<lambda>market.
     load_position rt w (dpc_position ks) (key market) (dpc_owner ks) (\<lambda>position.
     load (w_mints w) (dpc_collateral_mint ks) (\<lambda>collateral_mint.
     require (key collateral_mint = pm_collateral_mint (inner market)) InvalidPredictionCollateralMint
     (load (w_tokens w) (dpc_source ks) (\<lambda>source.
     require (ta_owner (inner source) = dpc_owner ks) InvalidPredictionTokenOwner
     (require (ta_mint (inner source) = key collateral_mint) InvalidPredictionCollateralMint
     (require (dpc_vault_authority ks = address rt (VaultAuthorityPda (key market))) ConstraintSeeds
     (load_question_vault rt w (dpc_collateral_vault ks) market (key collateral_mint) InvalidPredictionVault
       (\<lambda>collateral_vault.
     require (key source \<noteq> key collateral_vault) ConstraintDuplicateMutableAccount
     (require (pm_status (inner market) \<noteq> Resolved) PredictionDepositAfterResolution
     (require (amount > 0) InvalidDepositAmount
     (require (ta_amount (inner source) \<ge> amount) InsufficientDepositFunds
     (ok_or (checked_add (pos_collateral_free (inner position)) amount) FreeBalanceOverflow (\<lambda>next_free.
      try_in (transfer_checked tp (w_mints w) (w_tokens w) (key source) (key collateral_mint) (key collateral_vault)
         (dpc_owner ks) amount (mint_decimals (inner collateral_mint))) (\<lambda>tokens'.
      Inr (put_position (key position) ((inner position)\<lparr>pos_collateral_free := next_free\<rparr>)
         (w\<lparr>w_tokens := tokens'\<rparr>)))))))))))))))))"

record WithdrawPredictionCollateral =
  wpc_owner :: pubkey
  wpc_market :: pubkey
  wpc_position :: pubkey
  wpc_collateral_mint :: pubkey
  wpc_destination :: pubkey
  wpc_vault_authority :: pubkey
  wpc_collateral_vault :: pubkey

definition withdraw_prediction_collateral ::
  "runtime \<Rightarrow> token_program \<Rightarrow> world \<Rightarrow> WithdrawPredictionCollateral \<Rightarrow> u64 \<Rightarrow> world res" where
  "withdraw_prediction_collateral rt tp w ks amount =
     load_prediction rt w (wpc_market ks) (\<lambda>market.
     load_position rt w (wpc_position ks) (key market) (wpc_owner ks) (\<lambda>position.
     load (w_mints w) (wpc_collateral_mint ks) (\<lambda>collateral_mint.
     require (key collateral_mint = pm_collateral_mint (inner market)) InvalidPredictionCollateralMint
     (load (w_tokens w) (wpc_destination ks) (\<lambda>destination.
     require (ta_owner (inner destination) = wpc_owner ks) InvalidWithdrawalDestinationOwner
     (require (ta_mint (inner destination) = key collateral_mint) InvalidPredictionCollateralMint
     (require (wpc_vault_authority ks = address rt (VaultAuthorityPda (key market))) ConstraintSeeds
     (load_question_vault rt w (wpc_collateral_vault ks) market (key collateral_mint) InvalidPredictionVault
       (\<lambda>collateral_vault.
     require (key destination \<noteq> key collateral_vault) ConstraintDuplicateMutableAccount
     (require (amount > 0) InvalidWithdrawalAmount
     (ok_or (checked_sub (pos_collateral_free (inner position)) amount) InsufficientFreeBalance (\<lambda>next_free.
      require (ta_amount (inner collateral_vault) \<ge> amount) InsufficientVaultFunds
     (try_in (transfer_checked tp (w_mints w) (w_tokens w) (key collateral_vault) (key collateral_mint) (key destination)
         (wpc_vault_authority ks) amount (mint_decimals (inner collateral_mint))) (\<lambda>tokens'.
      Inr (put_position (key position) ((inner position)\<lparr>pos_collateral_free := next_free\<rparr>)
         (w\<lparr>w_tokens := tokens'\<rparr>))))))))))))))))"

end
