(* ===== verification/Asset_Wallet.thy ===== *)
theory Asset_Wallet
  imports Prediction_Collateral
begin

text \<open>
  The wallet shared by all markets: \<open>asset_wallet.rs\<close> (one ledger per owner and mint, one vault per
  mint, and the migration of existing free claims into it) and \<open>shared_prediction.rs\<close> (complete
  sets and redemption paid from and into the shared wallet).
\<close>

section \<open>Shared ledgers\<close>

definition put_asset :: "pubkey \<Rightarrow> AssetBalance \<Rightarrow> world \<Rightarrow> world" where
  "put_asset k a w = w\<lparr>w_assets := (w_assets w)(k \<mapsto> a)\<rparr>"

definition asset_vault :: "runtime \<Rightarrow> pubkey \<Rightarrow> pubkey" where
  "asset_vault rt mint = address rt (AssetVaultPda mint)"

definition asset_authority :: "runtime \<Rightarrow> pubkey \<Rightarrow> pubkey" where
  "asset_authority rt mint = address rt (AssetAuthorityPda mint)"

definition load_asset ::
  "runtime \<Rightarrow> world \<Rightarrow> pubkey \<Rightarrow> pubkey \<Rightarrow> pubkey \<Rightarrow> (AssetBalance account \<Rightarrow> 'a res) \<Rightarrow> 'a res" where
  "load_asset rt w k owner mint body =
     load (w_assets w) k (\<lambda>asset_balance.
     require (key asset_balance = address rt (AssetBalancePda owner mint)) ConstraintSeeds
     (require (ab_owner (inner asset_balance) = owner) InvalidAssetBalance
     (require (ab_mint (inner asset_balance) = mint) InvalidAssetBalance
     (body asset_balance))))"

definition load_asset_vault ::
  "runtime \<Rightarrow> world \<Rightarrow> pubkey \<Rightarrow> pubkey \<Rightarrow> (TokenAccount account \<Rightarrow> 'a res) \<Rightarrow> 'a res" where
  "load_asset_vault rt w k mint body =
     load (w_tokens w) k (\<lambda>v.
     require (key v = asset_vault rt mint) ConstraintSeeds
     (require (ta_mint (inner v) = mint) ConstraintTokenMint
     (require (ta_owner (inner v) = asset_authority rt mint) ConstraintTokenOwner
     (body v))))"

lemma load_asset_Inr [run_simps]:
  "load_asset rt w k owner mint body = Inr y \<longleftrightarrow>
     (\<exists>a. w_assets w k = Some a \<and> k = address rt (AssetBalancePda owner mint) \<and> ab_owner a = owner \<and>
        ab_mint a = mint \<and> body (Account k a) = Inr y)"
  by (auto simp: load_asset_def load_Inr require_Inr)

lemma load_asset_vault_Inr [run_simps]:
  "load_asset_vault rt w k mint body = Inr y \<longleftrightarrow>
     (\<exists>v. w_tokens w k = Some v \<and> k = asset_vault rt mint \<and> ta_mint v = mint \<and>
        ta_owner v = asset_authority rt mint \<and> body (Account k v) = Inr y)"
  by (auto simp: load_asset_vault_def load_Inr require_Inr)

record InitializeAssetBalance =
  iab_owner :: pubkey
  iab_mint :: pubkey
  iab_asset_balance :: pubkey
  iab_vault_authority :: pubkey
  iab_asset_vault :: pubkey

text \<open>\<open>init_if_needed\<close>: a missing vault is created, an existing one must have the right mint and
  authority.\<close>

definition initialize_asset_balance :: "runtime \<Rightarrow> world \<Rightarrow> InitializeAssetBalance \<Rightarrow> world res" where
  "initialize_asset_balance rt w ks =
     load (w_mints w) (iab_mint ks) (\<lambda>mint.
     require (iab_asset_balance ks = address rt (AssetBalancePda (iab_owner ks) (key mint))) ConstraintSeeds
     (require (w_assets w (iab_asset_balance ks) = None) AccountAlreadyInUse
     (require (iab_vault_authority ks = asset_authority rt (key mint)) ConstraintSeeds
     (require (iab_asset_vault ks = asset_vault rt (key mint)) ConstraintSeeds
     (try_in (case w_tokens w (iab_asset_vault ks) of
          None \<Rightarrow> Inr ((w_tokens w)(iab_asset_vault ks \<mapsto> new_token_account (key mint) (iab_vault_authority ks)))
        | Some v \<Rightarrow>
            require (ta_mint v = key mint) ConstraintTokenMint
            (require (ta_owner v = iab_vault_authority ks) ConstraintTokenOwner (Inr (w_tokens w)))) (\<lambda>tokens'.
      Inr (put_asset (iab_asset_balance ks)
         \<lparr>ab_owner = iab_owner ks, ab_mint = key mint, ab_free = 0, ab_locked = 0,
          ab_bump = snd (pda rt (AssetBalancePda (iab_owner ks) (key mint)))\<rparr>
         (w\<lparr>w_tokens := tokens'\<rparr>))))))))"

record TransferAsset =
  tra_owner :: pubkey
  tra_mint :: pubkey
  tra_asset_balance :: pubkey
  tra_wallet_token :: pubkey
  tra_vault_authority :: pubkey
  tra_asset_vault :: pubkey

text \<open>The constraints of \<open>TransferAsset\<close>.\<close>

definition load_transfer_asset ::
  "runtime \<Rightarrow> world \<Rightarrow> TransferAsset \<Rightarrow>
     (Mint account \<Rightarrow> AssetBalance account \<Rightarrow> TokenAccount account \<Rightarrow> TokenAccount account \<Rightarrow> 'a res) \<Rightarrow> 'a res" where
  "load_transfer_asset rt w ks body =
     load (w_mints w) (tra_mint ks) (\<lambda>mint.
     load_asset rt w (tra_asset_balance ks) (tra_owner ks) (key mint) (\<lambda>asset_balance.
     load (w_tokens w) (tra_wallet_token ks) (\<lambda>wallet_token.
     require (ta_mint (inner wallet_token) = key mint) ConstraintTokenMint
     (require (ta_owner (inner wallet_token) = tra_owner ks) ConstraintTokenOwner
     (require (tra_vault_authority ks = asset_authority rt (key mint)) ConstraintSeeds
     (load_asset_vault rt w (tra_asset_vault ks) (key mint) (\<lambda>asset_vault.
     require (key wallet_token \<noteq> key asset_vault) ConstraintDuplicateMutableAccount
     (body mint asset_balance wallet_token asset_vault))))))))"

definition deposit_asset ::
  "runtime \<Rightarrow> token_program \<Rightarrow> world \<Rightarrow> TransferAsset \<Rightarrow> u64 \<Rightarrow> world res" where
  "deposit_asset rt tp w ks amount =
     load_transfer_asset rt w ks (\<lambda>mint asset_balance wallet_token asset_vault.
     require (amount > 0) InvalidDepositAmount
     (require (ta_amount (inner wallet_token) \<ge> amount) InsufficientDepositFunds
     (ok_or (checked_add (ab_free (inner asset_balance)) amount) FreeBalanceOverflow (\<lambda>free.
      try_in (transfer_checked tp (w_mints w) (w_tokens w) (key wallet_token) (key mint) (key asset_vault)
         (tra_owner ks) amount (mint_decimals (inner mint))) (\<lambda>tokens'.
      Inr (put_asset (key asset_balance) ((inner asset_balance)\<lparr>ab_free := free\<rparr>)
         (w\<lparr>w_tokens := tokens'\<rparr>)))))))"

definition withdraw_asset ::
  "runtime \<Rightarrow> token_program \<Rightarrow> world \<Rightarrow> TransferAsset \<Rightarrow> u64 \<Rightarrow> world res" where
  "withdraw_asset rt tp w ks amount =
     load_transfer_asset rt w ks (\<lambda>mint asset_balance wallet_token asset_vault.
     require (amount > 0) InvalidWithdrawalAmount
     (ok_or (checked_sub (ab_free (inner asset_balance)) amount) InsufficientFreeBalance (\<lambda>free.
      require (ta_amount (inner asset_vault) \<ge> amount) InsufficientVaultFunds
     (try_in (transfer_checked tp (w_mints w) (w_tokens w) (key asset_vault) (key mint) (key wallet_token)
         (tra_vault_authority ks) amount (mint_decimals (inner mint))) (\<lambda>tokens'.
      Inr (put_asset (key asset_balance) ((inner asset_balance)\<lparr>ab_free := free\<rparr>)
         (w\<lparr>w_tokens := tokens'\<rparr>)))))))"

section \<open>Migration\<close>

record MigrateSpotAsset =
  msa_owner :: pubkey
  msa_market :: pubkey
  msa_trader_balance :: pubkey
  msa_mint :: pubkey
  msa_asset_balance :: pubkey
  msa_market_authority :: pubkey
  msa_market_vault :: pubkey
  msa_asset_authority :: pubkey
  msa_asset_vault :: pubkey

definition migrate_spot_asset ::
  "runtime \<Rightarrow> token_program \<Rightarrow> world \<Rightarrow> MigrateSpotAsset \<Rightarrow> u64 \<Rightarrow> world res" where
  "migrate_spot_asset rt tp w ks amount =
     load (ss_markets (w_spot w)) (msa_market ks) (\<lambda>market.
     load (ss_balances (w_spot w)) (msa_trader_balance ks) (\<lambda>trader_balance.
     require (key trader_balance = address rt (TraderBalancePda (key market) (msa_owner ks))) ConstraintSeeds
     (require (tb_owner (inner trader_balance) = msa_owner ks) TraderBalanceOwnerMismatch
     (require (tb_market (inner trader_balance) = key market) TraderBalanceMarketMismatch
     (load (w_mints w) (msa_mint ks) (\<lambda>mint_account.
     load_asset rt w (msa_asset_balance ks) (msa_owner ks) (key mint_account) (\<lambda>asset_balance.
     require (msa_market_authority ks = address rt (VaultAuthorityPda (key market))) ConstraintSeeds
     (load (w_tokens w) (msa_market_vault ks) (\<lambda>market_vault.
     require (key market_vault = vault rt (key market) (key mint_account)) ConstraintSeeds
     (require (ta_mint (inner market_vault) = key mint_account) ConstraintTokenMint
     (require (ta_owner (inner market_vault) = msa_market_authority ks) ConstraintTokenOwner
     (require (msa_asset_authority ks = asset_authority rt (key mint_account)) ConstraintSeeds
     (load_asset_vault rt w (msa_asset_vault ks) (key mint_account) (\<lambda>asset_vault.
     require (key market_vault \<noteq> key asset_vault) ConstraintDuplicateMutableAccount
     (require (amount > 0) InvalidDepositAmount
     (let mint = key mint_account; mk = inner market; tb = inner trader_balance in
      try_in (if mint = mkt_base_mint mk then Inr (tb_base_free tb)
        else if mint = mkt_quote_mint mk then Inr (tb_quote_free tb)
        else Inl InvalidDepositMint) (\<lambda>free.
      ok_or (checked_sub free amount) InsufficientFreeBalance (\<lambda>remaining.
      ok_or (checked_add (ab_free (inner asset_balance)) amount) FreeBalanceOverflow (\<lambda>shared_free.
      try_in (transfer_checked tp (w_mints w) (w_tokens w) (key market_vault) mint (key asset_vault)
         (msa_market_authority ks) amount (mint_decimals (inner mint_account))) (\<lambda>tokens'.
      Inr (put_asset (key asset_balance) ((inner asset_balance)\<lparr>ab_free := shared_free\<rparr>)
         (put_balance (key trader_balance) (set_free mk mint remaining tb) tokens' w))))))))))))))))))))))"

record MigratePredictionAsset =
  mpa_owner :: pubkey
  mpa_market :: pubkey
  mpa_position :: pubkey
  mpa_mint :: pubkey
  mpa_asset_balance :: pubkey
  mpa_market_authority :: pubkey
  mpa_market_vault :: pubkey
  mpa_asset_authority :: pubkey
  mpa_asset_vault :: pubkey

definition migrate_prediction_asset ::
  "runtime \<Rightarrow> token_program \<Rightarrow> world \<Rightarrow> MigratePredictionAsset \<Rightarrow> u64 \<Rightarrow> world res" where
  "migrate_prediction_asset rt tp w ks amount =
     load_prediction rt w (mpa_market ks) (\<lambda>market.
     load (w_positions w) (mpa_position ks) (\<lambda>position.
     require (key position = address rt (PredictionPositionPda (key market) (mpa_owner ks))) ConstraintSeeds
     (require (pos_owner (inner position) = mpa_owner ks \<and> pos_market (inner position) = key market)
       InvalidAssetBalance
     (load (w_mints w) (mpa_mint ks) (\<lambda>mint.
     require (key mint = pm_collateral_mint (inner market)) ConstraintAddress
     (load_asset rt w (mpa_asset_balance ks) (mpa_owner ks) (key mint) (\<lambda>asset_balance.
     require (mpa_market_authority ks = address rt (VaultAuthorityPda (key market))) ConstraintSeeds
     (load_question_vault rt w (mpa_market_vault ks) market (key mint) ConstraintAddress (\<lambda>market_vault.
     require (mpa_asset_authority ks = asset_authority rt (key mint)) ConstraintSeeds
     (load_asset_vault rt w (mpa_asset_vault ks) (key mint) (\<lambda>asset_vault.
     require (key market_vault \<noteq> key asset_vault) ConstraintDuplicateMutableAccount
     (require (amount > 0) InvalidDepositAmount
     (ok_or (checked_sub (pos_collateral_free (inner position)) amount) InsufficientFreeBalance (\<lambda>remaining.
      ok_or (checked_add (ab_free (inner asset_balance)) amount) FreeBalanceOverflow (\<lambda>free.
      try_in (transfer_checked tp (w_mints w) (w_tokens w) (key market_vault) (key mint) (key asset_vault)
         (mpa_market_authority ks) amount (mint_decimals (inner mint))) (\<lambda>tokens'.
      Inr (put_asset (key asset_balance) ((inner asset_balance)\<lparr>ab_free := free\<rparr>)
         (put_position (key position) ((inner position)\<lparr>pos_collateral_free := remaining\<rparr>)
           (w\<lparr>w_tokens := tokens'\<rparr>)))))))))))))))))))"

section \<open>Complete sets and redemption from the shared wallet\<close>

record SharedPredictionCustody =
  spc_owner :: pubkey
  spc_market :: pubkey
  spc_position :: pubkey
  spc_mint :: pubkey
  spc_asset_balance :: pubkey
  spc_asset_authority :: pubkey
  spc_asset_vault :: pubkey
  spc_market_authority :: pubkey
  spc_market_vault :: pubkey

text \<open>The validated accounts of \<open>SharedPredictionCustody\<close>.\<close>

record shared_custody =
  sc_market :: "PredictionMarket account"
  sc_position :: "PredictionPosition account"
  sc_mint :: "Mint account"
  sc_asset_balance :: "AssetBalance account"
  sc_asset_vault :: "TokenAccount account"
  sc_market_vault :: "TokenAccount account"

definition load_shared_custody ::
  "runtime \<Rightarrow> world \<Rightarrow> SharedPredictionCustody \<Rightarrow> (shared_custody \<Rightarrow> 'a res) \<Rightarrow> 'a res" where
  "load_shared_custody rt w ks body =
     load_prediction rt w (spc_market ks) (\<lambda>market.
     load (w_positions w) (spc_position ks) (\<lambda>position.
     require (key position = address rt (PredictionPositionPda (key market) (spc_owner ks))) ConstraintSeeds
     (require (pos_owner (inner position) = spc_owner ks) PredictionPositionOwnerMismatch
     (require (pos_market (inner position) = key market) PredictionPositionMarketMismatch
     (load (w_mints w) (spc_mint ks) (\<lambda>mint.
     require (key mint = pm_collateral_mint (inner market)) ConstraintAddress
     (load_asset rt w (spc_asset_balance ks) (spc_owner ks) (key mint) (\<lambda>asset_balance.
     require (spc_asset_authority ks = asset_authority rt (key mint)) ConstraintSeeds
     (load_asset_vault rt w (spc_asset_vault ks) (key mint) (\<lambda>asset_vault.
     require (spc_market_authority ks = address rt (VaultAuthorityPda (key market))) ConstraintSeeds
     (load_question_vault rt w (spc_market_vault ks) market (key mint) ConstraintAddress (\<lambda>market_vault.
     require (key asset_vault \<noteq> key market_vault) ConstraintDuplicateMutableAccount
     (body \<lparr>sc_market = market, sc_position = position, sc_mint = mint, sc_asset_balance = asset_balance,
        sc_asset_vault = asset_vault, sc_market_vault = market_vault\<rparr>)))))))))))))"

text \<open>\<open>fn transfer\<close>: between the two vaults, signed by the source's authority; nothing for zero.\<close>

definition shared_transfer ::
  "runtime \<Rightarrow> token_program \<Rightarrow> mints \<Rightarrow> tokens \<Rightarrow> shared_custody \<Rightarrow> u64 \<Rightarrow> bool \<Rightarrow> tokens res" where
  "shared_transfer rt tp ms ts c amount into_reserve =
     (if amount = 0 then Inr ts
      else if into_reserve
      then transfer_checked tp ms ts (key (sc_asset_vault c)) (key (sc_mint c)) (key (sc_market_vault c))
        (asset_authority rt (key (sc_mint c))) amount (mint_decimals (inner (sc_mint c)))
      else transfer_checked tp ms ts (key (sc_market_vault c)) (key (sc_mint c)) (key (sc_asset_vault c))
        (address rt (VaultAuthorityPda (key (sc_market c)))) amount (mint_decimals (inner (sc_mint c))))"

text \<open>Writing back the three ledgers of a shared custody instruction.\<close>

definition put_custody ::
  "shared_custody \<Rightarrow> tokens \<Rightarrow> PredictionMarket \<Rightarrow> PredictionPosition \<Rightarrow> AssetBalance \<Rightarrow> world \<Rightarrow> world" where
  "put_custody c ts m p b w =
     put_prediction (key (sc_market c)) m (put_position (key (sc_position c)) p
       (put_asset (key (sc_asset_balance c)) b (w\<lparr>w_tokens := ts\<rparr>)))"

definition shared_complete_set ::
  "runtime \<Rightarrow> token_program \<Rightarrow> world \<Rightarrow> SharedPredictionCustody \<Rightarrow> u64 \<Rightarrow> bool \<Rightarrow> world res" where
  "shared_complete_set rt tp w ks quantity split =
     load_shared_custody rt w ks (\<lambda>c.
     let m = inner (sc_market c); p = inner (sc_position c); b = inner (sc_asset_balance c) in
      require (quantity > 0) InvalidPredictionContractQuantity
     (try_in (if split
        then require (pm_status m = OpenTrading \<and> ilt (unix_timestamp rt) (pm_close_ts m))
          PredictionSplitUnavailable (Inr ())
        else require (pm_status m = OpenTrading \<or> pm_status m = Frozen \<or> pm_status m = Proposed)
          PredictionMergeUnavailable (Inr ())) (\<lambda>_.
      ok_or (checked_mul quantity (pm_payout_per_contract m)) PredictionAccountingOverflow (\<lambda>amount.
      try_in (shared_transfer rt tp (w_mints w) (w_tokens w) c amount split) (\<lambda>tokens'.
      if split
      then ok_or (checked_sub (ab_free b) amount) InsufficientFreeBalance (\<lambda>free.
        ok_or (checked_add (pos_yes_free p) quantity) PredictionAccountingOverflow (\<lambda>yes.
        ok_or (checked_add (pos_no_free p) quantity) PredictionAccountingOverflow (\<lambda>no.
        ok_or (checked_add (pm_yes_supply m) quantity) PredictionAccountingOverflow (\<lambda>yes_supply.
        ok_or (checked_add (pm_no_supply m) quantity) PredictionAccountingOverflow (\<lambda>no_supply.
        ok_or (checked_add (pm_backing_reserve m) amount) PredictionAccountingOverflow (\<lambda>reserve.
        Inr (put_custody c tokens'
          (m\<lparr>pm_yes_supply := yes_supply, pm_no_supply := no_supply, pm_backing_reserve := reserve\<rparr>)
          (p\<lparr>pos_yes_free := yes, pos_no_free := no\<rparr>) (b\<lparr>ab_free := free\<rparr>) w)))))))
      else ok_or (checked_sub (pos_yes_free p) quantity) InsufficientPredictionPositions (\<lambda>yes.
        ok_or (checked_sub (pos_no_free p) quantity) InsufficientPredictionPositions (\<lambda>no.
        ok_or (checked_sub (pm_yes_supply m) quantity) PredictionBackingUnderflow (\<lambda>yes_supply.
        ok_or (checked_sub (pm_no_supply m) quantity) PredictionBackingUnderflow (\<lambda>no_supply.
        ok_or (checked_sub (pm_backing_reserve m) amount) PredictionBackingUnderflow (\<lambda>reserve.
        ok_or (checked_add (ab_free b) amount) FreeBalanceOverflow (\<lambda>free.
        Inr (put_custody c tokens'
          (m\<lparr>pm_yes_supply := yes_supply, pm_no_supply := no_supply, pm_backing_reserve := reserve\<rparr>)
          (p\<lparr>pos_yes_free := yes, pos_no_free := no\<rparr>) (b\<lparr>ab_free := free\<rparr>) w))))))))))))"

text \<open>The payout of \<open>yes\<close> and \<open>no\<close> contracts under an outcome, in \<open>u128\<close>.\<close>

definition payout_amount :: "PredictionResolution \<Rightarrow> u64 \<Rightarrow> u64 \<Rightarrow> u64 \<Rightarrow> u128" where
  "payout_amount outcome yes no payout =
     (case outcome of
        ResolveYes \<Rightarrow> u128_from yes * u128_from payout
      | ResolveNo \<Rightarrow> u128_from no * u128_from payout
      | ResolveInvalid \<Rightarrow> (u128_from yes + u128_from no) * u128_from (payout div 2))"

definition redeem_prediction ::
  "runtime \<Rightarrow> token_program \<Rightarrow> world \<Rightarrow> SharedPredictionCustody \<Rightarrow> u64 \<Rightarrow> u64 \<Rightarrow> world res" where
  "redeem_prediction rt tp w ks yes no =
     load_shared_custody rt w ks (\<lambda>c.
     let m = inner (sc_market c); p = inner (sc_position c); b = inner (sc_asset_balance c) in
      require (yes > 0 \<or> no > 0) NothingToRedeem
     (require (pm_status m = Resolved) PredictionNotResolved
     (ok_or (pm_final_outcome m) PredictionNotResolved (\<lambda>final_outcome.
      require (pm_payout_per_contract m > 0 \<and> is_multiple_of (pm_payout_per_contract m) 2)
        PredictionBackingUnderflow
     (ok_or (u64_try_from (payout_amount final_outcome yes no (pm_payout_per_contract m)))
        PredictionAccountingOverflow (\<lambda>amount.
      try_in (shared_transfer rt tp (w_mints w) (w_tokens w) c amount False) (\<lambda>tokens'.
      ok_or (checked_sub (pos_yes_free p) yes) InsufficientPredictionPositions (\<lambda>yes_free.
      ok_or (checked_sub (pos_no_free p) no) InsufficientPredictionPositions (\<lambda>no_free.
      ok_or (checked_sub (pm_yes_supply m) yes) PredictionBackingUnderflow (\<lambda>yes_supply.
      ok_or (checked_sub (pm_no_supply m) no) PredictionBackingUnderflow (\<lambda>no_supply.
      ok_or (checked_sub (pm_backing_reserve m) amount) PredictionBackingUnderflow (\<lambda>reserve.
      ok_or (checked_add (ab_free b) amount) FreeBalanceOverflow (\<lambda>free.
      Inr (put_custody c tokens'
        (m\<lparr>pm_yes_supply := yes_supply, pm_no_supply := no_supply, pm_backing_reserve := reserve\<rparr>)
        (p\<lparr>pos_yes_free := yes_free, pos_no_free := no_free\<rparr>) (b\<lparr>ab_free := free\<rparr>) w))))))))))))))"

end
