(* ===== verification/Prediction_Orders.thy ===== *)
theory Prediction_Orders
  imports Prediction_Collateral
begin

text \<open>
  Resting orders of a prediction market: the shared rules of \<open>prediction_orders.rs\<close> and the three
  ways to place one, \<open>place_prediction_order.rs\<close> (first of its list), \<open>append_prediction_order.rs\<close>
  (at an existing price) and \<open>insert_prediction_order.rs\<close> (at a new price). A market has four
  lists, one per outcome and side.
\<close>

section \<open>Shared rules\<close>

fun opposite :: "OrderSide \<Rightarrow> OrderSide" where
  "opposite Bid = Ask"
| "opposite Ask = Bid"

text \<open>\<open>a\<close> has priority over \<open>b\<close> on a side: the closures \<open>precedes\<close> of the handlers.\<close>

definition side_precedes :: "OrderSide \<Rightarrow> u64 \<Rightarrow> u64 \<Rightarrow> bool" where
  "side_precedes side a b = (case side of Bid \<Rightarrow> a > b | Ask \<Rightarrow> a < b)"

definition validate_resting_order ::
  "runtime \<Rightarrow> PredictionMarket \<Rightarrow> PredictionOrderBook \<Rightarrow> u64 \<Rightarrow> PredictionOutcome \<Rightarrow> OrderSide \<Rightarrow> u64 \<Rightarrow>
     u64 \<Rightarrow> (u64 \<times> u64) res" where
  "validate_resting_order rt market book order_id outcome side price quantity =
     require (pm_status market = OpenTrading \<and> ilt (unix_timestamp rt) (pm_close_ts market))
       PredictionOrderUnavailable
     (require (quantity > 0) InvalidPredictionContractQuantity
     (require (price > 0 \<and> price < pm_payout_per_contract market \<and> pm_price_tick market > 0)
       InvalidPredictionOrderPrice
     (require (is_multiple_of price (pm_price_tick market)) InvalidPredictionOrderPrice
     (require (order_id > 0 \<and> order_id = pob_next_order_id book) InvalidPredictionOrderId
     (try_in (case best_price book outcome (opposite side) of
          None \<Rightarrow> Inr ()
        | Some other \<Rightarrow>
            require (case side of Bid \<Rightarrow> price < other | Ask \<Rightarrow> price > other) PredictionOrderWouldCross
              (Inr ())) (\<lambda>_.
      ok_or (checked_add (pob_next_order_id book) 1) PredictionAccountingOverflow (\<lambda>next_id.
      ok_or (checked_add (pm_open_order_count market) 1) PredictionAccountingOverflow (\<lambda>count.
      Inr (next_id, count)))))))))"

text \<open>The bucket of a position an order on a list draws from: cash for bids, the contracts of the
  outcome for asks.\<close>

fun bucket_free :: "PredictionOutcome \<Rightarrow> OrderSide \<Rightarrow> PredictionPosition \<Rightarrow> u64" where
  "bucket_free oc Bid p = pos_collateral_free p"
| "bucket_free YesOutcome Ask p = pos_yes_free p"
| "bucket_free NoOutcome Ask p = pos_no_free p"

fun bucket_locked :: "PredictionOutcome \<Rightarrow> OrderSide \<Rightarrow> PredictionPosition \<Rightarrow> u64" where
  "bucket_locked oc Bid p = pos_collateral_locked p"
| "bucket_locked YesOutcome Ask p = pos_yes_locked p"
| "bucket_locked NoOutcome Ask p = pos_no_locked p"

fun set_bucket ::
  "PredictionOutcome \<Rightarrow> OrderSide \<Rightarrow> u64 \<Rightarrow> u64 \<Rightarrow> PredictionPosition \<Rightarrow> PredictionPosition" where
  "set_bucket oc Bid free locked p = p\<lparr>pos_collateral_free := free, pos_collateral_locked := locked\<rparr>"
| "set_bucket YesOutcome Ask free locked p = p\<lparr>pos_yes_free := free, pos_yes_locked := locked\<rparr>"
| "set_bucket NoOutcome Ask free locked p = p\<lparr>pos_no_free := free, pos_no_locked := locked\<rparr>"

definition lock_resting_funds ::
  "PredictionPosition \<Rightarrow> PredictionOutcome \<Rightarrow> OrderSide \<Rightarrow> u64 \<Rightarrow> u64 \<Rightarrow> (PredictionPosition \<times> u64) res" where
  "lock_resting_funds position outcome side price quantity =
     try_in (case side of
         Bid \<Rightarrow> ok_or (checked_mul price quantity) PredictionAccountingOverflow Inr
       | Ask \<Rightarrow> Inr quantity) (\<lambda>amount.
     ok_or (checked_sub (bucket_free outcome side position) amount)
       (case side of Bid \<Rightarrow> InsufficientFreeBalance | Ask \<Rightarrow> InsufficientPredictionPositions) (\<lambda>next_free.
     ok_or (checked_add (bucket_locked outcome side position) amount) LockedBalanceOverflow (\<lambda>next_locked.
     Inr (set_bucket outcome side next_free next_locked position, amount))))"

text \<open>\<open>seeds = [PREDICTION_BOOK_SEED, market]\<close>, \<open>has_one = market\<close>.\<close>

definition load_prediction_book ::
  "runtime \<Rightarrow> world \<Rightarrow> pubkey \<Rightarrow> pubkey \<Rightarrow> (PredictionOrderBook account \<Rightarrow> 'a res) \<Rightarrow> 'a res" where
  "load_prediction_book rt w k market body =
     load (w_prediction_books w) k (\<lambda>order_book.
     require (key order_book = address rt (PredictionBookPda market)) ConstraintSeeds
     (require (pob_market (inner order_book) = market) PredictionBookMarketMismatch
     (body order_book)))"

lemma load_prediction_book_Inr [run_simps]:
  "load_prediction_book rt w k market body = Inr y \<longleftrightarrow>
     (\<exists>b. w_prediction_books w k = Some b \<and> k = address rt (PredictionBookPda market) \<and>
        pob_market b = market \<and> body (Account k b) = Inr y)"
  by (auto simp: load_prediction_book_def load_Inr require_Inr)

text \<open>The accounts the three placing instructions share.\<close>

record PlacePredictionOrder =
  ppo_owner :: pubkey
  ppo_market :: pubkey
  ppo_position :: pubkey
  ppo_order_book :: pubkey
  ppo_price_level :: pubkey
  ppo_order :: pubkey

definition new_prediction_order ::
  "runtime \<Rightarrow> PlacePredictionOrder \<Rightarrow> u64 \<Rightarrow> PredictionOutcome \<Rightarrow> OrderSide \<Rightarrow> u64 \<Rightarrow> u64 \<Rightarrow> u64 \<Rightarrow>
     pubkey option \<Rightarrow> PredictionOrder" where
  "new_prediction_order rt ks order_id outcome side price quantity amount previous =
     \<lparr>po_owner = ppo_owner ks, po_market = ppo_market ks, po_order_id = order_id,
      po_outcome = outcome, po_side = side, po_price = price, po_price_level = ppo_price_level ks,
      po_previous_order = previous, po_next_order = None, po_quantity = quantity,
      po_remaining_quantity = quantity, po_locked_collateral = amount, po_status = Open,
      po_bump = snd (pda rt (PredictionOrderPda (ppo_market ks) order_id))\<rparr>"

definition new_prediction_level ::
  "runtime \<Rightarrow> PlacePredictionOrder \<Rightarrow> PredictionOutcome \<Rightarrow> OrderSide \<Rightarrow> u64 \<Rightarrow> u64 \<Rightarrow> u64 option \<Rightarrow>
     u64 option \<Rightarrow> PredictionPriceLevel" where
  "new_prediction_level rt ks outcome side price quantity better worse =
     \<lparr>pl_market = ppo_market ks, pl_outcome = outcome, pl_side = side, pl_price = price,
      pl_better_price = better, pl_worse_price = worse, pl_first_order = Some (ppo_order ks),
      pl_last_order = Some (ppo_order ks), pl_total_remaining_quantity = quantity,
      pl_order_count = 1, pl_rent_payer = ppo_owner ks,
      pl_bump = snd (pda rt (PredictionLevelPda (ppo_market ks) outcome side price))\<rparr>"

section \<open>The first order of a list\<close>

definition place_prediction_order ::
  "runtime \<Rightarrow> world \<Rightarrow> PlacePredictionOrder \<Rightarrow> u64 \<Rightarrow> PredictionOutcome \<Rightarrow> OrderSide \<Rightarrow> u64 \<Rightarrow> u64 \<Rightarrow> world res" where
  "place_prediction_order rt w ks order_id outcome side price quantity =
     load_prediction rt w (ppo_market ks) (\<lambda>market.
     load_position rt w (ppo_position ks) (key market) (ppo_owner ks) (\<lambda>position.
     load_prediction_book rt w (ppo_order_book ks) (key market) (\<lambda>book.
     require (ppo_price_level ks = address rt (PredictionLevelPda (key market) outcome side price))
       ConstraintSeeds
     (require (w_prediction_levels w (ppo_price_level ks) = None) AccountAlreadyInUse
     (require (ppo_order ks = address rt (PredictionOrderPda (key market) order_id)) ConstraintSeeds
     (require (w_prediction_orders w (ppo_order ks) = None) AccountAlreadyInUse
     (try_in (validate_resting_order rt (inner market) (inner book) order_id outcome side price quantity)
       (\<lambda>(next_id, count).
      require (best_price (inner book) outcome side = None) PredictionSideNotEmpty
     (try_in (lock_resting_funds (inner position) outcome side price quantity) (\<lambda>(position', amount).
      Inr (w\<lparr>
        w_predictions := (w_predictions w)(key market \<mapsto> (inner market)\<lparr>pm_open_order_count := count\<rparr>),
        w_positions := (w_positions w)(key position \<mapsto> position'),
        w_prediction_books := (w_prediction_books w)(key book \<mapsto>
          (set_best_price (inner book) outcome side (Some price))\<lparr>pob_next_order_id := next_id\<rparr>),
        w_prediction_levels := (w_prediction_levels w)(ppo_price_level ks \<mapsto>
          new_prediction_level rt ks outcome side price quantity None None),
        w_prediction_orders := (w_prediction_orders w)(ppo_order ks \<mapsto>
          new_prediction_order rt ks order_id outcome side price quantity amount None)\<rparr>)))))))))))"

section \<open>At an existing price\<close>

text \<open>The tail checks of \<open>handle_append_prediction_order\<close>.\<close>

definition check_prediction_tail ::
  "PredictionPriceLevel account \<Rightarrow> PredictionOrder account \<Rightarrow> pubkey \<Rightarrow> u64 \<Rightarrow> PredictionOutcome \<Rightarrow>
     OrderSide \<Rightarrow> u64 \<Rightarrow> unit res" where
  "check_prediction_tail level_account tail_account market_key order_id outcome side price =
     (let level = inner level_account; tail = inner tail_account; tail_key = key tail_account in
      require (pl_order_count level > 0 \<and> pl_first_order level \<noteq> None \<and>
          pl_last_order level = Some tail_key) InvalidPredictionTail
     (require (po_market tail = market_key \<and> po_price_level tail = key level_account \<and>
          po_outcome tail = outcome \<and> po_side tail = side \<and> po_price tail = price \<and>
          po_status tail = Open \<and> po_remaining_quantity tail > 0 \<and>
          po_remaining_quantity tail \<le> po_quantity tail \<and> po_next_order tail = None \<and>
          po_order_id tail > 0 \<and> po_order_id tail < order_id) InvalidPredictionTail
     (require (if pl_order_count level = 1
          then pl_first_order level = Some tail_key \<and> po_previous_order tail = None \<and>
            pl_total_remaining_quantity level = po_remaining_quantity tail
          else pl_first_order level \<noteq> Some tail_key \<and> po_previous_order tail \<noteq> None \<and>
            po_previous_order tail \<noteq> Some tail_key \<and>
            pl_total_remaining_quantity level \<ge> po_remaining_quantity tail) InvalidPredictionTail
     (Inr ()))))"

text \<open>\<open>seeds = [PREDICTION_PRICE_LEVEL_SEED, ...]\<close> with the identity constraints of a level that
  exists.\<close>

definition load_prediction_level ::
  "runtime \<Rightarrow> world \<Rightarrow> pubkey \<Rightarrow> pubkey \<Rightarrow> PredictionOutcome \<Rightarrow> OrderSide \<Rightarrow> u64 \<Rightarrow>
     (PredictionPriceLevel account \<Rightarrow> 'a res) \<Rightarrow> 'a res" where
  "load_prediction_level rt w k market outcome side price body =
     load (w_prediction_levels w) k (\<lambda>price_level.
     require (key price_level = address rt (PredictionLevelPda market outcome side price)) ConstraintSeeds
     (require (pl_market (inner price_level) = market) InvalidPredictionPriceLevel
     (require (pl_outcome (inner price_level) = outcome \<and> pl_side (inner price_level) = side \<and>
         pl_price (inner price_level) = price) InvalidPredictionPriceLevel
     (body price_level))))"

lemma load_prediction_level_Inr [run_simps]:
  "load_prediction_level rt w k market outcome side price body = Inr y \<longleftrightarrow>
     (\<exists>v. w_prediction_levels w k = Some v \<and> k = address rt (PredictionLevelPda market outcome side price) \<and>
        pl_market v = market \<and> pl_outcome v = outcome \<and> pl_side v = side \<and> pl_price v = price \<and>
        body (Account k v) = Inr y)"
  by (auto simp: load_prediction_level_def load_Inr require_Inr)

definition append_prediction_order ::
  "runtime \<Rightarrow> world \<Rightarrow> PlacePredictionOrder \<Rightarrow> pubkey \<Rightarrow> u64 \<Rightarrow> PredictionOutcome \<Rightarrow> OrderSide \<Rightarrow> u64 \<Rightarrow>
     u64 \<Rightarrow> world res" where
  "append_prediction_order rt w ks tail_order order_id outcome side price quantity =
     load_prediction rt w (ppo_market ks) (\<lambda>market.
     load_position rt w (ppo_position ks) (key market) (ppo_owner ks) (\<lambda>position.
     load_prediction_book rt w (ppo_order_book ks) (key market) (\<lambda>book.
     load_prediction_level rt w (ppo_price_level ks) (key market) outcome side price (\<lambda>level.
     load (w_prediction_orders w) tail_order (\<lambda>tail.
     require (key tail = address rt (PredictionOrderPda (key market) (po_order_id (inner tail)))) ConstraintSeeds
     (require (ppo_order ks = address rt (PredictionOrderPda (key market) order_id)) ConstraintSeeds
     (require (w_prediction_orders w (ppo_order ks) = None) AccountAlreadyInUse
     (try_in (validate_resting_order rt (inner market) (inner book) order_id outcome side price quantity)
       (\<lambda>(next_id, count).
      ok_or (best_price (inner book) outcome side) InvalidPredictionPriceLevel (\<lambda>best.
      require (((best = price) = (pl_better_price (inner level) = None)) \<and>
          (case side of Bid \<Rightarrow> best \<ge> price | Ask \<Rightarrow> best \<le> price)) InvalidPredictionPriceLevel
     (try_in (check_prediction_tail level tail (key market) order_id outcome side price) (\<lambda>_.
      ok_or (checked_add (pl_total_remaining_quantity (inner level)) quantity) PredictionAccountingOverflow (\<lambda>total.
      ok_or (checked_add (pl_order_count (inner level)) 1) PredictionAccountingOverflow (\<lambda>level_count.
      try_in (lock_resting_funds (inner position) outcome side price quantity) (\<lambda>(position', amount).
      Inr (w\<lparr>
        w_predictions := (w_predictions w)(key market \<mapsto> (inner market)\<lparr>pm_open_order_count := count\<rparr>),
        w_positions := (w_positions w)(key position \<mapsto> position'),
        w_prediction_books := (w_prediction_books w)(key book \<mapsto>
          (inner book)\<lparr>pob_next_order_id := next_id\<rparr>),
        w_prediction_levels := (w_prediction_levels w)(key level \<mapsto>
          (inner level)\<lparr>pl_last_order := Some (ppo_order ks), pl_total_remaining_quantity := total,
            pl_order_count := level_count\<rparr>),
        w_prediction_orders := (w_prediction_orders w)
          (key tail \<mapsto> (inner tail)\<lparr>po_next_order := Some (ppo_order ks)\<rparr>,
           ppo_order ks \<mapsto> new_prediction_order rt ks order_id outcome side price quantity amount
             (Some (key tail)))\<rparr>))))))))))))))))"

section \<open>At a new price\<close>

text \<open>\<open>fn validate_neighbor\<close>.\<close>

definition validate_neighbor ::
  "runtime \<Rightarrow> PredictionPriceLevel account \<Rightarrow> pubkey \<Rightarrow> PredictionOutcome \<Rightarrow> OrderSide \<Rightarrow> u64 \<Rightarrow> unit res" where
  "validate_neighbor rt level_account market outcome side best =
     (let level = inner level_account;
          (expected, bump) = derive_prediction_price_level_pda rt (program_id rt) market outcome side (pl_price level) in
      require (key level_account = expected \<and> pl_bump level = bump \<and> pl_market level = market \<and>
          pl_outcome level = outcome \<and> pl_side level = side \<and> pl_order_count level > 0 \<and>
          pl_total_remaining_quantity level > 0 \<and> pl_first_order level \<noteq> None \<and>
          pl_last_order level \<noteq> None \<and> ((pl_price level = best) = (pl_better_price level = None)) \<and>
          (case side of Bid \<Rightarrow> best \<ge> pl_price level | Ask \<Rightarrow> best \<le> pl_price level))
        InvalidPredictionPriceLevel
     (Inr ()))"

definition adjacent_levels ::
  "OrderSide \<Rightarrow> u64 \<Rightarrow> u64 \<Rightarrow> PredictionPriceLevel account option \<Rightarrow> PredictionPriceLevel account option \<Rightarrow> bool" where
  "adjacent_levels side best price better worse =
     (case (better, worse) of
        (None, Some wl) \<Rightarrow> pl_price (inner wl) = best \<and> pl_better_price (inner wl) = None \<and>
          side_precedes side price (pl_price (inner wl))
      | (Some bl, Some wl) \<Rightarrow> pl_worse_price (inner bl) = Some (pl_price (inner wl)) \<and>
          pl_better_price (inner wl) = Some (pl_price (inner bl)) \<and>
          side_precedes side (pl_price (inner bl)) price \<and> side_precedes side price (pl_price (inner wl))
      | (Some bl, None) \<Rightarrow> pl_worse_price (inner bl) = None \<and> side_precedes side (pl_price (inner bl)) price
      | (None, None) \<Rightarrow> False)"

definition check_option :: "'a option \<Rightarrow> ('a \<Rightarrow> unit res) \<Rightarrow> unit res" where
  "check_option x f = (case x of None \<Rightarrow> Inr () | Some a \<Rightarrow> f a)"

lemma check_option_Inr [run_simps]: "check_option x f = Inr u \<longleftrightarrow> (\<forall>a. x = Some a \<longrightarrow> f a = Inr ())"
  by (cases x) (simp_all add: check_option_def)

definition insert_prediction_order ::
  "runtime \<Rightarrow> world \<Rightarrow> PlacePredictionOrder \<Rightarrow> pubkey option \<Rightarrow> pubkey option \<Rightarrow> u64 \<Rightarrow> PredictionOutcome \<Rightarrow>
     OrderSide \<Rightarrow> u64 \<Rightarrow> u64 \<Rightarrow> world res" where
  "insert_prediction_order rt w ks better_level worse_level order_id outcome side price quantity =
     load_prediction rt w (ppo_market ks) (\<lambda>market.
     load_position rt w (ppo_position ks) (key market) (ppo_owner ks) (\<lambda>position.
     load_prediction_book rt w (ppo_order_book ks) (key market) (\<lambda>book.
     require (ppo_price_level ks = address rt (PredictionLevelPda (key market) outcome side price))
       ConstraintSeeds
     (require (w_prediction_levels w (ppo_price_level ks) = None) AccountAlreadyInUse
     (require (ppo_order ks = address rt (PredictionOrderPda (key market) order_id)) ConstraintSeeds
     (require (w_prediction_orders w (ppo_order ks) = None) AccountAlreadyInUse
     (load_opt (w_prediction_levels w) better_level (\<lambda>better.
      load_opt (w_prediction_levels w) worse_level (\<lambda>worse.
      require (distinct (keys_of [better_level, worse_level])) ConstraintDuplicateMutableAccount
     (try_in (validate_resting_order rt (inner market) (inner book) order_id outcome side price quantity)
       (\<lambda>(next_id, count).
      ok_or (best_price (inner book) outcome side) InvalidPredictionPriceLevel (\<lambda>best.
      try_in (check_option better (\<lambda>l. validate_neighbor rt l (key market) outcome side best)) (\<lambda>_.
      try_in (check_option worse (\<lambda>l. validate_neighbor rt l (key market) outcome side best)) (\<lambda>_.
      require (adjacent_levels side best price better worse) InvalidPredictionPriceLevel
     (try_in (lock_resting_funds (inner position) outcome side price quantity) (\<lambda>(position', amount).
      let better_price = map_option (\<lambda>l. pl_price (inner l)) better;
          worse_price = map_option (\<lambda>l. pl_price (inner l)) worse in
      Inr (w\<lparr>
        w_predictions := (w_predictions w)(key market \<mapsto> (inner market)\<lparr>pm_open_order_count := count\<rparr>),
        w_positions := (w_positions w)(key position \<mapsto> position'),
        w_prediction_books := (w_prediction_books w)(key book \<mapsto>
          (if better_price = None then set_best_price (inner book) outcome side (Some price) else inner book)
            \<lparr>pob_next_order_id := next_id\<rparr>),
        w_prediction_levels := (save_opt (map_option (upd_inner (\<lambda>l. l\<lparr>pl_better_price := Some price\<rparr>)) worse)
            (save_opt (map_option (upd_inner (\<lambda>l. l\<lparr>pl_worse_price := Some price\<rparr>)) better)
              (w_prediction_levels w)))
          (ppo_price_level ks \<mapsto>
             new_prediction_level rt ks outcome side price quantity better_price worse_price),
        w_prediction_orders := (w_prediction_orders w)(ppo_order ks \<mapsto>
          new_prediction_order rt ks order_id outcome side price quantity amount None)\<rparr>)))))))))))))))))"

end
