(* ===== verification/Prediction_Fills.thy ===== *)
theory Prediction_Fills
  imports Prediction_Orders
begin

text \<open>
  Orders leaving a prediction book: \<open>cancel_prediction_order.rs\<close> and
  \<open>match_prediction_order.rs\<close>.
\<close>

section \<open>Cancellation\<close>

text \<open>\<open>fn validate_fifo_neighbor\<close> and \<open>fn validate_price_neighbor\<close>.\<close>

definition validate_fifo_neighbor ::
  "runtime \<Rightarrow> PredictionOrder account \<Rightarrow> PredictionOrder account \<Rightarrow> bool \<Rightarrow> unit res" where
  "validate_fifo_neighbor rt neighbor_account order_account previous =
     (let neighbor = inner neighbor_account; order = inner order_account;
          (expected, bump) = derive_prediction_order_pda rt (program_id rt) (po_market order) (po_order_id neighbor) in
      require (key neighbor_account = expected \<and> po_bump neighbor = bump \<and>
          po_market neighbor = po_market order \<and> po_outcome neighbor = po_outcome order \<and>
          po_side neighbor = po_side order \<and> po_price neighbor = po_price order \<and>
          po_price_level neighbor = po_price_level order \<and> po_status neighbor = Open \<and>
          po_remaining_quantity neighbor > 0 \<and> po_remaining_quantity neighbor \<le> po_quantity neighbor \<and>
          (if previous
           then po_next_order neighbor = Some (key order_account) \<and> po_order_id neighbor < po_order_id order
           else po_previous_order neighbor = Some (key order_account) \<and> po_order_id neighbor > po_order_id order))
        InvalidPredictionOrderNeighbor
     (Inr ()))"

definition validate_price_neighbor ::
  "runtime \<Rightarrow> PredictionPriceLevel account \<Rightarrow> PredictionPriceLevel account \<Rightarrow> u64 \<Rightarrow> bool \<Rightarrow> unit res" where
  "validate_price_neighbor rt neighbor_account level_account best better =
     (let neighbor = inner neighbor_account; level = inner level_account;
          (expected, bump) = derive_prediction_price_level_pda rt (program_id rt) (pl_market level)
            (pl_outcome level) (pl_side level) (pl_price neighbor) in
      require (key neighbor_account = expected \<and> pl_bump neighbor = bump \<and>
          pl_market neighbor = pl_market level \<and> pl_outcome neighbor = pl_outcome level \<and>
          pl_side neighbor = pl_side level \<and> pl_order_count neighbor > 0 \<and>
          pl_total_remaining_quantity neighbor > 0 \<and> pl_first_order neighbor \<noteq> None \<and>
          pl_last_order neighbor \<noteq> None \<and>
          ((best = pl_price neighbor) = (pl_better_price neighbor = None)) \<and>
          (if better
           then pl_worse_price neighbor = Some (pl_price level) \<and>
             side_precedes (pl_side level) (pl_price neighbor) (pl_price level)
           else pl_better_price neighbor = Some (pl_price level) \<and>
             side_precedes (pl_side level) (pl_price level) (pl_price neighbor)))
        InvalidPredictionPriceLevel
     (Inr ()))"

text \<open>The collateral an open order must record: bids reserve their exact notional, asks their
  remaining contracts.\<close>

definition expected_lock :: "OrderSide \<Rightarrow> u64 \<Rightarrow> u64 \<Rightarrow> program_error \<Rightarrow> u64 res" where
  "expected_lock side price remaining overflow =
     (case side of
        Bid \<Rightarrow> ok_or (checked_mul price remaining) overflow Inr
      | Ask \<Rightarrow> Inr remaining)"

record CancelPredictionOrder =
  cpo_owner :: pubkey
  cpo_market :: pubkey
  cpo_position :: pubkey
  cpo_order_book :: pubkey
  cpo_order :: pubkey
  cpo_price_level :: pubkey
  cpo_previous_order :: "pubkey option"
  cpo_next_order :: "pubkey option"
  cpo_better_level :: "pubkey option"
  cpo_worse_level :: "pubkey option"
  cpo_level_rent_recipient :: "pubkey option"

definition closed_prediction_order :: "OrderStatus \<Rightarrow> PredictionOrder \<Rightarrow> PredictionOrder" where
  "closed_prediction_order status r = r\<lparr>po_status := status, po_remaining_quantity := 0,
     po_locked_collateral := 0, po_previous_order := None, po_next_order := None\<rparr>"

text \<open>The writes of a cancellation: queue splice, level, price splice, head, order, counter.\<close>

definition unlink_prediction ::
  "CancelPredictionOrder \<Rightarrow> PredictionMarket \<Rightarrow> PredictionOrderBook \<Rightarrow> PredictionOrder \<Rightarrow>
     PredictionPriceLevel \<Rightarrow> PredictionOrder account option \<Rightarrow> PredictionOrder account option \<Rightarrow>
     PredictionPriceLevel account option \<Rightarrow> PredictionPriceLevel account option \<Rightarrow> u64 \<Rightarrow> u64 \<Rightarrow> u64 \<Rightarrow>
     world \<Rightarrow> world" where
  "unlink_prediction ks m b order level previous next better worse level_count level_total market_count w =
     (let removes_level = (level_count = 0);
          next_key = map_option key next; previous_key = map_option key previous in
      w\<lparr>
        w_predictions := (w_predictions w)(cpo_market ks \<mapsto> m\<lparr>pm_open_order_count := market_count\<rparr>),
        w_prediction_books := (w_prediction_books w)(cpo_order_book ks \<mapsto>
          (if removes_level \<and> better = None
           then set_best_price b (po_outcome order) (po_side order) (pl_worse_price level) else b)),
        w_prediction_levels :=
          (save_opt (if removes_level
               then map_option (upd_inner (\<lambda>l. l\<lparr>pl_better_price := pl_better_price level\<rparr>)) worse else worse)
            (save_opt (if removes_level
               then map_option (upd_inner (\<lambda>l. l\<lparr>pl_worse_price := pl_worse_price level\<rparr>)) better else better)
              (w_prediction_levels w)))
          (cpo_price_level ks := (if removes_level then None
             else Some (level\<lparr>
               pl_first_order := (if previous = None then next_key else pl_first_order level),
               pl_last_order := (if next = None then previous_key else pl_last_order level),
               pl_order_count := level_count, pl_total_remaining_quantity := level_total\<rparr>))),
        w_prediction_orders :=
          (save_opt (map_option (upd_inner (\<lambda>r. r\<lparr>po_previous_order := previous_key\<rparr>)) next)
            (save_opt (map_option (upd_inner (\<lambda>r. r\<lparr>po_next_order := next_key\<rparr>)) previous)
              (w_prediction_orders w)))
          (cpo_order ks \<mapsto> closed_prediction_order Canceled order)\<rparr>)"

definition cancel_prediction_order ::
  "runtime \<Rightarrow> world \<Rightarrow> CancelPredictionOrder \<Rightarrow> u64 \<Rightarrow> world res" where
  "cancel_prediction_order rt w ks order_id =
     load_prediction rt w (cpo_market ks) (\<lambda>market.
     load_position rt w (cpo_position ks) (key market) (cpo_owner ks) (\<lambda>position.
     load_prediction_book rt w (cpo_order_book ks) (key market) (\<lambda>book.
     load (w_prediction_orders w) (cpo_order ks) (\<lambda>order.
     require (key order = address rt (PredictionOrderPda (key market) order_id)) ConstraintSeeds
     (require (po_owner (inner order) = cpo_owner ks) UnauthorizedPredictionOrderOwner
     (require (po_market (inner order) = key market) PredictionPositionMarketMismatch
     (load_prediction_level rt w (cpo_price_level ks) (key market) (po_outcome (inner order))
        (po_side (inner order)) (po_price (inner order)) (\<lambda>level.
     require (po_price_level (inner order) = key level) InvalidPredictionPriceLevel
     (load_opt (w_prediction_orders w) (cpo_previous_order ks) (\<lambda>previous_order.
      load_opt (w_prediction_orders w) (cpo_next_order ks) (\<lambda>next_order.
      load_opt (w_prediction_levels w) (cpo_better_level ks) (\<lambda>better_level.
      load_opt (w_prediction_levels w) (cpo_worse_level ks) (\<lambda>worse_level.
      require (distinct (keys_of [Some (cpo_order ks), cpo_previous_order ks, cpo_next_order ks]) \<and>
          distinct (keys_of [Some (cpo_price_level ks), cpo_better_level ks, cpo_worse_level ks]))
        ConstraintDuplicateMutableAccount
     (let r = inner order; lv = inner level; b = inner book; p = inner position;
          order_key = key order; previous = map_option key previous_order; next = map_option key next_order in
      require (po_status r = Open) PredictionOrderNotOpen
     (require (order_id = po_order_id r \<and> order_id > 0 \<and> order_id < pob_next_order_id b \<and>
          po_remaining_quantity r > 0 \<and> po_remaining_quantity r \<le> po_quantity r \<and> po_price r > 0)
        PredictionOrderAccountingMismatch
     (try_in (expected_lock (po_side r) (po_price r) (po_remaining_quantity r)
        PredictionOrderAccountingMismatch) (\<lambda>expected.
      require (po_locked_collateral r = expected) PredictionOrderAccountingMismatch
     (require (previous = po_previous_order r \<and> next = po_next_order r \<and> previous \<noteq> Some order_key \<and>
          next \<noteq> Some order_key) InvalidPredictionOrderNeighbor
     (require (((pl_first_order lv = Some order_key) = (previous = None)) \<and>
          ((pl_last_order lv = Some order_key) = (next = None)) \<and>
          pl_first_order lv \<noteq> None \<and> pl_last_order lv \<noteq> None) InvalidPredictionOrderNeighbor
     (try_in (check_option previous_order (\<lambda>n. validate_fifo_neighbor rt n order True)) (\<lambda>_.
      try_in (check_option next_order (\<lambda>n. validate_fifo_neighbor rt n order False)) (\<lambda>_.
      ok_or (best_price b (po_outcome r) (po_side r)) InvalidPredictionPriceLevel (\<lambda>best.
      require (((best = pl_price lv) = (pl_better_price lv = None)) \<and>
          (case po_side r of Bid \<Rightarrow> best \<ge> pl_price lv | Ask \<Rightarrow> best \<le> pl_price lv)) InvalidPredictionPriceLevel
     (ok_or (checked_sub (pl_order_count lv) 1) PredictionOrderAccountingMismatch (\<lambda>level_count.
      ok_or (checked_sub (pl_total_remaining_quantity lv) (po_remaining_quantity r))
        PredictionOrderAccountingMismatch (\<lambda>total.
      ok_or (checked_sub (pm_open_order_count (inner market)) 1) PredictionOrderAccountingMismatch (\<lambda>market_count.
      try_in (if level_count = 0
        then require (previous = None \<and> next = None \<and> total = 0) PredictionOrderAccountingMismatch
         (ok_or (cpo_level_rent_recipient ks) InvalidPredictionRentRecipient (\<lambda>recipient.
          require (recipient = pl_rent_payer lv) InvalidPredictionRentRecipient
         (let level_key = (\<lambda>price. fst (derive_prediction_price_level_pda rt (program_id rt) (po_market r)
                (po_outcome r) (po_side r) price)) in
          require (map_option key better_level = map_option level_key (pl_better_price lv) \<and>
              map_option key worse_level = map_option level_key (pl_worse_price lv)) InvalidPredictionPriceLevel
         (try_in (check_option better_level (\<lambda>n. validate_price_neighbor rt n level best True)) (\<lambda>_.
          check_option worse_level (\<lambda>n. validate_price_neighbor rt n level best False))))))
        else require (total > 0 \<and> (previous \<noteq> None \<or> next \<noteq> None)) PredictionOrderAccountingMismatch
         (require (better_level = None \<and> worse_level = None \<and> cpo_level_rent_recipient ks = None)
            InvalidPredictionPriceLevel (Inr ()))) (\<lambda>_.
      let amount = po_locked_collateral r; oc = po_outcome r; sd = po_side r in
      ok_or (checked_add (bucket_free oc sd p) amount) FreeBalanceOverflow (\<lambda>new_free.
      ok_or (checked_sub (bucket_locked oc sd p) amount) LockedBalanceUnderflow (\<lambda>new_locked.
      Inr (unlink_prediction ks (inner market) b r lv previous_order next_order better_level worse_level
          level_count total market_count
        (put_position (key position) (set_bucket oc sd new_free new_locked p) w))))))))))))))))))))))))))))))))"

section \<open>Matching\<close>

record MatchPredictionOrder =
  mpo_taker :: pubkey
  mpo_market :: pubkey
  mpo_order_book :: pubkey
  mpo_protocol_config :: pubkey
  mpo_market_fees :: pubkey
  mpo_maker_order :: pubkey
  mpo_price_level :: pubkey
  mpo_maker_position :: pubkey
  mpo_taker_position :: pubkey
  mpo_next_order :: "pubkey option"
  mpo_worse_level :: "pubkey option"
  mpo_level_rent_recipient :: "pubkey option"

text \<open>The contracts of an outcome, free and locked: the \<open>match outcome\<close> arms of the settlement.\<close>

definition contracts_free :: "PredictionOutcome \<Rightarrow> PredictionPosition \<Rightarrow> u64" where
  "contracts_free oc p = bucket_free oc Ask p"

definition contracts_locked :: "PredictionOutcome \<Rightarrow> PredictionPosition \<Rightarrow> u64" where
  "contracts_locked oc p = bucket_locked oc Ask p"

definition set_contracts_free :: "PredictionOutcome \<Rightarrow> u64 \<Rightarrow> PredictionPosition \<Rightarrow> PredictionPosition" where
  "set_contracts_free oc free p = set_bucket oc Ask free (contracts_locked oc p) p"

definition set_contracts_locked :: "PredictionOutcome \<Rightarrow> u64 \<Rightarrow> PredictionPosition \<Rightarrow> PredictionPosition" where
  "set_contracts_locked oc locked p = set_bucket oc Ask (contracts_free oc p) locked p"

text \<open>\<open>match taker_side\<close>: the buckets of maker and taker, returned in that order.\<close>

definition settle_prediction ::
  "PredictionOutcome \<Rightarrow> OrderSide \<Rightarrow> u64 \<Rightarrow> u64 \<Rightarrow> u64 \<Rightarrow> u64 \<Rightarrow> PredictionPosition \<Rightarrow> PredictionPosition \<Rightarrow>
     (PredictionPosition \<times> PredictionPosition) res" where
  "settle_prediction outcome taker_side expected_backing filled cash taker_fee maker taker =
     (case taker_side of
        Bid \<Rightarrow>
          require (contracts_locked outcome maker \<ge> expected_backing) PredictionOrderAccountingMismatch
         (ok_or (checked_add cash taker_fee) PredictionAccountingOverflow (\<lambda>cost.
          ok_or (checked_sub (pos_collateral_free taker) cost) InsufficientFreeBalance (\<lambda>taker_cash.
          ok_or (checked_add (pos_collateral_free maker) cash) FreeBalanceOverflow (\<lambda>maker_cash.
          ok_or (checked_sub (contracts_locked outcome maker) filled) LockedBalanceUnderflow (\<lambda>maker_locked.
          ok_or (checked_add (contracts_free outcome taker) filled) PredictionAccountingOverflow (\<lambda>taker_free.
          Inr (set_contracts_locked outcome maker_locked (maker\<lparr>pos_collateral_free := maker_cash\<rparr>),
               set_contracts_free outcome taker_free (taker\<lparr>pos_collateral_free := taker_cash\<rparr>))))))))
      | Ask \<Rightarrow>
          require (pos_collateral_locked maker \<ge> expected_backing) PredictionOrderAccountingMismatch
         (ok_or (checked_sub (contracts_free outcome taker) filled) InsufficientPredictionPositions (\<lambda>taker_free.
          ok_or (checked_sub cash taker_fee) PredictionOrderAccountingMismatch (\<lambda>proceeds.
          ok_or (checked_add (pos_collateral_free taker) proceeds) FreeBalanceOverflow (\<lambda>taker_cash.
          ok_or (checked_sub (pos_collateral_locked maker) cash) LockedBalanceUnderflow (\<lambda>maker_cash.
          ok_or (checked_add (contracts_free outcome maker) filled) PredictionAccountingOverflow (\<lambda>maker_free.
          Inr (set_contracts_free outcome maker_free (maker\<lparr>pos_collateral_locked := maker_cash\<rparr>),
               set_contracts_free outcome taker_free (taker\<lparr>pos_collateral_free := taker_cash\<rparr>)))))))))"

text \<open>The checks of the maker order and its level before anything is computed.\<close>

definition check_prediction_maker ::
  "runtime \<Rightarrow> PredictionMarket \<Rightarrow> PredictionOrderBook \<Rightarrow> PredictionOrder account \<Rightarrow> PredictionPriceLevel \<Rightarrow>
     pubkey \<Rightarrow> PredictionOutcome \<Rightarrow> OrderSide \<Rightarrow> u64 \<Rightarrow> u64 \<Rightarrow> u64 res" where
  "check_prediction_maker rt market book maker_account level taker outcome taker_side limit_price quantity =
     (let maker = inner maker_account; maker_key = key maker_account in
      require (pm_status market = OpenTrading \<and> ilt (unix_timestamp rt) (pm_close_ts market))
        PredictionOrderUnavailable
     (require (quantity > 0) InvalidPredictionContractQuantity
     (require (limit_price > 0 \<and> limit_price < pm_payout_per_contract market \<and> pm_price_tick market > 0 \<and>
          is_multiple_of limit_price (pm_price_tick market)) InvalidPredictionOrderPrice
     (require (po_status maker = Open) PredictionOrderNotOpen
     (require (po_owner maker \<noteq> taker) PredictionSelfTrade
     (require (po_side maker \<noteq> taker_side) PredictionMatchingSameSide
     (require (case taker_side of Bid \<Rightarrow> limit_price \<ge> po_price maker | Ask \<Rightarrow> limit_price \<le> po_price maker)
        PredictionOrdersDoNotCross
     (require (best_price book outcome (po_side maker) = Some (po_price maker) \<and> pl_better_price level = None)
        PredictionMakerNotBest
     (require (pl_first_order level = Some maker_key \<and> po_previous_order maker = None)
        PredictionMakerNotHead
     (require (po_order_id maker > 0 \<and> po_order_id maker < pob_next_order_id book \<and>
          po_remaining_quantity maker > 0 \<and> po_remaining_quantity maker \<le> po_quantity maker \<and>
          po_price maker > 0 \<and> po_price maker < pm_payout_per_contract market \<and>
          is_multiple_of (po_price maker) (pm_price_tick market) \<and> pl_order_count level > 0 \<and>
          pl_total_remaining_quantity level \<ge> po_remaining_quantity maker \<and> pl_last_order level \<noteq> None)
        PredictionOrderAccountingMismatch
     (try_in (expected_lock (po_side maker) (po_price maker) (po_remaining_quantity maker)
        PredictionAccountingOverflow) (\<lambda>expected_backing.
      require (po_locked_collateral maker = expected_backing) PredictionOrderAccountingMismatch
     (require (if pl_order_count level = 1
          then pl_last_order level = Some maker_key \<and> po_next_order maker = None \<and>
            pl_total_remaining_quantity level = po_remaining_quantity maker
          else pl_last_order level \<noteq> Some maker_key \<and> po_next_order maker \<noteq> None \<and>
            po_next_order maker \<noteq> Some maker_key \<and>
            pl_total_remaining_quantity level > po_remaining_quantity maker) PredictionOrderAccountingMismatch
     (Inr expected_backing))))))))))))))"

text \<open>The hints a full fill needs: the promoted queue head, or the next price.\<close>

definition check_promoted ::
  "runtime \<Rightarrow> pubkey \<Rightarrow> PredictionOutcome \<Rightarrow> PredictionOrder account \<Rightarrow> pubkey \<Rightarrow> bool \<Rightarrow>
     PredictionOrder account option \<Rightarrow> unit res" where
  "check_promoted rt market_key outcome maker_account level_key promotes next_order =
     (let maker = inner maker_account in
      if promotes
      then ok_or next_order InvalidPredictionOrderNeighbor (\<lambda>next_account.
        let next = inner next_account;
            (expected, bump) = derive_prediction_order_pda rt (program_id rt) market_key (po_order_id next) in
        require (Some (key next_account) = po_next_order maker \<and> key next_account = expected \<and>
            po_bump next = bump \<and> po_market next = market_key \<and> po_outcome next = outcome \<and>
            po_side next = po_side maker \<and> po_price next = po_price maker \<and>
            po_price_level next = level_key \<and> po_status next = Open \<and>
            po_previous_order next = Some (key maker_account) \<and> po_order_id next > po_order_id maker \<and>
            po_remaining_quantity next > 0 \<and> po_remaining_quantity next \<le> po_quantity next)
          InvalidPredictionOrderNeighbor
        (Inr ()))
      else require (next_order = None) InvalidPredictionOrderNeighbor (Inr ()))"

definition check_emptied ::
  "runtime \<Rightarrow> pubkey \<Rightarrow> PredictionOutcome \<Rightarrow> PredictionOrder \<Rightarrow> PredictionPriceLevel \<Rightarrow> u64 \<Rightarrow> bool \<Rightarrow>
     PredictionPriceLevel account option \<Rightarrow> pubkey option \<Rightarrow> unit res" where
  "check_emptied rt market_key outcome maker level level_quantity removes_level worse_level rent_recipient =
     (if removes_level
      then require (level_quantity = 0) PredictionOrderAccountingMismatch
       (ok_or rent_recipient InvalidPredictionRentRecipient (\<lambda>recipient.
        require (recipient = pl_rent_payer level) InvalidPredictionRentRecipient
       (require (map_option key worse_level = map_option (\<lambda>price. fst (derive_prediction_price_level_pda rt
            (program_id rt) market_key outcome (po_side maker) price)) (pl_worse_price level))
          InvalidPredictionPriceLevel
       (check_option worse_level (\<lambda>worse_account.
          let worse = inner worse_account in
          require (pl_bump worse = snd (derive_prediction_price_level_pda rt (program_id rt) market_key outcome
               (po_side maker) (pl_price worse)) \<and>
             pl_market worse = market_key \<and> pl_outcome worse = outcome \<and> pl_side worse = po_side maker \<and>
             pl_better_price worse = Some (pl_price level) \<and> pl_order_count worse > 0 \<and>
             pl_total_remaining_quantity worse > 0 \<and> pl_first_order worse \<noteq> None \<and>
             pl_last_order worse \<noteq> None \<and>
             (case po_side maker of Bid \<Rightarrow> pl_price worse < po_price maker
              | Ask \<Rightarrow> pl_price worse > po_price maker)) InvalidPredictionPriceLevel
          (Inr ()))))))
      else require (worse_level = None \<and> rent_recipient = None) InvalidPredictionPriceLevel (Inr ()))"

text \<open>The index writes of a fill.\<close>

definition fill_prediction ::
  "MatchPredictionOrder \<Rightarrow> PredictionOutcome \<Rightarrow> PredictionMarket \<Rightarrow> PredictionOrderBook \<Rightarrow> PredictionOrder \<Rightarrow>
     PredictionPriceLevel \<Rightarrow> PredictionOrder account option \<Rightarrow> PredictionPriceLevel account option \<Rightarrow> u64 \<Rightarrow>
     u64 \<Rightarrow> u64 \<Rightarrow> u64 \<Rightarrow> world \<Rightarrow> world" where
  "fill_prediction ks outcome m b maker level next_order worse_level remaining new_backing level_quantity
      new_count w =
     (let full = (remaining = 0); removes_level = (full \<and> pl_order_count level = 1);
          maker' = maker\<lparr>po_remaining_quantity := remaining, po_locked_collateral := new_backing\<rparr>;
          level' = level\<lparr>pl_total_remaining_quantity := level_quantity\<rparr> in
      w\<lparr>
        w_predictions := (w_predictions w)(mpo_market ks \<mapsto> m\<lparr>pm_open_order_count := new_count\<rparr>),
        w_prediction_books := (w_prediction_books w)(mpo_order_book ks \<mapsto>
          (if removes_level then set_best_price b outcome (po_side maker) (pl_worse_price level) else b)),
        w_prediction_levels :=
          (if removes_level
           then (save_opt (map_option (upd_inner (\<lambda>l. l\<lparr>pl_better_price := None\<rparr>)) worse_level)
             (w_prediction_levels w))(mpo_price_level ks := None)
           else (w_prediction_levels w)(mpo_price_level ks \<mapsto>
             (if full then level'\<lparr>pl_order_count := pl_order_count level - 1, pl_first_order := po_next_order maker\<rparr>
              else level'))),
        w_prediction_orders :=
          (save_opt (if full then map_option (upd_inner (\<lambda>r. r\<lparr>po_previous_order := None\<rparr>)) next_order
             else next_order) (w_prediction_orders w))
          (mpo_maker_order ks \<mapsto>
            (if full then maker'\<lparr>po_status := Filled, po_previous_order := None, po_next_order := None\<rparr>
             else maker'))\<rparr>)"

text \<open>The account constraints of \<open>MatchPredictionOrder\<close>; the fee record belongs to this market and
  its collateral.\<close>

definition match_prediction_order ::
  "runtime \<Rightarrow> world \<Rightarrow> MatchPredictionOrder \<Rightarrow> PredictionOutcome \<Rightarrow> OrderSide \<Rightarrow> u64 \<Rightarrow> u64 \<Rightarrow> world res" where
  "match_prediction_order rt w ks outcome taker_side limit_price quantity =
     load_prediction rt w (mpo_market ks) (\<lambda>market.
     load_prediction_book rt w (mpo_order_book ks) (key market) (\<lambda>book.
     load (ss_configs (w_spot w)) (mpo_protocol_config ks) (\<lambda>protocol_config.
     require (key protocol_config = address rt ProtocolConfigPda) ConstraintSeeds
     (load (ss_fees (w_spot w)) (mpo_market_fees ks) (\<lambda>market_fees.
     require (key market_fees = address rt (MarketFeesPda (key market))) ConstraintSeeds
     (require (mf_market (inner market_fees) = key market) MarketFeesMarketMismatch
     (require (mf_quote_mint (inner market_fees) = pm_collateral_mint (inner market)) MarketFeesQuoteMintMismatch
     (load (w_prediction_orders w) (mpo_maker_order ks) (\<lambda>maker_order.
     require (key maker_order = address rt (PredictionOrderPda (key market) (po_order_id (inner maker_order))))
       ConstraintSeeds
     (require (po_market (inner maker_order) = key market) PredictionPositionMarketMismatch
     (require (po_outcome (inner maker_order) = outcome) InvalidPredictionPriceLevel
     (require (po_owner (inner maker_order) \<noteq> mpo_taker ks) PredictionSelfTrade
     (load_prediction_level rt w (mpo_price_level ks) (key market) outcome (po_side (inner maker_order))
        (po_price (inner maker_order)) (\<lambda>price_level.
     require (po_price_level (inner maker_order) = key price_level) InvalidPredictionPriceLevel
     (load_position rt w (mpo_maker_position ks) (key market) (po_owner (inner maker_order)) (\<lambda>maker_position.
      load_position rt w (mpo_taker_position ks) (key market) (mpo_taker ks) (\<lambda>taker_position.
      load_opt (w_prediction_orders w) (mpo_next_order ks) (\<lambda>next_order.
      load_opt (w_prediction_levels w) (mpo_worse_level ks) (\<lambda>worse_level.
      require (key maker_position \<noteq> key taker_position \<and>
          distinct (keys_of [Some (mpo_maker_order ks), mpo_next_order ks]) \<and>
          distinct (keys_of [Some (mpo_price_level ks), mpo_worse_level ks])) ConstraintDuplicateMutableAccount
     (let m = inner market; maker = inner maker_order; level = inner price_level in
      try_in (check_prediction_maker rt m (inner book) maker_order level (mpo_taker ks) outcome taker_side
        limit_price quantity) (\<lambda>expected_backing.
      let fill = min quantity (po_remaining_quantity maker) in
      ok_or (checked_mul (po_price maker) fill) PredictionAccountingOverflow (\<lambda>notional.
      try_in (calculate_taker_fee notional (cfg_taker_fee_bps (inner protocol_config))) (\<lambda>taker_fee.
      ok_or (checked_add (mf_accrued_quote_fees (inner market_fees)) taker_fee) FeeAccrualOverflow (\<lambda>accrued.
      let remaining = po_remaining_quantity maker - fill;
          full = (remaining = 0);
          removes_level = (full \<and> pl_order_count level = 1) in
      ok_or (checked_sub (pl_total_remaining_quantity level) fill) PredictionOrderAccountingMismatch (\<lambda>level_quantity.
      try_in (check_promoted rt (key market) outcome maker_order (key price_level) (full \<and> \<not> removes_level)
        next_order) (\<lambda>_.
      try_in (check_emptied rt (key market) outcome maker level level_quantity removes_level worse_level
        (mpo_level_rent_recipient ks)) (\<lambda>_.
      ok_or (if full then checked_sub (pm_open_order_count m) 1 else Some (pm_open_order_count m))
        PredictionOrderAccountingMismatch (\<lambda>new_count.
      try_in (settle_prediction outcome taker_side expected_backing fill notional taker_fee
        (inner maker_position) (inner taker_position)) (\<lambda>(maker_position', taker_position').
      let debit = (if po_side maker = Bid then notional else fill) in
      ok_or (checked_sub (po_locked_collateral maker) debit) PredictionOrderAccountingMismatch (\<lambda>new_backing.
      Inr (fill_prediction ks outcome m (inner book) maker level next_order worse_level remaining new_backing
          level_quantity new_count
        (w\<lparr>
          w_positions := (w_positions w)(key maker_position \<mapsto> maker_position',
            key taker_position \<mapsto> taker_position'),
          w_spot := (w_spot w)\<lparr>ss_fees := save (upd_inner (\<lambda>f. f\<lparr>mf_accrued_quote_fees := accrued\<rparr>)
            market_fees) (ss_fees (w_spot w))\<rparr>\<rparr>))))))))))))))))))))))))))))))))"

end
