(* ===== verification/Prediction_Solvency.thy ===== *)
theory Prediction_Solvency
  imports Asset_Wallet Prediction_Fills
begin

text \<open>
  The money side of prediction markets. For every question, the contracts in all positions are
  exactly the supply the market recorded, the reserve is exactly what the outstanding contracts
  can still claim (one payout per pair before the outcome is known, the outcome's payout
  afterwards), and the question's vault holds the reserve, every position's cash and the accrued
  fees.
\<close>

section \<open>Claims of a question\<close>

definition pos_cash :: "PredictionPosition \<Rightarrow> nat" where
  "pos_cash p = unat (pos_collateral_free p) + unat (pos_collateral_locked p)"

fun pos_contracts :: "PredictionOutcome \<Rightarrow> PredictionPosition \<Rightarrow> nat" where
  "pos_contracts YesOutcome p = unat (pos_yes_free p) + unat (pos_yes_locked p)"
| "pos_contracts NoOutcome p = unat (pos_no_free p) + unat (pos_no_locked p)"

definition of_question :: "pubkey \<Rightarrow> (PredictionPosition \<Rightarrow> nat) \<Rightarrow> PredictionPosition \<Rightarrow> nat" where
  "of_question k f p = (if pos_market p = k then f p else 0)"

definition question_total :: "(PredictionPosition \<Rightarrow> nat) \<Rightarrow> pubkey \<Rightarrow> world \<Rightarrow> nat" where
  "question_total f k w = store_sum (of_question k f) (w_positions w)"

text \<open>What \<open>yes\<close> and \<open>no\<close> contracts are worth under an outcome.\<close>

fun owed :: "PredictionResolution \<Rightarrow> nat \<Rightarrow> nat \<Rightarrow> nat \<Rightarrow> nat" where
  "owed ResolveYes yes no payout = yes * payout"
| "owed ResolveNo yes no payout = no * payout"
| "owed ResolveInvalid yes no payout = (yes + no) * (payout div 2)"

definition reserve_exact :: "PredictionMarket \<Rightarrow> bool" where
  "reserve_exact m \<longleftrightarrow>
     (let yes = unat (pm_yes_supply m); no = unat (pm_no_supply m); reserve = unat (pm_backing_reserve m);
          payout = unat (pm_payout_per_contract m) in
      0 < payout \<and> even payout \<and>
      (if pm_status m = Resolved
       then \<exists>outcome. pm_final_outcome m = Some outcome \<and> reserve = owed outcome yes no payout
       else pm_final_outcome m = None \<and> yes = no \<and> reserve = yes * payout))"

definition outcome_supply :: "PredictionOutcome \<Rightarrow> PredictionMarket \<Rightarrow> nat" where
  "outcome_supply oc m = unat (case oc of YesOutcome \<Rightarrow> pm_yes_supply m | NoOutcome \<Rightarrow> pm_no_supply m)"

definition question_liability :: "runtime \<Rightarrow> pubkey \<Rightarrow> PredictionMarket \<Rightarrow> world \<Rightarrow> nat" where
  "question_liability rt k m w =
     unat (pm_backing_reserve m) + question_total pos_cash k w + accrued_fees rt k (w_spot w)"

definition question_solvent :: "runtime \<Rightarrow> pubkey \<Rightarrow> world \<Rightarrow> bool" where
  "question_solvent rt k w \<longleftrightarrow> finite (dom (w_positions w)) \<and>
     (\<exists>m. w_predictions w k = Some m \<and> reserve_exact m \<and>
        pm_collateral_vault m = vault rt k (pm_collateral_mint m) \<and>
        (\<forall>oc. question_total (pos_contracts oc) k w = outcome_supply oc m) \<and>
        holds (w_tokens w) (pm_collateral_vault m) (address rt (VaultAuthorityPda k))
          (question_liability rt k m w))"

lemma question_total_upd:
  assumes "finite (dom (w_positions w))" "w_positions w j = Some p" "pos_market p = k" "pos_market p' = k"
    and "w_positions w' = (w_positions w)(j \<mapsto> p')"
  shows "question_total f k w' + f p = question_total f k w + f p'"
  using store_sum_upd [OF assms(1,2), of "of_question k f" p'] assms(3-5)
  by (simp add: question_total_def of_question_def del: fun_upd_apply)

lemma question_total_upd2:
  assumes fin: "finite (dom (w_positions w))" and a: "w_positions w ja = Some a" and b: "w_positions w jb = Some b"
    and ne: "ja \<noteq> jb" and mk: "pos_market a = k" "pos_market b = k" "pos_market a' = k" "pos_market b' = k"
    and w': "w_positions w' = (w_positions w)(ja \<mapsto> a', jb \<mapsto> b')"
  shows "question_total f k w' + f a + f b = question_total f k w + f a' + f b'"
proof -
  have "finite (dom ((w_positions w)(ja \<mapsto> a')))" "((w_positions w)(ja \<mapsto> a')) jb = Some b" using fin b ne by simp_all
  from store_sum_upd [OF this, of "of_question k f" b'] store_sum_upd [OF fin a, of "of_question k f" a'] mk
  show ?thesis by (simp add: question_total_def w' of_question_def del: fun_upd_apply)
qed

lemma question_total_same:
  "w_positions w' = w_positions w \<Longrightarrow> question_total f k w' = question_total f k w"
  by (simp add: question_total_def)

section \<open>Trading moves claims between positions only\<close>

definition order_terms_kept :: "PredictionMarket \<Rightarrow> PredictionMarket \<Rightarrow> bool" where
  "order_terms_kept m m' \<longleftrightarrow> (\<exists>c. m' = m\<lparr>pm_open_order_count := c\<rparr>)"

text \<open>The frame of a trade on question \<open>k\<close>: no token moves, the market's record changes in its
  open-order count only, contracts are conserved, and cash with fees is.\<close>

definition claims_kept :: "runtime \<Rightarrow> pubkey \<Rightarrow> world \<Rightarrow> world \<Rightarrow> bool" where
  "claims_kept rt k w w' \<longleftrightarrow>
     finite (dom (w_positions w')) \<and> w_tokens w' = w_tokens w \<and>
     (\<exists>m m'. w_predictions w k = Some m \<and> w_predictions w' k = Some m' \<and> order_terms_kept m m') \<and>
     (\<forall>oc. question_total (pos_contracts oc) k w' = question_total (pos_contracts oc) k w) \<and>
     question_total pos_cash k w' + accrued_fees rt k (w_spot w') =
       question_total pos_cash k w + accrued_fees rt k (w_spot w)"

lemma set_bucket_reads [simp]:
  "pos_market (set_bucket oc sd f l p) = pos_market p" "pos_owner (set_bucket oc sd f l p) = pos_owner p"
  by (cases oc; cases sd; simp)+

lemma bucket_move_keeps:
  assumes "unat f + unat l = unat (bucket_free oc sd p) + unat (bucket_locked oc sd p)"
  shows "pos_cash (set_bucket oc sd f l p) = pos_cash p"
    "pos_contracts oc' (set_bucket oc sd f l p) = pos_contracts oc' p"
  using assms by (cases oc; cases sd; cases oc'; simp add: pos_cash_def)+

lemma lock_resting_keeps:
  assumes "lock_resting_funds p oc sd price q = Inr (p', amount)"
  shows "pos_market p' = pos_market p" "pos_cash p' = pos_cash p" "pos_contracts oc' p' = pos_contracts oc' p"
proof -
  obtain f l where p': "p' = set_bucket oc sd f l p"
    and sums: "unat (bucket_free oc sd p) = unat amount + unat f" "unat l = unat (bucket_locked oc sd p) + unat amount"
    using assms by (auto simp: lock_resting_funds_def run_simps)
  show "pos_market p' = pos_market p" by (simp add: p')
  show "pos_cash p' = pos_cash p" "pos_contracts oc' p' = pos_contracts oc' p"
    unfolding p' by (rule bucket_move_keeps; use sums in simp)+
qed

lemma claims_kept_one:
  assumes fin: "finite (dom (w_positions w))" and p: "w_positions w j = Some p" "pos_market p = k"
    and p': "pos_market p' = k" "pos_cash p' = pos_cash p" "\<And>oc. pos_contracts oc p' = pos_contracts oc p"
    and m: "w_predictions w k = Some m"
    and w': "w_positions w' = (w_positions w)(j \<mapsto> p')" "w_tokens w' = w_tokens w" "w_spot w' = w_spot w"
      "w_predictions w' = (w_predictions w)(k \<mapsto> m\<lparr>pm_open_order_count := c\<rparr>)"
  shows "claims_kept rt k w w'"
proof -
  have "finite (dom (w_positions w'))" using fin by (simp add: w')
  moreover have "question_total f k w' = question_total f k w" if "f p' = f p" for f
    using question_total_upd [OF fin p p'(1) w'(1), of f] that by simp
  moreover have "order_terms_kept m (m\<lparr>pm_open_order_count := c\<rparr>)"
    unfolding order_terms_kept_def by blast
  ultimately show ?thesis using p' m by (simp add: claims_kept_def w')
qed

lemmas run_inversions =
  load_Inr require_Inr try_in_Inr ok_or_Inr load_prediction_Inr load_position_Inr
  load_prediction_book_Inr load_prediction_level_Inr split_paired_Ex prod.case account.sel sum.inject Let_def

lemma resting_order_keeps:
  assumes "finite (dom (w_positions w))" "w_predictions w k = Some m" "w_positions w j = Some p"
    "pos_market p = k" "lock_resting_funds p oc sd price q = Inr (p', amount)"
    "w_positions w' = (w_positions w)(j \<mapsto> p')" "w_tokens w' = w_tokens w" "w_spot w' = w_spot w"
    "w_predictions w' = (w_predictions w)(k \<mapsto> m\<lparr>pm_open_order_count := c\<rparr>)"
  shows "claims_kept rt k w w'"
  by (rule claims_kept_one [OF assms(1,3,4) _ _ _ assms(2,6-9)])
    (use lock_resting_keeps [OF assms(5)] assms(4) in simp_all)

lemma place_prediction_keeps:
  assumes "place_prediction_order rt w ks i oc sd price q = Inr w'" and fin: "finite (dom (w_positions w))"
  shows "claims_kept rt (ppo_market ks) w w'"
  using assms(1) unfolding place_prediction_order_def run_inversions
  by (elim exE conjE) (rule resting_order_keeps [OF fin], assumption+, auto)

lemma append_prediction_keeps:
  assumes "append_prediction_order rt w ks t i oc sd price q = Inr w'" and fin: "finite (dom (w_positions w))"
  shows "claims_kept rt (ppo_market ks) w w'"
  using assms(1) unfolding append_prediction_order_def run_inversions
  by (elim exE conjE) (rule resting_order_keeps [OF fin], assumption+, auto)

lemma insert_prediction_keeps:
  assumes "insert_prediction_order rt w ks b l i oc sd price q = Inr w'" and fin: "finite (dom (w_positions w))"
  shows "claims_kept rt (ppo_market ks) w w'"
  using assms(1) unfolding insert_prediction_order_def run_inversions load_opt_Inr
  by (elim exE conjE) (rule resting_order_keeps [OF fin], assumption+, auto)

lemma unlink_prediction_frame [simp]:
  "w_positions (unlink_prediction ks m b r lv pv nx bt ws lc lt mc w) = w_positions w"
  "w_tokens (unlink_prediction ks m b r lv pv nx bt ws lc lt mc w) = w_tokens w"
  "w_spot (unlink_prediction ks m b r lv pv nx bt ws lc lt mc w) = w_spot w"
  "w_predictions (unlink_prediction ks m b r lv pv nx bt ws lc lt mc w) =
     (w_predictions w)(cpo_market ks \<mapsto> m\<lparr>pm_open_order_count := mc\<rparr>)"
  by (simp_all add: unlink_prediction_def Let_def)

lemma put_position_frame [simp]:
  "w_positions (put_position k p w) = (w_positions w)(k \<mapsto> p)" "w_tokens (put_position k p w) = w_tokens w"
  "w_spot (put_position k p w) = w_spot w" "w_predictions (put_position k p w) = w_predictions w"
  "w_assets (put_position k p w) = w_assets w"
  by (simp_all add: put_position_def)

lemma cancel_prediction_keeps:
  assumes ok: "cancel_prediction_order rt w ks i = Inr w'" and fin: "finite (dom (w_positions w))"
  shows "claims_kept rt (cpo_market ks) w w'"
proof -
  obtain m p r lv f l b pv nx bt ws lc lt mc where
    m: "w_predictions w (cpo_market ks) = Some m"
    and p: "w_positions w (cpo_position ks) = Some p" "pos_market p = cpo_market ks"
    and free: "checked_add (bucket_free (po_outcome r) (po_side r) p) (po_locked_collateral r) = Some f"
    and locked: "checked_sub (bucket_locked (po_outcome r) (po_side r) p) (po_locked_collateral r) = Some l"
    and w': "unlink_prediction ks m b r lv pv nx bt ws lc lt mc
      (put_position (cpo_position ks) (set_bucket (po_outcome r) (po_side r) f l p) w) = w'"
    using ok unfolding cancel_prediction_order_def run_inversions load_opt_Inr
    by (elim exE conjE) (rule that; assumption)
  let ?p' = "set_bucket (po_outcome r) (po_side r) f l p"
  have sums: "unat f + unat l = unat (bucket_free (po_outcome r) (po_side r) p) + unat (bucket_locked (po_outcome r) (po_side r) p)"
    using free locked by simp
  show ?thesis
    by (rule claims_kept_one [OF fin p, where p' = ?p' and m = m and c = mc])
      (use bucket_move_keeps [OF sums] p m w' in auto)
qed

lemma set_contracts_reads [simp]:
  "pos_market (set_contracts_free oc x p) = pos_market p" "pos_market (set_contracts_locked oc x p) = pos_market p"
  "pos_cash (set_contracts_free oc x p) = pos_cash p" "pos_cash (set_contracts_locked oc x p) = pos_cash p"
  by (cases oc; simp add: set_contracts_free_def set_contracts_locked_def pos_cash_def)+

lemma set_contracts_sum:
  "pos_contracts oc (set_contracts_free oc x p) + unat (contracts_free oc p) = pos_contracts oc p + unat x"
  "pos_contracts oc (set_contracts_locked oc x p) + unat (contracts_locked oc p) = pos_contracts oc p + unat x"
  "oc' \<noteq> oc \<Longrightarrow> pos_contracts oc' (set_contracts_free oc x p) = pos_contracts oc' p"
  "oc' \<noteq> oc \<Longrightarrow> pos_contracts oc' (set_contracts_locked oc x p) = pos_contracts oc' p"
  by (cases oc; cases oc'; simp add: set_contracts_free_def set_contracts_locked_def contracts_free_def
      contracts_locked_def)+

lemma contracts_cash_update [simp]:
  "pos_contracts oc (p\<lparr>pos_collateral_free := x\<rparr>) = pos_contracts oc p"
  "pos_contracts oc (p\<lparr>pos_collateral_locked := x\<rparr>) = pos_contracts oc p"
  "contracts_free oc (p\<lparr>pos_collateral_free := x\<rparr>) = contracts_free oc p"
  "contracts_free oc (p\<lparr>pos_collateral_locked := x\<rparr>) = contracts_free oc p"
  "contracts_locked oc (p\<lparr>pos_collateral_free := x\<rparr>) = contracts_locked oc p"
  by (cases oc; simp add: contracts_free_def contracts_locked_def)+

text \<open>A settlement moves cash and contracts between the two positions; only the fee leaves.\<close>

definition settlement_conserves ::
  "nat \<Rightarrow> PredictionPosition \<Rightarrow> PredictionPosition \<Rightarrow> PredictionPosition \<Rightarrow> PredictionPosition \<Rightarrow> bool" where
  "settlement_conserves fee maker taker maker' taker' \<longleftrightarrow>
     pos_market maker' = pos_market maker \<and> pos_market taker' = pos_market taker \<and>
     pos_cash maker' + pos_cash taker' + fee = pos_cash maker + pos_cash taker \<and>
     (\<forall>oc. pos_contracts oc maker' + pos_contracts oc taker' = pos_contracts oc maker + pos_contracts oc taker)"

lemma settle_prediction_conserves:
  assumes ok: "settle_prediction oc ts backing filled cash fee maker taker = Inr (maker', taker')"
  shows "settlement_conserves (unat fee) maker taker maker' taker'"
proof (cases ts)
  case Bid
  obtain cost tc mc ml tf where cost: "checked_add cash fee = Some cost"
      "checked_sub (pos_collateral_free taker) cost = Some tc" "checked_add (pos_collateral_free maker) cash = Some mc"
      "checked_sub (contracts_locked oc maker) filled = Some ml" "checked_add (contracts_free oc taker) filled = Some tf"
    and w': "set_contracts_locked oc ml (maker\<lparr>pos_collateral_free := mc\<rparr>) = maker'"
      "set_contracts_free oc tf (taker\<lparr>pos_collateral_free := tc\<rparr>) = taker'"
    using ok unfolding settle_prediction_def Bid OrderSide.case require_Inr ok_or_Inr sum.inject prod.inject
    by (elim exE conjE) (rule that; assumption)
  have "pos_contracts oc' maker' + pos_contracts oc' taker' = pos_contracts oc' maker + pos_contracts oc' taker" for oc'
    using set_contracts_sum(2) [of oc ml "maker\<lparr>pos_collateral_free := mc\<rparr>"]
      set_contracts_sum(1) [of oc tf "taker\<lparr>pos_collateral_free := tc\<rparr>"] set_contracts_sum(3,4) [of oc' oc] cost(4,5)
    by (cases "oc' = oc") (simp_all add: w' [symmetric])
  moreover have "pos_cash maker' + pos_cash taker' + unat fee = pos_cash maker + pos_cash taker"
    unfolding w' [symmetric] set_contracts_reads using cost(1-3) by (simp add: pos_cash_def)
  ultimately show ?thesis by (simp add: settlement_conserves_def w' [symmetric])
next
  case Ask
  obtain pr tc mc mf tf where cost: "checked_sub (contracts_free oc taker) filled = Some tf"
      "checked_sub cash fee = Some pr" "checked_add (pos_collateral_free taker) pr = Some tc"
      "checked_sub (pos_collateral_locked maker) cash = Some mc" "checked_add (contracts_free oc maker) filled = Some mf"
    and w': "set_contracts_free oc mf (maker\<lparr>pos_collateral_locked := mc\<rparr>) = maker'"
      "set_contracts_free oc tf (taker\<lparr>pos_collateral_free := tc\<rparr>) = taker'"
    using ok unfolding settle_prediction_def Ask OrderSide.case require_Inr ok_or_Inr sum.inject prod.inject
    by (elim exE conjE) (rule that; assumption)
  have "pos_contracts oc' maker' + pos_contracts oc' taker' = pos_contracts oc' maker + pos_contracts oc' taker" for oc'
    using set_contracts_sum(1) [of oc mf "maker\<lparr>pos_collateral_locked := mc\<rparr>"]
      set_contracts_sum(1) [of oc tf "taker\<lparr>pos_collateral_free := tc\<rparr>"] set_contracts_sum(3) [of oc' oc] cost(1,5)
    by (cases "oc' = oc") (simp_all add: w' [symmetric])
  moreover have "pos_cash maker' + pos_cash taker' + unat fee = pos_cash maker + pos_cash taker"
    unfolding w' [symmetric] set_contracts_reads using cost(2-4) by (simp add: pos_cash_def)
  ultimately show ?thesis by (simp add: settlement_conserves_def w' [symmetric])
qed

lemma fill_prediction_frame [simp]:
  "w_positions (fill_prediction ks oc m b r lv nx ws rem nb lq nc w) = w_positions w"
  "w_tokens (fill_prediction ks oc m b r lv nx ws rem nb lq nc w) = w_tokens w"
  "w_spot (fill_prediction ks oc m b r lv nx ws rem nb lq nc w) = w_spot w"
  "w_predictions (fill_prediction ks oc m b r lv nx ws rem nb lq nc w) =
     (w_predictions w)(mpo_market ks \<mapsto> m\<lparr>pm_open_order_count := nc\<rparr>)"
  by (simp_all add: fill_prediction_def Let_def)

lemma match_prediction_keeps:
  assumes ok: "match_prediction_order rt w ks oc ts lim q = Inr w'" and fin: "finite (dom (w_positions w))"
  shows "claims_kept rt (mpo_market ks) w w'"
proof -
  obtain m b r lv nx ws rem nb lq nc fees mp tp mp' tp' backing filled cash fee accrued where
    m: "w_predictions w (mpo_market ks) = Some m"
    and fees: "ss_fees (w_spot w) (mpo_market_fees ks) = Some fees"
      "mpo_market_fees ks = address rt (MarketFeesPda (mpo_market ks))"
    and mp: "w_positions w (mpo_maker_position ks) = Some mp" "pos_market mp = mpo_market ks"
    and tp: "w_positions w (mpo_taker_position ks) = Some tp" "pos_market tp = mpo_market ks"
    and ne: "mpo_maker_position ks \<noteq> mpo_taker_position ks"
    and acc: "checked_add (mf_accrued_quote_fees fees) fee = Some accrued"
    and settle: "settle_prediction oc ts backing filled cash fee mp tp = Inr (mp', tp')"
    and w': "fill_prediction ks oc m b r lv nx ws rem nb lq nc
      (w\<lparr>w_positions := (w_positions w)(mpo_maker_position ks \<mapsto> mp', mpo_taker_position ks \<mapsto> tp'),
         w_spot := (w_spot w)\<lparr>ss_fees := save (upd_inner (\<lambda>f. f\<lparr>mf_accrued_quote_fees := accrued\<rparr>)
            (Account (mpo_market_fees ks) fees)) (ss_fees (w_spot w))\<rparr>\<rparr>) = w'"
    using ok unfolding match_prediction_order_def run_inversions load_opt_Inr
    by (elim exE conjE) (rule that; assumption)
  have kept: "pos_market mp' = pos_market mp" "pos_market tp' = pos_market tp"
    "pos_cash mp' + pos_cash tp' + unat fee = pos_cash mp + pos_cash tp"
    "\<And>oc. pos_contracts oc mp' + pos_contracts oc tp' = pos_contracts oc mp + pos_contracts oc tp"
    using settle_prediction_conserves [OF settle] by (simp_all add: settlement_conserves_def)
  have pos: "w_positions w' = (w_positions w)(mpo_maker_position ks \<mapsto> mp', mpo_taker_position ks \<mapsto> tp')"
    by (simp add: w' [symmetric])
  have fee: "accrued_fees rt (mpo_market ks) (w_spot w') = accrued_fees rt (mpo_market ks) (w_spot w) + unat fee"
    using fees acc by (simp add: w' [symmetric] accrued_fees_def save_def)
  have total: "question_total f (mpo_market ks) w' + f mp + f tp = question_total f (mpo_market ks) w + f mp' + f tp'" for f
    using question_total_upd2 [OF fin mp(1) tp(1) ne mp(2) tp(2) _ _ pos] kept(1,2) mp tp by simp
  have "question_total (pos_contracts oc') (mpo_market ks) w' = question_total (pos_contracts oc') (mpo_market ks) w" for oc'
    using total [of "pos_contracts oc'"] kept(4) [of oc'] by simp
  moreover have "question_total pos_cash (mpo_market ks) w' + unat fee = question_total pos_cash (mpo_market ks) w"
    using total [of pos_cash] kept(3) by simp
  moreover have "w_tokens w' = w_tokens w" "finite (dom (w_positions w'))"
    "w_predictions w' (mpo_market ks) = Some (m\<lparr>pm_open_order_count := nc\<rparr>)"
    using fin by (simp_all add: w' [symmetric])
  moreover have "order_terms_kept m (m\<lparr>pm_open_order_count := nc\<rparr>)" unfolding order_terms_kept_def by blast
  ultimately show ?thesis using m fee by (simp add: claims_kept_def)
qed

end
