(* ===== verification/Shared_Rules.thy ===== *)
theory Shared_Rules
  imports Asset_Wallet Prediction_Orders
begin

text \<open>
  The rules spot and prediction books share when they trade from the global wallet,
  \<open>shared_trading.rs\<close>: the economic terms of the underlying market, the grid of an order, the
  claims of a trader, and the validation of levels and orders.
\<close>

section \<open>Terms of the underlying market\<close>

record SharedTerms =
  st_authority :: pubkey
  st_kind :: MarketKind
  st_base_mint :: pubkey
  st_quote_mint :: pubkey
  st_base_decimals :: u8
  st_quote_decimals :: u8
  st_tick :: u64
  st_lot :: u64
  st_payout :: u64

text \<open>An account owned by the program is one of the typed accounts of the world.\<close>

definition program_owned :: "world \<Rightarrow> pubkey \<Rightarrow> bool" where
  "program_owned w k \<longleftrightarrow>
     ss_markets (w_spot w) k \<noteq> None \<or> ss_fees (w_spot w) k \<noteq> None \<or> ss_configs (w_spot w) k \<noteq> None \<or>
     ss_orders (w_spot w) k \<noteq> None \<or> ss_levels (w_spot w) k \<noteq> None \<or> ss_balances (w_spot w) k \<noteq> None \<or>
     w_admins w k \<noteq> None \<or> w_metadata w k \<noteq> None \<or> w_faucets w k \<noteq> None \<or> w_predictions w k \<noteq> None \<or>
     w_positions w k \<noteq> None \<or> w_prediction_books w k \<noteq> None \<or> w_prediction_levels w k \<noteq> None \<or>
     w_prediction_orders w k \<noteq> None \<or> w_assets w k \<noteq> None \<or> w_shared_books w k \<noteq> None \<or>
     w_shared_levels w k \<noteq> None \<or> w_shared_orders w k \<noteq> None"

text \<open>\<open>u64::checked_ilog10\<close>.\<close>

fun ilog10 :: "nat \<Rightarrow> nat" where
  "ilog10 n = (if n < 10 then 0 else Suc (ilog10 (n div 10)))"

declare ilog10.simps [simp del]

definition checked_ilog10 :: "u64 \<Rightarrow> nat option" where
  "checked_ilog10 a = (if a = 0 then None else Some (ilog10 (unat a)))"

definition terms :: "runtime \<Rightarrow> world \<Rightarrow> pubkey \<Rightarrow> MarketKind \<Rightarrow> bool \<Rightarrow> SharedTerms res" where
  "terms rt w info kind trading =
     require (program_owned w info) SharedMarketKindMismatch
     (case kind of
        Spot \<Rightarrow>
          ok_or (ss_markets (w_spot w) info) AccountDiscriminatorMismatch (\<lambda>m.
          require (address rt (MarketPda (mkt_base_mint m) (mkt_quote_mint m)) = info) SharedMarketKindMismatch
          (require (trading \<longrightarrow> mkt_status m = MarketActive) MarketNotActive
          (Inr \<lparr>st_authority = mkt_authority m, st_kind = kind, st_base_mint = mkt_base_mint m,
             st_quote_mint = mkt_quote_mint m, st_base_decimals = mkt_base_decimals m,
             st_quote_decimals = mkt_quote_decimals m, st_tick = mkt_price_tick_size m,
             st_lot = mkt_quantity_lot_size m, st_payout = 0\<rparr>)))
      | Prediction \<Rightarrow>
          ok_or (w_predictions w info) AccountDiscriminatorMismatch (\<lambda>m.
          require (address rt (PredictionMarketPda (pm_market_id m)) = info) SharedMarketKindMismatch
          (require (trading \<longrightarrow> pm_status m = OpenTrading \<and> ilt (unix_timestamp rt) (pm_close_ts m))
             PredictionOrderUnavailable
          (ok_or (checked_ilog10 (pm_payout_per_contract m)) InvalidPredictionPayout (\<lambda>precision.
           require (checked_pow (10 :: u64) precision = Some (pm_payout_per_contract m)) InvalidPredictionPayout
          (Inr \<lparr>st_authority = pm_authority m, st_kind = kind, st_base_mint = default_key,
             st_quote_mint = pm_collateral_mint m, st_base_decimals = 0,
             st_quote_decimals = of_nat precision, st_tick = pm_price_tick m,
             st_lot = 1, st_payout = pm_payout_per_contract m\<rparr>)))))
      | Other \<Rightarrow> Inl SharedMarketKindMismatch)"

definition trading_open :: "runtime \<Rightarrow> world \<Rightarrow> SharedBook \<Rightarrow> pubkey \<Rightarrow> unit res" where
  "trading_open rt w book market =
     require (sbk_market book = market) InvalidSharedBook
     (try_in (terms rt w market (sbk_kind book) True) (\<lambda>v.
      require (sbk_authority book = st_authority v \<and> sbk_base_mint book = st_base_mint v \<and>
          sbk_quote_mint book = st_quote_mint v \<and> sbk_base_decimals book = st_base_decimals v \<and>
          sbk_quote_decimals book = st_quote_decimals v \<and> sbk_price_tick book = st_tick v \<and>
          sbk_quantity_lot book = st_lot v \<and> sbk_payout_per_contract book = st_payout v) InvalidSharedBook
     (Inr ())))"

section \<open>Orders on the grid\<close>

definition quote_amount :: "SharedBook \<Rightarrow> u64 \<Rightarrow> u64 \<Rightarrow> u64 res" where
  "quote_amount book price quantity =
     ok_or (checked_pow (10 :: u128) (unat (sbk_base_decimals book))) OrderNotionalOverflow (\<lambda>scale.
     ok_or (checked_mul (u128_from price) (u128_from quantity)) OrderNotionalOverflow (\<lambda>product.
     ok_or (u64_try_from (product div scale)) OrderNotionalOverflow Inr))"

definition order_terms ::
  "SharedBook \<Rightarrow> SharedOutcome \<Rightarrow> OrderSide \<Rightarrow> u64 \<Rightarrow> u64 \<Rightarrow> (nat \<times> u64) res" where
  "order_terms book outcome side price quantity =
     try_in (slot book outcome side) (\<lambda>sl.
     require (price > 0 \<and> sbk_price_tick book > 0 \<and> is_multiple_of price (sbk_price_tick book)) PriceNotOnTick
     (require (quantity > 0 \<and> sbk_quantity_lot book > 0 \<and> is_multiple_of quantity (sbk_quantity_lot book))
       QuantityNotOnLot
     (require (sbk_kind book = Prediction \<longrightarrow> price < sbk_payout_per_contract book) InvalidPredictionOrderPrice
     (try_in (quote_amount book price quantity) (\<lambda>amount.
      require (amount > 0) OrderNotionalTooSmall
     (Inr (sl, if side = Bid then amount else quantity)))))))"

lemma quote_amount_Inr [run_simps]:
  "quote_amount b p q = Inr n \<longleftrightarrow>
     (\<exists>sc :: u128. unat sc = 10 ^ unat (sbk_base_decimals b)) \<and> unat n = notional p (unat q) (sbk_base_decimals b)"
proof
  assume "quote_amount b p q = Inr n"
  then show "(\<exists>sc :: u128. unat sc = 10 ^ unat (sbk_base_decimals b)) \<and> unat n = notional p (unat q) (sbk_base_decimals b)"
    by (auto simp: quote_amount_def ok_or_Inr notional_def unat_div)
next
  assume R: "(\<exists>sc :: u128. unat sc = 10 ^ unat (sbk_base_decimals b)) \<and> unat n = notional p (unat q) (sbk_base_decimals b)"
  then obtain sc :: u128 where sc: "unat sc = 10 ^ unat (sbk_base_decimals b)" by blast
  obtain pr :: u128 where pr: "unat pr = unat p * unat q" using mul_u64_u128 by blast
  have "checked_pow (10 :: u128) (unat (sbk_base_decimals b)) = Some sc"
    "checked_mul (u128_from p) (u128_from q) = Some pr" "u64_try_from (pr div sc) = Some n"
    using R sc pr by (simp_all add: unat_div notional_def)
  then show "quote_amount b p q = Inr n"
    by (simp add: quote_amount_def del: checked_pow_Some checked_mul_Some u64_try_from_Some)
qed

lemma order_terms_Inr [run_simps]:
  "order_terms b oc sd p q = Inr (sl, amount) \<longleftrightarrow>
     slot b oc sd = Inr sl \<and> 0 < p \<and> 0 < sbk_price_tick b \<and> is_multiple_of p (sbk_price_tick b) \<and>
     0 < q \<and> 0 < sbk_quantity_lot b \<and> is_multiple_of q (sbk_quantity_lot b) \<and>
     (sbk_kind b = Prediction \<longrightarrow> p < sbk_payout_per_contract b) \<and>
     (\<exists>n. quote_amount b p q = Inr n \<and> 0 < n \<and> amount = (if sd = Bid then n else q))"
  by (auto simp: order_terms_def run_simps simp del: quote_amount_Inr)

section \<open>The claims of a trader\<close>

text \<open>\<open>rules::asset\<close>, and the accounts of one trader: cash, and the base ledger of a spot book or
  the position of a prediction book.\<close>

definition rules_asset :: "runtime \<Rightarrow> AssetBalance account \<Rightarrow> pubkey \<Rightarrow> pubkey \<Rightarrow> unit res" where
  "rules_asset rt a owner mint =
     require (ab_owner (inner a) = owner \<and> ab_mint (inner a) = mint) InvalidAssetBalance
     (require (key a = address rt (AssetBalancePda owner mint)) InvalidAssetBalance
     (Inr ()))"

record shared_claims =
  cl_base :: "AssetBalance account option"
  cl_quote :: "AssetBalance account"
  cl_position :: "PredictionPosition account option"

definition rules_trader :: "runtime \<Rightarrow> SharedBook \<Rightarrow> pubkey \<Rightarrow> shared_claims \<Rightarrow> unit res" where
  "rules_trader rt book owner cl =
     try_in (rules_asset rt (cl_quote cl) owner (sbk_quote_mint book)) (\<lambda>_.
     if sbk_kind book = Spot
     then ok_or (cl_base cl) InvalidAssetBalance (\<lambda>base.
       try_in (rules_asset rt base owner (sbk_base_mint book)) (\<lambda>_.
       require (cl_position cl = None) InvalidAssetBalance (Inr ())))
     else require (cl_base cl = None) InvalidAssetBalance
      (ok_or (cl_position cl) InvalidAssetBalance (\<lambda>p.
       require (pos_owner (inner p) = owner \<and> pos_market (inner p) = sbk_market book) InvalidAssetBalance
      (require (key p = address rt (PredictionPositionPda (sbk_market book) owner)) InvalidAssetBalance
      (Inr ())))))"

text \<open>\<open>rules::base_buckets\<close>: the free and locked amounts of the traded claim, with the write that
  the returned mutable references stand for.\<close>

definition base_buckets :: "MarketKind \<Rightarrow> SharedOutcome \<Rightarrow> shared_claims \<Rightarrow> (u64 \<times> u64) res" where
  "base_buckets kind outcome cl =
     (case (kind, outcome) of
        (Spot, SpotList) \<Rightarrow> ok_or (cl_base cl) InvalidAssetBalance (\<lambda>v. Inr (ab_free (inner v), ab_locked (inner v)))
      | (Prediction, YesList) \<Rightarrow>
          ok_or (cl_position cl) InvalidAssetBalance (\<lambda>v. Inr (pos_yes_free (inner v), pos_yes_locked (inner v)))
      | (Prediction, NoList) \<Rightarrow>
          ok_or (cl_position cl) InvalidAssetBalance (\<lambda>v. Inr (pos_no_free (inner v), pos_no_locked (inner v)))
      | _ \<Rightarrow> Inl SharedMarketKindMismatch)"

fun set_base_buckets :: "SharedOutcome \<Rightarrow> u64 \<Rightarrow> u64 \<Rightarrow> shared_claims \<Rightarrow> shared_claims" where
  "set_base_buckets SpotList free locked cl =
     cl\<lparr>cl_base := map_option (upd_inner (\<lambda>v. v\<lparr>ab_free := free, ab_locked := locked\<rparr>)) (cl_base cl)\<rparr>"
| "set_base_buckets YesList free locked cl =
     cl\<lparr>cl_position := map_option (upd_inner (\<lambda>v. v\<lparr>pos_yes_free := free, pos_yes_locked := locked\<rparr>)) (cl_position cl)\<rparr>"
| "set_base_buckets NoList free locked cl =
     cl\<lparr>cl_position := map_option (upd_inner (\<lambda>v. v\<lparr>pos_no_free := free, pos_no_locked := locked\<rparr>)) (cl_position cl)\<rparr>"

definition set_cash :: "u64 \<Rightarrow> u64 \<Rightarrow> shared_claims \<Rightarrow> shared_claims" where
  "set_cash free locked cl =
     cl\<lparr>cl_quote := upd_inner (\<lambda>v. v\<lparr>ab_free := free, ab_locked := locked\<rparr>) (cl_quote cl)\<rparr>"

definition rules_lock :: "u64 \<Rightarrow> u64 \<Rightarrow> u64 \<Rightarrow> (u64 \<times> u64) res" where
  "rules_lock free locked amount =
     ok_or (checked_sub free amount) InsufficientFreeBalance (\<lambda>new_free.
     ok_or (checked_add locked amount) LockedBalanceOverflow (\<lambda>new_locked.
     Inr (new_free, new_locked)))"

section \<open>Levels and orders of a book\<close>

definition level_key :: "runtime \<Rightarrow> pubkey \<Rightarrow> SharedOutcome \<Rightarrow> OrderSide \<Rightarrow> u64 \<Rightarrow> pubkey" where
  "level_key rt book outcome side price = address rt (SharedLevelPda book outcome side price)"

definition order_key :: "runtime \<Rightarrow> pubkey \<Rightarrow> u64 \<Rightarrow> pubkey" where
  "order_key rt book i = address rt (SharedOrderPda book i)"

definition rules_level :: "runtime \<Rightarrow> SharedPriceLevel account \<Rightarrow> SharedBook account \<Rightarrow> unit res" where
  "rules_level rt level_account book =
     (let v = inner level_account in
      try_in (slot (inner book) (sl_outcome v) (sl_side v)) (\<lambda>_.
      require (sl_book v = key book \<and> sl_market v = sbk_market (inner book) \<and> sl_price v > 0 \<and>
          sl_order_count v > 0 \<and> sl_total_remaining_quantity v > 0 \<and> sl_first_order v \<noteq> None \<and>
          sl_last_order v \<noteq> None) InvalidSharedNeighbor
     (require (key level_account = level_key rt (key book) (sl_outcome v) (sl_side v) (sl_price v))
        InvalidSharedNeighbor
     (Inr ()))))"

definition rules_order :: "runtime \<Rightarrow> SharedOrder account \<Rightarrow> SharedBook account \<Rightarrow> unit res" where
  "rules_order rt order_account book =
     (let v = inner order_account in
      try_in (slot (inner book) (so_outcome v) (so_side v)) (\<lambda>_.
      require (so_book v = key book \<and> so_market v = sbk_market (inner book) \<and> so_order_id v > 0 \<and>
          so_order_id v < sbk_next_order_id (inner book) \<and> so_status v = Open \<and> so_remaining_quantity v > 0 \<and>
          so_remaining_quantity v \<le> so_quantity v \<and> so_price v > 0 \<and> so_locked_collateral v > 0)
        InvalidSharedNeighbor
     (require (key order_account = order_key rt (key book) (so_order_id v)) InvalidSharedNeighbor
     (require (so_price_level v = level_key rt (key book) (so_outcome v) (so_side v) (so_price v))
        InvalidSharedNeighbor
     (try_in (if so_side v = Bid then quote_amount (inner book) (so_price v) (so_remaining_quantity v)
         else Inr (so_remaining_quantity v)) (\<lambda>minimum.
      require (if so_side v = Bid then so_locked_collateral v \<ge> minimum else so_locked_collateral v = minimum)
        InvalidSharedNeighbor
     (Inr ())))))))"

text \<open>A price that is not worse than another on a side; \<open>side_precedes\<close> is its strict form.\<close>

fun no_worse :: "OrderSide \<Rightarrow> u64 \<Rightarrow> u64 \<Rightarrow> bool" where
  "no_worse Bid a b = (a \<ge> b)"
| "no_worse Ask a b = (a \<le> b)"

section \<open>Loading the accounts\<close>

text \<open>\<open>seeds = [SHARED_BOOK_SEED, market]\<close>, \<open>has_one = market\<close>.\<close>

definition load_shared_book ::
  "runtime \<Rightarrow> world \<Rightarrow> pubkey \<Rightarrow> pubkey \<Rightarrow> (SharedBook account \<Rightarrow> 'a res) \<Rightarrow> 'a res" where
  "load_shared_book rt w k market body =
     load (w_shared_books w) k (\<lambda>book.
     require (key book = address rt (SharedBookPda market)) ConstraintSeeds
     (require (sbk_market (inner book) = market) InvalidSharedBook
     (body book)))"

lemma load_shared_book_Inr [run_simps]:
  "load_shared_book rt w k market body = Inr y \<longleftrightarrow>
     (\<exists>b. w_shared_books w k = Some b \<and> k = address rt (SharedBookPda market) \<and> sbk_market b = market \<and>
        body (Account k b) = Inr y)"
  by (auto simp: load_shared_book_def load_Inr require_Inr)

text \<open>The addresses of one trader's claims.\<close>

record claim_keys =
  ck_base :: "pubkey option"
  ck_quote :: pubkey
  ck_position :: "pubkey option"

definition load_claims :: "world \<Rightarrow> claim_keys \<Rightarrow> (shared_claims \<Rightarrow> 'a res) \<Rightarrow> 'a res" where
  "load_claims w ks body =
     load_opt (w_assets w) (ck_base ks) (\<lambda>base.
     load (w_assets w) (ck_quote ks) (\<lambda>quote.
     load_opt (w_positions w) (ck_position ks) (\<lambda>position.
     body \<lparr>cl_base = base, cl_quote = quote, cl_position = position\<rparr>)))"

definition save_claims :: "shared_claims \<Rightarrow> world \<Rightarrow> world" where
  "save_claims cl w =
     w\<lparr>w_assets := save (cl_quote cl) (save_opt (cl_base cl) (w_assets w)),
       w_positions := save_opt (cl_position cl) (w_positions w)\<rparr>"

end
