(* ===== verification/Shared_Remove.thy ===== *)
theory Shared_Remove
  imports Shared_Rules
begin

text \<open>
  Taking an order out of a shared book: \<open>rules::remove_order\<close> of \<open>shared_trading.rs\<close>, used by the
  owner's cancellation and by a full fill, and \<open>handle_cancel_shared_order\<close> of
  \<open>instructions/shared_orders.rs\<close>.
\<close>

section \<open>Removal\<close>

text \<open>A FIFO neighbour of the removed order; \<open>earlier\<close> when it is the previous one.\<close>

definition check_fifo_link ::
  "runtime \<Rightarrow> SharedBook account \<Rightarrow> SharedOrder account \<Rightarrow> SharedPriceLevel account \<Rightarrow> bool \<Rightarrow>
     SharedOrder account \<Rightarrow> unit res" where
  "check_fifo_link rt book removed current earlier value_account =
     (let v = inner value_account; r = inner removed in
      try_in (rules_order rt value_account book) (\<lambda>_.
      require (key value_account \<noteq> key removed \<and> so_price_level v = key current \<and>
          so_outcome v = so_outcome r \<and> so_side v = so_side r \<and> so_price v = so_price r \<and>
          (if earlier then so_next_order v = Some (key removed) \<and> so_order_id v < so_order_id r
           else so_previous_order v = Some (key removed) \<and> so_order_id v > so_order_id r))
        InvalidSharedNeighbor
     (Inr ())))"

text \<open>A price neighbour of the emptied level; \<open>is_better\<close> when it is the better one.\<close>

definition check_price_link ::
  "runtime \<Rightarrow> SharedBook account \<Rightarrow> SharedOrder \<Rightarrow> SharedPriceLevel \<Rightarrow> bool \<Rightarrow>
     SharedPriceLevel account \<Rightarrow> unit res" where
  "check_price_link rt book r l is_better value_account =
     (let v = inner value_account in
      try_in (rules_level rt value_account book) (\<lambda>_.
      require (sl_outcome v = so_outcome r \<and> sl_side v = so_side r \<and>
          (if is_better then sl_worse_price v = Some (sl_price l) \<and> side_precedes (so_side r) (sl_price v) (sl_price l)
           else sl_better_price v = Some (sl_price l) \<and> side_precedes (so_side r) (sl_price l) (sl_price v)))
        InvalidSharedNeighbor
     (Inr ())))"

text \<open>The branch on \<open>count == 0\<close>: the hints that must be present, and those that must be absent.\<close>

definition check_removal_hints ::
  "runtime \<Rightarrow> SharedBook account \<Rightarrow> SharedOrder \<Rightarrow> SharedPriceLevel \<Rightarrow> u64 \<Rightarrow> u64 \<Rightarrow>
     SharedOrder account option \<Rightarrow> SharedOrder account option \<Rightarrow> SharedPriceLevel account option \<Rightarrow>
     SharedPriceLevel account option \<Rightarrow> pubkey option \<Rightarrow> unit res" where
  "check_removal_hints rt book r l count remaining previous next better worse recipient =
     (if count = 0
      then require (previous = None \<and> next = None \<and> remaining = 0) InvalidSharedNeighbor
       (require (map_option key better =
            map_option (level_key rt (key book) (so_outcome r) (so_side r)) (sl_better_price l) \<and>
          map_option key worse =
            map_option (level_key rt (key book) (so_outcome r) (so_side r)) (sl_worse_price l)) InvalidSharedNeighbor
       (try_in (check_option better (check_price_link rt book r l True)) (\<lambda>_.
        try_in (check_option worse (check_price_link rt book r l False)) (\<lambda>_.
        ok_or recipient InvalidSharedNeighbor (\<lambda>rent.
        require (rent = sl_rent_payer l) InvalidSharedNeighbor
       (Inr ()))))))
      else require (remaining > 0 \<and> (previous \<noteq> None \<or> next \<noteq> None) \<and> better = None \<and> worse = None \<and>
          recipient = None) InvalidSharedNeighbor
       (Inr ()))"

text \<open>What the removal leaves in the accounts it was lent; a closed level is gone.\<close>

record removal =
  rm_book :: SharedBook
  rm_level :: "SharedPriceLevel option"
  rm_previous :: "SharedOrder account option"
  rm_next :: "SharedOrder account option"
  rm_better :: "SharedPriceLevel account option"
  rm_worse :: "SharedPriceLevel account option"

definition removal_of ::
  "SharedBook \<Rightarrow> nat \<Rightarrow> SharedOrder \<Rightarrow> SharedPriceLevel \<Rightarrow> SharedOrder account option \<Rightarrow>
     SharedOrder account option \<Rightarrow> SharedPriceLevel account option \<Rightarrow> SharedPriceLevel account option \<Rightarrow>
     u64 \<Rightarrow> u64 \<Rightarrow> u64 \<Rightarrow> removal" where
  "removal_of b sl r l previous next better worse count remaining open_count =
     \<lparr>rm_book = (if count = 0 \<and> better = None
        then b\<lparr>sbk_best_prices := (sbk_best_prices b)[sl := sl_worse_price l]\<rparr> else b)
        \<lparr>sbk_open_order_count := open_count\<rparr>,
      rm_level = (if count = 0 then None else Some (l\<lparr>
        sl_first_order := (if previous = None then so_next_order r else sl_first_order l),
        sl_last_order := (if next = None then so_previous_order r else sl_last_order l),
        sl_order_count := count, sl_total_remaining_quantity := remaining\<rparr>)),
      rm_previous = map_option (upd_inner (\<lambda>v. v\<lparr>so_next_order := so_next_order r\<rparr>)) previous,
      rm_next = map_option (upd_inner (\<lambda>v. v\<lparr>so_previous_order := so_previous_order r\<rparr>)) next,
      rm_better = (if count = 0
        then map_option (upd_inner (\<lambda>v. v\<lparr>sl_worse_price := sl_worse_price l\<rparr>)) better else better),
      rm_worse = (if count = 0
        then map_option (upd_inner (\<lambda>v. v\<lparr>sl_better_price := sl_better_price l\<rparr>)) worse else worse)\<rparr>"

definition remove_order ::
  "runtime \<Rightarrow> SharedBook account \<Rightarrow> SharedOrder account \<Rightarrow> SharedPriceLevel account \<Rightarrow>
     SharedOrder account option \<Rightarrow> SharedOrder account option \<Rightarrow> SharedPriceLevel account option \<Rightarrow>
     SharedPriceLevel account option \<Rightarrow> pubkey option \<Rightarrow> removal res" where
  "remove_order rt book removed current previous next better worse recipient =
     (let b = inner book; r = inner removed; l = inner current in
      try_in (rules_order rt removed book) (\<lambda>_.
      try_in (rules_level rt current book) (\<lambda>_.
      require (so_price_level r = key current \<and> so_price r = sl_price l \<and> so_outcome r = sl_outcome l \<and>
          so_side r = sl_side l) InvalidSharedNeighbor
     (try_in (slot b (so_outcome r) (so_side r)) (\<lambda>sl.
      ok_or (sbk_best_prices b ! sl) InvalidSharedBook (\<lambda>best.
      require ((best = sl_price l) = (sl_better_price l = None) \<and> no_worse (so_side r) best (sl_price l))
        InvalidSharedNeighbor
     (require (map_option key previous = so_previous_order r \<and> map_option key next = so_next_order r)
        InvalidSharedNeighbor
     (require ((sl_first_order l = Some (key removed)) = (so_previous_order r = None) \<and>
          (sl_last_order l = Some (key removed)) = (so_next_order r = None)) InvalidSharedNeighbor
     (try_in (check_option previous (check_fifo_link rt book removed current True)) (\<lambda>_.
      try_in (check_option next (check_fifo_link rt book removed current False)) (\<lambda>_.
      ok_or (checked_sub (sl_order_count l) 1) InvalidSharedBook (\<lambda>count.
      ok_or (checked_sub (sl_total_remaining_quantity l) (so_remaining_quantity r)) InvalidSharedBook (\<lambda>remaining.
      ok_or (checked_sub (sbk_open_order_count b) 1) InvalidSharedBook (\<lambda>open_count.
      try_in (check_removal_hints rt book r l count remaining previous next better worse recipient) (\<lambda>_.
      Inr (removal_of b sl r l previous next better worse count remaining open_count))))))))))))))))"

text \<open>Writing back: the root, the level, the price neighbours, the removed order and its FIFO
  neighbours.\<close>

definition put_removal :: "SharedBook account \<Rightarrow> SharedOrder account \<Rightarrow> pubkey \<Rightarrow> removal \<Rightarrow> world \<Rightarrow> world" where
  "put_removal book order level rm w =
     w\<lparr>w_shared_books := (w_shared_books w)(key book \<mapsto> rm_book rm),
       w_shared_levels := save_opt (rm_worse rm) (save_opt (rm_better rm)
         ((w_shared_levels w)(level := rm_level rm))),
       w_shared_orders := save_opt (rm_next rm) (save_opt (rm_previous rm)
         (save order (w_shared_orders w)))\<rparr>"

section \<open>Cancellation\<close>

record CancelSharedOrder =
  cso_owner :: pubkey
  cso_book :: pubkey
  cso_claims :: claim_keys
  cso_order :: pubkey
  cso_price_level :: pubkey
  cso_previous_order :: "pubkey option"
  cso_next_order :: "pubkey option"
  cso_better_level :: "pubkey option"
  cso_worse_level :: "pubkey option"
  cso_level_rent_recipient :: "pubkey option"

text \<open>The bucket that backs an order: cash for a bid, the traded claim for an ask.\<close>

definition order_bucket :: "MarketKind \<Rightarrow> SharedOutcome \<Rightarrow> OrderSide \<Rightarrow> shared_claims \<Rightarrow> (u64 \<times> u64) res" where
  "order_bucket kind outcome side cl =
     (case side of
        Bid \<Rightarrow> Inr (ab_free (inner (cl_quote cl)), ab_locked (inner (cl_quote cl)))
      | Ask \<Rightarrow> base_buckets kind outcome cl)"

definition set_order_bucket ::
  "SharedOutcome \<Rightarrow> OrderSide \<Rightarrow> u64 \<Rightarrow> u64 \<Rightarrow> shared_claims \<Rightarrow> shared_claims" where
  "set_order_bucket outcome side free locked cl =
     (case side of Bid \<Rightarrow> set_cash free locked cl | Ask \<Rightarrow> set_base_buckets outcome free locked cl)"

definition closed_shared_order :: "OrderStatus \<Rightarrow> SharedOrder \<Rightarrow> SharedOrder" where
  "closed_shared_order status r =
     r\<lparr>so_status := status, so_locked_collateral := 0, so_previous_order := None, so_next_order := None\<rparr>"

definition cancel_shared_order :: "runtime \<Rightarrow> world \<Rightarrow> CancelSharedOrder \<Rightarrow> world res" where
  "cancel_shared_order rt w ks =
     load (w_shared_books w) (cso_book ks) (\<lambda>book.
     require (key book = address rt (SharedBookPda (sbk_market (inner book)))) ConstraintSeeds
     (load_claims w (cso_claims ks) (\<lambda>claims.
      load (w_shared_orders w) (cso_order ks) (\<lambda>order.
      require (so_owner (inner order) = cso_owner ks) UnauthorizedSharedOrderOwner
     (load (w_shared_levels w) (cso_price_level ks) (\<lambda>price_level.
      load_opt (w_shared_orders w) (cso_previous_order ks) (\<lambda>previous.
      load_opt (w_shared_orders w) (cso_next_order ks) (\<lambda>next.
      load_opt (w_shared_levels w) (cso_better_level ks) (\<lambda>better.
      load_opt (w_shared_levels w) (cso_worse_level ks) (\<lambda>worse.
      require (distinct (keys_of [ck_base (cso_claims ks), Some (ck_quote (cso_claims ks))]) \<and>
          distinct (keys_of [Some (cso_order ks), cso_previous_order ks, cso_next_order ks]) \<and>
          distinct (keys_of [Some (cso_price_level ks), cso_better_level ks, cso_worse_level ks]))
        ConstraintDuplicateMutableAccount
     (let b = inner book; r = inner order in
      try_in (rules_trader rt b (cso_owner ks) claims) (\<lambda>_.
      try_in (rules_order rt order book) (\<lambda>_.
      try_in (order_bucket (sbk_kind b) (so_outcome r) (so_side r) claims) (\<lambda>(free, locked).
      ok_or (checked_add free (so_locked_collateral r)) FreeBalanceOverflow (\<lambda>new_free.
      ok_or (checked_sub locked (so_locked_collateral r)) LockedBalanceUnderflow (\<lambda>new_locked.
      try_in (remove_order rt book order price_level previous next better worse
        (cso_level_rent_recipient ks)) (\<lambda>rm.
      Inr (put_removal book (upd_inner (closed_shared_order Canceled) order) (key price_level) rm
        (save_claims (set_order_bucket (so_outcome r) (so_side r) new_free new_locked claims) w)))))))))))))))))))"

end
