(* ===== verification/Shared_Place.thy ===== *)
theory Shared_Place
  imports Shared_Remove
begin

text \<open>
  Placing an order on a shared book, \<open>handle_place_shared_order\<close> of
  \<open>instructions/shared_orders.rs\<close>: one entry point for the first order of a list, a new price and
  an existing price.
\<close>

record PlaceSharedOrder =
  pso_owner :: pubkey
  pso_market :: pubkey
  pso_book :: pubkey
  pso_claims :: claim_keys
  pso_order :: pubkey
  pso_price_level :: pubkey
  pso_tail :: "pubkey option"
  pso_better_level :: "pubkey option"
  pso_worse_level :: "pubkey option"

text \<open>\<open>init_if_needed\<close>: a level that does not exist yet is read as zeroed account data.\<close>

definition zeroed_level :: SharedPriceLevel where
  "zeroed_level =
     \<lparr>sl_book = 0, sl_market = 0, sl_outcome = SpotList, sl_side = Bid, sl_price = 0,
      sl_better_price = None, sl_worse_price = None, sl_first_order = None, sl_last_order = None,
      sl_total_remaining_quantity = 0, sl_order_count = 0, sl_rent_payer = 0, sl_bump = 0\<rparr>"

definition level_or_zeroed :: "world \<Rightarrow> pubkey \<Rightarrow> SharedPriceLevel account" where
  "level_or_zeroed w k = Account k (case w_shared_levels w k of None \<Rightarrow> zeroed_level | Some l \<Rightarrow> l)"

text \<open>The branch of an existing price: the tail is the last order of the level.\<close>

definition check_append ::
  "runtime \<Rightarrow> SharedBook account \<Rightarrow> nat \<Rightarrow> SharedPriceLevel account \<Rightarrow> SharedOrder account option \<Rightarrow>
     SharedPriceLevel account option \<Rightarrow> SharedPriceLevel account option \<Rightarrow> SharedOutcome \<Rightarrow> OrderSide \<Rightarrow>
     u64 \<Rightarrow> u64 \<Rightarrow> (SharedOrder account \<times> u64 \<times> u64) res" where
  "check_append rt book sl level_account tail_hint better worse outcome side price quantity =
     (let l = inner level_account; b = inner book in
      try_in (rules_level rt level_account book) (\<lambda>_.
      require (sl_outcome l = outcome \<and> sl_side l = side \<and> sl_price l = price \<and> better = None \<and> worse = None)
        InvalidSharedNeighbor
     (ok_or (sbk_best_prices b ! sl) InvalidSharedBook (\<lambda>best.
      require ((sl_better_price l = None) = (best = price) \<and> no_worse side best price) InvalidSharedNeighbor
     (ok_or tail_hint InvalidSharedNeighbor (\<lambda>tail.
      try_in (rules_order rt tail book) (\<lambda>_.
      let t = inner tail in
      require (sl_last_order l = Some (key tail) \<and> so_price_level t = key level_account \<and>
          so_outcome t = outcome \<and> so_side t = side \<and> so_price t = price \<and> so_next_order t = None)
        InvalidSharedNeighbor
     (require (if sl_order_count l = 1
          then sl_first_order l = Some (key tail) \<and> so_previous_order t = None \<and>
            sl_total_remaining_quantity l = so_remaining_quantity t
          else sl_first_order l \<noteq> Some (key tail) \<and> so_previous_order t \<noteq> None \<and>
            sl_total_remaining_quantity l > so_remaining_quantity t) InvalidSharedNeighbor
     (ok_or (checked_add (sl_order_count l) 1) InvalidSharedBook (\<lambda>level_count.
      ok_or (checked_add (sl_total_remaining_quantity l) quantity) InvalidSharedBook (\<lambda>level_total.
      Inr (tail, level_count, level_total))))))))))))"

text \<open>The branch of a new price: the exact neighbours between which it goes.\<close>

definition check_neighbor ::
  "runtime \<Rightarrow> SharedBook account \<Rightarrow> SharedOutcome \<Rightarrow> OrderSide \<Rightarrow> SharedPriceLevel account \<Rightarrow> unit res" where
  "check_neighbor rt book outcome side v =
     try_in (rules_level rt v book) (\<lambda>_.
     require (sl_outcome (inner v) = outcome \<and> sl_side (inner v) = side) InvalidSharedNeighbor (Inr ()))"

definition check_insert ::
  "runtime \<Rightarrow> SharedBook account \<Rightarrow> nat \<Rightarrow> SharedOrder account option \<Rightarrow> SharedPriceLevel account option \<Rightarrow>
     SharedPriceLevel account option \<Rightarrow> SharedOutcome \<Rightarrow> OrderSide \<Rightarrow> u64 \<Rightarrow> unit res" where
  "check_insert rt book sl tail_hint better worse outcome side price =
     require (tail_hint = None) InvalidSharedNeighbor
     (try_in (check_option better (check_neighbor rt book outcome side)) (\<lambda>_.
      try_in (check_option worse (check_neighbor rt book outcome side)) (\<lambda>_.
      case sbk_best_prices (inner book) ! sl of
        None \<Rightarrow> require (better = None \<and> worse = None) InvalidSharedNeighbor (Inr ())
      | Some best \<Rightarrow>
          try_in (case better of
              Some v \<Rightarrow>
                require (side_precedes side (sl_price (inner v)) price \<and> no_worse side best (sl_price (inner v)))
                  InvalidSharedNeighbor
               (require (sl_worse_price (inner v) = map_option (\<lambda>v. sl_price (inner v)) worse) InvalidSharedNeighbor
               (require ((sl_better_price (inner v) = None) = (sl_price (inner v) = best)) InvalidSharedNeighbor
               (Inr ())))
            | None \<Rightarrow>
                ok_or worse InvalidSharedNeighbor (\<lambda>v.
                require (sl_price (inner v) = best \<and> sl_better_price (inner v) = None) InvalidSharedNeighbor
               (Inr ()))) (\<lambda>_.
          check_option worse (\<lambda>v.
            require (sl_better_price (inner v) = map_option (\<lambda>v. sl_price (inner v)) better \<and>
                side_precedes side price (sl_price (inner v))) InvalidSharedNeighbor
           (Inr ()))))))"

text \<open>What the two branches hand to the writes: the tail with the grown totals of an existing level,
  or nothing for a new one.\<close>

definition check_place ::
  "runtime \<Rightarrow> SharedBook account \<Rightarrow> nat \<Rightarrow> SharedPriceLevel account \<Rightarrow> SharedOrder account option \<Rightarrow>
     SharedPriceLevel account option \<Rightarrow> SharedPriceLevel account option \<Rightarrow> SharedOutcome \<Rightarrow> OrderSide \<Rightarrow>
     u64 \<Rightarrow> u64 \<Rightarrow> (SharedOrder account \<times> u64 \<times> u64) option res" where
  "check_place rt book sl level_account tail_hint better worse outcome side price quantity =
     (let is_new = (sl_market (inner level_account) = default_key \<and> sl_order_count (inner level_account) = 0) in
      if \<not> is_new
      then try_in (check_append rt book sl level_account tail_hint better worse outcome side price quantity)
        (\<lambda>p. Inr (Some p))
      else try_in (check_insert rt book sl tail_hint better worse outcome side price) (\<lambda>_. Inr None))"

definition new_shared_level ::
  "runtime \<Rightarrow> PlaceSharedOrder \<Rightarrow> SharedBook \<Rightarrow> SharedOutcome \<Rightarrow> OrderSide \<Rightarrow> u64 \<Rightarrow> u64 \<Rightarrow> u64 option \<Rightarrow>
     u64 option \<Rightarrow> SharedPriceLevel" where
  "new_shared_level rt ks b outcome side price quantity better_price worse_price =
     \<lparr>sl_book = pso_book ks, sl_market = sbk_market b, sl_outcome = outcome, sl_side = side, sl_price = price,
      sl_better_price = better_price, sl_worse_price = worse_price, sl_first_order = Some (pso_order ks),
      sl_last_order = Some (pso_order ks), sl_total_remaining_quantity = quantity, sl_order_count = 1,
      sl_rent_payer = pso_owner ks,
      sl_bump = snd (pda rt (SharedLevelPda (pso_book ks) outcome side price))\<rparr>"

definition new_shared_order ::
  "runtime \<Rightarrow> PlaceSharedOrder \<Rightarrow> SharedBook \<Rightarrow> u64 \<Rightarrow> SharedOutcome \<Rightarrow> OrderSide \<Rightarrow> u64 \<Rightarrow> u64 \<Rightarrow> u64 \<Rightarrow>
     pubkey option \<Rightarrow> SharedOrder" where
  "new_shared_order rt ks b order_id outcome side price quantity amount previous =
     \<lparr>so_owner = pso_owner ks, so_market = sbk_market b, so_book = pso_book ks, so_order_id = order_id,
      so_outcome = outcome, so_side = side, so_price = price, so_price_level = pso_price_level ks,
      so_previous_order = previous, so_next_order = None, so_quantity = quantity,
      so_remaining_quantity = quantity, so_locked_collateral = amount, so_status = Open,
      so_bump = snd (pda rt (SharedOrderPda (pso_book ks) order_id))\<rparr>"

text \<open>The index writes, by branch.\<close>

definition put_placement ::
  "PlaceSharedOrder \<Rightarrow> SharedBook \<Rightarrow> nat \<Rightarrow> SharedPriceLevel \<Rightarrow> (pubkey option \<Rightarrow> SharedOrder) \<Rightarrow>
     (u64 option \<Rightarrow> u64 option \<Rightarrow> SharedPriceLevel) \<Rightarrow> u64 \<Rightarrow> (SharedOrder account \<times> u64 \<times> u64) option \<Rightarrow>
     SharedPriceLevel account option \<Rightarrow> SharedPriceLevel account option \<Rightarrow> world \<Rightarrow> world" where
  "put_placement ks b sl l new_order new_level price plan better worse w =
     (case plan of
        Some (tail, level_count, level_total) \<Rightarrow> w\<lparr>
          w_shared_books := (w_shared_books w)(pso_book ks \<mapsto> b),
          w_shared_levels := (w_shared_levels w)(pso_price_level ks \<mapsto> l\<lparr>sl_last_order := Some (pso_order ks),
            sl_order_count := level_count, sl_total_remaining_quantity := level_total\<rparr>),
          w_shared_orders := save (upd_inner (\<lambda>t. t\<lparr>so_next_order := Some (pso_order ks)\<rparr>) tail)
            ((w_shared_orders w)(pso_order ks \<mapsto> new_order (Some (key tail))))\<rparr>
      | None \<Rightarrow> w\<lparr>
          w_shared_books := (w_shared_books w)(pso_book ks \<mapsto>
            (if better = None then b\<lparr>sbk_best_prices := (sbk_best_prices b)[sl := Some price]\<rparr> else b)),
          w_shared_levels := save_opt (map_option (upd_inner (\<lambda>v. v\<lparr>sl_better_price := Some price\<rparr>)) worse)
            (save_opt (map_option (upd_inner (\<lambda>v. v\<lparr>sl_worse_price := Some price\<rparr>)) better)
              ((w_shared_levels w)(pso_price_level ks \<mapsto>
                 new_level (map_option (\<lambda>v. sl_price (inner v)) better) (map_option (\<lambda>v. sl_price (inner v)) worse)))),
          w_shared_orders := (w_shared_orders w)(pso_order ks \<mapsto> new_order None)\<rparr>)"

definition place_shared_order ::
  "runtime \<Rightarrow> world \<Rightarrow> PlaceSharedOrder \<Rightarrow> SharedOutcome \<Rightarrow> OrderSide \<Rightarrow> u64 \<Rightarrow> u64 \<Rightarrow> u64 \<Rightarrow> world res" where
  "place_shared_order rt w ks outcome side price quantity order_id =
     require (program_owned w (pso_market ks)) ConstraintOwner
     (load_shared_book rt w (pso_book ks) (pso_market ks) (\<lambda>book.
      load_claims w (pso_claims ks) (\<lambda>claims.
      require (pso_order ks = order_key rt (key book) order_id) ConstraintSeeds
     (require (w_shared_orders w (pso_order ks) = None) AccountAlreadyInUse
     (require (pso_price_level ks = level_key rt (key book) outcome side price) ConstraintSeeds
     (load_opt (w_shared_orders w) (pso_tail ks) (\<lambda>tail.
      load_opt (w_shared_levels w) (pso_better_level ks) (\<lambda>better.
      load_opt (w_shared_levels w) (pso_worse_level ks) (\<lambda>worse.
      require (distinct (keys_of [ck_base (pso_claims ks), Some (ck_quote (pso_claims ks))]) \<and>
          distinct (keys_of [pso_better_level ks, pso_worse_level ks])) ConstraintDuplicateMutableAccount
     (let b = inner book; level_account = level_or_zeroed w (pso_price_level ks) in
      try_in (trading_open rt w b (pso_market ks)) (\<lambda>_.
      try_in (rules_trader rt b (pso_owner ks) claims) (\<lambda>_.
      try_in (order_terms b outcome side price quantity) (\<lambda>(sl, amount).
      require (order_id > 0 \<and> order_id = sbk_next_order_id b) InvalidOrderId
     (try_in (check_option (sbk_best_prices b ! (xor sl 1)) (\<lambda>opp.
         require (side_precedes side opp price) InvalidPrice (Inr ()))) (\<lambda>_.
      ok_or (checked_add order_id 1) OrderIdOverflow (\<lambda>next_id.
      ok_or (checked_add (sbk_open_order_count b) 1) InvalidSharedBook (\<lambda>next_count.
      try_in (check_place rt book sl level_account tail better worse outcome side price quantity) (\<lambda>plan.
      try_in (order_bucket (sbk_kind b) outcome side claims) (\<lambda>(free, locked).
      try_in (rules_lock free locked amount) (\<lambda>(new_free, new_locked).
      Inr (put_placement ks (b\<lparr>sbk_next_order_id := next_id, sbk_open_order_count := next_count\<rparr>) sl
        (inner level_account) (new_shared_order rt ks b order_id outcome side price quantity amount)
        (new_shared_level rt ks b outcome side price quantity) price plan better worse
        (save_claims (set_order_bucket outcome side new_free new_locked claims) w))))))))))))))))))))))"

end
