(* ===== verification/Shared_Fill.thy ===== *)
theory Shared_Fill
  imports Shared_Place
begin

text \<open>
  One best-price FIFO fill on a shared book, \<open>instructions/shared_match.rs\<close>, and the root of a shared
  book, \<open>instructions/shared_book.rs\<close> (creation, fee withdrawal, closing).
\<close>

section \<open>Matching\<close>

record MatchSharedOrder =
  mso_taker :: pubkey
  mso_market :: pubkey
  mso_book :: pubkey
  mso_protocol_config :: pubkey
  mso_maker_order :: pubkey
  mso_price_level :: pubkey
  mso_maker :: claim_keys
  mso_taker_claims :: claim_keys
  mso_next_order :: "pubkey option"
  mso_worse_level :: "pubkey option"
  mso_level_rent_recipient :: "pubkey option"

text \<open>The checks of the maker order and its level, up to \<open>MakerNotFifoHead\<close>.\<close>

definition check_shared_maker ::
  "runtime \<Rightarrow> SharedBook account \<Rightarrow> nat \<Rightarrow> SharedOrder account \<Rightarrow> SharedPriceLevel account \<Rightarrow> pubkey \<Rightarrow>
     SharedOutcome \<Rightarrow> unit res" where
  "check_shared_maker rt book sl maker_account level_account taker outcome =
     (let maker = inner maker_account; l = inner level_account in
      try_in (rules_order rt maker_account book) (\<lambda>_.
      try_in (rules_level rt level_account book) (\<lambda>_.
      require (so_owner maker \<noteq> taker) SelfTradeNotAllowed
     (require (so_outcome maker = outcome \<and> so_price_level maker = key level_account \<and>
          sl_outcome l = outcome \<and> sl_side l = so_side maker \<and> sl_price l = so_price maker)
        InvalidSharedNeighbor
     (require (sbk_best_prices (inner book) ! (xor sl 1) = Some (so_price maker) \<and> sl_better_price l = None)
        MakerNotAtBestPrice
     (require (sl_first_order l = Some (key maker_account) \<and> so_previous_order maker = None) MakerNotFifoHead
     (Inr ())))))))"

text \<open>The settlement of both traders' claims, by taker side.\<close>

definition settle_shared ::
  "MarketKind \<Rightarrow> SharedOutcome \<Rightarrow> OrderSide \<Rightarrow> SettlementPlan \<Rightarrow> u64 \<Rightarrow> shared_claims \<Rightarrow> shared_claims \<Rightarrow>
     (shared_claims \<times> shared_claims) res" where
  "settle_shared kind outcome taker_side plan taker_fee maker taker =
     try_in (base_buckets kind outcome maker) (\<lambda>(maker_free, maker_locked).
     try_in (base_buckets kind outcome taker) (\<lambda>(taker_free, taker_locked).
     let maker_quote = inner (cl_quote maker); taker_quote = inner (cl_quote taker);
         base = base_quantity (fill plan); quote = quote_quantity (fill plan) in
     case taker_side of
       Bid \<Rightarrow>
         ok_or (checked_add quote taker_fee) FreeBalanceOverflow (\<lambda>cost.
         ok_or (checked_sub (ab_free taker_quote) cost) InsufficientFreeBalance (\<lambda>taker_cash.
         ok_or (checked_add (ab_free maker_quote) quote) FreeBalanceOverflow (\<lambda>maker_cash.
         ok_or (checked_sub maker_locked (maker_locked_debit plan)) LockedBalanceUnderflow (\<lambda>maker_locked'.
         ok_or (checked_add taker_free base) FreeBalanceOverflow (\<lambda>taker_free'.
         Inr (set_base_buckets outcome maker_free maker_locked' (set_cash maker_cash (ab_locked maker_quote) maker),
              set_base_buckets outcome taker_free' taker_locked
                (set_cash taker_cash (ab_locked taker_quote) taker)))))))
     | Ask \<Rightarrow>
         ok_or (checked_sub quote taker_fee) FeeCalculationOverflow (\<lambda>proceeds.
         ok_or (checked_sub taker_free base) InsufficientFreeBalance (\<lambda>taker_free'.
         ok_or (checked_add maker_free base) FreeBalanceOverflow (\<lambda>maker_free'.
         ok_or (checked_add (ab_free taker_quote) proceeds) FreeBalanceOverflow (\<lambda>taker_cash.
         ok_or (checked_sub (ab_locked maker_quote) (maker_locked_debit plan)) LockedBalanceUnderflow (\<lambda>maker_lock.
         ok_or (checked_add (ab_free maker_quote) (maker_quote_refund plan)) FreeBalanceOverflow (\<lambda>maker_cash.
         Inr (set_base_buckets outcome maker_free' maker_locked (set_cash maker_cash maker_lock maker),
              set_base_buckets outcome taker_free' taker_locked
                (set_cash taker_cash (ab_locked taker_quote) taker))))))))))"

text \<open>The writes to the maker order after a fill.\<close>

definition filled_shared_order :: "bool \<Rightarrow> u64 \<Rightarrow> u64 \<Rightarrow> SharedOrder \<Rightarrow> SharedOrder" where
  "filled_shared_order full remaining collateral r =
     (let r' = r\<lparr>so_remaining_quantity := remaining, so_locked_collateral := collateral\<rparr> in
      if full then r'\<lparr>so_status := Filled, so_previous_order := None, so_next_order := None\<rparr> else r')"

definition match_shared_order ::
  "runtime \<Rightarrow> world \<Rightarrow> MatchSharedOrder \<Rightarrow> SharedOutcome \<Rightarrow> OrderSide \<Rightarrow> u64 \<Rightarrow> u64 \<Rightarrow> world res" where
  "match_shared_order rt w ks outcome taker_side limit_price quantity =
     require (program_owned w (mso_market ks)) ConstraintOwner
     (load_shared_book rt w (mso_book ks) (mso_market ks) (\<lambda>book.
      load (ss_configs (w_spot w)) (mso_protocol_config ks) (\<lambda>protocol_config.
      require (key protocol_config = address rt ProtocolConfigPda) ConstraintSeeds
     (load (w_shared_orders w) (mso_maker_order ks) (\<lambda>maker_order.
      load (w_shared_levels w) (mso_price_level ks) (\<lambda>price_level.
      load_claims w (mso_maker ks) (\<lambda>maker_claims.
      load_claims w (mso_taker_claims ks) (\<lambda>taker_claims.
      load_opt (w_shared_orders w) (mso_next_order ks) (\<lambda>next.
      load_opt (w_shared_levels w) (mso_worse_level ks) (\<lambda>worse.
      require (distinct (keys_of [ck_base (mso_maker ks), Some (ck_quote (mso_maker ks)),
            ck_base (mso_taker_claims ks), Some (ck_quote (mso_taker_claims ks))]) \<and>
          distinct (keys_of [ck_position (mso_maker ks), ck_position (mso_taker_claims ks)]) \<and>
          distinct (keys_of [Some (mso_maker_order ks), mso_next_order ks]) \<and>
          distinct (keys_of [Some (mso_price_level ks), mso_worse_level ks]))
        ConstraintDuplicateMutableAccount
     (let b = inner book; maker = inner maker_order; l = inner price_level in
      try_in (trading_open rt w b (mso_market ks)) (\<lambda>_.
      try_in (order_terms b outcome taker_side limit_price quantity) (\<lambda>(sl, _).
      try_in (check_shared_maker rt book sl maker_order price_level (mso_taker ks) outcome) (\<lambda>_.
      try_in (rules_trader rt b (so_owner maker) maker_claims) (\<lambda>_.
      try_in (rules_trader rt b (mso_taker ks) taker_claims) (\<lambda>_.
      try_in (calculate_settlement taker_side limit_price quantity (so_side maker) (so_price maker)
        (so_remaining_quantity maker) (so_locked_collateral maker) (sbk_base_decimals b)) (\<lambda>plan.
      try_in (calculate_taker_fee (quote_quantity (fill plan)) (cfg_taker_fee_bps (inner protocol_config)))
        (\<lambda>taker_fee.
      ok_or (checked_add (sbk_accrued_quote_fees b) taker_fee) FeeAccrualOverflow (\<lambda>accrued.
      ok_or (checked_sub (so_remaining_quantity maker) (base_quantity (fill plan))) InvalidSharedBook (\<lambda>remaining.
      ok_or (checked_sub (so_locked_collateral maker) (maker_locked_debit plan)) InvalidSharedBook (\<lambda>collateral.
      ok_or (checked_sub (sl_total_remaining_quantity l) (base_quantity (fill plan))) InvalidSharedBook (\<lambda>level_total.
      require (\<not> maker_fully_filled plan \<longrightarrow>
          next = None \<and> worse = None \<and> mso_level_rent_recipient ks = None) InvalidSharedNeighbor
     (try_in (settle_shared (sbk_kind b) outcome taker_side plan taker_fee maker_claims taker_claims)
        (\<lambda>(maker_claims', taker_claims').
      let maker' = upd_inner (filled_shared_order (maker_fully_filled plan) remaining collateral) maker_order;
          w1 = save_claims taker_claims' (save_claims maker_claims' w) in
      try_in (if maker_fully_filled plan
        then remove_order rt book maker_order price_level None next None worse (mso_level_rent_recipient ks)
        else Inr \<lparr>rm_book = b, rm_level = Some (l\<lparr>sl_total_remaining_quantity := level_total\<rparr>),
          rm_previous = None, rm_next = next, rm_better = None, rm_worse = worse\<rparr>) (\<lambda>rm.
      Inr (put_removal book maker' (key price_level)
        (rm\<lparr>rm_book := (rm_book rm)\<lparr>sbk_accrued_quote_fees := accrued\<rparr>\<rparr>) w1))))))))))))))))))))))))))"

section \<open>The root\<close>

record InitializeSharedBook =
  isb_authority :: pubkey
  isb_admin_record :: pubkey
  isb_market :: pubkey
  isb_book :: pubkey

text \<open>The active-admin constraint of the creator.\<close>

definition load_creator ::
  "runtime \<Rightarrow> world \<Rightarrow> pubkey \<Rightarrow> pubkey \<Rightarrow> (AdminRecord account \<Rightarrow> 'a res) \<Rightarrow> 'a res" where
  "load_creator rt w k authority body =
     load (w_admins w) k (\<lambda>admin_record.
     require (key admin_record = address rt (AdminPda authority)) ConstraintSeeds
     (require (adm_authority (inner admin_record) = authority) UnauthorizedAdmin
     (require (adm_status (inner admin_record) = AdminActive) AdminDisabled
     (body admin_record))))"

lemma load_creator_Inr [run_simps]:
  "load_creator rt w k authority body = Inr y \<longleftrightarrow>
     (\<exists>a. w_admins w k = Some a \<and> k = address rt (AdminPda authority) \<and> adm_authority a = authority \<and>
        adm_status a = AdminActive \<and> body (Account k a) = Inr y)"
  by (auto simp: load_creator_def load_Inr require_Inr)

definition initialize_shared_book ::
  "runtime \<Rightarrow> world \<Rightarrow> InitializeSharedBook \<Rightarrow> MarketKind \<Rightarrow> world res" where
  "initialize_shared_book rt w ks kind =
     load_creator rt w (isb_admin_record ks) (isb_authority ks) (\<lambda>_.
     require (program_owned w (isb_market ks)) ConstraintOwner
     (require (isb_book ks = address rt (SharedBookPda (isb_market ks))) ConstraintSeeds
     (require (w_shared_books w (isb_book ks) = None) AccountAlreadyInUse
     (try_in (terms rt w (isb_market ks) kind False) (\<lambda>v.
      require (st_authority v = isb_authority ks) UnauthorizedAdmin
     (require (st_tick v > 0 \<and> st_lot v > 0) InvalidSharedBook
     (Inr (w\<lparr>w_shared_books := (w_shared_books w)(isb_book ks \<mapsto>
        \<lparr>sbk_market = isb_market ks, sbk_authority = st_authority v, sbk_kind = kind,
         sbk_base_mint = st_base_mint v, sbk_quote_mint = st_quote_mint v,
         sbk_base_decimals = st_base_decimals v, sbk_quote_decimals = st_quote_decimals v,
         sbk_price_tick = st_tick v, sbk_quantity_lot = st_lot v, sbk_payout_per_contract = st_payout v,
         sbk_best_prices = [None, None, None, None], sbk_next_order_id = 1, sbk_open_order_count = 0,
         sbk_accrued_quote_fees = 0, sbk_bump = snd (pda rt (SharedBookPda (isb_market ks)))\<rparr>)\<rparr>))))))))"

record WithdrawSharedFees =
  wsf_super_admin :: pubkey
  wsf_protocol_config :: pubkey
  wsf_book :: pubkey
  wsf_mint :: pubkey
  wsf_destination :: pubkey
  wsf_vault_authority :: pubkey
  wsf_asset_vault :: pubkey

definition withdraw_shared_fees ::
  "runtime \<Rightarrow> token_program \<Rightarrow> world \<Rightarrow> WithdrawSharedFees \<Rightarrow> u64 \<Rightarrow> world res" where
  "withdraw_shared_fees rt tp w ks amount =
     load (ss_configs (w_spot w)) (wsf_protocol_config ks) (\<lambda>protocol_config.
     require (key protocol_config = address rt ProtocolConfigPda) ConstraintSeeds
     (require (cfg_super_admin (inner protocol_config) = wsf_super_admin ks) UnauthorizedAdmin
     (load (w_shared_books w) (wsf_book ks) (\<lambda>book.
      require (key book = address rt (SharedBookPda (sbk_market (inner book)))) ConstraintSeeds
     (load (w_mints w) (wsf_mint ks) (\<lambda>mint.
      require (key mint = sbk_quote_mint (inner book)) ConstraintAddress
     (load (w_tokens w) (wsf_destination ks) (\<lambda>destination.
      require (ta_mint (inner destination) = key mint) ConstraintTokenMint
     (require (ta_owner (inner destination) = wsf_super_admin ks) ConstraintTokenOwner
     (require (wsf_vault_authority ks = asset_authority rt (key mint)) ConstraintSeeds
     (load_asset_vault rt w (wsf_asset_vault ks) (key mint) (\<lambda>asset_vault.
      require (key destination \<noteq> key asset_vault) ConstraintDuplicateMutableAccount
     (require (amount > 0) InvalidWithdrawalAmount
     (ok_or (checked_sub (sbk_accrued_quote_fees (inner book)) amount) InsufficientFreeBalance (\<lambda>fees.
      try_in (transfer_checked tp (w_mints w) (w_tokens w) (key asset_vault) (key mint) (key destination)
        (wsf_vault_authority ks) amount (mint_decimals (inner mint))) (\<lambda>tokens'.
      Inr (w\<lparr>w_tokens := tokens',
        w_shared_books := (w_shared_books w)(key book \<mapsto> (inner book)\<lparr>sbk_accrued_quote_fees := fees\<rparr>)\<rparr>)))))))))))))))))"

record CloseSharedBook =
  csb_authority :: pubkey
  csb_admin_record :: pubkey
  csb_market :: pubkey
  csb_book :: pubkey

definition close_shared_book :: "runtime \<Rightarrow> world \<Rightarrow> CloseSharedBook \<Rightarrow> world res" where
  "close_shared_book rt w ks =
     load_creator rt w (csb_admin_record ks) (csb_authority ks) (\<lambda>_.
     require (program_owned w (csb_market ks)) ConstraintOwner
     (load_shared_book rt w (csb_book ks) (csb_market ks) (\<lambda>book.
      let b = inner book in
      require (sbk_authority b = csb_authority ks) UnauthorizedAdmin
     (require (sbk_open_order_count b = 0 \<and> sbk_accrued_quote_fees b = 0 \<and>
          list_all (\<lambda>p. p = None) (sbk_best_prices b)) SharedBookNotEmpty
     (try_in (case sbk_kind b of
          Spot \<Rightarrow> ok_or (ss_markets (w_spot w) (csb_market ks)) AccountDiscriminatorMismatch (\<lambda>m.
            require (mkt_status m = MarketPausedStatus) MarketMustBePaused (Inr ()))
        | Prediction \<Rightarrow> ok_or (w_predictions w (csb_market ks)) AccountDiscriminatorMismatch (\<lambda>m.
            require (pm_status m = Resolved) PredictionNotResolved (Inr ()))
        | Other \<Rightarrow> Inl SharedMarketKindMismatch) (\<lambda>_.
      Inr (w\<lparr>w_shared_books := (w_shared_books w)(key book := None)\<rparr>)))))))"

end
