(* ===== verification/Shared_Ledger.thy ===== *)
theory Shared_Ledger
  imports Shared_Fill Spot_Ledger
begin

text \<open>
  What trading on a shared book conserves. A valuation prices every mint's atoms and every
  question's YES contracts, NO contracts and cash; the worth of all wallets, positions and
  accrued fees together is the same before and after every shared order instruction, whatever
  the valuation.
\<close>

section \<open>Valuations\<close>

record valuation =
  val_asset :: "pubkey \<Rightarrow> nat"
  val_yes :: "pubkey \<Rightarrow> nat"
  val_no :: "pubkey \<Rightarrow> nat"
  val_cash :: "pubkey \<Rightarrow> nat"

definition asset_claim :: "AssetBalance \<Rightarrow> nat" where
  "asset_claim a = unat (ab_free a) + unat (ab_locked a)"

definition asset_worth :: "valuation \<Rightarrow> AssetBalance \<Rightarrow> nat" where
  "asset_worth v a = val_asset v (ab_mint a) * asset_claim a"

definition position_worth :: "valuation \<Rightarrow> PredictionPosition \<Rightarrow> nat" where
  "position_worth v p =
     val_yes v (pos_market p) * (unat (pos_yes_free p) + unat (pos_yes_locked p)) +
     val_no v (pos_market p) * (unat (pos_no_free p) + unat (pos_no_locked p)) +
     val_cash v (pos_market p) * (unat (pos_collateral_free p) + unat (pos_collateral_locked p))"

definition book_worth :: "valuation \<Rightarrow> SharedBook \<Rightarrow> nat" where
  "book_worth v b = val_asset v (sbk_quote_mint b) * unat (sbk_accrued_quote_fees b)"

definition claims_worth :: "valuation \<Rightarrow> world \<Rightarrow> nat" where
  "claims_worth v w = store_sum (asset_worth v) (w_assets w) + store_sum (position_worth v) (w_positions w)"

definition total_worth :: "valuation \<Rightarrow> world \<Rightarrow> nat" where
  "total_worth v w = claims_worth v w + store_sum (book_worth v) (w_shared_books w)"

section \<open>The claims of one trader\<close>

definition held :: "valuation \<Rightarrow> shared_claims \<Rightarrow> nat" where
  "held v cl = asset_worth v (inner (cl_quote cl)) +
     (case cl_base cl of None \<Rightarrow> 0 | Some a \<Rightarrow> asset_worth v (inner a)) +
     (case cl_position cl of None \<Rightarrow> 0 | Some p \<Rightarrow> position_worth v (inner p))"

text \<open>The claims as stored: distinct accounts, with the stored contents.\<close>

definition claims_at :: "world \<Rightarrow> shared_claims \<Rightarrow> bool" where
  "claims_at w cl \<longleftrightarrow> w_assets w (key (cl_quote cl)) = Some (inner (cl_quote cl)) \<and>
     (\<forall>a. cl_base cl = Some a \<longrightarrow> w_assets w (key a) = Some (inner a) \<and> key a \<noteq> key (cl_quote cl)) \<and>
     (\<forall>p. cl_position cl = Some p \<longrightarrow> w_positions w (key p) = Some (inner p))"

definition same_keys :: "shared_claims \<Rightarrow> shared_claims \<Rightarrow> bool" where
  "same_keys cl cl' \<longleftrightarrow> key (cl_quote cl') = key (cl_quote cl) \<and>
     map_option key (cl_base cl') = map_option key (cl_base cl) \<and>
     map_option key (cl_position cl') = map_option key (cl_position cl)"

definition finite_claims :: "world \<Rightarrow> bool" where
  "finite_claims w \<longleftrightarrow> finite (dom (w_assets w)) \<and> finite (dom (w_positions w)) \<and> finite (dom (w_shared_books w))"

definition claims_loaded :: "world \<Rightarrow> claim_keys \<Rightarrow> shared_claims \<Rightarrow> bool" where
  "claims_loaded w ks cl \<longleftrightarrow> loaded (w_assets w) (ck_base ks) (cl_base cl) \<and>
     loaded (w_assets w) (Some (ck_quote ks)) (Some (cl_quote cl)) \<and>
     loaded (w_positions w) (ck_position ks) (cl_position cl)"

lemma load_claims_Inr: "load_claims w ks body = Inr y \<longleftrightarrow> (\<exists>cl. claims_loaded w ks cl \<and> body cl = Inr y)"
proof
  assume "load_claims w ks body = Inr y"
  then obtain b q p where "loaded (w_assets w) (ck_base ks) b" "w_assets w (ck_quote ks) = Some q"
    "loaded (w_positions w) (ck_position ks) p" "body \<lparr>cl_base = b, cl_quote = Account (ck_quote ks) q, cl_position = p\<rparr> = Inr y"
    unfolding load_claims_def load_opt_Inr load_Inr by (elim exE conjE) (rule that)
  then show "\<exists>cl. claims_loaded w ks cl \<and> body cl = Inr y"
    by (intro exI conjI) (auto simp: claims_loaded_def)
next
  assume "\<exists>cl. claims_loaded w ks cl \<and> body cl = Inr y"
  then obtain cl where cl: "claims_loaded w ks cl" "body cl = Inr y" by blast
  obtain b q p where eq: "cl = \<lparr>cl_base = b, cl_quote = q, cl_position = p\<rparr>" by (cases cl) auto
  have "loaded (w_assets w) (ck_base ks) b" "ck_quote ks = key q" "w_assets w (key q) = Some (inner q)"
    "loaded (w_positions w) (ck_position ks) p" "body \<lparr>cl_base = b, cl_quote = Account (key q) (inner q), cl_position = p\<rparr> = Inr y"
    using cl by (simp_all add: claims_loaded_def eq)
  then show "load_claims w ks body = Inr y"
    unfolding load_claims_def load_opt_Inr load_Inr
    by (intro exI [of _ b] conjI exI [of _ "inner q"] exI [of _ p]) simp_all
qed

lemma claims_loaded_at:
  "claims_loaded w ks cl \<Longrightarrow> distinct (keys_of [ck_base ks, Some (ck_quote ks)]) \<Longrightarrow> claims_at w cl"
  by (auto simp: claims_loaded_def claims_at_def)

lemma save_claims_sel [simp]:
  "w_assets (save_claims cl w) = save (cl_quote cl) (save_opt (cl_base cl) (w_assets w))"
  "w_positions (save_claims cl w) = save_opt (cl_position cl) (w_positions w)"
  "w_shared_books (save_claims cl w) = w_shared_books w"
  "w_shared_levels (save_claims cl w) = w_shared_levels w"
  "w_shared_orders (save_claims cl w) = w_shared_orders w"
  "w_tokens (save_claims cl w) = w_tokens w" "w_spot (save_claims cl w) = w_spot w"
  "w_predictions (save_claims cl w) = w_predictions w" "w_mints (save_claims cl w) = w_mints w"
  by (simp_all add: save_claims_def)

lemma finite_save [simp]:
  "finite (dom (save a m)) = finite (dom m)" "finite (dom (save_opt ao m)) = finite (dom m)"
  by (simp_all add: save_def save_opt_def split: option.splits)

lemma finite_save_claims: "finite_claims w \<Longrightarrow> finite_claims (save_claims cl w)"
  by (simp add: finite_claims_def)

text \<open>Saving changed claims changes the worth by what changed in them.\<close>

lemma store_sum_save:
  assumes "finite (dom m)" "m (key a) = Some old"
  shows "store_sum f (save a m) + f old = store_sum f m + f (inner a)"
  unfolding save_def by (rule store_sum_upd [OF assms])

lemma save_claims_worth:
  assumes fin: "finite_claims w" and at: "claims_at w cl" and same: "same_keys cl cl'"
  shows "claims_worth v (save_claims cl' w) + held v cl = claims_worth v w + held v cl'"
proof -
  let ?q = "cl_quote cl" and ?q' = "cl_quote cl'"
  have fins: "finite (dom (w_assets w))" "finite (dom (w_positions w))" using fin by (simp_all add: finite_claims_def)
  let ?wa = "\<lambda>x. case x of None \<Rightarrow> 0 | Some a \<Rightarrow> asset_worth v (inner a)"
  let ?wp = "\<lambda>x. case x of None \<Rightarrow> 0 | Some p \<Rightarrow> position_worth v (inner p)"
  have base: "store_sum (asset_worth v) (save_opt (cl_base cl') (w_assets w)) + ?wa (cl_base cl) =
      store_sum (asset_worth v) (w_assets w) + ?wa (cl_base cl')"
  proof (cases "cl_base cl")
    case None
    then show ?thesis using same by (simp add: same_keys_def save_opt_def)
  next
    case (Some a)
    then obtain a' where a': "cl_base cl' = Some a'" "key a' = key a" using same by (auto simp: same_keys_def)
    have "w_assets w (key a') = Some (inner a)" using at Some a'(2) by (simp add: claims_at_def)
    from store_sum_save [where a = a', OF fins(1) this, of "asset_worth v"] show ?thesis by (simp add: Some a'(1) save_opt_def)
  qed
  have "save_opt (cl_base cl') (w_assets w) (key ?q') = Some (inner ?q)"
  proof (cases "cl_base cl'")
    case None
    then show ?thesis using at same by (simp add: save_opt_def claims_at_def same_keys_def)
  next
    case (Some a')
    then obtain a where "cl_base cl = Some a" "key a' = key a"
      using same by (cases "cl_base cl") (auto simp: same_keys_def)
    then show ?thesis using at same Some by (simp add: save_opt_apply claims_at_def same_keys_def) metis
  qed
  then have quote: "store_sum (asset_worth v) (save ?q' (save_opt (cl_base cl') (w_assets w))) + asset_worth v (inner ?q) =
      store_sum (asset_worth v) (save_opt (cl_base cl') (w_assets w)) + asset_worth v (inner ?q')"
    by (intro store_sum_save) (use fins in simp_all)
  have pos: "store_sum (position_worth v) (save_opt (cl_position cl') (w_positions w)) + ?wp (cl_position cl) =
      store_sum (position_worth v) (w_positions w) + ?wp (cl_position cl')"
  proof (cases "cl_position cl")
    case None
    then show ?thesis using same by (simp add: same_keys_def save_opt_def)
  next
    case (Some p)
    then obtain p' where p': "cl_position cl' = Some p'" "key p' = key p" using same by (auto simp: same_keys_def)
    have "w_positions w (key p') = Some (inner p)" using at Some p'(2) by (simp add: claims_at_def)
    from store_sum_save [where a = p', OF fins(2) this, of "position_worth v"] show ?thesis by (simp add: Some p'(1) save_opt_def)
  qed
  show ?thesis using base quote pos fins by (simp add: claims_worth_def held_def)
qed

section \<open>Moving atoms and contracts\<close>

text \<open>The unit price of a bucket under a valuation.\<close>

definition bucket_price :: "valuation \<Rightarrow> SharedOutcome \<Rightarrow> shared_claims \<Rightarrow> nat" where
  "bucket_price v outcome cl =
     (case outcome of
        SpotList \<Rightarrow> (case cl_base cl of None \<Rightarrow> 0 | Some a \<Rightarrow> val_asset v (ab_mint (inner a)))
      | YesList \<Rightarrow> (case cl_position cl of None \<Rightarrow> 0 | Some p \<Rightarrow> val_yes v (pos_market (inner p)))
      | NoList \<Rightarrow> (case cl_position cl of None \<Rightarrow> 0 | Some p \<Rightarrow> val_no v (pos_market (inner p))))"

definition cash_price :: "valuation \<Rightarrow> shared_claims \<Rightarrow> nat" where
  "cash_price v cl = val_asset v (ab_mint (inner (cl_quote cl)))"

lemma set_cash_keys [simp]: "same_keys cl (set_cash f l cl)" "same_keys cl cl"
  by (simp_all add: same_keys_def set_cash_def)

lemma set_base_keys [simp]: "same_keys cl (set_base_buckets oc f l cl)"
  by (cases oc) (auto simp: same_keys_def option.map_comp comp_def)

lemma same_keys_trans: "same_keys a b \<Longrightarrow> same_keys b c \<Longrightarrow> same_keys a c"
  by (simp add: same_keys_def)

lemma held_set_cash:
  "held v (set_cash f l cl) + cash_price v cl * (unat (ab_free (inner (cl_quote cl))) + unat (ab_locked (inner (cl_quote cl)))) =
     held v cl + cash_price v cl * (unat f + unat l)"
  by (simp add: held_def set_cash_def cash_price_def asset_worth_def asset_claim_def)

lemma held_set_base:
  assumes "base_buckets kind oc cl = Inr (f0, l0)"
  shows "held v (set_base_buckets oc f l cl) + bucket_price v oc cl * (unat f0 + unat l0) =
     held v cl + bucket_price v oc cl * (unat f + unat l)"
proof (cases oc)
  case SpotList
  then obtain a where "cl_base cl = Some a" "f0 = ab_free (inner a)" "l0 = ab_locked (inner a)"
    using assms by (auto simp: base_buckets_def ok_or_Inr split: MarketKind.splits)
  then show ?thesis by (simp add: SpotList held_def bucket_price_def asset_worth_def asset_claim_def)
next
  case YesList
  then obtain p where "cl_position cl = Some p" "f0 = pos_yes_free (inner p)" "l0 = pos_yes_locked (inner p)"
    using assms by (auto simp: base_buckets_def ok_or_Inr split: MarketKind.splits)
  then show ?thesis by (simp add: YesList held_def bucket_price_def position_worth_def)
next
  case NoList
  then obtain p where "cl_position cl = Some p" "f0 = pos_no_free (inner p)" "l0 = pos_no_locked (inner p)"
    using assms by (auto simp: base_buckets_def ok_or_Inr split: MarketKind.splits)
  then show ?thesis by (simp add: NoList held_def bucket_price_def position_worth_def)
qed

lemma prices_set_cash [simp]:
  "bucket_price v oc (set_cash f l cl) = bucket_price v oc cl" "cash_price v (set_cash f l cl) = cash_price v cl"
  "base_buckets kind oc (set_cash f l cl) = base_buckets kind oc cl"
  by (simp_all add: set_cash_def bucket_price_def cash_price_def base_buckets_def
      split: SharedOutcome.split MarketKind.split)

lemma order_bucket_move:
  assumes "order_bucket kind oc sd cl = Inr (f0, l0)" "unat f + unat l = unat f0 + unat l0"
  shows "held v (set_order_bucket oc sd f l cl) = held v cl" "same_keys cl (set_order_bucket oc sd f l cl)"
proof -
  show "held v (set_order_bucket oc sd f l cl) = held v cl"
  proof (cases sd)
    case Bid
    then show ?thesis
      using held_set_cash [of v f l cl] assms by (auto simp: set_order_bucket_def order_bucket_def)
  next
    case Ask
    then have "base_buckets kind oc cl = Inr (f0, l0)" using assms(1) by (simp add: order_bucket_def)
    from held_set_base [OF this, of v f l] show ?thesis using Ask assms(2) by (simp add: set_order_bucket_def)
  qed
  show "same_keys cl (set_order_bucket oc sd f l cl)"
    by (cases sd) (simp_all add: set_order_bucket_def)
qed


section \<open>Settlement\<close>

lemma rules_trader_ok:
  assumes "rules_trader rt b owner cl = Inr u"
  shows "ab_mint (inner (cl_quote cl)) = sbk_quote_mint b" "ab_owner (inner (cl_quote cl)) = owner"
    "sbk_kind b = Spot \<Longrightarrow> \<exists>a. cl_base cl = Some a \<and> ab_mint (inner a) = sbk_base_mint b \<and> ab_owner (inner a) = owner"
    "sbk_kind b = Spot \<Longrightarrow> cl_position cl = None" "sbk_kind b \<noteq> Spot \<Longrightarrow> cl_base cl = None"
    "sbk_kind b \<noteq> Spot \<Longrightarrow>
      \<exists>p. cl_position cl = Some p \<and> pos_market (inner p) = sbk_market b \<and> pos_owner (inner p) = owner"
proof -
  have q: "rules_asset rt (cl_quote cl) owner (sbk_quote_mint b) = Inr ()"
    using assms by (auto simp: rules_trader_def try_in_Inr)
  then show "ab_mint (inner (cl_quote cl)) = sbk_quote_mint b" "ab_owner (inner (cl_quote cl)) = owner"
    by (simp_all add: rules_asset_def require_Inr)
  note body = assms [unfolded rules_trader_def q try_in_simps]
  show "\<exists>a. cl_base cl = Some a \<and> ab_mint (inner a) = sbk_base_mint b \<and> ab_owner (inner a) = owner"
    "cl_position cl = None" if "sbk_kind b = Spot"
    using body that by (auto simp: rules_asset_def ok_or_Inr try_in_Inr require_Inr)
  show "cl_base cl = None" "\<exists>p. cl_position cl = Some p \<and> pos_market (inner p) = sbk_market b \<and> pos_owner (inner p) = owner"
    if "sbk_kind b \<noteq> Spot"
    using body that by (auto simp: ok_or_Inr require_Inr)
qed

lemma trader_prices:
  assumes "rules_trader rt b o1 mk = Inr u" "rules_trader rt b o2 tk = Inr u'"
  shows "cash_price v mk = val_asset v (sbk_quote_mint b)" "cash_price v tk = cash_price v mk"
    "bucket_price v oc tk = bucket_price v oc mk"
proof -
  note m = rules_trader_ok [OF assms(1)] and t = rules_trader_ok [OF assms(2)]
  show "cash_price v mk = val_asset v (sbk_quote_mint b)" "cash_price v tk = cash_price v mk"
    using m(1) t(1) by (simp_all add: cash_price_def)
  show "bucket_price v oc tk = bucket_price v oc mk"
    using m(3-6) t(3-6) by (cases "sbk_kind b = Spot"; cases oc) (auto simp: bucket_price_def)
qed

text \<open>A plan takes from the maker's lock exactly what the fill is worth plus the refund.\<close>

definition plan_balanced :: "OrderSide \<Rightarrow> SettlementPlan \<Rightarrow> bool" where
  "plan_balanced taker_side plan \<longleftrightarrow>
     (case taker_side of
        Bid \<Rightarrow> maker_locked_debit plan = base_quantity (fill plan)
      | Ask \<Rightarrow> unat (maker_locked_debit plan) = unat (quote_quantity (fill plan)) + unat (maker_quote_refund plan))"

lemma settlement_balanced:
  assumes "calculate_settlement ts lim q ms p rem lock d = Inr plan"
  shows "plan_balanced ts plan"
proof (cases ms)
  case Bid
  note run = assms [unfolded calculate_settlement_Inr Bid OrderSide.case]
  have "ts \<noteq> Bid" using run by (rule conjunct1)
  then have ts: "ts = Ask" by (cases ts) simp_all
  have refund: "quote_quantity (fill plan) \<le> maker_locked_debit plan" using run by (elim conjE)
  have debit: "maker_quote_refund plan = maker_locked_debit plan - quote_quantity (fill plan)"
    using run by (elim conjE)
  show ?thesis
    using refund unat_sub [OF refund] by (simp add: plan_balanced_def ts debit word_le_nat_alt)
next
  case Ask
  note run = assms [unfolded calculate_settlement_Inr Ask OrderSide.case]
  have "ts \<noteq> Ask" using run by (rule conjunct1)
  then have "ts = Bid" by (cases ts) simp_all
  moreover have "maker_locked_debit plan = base_quantity (fill plan)" using run by (elim conjE)
  ultimately show ?thesis by (simp add: plan_balanced_def)
qed

lemma settle_shared_conserves:
  assumes ok: "settle_shared kind oc ts plan fee mk tk = Inr (mk', tk')"
    and bal: "plan_balanced ts plan"
    and price: "cash_price v tk = cash_price v mk" "bucket_price v oc tk = bucket_price v oc mk"
  shows "held v mk' + held v tk' + cash_price v mk * unat fee = held v mk + held v tk"
    "same_keys mk mk'" "same_keys tk tk'"
proof -
  let ?P = "cash_price v mk" and ?Q = "bucket_price v oc mk"
  let ?mq = "inner (cl_quote mk)" and ?tq = "inner (cl_quote tk)"
  obtain mf ml tf tl where b: "base_buckets kind oc mk = Inr (mf, ml)" "base_buckets kind oc tk = Inr (tf, tl)"
    using ok by (auto simp: settle_shared_def try_in_Inr)
  note ok' = ok [unfolded settle_shared_def b try_in_simps prod.case Let_def]
  have bm: "held v (set_base_buckets oc x y (set_cash f l mk)) + ?Q * (unat mf + unat ml) =
      held v (set_cash f l mk) + ?Q * (unat x + unat y)"
    and bt: "held v (set_base_buckets oc x y (set_cash f l tk)) + ?Q * (unat tf + unat tl) =
      held v (set_cash f l tk) + ?Q * (unat x + unat y)" for x y f l
    using held_set_base [of kind oc "set_cash f l mk" mf ml v x y]
      held_set_base [of kind oc "set_cash f l tk" tf tl v x y] b by (simp_all add: price)
  have "held v mk' + held v tk' + ?P * unat fee = held v mk + held v tk \<and> same_keys mk mk' \<and> same_keys tk tk'"
  proof (cases ts)
    case Bid
    obtain cost tc mc ml' tf' where
      sums: "checked_add (quote_quantity (fill plan)) fee = Some cost" "checked_sub (ab_free ?tq) cost = Some tc"
        "checked_add (ab_free ?mq) (quote_quantity (fill plan)) = Some mc"
        "checked_sub ml (maker_locked_debit plan) = Some ml'" "checked_add tf (base_quantity (fill plan)) = Some tf'"
      and out: "mk' = set_base_buckets oc mf ml' (set_cash mc (ab_locked ?mq) mk)"
        "tk' = set_base_buckets oc tf' tl (set_cash tc (ab_locked ?tq) tk)"
      using ok' unfolding Bid OrderSide.case ok_or_Inr sum.inject prod.inject
      by (elim exE conjE) (rule that, assumption+, simp_all)
    have "held v mk' + ?Q * (unat mf + unat ml) + ?P * unat (ab_free ?mq) =
        held v mk + ?Q * (unat mf + unat ml') + ?P * unat mc"
      using bm [of mf ml' mc "ab_locked ?mq"] held_set_cash [of v mc "ab_locked ?mq" mk]
      by (simp add: out distrib_left)
    moreover have "held v tk' + ?Q * (unat tf + unat tl) + ?P * unat (ab_free ?tq) =
        held v tk + ?Q * (unat tf' + unat tl) + ?P * unat tc"
      using bt [of tf' tl tc "ab_locked ?tq"] held_set_cash [of v tc "ab_locked ?tq" tk]
      by (simp add: out distrib_left price)
    moreover have "same_keys mk mk'" "same_keys tk tk'"
      unfolding out by (rule same_keys_trans [OF set_cash_keys(1) set_base_keys])+
    ultimately show ?thesis
      using sums bal by (simp add: plan_balanced_def Bid distrib_left)
  next
    case Ask
    obtain proceeds tf' mf' tc ml' mc where
      sums: "checked_sub (quote_quantity (fill plan)) fee = Some proceeds" "checked_sub tf (base_quantity (fill plan)) = Some tf'"
        "checked_add mf (base_quantity (fill plan)) = Some mf'" "checked_add (ab_free ?tq) proceeds = Some tc"
        "checked_sub (ab_locked ?mq) (maker_locked_debit plan) = Some ml'"
        "checked_add (ab_free ?mq) (maker_quote_refund plan) = Some mc"
      and out: "mk' = set_base_buckets oc mf' ml (set_cash mc ml' mk)"
        "tk' = set_base_buckets oc tf' tl (set_cash tc (ab_locked ?tq) tk)"
      using ok' unfolding Ask OrderSide.case ok_or_Inr sum.inject prod.inject
      by (elim exE conjE) (rule that, assumption+, simp_all)
    have "held v mk' + ?Q * (unat mf + unat ml) + ?P * (unat (ab_free ?mq) + unat (ab_locked ?mq)) =
        held v mk + ?Q * (unat mf' + unat ml) + ?P * (unat mc + unat ml')"
      using bm [of mf' ml mc ml'] held_set_cash [of v mc ml' mk]
      by (simp add: out distrib_left)
    moreover have "held v tk' + ?Q * (unat tf + unat tl) + ?P * unat (ab_free ?tq) =
        held v tk + ?Q * (unat tf' + unat tl) + ?P * unat tc"
      using bt [of tf' tl tc "ab_locked ?tq"] held_set_cash [of v tc "ab_locked ?tq" tk]
      by (simp add: out distrib_left price)
    moreover have "same_keys mk mk'" "same_keys tk tk'"
      unfolding out by (rule same_keys_trans [OF set_cash_keys(1) set_base_keys])+
    ultimately show ?thesis
      using sums bal by (simp add: plan_balanced_def Ask distrib_left)
  qed
  then show "held v mk' + held v tk' + ?P * unat fee = held v mk + held v tk" "same_keys mk mk'" "same_keys tk tk'"
    by blast+
qed

section \<open>The root keeps its terms\<close>

definition root_kept :: "SharedBook \<Rightarrow> SharedBook \<Rightarrow> bool" where
  "root_kept b b' \<longleftrightarrow> (\<exists>bp i c f. b' = b\<lparr>sbk_best_prices := bp, sbk_next_order_id := i,
     sbk_open_order_count := c, sbk_accrued_quote_fees := f\<rparr>)"

lemma root_keptI:
  assumes "sbk_market b' = sbk_market b" "sbk_authority b' = sbk_authority b" "sbk_kind b' = sbk_kind b"
    "sbk_base_mint b' = sbk_base_mint b" "sbk_quote_mint b' = sbk_quote_mint b"
    "sbk_base_decimals b' = sbk_base_decimals b" "sbk_quote_decimals b' = sbk_quote_decimals b"
    "sbk_price_tick b' = sbk_price_tick b" "sbk_quantity_lot b' = sbk_quantity_lot b"
    "sbk_payout_per_contract b' = sbk_payout_per_contract b" "sbk_bump b' = sbk_bump b"
  shows "root_kept b b'"
  unfolding root_kept_def using assms by (cases b; cases b') simp

lemma root_keptD:
  "root_kept b b' \<Longrightarrow> sbk_market b' = sbk_market b \<and> sbk_kind b' = sbk_kind b \<and>
     sbk_base_mint b' = sbk_base_mint b \<and> sbk_quote_mint b' = sbk_quote_mint b \<and>
     sbk_base_decimals b' = sbk_base_decimals b"
  by (auto simp: root_kept_def)

lemma remove_order_root:
  assumes "remove_order rt book r l pv nx bt ws rc = Inr rm"
  shows "root_kept (inner book) (rm_book rm)" "sbk_accrued_quote_fees (rm_book rm) = sbk_accrued_quote_fees (inner book)"
    "sbk_next_order_id (rm_book rm) = sbk_next_order_id (inner book)"
proof -
  obtain sl c t oc where rm: "removal_of (inner book) sl (inner r) (inner l) pv nx bt ws c t oc = rm"
    using assms unfolding remove_order_def Let_def try_in_Inr require_Inr ok_or_Inr sum.inject
    by (elim exE conjE) (rule that)
  show "root_kept (inner book) (rm_book rm)"
    by (rule root_keptI) (simp_all add: rm [symmetric] removal_of_def)
  show "sbk_accrued_quote_fees (rm_book rm) = sbk_accrued_quote_fees (inner book)"
    "sbk_next_order_id (rm_book rm) = sbk_next_order_id (inner book)"
    by (simp_all add: rm [symmetric] removal_of_def)
qed


section \<open>The three order instructions\<close>

text \<open>What a shared order instruction does to the ledgers: the claims, the fees of one root, and
  nothing outside the shared books.\<close>

definition shared_effect :: "world \<Rightarrow> pubkey \<Rightarrow> world \<Rightarrow> bool" where
  "shared_effect w k w' \<longleftrightarrow>
     (\<exists>b b'. w_shared_books w k = Some b \<and> w_shared_books w' = (w_shared_books w)(k \<mapsto> b') \<and> root_kept b b') \<and>
     w_tokens w' = w_tokens w \<and> w_spot w' = w_spot w \<and> w_predictions w' = w_predictions w \<and>
     w_mints w' = w_mints w \<and> finite_claims w' \<and> (\<forall>v. total_worth v w' = total_worth v w)"

lemma shared_effectI:
  assumes fin: "finite_claims w" and claims: "\<And>v. claims_worth v w1 + val_asset v (sbk_quote_mint b) * fee = claims_worth v w"
    and frame: "w_tokens w1 = w_tokens w" "w_spot w1 = w_spot w" "w_predictions w1 = w_predictions w"
      "w_mints w1 = w_mints w" "w_shared_books w1 = w_shared_books w" "finite_claims w1"
    and out: "w_assets w' = w_assets w1" "w_positions w' = w_positions w1" "w_tokens w' = w_tokens w1"
      "w_spot w' = w_spot w1" "w_predictions w' = w_predictions w1" "w_mints w' = w_mints w1"
      "w_shared_books w' = (w_shared_books w1)(k \<mapsto> b')"
    and root: "w_shared_books w k = Some b" "root_kept b b'"
      "unat (sbk_accrued_quote_fees b') = unat (sbk_accrued_quote_fees b) + fee"
  shows "shared_effect w k w'"
proof -
  have "total_worth v w' = total_worth v w" for v
  proof -
    have "finite (dom (w_shared_books w))" using fin by (simp add: finite_claims_def)
    from store_sum_upd [OF this root(1), of "book_worth v" b']
    have "store_sum (book_worth v) (w_shared_books w') =
        store_sum (book_worth v) (w_shared_books w) + val_asset v (sbk_quote_mint b) * fee"
      using root_keptD [OF root(2)] root(3)
      by (simp add: out frame book_worth_def distrib_left del: fun_upd_apply)
    moreover have "claims_worth v w' = claims_worth v w1" by (simp add: claims_worth_def out)
    ultimately show ?thesis using claims [of v] by (simp add: total_worth_def)
  qed
  moreover have "finite_claims w'" using frame(6) by (simp add: finite_claims_def out)
  ultimately show ?thesis using root frame by (auto simp: shared_effect_def out simp del: fun_upd_apply)
qed

text \<open>Placing and cancelling move one bucket between free and locked.\<close>

lemma bucket_effect:
  assumes fin: "finite_claims w" and at: "claims_at w cl"
    and read: "order_bucket kind oc sd cl = Inr (f0, l0)" and sum: "unat f + unat l = unat f0 + unat l0"
    and out: "w_assets w' = w_assets w1" "w_positions w' = w_positions w1" "w_tokens w' = w_tokens w1"
      "w_spot w' = w_spot w1" "w_predictions w' = w_predictions w1" "w_mints w' = w_mints w1"
      "w_shared_books w' = (w_shared_books w1)(k \<mapsto> b')"
    and root: "w_shared_books w k = Some b" "root_kept b b'"
      "sbk_accrued_quote_fees b' = sbk_accrued_quote_fees b"
    and w1: "w1 = save_claims (set_order_bucket oc sd f l cl) w"
  shows "shared_effect w k w'"
proof (rule shared_effectI [OF fin _ _ _ _ _ _ _ out root(1,2), where fee = 0])
  note move = order_bucket_move [OF read sum]
  show "claims_worth v w1 + val_asset v (sbk_quote_mint b) * 0 = claims_worth v w" for v
    using save_claims_worth [OF fin at move(2), of v] move(1) [of v] by (simp add: w1)
qed (simp_all add: w1 finite_save_claims fin root)

lemma put_placement_sel [simp]:
  "w_assets (put_placement ks b sl l no nl p plan bt ws w) = w_assets w"
  "w_positions (put_placement ks b sl l no nl p plan bt ws w) = w_positions w"
  "w_tokens (put_placement ks b sl l no nl p plan bt ws w) = w_tokens w"
  "w_spot (put_placement ks b sl l no nl p plan bt ws w) = w_spot w"
  "w_predictions (put_placement ks b sl l no nl p plan bt ws w) = w_predictions w"
  "w_mints (put_placement ks b sl l no nl p plan bt ws w) = w_mints w"
  "w_shared_books (put_placement ks b sl l no nl p plan bt ws w) = (w_shared_books w)(pso_book ks \<mapsto>
     (if plan = None \<and> bt = None then b\<lparr>sbk_best_prices := (sbk_best_prices b)[sl := Some p]\<rparr> else b))"
  by (auto simp: put_placement_def split: option.split)

lemma put_removal_sel [simp]:
  "w_assets (put_removal bk r lv rm w) = w_assets w" "w_positions (put_removal bk r lv rm w) = w_positions w"
  "w_tokens (put_removal bk r lv rm w) = w_tokens w" "w_spot (put_removal bk r lv rm w) = w_spot w"
  "w_predictions (put_removal bk r lv rm w) = w_predictions w" "w_mints (put_removal bk r lv rm w) = w_mints w"
  "w_shared_books (put_removal bk r lv rm w) = (w_shared_books w)(key bk \<mapsto> rm_book rm)"
  by (simp_all add: put_removal_def)

lemma rules_lock_sum: "rules_lock free locked amount = Inr (f, l) \<Longrightarrow> unat f + unat l = unat free + unat locked"
  by (auto simp: rules_lock_def ok_or_Inr)


lemmas shared_inversions =
  require_Inr try_in_Inr ok_or_Inr load_Inr load_opt_Inr load_claims_Inr load_shared_book_Inr
  account.sel Let_def sum.inject split_paired_Ex prod.case ex_unit

lemma place_shared_ok:
  assumes "place_shared_order rt w ks oc sd p q i = Inr w'"
  obtains b cl tail bt ws sl amount nid cnt plan f0 l0 f l where
    "w_shared_books w (pso_book ks) = Some b" "pso_book ks = address rt (SharedBookPda (pso_market ks))"
    "sbk_market b = pso_market ks" "claims_loaded w (pso_claims ks) cl"
    "distinct (keys_of [ck_base (pso_claims ks), Some (ck_quote (pso_claims ks))])"
    "pso_order ks = order_key rt (pso_book ks) i" "w_shared_orders w (pso_order ks) = None"
    "pso_price_level ks = level_key rt (pso_book ks) oc sd p"
    "loaded (w_shared_orders w) (pso_tail ks) tail" "loaded (w_shared_levels w) (pso_better_level ks) bt"
    "loaded (w_shared_levels w) (pso_worse_level ks) ws"
    "distinct (keys_of [pso_better_level ks, pso_worse_level ks])"
    "trading_open rt w b (pso_market ks) = Inr ()" "rules_trader rt b (pso_owner ks) cl = Inr ()"
    "order_terms b oc sd p q = Inr (sl, amount)" "0 < i" "i = sbk_next_order_id b"
    "check_option (sbk_best_prices b ! (xor sl 1)) (\<lambda>opp. require (side_precedes sd opp p) InvalidPrice (Inr ())) = Inr ()"
    "checked_add i 1 = Some nid" "checked_add (sbk_open_order_count b) 1 = Some cnt"
    "check_place rt (Account (pso_book ks) b) sl (level_or_zeroed w (pso_price_level ks)) tail bt ws oc sd p q = Inr plan"
    "order_bucket (sbk_kind b) oc sd cl = Inr (f0, l0)" "rules_lock f0 l0 amount = Inr (f, l)"
    "put_placement ks (b\<lparr>sbk_next_order_id := nid, sbk_open_order_count := cnt\<rparr>) sl
       (inner (level_or_zeroed w (pso_price_level ks))) (new_shared_order rt ks b i oc sd p q amount)
       (new_shared_level rt ks b oc sd p q) p plan bt ws (save_claims (set_order_bucket oc sd f l cl) w) = w'"
  using assms unfolding place_shared_order_def shared_inversions
  by (elim exE conjE) (rule that; assumption)

lemma cancel_shared_ok:
  assumes "cancel_shared_order rt w ks = Inr w'"
  obtains b cl r lv pv nx bt ws f0 l0 f l rm where
    "w_shared_books w (cso_book ks) = Some b" "cso_book ks = address rt (SharedBookPda (sbk_market b))"
    "claims_loaded w (cso_claims ks) cl"
    "distinct (keys_of [ck_base (cso_claims ks), Some (ck_quote (cso_claims ks))])"
    "w_shared_orders w (cso_order ks) = Some r" "so_owner r = cso_owner ks"
    "w_shared_levels w (cso_price_level ks) = Some lv"
    "loaded (w_shared_orders w) (cso_previous_order ks) pv" "loaded (w_shared_orders w) (cso_next_order ks) nx"
    "loaded (w_shared_levels w) (cso_better_level ks) bt" "loaded (w_shared_levels w) (cso_worse_level ks) ws"
    "distinct (keys_of [Some (cso_order ks), cso_previous_order ks, cso_next_order ks])"
    "distinct (keys_of [Some (cso_price_level ks), cso_better_level ks, cso_worse_level ks])"
    "rules_trader rt b (cso_owner ks) cl = Inr ()" "rules_order rt (Account (cso_order ks) r) (Account (cso_book ks) b) = Inr ()"
    "order_bucket (sbk_kind b) (so_outcome r) (so_side r) cl = Inr (f0, l0)"
    "checked_add f0 (so_locked_collateral r) = Some f" "checked_sub l0 (so_locked_collateral r) = Some l"
    "remove_order rt (Account (cso_book ks) b) (Account (cso_order ks) r) (Account (cso_price_level ks) lv) pv nx bt ws
       (cso_level_rent_recipient ks) = Inr rm"
    "put_removal (Account (cso_book ks) b) (upd_inner (closed_shared_order Canceled) (Account (cso_order ks) r))
       (cso_price_level ks) rm (save_claims (set_order_bucket (so_outcome r) (so_side r) f l cl) w) = w'"
  using assms unfolding cancel_shared_order_def shared_inversions
  by (elim exE conjE) (rule that; assumption)


lemma match_shared_ok:
  assumes "match_shared_order rt w ks oc ts lim q = Inr w'"
  obtains b and cfg :: ProtocolConfig and r lv mk tk nx ws sl n plan fee accrued remaining collateral level_total mk' tk' rm where
    "w_shared_books w (mso_book ks) = Some b" "mso_book ks = address rt (SharedBookPda (mso_market ks))"
    "sbk_market b = mso_market ks" "w_shared_orders w (mso_maker_order ks) = Some r"
    "w_shared_levels w (mso_price_level ks) = Some lv"
    "claims_loaded w (mso_maker ks) mk" "claims_loaded w (mso_taker_claims ks) tk"
    "loaded (w_shared_orders w) (mso_next_order ks) nx" "loaded (w_shared_levels w) (mso_worse_level ks) ws"
    "distinct (keys_of [ck_base (mso_maker ks), Some (ck_quote (mso_maker ks)),
       ck_base (mso_taker_claims ks), Some (ck_quote (mso_taker_claims ks))])"
    "distinct (keys_of [ck_position (mso_maker ks), ck_position (mso_taker_claims ks)])"
    "distinct (keys_of [Some (mso_maker_order ks), mso_next_order ks])"
    "distinct (keys_of [Some (mso_price_level ks), mso_worse_level ks])"
    "trading_open rt w b (mso_market ks) = Inr ()" "order_terms b oc ts lim q = Inr (sl, n)"
    "check_shared_maker rt (Account (mso_book ks) b) sl (Account (mso_maker_order ks) r)
       (Account (mso_price_level ks) lv) (mso_taker ks) oc = Inr ()"
    "rules_trader rt b (so_owner r) mk = Inr ()" "rules_trader rt b (mso_taker ks) tk = Inr ()"
    "calculate_settlement ts lim q (so_side r) (so_price r) (so_remaining_quantity r) (so_locked_collateral r)
       (sbk_base_decimals b) = Inr plan"
    "calculate_taker_fee (quote_quantity (fill plan)) (cfg_taker_fee_bps cfg) = Inr fee"
    "checked_add (sbk_accrued_quote_fees b) fee = Some accrued"
    "checked_sub (so_remaining_quantity r) (base_quantity (fill plan)) = Some remaining"
    "checked_sub (so_locked_collateral r) (maker_locked_debit plan) = Some collateral"
    "checked_sub (sl_total_remaining_quantity lv) (base_quantity (fill plan)) = Some level_total"
    "\<not> maker_fully_filled plan \<longrightarrow> nx = None \<and> ws = None \<and> mso_level_rent_recipient ks = None"
    "settle_shared (sbk_kind b) oc ts plan fee mk tk = Inr (mk', tk')"
    "(if maker_fully_filled plan
      then remove_order rt (Account (mso_book ks) b) (Account (mso_maker_order ks) r)
        (Account (mso_price_level ks) lv) None nx None ws (mso_level_rent_recipient ks)
      else Inr \<lparr>rm_book = b, rm_level = Some (lv\<lparr>sl_total_remaining_quantity := level_total\<rparr>),
        rm_previous = None, rm_next = nx, rm_better = None, rm_worse = ws\<rparr>) = Inr rm"
    "put_removal (Account (mso_book ks) b)
       (upd_inner (filled_shared_order (maker_fully_filled plan) remaining collateral) (Account (mso_maker_order ks) r))
       (mso_price_level ks) (rm\<lparr>rm_book := (rm_book rm)\<lparr>sbk_accrued_quote_fees := accrued\<rparr>\<rparr>)
       (save_claims tk' (save_claims mk' w)) = w'"
  using assms unfolding match_shared_order_def shared_inversions
  by (elim exE conjE) (rule that; assumption)

lemma place_shared_effect:
  assumes ok: "place_shared_order rt w ks oc sd p q i = Inr w'" and fin: "finite_claims w"
  shows "shared_effect w (pso_book ks) w'"
proof (rule place_shared_ok [OF ok], goal_cases)
  case (1 b cl tail bt ws sl amount nid cnt plan f0 l0 f l)
  show ?case
    by (rule bucket_effect [OF fin claims_loaded_at [OF 1(4,5)] 1(22) rules_lock_sum [OF 1(23)] _ _ _ _ _ _ _ 1(1) _ _ refl,
          where b' = "if plan = None \<and> bt = None
            then b\<lparr>sbk_next_order_id := nid, sbk_open_order_count := cnt, sbk_best_prices := (sbk_best_prices b)[sl := Some p]\<rparr>
            else b\<lparr>sbk_next_order_id := nid, sbk_open_order_count := cnt\<rparr>"])
      (auto simp: 1(24) [symmetric] intro!: root_keptI)
qed

lemma cancel_shared_effect:
  assumes ok: "cancel_shared_order rt w ks = Inr w'" and fin: "finite_claims w"
  shows "shared_effect w (cso_book ks) w'"
proof (rule cancel_shared_ok [OF ok], goal_cases)
  case (1 b cl r lv pv nx bt ws f0 l0 f l rm)
  have sum: "unat f + unat l = unat f0 + unat l0" using 1(17,18) by simp
  show ?case
    by (rule bucket_effect [OF fin claims_loaded_at [OF 1(3,4)] 1(16) sum _ _ _ _ _ _ _ 1(1) _ _ refl, where b' = "rm_book rm"])
      (use remove_order_root [OF 1(19)] in \<open>simp_all add: 1(20) [symmetric]\<close>)
qed

lemma claims_at_save:
  assumes "claims_at w tk" "same_keys mk mk'"
    and "key (cl_quote mk) \<noteq> key (cl_quote tk)" "map_option key (cl_base tk) \<noteq> Some (key (cl_quote mk))"
      "map_option key (cl_base mk) \<noteq> Some (key (cl_quote tk))"
      "\<And>k. map_option key (cl_base mk) = Some k \<Longrightarrow> map_option key (cl_base tk) \<noteq> Some k"
    and "\<And>k. map_option key (cl_position mk) = Some k \<Longrightarrow> map_option key (cl_position tk) \<noteq> Some k"
  shows "claims_at (save_claims mk' w) tk"
proof -
  have asset: "w_assets (save_claims mk' w) k = w_assets w k" if "k = key (cl_quote tk) \<or> map_option key (cl_base tk) = Some k" for k
    using assms(2-6) that
    by (cases "cl_base mk"; cases "cl_base mk'") (auto simp: save_apply save_opt_apply same_keys_def)
  have pos: "w_positions (save_claims mk' w) k = w_positions w k" if "map_option key (cl_position tk) = Some k" for k
    using assms(2,7) that
    by (cases "cl_position mk"; cases "cl_position mk'") (auto simp: save_opt_apply same_keys_def)
  show ?thesis using assms(1) asset pos unfolding claims_at_def by simp
qed


lemma distinct_claim_keys:
  assumes "distinct (keys_of [ck_base a, Some (ck_quote a), ck_base b, Some (ck_quote b)])"
  shows "distinct (keys_of [ck_base a, Some (ck_quote a)])" "distinct (keys_of [ck_base b, Some (ck_quote b)])"
    "ck_quote a \<noteq> ck_quote b" "ck_base b \<noteq> Some (ck_quote a)" "ck_base a \<noteq> Some (ck_quote b)"
    "ck_base a = Some k \<Longrightarrow> ck_base b \<noteq> Some k"
  using assms by (cases "ck_base a"; cases "ck_base b"; auto simp: keys_of_def)+

lemma match_shared_effect:
  assumes ok: "match_shared_order rt w ks oc ts lim q = Inr w'" and fin: "finite_claims w"
  shows "shared_effect w (mso_book ks) w'"
proof (rule match_shared_ok [OF ok], goal_cases)
  case (1 b cfg r lv mk tk nx ws sl n plan fee accrued remaining collateral level_total mk' tk' rm)
  note dist = distinct_claim_keys [OF 1(10)]
  have at: "claims_at w mk" "claims_at w tk"
    using claims_loaded_at [OF 1(6) dist(1)] claims_loaded_at [OF 1(7) dist(2)] .
  have keys: "key (cl_quote mk) = ck_quote (mso_maker ks)" "map_option key (cl_base mk) = ck_base (mso_maker ks)"
    "map_option key (cl_position mk) = ck_position (mso_maker ks)"
    "key (cl_quote tk) = ck_quote (mso_taker_claims ks)" "map_option key (cl_base tk) = ck_base (mso_taker_claims ks)"
    "map_option key (cl_position tk) = ck_position (mso_taker_claims ks)"
    using 1(6,7) by (auto simp: claims_loaded_def loaded_def)
  have settle: "held v mk' + held v tk' + cash_price v mk * unat fee = held v mk + held v tk"
    "same_keys mk mk'" "same_keys tk tk'" for v
    using settle_shared_conserves [OF 1(26) settlement_balanced [OF 1(19)] trader_prices(2,3) [OF 1(17,18)]] by blast+
  have at2: "claims_at (save_claims mk' w) tk"
    by (rule claims_at_save [OF at(2) settle(2)])
      (use dist(3-6) 1(11) in \<open>auto simp: keys\<close>)
  have price: "cash_price v mk = val_asset v (sbk_quote_mint b)" for v by (rule trader_prices(1) [OF 1(17,18)])
  have root: "root_kept b (rm_book rm)" "sbk_accrued_quote_fees (rm_book rm) = sbk_accrued_quote_fees b"
  proof -
    have "root_kept b (rm_book rm) \<and> sbk_accrued_quote_fees (rm_book rm) = sbk_accrued_quote_fees b"
    proof (cases "maker_fully_filled plan")
      case True
      with 1(27) have "remove_order rt (Account (mso_book ks) b) (Account (mso_maker_order ks) r)
          (Account (mso_price_level ks) lv) None nx None ws (mso_level_rent_recipient ks) = Inr rm" by simp
      from remove_order_root(1,2) [OF this] show ?thesis by simp
    next
      case False
      with 1(27) have "rm_book rm = b" by auto
      then show ?thesis by (simp add: root_keptI)
    qed
    then show "root_kept b (rm_book rm)" "sbk_accrued_quote_fees (rm_book rm) = sbk_accrued_quote_fees b" by blast+
  qed
  show ?case
  proof (rule shared_effectI [OF fin, where fee = "unat fee" and b' = "(rm_book rm)\<lparr>sbk_accrued_quote_fees := accrued\<rparr>" and b = b])
    show "claims_worth v (save_claims tk' (save_claims mk' w)) + val_asset v (sbk_quote_mint b) * unat fee = claims_worth v w" for v
      using save_claims_worth [OF fin at(1) settle(2), of v]
        save_claims_worth [OF finite_save_claims [OF fin] at2 settle(3), of v] settle(1) [of v] by (simp add: price)
    show "root_kept b ((rm_book rm)\<lparr>sbk_accrued_quote_fees := accrued\<rparr>)"
      by (rule root_keptI) (use root(1) in \<open>auto simp: root_kept_def\<close>)
    show "unat (sbk_accrued_quote_fees ((rm_book rm)\<lparr>sbk_accrued_quote_fees := accrued\<rparr>)) =
        unat (sbk_accrued_quote_fees b) + unat fee"
      using 1(21) by simp
  qed (use 1(1) in \<open>simp_all add: 1(28) [symmetric] finite_save_claims fin\<close>)
qed


section \<open>Trading on shared books\<close>

inductive shared_trade :: "runtime \<Rightarrow> pubkey \<Rightarrow> world \<Rightarrow> world \<Rightarrow> bool" for rt k where
  st_place: "place_shared_order rt w pks oc sd p q i = Inr w' \<Longrightarrow> pso_book pks = k \<Longrightarrow> shared_trade rt k w w'"
| st_cancel: "cancel_shared_order rt w cks = Inr w' \<Longrightarrow> cso_book cks = k \<Longrightarrow> shared_trade rt k w w'"
| st_match: "match_shared_order rt w mks oc ts lim q = Inr w' \<Longrightarrow> mso_book mks = k \<Longrightarrow> shared_trade rt k w w'"

lemma shared_trade_effect: "shared_trade rt k w w' \<Longrightarrow> finite_claims w \<Longrightarrow> shared_effect w k w'"
  by (induction rule: shared_trade.induct)
    (auto intro: place_shared_effect cancel_shared_effect match_shared_effect)

text \<open>C29: Trading on a shared book conserves value under every valuation. Whatever each mint's atoms,
  each question's YES and NO contracts and its cash are worth, placing, cancelling or matching a
  shared order leaves the total worth of all wallets, positions and accrued shared fees unchanged;
  no token account, no prediction market record and nothing of the spot program is touched, and of
  the book's root only heads, counters and accrued fees change.\<close>

theorem shared_trades_conserve_value:
  assumes "shared_trade rt k w w'" "finite_claims w"
  shows "total_worth v w' = total_worth v w \<and> w_tokens w' = w_tokens w \<and> w_predictions w' = w_predictions w \<and>
    w_spot w' = w_spot w \<and>
    (\<exists>b b'. w_shared_books w k = Some b \<and> w_shared_books w' k = Some b' \<and> root_kept b b')"
  using shared_trade_effect [OF assms] by (auto simp: shared_effect_def)

text \<open>Two valuations: one mint's atoms, and one claim of one question.\<close>

definition mint_valuation :: "pubkey \<Rightarrow> valuation" where
  "mint_valuation mint = \<lparr>val_asset = (\<lambda>m. if m = mint then 1 else 0), val_yes = (\<lambda>_. 0), val_no = (\<lambda>_. 0), val_cash = (\<lambda>_. 0)\<rparr>"

definition question_valuation :: "nat \<Rightarrow> nat \<Rightarrow> nat \<Rightarrow> pubkey \<Rightarrow> valuation" where
  "question_valuation y n c k = \<lparr>val_asset = (\<lambda>_. 0), val_yes = (\<lambda>q. if q = k then y else 0),
     val_no = (\<lambda>q. if q = k then n else 0), val_cash = (\<lambda>q. if q = k then c else 0)\<rparr>"

lemma store_sum_zero: "(\<And>x. f x = 0) \<Longrightarrow> store_sum f m = 0"
  by (auto simp: store_sum_def split: option.split intro!: sum.neutral)

lemma store_sum_fun_cong: "(\<And>x. f x = g x) \<Longrightarrow> store_sum f m = store_sum g m"
  by (simp add: store_sum_def cong: option.case_cong)


lemma mint_worth: "asset_worth (mint_valuation mint) a = (if ab_mint a = mint then asset_claim a else 0)"
  "position_worth (mint_valuation mint) p = 0"
  "book_worth (mint_valuation mint) b = (if sbk_quote_mint b = mint then unat (sbk_accrued_quote_fees b) else 0)"
  by (simp_all add: asset_worth_def position_worth_def book_worth_def mint_valuation_def)

lemma question_worth:
  "asset_worth (question_valuation y n c k) a = 0" "book_worth (question_valuation y n c k) b = 0"
  "position_worth (question_valuation y n c k) p = (if pos_market p = k then
     y * (unat (pos_yes_free p) + unat (pos_yes_locked p)) + n * (unat (pos_no_free p) + unat (pos_no_locked p)) +
     c * (unat (pos_collateral_free p) + unat (pos_collateral_locked p)) else 0)"
  by (simp_all add: asset_worth_def position_worth_def book_worth_def question_valuation_def)

lemma question_total_worth:
  "total_worth (question_valuation y n c k) w = store_sum (position_worth (question_valuation y n c k)) (w_positions w)"
  by (simp add: total_worth_def claims_worth_def store_sum_zero question_worth)

lemma shared_effect_positions:
  assumes eff: "shared_effect w kb w'"
    and f: "\<And>p. f p = position_worth (question_valuation y n c k) p"
  shows "store_sum f (w_positions w') = store_sum f (w_positions w)"
proof -
  have "store_sum f m = store_sum (position_worth (question_valuation y n c k)) m" for m
    by (rule store_sum_fun_cong) (rule f)
  moreover have "total_worth (question_valuation y n c k) w' = total_worth (question_valuation y n c k) w"
    using eff by (simp add: shared_effect_def)
  ultimately show ?thesis by (simp add: question_total_worth)
qed

end
