(* ===== verification/Prediction_Reserve.thy ===== *)
theory Prediction_Reserve
  imports Prediction_Solvency Shared_Ledger
begin

text \<open>
  The custody of a question as a state machine: from its creation on, trading, complete sets,
  deposits, withdrawals, migrations, the whole resolution lifecycle and redemptions are steps, and
  every step keeps the reserve exact and the vault sufficient.
\<close>

section \<open>One position and one market record change\<close>

lemma reads_at_time [simp]:
  "vault (at_time now rt) k mint = vault rt k mint" "asset_vault (at_time now rt) mint = asset_vault rt mint"
  "accrued_fees (at_time now rt) k st = accrued_fees rt k st"
  "question_liability (at_time now rt) k m w = question_liability rt k m w"
  "question_solvent (at_time now rt) k w = question_solvent rt k w"
  by (simp_all add: vault_def asset_vault_def accrued_fees_def question_liability_def question_solvent_def)

lemma question_solventE:
  assumes "question_solvent rt k w"
  obtains m where "finite (dom (w_positions w))" "w_predictions w k = Some m" "reserve_exact m"
    "pm_collateral_vault m = vault rt k (pm_collateral_mint m)"
    "\<And>oc. question_total (pos_contracts oc) k w = outcome_supply oc m"
    "holds (w_tokens w) (pm_collateral_vault m) (address rt (VaultAuthorityPda k)) (question_liability rt k m w)"
  using assms by (auto simp: question_solvent_def)

lemma question_update:
  assumes inv: "question_solvent rt k w" and m: "w_predictions w k = Some m"
    and p: "w_positions w j = Some p" "pos_market p = k" "pos_market p' = k"
    and w': "w_predictions w' k = Some m'" "w_positions w' = (w_positions w)(j \<mapsto> p')" "w_spot w' = w_spot w"
    and kept: "pm_collateral_vault m' = pm_collateral_vault m" "pm_collateral_mint m' = pm_collateral_mint m"
    and exact: "reserve_exact m \<Longrightarrow> reserve_exact m'"
    and contracts: "\<And>oc. pos_contracts oc p' + outcome_supply oc m = pos_contracts oc p + outcome_supply oc m'"
    and paid: "\<And>n. holds (w_tokens w) (pm_collateral_vault m) (address rt (VaultAuthorityPda k))
        (n + unat (pm_backing_reserve m) + pos_cash p) \<Longrightarrow>
      holds (w_tokens w') (pm_collateral_vault m) (address rt (VaultAuthorityPda k))
        (n + unat (pm_backing_reserve m') + pos_cash p')"
  shows "question_solvent rt k w'"
proof -
  obtain m0 where fin: "finite (dom (w_positions w))" and m0: "w_predictions w k = Some m0" "reserve_exact m0"
    "pm_collateral_vault m0 = vault rt k (pm_collateral_mint m0)"
    "\<And>oc. question_total (pos_contracts oc) k w = outcome_supply oc m0"
    "holds (w_tokens w) (pm_collateral_vault m0) (address rt (VaultAuthorityPda k)) (question_liability rt k m0 w)"
    by (rule question_solventE [OF inv]) blast
  have same: "m0 = m" using m m0(1) by simp
  note total = question_total_upd [OF fin p w'(2)]
  have fees: "accrued_fees rt k (w_spot w') = accrued_fees rt k (w_spot w)" by (simp add: w'(3))
  define rest where "rest = question_total pos_cash k w - pos_cash p + accrued_fees rt k (w_spot w)"
  have member: "pos_cash p \<le> question_total pos_cash k w"
    using store_sum_member [OF fin p(1), of "of_question k pos_cash"] p(2)
    by (simp add: question_total_def of_question_def)
  have old: "question_liability rt k m w = rest + unat (pm_backing_reserve m) + pos_cash p"
    unfolding question_liability_def rest_def using member by simp
  have new: "question_liability rt k m' w' = rest + unat (pm_backing_reserve m') + pos_cash p'"
    unfolding question_liability_def rest_def fees using total [of pos_cash] member by simp
  have "question_total (pos_contracts oc) k w' = outcome_supply oc m'" for oc
    using total [of "pos_contracts oc"] contracts [of oc] m0(4) [of oc] by (simp add: same)
  moreover have "finite (dom (w_positions w'))" using fin by (simp add: w'(2))
  moreover have "holds (w_tokens w') (pm_collateral_vault m') (address rt (VaultAuthorityPda k)) (question_liability rt k m' w')"
    unfolding new kept(1) by (rule paid) (use m0(5) old in \<open>simp add: same\<close>)
  ultimately show ?thesis
    unfolding question_solvent_def using w'(1) exact m0(2,3) kept by (auto simp: same)
qed

section \<open>Trading, the lifecycle and everything else\<close>

lemma claims_kept_solvent:
  assumes kept: "claims_kept rt k w w'" and inv: "question_solvent rt k w"
  shows "question_solvent rt k w'"
proof -
  obtain m c where m: "w_predictions w k = Some m" "w_predictions w' k = Some (m\<lparr>pm_open_order_count := c\<rparr>)"
    using kept by (auto simp: claims_kept_def order_terms_kept_def)
  have "reserve_exact (m\<lparr>pm_open_order_count := c\<rparr>) = reserve_exact m"
    "outcome_supply oc (m\<lparr>pm_open_order_count := c\<rparr>) = outcome_supply oc m" for oc
    by (simp_all add: reserve_exact_def outcome_supply_def Let_def split: PredictionOutcome.split)
  moreover have "question_liability rt k (m\<lparr>pm_open_order_count := c\<rparr>) w' = question_liability rt k m w"
    using kept by (simp add: claims_kept_def question_liability_def)
  ultimately show ?thesis
    using inv kept m by (auto simp: question_solvent_def claims_kept_def)
qed

definition same_claims :: "PredictionMarket \<Rightarrow> PredictionMarket \<Rightarrow> bool" where
  "same_claims m m' \<longleftrightarrow> pm_backing_reserve m' = pm_backing_reserve m \<and> pm_yes_supply m' = pm_yes_supply m \<and>
     pm_no_supply m' = pm_no_supply m \<and> pm_payout_per_contract m' = pm_payout_per_contract m \<and>
     pm_collateral_vault m' = pm_collateral_vault m \<and> pm_collateral_mint m' = pm_collateral_mint m"

lemma move_same_claims: "move now m m' \<Longrightarrow> same_claims m m'"
  by (induction rule: move.induct) (simp_all add: same_claims_def)

text \<open>Before the outcome the pairs are whole, so any outcome is worth exactly the reserve: this is
  where the payout must be even.\<close>

lemma owed_whole_pairs: "even payout \<Longrightarrow> owed outcome n n payout = n * payout"
  by (cases outcome) auto

lemma move_reserve_exact:
  assumes "move now m m'" "reserve_exact m"
  shows "reserve_exact m'"
  using assms by cases (auto simp: reserve_exact_def Let_def owed_whole_pairs)

lemma lifecycle_solvent:
  assumes m: "w_predictions w k = Some m" "w' = put_prediction k m' w" "same_claims m m'"
    and exact: "reserve_exact m \<Longrightarrow> reserve_exact m'" and inv: "question_solvent rt k w"
  shows "question_solvent rt k w'"
proof -
  have frame: "w_positions w' = w_positions w" "w_tokens w' = w_tokens w" "w_spot w' = w_spot w"
    "w_predictions w' k = Some m'"
    by (simp_all add: m(2) put_prediction_def)
  have "outcome_supply oc m' = outcome_supply oc m" for oc
    using m(3) by (simp add: outcome_supply_def same_claims_def split: PredictionOutcome.split)
  moreover have "question_liability rt k m' w' = question_liability rt k m w"
    using m(3) by (simp add: question_liability_def question_total_same [OF frame(1)] frame same_claims_def)
  ultimately show ?thesis
    using inv m(1,3) exact
    by (auto simp: question_solvent_def frame question_total_same [OF frame(1)] same_claims_def)
qed

lemma moves_at_solvent:
  "moves_at now k w w' \<Longrightarrow> question_solvent rt k w \<Longrightarrow> question_solvent rt k w'"
  unfolding moves_at_def
  by (elim exE conjE) (rule lifecycle_solvent, assumption+, erule move_same_claims, erule move_reserve_exact)

lemma propose_solvent:
  assumes ok: "propose_prediction rt' w ks outcome uri hash correction = Inr w'" "rp_market ks = k"
    and inv: "question_solvent rt k w"
  shows "question_solvent rt k w'"
proof (rule propose_ok [OF ok(1)], goal_cases)
  case (1 m p)
  show ?case
    by (rule lifecycle_solvent [OF _ 1(9) [unfolded ok(2)] _ _ inv])
      (use 1(1,4,8) ok(2) in \<open>auto simp: same_claims_def reserve_exact_def Let_def\<close>)
qed

text \<open>Other instructions and other programs: this question's records and positions stay, and nobody
  else signs for its vault.\<close>

definition outside_question :: "runtime \<Rightarrow> pubkey \<Rightarrow> world \<Rightarrow> world \<Rightarrow> bool" where
  "outside_question rt k w w' \<longleftrightarrow>
     finite (dom (w_positions w')) \<and> w_predictions w' k = w_predictions w k \<and>
     (\<forall>j p. pos_market p = k \<longrightarrow> (w_positions w' j = Some p \<longleftrightarrow> w_positions w j = Some p)) \<and>
     ss_fees (w_spot w') (address rt (MarketFeesPda k)) = ss_fees (w_spot w) (address rt (MarketFeesPda k)) \<and>
     (\<forall>mint n. holds (w_tokens w) (vault rt k mint) (address rt (VaultAuthorityPda k)) n \<longrightarrow>
        holds (w_tokens w') (vault rt k mint) (address rt (VaultAuthorityPda k)) n)"

lemma outside_question_total:
  assumes out: "outside_question rt k w w'" and fin: "finite (dom (w_positions w))"
  shows "question_total f k w' = question_total f k w"
proof -
  have fin': "finite (dom (w_positions w'))" using out by (simp add: outside_question_def)
  have one: "(case w_positions w' j of None \<Rightarrow> 0 | Some v \<Rightarrow> of_question k f v) =
      (case w_positions w j of None \<Rightarrow> 0 | Some v \<Rightarrow> of_question k f v)" for j
  proof -
    have iff: "pos_market p = k \<Longrightarrow> w_positions w' j = Some p \<longleftrightarrow> w_positions w j = Some p" for p
      using out by (simp add: outside_question_def)
    show ?thesis
      using iff by (cases "w_positions w' j"; cases "w_positions w j") (auto simp: of_question_def)
  qed
  show ?thesis unfolding question_total_def by (rule store_sum_cong_on [OF fin' fin one])
qed

lemma outside_question_solvent:
  assumes out: "outside_question rt k w w'" and inv: "question_solvent rt k w"
  shows "question_solvent rt k w'"
proof -
  have fin: "finite (dom (w_positions w))" "finite (dom (w_positions w'))"
    using inv out by (auto simp: question_solvent_def outside_question_def)
  note total = outside_question_total [OF out fin(1)]
  have "accrued_fees rt k (w_spot w') = accrued_fees rt k (w_spot w)"
    using out by (simp add: outside_question_def accrued_fees_def)
  then have "question_liability rt k m w' = question_liability rt k m w" for m
    by (simp add: question_liability_def total)
  with inv out fin total show ?thesis by (auto simp: question_solvent_def outside_question_def)
qed

lemma position_solvent:
  assumes ok: "initialize_prediction_position rt w ks = Inr w'" and inv: "question_solvent rt k w"
  shows "question_solvent rt k w'"
proof -
  obtain p where free: "w_positions w (ipp_position ks) = None"
    and w': "w' = w\<lparr>w_positions := (w_positions w)(ipp_position ks \<mapsto> p)\<rparr>"
    and p: "pos_cash p = 0" "pos_contracts oc p = 0" for oc
    using ok unfolding initialize_prediction_position_def run_inversions
    by (elim exE conjE) (rule that, assumption, rule sym, assumption, simp add: pos_cash_def, case_tac oc, simp_all)
  have fin: "finite (dom (w_positions w))" using inv by (simp add: question_solvent_def)
  have total: "question_total f k w' = question_total f k w" if "f p = 0" for f
    using store_sum_new [OF fin free, of "of_question k f" p] that
    by (simp add: question_total_def w' of_question_def del: fun_upd_apply split: if_splits)
  have "question_liability rt k m w' = question_liability rt k m w" for m
    by (simp add: question_liability_def total [where f = pos_cash, OF p(1)]) (simp add: w')
  moreover have "question_total (pos_contracts oc) k w' = question_total (pos_contracts oc) k w" for oc
    by (rule total) (rule p)
  ultimately show ?thesis using inv by (simp add: question_solvent_def w')
qed

section \<open>Complete sets\<close>

text \<open>\<open>a\<close> YES and \<open>b\<close> NO contracts enter (or, read backwards, leave) a position and the supply
  together, and \<open>c\<close> atoms the reserve.\<close>

definition sets_move :: "nat \<Rightarrow> nat \<Rightarrow> nat \<Rightarrow> PredictionMarket \<times> PredictionPosition \<Rightarrow>
    PredictionMarket \<times> PredictionPosition \<Rightarrow> bool" where
  "sets_move a b c x y \<longleftrightarrow> (case (x, y) of ((m, p), (m', p')) \<Rightarrow>
     (\<exists>ys ns r. m' = m\<lparr>pm_yes_supply := ys, pm_no_supply := ns, pm_backing_reserve := r\<rparr>) \<and>
     (\<exists>fr ys ns. p' = p\<lparr>pos_collateral_free := fr, pos_yes_free := ys, pos_no_free := ns\<rparr>) \<and>
     outcome_supply YesOutcome m' = outcome_supply YesOutcome m + a \<and>
     outcome_supply NoOutcome m' = outcome_supply NoOutcome m + b \<and>
     pos_contracts YesOutcome p' = pos_contracts YesOutcome p + a \<and>
     pos_contracts NoOutcome p' = pos_contracts NoOutcome p + b \<and>
     unat (pm_backing_reserve m') = unat (pm_backing_reserve m) + c)"

lemma sets_move_frame:
  assumes "sets_move a b c (m, p) (m', p')"
  shows "pm_collateral_vault m' = pm_collateral_vault m" "pm_collateral_mint m' = pm_collateral_mint m"
    "pm_status m' = pm_status m" "pm_final_outcome m' = pm_final_outcome m"
    "pm_payout_per_contract m' = pm_payout_per_contract m" "pos_market p' = pos_market p" "pos_owner p' = pos_owner p"
    "lifecycle_of m' = lifecycle_of m"
  using assms by (auto simp: sets_move_def lifecycle_of_def)

lemma sets_move_contracts:
  assumes "sets_move a b c (m, p) (m', p')"
  shows "pos_contracts oc p' + outcome_supply oc m = pos_contracts oc p + outcome_supply oc m'"
  using assms by (cases oc) (auto simp: sets_move_def)

lemma owed_add: "owed oc (y + a) (n + b) payout = owed oc y n payout + owed oc a b payout"
  by (cases oc) (simp_all add: algebra_simps)

lemma sets_move_exact:
  assumes move: "sets_move a b c (m, p) (m', p')" and exact: "reserve_exact m"
    and worth: "if pm_status m = Resolved
      then \<exists>oc. pm_final_outcome m = Some oc \<and> c = owed oc a b (unat (pm_payout_per_contract m))
      else a = b \<and> c = a * unat (pm_payout_per_contract m)"
  shows "reserve_exact m'"
proof -
  let ?P = "unat (pm_payout_per_contract m)"
  have sums: "unat (pm_yes_supply m') = unat (pm_yes_supply m) + a" "unat (pm_no_supply m') = unat (pm_no_supply m) + b"
    "unat (pm_backing_reserve m') = unat (pm_backing_reserve m) + c"
    using move by (simp_all add: sets_move_def outcome_supply_def)
  note frame = sets_move_frame(3-5) [OF move]
  show ?thesis
    using exact worth unfolding reserve_exact_def Let_def frame sums
    by (cases "pm_status m = Resolved") (auto simp: owed_add distrib_right)
qed

lemma sets_move_exact_back:
  assumes move: "sets_move a b c (m', p') (m, p)" and exact: "reserve_exact m"
    and worth: "if pm_status m = Resolved
      then \<exists>oc. pm_final_outcome m = Some oc \<and> c = owed oc a b (unat (pm_payout_per_contract m))
      else a = b \<and> c = a * unat (pm_payout_per_contract m)"
  shows "reserve_exact m'"
proof -
  let ?P = "unat (pm_payout_per_contract m)"
  have sums: "unat (pm_yes_supply m) = unat (pm_yes_supply m') + a" "unat (pm_no_supply m) = unat (pm_no_supply m') + b"
    "unat (pm_backing_reserve m) = unat (pm_backing_reserve m') + c"
    using move by (simp_all add: sets_move_def outcome_supply_def)
  note frame = sets_move_frame(3-5) [OF move, symmetric]
  show ?thesis
    using exact worth unfolding reserve_exact_def Let_def frame sums
    by (cases "pm_status m = Resolved") (auto simp: owed_add distrib_right)
qed

definition worth :: "nat \<Rightarrow> nat \<Rightarrow> nat \<Rightarrow> PredictionMarket \<Rightarrow> bool" where
  "worth a b c m \<longleftrightarrow> (if pm_status m = Resolved
     then \<exists>oc. pm_final_outcome m = Some oc \<and> c = owed oc a b (unat (pm_payout_per_contract m))
     else a = b \<and> c = a * unat (pm_payout_per_contract m))"

lemma sets_enter_solvent:
  assumes inv: "question_solvent rt k w" and m: "w_predictions w k = Some m"
    and p: "w_positions w j = Some p" "pos_market p = k"
    and move: "sets_move a b c (m, p) (m', p')" "worth a b c m"
    and w': "w_predictions w' k = Some m'" "w_positions w' = (w_positions w)(j \<mapsto> p')" "w_spot w' = w_spot w"
    and paid: "\<And>n. holds (w_tokens w) (pm_collateral_vault m) (address rt (VaultAuthorityPda k)) (n + pos_cash p) \<Longrightarrow>
      holds (w_tokens w') (pm_collateral_vault m) (address rt (VaultAuthorityPda k)) (n + c + pos_cash p')"
  shows "question_solvent rt k w'"
proof (rule question_update [OF inv m p _ w'])
  have "unat (pm_backing_reserve m') = unat (pm_backing_reserve m) + c"
    using move(1) by (simp add: sets_move_def)
  then show "holds (w_tokens w) (pm_collateral_vault m) (address rt (VaultAuthorityPda k))
        (n + unat (pm_backing_reserve m) + pos_cash p) \<Longrightarrow>
      holds (w_tokens w') (pm_collateral_vault m) (address rt (VaultAuthorityPda k))
        (n + unat (pm_backing_reserve m') + pos_cash p')" for n
    using paid [of "n + unat (pm_backing_reserve m)"] by (simp add: add.assoc)
qed (use sets_move_frame [OF move(1)] sets_move_contracts [OF move(1)] sets_move_exact [OF move(1)] move(2) p in
    \<open>auto simp: worth_def\<close>)

lemma sets_leave_solvent:
  assumes inv: "question_solvent rt k w" and m: "w_predictions w k = Some m"
    and p: "w_positions w j = Some p" "pos_market p = k"
    and move: "sets_move a b c (m', p') (m, p)" "worth a b c m"
    and w': "w_predictions w' k = Some m'" "w_positions w' = (w_positions w)(j \<mapsto> p')" "w_spot w' = w_spot w"
    and paid: "\<And>n. holds (w_tokens w) (pm_collateral_vault m) (address rt (VaultAuthorityPda k)) (n + c + pos_cash p) \<Longrightarrow>
      holds (w_tokens w') (pm_collateral_vault m) (address rt (VaultAuthorityPda k)) (n + pos_cash p')"
  shows "question_solvent rt k w'"
proof (rule question_update [OF inv m p _ w'])
  have "unat (pm_backing_reserve m) = unat (pm_backing_reserve m') + c"
    using move(1) by (simp add: sets_move_def)
  then show "holds (w_tokens w) (pm_collateral_vault m) (address rt (VaultAuthorityPda k))
        (n + unat (pm_backing_reserve m) + pos_cash p) \<Longrightarrow>
      holds (w_tokens w') (pm_collateral_vault m) (address rt (VaultAuthorityPda k))
        (n + unat (pm_backing_reserve m') + pos_cash p')" for n
    using paid [of "n + unat (pm_backing_reserve m')"] by (simp add: ac_simps)
  show "pos_contracts oc p' + outcome_supply oc m = pos_contracts oc p + outcome_supply oc m'" for oc
    using sets_move_contracts [OF move(1), of oc] by simp
qed (use sets_move_frame [OF move(1)] sets_move_exact_back [OF move(1)] move(2) p in \<open>auto simp: worth_def\<close>)

lemma sets_moveI:
  assumes "unat ys = unat (pm_yes_supply m) + a" "unat ns = unat (pm_no_supply m) + b" "unat r = unat (pm_backing_reserve m) + c"
    and "unat py = unat (pos_yes_free p) + a" "unat pn = unat (pos_no_free p) + b"
    and "m' = m\<lparr>pm_yes_supply := ys, pm_no_supply := ns, pm_backing_reserve := r\<rparr>"
    and "p' = p\<lparr>pos_collateral_free := f, pos_yes_free := py, pos_no_free := pn\<rparr>"
  shows "sets_move a b c (m, p) (m', p')"
  using assms by (auto simp: sets_move_def outcome_supply_def)

lemma sets_moveI_back:
  assumes "unat (pm_yes_supply m) = unat ys + a" "unat (pm_no_supply m) = unat ns + b" "unat (pm_backing_reserve m) = unat r + c"
    and "unat (pos_yes_free p) = unat py + a" "unat (pos_no_free p) = unat pn + b"
  shows "sets_move a b c (m\<lparr>pm_yes_supply := ys, pm_no_supply := ns, pm_backing_reserve := r\<rparr>,
      p\<lparr>pos_collateral_free := f, pos_yes_free := py, pos_no_free := pn\<rparr>) (m, p)"
    "sets_move a b c (m\<lparr>pm_yes_supply := ys, pm_no_supply := ns, pm_backing_reserve := r\<rparr>,
      p\<lparr>pos_yes_free := py, pos_no_free := pn\<rparr>) (m, p)"
proof -
  have old: "m = m\<lparr>pm_yes_supply := ys, pm_no_supply := ns, pm_backing_reserve := r\<rparr>\<lparr>pm_yes_supply := pm_yes_supply m,
      pm_no_supply := pm_no_supply m, pm_backing_reserve := pm_backing_reserve m\<rparr>" by simp
  show "sets_move a b c (m\<lparr>pm_yes_supply := ys, pm_no_supply := ns, pm_backing_reserve := r\<rparr>,
      p\<lparr>pos_collateral_free := f, pos_yes_free := py, pos_no_free := pn\<rparr>) (m, p)"
    by (rule sets_moveI [OF _ _ _ _ _ old, where f = "pos_collateral_free p" and py = "pos_yes_free p" and pn = "pos_no_free p"])
      (use assms in simp_all)
  show "sets_move a b c (m\<lparr>pm_yes_supply := ys, pm_no_supply := ns, pm_backing_reserve := r\<rparr>,
      p\<lparr>pos_yes_free := py, pos_no_free := pn\<rparr>) (m, p)"
    by (rule sets_moveI [OF _ _ _ _ _ old, where f = "pos_collateral_free p" and py = "pos_yes_free p" and pn = "pos_no_free p"])
      (use assms in simp_all)
qed

text \<open>What a successful split or merge did.\<close>

definition put_sets :: "pubkey \<Rightarrow> PredictionMarket \<Rightarrow> pubkey \<Rightarrow> PredictionPosition \<Rightarrow> world \<Rightarrow> world" where
  "put_sets k m j p w = put_prediction k m (put_position j p w)"

lemma put_sets_frame [simp]:
  "w_predictions (put_sets k m j p w) = (w_predictions w)(k \<mapsto> m)"
  "w_positions (put_sets k m j p w) = (w_positions w)(j \<mapsto> p)"
  "w_tokens (put_sets k m j p w) = w_tokens w" "w_spot (put_sets k m j p w) = w_spot w"
  "w_assets (put_sets k m j p w) = w_assets w"
  by (simp_all add: put_sets_def put_prediction_def put_position_def)

lemma split_ok:
  assumes "split_prediction_complete_set rt w ks q = Inr w'"
  obtains m p m' p' where "w_predictions w (pcs_market ks) = Some m" "w_positions w (pcs_position ks) = Some p"
    "pos_market p = pcs_market ks" "pm_status m = OpenTrading" "0 < q"
    "sets_move (unat q) (unat q) (unat q * unat (pm_payout_per_contract m)) (m, p) (m', p')"
    "pos_cash p = unat q * unat (pm_payout_per_contract m) + pos_cash p'"
    "w' = put_sets (pcs_market ks) m' (pcs_position ks) p' w"
proof -
  obtain m p cost fr y n ys ns r where m: "w_predictions w (pcs_market ks) = Some m"
    and p: "w_positions w (pcs_position ks) = Some p" "pos_market p = pcs_market ks"
    and open_: "pm_status m = OpenTrading \<and> ilt (unix_timestamp rt) (pm_close_ts m)" "q > 0"
    and cost: "checked_mul q (pm_payout_per_contract m) = Some cost" "checked_sub (pos_collateral_free p) cost = Some fr"
    and pos: "checked_add (pos_yes_free p) q = Some y" "checked_add (pos_no_free p) q = Some n"
    and mkt: "checked_add (pm_yes_supply m) q = Some ys" "checked_add (pm_no_supply m) q = Some ns"
      "checked_add (pm_backing_reserve m) cost = Some r"
    and w': "put_prediction (pcs_market ks) (m\<lparr>pm_yes_supply := ys, pm_no_supply := ns, pm_backing_reserve := r\<rparr>)
      (put_position (pcs_position ks) (p\<lparr>pos_collateral_free := fr, pos_yes_free := y, pos_no_free := n\<rparr>) w) = w'"
    using assms unfolding split_prediction_complete_set_def run_inversions
    by (elim exE conjE) (rule that; (assumption | rule conjI)+)
  let ?p' = "p\<lparr>pos_collateral_free := fr, pos_yes_free := y, pos_no_free := n\<rparr>"
  have "pos_cash p = unat q * unat (pm_payout_per_contract m) + pos_cash ?p'" using cost by (simp add: pos_cash_def)
  moreover have "sets_move (unat q) (unat q) (unat q * unat (pm_payout_per_contract m)) (m, p)
      (m\<lparr>pm_yes_supply := ys, pm_no_supply := ns, pm_backing_reserve := r\<rparr>, ?p')"
    by (rule sets_moveI [OF _ _ _ _ _ refl refl]) (use cost pos mkt in simp_all)
  ultimately show thesis using that m p open_ w' by (auto simp: put_sets_def)
qed

lemma merge_ok:
  assumes "merge_prediction_complete_set rt w ks q = Inr w'"
  obtains m p m' p' where "w_predictions w (pcs_market ks) = Some m" "w_positions w (pcs_position ks) = Some p"
    "pos_market p = pcs_market ks" "pm_status m \<noteq> Resolved" "0 < q"
    "sets_move (unat q) (unat q) (unat q * unat (pm_payout_per_contract m)) (m', p') (m, p)"
    "pos_cash p' = unat q * unat (pm_payout_per_contract m) + pos_cash p"
    "w' = put_sets (pcs_market ks) m' (pcs_position ks) p' w"
proof -
  obtain m p cost fr y n ys ns r where m: "w_predictions w (pcs_market ks) = Some m"
    and p: "w_positions w (pcs_position ks) = Some p" "pos_market p = pcs_market ks"
    and open_: "pm_status m = OpenTrading \<or> pm_status m = Frozen \<or> pm_status m = Proposed" "q > 0"
    and cost: "checked_mul q (pm_payout_per_contract m) = Some cost" "checked_add (pos_collateral_free p) cost = Some fr"
    and pos: "checked_sub (pos_yes_free p) q = Some y" "checked_sub (pos_no_free p) q = Some n"
    and mkt: "checked_sub (pm_yes_supply m) q = Some ys" "checked_sub (pm_no_supply m) q = Some ns"
      "checked_sub (pm_backing_reserve m) cost = Some r"
    and w': "put_prediction (pcs_market ks) (m\<lparr>pm_yes_supply := ys, pm_no_supply := ns, pm_backing_reserve := r\<rparr>)
      (put_position (pcs_position ks) (p\<lparr>pos_collateral_free := fr, pos_yes_free := y, pos_no_free := n\<rparr>) w) = w'"
    using assms unfolding merge_prediction_complete_set_def run_inversions
    by (elim exE conjE) (rule that; assumption)
  let ?p' = "p\<lparr>pos_collateral_free := fr, pos_yes_free := y, pos_no_free := n\<rparr>"
  have "pos_cash ?p' = unat q * unat (pm_payout_per_contract m) + pos_cash p" using cost by (simp add: pos_cash_def)
  moreover have "sets_move (unat q) (unat q) (unat q * unat (pm_payout_per_contract m))
      (m\<lparr>pm_yes_supply := ys, pm_no_supply := ns, pm_backing_reserve := r\<rparr>, ?p') (m, p)"
    by (rule sets_moveI_back(1)) (use cost pos mkt in simp_all)
  ultimately show thesis using that m p open_ w' by (auto simp: put_sets_def)
qed

lemma split_solvent:
  assumes ok: "split_prediction_complete_set rt w ks q = Inr w'" and inv: "question_solvent rt (pcs_market ks) w"
  shows "question_solvent rt (pcs_market ks) w'"
proof (rule split_ok [OF ok], goal_cases)
  case (1 m p m' p')
  show ?case
    by (rule sets_enter_solvent [OF inv 1(1-3,6)]) (use 1 in \<open>auto simp: worth_def ac_simps\<close>)
qed

lemma merge_solvent:
  assumes ok: "merge_prediction_complete_set rt w ks q = Inr w'" and inv: "question_solvent rt (pcs_market ks) w"
  shows "question_solvent rt (pcs_market ks) w'"
proof (rule merge_ok [OF ok], goal_cases)
  case (1 m p m' p')
  show ?case
    by (rule sets_leave_solvent [OF inv 1(1-3,6)]) (use 1 in \<open>auto simp: worth_def ac_simps\<close>)
qed

section \<open>Cash\<close>

lemma cash_solvent:
  assumes inv: "question_solvent rt k w" and m: "w_predictions w k = Some m"
    and p: "w_positions w j = Some p" "pos_market p = k"
    and w': "w_predictions w' = w_predictions w" "w_positions w' = (w_positions w)(j \<mapsto> p\<lparr>pos_collateral_free := f\<rparr>)"
      "w_spot w' = w_spot w"
    and paid: "\<And>n. holds (w_tokens w) (pm_collateral_vault m) (address rt (VaultAuthorityPda k))
        (n + unat (pos_collateral_free p)) \<Longrightarrow>
      holds (w_tokens w') (pm_collateral_vault m) (address rt (VaultAuthorityPda k)) (n + unat f)"
  shows "question_solvent rt k w'"
proof (rule question_update [OF inv m p])
  show "pos_market (p\<lparr>pos_collateral_free := f\<rparr>) = k" "w_predictions w' k = Some m"
    using p m w' by simp_all
  show "holds (w_tokens w') (pm_collateral_vault m) (address rt (VaultAuthorityPda k))
        (n + unat (pm_backing_reserve m) + pos_cash (p\<lparr>pos_collateral_free := f\<rparr>))"
    if "holds (w_tokens w) (pm_collateral_vault m) (address rt (VaultAuthorityPda k))
        (n + unat (pm_backing_reserve m) + pos_cash p)" for n
    using paid [of "n + unat (pm_backing_reserve m) + unat (pos_collateral_locked p)"] that
    by (simp add: pos_cash_def ac_simps)
qed (use w' in simp_all)

lemma deposit_collateral_ok:
  assumes "deposit_prediction_collateral rt tp w ks amount = Inr w'"
  obtains m p ts f dm where "w_predictions w (dpc_market ks) = Some m" "w_positions w (dpc_position ks) = Some p"
    "pos_market p = dpc_market ks" "pos_owner p = dpc_owner ks" "pm_status m \<noteq> Resolved" "0 < amount"
    "dpc_source ks \<noteq> pm_collateral_vault m" "unat f = unat (pos_collateral_free p) + unat amount"
    "transfer_checked tp (w_mints w) (w_tokens w) (dpc_source ks) (pm_collateral_mint m) (pm_collateral_vault m)
       (dpc_owner ks) amount dm = Inr ts"
    "w' = put_position (dpc_position ks) (p\<lparr>pos_collateral_free := f\<rparr>) (w\<lparr>w_tokens := ts\<rparr>)"
proof -
  obtain m p f ts and mn :: Mint where m: "w_predictions w (dpc_market ks) = Some m" "w_positions w (dpc_position ks) = Some p"
    "pos_market p = dpc_market ks" "pos_owner p = dpc_owner ks" "dpc_collateral_mint ks = pm_collateral_mint m"
    "dpc_collateral_vault ks = pm_collateral_vault m" "dpc_source ks \<noteq> dpc_collateral_vault ks"
    "pm_status m \<noteq> Resolved" "amount > 0" "checked_add (pos_collateral_free p) amount = Some f"
    "transfer_checked tp (w_mints w) (w_tokens w) (dpc_source ks) (dpc_collateral_mint ks) (dpc_collateral_vault ks)
       (dpc_owner ks) amount (mint_decimals mn) = Inr ts"
    and w': "put_position (dpc_position ks) (p\<lparr>pos_collateral_free := f\<rparr>) (w\<lparr>w_tokens := ts\<rparr>) = w'"
    using assms unfolding deposit_prediction_collateral_def run_inversions load_question_vault_Inr
    by (elim exE conjE) (rule that; assumption)
  then show thesis using that by auto
qed

lemma withdraw_collateral_ok:
  assumes "withdraw_prediction_collateral rt tp w ks amount = Inr w'"
  obtains m p ts f dm auth where "w_predictions w (wpc_market ks) = Some m" "w_positions w (wpc_position ks) = Some p"
    "pos_market p = wpc_market ks" "pos_owner p = wpc_owner ks" "0 < amount"
    "pm_collateral_vault m \<noteq> wpc_destination ks" "unat (pos_collateral_free p) = unat amount + unat f"
    "transfer_checked tp (w_mints w) (w_tokens w) (pm_collateral_vault m) (pm_collateral_mint m) (wpc_destination ks)
       auth amount dm = Inr ts"
    "w' = put_position (wpc_position ks) (p\<lparr>pos_collateral_free := f\<rparr>) (w\<lparr>w_tokens := ts\<rparr>)"
    "auth = address rt (VaultAuthorityPda (wpc_market ks))"
proof -
  obtain m p f ts and mn :: Mint where "w_predictions w (wpc_market ks) = Some m" "w_positions w (wpc_position ks) = Some p"
    "pos_market p = wpc_market ks" "pos_owner p = wpc_owner ks" "wpc_collateral_mint ks = pm_collateral_mint m"
    "wpc_collateral_vault ks = pm_collateral_vault m" "wpc_destination ks \<noteq> wpc_collateral_vault ks"
    "amount > 0" "checked_sub (pos_collateral_free p) amount = Some f"
    "transfer_checked tp (w_mints w) (w_tokens w) (wpc_collateral_vault ks) (wpc_collateral_mint ks) (wpc_destination ks)
       (wpc_vault_authority ks) amount (mint_decimals mn) = Inr ts"
    "wpc_vault_authority ks = address rt (VaultAuthorityPda (wpc_market ks))"
    "put_position (wpc_position ks) (p\<lparr>pos_collateral_free := f\<rparr>) (w\<lparr>w_tokens := ts\<rparr>) = w'"
    using assms unfolding withdraw_prediction_collateral_def run_inversions load_question_vault_Inr
    by (elim exE conjE) (rule that; assumption)
  then show thesis using that by auto
qed

lemma migrate_prediction_ok:
  assumes "migrate_prediction_asset rt tp w ks amount = Inr w'"
  obtains m p ts f dm auth b bf v where "w_predictions w (mpa_market ks) = Some m" "w_positions w (mpa_position ks) = Some p"
    "pos_market p = mpa_market ks" "pos_owner p = mpa_owner ks" "0 < amount"
    "pm_collateral_vault m \<noteq> mpa_asset_vault ks" "unat (pos_collateral_free p) = unat amount + unat f"
    "mpa_asset_vault ks = asset_vault rt (pm_collateral_mint m)"
    "transfer_checked tp (w_mints w) (w_tokens w) (pm_collateral_vault m) (pm_collateral_mint m) (mpa_asset_vault ks)
       auth amount dm = Inr ts"
    "w_assets w (mpa_asset_balance ks) = Some b" "ab_mint b = pm_collateral_mint m"
    "unat bf = unat (ab_free b) + unat amount"
    "w' = put_asset (mpa_asset_balance ks) (b\<lparr>ab_free := bf\<rparr>)
       (put_position (mpa_position ks) (p\<lparr>pos_collateral_free := f\<rparr>) (w\<lparr>w_tokens := ts\<rparr>))"
    "w_tokens w (mpa_asset_vault ks) = Some v" "ta_owner v = asset_authority rt (pm_collateral_mint m)"
    "auth = address rt (VaultAuthorityPda (mpa_market ks))"
proof -
  obtain m p f ts b bf v and mn :: Mint where m: "w_predictions w (mpa_market ks) = Some m" "w_positions w (mpa_position ks) = Some p"
    "pos_owner p = mpa_owner ks \<and> pos_market p = mpa_market ks" "mpa_mint ks = pm_collateral_mint m"
    "w_assets w (mpa_asset_balance ks) = Some b" "ab_mint b = mpa_mint ks"
    "mpa_market_vault ks = pm_collateral_vault m" "mpa_asset_vault ks = asset_vault rt (mpa_mint ks)"
    "mpa_market_vault ks \<noteq> mpa_asset_vault ks"
    "amount > 0" "checked_sub (pos_collateral_free p) amount = Some f" "checked_add (ab_free b) amount = Some bf"
    "transfer_checked tp (w_mints w) (w_tokens w) (mpa_market_vault ks) (mpa_mint ks) (mpa_asset_vault ks)
       (mpa_market_authority ks) amount (mint_decimals mn) = Inr ts"
    "w_tokens w (mpa_asset_vault ks) = Some v" "ta_owner v = asset_authority rt (mpa_mint ks)"
    "mpa_market_authority ks = address rt (VaultAuthorityPda (mpa_market ks))"
    and w': "put_asset (mpa_asset_balance ks) (b\<lparr>ab_free := bf\<rparr>)
       (put_position (mpa_position ks) (p\<lparr>pos_collateral_free := f\<rparr>) (w\<lparr>w_tokens := ts\<rparr>)) = w'"
    using assms unfolding migrate_prediction_asset_def run_inversions load_question_vault_Inr load_asset_Inr
      load_asset_vault_Inr
    by (elim exE conjE) (rule that; (assumption | rule conjI)+)
  then show thesis using that by auto
qed

lemma put_asset_frame [simp]:
  "w_positions (put_asset k a w) = w_positions w" "w_tokens (put_asset k a w) = w_tokens w"
  "w_spot (put_asset k a w) = w_spot w" "w_predictions (put_asset k a w) = w_predictions w"
  "w_assets (put_asset k a w) = (w_assets w)(k \<mapsto> a)"
  by (simp_all add: put_asset_def)

lemma deposit_collateral_solvent:
  assumes law: "transfer_law tp" and ok: "deposit_prediction_collateral rt tp w ks amount = Inr w'"
    and inv: "question_solvent rt (dpc_market ks) w"
  shows "question_solvent rt (dpc_market ks) w'"
proof (rule deposit_collateral_ok [OF ok], goal_cases)
  case (1 m p ts f dm)
  show ?case
    by (rule cash_solvent [OF inv 1(1-3)])
      (use holds_receive [OF law 1(9,7)] 1(8,10) in \<open>auto simp: add.assoc [symmetric]\<close>)
qed

lemma withdraw_collateral_solvent:
  assumes law: "transfer_law tp" and ok: "withdraw_prediction_collateral rt tp w ks amount = Inr w'"
    and inv: "question_solvent rt (wpc_market ks) w"
  shows "question_solvent rt (wpc_market ks) w'"
proof (rule withdraw_collateral_ok [OF ok], goal_cases)
  case (1 m p ts f dm auth)
  show ?case
    by (rule cash_solvent [OF inv 1(1-3)])
      (use holds_pay [OF law 1(8,6)] 1(7,9) in \<open>auto simp: ac_simps\<close>)
qed

lemma migrate_prediction_solvent:
  assumes law: "transfer_law tp" and ok: "migrate_prediction_asset rt tp w ks amount = Inr w'"
    and inv: "question_solvent rt (mpa_market ks) w"
  shows "question_solvent rt (mpa_market ks) w'"
proof (rule migrate_prediction_ok [OF ok], goal_cases)
  case (1 m p ts f dm auth b bf v)
  show ?case
    by (rule cash_solvent [OF inv 1(1-3)])
      (use holds_pay [OF law 1(9,6)] 1(7,13) in \<open>auto simp: ac_simps\<close>)
qed

section \<open>The shared wallet as the other side\<close>

text \<open>The accounts \<open>load_shared_custody\<close> hands on.\<close>

definition custody_loaded :: "runtime \<Rightarrow> world \<Rightarrow> SharedPredictionCustody \<Rightarrow> shared_custody \<Rightarrow> bool" where
  "custody_loaded rt w ks c \<longleftrightarrow>
     key (sc_market c) = spc_market ks \<and> w_predictions w (spc_market ks) = Some (inner (sc_market c)) \<and>
     key (sc_position c) = spc_position ks \<and> w_positions w (spc_position ks) = Some (inner (sc_position c)) \<and>
     pos_owner (inner (sc_position c)) = spc_owner ks \<and> pos_market (inner (sc_position c)) = spc_market ks \<and>
     key (sc_mint c) = pm_collateral_mint (inner (sc_market c)) \<and>
     w_mints w (key (sc_mint c)) = Some (inner (sc_mint c)) \<and>
     key (sc_asset_balance c) = spc_asset_balance ks \<and>
     w_assets w (spc_asset_balance ks) = Some (inner (sc_asset_balance c)) \<and>
     ab_mint (inner (sc_asset_balance c)) = key (sc_mint c) \<and> ab_owner (inner (sc_asset_balance c)) = spc_owner ks \<and>
     key (sc_asset_vault c) = asset_vault rt (key (sc_mint c)) \<and>
     key (sc_market_vault c) = pm_collateral_vault (inner (sc_market c)) \<and>
     key (sc_asset_vault c) \<noteq> key (sc_market_vault c) \<and>
     w_tokens w (key (sc_asset_vault c)) = Some (inner (sc_asset_vault c)) \<and>
     ta_mint (inner (sc_asset_vault c)) = key (sc_mint c) \<and>
     ta_owner (inner (sc_asset_vault c)) = asset_authority rt (key (sc_mint c)) \<and>
     w_tokens w (key (sc_market_vault c)) = Some (inner (sc_market_vault c)) \<and>
     ta_mint (inner (sc_market_vault c)) = key (sc_mint c) \<and>
     ta_owner (inner (sc_market_vault c)) = address rt (VaultAuthorityPda (spc_market ks))"

lemma load_shared_custody_Inr:
  assumes "load_shared_custody rt w ks body = Inr y"
  obtains c where "custody_loaded rt w ks c" "body c = Inr y"
  using assms
  unfolding load_shared_custody_def run_inversions load_question_vault_Inr load_asset_Inr load_asset_vault_Inr
  by (elim exE conjE) (rule that [rotated], assumption, simp add: custody_loaded_def)

lemma shared_transfer_holds:
  assumes law: "transfer_law tp" and ok: "shared_transfer rt tp ms ts c amount into_reserve = Inr ts'"
    and apart: "key (sc_asset_vault c) \<noteq> key (sc_market_vault c)"
    and old: "holds ts (key (sc_market_vault c)) auth (n + (if into_reserve then 0 else unat amount))"
  shows "holds ts' (key (sc_market_vault c)) auth (n + (if into_reserve then unat amount else 0))"
proof (cases "amount = 0")
  case False
  show ?thesis
  proof (cases into_reserve)
    case True
    with ok False have "transfer_checked tp ms ts (key (sc_asset_vault c)) (key (sc_mint c)) (key (sc_market_vault c))
        (asset_authority rt (key (sc_mint c))) amount (mint_decimals (inner (sc_mint c))) = Inr ts'"
      by (simp add: shared_transfer_def)
    from holds_receive [OF law this apart] old True show ?thesis by simp
  next
    case into: False
    with ok False have "transfer_checked tp ms ts (key (sc_market_vault c)) (key (sc_mint c)) (key (sc_asset_vault c))
        (address rt (VaultAuthorityPda (key (sc_market c)))) amount (mint_decimals (inner (sc_mint c))) = Inr ts'"
      by (simp add: shared_transfer_def)
    from holds_pay [OF law this apart [symmetric]] old into show ?thesis by simp
  qed
qed (use ok old in \<open>auto simp: shared_transfer_def split: if_splits\<close>)

lemma custody_pays:
  assumes law: "transfer_law tp" and c: "custody_loaded rt w ks c"
    and ok: "shared_transfer rt tp ms ts c amount into_reserve = Inr ts'"
  shows "into_reserve \<Longrightarrow> holds ts (pm_collateral_vault (inner (sc_market c))) auth (n + x) \<Longrightarrow>
      holds ts' (pm_collateral_vault (inner (sc_market c))) auth (n + unat amount + x)"
    and "\<not> into_reserve \<Longrightarrow> holds ts (pm_collateral_vault (inner (sc_market c))) auth (n + unat amount + x) \<Longrightarrow>
      holds ts' (pm_collateral_vault (inner (sc_market c))) auth (n + x)"
proof -
  have v: "key (sc_market_vault c) = pm_collateral_vault (inner (sc_market c))"
    "key (sc_asset_vault c) \<noteq> key (sc_market_vault c)"
    using c unfolding custody_loaded_def by blast+
  have swap: "n + unat amount + x = n + x + unat amount" by simp
  show "into_reserve \<Longrightarrow> holds ts (pm_collateral_vault (inner (sc_market c))) auth (n + x) \<Longrightarrow>
      holds ts' (pm_collateral_vault (inner (sc_market c))) auth (n + unat amount + x)"
    using shared_transfer_holds [OF law ok v(2), of auth "n + x"] by (simp only: v(1) swap if_True add_0_right)
  show "\<not> into_reserve \<Longrightarrow> holds ts (pm_collateral_vault (inner (sc_market c))) auth (n + unat amount + x) \<Longrightarrow>
      holds ts' (pm_collateral_vault (inner (sc_market c))) auth (n + x)"
    using shared_transfer_holds [OF law ok v(2), of auth "n + x"] by (simp only: v(1) swap if_False add_0_right)
qed

lemma put_custody_frame [simp]:
  "w_predictions (put_custody c ts m p b w) = (w_predictions w)(key (sc_market c) \<mapsto> m)"
  "w_positions (put_custody c ts m p b w) = (w_positions w)(key (sc_position c) \<mapsto> p)"
  "w_tokens (put_custody c ts m p b w) = ts" "w_spot (put_custody c ts m p b w) = w_spot w"
  "w_assets (put_custody c ts m p b w) = (w_assets w)(key (sc_asset_balance c) \<mapsto> b)"
  by (simp_all add: put_custody_def put_prediction_def)

lemma shared_set_split:
  assumes "shared_complete_set rt tp w ks q True = Inr w'"
  obtains c m' p' b ts amount where "custody_loaded rt w ks c" "pm_status (inner (sc_market c)) = OpenTrading" "0 < q"
    "unat amount = unat q * unat (pm_payout_per_contract (inner (sc_market c)))"
    "shared_transfer rt tp (w_mints w) (w_tokens w) c amount True = Inr ts"
    "sets_move (unat q) (unat q) (unat amount) (inner (sc_market c), inner (sc_position c)) (m', p')"
    "pos_cash p' = pos_cash (inner (sc_position c))"
    "unat (ab_free (inner (sc_asset_balance c))) = unat amount + unat b"
    "w' = put_custody c ts m' p' ((inner (sc_asset_balance c))\<lparr>ab_free := b\<rparr>) w"
proof -
  obtain c amount ts f y n ys ns r where c: "custody_loaded rt w ks c" and "q > 0"
    and status: "pm_status (inner (sc_market c)) = OpenTrading \<and> ilt (unix_timestamp rt) (pm_close_ts (inner (sc_market c)))"
    and amount: "checked_mul q (pm_payout_per_contract (inner (sc_market c))) = Some amount"
    and pay: "shared_transfer rt tp (w_mints w) (w_tokens w) c amount True = Inr ts"
    and f: "checked_sub (ab_free (inner (sc_asset_balance c))) amount = Some f"
    and pos: "checked_add (pos_yes_free (inner (sc_position c))) q = Some y" "checked_add (pos_no_free (inner (sc_position c))) q = Some n"
    and mkt: "checked_add (pm_yes_supply (inner (sc_market c))) q = Some ys" "checked_add (pm_no_supply (inner (sc_market c))) q = Some ns"
      "checked_add (pm_backing_reserve (inner (sc_market c))) amount = Some r"
    and w': "put_custody c ts ((inner (sc_market c))\<lparr>pm_yes_supply := ys, pm_no_supply := ns, pm_backing_reserve := r\<rparr>)
      ((inner (sc_position c))\<lparr>pos_yes_free := y, pos_no_free := n\<rparr>) ((inner (sc_asset_balance c))\<lparr>ab_free := f\<rparr>) w = w'"
    using assms unfolding shared_complete_set_def if_True if_False
    by (elim load_shared_custody_Inr, unfold Let_def require_Inr ok_or_Inr try_in_Inr sum.inject sum_unit ex_unit)
      (elim exE conjE, rule that; (assumption | rule conjI)+)
  let ?m = "inner (sc_market c)" and ?p = "inner (sc_position c)"
  have "sets_move (unat q) (unat q) (unat amount) (?m, ?p)
      (?m\<lparr>pm_yes_supply := ys, pm_no_supply := ns, pm_backing_reserve := r\<rparr>, ?p\<lparr>pos_yes_free := y, pos_no_free := n\<rparr>)"
    by (rule sets_moveI [OF _ _ _ _ _ refl, where f = "pos_collateral_free ?p" and py = y and pn = n])
      (use pos mkt in simp_all)
  then show thesis
    by (rule that [OF c, rotated 4]) (use status amount f pay w' \<open>q > 0\<close> in \<open>auto simp: pos_cash_def\<close>)
qed

lemma shared_set_merge:
  assumes "shared_complete_set rt tp w ks q False = Inr w'"
  obtains c m' p' b ts amount where "custody_loaded rt w ks c" "pm_status (inner (sc_market c)) \<noteq> Resolved" "0 < q"
    "unat amount = unat q * unat (pm_payout_per_contract (inner (sc_market c)))"
    "shared_transfer rt tp (w_mints w) (w_tokens w) c amount False = Inr ts"
    "sets_move (unat q) (unat q) (unat amount) (m', p') (inner (sc_market c), inner (sc_position c))"
    "pos_cash p' = pos_cash (inner (sc_position c))"
    "unat b = unat (ab_free (inner (sc_asset_balance c))) + unat amount"
    "w' = put_custody c ts m' p' ((inner (sc_asset_balance c))\<lparr>ab_free := b\<rparr>) w"
proof -
  obtain c amount ts f y n ys ns r where c: "custody_loaded rt w ks c" and "q > 0"
    and status: "pm_status (inner (sc_market c)) = OpenTrading \<or> pm_status (inner (sc_market c)) = Frozen \<or> pm_status (inner (sc_market c)) = Proposed"
    and amount: "checked_mul q (pm_payout_per_contract (inner (sc_market c))) = Some amount"
    and pay: "shared_transfer rt tp (w_mints w) (w_tokens w) c amount False = Inr ts"
    and f: "checked_add (ab_free (inner (sc_asset_balance c))) amount = Some f"
    and pos: "checked_sub (pos_yes_free (inner (sc_position c))) q = Some y" "checked_sub (pos_no_free (inner (sc_position c))) q = Some n"
    and mkt: "checked_sub (pm_yes_supply (inner (sc_market c))) q = Some ys" "checked_sub (pm_no_supply (inner (sc_market c))) q = Some ns"
      "checked_sub (pm_backing_reserve (inner (sc_market c))) amount = Some r"
    and w': "put_custody c ts ((inner (sc_market c))\<lparr>pm_yes_supply := ys, pm_no_supply := ns, pm_backing_reserve := r\<rparr>)
      ((inner (sc_position c))\<lparr>pos_yes_free := y, pos_no_free := n\<rparr>) ((inner (sc_asset_balance c))\<lparr>ab_free := f\<rparr>) w = w'"
    using assms unfolding shared_complete_set_def if_True if_False
    by (elim load_shared_custody_Inr, unfold Let_def require_Inr ok_or_Inr try_in_Inr sum.inject sum_unit ex_unit)
      (elim exE conjE, rule that; assumption)
  let ?m = "inner (sc_market c)" and ?p = "inner (sc_position c)"
  have "sets_move (unat q) (unat q) (unat amount)
      (?m\<lparr>pm_yes_supply := ys, pm_no_supply := ns, pm_backing_reserve := r\<rparr>, ?p\<lparr>pos_yes_free := y, pos_no_free := n\<rparr>) (?m, ?p)"
    by (rule sets_moveI_back(2)) (use pos mkt in simp_all)
  then show thesis
    by (rule that [OF c, rotated 4]) (use status amount f pay w' \<open>q > 0\<close> in \<open>auto simp: pos_cash_def\<close>)
qed

section \<open>Redemption\<close>

lemma u128_product: "unat (x * y) = unat x * unat y" if "unat x * unat y < 2 ^ 128" for x y :: u128
  using that by (subst unat_mult_lem [THEN iffD1]) simp_all

lemma u128_sum: "unat (u128_from a + u128_from b) = unat a + unat b"
  using unat_u64_bound [of a] unat_u64_bound [of b] by (subst unat_add_lem [THEN iffD1]) simp_all

text \<open>The \<open>u128\<close> products never wrap: the payout is what the contracts are worth.\<close>

lemma payout_amount_exact: "unat (payout_amount outcome yes no payout) = owed outcome (unat yes) (unat no) (unat payout)"
proof -
  have small: "x * y < 2 ^ 128" if "x < 2 ^ 64" "y < 2 ^ 64" for x y :: nat
  proof -
    have "x * y \<le> (2 ^ 64 - 1) * (2 ^ 64 - 1)" by (rule mult_le_mono) (use that in simp_all)
    then show ?thesis by simp
  qed
  have half: "unat (payout div 2) = unat payout div 2" by (simp add: unat_div)
  have "(unat yes + unat no) * (unat payout div 2) \<le> (2 ^ 65 - 2) * (2 ^ 63 - 1)"
    by (rule mult_le_mono) (use unat_u64_bound [of yes] unat_u64_bound [of no] unat_u64_bound [of payout] in simp_all)
  then have inv: "(unat yes + unat no) * (unat payout div 2) < 2 ^ 128" by simp
  show ?thesis
    using small [OF unat_u64_bound unat_u64_bound] inv
    by (cases outcome) (simp_all add: payout_amount_def u128_product u128_sum half)
qed

lemma redeem_ok:
  assumes "redeem_prediction rt tp w ks yes no = Inr w'"
  obtains c m' p' outcome b ts amount where "custody_loaded rt w ks c" "pm_status (inner (sc_market c)) = Resolved"
    "pm_final_outcome (inner (sc_market c)) = Some outcome"
    "unat amount = owed outcome (unat yes) (unat no) (unat (pm_payout_per_contract (inner (sc_market c))))"
    "shared_transfer rt tp (w_mints w) (w_tokens w) c amount False = Inr ts"
    "sets_move (unat yes) (unat no) (unat amount) (m', p') (inner (sc_market c), inner (sc_position c))"
    "pos_cash p' = pos_cash (inner (sc_position c))"
    "unat b = unat (ab_free (inner (sc_asset_balance c))) + unat amount"
    "w' = put_custody c ts m' p' ((inner (sc_asset_balance c))\<lparr>ab_free := b\<rparr>) w"
proof -
  obtain c amount ts f y n ys ns r outcome where c: "custody_loaded rt w ks c"
    and status: "pm_status (inner (sc_market c)) = Resolved" "pm_final_outcome (inner (sc_market c)) = Some outcome"
    and amount: "u64_try_from (payout_amount outcome yes no (pm_payout_per_contract (inner (sc_market c)))) = Some amount"
    and pay: "shared_transfer rt tp (w_mints w) (w_tokens w) c amount False = Inr ts"
    and f: "checked_add (ab_free (inner (sc_asset_balance c))) amount = Some f"
    and pos: "checked_sub (pos_yes_free (inner (sc_position c))) yes = Some y" "checked_sub (pos_no_free (inner (sc_position c))) no = Some n"
    and mkt: "checked_sub (pm_yes_supply (inner (sc_market c))) yes = Some ys" "checked_sub (pm_no_supply (inner (sc_market c))) no = Some ns"
      "checked_sub (pm_backing_reserve (inner (sc_market c))) amount = Some r"
    and w': "put_custody c ts ((inner (sc_market c))\<lparr>pm_yes_supply := ys, pm_no_supply := ns, pm_backing_reserve := r\<rparr>)
      ((inner (sc_position c))\<lparr>pos_yes_free := y, pos_no_free := n\<rparr>) ((inner (sc_asset_balance c))\<lparr>ab_free := f\<rparr>) w = w'"
    using assms unfolding redeem_prediction_def
    by (elim load_shared_custody_Inr, unfold Let_def require_Inr ok_or_Inr try_in_Inr sum.inject)
      (elim exE conjE, rule that; assumption)
  let ?m = "inner (sc_market c)" and ?p = "inner (sc_position c)"
  have "sets_move (unat yes) (unat no) (unat amount)
      (?m\<lparr>pm_yes_supply := ys, pm_no_supply := ns, pm_backing_reserve := r\<rparr>, ?p\<lparr>pos_yes_free := y, pos_no_free := n\<rparr>) (?m, ?p)"
    by (rule sets_moveI_back(2)) (use pos mkt in simp_all)
  then show thesis
    by (rule that [OF c status, rotated 2])
      (use amount f pay w' payout_amount_exact in \<open>auto simp: pos_cash_def\<close>)
qed

section \<open>Every shared instruction keeps the question solvent\<close>

lemma shared_set_solvent:
  assumes law: "transfer_law tp" and ok: "shared_complete_set rt tp w ks q into_set = Inr w'"
    and inv: "question_solvent rt (spc_market ks) w"
  shows "question_solvent rt (spc_market ks) w'"
proof (cases into_set)
  case True
  then have ok: "shared_complete_set rt tp w ks q True = Inr w'" using ok by simp
  show ?thesis
  proof (rule shared_set_split [OF ok], goal_cases)
    case (1 c m' p' b ts amount)
    show ?case
      by (rule sets_enter_solvent [OF inv _ _ _ 1(6)])
        (use 1(1) 1(2,4,7,9) custody_pays(1) [OF law 1(1,5)] in \<open>auto simp: worth_def custody_loaded_def\<close>)
  qed
next
  case False
  then have ok: "shared_complete_set rt tp w ks q False = Inr w'" using ok by simp
  show ?thesis
  proof (rule shared_set_merge [OF ok], goal_cases)
    case (1 c m' p' b ts amount)
    show ?case
      by (rule sets_leave_solvent [OF inv _ _ _ 1(6)])
        (use 1(1) 1(2,4,7,9) custody_pays(2) [OF law 1(1,5)] in \<open>auto simp: worth_def custody_loaded_def\<close>)
  qed
qed

lemma redeem_solvent:
  assumes law: "transfer_law tp" and ok: "redeem_prediction rt tp w ks yes no = Inr w'"
    and inv: "question_solvent rt (spc_market ks) w"
  shows "question_solvent rt (spc_market ks) w'"
proof (rule redeem_ok [OF ok], goal_cases)
  case (1 c m' p' outcome b ts amount)
  show ?case
    by (rule sets_leave_solvent [OF inv _ _ _ 1(6)])
      (use 1(1) 1(2-4,7,9) custody_pays(2) [OF law 1(1,5)] in \<open>auto simp: worth_def custody_loaded_def\<close>)
qed

section \<open>The steps of a question\<close>

inductive prediction_trade :: "runtime \<Rightarrow> pubkey \<Rightarrow> world \<Rightarrow> world \<Rightarrow> bool" for rt k where
  pt_place: "place_prediction_order rt w pks i oc sd price q = Inr w' \<Longrightarrow> ppo_market pks = k \<Longrightarrow> prediction_trade rt k w w'"
| pt_append: "append_prediction_order rt w pks t i oc sd price q = Inr w' \<Longrightarrow> ppo_market pks = k \<Longrightarrow>
    prediction_trade rt k w w'"
| pt_insert: "insert_prediction_order rt w pks b l i oc sd price q = Inr w' \<Longrightarrow> ppo_market pks = k \<Longrightarrow>
    prediction_trade rt k w w'"
| pt_cancel: "cancel_prediction_order rt w cks i = Inr w' \<Longrightarrow> cpo_market cks = k \<Longrightarrow> prediction_trade rt k w w'"
| pt_match: "match_prediction_order rt w mks oc ts lim q = Inr w' \<Longrightarrow> mpo_market mks = k \<Longrightarrow> prediction_trade rt k w w'"

inductive prediction_funding :: "runtime \<Rightarrow> token_program \<Rightarrow> pubkey \<Rightarrow> world \<Rightarrow> world \<Rightarrow> bool" for rt tp k where
  pf_position: "initialize_prediction_position rt w iks = Inr w' \<Longrightarrow> prediction_funding rt tp k w w'"
| pf_deposit: "deposit_prediction_collateral rt tp w dks amount = Inr w' \<Longrightarrow> dpc_market dks = k \<Longrightarrow>
    prediction_funding rt tp k w w'"
| pf_withdraw: "withdraw_prediction_collateral rt tp w wks amount = Inr w' \<Longrightarrow> wpc_market wks = k \<Longrightarrow>
    prediction_funding rt tp k w w'"
| pf_migrate: "migrate_prediction_asset rt tp w aks amount = Inr w' \<Longrightarrow> mpa_market aks = k \<Longrightarrow>
    prediction_funding rt tp k w w'"
| pf_split: "split_prediction_complete_set rt w sks q = Inr w' \<Longrightarrow> pcs_market sks = k \<Longrightarrow> prediction_funding rt tp k w w'"
| pf_merge: "merge_prediction_complete_set rt w sks q = Inr w' \<Longrightarrow> pcs_market sks = k \<Longrightarrow> prediction_funding rt tp k w w'"
| pf_shared: "shared_complete_set rt tp w cks q into_set = Inr w' \<Longrightarrow> spc_market cks = k \<Longrightarrow>
    prediction_funding rt tp k w w'"
| pf_redeem: "redeem_prediction rt tp w cks yes no = Inr w' \<Longrightarrow> spc_market cks = k \<Longrightarrow> prediction_funding rt tp k w w'"

inductive prediction_lifecycle_step :: "runtime \<Rightarrow> pubkey \<Rightarrow> world \<Rightarrow> world \<Rightarrow> bool" for rt k where
  pl_open: "open_prediction_market rt w oks = Inr w' \<Longrightarrow> opm_market oks = k \<Longrightarrow> prediction_lifecycle_step rt k w w'"
| pl_propose: "propose_prediction rt w rks outcome uri hash correction = Inr w' \<Longrightarrow> rp_market rks = k \<Longrightarrow>
    prediction_lifecycle_step rt k w w'"
| pl_close: "close_prediction_trading rt w rks = Inr w' \<Longrightarrow> rp_market rks = k \<Longrightarrow> prediction_lifecycle_step rt k w w'"
| pl_advance: "advance_prediction rt w aks action = Inr w' \<Longrightarrow> ap_market aks = k \<Longrightarrow>
    prediction_lifecycle_step rt k w w'"

lemma prediction_lifecycle_solvent:
  assumes "prediction_lifecycle_step rt' k w w'" "question_solvent rt k w"
  shows "question_solvent rt k w'"
  using assms
proof cases
  case (pl_propose rks outcome uri hash correction)
  then show ?thesis using propose_solvent assms(2) by blast
qed (auto dest: open_moves close_trading_moves advance_moves intro: moves_at_solvent)

inductive question_step :: "runtime \<Rightarrow> token_program \<Rightarrow> pubkey \<Rightarrow> world \<Rightarrow> world \<Rightarrow> bool" for rt tp k where
  qs_trade: "prediction_trade (at_time now rt) k w w' \<Longrightarrow> question_step rt tp k w w'"
| qs_funding: "prediction_funding (at_time now rt) tp k w w' \<Longrightarrow> question_step rt tp k w w'"
| qs_lifecycle: "prediction_lifecycle_step (at_time now rt) k w w' \<Longrightarrow> question_step rt tp k w w'"
| qs_shared: "shared_trade (at_time now rt) kb w w' \<Longrightarrow> finite_claims w \<Longrightarrow> question_step rt tp k w w'"
| qs_outside: "outside_question rt k w w' \<Longrightarrow> question_step rt tp k w w'"

lemma prediction_trade_keeps:
  assumes "prediction_trade rt k w w'" "finite (dom (w_positions w))"
  shows "claims_kept rt k w w'"
  using assms(1)
  by cases (auto dest: place_prediction_keeps [OF _ assms(2)] append_prediction_keeps [OF _ assms(2)]
      insert_prediction_keeps [OF _ assms(2)] cancel_prediction_keeps [OF _ assms(2)]
      match_prediction_keeps [OF _ assms(2)])

lemma prediction_funding_solvent:
  assumes "prediction_funding rt tp k w w'" "transfer_law tp" "question_solvent rt k w"
  shows "question_solvent rt k w'"
  using assms(1,3)
  by cases (auto dest: position_solvent deposit_collateral_solvent [OF assms(2)] withdraw_collateral_solvent [OF assms(2)]
      migrate_prediction_solvent [OF assms(2)] split_solvent merge_solvent shared_set_solvent [OF assms(2)]
      redeem_solvent [OF assms(2)])

text \<open>Orders of shared books, this question's or any other's, move claims between positions only.\<close>

lemma shared_effect_totals:
  assumes eff: "shared_effect w kb w'"
  shows "question_total (pos_contracts oc) k w' = question_total (pos_contracts oc) k w"
    and "question_total pos_cash k w' = question_total pos_cash k w"
proof -
  show "question_total (pos_contracts oc) k w' = question_total (pos_contracts oc) k w"
    unfolding question_total_def
    by (rule shared_effect_positions [OF eff, where y = "if oc = YesOutcome then 1 else 0"
          and n = "if oc = NoOutcome then 1 else 0" and c = 0 and k = k])
      (cases oc; simp add: question_worth of_question_def)
  show "question_total pos_cash k w' = question_total pos_cash k w"
    unfolding question_total_def
    by (rule shared_effect_positions [OF eff, where y = 0 and n = 0 and c = 1 and k = k])
      (simp add: question_worth of_question_def pos_cash_def)
qed

lemma shared_effect_keeps:
  assumes eff: "shared_effect w kb w'" and m: "w_predictions w k = Some m"
  shows "claims_kept rt k w w'"
proof -
  have "finite (dom (w_positions w'))" "w_tokens w' = w_tokens w" "w_spot w' = w_spot w"
    "w_predictions w' = w_predictions w"
    using eff by (simp_all add: shared_effect_def finite_claims_def)
  moreover have "order_terms_kept m m" unfolding order_terms_kept_def by (rule exI [of _ "pm_open_order_count m"]) simp
  ultimately show ?thesis using shared_effect_totals [OF eff] m by (simp add: claims_kept_def)
qed

lemma question_step_solvent:
  assumes "transfer_law tp" "question_step rt tp k w w'" and inv: "question_solvent rt k w"
  shows "question_solvent rt k w'"
  using assms(2)
proof cases
  case (qs_trade now)
  have "finite (dom (w_positions w))" using inv by (simp add: question_solvent_def)
  from claims_kept_solvent [OF prediction_trade_keeps [OF qs_trade this]] inv show ?thesis by simp
next
  case (qs_funding now)
  from prediction_funding_solvent [OF qs_funding assms(1)] inv show ?thesis by simp
next
  case (qs_lifecycle now)
  from prediction_lifecycle_solvent [OF qs_lifecycle inv] show ?thesis .
next
  case (qs_shared now kb)
  obtain m where "w_predictions w k = Some m" using inv by (auto simp: question_solvent_def)
  from claims_kept_solvent [OF shared_effect_keeps [OF shared_trade_effect [OF qs_shared] this] inv] show ?thesis .
next
  case qs_outside
  from outside_question_solvent [OF qs_outside inv] show ?thesis .
qed

text \<open>A question just created, with no position left over under its address.\<close>

definition question_start :: "runtime \<Rightarrow> pubkey \<Rightarrow> world \<Rightarrow> bool" where
  "question_start rt k w \<longleftrightarrow>
     (\<exists>now w0 ks market_id config name symbol.
        initialize_prediction_market (at_time now rt) w0 ks market_id config name symbol = Inr w \<and>
        ipm_market ks = k \<and> finite (dom (w_positions w0)) \<and> (\<forall>j p. w_positions w0 j = Some p \<longrightarrow> pos_market p \<noteq> k))"

text \<open>A question is created solvent as soon as no position claims anything on its address.\<close>

definition unclaimed :: "pubkey \<Rightarrow> world \<Rightarrow> bool" where
  "unclaimed k w \<longleftrightarrow> (\<forall>oc. question_total (pos_contracts oc) k w = 0) \<and> question_total pos_cash k w = 0"

lemma created_solvent:
  assumes ok: "initialize_prediction_market rt w0 ks market_id config name symbol = Inr w"
    and fin: "finite (dom (w_positions w0))" and none: "unclaimed (ipm_market ks) w0"
  shows "question_solvent rt (ipm_market ks) w"
proof (rule initialize_prediction_ok [OF ok], goal_cases)
  case (1 b)
  let ?m = "new_prediction_market ks market_id config b"
  have "question_total f (ipm_market ks) w = question_total f (ipm_market ks) w0" for f
    by (simp add: question_total_def 1(11))
  with none have zero: "question_total (pos_contracts oc) (ipm_market ks) w = 0" "question_total pos_cash (ipm_market ks) w = 0"
    for oc by (simp_all add: unclaimed_def)
  have "0 < pc_payout_per_contract config \<and> even (unat (pc_payout_per_contract config))"
    using 1(3) by (simp add: validate_config_iff config_terms_def Let_def)
  then have "reserve_exact ?m"
    by (simp add: reserve_exact_def Let_def new_prediction_market_def word_less_nat_alt)
  moreover have "accrued_fees rt (ipm_market ks) (w_spot w) = 0" using 1(17) by simp
  ultimately show ?case
    using 1(9,10,11,15) fin
    by (auto simp: question_solvent_def zero outcome_supply_def question_liability_def holds_def
        new_prediction_market_def new_token_account_def split: PredictionOutcome.split)
qed

lemma no_positions_unclaimed:
  assumes "\<And>j p. w_positions w j = Some p \<Longrightarrow> pos_market p \<noteq> k"
  shows "unclaimed k w"
  using assms by (auto simp: unclaimed_def question_total_def store_sum_def of_question_def split: option.splits)

lemma question_start_solvent: "question_start rt k w \<Longrightarrow> question_solvent rt k w"
  using created_solvent no_positions_unclaimed unfolding question_start_def
  by (metis reads_at_time(5))

lemma question_solvent_reach:
  assumes "transfer_law tp" "reach (question_start rt k) (question_step rt tp k) w"
  shows "question_solvent rt k w"
  using assms(2)
proof induction
  case (reach_init s)
  then show ?case by (rule question_start_solvent)
next
  case (reach_step s t)
  then show ?case using question_step_solvent [OF assms(1)] by blast
qed

end
