(* ===== verification/Prediction_Claims.thy ===== *)
theory Prediction_Claims
  imports Prediction_Reserve
begin

text \<open>
  What the custody of a question promises its users: it is always backed, every holder can redeem
  after the outcome, complete sets are reversible before it, and trading only redistributes.
\<close>

section \<open>Redemption cannot fail\<close>

lemma load_shared_custody_apply:
  assumes "load_shared_custody rt w ks Inr = Inr c"
  shows "load_shared_custody rt w ks f = f c"
  using assms unfolding load_shared_custody_def run_inversions load_question_vault_Inr load_asset_Inr load_asset_vault_Inr
  by (elim exE conjE) (simp add: load_prediction_def load_question_vault_def load_asset_def load_asset_vault_def
      load_def require_def ok_or_def)

lemma owed_mono: "y \<le> y' \<Longrightarrow> n \<le> n' \<Longrightarrow> owed oc y n payout \<le> owed oc y' n' payout"
  by (cases oc) (simp_all add: mult_le_mono)

lemma pos_contracts_le_supply:
  assumes "question_solvent rt k w" "w_predictions w k = Some m" "w_positions w j = Some p" "pos_market p = k"
  shows "pos_contracts oc p \<le> outcome_supply oc m"
proof -
  have "of_question k (pos_contracts oc) p \<le> question_total (pos_contracts oc) k w"
    unfolding question_total_def
    by (rule store_sum_member) (use assms in \<open>auto simp: question_solvent_def\<close>)
  with assms show ?thesis by (auto simp: question_solvent_def of_question_def)
qed

text \<open>With a solvent question behind it, the body of \<open>redeem_prediction\<close> cannot fail.\<close>

lemma redeemable:
  assumes live: "transfer_live tp" and inv: "question_solvent rt (spc_market ks) w" and loaded: "load_shared_custody rt w ks Inr = Inr c"
    and outcome: "pm_status (inner (sc_market c)) = Resolved" "pm_final_outcome (inner (sc_market c)) = Some outcome"
    and free: "yes \<le> pos_yes_free (inner (sc_position c))" "no \<le> pos_no_free (inner (sc_position c))" "0 < yes \<or> 0 < no"
    and worth: "due = owed outcome (unat yes) (unat no) (unat (pm_payout_per_contract (inner (sc_market c))))"
    and fits: "unat (ab_free (inner (sc_asset_balance c))) + due < 2 ^ 64"
      "unat (ta_amount (inner (sc_asset_vault c))) + due < 2 ^ 64"
    and thawed: "due = 0 \<or> \<not> ta_frozen (inner (sc_market_vault c)) \<and> \<not> ta_frozen (inner (sc_asset_vault c))"
  shows "\<exists>w'. redeem_prediction rt tp w ks yes no = Inr w'"
proof -
  let ?m = "inner (sc_market c)" and ?p = "inner (sc_position c)" and ?b = "inner (sc_asset_balance c)"
  let ?P = "unat (pm_payout_per_contract ?m)" and ?k = "spc_market ks"
  have c: "custody_loaded rt w ks c" by (rule load_shared_custody_Inr [OF loaded]) simp
  have m: "w_predictions w ?k = Some ?m" and p: "w_positions w (spc_position ks) = Some ?p" "pos_market ?p = ?k"
    using c unfolding custody_loaded_def by blast+
  have sup: "unat yes \<le> unat (pm_yes_supply ?m)" "unat no \<le> unat (pm_no_supply ?m)"
    using pos_contracts_le_supply [OF inv m p, of YesOutcome] pos_contracts_le_supply [OF inv m p, of NoOutcome] free(1,2)
    by (simp_all add: outcome_supply_def word_le_nat_alt)
  have exact: "reserve_exact ?m"
    and vault: "holds (w_tokens w) (pm_collateral_vault ?m) (address rt (VaultAuthorityPda ?k)) (question_liability rt ?k ?m w)"
    using inv m by (auto simp: question_solvent_def)
  have reserve: "unat (pm_backing_reserve ?m) = owed outcome (unat (pm_yes_supply ?m)) (unat (pm_no_supply ?m)) ?P"
    and payout: "0 < pm_payout_per_contract ?m" "is_multiple_of (pm_payout_per_contract ?m) 2"
    using exact outcome by (auto simp: reserve_exact_def Let_def is_multiple_of_iff word_less_nat_alt)
  have due: "due \<le> unat (pm_backing_reserve ?m)"
    unfolding reserve worth by (rule owed_mono) (use sup in simp_all)
  define amount :: u64 where "amount = of_nat due"
  have amt: "unat amount = due"
    unfolding amount_def using due unat_u64_bound [of "pm_backing_reserve ?m"]
    by (simp add: unat_of_nat)
  have conv: "u64_try_from (payout_amount outcome yes no (pm_payout_per_contract ?m)) = Some amount"
    by (simp add: amt worth payout_amount_exact)
  obtain ts where ts: "shared_transfer rt tp (w_mints w) (w_tokens w) c amount False = Inr ts"
  proof (cases "amount = 0")
    case True
    then show thesis using that by (simp add: shared_transfer_def)
  next
    case False
    have v: "w_tokens w (key (sc_market_vault c)) = Some (inner (sc_market_vault c))"
      "w_tokens w (key (sc_asset_vault c)) = Some (inner (sc_asset_vault c))"
      "key (sc_market_vault c) \<noteq> key (sc_asset_vault c)" "key (sc_market c) = ?k"
      "ta_owner (inner (sc_market_vault c)) = address rt (VaultAuthorityPda ?k)"
      "ta_mint (inner (sc_market_vault c)) = key (sc_mint c)" "ta_mint (inner (sc_asset_vault c)) = key (sc_mint c)"
      "key (sc_market_vault c) = pm_collateral_vault ?m" "w_mints w (key (sc_mint c)) = Some (inner (sc_mint c))"
      using c unfolding custody_loaded_def by metis+
    have open': "\<not> ta_frozen (inner (sc_market_vault c))" "\<not> ta_frozen (inner (sc_asset_vault c))"
      using thawed False amt by (auto simp: word_unat_eq_iff)
    have "unat amount \<le> unat (ta_amount (inner (sc_market_vault c)))"
      using vault v(1,8) due by (auto simp: holds_def amt question_liability_def)
    moreover have "unat (ta_amount (inner (sc_asset_vault c))) + unat amount < 2 ^ 64" using fits by (simp only: amt)
    ultimately have "\<exists>ts. transfer_checked tp (w_mints w) (w_tokens w) (key (sc_market_vault c)) (key (sc_mint c)) (key (sc_asset_vault c))
        (address rt (VaultAuthorityPda (key (sc_market c)))) amount (mint_decimals (inner (sc_mint c))) = Inr ts"
      using live v open' unfolding transfer_live_def by metis
    then show thesis using that False by (auto simp: shared_transfer_def)
  qed
  obtain y n ys ns r f where "checked_sub (pos_yes_free ?p) yes = Some y" "checked_sub (pos_no_free ?p) no = Some n"
    "checked_sub (pm_yes_supply ?m) yes = Some ys" "checked_sub (pm_no_supply ?m) no = Some ns"
    "checked_sub (pm_backing_reserve ?m) amount = Some r" "checked_add (ab_free ?b) amount = Some f"
    using free(1,2) sup due fits(1) that unfolding checked_sub_def checked_add_def word_le_nat_alt amt by simp
  then show ?thesis
    unfolding redeem_prediction_def load_shared_custody_apply [OF loaded]
    using outcome free(3) payout conv ts
    by (simp add: Let_def require_def ok_or_def try_in_def del: checked_sub_Some checked_add_Some u64_try_from_Some)
qed

lemma custody_loaded_same:
  assumes "custody_loaded rt w ks c" "custody_loaded rt w ks c'"
  shows "inner (sc_market c') = inner (sc_market c)" "inner (sc_asset_balance c') = inner (sc_asset_balance c)"
    "inner (sc_position c') = inner (sc_position c)" "key (sc_asset_balance c') = spc_asset_balance ks"
  using assms unfolding custody_loaded_def by (metis option.inject)+

lemma sets_move_inverse:
  assumes "sets_move a b c (m, p) (m1, p1)" "sets_move a b c (m2, p2) (m1, p1)" "pos_cash p2 = pos_cash p"
  shows "m2 = m \<and> p2 = p"
proof -
  obtain y n r f py pn y2 n2 r2 f2 py2 pn2 where
    "m1 = m\<lparr>pm_yes_supply := y, pm_no_supply := n, pm_backing_reserve := r\<rparr>"
    "p1 = p\<lparr>pos_collateral_free := f, pos_yes_free := py, pos_no_free := pn\<rparr>"
    "m1 = m2\<lparr>pm_yes_supply := y2, pm_no_supply := n2, pm_backing_reserve := r2\<rparr>"
    "p1 = p2\<lparr>pos_collateral_free := f2, pos_yes_free := py2, pos_no_free := pn2\<rparr>"
    and sums: "outcome_supply YesOutcome m = outcome_supply YesOutcome m2" "outcome_supply NoOutcome m = outcome_supply NoOutcome m2"
      "pos_contracts YesOutcome p = pos_contracts YesOutcome p2" "pos_contracts NoOutcome p = pos_contracts NoOutcome p2"
      "unat (pm_backing_reserve m) = unat (pm_backing_reserve m2)"
    using assms(1,2) unfolding sets_move_def prod.case
    by (elim exE conjE) (rule that, assumption+, simp_all)
  then show ?thesis
    using assms(3)
    by (cases m; cases p; cases m2; cases p2) (simp add: outcome_supply_def pos_cash_def word_unat_eq_iff)
qed

text \<open>A solvent question, spelled out.\<close>

lemma question_backed:
  assumes "question_solvent rt k w"
  shows "\<exists>m. w_predictions w k = Some m \<and>
    question_total (pos_contracts YesOutcome) k w = unat (pm_yes_supply m) \<and>
    question_total (pos_contracts NoOutcome) k w = unat (pm_no_supply m) \<and>
    (pm_status m \<noteq> Resolved \<longrightarrow> pm_yes_supply m = pm_no_supply m \<and>
       unat (pm_backing_reserve m) = unat (pm_yes_supply m) * unat (pm_payout_per_contract m)) \<and>
    (pm_status m = Resolved \<longrightarrow> (\<exists>outcome. pm_final_outcome m = Some outcome \<and>
       unat (pm_backing_reserve m) =
         owed outcome (unat (pm_yes_supply m)) (unat (pm_no_supply m)) (unat (pm_payout_per_contract m)))) \<and>
    unat (pm_backing_reserve m) + question_total pos_cash k w + accrued_fees rt k (w_spot w)
      \<le> vault_amount rt k (pm_collateral_mint m) w"
proof -
  obtain m where m: "w_predictions w k = Some m" "reserve_exact m"
    "pm_collateral_vault m = vault rt k (pm_collateral_mint m)"
    "\<And>oc. question_total (pos_contracts oc) k w = outcome_supply oc m"
    "holds (w_tokens w) (pm_collateral_vault m) (address rt (VaultAuthorityPda k)) (question_liability rt k m w)"
    by (rule question_solventE [OF assms]) blast
  have "question_liability rt k m w \<le> vault_amount rt k (pm_collateral_mint m) w"
    using m(3,5) by (auto simp: holds_def vault_amount_def token_amount_def)
  with m(1,2,4) show ?thesis
    by (auto simp: reserve_exact_def Let_def outcome_supply_def question_liability_def word_unat_eq_iff)
qed

text \<open>Redeeming from a solvent question succeeds and pays what the contracts are worth.\<close>

lemma redemption_pays:
  assumes laws: "transfer_law tp" "transfer_live tp" and inv: "question_solvent rt k w"
    and loaded: "load_shared_custody rt w ks Inr = Inr c" "spc_market ks = k"
    and outcome: "pm_status (inner (sc_market c)) = Resolved" "pm_final_outcome (inner (sc_market c)) = Some outcome"
    and free: "yes \<le> pos_yes_free (inner (sc_position c))" "no \<le> pos_no_free (inner (sc_position c))" "0 < yes \<or> 0 < no"
    and worth: "due = owed outcome (unat yes) (unat no) (unat (pm_payout_per_contract (inner (sc_market c))))"
    and fits: "unat (ab_free (inner (sc_asset_balance c))) + due < 2 ^ 64"
      "unat (ta_amount (inner (sc_asset_vault c))) + due < 2 ^ 64"
    and thawed: "due = 0 \<or> \<not> ta_frozen (inner (sc_market_vault c)) \<and> \<not> ta_frozen (inner (sc_asset_vault c))"
  shows "\<exists>w' b. redeem_prediction rt tp w ks yes no = Inr w' \<and>
    w_assets w' (spc_asset_balance ks) = Some b \<and>
    unat (ab_free b) = unat (ab_free (inner (sc_asset_balance c))) + due \<and> question_solvent rt k w'"
proof -
  let ?m = "inner (sc_market c)" and ?p = "inner (sc_position c)" and ?b = "inner (sc_asset_balance c)"
  have c: "custody_loaded rt w ks c" by (rule load_shared_custody_Inr [OF loaded(1)]) simp
  have inv': "question_solvent rt (spc_market ks) w" using inv by (simp add: loaded(2))
  obtain w' where w': "redeem_prediction rt tp w ks yes no = Inr w'"
    using redeemable [OF laws(2) inv' loaded(1) outcome free worth fits thawed] by blast
  show ?thesis
  proof (rule redeem_ok [OF w'], goal_cases)
    case (1 c' m' p' oc b ts amount)
    note same = custody_loaded_same [OF c 1(1)]
    have assets: "w_assets w' (spc_asset_balance ks) = Some (?b\<lparr>ab_free := b\<rparr>)" by (simp add: 1(9) same)
    have "oc = outcome" using 1(3) outcome(2) by (simp add: same)
    then have "unat (ab_free (?b\<lparr>ab_free := b\<rparr>)) = unat (ab_free ?b) + due"
      using 1(4,8) by (simp add: same worth)
    with w' assets redeem_solvent [OF laws(1) w' inv'] show ?case unfolding loaded(2) by blast
  qed
qed

section \<open>Properties\<close>

text \<open>A question is always fully backed, whatever steps of the question machine of
  \<open>Prediction_Reserve\<close> run from its creation on.\<close>

theorem question_stays_backed:
  assumes "transfer_law tp" "reach (question_start rt k) (question_step rt tp k) w"
  shows "\<exists>m. w_predictions w k = Some m \<and>
    question_total (pos_contracts YesOutcome) k w = unat (pm_yes_supply m) \<and>
    question_total (pos_contracts NoOutcome) k w = unat (pm_no_supply m) \<and>
    (pm_status m \<noteq> Resolved \<longrightarrow> pm_yes_supply m = pm_no_supply m \<and>
       unat (pm_backing_reserve m) = unat (pm_yes_supply m) * unat (pm_payout_per_contract m)) \<and>
    (pm_status m = Resolved \<longrightarrow> (\<exists>outcome. pm_final_outcome m = Some outcome \<and>
       unat (pm_backing_reserve m) =
         owed outcome (unat (pm_yes_supply m)) (unat (pm_no_supply m)) (unat (pm_payout_per_contract m)))) \<and>
    unat (pm_backing_reserve m) + question_total pos_cash k w + accrued_fees rt k (w_spot w)
      \<le> vault_amount rt k (pm_collateral_mint m) w"
  by (rule question_backed [OF question_solvent_reach [OF assms]])

text \<open>Every holder can redeem, in every reachable resolved question of that machine.\<close>

theorem holders_can_redeem:
  assumes laws: "transfer_law tp" "transfer_live tp"
    and reach: "reach (question_start rt k) (question_step rt tp k) w"
    and loaded: "load_shared_custody rt w ks Inr = Inr c" "spc_market ks = k"
    and outcome: "pm_status (inner (sc_market c)) = Resolved" "pm_final_outcome (inner (sc_market c)) = Some outcome"
    and free: "yes \<le> pos_yes_free (inner (sc_position c))" "no \<le> pos_no_free (inner (sc_position c))" "0 < yes \<or> 0 < no"
    and worth: "due = owed outcome (unat yes) (unat no) (unat (pm_payout_per_contract (inner (sc_market c))))"
    and fits: "unat (ab_free (inner (sc_asset_balance c))) + due < 2 ^ 64"
      "unat (ta_amount (inner (sc_asset_vault c))) + due < 2 ^ 64"
    and thawed: "due = 0 \<or> \<not> ta_frozen (inner (sc_market_vault c)) \<and> \<not> ta_frozen (inner (sc_asset_vault c))"
  shows "\<exists>w' b. redeem_prediction rt tp w ks yes no = Inr w' \<and>
    w_assets w' (spc_asset_balance ks) = Some b \<and>
    unat (ab_free b) = unat (ab_free (inner (sc_asset_balance c))) + due \<and> question_solvent rt k w'"
  by (rule redemption_pays [OF laws question_solvent_reach [OF laws(1) reach] loaded outcome free worth fits thawed])

text \<open>C25: Splitting and merging are inverse. Splitting a complete set and merging the same quantity
  again restores every account, cash, claims, supplies and reserve included.\<close>

theorem split_merge_roundtrip:
  assumes s: "split_prediction_complete_set rt w ks q = Inr w1"
    and m: "merge_prediction_complete_set rt' w1 ks q = Inr w2"
  shows "w2 = w"
proof (rule split_ok [OF s], rule merge_ok [OF m], goal_cases)
  case (1 m p m1 p1 m1' p1' m2 p2)
  have eqs: "m1' = m1" "p1' = p1" using 1(8,9,10) by auto
  have payout: "pm_payout_per_contract m1 = pm_payout_per_contract m" using sets_move_frame(5) [OF 1(6)] .
  have "m2 = m \<and> p2 = p"
    by (rule sets_move_inverse [OF 1(6) 1(14) [unfolded eqs payout]]) (use 1(7,15) in \<open>simp add: eqs payout\<close>)
  with 1(1,2,8,16) show ?case by (simp add: put_sets_def put_prediction_def put_position_def fun_upd_idem)
qed

text \<open>C24: Trading on a question only redistributes. Whatever order instruction runs, no token moves,
  nobody's collateral is created or lost beyond the taker fee that accrues, the number of YES and
  of NO contracts in all positions is unchanged, and of the market record only the open-order
  counter may change.\<close>

theorem prediction_trades_conserve:
  assumes "prediction_trade rt k w w'" "finite (dom (w_positions w))"
  shows "w_tokens w' = w_tokens w \<and>
    (\<forall>oc. question_total (pos_contracts oc) k w' = question_total (pos_contracts oc) k w) \<and>
    question_total pos_cash k w' + accrued_fees rt k (w_spot w') =
      question_total pos_cash k w + accrued_fees rt k (w_spot w) \<and>
    (\<exists>m c. w_predictions w k = Some m \<and> w_predictions w' k = Some (m\<lparr>pm_open_order_count := c\<rparr>))"
proof -
  have kept: "claims_kept rt k w w'" by (rule prediction_trade_keeps [OF assms])
  then have "\<exists>m c. w_predictions w k = Some m \<and> w_predictions w' k = Some (m\<lparr>pm_open_order_count := c\<rparr>)"
    unfolding claims_kept_def order_terms_kept_def by (elim exE conjE) (intro exI conjI, assumption, simp only:)
  with kept show ?thesis by (simp only: claims_kept_def simp_thms)
qed

end
