(* ===== verification/Prediction_Demo.thy ===== *)
theory Prediction_Demo
  imports Program_Demo Prediction_Claims
begin

text \<open>
  A concrete question, from its creation to a redemption: an admin creates and opens it, a trader
  deposits, splits a complete set and places an order, the resolver proposes YES, the proposal
  matures, and the trader redeems. The runs show that the hypotheses of the prediction-market
  properties are met.
\<close>

section \<open>Runtimes given by a table\<close>

text \<open>
  A runtime whose addresses are a table: the listed requests get the listed addresses, all others
  the zero key. The runs that show the hypotheses of the whole-chain claims are met use such
  tables, where it is plain which keys are program addresses and which can sign.
\<close>

definition table_find :: "(pda_request \<times> pubkey) list \<Rightarrow> bytes list \<Rightarrow> pubkey \<Rightarrow> pubkey \<times> u8" where
  "table_find table ss pid =
     (case map_of (map (\<lambda>(r, a). (concat (seeds r), a)) table) (concat ss) of Some a \<Rightarrow> (a, 255) | None \<Rightarrow> (0, 0))"

definition table_runtime :: "(pda_request \<times> pubkey) list \<Rightarrow> runtime" where
  "table_runtime table = \<lparr>find_program_address = table_find table, program_id = 1, unix_timestamp = 0\<rparr>"

lemma map_of_seeds: "map_of (map (\<lambda>(r, a). (concat (seeds r), a)) table) (concat (seeds r)) = map_of table r"
  by (induction table) (auto simp: seed_bytes_injective)

lemma table_pda: "pda (table_runtime table) r = (case map_of table r of Some a \<Rightarrow> (a, 255) | None \<Rightarrow> (0, 0))"
  by (simp add: pda_def table_runtime_def table_find_def map_of_seeds)

lemma table_pda_time: "pda (at_time now (table_runtime table)) r = pda (table_runtime table) r"
  by (simp add: pda_def at_time_def)

lemma table_address: "address (table_runtime table) r = (case map_of table r of Some a \<Rightarrow> a | None \<Rightarrow> 0)"
  using table_pda [of table r] by (auto simp: address_def pda_def split: option.splits)

text \<open>Whoever is neither the zero key nor in the table can sign.\<close>

lemma table_signer:
  assumes "s \<noteq> 0" "s \<notin> snd ` set table"
  shows "s \<noteq> address (table_runtime table) r"
proof (cases "map_of table r")
  case (Some a)
  then have "a \<in> snd ` set table" by (force dest: map_of_SomeD)
  with Some assms(2) show ?thesis by (auto simp: table_address)
qed (use assms(1) in \<open>simp add: table_address\<close>)

text \<open>An address other than zero belongs to the requests the table gives it to.\<close>

lemma table_owner:
  assumes "a \<noteq> 0"
  shows "address (table_runtime table) s = a \<longleftrightarrow> map_of table s = Some a"
  using assms by (force simp: table_address split: option.splits)

section \<open>The addresses of the question\<close>

definition pd_table :: "(pda_request \<times> pubkey) list" where
  "pd_table = [(MarketFeesPda 1012, 1001), (MarketMetadataPda 1012, 1002), (VaultAuthorityPda 1012, 1003),
     (VaultPda 1012 13, 1004), (AdminPda 1, 1009), (PredictionMarketPda 7, 1012), (PredictionPositionPda 1012 5, 1013),
     (PredictionBookPda 1012, 1014), (PredictionLevelPda 1012 YesOutcome Ask 4, 1015), (PredictionOrderPda 1012 1, 1016),
     (AssetBalancePda 5 13, 1017), (AssetVaultPda 13, 1018), (AssetAuthorityPda 13, 1019)]"

definition pd_chain :: runtime where
  "pd_chain = table_runtime pd_table"

lemma pd_addresses [simp]:
  "pda (at_time now pd_chain) (MarketFeesPda 1012) = (1001, 255)"
  "pda (at_time now pd_chain) (MarketMetadataPda 1012) = (1002, 255)"
  "pda (at_time now pd_chain) (VaultAuthorityPda 1012) = (1003, 255)"
  "pda (at_time now pd_chain) (VaultPda 1012 13) = (1004, 255)"
  "pda (at_time now pd_chain) (AdminPda 1) = (1009, 255)"
  "pda (at_time now pd_chain) (PredictionMarketPda 7) = (1012, 255)"
  "pda (at_time now pd_chain) (PredictionPositionPda 1012 5) = (1013, 255)"
  "pda (at_time now pd_chain) (PredictionBookPda 1012) = (1014, 255)"
  "pda (at_time now pd_chain) (PredictionLevelPda 1012 YesOutcome Ask 4) = (1015, 255)"
  "pda (at_time now pd_chain) (PredictionOrderPda 1012 1) = (1016, 255)"
  "pda (at_time now pd_chain) (AssetBalancePda 5 13) = (1017, 255)"
  "pda (at_time now pd_chain) (AssetVaultPda 13) = (1018, 255)"
  "pda (at_time now pd_chain) (AssetAuthorityPda 13) = (1019, 255)"
  by (simp_all add: pd_chain_def table_pda_time table_pda pd_table_def)

lemma pd_chain_address: "address pd_chain r = fst (pda (at_time 0 pd_chain) r)"
  by (simp add: address_def pda_def at_time_def)

lemma pd_reads [simp]:
  "address (at_time now pd_chain) r = address pd_chain r"
  by simp

section \<open>The life of a question\<close>

definition pd_fallback :: PredictionFallback where
  "pd_fallback = \<lparr>fb_resolver = 2, fb_available_ts = 150, fb_deadline_ts = Some 200\<rparr>"

definition pd_config :: PredictionMarketConfig where
  "pd_config = \<lparr>pc_resolver = 1, pc_fallback = Some pd_fallback, pc_close_ts = 100,
     pc_earliest_resolution_ts = None, pc_resolution_delay_seconds = 10, pc_payout_per_contract = 10,
     pc_price_tick = 1, pc_rules_uri = ascii ''ar://r'', pc_question_hash = 1, pc_rules_hash = 1\<rparr>"

definition pd_source :: TokenAccount where
  "pd_source = \<lparr>ta_mint = 13, ta_owner = 5, ta_amount = 100, ta_frozen = False\<rparr>"

definition pd0 :: world where
  "pd0 = gov0\<lparr>w_admins := [1009 \<mapsto> \<lparr>adm_authority = 1, adm_added_by = 1, adm_status = AdminActive, adm_bump = 255\<rparr>],
     w_mints := [13 \<mapsto> \<lparr>mint_decimals = 1, mint_supply = 100, mint_authority = None\<rparr>],
     w_tokens := [50 \<mapsto> pd_source]\<rparr>"

definition pd_init_keys :: InitializePredictionMarket where
  "pd_init_keys = \<lparr>ipm_authority = 1, ipm_admin_record = 1009, ipm_market = 1012, ipm_collateral_mint = 13,
     ipm_vault_authority = 1003, ipm_collateral_vault = 1004, ipm_market_metadata = 1002,
     ipm_market_fees = 1001, ipm_order_book = 1014\<rparr>"

definition pd_market :: PredictionMarket where
  "pd_market = new_prediction_market pd_init_keys 7 pd_config 255"

definition pd_book :: PredictionOrderBook where
  "pd_book = \<lparr>pob_market = 1012, pob_next_order_id = 1, pob_yes_best_bid = None, pob_yes_best_ask = None,
     pob_no_best_bid = None, pob_no_best_ask = None, pob_bump = 255\<rparr>"

definition pd_metadata :: MarketMetadata where
  "pd_metadata = \<lparr>md_market = 1012, md_base_symbol = ascii ''YES-NO'', md_quote_symbol = ascii ''USD'',
     md_display_name = ascii ''Rain?'', md_kind = Prediction, md_bump = 255\<rparr>"

definition pd1 :: world where
  "pd1 = pd0\<lparr>w_predictions := [1012 \<mapsto> pd_market], w_metadata := [1002 \<mapsto> pd_metadata],
     w_spot := empty_spot\<lparr>ss_fees := [1001 \<mapsto> \<lparr>mf_market = 1012, mf_quote_mint = 13,
       mf_accrued_quote_fees = 0, mf_bump = 255\<rparr>]\<rparr>,
     w_prediction_books := [1014 \<mapsto> pd_book],
     w_tokens := [50 \<mapsto> pd_source, 1004 \<mapsto> new_token_account 13 1003]\<rparr>"

lemma pd_terms: "validate_prediction_market_config pd_config 0 = Inr ()"
  by (simp add: validate_prediction_market_config_def pd_config_def pd_fallback_def validate_fallback_def ilt_def ile_def
      effective_earliest_def default_key_def i64_try_from_def checked_add_i64_def checked_sub_i64_def in_i64_def
      is_multiple_of_def rules_uri_ok_def uri_target_def strip_prefix_def ascii_def is_ascii_graphic_def
      PREDICTION_URI_MAX_LENGTH_def require_def ok_or_def try_in_def Let_def word_less_nat_alt)

lemma pd_labels: "validate_labels (ascii ''YES-NO'') (ascii ''USD'') (ascii ''Rain?'') = Inr ()"
  by (simp add: validate_labels_Inr valid_symbol_def valid_display_name_def MARKET_SYMBOL_MAX_LENGTH_def
      MARKET_DISPLAY_NAME_MAX_LENGTH_def trim_def is_whitespace_def is_ascii_alphanumeric_def
      is_ascii_graphic_def ascii_def)

lemma pd_run_init: "initialize_prediction_market (at_time 0 pd_chain) pd0 pd_init_keys 7 pd_config (ascii ''Rain?'')
    (ascii ''USD'') = Inr pd1"
  unfolding initialize_prediction_market_def
  by (simp add: pd_terms pd_labels try_in_def load_active_admin_def load_def pd0_def pd1_def gov0_def
      empty_spot_def pd_init_keys_def vault_def pd_chain_address pd_market_def pd_book_def pd_metadata_def Let_def)
    (simp add: pd_config_def checked_pow_def)

definition pd2 :: world where
  "pd2 = put_prediction 1012 (pd_market\<lparr>pm_status := OpenTrading\<rparr>) pd1"

lemmas pd_market_simps = pd_market_def new_prediction_market_def pd_init_keys_def pd_config_def pd_fallback_def

lemma pd_run_open: "open_prediction_market (at_time 1 pd_chain) pd1
    \<lparr>opm_authority = 1, opm_market = 1012, opm_admin_record = 1009\<rparr> = Inr pd2"
  by (simp add: open_prediction_market_def load_prediction_def load_active_admin_def load_def pd1_def pd2_def pd0_def
      gov0_def pd_chain_address pd_market_simps ilt_def put_prediction_def)

definition pd_position :: "u64 \<Rightarrow> u64 \<Rightarrow> u64 \<Rightarrow> PredictionPosition" where
  "pd_position cash yes no = \<lparr>pos_market = 1012, pos_owner = 5, pos_collateral_free = cash, pos_collateral_locked = 0,
     pos_yes_free = yes, pos_yes_locked = 0, pos_no_free = no, pos_no_locked = 0, pos_bump = 255\<rparr>"

definition pd3 :: world where "pd3 = put_position 1013 (pd_position 0 0 0) pd2"

lemma pd_run_position: "initialize_prediction_position (at_time 2 pd_chain) pd2
    \<lparr>ipp_owner = 5, ipp_market = 1012, ipp_position = 1013\<rparr> = Inr pd3"
  by (simp add: initialize_prediction_position_def load_prediction_def load_def pd1_def pd2_def pd3_def pd0_def
      gov0_def pd_chain_address pd_market_simps put_prediction_def put_position_def pd_position_def)

definition pd4 :: world where
  "pd4 = put_position 1013 (pd_position 50 0 0) (pd3\<lparr>w_tokens :=
     [50 \<mapsto> pd_source\<lparr>ta_amount := 50\<rparr>, 1004 \<mapsto> (new_token_account 13 1003)\<lparr>ta_amount := 50\<rparr>]\<rparr>)"

definition pd_deposit_keys :: DepositPredictionCollateral where
  "pd_deposit_keys = \<lparr>dpc_owner = 5, dpc_market = 1012, dpc_position = 1013, dpc_collateral_mint = 13,
     dpc_source = 50, dpc_vault_authority = 1003, dpc_collateral_vault = 1004\<rparr>"

lemma pd_run_deposit: "deposit_prediction_collateral (at_time 3 pd_chain) example_token_program pd3 pd_deposit_keys 50 = Inr pd4"
  by (simp add: deposit_prediction_collateral_def load_prediction_def load_position_def load_question_vault_def load_def
      pd_deposit_keys_def pd1_def pd2_def pd3_def pd4_def pd0_def gov0_def vault_def pd_chain_address pd_market_simps
      put_prediction_def put_position_def pd_position_def pd_source_def new_token_account_def checked_add_def
      example_token_program_def example_transfer_def fun_upd_twist)

definition pd_set_keys :: PredictionCompleteSet where
  "pd_set_keys = \<lparr>pcs_owner = 5, pcs_market = 1012, pcs_position = 1013\<rparr>"

definition pd_open :: PredictionMarket where
  "pd_open = pd_market\<lparr>pm_status := OpenTrading, pm_yes_supply := 3, pm_no_supply := 3, pm_backing_reserve := 30\<rparr>"

definition pd5 :: world where
  "pd5 = put_prediction 1012 pd_open (put_position 1013 (pd_position 20 3 3) pd4)"

lemma pd_run_split: "split_prediction_complete_set (at_time 4 pd_chain) pd4 pd_set_keys 3 = Inr pd5"
  by (simp add: split_prediction_complete_set_def load_prediction_def load_position_def load_def pd_set_keys_def
      pd1_def pd2_def pd3_def pd4_def pd5_def pd_open_def pd0_def gov0_def pd_chain_address pd_market_simps
      put_prediction_def put_position_def pd_position_def checked_add_def checked_sub_def checked_mul_def ilt_def)

lemma pd_run_merge: "\<exists>w. merge_prediction_complete_set (at_time 5 pd_chain) pd5 pd_set_keys 3 = Inr w"
  by (simp add: merge_prediction_complete_set_def load_prediction_def load_position_def load_def pd_set_keys_def
      pd1_def pd2_def pd3_def pd4_def pd5_def pd_open_def pd0_def gov0_def pd_chain_address pd_market_simps
      put_prediction_def put_position_def pd_position_def checked_add_def checked_sub_def checked_mul_def)

lemmas pd_worlds = pd1_def pd2_def pd3_def pd4_def pd5_def pd_open_def pd0_def gov0_def empty_spot_def pd_chain_address
  pd_market_simps put_prediction_def put_position_def put_asset_def pd_position_def pd_source_def new_token_account_def

text \<open>An ask for two YES contracts at price 4, on the still empty list.\<close>

definition pd_place_keys :: PlacePredictionOrder where
  "pd_place_keys = \<lparr>ppo_owner = 5, ppo_market = 1012, ppo_position = 1013, ppo_order_book = 1014,
     ppo_price_level = 1015, ppo_order = 1016\<rparr>"

lemma pd_run_place: "\<exists>w. place_prediction_order (at_time 5 pd_chain) pd5 pd_place_keys 1 YesOutcome Ask 4 2 = Inr w"
  by (simp add: place_prediction_order_def load_prediction_def load_position_def load_prediction_book_def load_def
      pd_place_keys_def pd_worlds pd_book_def validate_resting_order_def lock_resting_funds_def checked_add_def
      checked_sub_def ilt_def is_multiple_of_def try_in_def)

text \<open>The shared wallet ledger of the trader, opened before the resolution.\<close>

definition pd_asset :: "u64 \<Rightarrow> AssetBalance" where
  "pd_asset free = \<lparr>ab_owner = 5, ab_mint = 13, ab_free = free, ab_locked = 0, ab_bump = 255\<rparr>"

definition pd6 :: world where
  "pd6 = put_asset 1017 (pd_asset 0) (pd5\<lparr>w_tokens := (w_tokens pd5)(1018 \<mapsto> new_token_account 13 1019)\<rparr>)"

lemma pd_run_asset: "initialize_asset_balance (at_time 5 pd_chain) pd5 \<lparr>iab_owner = 5, iab_mint = 13,
    iab_asset_balance = 1017, iab_vault_authority = 1019, iab_asset_vault = 1018\<rparr> = Inr pd6"
  by (simp add: initialize_asset_balance_def load_def asset_vault_def asset_authority_def pd6_def pd_worlds pd_asset_def
      try_in_def)

definition pd_proposal :: PredictionProposal where
  "pd_proposal = \<lparr>prop_outcome = ResolveYes, prop_proposed_at = 100, prop_evidence_uri = ascii ''ar://e'',
     prop_evidence_hash = 9\<rparr>"

definition pd7 :: world where
  "pd7 = put_prediction 1012 (pd_open\<lparr>pm_proposal := Some pd_proposal, pm_status := Proposed\<rparr>) pd6"

definition pd_resolve_keys :: ResolvePrediction where
  "pd_resolve_keys = \<lparr>rp_resolver = 1, rp_market = 1012, rp_admin_record = 1009\<rparr>"

lemma pd_evidence: "evidence_ok (ascii ''ar://e'') 9"
  by (simp add: evidence_ok_def uri_target_def strip_prefix_def ascii_def is_ascii_graphic_def PREDICTION_URI_MAX_LENGTH_def)

lemma pd_run_propose: "propose_prediction (at_time 100 pd_chain) pd6 pd_resolve_keys ResolveYes (ascii ''ar://e'') 9 False = Inr pd7"
  by (simp add: propose_prediction_def load_prediction_def load_active_admin_def load_def pd_resolve_keys_def pd_evidence
      pd6_def pd7_def pd_worlds pd_asset_def pd_proposal_def resolver_window_def ile_def ilt_def effective_earliest_def
      try_in_def maturity_def i64_try_from_def checked_add_i64_def in_i64_def Let_def)

definition pd_final :: PredictionMarket where
  "pd_final = pd_open\<lparr>pm_proposal := Some pd_proposal, pm_status := Resolved, pm_final_outcome := Some ResolveYes\<rparr>"

definition pd8 :: world where "pd8 = put_prediction 1012 pd_final pd7"

lemma pd_run_finalize: "advance_prediction (at_time 110 pd_chain) pd7 \<lparr>ap_market = 1012\<rparr> 2 = Inr pd8"
  by (simp add: advance_prediction_def load_prediction_def load_def pd6_def pd7_def pd8_def pd_final_def pd_worlds
      pd_proposal_def finalize_proposal_def maturity_def i64_try_from_def checked_add_i64_def in_i64_def ile_def try_in_def
      Let_def)

definition pd_shared_keys :: SharedPredictionCustody where
  "pd_shared_keys = \<lparr>spc_owner = 5, spc_market = 1012, spc_position = 1013, spc_mint = 13, spc_asset_balance = 1017,
     spc_asset_authority = 1019, spc_asset_vault = 1018, spc_market_authority = 1003, spc_market_vault = 1004\<rparr>"

definition pd_custody :: shared_custody where
  "pd_custody = \<lparr>sc_market = Account 1012 pd_final, sc_position = Account 1013 (pd_position 20 3 3),
     sc_mint = Account 13 \<lparr>mint_decimals = 1, mint_supply = 100, mint_authority = None\<rparr>,
     sc_asset_balance = Account 1017 (pd_asset 0), sc_asset_vault = Account 1018 (new_token_account 13 1019),
     sc_market_vault = Account 1004 ((new_token_account 13 1003)\<lparr>ta_amount := 50\<rparr>)\<rparr>"

lemma pd_load_custody: "load_shared_custody (at_time 110 pd_chain) pd8 pd_shared_keys Inr = Inr pd_custody"
  by (simp add: load_shared_custody_def load_prediction_def load_asset_def load_asset_vault_def load_question_vault_def
      load_def pd_shared_keys_def pd_custody_def pd6_def pd7_def pd8_def pd_final_def pd_worlds pd_asset_def
      pd_proposal_def asset_vault_def asset_authority_def vault_def)

section \<open>Custody of the question\<close>

lemma at_time_again [simp]: "at_time now (at_time t rt) = at_time now rt"
  by (simp add: at_time_def)

definition pd_rt :: runtime where "pd_rt = at_time 110 pd_chain"

lemma pd_rt_time [simp]: "at_time now pd_rt = at_time now pd_chain"
  by (simp add: pd_rt_def)

lemma pd_question_start: "question_start pd_rt 1012 pd1"
proof -
  have "ipm_market pd_init_keys = 1012" by (simp add: pd_init_keys_def)
  moreover have "w_positions pd0 = Map.empty" by (simp add: pd0_def gov0_def)
  ultimately show ?thesis
    unfolding question_start_def pd_rt_time using pd_run_init by (metis dom_empty finite.emptyI option.distinct(1))
qed

lemma pd_outside: "outside_question pd_rt 1012 pd5 pd6"
proof -
  have "finite (dom (w_positions pd6))" "w_positions pd6 = w_positions pd5" "w_predictions pd6 = w_predictions pd5"
    "w_spot pd6 = w_spot pd5" by (simp_all add: pd6_def pd_worlds)
  moreover have "holds (w_tokens pd5) (vault pd_rt 1012 mint) auth n \<Longrightarrow> holds (w_tokens pd6) (vault pd_rt 1012 mint) auth n"
    for mint auth n
  proof -
    have "vault pd_rt 1012 mint \<noteq> 1018"
      by (simp add: vault_def pd_rt_def pd_chain_def table_address pd_table_def)
    then show "holds (w_tokens pd5) (vault pd_rt 1012 mint) auth n \<Longrightarrow> holds (w_tokens pd6) (vault pd_rt 1012 mint) auth n"
      by (simp add: holds_def pd6_def put_asset_def)
  qed
  ultimately show ?thesis by (simp add: outside_question_def)
qed

lemma pd_steps:
  "question_step pd_rt example_token_program 1012 pd1 pd2" "question_step pd_rt example_token_program 1012 pd2 pd3"
  "question_step pd_rt example_token_program 1012 pd3 pd4" "question_step pd_rt example_token_program 1012 pd4 pd5"
  "question_step pd_rt example_token_program 1012 pd5 pd6" "question_step pd_rt example_token_program 1012 pd6 pd7"
  "question_step pd_rt example_token_program 1012 pd7 pd8"
proof -
  show "question_step pd_rt example_token_program 1012 pd1 pd2"
    by (rule qs_lifecycle [where rt = pd_rt and now = 1, unfolded pd_rt_time], rule pl_open, rule pd_run_open, simp add: pd_deposit_keys_def pd_set_keys_def pd_resolve_keys_def)
  show "question_step pd_rt example_token_program 1012 pd2 pd3"
    by (rule qs_funding [where rt = pd_rt and now = 2, unfolded pd_rt_time], rule pf_position, rule pd_run_position)
  show "question_step pd_rt example_token_program 1012 pd3 pd4"
    by (rule qs_funding [where rt = pd_rt and now = 3, unfolded pd_rt_time], rule pf_deposit, rule pd_run_deposit, simp add: pd_deposit_keys_def pd_set_keys_def pd_resolve_keys_def)
  show "question_step pd_rt example_token_program 1012 pd4 pd5"
    by (rule qs_funding [where rt = pd_rt and now = 4, unfolded pd_rt_time], rule pf_split, rule pd_run_split, simp add: pd_deposit_keys_def pd_set_keys_def pd_resolve_keys_def)
  show "question_step pd_rt example_token_program 1012 pd5 pd6"
    by (rule qs_outside) (rule pd_outside)
  show "question_step pd_rt example_token_program 1012 pd6 pd7"
    by (rule qs_lifecycle [where rt = pd_rt and now = 100, unfolded pd_rt_time], rule pl_propose, rule pd_run_propose, simp add: pd_deposit_keys_def pd_set_keys_def pd_resolve_keys_def)
  show "question_step pd_rt example_token_program 1012 pd7 pd8"
    by (rule qs_lifecycle [where rt = pd_rt and now = 110, unfolded pd_rt_time], rule pl_advance, rule pd_run_finalize, simp add: pd_deposit_keys_def pd_set_keys_def pd_resolve_keys_def)
qed

lemma pd_reach: "reach (question_start pd_rt 1012) (question_step pd_rt example_token_program 1012) pd8"
proof -
  note go = reach_step [where init = "question_start pd_rt 1012" and step = "question_step pd_rt example_token_program 1012"]
  have "reach (question_start pd_rt 1012) (question_step pd_rt example_token_program 1012) pd1"
    by (rule reach_init) (rule pd_question_start)
  from go [OF go [OF go [OF go [OF this pd_steps(1)] pd_steps(2)] pd_steps(3)] pd_steps(4)]
  show ?thesis using pd_steps(5-7) by (meson go)
qed

theorem question_stays_backed_witness:
  "question_total (pos_contracts YesOutcome) 1012 pd8 = 3 \<and> unat (pm_backing_reserve pd_final) = owed ResolveYes 3 3 10"
proof -
  have m: "w_predictions pd8 1012 = Some pd_final" by (simp add: pd8_def put_prediction_def)
  from question_stays_backed [OF example_transfer_law pd_reach] m show ?thesis
    by (auto simp: pd_final_def pd_open_def pd_market_simps)
qed

theorem holders_can_redeem_witness:
  "\<exists>w b. redeem_prediction pd_rt example_token_program pd8 pd_shared_keys 2 1 = Inr w \<and>
    w_assets w 1017 = Some b \<and> ab_free b = 20"
proof -
  have "20 = owed ResolveYes (unat (2 :: u64)) (unat (1 :: u64)) (unat (pm_payout_per_contract (inner (sc_market pd_custody))))"
    by (simp add: pd_custody_def pd_final_def pd_open_def pd_market_simps)
  from holders_can_redeem [OF example_transfer_law example_transfer_live pd_reach _ _ _ _ _ _ _ this, of pd_shared_keys]
    pd_load_custody
  obtain w b where "redeem_prediction pd_rt example_token_program pd8 pd_shared_keys 2 1 = Inr w"
    "w_assets w (spc_asset_balance pd_shared_keys) = Some b" "unat (ab_free b) = 20"
    by (auto simp: pd_shared_keys_def pd_custody_def pd_final_def pd_position_def pd_asset_def new_token_account_def
        pd_rt_def)
  then show ?thesis by (auto simp: pd_shared_keys_def word_unat_eq_iff)
qed

theorem split_merge_roundtrip_witness:
  "merge_prediction_complete_set (at_time 5 pd_chain) pd5 pd_set_keys 3 = Inr pd4"
proof -
  obtain w where w: "merge_prediction_complete_set (at_time 5 pd_chain) pd5 pd_set_keys 3 = Inr w" using pd_run_merge by blast
  from split_merge_roundtrip [OF pd_run_split w] w show ?thesis by simp
qed

theorem prediction_trades_conserve_witness:
  "\<exists>w. place_prediction_order (at_time 5 pd_chain) pd5 pd_place_keys 1 YesOutcome Ask 4 2 = Inr w \<and>
    question_total (pos_contracts YesOutcome) 1012 w = question_total (pos_contracts YesOutcome) 1012 pd5"
proof -
  obtain w where w: "place_prediction_order (at_time 5 pd_chain) pd5 pd_place_keys 1 YesOutcome Ask 4 2 = Inr w"
    using pd_run_place by blast
  have "prediction_trade (at_time 5 pd_chain) 1012 pd5 w"
    by (rule pt_place [OF w]) (simp add: pd_place_keys_def)
  moreover have "finite (dom (w_positions pd5))" by (simp add: pd_worlds)
  ultimately show ?thesis using prediction_trades_conserve [of "at_time 5 pd_chain" 1012 pd5 w] w by blast
qed

section \<open>The lifecycle\<close>

lemma pd_lifecycle_steps:
  "lifecycle_step pd_chain (0, pd0) (0, pd1)" "lifecycle_step pd_chain (0, pd1) (1, pd2)"
  "lifecycle_step pd_chain (1, pd2) (5, pd6)" "lifecycle_step pd_chain (5, pd6) (100, pd7)"
  "lifecycle_step pd_chain (100, pd7) (110, pd8)"
proof -
  show "lifecycle_step pd_chain (0, pd0) (0, pd1)"
    by (rule lifecycle_stepI, simp add: ile_def, rule li_init, rule pd_run_init)
  show "lifecycle_step pd_chain (0, pd1) (1, pd2)"
    by (rule lifecycle_stepI, simp add: ile_def, rule li_open, rule pd_run_open)
  have "lifecycles_kept pd2 pd6"
    by (simp add: lifecycles_kept_def pd6_def pd_worlds lifecycle_of_def)
  then show "lifecycle_step pd_chain (1, pd2) (5, pd6)"
    by (intro lifecycle_stepI li_other) (simp_all add: ile_def)
  show "lifecycle_step pd_chain (5, pd6) (100, pd7)"
    by (rule lifecycle_stepI, simp add: ile_def, rule li_propose, rule pd_run_propose)
  show "lifecycle_step pd_chain (100, pd7) (110, pd8)"
    by (rule lifecycle_stepI, simp add: ile_def, rule li_advance, rule pd_run_finalize)
qed

lemma pd_lifecycle_reach:
  "reach no_predictions (lifecycle_step pd_chain) (1, pd2)" "reach no_predictions (lifecycle_step pd_chain) (5, pd6)"
  "reach no_predictions (lifecycle_step pd_chain) (110, pd8)"
proof -
  have "no_predictions (0, pd0)" by (simp add: no_predictions_def pd0_def gov0_def)
  then show two: "reach no_predictions (lifecycle_step pd_chain) (1, pd2)"
    using pd_lifecycle_steps(1,2) by (meson reach_init reach_step)
  then show six: "reach no_predictions (lifecycle_step pd_chain) (5, pd6)"
    using pd_lifecycle_steps(3) by (rule reach_step)
  then show "reach no_predictions (lifecycle_step pd_chain) (110, pd8)"
    using pd_lifecycle_steps(4,5) by (meson reach_step)
qed

theorem accepted_terms_in_range_witness:
  "checked_add_i64 199 (pc_resolution_delay_seconds pd_config) \<noteq> None \<and>
    2 * (unat (pc_payout_per_contract pd_config) div 2) = unat (pc_payout_per_contract pd_config)"
proof -
  have "pc_fallback pd_config = Some pd_fallback" "fb_deadline_ts pd_fallback = Some 200"
    "ile (effective_earliest (pc_close_ts pd_config) (pc_earliest_resolution_ts pd_config)) 199" "ilt 199 (200 :: i64)"
    by (simp_all add: pd_config_def pd_fallback_def effective_earliest_def ile_def ilt_def)
  with accepted_terms_in_range [OF pd_terms] show ?thesis by blast
qed

lemma pd_metadata_read: "w_metadata pd1 1002 = Some pd_metadata" by (simp add: pd1_def)

theorem metadata_labels_and_kind_witness:
  "printable_name (md_display_name pd_metadata) \<and> md_quote_symbol pd_metadata = ascii ''USD''"
proof -
  have "w_metadata pd0 = Map.empty" by (simp add: pd0_def gov0_def)
  then have "reach (\<lambda>w. w_metadata w = Map.empty) (metadata_step (at_time 0 pd_chain)) pd1"
    using ms_predict [OF pd_run_init] by (meson reach_init reach_step)
  from metadata_labels_and_kind [OF this pd_metadata_read] show ?thesis by (simp add: pd_metadata_def)
qed

theorem resolution_refines_lifecycle_witness:
  "evolves 100 (map_option lifecycle_of (w_predictions pd6 1012)) (map_option lifecycle_of (w_predictions pd7 1012))"
  using resolution_refines_lifecycle [OF pd_lifecycle_reach(2) li_propose [OF pd_run_propose], of 1012] by simp

lemma pd_market8: "w_predictions pd8 1012 = Some pd_final" by (simp add: pd8_def put_prediction_def)

theorem final_outcome_by_rules_witness:
  "pm_final_outcome pd_final = Some ResolveYes \<and> earliest_of pd_final \<le> 100 \<and> 100 + delay_of pd_final \<le> 110"
  using final_outcome_by_rules [OF pd_lifecycle_reach(3) pd_market8]
  by (simp add: pd_final_def pd_open_def pd_proposal_def)

theorem deadline_market_resolves_witness:
  "\<exists>action w m. advance_prediction (at_time 210 pd_chain) pd6 \<lparr>ap_market = 1012\<rparr> action = Inr w \<and>
    w_predictions w 1012 = Some m \<and> pm_status m = Resolved"
proof -
  have m: "w_predictions pd6 1012 = Some pd_open" by (simp add: pd6_def pd_worlds)
  have "1012 = address pd_chain (PredictionMarketPda (pm_market_id pd_open))"
    by (simp add: pd_chain_address pd_open_def pd_market_simps)
  moreover have "pm_status pd_open \<in> {OpenTrading, Frozen, Proposed}" "deadline_of pd_open = Some 200"
    "sint (200 :: i64) + delay_of pd_open \<le> sint (210 :: i64)"
    by (simp_all add: pd_open_def pd_market_simps deadline_of_def delay_of_def)
  ultimately show ?thesis by (rule deadline_market_resolves [OF pd_lifecycle_reach(2) m])
qed

theorem only_published_resolver_proposes_witness:
  "active_admin pd_chain 1 pd6 \<and> propose_prediction (at_time 100 pd_chain) pd6 pd_resolve_keys ResolveYes (ascii ''ar://e'') 9 False = Inr pd7"
proof -
  have "rp_resolver pd_resolve_keys = 1" by (simp add: pd_resolve_keys_def)
  with only_published_resolver_proposes [OF pd_lifecycle_reach(2) pd_run_propose] pd_run_propose
  show ?thesis by auto
qed

end
