(* ===== verification/Shared_Wallet.thy ===== *)
theory Shared_Wallet
  imports Prediction_Reserve
begin

text \<open>
  The conservation rule of the shared wallet, per mint: the mint's one vault covers every free and
  locked claim on it and the fees accrued by every shared book quoted in it, whatever mix of
  deposits, withdrawals, migrations, complete sets, redemptions, shared trades and fee
  withdrawals has run.
\<close>

section \<open>The liability of a mint\<close>

definition wallet_claims :: "pubkey \<Rightarrow> world \<Rightarrow> nat" where
  "wallet_claims mint w = store_sum (\<lambda>a. if ab_mint a = mint then asset_claim a else 0) (w_assets w)"

definition wallet_fees :: "pubkey \<Rightarrow> world \<Rightarrow> nat" where
  "wallet_fees mint w =
     store_sum (\<lambda>b. if sbk_quote_mint b = mint then unat (sbk_accrued_quote_fees b) else 0) (w_shared_books w)"

text \<open>The mint's vault belongs to its authority and holds at least \<open>n\<close> atoms; nothing has to exist
  for none.\<close>

definition covers :: "runtime \<Rightarrow> pubkey \<Rightarrow> tokens \<Rightarrow> nat \<Rightarrow> bool" where
  "covers rt mint ts n \<longleftrightarrow>
     n = 0 \<or> (\<exists>a. ts (asset_vault rt mint) = Some a \<and> ta_mint a = mint \<and> ta_owner a = asset_authority rt mint \<and>
       n \<le> unat (ta_amount a))"

definition vault_ready :: "runtime \<Rightarrow> pubkey \<Rightarrow> tokens \<Rightarrow> bool" where
  "vault_ready rt mint ts \<longleftrightarrow> (\<exists>a. ts (asset_vault rt mint) = Some a \<and> ta_owner a = asset_authority rt mint)"

definition wallet_solvent :: "runtime \<Rightarrow> pubkey \<Rightarrow> world \<Rightarrow> bool" where
  "wallet_solvent rt mint w \<longleftrightarrow>
     finite_claims w \<and> covers rt mint (w_tokens w) (wallet_claims mint w + wallet_fees mint w)"

lemma vault_readyI: "ts (asset_vault rt mint) = Some a \<Longrightarrow> ta_owner a = asset_authority rt mint \<Longrightarrow> vault_ready rt mint ts"
  by (simp add: vault_ready_def)

lemma wallet_total_worth: "total_worth (mint_valuation mint) w = wallet_claims mint w + wallet_fees mint w"
  by (simp add: total_worth_def claims_worth_def wallet_claims_def wallet_fees_def mint_worth store_sum_zero
      cong: store_sum_fun_cong)

section \<open>Transfers at the vault\<close>

lemma transfer_keeps_accounts:
  assumes law: "transfer_law tp" and ok: "transfer_checked tp ms ts from mk to auth amt dec = Inr ts'" and ne: "from \<noteq> to"
  obtains a b where "ts from = Some a" "ts to = Some b" "ta_mint a = mk" "ta_mint b = mk"
    "ts' from = Some (a\<lparr>ta_amount := ta_amount a - amt\<rparr>)" "unat (ta_amount a) = unat amt + unat (ta_amount a - amt)"
    "ts' to = Some (b\<lparr>ta_amount := ta_amount b + amt\<rparr>)" "unat (ta_amount b + amt) = unat (ta_amount b) + unat amt"
    "\<And>k. k \<noteq> from \<Longrightarrow> k \<noteq> to \<Longrightarrow> ts' k = ts k"
proof -
  obtain a b where ab: "ts from = Some a" "ts to = Some b" "ta_mint a = mk" "ta_mint b = mk"
    "unat amt \<le> unat (ta_amount a)" "unat (ta_amount b) + unat amt < 2 ^ 64"
    "ts' = ts(from \<mapsto> a\<lparr>ta_amount := ta_amount a - amt\<rparr>, to \<mapsto> b\<lparr>ta_amount := ta_amount b + amt\<rparr>)"
    using law ok ne unfolding transfer_law_def by blast
  moreover have "unat (ta_amount b + amt) = unat (ta_amount b) + unat amt"
    using ab(6) by (subst unat_add_lem [THEN iffD1]) simp_all
  moreover have "unat (ta_amount a) = unat amt + unat (ta_amount a - amt)"
    using ab(5) by (simp add: unat_sub word_le_nat_alt)
  ultimately show thesis using that [of a b] ne by simp
qed

lemma covers_other_mint:
  assumes law: "transfer_law tp" and ok: "transfer_checked tp ms ts from mk to auth amt dec = Inr ts'" and ne: "from \<noteq> to"
    and other: "mk \<noteq> mint" and old: "covers rt mint ts n"
  shows "covers rt mint ts' n"
proof (rule transfer_keeps_accounts [OF law ok ne], goal_cases)
  case (1 a b)
  let ?v = "asset_vault rt mint"
  show ?case
  proof (cases "?v = from \<or> ?v = to")
    case True
    then have "\<not> (\<exists>x. ts ?v = Some x \<and> ta_mint x = mint \<and> ta_owner x = asset_authority rt mint \<and> n \<le> unat (ta_amount x))" using 1(1-4) other by auto
    with old show ?thesis by (simp add: covers_def)
  next
    case False
    then have "ts' ?v = ts ?v" using 1(9) by blast
    with old show ?thesis by (simp add: covers_def)
  qed
qed

lemma covers_in:
  assumes law: "transfer_law tp" and ok: "transfer_checked tp ms ts from mk (asset_vault rt mk) auth amt dec = Inr ts'"
    and ne: "from \<noteq> asset_vault rt mk" and ready: "vault_ready rt mk ts" and old: "covers rt mint ts n"
  shows "covers rt mint ts' (n + (if mk = mint then unat amt else 0))"
proof (cases "mk = mint")
  case True
  show ?thesis
    by (rule transfer_keeps_accounts [OF law ok ne]) (use True old ready in \<open>auto simp: covers_def vault_ready_def\<close>)
next
  case False
  then show ?thesis using covers_other_mint [OF law ok ne False old] by simp
qed

lemma covers_out:
  assumes law: "transfer_law tp" and ok: "transfer_checked tp ms ts (asset_vault rt mk) mk to auth amt dec = Inr ts'"
    and ne: "asset_vault rt mk \<noteq> to" and old: "covers rt mint ts (n + (if mk = mint then unat amt else 0))"
  shows "covers rt mint ts' n"
proof (cases "mk = mint")
  case True
  show ?thesis
    by (rule transfer_keeps_accounts [OF law ok ne]) (use True old in \<open>auto simp: covers_def\<close>)
next
  case False
  then show ?thesis using covers_other_mint [OF law ok ne False] old by simp
qed

lemma shared_transfer_covers:
  assumes law: "transfer_law tp" and c: "custody_loaded rt w ks c"
    and ok: "shared_transfer rt tp (w_mints w) (w_tokens w) c amount into_reserve = Inr ts'"
  shows "into_reserve \<Longrightarrow> covers rt mint (w_tokens w) (n + (if key (sc_mint c) = mint then unat amount else 0)) \<Longrightarrow> covers rt mint ts' n"
    and "\<not> into_reserve \<Longrightarrow> covers rt mint (w_tokens w) n \<Longrightarrow>
      covers rt mint ts' (n + (if key (sc_mint c) = mint then unat amount else 0))"
proof -
  have v: "key (sc_asset_vault c) = asset_vault rt (key (sc_mint c))" "key (sc_asset_vault c) \<noteq> key (sc_market_vault c)"
    using c unfolding custody_loaded_def by blast+
  have ready: "vault_ready rt (key (sc_mint c)) (w_tokens w)"
    using c unfolding custody_loaded_def vault_ready_def by auto
  note v2 = v(2) [unfolded v(1)]
  show "covers rt mint ts' n" if "into_reserve" "covers rt mint (w_tokens w) (n + (if key (sc_mint c) = mint then unat amount else 0))"
  proof (cases "amount = 0")
    case True
    with ok that show ?thesis by (auto simp: shared_transfer_def split: if_splits)
  next
    case False
    with ok that(1) have "transfer_checked tp (w_mints w) (w_tokens w) (asset_vault rt (key (sc_mint c))) (key (sc_mint c)) (key (sc_market_vault c))
        (asset_authority rt (key (sc_mint c))) amount (mint_decimals (inner (sc_mint c))) = Inr ts'"
      by (simp add: shared_transfer_def v(1))
    from covers_out [OF law this v2 that(2)] show ?thesis .
  qed
  show "covers rt mint ts' (n + (if key (sc_mint c) = mint then unat amount else 0))"
    if "\<not> into_reserve" "covers rt mint (w_tokens w) n"
  proof (cases "amount = 0")
    case True
    with ok that show ?thesis by (auto simp: shared_transfer_def split: if_splits)
  next
    case False
    with ok that(1) have "transfer_checked tp (w_mints w) (w_tokens w) (key (sc_market_vault c)) (key (sc_mint c)) (asset_vault rt (key (sc_mint c)))
        (address rt (VaultAuthorityPda (key (sc_market c)))) amount (mint_decimals (inner (sc_mint c))) = Inr ts'"
      by (simp add: shared_transfer_def v(1))
    from covers_in [OF law this v2 [symmetric] ready that(2)] show ?thesis .
  qed
qed

section \<open>One ledger changes\<close>

text \<open>An instruction that changes one wallet ledger, with the vault following it.\<close>

definition wallet_moved :: "runtime \<Rightarrow> pubkey \<Rightarrow> world \<Rightarrow> world \<Rightarrow> bool" where
  "wallet_moved rt mint w w' \<longleftrightarrow>
     (\<exists>k a a' mk. w_assets w k = Some a \<and> ab_mint a = mk \<and> ab_mint a' = mk \<and> w_assets w' = (w_assets w)(k \<mapsto> a') \<and>
        w_shared_books w' = w_shared_books w \<and> (finite (dom (w_positions w)) \<longrightarrow> finite (dom (w_positions w'))) \<and>
        (\<forall>n. covers rt mint (w_tokens w) (n + (if mk = mint then asset_claim a else 0)) \<longrightarrow>
           covers rt mint (w_tokens w') (n + (if mk = mint then asset_claim a' else 0))))"

lemma wallet_moved_solvent:
  assumes moved: "wallet_moved rt mint w w'" and inv: "wallet_solvent rt mint w"
  shows "wallet_solvent rt mint w'"
proof -
  obtain k a a' where k: "w_assets w k = Some a" and mk: "ab_mint a' = ab_mint a"
    and w': "w_assets w' = (w_assets w)(k \<mapsto> a')" "w_shared_books w' = w_shared_books w"
      "finite (dom (w_positions w)) \<longrightarrow> finite (dom (w_positions w'))"
    and pay: "\<And>n. covers rt mint (w_tokens w) (n + (if ab_mint a = mint then asset_claim a else 0)) \<Longrightarrow>
        covers rt mint (w_tokens w') (n + (if ab_mint a = mint then asset_claim a' else 0))"
    using moved unfolding wallet_moved_def by blast
  let ?f = "\<lambda>a. if ab_mint a = mint then asset_claim a else 0"
  have fin: "finite_claims w" "finite_claims w'"
    using inv w' by (auto simp: wallet_solvent_def finite_claims_def)
  have fa: "finite (dom (w_assets w))" using fin(1) by (simp add: finite_claims_def)
  define rest where "rest = wallet_claims mint w - ?f a + wallet_fees mint w"
  have member: "?f a \<le> wallet_claims mint w"
    unfolding wallet_claims_def by (rule store_sum_member [OF fa k])
  have "wallet_claims mint w' + ?f a = wallet_claims mint w + ?f a'"
    unfolding wallet_claims_def w'(1) by (rule store_sum_upd [OF fa k])
  moreover have "wallet_fees mint w' = wallet_fees mint w" by (simp add: wallet_fees_def w'(2))
  ultimately have eqs: "wallet_claims mint w + wallet_fees mint w = rest + ?f a"
    "wallet_claims mint w' + wallet_fees mint w' = rest + ?f a'"
    using member unfolding rest_def by linarith+
  have "covers rt mint (w_tokens w') (rest + ?f a')"
    using pay [of rest] inv unfolding wallet_solvent_def eqs by (simp add: mk)
  then show ?thesis using fin(2) by (simp add: wallet_solvent_def eqs)
qed


lemma wallet_credit:
  assumes a: "w_assets w k = Some a" "ab_mint a = mk" and sum: "unat f = unat (ab_free a) + amt"
    and w': "w_assets w' = (w_assets w)(k \<mapsto> a\<lparr>ab_free := f\<rparr>)" "w_shared_books w' = w_shared_books w"
      "finite (dom (w_positions w)) \<Longrightarrow> finite (dom (w_positions w'))"
    and pay: "\<And>n. covers rt mint (w_tokens w) n \<Longrightarrow> covers rt mint (w_tokens w') (n + (if mk = mint then amt else 0))"
  shows "wallet_moved rt mint w w'"
proof -
  have "asset_claim (a\<lparr>ab_free := f\<rparr>) = asset_claim a + amt" using sum by (simp add: asset_claim_def)
  moreover have "covers rt mint (w_tokens w') (n + (if mk = mint then asset_claim a + amt else 0))"
    if "covers rt mint (w_tokens w) (n + (if mk = mint then asset_claim a else 0))" for n
    using pay [OF that] by (cases "mk = mint") (simp_all add: ac_simps)
  ultimately show ?thesis
    unfolding wallet_moved_def
    by (rule_tac x = k in exI, rule_tac x = a in exI, rule_tac x = "a\<lparr>ab_free := f\<rparr>" in exI, rule_tac x = mk in exI)
      (use a w' in \<open>cases "mk = mint"; simp\<close>)
qed

lemma wallet_debit:
  assumes a: "w_assets w k = Some a" "ab_mint a = mk" and sum: "unat (ab_free a) = unat f + amt"
    and w': "w_assets w' = (w_assets w)(k \<mapsto> a\<lparr>ab_free := f\<rparr>)" "w_shared_books w' = w_shared_books w"
      "finite (dom (w_positions w)) \<Longrightarrow> finite (dom (w_positions w'))"
    and pay: "\<And>n. covers rt mint (w_tokens w) (n + (if mk = mint then amt else 0)) \<Longrightarrow> covers rt mint (w_tokens w') n"
  shows "wallet_moved rt mint w w'"
proof -
  have eq: "asset_claim a = asset_claim (a\<lparr>ab_free := f\<rparr>) + amt" using sum by (simp add: asset_claim_def)
  have "covers rt mint (w_tokens w') (n + (if mk = mint then asset_claim (a\<lparr>ab_free := f\<rparr>) else 0))"
    if "covers rt mint (w_tokens w) (n + (if mk = mint then asset_claim a else 0))" for n
    by (rule pay) (use that in \<open>cases "mk = mint"; simp add: eq ac_simps\<close>)
  then show ?thesis
    unfolding wallet_moved_def
    by (rule_tac x = k in exI, rule_tac x = a in exI, rule_tac x = "a\<lparr>ab_free := f\<rparr>" in exI, rule_tac x = mk in exI)
      (use a w' in \<open>cases "mk = mint"; simp\<close>)
qed

lemma deposit_asset_moved:
  assumes law: "transfer_law tp" and ok: "deposit_asset rt tp w ks amount = Inr w'"
  shows "wallet_moved rt mint w w'"
proof -
  obtain a f ts v and mn :: Mint where a: "w_assets w (tra_asset_balance ks) = Some a" "ab_mint a = tra_mint ks"
    "tra_asset_vault ks = asset_vault rt (tra_mint ks)" "tra_wallet_token ks \<noteq> tra_asset_vault ks"
    "checked_add (ab_free a) amount = Some f"
    "transfer_checked tp (w_mints w) (w_tokens w) (tra_wallet_token ks) (tra_mint ks) (tra_asset_vault ks)
       (tra_owner ks) amount (mint_decimals mn) = Inr ts"
      "w_tokens w (tra_asset_vault ks) = Some v" "ta_owner v = asset_authority rt (tra_mint ks)"
    and w': "put_asset (tra_asset_balance ks) (a\<lparr>ab_free := f\<rparr>) (w\<lparr>w_tokens := ts\<rparr>) = w'"
    using ok unfolding deposit_asset_def load_transfer_asset_def run_inversions load_asset_Inr load_asset_vault_Inr
    by (elim exE conjE) (rule that; assumption)
  show ?thesis
    by (rule wallet_credit [OF a(1,2), where f = f and amt = "unat amount"])
      (use a(5) covers_in [OF law a(6) [unfolded a(3)] a(4) [unfolded a(3)] vault_readyI [of "w_tokens w", OF a(7) [unfolded a(3)] a(8)]] in \<open>auto simp: w' [symmetric] put_asset_def\<close>)
qed

lemma withdraw_asset_moved:
  assumes law: "transfer_law tp" and ok: "withdraw_asset rt tp w ks amount = Inr w'"
  shows "wallet_moved rt mint w w'"
proof -
  obtain a f ts and mn :: Mint where a: "w_assets w (tra_asset_balance ks) = Some a" "ab_mint a = tra_mint ks"
    "tra_asset_vault ks = asset_vault rt (tra_mint ks)" "tra_wallet_token ks \<noteq> tra_asset_vault ks"
    "checked_sub (ab_free a) amount = Some f"
    "transfer_checked tp (w_mints w) (w_tokens w) (tra_asset_vault ks) (tra_mint ks) (tra_wallet_token ks)
       (tra_vault_authority ks) amount (mint_decimals mn) = Inr ts"
    and w': "put_asset (tra_asset_balance ks) (a\<lparr>ab_free := f\<rparr>) (w\<lparr>w_tokens := ts\<rparr>) = w'"
    using ok unfolding withdraw_asset_def load_transfer_asset_def run_inversions load_asset_Inr load_asset_vault_Inr
    by (elim exE conjE) (rule that; assumption)
  show ?thesis
    by (rule wallet_debit [OF a(1,2), where f = f and amt = "unat amount"])
      (use a(5) covers_out [OF law a(6) [unfolded a(3)] a(4) [unfolded a(3), symmetric]] in
        \<open>auto simp: w' [symmetric] put_asset_def\<close>)
qed

lemma migrate_spot_moved:
  assumes law: "transfer_law tp" and ok: "migrate_spot_asset rt tp w ks amount = Inr w'"
  shows "wallet_moved rt mint w w'"
proof -
  obtain a f ts tb v and mn :: Mint where a: "w_assets w (msa_asset_balance ks) = Some a" "ab_mint a = msa_mint ks"
    "msa_asset_vault ks = asset_vault rt (msa_mint ks)" "msa_market_vault ks \<noteq> msa_asset_vault ks"
    "checked_add (ab_free a) amount = Some f"
    "transfer_checked tp (w_mints w) (w_tokens w) (msa_market_vault ks) (msa_mint ks) (msa_asset_vault ks)
       (msa_market_authority ks) amount (mint_decimals mn) = Inr ts"
      "w_tokens w (msa_asset_vault ks) = Some v" "ta_owner v = asset_authority rt (msa_mint ks)"
    and w': "put_asset (msa_asset_balance ks) (a\<lparr>ab_free := f\<rparr>) (put_balance (msa_trader_balance ks) tb ts w) = w'"
    using ok unfolding migrate_spot_asset_def run_inversions load_asset_Inr load_asset_vault_Inr
    by (elim exE conjE) (rule that; assumption)
  show ?thesis
    by (rule wallet_credit [OF a(1,2), where f = f and amt = "unat amount"])
      (use a(5) covers_in [OF law a(6) [unfolded a(3)] a(4) [unfolded a(3)] vault_readyI [of "w_tokens w", OF a(7) [unfolded a(3)] a(8)]] in
        \<open>auto simp: w' [symmetric] put_asset_def put_balance_def\<close>)
qed

lemma migrate_prediction_moved:
  assumes law: "transfer_law tp" and ok: "migrate_prediction_asset rt tp w ks amount = Inr w'"
  shows "wallet_moved rt mint w w'"
proof (rule migrate_prediction_ok [OF ok], goal_cases)
  case (1 m p ts f dm auth b bf v)
  show ?case
    by (rule wallet_credit [OF 1(10,11), where f = bf and amt = "unat amount"])
      (use 1(12) covers_in [OF law 1(9) [unfolded 1(8)] 1(6) [unfolded 1(8)] vault_readyI [of "w_tokens w", OF 1(14) [unfolded 1(8)] 1(15)]] in
        \<open>auto simp: 1(13) put_asset_def put_position_def\<close>)
qed

lemma custody_asset:
  assumes "custody_loaded rt w ks c"
  shows "w_assets w (key (sc_asset_balance c)) = Some (inner (sc_asset_balance c))"
    "ab_mint (inner (sc_asset_balance c)) = key (sc_mint c)"
  using assms unfolding custody_loaded_def by metis+

lemma shared_set_moved:
  assumes law: "transfer_law tp" and ok: "shared_complete_set rt tp w ks q into_set = Inr w'"
  shows "wallet_moved rt mint w w'"
proof (cases into_set)
  case True
  then have "shared_complete_set rt tp w ks q True = Inr w'" using ok by simp
  then show ?thesis
  proof (rule shared_set_split, goal_cases)
    case (1 c m' p' b ts amount)
    show ?case
      by (rule wallet_debit [OF custody_asset [OF 1(1)], where f = b and amt = "unat amount"])
        (use 1(8) shared_transfer_covers(1) [OF law 1(1,5)] in
          \<open>auto simp: 1(9) put_custody_def put_asset_def put_position_def put_prediction_def\<close>)
  qed
next
  case False
  then have "shared_complete_set rt tp w ks q False = Inr w'" using ok by simp
  then show ?thesis
  proof (rule shared_set_merge, goal_cases)
    case (1 c m' p' b ts amount)
    show ?case
      by (rule wallet_credit [OF custody_asset [OF 1(1)], where f = b and amt = "unat amount"])
        (use 1(8) shared_transfer_covers(2) [OF law 1(1,5)] in
          \<open>auto simp: 1(9) put_custody_def put_asset_def put_position_def put_prediction_def\<close>)
  qed
qed

lemma redeem_moved:
  assumes law: "transfer_law tp" and ok: "redeem_prediction rt tp w ks yes no = Inr w'"
  shows "wallet_moved rt mint w w'"
  using ok
proof (rule redeem_ok, goal_cases)
  case (1 c m' p' outcome b ts amount)
  show ?case
    by (rule wallet_credit [OF custody_asset [OF 1(1)], where f = b and amt = "unat amount"])
      (use 1(8) shared_transfer_covers(2) [OF law 1(1,5)] in
        \<open>auto simp: 1(9) put_custody_def put_asset_def put_position_def put_prediction_def\<close>)
qed


section \<open>Opening a ledger, the roots, and fees\<close>

lemma open_asset_solvent:
  assumes ok: "initialize_asset_balance rt w ks = Inr w'" and inv: "wallet_solvent rt mint w"
  shows "wallet_solvent rt mint w'"
proof -
  obtain ts bump where new: "w_assets w (iab_asset_balance ks) = None"
    "iab_asset_vault ks = asset_vault rt (iab_mint ks)"
    and ts: "(case w_tokens w (iab_asset_vault ks) of
          None \<Rightarrow> Inr ((w_tokens w)(iab_asset_vault ks \<mapsto> new_token_account (iab_mint ks) (iab_vault_authority ks)))
        | Some v \<Rightarrow> require (ta_mint v = iab_mint ks) ConstraintTokenMint
            (require (ta_owner v = iab_vault_authority ks) ConstraintTokenOwner (Inr (w_tokens w)))) = Inr ts"
    and w': "put_asset (iab_asset_balance ks) \<lparr>ab_owner = iab_owner ks, ab_mint = iab_mint ks, ab_free = 0, ab_locked = 0,
         ab_bump = bump\<rparr> (w\<lparr>w_tokens := ts\<rparr>) = w'"
    using ok unfolding initialize_asset_balance_def run_inversions
    by (elim exE conjE) (rule that; assumption)
  let ?a = "\<lparr>ab_owner = iab_owner ks, ab_mint = iab_mint ks, ab_free = 0, ab_locked = 0, ab_bump = bump\<rparr>"
  have fin: "finite (dom (w_assets w))" "finite_claims w'"
    using inv by (auto simp: wallet_solvent_def finite_claims_def w' [symmetric] put_asset_def)
  have "wallet_claims mint w' = wallet_claims mint w"
    using store_sum_new [OF fin(1) new(1), of "\<lambda>a. if ab_mint a = mint then asset_claim a else 0" ?a]
    by (simp add: wallet_claims_def w' [symmetric] put_asset_def asset_claim_def split: if_splits del: fun_upd_apply)
  moreover have "wallet_fees mint w' = wallet_fees mint w" by (simp add: wallet_fees_def w' [symmetric] put_asset_def)
  moreover have "covers rt mint (w_tokens w') n" if "covers rt mint (w_tokens w) n" for n
  proof (cases "w_tokens w (iab_asset_vault ks)")
    case None
    then have ts': "w_tokens w' = (w_tokens w)(iab_asset_vault ks \<mapsto> new_token_account (iab_mint ks) (iab_vault_authority ks))"
      using ts by (simp add: w' [symmetric] put_asset_def)
    show ?thesis
      using that None by (cases "asset_vault rt mint = iab_asset_vault ks") (auto simp: covers_def ts')
  next
    case (Some v)
    then have "w_tokens w' = w_tokens w" using ts by (simp add: w' [symmetric] put_asset_def require_Inr)
    then show ?thesis using that by simp
  qed
  ultimately show ?thesis using inv fin(2) by (simp add: wallet_solvent_def)
qed

lemma shared_trade_solvent:
  assumes "shared_trade rt' k w w'" and inv: "wallet_solvent rt mint w"
  shows "wallet_solvent rt mint w'"
proof -
  have "shared_effect w k w'"
    by (rule shared_trade_effect [OF assms(1)]) (use inv in \<open>simp add: wallet_solvent_def\<close>)
  then have "finite_claims w'" "w_tokens w' = w_tokens w"
    "total_worth (mint_valuation mint) w' = total_worth (mint_valuation mint) w"
    by (simp_all add: shared_effect_def)
  with inv show ?thesis by (simp add: wallet_solvent_def wallet_total_worth)
qed

lemma withdraw_shared_fees_solvent:
  assumes law: "transfer_law tp" and ok: "withdraw_shared_fees rt tp w ks amount = Inr w'"
    and inv: "wallet_solvent rt mint w"
  shows "wallet_solvent rt mint w'"
proof -
  obtain b f ts and mn :: Mint where b: "w_shared_books w (wsf_book ks) = Some b" "wsf_mint ks = sbk_quote_mint b"
    "wsf_asset_vault ks = asset_vault rt (wsf_mint ks)" "wsf_destination ks \<noteq> wsf_asset_vault ks"
    "checked_sub (sbk_accrued_quote_fees b) amount = Some f"
    "transfer_checked tp (w_mints w) (w_tokens w) (wsf_asset_vault ks) (wsf_mint ks) (wsf_destination ks)
       (wsf_vault_authority ks) amount (mint_decimals mn) = Inr ts"
    and w': "w\<lparr>w_tokens := ts, w_shared_books := (w_shared_books w)(wsf_book ks \<mapsto> b\<lparr>sbk_accrued_quote_fees := f\<rparr>)\<rparr> = w'"
    using ok unfolding withdraw_shared_fees_def run_inversions load_asset_vault_Inr
    by (elim exE conjE) (rule that; assumption)
  let ?f = "\<lambda>b. if sbk_quote_mint b = mint then unat (sbk_accrued_quote_fees b) else 0"
  have fin: "finite_claims w" "finite_claims w'"
    using inv by (auto simp: wallet_solvent_def finite_claims_def w' [symmetric])
  have "wallet_fees mint w' + ?f b = wallet_fees mint w + ?f (b\<lparr>sbk_accrued_quote_fees := f\<rparr>)"
    using store_sum_upd [of "w_shared_books w" "wsf_book ks" b ?f "b\<lparr>sbk_accrued_quote_fees := f\<rparr>"] fin(1) b(1)
    by (simp add: wallet_fees_def w' [symmetric] finite_claims_def del: fun_upd_apply)
  then have fees: "wallet_fees mint w = wallet_fees mint w' + (if sbk_quote_mint b = mint then unat amount else 0)"
    using b(5) by auto
  have claims: "wallet_claims mint w' = wallet_claims mint w" by (simp add: wallet_claims_def w' [symmetric])
  have "covers rt mint ts (wallet_claims mint w + wallet_fees mint w')"
    by (rule covers_out [OF law b(6) [unfolded b(3)] b(4) [unfolded b(3), symmetric]])
      (use inv b(2) in \<open>simp add: wallet_solvent_def fees add.assoc\<close>)
  then show ?thesis using fin(2) by (simp add: wallet_solvent_def claims) (simp add: w' [symmetric])
qed

lemma store_sum_delete:
  assumes "finite (dom m)" "m k = Some v" "f v = 0"
  shows "store_sum f (m(k := None)) = store_sum f m"
proof -
  have "store_sum f ((m(k := None))(k \<mapsto> v)) = store_sum f (m(k := None)) + f v"
    by (rule store_sum_new) (use assms(1) in simp_all)
  moreover have "(m(k := None))(k \<mapsto> v) = m" using assms(2) by auto
  ultimately show ?thesis using assms(3) by (simp del: fun_upd_upd)
qed

lemma roots_solvent:
  assumes inv: "wallet_solvent rt mint w" and fees: "wallet_fees mint w' = wallet_fees mint w"
    and w': "w' = w\<lparr>w_shared_books := bs\<rparr>" "finite (dom bs)"
  shows "wallet_solvent rt mint w'"
  using inv fees by (simp add: wallet_solvent_def finite_claims_def w' wallet_claims_def)

lemma initialize_shared_book_solvent:
  assumes ok: "initialize_shared_book rt' w ks kind = Inr w'" and inv: "wallet_solvent rt mint w"
  shows "wallet_solvent rt mint w'"
proof -
  obtain b where new: "w_shared_books w (isb_book ks) = None" "sbk_accrued_quote_fees b = 0"
    and w': "w\<lparr>w_shared_books := (w_shared_books w)(isb_book ks \<mapsto> b)\<rparr> = w'"
    using ok unfolding initialize_shared_book_def shared_inversions load_creator_Inr
    by (elim exE conjE) (rule that [rotated 2], assumption, assumption, simp)
  have fin: "finite (dom (w_shared_books w))" using inv by (simp add: wallet_solvent_def finite_claims_def)
  show ?thesis
    by (rule roots_solvent [OF inv _ w' [symmetric]])
      (use store_sum_new [OF fin new(1)] new(2) fin in \<open>simp_all add: wallet_fees_def w' [symmetric] del: fun_upd_apply\<close>)
qed

lemma close_shared_book_solvent:
  assumes ok: "close_shared_book rt' w ks = Inr w'" and inv: "wallet_solvent rt mint w"
  shows "wallet_solvent rt mint w'"
proof -
  obtain b where b: "w_shared_books w (csb_book ks) = Some b" "sbk_accrued_quote_fees b = 0"
    and w': "w\<lparr>w_shared_books := (w_shared_books w)(csb_book ks := None)\<rparr> = w'"
    using ok unfolding close_shared_book_def shared_inversions load_creator_Inr
    by (elim exE conjE) (rule that; assumption)
  have fin: "finite (dom (w_shared_books w))" using inv by (simp add: wallet_solvent_def finite_claims_def)
  show ?thesis
    by (rule roots_solvent [OF inv _ w' [symmetric]])
      (use store_sum_delete [OF fin b(1)] b(2) fin in \<open>simp_all add: wallet_fees_def w' [symmetric] del: fun_upd_apply\<close>)
qed


section \<open>The steps of the wallet\<close>

text \<open>Instructions and programs outside this list leave every wallet ledger and every shared root
  alone and never take from the mint's vault, whose authority signs nowhere else.\<close>

definition outside_wallet :: "runtime \<Rightarrow> pubkey \<Rightarrow> world \<Rightarrow> world \<Rightarrow> bool" where
  "outside_wallet rt mint w w' \<longleftrightarrow>
     finite (dom (w_positions w')) \<and> w_assets w' = w_assets w \<and> w_shared_books w' = w_shared_books w \<and>
     (\<forall>n. covers rt mint (w_tokens w) n \<longrightarrow> covers rt mint (w_tokens w') n)"

inductive wallet_step :: "runtime \<Rightarrow> token_program \<Rightarrow> pubkey \<Rightarrow> world \<Rightarrow> world \<Rightarrow> bool" for rt tp mint where
  ws_open: "initialize_asset_balance rt w iks = Inr w' \<Longrightarrow> wallet_step rt tp mint w w'"
| ws_deposit: "deposit_asset rt tp w tks amount = Inr w' \<Longrightarrow> wallet_step rt tp mint w w'"
| ws_withdraw: "withdraw_asset rt tp w tks amount = Inr w' \<Longrightarrow> wallet_step rt tp mint w w'"
| ws_migrate_spot: "migrate_spot_asset rt tp w sks amount = Inr w' \<Longrightarrow> wallet_step rt tp mint w w'"
| ws_migrate_prediction: "migrate_prediction_asset rt tp w pks amount = Inr w' \<Longrightarrow> wallet_step rt tp mint w w'"
| ws_sets: "shared_complete_set (at_time now rt) tp w cks q split = Inr w' \<Longrightarrow> wallet_step rt tp mint w w'"
| ws_redeem: "redeem_prediction rt tp w cks yes no = Inr w' \<Longrightarrow> wallet_step rt tp mint w w'"
| ws_trade: "shared_trade (at_time now rt) k w w' \<Longrightarrow> wallet_step rt tp mint w w'"
| ws_fees: "withdraw_shared_fees rt tp w fks amount = Inr w' \<Longrightarrow> wallet_step rt tp mint w w'"
| ws_root: "initialize_shared_book (at_time now rt) w bks kind = Inr w' \<Longrightarrow> wallet_step rt tp mint w w'"
| ws_close: "close_shared_book rt w dks = Inr w' \<Longrightarrow> wallet_step rt tp mint w w'"
| ws_outside: "outside_wallet rt mint w w' \<Longrightarrow> wallet_step rt tp mint w w'"

definition wallet_start :: "pubkey \<Rightarrow> world \<Rightarrow> bool" where
  "wallet_start mint w \<longleftrightarrow> finite_claims w \<and> (\<forall>k a. w_assets w k = Some a \<longrightarrow> ab_mint a \<noteq> mint) \<and>
     (\<forall>k b. w_shared_books w k = Some b \<longrightarrow> sbk_quote_mint b \<noteq> mint)"

lemma covers_at_time [simp]: "covers (at_time now rt) mint ts n = covers rt mint ts n"
  "wallet_solvent (at_time now rt) mint w = wallet_solvent rt mint w"
  by (simp_all add: covers_def wallet_solvent_def asset_authority_def)

lemma outside_wallet_solvent:
  "outside_wallet rt mint w w' \<Longrightarrow> wallet_solvent rt mint w \<Longrightarrow> wallet_solvent rt mint w'"
  by (simp add: outside_wallet_def wallet_solvent_def finite_claims_def wallet_claims_def wallet_fees_def)

lemma wallet_step_solvent:
  assumes law: "transfer_law tp" and step: "wallet_step rt tp mint w w'" and inv: "wallet_solvent rt mint w"
  shows "wallet_solvent rt mint w'"
  using step
proof cases
  case (ws_open iks)
  then show ?thesis using open_asset_solvent inv by blast
next
  case (ws_sets now cks q split)
  from wallet_moved_solvent [OF shared_set_moved [OF law this]] inv show ?thesis by simp
next
  case (ws_outside)
  then show ?thesis using outside_wallet_solvent inv by blast
next
  case (ws_fees fks amount)
  then show ?thesis using withdraw_shared_fees_solvent [OF law] inv by blast
next
  case (ws_trade now k)
  from shared_trade_solvent [OF this inv] show ?thesis .
next
  case (ws_root now bks kind)
  from initialize_shared_book_solvent [OF this inv] show ?thesis .
next
  case (ws_close dks)
  from close_shared_book_solvent [OF this inv] show ?thesis .
qed (use inv in \<open>blast intro: wallet_moved_solvent deposit_asset_moved [OF law] withdraw_asset_moved [OF law]
  migrate_spot_moved [OF law] migrate_prediction_moved [OF law] redeem_moved [OF law]\<close>)+

lemma wallet_start_solvent: "wallet_start mint w \<Longrightarrow> wallet_solvent rt mint w"
proof -
  assume start: "wallet_start mint w"
  then have "wallet_claims mint w = 0" "wallet_fees mint w = 0"
    by (auto simp: wallet_claims_def wallet_fees_def wallet_start_def store_sum_def split: option.split intro!: sum.neutral)
  with start show ?thesis by (simp add: wallet_solvent_def covers_def wallet_start_def)
qed

interpretation wallet: transition_invariant "wallet_start mint" "wallet_step rt tp mint"
  "\<lambda>w. transfer_law tp \<longrightarrow> wallet_solvent rt mint w" for rt tp mint
  by unfold_locales (auto intro: wallet_start_solvent wallet_step_solvent)

section \<open>Properties\<close>

text \<open>The conservation rule of the shared wallet. From a world in which a mint has no wallet ledgers
  and no shared book yet, after any sequence of ledger openings, deposits, withdrawals, migrations
  from spot and prediction custody, complete sets, redemptions, shared orders, cancellations and
  fills, fee withdrawals, root creations and closings and outside activity, the mint's vault holds
  at least all free and locked wallet claims on the mint plus the fees accrued by all shared books
  quoted in it.\<close>

theorem shared_vault_covers_all_claims:
  assumes "transfer_law tp" "reach (wallet_start mint) (wallet_step rt tp mint) w"
  shows "wallet_claims mint w + wallet_fees mint w \<le> token_amount (w_tokens w) (asset_vault rt mint)"
proof -
  have "wallet_solvent rt mint w" using wallet.reach_inv [OF assms(2)] assms(1) by blast
  then show ?thesis by (auto simp: wallet_solvent_def covers_def token_amount_def)
qed

end
