(* ===== verification/Shared_Frozen.thy ===== *)
theory Shared_Frozen
  imports Shared_Ledger
begin

text \<open>
  Orders no shared instruction accepts any more. An order that is closed, has nothing left to fill
  or holds no collateral fails the validation every instruction starts with; its record never
  changes again, and its address keeps its order id from being used on a recreated root.
\<close>

section \<open>Orders that fail validation\<close>

definition inert :: "SharedOrder \<Rightarrow> bool" where
  "inert r \<longleftrightarrow> so_status r \<noteq> Open \<or> so_remaining_quantity r = 0 \<or> so_locked_collateral r = 0"

lemma inert_rejected: "rules_order rt a book = Inr u \<Longrightarrow> \<not> inert (inner a)"
  by (auto simp: rules_order_def Let_def try_in_Inr require_Inr inert_def)

lemma fifo_link_live: "check_fifo_link rt book r l earlier a = Inr u \<Longrightarrow> \<not> inert (inner a)"
  by (auto simp: check_fifo_link_def Let_def try_in_Inr require_Inr dest: inert_rejected)

lemma slot_error: "slot b oc sd = Inl e \<Longrightarrow> e = SharedMarketKindMismatch"
  by (auto simp: slot_def try_in_def Let_def split: MarketKind.splits SharedOutcome.splits)

lemma inert_error:
  assumes "inert r"
  shows "rules_order rt (Account x r) book \<in> {Inl InvalidSharedNeighbor, Inl SharedMarketKindMismatch}"
proof (cases "slot (inner book) (so_outcome r) (so_side r)")
  case (Inl e)
  then show ?thesis using slot_error [OF Inl] by (simp add: rules_order_def try_in_def)
next
  case (Inr i)
  have no: "\<not> (so_status r = Open \<and> 0 < so_remaining_quantity r \<and> 0 < so_locked_collateral r)"
    using assms by (auto simp: inert_def)
  show ?thesis
    unfolding rules_order_def Let_def account.sel Inr try_in_def sum.case
    by (subst (1) require_def) (use no in auto)
qed

text \<open>The instructions of a shared book; of its root, also creation, fee withdrawal and closing.\<close>

inductive shared_step :: "runtime \<Rightarrow> token_program \<Rightarrow> world \<Rightarrow> world \<Rightarrow> bool" for rt tp where
  ss_trade: "shared_trade (at_time now rt) k w w' \<Longrightarrow> shared_step rt tp w w'"
| ss_root: "initialize_shared_book (at_time now rt) w ks kind = Inr w' \<Longrightarrow> shared_step rt tp w w'"
| ss_fees: "withdraw_shared_fees rt tp w fks amount = Inr w' \<Longrightarrow> shared_step rt tp w w'"
| ss_close: "close_shared_book rt w cks = Inr w' \<Longrightarrow> shared_step rt tp w w'"

section \<open>What each instruction writes to the orders\<close>

lemma remove_order_links:
  assumes "remove_order rt book r l pv nx bt ws rc = Inr rm"
  obtains f g where "rm_previous rm = map_option (upd_inner f) pv" "rm_next rm = map_option (upd_inner g) nx"
    "\<And>a. pv = Some a \<Longrightarrow> \<not> inert (inner a)" "\<And>a. nx = Some a \<Longrightarrow> \<not> inert (inner a)"
proof -
  obtain sl c t oc where rm: "removal_of (inner book) sl (inner r) (inner l) pv nx bt ws c t oc = rm"
    and links: "check_option pv (check_fifo_link rt book r l True) = Inr ()"
      "check_option nx (check_fifo_link rt book r l False) = Inr ()"
    using assms unfolding remove_order_def Let_def try_in_Inr require_Inr ok_or_Inr sum.inject ex_unit
    by (elim exE conjE) (rule that; assumption)
  show ?thesis
    by (rule that [of "\<lambda>v. v\<lparr>so_next_order := so_next_order (inner r)\<rparr>" "\<lambda>v. v\<lparr>so_previous_order := so_previous_order (inner r)\<rparr>"])
      (use links in \<open>auto simp: rm [symmetric] removal_of_def check_option_Inr dest: fifo_link_live\<close>)
qed

lemma orders_kept:
  assumes "loaded m pk pv" "loaded m nk nx"
    and "\<And>a. pv = Some a \<Longrightarrow> \<not> inert (inner a)" "\<And>a. nx = Some a \<Longrightarrow> \<not> inert (inner a)"
    and "m x = Some r" "inert r" "x \<noteq> key a"
  shows "save_opt (map_option (upd_inner g) nx) (save_opt (map_option (upd_inner f) pv) (save a m)) x = Some r"
proof -
  have "nk \<noteq> Some x" "pk \<noteq> Some x"
    using assms by (cases nx; cases pv; auto)+
  then show ?thesis using assms by (simp add: save_opt_upd save_apply)
qed

lemma save_claims_orders [simp]: "w_shared_orders (save_claims cl w) = w_shared_orders w"
  "w_shared_books (save_claims cl w) = w_shared_books w"
  by (simp_all add: save_claims_def)

lemma cancel_keeps_inert:
  assumes ok: "cancel_shared_order rt w ks = Inr w'" and x: "w_shared_orders w x = Some r" "inert r"
  shows "w_shared_orders w' x = Some r \<and> x \<noteq> cso_order ks"
proof (rule cancel_shared_ok [OF ok], goal_cases)
  case (1 b cl ro lv pv nx bt ws f0 l0 f l rm)
  have "x \<noteq> cso_order ks" using inert_rejected [OF 1(15)] 1(5) x by auto
  from 1(19) have "w_shared_orders w' x = Some r"
  proof (rule remove_order_links)
    fix f g assume "rm_previous rm = map_option (upd_inner f) pv" "rm_next rm = map_option (upd_inner g) nx"
      "\<And>a. pv = Some a \<Longrightarrow> \<not> inert (inner a)" "\<And>a. nx = Some a \<Longrightarrow> \<not> inert (inner a)"
    with orders_kept [OF 1(8,9) _ _ x, where f = f and g = g] \<open>x \<noteq> cso_order ks\<close> show ?thesis
      by (simp add: 1(20) [symmetric] put_removal_def)
  qed
  with \<open>x \<noteq> cso_order ks\<close> show ?case by blast
qed

lemma match_keeps_inert:
  assumes ok: "match_shared_order rt w ks oc ts lim q = Inr w'" and x: "w_shared_orders w x = Some r" "inert r"
  shows "w_shared_orders w' x = Some r \<and> x \<noteq> mso_maker_order ks"
proof (rule match_shared_ok [OF ok], goal_cases)
  case (1 b cfg ro lv mk tk nx ws sl n plan fee accrued remaining collateral level_total mk' tk' rm)
  have "rules_order rt (Account (mso_maker_order ks) ro) (Account (mso_book ks) b) = Inr ()"
    using 1(16) by (auto simp: check_shared_maker_def Let_def try_in_Inr)
  then have x': "x \<noteq> mso_maker_order ks" using inert_rejected 1(4) x by fastforce
  have "w_shared_orders w' x = Some r"
  proof (cases "maker_fully_filled plan")
    case True
    with 1(27) have "remove_order rt (Account (mso_book ks) b) (Account (mso_maker_order ks) ro)
        (Account (mso_price_level ks) lv) None nx None ws (mso_level_rent_recipient ks) = Inr rm" by simp
    then show ?thesis
    proof (rule remove_order_links)
      fix f g assume "rm_previous rm = map_option (upd_inner f) None" "rm_next rm = map_option (upd_inner g) nx"
        "\<And>a. nx = Some a \<Longrightarrow> \<not> inert (inner a)"
      with orders_kept [of "w_shared_orders w" None None "mso_next_order ks" nx x r _ g f] 1(8) x x' show ?thesis
        by (simp add: 1(28) [symmetric] put_removal_def)
    qed
  next
    case False
    with 1(26,27) have "rm_next rm = None" "rm_previous rm = None" using 1(25) by auto
    with x x' show ?thesis by (simp add: 1(28) [symmetric] put_removal_def save_opt_def save_apply)
  qed
  with x' show ?case by blast
qed

lemma place_keeps_inert:
  assumes ok: "place_shared_order rt w ks oc sd p q i = Inr w'" and x: "w_shared_orders w x = Some r" "inert r"
  shows "w_shared_orders w' x = Some r"
proof (rule place_shared_ok [OF ok], goal_cases)
  case (1 b cl tail bt ws sl amount nid cnt plan f0 l0 f l)
  have new: "x \<noteq> pso_order ks" using 1(7) x by auto
  show ?case
  proof (cases plan)
    case None
    with new x show ?thesis by (simp add: 1(24) [symmetric] put_placement_def)
  next
    case (Some pl)
    obtain tl n t where pl: "pl = (tl, n, t)" by (cases pl)
    with Some 1(21) have tl: "tail = Some tl" "rules_order rt tl (Account (pso_book ks) b) = Inr ()"
      by (auto simp: check_place_def check_append_def Let_def try_in_Inr require_Inr ok_or_Inr split: if_splits)
    then have "key tl \<noteq> x" using inert_rejected 1(9) x by fastforce
    with new x Some pl show ?thesis by (simp add: 1(24) [symmetric] put_placement_def save_apply)
  qed
qed

section \<open>Along runs\<close>

lemma shared_step_cases:
  assumes "shared_step rt tp w w'"
  obtains now k where "shared_trade (at_time now rt) k w w'" | "w_shared_orders w' = w_shared_orders w"
  using assms
proof cases
  case (ss_trade now k)
  then show ?thesis by (rule that(1))
next
  case (ss_root now ks kind)
  then show ?thesis unfolding initialize_shared_book_def shared_inversions load_creator_Inr
    by (elim exE conjE) (use that(2) in auto)
next
  case (ss_fees fks amount)
  then show ?thesis unfolding withdraw_shared_fees_def shared_inversions load_asset_vault_Inr
    by (elim exE conjE) (use that(2) in auto)
next
  case (ss_close cks)
  then show ?thesis unfolding close_shared_book_def shared_inversions load_creator_Inr
    by (elim exE conjE) (use that(2) in auto)
qed

lemma shared_step_inert:
  assumes "shared_step rt tp w w'" "w_shared_orders w x = Some r" "inert r"
  shows "w_shared_orders w' x = Some r"
  using assms(1)
proof (cases rule: shared_step_cases)
  case (1 now k)
  then show ?thesis
  proof cases
    case (st_place pks oc sd p q i)
    show ?thesis by (rule place_keeps_inert [OF st_place(1) assms(2,3)])
  next
    case (st_cancel cks)
    show ?thesis using cancel_keeps_inert [OF st_cancel(1) assms(2,3)] by (rule conjunct1)
  next
    case (st_match mks oc ts lim q)
    show ?thesis using match_keeps_inert [OF st_match(1) assms(2,3)] by (rule conjunct1)
  qed
qed (use assms(2) in simp)

text \<open>No shared instruction closes an order account.\<close>

lemma put_removal_orders:
  "w_shared_orders w x \<noteq> None \<Longrightarrow> w_shared_orders (put_removal book a l rm w) x \<noteq> None"
  by (simp add: put_removal_def save_opt_apply save_apply split: option.split)

lemma put_placement_orders:
  "w_shared_orders w x \<noteq> None \<Longrightarrow> w_shared_orders (put_placement ks b sl l no nl p plan bt ws w) x \<noteq> None"
  by (simp add: put_placement_def save_apply split: option.split)

lemma shared_step_stays:
  assumes "shared_step rt tp w w'" and x: "w_shared_orders w x \<noteq> None"
  shows "w_shared_orders w' x \<noteq> None"
  using assms(1)
proof (cases rule: shared_step_cases)
  case (1 now k)
  then show ?thesis
  proof cases
    case (st_place pks oc sd p q i)
    from this(1) show ?thesis
      by (rule place_shared_ok) (use put_placement_orders x in \<open>metis save_claims_orders(1)\<close>)
  next
    case (st_cancel cks)
    from this(1) show ?thesis
      by (rule cancel_shared_ok) (use put_removal_orders x in \<open>metis save_claims_orders(1)\<close>)
  next
    case (st_match mks oc ts lim q)
    from this(1) show ?thesis
      by (rule match_shared_ok) (use put_removal_orders x in \<open>metis save_claims_orders(1)\<close>)
  qed
qed (use x in simp)

text \<open>A root whose first order id is already taken by an order account hands out no id.\<close>

definition root_stuck :: "runtime \<Rightarrow> pubkey \<Rightarrow> world \<Rightarrow> bool" where
  "root_stuck rt k w \<longleftrightarrow> w_shared_orders w (order_key rt k 1) \<noteq> None \<and>
     (\<forall>b. w_shared_books w k = Some b \<longrightarrow> sbk_next_order_id b = 1)"

lemma order_key_time [simp]: "order_key (at_time now rt) k i = order_key rt k i"
  by (simp add: order_key_def)

lemma stuck_root_rejects:
  assumes "root_stuck rt k w" "pso_book ks = k"
  shows "\<exists>e. place_shared_order (at_time now rt) w ks oc sd p q i = Inl e"
proof (cases "place_shared_order (at_time now rt) w ks oc sd p q i")
  case (Inr w')
  then show ?thesis
  proof (rule place_shared_ok, goal_cases)
    case (1 b)
    then show ?case using assms by (simp add: root_stuck_def)
  qed
qed blast

lemma cancel_next_id:
  assumes "cancel_shared_order rt w ks = Inr w'" "w_shared_books w' k = Some b'"
  shows "\<exists>b. w_shared_books w k = Some b \<and> sbk_next_order_id b' = sbk_next_order_id b"
proof (rule cancel_shared_ok [OF assms(1)], goal_cases)
  case (1 b cl r lv pv nx bt ws f0 l0 f l rm)
  show ?case using remove_order_root(3) [OF 1(19)] 1(1) assms(2)
    by (auto simp: 1(20) [symmetric] put_removal_def split: if_splits)
qed

lemma match_next_id:
  assumes "match_shared_order rt w ks oc ts lim q = Inr w'" "w_shared_books w' k = Some b'"
  shows "\<exists>b. w_shared_books w k = Some b \<and> sbk_next_order_id b' = sbk_next_order_id b"
proof (rule match_shared_ok [OF assms(1)], goal_cases)
  case (1 b cfg r lv mk tk nx ws sl n plan fee accrued remaining collateral level_total mk' tk' rm)
  have "sbk_next_order_id (rm_book rm) = sbk_next_order_id b"
  proof (cases "maker_fully_filled plan")
    case True
    then show ?thesis using remove_order_root(3) [of rt "Account (mso_book ks) b"] 1(27) by fastforce
  next
    case False
    then show ?thesis using 1(27) by auto
  qed
  then show ?case using 1(1) assms(2) by (auto simp: 1(28) [symmetric] put_removal_def split: if_splits)
qed

lemma place_other_book:
  assumes "place_shared_order rt w ks oc sd p q i = Inr w'" "pso_book ks \<noteq> k"
  shows "w_shared_books w' k = w_shared_books w k"
proof (rule place_shared_ok [OF assms(1)], goal_cases)
  case (1 b)
  show ?case using assms(2) by (auto simp: 1(24) [symmetric] put_placement_def split: option.split)
qed

lemma shared_step_stuck:
  assumes step: "shared_step rt tp w w'" and stuck: "root_stuck rt k w"
  shows "root_stuck rt k w'"
proof -
  have ids: "sbk_next_order_id b' = 1" if b': "w_shared_books w' k = Some b'" for b'
    using step
  proof cases
    case (ss_trade now k')
    then show ?thesis
    proof cases
      case (st_place pks oc sd p q i)
      have "pso_book pks \<noteq> k"
        using stuck_root_rejects [OF stuck, of pks now oc sd p q i] st_place(1) by auto
      with place_other_book [OF st_place(1)] b' stuck show ?thesis by (simp add: root_stuck_def)
    next
      case (st_cancel cks)
      from cancel_next_id [OF this(1) b'] stuck show ?thesis by (auto simp: root_stuck_def)
    next
      case (st_match mks oc ts lim q)
      from match_next_id [OF this(1) b'] stuck show ?thesis by (auto simp: root_stuck_def)
    qed
  next
    case (ss_root now ks kind)
    then show ?thesis unfolding initialize_shared_book_def shared_inversions load_creator_Inr
      by (elim exE conjE) (use b' stuck in \<open>auto simp: root_stuck_def split: if_splits\<close>)
  next
    case (ss_fees fks amount)
    then show ?thesis unfolding withdraw_shared_fees_def shared_inversions load_asset_vault_Inr
      by (elim exE conjE) (use b' stuck in \<open>auto simp: root_stuck_def split: if_splits\<close>)
  next
    case (ss_close cks)
    then show ?thesis unfolding close_shared_book_def shared_inversions load_creator_Inr
      by (elim exE conjE) (use b' stuck in \<open>auto simp: root_stuck_def split: if_splits\<close>)
  qed
  with shared_step_stays [OF step] stuck show ?thesis by (simp add: root_stuck_def)
qed

interpretation frozen: transition_invariant "\<lambda>w. w_shared_orders w x = Some r \<and> inert r" "shared_step rt tp"
  "\<lambda>w. w_shared_orders w x = Some r \<and> inert r" for x r rt tp
  by unfold_locales (auto intro: shared_step_inert)

interpretation stuck: transition_invariant "root_stuck rt k" "shared_step rt tp" "root_stuck rt k" for k rt tp
  by unfold_locales (auto intro: shared_step_stuck)

section \<open>Properties\<close>

text \<open>C30: An open order whose collateral is used up is rejected forever. A partial fill of a shared bid
  may spend the whole lock while base atoms remain (their notional rounds to zero). From then on the
  order fails validation with \<open>InvalidSharedNeighbor\<close>, neither its owner's cancellation nor any match
  against it succeeds, and no sequence of shared instructions changes its record. The same holds for
  every closed order: its history is never overwritten.\<close>

theorem exhausted_shared_orders_are_rejected:
  assumes "reach (\<lambda>w. w_shared_orders w x = Some r \<and> inert r) (shared_step rt tp) w"
  shows "w_shared_orders w x = Some r \<and>
    rules_order rt' (Account x r) book \<in> {Inl InvalidSharedNeighbor, Inl SharedMarketKindMismatch} \<and>
    (cso_order cks = x \<longrightarrow> (\<exists>e. cancel_shared_order rt' w cks = Inl e)) \<and>
    (mso_maker_order mks = x \<longrightarrow> (\<exists>e. match_shared_order rt' w mks oc ts lim q = Inl e))"
proof -
  have r: "w_shared_orders w x = Some r" "inert r" using frozen.reach_inv [OF assms] by blast+
  have "rules_order rt' (Account x r) book \<in> {Inl InvalidSharedNeighbor, Inl SharedMarketKindMismatch}"
    using r(2) by (rule inert_error)
  moreover have "\<exists>e. cancel_shared_order rt' w cks = Inl e" if "cso_order cks = x"
    using cancel_keeps_inert [OF _ r] that by (cases "cancel_shared_order rt' w cks") blast+
  moreover have "\<exists>e. match_shared_order rt' w mks oc ts lim q = Inl e" if "mso_maker_order mks = x"
    using match_keeps_inert [OF _ r] that by (cases "match_shared_order rt' w mks oc ts lim q") blast+
  ultimately show ?thesis using r(1) by blast
qed

text \<open>C31: A recreated shared book never trades. When the root of a book on which an order was placed is
  closed and created again, order ids restart at 1, whose address the historical order still
  occupies: whatever shared instructions follow, every placement on the book fails.\<close>

theorem recreated_shared_book_rejects_orders:
  assumes "w_shared_orders w (order_key rt (isb_book ks) 1) \<noteq> None"
    and "initialize_shared_book rt w ks kind = Inr w1" "(shared_step rt tp)\<^sup>*\<^sup>* w1 w2"
    and "pso_book pks = isb_book ks"
  shows "\<exists>e. place_shared_order (at_time now rt) w2 pks oc sd p q i = Inl e"
proof -
  have "root_stuck rt (isb_book ks) w1"
    using assms(1,2) unfolding initialize_shared_book_def shared_inversions load_creator_Inr
    by (elim exE conjE) (auto simp: root_stuck_def)
  then have "root_stuck rt (isb_book ks) w2" by (rule stuck.steps_inv [OF assms(3)])
  then show ?thesis using assms(4) by (rule stuck_root_rejects)
qed

end
