(* ===== verification/Shared_Demo.thy ===== *)
theory Shared_Demo
  imports Prediction_Demo Shared_Wallet Shared_Frozen
begin

text \<open>
  A concrete shared book: two traders open wallet ledgers and deposit, the creator opens a book on a
  spot market whose base mint has one decimal, the first trader bids and the second fills a part of
  the bid. The runs show that the hypotheses of the shared-wallet properties are met.
\<close>

section \<open>The addresses of two wallets and a book\<close>

definition sd_table :: "(pda_request \<times> pubkey) list" where
  "sd_table = [(MarketPda 11 12, 1023),
     (ProtocolConfigPda, 9000),
     (AdminPda 1, 10001),
     (AssetBalancePda 5 12, 18017),
     (AssetBalancePda 5 11, 18016),
     (AssetBalancePda 9 12, 18021),
     (AssetBalancePda 9 11, 18020),
     (AssetVaultPda 11, 19011),
     (AssetVaultPda 12, 19012),
     (AssetAuthorityPda 11, 20011),
     (AssetAuthorityPda 12, 20012),
     (SharedBookPda 1023, 21255),
     (SharedOrderPda 21255 1, 22008),
     (SharedLevelPda 21255 SpotList Bid 1, 23221)]"

definition sd_rt :: runtime where
  "sd_rt = table_runtime sd_table"

lemma sd_now [simp]: "at_time 0 sd_rt = sd_rt"
  by (simp add: at_time_def sd_rt_def table_runtime_def)

lemma sd_pda:
  "pda sd_rt (MarketPda 11 12) = (1023, 255)"
  "pda sd_rt ProtocolConfigPda = (9000, 255)"
  "pda sd_rt (AdminPda 1) = (10001, 255)"
  "pda sd_rt (AssetBalancePda 5 12) = (18017, 255)"
  "pda sd_rt (AssetBalancePda 5 11) = (18016, 255)"
  "pda sd_rt (AssetBalancePda 9 12) = (18021, 255)"
  "pda sd_rt (AssetBalancePda 9 11) = (18020, 255)"
  "pda sd_rt (AssetVaultPda 11) = (19011, 255)"
  "pda sd_rt (AssetVaultPda 12) = (19012, 255)"
  "pda sd_rt (AssetAuthorityPda 11) = (20011, 255)"
  "pda sd_rt (AssetAuthorityPda 12) = (20012, 255)"
  "pda sd_rt (SharedBookPda 1023) = (21255, 255)"
  "pda sd_rt (SharedOrderPda 21255 1) = (22008, 255)"
  "pda sd_rt (SharedLevelPda 21255 SpotList Bid 1) = (23221, 255)"
  by (simp_all add: sd_rt_def table_pda sd_table_def)

lemma sd_addresses [simp]:
  "address sd_rt (MarketPda 11 12) = 1023"
  "address sd_rt ProtocolConfigPda = 9000"
  "address sd_rt (AdminPda 1) = 10001"
  "address sd_rt (AssetBalancePda 5 12) = 18017"
  "address sd_rt (AssetBalancePda 5 11) = 18016"
  "address sd_rt (AssetBalancePda 9 12) = 18021"
  "address sd_rt (AssetBalancePda 9 11) = 18020"
  "address sd_rt (AssetVaultPda 11) = 19011"
  "address sd_rt (AssetVaultPda 12) = 19012"
  "address sd_rt (AssetAuthorityPda 11) = 20011"
  "address sd_rt (AssetAuthorityPda 12) = 20012"
  "address sd_rt (SharedBookPda 1023) = 21255"
  "address sd_rt (SharedOrderPda 21255 1) = 22008"
  "address sd_rt (SharedLevelPda 21255 SpotList Bid 1) = 23221"
  by (simp_all add: sd_rt_def table_address sd_table_def)

section \<open>Wallets, a book and a fill\<close>

definition sd_wallet :: "pubkey \<Rightarrow> pubkey \<Rightarrow> u64 \<Rightarrow> u64 \<Rightarrow> AssetBalance" where
  "sd_wallet owner mint free locked =
     \<lparr>ab_owner = owner, ab_mint = mint, ab_free = free, ab_locked = locked, ab_bump = 255\<rparr>"

definition sd_token :: "pubkey \<Rightarrow> pubkey \<Rightarrow> u64 \<Rightarrow> TokenAccount" where
  "sd_token mint owner amount = \<lparr>ta_mint = mint, ta_owner = owner, ta_amount = amount, ta_frozen = False\<rparr>"

definition sd_market :: Market where
  "sd_market = \<lparr>mkt_authority = 1, mkt_base_mint = 11, mkt_quote_mint = 12, mkt_status = MarketActive,
     mkt_next_order_id = 0, mkt_base_decimals = 1, mkt_quote_decimals = 0, mkt_price_tick_size = 1,
     mkt_quantity_lot_size = 1, mkt_best_bid = None, mkt_best_ask = None, mkt_open_order_count = 0,
     mkt_bump = 255\<rparr>"

definition sd0 :: world where
  "sd0 = gov0\<lparr>
     w_spot := empty_spot\<lparr>ss_markets := [1023 \<mapsto> sd_market],
       ss_configs := [9000 \<mapsto> \<lparr>cfg_super_admin = 1, cfg_taker_fee_bps = 100, cfg_bump = 255\<rparr>]\<rparr>,
     w_admins := [10001 \<mapsto> \<lparr>adm_authority = 1, adm_added_by = 1, adm_status = AdminActive, adm_bump = 255\<rparr>],
     w_mints := [11 \<mapsto> \<lparr>mint_decimals = 1, mint_supply = 100, mint_authority = None\<rparr>,
       12 \<mapsto> \<lparr>mint_decimals = 0, mint_supply = 100, mint_authority = None\<rparr>],
     w_tokens := [50 \<mapsto> sd_token 12 5 100, 51 \<mapsto> sd_token 11 9 100]\<rparr>"

text \<open>Each trader opens a base and a quote ledger.\<close>

definition sd1 :: world where
  "sd1 = sd0\<lparr>
     w_assets := [18017 \<mapsto> sd_wallet 5 12 0 0, 18016 \<mapsto> sd_wallet 5 11 0 0, 18021 \<mapsto> sd_wallet 9 12 0 0,
       18020 \<mapsto> sd_wallet 9 11 0 0],
     w_tokens := [50 \<mapsto> sd_token 12 5 100, 51 \<mapsto> sd_token 11 9 100, 19012 \<mapsto> sd_token 12 20012 0,
       19011 \<mapsto> sd_token 11 20011 0]\<rparr>"

definition sd_open_keys :: "pubkey \<Rightarrow> pubkey \<Rightarrow> pubkey \<Rightarrow> InitializeAssetBalance" where
  "sd_open_keys owner mint ledger = \<lparr>iab_owner = owner, iab_mint = mint, iab_asset_balance = ledger,
     iab_vault_authority = (if mint = 12 then 20012 else 20011), iab_asset_vault = (if mint = 12 then 19012 else 19011)\<rparr>"

lemma sd_run_open:
  "\<exists>w1 w2 w3. initialize_asset_balance sd_rt sd0 (sd_open_keys 5 12 18017) = Inr w1 \<and>
     initialize_asset_balance sd_rt w1 (sd_open_keys 5 11 18016) = Inr w2 \<and>
     initialize_asset_balance sd_rt w2 (sd_open_keys 9 12 18021) = Inr w3 \<and>
     initialize_asset_balance sd_rt w3 (sd_open_keys 9 11 18020) = Inr sd1"
  by (simp add: initialize_asset_balance_def load_def asset_vault_def asset_authority_def sd_open_keys_def sd0_def
      sd1_def gov0_def try_in_def new_token_account_def sd_token_def sd_wallet_def put_asset_def sd_pda)

text \<open>They deposit quote and base.\<close>

definition sd2 :: world where
  "sd2 = sd1\<lparr>
     w_assets := [18017 \<mapsto> sd_wallet 5 12 50 0, 18016 \<mapsto> sd_wallet 5 11 0 0, 18021 \<mapsto> sd_wallet 9 12 0 0,
       18020 \<mapsto> sd_wallet 9 11 40 0],
     w_tokens := [50 \<mapsto> sd_token 12 5 50, 51 \<mapsto> sd_token 11 9 60, 19012 \<mapsto> sd_token 12 20012 50,
       19011 \<mapsto> sd_token 11 20011 40]\<rparr>"

definition sd_deposit_keys :: "pubkey \<Rightarrow> pubkey \<Rightarrow> pubkey \<Rightarrow> pubkey \<Rightarrow> TransferAsset" where
  "sd_deposit_keys owner mint ledger source = \<lparr>tra_owner = owner, tra_mint = mint, tra_asset_balance = ledger,
     tra_wallet_token = source, tra_vault_authority = (if mint = 12 then 20012 else 20011),
     tra_asset_vault = (if mint = 12 then 19012 else 19011)\<rparr>"

lemma sd_run_deposit:
  "\<exists>w1. deposit_asset sd_rt example_token_program sd1 (sd_deposit_keys 5 12 18017 50) 50 = Inr w1 \<and>
     deposit_asset sd_rt example_token_program w1 (sd_deposit_keys 9 11 18020 51) 40 = Inr sd2"
  by (simp add: deposit_asset_def load_transfer_asset_def load_asset_def load_asset_vault_def load_def asset_vault_def
      asset_authority_def sd_deposit_keys_def sd0_def sd1_def sd2_def gov0_def sd_token_def sd_wallet_def put_asset_def
      checked_add_def example_token_program_def example_transfer_def fun_upd_twist)

text \<open>The book on the market, a bid for 19 base atoms (1.9 units) at price 1, which locks one quote
  atom, and a sale of 10 of them for that quote atom.\<close>

definition sd_book :: "u64 option \<Rightarrow> u64 \<Rightarrow> u64 \<Rightarrow> u64 \<Rightarrow> SharedBook" where
  "sd_book best next_id n fees = \<lparr>sbk_market = 1023, sbk_authority = 1, sbk_kind = Spot, sbk_base_mint = 11,
     sbk_quote_mint = 12, sbk_base_decimals = 1, sbk_quote_decimals = 0, sbk_price_tick = 1,
     sbk_quantity_lot = 1, sbk_payout_per_contract = 0, sbk_best_prices = [best, None, None, None],
     sbk_next_order_id = next_id, sbk_open_order_count = n, sbk_accrued_quote_fees = fees, sbk_bump = 255\<rparr>"

definition sd3 :: world where "sd3 = sd2\<lparr>w_shared_books := [21255 \<mapsto> sd_book None 1 0 0]\<rparr>"

definition sd_book_keys :: InitializeSharedBook where
  "sd_book_keys = \<lparr>isb_authority = 1, isb_admin_record = 10001, isb_market = 1023, isb_book = 21255\<rparr>"

lemmas sd_worlds = sd0_def sd1_def sd2_def gov0_def empty_spot_def sd_token_def sd_market_def

lemma sd_run_book: "initialize_shared_book sd_rt sd2 sd_book_keys Spot = Inr sd3"
  by (simp add: initialize_shared_book_def load_creator_def load_def terms_def program_owned_def sd_book_keys_def
      sd3_def sd_worlds sd_book_def sd_pda try_in_def)

definition sd_claims :: "pubkey \<Rightarrow> pubkey \<Rightarrow> claim_keys" where
  "sd_claims base quote = \<lparr>ck_base = Some base, ck_quote = quote, ck_position = None\<rparr>"

definition sd_place_keys :: PlaceSharedOrder where
  "sd_place_keys = \<lparr>pso_owner = 5, pso_market = 1023, pso_book = 21255, pso_claims = sd_claims 18016 18017,
     pso_order = 22008, pso_price_level = 23221, pso_tail = None, pso_better_level = None,
     pso_worse_level = None\<rparr>"

definition sd_level :: "u64 \<Rightarrow> SharedPriceLevel" where
  "sd_level q = \<lparr>sl_book = 21255, sl_market = 1023, sl_outcome = SpotList, sl_side = Bid, sl_price = 1,
     sl_better_price = None, sl_worse_price = None, sl_first_order = Some 22008, sl_last_order = Some 22008,
     sl_total_remaining_quantity = q, sl_order_count = 1, sl_rent_payer = 5, sl_bump = 255\<rparr>"

definition sd_order :: "u64 \<Rightarrow> u64 \<Rightarrow> SharedOrder" where
  "sd_order remaining locked = \<lparr>so_owner = 5, so_market = 1023, so_book = 21255, so_order_id = 1,
     so_outcome = SpotList, so_side = Bid, so_price = 1, so_price_level = 23221, so_previous_order = None,
     so_next_order = None, so_quantity = 19, so_remaining_quantity = remaining, so_locked_collateral = locked,
     so_status = Open, so_bump = 255\<rparr>"

definition sd4 :: world where
  "sd4 = sd3\<lparr>
     w_assets := [18017 \<mapsto> sd_wallet 5 12 49 1, 18016 \<mapsto> sd_wallet 5 11 0 0, 18021 \<mapsto> sd_wallet 9 12 0 0,
       18020 \<mapsto> sd_wallet 9 11 40 0],
     w_shared_books := [21255 \<mapsto> sd_book (Some 1) 2 1 0], w_shared_levels := [23221 \<mapsto> sd_level 19],
     w_shared_orders := [22008 \<mapsto> sd_order 19 1]\<rparr>"

lemma sd_book_simps [simp]:
  "sbk_market (sd_book best n c f) = 1023" "sbk_authority (sd_book best n c f) = 1"
  "sbk_kind (sd_book best n c f) = Spot" "sbk_base_mint (sd_book best n c f) = 11"
  "sbk_quote_mint (sd_book best n c f) = 12" "sbk_base_decimals (sd_book best n c f) = 1"
  "sbk_quote_decimals (sd_book best n c f) = 0" "sbk_price_tick (sd_book best n c f) = 1"
  "sbk_quantity_lot (sd_book best n c f) = 1" "sbk_payout_per_contract (sd_book best n c f) = 0"
  "sbk_best_prices (sd_book best n c f) = [best, None, None, None]" "sbk_next_order_id (sd_book best n c f) = n"
  "sbk_open_order_count (sd_book best n c f) = c" "sbk_accrued_quote_fees (sd_book best n c f) = f"
  by (simp_all add: sd_book_def)

lemma sd_book_upds [simp]:
  "(sd_book best n c f)\<lparr>sbk_best_prices := [p, None, None, None]\<rparr> = sd_book p n c f"
  "(sd_book best n c f)\<lparr>sbk_next_order_id := m\<rparr> = sd_book best m c f"
  "(sd_book best n c f)\<lparr>sbk_open_order_count := m\<rparr> = sd_book best n m f"
  "(sd_book best n c f)\<lparr>sbk_accrued_quote_fees := m\<rparr> = sd_book best n c m"
  by (simp_all add: sd_book_def)

lemma sd_order_simps [simp]:
  "so_owner (sd_order q l) = 5" "so_market (sd_order q l) = 1023" "so_book (sd_order q l) = 21255"
  "so_order_id (sd_order q l) = 1" "so_outcome (sd_order q l) = SpotList" "so_side (sd_order q l) = Bid"
  "so_price (sd_order q l) = 1" "so_price_level (sd_order q l) = 23221" "so_previous_order (sd_order q l) = None"
  "so_next_order (sd_order q l) = None" "so_quantity (sd_order q l) = 19"
  "so_remaining_quantity (sd_order q l) = q" "so_locked_collateral (sd_order q l) = l" "so_status (sd_order q l) = Open"
  "(sd_order q l)\<lparr>so_remaining_quantity := q'\<rparr> = sd_order q' l"
  "(sd_order q l)\<lparr>so_locked_collateral := l'\<rparr> = sd_order q l'"
  by (simp_all add: sd_order_def)

lemma sd_level_simps [simp]:
  "sl_book (sd_level q) = 21255" "sl_market (sd_level q) = 1023" "sl_outcome (sd_level q) = SpotList"
  "sl_side (sd_level q) = Bid" "sl_price (sd_level q) = 1" "sl_better_price (sd_level q) = None"
  "sl_worse_price (sd_level q) = None" "sl_first_order (sd_level q) = Some 22008"
  "sl_last_order (sd_level q) = Some 22008" "sl_total_remaining_quantity (sd_level q) = q"
  "sl_order_count (sd_level q) = 1" "sl_rent_payer (sd_level q) = 5" "(sd_level q)\<lparr>sl_total_remaining_quantity := q'\<rparr> = sd_level q'"
  by (simp_all add: sd_level_def)

lemma sd3_simps [simp]:
  "w_spot sd3 = w_spot sd0" "w_predictions sd3 = Map.empty" "w_positions sd3 = Map.empty"
  "w_shared_books sd3 = [21255 \<mapsto> sd_book None 1 0 0]" "w_shared_levels sd3 = Map.empty"
  "w_shared_orders sd3 = Map.empty" "w_tokens sd3 = w_tokens sd2" "w_assets sd3 = w_assets sd2"
  by (simp_all add: sd3_def sd_worlds)

lemma sd4_simps [simp]:
  "w_spot sd4 = w_spot sd0" "w_predictions sd4 = Map.empty" "w_positions sd4 = Map.empty"
  "w_shared_books sd4 = [21255 \<mapsto> sd_book (Some 1) 2 1 0]" "w_shared_levels sd4 = [23221 \<mapsto> sd_level 19]"
  "w_shared_orders sd4 = [22008 \<mapsto> sd_order 19 1]" "w_tokens sd4 = w_tokens sd2"
  "w_assets sd4 = [18017 \<mapsto> sd_wallet 5 12 49 1, 18016 \<mapsto> sd_wallet 5 11 0 0, 18021 \<mapsto> sd_wallet 9 12 0 0,
     18020 \<mapsto> sd_wallet 9 11 40 0]"
  by (simp_all add: sd4_def)

lemma sd_spot: "ss_markets (w_spot sd0) 1023 = Some sd_market"
  "ss_configs (w_spot sd0) 9000 = Some \<lparr>cfg_super_admin = 1, cfg_taker_fee_bps = 100, cfg_bump = 255\<rparr>"
  by (simp_all add: sd0_def)

lemma sd_assets2: "w_assets sd2 = [18017 \<mapsto> sd_wallet 5 12 50 0, 18016 \<mapsto> sd_wallet 5 11 0 0,
    18021 \<mapsto> sd_wallet 9 12 0 0, 18020 \<mapsto> sd_wallet 9 11 40 0]"
  by (simp add: sd2_def)

lemma sd_quote: "quote_amount (sd_book best n c f) 1 19 = Inr 1" "quote_amount (sd_book best n c f) 1 10 = Inr 1"
  by (auto simp: quote_amount_Inr notional_def intro: exI [of _ "10 :: u128"])

lemma sd_owned: "program_owned sd3 1023" "program_owned sd4 1023"
  by (simp_all add: program_owned_def sd_spot)

lemma sd_trading: "trading_open sd_rt sd3 (sd_book best n c f) 1023 = Inr ()"
  "trading_open sd_rt sd4 (sd_book best n c f) 1023 = Inr ()"
  by (simp_all add: trading_open_def terms_def sd_owned try_in_def sd_spot sd_market_def)

lemma sd_slot: "slot (sd_book best n c f) SpotList sd = Inr (if sd = Ask then 1 else 0)"
  by (simp add: slot_def try_in_def)

lemmas sd_checks = load_shared_book_def load_claims_def load_def load_opt_def sd_owned sd_trading sd_slot
  rules_trader_def rules_asset_def order_terms_def sd_quote is_multiple_of_def
  order_key_def level_key_def checked_add_def checked_sub_def Let_def try_in_def default_key_def sd_claims_def sd_wallet_def

lemma sd_run_place: "place_shared_order sd_rt sd3 sd_place_keys SpotList Bid 1 19 1 = Inr sd4"
  by (simp add: place_shared_order_def sd_checks sd_place_keys_def sd_assets2 level_or_zeroed_def zeroed_level_def
      check_place_def check_insert_def check_option_def rules_lock_def order_bucket_def set_order_bucket_def set_cash_def
      put_placement_def save_claims_def save_def upd_inner_def save_opt_def)
   (simp add: sd4_def sd_level_def sd_order_def new_shared_order_def new_shared_level_def sd_pda sd_wallet_def fun_upd_twist)

definition sd5 :: world where
  "sd5 = sd4\<lparr>
     w_assets := [18017 \<mapsto> sd_wallet 5 12 49 0, 18016 \<mapsto> sd_wallet 5 11 10 0, 18021 \<mapsto> sd_wallet 9 12 0 0,
       18020 \<mapsto> sd_wallet 9 11 30 0],
     w_shared_books := [21255 \<mapsto> sd_book (Some 1) 2 1 1], w_shared_levels := [23221 \<mapsto> sd_level 9],
     w_shared_orders := [22008 \<mapsto> sd_order 9 0]\<rparr>"

definition sd_match_keys :: MatchSharedOrder where
  "sd_match_keys = \<lparr>mso_taker = 9, mso_market = 1023, mso_book = 21255, mso_protocol_config = 9000,
     mso_maker_order = 22008, mso_price_level = 23221, mso_maker = sd_claims 18016 18017,
     mso_taker_claims = sd_claims 18020 18021, mso_next_order = None, mso_worse_level = None,
     mso_level_rent_recipient = None\<rparr>"

lemma sd_maker: "check_shared_maker sd_rt (Account 21255 (sd_book (Some 1) 2 1 0)) (Suc 0)
    (Account 22008 (sd_order 19 1)) (Account 23221 (sd_level 19)) 9 SpotList = Inr ()"
  by (simp add: check_shared_maker_def rules_order_def rules_level_def sd_checks)

definition sd_plan :: SettlementPlan where
  "sd_plan = \<lparr>fill = \<lparr>base_quantity = 10, quote_quantity = 1, execution_price = 1\<rparr>, maker_locked_debit = 1,
     maker_quote_refund = 0, maker_fully_filled = False, taker_fully_filled = True\<rparr>"

lemma sd_settlement: "calculate_settlement Ask 1 10 Bid 1 19 1 1 = Inr sd_plan"
proof -
  have "calculate_fill 1 10 19 1 = Inr (fill sd_plan)"
    by (auto simp: calculate_fill_Inr sd_plan_def min_def notional_def intro: exI [of _ "10 :: u128"])
  then show ?thesis by (simp add: calculate_settlement_Inr sd_plan_def)
qed

lemma sd_fee: "calculate_taker_fee 1 100 = Inr 1"
proof -
  obtain f where "calculate_taker_fee 1 100 = Inr f" "unat f = fee_ceiling (unat (1 :: u64)) (unat (100 :: u16))"
    using calculate_taker_fee_value [of "100 :: u16" "1 :: u64"] by auto
  then show ?thesis by (simp add: fee_ceiling_def word_unat_eq_iff)
qed

lemma sd_run_match: "match_shared_order sd_rt sd4 sd_match_keys SpotList Ask 1 10 = Inr sd5"
  by (simp add: match_shared_order_def sd_checks sd_match_keys_def sd_spot sd_maker sd_settlement sd_fee keys_of_def
      settle_shared_def base_buckets_def sd_plan_def filled_shared_order_def set_cash_def put_removal_def save_claims_def
      save_def upd_inner_def save_opt_def)
   (simp add: sd5_def sd_wallet_def fun_upd_twist)

section \<open>The hypotheses are met\<close>

lemma sd_trade: "shared_trade (at_time 0 sd_rt) 21255 sd4 sd5"
  using st_match [OF sd_run_match] by (simp add: sd_match_keys_def)

lemma sd_finite: "finite_claims sd4"
  by (simp add: finite_claims_def)

theorem shared_trades_conserve_value_witness:
  "match_shared_order sd_rt sd4 sd_match_keys SpotList Ask 1 10 = Inr sd5 \<and>
    total_worth (mint_valuation 12) sd5 = total_worth (mint_valuation 12) sd4"
  using shared_trades_conserve_value [OF sd_trade sd_finite] sd_run_match by blast

lemma sd_wallet_reach: "reach (wallet_start 12) (wallet_step sd_rt example_token_program 12) sd5"
proof -
  obtain w1 w2 w3 where opened: "initialize_asset_balance sd_rt sd0 (sd_open_keys 5 12 18017) = Inr w1"
    "initialize_asset_balance sd_rt w1 (sd_open_keys 5 11 18016) = Inr w2"
    "initialize_asset_balance sd_rt w2 (sd_open_keys 9 12 18021) = Inr w3"
    "initialize_asset_balance sd_rt w3 (sd_open_keys 9 11 18020) = Inr sd1"
    using sd_run_open by blast
  obtain w4 where deposited: "deposit_asset sd_rt example_token_program sd1 (sd_deposit_keys 5 12 18017 50) 50 = Inr w4"
    "deposit_asset sd_rt example_token_program w4 (sd_deposit_keys 9 11 18020 51) 40 = Inr sd2"
    using sd_run_deposit by blast
  have "wallet_start 12 sd0" by (simp add: wallet_start_def finite_claims_def sd0_def gov0_def)
  moreover have "shared_trade (at_time 0 sd_rt) 21255 sd3 sd4"
    using st_place [OF sd_run_place] by (simp add: sd_place_keys_def)
  moreover have "initialize_shared_book (at_time 0 sd_rt) sd2 sd_book_keys Spot = Inr sd3" using sd_run_book by simp
  ultimately show ?thesis
    using opened [THEN ws_open [where tp = example_token_program and mint = 12]]
      deposited [THEN ws_deposit [where mint = 12]]
      ws_root [where tp = example_token_program and mint = 12] ws_trade [where tp = example_token_program and mint = 12] sd_trade
    by (meson reach_init reach_step)
qed

theorem shared_vault_covers_all_claims_witness: "wallet_claims 12 sd5 + wallet_fees 12 sd5 \<le> 50"
proof -
  have "token_amount (w_tokens sd5) (asset_vault sd_rt 12) = 50"
    by (simp add: asset_vault_def token_amount_def sd5_def sd2_def sd_token_def)
  with shared_vault_covers_all_claims [OF example_transfer_law sd_wallet_reach] show ?thesis by simp
qed

text \<open>The fill left an open bid for nine atoms with nothing locked.\<close>

definition sd_cancel_keys :: CancelSharedOrder where
  "sd_cancel_keys = \<lparr>cso_owner = 5, cso_book = 21255, cso_claims = sd_claims 18016 18017, cso_order = 22008,
     cso_price_level = 23221, cso_previous_order = None, cso_next_order = None, cso_better_level = None,
     cso_worse_level = None, cso_level_rent_recipient = Some 5\<rparr>"

theorem exhausted_shared_orders_are_rejected_witness:
  "match_shared_order sd_rt sd4 sd_match_keys SpotList Ask 1 10 = Inr sd5 \<and>
    w_shared_orders sd5 22008 = Some (sd_order 9 0) \<and> so_status (sd_order 9 0) = Open \<and>
    (\<exists>e. cancel_shared_order sd_rt sd5 sd_cancel_keys = Inl e)"
proof -
  have "reach (\<lambda>w. w_shared_orders w 22008 = Some (sd_order 9 0) \<and> inert (sd_order 9 0))
      (shared_step sd_rt example_token_program) sd5"
    by (rule reach_init) (simp add: sd5_def inert_def)
  from exhausted_shared_orders_are_rejected [OF this, of sd_rt _ sd_cancel_keys] sd_run_match show ?thesis
    by (simp add: sd_cancel_keys_def)
qed

text \<open>From before the fill: the bid is cancelled, the market is paused, the root is closed, the market
  is reopened and the root is created again.\<close>

definition sd6 :: world where
  "sd6 = sd4\<lparr>
     w_assets := [18017 \<mapsto> sd_wallet 5 12 50 0, 18016 \<mapsto> sd_wallet 5 11 0 0, 18021 \<mapsto> sd_wallet 9 12 0 0,
       18020 \<mapsto> sd_wallet 9 11 40 0],
     w_shared_books := [21255 \<mapsto> sd_book None 2 0 0], w_shared_levels := Map.empty,
     w_shared_orders := [22008 \<mapsto> closed_shared_order Canceled (sd_order 19 1)]\<rparr>"

lemma sd_run_cancel: "cancel_shared_order sd_rt sd4 sd_cancel_keys = Inr sd6"
  by (simp add: cancel_shared_order_def sd_checks sd_cancel_keys_def rules_order_def rules_level_def remove_order_def
      check_removal_hints_def check_option_def removal_of_def order_bucket_def set_order_bucket_def set_cash_def
      put_removal_def save_claims_def save_def upd_inner_def save_opt_def)
   (simp add: sd6_def sd_wallet_def fun_upd_twist)

definition sd_authority :: MarketAuthority where
  "sd_authority = \<lparr>mau_authority = 1, mau_market = 1023\<rparr>"

definition sd_close_keys :: CloseSharedBook where
  "sd_close_keys = \<lparr>csb_authority = 1, csb_admin_record = 10001, csb_market = 1023, csb_book = 21255\<rparr>"

definition sd7 :: world where
  "sd7 = sd6\<lparr>w_spot := (w_spot sd6)\<lparr>ss_markets := [1023 \<mapsto> sd_market\<lparr>mkt_status := MarketPausedStatus\<rparr>]\<rparr>\<rparr>"

lemma sd_run_pause: "pause_market sd6 sd_authority = Inr sd7"
  by (simp add: pause_market_def load_def sd_authority_def sd6_def sd7_def sd_spot save_def upd_inner_def)
    (simp add: sd_market_def sd0_def)

lemma sd_run_close: "close_shared_book sd_rt sd7 sd_close_keys = Inr (sd7\<lparr>w_shared_books := Map.empty\<rparr>)"
  by (simp add: close_shared_book_def load_creator_def load_shared_book_def load_def sd_close_keys_def sd7_def sd6_def
      sd4_def sd3_def sd2_def sd1_def sd0_def program_owned_def try_in_def Let_def)

lemma sd_run_unpause: "unpause_market (sd7\<lparr>w_shared_books := Map.empty\<rparr>) sd_authority =
    Inr (sd6\<lparr>w_shared_books := Map.empty\<rparr>)"
  by (simp add: unpause_market_def load_def sd_authority_def sd7_def save_def upd_inner_def)
    (simp add: sd6_def sd_market_def sd0_def)

lemma sd_run_again: "\<exists>w. initialize_shared_book sd_rt (sd6\<lparr>w_shared_books := Map.empty\<rparr>) sd_book_keys Spot = Inr w"
  by (simp add: initialize_shared_book_def load_creator_def load_def terms_def program_owned_def sd_book_keys_def
      sd6_def sd4_def sd3_def sd_worlds try_in_def)

theorem recreated_shared_book_rejects_orders_witness:
  "\<exists>w e. initialize_shared_book sd_rt (sd6\<lparr>w_shared_books := Map.empty\<rparr>) sd_book_keys Spot = Inr w \<and>
    place_shared_order sd_rt w sd_place_keys SpotList Bid 1 19 1 = Inl e"
proof -
  obtain w where w: "initialize_shared_book sd_rt (sd6\<lparr>w_shared_books := Map.empty\<rparr>) sd_book_keys Spot = Inr w"
    using sd_run_again by blast
  have "w_shared_orders (sd6\<lparr>w_shared_books := Map.empty\<rparr>) (order_key sd_rt (isb_book sd_book_keys) 1) \<noteq> None"
    by (simp add: sd6_def order_key_def sd_book_keys_def)
  from recreated_shared_book_rejects_orders [OF this w rtranclp.rtrancl_refl [of "shared_step sd_rt example_token_program"],
      of sd_place_keys 0] w
  show ?thesis by (simp add: sd_place_keys_def sd_book_keys_def)
qed

end
