(* ===== verification/Test_Faucet.thy ===== *)
theory Test_Faucet
  imports Governance
begin

text \<open>
  The faucet for valueless test assets, \<open>instructions/test_faucet.rs\<close>: the super admin hands the
  mint authorities of a market's two zero-supply mints to a program address, anyone may claim the
  configured amounts while the faucet account exists, and closing it freezes both supplies. The SPL
  token program is the parameter \<open>tp\<close>; event emission and rent are not modelled.
\<close>

section \<open>Instructions\<close>

record InitializeTestFaucet =
  itf_super_admin :: pubkey
  itf_protocol_config :: pubkey
  itf_market :: pubkey
  itf_test_faucet :: pubkey
  itf_faucet_authority :: pubkey
  itf_base_mint :: pubkey
  itf_quote_mint :: pubkey

definition initialize_test_faucet ::
  "runtime \<Rightarrow> token_program \<Rightarrow> world \<Rightarrow> InitializeTestFaucet \<Rightarrow> u64 \<Rightarrow> u64 \<Rightarrow> world res" where
  "initialize_test_faucet rt tp w ks base_claim_amount quote_claim_amount =
     load_super_admin rt w (itf_protocol_config ks) (itf_super_admin ks) (\<lambda>_.
     load (ss_markets (w_spot w)) (itf_market ks) (\<lambda>market.
     let faucet_key = address rt (TestFaucetPda (key market)) in
     require (itf_test_faucet ks = faucet_key) ConstraintSeeds
     (require (w_faucets w faucet_key = None) AccountAlreadyInUse
     (require (itf_faucet_authority ks = address rt (TestFaucetAuthorityPda faucet_key)) ConstraintSeeds
     (load (w_mints w) (itf_base_mint ks) (\<lambda>base_mint.
     require (key base_mint = mkt_base_mint (inner market)) FaucetMintMismatch
     (load (w_mints w) (itf_quote_mint ks) (\<lambda>quote_mint.
     require (key quote_mint = mkt_quote_mint (inner market)) FaucetMintMismatch
     (require (base_claim_amount > 0 \<and> quote_claim_amount > 0) InvalidFaucetClaimAmount
     (require (mint_supply (inner base_mint) = 0 \<and> mint_supply (inner quote_mint) = 0) FaucetMintSupplyNotZero
     (require (mint_authority (inner base_mint) = Some (itf_super_admin ks) \<and>
        mint_authority (inner quote_mint) = Some (itf_super_admin ks)) InvalidFaucetMintAuthority
     (try_in (set_mint_authority tp (w_mints w) (itf_super_admin ks) (key base_mint)
        (Some (itf_faucet_authority ks))) (\<lambda>mints'.
      try_in (set_mint_authority tp mints' (itf_super_admin ks) (key quote_mint)
        (Some (itf_faucet_authority ks))) (\<lambda>mints''.
      Inr (w\<lparr>w_mints := mints'',
        w_faucets := (w_faucets w)(faucet_key \<mapsto>
          \<lparr>tf_market = key market, tf_base_mint = key base_mint, tf_quote_mint = key quote_mint,
           tf_base_claim_amount = base_claim_amount, tf_quote_claim_amount = quote_claim_amount,
           tf_authority_bump = snd (pda rt (TestFaucetAuthorityPda faucet_key)),
           tf_bump = snd (pda rt (TestFaucetPda (key market)))\<rparr>)\<rparr>)))))))))))))))"

record CloseTestFaucet =
  ctf_authority :: pubkey
  ctf_market :: pubkey
  ctf_test_faucet :: pubkey

definition close_test_faucet :: "runtime \<Rightarrow> world \<Rightarrow> CloseTestFaucet \<Rightarrow> world res" where
  "close_test_faucet rt w ks =
     load (ss_markets (w_spot w)) (ctf_market ks) (\<lambda>market.
     require (mkt_authority (inner market) = ctf_authority ks) ConstraintHasOne
     (load (w_faucets w) (ctf_test_faucet ks) (\<lambda>test_faucet.
     require (key test_faucet = address rt (TestFaucetPda (key market))) ConstraintSeeds
     (require (tf_market (inner test_faucet) = key market) FaucetMarketMismatch
     (require (tf_base_mint (inner test_faucet) = mkt_base_mint (inner market)) FaucetMintMismatch
     (require (tf_quote_mint (inner test_faucet) = mkt_quote_mint (inner market)) FaucetMintMismatch
     (Inr (w\<lparr>w_faucets := (w_faucets w)(key test_faucet := None)\<rparr>))))))))"

record ClaimTestTokens =
  ctt_claimant :: pubkey
  ctt_market :: pubkey
  ctt_test_faucet :: pubkey
  ctt_faucet_authority :: pubkey
  ctt_base_mint :: pubkey
  ctt_quote_mint :: pubkey
  ctt_claimant_base_account :: pubkey
  ctt_claimant_quote_account :: pubkey

definition claim_test_tokens :: "runtime \<Rightarrow> token_program \<Rightarrow> world \<Rightarrow> ClaimTestTokens \<Rightarrow> world res" where
  "claim_test_tokens rt tp w ks =
     load (ss_markets (w_spot w)) (ctt_market ks) (\<lambda>market.
     load (w_faucets w) (ctt_test_faucet ks) (\<lambda>test_faucet.
     require (key test_faucet = address rt (TestFaucetPda (key market))) ConstraintSeeds
     (require (tf_market (inner test_faucet) = key market) FaucetMarketMismatch
     (require (ctt_faucet_authority ks = address rt (TestFaucetAuthorityPda (key test_faucet))) ConstraintSeeds
     (load (w_mints w) (ctt_base_mint ks) (\<lambda>base_mint.
     require (key base_mint = mkt_base_mint (inner market)) FaucetMintMismatch
     (require (key base_mint = tf_base_mint (inner test_faucet)) FaucetMintMismatch
     (load (w_mints w) (ctt_quote_mint ks) (\<lambda>quote_mint.
     require (key quote_mint = mkt_quote_mint (inner market)) FaucetMintMismatch
     (require (key quote_mint = tf_quote_mint (inner test_faucet)) FaucetMintMismatch
     (load (w_tokens w) (ctt_claimant_base_account ks) (\<lambda>base_account.
     require (ta_owner (inner base_account) = ctt_claimant ks) InvalidFaucetDestinationOwner
     (require (ta_mint (inner base_account) = key base_mint) FaucetMintMismatch
     (load (w_tokens w) (ctt_claimant_quote_account ks) (\<lambda>quote_account.
     require (ta_owner (inner quote_account) = ctt_claimant ks) InvalidFaucetDestinationOwner
     (require (ta_mint (inner quote_account) = key quote_mint) FaucetMintMismatch
     (try_in (mint_to tp (w_mints w, w_tokens w) (key base_mint) (key base_account) (ctt_faucet_authority ks)
        (tf_base_claim_amount (inner test_faucet))) (\<lambda>minted.
      try_in (mint_to tp minted (key quote_mint) (key quote_account) (ctt_faucet_authority ks)
        (tf_quote_claim_amount (inner test_faucet))) (\<lambda>minted'.
      Inr (w\<lparr>w_mints := fst minted', w_tokens := snd minted'\<rparr>))))))))))))))))))))"

section \<open>Who can mint\<close>

text \<open>A mint is in a faucet's hands when its authority is the faucet's program address.\<close>

definition faucet_authority :: "runtime \<Rightarrow> pubkey \<Rightarrow> pubkey" where
  "faucet_authority rt m = address rt (TestFaucetAuthorityPda (address rt (TestFaucetPda m)))"

definition faucet_minted :: "runtime \<Rightarrow> pubkey \<Rightarrow> pubkey \<Rightarrow> u64 \<Rightarrow> world \<Rightarrow> bool" where
  "faucet_minted rt m mint supply w \<longleftrightarrow>
     (\<exists>d. w_mints w mint = Some d \<and> mint_authority d = Some (faucet_authority rt m) \<and> mint_supply d = supply)"

lemma initialized_faucet:
  assumes law: "set_authority_law tp" and run: "initialize_test_faucet rt tp w ks base quote = Inr w'"
  obtains mk where "ss_markets (w_spot w) (itf_market ks) = Some mk"
    "faucet_minted rt (itf_market ks) (mkt_base_mint mk) 0 w'" "faucet_minted rt (itf_market ks) (mkt_quote_mint mk) 0 w'"
proof -
  let ?auth = "faucet_authority rt (itf_market ks)"
  from run obtain mk b q ms where mk: "ss_markets (w_spot w) (itf_market ks) = Some mk"
    and mints: "w_mints w (mkt_base_mint mk) = Some b" "w_mints w (mkt_quote_mint mk) = Some q"
      "mint_supply b = 0" "mint_supply q = 0"
    and first: "set_mint_authority tp (w_mints w) (itf_super_admin ks) (mkt_base_mint mk) (Some ?auth) = Inr ms"
    and second: "set_mint_authority tp ms (itf_super_admin ks) (mkt_quote_mint mk) (Some ?auth) = Inr (w_mints w')"
    by (auto simp: initialize_test_faucet_def load_super_admin_def load_def run_simps Let_def faucet_authority_def)
  from law first mints(1) have ms: "ms = (w_mints w)(mkt_base_mint mk \<mapsto> b\<lparr>mint_authority := Some ?auth\<rparr>)"
    unfolding set_authority_law_def by fastforce
  from law second obtain d where d: "ms (mkt_quote_mint mk) = Some d"
    "w_mints w' = ms(mkt_quote_mint mk \<mapsto> d\<lparr>mint_authority := Some ?auth\<rparr>)"
    unfolding set_authority_law_def by fastforce
  have none: "mint_supply d = 0" using d(1) ms mints by (auto split: if_splits)
  have "faucet_minted rt (itf_market ks) (mkt_quote_mint mk) 0 w'" using d none by (simp add: faucet_minted_def)
  moreover have "faucet_minted rt (itf_market ks) (mkt_base_mint mk) 0 w'"
    using d none ms mints by (auto simp: faucet_minted_def)
  ultimately show ?thesis using mk that by blast
qed

text \<open>A claim mints exactly the configured amounts, to accounts of the claimant.\<close>

lemma mint_lawD:
  assumes "mint_law tp" "mint_to tp mt k to auth amt = Inr mt'"
  obtains d b where "fst mt k = Some d" "snd mt to = Some b" "mint_authority d = Some auth" "ta_mint b = k"
    "unat (mint_supply d) + unat amt < 2 ^ 64" "unat (ta_amount b) + unat amt < 2 ^ 64"
    "fst mt' = (fst mt)(k \<mapsto> d\<lparr>mint_supply := mint_supply d + amt\<rparr>)"
    "snd mt' = (snd mt)(to \<mapsto> b\<lparr>ta_amount := ta_amount b + amt\<rparr>)"
  using assms unfolding mint_law_def by (cases mt; cases mt') fastforce

lemma claim_effect:
  assumes law: "mint_law tp" and run: "claim_test_tokens rt tp w ks = Inr w'"
  obtains mk f d e where "ss_markets (w_spot w) (ctt_market ks) = Some mk"
    "w_faucets w (address rt (TestFaucetPda (ctt_market ks))) = Some f"
    "w_mints w (mkt_base_mint mk) = Some d" "mint_authority d = Some (faucet_authority rt (ctt_market ks))"
    "mkt_base_mint mk \<noteq> mkt_quote_mint mk \<Longrightarrow> w_mints w (mkt_quote_mint mk) = Some e \<and>
      mint_authority e = Some (faucet_authority rt (ctt_market ks)) \<and>
      w_mints w' = (w_mints w)(mkt_base_mint mk \<mapsto> d\<lparr>mint_supply := mint_supply d + tf_base_claim_amount f\<rparr>,
        mkt_quote_mint mk \<mapsto> e\<lparr>mint_supply := mint_supply e + tf_quote_claim_amount f\<rparr>)"
    "\<And>k. k \<noteq> ctt_claimant_base_account ks \<Longrightarrow> k \<noteq> ctt_claimant_quote_account ks \<Longrightarrow> w_tokens w' k = w_tokens w k"
proof -
  let ?auth = "faucet_authority rt (ctt_market ks)"
  from run obtain mk f mt where f: "ss_markets (w_spot w) (ctt_market ks) = Some mk"
    "w_faucets w (address rt (TestFaucetPda (ctt_market ks))) = Some f"
    and first: "mint_to tp (w_mints w, w_tokens w) (mkt_base_mint mk) (ctt_claimant_base_account ks) ?auth
      (tf_base_claim_amount f) = Inr mt"
    and second: "mint_to tp mt (mkt_quote_mint mk) (ctt_claimant_quote_account ks) ?auth (tf_quote_claim_amount f) =
      Inr (w_mints w', w_tokens w')"
    by (fastforce simp: claim_test_tokens_def load_def run_simps faucet_authority_def)
  obtain d b where b: "w_mints w (mkt_base_mint mk) = Some d"
    "mint_authority d = Some ?auth"
    "fst mt = (w_mints w)(mkt_base_mint mk \<mapsto> d\<lparr>mint_supply := mint_supply d + tf_base_claim_amount f\<rparr>)"
    "snd mt = (w_tokens w)(ctt_claimant_base_account ks \<mapsto> b\<lparr>ta_amount := ta_amount b + tf_base_claim_amount f\<rparr>)"
    by (rule mint_lawD [OF law first]) (rule that; simp)
  obtain e q where q: "fst mt (mkt_quote_mint mk) = Some e" "mint_authority e = Some ?auth"
    "w_mints w' = (fst mt)(mkt_quote_mint mk \<mapsto> e\<lparr>mint_supply := mint_supply e + tf_quote_claim_amount f\<rparr>)"
    "w_tokens w' = (snd mt)(ctt_claimant_quote_account ks \<mapsto> q\<lparr>ta_amount := ta_amount q + tf_quote_claim_amount f\<rparr>)"
    by (rule mint_lawD [OF law second]) (rule that; simp)
  show ?thesis by (rule that [OF f b(1,2), of e]) (use b q in auto)
qed

section \<open>A closed faucet stays closed\<close>

text \<open>Once a faucet held the authorities and was closed, no instruction mints again: a claim needs the
  account, and initializing it anew needs the authorities back, which no signer can give.\<close>

definition frozen :: "runtime \<Rightarrow> pubkey \<Rightarrow> world \<Rightarrow> bool" where
  "frozen rt m w \<longleftrightarrow> w_faucets w (address rt (TestFaucetPda m)) = None \<and>
     (\<exists>mk supply. ss_markets (w_spot w) m = Some mk \<and> faucet_minted rt m (mkt_base_mint mk) supply w)"

theorem frozen_faucet_stays_closed:
  assumes "set_authority_law tp" "frozen rt m w"
  shows "claim_test_tokens rt tp w cks = Inr w' \<Longrightarrow> ctt_market cks \<noteq> m"
    and "initialize_test_faucet rt tp w iks base quote = Inr w' \<Longrightarrow> itf_market iks = m \<Longrightarrow>
      itf_super_admin iks = faucet_authority rt m"
proof -
  assume "claim_test_tokens rt tp w cks = Inr w'"
  then have "w_faucets w (address rt (TestFaucetPda (ctt_market cks))) \<noteq> None"
    by (fastforce simp: claim_test_tokens_def load_def run_simps)
  with assms(2) show "ctt_market cks \<noteq> m" by (auto simp: frozen_def)
next
  assume run: "initialize_test_faucet rt tp w iks base quote = Inr w'" "itf_market iks = m"
  obtain mk n where mk: "ss_markets (w_spot w) m = Some mk" "faucet_minted rt m (mkt_base_mint mk) n w"
    using assms(2) by (auto simp: frozen_def)
  from run mk(1) obtain d where "w_mints w (mkt_base_mint mk) = Some d" "mint_authority d = Some (itf_super_admin iks)"
    by (auto simp: initialize_test_faucet_def load_super_admin_def load_def run_simps Let_def)
  with mk(2) show "itf_super_admin iks = faucet_authority rt m" by (auto simp: faucet_minted_def)
qed

lemma close_freezes:
  assumes "close_test_faucet rt w ks = Inr w'" "ss_markets (w_spot w) (ctf_market ks) = Some mk"
    "faucet_minted rt (ctf_market ks) (mkt_base_mint mk) supply w"
  shows "frozen rt (ctf_market ks) w'"
  using assms by (auto simp: close_test_faucet_def load_def run_simps frozen_def faucet_minted_def)

end
