(* ===== verification/Program.thy ===== *)
theory Program
  imports Custody Market_Metadata Prediction_Claims Shared_Wallet Test_Faucet
begin

text \<open>
  The program as its clients see it, \<open>lib.rs\<close>: every entry point with its accounts and arguments, in
  the order of the source, the dispatch to the handlers, who signs, and the steps of a chain that
  runs these instructions beside other programs.
\<close>

section \<open>Entry points\<close>

text \<open>The instructions that work on a spot market's accounts alone.\<close>

definition on_spot :: "world \<Rightarrow> spot_store res \<Rightarrow> world res" where
  "on_spot w r = map_sum id (\<lambda>st. w\<lparr>w_spot := st\<rparr>) r"

datatype SharedInstruction =
    IxProposePrediction ResolvePrediction PredictionResolution bytes hash32 bool
  | IxClosePredictionTrading ResolvePrediction
  | IxAdvancePrediction AdvancePrediction u8
  | IxSharedCompleteSet SharedPredictionCustody u64 bool
  | IxRedeemPrediction SharedPredictionCustody u64 u64
  | IxMatchSharedOrder MatchSharedOrder SharedOutcome OrderSide u64 u64
  | IxPlaceSharedOrder PlaceSharedOrder SharedOutcome OrderSide u64 u64 u64
  | IxCancelSharedOrder CancelSharedOrder
  | IxCloseSharedBook CloseSharedBook
  | IxInitializeSharedBook InitializeSharedBook MarketKind
  | IxWithdrawSharedFees WithdrawSharedFees u64
  | IxInitializeAssetBalance InitializeAssetBalance
  | IxDepositAsset TransferAsset u64
  | IxWithdrawAsset TransferAsset u64
  | IxMigrateSpotAsset MigrateSpotAsset u64
  | IxMigratePredictionAsset MigratePredictionAsset u64

primrec process_shared ::
  "runtime \<Rightarrow> token_program \<Rightarrow> world \<Rightarrow> SharedInstruction \<Rightarrow> world res" where
  "process_shared rt tp w (IxProposePrediction ctx outcome evidence_uri evidence_hash correction) =
     propose_prediction rt w ctx outcome evidence_uri evidence_hash correction"
| "process_shared rt tp w (IxClosePredictionTrading ctx) = close_prediction_trading rt w ctx"
| "process_shared rt tp w (IxAdvancePrediction ctx action) = advance_prediction rt w ctx action"
| "process_shared rt tp w (IxSharedCompleteSet ctx quantity split) =
     shared_complete_set rt tp w ctx quantity split"
| "process_shared rt tp w (IxRedeemPrediction ctx yes no) = redeem_prediction rt tp w ctx yes no"
| "process_shared rt tp w (IxMatchSharedOrder ctx outcome taker_side limit_price quantity) =
     match_shared_order rt w ctx outcome taker_side limit_price quantity"
| "process_shared rt tp w (IxPlaceSharedOrder ctx outcome side price quantity order_id) =
     place_shared_order rt w ctx outcome side price quantity order_id"
| "process_shared rt tp w (IxCancelSharedOrder ctx) = cancel_shared_order rt w ctx"
| "process_shared rt tp w (IxCloseSharedBook ctx) = close_shared_book rt w ctx"
| "process_shared rt tp w (IxInitializeSharedBook ctx kind) = initialize_shared_book rt w ctx kind"
| "process_shared rt tp w (IxWithdrawSharedFees ctx amount) = withdraw_shared_fees rt tp w ctx amount"
| "process_shared rt tp w (IxInitializeAssetBalance ctx) = initialize_asset_balance rt w ctx"
| "process_shared rt tp w (IxDepositAsset ctx amount) = deposit_asset rt tp w ctx amount"
| "process_shared rt tp w (IxWithdrawAsset ctx amount) = withdraw_asset rt tp w ctx amount"
| "process_shared rt tp w (IxMigrateSpotAsset ctx amount) = migrate_spot_asset rt tp w ctx amount"
| "process_shared rt tp w (IxMigratePredictionAsset ctx amount) = migrate_prediction_asset rt tp w ctx amount"

primrec shared_signer :: "SharedInstruction \<Rightarrow> pubkey option" where
  "shared_signer (IxProposePrediction ctx outcome evidence_uri evidence_hash correction) =
     Some (rp_resolver ctx)"
| "shared_signer (IxClosePredictionTrading ctx) = Some (rp_resolver ctx)"
| "shared_signer (IxAdvancePrediction ctx action) = None"
| "shared_signer (IxSharedCompleteSet ctx quantity split) = Some (spc_owner ctx)"
| "shared_signer (IxRedeemPrediction ctx yes no) = Some (spc_owner ctx)"
| "shared_signer (IxMatchSharedOrder ctx outcome taker_side limit_price quantity) = Some (mso_taker ctx)"
| "shared_signer (IxPlaceSharedOrder ctx outcome side price quantity order_id) = Some (pso_owner ctx)"
| "shared_signer (IxCancelSharedOrder ctx) = Some (cso_owner ctx)"
| "shared_signer (IxCloseSharedBook ctx) = Some (csb_authority ctx)"
| "shared_signer (IxInitializeSharedBook ctx kind) = Some (isb_authority ctx)"
| "shared_signer (IxWithdrawSharedFees ctx amount) = Some (wsf_super_admin ctx)"
| "shared_signer (IxInitializeAssetBalance ctx) = Some (iab_owner ctx)"
| "shared_signer (IxDepositAsset ctx amount) = Some (tra_owner ctx)"
| "shared_signer (IxWithdrawAsset ctx amount) = Some (tra_owner ctx)"
| "shared_signer (IxMigrateSpotAsset ctx amount) = Some (msa_owner ctx)"
| "shared_signer (IxMigratePredictionAsset ctx amount) = Some (mpa_owner ctx)"

datatype PredictionInstruction =
    IxMatchPredictionOrder MatchPredictionOrder PredictionOutcome OrderSide u64 u64
  | IxCancelPredictionOrder CancelPredictionOrder u64
  | IxInsertPredictionOrder PlacePredictionOrder "pubkey option" "pubkey option" u64 PredictionOutcome OrderSide u64 u64
  | IxAppendPredictionOrder PlacePredictionOrder pubkey u64 PredictionOutcome OrderSide u64 u64
  | IxPlacePredictionOrder PlacePredictionOrder u64 PredictionOutcome OrderSide u64 u64
  | IxInitializePredictionMarket InitializePredictionMarket hash32 PredictionMarketConfig bytes bytes

primrec process_prediction ::
  "runtime \<Rightarrow> world \<Rightarrow> PredictionInstruction \<Rightarrow> world res" where
  "process_prediction rt w (IxMatchPredictionOrder ctx outcome taker_side limit_price quantity) =
     match_prediction_order rt w ctx outcome taker_side limit_price quantity"
| "process_prediction rt w (IxCancelPredictionOrder ctx order_id) = cancel_prediction_order rt w ctx order_id"
| "process_prediction rt w (IxInsertPredictionOrder ctx better_level worse_level order_id outcome side price quantity) =
     insert_prediction_order rt w ctx better_level worse_level order_id outcome side price quantity"
| "process_prediction rt w (IxAppendPredictionOrder ctx tail_order order_id outcome side price quantity) =
     append_prediction_order rt w ctx tail_order order_id outcome side price quantity"
| "process_prediction rt w (IxPlacePredictionOrder ctx order_id outcome side price quantity) =
     place_prediction_order rt w ctx order_id outcome side price quantity"
| "process_prediction rt w (IxInitializePredictionMarket ctx market_id config display_name collateral_symbol) =
     initialize_prediction_market rt w ctx market_id config display_name collateral_symbol"

primrec prediction_signer :: "PredictionInstruction \<Rightarrow> pubkey option" where
  "prediction_signer (IxMatchPredictionOrder ctx outcome taker_side limit_price quantity) =
     Some (mpo_taker ctx)"
| "prediction_signer (IxCancelPredictionOrder ctx order_id) = Some (cpo_owner ctx)"
| "prediction_signer (IxInsertPredictionOrder ctx better_level worse_level order_id outcome side price quantity) =
     Some (ppo_owner ctx)"
| "prediction_signer (IxAppendPredictionOrder ctx tail_order order_id outcome side price quantity) =
     Some (ppo_owner ctx)"
| "prediction_signer (IxPlacePredictionOrder ctx order_id outcome side price quantity) = Some (ppo_owner ctx)"
| "prediction_signer (IxInitializePredictionMarket ctx market_id config display_name collateral_symbol) =
     Some (ipm_authority ctx)"

datatype CollateralInstruction =
    IxInitializePredictionPosition InitializePredictionPosition
  | IxDepositPredictionCollateral DepositPredictionCollateral u64
  | IxOpenPredictionMarket OpenPredictionMarket
  | IxWithdrawPredictionCollateral WithdrawPredictionCollateral u64
  | IxSplitPredictionCompleteSet PredictionCompleteSet u64
  | IxMergePredictionCompleteSet PredictionCompleteSet u64

primrec process_collateral ::
  "runtime \<Rightarrow> token_program \<Rightarrow> world \<Rightarrow> CollateralInstruction \<Rightarrow> world res" where
  "process_collateral rt tp w (IxInitializePredictionPosition ctx) = initialize_prediction_position rt w ctx"
| "process_collateral rt tp w (IxDepositPredictionCollateral ctx amount) =
     deposit_prediction_collateral rt tp w ctx amount"
| "process_collateral rt tp w (IxOpenPredictionMarket ctx) = open_prediction_market rt w ctx"
| "process_collateral rt tp w (IxWithdrawPredictionCollateral ctx amount) =
     withdraw_prediction_collateral rt tp w ctx amount"
| "process_collateral rt tp w (IxSplitPredictionCompleteSet ctx quantity) =
     split_prediction_complete_set rt w ctx quantity"
| "process_collateral rt tp w (IxMergePredictionCompleteSet ctx quantity) =
     merge_prediction_complete_set rt w ctx quantity"

primrec collateral_signer :: "CollateralInstruction \<Rightarrow> pubkey option" where
  "collateral_signer (IxInitializePredictionPosition ctx) = Some (ipp_owner ctx)"
| "collateral_signer (IxDepositPredictionCollateral ctx amount) = Some (dpc_owner ctx)"
| "collateral_signer (IxOpenPredictionMarket ctx) = Some (opm_authority ctx)"
| "collateral_signer (IxWithdrawPredictionCollateral ctx amount) = Some (wpc_owner ctx)"
| "collateral_signer (IxSplitPredictionCompleteSet ctx quantity) = Some (pcs_owner ctx)"
| "collateral_signer (IxMergePredictionCompleteSet ctx quantity) = Some (pcs_owner ctx)"

datatype MarketInstruction =
    IxInitializeMarket InitializeMarket u64 u64
  | IxInitializeMarketMetadata InitializeMarketMetadata bytes bytes bytes MarketKind
  | IxUpdateMarketMetadata UpdateMarketMetadata bytes bytes bytes
  | IxCloseMarketMetadata CloseMarketMetadata
  | IxPauseMarket MarketAuthority
  | IxUnpauseMarket MarketAuthority
  | IxCloseMarket CloseMarket

primrec process_market ::
  "runtime \<Rightarrow> token_program \<Rightarrow> world \<Rightarrow> MarketInstruction \<Rightarrow> world res" where
  "process_market rt tp w (IxInitializeMarket ctx price_tick_size quantity_lot_size) =
     initialize_market rt w ctx price_tick_size quantity_lot_size"
| "process_market rt tp w (IxInitializeMarketMetadata ctx base_symbol quote_symbol display_name kind) =
     initialize_market_metadata rt w ctx base_symbol quote_symbol display_name kind"
| "process_market rt tp w (IxUpdateMarketMetadata ctx base_symbol quote_symbol display_name) =
     update_market_metadata rt w ctx base_symbol quote_symbol display_name"
| "process_market rt tp w (IxCloseMarketMetadata ctx) = close_market_metadata rt w ctx"
| "process_market rt tp w (IxPauseMarket ctx) = pause_market w ctx"
| "process_market rt tp w (IxUnpauseMarket ctx) = unpause_market w ctx"
| "process_market rt tp w (IxCloseMarket ctx) = close_market rt tp w ctx"

primrec market_signer :: "MarketInstruction \<Rightarrow> pubkey option" where
  "market_signer (IxInitializeMarket ctx price_tick_size quantity_lot_size) = Some (im_authority ctx)"
| "market_signer (IxInitializeMarketMetadata ctx base_symbol quote_symbol display_name kind) =
     Some (imm_authority ctx)"
| "market_signer (IxUpdateMarketMetadata ctx base_symbol quote_symbol display_name) = Some (umm_authority ctx)"
| "market_signer (IxCloseMarketMetadata ctx) = Some (cmm_authority ctx)"
| "market_signer (IxPauseMarket ctx) = Some (mau_authority ctx)"
| "market_signer (IxUnpauseMarket ctx) = Some (mau_authority ctx)"
| "market_signer (IxCloseMarket ctx) = Some (cm_authority ctx)"

datatype GovernanceInstruction =
    IxInitializeProtocol InitializeProtocol
  | IxAddAdmin AddAdmin pubkey
  | IxDisableAdmin ManageAdmin pubkey
  | IxEnableAdmin ManageAdmin pubkey
  | IxRemoveAdmin ManageAdmin pubkey
  | IxSetTakerFee SetTakerFee u16

primrec process_governance ::
  "runtime \<Rightarrow> pubkey option \<Rightarrow> world \<Rightarrow> GovernanceInstruction \<Rightarrow> world res" where
  "process_governance rt upgrade_authority w (IxInitializeProtocol ctx) =
     initialize_protocol rt upgrade_authority w ctx"
| "process_governance rt upgrade_authority w (IxAddAdmin ctx new_admin) = add_admin rt w ctx new_admin"
| "process_governance rt upgrade_authority w (IxDisableAdmin ctx target_admin) =
     disable_admin rt w ctx target_admin"
| "process_governance rt upgrade_authority w (IxEnableAdmin ctx target_admin) =
     enable_admin rt w ctx target_admin"
| "process_governance rt upgrade_authority w (IxRemoveAdmin ctx target_admin) =
     remove_admin rt w ctx target_admin"
| "process_governance rt upgrade_authority w (IxSetTakerFee ctx taker_fee_bps) =
     set_taker_fee rt w ctx taker_fee_bps"

primrec governance_signer :: "GovernanceInstruction \<Rightarrow> pubkey option" where
  "governance_signer (IxInitializeProtocol ctx) = Some (ip_deployer ctx)"
| "governance_signer (IxAddAdmin ctx new_admin) = Some (aa_super_admin ctx)"
| "governance_signer (IxDisableAdmin ctx target_admin) = Some (ma_super_admin ctx)"
| "governance_signer (IxEnableAdmin ctx target_admin) = Some (ma_super_admin ctx)"
| "governance_signer (IxRemoveAdmin ctx target_admin) = Some (ma_super_admin ctx)"
| "governance_signer (IxSetTakerFee ctx taker_fee_bps) = Some (sf_super_admin ctx)"

datatype FaucetInstruction =
    IxInitializeTestFaucet InitializeTestFaucet u64 u64
  | IxClaimTestTokens ClaimTestTokens
  | IxCloseTestFaucet CloseTestFaucet

primrec process_faucet ::
  "runtime \<Rightarrow> token_program \<Rightarrow> world \<Rightarrow> FaucetInstruction \<Rightarrow> world res" where
  "process_faucet rt tp w (IxInitializeTestFaucet ctx base_claim_amount quote_claim_amount) =
     initialize_test_faucet rt tp w ctx base_claim_amount quote_claim_amount"
| "process_faucet rt tp w (IxClaimTestTokens ctx) = claim_test_tokens rt tp w ctx"
| "process_faucet rt tp w (IxCloseTestFaucet ctx) = close_test_faucet rt w ctx"

primrec faucet_signer :: "FaucetInstruction \<Rightarrow> pubkey option" where
  "faucet_signer (IxInitializeTestFaucet ctx base_claim_amount quote_claim_amount) =
     Some (itf_super_admin ctx)"
| "faucet_signer (IxClaimTestTokens ctx) = Some (ctt_claimant ctx)"
| "faucet_signer (IxCloseTestFaucet ctx) = Some (ctf_authority ctx)"

datatype SpotInstruction =
    IxCancelLimitOrder CancelLimitOrderKeys u64
  | IxAppendLimitOrder AppendLimitOrderKeys OrderSide u64 u64
  | IxInsertLimitOrder InsertLimitOrderKeys OrderSide u64 u64
  | IxInitializeTraderBalance InitializeTraderBalance
  | IxDeposit Deposit u64
  | IxWithdraw Withdraw u64
  | IxWithdrawProtocolFees WithdrawProtocolFees u64
  | IxMatchLimitOrder MatchLimitOrderKeys OrderSide u64 u64

primrec process_spot ::
  "runtime \<Rightarrow> token_program \<Rightarrow> world \<Rightarrow> SpotInstruction \<Rightarrow> world res" where
  "process_spot rt tp w (IxCancelLimitOrder ctx order_id) =
     on_spot w (cancel_limit_order rt (w_spot w) ctx order_id)"
| "process_spot rt tp w (IxAppendLimitOrder ctx side price quantity) =
     on_spot w (append_limit_order rt (w_spot w) ctx side price quantity)"
| "process_spot rt tp w (IxInsertLimitOrder ctx side price quantity) =
     on_spot w (insert_limit_order rt (w_spot w) ctx side price quantity)"
| "process_spot rt tp w (IxInitializeTraderBalance ctx) = initialize_trader_balance rt w ctx"
| "process_spot rt tp w (IxDeposit ctx amount) = deposit rt tp w ctx amount"
| "process_spot rt tp w (IxWithdraw ctx amount) = withdraw rt tp w ctx amount"
| "process_spot rt tp w (IxWithdrawProtocolFees ctx amount) = withdraw_protocol_fees rt tp w ctx amount"
| "process_spot rt tp w (IxMatchLimitOrder ctx taker_side limit_price quantity) =
     on_spot w (match_limit_order rt (w_spot w) ctx taker_side limit_price quantity)"

primrec spot_signer :: "SpotInstruction \<Rightarrow> pubkey option" where
  "spot_signer (IxCancelLimitOrder ctx order_id) = Some (clk_owner ctx)"
| "spot_signer (IxAppendLimitOrder ctx side price quantity) = Some (alk_trader ctx)"
| "spot_signer (IxInsertLimitOrder ctx side price quantity) = Some (ilk_trader ctx)"
| "spot_signer (IxInitializeTraderBalance ctx) = Some (itb_owner ctx)"
| "spot_signer (IxDeposit ctx amount) = Some (dep_owner ctx)"
| "spot_signer (IxWithdraw ctx amount) = Some (wd_owner ctx)"
| "spot_signer (IxWithdrawProtocolFees ctx amount) = Some (wpf_super_admin ctx)"
| "spot_signer (IxMatchLimitOrder ctx taker_side limit_price quantity) = Some (mlk_taker ctx)"

datatype instruction =
    Shared SharedInstruction
  | OfPrediction PredictionInstruction
  | Collateral CollateralInstruction
  | OfMarket MarketInstruction
  | OfProtocol GovernanceInstruction
  | OfFaucet FaucetInstruction
  | Spot SpotInstruction

text \<open>The upgrade authority is what the loader recorded for the program.\<close>

primrec process ::
  "runtime \<Rightarrow> token_program \<Rightarrow> pubkey option \<Rightarrow> world \<Rightarrow> instruction \<Rightarrow> world res" where
  "process rt tp upgrade_authority w (Shared i) = process_shared rt tp w i"
| "process rt tp upgrade_authority w (OfPrediction i) = process_prediction rt w i"
| "process rt tp upgrade_authority w (Collateral i) = process_collateral rt tp w i"
| "process rt tp upgrade_authority w (OfMarket i) = process_market rt tp w i"
| "process rt tp upgrade_authority w (OfProtocol i) = process_governance rt upgrade_authority w i"
| "process rt tp upgrade_authority w (OfFaucet i) = process_faucet rt tp w i"
| "process rt tp upgrade_authority w (Spot i) = process_spot rt tp w i"

text \<open>The account that signs an instruction: Anchor's \<open>Signer\<close> among its accounts. Advancing a
  question needs no signature.\<close>

primrec signer :: "instruction \<Rightarrow> pubkey option" where
  "signer (Shared i) = shared_signer i"
| "signer (OfPrediction i) = prediction_signer i"
| "signer (Collateral i) = collateral_signer i"
| "signer (OfMarket i) = market_signer i"
| "signer (OfProtocol i) = governance_signer i"
| "signer (OfFaucet i) = faucet_signer i"
| "signer (Spot i) = spot_signer i"

section \<open>The chain\<close>

text \<open>Between two instructions other programs run. They may create, move, mint and burn any tokens,
  but a program address signs for this program only: an account it owns keeps mint and owner and
  loses nothing (it may be frozen by the freeze authority of its mint), and a mint it controls is at most
  burnt.\<close>

definition others_act :: "runtime \<Rightarrow> world \<Rightarrow> world \<Rightarrow> bool" where
  "others_act rt w w' \<longleftrightarrow> (\<exists>ms ts. w' = w\<lparr>w_mints := ms, w_tokens := ts\<rparr> \<and>
     (\<forall>k a r. w_tokens w k = Some a \<longrightarrow> ta_owner a = address rt r \<longrightarrow>
        (\<exists>b. ts k = Some b \<and> ta_owner b = ta_owner a \<and> ta_mint b = ta_mint a \<and> ta_amount a \<le> ta_amount b)) \<and>
     (\<forall>k d r. w_mints w k = Some d \<longrightarrow> mint_authority d = Some (address rt r) \<longrightarrow>
        (\<exists>e. ms k = Some e \<and> mint_authority e = mint_authority d \<and> mint_supply e \<le> mint_supply d)))"

text \<open>An instruction succeeds at some time of the clock, whatever the upgrade authority is by then; a
  program address has no private key, so it is never the signer. A failed instruction leaves no
  trace, so it is no step.\<close>

inductive program_step :: "runtime \<Rightarrow> token_program \<Rightarrow> world \<Rightarrow> world \<Rightarrow> bool" for rt tp where
  program_call: "process (at_time now rt) tp ua w i = Inr w' \<Longrightarrow>
    (\<And>s r. signer i = Some s \<Longrightarrow> s \<noteq> address rt r) \<Longrightarrow> program_step rt tp w w'"
| program_others: "others_act rt w w' \<Longrightarrow> program_step rt tp w w'"

end
