(* ===== verification/Program_Frames.thy ===== *)
theory Program_Frames
  imports Program
begin

text \<open>
  What each instruction can change at all. \<open>yields P r\<close> says that every success of \<open>r\<close> satisfies
  \<open>P\<close>; its rules follow the control flow of the handlers, so that a frame property of an
  instruction is checked by walking its definition once.
\<close>

section \<open>What an instruction may produce\<close>

text \<open>All successful results of a handler satisfy \<open>P\<close>; the rules follow its control flow.\<close>

definition yields :: "('a \<Rightarrow> bool) \<Rightarrow> 'a res \<Rightarrow> bool" where
  "yields P r \<longleftrightarrow> (\<forall>y. r = Inr y \<longrightarrow> P y)"

named_theorems yields_rules "the control flow of a handler"

lemma yieldsD: "yields P r \<Longrightarrow> r = Inr y \<Longrightarrow> P y"
  by (simp add: yields_def)

lemma yields_return [yields_rules]: "P y \<Longrightarrow> yields P (Inr y)"
  by (simp add: yields_def)

lemma yields_error [yields_rules]: "yields P (Inl e)"
  by (simp add: yields_def)

lemma yields_flow [yields_rules]:
  "yields P k \<Longrightarrow> yields P (require b e k)"
  "(\<And>a. yields P (f a)) \<Longrightarrow> yields P (ok_or x e f)"
  "(\<And>a. yields P (h a)) \<Longrightarrow> yields P (try_in r h)"
  "(\<And>a. yields P (l a)) \<Longrightarrow> yields P (load m j l)"
  "(\<And>a. yields P (lo a)) \<Longrightarrow> yields P (load_opt mo ko lo)"
  "yields P x1 \<Longrightarrow> yields P x2 \<Longrightarrow> yields P (if c then x1 else x2)"
  "(\<And>a b. yields P (pr a b)) \<Longrightarrow> yields P (case p of (a, b) \<Rightarrow> pr a b)"
  "yields P n \<Longrightarrow> (\<And>a. yields P (sm a)) \<Longrightarrow> yields P (case opt of None \<Rightarrow> n | Some a \<Rightarrow> sm a)"
  by (auto simp: yields_def run_simps load_Inr load_opt_def split: prod.splits option.splits)

lemma yields_loaders [yields_rules]:
  "(\<And>a. yields P (f1 a)) \<Longrightarrow> yields P (load_asset rt w k1 k2 k3 f1)"
  "(\<And>a. yields P (f2 a)) \<Longrightarrow> yields P (load_asset_vault rt w k1 k2 f2)"
  "(\<And>a b c d. yields P (f3 a b c d)) \<Longrightarrow> yields P (load_transfer_asset rt w tks f3)"
  "(\<And>a. yields P (f4 a)) \<Longrightarrow> yields P (load_shared_custody rt w cks f4)"
  "(\<And>a. yields P (f5 a)) \<Longrightarrow> yields P (load_super_admin rt w k1 k2 f5)"
  "(\<And>a. yields P (f6 a)) \<Longrightarrow> yields P (load_target_admin rt w mks k1 f6)"
  "yields P f7 \<Longrightarrow> yields P (load_active_admin rt w k1 k2 f7)"
  "(\<And>a. yields P (f8 a)) \<Longrightarrow> yields P (load_position rt w k1 k2 k3 f8)"
  "(\<And>a. yields P (f9 a)) \<Longrightarrow> yields P (load_prediction rt w k1 f9)"
  "(\<And>a. yields P (f10 a)) \<Longrightarrow> yields P (load_prediction_book rt w k1 k2 f10)"
  "(\<And>a. yields P (f11 a)) \<Longrightarrow> yields P (load_prediction_level rt w k1 k2 oc sd pr f11)"
  "(\<And>a. yields P (f12 a)) \<Longrightarrow> yields P (load_creator rt w k1 k2 f12)"
  "(\<And>a. yields P (f13 a)) \<Longrightarrow> yields P (load_shared_book rt w k1 k2 f13)"
  "(\<And>a. yields P (f14 a)) \<Longrightarrow> yields P (load_claims w lks f14)"
  "(\<And>a. yields P (f15 a)) \<Longrightarrow> yields P (load_question_vault rt w k1 pm k2 er f15)"
  unfolding load_asset_def load_asset_vault_def load_transfer_asset_def load_shared_custody_def
    load_super_admin_def load_target_admin_def load_active_admin_def load_position_def load_prediction_def
    load_prediction_book_def load_prediction_level_def load_creator_def load_shared_book_def load_claims_def
    load_question_vault_def Let_def
  by (intro yields_rules; assumption)+

section \<open>What the instructions leave alone\<close>

text \<open>The roles (admin records and configuration), the mints and the faucets.\<close>

definition registers :: "world \<Rightarrow> (pubkey \<Rightarrow> AdminRecord option) \<times> (pubkey \<Rightarrow> ProtocolConfig option) \<times>
    mints \<times> (pubkey \<Rightarrow> TestFaucet option)" where
  "registers w = (w_admins w, ss_configs (w_spot w), w_mints w, w_faucets w)"

abbreviation keeps :: "world \<Rightarrow> world \<Rightarrow> bool" where
  "keeps w w' \<equiv> registers w' = registers w"

lemma registers_update [simp]:
  "registers (w\<lparr>w_metadata := a\<rparr>) = registers w" "registers (w\<lparr>w_predictions := b\<rparr>) = registers w"
  "registers (w\<lparr>w_positions := c\<rparr>) = registers w" "registers (w\<lparr>w_prediction_books := d\<rparr>) = registers w"
  "registers (w\<lparr>w_prediction_levels := e\<rparr>) = registers w" "registers (w\<lparr>w_prediction_orders := f\<rparr>) = registers w"
  "registers (w\<lparr>w_assets := g\<rparr>) = registers w" "registers (w\<lparr>w_shared_books := h\<rparr>) = registers w"
  "registers (w\<lparr>w_shared_levels := i\<rparr>) = registers w" "registers (w\<lparr>w_shared_orders := j\<rparr>) = registers w"
  "registers (w\<lparr>w_tokens := k\<rparr>) = registers w"
  "ss_configs st = ss_configs (w_spot w) \<Longrightarrow> registers (w\<lparr>w_spot := st\<rparr>) = registers w"
  by (simp_all add: registers_def)

lemma registers_put [simp]:
  "registers (put_asset k1 a w) = registers w"
  "registers (put_balance k2 b ts w) = registers w"
  "registers (put_position k3 p w) = registers w"
  "registers (put_prediction k4 m w) = registers w"
  "registers (put_custody cu ts m p a w) = registers w"
  "registers (save_claims cl w) = registers w"
  by (auto simp: put_asset_def put_balance_def put_position_def put_prediction_def put_custody_def save_claims_def
      split: option.splits)

lemma registers_books [simp]:
  "registers (put_removal bk o1 k5 rm w) = registers w"
  "registers (put_placement q1 q2 q3 q4 q5 q6 q7 q8 q9 q10 w) = registers w"
  "registers (unlink_prediction u1 u2 u3 u4 u5 u6 u7 u8 u9 u10 u11 u12 w) = registers w"
  "registers (fill_prediction f1 f2 f3 f4 f5 f6 f7 f8 f9 f10 f11 f12 w) = registers w"
  unfolding put_removal_def put_placement_def unlink_prediction_def fill_prediction_def Let_def
  by (simp_all split: option.splits prod.splits)

lemma shared_keeps: "yields (keeps w) (process_shared rt tp w i)"
  by (induction i; unfold process_shared.simps
      propose_prediction_def close_prediction_trading_def advance_prediction_def shared_complete_set_def
      redeem_prediction_def match_shared_order_def place_shared_order_def cancel_shared_order_def
      close_shared_book_def initialize_shared_book_def withdraw_shared_fees_def
      initialize_asset_balance_def deposit_asset_def withdraw_asset_def migrate_spot_asset_def
      migrate_prediction_asset_def Let_def;
      intro yields_rules; simp)

lemma prediction_keeps: "yields (keeps w) (process_prediction rt w i)"
  by (induction i; unfold process_prediction.simps
      match_prediction_order_def cancel_prediction_order_def insert_prediction_order_def
      append_prediction_order_def place_prediction_order_def initialize_prediction_market_def Let_def;
      intro yields_rules; simp)

lemma collateral_keeps: "yields (keeps w) (process_collateral rt tp w i)"
  by (induction i; unfold process_collateral.simps
      initialize_prediction_position_def deposit_prediction_collateral_def open_prediction_market_def
      withdraw_prediction_collateral_def split_prediction_complete_set_def
      merge_prediction_complete_set_def Let_def;
      intro yields_rules; simp)

lemma market_keeps: "yields (keeps w) (process_market rt tp w i)"
  by (induction i; unfold process_market.simps
      initialize_market_def initialize_market_metadata_def update_market_metadata_def
      close_market_metadata_def pause_market_def unpause_market_def close_market_def Let_def;
      intro yields_rules; simp)

text \<open>The spot instructions, by what their success means.\<close>

lemma limit_order_configs:
  "insert_limit_order rt st iks side p q = Inr st' \<Longrightarrow> ss_configs st' = ss_configs st"
  "append_limit_order rt st aks side p q = Inr st' \<Longrightarrow> ss_configs st' = ss_configs st"
  "cancel_limit_order rt st cks i = Inr st' \<Longrightarrow> ss_configs st' = ss_configs st"
  "match_limit_order rt st mks ts lim q = Inr st' \<Longrightarrow> ss_configs st' = ss_configs st"
proof -
  show "ss_configs st' = ss_configs st" if "insert_limit_order rt st iks side p q = Inr st'"
    by (rule insert_limit_order_ok [OF that]) (simp add: insert_effect_def)
  show "ss_configs st' = ss_configs st" if "append_limit_order rt st aks side p q = Inr st'"
    by (rule append_limit_order_ok [OF that]) (simp add: append_effect_def)
  show "ss_configs st' = ss_configs st" if "cancel_limit_order rt st cks i = Inr st'"
    by (rule cancel_limit_order_ok [OF that]) (simp add: cancel_effect_def)
  show "ss_configs st' = ss_configs st" if "match_limit_order rt st mks ts lim q = Inr st'"
    by (rule match_limit_order_ok [OF that]) (simp add: match_effect_def)
qed

lemma on_spot_keeps:
  assumes "\<And>st. r = Inr st \<Longrightarrow> ss_configs st = ss_configs (w_spot w)"
  shows "yields (keeps w) (on_spot w r)"
  using assms by (cases r) (auto simp: on_spot_def yields_def)

lemma custody_keeps:
  "yields (keeps w) (initialize_trader_balance rt w ks1)"
  "yields (keeps w) (deposit rt tp w ks2 amount)"
  "yields (keeps w) (withdraw rt tp w ks3 amount)"
  "yields (keeps w) (withdraw_protocol_fees rt tp w ks4 amount)"
  unfolding initialize_trader_balance_def deposit_def withdraw_def withdraw_protocol_fees_def Let_def
  by (intro yields_rules; simp)+

lemma spot_keeps: "yields (keeps w) (process_spot rt tp w i)"
  by (induction i; unfold process_spot.simps;
      intro on_spot_keeps custody_keeps limit_order_configs; assumption)

text \<open>Governance and the faucet change the registers they are about.\<close>

definition roles :: "world \<Rightarrow> (pubkey \<Rightarrow> AdminRecord option) \<times> (pubkey \<Rightarrow> ProtocolConfig option)" where
  "roles w = (w_admins w, ss_configs (w_spot w))"

lemma keeps_roles: "keeps w w' \<Longrightarrow> roles w' = roles w"
  by (simp add: registers_def roles_def)

lemma faucet_roles: "yields (\<lambda>w'. roles w' = roles w) (process_faucet rt tp w i)"
  by (induction i; unfold process_faucet.simps initialize_test_faucet_def claim_test_tokens_def close_test_faucet_def
      Let_def; intro yields_rules; simp add: roles_def)

lemma governance_mints:
  "yields (\<lambda>w'. w_mints w' = w_mints w \<and> w_faucets w' = w_faucets w) (process_governance rt ua w i)"
  by (induction i; unfold process_governance.simps initialize_protocol_def add_admin_def disable_admin_def
      enable_admin_def remove_admin_def set_taker_fee_def Let_def; intro yields_rules; simp)

lemma process_cases:
  assumes "process rt tp ua w i = Inr w'"
  shows "keeps w w' \<or> (\<exists>g. i = OfProtocol g) \<or> (\<exists>f. i = OfFaucet f)"
proof (cases i)
  case (Shared x)
  with assms yieldsD [OF shared_keeps [of w rt tp x], of w'] show ?thesis by simp
next
  case (OfPrediction x)
  with assms yieldsD [OF prediction_keeps [of w rt x], of w'] show ?thesis by simp
next
  case (Collateral x)
  with assms yieldsD [OF collateral_keeps [of w rt tp x], of w'] show ?thesis by simp
next
  case (OfMarket x)
  with assms yieldsD [OF market_keeps [of w rt tp x], of w'] show ?thesis by simp
next
  case (Spot x)
  with assms yieldsD [OF spot_keeps [of w rt tp x], of w'] show ?thesis by simp
qed simp_all

end
