(* ===== verification/Program_Roles.thy ===== *)
theory Program_Roles
  imports Program_Frames
begin

text \<open>
  Who governs, and who mints, on a chain that runs every instruction of the program beside other
  programs: the configuration stays sound, only the super admin changes roles, an admin's record
  goes through its lifecycle, and a closed faucet's mints are frozen.
\<close>

section \<open>Who governs\<close>

text \<open>A governance instruction on a configured protocol is signed by the super admin, whom it leaves in
  place together with the record.\<close>

lemma governance_signed:
  assumes "ss_configs (w_spot w) (address rt ProtocolConfigPda) = Some c"
    "process_governance rt ua w g = Inr w'"
  shows "governance_signer g = Some (cfg_super_admin c) \<and>
    (\<exists>c'. ss_configs (w_spot w') (address rt ProtocolConfigPda) = Some c' \<and> cfg_super_admin c' = cfg_super_admin c) \<and>
    (\<forall>k a. w_admins w k = Some a \<longrightarrow> adm_authority a = cfg_super_admin c \<longrightarrow> w_admins w' k = Some a)"
  using assms
  by (cases g)
    (auto simp: initialize_protocol_def add_admin_def disable_admin_def enable_admin_def remove_admin_def
      set_taker_fee_def require_Inr load_Inr Let_def load_super_admin_Inr load_target_admin_Inr save_def)

lemma governance_governed:
  assumes "process_governance rt ua w g = Inr w'" "governed rt w"
  shows "governed rt w'"
proof (cases g)
  case (IxInitializeProtocol ks)
  with assms show ?thesis by (auto simp: initialize_protocol_def governed_def run_simps Let_def)
next
  case (IxSetTakerFee ks bps)
  with assms show ?thesis using gov_step_governed [OF gov_fee] by simp
next
  case (IxAddAdmin ks a)
  with assms show ?thesis using gov_step_governed [OF gov_add] by simp
next
  case (IxDisableAdmin ks a)
  with assms show ?thesis using gov_step_governed [OF gov_disable] by simp
next
  case (IxEnableAdmin ks a)
  with assms show ?thesis using gov_step_governed [OF gov_enable] by simp
next
  case (IxRemoveAdmin ks a)
  with assms show ?thesis using gov_step_governed [OF gov_remove] by simp
qed


lemma governed_roles: "roles w' = roles w \<Longrightarrow> governed rt w' = governed rt w"
  by (simp add: governed_def roles_def)

lemma governed_time [simp]: "governed (at_time now rt) w = governed rt w"
  by (simp add: governed_def)

lemma others_keep_roles: "others_act rt w w' \<Longrightarrow> roles w' = roles w"
  by (auto simp: others_act_def roles_def)

lemma process_roles:
  assumes "process rt tp ua w i = Inr w'"
  shows "roles w' = roles w \<or> (\<exists>g. i = OfProtocol g)"
  using process_cases [OF assms]
proof (elim disjE exE)
  fix f assume "i = OfFaucet f"
  with assms have "roles w' = roles w" using yieldsD [OF faucet_roles] by simp
  then show ?thesis ..
qed (use keeps_roles in blast)+

lemma program_step_governed:
  assumes "program_step rt tp w w'" "governed rt w"
  shows "governed rt w'"
  using assms(1)
proof cases
  case (program_call now ua i)
  from process_roles [OF program_call(1)] show ?thesis
  proof (elim disjE exE)
    fix g assume "i = OfProtocol g"
    with program_call assms(2) governance_governed [of "at_time now rt" ua w g w'] show ?thesis by simp
  qed (use governed_roles assms(2) in blast)
next
  case program_others
  then show ?thesis using governed_roles [OF others_keep_roles] assms(2) by blast
qed

interpretation program: transition_invariant "protocol_start rt" "program_step rt tp" "governed rt" for rt tp
  by unfold_locales (auto intro: protocol_start_governed program_step_governed)

text \<open>One governance instruction, for the record at any address.\<close>

definition record_moves :: "AdminRecord option \<Rightarrow> AdminRecord option \<Rightarrow> bool" where
  "record_moves before after \<longleftrightarrow> after = before \<or>
     (case (before, after) of
       (None, Some b) \<Rightarrow> adm_status b = AdminActive
     | (Some a, Some b) \<Rightarrow> adm_status a \<noteq> adm_status b \<and> adm_authority b = adm_authority a
     | (Some a, None) \<Rightarrow> adm_status a = AdminDisabledStatus
     | (None, None) \<Rightarrow> True)"

lemma governance_records:
  assumes "process_governance rt ua w g = Inr w'"
  shows "record_moves (w_admins w k) (w_admins w' k)"
  using assms unfolding record_moves_def
  by (cases g)
    (auto simp: initialize_protocol_def add_admin_def disable_admin_def enable_admin_def remove_admin_def
      set_taker_fee_def require_Inr load_Inr Let_def load_super_admin_Inr load_target_admin_Inr save_def)

section \<open>Who mints\<close>

text \<open>The mint is in the hands of market \<open>m\<close>'s faucet, at most \<open>n\<close> atoms exist, and no faucet account
  of \<open>m\<close> mints it.\<close>

definition sealed :: "runtime \<Rightarrow> pubkey \<Rightarrow> pubkey \<Rightarrow> nat \<Rightarrow> world \<Rightarrow> bool" where
  "sealed rt m mint n w \<longleftrightarrow>
     (\<exists>d. w_mints w mint = Some d \<and> mint_authority d = Some (faucet_authority rt m) \<and> unat (mint_supply d) \<le> n) \<and>
     (\<forall>f. w_faucets w (address rt (TestFaucetPda m)) = Some f \<longrightarrow> tf_base_mint f \<noteq> mint \<and> tf_quote_mint f \<noteq> mint)"

text \<open>No other faucet account has the authority of this market's faucet.\<close>

definition own_faucet :: "runtime \<Rightarrow> pubkey \<Rightarrow> bool" where
  "own_faucet rt m \<longleftrightarrow> (\<forall>f. address rt (TestFaucetAuthorityPda f) = faucet_authority rt m \<longrightarrow>
     f = address rt (TestFaucetPda m))"

lemma sealed_same:
  assumes "w_mints w' = w_mints w" "w_faucets w' = w_faucets w" "sealed rt m mint n w"
  shows "sealed rt m mint n w'"
  using assms(3) unfolding sealed_def assms(1,2) .

lemma keeps_mints: "keeps w w' \<Longrightarrow> w_mints w' = w_mints w \<and> w_faucets w' = w_faucets w"
  by (simp add: registers_def)

lemma sealed_time [simp]: "sealed (at_time now rt) m mint n w = sealed rt m mint n w"
  by (simp add: sealed_def faucet_authority_def)

lemma set_authority_lawD:
  assumes "set_authority_law tp" "set_mint_authority tp ms cur k a = Inr ms'"
  obtains d where "ms k = Some d" "mint_authority d = Some cur" "ms' = ms(k \<mapsto> d\<lparr>mint_authority := a\<rparr>)"
  using assms unfolding set_authority_law_def by blast

lemma initialize_faucet_sealed:
  assumes law: "set_authority_law tp" and run: "initialize_test_faucet rt tp w ks base quote = Inr w'"
    and signer: "itf_super_admin ks \<noteq> faucet_authority rt m" and inv: "sealed rt m mint n w"
  shows "sealed rt m mint n w'"
proof -
  let ?auth = "itf_faucet_authority ks"
  from run obtain b q ms f where mints: "w_mints w (itf_base_mint ks) = Some b" "w_mints w (itf_quote_mint ks) = Some q"
      "mint_authority b = Some (itf_super_admin ks)" "mint_authority q = Some (itf_super_admin ks)"
    and first: "set_mint_authority tp (w_mints w) (itf_super_admin ks) (itf_base_mint ks) (Some ?auth) = Inr ms"
    and second: "set_mint_authority tp ms (itf_super_admin ks) (itf_quote_mint ks) (Some ?auth) = Inr (w_mints w')"
    and f: "w_faucets w' = (w_faucets w)(itf_test_faucet ks \<mapsto> f)" "tf_base_mint f = itf_base_mint ks"
      "tf_quote_mint f = itf_quote_mint ks"
    by (auto simp: initialize_test_faucet_def load_super_admin_def load_def run_simps Let_def)
  have other: "mint \<noteq> itf_base_mint ks" "mint \<noteq> itf_quote_mint ks"
    using mints signer inv by (auto simp: sealed_def)
  obtain d e where "ms = (w_mints w)(itf_base_mint ks \<mapsto> d)" "w_mints w' = ms(itf_quote_mint ks \<mapsto> e)"
    by (rule set_authority_lawD [OF law first], rule set_authority_lawD [OF law second]) (rule that)
  then show ?thesis using inv other f by (auto simp: sealed_def)
qed

lemma claim_tokens_sealed:
  assumes law: "mint_law tp" and run: "claim_test_tokens rt tp w ks = Inr w'"
    and apart: "own_faucet rt m" and inv: "sealed rt m mint n w"
  shows "sealed rt m mint n w'"
proof -
  let ?auth = "faucet_authority rt (ctt_market ks)"
  from run obtain f mt where f: "w_faucets w (address rt (TestFaucetPda (ctt_market ks))) = Some f"
    and first: "mint_to tp (w_mints w, w_tokens w) (tf_base_mint f) (ctt_claimant_base_account ks) ?auth
      (tf_base_claim_amount f) = Inr mt"
    and second: "mint_to tp mt (tf_quote_mint f) (ctt_claimant_quote_account ks) ?auth (tf_quote_claim_amount f) =
      Inr (w_mints w', w_tokens w')" and faucets: "w_faucets w' = w_faucets w"
    by (fastforce simp: claim_test_tokens_def load_def run_simps faucet_authority_def)
  have mine: "tf_base_mint f \<noteq> mint \<and> tf_quote_mint f \<noteq> mint" if "?auth = faucet_authority rt m"
  proof -
    have "address rt (TestFaucetPda (ctt_market ks)) = address rt (TestFaucetPda m)"
      using that apart by (auto simp: faucet_authority_def own_faucet_def)
    with f inv show ?thesis by (auto simp: sealed_def)
  qed
  obtain d where d: "w_mints w (tf_base_mint f) = Some d" "mint_authority d = Some ?auth"
    "fst mt = (w_mints w)(tf_base_mint f \<mapsto> d\<lparr>mint_supply := mint_supply d + tf_base_claim_amount f\<rparr>)"
    by (rule mint_lawD [OF law first]) (rule that; simp)
  obtain e where e: "fst mt (tf_quote_mint f) = Some e" "mint_authority e = Some ?auth"
    "w_mints w' = (fst mt)(tf_quote_mint f \<mapsto> e\<lparr>mint_supply := mint_supply e + tf_quote_claim_amount f\<rparr>)"
    by (rule mint_lawD [OF law second]) (rule that; simp)
  have other: "mint \<noteq> tf_base_mint f" "mint \<noteq> tf_quote_mint f"
    using d e mine inv by (auto simp: sealed_def split: if_splits)
  then show ?thesis using inv d(3) e(3) faucets by (simp add: sealed_def)
qed

lemma close_faucet_sealed:
  "close_test_faucet rt w ks = Inr w' \<Longrightarrow> sealed rt m mint n w \<Longrightarrow> sealed rt m mint n w'"
  by (auto simp: close_test_faucet_def load_def run_simps sealed_def split: if_splits)

lemma others_sealed:
  assumes "others_act rt w w'" "sealed rt m mint n w"
  shows "sealed rt m mint n w'"
proof -
  obtain d where d: "w_mints w mint = Some d" "mint_authority d = Some (faucet_authority rt m)" "unat (mint_supply d) \<le> n"
    using assms(2) by (auto simp: sealed_def)
  have frame: "w_faucets w' = w_faucets w"
    and mints: "\<And>k d r. w_mints w k = Some d \<Longrightarrow> mint_authority d = Some (address rt r) \<Longrightarrow>
      \<exists>e. w_mints w' k = Some e \<and> mint_authority e = mint_authority d \<and> mint_supply e \<le> mint_supply d"
    using assms(1) by (auto simp: others_act_def)
  obtain e where "w_mints w' mint = Some e" "mint_authority e = mint_authority d" "mint_supply e \<le> mint_supply d"
    using mints [OF d(1)] d(2) unfolding faucet_authority_def by blast
  then show ?thesis using assms(2) d frame by (auto simp: sealed_def word_le_nat_alt)
qed

lemma program_step_sealed:
  assumes laws: "set_authority_law tp" "mint_law tp" and apart: "own_faucet rt m"
    and step: "program_step rt tp w w'" and inv: "sealed rt m mint n w"
  shows "sealed rt m mint n w'"
  using step
proof cases
  case (program_call now ua i)
  from process_cases [OF program_call(1)] show ?thesis
  proof (elim disjE exE)
    assume "keeps w w'"
    from keeps_mints [OF this] show ?thesis by (elim conjE) (rule sealed_same [OF _ _ inv])
  next
    fix g assume "i = OfProtocol g"
    with program_call(1) have "process_governance (at_time now rt) ua w g = Inr w'" by simp
    from yieldsD [OF governance_mints this] show ?thesis by (elim conjE) (rule sealed_same [OF _ _ inv])
  next
    fix f assume i: "i = OfFaucet f"
    have run: "process_faucet (at_time now rt) tp w f = Inr w'" using program_call(1) i by simp
    have inv': "sealed (at_time now rt) m mint n w" using inv by simp
    have "sealed (at_time now rt) m mint n w'"
    proof (cases f)
      case (IxInitializeTestFaucet ks base quote)
      have "itf_super_admin ks \<noteq> faucet_authority (at_time now rt) m"
        using program_call(2) [of "itf_super_admin ks"] by (simp add: i IxInitializeTestFaucet faucet_authority_def)
      with run IxInitializeTestFaucet show ?thesis using initialize_faucet_sealed [OF laws(1) _ _ inv'] by simp
    next
      case (IxClaimTestTokens ks)
      have "own_faucet (at_time now rt) m" using apart by (simp add: own_faucet_def faucet_authority_def)
      with run IxClaimTestTokens show ?thesis using claim_tokens_sealed [OF laws(2) _ _ inv'] by simp
    next
      case (IxCloseTestFaucet ks)
      with run show ?thesis using close_faucet_sealed [OF _ inv'] by simp
    qed
    then show ?thesis by simp
  qed
next
  case program_others
  then show ?thesis using others_sealed inv by blast
qed

interpretation frozen_mint: transition_invariant "sealed rt m mint n" "program_step rt tp"
  "\<lambda>w. set_authority_law tp \<longrightarrow> mint_law tp \<longrightarrow> own_faucet rt m \<longrightarrow> sealed rt m mint n w"
  for rt tp m mint n
  by unfold_locales (auto intro: program_step_sealed)

section \<open>Properties\<close>

text \<open>C12: From initialization on, whatever instructions of the program run, in whatever order, with
  whatever accounts, signers and arguments, beside whatever other programs: the configuration
  exists, its super admin holds an active admin record, and the taker rate stays within the cap; so
  the fee of any match is computable and no match can fail for its rate.\<close>

theorem program_stays_governed:
  assumes "reach (protocol_start rt) (program_step rt tp) w"
  shows "governed rt w \<and>
    (\<exists>c. ss_configs (w_spot w) (address rt ProtocolConfigPda) = Some c \<and>
       (\<forall>q. \<exists>f. calculate_taker_fee q (cfg_taker_fee_bps c) = Inr f))"
proof -
  have gov: "governed rt w" by (rule program.reach_inv [OF assms])
  then obtain c where c: "ss_configs (w_spot w) (address rt ProtocolConfigPda) = Some c"
    and cap: "cfg_taker_fee_bps c \<le> MAX_TAKER_FEE_BPS" by (auto simp: governed_def)
  have "\<exists>f. calculate_taker_fee q (cfg_taker_fee_bps c) = Inr f" for q
    using calculate_taker_fee_value [of "cfg_taker_fee_bps c" q] cap by (auto simp: fee_cap_iff)
  with gov c show ?thesis by blast
qed

text \<open>C13: Only the super admin changes roles, and nobody demotes the super admin. Whatever instruction
  of the program succeeds on a configured protocol: if the configuration or any admin record
  changed, it was a governance instruction signed by the recorded super admin; the super admin and
  the super admin's own record stay what they were.\<close>

theorem roles_change_only_by_super_admin:
  assumes "process rt tp ua w i = Inr w'"
    and "ss_configs (w_spot w) (address rt ProtocolConfigPda) = Some c"
  shows "(roles w' \<noteq> roles w \<longrightarrow> (\<exists>g. i = OfProtocol g) \<and> signer i = Some (cfg_super_admin c)) \<and>
    (\<exists>c'. ss_configs (w_spot w') (address rt ProtocolConfigPda) = Some c' \<and> cfg_super_admin c' = cfg_super_admin c) \<and>
    (\<forall>k a. w_admins w k = Some a \<longrightarrow> adm_authority a = cfg_super_admin c \<longrightarrow> w_admins w' k = Some a)"
  using process_roles [OF assms(1)]
proof (elim disjE exE)
  assume "roles w' = roles w"
  then show ?thesis using assms(2) by (simp add: roles_def)
next
  fix g assume "i = OfProtocol g"
  then show ?thesis using assms(1) governance_signed [OF assms(2), of ua g w'] by simp
qed

text \<open>The admin lifecycle. In one step of the chain, by any instruction of the program or by others,
  the record at any address is unchanged, or it is created active, disabled while active, enabled
  while disabled, or removed while disabled: an active admin is never removed in one step.\<close>

theorem program_admin_lifecycle:
  assumes "program_step rt tp w w'"
  shows "w_admins w' k = w_admins w k \<or>
    (case (w_admins w k, w_admins w' k) of
       (None, Some b) \<Rightarrow> adm_status b = AdminActive
     | (Some a, Some b) \<Rightarrow> adm_status a \<noteq> adm_status b \<and> adm_authority b = adm_authority a
     | (Some a, None) \<Rightarrow> adm_status a = AdminDisabledStatus
     | (None, None) \<Rightarrow> True)"
  using assms
proof cases
  case (program_call now ua i)
  from process_roles [OF program_call(1)] show ?thesis
  proof (elim disjE exE)
    fix g assume "i = OfProtocol g"
    with program_call(1) have "process_governance (at_time now rt) ua w g = Inr w'" by simp
    from governance_records [OF this, of k] show ?thesis unfolding record_moves_def .
  qed (simp add: roles_def)
next
  case program_others
  then show ?thesis by (auto simp: others_act_def)
qed

text \<open>C14: A closed faucet freezes its mints. When a faucet is closed, every mint it controlled keeps its
  authority forever and its supply never grows again, whatever the program's instructions (new
  faucets and claims included) and other programs do afterwards.\<close>

theorem closed_faucet_freezes_supply:
  assumes laws: "set_authority_law tp" "mint_law tp" and apart: "own_faucet rt (ctf_market ks)"
    and closed: "close_test_faucet rt w ks = Inr w0"
    and mint: "w_mints w mint = Some d" "mint_authority d = Some (faucet_authority rt (ctf_market ks))"
    and run: "reach (\<lambda>s. s = w0) (program_step rt tp) w'"
  shows "\<exists>d'. w_mints w' mint = Some d' \<and> mint_authority d' = mint_authority d \<and> mint_supply d' \<le> mint_supply d"
proof -
  have start: "sealed rt (ctf_market ks) mint (unat (mint_supply d)) w0"
    using closed mint by (auto simp: close_test_faucet_def load_def run_simps sealed_def)
  have "reach (sealed rt (ctf_market ks) mint (unat (mint_supply d))) (program_step rt tp) w'"
    using run by induction (use start in \<open>auto intro: reach.intros\<close>)
  from frozen_mint.reach_inv [OF this] laws apart mint(2) show ?thesis by (auto simp: sealed_def word_le_nat_alt)
qed

end
