(* ===== verification/Program_Tokens.thy ===== *)
theory Program_Tokens
  imports Program_Frames
begin

text \<open>
  Who can lose tokens. The tokens a program address owns decrease only in an instruction that signs
  with that address: every other instruction, and every other program, leaves them where they are
  or adds to them. The claims about a market's, a question's and a mint's vault rest on this.
\<close>

section \<open>Rules that remember the checks\<close>

text \<open>As \<open>yields_rules\<close>, but what the handler has checked is available for the rest of it.\<close>

named_theorems knows_rules "the control flow of a handler, with what it checked"

lemma knows_flow [knows_rules]:
  "P y \<Longrightarrow> yields P (Inr y)" "yields P (Inl e)"
  "(b \<Longrightarrow> yields P k) \<Longrightarrow> yields P (require b e k)"
  "(\<And>v. x = Some v \<Longrightarrow> yields P (f v)) \<Longrightarrow> yields P (ok_or x e f)"
  "(\<And>a. r = Inr a \<Longrightarrow> yields P (h a)) \<Longrightarrow> yields P (try_in r h)"
  "(\<And>v. m j = Some v \<Longrightarrow> yields P (l (Account j v))) \<Longrightarrow> yields P (load m j l)"
  "(\<And>a. yields P (lo a)) \<Longrightarrow> yields P (load_opt mo ko lo)"
  "(c \<Longrightarrow> yields P x1) \<Longrightarrow> (\<not> c \<Longrightarrow> yields P x2) \<Longrightarrow> yields P (if c then x1 else x2)"
  "(\<And>a b. yields P (pr a b)) \<Longrightarrow> yields P (case p of (a, b) \<Rightarrow> pr a b)"
  "(opt = None \<Longrightarrow> yields P n) \<Longrightarrow> (\<And>a. opt = Some a \<Longrightarrow> yields P (sm a)) \<Longrightarrow>
     yields P (case opt of None \<Rightarrow> n | Some a \<Rightarrow> sm a)"
  by (auto simp: yields_def run_simps load_Inr load_opt_def split: prod.splits option.splits)

section \<open>Tokens of one owner\<close>

definition keeps_owned :: "pubkey \<Rightarrow> tokens \<Rightarrow> tokens \<Rightarrow> bool" where
  "keeps_owned own ts ts' \<longleftrightarrow> (\<forall>k a. ts k = Some a \<longrightarrow> ta_owner a = own \<longrightarrow>
     (\<exists>b. ts' k = Some b \<and> ta_owner b = own \<and> ta_mint b = ta_mint a \<and> ta_amount a \<le> ta_amount b))"

lemma keeps_owned_refl [simp]: "keeps_owned own ts ts"
  by (simp add: keeps_owned_def)

lemma keeps_owned_trans:
  assumes "keeps_owned own ts ts1" "keeps_owned own ts1 ts2"
  shows "keeps_owned own ts ts2"
  unfolding keeps_owned_def
proof (intro allI impI)
  fix k a assume "ts k = Some a" "ta_owner a = own"
  then obtain b where b: "ts1 k = Some b" "ta_owner b = own" "ta_mint b = ta_mint a" "ta_amount a \<le> ta_amount b"
    using assms(1) unfolding keeps_owned_def by blast
  from b(1,2) obtain c where "ts2 k = Some c" "ta_owner c = own" "ta_mint c = ta_mint b" "ta_amount b \<le> ta_amount c"
    using assms(2) unfolding keeps_owned_def by blast
  with b show "\<exists>c. ts2 k = Some c \<and> ta_owner c = own \<and> ta_mint c = ta_mint a \<and> ta_amount a \<le> ta_amount c"
    by (intro exI [of _ c]) auto
qed

lemma keeps_owned_holds: "keeps_owned own ts ts' \<Longrightarrow> holds ts k own n \<Longrightarrow> holds ts' k own n"
  by (fastforce simp: keeps_owned_def holds_def word_le_nat_alt)

lemma new_account_owned: "ts k = None \<Longrightarrow> keeps_owned own ts (ts(k \<mapsto> a))"
  by (auto simp: keeps_owned_def)

lemma transfer_owned:
  assumes law: "transfer_law tp" and ok: "transfer_checked tp ms ts from mint to auth amt dec = Inr ts'"
    and ne: "from \<noteq> to" and other: "\<And>a. ts from = Some a \<Longrightarrow> ta_owner a \<noteq> own"
  shows "keeps_owned own ts ts'"
proof -
  obtain a b where ab: "ts from = Some a" "ts to = Some b"
    "unat (ta_amount b) + unat amt < 2 ^ 64"
    "ts' = ts(from \<mapsto> a\<lparr>ta_amount := ta_amount a - amt\<rparr>, to \<mapsto> b\<lparr>ta_amount := ta_amount b + amt\<rparr>)"
    using law ok ne unfolding transfer_law_def by blast
  have "unat (ta_amount b + amt) = unat (ta_amount b) + unat amt"
    using ab(3) by (subst unat_add_lem [THEN iffD1]) simp_all
  then have "ta_amount b \<le> ta_amount b + amt" by (simp add: word_le_nat_alt)
  with ab other [OF ab(1)] show ?thesis by (auto simp: keeps_owned_def)
qed

lemma close_two_owned:
  assumes law: "close_law tp"
    and "close_token_account tp ts k dest auth = Inr ts1" "close_token_account tp ts1 j dest auth = Inr ts2"
    and "ts k = Some a" "ta_owner a \<noteq> own" "ts j = Some b" "ta_owner b \<noteq> own"
  shows "keeps_owned own ts ts2"
proof -
  have "ts2 = ts(k := None, j := None)" using close_effect [OF law] assms(2,3) by simp
  with assms(4-) show ?thesis by (auto simp: keeps_owned_def)
qed

lemma mint_owned:
  assumes law: "mint_law tp" and ok: "mint_to tp mt k to auth amt = Inr mt'"
  shows "keeps_owned own (snd mt) (snd mt')"
proof (rule mint_lawD [OF law ok])
  fix d b
  assume b: "snd mt to = Some b" "unat (ta_amount b) + unat amt < 2 ^ 64"
    "snd mt' = (snd mt)(to \<mapsto> b\<lparr>ta_amount := ta_amount b + amt\<rparr>)"
  have "unat (ta_amount b + amt) = unat (ta_amount b) + unat amt"
    using b(2) by (subst unat_add_lem [THEN iffD1]) simp_all
  then have "ta_amount b \<le> ta_amount b + amt" by (simp add: word_le_nat_alt)
  with b show ?thesis by (auto simp: keeps_owned_def)
qed

lemma shared_transfer_owned:
  assumes "transfer_law tp" "shared_transfer rt tp ms ts c amount into = Inr ts'"
    "key (sc_asset_vault c) \<noteq> key (sc_market_vault c)"
    "\<And>a. ts (key (sc_asset_vault c)) = Some a \<Longrightarrow> ta_owner a \<noteq> own"
    "\<And>a. ts (key (sc_market_vault c)) = Some a \<Longrightarrow> ta_owner a \<noteq> own"
  shows "keeps_owned own ts ts'"
  using assms(2) transfer_owned [OF assms(1) _ assms(3,4)] transfer_owned [OF assms(1) _ assms(3) [symmetric] assms(5)]
  by (auto simp: shared_transfer_def split: if_splits)

abbreviation spares :: "pubkey \<Rightarrow> world \<Rightarrow> world \<Rightarrow> bool" where
  "spares own w w' \<equiv> keeps_owned own (w_tokens w) (w_tokens w')"

section \<open>The instructions that move tokens\<close>

lemma wallet_transfers_owned:
  assumes law: "transfer_law tp"
  shows "tra_owner ks \<noteq> own \<Longrightarrow> yields (spares own w) (deposit_asset rt tp w ks amount)"
    and "address rt (AssetAuthorityPda (tra_mint ks)) \<noteq> own \<Longrightarrow> yields (spares own w) (withdraw_asset rt tp w ks amount)"
    and "address rt (VaultAuthorityPda (msa_market sks)) \<noteq> own \<Longrightarrow>
      yields (spares own w) (migrate_spot_asset rt tp w sks amount)"
    and "address rt (VaultAuthorityPda (mpa_market pks)) \<noteq> own \<Longrightarrow>
      yields (spares own w) (migrate_prediction_asset rt tp w pks amount)"
    and "address rt (AssetAuthorityPda (wsf_mint fks)) \<noteq> own \<Longrightarrow>
      yields (spares own w) (withdraw_shared_fees rt tp w fks amount)"
  unfolding deposit_asset_def withdraw_asset_def migrate_spot_asset_def migrate_prediction_asset_def
    withdraw_shared_fees_def load_transfer_asset_def load_asset_def load_asset_vault_def load_prediction_def
    load_question_vault_def load_shared_book_def load_super_admin_def Let_def
  by (intro knows_rules; auto intro: transfer_owned [OF law] simp: put_asset_def put_balance_def put_position_def
      asset_authority_def)+

lemma question_transfers_owned:
  assumes law: "transfer_law tp"
  shows "dpc_owner dks \<noteq> own \<Longrightarrow> yields (spares own w) (deposit_prediction_collateral rt tp w dks amount)"
    and "address rt (VaultAuthorityPda (wpc_market wks)) \<noteq> own \<Longrightarrow>
      yields (spares own w) (withdraw_prediction_collateral rt tp w wks amount)"
  unfolding deposit_prediction_collateral_def withdraw_prediction_collateral_def load_prediction_def load_position_def
    load_question_vault_def Let_def
  by (intro knows_rules; auto intro: transfer_owned [OF law] simp: put_position_def)+

lemma complete_sets_owned:
  assumes law: "transfer_law tp" and other: "\<And>x. asset_authority rt x \<noteq> own" "address rt (VaultAuthorityPda (spc_market ks)) \<noteq> own"
  shows "yields (spares own w) (shared_complete_set rt tp w ks q into)"
proof -
  have paid: "spares own w w'" if c: "custody_loaded rt w ks c" and ok: "shared_transfer rt tp (w_mints w) (w_tokens w) c amount dir = Inr ts"
    and w': "w_tokens w' = ts" for c amount dir ts and w' :: world
    unfolding w' by (rule shared_transfer_owned [OF law ok]) (use c other in \<open>auto simp: custody_loaded_def\<close>)
  show "yields (spares own w) (shared_complete_set rt tp w ks q into)"
    unfolding yields_def
  proof (intro allI impI)
    fix w' assume ok: "shared_complete_set rt tp w ks q into = Inr w'"
    show "spares own w w'"
    proof (cases into)
      case True
      with ok have "shared_complete_set rt tp w ks q True = Inr w'" by simp
      then show ?thesis by (rule shared_set_split) (rule paid; simp)
    next
      case False
      with ok have "shared_complete_set rt tp w ks q False = Inr w'" by simp
      then show ?thesis by (rule shared_set_merge) (rule paid; simp)
    qed
  qed
qed

lemma redemptions_owned:
  assumes law: "transfer_law tp" and other: "address rt (VaultAuthorityPda (spc_market ks)) \<noteq> own"
  shows "yields (spares own w) (redeem_prediction rt tp w ks yes no)"
  unfolding yields_def
proof (intro allI impI, erule redeem_ok, goal_cases)
  case (1 w' c m' p' outcome b ts amount)
  have "spares own w (w\<lparr>w_tokens := ts\<rparr>)"
  proof (cases "amount = 0")
    case False
    have v: "key (sc_asset_vault c) \<noteq> key (sc_market_vault c)" "key (sc_market c) = spc_market ks"
      "w_tokens w (key (sc_market_vault c)) = Some (inner (sc_market_vault c))"
      "ta_owner (inner (sc_market_vault c)) = address rt (VaultAuthorityPda (spc_market ks))"
      using 1(1) unfolding custody_loaded_def by blast+
    from 1(5) False have "transfer_checked tp (w_mints w) (w_tokens w) (key (sc_market_vault c)) (key (sc_mint c)) (key (sc_asset_vault c))
        (address rt (VaultAuthorityPda (spc_market ks))) amount (mint_decimals (inner (sc_mint c))) = Inr ts"
      by (simp add: shared_transfer_def v(2))
    from transfer_owned [OF law this v(1) [symmetric]] v(3,4) other show ?thesis by simp
  qed (use 1(5) in \<open>simp add: shared_transfer_def\<close>)
  then show ?case by (simp add: 1(9))
qed

lemma spot_transfers_owned:
  assumes law: "transfer_law tp"
  shows "dep_owner dks \<noteq> own \<Longrightarrow> yields (spares own w) (deposit rt tp w dks amount)"
    and "address rt (VaultAuthorityPda (wd_market wks)) \<noteq> own \<Longrightarrow> yields (spares own w) (withdraw rt tp w wks amount)"
    and "address rt (VaultAuthorityPda (wpf_market fks)) \<noteq> own \<Longrightarrow>
      yields (spares own w) (withdraw_protocol_fees rt tp w fks amount)"
  unfolding deposit_def withdraw_def withdraw_protocol_fees_def load_super_admin_def Let_def
  by (intro knows_rules; auto intro: transfer_owned [OF law])+

lemma new_accounts_owned: "ts k = None \<Longrightarrow> ts j = None \<Longrightarrow> keeps_owned own ts (ts(k \<mapsto> a, j \<mapsto> b))"
  by (auto simp: keeps_owned_def)

lemma created_accounts_owned:
  shows "yields (spares own w) (initialize_market rt w iks tick lot)"
    and "yields (spares own w) (initialize_prediction_market rt w pks market_id config name symbol)"
  unfolding initialize_market_def initialize_prediction_market_def load_active_admin_def Let_def
  by (intro knows_rules; simp add: new_accounts_owned new_account_owned)+

lemma opened_account_owned: "yields (spares own w) (initialize_asset_balance rt w ks)"
  unfolding initialize_asset_balance_def
  by (intro knows_rules)
    (auto simp: put_asset_def require_Inr Let_def split: option.splits intro: new_account_owned)

lemma closed_accounts_owned:
  assumes law: "close_law tp" and other: "address rt (VaultAuthorityPda (cm_market ks)) \<noteq> own"
  shows "yields (spares own w) (close_market rt tp w ks)"
  unfolding close_market_def Let_def
  by (intro knows_rules) (use other in \<open>auto intro: close_two_owned [OF law]\<close>)

lemma minted_accounts_owned:
  assumes law: "mint_law tp"
  shows "yields (spares own w) (claim_test_tokens rt tp w ks)"
  unfolding claim_test_tokens_def Let_def
  by (intro knows_rules) (simp, rule keeps_owned_trans, drule mint_owned [OF law], simp, drule mint_owned [OF law], drule mint_owned [OF law], simp)

section \<open>Every instruction\<close>

lemma still_spares: "yields (\<lambda>w'. w_tokens w' = w_tokens w) r \<Longrightarrow> yields (spares own w) r"
  by (auto simp: yields_def)

lemma put_books_tokens [simp]:
  "w_tokens (put_removal bk o1 k5 rm w) = w_tokens w"
  "w_tokens (put_placement q1 q2 q3 q4 q5 q6 q7 q8 q9 q10 w) = w_tokens w"
  "w_tokens (save_claims cl w) = w_tokens w"
  unfolding put_removal_def put_placement_def save_claims_def Let_def by (simp_all split: option.splits)

lemma unlink_fill_tokens [simp]:
  "w_tokens (unlink_prediction u1 u2 u3 u4 u5 u6 u7 u8 u9 u10 u11 u12 w) = w_tokens w"
  "w_tokens (fill_prediction f1 f2 f3 f4 f5 f6 f7 f8 f9 f10 f11 f12 w) = w_tokens w"
  unfolding unlink_prediction_def fill_prediction_def Let_def
  by (simp_all split: option.splits prod.splits)

lemma shared_still:
  "yields (\<lambda>w'. w_tokens w' = w_tokens w) (propose_prediction rt w k1 oc uri hash correction)"
  "yields (\<lambda>w'. w_tokens w' = w_tokens w) (close_prediction_trading rt w k2)"
  "yields (\<lambda>w'. w_tokens w' = w_tokens w) (advance_prediction rt w k3 action)"
  "yields (\<lambda>w'. w_tokens w' = w_tokens w) (match_shared_order rt w k4 so ts lim q)"
  "yields (\<lambda>w'. w_tokens w' = w_tokens w) (place_shared_order rt w k5 so ts lim q i)"
  "yields (\<lambda>w'. w_tokens w' = w_tokens w) (cancel_shared_order rt w k6)"
  "yields (\<lambda>w'. w_tokens w' = w_tokens w) (close_shared_book rt w k7)"
  "yields (\<lambda>w'. w_tokens w' = w_tokens w) (initialize_shared_book rt w k8 kind)"
  unfolding propose_prediction_def close_prediction_trading_def advance_prediction_def match_shared_order_def
    place_shared_order_def cancel_shared_order_def close_shared_book_def initialize_shared_book_def Let_def
  by (intro yields_rules; simp add: put_prediction_def)+

lemma prediction_still:
  "yields (\<lambda>w'. w_tokens w' = w_tokens w) (match_prediction_order rt w k1 oc ts lim q)"
  "yields (\<lambda>w'. w_tokens w' = w_tokens w) (cancel_prediction_order rt w k2 i)"
  "yields (\<lambda>w'. w_tokens w' = w_tokens w) (insert_prediction_order rt w k3 b l i oc ts lim q)"
  "yields (\<lambda>w'. w_tokens w' = w_tokens w) (append_prediction_order rt w k4 t i oc ts lim q)"
  "yields (\<lambda>w'. w_tokens w' = w_tokens w) (place_prediction_order rt w k5 i oc ts lim q)"
  unfolding match_prediction_order_def cancel_prediction_order_def insert_prediction_order_def
    append_prediction_order_def place_prediction_order_def Let_def
  by (intro yields_rules; simp)+

lemma collateral_still:
  "yields (\<lambda>w'. w_tokens w' = w_tokens w) (initialize_prediction_position rt w k1)"
  "yields (\<lambda>w'. w_tokens w' = w_tokens w) (open_prediction_market rt w k2)"
  "yields (\<lambda>w'. w_tokens w' = w_tokens w) (split_prediction_complete_set rt w k3 q)"
  "yields (\<lambda>w'. w_tokens w' = w_tokens w) (merge_prediction_complete_set rt w k4 q)"
  unfolding initialize_prediction_position_def open_prediction_market_def split_prediction_complete_set_def
    merge_prediction_complete_set_def Let_def
  by (intro yields_rules; simp add: put_prediction_def put_position_def)+

lemma market_still:
  "yields (\<lambda>w'. w_tokens w' = w_tokens w) (initialize_market_metadata rt w k1 b q d kind)"
  "yields (\<lambda>w'. w_tokens w' = w_tokens w) (update_market_metadata rt w k2 b q d)"
  "yields (\<lambda>w'. w_tokens w' = w_tokens w) (close_market_metadata rt w k3)"
  "yields (\<lambda>w'. w_tokens w' = w_tokens w) (pause_market w k4)"
  "yields (\<lambda>w'. w_tokens w' = w_tokens w) (unpause_market w k5)"
  unfolding initialize_market_metadata_def update_market_metadata_def close_market_metadata_def pause_market_def
    unpause_market_def Let_def
  by (intro yields_rules; simp)+

lemma governance_still: "yields (\<lambda>w'. w_tokens w' = w_tokens w) (process_governance rt ua w i)"
  by (induction i; unfold process_governance.simps initialize_protocol_def add_admin_def disable_admin_def
      enable_admin_def remove_admin_def set_taker_fee_def Let_def; intro yields_rules; simp)

lemma faucet_still:
  "yields (\<lambda>w'. w_tokens w' = w_tokens w) (initialize_test_faucet rt tp w k1 base quote)"
  "yields (\<lambda>w'. w_tokens w' = w_tokens w) (close_test_faucet rt w k2)"
  unfolding initialize_test_faucet_def close_test_faucet_def Let_def by (intro yields_rules; simp)+

lemma on_spot_still: "yields (\<lambda>w'. w_tokens w' = w_tokens w) (on_spot w r)"
  by (cases r) (auto simp: on_spot_def yields_def)

lemma ledger_still: "yields (\<lambda>w'. w_tokens w' = w_tokens w) (initialize_trader_balance rt w ks)"
  unfolding initialize_trader_balance_def Let_def by (intro yields_rules; simp)

text \<open>The market or question whose vault authority signs a transfer of the instruction, and the
  instructions in which an asset authority signs.\<close>

definition vault_of :: "instruction \<Rightarrow> pubkey option" where
  "vault_of i = (case i of
     Shared j \<Rightarrow> (case j of IxSharedCompleteSet ctx _ _ \<Rightarrow> Some (spc_market ctx)
       | IxRedeemPrediction ctx _ _ \<Rightarrow> Some (spc_market ctx)
       | IxMigrateSpotAsset ctx _ \<Rightarrow> Some (msa_market ctx)
       | IxMigratePredictionAsset ctx _ \<Rightarrow> Some (mpa_market ctx) | _ \<Rightarrow> None)
   | Collateral j \<Rightarrow> (case j of IxWithdrawPredictionCollateral ctx _ \<Rightarrow> Some (wpc_market ctx) | _ \<Rightarrow> None)
   | OfMarket j \<Rightarrow> (case j of IxCloseMarket ctx \<Rightarrow> Some (cm_market ctx) | _ \<Rightarrow> None)
   | Spot j \<Rightarrow> (case j of IxWithdraw ctx _ \<Rightarrow> Some (wd_market ctx)
       | IxWithdrawProtocolFees ctx _ \<Rightarrow> Some (wpf_market ctx) | _ \<Rightarrow> None)
   | _ \<Rightarrow> None)"

definition pays_assets :: "instruction \<Rightarrow> bool" where
  "pays_assets i = (case i of
     Shared j \<Rightarrow> (case j of IxSharedCompleteSet _ _ _ \<Rightarrow> True | IxWithdrawAsset _ _ \<Rightarrow> True
       | IxWithdrawSharedFees _ _ \<Rightarrow> True | _ \<Rightarrow> False)
   | _ \<Rightarrow> False)"

text \<open>What the token program has to promise.\<close>

definition token_laws :: "token_program \<Rightarrow> bool" where
  "token_laws tp \<longleftrightarrow> transfer_law tp \<and> close_law tp \<and> set_authority_law tp \<and> mint_law tp"

lemma token_lawsD:
  assumes "token_laws tp"
  shows "transfer_law tp" "close_law tp" "set_authority_law tp" "mint_law tp"
  using assms by (simp_all add: token_laws_def)

lemma process_yields_spares:
  assumes laws: "token_laws tp" and signed: "signer i \<noteq> Some own"
    and vaults: "\<And>k. vault_of i = Some k \<Longrightarrow> address rt (VaultAuthorityPda k) \<noteq> own"
    and assets: "\<And>x. pays_assets i \<Longrightarrow> asset_authority rt x \<noteq> own"
  shows "yields (spares own w) (process rt tp ua w i)"
proof (cases i)
  case (Shared j)
  show ?thesis
    using signed vaults assets unfolding Shared
    by (cases j) (simp_all add: vault_of_def pays_assets_def asset_authority_def wallet_transfers_owned [OF token_lawsD(1) [OF laws]]
        complete_sets_owned [OF token_lawsD(1) [OF laws]] redemptions_owned [OF token_lawsD(1) [OF laws]]
        opened_account_owned still_spares [OF shared_still(1)] still_spares [OF shared_still(2)] still_spares [OF shared_still(3)]
        still_spares [OF shared_still(4)] still_spares [OF shared_still(5)] still_spares [OF shared_still(6)]
        still_spares [OF shared_still(7)] still_spares [OF shared_still(8)])
next
  case (OfPrediction j)
  show ?thesis
    unfolding OfPrediction
    by (cases j) (simp_all add: created_accounts_owned prediction_still [THEN still_spares])
next
  case (Collateral j)
  show ?thesis
    using signed vaults unfolding Collateral
    by (cases j) (simp_all add: vault_of_def question_transfers_owned [OF token_lawsD(1) [OF laws]] collateral_still [THEN still_spares])
next
  case (OfMarket j)
  show ?thesis
    using vaults unfolding OfMarket
    by (cases j) (simp_all add: vault_of_def created_accounts_owned closed_accounts_owned [OF token_lawsD(2) [OF laws]]
        market_still [THEN still_spares])
next
  case (OfProtocol j)
  then show ?thesis by (simp add: still_spares [OF governance_still])
next
  case (OfFaucet j)
  show ?thesis
    unfolding OfFaucet
    by (cases j) (simp_all add: minted_accounts_owned [OF token_lawsD(4) [OF laws]] faucet_still [THEN still_spares])
next
  case (Spot j)
  show ?thesis
    using signed vaults unfolding Spot
    by (cases j) (simp_all add: vault_of_def spot_transfers_owned [OF token_lawsD(1) [OF laws]] still_spares [OF on_spot_still]
        still_spares [OF ledger_still])
qed

lemmas process_spares = yieldsD [OF process_yields_spares]

text \<open>Other programs never take from a program address.\<close>

lemma others_spare: "others_act rt w w' \<Longrightarrow> spares (address rt r) w w'"
  by (fastforce simp: others_act_def keeps_owned_def)

end
