(* ===== verification/Program_Custody.thy ===== *)
theory Program_Custody
  imports Program_Tokens
begin

text \<open>
  Solvency of a spot market on the whole chain: whatever instructions run, on this market or any
  other, on questions, wallets and shared books, and whatever other programs do, the market's vaults
  cover its traders and its fees, through every closing and re-initialization.
\<close>

section \<open>What an instruction on one market leaves to the others\<close>

text \<open>Ledgers of other markets, fee records at other addresses and other market records stay.\<close>

definition within_market :: "runtime \<Rightarrow> pubkey \<Rightarrow> spot_store \<Rightarrow> spot_store \<Rightarrow> bool" where
  "within_market rt n st st' \<longleftrightarrow>
     (finite (dom (ss_balances st)) \<longrightarrow> finite (dom (ss_balances st'))) \<and>
     (\<forall>k b. tb_market b \<noteq> n \<longrightarrow> (ss_balances st' k = Some b \<longleftrightarrow> ss_balances st k = Some b)) \<and>
     (\<forall>k. k \<noteq> address rt (MarketFeesPda n) \<longrightarrow> ss_fees st' k = ss_fees st k) \<and>
     (\<forall>k. k \<noteq> n \<longrightarrow> ss_markets st' k = ss_markets st k)"

lemma within_market_refl [simp]: "within_market rt n st st"
  by (simp add: within_market_def)

lemma within_one_balance:
  assumes "ss_balances st k = Some b" "tb_market b = n" "tb_market b' = n"
    "ss_balances st' = (ss_balances st)(k \<mapsto> b')" "ss_fees st' = ss_fees st"
    "\<And>j. j \<noteq> n \<Longrightarrow> ss_markets st' j = ss_markets st j"
  shows "within_market rt n st st'"
  using assms by (auto simp: within_market_def)

lemma spot_within:
  "insert_limit_order rt st iks side p q = Inr st' \<Longrightarrow> within_market rt (ilk_market iks) st st'"
  "append_limit_order rt st aks side p q = Inr st' \<Longrightarrow> within_market rt (alk_market aks) st st'"
  "cancel_limit_order rt st cks i = Inr st' \<Longrightarrow> within_market rt (clk_market cks) st st'"
  "match_limit_order rt st mks side p q = Inr st' \<Longrightarrow> within_market rt (mlk_market mks) st st'"
proof -
  show "within_market rt (ilk_market iks) st st'" if "insert_limit_order rt st iks side p q = Inr st'"
    by (rule insert_limit_order_ok [OF that], rule within_one_balance)
      (auto simp: insert_effect_def)
  show "within_market rt (alk_market aks) st st'" if "append_limit_order rt st aks side p q = Inr st'"
    by (rule append_limit_order_ok [OF that], rule within_one_balance)
      (auto simp: append_effect_def)
  show "within_market rt (clk_market cks) st st'" if "cancel_limit_order rt st cks i = Inr st'"
    by (rule cancel_limit_order_ok [OF that], rule within_one_balance)
      (auto simp: cancel_effect_def)
  show "within_market rt (mlk_market mks) st st'" if ok: "match_limit_order rt st mks side p q = Inr st'"
  proof (rule match_limit_order_ok [OF ok], goal_cases)
    case (1 mk cfg fees r lv na wa mb tb plan fee mb' tb' accrued rem coll tot cnt next_open)
    have "tb_market mb' = mlk_market mks" "tb_market tb' = mlk_market mks"
      using settle_identity [OF 1(38)] 1(21,25) by simp_all
    with 1 show ?case by (auto simp: within_market_def match_effect_def)
  qed
qed

lemma custody_within:
  "initialize_trader_balance rt w iks = Inr w' \<Longrightarrow> within_market rt (itb_market iks) (w_spot w) (w_spot w')"
  "deposit rt tp w dks amount = Inr w' \<Longrightarrow> within_market rt (dep_market dks) (w_spot w) (w_spot w')"
  "withdraw rt tp w wks amount = Inr w' \<Longrightarrow> within_market rt (wd_market wks) (w_spot w) (w_spot w')"
  "withdraw_protocol_fees rt tp w fks amount = Inr w' \<Longrightarrow> within_market rt (wpf_market fks) (w_spot w) (w_spot w')"
proof -
  show "within_market rt (itb_market iks) (w_spot w) (w_spot w')" if "initialize_trader_balance rt w iks = Inr w'"
    using that by (auto simp: initialize_trader_balance_def run_simps within_market_def split: if_splits)
  show "within_market rt (dep_market dks) (w_spot w) (w_spot w')" if "deposit rt tp w dks amount = Inr w'"
    by (rule deposit_ok [OF that]) (auto simp: within_market_def put_balance_def split: if_splits)
  show "within_market rt (wd_market wks) (w_spot w) (w_spot w')" if "withdraw rt tp w wks amount = Inr w'"
    by (rule withdraw_ok [OF that]) (auto simp: within_market_def put_balance_def split: if_splits)
  show "within_market rt (wpf_market fks) (w_spot w) (w_spot w')" if "withdraw_protocol_fees rt tp w fks amount = Inr w'"
    by (rule withdraw_protocol_fees_ok [OF that]) (auto simp: within_market_def save_def)
qed

lemma market_within:
  "initialize_market rt w iks tick lot = Inr w' \<Longrightarrow> within_market rt (im_market iks) (w_spot w) (w_spot w')"
  "pause_market w pks = Inr w' \<Longrightarrow> within_market rt (mau_market pks) (w_spot w) (w_spot w')"
  "unpause_market w pks = Inr w' \<Longrightarrow> within_market rt (mau_market pks) (w_spot w) (w_spot w')"
  "close_market rt tp w cks = Inr w' \<Longrightarrow> within_market rt (cm_market cks) (w_spot w) (w_spot w')"
  "migrate_spot_asset rt tp w sks amount = Inr w' \<Longrightarrow> within_market rt (msa_market sks) (w_spot w) (w_spot w')"
proof -
  show "within_market rt (im_market iks) (w_spot w) (w_spot w')" if "initialize_market rt w iks tick lot = Inr w'"
    using that by (auto simp: initialize_market_def run_simps Let_def within_market_def)
  show "within_market rt (mau_market pks) (w_spot w) (w_spot w')" if "pause_market w pks = Inr w'"
    using that by (auto simp: pause_market_def run_simps within_market_def save_def)
  show "within_market rt (mau_market pks) (w_spot w) (w_spot w')" if "unpause_market w pks = Inr w'"
    using that by (auto simp: unpause_market_def run_simps within_market_def save_def)
  show "within_market rt (cm_market cks) (w_spot w) (w_spot w')" if "close_market rt tp w cks = Inr w'"
    by (rule close_market_ok [OF that]) (auto simp: within_market_def)
  show "within_market rt (msa_market sks) (w_spot w) (w_spot w')" if ok: "migrate_spot_asset rt tp w sks amount = Inr w'"
  proof -
    from ok obtain mk b f a ts where "ss_balances (w_spot w) (msa_trader_balance sks) = Some b" "tb_market b = msa_market sks"
      and w': "put_asset (msa_asset_balance sks) a (put_balance (msa_trader_balance sks) (set_free mk (msa_mint sks) f b) ts w) = w'"
      unfolding migrate_spot_asset_def run_inversions load_asset_Inr load_asset_vault_Inr
      by (elim exE conjE) (rule that; assumption)
    then show ?thesis by (auto simp: within_market_def put_asset_def put_balance_def split: if_splits)
  qed
qed

text \<open>Trades and the creation of a question reach its fee record, which sits at the question's address.\<close>

primrec prediction_of :: "PredictionInstruction \<Rightarrow> pubkey" where
  "prediction_of (IxMatchPredictionOrder ctx _ _ _ _) = mpo_market ctx"
| "prediction_of (IxCancelPredictionOrder ctx _) = cpo_market ctx"
| "prediction_of (IxInsertPredictionOrder ctx _ _ _ _ _ _ _) = ppo_market ctx"
| "prediction_of (IxAppendPredictionOrder ctx _ _ _ _ _ _) = ppo_market ctx"
| "prediction_of (IxPlacePredictionOrder ctx _ _ _ _ _) = ppo_market ctx"
| "prediction_of (IxInitializePredictionMarket ctx _ _ _ _) = ipm_market ctx"

definition named_question :: "runtime \<Rightarrow> pubkey \<Rightarrow> bool" where
  "named_question rt k \<longleftrightarrow> (\<exists>h. k = address rt (PredictionMarketPda h))"

lemma prediction_named:
  assumes "process_prediction rt w i = Inr w'"
  shows "named_question rt (prediction_of i)"
  using assms
  by (cases i) (auto simp: match_prediction_order_def cancel_prediction_order_def insert_prediction_order_def
      append_prediction_order_def place_prediction_order_def initialize_prediction_market_def load_prediction_Inr
      named_question_def Let_def run_simps)

lemma fees_within:
  assumes "w_spot w' = (w_spot w)\<lparr>ss_fees := (ss_fees (w_spot w))(address rt (MarketFeesPda k) \<mapsto> f)\<rparr>"
  shows "within_market rt k (w_spot w) (w_spot w')"
  using assms by (simp add: within_market_def)

lemma match_prediction_within:
  assumes ok: "match_prediction_order rt w ks oc ts lim q = Inr w'"
  shows "within_market rt (mpo_market ks) (w_spot w) (w_spot w')"
proof -
  obtain m b r lv nx ws rem nb lq nc fees mp' tp' accrued where
    fees: "mpo_market_fees ks = address rt (MarketFeesPda (mpo_market ks))"
    and w': "fill_prediction ks oc m b r lv nx ws rem nb lq nc
      (w\<lparr>w_positions := (w_positions w)(mpo_maker_position ks \<mapsto> mp', mpo_taker_position ks \<mapsto> tp'),
         w_spot := (w_spot w)\<lparr>ss_fees := save (upd_inner (\<lambda>f. f\<lparr>mf_accrued_quote_fees := accrued\<rparr>)
            (Account (mpo_market_fees ks) fees)) (ss_fees (w_spot w))\<rparr>\<rparr>) = w'"
    using ok unfolding match_prediction_order_def run_inversions load_opt_Inr
    by (elim exE conjE) (rule that; assumption)
  show ?thesis by (rule fees_within) (simp add: w' [symmetric] save_def fees)
qed

lemma initialize_prediction_within:
  assumes "initialize_prediction_market rt w ks market_id config name symbol = Inr w'"
  shows "within_market rt (ipm_market ks) (w_spot w) (w_spot w')"
proof -
  have "\<exists>f. w_spot w' = (w_spot w)\<lparr>ss_fees := (ss_fees (w_spot w))(address rt (MarketFeesPda (ipm_market ks)) \<mapsto> f)\<rparr>"
    using assms unfolding initialize_prediction_market_def Let_def run_simps account.sel sum.inject
    by auto
  then show ?thesis using fees_within by blast
qed

lemma resting_spot_same:
  "yields (\<lambda>w'. w_spot w' = w_spot w) (cancel_prediction_order rt w cks i)"
  "yields (\<lambda>w'. w_spot w' = w_spot w) (insert_prediction_order rt w pks b l i oc sd price q)"
  "yields (\<lambda>w'. w_spot w' = w_spot w) (append_prediction_order rt w pks t i oc sd price q)"
  "yields (\<lambda>w'. w_spot w' = w_spot w) (place_prediction_order rt w pks i oc sd price q)"
  unfolding cancel_prediction_order_def insert_prediction_order_def append_prediction_order_def
    place_prediction_order_def Let_def
  by (intro yields_rules; simp)+

lemma prediction_within:
  assumes "process_prediction rt w i = Inr w'"
  shows "within_market rt (prediction_of i) (w_spot w) (w_spot w')"
  using assms
  by (cases i) (simp_all add: match_prediction_within initialize_prediction_within yieldsD [OF resting_spot_same(1)]
      yieldsD [OF resting_spot_same(2)] yieldsD [OF resting_spot_same(3)] yieldsD [OF resting_spot_same(4)])

text \<open>The spot market an instruction works on.\<close>

definition on_market :: "instruction \<Rightarrow> pubkey option" where
  "on_market i = (case i of
     Shared j \<Rightarrow> (case j of IxMigrateSpotAsset ctx _ \<Rightarrow> Some (msa_market ctx) | _ \<Rightarrow> None)
   | OfMarket j \<Rightarrow> (case j of IxInitializeMarket ctx _ _ \<Rightarrow> Some (im_market ctx)
       | IxPauseMarket ctx \<Rightarrow> Some (mau_market ctx) | IxUnpauseMarket ctx \<Rightarrow> Some (mau_market ctx)
       | IxCloseMarket ctx \<Rightarrow> Some (cm_market ctx) | _ \<Rightarrow> None)
   | Spot j \<Rightarrow> Some (case j of IxCancelLimitOrder ctx _ \<Rightarrow> clk_market ctx
       | IxAppendLimitOrder ctx _ _ _ \<Rightarrow> alk_market ctx | IxInsertLimitOrder ctx _ _ _ \<Rightarrow> ilk_market ctx
       | IxInitializeTraderBalance ctx \<Rightarrow> itb_market ctx | IxDeposit ctx _ \<Rightarrow> dep_market ctx
       | IxWithdraw ctx _ \<Rightarrow> wd_market ctx | IxWithdrawProtocolFees ctx _ \<Rightarrow> wpf_market ctx
       | IxMatchLimitOrder ctx _ _ _ \<Rightarrow> mlk_market ctx)
   | _ \<Rightarrow> None)"

text \<open>Governance reaches the configuration only.\<close>

lemma governance_within: "yields (\<lambda>w'. within_market rt' n (w_spot w) (w_spot w')) (process_governance rt ua w i)"
  by (induction i; unfold process_governance.simps initialize_protocol_def add_admin_def disable_admin_def
      enable_admin_def remove_admin_def set_taker_fee_def Let_def; intro yields_rules; simp add: within_market_def)

lemma shared_spot_same:
  assumes "process_shared rt tp w i = Inr w'" "on_market (Shared i) = None"
  shows "w_spot w' = w_spot w"
proof -
  have "yields (\<lambda>w'. w_spot w' = w_spot w) (process_shared rt tp w i)"
    using assms(2)
    by (induction i; unfold process_shared.simps
      propose_prediction_def close_prediction_trading_def advance_prediction_def shared_complete_set_def
      redeem_prediction_def match_shared_order_def place_shared_order_def cancel_shared_order_def
      close_shared_book_def initialize_shared_book_def withdraw_shared_fees_def
      initialize_asset_balance_def deposit_asset_def withdraw_asset_def
      migrate_prediction_asset_def Let_def; (intro yields_rules; simp add: put_prediction_def)?; simp add: on_market_def)
  with assms(1) show ?thesis by (simp add: yields_def)
qed

lemma collateral_spot_same: "yields (\<lambda>w'. w_spot w' = w_spot w) (process_collateral rt tp w i)"
  by (induction i; unfold process_collateral.simps
      initialize_prediction_position_def deposit_prediction_collateral_def open_prediction_market_def
      withdraw_prediction_collateral_def split_prediction_complete_set_def
      merge_prediction_complete_set_def Let_def;
      intro yields_rules; simp add: put_prediction_def)

lemma metadata_spot_same:
  "yields (\<lambda>w'. w_spot w' = w_spot w) (initialize_market_metadata rt w k1 b q d kind)"
  "yields (\<lambda>w'. w_spot w' = w_spot w) (update_market_metadata rt w k2 b q d)"
  "yields (\<lambda>w'. w_spot w' = w_spot w) (close_market_metadata rt w k3)"
  unfolding initialize_market_metadata_def update_market_metadata_def close_market_metadata_def Let_def
  by (intro yields_rules; simp)+

lemma faucet_spot_same: "yields (\<lambda>w'. w_spot w' = w_spot w) (process_faucet rt tp w i)"
  by (induction i; unfold process_faucet.simps initialize_test_faucet_def claim_test_tokens_def close_test_faucet_def
      Let_def; intro yields_rules; simp)

lemma on_spot_Inr: "on_spot w r = Inr w' \<longleftrightarrow> (\<exists>st. r = Inr st \<and> w' = w\<lparr>w_spot := st\<rparr>)"
  by (cases r) (auto simp: on_spot_def)

lemma spot_instruction_within:
  assumes "process_spot rt tp w j = Inr w'"
  shows "within_market rt (the (on_market (Spot j))) (w_spot w) (w_spot w')"
  using assms by (cases j) (auto simp: on_market_def on_spot_Inr spot_within custody_within)

text \<open>An instruction stays within its market or its question, or leaves the spot accounts alone.\<close>

lemma process_within:
  assumes run: "process rt tp ua w i = Inr w'"
  shows "case on_market i of Some n \<Rightarrow> within_market rt n (w_spot w) (w_spot w')
    | None \<Rightarrow> (case i of OfPrediction j \<Rightarrow> within_market rt (prediction_of j) (w_spot w) (w_spot w') \<and>
          named_question rt (prediction_of j)
        | _ \<Rightarrow> (\<forall>n. within_market rt n (w_spot w) (w_spot w')))"
proof (cases i)
  case (Shared j)
  have ok: "process_shared rt tp w j = Inr w'" using run Shared by simp
  show ?thesis
  proof (cases "on_market (Shared j)")
    case None
    from shared_spot_same [OF ok None] None show ?thesis by (simp add: Shared)
  next
    case (Some n)
    then obtain ctx amount where j: "j = IxMigrateSpotAsset ctx amount"
      by (cases j) (simp_all add: on_market_def)
    from ok show ?thesis by (simp add: Shared j on_market_def market_within)
  qed
next
  case (OfPrediction j)
  with run have "process_prediction rt w j = Inr w'" by simp
  from prediction_within [OF this] prediction_named [OF this] show ?thesis by (simp add: OfPrediction on_market_def)
next
  case (Collateral j)
  with run yieldsD [OF collateral_spot_same [of w rt tp j], of w'] show ?thesis by (simp add: on_market_def)
next
  case (OfMarket j)
  have ok: "process_market rt tp w j = Inr w'" using run OfMarket by simp
  show ?thesis
    using ok by (cases j) (simp_all add: OfMarket on_market_def market_within yieldsD [OF metadata_spot_same(1)]
      yieldsD [OF metadata_spot_same(2)] yieldsD [OF metadata_spot_same(3)])
next
  case (OfProtocol j)
  with run yieldsD [OF governance_within [of rt _ w rt ua j], of w'] show ?thesis by (simp add: on_market_def)
next
  case (OfFaucet j)
  with run yieldsD [OF faucet_spot_same [of w rt tp j], of w'] show ?thesis by (simp add: on_market_def)
next
  case (Spot j)
  with run spot_instruction_within [of rt tp w j w'] show ?thesis by (simp add: on_market_def)
qed

section \<open>The vaults on the chain\<close>

text \<open>
  The addresses of market \<open>m\<close> are its own: no question has its address, no other market has its fee
  record or its vault authority, and no mint's asset authority is its vault authority. The hash of
  the runtime is collision free in all practical cases.
\<close>

definition own_addresses :: "runtime \<Rightarrow> pubkey \<Rightarrow> bool" where
  "own_addresses rt m \<longleftrightarrow>
     (\<forall>n. address rt (MarketFeesPda n) = address rt (MarketFeesPda m) \<longrightarrow> n = m) \<and>
     (\<forall>n. address rt (VaultAuthorityPda n) = address rt (VaultAuthorityPda m) \<longrightarrow> n = m) \<and>
     (\<forall>x. address rt (AssetAuthorityPda x) \<noteq> address rt (VaultAuthorityPda m))"

definition no_question :: "runtime \<Rightarrow> pubkey \<Rightarrow> bool" where
  "no_question rt m \<longleftrightarrow> (\<forall>h. address rt (PredictionMarketPda h) \<noteq> m)"

text \<open>While the market exists it is solvent; while it does not, nobody has a claim on it.\<close>

definition custody_sound :: "runtime \<Rightarrow> pubkey \<Rightarrow> world \<Rightarrow> bool" where
  "custody_sound rt m w \<longleftrightarrow> finite (dom (ss_balances (w_spot w))) \<and>
     (case ss_markets (w_spot w) m of
        None \<Rightarrow> total_base m (w_spot w) = 0 \<and> total_quote m (w_spot w) = 0
      | Some _ \<Rightarrow> solvent rt m w)"

lemma custody_sound_solvent: "solvent rt m w \<Longrightarrow> custody_sound rt m w"
  by (auto simp: custody_sound_def solvent_def)

lemma custody_soundD: "custody_sound rt m w \<Longrightarrow> ss_markets (w_spot w) m = Some mk \<Longrightarrow> solvent rt m w"
  by (simp add: custody_sound_def)

lemma outside_sound:
  assumes out: "outside rt m w w'" and inv: "custody_sound rt m w"
  shows "custody_sound rt m w'"
proof (cases "ss_markets (w_spot w) m")
  case (Some mk)
  from custody_sound_solvent [OF outside_solvent [OF custody_soundD [OF inv Some] out]] show ?thesis .
next
  case None
  have fin: "finite (dom (ss_balances (w_spot w)))" using inv by (simp add: custody_sound_def)
  have none: "ss_markets (w_spot w') m = None" using out None by (simp add: outside_def)
  from outside_totals [OF fin out] inv None none out show ?thesis by (simp add: custody_sound_def outside_def)
qed

lemma within_outside:
  assumes "within_market rt n (w_spot w) (w_spot w')" "n \<noteq> m" "own_addresses rt m"
    "finite (dom (ss_balances (w_spot w)))" "spares (address rt (VaultAuthorityPda m)) w w'"
  shows "outside rt m w w'"
proof -
  have "address rt (MarketFeesPda m) \<noteq> address rt (MarketFeesPda n)"
    using assms(2,3) by (auto simp: own_addresses_def)
  with assms(1,2,4) keeps_owned_holds [OF assms(5)] show ?thesis
    by (auto simp: within_market_def outside_def)
qed

lemma migrate_spot_solvent:
  assumes law: "transfer_law tp" and inv: "solvent rt (msa_market ks) w"
    and ok: "migrate_spot_asset rt tp w ks amount = Inr w'"
  shows "solvent rt (msa_market ks) w'"
proof -
  from ok obtain mk b f free a ts and mn :: Mint where
    mk: "ss_markets (w_spot w) (msa_market ks) = Some mk"
    and b: "ss_balances (w_spot w) (msa_trader_balance ks) = Some b" "tb_market b = msa_market ks"
    and vlt: "msa_market_vault ks = vault rt (msa_market ks) (msa_mint ks)"
    and apart: "msa_market_vault ks \<noteq> msa_asset_vault ks"
    and free: "(if msa_mint ks = mkt_base_mint mk then Inr (tb_base_free b)
        else if msa_mint ks = mkt_quote_mint mk then Inr (tb_quote_free b) else Inl InvalidDepositMint) = Inr free"
      "checked_sub free amount = Some f"
    and pay: "transfer_checked tp (w_mints w) (w_tokens w) (msa_market_vault ks) (msa_mint ks) (msa_asset_vault ks)
       (msa_market_authority ks) amount (mint_decimals mn) = Inr ts"
    and w': "put_asset (msa_asset_balance ks) a (put_balance (msa_trader_balance ks) (set_free mk (msa_mint ks) f b) ts w) = w'"
    unfolding migrate_spot_asset_def run_inversions load_asset_Inr load_asset_vault_Inr
    by (elim exE conjE) (rule that; assumption)
  have debit: "debit_free mk (msa_mint ks) b amount = Inr f"
    using free by (auto simp: run_simps split: if_splits)
  show ?thesis
    by (rule paid_out_solvent [OF law inv mk b _ debit pay [unfolded vlt]])
      (use apart vlt in \<open>auto simp: w' [symmetric] put_asset_def put_balance_def\<close>)
qed

lemma trade_market:
  "insert_limit_order rt st iks sd p q = Inr st' \<Longrightarrow> \<exists>mk e. ss_markets st (ilk_market iks) = Some mk \<and> spot_step rt (ilk_market iks) st e st'"
  "append_limit_order rt st aks sd p q = Inr st' \<Longrightarrow> \<exists>mk e. ss_markets st (alk_market aks) = Some mk \<and> spot_step rt (alk_market aks) st e st'"
  "cancel_limit_order rt st cks i = Inr st' \<Longrightarrow> \<exists>mk e. ss_markets st (clk_market cks) = Some mk \<and> spot_step rt (clk_market cks) st e st'"
  "match_limit_order rt st mks sd p q = Inr st' \<Longrightarrow> \<exists>mk e. ss_markets st (mlk_market mks) = Some mk \<and> spot_step rt (mlk_market mks) st e st'"
proof -
  show "\<exists>mk e. ss_markets st (ilk_market iks) = Some mk \<and> spot_step rt (ilk_market iks) st e st'"
    if ok: "insert_limit_order rt st iks sd p q = Inr st'"
    by (rule insert_limit_order_ok [OF ok]) (use spot_insert [OF ok refl] in blast)
  show "\<exists>mk e. ss_markets st (alk_market aks) = Some mk \<and> spot_step rt (alk_market aks) st e st'"
    if ok: "append_limit_order rt st aks sd p q = Inr st'"
    by (rule append_limit_order_ok [OF ok]) (use spot_append [OF ok refl] in blast)
  show "\<exists>mk e. ss_markets st (clk_market cks) = Some mk \<and> spot_step rt (clk_market cks) st e st'"
    if ok: "cancel_limit_order rt st cks i = Inr st'"
    by (rule cancel_limit_order_ok [OF ok]) (use spot_cancel [OF ok refl] in blast)
  show "\<exists>mk e. ss_markets st (mlk_market mks) = Some mk \<and> spot_step rt (mlk_market mks) st e st'"
    if ok: "match_limit_order rt st mks sd p q = Inr st'"
    by (rule match_limit_order_ok [OF ok]) (use spot_match [OF ok refl] in blast)
qed

lemma trade_sound:
  assumes "\<exists>mk e. ss_markets (w_spot w) m = Some mk \<and> spot_step rt m (w_spot w) e st'" "custody_sound rt m w"
  shows "custody_sound rt m (w\<lparr>w_spot := st'\<rparr>)"
proof -
  from assms(1) obtain mk e where "ss_markets (w_spot w) m = Some mk" "spot_step rt m (w_spot w) e st'" by blast
  from custody_sound_solvent [OF trade_solvent [OF custody_soundD [OF assms(2) this(1)] this(2)]] show ?thesis .
qed

text \<open>Every instruction on the market itself.\<close>

lemma initialize_market_sound:
  assumes ok: "initialize_market rt w ks tick lot = Inr w'" and inv: "custody_sound rt (im_market ks) w"
  shows "custody_sound rt (im_market ks) w'"
proof -
  have none: "ss_markets (w_spot w) (im_market ks) = None" by (rule initialize_market_ok [OF ok])
  have "custody_start rt (im_market ks) w'"
    unfolding custody_start_def using ok inv none by (auto simp: custody_sound_def)
  from custody_sound_solvent [OF custody_start_solvent [OF this]] show ?thesis .
qed

lemma close_market_sound:
  assumes ok: "close_market rt tp w ks = Inr w'" and inv: "custody_sound rt (cm_market ks) w"
  shows "custody_sound rt (cm_market ks) w'"
proof (rule close_market_ok [OF ok], goal_cases)
  case (1 mk f bv qv ts ts')
  have s: "solvent rt (cm_market ks) w" using custody_soundD [OF inv 1(1)] .
  have "ss_balances (w_spot w') = ss_balances (w_spot w)" "ss_markets (w_spot w') (cm_market ks) = None"
    using 1(17) by auto
  with close_market_totals [OF s ok] inv show ?case
    by (simp add: custody_sound_def total_base_def total_quote_def)
qed

lemma pause_sound:
  "pause_market w pks = Inr w' \<Longrightarrow> custody_sound rt m w \<Longrightarrow> custody_sound rt m w'"
  "unpause_market w pks = Inr w' \<Longrightarrow> custody_sound rt m w \<Longrightarrow> custody_sound rt m w'"
proof -
  have "outside rt m w w'" if "pause_market w pks = Inr w' \<or> unpause_market w pks = Inr w'" "custody_sound rt m w"
    using that by (auto simp: pause_market_def unpause_market_def run_simps outside_def save_def custody_sound_def)
  then show "pause_market w pks = Inr w' \<Longrightarrow> custody_sound rt m w \<Longrightarrow> custody_sound rt m w'"
    "unpause_market w pks = Inr w' \<Longrightarrow> custody_sound rt m w \<Longrightarrow> custody_sound rt m w'"
    by (blast intro: outside_sound)+
qed

lemma market_loaded:
  "deposit rt tp w dks amount = Inr w' \<Longrightarrow> \<exists>mk. ss_markets (w_spot w) (dep_market dks) = Some mk"
  "withdraw rt tp w wks amount = Inr w' \<Longrightarrow> \<exists>mk. ss_markets (w_spot w) (wd_market wks) = Some mk"
  "withdraw_protocol_fees rt tp w fks amount = Inr w' \<Longrightarrow> \<exists>mk. ss_markets (w_spot w) (wpf_market fks) = Some mk"
  "initialize_trader_balance rt w iks = Inr w' \<Longrightarrow> \<exists>mk. ss_markets (w_spot w) (itb_market iks) = Some mk"
  "migrate_spot_asset rt tp w sks amount = Inr w' \<Longrightarrow> \<exists>mk. ss_markets (w_spot w) (msa_market sks) = Some mk"
  by (auto elim: deposit_ok withdraw_ok withdraw_protocol_fees_ok)
    (auto simp: initialize_trader_balance_def migrate_spot_asset_def load_Inr)

lemma spot_instruction_sound:
  assumes law: "transfer_law tp" and ok: "process_spot rt tp w j = Inr w'" and m: "on_market (Spot j) = Some m"
    and signed: "spot_signer j \<noteq> Some (address rt (VaultAuthorityPda m))" and inv: "custody_sound rt m w"
  shows "custody_sound rt m w'"
proof (cases j)
  case (IxCancelLimitOrder ks i)
  with ok m inv show ?thesis using trade_sound [OF trade_market(3)] by (auto simp: on_spot_Inr on_market_def)
next
  case (IxAppendLimitOrder ks sd p q)
  with ok m inv show ?thesis using trade_sound [OF trade_market(2)] by (auto simp: on_spot_Inr on_market_def)
next
  case (IxInsertLimitOrder ks sd p q)
  with ok m inv show ?thesis using trade_sound [OF trade_market(1)] by (auto simp: on_spot_Inr on_market_def)
next
  case (IxMatchLimitOrder ks sd p q)
  with ok m inv show ?thesis using trade_sound [OF trade_market(4)] by (auto simp: on_spot_Inr on_market_def)
next
  case (IxInitializeTraderBalance ks)
  with ok m have run: "initialize_trader_balance rt w ks = Inr w'" "itb_market ks = m" by (simp_all add: on_market_def)
  obtain mk where "ss_markets (w_spot w) m = Some mk" using market_loaded(4) [OF run(1)] run(2) by blast
  from custody_sound_solvent [OF ledger_solvent [OF custody_soundD [OF inv this] run(1)]] show ?thesis .
next
  case (IxDeposit ks amount)
  with ok m have run: "deposit rt tp w ks amount = Inr w'" "dep_market ks = m" by (simp_all add: on_market_def)
  obtain mk where mk: "ss_markets (w_spot w) (dep_market ks) = Some mk" using market_loaded(1) [OF run(1)] by blast
  have "dep_owner ks \<noteq> address rt (VaultAuthorityPda (dep_market ks))" using signed IxDeposit run(2) by simp
  from deposit_solvent [OF law custody_soundD [OF inv [folded run(2)] mk] run(1) this]
  show ?thesis using custody_sound_solvent run(2) by blast
next
  case (IxWithdraw ks amount)
  with ok m have run: "withdraw rt tp w ks amount = Inr w'" "wd_market ks = m" by (simp_all add: on_market_def)
  obtain mk where mk: "ss_markets (w_spot w) (wd_market ks) = Some mk" using market_loaded(2) [OF run(1)] by blast
  from withdraw_solvent [OF law custody_soundD [OF inv [folded run(2)] mk] run(1)]
  show ?thesis using custody_sound_solvent run(2) by blast
next
  case (IxWithdrawProtocolFees ks amount)
  with ok m have run: "withdraw_protocol_fees rt tp w ks amount = Inr w'" "wpf_market ks = m" by (simp_all add: on_market_def)
  obtain mk where mk: "ss_markets (w_spot w) (wpf_market ks) = Some mk" using market_loaded(3) [OF run(1)] by blast
  from fees_solvent [OF law custody_soundD [OF inv [folded run(2)] mk] run(1)]
  show ?thesis using custody_sound_solvent run(2) by blast
qed

lemma on_market_sound:
  assumes law: "transfer_law tp" and run: "process rt tp ua w i = Inr w'" and m: "on_market i = Some m"
    and signed: "signer i \<noteq> Some (address rt (VaultAuthorityPda m))" and inv: "custody_sound rt m w"
  shows "custody_sound rt m w'"
proof (cases i)
  case (Shared j)
  with m obtain ks amount where j: "j = IxMigrateSpotAsset ks amount" "msa_market ks = m"
    by (cases j) (simp_all add: on_market_def)
  with run Shared have ok: "migrate_spot_asset rt tp w ks amount = Inr w'" by simp
  obtain mk where mk: "ss_markets (w_spot w) (msa_market ks) = Some mk" using market_loaded(5) [OF ok] by blast
  from migrate_spot_solvent [OF law custody_soundD [OF inv [folded j(2)] mk] ok]
  show ?thesis using custody_sound_solvent j(2) by blast
next
  case (OfMarket j)
  have ok: "process_market rt tp w j = Inr w'" using run OfMarket by simp
  show ?thesis
  proof (cases j)
    case (IxInitializeMarket ks tick lot)
    with ok m OfMarket have "initialize_market rt w ks tick lot = Inr w'" "im_market ks = m" by (simp_all add: on_market_def)
    with initialize_market_sound [of rt w ks tick lot w'] inv show ?thesis by simp
  next
    case (IxPauseMarket ks)
    with ok inv pause_sound(1) show ?thesis by simp
  next
    case (IxUnpauseMarket ks)
    with ok inv pause_sound(2) show ?thesis by simp
  next
    case (IxCloseMarket ks)
    with ok m OfMarket have "close_market rt tp w ks = Inr w'" "cm_market ks = m" by (simp_all add: on_market_def)
    with close_market_sound [of rt tp w ks w'] inv show ?thesis by simp
  qed (use m OfMarket in \<open>simp_all add: on_market_def\<close>)
next
  case (Spot j)
  with run m signed spot_instruction_sound [OF law _ _ _ inv] show ?thesis by simp
qed (use m in \<open>simp_all add: on_market_def\<close>)

section \<open>Steps of the chain\<close>

lemma load_shared_custody_named:
  "load_shared_custody rt w ks body = Inr y \<Longrightarrow> \<exists>h. spc_market ks = address rt (PredictionMarketPda h)"
  unfolding load_shared_custody_def load_prediction_Inr by blast

text \<open>The vault authority an instruction signs with is that of its market or of a question.\<close>

lemma vault_of_market:
  assumes run: "process rt tp ua w i = Inr w'" and k: "vault_of i = Some k"
  shows "on_market i = Some k \<or> (\<exists>h. k = address rt (PredictionMarketPda h))"
proof (cases i)
  case (Shared j)
  show ?thesis
  proof (cases j)
    case (IxSharedCompleteSet ks q into)
    with run k Shared have "shared_complete_set rt tp w ks q into = Inr w'" "spc_market ks = k" by (simp_all add: vault_of_def)
    from load_shared_custody_named [OF this(1) [unfolded shared_complete_set_def]] this(2) show ?thesis by simp
  next
    case (IxRedeemPrediction ks yes no)
    with run k Shared have "redeem_prediction rt tp w ks yes no = Inr w'" "spc_market ks = k" by (simp_all add: vault_of_def)
    from load_shared_custody_named [OF this(1) [unfolded redeem_prediction_def]] this(2) show ?thesis by simp
  next
    case (IxMigratePredictionAsset ks amount)
    with run k Shared have "migrate_prediction_asset rt tp w ks amount = Inr w'" "mpa_market ks = k" by (simp_all add: vault_of_def)
    then show ?thesis unfolding migrate_prediction_asset_def load_prediction_Inr by blast
  qed (use k Shared in \<open>simp_all add: vault_of_def on_market_def\<close>)
next
  case (Collateral j)
  with k obtain ks amount where j: "j = IxWithdrawPredictionCollateral ks amount" "k = wpc_market ks"
    by (cases j) (simp_all add: vault_of_def)
  with run Collateral have "withdraw_prediction_collateral rt tp w ks amount = Inr w'" by simp
  then show ?thesis unfolding withdraw_prediction_collateral_def load_prediction_Inr j(2) by blast
next
  case (OfMarket j)
  with k show ?thesis by (cases j) (simp_all add: vault_of_def on_market_def)
next
  case (Spot j)
  with k show ?thesis by (cases j) (simp_all add: vault_of_def on_market_def)
qed (use k in \<open>simp_all add: vault_of_def\<close>)

lemma solvent_at_time [simp]: "solvent (at_time now rt) m w = solvent rt m w"
  by (simp add: solvent_def)

lemma custody_reads [simp]:
  "custody_sound (at_time now rt) m w = custody_sound rt m w"
  "own_addresses (at_time now rt) m = own_addresses rt m" "no_question (at_time now rt) m = no_question rt m"
  "outside (at_time now rt) m w w' = outside rt m w w'"
  by (simp_all add: custody_sound_def own_addresses_def no_question_def outside_def cong: option.case_cong)

lemma other_instruction_outside:
  assumes laws: "token_laws tp" and run: "process rt tp ua w i = Inr w'"
    and apart: "own_addresses rt m" "no_question rt m" and signed: "signer i \<noteq> Some (address rt (VaultAuthorityPda m))"
    and other: "on_market i \<noteq> Some m" and fin: "finite (dom (ss_balances (w_spot w)))"
  shows "outside rt m w w'"
proof -
  have vaults: "address rt (VaultAuthorityPda k) \<noteq> address rt (VaultAuthorityPda m)" if "vault_of i = Some k" for k
    using vault_of_market [OF run that] other apart by (auto simp: own_addresses_def no_question_def)
  have spared: "spares (address rt (VaultAuthorityPda m)) w w'"
    by (rule process_spares [OF laws signed vaults _ run])
      (use apart(1) in \<open>auto simp: own_addresses_def asset_authority_def\<close>)
  obtain n where "within_market rt n (w_spot w) (w_spot w')" "n \<noteq> m"
    using process_within [OF run] other apart(2)
    by (cases "on_market i") (auto simp: named_question_def no_question_def split: instruction.splits)
  from within_outside [OF this apart(1) fin spared] show ?thesis .
qed

lemma program_step_sound:
  assumes laws: "token_laws tp" and apart: "own_addresses rt m" "no_question rt m"
    and step: "program_step rt tp w w'" and inv: "custody_sound rt m w"
  shows "custody_sound rt m w'"
  using step
proof cases
  case (program_call now ua i)
  let ?rt = "at_time now rt"
  have signed: "signer i \<noteq> Some (address ?rt (VaultAuthorityPda m))" using program_call(2) by auto
  show ?thesis
  proof (cases "on_market i = Some m")
    case True
    from on_market_sound [OF token_lawsD(1) [OF laws] program_call(1) True signed] inv show ?thesis by simp
  next
    case False
    have "finite (dom (ss_balances (w_spot w)))" using inv by (simp add: custody_sound_def)
    from other_instruction_outside [OF laws program_call(1) _ _ signed False this] apart
    have "outside rt m w w'" by simp
    from outside_sound [OF this inv] show ?thesis .
  qed
next
  case program_others
  have "w_spot w' = w_spot w" using program_others by (auto simp: others_act_def)
  with keeps_owned_holds [OF others_spare [OF program_others]] inv have "outside rt m w w'"
    by (simp add: outside_def custody_sound_def)
  from outside_sound [OF this inv] show ?thesis .
qed

text \<open>A world without the market and without claims on it: the chain before its first creation.\<close>

definition market_unborn :: "pubkey \<Rightarrow> world \<Rightarrow> bool" where
  "market_unborn m w \<longleftrightarrow> finite (dom (ss_balances (w_spot w))) \<and> ss_markets (w_spot w) m = None \<and>
     (\<forall>k b. ss_balances (w_spot w) k = Some b \<longrightarrow> tb_market b \<noteq> m)"

lemma market_unborn_sound: "market_unborn m w \<Longrightarrow> custody_sound rt m w"
  by (auto simp: market_unborn_def custody_sound_def total_base_def total_quote_def store_sum_def of_market_def
      split: option.split intro!: sum.neutral)

interpretation spot_custody: transition_invariant "market_unborn m" "program_step rt tp"
  "\<lambda>w. token_laws tp \<longrightarrow> own_addresses rt m \<longrightarrow> no_question rt m \<longrightarrow> custody_sound rt m w" for rt tp m
  by unfold_locales (auto intro: market_unborn_sound program_step_sound)

section \<open>Properties\<close>

text \<open>C9: The vaults of a spot market are solvent on the whole chain. Start before the market exists and
  run any instructions of the program, on any markets, questions, wallets and books, with any
  accounts and arguments, beside any other programs: whenever the market exists, its base vault
  holds at least all free and locked base of its traders, and its quote vault at least all their
  quote plus the accrued fees; whenever it does not (before, between and after closings), no ledger
  holds a claim on it. The token program is any that obeys its documented laws.\<close>

theorem vaults_stay_solvent_on_chain:
  assumes "token_laws tp" "own_addresses rt m" "no_question rt m"
    and run: "reach (market_unborn m) (program_step rt tp) w"
  shows "case ss_markets (w_spot w) m of
      Some mk \<Rightarrow> total_base m (w_spot w) \<le> vault_amount rt m (mkt_base_mint mk) w \<and>
        total_quote m (w_spot w) + accrued_fees rt m (w_spot w) \<le> vault_amount rt m (mkt_quote_mint mk) w
    | None \<Rightarrow> total_base m (w_spot w) = 0 \<and> total_quote m (w_spot w) = 0"
proof -
  have "custody_sound rt m w" using spot_custody.reach_inv [OF run] assms(1-3) by blast
  then show ?thesis
    by (auto simp: custody_sound_def solvent_def holds_def vault_amount_def token_amount_def split: option.split)
qed

end
