(* ===== verification/Program_Wallet.thy ===== *)
theory Program_Wallet
  imports Program_Custody
begin

text \<open>
  Solvency of the shared wallet on the whole chain: the instructions of spot markets, questions,
  governance and faucet leave the wallet ledgers, the shared roots and the mint's vault alone.
\<close>

section \<open>Instructions outside the wallet\<close>

definition wallet_same :: "world \<Rightarrow> world \<Rightarrow> bool" where
  "wallet_same w w' \<longleftrightarrow> w_assets w' = w_assets w \<and> w_shared_books w' = w_shared_books w \<and>
     (finite (dom (w_positions w)) \<longrightarrow> finite (dom (w_positions w')))"

lemma wallet_same_refl [simp]: "wallet_same w w"
  by (simp add: wallet_same_def)

lemma wallet_same_unlink [simp]:
  "w_assets (unlink_prediction u1 u2 u3 u4 u5 u6 u7 u8 u9 u10 u11 u12 w) = w_assets w"
  "w_shared_books (unlink_prediction u1 u2 u3 u4 u5 u6 u7 u8 u9 u10 u11 u12 w) = w_shared_books w"
  "w_assets (fill_prediction f1 f2 f3 f4 f5 f6 f7 f8 f9 f10 f11 f12 w) = w_assets w"
  "w_shared_books (fill_prediction f1 f2 f3 f4 f5 f6 f7 f8 f9 f10 f11 f12 w) = w_shared_books w"
  unfolding unlink_prediction_def fill_prediction_def Let_def
  by (simp_all split: option.splits prod.splits)

lemma resolution_wallet:
  "yields (wallet_same w) (propose_prediction rt w k1 oc uri hash correction)"
  "yields (wallet_same w) (close_prediction_trading rt w k2)"
  "yields (wallet_same w) (advance_prediction rt w k3 action)"
  unfolding propose_prediction_def close_prediction_trading_def advance_prediction_def Let_def
  by (intro yields_rules; simp add: wallet_same_def put_prediction_def)+

lemma prediction_wallet: "yields (wallet_same w) (process_prediction rt w i)"
  by (induction i; unfold process_prediction.simps
      match_prediction_order_def cancel_prediction_order_def insert_prediction_order_def
      append_prediction_order_def place_prediction_order_def initialize_prediction_market_def Let_def;
      intro yields_rules; simp add: wallet_same_def put_position_def)

lemma collateral_wallet: "yields (wallet_same w) (process_collateral rt tp w i)"
  by (induction i; unfold process_collateral.simps
      initialize_prediction_position_def deposit_prediction_collateral_def open_prediction_market_def
      withdraw_prediction_collateral_def split_prediction_complete_set_def
      merge_prediction_complete_set_def Let_def;
      intro yields_rules; simp add: wallet_same_def put_prediction_def put_position_def)

lemma market_wallet: "yields (wallet_same w) (process_market rt tp w i)"
  by (induction i; unfold process_market.simps
      initialize_market_def initialize_market_metadata_def update_market_metadata_def
      close_market_metadata_def pause_market_def unpause_market_def close_market_def Let_def;
      intro yields_rules; simp add: wallet_same_def)

lemma governance_wallet: "yields (wallet_same w) (process_governance rt ua w i)"
  by (induction i; unfold process_governance.simps initialize_protocol_def add_admin_def disable_admin_def
      enable_admin_def remove_admin_def set_taker_fee_def Let_def; intro yields_rules; simp add: wallet_same_def)

lemma faucet_wallet: "yields (wallet_same w) (process_faucet rt tp w i)"
  by (induction i; unfold process_faucet.simps initialize_test_faucet_def claim_test_tokens_def close_test_faucet_def
      Let_def; intro yields_rules; simp add: wallet_same_def)

lemma on_spot_wallet: "yields (wallet_same w) (on_spot w r)"
  by (cases r) (auto simp: on_spot_def yields_def wallet_same_def)

lemma spot_wallet: "yields (wallet_same w) (process_spot rt tp w i)"
  by (induction i; unfold process_spot.simps;
      (rule on_spot_wallet)?;
      (unfold initialize_trader_balance_def deposit_def withdraw_def withdraw_protocol_fees_def Let_def)?;
      (intro yields_rules; simp add: wallet_same_def)?)

section \<open>Steps of the chain\<close>

definition in_wallet :: "instruction \<Rightarrow> bool" where
  "in_wallet i = (case i of
     Shared j \<Rightarrow> (case j of IxProposePrediction _ _ _ _ _ \<Rightarrow> False | IxClosePredictionTrading _ \<Rightarrow> False
       | IxAdvancePrediction _ _ \<Rightarrow> False | _ \<Rightarrow> True)
   | _ \<Rightarrow> False)"

lemma outside_wallet_same: "\<not> in_wallet i \<Longrightarrow> yields (wallet_same w) (process rt tp ua w i)"
proof (cases i)
  case (Shared j)
  assume "\<not> in_wallet i"
  then show ?thesis unfolding Shared
    by (cases j) (simp_all add: in_wallet_def resolution_wallet)
qed (simp_all add: prediction_wallet collateral_wallet market_wallet governance_wallet faucet_wallet spot_wallet)

lemma at_time_twice [simp]: "at_time now (at_time t rt) = at_time now rt"
  by (simp add: at_time_def)

lemma in_wallet_step:
  assumes run: "process (at_time now rt) tp ua w i = Inr w'" and i: "in_wallet i"
  shows "wallet_step (at_time now rt) tp mint w w'"
proof (cases i)
  case (Shared j)
  have ok: "process_shared (at_time now rt) tp w j = Inr w'" using run Shared by simp
  show ?thesis
  proof (cases j)
    case (IxSharedCompleteSet ks q into)
    with ok show ?thesis using ws_sets [of now "at_time now rt"] by simp
  next
    case (IxMatchSharedOrder ks so sd p q)
    with ok show ?thesis using ws_trade [OF st_match, of now "at_time now rt"] by simp
  next
    case (IxPlaceSharedOrder ks so sd p q x)
    with ok show ?thesis using ws_trade [OF st_place, of now "at_time now rt"] by simp
  next
    case (IxCancelSharedOrder ks)
    with ok show ?thesis using ws_trade [OF st_cancel, of now "at_time now rt"] by simp
  next
    case (IxInitializeSharedBook ks kind)
    with ok show ?thesis using ws_root [of now "at_time now rt"] by simp
  next
    case (IxRedeemPrediction ks yes no)
    with ok show ?thesis using ws_redeem by simp
  next
    case (IxCloseSharedBook ks)
    with ok show ?thesis using ws_close by simp
  next
    case (IxWithdrawSharedFees ks amount)
    with ok show ?thesis using ws_fees by simp
  next
    case (IxInitializeAssetBalance ks)
    with ok show ?thesis using ws_open by simp
  next
    case (IxDepositAsset ks amount)
    with ok show ?thesis using ws_deposit by simp
  next
    case (IxWithdrawAsset ks amount)
    with ok show ?thesis using ws_withdraw by simp
  next
    case (IxMigrateSpotAsset ks amount)
    with ok show ?thesis using ws_migrate_spot by simp
  next
    case (IxMigratePredictionAsset ks amount)
    with ok show ?thesis using ws_migrate_prediction by simp
  qed (use i Shared in \<open>simp_all add: in_wallet_def\<close>)
qed (use i in \<open>simp_all add: in_wallet_def\<close>)

text \<open>The asset authority of the mint is nobody else's address.\<close>

definition own_asset_authority :: "runtime \<Rightarrow> pubkey \<Rightarrow> bool" where
  "own_asset_authority rt mint \<longleftrightarrow> (\<forall>k. address rt (VaultAuthorityPda k) \<noteq> address rt (AssetAuthorityPda mint))"

lemma spared_covers:
  assumes "spares (asset_authority rt mint) w w'" "covers rt mint (w_tokens w) n"
  shows "covers rt mint (w_tokens w') n"
proof (cases "n = 0")
  case False
  then obtain a where a: "w_tokens w (asset_vault rt mint) = Some a" "ta_mint a = mint"
    "ta_owner a = asset_authority rt mint" "n \<le> unat (ta_amount a)"
    using assms(2) by (auto simp: covers_def)
  then obtain b where "w_tokens w' (asset_vault rt mint) = Some b" "ta_mint b = mint"
    "ta_owner b = asset_authority rt mint" "ta_amount a \<le> ta_amount b"
    using assms(1) unfolding keeps_owned_def by blast
  with a(4) show ?thesis by (auto simp: covers_def word_le_nat_alt)
qed (simp add: covers_def)

lemma wallet_same_outside:
  assumes "wallet_same w w'" "spares (asset_authority rt mint) w w'" "wallet_solvent rt mint w"
  shows "outside_wallet rt mint w w'"
  using assms(1,3) spared_covers [OF assms(2)]
  by (simp add: outside_wallet_def wallet_same_def wallet_solvent_def finite_claims_def)

lemma program_step_wallet:
  assumes laws: "token_laws tp" and apart: "own_asset_authority rt mint"
    and step: "program_step rt tp w w'" and inv: "wallet_solvent rt mint w"
  shows "wallet_solvent rt mint w'"
  using step
proof cases
  case (program_call now ua i)
  let ?rt = "at_time now rt"
  show ?thesis
  proof (cases "in_wallet i")
    case True
    from wallet_step_solvent [OF token_lawsD(1) [OF laws] in_wallet_step [OF program_call(1) True], of mint] inv
    show ?thesis by simp
  next
    case False
    have own: "asset_authority ?rt mint = asset_authority rt mint" by (simp add: asset_authority_def)
    have "spares (asset_authority ?rt mint) w w'"
    proof (rule process_spares [OF laws _ _ _ program_call(1)])
      show "signer i \<noteq> Some (asset_authority ?rt mint)"
        using program_call(2) by (auto simp: asset_authority_def)
      show "address ?rt (VaultAuthorityPda k) \<noteq> asset_authority ?rt mint" for k
        using apart by (simp add: own_asset_authority_def asset_authority_def)
      show "asset_authority ?rt x \<noteq> asset_authority ?rt mint" if "pays_assets i" for x
        using that False by (auto simp: pays_assets_def in_wallet_def split: instruction.splits SharedInstruction.splits)
    qed
    from outside_wallet_solvent [OF wallet_same_outside [OF yieldsD [OF outside_wallet_same [OF False] program_call(1)]
          this [unfolded own] inv] inv]
    show ?thesis .
  qed
next
  case program_others
  have "wallet_same w w'" using program_others by (auto simp: others_act_def wallet_same_def)
  moreover have "spares (asset_authority rt mint) w w'"
    unfolding asset_authority_def by (rule others_spare [OF program_others])
  ultimately show ?thesis using outside_wallet_solvent [OF wallet_same_outside] inv by blast
qed

interpretation wallet_custody: transition_invariant "wallet_start mint" "program_step rt tp"
  "\<lambda>w. token_laws tp \<longrightarrow> own_asset_authority rt mint \<longrightarrow> wallet_solvent rt mint w" for rt tp mint
  by unfold_locales (auto intro: wallet_start_solvent program_step_wallet)

section \<open>Properties\<close>

text \<open>C28: The conservation rule of the shared wallet, on the whole chain. From a world in which a mint
  has no wallet ledgers and no shared book yet, after any sequence of instructions of the program,
  those of the wallet (ledger openings, deposits, withdrawals, migrations, complete sets,
  redemptions, shared orders, fills and cancellations, fee withdrawals, roots) and all others, beside
  any other programs: the mint's vault holds at least all free and locked wallet claims on the mint
  plus the fees accrued by all shared books quoted in it.\<close>

theorem shared_vault_covers_all_claims_on_chain:
  assumes "token_laws tp" "own_asset_authority rt mint" "reach (wallet_start mint) (program_step rt tp) w"
  shows "wallet_claims mint w + wallet_fees mint w \<le> token_amount (w_tokens w) (asset_vault rt mint)"
proof -
  have "wallet_solvent rt mint w" using wallet_custody.reach_inv [OF assms(3)] assms(1,2) by blast
  then show ?thesis by (auto simp: wallet_solvent_def covers_def token_amount_def)
qed

end
