(* ===== verification/Program_Questions.thy ===== *)
theory Program_Questions
  imports Program_Wallet
begin

text \<open>
  Backing of a question on the whole chain: orders, collateral, lifecycle and wallet instructions
  on this and any other question, shared books, spot markets and other programs together keep the
  supplies, the reserve and the vault of every question in step.
\<close>

section \<open>What an instruction on one question leaves to the others\<close>

definition within_question :: "pubkey \<Rightarrow> world \<Rightarrow> world \<Rightarrow> bool" where
  "within_question n w w' \<longleftrightarrow>
     (\<forall>j. j \<noteq> n \<longrightarrow> w_predictions w' j = w_predictions w j) \<and>
     (\<forall>j p. pos_market p \<noteq> n \<longrightarrow> (w_positions w' j = Some p \<longleftrightarrow> w_positions w j = Some p))"

lemma within_question_refl [simp]:
  "w_predictions w' = w_predictions w \<Longrightarrow> w_positions w' = w_positions w \<Longrightarrow> within_question n w w'"
  by (simp add: within_question_def)

lemma within_questionI:
  assumes "w_positions w j = Some p" "pos_market p = n" "pos_market p' = n"
    "w_positions w' = (w_positions w)(j \<mapsto> p')" "\<And>k. k \<noteq> n \<Longrightarrow> w_predictions w' k = w_predictions w k"
  shows "within_question n w w'"
  using assms by (auto simp: within_question_def)

lemma resting_within:
  assumes "lock_resting_funds p oc sd price q = Inr (p', amount)" "w_positions w j = Some p" "pos_market p = n"
    "w_positions w' = (w_positions w)(j \<mapsto> p')" "\<And>k. k \<noteq> n \<Longrightarrow> w_predictions w' k = w_predictions w k"
  shows "within_question n w w'"
  by (rule within_questionI [OF assms(2,3) _ assms(4,5)]) (use lock_resting_keeps(1) [OF assms(1)] assms(3) in simp_all)

lemma orders_within:
  "place_prediction_order rt w pks i oc sd price q = Inr w' \<Longrightarrow> within_question (ppo_market pks) w w'"
  "append_prediction_order rt w pks t i oc sd price q = Inr w' \<Longrightarrow> within_question (ppo_market pks) w w'"
  "insert_prediction_order rt w pks b l i oc sd price q = Inr w' \<Longrightarrow> within_question (ppo_market pks) w w'"
proof -
  show "within_question (ppo_market pks) w w'" if "place_prediction_order rt w pks i oc sd price q = Inr w'"
    using that unfolding place_prediction_order_def run_inversions
    by (elim exE conjE) (rule resting_within, assumption+, auto)
  show "within_question (ppo_market pks) w w'" if "append_prediction_order rt w pks t i oc sd price q = Inr w'"
    using that unfolding append_prediction_order_def run_inversions
    by (elim exE conjE) (rule resting_within, assumption+, auto)
  show "within_question (ppo_market pks) w w'" if "insert_prediction_order rt w pks b l i oc sd price q = Inr w'"
    using that unfolding insert_prediction_order_def run_inversions load_opt_Inr
    by (elim exE conjE) (rule resting_within, assumption+, auto)
qed

lemma cancel_prediction_within:
  assumes ok: "cancel_prediction_order rt w ks i = Inr w'"
  shows "within_question (cpo_market ks) w w'"
proof -
  obtain m p r lv f l b pv nx bt ws lc lt mc where
    p: "w_positions w (cpo_position ks) = Some p" "pos_market p = cpo_market ks"
    and w': "unlink_prediction ks m b r lv pv nx bt ws lc lt mc
      (put_position (cpo_position ks) (set_bucket (po_outcome r) (po_side r) f l p) w) = w'"
    using ok unfolding cancel_prediction_order_def run_inversions load_opt_Inr
    by (elim exE conjE) (rule that; assumption)
  show ?thesis by (rule within_questionI [OF p, where p' = "set_bucket (po_outcome r) (po_side r) f l p"])
      (use p w' in auto)
qed

lemma match_prediction_within_question:
  assumes ok: "match_prediction_order rt w ks oc ts lim q = Inr w'"
  shows "within_question (mpo_market ks) w w'"
proof -
  obtain m b r lv nx ws rem nb lq nc fees mp tp mp' tp' backing filled cash fee accrued where
    mp: "w_positions w (mpo_maker_position ks) = Some mp" "pos_market mp = mpo_market ks"
    and tp: "w_positions w (mpo_taker_position ks) = Some tp" "pos_market tp = mpo_market ks"
    and settle: "settle_prediction oc ts backing filled cash fee mp tp = Inr (mp', tp')"
    and w': "fill_prediction ks oc m b r lv nx ws rem nb lq nc
      (w\<lparr>w_positions := (w_positions w)(mpo_maker_position ks \<mapsto> mp', mpo_taker_position ks \<mapsto> tp'),
         w_spot := (w_spot w)\<lparr>ss_fees := save (upd_inner (\<lambda>f. f\<lparr>mf_accrued_quote_fees := accrued\<rparr>)
            (Account (mpo_market_fees ks) fees)) (ss_fees (w_spot w))\<rparr>\<rparr>) = w'"
    using ok unfolding match_prediction_order_def run_inversions load_opt_Inr
    by (elim exE conjE) (rule that; assumption)
  have "pos_market mp' = pos_market mp" "pos_market tp' = pos_market tp"
    using settle_prediction_conserves [OF settle] by (simp_all add: settlement_conserves_def)
  with mp tp show ?thesis by (auto simp: within_question_def w' [symmetric])
qed

lemma collateral_within:
  "initialize_prediction_position rt w iks = Inr w' \<Longrightarrow> within_question (ipp_market iks) w w'"
  "deposit_prediction_collateral rt tp w dks amount = Inr w' \<Longrightarrow> within_question (dpc_market dks) w w'"
  "withdraw_prediction_collateral rt tp w wks amount = Inr w' \<Longrightarrow> within_question (wpc_market wks) w w'"
  "migrate_prediction_asset rt tp w mks amount = Inr w' \<Longrightarrow> within_question (mpa_market mks) w w'"
  "split_prediction_complete_set rt w sks q = Inr w' \<Longrightarrow> within_question (pcs_market sks) w w'"
  "merge_prediction_complete_set rt w sks q = Inr w' \<Longrightarrow> within_question (pcs_market sks) w w'"
proof -
  show "within_question (ipp_market iks) w w'" if "initialize_prediction_position rt w iks = Inr w'"
    using that by (auto simp: initialize_prediction_position_def run_simps within_question_def split: if_splits)
  show "within_question (dpc_market dks) w w'" if "deposit_prediction_collateral rt tp w dks amount = Inr w'"
    by (rule deposit_collateral_ok [OF that]) (auto simp: within_question_def)
  show "within_question (wpc_market wks) w w'" if "withdraw_prediction_collateral rt tp w wks amount = Inr w'"
    by (rule withdraw_collateral_ok [OF that]) (auto simp: within_question_def)
  show "within_question (mpa_market mks) w w'" if "migrate_prediction_asset rt tp w mks amount = Inr w'"
    by (rule migrate_prediction_ok [OF that]) (auto simp: within_question_def)
  show "within_question (pcs_market sks) w w'" if "split_prediction_complete_set rt w sks q = Inr w'"
    by (rule split_ok [OF that]) (auto simp: within_question_def dest: sets_move_frame)
  show "within_question (pcs_market sks) w w'" if "merge_prediction_complete_set rt w sks q = Inr w'"
    by (rule merge_ok [OF that]) (auto simp: within_question_def dest: sets_move_frame)
qed

lemma custody_loadedD:
  assumes "custody_loaded rt w ks c"
  shows "key (sc_market c) = spc_market ks" "w_positions w (key (sc_position c)) = Some (inner (sc_position c))"
    "pos_market (inner (sc_position c)) = spc_market ks"
  using assms by (simp_all add: custody_loaded_def)

lemma shared_sets_within:
  "shared_complete_set rt tp w ks q into = Inr w' \<Longrightarrow> within_question (spc_market ks) w w'"
  "redeem_prediction rt tp w ks yes no = Inr w' \<Longrightarrow> within_question (spc_market ks) w w'"
proof -
  have moved: "within_question (spc_market ks) w (put_custody c ts m' p' b w)"
    if c: "custody_loaded rt w ks c" and p': "pos_market p' = pos_market (inner (sc_position c))" for c ts m' p' b
    by (rule within_questionI [OF custody_loadedD(2,3) [OF c]])
      (use p' custody_loadedD [OF c] in simp_all)
  show "within_question (spc_market ks) w w'" if ok: "shared_complete_set rt tp w ks q into = Inr w'"
  proof (cases into)
    case True
    with ok have "shared_complete_set rt tp w ks q True = Inr w'" by simp
    then show ?thesis by (rule shared_set_split) (use moved sets_move_frame in fastforce)
  next
    case False
    with ok have "shared_complete_set rt tp w ks q False = Inr w'" by simp
    then show ?thesis by (rule shared_set_merge) (use moved sets_move_frame in fastforce)
  qed
  show "within_question (spc_market ks) w w'" if "redeem_prediction rt tp w ks yes no = Inr w'"
    by (rule redeem_ok [OF that]) (use moved sets_move_frame in fastforce)
qed

lemma lifecycle_within:
  "propose_prediction rt w rks oc uri hash correction = Inr w' \<Longrightarrow> within_question (rp_market rks) w w'"
  "close_prediction_trading rt w rks = Inr w' \<Longrightarrow> within_question (rp_market rks) w w'"
  "advance_prediction rt w aks action = Inr w' \<Longrightarrow> within_question (ap_market aks) w w'"
  "open_prediction_market rt w oks = Inr w' \<Longrightarrow> within_question (opm_market oks) w w'"
  "initialize_prediction_market rt w iks market_id config name symbol = Inr w' \<Longrightarrow> within_question (ipm_market iks) w w'"
proof -
  have put: "within_question k w (put_prediction k m w)" for k m
    by (simp add: within_question_def put_prediction_def)
  show "within_question (rp_market rks) w w'" if "propose_prediction rt w rks oc uri hash correction = Inr w'"
    using that put by (auto simp: propose_prediction_def run_simps Let_def)
  show "within_question (rp_market rks) w w'" if "close_prediction_trading rt w rks = Inr w'"
    using that put by (auto simp: close_prediction_trading_def run_simps Let_def)
  show "within_question (ap_market aks) w w'" if "advance_prediction rt w aks action = Inr w'"
    using that put by (auto simp: advance_prediction_def run_simps Let_def)
  show "within_question (opm_market oks) w w'" if "open_prediction_market rt w oks = Inr w'"
    using that put by (auto simp: open_prediction_market_def run_simps Let_def)
  show "within_question (ipm_market iks) w w'"
    if "initialize_prediction_market rt w iks market_id config name symbol = Inr w'"
    by (rule initialize_prediction_ok [OF that]) (simp add: within_question_def)
qed

section \<open>Every instruction and the questions\<close>

text \<open>The question an instruction works on; orders of shared books are apart, they move claims between
  positions of any question.\<close>

primrec collateral_of :: "CollateralInstruction \<Rightarrow> pubkey" where
  "collateral_of (IxInitializePredictionPosition ctx) = ipp_market ctx"
| "collateral_of (IxDepositPredictionCollateral ctx _) = dpc_market ctx"
| "collateral_of (IxOpenPredictionMarket ctx) = opm_market ctx"
| "collateral_of (IxWithdrawPredictionCollateral ctx _) = wpc_market ctx"
| "collateral_of (IxSplitPredictionCompleteSet ctx _) = pcs_market ctx"
| "collateral_of (IxMergePredictionCompleteSet ctx _) = pcs_market ctx"

definition on_question :: "instruction \<Rightarrow> pubkey option" where
  "on_question i = (case i of
     Shared j \<Rightarrow> (case j of IxProposePrediction ctx _ _ _ _ \<Rightarrow> Some (rp_market ctx)
       | IxClosePredictionTrading ctx \<Rightarrow> Some (rp_market ctx) | IxAdvancePrediction ctx _ \<Rightarrow> Some (ap_market ctx)
       | IxSharedCompleteSet ctx _ _ \<Rightarrow> Some (spc_market ctx) | IxRedeemPrediction ctx _ _ \<Rightarrow> Some (spc_market ctx)
       | IxMigratePredictionAsset ctx _ \<Rightarrow> Some (mpa_market ctx) | _ \<Rightarrow> None)
   | OfPrediction j \<Rightarrow> Some (prediction_of j)
   | Collateral j \<Rightarrow> Some (collateral_of j)
   | _ \<Rightarrow> None)"

definition shared_order :: "instruction \<Rightarrow> bool" where
  "shared_order i = (case i of
     Shared j \<Rightarrow> (case j of IxMatchSharedOrder _ _ _ _ _ \<Rightarrow> True | IxPlaceSharedOrder _ _ _ _ _ _ \<Rightarrow> True
       | IxCancelSharedOrder _ \<Rightarrow> True | _ \<Rightarrow> False)
   | _ \<Rightarrow> False)"

abbreviation questions_same :: "world \<Rightarrow> world \<Rightarrow> bool" where
  "questions_same w w' \<equiv> w_predictions w' = w_predictions w \<and> w_positions w' = w_positions w"

lemma shared_questions_same:
  "yields (questions_same w) (close_shared_book rt w k1)"
  "yields (questions_same w) (initialize_shared_book rt w k2 kind)"
  "yields (questions_same w) (withdraw_shared_fees rt tp w k3 amount)"
  "yields (questions_same w) (initialize_asset_balance rt w k4)"
  "yields (questions_same w) (deposit_asset rt tp w k5 amount)"
  "yields (questions_same w) (withdraw_asset rt tp w k5 amount)"
  "yields (questions_same w) (migrate_spot_asset rt tp w k6 amount)"
  unfolding close_shared_book_def initialize_shared_book_def withdraw_shared_fees_def initialize_asset_balance_def
    deposit_asset_def withdraw_asset_def migrate_spot_asset_def Let_def
  by (intro yields_rules; simp add: put_asset_def put_balance_def)+

lemma market_questions_same: "yields (questions_same w) (process_market rt tp w i)"
  by (induction i; unfold process_market.simps
      initialize_market_def initialize_market_metadata_def update_market_metadata_def
      close_market_metadata_def pause_market_def unpause_market_def close_market_def Let_def;
      intro yields_rules; simp)

lemma governance_questions_same: "yields (questions_same w) (process_governance rt ua w i)"
  by (induction i; unfold process_governance.simps initialize_protocol_def add_admin_def disable_admin_def
      enable_admin_def remove_admin_def set_taker_fee_def Let_def; intro yields_rules; simp)

lemma faucet_questions_same: "yields (questions_same w) (process_faucet rt tp w i)"
  by (induction i; unfold process_faucet.simps initialize_test_faucet_def claim_test_tokens_def close_test_faucet_def
      Let_def; intro yields_rules; simp)

lemma on_spot_questions_same: "yields (questions_same w) (on_spot w r)"
  by (cases r) (auto simp: on_spot_def yields_def)

lemma spot_questions_same: "yields (questions_same w) (process_spot rt tp w i)"
  by (induction i; unfold process_spot.simps;
      (rule on_spot_questions_same)?;
      (unfold initialize_trader_balance_def deposit_def withdraw_def withdraw_protocol_fees_def Let_def)?;
      (intro yields_rules; simp)?)

lemma process_within_question:
  assumes run: "process rt tp ua w i = Inr w'"
  shows "case on_question i of Some n \<Rightarrow> within_question n w w' | None \<Rightarrow> shared_order i \<or> questions_same w w'"
proof (cases i)
  case (Shared j)
  with run have "process_shared rt tp w j = Inr w'" by simp
  then show ?thesis unfolding Shared
    by (cases j) (auto simp: on_question_def shared_order_def lifecycle_within shared_sets_within collateral_within
        dest: yieldsD [OF shared_questions_same(1)] yieldsD [OF shared_questions_same(2)]
          yieldsD [OF shared_questions_same(3)] yieldsD [OF shared_questions_same(4)]
          yieldsD [OF shared_questions_same(5)] yieldsD [OF shared_questions_same(6)]
          yieldsD [OF shared_questions_same(7)])
next
  case (OfPrediction j)
  with run show ?thesis
    by (cases j) (simp_all add: on_question_def orders_within cancel_prediction_within match_prediction_within_question
        lifecycle_within)
next
  case (Collateral j)
  with run show ?thesis by (cases j) (simp_all add: on_question_def collateral_within lifecycle_within)
next
  case (OfMarket j)
  with run yieldsD [OF market_questions_same [of w rt tp j]] show ?thesis by (simp add: on_question_def)
next
  case (OfProtocol j)
  with run yieldsD [OF governance_questions_same [of w rt ua j]] show ?thesis by (simp add: on_question_def)
next
  case (OfFaucet j)
  with run yieldsD [OF faucet_questions_same [of w rt tp j]] show ?thesis by (simp add: on_question_def)
next
  case (Spot j)
  with run yieldsD [OF spot_questions_same [of w rt tp j]] show ?thesis by (simp add: on_question_def)
qed

text \<open>There are always finitely many ledgers, positions and shared roots.\<close>

lemma wallet_finite:
  assumes "finite_claims w"
  shows "yields finite_claims (close_shared_book rt w k1)"
    and "yields finite_claims (initialize_shared_book rt w k2 kind)"
    and "yields finite_claims (withdraw_shared_fees rt tp w k3 amount)"
    and "yields finite_claims (initialize_asset_balance rt w k4)"
    and "yields finite_claims (deposit_asset rt tp w k5 amount)"
    and "yields finite_claims (withdraw_asset rt tp w k5 amount)"
    and "yields finite_claims (migrate_spot_asset rt tp w k6 amount)"
    and "yields finite_claims (migrate_prediction_asset rt tp w k7 amount)"
    and "yields finite_claims (shared_complete_set rt tp w k8 q into)"
    and "yields finite_claims (redeem_prediction rt tp w k8 yes no)"
  unfolding close_shared_book_def initialize_shared_book_def withdraw_shared_fees_def initialize_asset_balance_def
    deposit_asset_def withdraw_asset_def migrate_spot_asset_def migrate_prediction_asset_def
    shared_complete_set_def redeem_prediction_def Let_def
  using assms
  by - (intro yields_rules; simp add: finite_claims_def put_asset_def put_balance_def put_position_def
      put_prediction_def put_custody_def save_def)+

lemma shared_order_trade:
  assumes "process rt tp ua w i = Inr w'" "shared_order i"
  shows "\<exists>kb. shared_trade rt kb w w'"
proof (cases i)
  case (Shared j)
  with assms show ?thesis by (cases j) (auto simp: shared_order_def intro: st_match st_place st_cancel)
qed (use assms in \<open>simp_all add: shared_order_def\<close>)

lemma process_finite:
  assumes run: "process rt tp ua w i = Inr w'" and fin: "finite_claims w"
  shows "finite_claims w'"
proof (cases "in_wallet i")
  case False
  from yieldsD [OF outside_wallet_same [OF False] run] fin show ?thesis by (simp add: wallet_same_def finite_claims_def)
next
  case True
  show ?thesis
  proof (cases "shared_order i")
    case True
    from shared_order_trade [OF run this] obtain kb where "shared_trade rt kb w w'" ..
    from shared_trade_effect [OF this fin] show ?thesis by (simp add: shared_effect_def)
  next
    case False
    obtain j where j: "i = Shared j" using True by (cases i) (simp_all add: in_wallet_def)
    with run have "process_shared rt tp w j = Inr w'" by simp
    with True False show ?thesis unfolding j
      by (cases j) (auto simp: in_wallet_def shared_order_def dest: wallet_finite [OF fin, THEN yieldsD])
  qed
qed

section \<open>Instructions off the question\<close>

text \<open>No spot market has the address of the question.\<close>

definition no_market :: "runtime \<Rightarrow> pubkey \<Rightarrow> bool" where
  "no_market rt k \<longleftrightarrow> (\<forall>b q. address rt (MarketPda b q) \<noteq> k)"

lemma prediction_markets_same:
  "yields (\<lambda>w'. ss_markets (w_spot w') = ss_markets (w_spot w)) (process_prediction rt w i)"
  by (induction i; unfold process_prediction.simps
      match_prediction_order_def cancel_prediction_order_def insert_prediction_order_def
      append_prediction_order_def place_prediction_order_def initialize_prediction_market_def Let_def;
      intro yields_rules; simp add: put_position_def)

lemma on_market_known:
  assumes run: "process rt tp ua w i = Inr w'" and n: "on_market i = Some n"
  shows "(\<exists>mk. ss_markets (w_spot w) n = Some mk) \<or> \<not> no_market rt n"
proof (cases i)
  case (Shared j)
  with n obtain ks amount where "j = IxMigrateSpotAsset ks amount" "n = msa_market ks"
    by (cases j) (simp_all add: on_market_def)
  with run Shared show ?thesis using market_loaded(5) by simp
next
  case (OfMarket j)
  have created: "\<exists>b q. address rt (MarketPda b q) = im_market ks" if "initialize_market rt w ks tick lot = Inr w'" for ks tick lot
  proof -
    have "im_market ks = address rt (MarketPda (im_base_mint ks) (im_quote_mint ks))"
      using that by (auto simp: initialize_market_def run_simps Let_def)
    then show ?thesis by metis
  qed
  from OfMarket run n show ?thesis
    by (cases j) (auto simp: on_market_def no_market_def pause_market_def unpause_market_def close_market_def
        load_Inr run_simps Let_def dest: created)
next
  case (Spot j)
  with run n show ?thesis
    by (cases j) (auto simp: on_market_def on_spot_Inr dest: trade_market market_loaded)
qed (use n in \<open>simp_all add: on_market_def\<close>)

lemma vault_of_known:
  assumes "vault_of i = Some n"
  shows "on_question i = Some n \<or> on_market i = Some n"
proof (cases i)
  case (Shared j)
  with assms show ?thesis by (cases j) (simp_all add: vault_of_def on_question_def on_market_def)
next
  case (Collateral j)
  with assms show ?thesis by (cases j) (simp_all add: vault_of_def on_question_def)
next
  case (OfMarket j)
  with assms show ?thesis by (cases j) (simp_all add: vault_of_def on_market_def)
next
  case (Spot j)
  with assms show ?thesis by (cases j) (simp_all add: vault_of_def on_market_def)
qed (use assms in \<open>simp_all add: vault_of_def\<close>)

lemma market_absent:
  assumes run: "process rt tp ua w i = Inr w'" and none: "ss_markets (w_spot w) k = None" and k: "no_market rt k"
  shows "on_market i \<noteq> Some k" "ss_markets (w_spot w') k = None"
proof -
  show other: "on_market i \<noteq> Some k" using on_market_known [OF run] none k by auto
  show "ss_markets (w_spot w') k = None"
  proof (cases "\<exists>j. i = OfPrediction j")
    case True
    then show ?thesis using run yieldsD [OF prediction_markets_same] none by fastforce
  next
    case False
    obtain n where n: "within_market rt n (w_spot w) (w_spot w')" "n \<noteq> k"
    proof (cases "on_market i")
      case None
      with process_within [OF run] False have "within_market rt n (w_spot w) (w_spot w')" for n
        by (cases i) auto
      then show ?thesis using that [of "k + 1"] by simp
    next
      case (Some n)
      with process_within [OF run] other that show ?thesis by simp
    qed
    then show ?thesis using none by (simp add: within_market_def)
  qed
qed

lemma off_question_outside:
  assumes laws: "token_laws tp" and run: "process rt tp ua w i = Inr w'" and apart: "own_addresses rt k" "no_market rt k"
    and signed: "signer i \<noteq> Some (address rt (VaultAuthorityPda k))" and none: "ss_markets (w_spot w) k = None"
    and off: "on_question i \<noteq> Some k" "\<not> shared_order i" and fin: "finite_claims w"
  shows "outside_question rt k w w'"
proof -
  have other: "on_market i \<noteq> Some k" by (rule market_absent(1) [OF run none apart(2)])
  have "spares (address rt (VaultAuthorityPda k)) w w'"
    by (rule process_spares [OF laws signed _ _ run])
      (use vault_of_known [of i] off(1) other apart(1) in \<open>auto simp: own_addresses_def asset_authority_def\<close>)
  moreover have "ss_fees (w_spot w') (address rt (MarketFeesPda k)) = ss_fees (w_spot w) (address rt (MarketFeesPda k))"
  proof -
    obtain n where n: "within_market rt n (w_spot w) (w_spot w')" "n \<noteq> k"
    proof (cases "on_market i")
      case None
      show ?thesis
      proof (cases "\<exists>j. i = OfPrediction j")
        case True
        with process_within [OF run] None off(1) that show ?thesis by (auto simp: on_question_def)
      next
        case False
        with process_within [OF run] None have "within_market rt n (w_spot w) (w_spot w')" for n
          by (cases i) auto
        then show ?thesis using that [of "k + 1"] by simp
      qed
    next
      case (Some n)
      with process_within [OF run] other that show ?thesis by simp
    qed
    have "address rt (MarketFeesPda k) \<noteq> address rt (MarketFeesPda n)"
      using n(2) apart(1) unfolding own_addresses_def by metis
    with n(1) show ?thesis by (simp add: within_market_def)
  qed
  moreover have "w_predictions w' k = w_predictions w k \<and>
      (\<forall>j p. pos_market p = k \<longrightarrow> (w_positions w' j = Some p \<longleftrightarrow> w_positions w j = Some p))"
    using process_within_question [OF run] off by (cases "on_question i") (auto simp: within_question_def)
  moreover have "finite (dom (w_positions w'))" using process_finite [OF run fin] by (simp add: finite_claims_def)
  ultimately show ?thesis unfolding outside_question_def using keeps_owned_holds by blast
qed

section \<open>Instructions on the question\<close>

lemma on_question_loaded:
  assumes run: "process rt tp ua w i = Inr w'" and k: "on_question i = Some k" and none: "w_predictions w k = None"
  shows "\<exists>ks market_id config name symbol. i = OfPrediction (IxInitializePredictionMarket ks market_id config name symbol) \<and>
    ipm_market ks = k"
proof (cases i)
  case (Shared j)
  have "False"
    using run k none unfolding Shared
    by (cases j) (auto simp: on_question_def propose_prediction_def close_prediction_trading_def advance_prediction_def
        migrate_prediction_asset_def shared_complete_set_def redeem_prediction_def load_shared_custody_def
        load_prediction_Inr)
  then show ?thesis ..
next
  case (OfPrediction j)
  with run k none show ?thesis
    by (cases j) (auto simp: on_question_def match_prediction_order_def cancel_prediction_order_def
        insert_prediction_order_def append_prediction_order_def place_prediction_order_def load_prediction_Inr Let_def run_simps)
next
  case (Collateral j)
  have "False"
    using run k none unfolding Collateral
    by (cases j) (auto simp: on_question_def initialize_prediction_position_def deposit_prediction_collateral_def
        open_prediction_market_def withdraw_prediction_collateral_def split_prediction_complete_set_def
        merge_prediction_complete_set_def load_prediction_Inr Let_def run_simps)
  then show ?thesis ..
qed (use k in \<open>simp_all add: on_question_def\<close>)

lemma on_question_step:
  assumes run: "process (at_time now rt) tp ua w i = Inr w'" and k: "on_question i = Some k"
    and m: "w_predictions w k = Some m"
  shows "question_step rt tp k w w'"
proof (cases i)
  case (Shared j)
  with run k show ?thesis
    by (cases j) (auto simp: on_question_def intro: qs_lifecycle qs_funding pl_propose pl_close pl_advance pf_shared
        pf_redeem pf_migrate)
next
  case (OfPrediction j)
  with run k m show ?thesis
    by (cases j) (auto simp: on_question_def intro: qs_trade pt_match pt_cancel pt_insert pt_append pt_place
        elim: initialize_prediction_ok)
next
  case (Collateral j)
  with run k show ?thesis
    by (cases j) (auto simp: on_question_def intro: qs_lifecycle qs_funding pf_position pf_deposit pl_open pf_withdraw
        pf_split pf_merge)
qed (use k in \<open>simp_all add: on_question_def\<close>)

section \<open>Steps of the chain\<close>

text \<open>A question is solvent from its creation on; before, nobody has a claim on it.\<close>

definition backed :: "runtime \<Rightarrow> pubkey \<Rightarrow> world \<Rightarrow> bool" where
  "backed rt k w \<longleftrightarrow> finite_claims w \<and> ss_markets (w_spot w) k = None \<and>
     (case w_predictions w k of None \<Rightarrow> unclaimed k w | Some _ \<Rightarrow> question_solvent rt k w)"

lemma backedI: "question_solvent rt k w \<Longrightarrow> finite_claims w \<Longrightarrow> ss_markets (w_spot w) k = None \<Longrightarrow> backed rt k w"
  by (auto simp: backed_def question_solvent_def)

lemma outside_backed:
  assumes out: "outside_question rt k w w'" and inv: "backed rt k w"
    and fin: "finite_claims w'" and none: "ss_markets (w_spot w') k = None"
  shows "backed rt k w'"
proof (cases "w_predictions w k")
  case (Some m)
  with inv have "question_solvent rt k w" by (simp add: backed_def)
  from backedI [OF outside_question_solvent [OF out this] fin none] show ?thesis .
next
  case None
  have "finite (dom (w_positions w))" using inv by (simp add: backed_def finite_claims_def)
  with None inv fin none outside_question_total [OF out] out show ?thesis
    by (simp add: backed_def unclaimed_def outside_question_def)
qed

lemma shared_order_backed:
  assumes trade: "shared_trade (at_time now rt) kb w w'" and inv: "backed rt k w"
  shows "backed rt k w'"
proof -
  have fin: "finite_claims w" using inv by (simp add: backed_def)
  note eff = shared_trade_effect [OF trade fin]
  have frame: "finite_claims w'" "w_spot w' = w_spot w" "w_predictions w' = w_predictions w"
    using eff by (simp_all add: shared_effect_def)
  show ?thesis
  proof (cases "w_predictions w k")
    case (Some m)
    with inv have "question_solvent rt k w" by (simp add: backed_def)
    from claims_kept_solvent [OF shared_effect_keeps [OF eff Some] this]
    show ?thesis by (rule backedI) (use inv frame in \<open>simp_all add: backed_def\<close>)
  next
    case None
    with inv frame shared_effect_totals [OF eff] show ?thesis by (simp add: backed_def unclaimed_def)
  qed
qed

lemma no_market_at_time [simp]: "no_market (at_time now rt) k = no_market rt k"
  by (simp add: no_market_def)

lemma outside_question_at_time [simp]: "outside_question (at_time now rt) k w w' = outside_question rt k w w'"
  by (simp add: outside_question_def)

lemma program_step_backed:
  assumes laws: "token_laws tp" and apart: "own_addresses rt k" "no_market rt k"
    and step: "program_step rt tp w w'" and inv: "backed rt k w"
  shows "backed rt k w'"
  using step
proof cases
  case (program_call now ua i)
  note run = program_call(1)
  have fin: "finite_claims w" and none: "ss_markets (w_spot w) k = None" using inv by (simp_all add: backed_def)
  have fin': "finite_claims w'" by (rule process_finite [OF run fin])
  have none': "ss_markets (w_spot w') k = None" by (rule market_absent(2) [OF run none]) (simp add: apart)
  consider (on) "on_question i = Some k" | (orders) "shared_order i" | (off) "on_question i \<noteq> Some k" "\<not> shared_order i"
    by blast
  then show ?thesis
  proof cases
    case on
    show ?thesis
    proof (cases "w_predictions w k")
      case (Some m)
      with inv have "question_solvent rt k w" by (simp add: backed_def)
      from question_step_solvent [OF token_lawsD(1) [OF laws] on_question_step [OF run on Some] this]
      show ?thesis by (rule backedI [OF _ fin' none'])
    next
      case None
      obtain ks market_id config name symbol where
        i: "i = OfPrediction (IxInitializePredictionMarket ks market_id config name symbol)" "ipm_market ks = k"
        using on_question_loaded [OF run on None] by blast
      have created: "initialize_prediction_market (at_time now rt) w ks market_id config name symbol = Inr w'"
        using run i(1) by simp
      have "unclaimed (ipm_market ks) w" "finite (dom (w_positions w))"
        using inv None i(2) fin by (simp_all add: backed_def finite_claims_def)
      from created_solvent [OF created this(2,1)] have "question_solvent rt k w'" by (simp add: i(2))
      from backedI [OF this fin' none'] show ?thesis .
    qed
  next
    case orders
    from shared_order_trade [OF run this] shared_order_backed inv show ?thesis by blast
  next
    case off
    have "outside_question (at_time now rt) k w w'"
      by (rule off_question_outside [OF laws run _ _ _ none off fin])
        (use apart program_call(2) in auto)
    from outside_backed [OF this [unfolded outside_question_at_time] inv fin' none'] show ?thesis .
  qed
next
  case program_others
  have same: "w_spot w' = w_spot w" "finite_claims w' = finite_claims w" "questions_same w w'"
    using program_others by (auto simp: others_act_def finite_claims_def)
  have "outside_question rt k w w'"
    using same keeps_owned_holds [OF others_spare [OF program_others]] inv
    by (simp add: outside_question_def backed_def finite_claims_def)
  from outside_backed [OF this inv] same inv show ?thesis by (simp add: backed_def)
qed

text \<open>The chain before the question is created, and without left-over claims on its address.\<close>

definition question_unborn :: "pubkey \<Rightarrow> world \<Rightarrow> bool" where
  "question_unborn k w \<longleftrightarrow> finite_claims w \<and> ss_markets (w_spot w) k = None \<and> w_predictions w k = None \<and>
     (\<forall>j p. w_positions w j = Some p \<longrightarrow> pos_market p \<noteq> k)"

lemma question_unborn_backed: "question_unborn k w \<Longrightarrow> backed rt k w"
  by (simp add: question_unborn_def backed_def no_positions_unclaimed)

interpretation question_custody: transition_invariant "question_unborn k" "program_step rt tp"
  "\<lambda>w. token_laws tp \<longrightarrow> own_addresses rt k \<longrightarrow> no_market rt k \<longrightarrow> backed rt k w" for rt tp k
  by unfold_locales (auto intro: question_unborn_backed program_step_backed)

lemma chain_question_solvent:
  assumes "token_laws tp" "own_addresses rt k" "no_market rt k" "reach (question_unborn k) (program_step rt tp) w"
  shows "backed rt k w"
  using question_custody.reach_inv [OF assms(4)] assms(1-3) by blast

section \<open>Properties\<close>

text \<open>C16: A question is always fully backed, on the whole chain. Start before the question exists and run
  any instructions of the program (orders, fills, collateral, complete sets direct or through the
  shared wallet, the lifecycle, redemptions, shared books, spot markets, other questions), with any
  accounts and arguments, beside any other programs. Once it exists, the positions hold exactly the
  recorded supplies; before the outcome there are as many YES as NO contracts and the reserve is one
  payout per pair, afterwards it is exactly what the outstanding contracts are worth; and the vault
  holds the reserve, all cash and the accrued fees. Before, nobody has a claim on it.\<close>

theorem question_stays_backed_on_chain:
  assumes "token_laws tp" "own_addresses rt k" "no_market rt k"
    and "reach (question_unborn k) (program_step rt tp) w"
  shows "case w_predictions w k of
      Some m \<Rightarrow>
        question_total (pos_contracts YesOutcome) k w = unat (pm_yes_supply m) \<and>
        question_total (pos_contracts NoOutcome) k w = unat (pm_no_supply m) \<and>
        (pm_status m \<noteq> Resolved \<longrightarrow> pm_yes_supply m = pm_no_supply m \<and>
           unat (pm_backing_reserve m) = unat (pm_yes_supply m) * unat (pm_payout_per_contract m)) \<and>
        (pm_status m = Resolved \<longrightarrow> (\<exists>outcome. pm_final_outcome m = Some outcome \<and>
           unat (pm_backing_reserve m) =
             owed outcome (unat (pm_yes_supply m)) (unat (pm_no_supply m)) (unat (pm_payout_per_contract m)))) \<and>
        unat (pm_backing_reserve m) + question_total pos_cash k w + accrued_fees rt k (w_spot w)
          \<le> vault_amount rt k (pm_collateral_mint m) w
    | None \<Rightarrow> (\<forall>outcome. question_total (pos_contracts outcome) k w = 0) \<and> question_total pos_cash k w = 0"
proof (cases "w_predictions w k")
  case None
  with chain_question_solvent [OF assms] show ?thesis by (simp add: backed_def unclaimed_def)
next
  case (Some m)
  with chain_question_solvent [OF assms] have "question_solvent rt k w" by (simp add: backed_def)
  from question_backed [OF this] Some show ?thesis by simp
qed

text \<open>C17: Every holder can redeem. In every resolved question the chain can reach, a position's owner who
  names the right accounts and no more contracts than are free can redeem them, in any split: no arithmetic
  overflow and no backing shortfall, the vault covers the transfer, and the transfer names the mint's own
  decimals; the redemption credits exactly what the contracts are worth and keeps the rest backed. What is
  assumed of the accounts: the two 64-bit destinations (the wallet ledger and its vault) do not overflow, and,
  when something is due, the mint's freeze authority has frozen neither vault.\<close>

theorem holders_can_redeem_on_chain:
  assumes laws: "token_laws tp" "transfer_live tp" and apart: "own_addresses rt k" "no_market rt k"
    and reach: "reach (question_unborn k) (program_step rt tp) w"
    and loaded: "load_shared_custody rt w ks Inr = Inr c" "spc_market ks = k"
    and outcome: "pm_status (inner (sc_market c)) = Resolved" "pm_final_outcome (inner (sc_market c)) = Some outcome"
    and free: "yes \<le> pos_yes_free (inner (sc_position c))" "no \<le> pos_no_free (inner (sc_position c))" "0 < yes \<or> 0 < no"
    and worth: "due = owed outcome (unat yes) (unat no) (unat (pm_payout_per_contract (inner (sc_market c))))"
    and fits: "unat (ab_free (inner (sc_asset_balance c))) + due < 2 ^ 64"
      "unat (ta_amount (inner (sc_asset_vault c))) + due < 2 ^ 64"
    and thawed: "due = 0 \<or> \<not> ta_frozen (inner (sc_market_vault c)) \<and> \<not> ta_frozen (inner (sc_asset_vault c))"
  shows "\<exists>w' b. redeem_prediction rt tp w ks yes no = Inr w' \<and>
    w_assets w' (spc_asset_balance ks) = Some b \<and>
    unat (ab_free b) = unat (ab_free (inner (sc_asset_balance c))) + due \<and> question_solvent rt k w'"
proof -
  have "custody_loaded rt w ks c" by (rule load_shared_custody_Inr [OF loaded(1)]) simp
  then have "w_predictions w k \<noteq> None" unfolding custody_loaded_def loaded(2) by auto
  with chain_question_solvent [OF laws(1) apart reach] have "question_solvent rt k w" by (auto simp: backed_def)
  then show ?thesis
    by (rule redemption_pays [OF token_lawsD(1) [OF laws(1)] laws(2) _ loaded outcome free worth fits thawed])
qed

end
