(* ===== verification/Program_Lifecycle.thy ===== *)
theory Program_Lifecycle
  imports Program_Questions
begin

text \<open>
  The lifecycle of questions on the whole chain. Every instruction of the program, whatever it is about,
  is a step of the lifecycle machine of \<open>Prediction_Resolution\<close>: the five instructions of a lifecycle by
  what they do, all others (funding, trading, redemption, shared books, spot markets, governance, the
  faucet) because they leave every lifecycle as it is, which is proved here for each of them.
\<close>

section \<open>Instructions that leave every lifecycle alone\<close>

lemma same_predictions_kept: "w_predictions w' = w_predictions w \<Longrightarrow> lifecycles_kept w w'"
  by (simp add: lifecycles_kept_def)

lemma one_prediction_kept:
  assumes "w_predictions w k = Some m" "w_predictions w' = (w_predictions w)(k \<mapsto> m')" "lifecycle_of m' = lifecycle_of m"
  shows "lifecycles_kept w w'"
  using assms by (simp add: lifecycles_kept_def)

lemma open_orders_lifecycle [simp]: "lifecycle_of (m\<lparr>pm_open_order_count := c\<rparr>) = lifecycle_of m"
  by (simp add: lifecycle_of_def)

lemma book_edits_predictions [simp]:
  "w_predictions (unlink_prediction cks m b r lv pv nx bt ws lc lt mc w) =
     (w_predictions w)(cpo_market cks \<mapsto> m\<lparr>pm_open_order_count := mc\<rparr>)"
  "w_predictions (fill_prediction mks oc m b r lv nx ws rem nb lq nc w) =
     (w_predictions w)(mpo_market mks \<mapsto> m\<lparr>pm_open_order_count := nc\<rparr>)"
  unfolding unlink_prediction_def fill_prediction_def Let_def by simp_all

lemma prediction_orders_kept:
  "yields (lifecycles_kept w) (match_prediction_order rt w k1 oc ts lim q)"
  "yields (lifecycles_kept w) (cancel_prediction_order rt w k2 i)"
  "yields (lifecycles_kept w) (insert_prediction_order rt w k3 b l i oc ts lim q)"
  "yields (lifecycles_kept w) (append_prediction_order rt w k3 t i oc ts lim q)"
  "yields (lifecycles_kept w) (place_prediction_order rt w k3 i oc ts lim q)"
  unfolding match_prediction_order_def cancel_prediction_order_def insert_prediction_order_def
    append_prediction_order_def place_prediction_order_def load_prediction_def load_position_def
    load_prediction_book_def load_prediction_level_def Let_def
  by (intro knows_rules; auto intro: one_prediction_kept)+

lemma complete_sets_kept:
  "split_prediction_complete_set rt w sks q = Inr w' \<Longrightarrow> lifecycles_kept w w'"
  "merge_prediction_complete_set rt w sks q = Inr w' \<Longrightarrow> lifecycles_kept w w'"
  "shared_complete_set rt tp w cks q into = Inr w' \<Longrightarrow> lifecycles_kept w w'"
  "redeem_prediction rt tp w cks yes no = Inr w' \<Longrightarrow> lifecycles_kept w w'"
proof -
  have sets: "lifecycles_kept w (put_sets k m' j p' w)"
    if "w_predictions w k = Some m" "sets_move a b c (m, p) (m', p') \<or> sets_move a b c (m', p') (m, p)"
    for k j m m' p p' a b c
    by (rule one_prediction_kept [OF that(1), where m' = m']) (use that(2) in \<open>auto dest: sets_move_frame(8)\<close>)
  show "lifecycles_kept w w'" if "split_prediction_complete_set rt w sks q = Inr w'"
    by (rule split_ok [OF that]) (blast intro: sets)
  show "lifecycles_kept w w'" if "merge_prediction_complete_set rt w sks q = Inr w'"
    by (rule merge_ok [OF that]) (blast intro: sets)
  have moved: "lifecycles_kept w (put_custody cu ts m' p' x w)"
    if cu: "custody_loaded rt w cks cu" and mv: "sets_move a b c (inner (sc_market cu), inner (sc_position cu)) (m', p') \<or>
      sets_move a b c (m', p') (inner (sc_market cu), inner (sc_position cu))" for cu ts m' p' x a b c
    by (rule one_prediction_kept [where m = "inner (sc_market cu)" and m' = m'])
      (use cu mv in \<open>auto simp: custody_loaded_def dest: sets_move_frame(8)\<close>)
  show "lifecycles_kept w w'" if ok: "shared_complete_set rt tp w cks q into = Inr w'"
  proof (cases into)
    case True
    with ok have "shared_complete_set rt tp w cks q True = Inr w'" by simp
    then show ?thesis by (rule shared_set_split) (blast intro: moved)
  next
    case False
    with ok have "shared_complete_set rt tp w cks q False = Inr w'" by simp
    then show ?thesis by (rule shared_set_merge) (blast intro: moved)
  qed
  show "lifecycles_kept w w'" if "redeem_prediction rt tp w cks yes no = Inr w'"
    by (rule redeem_ok [OF that]) (blast intro: moved)
qed

lemma shared_book_predictions [simp]:
  "w_predictions (put_removal bk o1 k5 rm w) = w_predictions w"
  "w_predictions (put_placement q1 q2 q3 q4 q5 q6 q7 q8 q9 q10 w) = w_predictions w"
  "w_predictions (save_claims cl w) = w_predictions w"
  unfolding put_removal_def put_placement_def save_claims_def Let_def by (simp_all split: option.splits)

lemma shared_orders_kept:
  "yields (\<lambda>w'. w_predictions w' = w_predictions w) (match_shared_order rt w k4 so ts lim q)"
  "yields (\<lambda>w'. w_predictions w' = w_predictions w) (place_shared_order rt w k5 so ts lim q i)"
  "yields (\<lambda>w'. w_predictions w' = w_predictions w) (cancel_shared_order rt w k6)"
  unfolding match_shared_order_def place_shared_order_def cancel_shared_order_def Let_def
  by (intro yields_rules; simp)+

lemma funding_kept:
  "yields (\<lambda>w'. w_predictions w' = w_predictions w) (initialize_prediction_position rt w k1)"
  "yields (\<lambda>w'. w_predictions w' = w_predictions w) (deposit_prediction_collateral rt tp w k2 amount)"
  "yields (\<lambda>w'. w_predictions w' = w_predictions w) (withdraw_prediction_collateral rt tp w k3 amount)"
  "yields (\<lambda>w'. w_predictions w' = w_predictions w) (migrate_prediction_asset rt tp w k4 amount)"
  unfolding initialize_prediction_position_def deposit_prediction_collateral_def withdraw_prediction_collateral_def
    migrate_prediction_asset_def Let_def
  by (intro yields_rules; simp add: put_position_def put_asset_def)+

section \<open>Every instruction is a step of a lifecycle\<close>

lemma process_lifecycle:
  assumes run: "process rt tp ua w i = Inr w'"
  shows "lifecycle_instruction rt w w'"
proof -
  note same = same_predictions_kept [THEN li_other]
  show ?thesis
  proof (cases i)
    case (Shared j)
    with run have "process_shared rt tp w j = Inr w'" by simp
    then show ?thesis
      by (cases j) (auto intro: li_propose li_close li_advance li_other complete_sets_kept
        dest: yieldsD [OF shared_questions_same(1), THEN conjunct1, THEN same] yieldsD [OF shared_questions_same(2), THEN conjunct1, THEN same]
          yieldsD [OF shared_questions_same(3), THEN conjunct1, THEN same] yieldsD [OF shared_questions_same(4), THEN conjunct1, THEN same]
          yieldsD [OF shared_questions_same(5), THEN conjunct1, THEN same] yieldsD [OF shared_questions_same(6), THEN conjunct1, THEN same]
          yieldsD [OF shared_questions_same(7), THEN conjunct1, THEN same] yieldsD [OF shared_orders_kept(1), THEN same]
          yieldsD [OF shared_orders_kept(2), THEN same] yieldsD [OF shared_orders_kept(3), THEN same]
          yieldsD [OF funding_kept(4), THEN same])
  next
    case (OfPrediction j)
    with run have "process_prediction rt w j = Inr w'" by simp
    then show ?thesis
      by (cases j) (auto intro: li_init dest: yieldsD [OF prediction_orders_kept(1), THEN li_other]
        yieldsD [OF prediction_orders_kept(2), THEN li_other] yieldsD [OF prediction_orders_kept(3), THEN li_other]
        yieldsD [OF prediction_orders_kept(4), THEN li_other] yieldsD [OF prediction_orders_kept(5), THEN li_other])
  next
    case (Collateral j)
    with run have "process_collateral rt tp w j = Inr w'" by simp
    then show ?thesis
      by (cases j) (auto intro: li_open li_other complete_sets_kept dest: yieldsD [OF funding_kept(1), THEN same]
        yieldsD [OF funding_kept(2), THEN same] yieldsD [OF funding_kept(3), THEN same])
  next
    case (OfMarket j)
    with run yieldsD [OF market_questions_same [of w rt tp j]] show ?thesis by (auto intro: same)
  next
    case (OfProtocol j)
    with run yieldsD [OF governance_questions_same [of w rt ua j]] show ?thesis by (auto intro: same)
  next
    case (OfFaucet j)
    with run yieldsD [OF faucet_questions_same [of w rt tp j]] show ?thesis by (auto intro: same)
  next
    case (Spot j)
    with run yieldsD [OF spot_questions_same [of w rt tp j]] show ?thesis by (auto intro: same)
  qed
qed

text \<open>The chain with its clock, which never runs backwards, as a run of the lifecycle machine: what is proved of
  that machine holds of the chain.\<close>

inductive clock_step :: "runtime \<Rightarrow> token_program \<Rightarrow> i64 \<times> world \<Rightarrow> i64 \<times> world \<Rightarrow> bool" for rt tp where
  clock_call: "ile now now' \<Longrightarrow> process (at_time now' rt) tp ua w i = Inr w' \<Longrightarrow>
    (\<And>s r. signer i = Some s \<Longrightarrow> s \<noteq> address rt r) \<Longrightarrow> clock_step rt tp (now, w) (now', w')"
| clock_others: "ile now now' \<Longrightarrow> others_act rt w w' \<Longrightarrow> clock_step rt tp (now, w) (now', w')"

lemma clock_lifecycle: "clock_step rt tp s s' \<Longrightarrow> lifecycle_step rt s s'"
proof (induction rule: clock_step.induct)
  case (clock_call now now' ua w i w')
  then show ?case by (intro lifecycle_stepI process_lifecycle)
next
  case (clock_others now now' w w')
  then have "w_predictions w' = w_predictions w" by (auto simp: others_act_def)
  with clock_others(1) show ?case by (intro lifecycle_stepI li_other same_predictions_kept)
qed

lemma clock_reach: "reach no_predictions (clock_step rt tp) s \<Longrightarrow> reach no_predictions (lifecycle_step rt) s"
  by (induction rule: reach.induct) (auto intro: reach_init reach_step clock_lifecycle)

lemma clock_steps: "(clock_step rt tp)\<^sup>*\<^sup>* s s' \<Longrightarrow> (lifecycle_step rt)\<^sup>*\<^sup>* s s'"
  by (induction rule: rtranclp_induct) (auto intro: rtranclp.rtrancl_into_rtrancl clock_lifecycle)

lemma clock_program: "clock_step rt tp (now, w) (now', w') \<Longrightarrow> program_step rt tp w w'"
  by (auto elim!: clock_step.cases intro: program_call program_others)

section \<open>Properties\<close>

text \<open>C20: Resolution is irrevocable and the terms are fixed, on the whole chain. From any state reached by
  instructions of the program and acts of others, under a clock that never runs backwards, whatever
  instructions run next (funding, trading and redemption of this question included), a question is
  never removed, its terms (resolvers, times, payout, mint, vault, rules) never change, its status never goes
  back, and once it is resolved its whole lifecycle, the outcome included, stays.\<close>

theorem resolution_is_irrevocable:
  assumes reach: "reach no_predictions (clock_step rt tp) s" and run: "(clock_step rt tp)\<^sup>*\<^sup>* s s'"
    and m: "w_predictions (snd s) k = Some m"
  shows "\<exists>m'. w_predictions (snd s') k = Some m' \<and> terms_of m' = terms_of m \<and>
    status_rank (pm_status m) \<le> status_rank (pm_status m') \<and>
    (pm_status m = Resolved \<longrightarrow> lifecycle_of m' = lifecycle_of m)"
  by (rule lifecycle_irrevocable [OF clock_reach [OF reach] clock_steps [OF run] m])

end
