(* ===== verification/Program_Pause.thy ===== *)
theory Program_Pause
  imports Program_Custody
begin

text \<open>
  What the status of a spot market decides, \<open>pause.rs\<close>, \<open>unpause.rs\<close> and every other instruction:
  which instructions a pause stops, that all others do not see it, and who flips it.
\<close>

section \<open>The same outcome\<close>

text \<open>Two runs have the same outcome when both succeed or both fail with the same error.\<close>

definition same_outcome :: "'a res \<Rightarrow> 'b res \<Rightarrow> bool" where
  "same_outcome r' r \<longleftrightarrow> res_map (\<lambda>_. ()) r' = res_map (\<lambda>_. ()) r"

named_theorems same_rules "the control flow of two runs of a handler"

lemma same_ends [same_rules]: "same_outcome (Inr a) (Inr b)" "same_outcome (Inl e) (Inl e)"
  by (simp_all add: same_outcome_def res_map_def)

lemma same_flow [same_rules]:
  "b' = b \<Longrightarrow> same_outcome k' k \<Longrightarrow> same_outcome (require b' e k') (require b e k)"
  "x' = x \<Longrightarrow> (\<And>a. same_outcome (f' a) (f a)) \<Longrightarrow> same_outcome (ok_or x' e f') (ok_or x e f)"
  "r' = r \<Longrightarrow> (\<And>a. same_outcome (h' a) (h a)) \<Longrightarrow> same_outcome (try_in r' h') (try_in r h)"
  "(\<And>a. same_outcome (l' a) (l a)) \<Longrightarrow> same_outcome (load mp j l') (load mp j l)"
  "(\<And>a. same_outcome (lo' a) (lo a)) \<Longrightarrow> same_outcome (load_opt mo jo lo') (load_opt mo jo lo)"
  "(\<And>a b. same_outcome (pr' a b) (pr a b)) \<Longrightarrow> same_outcome (case p of (a, b) \<Rightarrow> pr' a b) (case p of (a, b) \<Rightarrow> pr a b)"
  "same_outcome x1' x1 \<Longrightarrow> same_outcome x2' x2 \<Longrightarrow> same_outcome (if c then x1' else x2') (if c then x1 else x2)"
  "same_outcome n' n \<Longrightarrow> (\<And>a. same_outcome (sm' a) (sm a)) \<Longrightarrow>
     same_outcome (case opt of None \<Rightarrow> n' | Some a \<Rightarrow> sm' a) (case opt of None \<Rightarrow> n | Some a \<Rightarrow> sm a)"
  by (auto simp: same_outcome_def res_map_def require_def ok_or_def try_in_def load_def load_opt_def
      split: option.splits sum.splits prod.splits)

lemma same_outcome_ok: "same_outcome r' r \<Longrightarrow> is_ok r' = is_ok r"
  by (cases r; cases r') (simp_all add: same_outcome_def res_map_def)

lemma same_outcome_refl [simp]: "same_outcome r r"
  by (simp add: same_outcome_def)

section \<open>A world with another status of one market\<close>

definition set_status :: "pubkey \<Rightarrow> MarketStatus \<Rightarrow> world \<Rightarrow> world" where
  "set_status m s w = w\<lparr>w_spot := with_status m s (w_spot w)\<rparr>"

lemma set_status_reads [simp]:
  "w_spot (set_status m s w) = with_status m s (w_spot w)"
  "w_admins (set_status m s w) = w_admins w" "w_metadata (set_status m s w) = w_metadata w"
  "w_predictions (set_status m s w) = w_predictions w" "w_positions (set_status m s w) = w_positions w"
  "w_prediction_books (set_status m s w) = w_prediction_books w"
  "w_prediction_levels (set_status m s w) = w_prediction_levels w"
  "w_prediction_orders (set_status m s w) = w_prediction_orders w"
  "w_assets (set_status m s w) = w_assets w" "w_shared_books (set_status m s w) = w_shared_books w"
  "w_shared_levels (set_status m s w) = w_shared_levels w" "w_shared_orders (set_status m s w) = w_shared_orders w"
  "w_faucets (set_status m s w) = w_faucets w" "w_mints (set_status m s w) = w_mints w"
  "w_tokens (set_status m s w) = w_tokens w"
  by (simp_all add: set_status_def)

lemma with_status_reads [simp]:
  "ss_orders (with_status m s st) = ss_orders st" "ss_levels (with_status m s st) = ss_levels st"
  "ss_balances (with_status m s st) = ss_balances st" "ss_fees (with_status m s st) = ss_fees st"
  "ss_configs (with_status m s st) = ss_configs st"
  "ss_markets (with_status m s st) k = None \<longleftrightarrow> ss_markets st k = None"
  by (auto simp: with_status_def mod_at_apply)

lemma with_status_other: "k \<noteq> m \<Longrightarrow> ss_markets (with_status m s st) k = ss_markets st k"
  by (simp add: with_status_def mod_at_apply)

lemma load_other: "k \<noteq> m \<Longrightarrow> load (ss_markets (with_status m s st)) k = load (ss_markets st) k"
  by (intro ext) (simp add: load_def with_status_other)

definition restatus :: "pubkey \<Rightarrow> MarketStatus \<Rightarrow> Market account \<Rightarrow> Market account" where
  "restatus m s a = (if key a = m then upd_inner (\<lambda>mk. mk\<lparr>mkt_status := s\<rparr>) a else a)"

lemma restatus_reads [simp]:
  "key (restatus m s a) = key a"
  "mkt_authority (inner (restatus m s a)) = mkt_authority (inner a)"
  "mkt_base_mint (inner (restatus m s a)) = mkt_base_mint (inner a)"
  "mkt_quote_mint (inner (restatus m s a)) = mkt_quote_mint (inner a)"
  "mkt_base_decimals (inner (restatus m s a)) = mkt_base_decimals (inner a)"
  "mkt_quote_decimals (inner (restatus m s a)) = mkt_quote_decimals (inner a)"
  "credit_free (inner (restatus m s a)) = credit_free (inner a)"
  "debit_free (inner (restatus m s a)) = debit_free (inner a)"
  by (auto simp: restatus_def credit_free_def debit_free_def fun_eq_iff)

lemma same_market [same_rules]:
  assumes "\<And>a. same_outcome (l' (restatus m s a)) (l a)"
  shows "same_outcome (load (ss_markets (with_status m s st)) k l') (load (ss_markets st) k l)"
  using assms [of "Account k mk" for mk]
  by (cases "k = m") (auto simp: load_def with_status_def mod_at_apply restatus_def upd_inner_def ok_or_def
      same_outcome_def res_map_def split: option.splits)

lemma program_owned_status [simp]: "program_owned (set_status m s w) k = program_owned w k"
  by (simp add: program_owned_def)

lemma terms_status: "k \<noteq> m \<or> \<not> trading \<Longrightarrow> terms rt (set_status m s w) k kind trading = terms rt w k kind trading"
  by (cases kind) (auto simp: terms_def with_status_def mod_at_apply ok_or_def split: option.splits)

lemma trading_open_status: "k \<noteq> m \<Longrightarrow> trading_open rt (set_status m s w) b k = trading_open rt w b k"
  by (simp add: trading_open_def terms_status)

lemma level_or_zeroed_status [simp]: "level_or_zeroed (set_status m s w) k = level_or_zeroed w k"
  by (simp add: level_or_zeroed_def)

lemma same_loaders [same_rules]:
  "(\<And>a. same_outcome (f1' a) (f1 a)) \<Longrightarrow> same_outcome (load_asset rt (set_status m s w) k1 k2 k3 f1') (load_asset rt w k1 k2 k3 f1)"
  "(\<And>a. same_outcome (f2' a) (f2 a)) \<Longrightarrow> same_outcome (load_asset_vault rt (set_status m s w) k1 k2 f2') (load_asset_vault rt w k1 k2 f2)"
  "(\<And>a b c d. same_outcome (f3' a b c d) (f3 a b c d)) \<Longrightarrow>
     same_outcome (load_transfer_asset rt (set_status m s w) tks f3') (load_transfer_asset rt w tks f3)"
  "(\<And>a. same_outcome (f4' a) (f4 a)) \<Longrightarrow> same_outcome (load_shared_custody rt (set_status m s w) cks f4') (load_shared_custody rt w cks f4)"
  "(\<And>a. same_outcome (f5' a) (f5 a)) \<Longrightarrow> same_outcome (load_super_admin rt (set_status m s w) k1 k2 f5') (load_super_admin rt w k1 k2 f5)"
  "(\<And>a. same_outcome (f6' a) (f6 a)) \<Longrightarrow> same_outcome (load_target_admin rt (set_status m s w) mks k1 f6') (load_target_admin rt w mks k1 f6)"
  "same_outcome f7' f7 \<Longrightarrow> same_outcome (load_active_admin rt (set_status m s w) k1 k2 f7') (load_active_admin rt w k1 k2 f7)"
  "(\<And>a. same_outcome (f8' a) (f8 a)) \<Longrightarrow> same_outcome (load_position rt (set_status m s w) k1 k2 k3 f8') (load_position rt w k1 k2 k3 f8)"
  "(\<And>a. same_outcome (f9' a) (f9 a)) \<Longrightarrow> same_outcome (load_prediction rt (set_status m s w) k1 f9') (load_prediction rt w k1 f9)"
  "(\<And>a. same_outcome (f10' a) (f10 a)) \<Longrightarrow> same_outcome (load_prediction_book rt (set_status m s w) k1 k2 f10') (load_prediction_book rt w k1 k2 f10)"
  "(\<And>a. same_outcome (f11' a) (f11 a)) \<Longrightarrow>
     same_outcome (load_prediction_level rt (set_status m s w) k1 k2 oc sd pr f11') (load_prediction_level rt w k1 k2 oc sd pr f11)"
  "(\<And>a. same_outcome (f12' a) (f12 a)) \<Longrightarrow> same_outcome (load_creator rt (set_status m s w) k1 k2 f12') (load_creator rt w k1 k2 f12)"
  "(\<And>a. same_outcome (f13' a) (f13 a)) \<Longrightarrow> same_outcome (load_shared_book rt (set_status m s w) k1 k2 f13') (load_shared_book rt w k1 k2 f13)"
  "(\<And>a. same_outcome (f14' a) (f14 a)) \<Longrightarrow> same_outcome (load_claims (set_status m s w) lks f14') (load_claims w lks f14)"
  "(\<And>a. same_outcome (f15' a) (f15 a)) \<Longrightarrow> same_outcome (load_question_vault rt (set_status m s w) k1 pm k2 er f15') (load_question_vault rt w k1 pm k2 er f15)"
  unfolding load_asset_def load_asset_vault_def load_transfer_asset_def load_shared_custody_def
    load_super_admin_def load_target_admin_def load_active_admin_def load_position_def load_prediction_def
    load_prediction_book_def load_prediction_level_def load_creator_def load_shared_book_def load_claims_def
    load_question_vault_def Let_def set_status_reads with_status_reads
  by (intro same_rules; (rule refl | assumption))+

section \<open>Instructions that do not see the status\<close>

text \<open>The market an instruction trades on, on the spot book or on the shared book, and the market whose
  status it needs or flips otherwise: pausing, unpausing, and the closings that wait for a pause.\<close>

definition trades_on :: "instruction \<Rightarrow> pubkey option" where
  "trades_on i = (case i of
     Spot j \<Rightarrow> (case j of IxInsertLimitOrder ctx _ _ _ \<Rightarrow> Some (ilk_market ctx)
       | IxAppendLimitOrder ctx _ _ _ \<Rightarrow> Some (alk_market ctx) | IxMatchLimitOrder ctx _ _ _ \<Rightarrow> Some (mlk_market ctx)
       | _ \<Rightarrow> None)
   | Shared j \<Rightarrow> (case j of IxPlaceSharedOrder ctx _ _ _ _ _ \<Rightarrow> Some (pso_market ctx)
       | IxMatchSharedOrder ctx _ _ _ _ \<Rightarrow> Some (mso_market ctx) | _ \<Rightarrow> None)
   | _ \<Rightarrow> None)"

definition flips_or_closes :: "instruction \<Rightarrow> pubkey option" where
  "flips_or_closes i = (case i of
     OfMarket j \<Rightarrow> (case j of IxPauseMarket ctx \<Rightarrow> Some (mau_market ctx) | IxUnpauseMarket ctx \<Rightarrow> Some (mau_market ctx)
       | IxCloseMarket ctx \<Rightarrow> Some (cm_market ctx) | IxCloseMarketMetadata ctx \<Rightarrow> Some (cmm_market ctx) | _ \<Rightarrow> None)
   | Shared j \<Rightarrow> (case j of IxCloseSharedBook ctx \<Rightarrow> Some (csb_market ctx) | _ \<Rightarrow> None)
   | _ \<Rightarrow> None)"

lemma shared_status:
  assumes "trades_on (Shared j) \<noteq> Some m" "flips_or_closes (Shared j) \<noteq> Some m"
  shows "same_outcome (process_shared rt tp (set_status m s w) j) (process_shared rt tp w j)"
  using assms
  by (cases j; simp only: process_shared.simps
      propose_prediction_def close_prediction_trading_def advance_prediction_def shared_complete_set_def
      redeem_prediction_def match_shared_order_def place_shared_order_def cancel_shared_order_def
      close_shared_book_def initialize_shared_book_def withdraw_shared_fees_def
      initialize_asset_balance_def deposit_asset_def withdraw_asset_def migrate_spot_asset_def
      migrate_prediction_asset_def Let_def set_status_reads with_status_reads;
      intro same_rules; simp add: trades_on_def flips_or_closes_def terms_status trading_open_status with_status_other
        cong: MarketKind.case_cong)

lemma prediction_status: "same_outcome (process_prediction rt (set_status m s w) j) (process_prediction rt w j)"
  by (cases j; simp only: process_prediction.simps
      match_prediction_order_def cancel_prediction_order_def insert_prediction_order_def
      append_prediction_order_def place_prediction_order_def initialize_prediction_market_def Let_def
      set_status_reads with_status_reads;
      intro same_rules; simp)

lemma collateral_status: "same_outcome (process_collateral rt tp (set_status m s w) j) (process_collateral rt tp w j)"
  by (cases j; simp only: process_collateral.simps
      initialize_prediction_position_def deposit_prediction_collateral_def open_prediction_market_def
      withdraw_prediction_collateral_def split_prediction_complete_set_def
      merge_prediction_complete_set_def Let_def set_status_reads with_status_reads;
      intro same_rules; simp)

lemma governance_status: "same_outcome (process_governance rt ua (set_status m s w) j) (process_governance rt ua w j)"
  by (cases j; simp only: process_governance.simps initialize_protocol_def add_admin_def disable_admin_def
      enable_admin_def remove_admin_def set_taker_fee_def Let_def set_status_reads with_status_reads;
      intro same_rules; simp)

lemma faucet_status: "same_outcome (process_faucet rt tp (set_status m s w) j) (process_faucet rt tp w j)"
  by (cases j; simp only: process_faucet.simps initialize_test_faucet_def claim_test_tokens_def close_test_faucet_def
      Let_def set_status_reads with_status_reads; intro same_rules; simp)

lemma market_status:
  assumes "flips_or_closes (OfMarket j) \<noteq> Some m"
  shows "same_outcome (process_market rt tp (set_status m s w) j) (process_market rt tp w j)"
  using assms
  by (cases j; simp add: process_market.simps
      initialize_market_def initialize_market_metadata_def update_market_metadata_def
      close_market_metadata_def pause_market_def unpause_market_def close_market_def Let_def
      flips_or_closes_def load_other; intro same_rules; simp)

lemma same_on_spot: "same_outcome r' r \<Longrightarrow> same_outcome (on_spot w' r') (on_spot w r)"
  by (cases r; cases r') (simp_all add: same_outcome_def res_map_def on_spot_def)

lemma trade_other_status:
  "ilk_market iks \<noteq> m \<Longrightarrow> same_outcome (insert_limit_order rt (with_status m s st) iks side p q) (insert_limit_order rt st iks side p q)"
  "alk_market aks \<noteq> m \<Longrightarrow> same_outcome (append_limit_order rt (with_status m s st) aks side p q) (append_limit_order rt st aks side p q)"
  "mlk_market mks \<noteq> m \<Longrightarrow> same_outcome (match_limit_order rt (with_status m s st) mks side p q) (match_limit_order rt st mks side p q)"
  "same_outcome (cancel_limit_order rt (with_status m s st) cks i) (cancel_limit_order rt st cks i)"
proof -
  show "same_outcome (insert_limit_order rt (with_status m s st) iks side p q) (insert_limit_order rt st iks side p q)"
    if "ilk_market iks \<noteq> m"
    by (simp only: insert_limit_order_def Let_def load_other [OF that] with_status_reads; intro same_rules; simp)
  show "same_outcome (append_limit_order rt (with_status m s st) aks side p q) (append_limit_order rt st aks side p q)"
    if "alk_market aks \<noteq> m"
    by (simp only: append_limit_order_def Let_def load_other [OF that] with_status_reads; intro same_rules; simp)
  show "same_outcome (match_limit_order rt (with_status m s st) mks side p q) (match_limit_order rt st mks side p q)"
    if "mlk_market mks \<noteq> m"
    by (simp only: match_limit_order_def Let_def load_other [OF that] with_status_reads; intro same_rules; simp)
  show "same_outcome (cancel_limit_order rt (with_status m s st) cks i) (cancel_limit_order rt st cks i)"
  proof (cases "clk_market cks = m")
    case True
    then show ?thesis using cancel_with_status by (auto simp: same_outcome_def)
  next
    case False
    show ?thesis
      by (simp only: cancel_limit_order_def Let_def load_other [OF False] with_status_reads; intro same_rules; simp)
  qed
qed

lemma custody_status:
  "same_outcome (initialize_trader_balance rt (set_status m s w) iks) (initialize_trader_balance rt w iks)"
  "same_outcome (deposit rt tp (set_status m s w) dks amount) (deposit rt tp w dks amount)"
  "same_outcome (withdraw rt tp (set_status m s w) wks amount) (withdraw rt tp w wks amount)"
  "same_outcome (withdraw_protocol_fees rt tp (set_status m s w) fks amount) (withdraw_protocol_fees rt tp w fks amount)"
  unfolding initialize_trader_balance_def deposit_def withdraw_def withdraw_protocol_fees_def Let_def
    set_status_reads with_status_reads
  by (intro same_rules; simp)+

lemma spot_status:
  assumes "trades_on (Spot j) \<noteq> Some m"
  shows "same_outcome (process_spot rt tp (set_status m s w) j) (process_spot rt tp w j)"
  using assms
  by (cases j) (auto simp: trades_on_def intro!: same_on_spot trade_other_status custody_status)

lemma process_status:
  assumes "trades_on i \<noteq> Some m" "flips_or_closes i \<noteq> Some m"
  shows "same_outcome (process rt tp ua (set_status m s w) i) (process rt tp ua w i)"
  using assms
  by (cases i) (simp_all add: shared_status prediction_status collateral_status market_status governance_status
      faucet_status spot_status)

section \<open>A pause stops trading\<close>

lemma trades_need_active:
  assumes ok: "process rt tp ua w i = Inr w'" and i: "trades_on i = Some m"
    and mk: "ss_markets (w_spot w) m = Some mk" "w_predictions w m = None"
  shows "mkt_status mk = MarketActive"
proof (cases i)
  case (Spot j)
  with ok i mk show ?thesis
    by (cases j) (auto simp: trades_on_def on_spot_Inr elim!: insert_limit_order_ok append_limit_order_ok
      match_limit_order_loads)
next
  case (Shared j)
  have open_: "mkt_status mk = MarketActive" if "trading_open rt w b m = Inr u" for b u
    using that mk by (auto simp: trading_open_def terms_def run_simps split: MarketKind.splits)
  have "mkt_status mk = MarketActive" if "match_shared_order rt w ks so ts lim q = Inr w'" "mso_market ks = m" for ks so ts lim q
    by (rule match_shared_ok [OF that(1)], rule open_) (use that(2) in simp)
  moreover have "mkt_status mk = MarketActive" if "place_shared_order rt w ks so sd p q oid = Inr w'" "pso_market ks = m"
    for ks so sd p q oid
    by (rule place_shared_ok [OF that(1)], rule open_) (use that(2) in simp)
  ultimately show ?thesis using ok i Shared by (cases j) (auto simp: trades_on_def)
qed (use i in \<open>simp_all add: trades_on_def\<close>)

section \<open>Who flips the status\<close>

text \<open>No success changes the status of a market that still exists, or its authority, but for the two flips.\<close>

definition status_kept :: "pubkey \<Rightarrow> world \<Rightarrow> world \<Rightarrow> bool" where
  "status_kept m w w' \<longleftrightarrow> (\<forall>mk mk'. ss_markets (w_spot w) m = Some mk \<longrightarrow> ss_markets (w_spot w') m = Some mk' \<longrightarrow>
     mkt_status mk' = mkt_status mk)"

lemma same_markets_kept [simp]: "ss_markets (w_spot w') = ss_markets (w_spot w) \<Longrightarrow> status_kept m w w'"
  by (simp add: status_kept_def)

lemma spot_status_kept:
  assumes ok: "process_spot rt tp w j = Inr w'"
  shows "status_kept m w w'"
proof -
  have kept: "status_kept m w (w\<lparr>w_spot := st'\<rparr>)"
    if "insert_limit_order rt (w_spot w) iks side p q = Inr st' \<or> append_limit_order rt (w_spot w) aks side p q = Inr st' \<or>
      cancel_limit_order rt (w_spot w) cks i = Inr st' \<or> match_limit_order rt (w_spot w) mks side p q = Inr st'"
    for st' iks aks cks mks side p q i
    using that
  proof (elim disjE)
    assume "insert_limit_order rt (w_spot w) iks side p q = Inr st'"
    then show ?thesis by (rule insert_limit_order_ok) (auto simp: status_kept_def insert_effect_def)
  next
    assume "append_limit_order rt (w_spot w) aks side p q = Inr st'"
    then show ?thesis by (rule append_limit_order_ok) (auto simp: status_kept_def append_effect_def)
  next
    assume "cancel_limit_order rt (w_spot w) cks i = Inr st'"
    then show ?thesis by (rule cancel_limit_order_ok) (auto simp: status_kept_def cancel_effect_def)
  next
    assume "match_limit_order rt (w_spot w) mks side p q = Inr st'"
    then show ?thesis by (rule match_limit_order_ok) (auto simp: status_kept_def match_effect_def)
  qed
  have same: "yields (\<lambda>w'. ss_markets (w_spot w') = ss_markets (w_spot w)) (initialize_trader_balance rt w iks)"
    "yields (\<lambda>w'. ss_markets (w_spot w') = ss_markets (w_spot w)) (deposit rt tp w dks amount)"
    "yields (\<lambda>w'. ss_markets (w_spot w') = ss_markets (w_spot w)) (withdraw rt tp w wks amount)"
    "yields (\<lambda>w'. ss_markets (w_spot w') = ss_markets (w_spot w)) (withdraw_protocol_fees rt tp w fks amount)"
    for iks dks wks fks amount
    unfolding initialize_trader_balance_def deposit_def withdraw_def withdraw_protocol_fees_def Let_def
    by (intro yields_rules; simp)+
  show ?thesis
    using ok by (cases j) (auto simp: on_spot_Inr intro: kept dest: yieldsD [OF same(1)] yieldsD [OF same(2)]
      yieldsD [OF same(3)] yieldsD [OF same(4)])
qed

lemma elsewhere_same_markets:
  "yields (\<lambda>w'. ss_markets (w_spot w') = ss_markets (w_spot w)) (process_prediction rt w i1)"
  "yields (\<lambda>w'. ss_markets (w_spot w') = ss_markets (w_spot w)) (migrate_spot_asset rt tp w k6 amount)"
  "yields (\<lambda>w'. ss_markets (w_spot w') = ss_markets (w_spot w)) (process_governance rt ua w i2)"
proof -
  show "yields (\<lambda>w'. ss_markets (w_spot w') = ss_markets (w_spot w)) (process_prediction rt w i1)"
    by (induction i1; unfold process_prediction.simps
      match_prediction_order_def cancel_prediction_order_def insert_prediction_order_def
      append_prediction_order_def place_prediction_order_def initialize_prediction_market_def Let_def;
      intro yields_rules; simp)
  show "yields (\<lambda>w'. ss_markets (w_spot w') = ss_markets (w_spot w)) (migrate_spot_asset rt tp w k6 amount)"
    unfolding migrate_spot_asset_def Let_def
    by (intro yields_rules; simp add: put_asset_def put_balance_def)
  show "yields (\<lambda>w'. ss_markets (w_spot w') = ss_markets (w_spot w)) (process_governance rt ua w i2)"
    by (induction i2; unfold process_governance.simps initialize_protocol_def add_admin_def disable_admin_def
      enable_admin_def remove_admin_def set_taker_fee_def Let_def; intro yields_rules; simp)
qed

lemma market_status_kept:
  "yields (status_kept m w) (initialize_market rt w k1 tick lot)"
  "yields (status_kept m w) (close_market rt tp w k2)"
  unfolding initialize_market_def close_market_def Let_def
  by (intro knows_rules; auto simp: status_kept_def)+

lemma process_status_kept:
  assumes ok: "process rt tp ua w i = Inr w'" and no: "\<nexists>ks. i = OfMarket (IxPauseMarket ks) \<or> i = OfMarket (IxUnpauseMarket ks)"
  shows "status_kept m w w'"
proof (cases i)
  case (Shared j)
  with ok have run: "process_shared rt tp w j = Inr w'" by simp
  show ?thesis
  proof (cases "on_market (Shared j)")
    case None
    then show ?thesis using shared_spot_same [OF run] by simp
  next
    case (Some n)
    with run show ?thesis
      by (cases j) (auto simp: on_market_def dest: yieldsD [OF elsewhere_same_markets(2)])
  qed
next
  case (OfMarket j)
  with ok no show ?thesis
    by (cases j) (auto dest: yieldsD [OF market_status_kept(1)] yieldsD [OF market_status_kept(2)]
      yieldsD [OF metadata_spot_same(1)] yieldsD [OF metadata_spot_same(2)] yieldsD [OF metadata_spot_same(3)])
next
  case (OfPrediction j)
  with ok yieldsD [OF elsewhere_same_markets(1)] show ?thesis by auto
next
  case (OfProtocol j)
  with ok yieldsD [OF elsewhere_same_markets(3)] show ?thesis by auto
next
  case (Collateral j)
  with ok yieldsD [OF collateral_spot_same] show ?thesis by auto
next
  case (OfFaucet j)
  with ok yieldsD [OF faucet_spot_same] show ?thesis by auto
next
  case (Spot j)
  with ok show ?thesis by (simp add: spot_status_kept)
qed

lemma flip_exact:
  assumes mk: "ss_markets (w_spot w) (mau_market ks) = Some mk"
  shows "pause_market w ks = (if mkt_authority mk \<noteq> mau_authority ks then Inl ConstraintHasOne
      else if mkt_status mk \<noteq> MarketActive then Inl MarketAlreadyPaused
      else Inr (set_status (mau_market ks) MarketPausedStatus w))"
    "unpause_market w ks = (if mkt_authority mk \<noteq> mau_authority ks then Inl ConstraintHasOne
      else if mkt_status mk \<noteq> MarketPausedStatus then Inl MarketAlreadyActive
      else Inr (set_status (mau_market ks) MarketActive w))"
  using mk by (simp_all add: pause_market_def unpause_market_def load_def ok_or_def require_def set_status_def
      with_status_def mod_at_def save_def upd_inner_def)

lemma closings_need_pause:
  assumes ok: "process rt tp ua w i = Inr w'" and i: "flips_or_closes i = Some m" and no: "\<nexists>ks. i = OfMarket (IxPauseMarket ks)"
    and mk: "ss_markets (w_spot w) m = Some mk" "w_predictions w m = None"
  shows "mkt_status mk = MarketPausedStatus"
proof -
  have closed: "mkt_status mk = MarketPausedStatus" if "close_market rt tp w cks = Inr w'" "cm_market cks = m" for cks
    by (rule close_market_ok [OF that(1)]) (use that(2) mk in simp)
  have meta: "mkt_status mk = MarketPausedStatus" if "close_market_metadata rt w mks = Inr w'" "cmm_market mks = m" for mks
    using that mk by (auto simp: close_market_metadata_def run_simps Let_def)
  have book: "mkt_status mk = MarketPausedStatus" if "close_shared_book rt w bks = Inr w'" "csb_market bks = m" for bks
    using that mk
    by (auto simp: close_shared_book_def load_creator_def run_simps Let_def split: MarketKind.splits)
      (metis MarketKind.exhaust)
  have unpaused: "mkt_status mk = MarketPausedStatus" if "unpause_market w uks = Inr w'" "mau_market uks = m" for uks
    using that mk flip_exact(2) [of w uks mk] by (simp split: if_splits)
  show ?thesis
  proof (cases i)
    case (OfMarket j)
    with ok i no closed meta unpaused show ?thesis by (cases j) (auto simp: flips_or_closes_def)
  next
    case (Shared j)
    with ok i book show ?thesis by (cases j) (auto simp: flips_or_closes_def)
  qed (use i in \<open>simp_all add: flips_or_closes_def\<close>)
qed

section \<open>Properties\<close>

text \<open>C15: A pause stops trading and nothing else, and only the authority pauses. For a spot market
  (at whose address there is no question) and every instruction of the program: (1) while the market is paused no order is inserted,
  appended or matched on it, nor placed or matched on its shared book; (2) closing the market, its label or its
  shared book, and unpausing, succeed only while it is paused; (3) every other instruction (cancellations
  on either book, deposits, withdrawals, fees, migrations, questions, governance, faucets) ends the same
  way, with success or the same error, whatever the status is; (4) a success that changes the status of
  the market is a pause or an unpause of this market signed by its authority; (5) these two succeed exactly for the
  authority and from the other status, set the status and change nothing else.\<close>

theorem pause_stops_trading_only:
  assumes mk: "ss_markets (w_spot w) m = Some mk" "w_predictions w m = None"
  shows "(trades_on i = Some m \<longrightarrow> mkt_status mk = MarketPausedStatus \<longrightarrow> \<not> is_ok (process rt tp ua w i)) \<and>
    (flips_or_closes i = Some m \<longrightarrow> is_ok (process rt tp ua w i) \<longrightarrow>
       mkt_status mk = MarketPausedStatus \<or> (\<exists>ks. i = OfMarket (IxPauseMarket ks))) \<and>
    (trades_on i \<noteq> Some m \<longrightarrow> flips_or_closes i \<noteq> Some m \<longrightarrow>
       res_map (\<lambda>_. ()) (process rt tp ua (set_status m s w) i) = res_map (\<lambda>_. ()) (process rt tp ua w i)) \<and>
    (process rt tp ua w i = Inr w' \<longrightarrow> ss_markets (w_spot w') m = Some mk' \<longrightarrow> mkt_status mk' \<noteq> mkt_status mk \<longrightarrow>
       signer i = Some (mkt_authority mk) \<and>
       (\<exists>ks. mau_market ks = m \<and> (i = OfMarket (IxPauseMarket ks) \<or> i = OfMarket (IxUnpauseMarket ks)))) \<and>
    (mau_market pk = m \<longrightarrow>
       pause_market w pk = (if mkt_authority mk \<noteq> mau_authority pk then Inl ConstraintHasOne
         else if mkt_status mk \<noteq> MarketActive then Inl MarketAlreadyPaused
         else Inr (set_status m MarketPausedStatus w)) \<and>
       unpause_market w pk = (if mkt_authority mk \<noteq> mau_authority pk then Inl ConstraintHasOne
         else if mkt_status mk \<noteq> MarketPausedStatus then Inl MarketAlreadyActive
         else Inr (set_status m MarketActive w)))"
proof (intro conjI impI)
  show "\<not> is_ok (process rt tp ua w i)" if "trades_on i = Some m" "mkt_status mk = MarketPausedStatus"
    using trades_need_active [OF _ that(1) mk] that(2) by (auto simp: is_ok_iff)
  show "mkt_status mk = MarketPausedStatus \<or> (\<exists>ks. i = OfMarket (IxPauseMarket ks))"
    if "flips_or_closes i = Some m" "is_ok (process rt tp ua w i)"
    using closings_need_pause [OF _ that(1) _ mk] that(2) by (auto simp: is_ok_iff)
  show "res_map (\<lambda>_. ()) (process rt tp ua (set_status m s w) i) = res_map (\<lambda>_. ()) (process rt tp ua w i)"
    if "trades_on i \<noteq> Some m" "flips_or_closes i \<noteq> Some m"
    using process_status [OF that] by (simp add: same_outcome_def)
  {
    assume run: "process rt tp ua w i = Inr w'" and mk': "ss_markets (w_spot w') m = Some mk'"
      and changed: "mkt_status mk' \<noteq> mkt_status mk"
    from process_status_kept [OF run] mk mk' changed
    obtain ks where i: "i = OfMarket (IxPauseMarket ks) \<or> i = OfMarket (IxUnpauseMarket ks)"
      by (auto simp: status_kept_def)
    with run have w': "ss_markets (w_spot w') j = ss_markets (w_spot w) j" if "j \<noteq> mau_market ks" for j
      using that market_within(2,3) [of w ks w'] by (auto simp: within_market_def)
    have here: "mau_market ks = m"
      by (rule ccontr) (use w' [of m] mk mk' changed in auto)
    with i show "\<exists>ks. mau_market ks = m \<and> (i = OfMarket (IxPauseMarket ks) \<or> i = OfMarket (IxUnpauseMarket ks))" by blast
    show "signer i = Some (mkt_authority mk)"
      using i run flip_exact [of w ks mk] mk here by (auto split: if_splits)
  }
qed (use mk flip_exact [of w pk mk] in simp_all)

end
