(* ===== verification/Chain_Demo.thy ===== *)
theory Chain_Demo
  imports Shared_Demo Program_Roles Program_Lifecycle Program_Pause
begin

text \<open>
  Concrete runs of the whole program, instruction by instruction: one chain on which a protocol, a
  market and its test faucet live, and the runs of the question and of the shared book read as
  program steps. They show that the hypotheses of the whole-chain properties are met.
\<close>

section \<open>A protocol, a market and its faucet\<close>

definition ch_table :: "(pda_request \<times> pubkey) list" where
  "ch_table = [(ProtocolConfigPda, 2001), (AdminPda 1, 2002), (MarketPda 11 12, 2010), (MarketFeesPda 2010, 2011),
     (VaultAuthorityPda 2010, 2012), (VaultPda 2010 11, 2013), (VaultPda 2010 12, 2014), (TraderBalancePda 2010 5, 2015),
     (TestFaucetPda 2010, 2016), (TestFaucetAuthorityPda 2016, 2017)]"

definition ch_rt :: runtime where
  "ch_rt = table_runtime ch_table"

lemma ch_now [simp]: "at_time 0 ch_rt = ch_rt"
  by (simp add: at_time_def ch_rt_def table_runtime_def)

lemma ch_pda [simp]:
  "pda ch_rt ProtocolConfigPda = (2001, 255)" "pda ch_rt (AdminPda 1) = (2002, 255)"
  "pda ch_rt (MarketPda 11 12) = (2010, 255)" "pda ch_rt (MarketFeesPda 2010) = (2011, 255)"
  "pda ch_rt (VaultAuthorityPda 2010) = (2012, 255)" "pda ch_rt (TraderBalancePda 2010 5) = (2015, 255)"
  "pda ch_rt (TestFaucetPda 2010) = (2016, 255)" "pda ch_rt (TestFaucetAuthorityPda 2016) = (2017, 255)"
  by (simp_all add: ch_rt_def table_pda ch_table_def)

lemma ch_addresses [simp]:
  "address ch_rt ProtocolConfigPda = 2001" "address ch_rt (AdminPda 1) = 2002"
  "address ch_rt (MarketPda 11 12) = 2010" "address ch_rt (MarketFeesPda 2010) = 2011"
  "address ch_rt (VaultAuthorityPda 2010) = 2012" "address ch_rt (VaultPda 2010 11) = 2013"
  "address ch_rt (VaultPda 2010 12) = 2014" "address ch_rt (TraderBalancePda 2010 5) = 2015"
  "address ch_rt (TestFaucetPda 2010) = 2016" "address ch_rt (TestFaucetAuthorityPda 2016) = 2017"
  by (simp_all add: ch_rt_def table_address ch_table_def)

text \<open>Everything starts with two unminted mints of the deployer and two empty accounts of a trader.\<close>

definition ch_token :: "pubkey \<Rightarrow> pubkey \<Rightarrow> u64 \<Rightarrow> TokenAccount" where
  "ch_token mint owner amount = \<lparr>ta_mint = mint, ta_owner = owner, ta_amount = amount, ta_frozen = False\<rparr>"

definition ch0 :: world where
  "ch0 = gov0\<lparr>w_tokens := [50 \<mapsto> ch_token 11 5 0, 51 \<mapsto> ch_token 12 5 0]\<rparr>"

definition ch_config :: "u16 \<Rightarrow> ProtocolConfig" where
  "ch_config bps = \<lparr>cfg_super_admin = 1, cfg_taker_fee_bps = bps, cfg_bump = 255\<rparr>"

definition ch1 :: world where
  "ch1 = ch0\<lparr>w_spot := empty_spot\<lparr>ss_configs := [2001 \<mapsto> ch_config 0]\<rparr>,
     w_admins := [2002 \<mapsto> \<lparr>adm_authority = 1, adm_added_by = 1, adm_status = AdminActive, adm_bump = 255\<rparr>]\<rparr>"

definition ch_initialize :: instruction where
  "ch_initialize = OfProtocol (IxInitializeProtocol
     \<lparr>ip_deployer = 1, ip_protocol_config = 2001, ip_deployer_admin = 2002\<rparr>)"

lemma ch_run_initialize: "process ch_rt example_token_program (Some 1) ch0 ch_initialize = Inr ch1"
  by (simp add: ch_initialize_def initialize_protocol_def ch0_def gov0_def ch1_def ch_config_def empty_spot_def Let_def)

definition ch_spot :: spot_store where
  "ch_spot = empty_spot\<lparr>ss_configs := [2001 \<mapsto> ch_config 100]\<rparr>"

definition ch2 :: world where
  "ch2 = ch1\<lparr>w_spot := ch_spot\<rparr>"

definition ch_set_fee :: instruction where
  "ch_set_fee = OfProtocol (IxSetTakerFee \<lparr>sf_super_admin = 1, sf_protocol_config = 2001\<rparr> 100)"

lemma ch_run_set_fee: "process ch_rt example_token_program (Some 1) ch1 ch_set_fee = Inr ch2"
  by (simp add: ch_set_fee_def set_taker_fee_def load_super_admin_def load_def ch1_def ch2_def ch_spot_def ch_config_def
      save_def MAX_TAKER_FEE_BPS_def)

definition ch_market :: Market where
  "ch_market = \<lparr>mkt_authority = 1, mkt_base_mint = 11, mkt_quote_mint = 12, mkt_status = MarketActive,
     mkt_next_order_id = 1, mkt_base_decimals = 0, mkt_quote_decimals = 0, mkt_price_tick_size = 1,
     mkt_quantity_lot_size = 1, mkt_best_bid = None, mkt_best_ask = None, mkt_open_order_count = 0,
     mkt_bump = 255\<rparr>"

definition ch_traded :: spot_store where
  "ch_traded = ch_spot\<lparr>ss_markets := [2010 \<mapsto> ch_market],
     ss_fees := [2011 \<mapsto> \<lparr>mf_market = 2010, mf_quote_mint = 12, mf_accrued_quote_fees = 0, mf_bump = 255\<rparr>]\<rparr>"

definition ch_tokens :: "u64 \<Rightarrow> u64 \<Rightarrow> u64 \<Rightarrow> tokens" where
  "ch_tokens base quote deposited = [50 \<mapsto> ch_token 11 5 base, 51 \<mapsto> ch_token 12 5 quote,
     2013 \<mapsto> ch_token 11 2012 deposited, 2014 \<mapsto> ch_token 12 2012 0]"

definition ch3 :: world where
  "ch3 = ch2\<lparr>w_spot := ch_traded, w_tokens := ch_tokens 0 0 0\<rparr>"

definition ch_create :: instruction where
  "ch_create = OfMarket (IxInitializeMarket \<lparr>im_authority = 1, im_admin_record = 2002, im_market = 2010,
      im_market_fees = 2011, im_base_mint = 11, im_quote_mint = 12, im_vault_authority = 2012,
      im_base_vault = 2013, im_quote_vault = 2014\<rparr> 1 1)"

lemmas ch_worlds = ch0_def gov0_def ch1_def ch2_def ch_spot_def empty_spot_def demo_mint_def

lemma ch_run_create: "process ch_rt example_token_program (Some 1) ch2 ch_create = Inr ch3"
  by (simp add: ch_create_def initialize_market_def load_def vault_def Let_def ch_worlds ch3_def ch_traded_def
      ch_tokens_def ch_market_def ch_token_def new_token_account_def)

definition ch_mint :: "u64 \<Rightarrow> Mint" where
  "ch_mint supply = \<lparr>mint_decimals = 0, mint_supply = supply, mint_authority = Some 2017\<rparr>"

definition ch_faucet :: TestFaucet where
  "ch_faucet = \<lparr>tf_market = 2010, tf_base_mint = 11, tf_quote_mint = 12, tf_base_claim_amount = 40,
     tf_quote_claim_amount = 60, tf_authority_bump = 255, tf_bump = 255\<rparr>"

definition ch4 :: world where
  "ch4 = ch3\<lparr>w_mints := [11 \<mapsto> ch_mint 0, 12 \<mapsto> ch_mint 0], w_faucets := [2016 \<mapsto> ch_faucet]\<rparr>"

definition ch_open_faucet :: instruction where
  "ch_open_faucet = OfFaucet (IxInitializeTestFaucet \<lparr>itf_super_admin = 1, itf_protocol_config = 2001,
     itf_market = 2010, itf_test_faucet = 2016, itf_faucet_authority = 2017, itf_base_mint = 11, itf_quote_mint = 12\<rparr> 40 60)"

lemma ch_run_open_faucet: "process ch_rt example_token_program (Some 1) ch3 ch_open_faucet = Inr ch4"
  by (simp add: ch_open_faucet_def initialize_test_faucet_def load_super_admin_def load_def Let_def ch_worlds ch3_def
      ch_traded_def ch_market_def ch4_def ch_mint_def ch_faucet_def ch_config_def example_token_program_def
      example_set_authority_def try_in_def fun_upd_twist)

definition ch5 :: world where
  "ch5 = ch4\<lparr>w_mints := [11 \<mapsto> ch_mint 40, 12 \<mapsto> ch_mint 60], w_tokens := ch_tokens 40 60 0\<rparr>"

definition ch_claim :: instruction where
  "ch_claim = OfFaucet (IxClaimTestTokens \<lparr>ctt_claimant = 5, ctt_market = 2010, ctt_test_faucet = 2016,
     ctt_faucet_authority = 2017, ctt_base_mint = 11, ctt_quote_mint = 12, ctt_claimant_base_account = 50,
     ctt_claimant_quote_account = 51\<rparr>)"

lemma ch_run_claim: "process ch_rt example_token_program (Some 1) ch4 ch_claim = Inr ch5"
  by (simp add: ch_claim_def claim_test_tokens_def load_def ch3_def ch_traded_def ch_market_def ch4_def ch_mint_def
      ch_faucet_def ch5_def ch_tokens_def ch_token_def example_token_program_def example_mint_to_def try_in_def
      checked_add_def fun_upd_twist)

definition ch_ledger :: "u64 \<Rightarrow> TraderBalance" where
  "ch_ledger base = \<lparr>tb_market = 2010, tb_owner = 5, tb_base_free = base, tb_base_locked = 0, tb_quote_free = 0,
     tb_quote_locked = 0, tb_bump = 255\<rparr>"

definition ch6 :: world where
  "ch6 = ch5\<lparr>w_spot := ch_traded\<lparr>ss_balances := [2015 \<mapsto> ch_ledger 0]\<rparr>\<rparr>"

definition ch_open_ledger :: instruction where
  "ch_open_ledger = Spot (IxInitializeTraderBalance \<lparr>itb_owner = 5, itb_market = 2010, itb_trader_balance = 2015\<rparr>)"

lemma ch_run_open_ledger: "process ch_rt example_token_program (Some 1) ch5 ch_open_ledger = Inr ch6"
  by (simp add: ch_open_ledger_def initialize_trader_balance_def load_def ch3_def ch4_def ch5_def ch6_def ch_traded_def
      ch_spot_def empty_spot_def ch_ledger_def)

definition ch7 :: world where
  "ch7 = ch6\<lparr>w_spot := ch_traded\<lparr>ss_balances := [2015 \<mapsto> ch_ledger 30]\<rparr>, w_tokens := ch_tokens 10 60 30\<rparr>"

definition ch_deposit :: instruction where
  "ch_deposit = Spot (IxDeposit \<lparr>dep_owner = 5, dep_market = 2010, dep_trader_balance = 2015, dep_deposit_mint = 11,
     dep_trader_token_account = 50, dep_vault_authority = 2012, dep_market_vault = 2013\<rparr> 30)"

lemma ch_run_deposit: "process ch_rt example_token_program (Some 1) ch6 ch_deposit = Inr ch7"
  by (simp add: ch_deposit_def deposit_def load_def vault_def ch5_def ch6_def ch7_def ch_traded_def ch_market_def
      ch_ledger_def ch_mint_def ch_tokens_def ch_token_def example_token_program_def example_transfer_def try_in_def
      credit_free_def set_free_def checked_add_def save_def upd_inner_def fun_upd_twist)

definition ch_close_keys :: CloseTestFaucet where
  "ch_close_keys = \<lparr>ctf_authority = 1, ctf_market = 2010, ctf_test_faucet = 2016\<rparr>"

definition ch8 :: world where
  "ch8 = ch7\<lparr>w_faucets := Map.empty\<rparr>"

lemma ch_run_close: "close_test_faucet ch_rt ch7 ch_close_keys = Inr ch8"
  by (simp add: close_test_faucet_def ch_close_keys_def load_def ch3_def ch4_def ch5_def ch6_def ch7_def ch8_def
      ch_traded_def ch_market_def ch_faucet_def)

text \<open>The trader burns the ten base atoms it kept, with the token program alone.\<close>

definition ch9 :: world where
  "ch9 = ch8\<lparr>w_mints := [11 \<mapsto> ch_mint 30, 12 \<mapsto> ch_mint 60], w_tokens := ch_tokens 0 60 30\<rparr>"

lemma ch_burn: "others_act ch_rt ch8 ch9"
proof -
  have trader: "5 \<noteq> address ch_rt r" for r
    unfolding ch_rt_def by (rule table_signer) (simp_all add: ch_table_def)
  have "w_tokens ch8 = ch_tokens 10 60 30" "w_mints ch8 = [11 \<mapsto> ch_mint 40, 12 \<mapsto> ch_mint 60]"
    by (simp_all add: ch5_def ch6_def ch7_def ch8_def)
  with trader show ?thesis
    unfolding others_act_def
    by (intro exI [of _ "w_mints ch9"] exI [of _ "w_tokens ch9"])
      (auto simp: ch9_def ch_tokens_def ch_token_def ch_mint_def)
qed

lemma ch_step:
  assumes "process ch_rt example_token_program (Some 1) w i = Inr w'" "signer i \<in> {Some 1, Some 5}"
  shows "program_step ch_rt example_token_program w w'"
proof (rule program_call [where now = 0 and ua = "Some 1" and i = i])
  show "process (at_time 0 ch_rt) example_token_program (Some 1) w i = Inr w'" using assms(1) by simp
  fix s r assume "signer i = Some s"
  with assms(2) have "s = 1 \<or> s = 5" by auto
  then show "s \<noteq> address ch_rt r"
    unfolding ch_rt_def by (intro table_signer) (auto simp: ch_table_def)
qed

lemma ch_steps:
  "program_step ch_rt example_token_program ch0 ch1" "program_step ch_rt example_token_program ch1 ch2"
  "program_step ch_rt example_token_program ch2 ch3" "program_step ch_rt example_token_program ch3 ch4"
  "program_step ch_rt example_token_program ch4 ch5" "program_step ch_rt example_token_program ch5 ch6"
  "program_step ch_rt example_token_program ch6 ch7"
  by (rule ch_step, rule ch_run_initialize ch_run_set_fee ch_run_create ch_run_open_faucet ch_run_claim
      ch_run_open_ledger ch_run_deposit, simp add: ch_initialize_def ch_set_fee_def ch_create_def ch_open_faucet_def
      ch_claim_def ch_open_ledger_def ch_deposit_def)+

lemma ch_reach:
  assumes "reach init (program_step ch_rt example_token_program) ch2"
  shows "reach init (program_step ch_rt example_token_program) ch7"
  using assms ch_steps(3-7) by (meson reach_step)

lemma example_token_laws: "token_laws example_token_program"
  by (simp add: token_laws_def example_transfer_law example_close_law example_set_authority_law example_mint_law)

section \<open>Roles\<close>

lemma ch_start: "protocol_start ch_rt ch1"
  using ch_run_initialize unfolding protocol_start_def ch_initialize_def by (auto simp: ch_initialize_def)

theorem program_stays_governed_witness: "governed ch_rt ch7 \<and> (\<exists>f. calculate_taker_fee 35 100 = Inr f)"
proof -
  have "reach (protocol_start ch_rt) (program_step ch_rt example_token_program) ch2"
    by (rule reach_step, rule reach_init, rule ch_start, rule ch_steps(2))
  from program_stays_governed [OF ch_reach [OF this]] show ?thesis
    by (auto simp: ch3_def ch4_def ch5_def ch6_def ch7_def ch_traded_def ch_spot_def ch_config_def)
qed

theorem roles_change_only_by_super_admin_witness:
  "process ch_rt example_token_program (Some 1) ch1 ch_set_fee = Inr ch2 \<and> roles ch2 \<noteq> roles ch1 \<and>
    signer ch_set_fee = Some 1 \<and> w_admins ch2 2002 = w_admins ch1 2002"
proof -
  have c: "ss_configs (w_spot ch1) (address ch_rt ProtocolConfigPda) = Some (ch_config 0)" by (simp add: ch1_def)
  have "ss_configs (w_spot ch2) 2001 \<noteq> ss_configs (w_spot ch1) 2001"
    by (simp add: ch1_def ch2_def ch_spot_def ch_config_def)
  then have changed: "roles ch2 \<noteq> roles ch1" by (auto simp: roles_def)
  have "w_admins ch1 2002 = Some \<lparr>adm_authority = 1, adm_added_by = 1, adm_status = AdminActive, adm_bump = 255\<rparr>"
    by (simp add: ch1_def)
  with roles_change_only_by_super_admin [OF ch_run_set_fee c] changed ch_run_set_fee show ?thesis
    by (auto simp: ch_config_def)
qed

theorem program_admin_lifecycle_witness:
  "program_step ch_rt example_token_program ch0 ch1 \<and> w_admins ch0 2002 = None \<and>
    (\<exists>a. w_admins ch1 2002 = Some a \<and> adm_status a = AdminActive)"
  using program_admin_lifecycle [OF ch_steps(1), of 2002] ch_steps(1) by (simp add: ch0_def gov0_def ch1_def)

theorem closed_faucet_freezes_supply_witness:
  "close_test_faucet ch_rt ch7 ch_close_keys = Inr ch8 \<and>
    (\<exists>d. w_mints ch9 11 = Some d \<and> mint_authority d = Some 2017 \<and> mint_supply d \<le> 40)"
proof -
  have own: "own_faucet ch_rt (ctf_market ch_close_keys)"
    by (auto simp: own_faucet_def faucet_authority_def ch_close_keys_def)
      (simp add: ch_rt_def table_address ch_table_def split: if_splits)
  have mint: "w_mints ch7 11 = Some (ch_mint 40)"
    "mint_authority (ch_mint 40) = Some (faucet_authority ch_rt (ctf_market ch_close_keys))"
    by (simp_all add: ch5_def ch6_def ch7_def ch_mint_def faucet_authority_def ch_close_keys_def)
  have "reach (\<lambda>s. s = ch8) (program_step ch_rt example_token_program) ch9"
    by (rule reach_step, rule reach_init, rule refl, rule program_others, rule ch_burn)
  from closed_faucet_freezes_supply [OF example_set_authority_law example_mint_law own ch_run_close mint this]
  show ?thesis using ch_run_close by (auto simp: ch_mint_def)
qed

section \<open>Vaults\<close>

theorem vaults_stay_solvent_on_chain_witness:
  "total_base 2010 (w_spot ch7) \<le> vault_amount ch_rt 2010 11 ch7 \<and> vault_amount ch_rt 2010 11 ch7 = 30"
proof -
  have own: "own_addresses ch_rt 2010" "no_question ch_rt 2010"
    by (auto simp: own_addresses_def no_question_def)
      (simp_all add: ch_rt_def table_address ch_table_def split: if_splits)
  have "reach (market_unborn 2010) (program_step ch_rt example_token_program) ch2"
    by (rule reach_init) (simp add: market_unborn_def ch2_def ch_spot_def empty_spot_def)
  from vaults_stay_solvent_on_chain [OF example_token_laws own ch_reach [OF this]]
  show ?thesis
    by (simp add: ch7_def ch_traded_def ch_market_def vault_amount_def token_amount_def vault_def ch_tokens_def
        ch_token_def)
qed

section \<open>A pause\<close>

definition ch_append_keys :: AppendLimitOrderKeys where
  "ch_append_keys = \<lparr>alk_trader = 5, alk_market = 2010, alk_order = 0, alk_price_level = 0, alk_previous_order = 0,
     alk_trader_balance = 2015\<rparr>"

theorem pause_stops_trading_only_witness:
  "pause_market ch7 \<lparr>mau_authority = 1, mau_market = 2010\<rparr> = Inr (set_status 2010 MarketPausedStatus ch7) \<and>
    pause_market ch7 \<lparr>mau_authority = 5, mau_market = 2010\<rparr> = Inl ConstraintHasOne \<and>
    \<not> is_ok (process ch_rt example_token_program None (set_status 2010 MarketPausedStatus ch7)
      (Spot (IxAppendLimitOrder ch_append_keys Ask 1 1))) \<and>
    is_ok (process ch_rt example_token_program (Some 1) (set_status 2010 MarketPausedStatus ch6) ch_deposit)"
proof (intro conjI)
  have m7: "ss_markets (w_spot ch7) 2010 = Some ch_market" "w_predictions ch7 2010 = None"
    and m6: "ss_markets (w_spot ch6) 2010 = Some ch_market" "w_predictions ch6 2010 = None"
    by (simp_all add: ch_worlds ch3_def ch4_def ch5_def ch6_def ch7_def ch_traded_def)
  note rule7 = pause_stops_trading_only [OF m7]
  show "pause_market ch7 \<lparr>mau_authority = 1, mau_market = 2010\<rparr> = Inr (set_status 2010 MarketPausedStatus ch7)"
    "pause_market ch7 \<lparr>mau_authority = 5, mau_market = 2010\<rparr> = Inl ConstraintHasOne"
    using rule7 [where pk = "\<lparr>mau_authority = 1, mau_market = 2010\<rparr>"] rule7 [where pk = "\<lparr>mau_authority = 5, mau_market = 2010\<rparr>"]
    by (simp_all add: ch_market_def)
  have "ss_markets (w_spot (set_status 2010 MarketPausedStatus ch7)) 2010 = Some (ch_market\<lparr>mkt_status := MarketPausedStatus\<rparr>)"
    "w_predictions (set_status 2010 MarketPausedStatus ch7) 2010 = None"
    using m7 by (simp_all add: with_status_def mod_at_apply)
  from pause_stops_trading_only [OF this, where i = "Spot (IxAppendLimitOrder ch_append_keys Ask 1 1)"]
  show "\<not> is_ok (process ch_rt example_token_program None (set_status 2010 MarketPausedStatus ch7)
      (Spot (IxAppendLimitOrder ch_append_keys Ask 1 1)))"
    by (simp add: trades_on_def ch_append_keys_def)
  have "trades_on ch_deposit \<noteq> Some 2010" "flips_or_closes ch_deposit \<noteq> Some 2010"
    by (simp_all add: trades_on_def flips_or_closes_def ch_deposit_def)
  with pause_stops_trading_only [OF m6, where i = ch_deposit and s = MarketPausedStatus and rt = ch_rt and
      tp = example_token_program and ua = "Some 1"]
  have "same_outcome (process ch_rt example_token_program (Some 1) (set_status 2010 MarketPausedStatus ch6) ch_deposit)
      (process ch_rt example_token_program (Some 1) ch6 ch_deposit)"
    unfolding same_outcome_def by blast
  then show "is_ok (process ch_rt example_token_program (Some 1) (set_status 2010 MarketPausedStatus ch6) ch_deposit)"
    by (auto dest: same_outcome_ok simp: ch_run_deposit)
qed

section \<open>The wallet\<close>

lemma sd_step:
  assumes "process sd_rt example_token_program None w i = Inr w'" "signer i \<in> {Some 1, Some 5, Some 9}"
  shows "program_step sd_rt example_token_program w w'"
proof (rule program_call [where now = 0 and ua = None and i = i])
  show "process (at_time 0 sd_rt) example_token_program None w i = Inr w'" using assms(1) by simp
  fix s r assume "signer i = Some s"
  with assms(2) have "s = 1 \<or> s = 5 \<or> s = 9" by auto
  then show "s \<noteq> address sd_rt r"
    unfolding sd_rt_def by (intro table_signer) (auto simp: sd_table_def)
qed

lemma sd_open_step:
  assumes "initialize_asset_balance sd_rt w (sd_open_keys owner mint ledger) = Inr w'" "owner \<in> {5, 9}"
  shows "program_step sd_rt example_token_program w w'"
  by (rule sd_step [where i = "Shared (IxInitializeAssetBalance (sd_open_keys owner mint ledger))"])
    (use assms in \<open>auto simp: sd_open_keys_def\<close>)

lemma sd_deposit_step:
  assumes "deposit_asset sd_rt example_token_program w (sd_deposit_keys owner mint ledger source) amount = Inr w'"
    "owner \<in> {5, 9}"
  shows "program_step sd_rt example_token_program w w'"
  by (rule sd_step [where i = "Shared (IxDepositAsset (sd_deposit_keys owner mint ledger source) amount)"])
    (use assms in \<open>auto simp: sd_deposit_keys_def\<close>)

lemma sd_book_steps:
  "program_step sd_rt example_token_program sd2 sd3" "program_step sd_rt example_token_program sd3 sd4"
  "program_step sd_rt example_token_program sd4 sd5"
proof -
  show "program_step sd_rt example_token_program sd2 sd3"
    by (rule sd_step [where i = "Shared (IxInitializeSharedBook sd_book_keys MarketKind.Spot)"])
      (use sd_run_book in \<open>simp_all add: sd_book_keys_def\<close>)
  show "program_step sd_rt example_token_program sd3 sd4"
    by (rule sd_step [where i = "Shared (IxPlaceSharedOrder sd_place_keys SpotList Bid 1 19 1)"])
      (use sd_run_place in \<open>simp_all add: sd_place_keys_def\<close>)
  show "program_step sd_rt example_token_program sd4 sd5"
    by (rule sd_step [where i = "Shared (IxMatchSharedOrder sd_match_keys SpotList Ask 1 10)"])
      (use sd_run_match in \<open>simp_all add: sd_match_keys_def\<close>)
qed

lemma sd_chain_reach: "reach (wallet_start 12) (program_step sd_rt example_token_program) sd5"
proof -
  let ?go = "program_step sd_rt example_token_program"
  have start: "reach (wallet_start 12) ?go sd0"
    by (rule reach_init) (simp add: wallet_start_def finite_claims_def sd0_def gov0_def)
  obtain w1 w2 w3 where opened: "?go sd0 w1" "?go w1 w2" "?go w2 w3" "?go w3 sd1"
    using sd_run_open sd_open_step by blast
  obtain w4 where deposited: "?go sd1 w4" "?go w4 sd2" using sd_run_deposit sd_deposit_step by blast
  from start opened deposited sd_book_steps show ?thesis by (meson reach_step)
qed

theorem shared_vault_covers_all_claims_on_chain_witness:
  "wallet_claims 12 sd5 + wallet_fees 12 sd5 \<le> token_amount (w_tokens sd5) (asset_vault sd_rt 12) \<and>
    token_amount (w_tokens sd5) (asset_vault sd_rt 12) = 50"
proof -
  have own: "own_asset_authority sd_rt 12"
    by (simp add: own_asset_authority_def) (simp add: sd_rt_def table_address sd_table_def)
  have "token_amount (w_tokens sd5) (asset_vault sd_rt 12) = 50"
    by (simp add: asset_vault_def token_amount_def sd5_def sd2_def sd_token_def)
  with shared_vault_covers_all_claims_on_chain [OF example_token_laws own sd_chain_reach] show ?thesis by simp
qed

section \<open>The question\<close>

abbreviation pd_clock :: "i64 \<Rightarrow> world \<Rightarrow> i64 \<Rightarrow> world \<Rightarrow> bool" where
  "pd_clock before w now w' \<equiv> clock_step pd_rt example_token_program (before, w) (now, w')"

lemma pd_step:
  assumes "process (at_time now pd_chain) example_token_program None w i = Inr w'" "signer i \<in> {None, Some 1, Some 5}"
    "ile before now"
  shows "pd_clock before w now w'"
proof (rule clock_call [where now' = now and ua = None and i = i])
  show "process (at_time now pd_rt) example_token_program None w i = Inr w'" using assms(1) by simp
  show "ile before now" by (rule assms(3))
  fix s r assume "signer i = Some s"
  with assms(2) have "s = 1 \<or> s = 5" by auto
  then have "s \<noteq> address pd_chain r"
    unfolding pd_chain_def by (intro table_signer) (auto simp: pd_table_def)
  then show "s \<noteq> address pd_rt r" by (simp add: pd_rt_def)
qed

lemma pd_clock_steps:
  "pd_clock 0 pd0 0 pd1" "pd_clock 0 pd1 1 pd2"
  "pd_clock 1 pd2 2 pd3" "pd_clock 2 pd3 3 pd4"
  "pd_clock 3 pd4 4 pd5" "pd_clock 4 pd5 5 pd6"
  "pd_clock 5 pd6 100 pd7" "pd_clock 100 pd7 110 pd8"
proof -
  show "pd_clock 0 pd0 0 pd1"
    by (rule pd_step [where i = "OfPrediction (IxInitializePredictionMarket pd_init_keys 7 pd_config (ascii ''Rain?'')
        (ascii ''USD''))" and now = 0]) (use pd_run_init in \<open>simp_all add: pd_init_keys_def ile_def\<close>)
  show "pd_clock 0 pd1 1 pd2"
    by (rule pd_step [where i = "Collateral (IxOpenPredictionMarket
        \<lparr>opm_authority = 1, opm_market = 1012, opm_admin_record = 1009\<rparr>)" and now = 1]) (use pd_run_open in \<open>simp_all add: ile_def\<close>)
  show "pd_clock 1 pd2 2 pd3"
    by (rule pd_step [where i = "Collateral (IxInitializePredictionPosition
        \<lparr>ipp_owner = 5, ipp_market = 1012, ipp_position = 1013\<rparr>)" and now = 2]) (use pd_run_position in \<open>simp_all add: ile_def\<close>)
  show "pd_clock 2 pd3 3 pd4"
    by (rule pd_step [where i = "Collateral (IxDepositPredictionCollateral pd_deposit_keys 50)" and now = 3])
      (use pd_run_deposit in \<open>simp_all add: pd_deposit_keys_def ile_def\<close>)
  show "pd_clock 3 pd4 4 pd5"
    by (rule pd_step [where i = "Collateral (IxSplitPredictionCompleteSet pd_set_keys 3)" and now = 4])
      (use pd_run_split in \<open>simp_all add: pd_set_keys_def ile_def\<close>)
  show "pd_clock 4 pd5 5 pd6"
    by (rule pd_step [where i = "Shared (IxInitializeAssetBalance \<lparr>iab_owner = 5, iab_mint = 13,
        iab_asset_balance = 1017, iab_vault_authority = 1019, iab_asset_vault = 1018\<rparr>)" and now = 5])
      (use pd_run_asset in \<open>simp_all add: ile_def\<close>)
  show "pd_clock 5 pd6 100 pd7"
    by (rule pd_step [where i = "Shared (IxProposePrediction pd_resolve_keys ResolveYes (ascii ''ar://e'') 9 False)"
        and now = 100]) (use pd_run_propose in \<open>simp_all add: pd_resolve_keys_def ile_def\<close>)
  show "pd_clock 100 pd7 110 pd8"
    by (rule pd_step [where i = "Shared (IxAdvancePrediction \<lparr>ap_market = 1012\<rparr> 2)" and now = 110])
      (use pd_run_finalize in \<open>simp_all add: ile_def\<close>)
qed

lemmas pd_chain_steps = pd_clock_steps [THEN clock_program]

lemma pd_chain_reach: "reach (question_unborn 1012) (program_step pd_rt example_token_program) pd8"
proof -
  have "reach (question_unborn 1012) (program_step pd_rt example_token_program) pd0"
    by (rule reach_init) (simp add: question_unborn_def finite_claims_def pd0_def gov0_def empty_spot_def)
  with pd_chain_steps show ?thesis by (meson reach_step)
qed

lemma pd_apart: "own_addresses pd_rt 1012" "no_market pd_rt 1012"
  unfolding pd_rt_def pd_chain_def own_addresses_def no_market_def at_time_simps
  by (auto simp: table_address pd_table_def split: if_splits)

theorem question_stays_backed_on_chain_witness:
  "question_total (pos_contracts YesOutcome) 1012 pd8 = 3 \<and> unat (pm_backing_reserve pd_final) = owed ResolveYes 3 3 10"
proof -
  have m: "w_predictions pd8 1012 = Some pd_final" by (simp add: pd8_def put_prediction_def)
  from question_stays_backed_on_chain [OF example_token_laws pd_apart pd_chain_reach] m show ?thesis
    by (auto simp: pd_final_def pd_open_def pd_market_simps)
qed

theorem holders_can_redeem_on_chain_witness:
  "\<exists>w b. redeem_prediction pd_rt example_token_program pd8 pd_shared_keys 2 1 = Inr w \<and>
    w_assets w 1017 = Some b \<and> ab_free b = 20"
proof -
  have "20 = owed ResolveYes (unat (2 :: u64)) (unat (1 :: u64)) (unat (pm_payout_per_contract (inner (sc_market pd_custody))))"
    by (simp add: pd_custody_def pd_final_def pd_open_def pd_market_simps)
  from holders_can_redeem_on_chain [OF example_token_laws example_transfer_live pd_apart pd_chain_reach _ _ _ _ _ _ _ this,
      of pd_shared_keys] pd_load_custody
  obtain w b where "redeem_prediction pd_rt example_token_program pd8 pd_shared_keys 2 1 = Inr w"
    "w_assets w (spc_asset_balance pd_shared_keys) = Some b" "unat (ab_free b) = 20"
    by (auto simp: pd_shared_keys_def pd_custody_def pd_final_def pd_position_def pd_asset_def new_token_account_def
        pd_rt_def)
  then show ?thesis by (auto simp: pd_shared_keys_def word_unat_eq_iff)
qed

theorem resolution_is_irrevocable_witness:
  "w_predictions pd2 1012 = Some (pd_market\<lparr>pm_status := OpenTrading\<rparr>) \<and>
    (\<exists>m. w_predictions pd8 1012 = Some m \<and> terms_of m = terms_of pd_market \<and>
      status_rank OpenTrading \<le> status_rank (pm_status m))"
proof -
  let ?go = "clock_step pd_rt example_token_program"
  have start: "no_predictions (0, pd0)" by (simp add: no_predictions_def pd0_def gov0_def)
  have reach: "reach no_predictions ?go (1, pd2)"
    by (rule reach_step, rule reach_step, rule reach_init, rule start, rule pd_clock_steps(1), rule pd_clock_steps(2))
  have run: "?go\<^sup>*\<^sup>* (1, pd2) (110, pd8)"
    using pd_clock_steps(3-8) by (meson rtranclp.rtrancl_refl rtranclp.rtrancl_into_rtrancl)
  have m: "w_predictions (snd (1 :: i64, pd2)) 1012 = Some (pd_market\<lparr>pm_status := OpenTrading\<rparr>)"
    by (simp add: pd2_def put_prediction_def)
  from resolution_is_irrevocable [OF reach run m] m show ?thesis by auto
qed

end
