(* ===== verification/Prediction_Book.thy ===== *)
theory Prediction_Book
  imports Prediction_Solvency Book_Records
begin

text \<open>
  The order book of a question. Its accounts are an instance of the shared index, with one list per
  outcome and side: the five order instructions refine the edits of \<open>Book_Index\<close>, so that the book stays
  well formed and a fill takes the best and oldest order.
\<close>

section \<open>The book a question's accounts hold\<close>

type_synonym prediction_list = "PredictionOutcome \<times> OrderSide"

definition prediction_bid :: "prediction_list \<Rightarrow> bool" where
  "prediction_bid l = (snd l = Bid)"

definition prediction_order_view :: "PredictionOrder \<Rightarrow> prediction_list gorder" where
  "prediction_order_view r = \<lparr>go_list = (po_outcome r, po_side r), go_price = po_price r, go_id = po_order_id r,
     go_prev = po_previous_order r, go_next = po_next_order r, go_remaining = po_remaining_quantity r,
     go_open = (po_status r = Open)\<rparr>"

definition prediction_level_view :: "PredictionPriceLevel \<Rightarrow> glevel" where
  "prediction_level_view v = \<lparr>gl_better = pl_better_price v, gl_worse = pl_worse_price v,
     gl_first = pl_first_order v, gl_last = pl_last_order v, gl_total = pl_total_remaining_quantity v,
     gl_count = pl_order_count v\<rparr>"

definition prediction_level_address :: "runtime \<Rightarrow> pubkey \<Rightarrow> prediction_list \<Rightarrow> u64 \<Rightarrow> pubkey" where
  "prediction_level_address rt k l p = address rt (PredictionLevelPda k (fst l) (snd l) p)"

definition prediction_view :: "runtime \<Rightarrow> pubkey \<Rightarrow> world \<Rightarrow> prediction_list gbook" where
  "prediction_view rt k w =
     \<lparr>gb_orders = orders_of (\<lambda>r. po_market r = k) prediction_order_view (w_prediction_orders w),
      gb_levels = levels_of (prediction_level_address rt k) prediction_level_view (w_prediction_levels w),
      gb_best = (\<lambda>l. Option.bind (w_prediction_books w (address rt (PredictionBookPda k)))
        (\<lambda>b. best_price b (fst l) (snd l))),
      gb_next_id = (case w_prediction_books w (address rt (PredictionBookPda k)) of
        None \<Rightarrow> 0 | Some b \<Rightarrow> pob_next_order_id b),
      gb_open = (case w_predictions w k of None \<Rightarrow> 0 | Some m \<Rightarrow> pm_open_order_count m)\<rparr>"

text \<open>The assumption on the runtime: distinct levels of this question have distinct addresses.\<close>

definition prediction_levels_separate :: "runtime \<Rightarrow> pubkey \<Rightarrow> bool" where
  "prediction_levels_separate rt k = collision_free_on rt (range (\<lambda>(l, p). PredictionLevelPda k (fst l) (snd l) p))"

lemma prediction_level_address_eq:
  assumes "prediction_levels_separate rt k"
  shows "prediction_level_address rt k l p = prediction_level_address rt k l' p' \<longleftrightarrow> l' = l \<and> p' = p"
  unfolding prediction_level_address_def
  by (subst address_eq [OF assms [unfolded prediction_levels_separate_def]]) (auto simp: prod_eq_iff)

interpretation prediction_records: book_records "\<lambda>r. po_market r = k" prediction_order_view
  "prediction_level_address rt k" prediction_level_view
  "\<lambda>x r. r\<lparr>po_previous_order := x\<rparr>" "\<lambda>x r. r\<lparr>po_next_order := x\<rparr>"
  "\<lambda>y v. v\<lparr>pl_better_price := y\<rparr>" "\<lambda>y v. v\<lparr>pl_worse_price := y\<rparr>"
  for rt k
  by unfold_locales (simp_all add: prediction_order_view_def prediction_level_view_def)

lemma prediction_kept: "kept_in (\<lambda>r. po_market r = k) prediction_order_view (prediction_level_address rt k)
    prediction_level_view (w_prediction_orders w) (w_prediction_levels w) (prediction_view rt k w)"
  by (simp add: kept_in_def prediction_view_def)

lemma prediction_view_time [simp]: "prediction_view (at_time now rt) k = prediction_view rt k"
  "prediction_levels_separate (at_time now rt) k = prediction_levels_separate rt k"
  by (simp_all add: fun_eq_iff prediction_view_def prediction_level_address_def [abs_def] prediction_levels_separate_def
    collision_free_on_def at_time_def address_def pda_def)

lemma prediction_order_view_fields [simp]:
  "go_list (prediction_order_view r) = (po_outcome r, po_side r)" "go_price (prediction_order_view r) = po_price r"
  "go_id (prediction_order_view r) = po_order_id r" "go_prev (prediction_order_view r) = po_previous_order r"
  "go_next (prediction_order_view r) = po_next_order r"
  "go_remaining (prediction_order_view r) = po_remaining_quantity r"
  "go_open (prediction_order_view r) = (po_status r = Open)"
  by (simp_all add: prediction_order_view_def)

lemma prediction_level_view_fields [simp]:
  "gl_better (prediction_level_view v) = pl_better_price v" "gl_worse (prediction_level_view v) = pl_worse_price v"
  "gl_first (prediction_level_view v) = pl_first_order v" "gl_last (prediction_level_view v) = pl_last_order v"
  "gl_total (prediction_level_view v) = pl_total_remaining_quantity v"
  "gl_count (prediction_level_view v) = pl_order_count v"
  by (simp_all add: prediction_level_view_def)

lemma prediction_view_order:
  "w_prediction_orders w j = Some r \<Longrightarrow> po_market r = k \<Longrightarrow>
     gb_orders (prediction_view rt k w) j = Some (prediction_order_view r)"
  "w_prediction_orders w j = None \<Longrightarrow> gb_orders (prediction_view rt k w) j = None"
  by (simp_all add: kept_inD(1) [OF prediction_kept])

lemma prediction_view_level:
  "gb_levels (prediction_view rt k w) (l, p) =
     map_option prediction_level_view (w_prediction_levels w (prediction_level_address rt k l p))"
  by (rule kept_inD(2) [OF prediction_kept])

lemma prediction_view_root:
  assumes "w_prediction_books w (address rt (PredictionBookPda k)) = Some b"
  shows "gb_best (prediction_view rt k w) = (\<lambda>l. best_price b (fst l) (snd l))"
    "gb_next_id (prediction_view rt k w) = pob_next_order_id b"
  using assms by (simp_all add: prediction_view_def)

lemma prediction_view_open:
  "w_predictions w k = Some m \<Longrightarrow> gb_open (prediction_view rt k w) = pm_open_order_count m"
  by (simp add: prediction_view_def)

lemma precedes_prediction: "precedes (prediction_bid (oc, sd)) a b = side_precedes sd a b"
  by (cases sd) (simp_all add: precedes_def prediction_bid_def side_precedes_def)

lemma best_of_set [simp]:
  "(\<lambda>l. best_price (set_best_price b oc sd x) (fst l) (snd l)) = (\<lambda>l. best_price b (fst l) (snd l))((oc, sd) := x)"
  by (auto simp: fun_eq_iff best_price_set_best_price)

lemma best_price_next_id [simp]: "best_price (b\<lparr>pob_next_order_id := i\<rparr>) oc sd = best_price b oc sd"
  by (cases oc; cases sd) simp_all

section \<open>Placing\<close>

lemma validate_resting_Inr:
  assumes "validate_resting_order rt m b i oc sd p q = Inr (next_id, count)"
  shows "0 < q" "i = pob_next_order_id b" "unat next_id = unat i + 1" "unat count = unat (pm_open_order_count m) + 1"
    "0 < i"
  using assms by (auto simp: validate_resting_order_def run_inversions)

text \<open>A new level, with or without neighbours: the writes of \<open>place_prediction_order\<close> and
  \<open>insert_prediction_order\<close>.\<close>

lemma resting_insert_refines:
  assumes sep: "prediction_levels_separate rt k" and m: "w_predictions w k = Some m"
    and b: "w_prediction_books w (address rt (PredictionBookPda k)) = Some b"
    and checked: "validate_resting_order rt m b i oc sd p q = Inr (next_id, count)"
    and fresh: "w_prediction_orders w j = None"
    and better: "loaded (w_prediction_levels w) bk better"
      "\<And>a. better = Some a \<Longrightarrow> key a = prediction_level_address rt k (oc, sd) (pl_price (inner a))"
    and worse: "loaded (w_prediction_levels w) wk worse"
      "\<And>a. worse = Some a \<Longrightarrow> key a = prediction_level_address rt k (oc, sd) (pl_price (inner a))"
    and hints: "hints_ok prediction_bid (prediction_view rt k w) (oc, sd) p
      (map_option (\<lambda>a. pl_price (inner a)) better) (map_option (\<lambda>a. pl_price (inner a)) worse)"
    and r: "po_market r = k" "prediction_order_view r = new_gorder (oc, sd) p i None q"
    and v: "prediction_level_view v = \<lparr>gl_better = map_option (\<lambda>a. pl_price (inner a)) better,
      gl_worse = map_option (\<lambda>a. pl_price (inner a)) worse, gl_first = Some j, gl_last = Some j, gl_total = q, gl_count = 1\<rparr>"
    and w': "w_predictions w' = (w_predictions w)(k \<mapsto> m\<lparr>pm_open_order_count := count\<rparr>)"
      "w_prediction_books w' = (w_prediction_books w)(address rt (PredictionBookPda k) \<mapsto>
         (if better = None then set_best_price b oc sd (Some p) else b)\<lparr>pob_next_order_id := next_id\<rparr>)"
      "w_prediction_levels w' = (save_opt (map_option (upd_inner (\<lambda>l. l\<lparr>pl_better_price := Some p\<rparr>)) worse)
         (save_opt (map_option (upd_inner (\<lambda>l. l\<lparr>pl_worse_price := Some p\<rparr>)) better) (w_prediction_levels w)))
         (prediction_level_address rt k (oc, sd) p \<mapsto> v)"
      "w_prediction_orders w' = (w_prediction_orders w)(j \<mapsto> r)"
  shows "gstep prediction_bid (prediction_view rt k w) (GInsert (oc, sd) p j q) (prediction_view rt k w')"
proof -
  let ?g = "prediction_view rt k w" and ?g' = "prediction_view rt k w'"
  let ?bp = "map_option (\<lambda>a. pl_price (inner a)) better" and ?wp = "map_option (\<lambda>a. pl_price (inner a)) worse"
  note ids = validate_resting_Inr [OF checked]
  have apart: "?bp = ?wp \<longrightarrow> ?bp = None"
    using hints by (auto simp: hints_ok_def dest: precedes_asym split: option.splits)
  have keys: "bk = map_option (prediction_level_address rt k (oc, sd)) ?bp"
    "wk = map_option (prediction_level_address rt k (oc, sd)) ?wp"
    using better worse by (cases better; cases worse; simp)+
  have at: "map_option (prediction_level_address rt k (oc, sd)) z = Some (prediction_level_address rt k l' p') \<longleftrightarrow>
      l' = (oc, sd) \<and> z = Some p'" for z l' p'
    by (cases z) (auto simp: prediction_level_address_eq [OF sep])
  have b': "w_prediction_books w' (address rt (PredictionBookPda k)) =
      Some ((if better = None then set_best_price b oc sd (Some p) else b)\<lparr>pob_next_order_id := next_id\<rparr>)"
    by (simp add: w')
  have m': "w_predictions w' k = Some (m\<lparr>pm_open_order_count := count\<rparr>)" by (simp add: w')
  have "?g' = g_insert (oc, sd) p j q ?bp ?wp ?g"
  proof (rule prediction_records.insert_view [OF prediction_kept prediction_kept])
    show "w_prediction_orders w' x = (if x = j then Some r else w_prediction_orders w x)" for x by (simp add: w')
    show "w_prediction_levels w' (prediction_level_address rt k l' p') =
        (if l' = (oc, sd) \<and> p' = p then Some v
         else if l' = (oc, sd) \<and> ?wp = Some p'
           then map_option (pl_better_price_update (\<lambda>_. Some p)) (w_prediction_levels w (prediction_level_address rt k l' p'))
         else if l' = (oc, sd) \<and> ?bp = Some p'
           then map_option (pl_worse_price_update (\<lambda>_. Some p)) (w_prediction_levels w (prediction_level_address rt k l' p'))
         else w_prediction_levels w (prediction_level_address rt k l' p'))" for l' p'
      by (simp add: w' save_opt_upd [OF better(1)] save_opt_upd [OF worse(1)] keys at prediction_level_address_eq [OF sep]
        del: map_option_eq_Some)
    show "prediction_order_view r = new_gorder (oc, sd) p (gb_next_id ?g) None q"
      using r ids(2) by (simp add: prediction_view_root [OF b])
    show "gb_best ?g' = (if ?bp = None then (gb_best ?g)((oc, sd) := Some p) else gb_best ?g)"
      by (simp add: prediction_view_root [OF b] prediction_view_root [OF b'])
    show "gb_next_id ?g' = gb_next_id ?g + 1"
      using ids by (simp add: prediction_view_root [OF b] prediction_view_root [OF b'] word_succ_eq)
    show "gb_open ?g' = gb_open ?g + 1"
      using ids by (simp add: prediction_view_open [OF m] prediction_view_open [OF m'] word_succ_eq)
  qed (use r v apart in simp_all)
  moreover have "gstep prediction_bid ?g (GInsert (oc, sd) p j q) (g_insert (oc, sd) p j q ?bp ?wp ?g)"
    by (rule gstep.insert [OF hints prediction_view_order(2) [OF fresh] ids(1)])
      (use ids unat_u64_bound [of next_id] unat_u64_bound [of count] in
        \<open>simp_all add: prediction_view_root [OF b] prediction_view_open [OF m]\<close>)
  ultimately show ?thesis by simp
qed

lemma place_prediction_refines:
  assumes ok: "place_prediction_order rt w ks i oc sd p q = Inr w'"
    and sep: "prediction_levels_separate rt (ppo_market ks)"
  shows "gstep prediction_bid (prediction_view rt (ppo_market ks) w) (GInsert (oc, sd) p (ppo_order ks) q)
    (prediction_view rt (ppo_market ks) w')"
proof -
  obtain m b next_id count position' amount where
    m: "w_predictions w (ppo_market ks) = Some m" and b: "w_prediction_books w (ppo_order_book ks) = Some b"
    and bk: "ppo_order_book ks = address rt (PredictionBookPda (ppo_market ks))"
    and level: "ppo_price_level ks = address rt (PredictionLevelPda (ppo_market ks) oc sd p)"
    and fresh: "w_prediction_orders w (ppo_order ks) = None"
    and checked: "validate_resting_order rt m b i oc sd p q = Inr (next_id, count)"
    and best: "best_price b oc sd = None"
    and w': "w\<lparr>
        w_predictions := (w_predictions w)(ppo_market ks \<mapsto> m\<lparr>pm_open_order_count := count\<rparr>),
        w_positions := (w_positions w)(ppo_position ks \<mapsto> position'),
        w_prediction_books := (w_prediction_books w)(ppo_order_book ks \<mapsto>
          (set_best_price b oc sd (Some p))\<lparr>pob_next_order_id := next_id\<rparr>),
        w_prediction_levels := (w_prediction_levels w)(ppo_price_level ks \<mapsto>
          new_prediction_level rt ks oc sd p q None None),
        w_prediction_orders := (w_prediction_orders w)(ppo_order ks \<mapsto>
          new_prediction_order rt ks i oc sd p q amount None)\<rparr> = w'"
    using ok unfolding place_prediction_order_def run_inversions by (elim exE conjE) (rule that; assumption)
  show ?thesis
    by (rule resting_insert_refines [OF sep m b [unfolded bk] checked fresh, where better = None and worse = None])
      (use best b bk in \<open>auto simp: w' [symmetric] bk level prediction_level_address_def hints_ok_def save_opt_def
        prediction_view_root new_prediction_order_def new_prediction_level_def prediction_order_view_def
        prediction_level_view_def new_gorder_def\<close>)
qed

lemma validate_neighbor_key:
  "validate_neighbor rt a k oc sd best = Inr u \<Longrightarrow> key a = prediction_level_address rt k (oc, sd) (pl_price (inner a))"
  by (auto simp: validate_neighbor_def Let_def derive_is_pda run_simps prediction_level_address_def address_def split: prod.splits)

lemma adjacent_hints:
  assumes b: "w_prediction_books w (address rt (PredictionBookPda k)) = Some b" and best: "best_price b oc sd = Some best"
    and adjacent: "adjacent_levels sd best p better worse"
    and better: "loaded (w_prediction_levels w) bk better"
      "\<And>a. better = Some a \<Longrightarrow> key a = prediction_level_address rt k (oc, sd) (pl_price (inner a))"
    and worse: "loaded (w_prediction_levels w) wk worse"
      "\<And>a. worse = Some a \<Longrightarrow> key a = prediction_level_address rt k (oc, sd) (pl_price (inner a))"
  shows "hints_ok prediction_bid (prediction_view rt k w) (oc, sd) p
    (map_option (\<lambda>a. pl_price (inner a)) better) (map_option (\<lambda>a. pl_price (inner a)) worse)"
proof -
  have at: "w_prediction_levels w (prediction_level_address rt k (oc, sd) (pl_price (inner a))) = Some (inner a)"
    if "better = Some a \<or> worse = Some a" for a
    using that better worse by (metis loaded_Some)
  show ?thesis
    using best adjacent at
    by (cases better; cases worse)
      (auto simp: hints_ok_def adjacent_levels_def prediction_view_root [OF b] prediction_view_level
        precedes_prediction level_worse_def)
qed

lemma insert_prediction_refines:
  assumes ok: "insert_prediction_order rt w ks bk wk i oc sd p q = Inr w'"
    and sep: "prediction_levels_separate rt (ppo_market ks)"
  shows "gstep prediction_bid (prediction_view rt (ppo_market ks) w) (GInsert (oc, sd) p (ppo_order ks) q)
    (prediction_view rt (ppo_market ks) w')"
proof -
  obtain m b better worse next_id count best position' amount where
    m: "w_predictions w (ppo_market ks) = Some m" and b: "w_prediction_books w (ppo_order_book ks) = Some b"
    and book: "ppo_order_book ks = address rt (PredictionBookPda (ppo_market ks))"
    and level: "ppo_price_level ks = address rt (PredictionLevelPda (ppo_market ks) oc sd p)"
    and fresh: "w_prediction_orders w (ppo_order ks) = None"
    and loads: "loaded (w_prediction_levels w) bk better" "loaded (w_prediction_levels w) wk worse"
    and checked: "validate_resting_order rt m b i oc sd p q = Inr (next_id, count)"
    and best: "best_price b oc sd = Some best"
    and neighbors: "check_option better (\<lambda>l. validate_neighbor rt l (ppo_market ks) oc sd best) = Inr ()"
      "check_option worse (\<lambda>l. validate_neighbor rt l (ppo_market ks) oc sd best) = Inr ()"
    and adjacent: "adjacent_levels sd best p better worse"
    and w': "w\<lparr>
        w_predictions := (w_predictions w)(ppo_market ks \<mapsto> m\<lparr>pm_open_order_count := count\<rparr>),
        w_positions := (w_positions w)(ppo_position ks \<mapsto> position'),
        w_prediction_books := (w_prediction_books w)(ppo_order_book ks \<mapsto>
          (if map_option (\<lambda>l. pl_price (inner l)) better = None then set_best_price b oc sd (Some p) else b)
            \<lparr>pob_next_order_id := next_id\<rparr>),
        w_prediction_levels := (save_opt (map_option (upd_inner (\<lambda>l. l\<lparr>pl_better_price := Some p\<rparr>)) worse)
            (save_opt (map_option (upd_inner (\<lambda>l. l\<lparr>pl_worse_price := Some p\<rparr>)) better)
              (w_prediction_levels w)))
          (ppo_price_level ks \<mapsto> new_prediction_level rt ks oc sd p q
             (map_option (\<lambda>l. pl_price (inner l)) better) (map_option (\<lambda>l. pl_price (inner l)) worse)),
        w_prediction_orders := (w_prediction_orders w)(ppo_order ks \<mapsto>
          new_prediction_order rt ks i oc sd p q amount None)\<rparr> = w'"
    using ok unfolding insert_prediction_order_def run_inversions load_opt_Inr
    by (elim exE conjE) (rule that; (assumption | simp; fail))
  have keys: "key a = prediction_level_address rt (ppo_market ks) (oc, sd) (pl_price (inner a))"
    if "better = Some a \<or> worse = Some a" for a
    using neighbors that validate_neighbor_key by (auto simp: check_option_Inr)
  show ?thesis
    by (rule resting_insert_refines [OF sep m b [unfolded book] checked fresh loads(1) keys loads(2) keys
          adjacent_hints [OF b [unfolded book] best adjacent loads(1) keys loads(2) keys]])
      (auto simp: w' [symmetric] book level prediction_level_address_def new_prediction_order_def
        new_prediction_level_def prediction_order_view_def prediction_level_view_def new_gorder_def)
qed

lemma check_prediction_tail_last:
  "check_prediction_tail lv t k i oc sd p = Inr u \<Longrightarrow> pl_last_order (inner lv) = Some (key t)"
  by (auto simp: check_prediction_tail_def run_inversions)

lemma append_prediction_refines:
  assumes ok: "append_prediction_order rt w ks t i oc sd p q = Inr w'"
    and sep: "prediction_levels_separate rt (ppo_market ks)"
  shows "gstep prediction_bid (prediction_view rt (ppo_market ks) w) (GAppend (oc, sd) p (ppo_order ks) q)
    (prediction_view rt (ppo_market ks) w')"
proof -
  let ?k = "ppo_market ks" and ?j = "ppo_order ks"
  let ?g = "prediction_view rt (ppo_market ks) w" and ?g' = "prediction_view rt (ppo_market ks) w'"
  obtain m b lv tail next_id count total level_count position' amount where
    m: "w_predictions w ?k = Some m" and b: "w_prediction_books w (ppo_order_book ks) = Some b"
    and book: "ppo_order_book ks = address rt (PredictionBookPda ?k)"
    and level: "ppo_price_level ks = address rt (PredictionLevelPda ?k oc sd p)"
    and lv: "w_prediction_levels w (ppo_price_level ks) = Some lv" and tail: "w_prediction_orders w t = Some tail"
    and fresh: "w_prediction_orders w ?j = None"
    and checked: "validate_resting_order rt m b i oc sd p q = Inr (next_id, count)"
    and last: "check_prediction_tail (Account (ppo_price_level ks) lv) (Account t tail) ?k i oc sd p = Inr ()"
    and sums: "checked_add (pl_total_remaining_quantity lv) q = Some total"
      "checked_add (pl_order_count lv) 1 = Some level_count"
    and w': "w\<lparr>
        w_predictions := (w_predictions w)(?k \<mapsto> m\<lparr>pm_open_order_count := count\<rparr>),
        w_positions := (w_positions w)(ppo_position ks \<mapsto> position'),
        w_prediction_books := (w_prediction_books w)(ppo_order_book ks \<mapsto> b\<lparr>pob_next_order_id := next_id\<rparr>),
        w_prediction_levels := (w_prediction_levels w)(ppo_price_level ks \<mapsto>
          lv\<lparr>pl_last_order := Some ?j, pl_total_remaining_quantity := total, pl_order_count := level_count\<rparr>),
        w_prediction_orders := (w_prediction_orders w)(t \<mapsto> tail\<lparr>po_next_order := Some ?j\<rparr>,
          ?j \<mapsto> new_prediction_order rt ks i oc sd p q amount (Some t))\<rparr> = w'"
    using ok unfolding append_prediction_order_def run_inversions
    by (elim exE conjE) (rule that; (assumption | simp; fail))
  let ?lv' = "lv\<lparr>pl_last_order := Some ?j, pl_total_remaining_quantity := total, pl_order_count := level_count\<rparr>"
  note ids = validate_resting_Inr [OF checked] and addr = prediction_level_address_def [of rt ?k "(oc, sd)" p]
  note root = prediction_view_root [OF b [unfolded book]]
  have view_lv: "gb_levels ?g ((oc, sd), p) = Some (prediction_level_view lv)"
    using lv level by (simp add: prediction_view_level addr)
  have b': "w_prediction_books w' (address rt (PredictionBookPda ?k)) = Some (b\<lparr>pob_next_order_id := next_id\<rparr>)"
    and m': "w_predictions w' ?k = Some (m\<lparr>pm_open_order_count := count\<rparr>)"
    by (simp_all add: w' [symmetric] book)
  have "?g' = g_append (oc, sd) p ?j q t ?g"
  proof (rule prediction_records.append_view [OF prediction_kept prediction_kept])
    show "w_prediction_orders w' x = (if x = ?j then Some (new_prediction_order rt ks i oc sd p q amount (Some t))
        else if x = t then map_option (po_next_order_update (\<lambda>_. Some ?j)) (w_prediction_orders w x)
        else w_prediction_orders w x)" for x
      using tail by (simp add: w' [symmetric])
    show "w_prediction_levels w' (prediction_level_address rt ?k l' p') =
        (if l' = (oc, sd) \<and> p' = p then Some ?lv' else w_prediction_levels w (prediction_level_address rt ?k l' p'))" for l' p'
      using prediction_level_address_eq [OF sep, of l' p' "(oc, sd)" p]
      by (auto simp: w' [symmetric] level addr)
    show "w_prediction_levels w (prediction_level_address rt ?k (oc, sd) p) = Some lv" using lv level by (simp add: addr)
    show "prediction_level_view ?lv' = (prediction_level_view lv)\<lparr>gl_last := Some ?j,
        gl_total := gl_total (prediction_level_view lv) + q, gl_count := gl_count (prediction_level_view lv) + 1\<rparr>"
      using sums by (simp add: prediction_level_view_def word_add_eq word_succ_eq)
    show "prediction_order_view (new_prediction_order rt ks i oc sd p q amount (Some t)) =
        new_gorder (oc, sd) p (gb_next_id ?g) (Some t) q"
      using ids by (simp add: root prediction_order_view_def new_prediction_order_def new_gorder_def)
  qed (use ids in \<open>simp_all add: root prediction_view_root [OF b'] prediction_view_open [OF m] prediction_view_open [OF m']
      word_succ_eq new_prediction_order_def\<close>)
  moreover have "gstep prediction_bid ?g (GAppend (oc, sd) p ?j q) (g_append (oc, sd) p ?j q t ?g)"
    by (rule gstep.append [OF view_lv _ prediction_view_order(2) [OF fresh] ids(1)])
      (use ids sums check_prediction_tail_last [OF last] unat_u64_bound [of next_id] unat_u64_bound [of count]
        unat_u64_bound [of total] unat_u64_bound [of level_count] in
        \<open>simp_all add: root prediction_view_open [OF m]\<close>)
  ultimately show ?thesis by simp
qed

end
