(* ===== verification/Prediction_Priority.thy ===== *)
theory Prediction_Priority
  imports Prediction_Book
begin

text \<open>
  Orders leaving the book of a question, cancellation and fills, as edits of the index; then the
  question's book as a whole: its steps, the interpretation of \<open>order_book\<close>, and the claims.
\<close>

section \<open>Cancelling\<close>

text \<open>What a successful cancellation has established about the accounts it edits.\<close>

definition unlink_checked ::
  "runtime \<Rightarrow> pubkey \<Rightarrow> world \<Rightarrow> CancelPredictionOrder \<Rightarrow> PredictionOrder \<Rightarrow> PredictionPriceLevel \<Rightarrow>
     PredictionOrder account option \<Rightarrow> PredictionOrder account option \<Rightarrow> PredictionPriceLevel account option \<Rightarrow>
     PredictionPriceLevel account option \<Rightarrow> u64 \<Rightarrow> bool" where
  "unlink_checked rt k w ks r lv previous next better worse level_count \<longleftrightarrow>
     loaded (w_prediction_orders w) (cpo_previous_order ks) previous \<and>
     loaded (w_prediction_orders w) (cpo_next_order ks) next \<and>
     loaded (w_prediction_levels w) (cpo_better_level ks) better \<and>
     loaded (w_prediction_levels w) (cpo_worse_level ks) worse \<and>
     distinct (keys_of [Some (cpo_order ks), cpo_previous_order ks, cpo_next_order ks]) \<and>
     distinct (keys_of [Some (cpo_price_level ks), cpo_better_level ks, cpo_worse_level ks]) \<and>
     po_previous_order r = map_option key previous \<and> po_next_order r = map_option key next \<and>
     (if level_count = 0
      then map_option key better =
          map_option (prediction_level_address rt k (po_outcome r, po_side r)) (pl_better_price lv) \<and>
        map_option key worse =
          map_option (prediction_level_address rt k (po_outcome r, po_side r)) (pl_worse_price lv)
      else better = None \<and> worse = None)"

lemma unlink_prediction_refines:
  assumes sep: "prediction_levels_separate rt (cpo_market ks)"
    and m: "w_predictions w (cpo_market ks) = Some m"
    and b: "w_prediction_books w (cpo_order_book ks) = Some b"
    and book: "cpo_order_book ks = address rt (PredictionBookPda (cpo_market ks))"
    and r: "w_prediction_orders w (cpo_order ks) = Some r" "po_market r = cpo_market ks" "po_status r = Open"
    and lv: "w_prediction_levels w (cpo_price_level ks) = Some lv"
    and level: "cpo_price_level ks = prediction_level_address rt (cpo_market ks) (po_outcome r, po_side r) (po_price r)"
    and chk: "unlink_checked rt (cpo_market ks) w ks r lv previous next better worse level_count"
    and sums: "checked_sub (pl_order_count lv) 1 = Some level_count"
      "checked_sub (pl_total_remaining_quantity lv) (po_remaining_quantity r) = Some tot"
      "checked_sub (pm_open_order_count m) 1 = Some market_count"
  shows "gstep prediction_bid (prediction_view rt (cpo_market ks) w)
    (GCancel (po_outcome r, po_side r) (po_price r) (cpo_order ks))
    (prediction_view rt (cpo_market ks)
      (unlink_prediction ks m b r lv previous next better worse level_count tot market_count (put_position pk pp w)))"
    (is "gstep _ ?g _ (prediction_view _ _ ?w')")
proof -
  let ?k = "cpo_market ks" and ?j = "cpo_order ks" and ?l = "(po_outcome r, po_side r)" and ?p = "po_price r"
  let ?g' = "prediction_view rt ?k ?w'"
  note defs = unlink_prediction_def Let_def put_position_def
  note c = chk [unfolded unlink_checked_def]
  have pa: "loaded (w_prediction_orders w) (po_previous_order r) previous"
    and na: "loaded (w_prediction_orders w) (po_next_order r) next"
    and apart: "po_previous_order r = po_next_order r \<longrightarrow> po_previous_order r = None"
    and links: "map_option key previous = po_previous_order r" "map_option key next = po_next_order r"
    using c by (auto simp: loaded_def)
  have one: "pl_order_count lv = 1 \<longleftrightarrow> level_count = 0" using sums(1) by (auto simp: word_unat_eq_iff)
  have diffs: "pl_order_count lv - 1 = level_count" "pl_total_remaining_quantity lv - po_remaining_quantity r = tot"
    "pm_open_order_count m - 1 = market_count"
    using sums by (simp_all add: word_sub_eq)
  have view: "gb_orders ?g ?j = Some (prediction_order_view r)"
    "gb_levels ?g (?l, ?p) = Some (prediction_level_view lv)"
    using r lv level by (simp_all add: prediction_view_order prediction_view_level)
  have b': "w_prediction_books ?w' (address rt (PredictionBookPda ?k)) =
      Some (if level_count = 0 \<and> better = None then set_best_price b (po_outcome r) (po_side r) (pl_worse_price lv) else b)"
    and m': "w_predictions ?w' ?k = Some (m\<lparr>pm_open_order_count := market_count\<rparr>)"
    by (simp_all add: defs book)
  note root = prediction_view_root [OF b [unfolded book]] prediction_view_root [OF b']
    prediction_view_open [OF m] prediction_view_open [OF m']
  have "?g' = g_remove ?l ?p ?j 0 (prediction_order_view r) (prediction_level_view lv) ?g"
  proof (rule prediction_records.remove_view)
    show "gb_orders ?g' x = gb_orders (g_remove ?l ?p ?j 0 (prediction_order_view r) (prediction_level_view lv) ?g) x" for x
      by (rule prediction_records.remove_orders [OF prediction_kept prediction_kept r(1,2),
            where r' = "closed_prediction_order Canceled r"])
        (use r apart in \<open>auto simp: closed_prediction_order_def prediction_order_view_def defs links
          save_opt_upd [OF pa] save_opt_upd [OF na]\<close>)
    show "gb_levels ?g' (l', p') =
        gb_levels (g_remove ?l ?p ?j 0 (prediction_order_view r) (prediction_level_view lv) ?g) (l', p')" for l' p'
    proof (cases "level_count = 0")
      case True
      then have ba: "loaded (w_prediction_levels w) (map_option (prediction_level_address rt ?k ?l) (pl_better_price lv)) better"
        and wa: "loaded (w_prediction_levels w) (map_option (prediction_level_address rt ?k ?l) (pl_worse_price lv)) worse"
        using c by (auto simp: loaded_def)
      have at: "map_option (prediction_level_address rt ?k ?l) z = Some (prediction_level_address rt ?k l'' p'') \<longleftrightarrow>
          l'' = ?l \<and> z = Some p''" for z l'' p''
        by (cases z) (auto simp: prediction_level_address_eq [OF sep])
      have levels: "w_prediction_levels ?w' (prediction_level_address rt ?k l'' p'') = (if l'' = ?l \<and> p'' = ?p then None
          else if l'' = ?l \<and> gl_worse (prediction_level_view lv) = Some p''
            then map_option (pl_better_price_update (\<lambda>_. gl_better (prediction_level_view lv)))
              (w_prediction_levels w (prediction_level_address rt ?k l'' p''))
          else if l'' = ?l \<and> gl_better (prediction_level_view lv) = Some p''
            then map_option (pl_worse_price_update (\<lambda>_. gl_worse (prediction_level_view lv)))
              (w_prediction_levels w (prediction_level_address rt ?k l'' p''))
          else w_prediction_levels w (prediction_level_address rt ?k l'' p''))" for l'' p''
        using True
        by (simp add: defs level save_opt_upd [OF ba] save_opt_upd [OF wa] at prediction_level_address_eq [OF sep]
          del: map_option_eq_Some)
      have "pl_better_price lv = pl_worse_price lv \<longrightarrow> pl_better_price lv = None"
        using c True by (auto simp: loaded_def)
      then show ?thesis
        using True one by (intro prediction_records.remove_levels_one [OF prediction_kept prediction_kept _ _ levels]) simp_all
    next
      case False
      with c have no: "better = None" "worse = None" by simp_all
      show ?thesis
        by (rule prediction_records.remove_levels_many [OF prediction_kept prediction_kept, where
              v' = "lv\<lparr>pl_first_order := (if previous = None then map_option key next else pl_first_order lv),
                pl_last_order := (if next = None then map_option key previous else pl_last_order lv),
                pl_order_count := level_count, pl_total_remaining_quantity := tot\<rparr>"])
          (use False one no links diffs in \<open>auto simp: defs level save_opt_def prediction_level_address_eq [OF sep]
            prediction_level_view_def\<close>)
    qed
    show "gb_best ?g' = (if gl_count (prediction_level_view lv) = 1 \<and> gl_better (prediction_level_view lv) = None
        then (gb_best ?g)(?l := gl_worse (prediction_level_view lv)) else gb_best ?g)"
      using c one by (auto simp: root)
    show "gb_next_id ?g' = gb_next_id ?g" by (simp add: root)
    show "gb_open ?g' = gb_open ?g - 1" by (simp add: root diffs)
  qed
  moreover have "gstep prediction_bid ?g (GCancel ?l ?p ?j)
      (g_remove ?l ?p ?j 0 (prediction_order_view r) (prediction_level_view lv) ?g)"
    by (rule gstep.cancel) (use view r in simp_all)
  ultimately show ?thesis by simp
qed

lemma cancel_prediction_refines:
  assumes ok: "cancel_prediction_order rt w ks i = Inr w'"
    and sep: "prediction_levels_separate rt (cpo_market ks)"
  shows "\<exists>r. w_prediction_orders w (cpo_order ks) = Some r \<and>
    gstep prediction_bid (prediction_view rt (cpo_market ks) w)
      (GCancel (po_outcome r, po_side r) (po_price r) (cpo_order ks)) (prediction_view rt (cpo_market ks) w')"
proof -
  let ?k = "cpo_market ks"
  obtain m b r lv best pv nx better worse lc lt mc f l p u where
    m: "w_predictions w ?k = Some m" and b: "w_prediction_books w (cpo_order_book ks) = Some b"
    and book: "cpo_order_book ks = address rt (PredictionBookPda ?k)"
    and r: "w_prediction_orders w (cpo_order ks) = Some r" "po_market r = ?k" "po_status r = Open"
    and lv: "w_prediction_levels w (cpo_price_level ks) = Some lv"
    and level: "cpo_price_level ks = address rt (PredictionLevelPda ?k (po_outcome r) (po_side r) (po_price r))"
    and loads: "loaded (w_prediction_orders w) (cpo_previous_order ks) pv"
      "loaded (w_prediction_orders w) (cpo_next_order ks) nx"
      "loaded (w_prediction_levels w) (cpo_better_level ks) better"
      "loaded (w_prediction_levels w) (cpo_worse_level ks) worse"
    and dist: "distinct (keys_of [Some (cpo_order ks), cpo_previous_order ks, cpo_next_order ks])"
      "distinct (keys_of [Some (cpo_price_level ks), cpo_better_level ks, cpo_worse_level ks])"
    and links: "map_option key pv = po_previous_order r" "map_option key nx = po_next_order r"
    and sums: "checked_sub (pl_order_count lv) 1 = Some lc"
      "checked_sub (pl_total_remaining_quantity lv) (po_remaining_quantity r) = Some lt"
      "checked_sub (pm_open_order_count m) 1 = Some mc"
    and hints: "(if lc = 0
        then require (map_option key pv = None \<and> map_option key nx = None \<and> lt = 0) PredictionOrderAccountingMismatch
         (ok_or (cpo_level_rent_recipient ks) InvalidPredictionRentRecipient (\<lambda>recipient.
          require (recipient = pl_rent_payer lv) InvalidPredictionRentRecipient
         (require (map_option key better = map_option (\<lambda>price. fst (derive_prediction_price_level_pda rt (program_id rt)
                (po_market r) (po_outcome r) (po_side r) price)) (pl_better_price lv) \<and>
              map_option key worse = map_option (\<lambda>price. fst (derive_prediction_price_level_pda rt (program_id rt)
                (po_market r) (po_outcome r) (po_side r) price)) (pl_worse_price lv)) InvalidPredictionPriceLevel
         (try_in (check_option better (\<lambda>n. validate_price_neighbor rt n (Account (cpo_price_level ks) lv) best True)) (\<lambda>_.
          check_option worse (\<lambda>n. validate_price_neighbor rt n (Account (cpo_price_level ks) lv) best False))))))
        else require (lt > 0 \<and> (map_option key pv \<noteq> None \<or> map_option key nx \<noteq> None)) PredictionOrderAccountingMismatch
         (require (better = None \<and> worse = None \<and> cpo_level_rent_recipient ks = None)
            InvalidPredictionPriceLevel (Inr ()))) = Inr u"
    and w': "unlink_prediction ks m b r lv pv nx better worse lc lt mc
      (put_position (cpo_position ks) (set_bucket (po_outcome r) (po_side r) f l p) w) = w'"
    using ok unfolding cancel_prediction_order_def run_inversions load_opt_Inr
    by (elim exE conjE) (rule that; assumption)
  have ends: "if lc = 0
    then map_option key better = map_option (prediction_level_address rt ?k (po_outcome r, po_side r)) (pl_better_price lv) \<and>
      map_option key worse = map_option (prediction_level_address rt ?k (po_outcome r, po_side r)) (pl_worse_price lv)
    else better = None \<and> worse = None"
    using hints r(2)
    by (auto simp: run_inversions derive_is_pda prediction_level_address_def [abs_def] address_def split: if_splits)
  have "unlink_checked rt ?k w ks r lv pv nx better worse lc"
    unfolding unlink_checked_def using loads dist links ends by (intro conjI) simp_all
  from unlink_prediction_refines [OF sep m b book r lv level [folded prediction_level_address_def [of rt ?k
      "(po_outcome r, po_side r)" "po_price r", simplified]] this sums] w' r(1)
  show ?thesis by blast
qed

section \<open>Matching\<close>

lemma check_prediction_maker_facts:
  assumes "check_prediction_maker rt m b a lv taker oc ts lim q = Inr x"
  shows "0 < q" "po_status (inner a) = Open" "best_price b oc (po_side (inner a)) = Some (po_price (inner a))"
    "pl_better_price lv = None" "pl_first_order lv = Some (key a)" "po_previous_order (inner a) = None"
    "0 < po_remaining_quantity (inner a)" "pl_order_count lv = 1 \<longleftrightarrow> po_next_order (inner a) = None"
  using assms by (auto simp: check_prediction_maker_def run_inversions split: if_splits)

text \<open>What a successful match has established about the accounts it edits.\<close>

definition fill_checked ::
  "runtime \<Rightarrow> world \<Rightarrow> MatchPredictionOrder \<Rightarrow> PredictionOrder \<Rightarrow> PredictionPriceLevel \<Rightarrow>
     PredictionOrder account option \<Rightarrow> PredictionPriceLevel account option \<Rightarrow> bool \<Rightarrow> bool" where
  "fill_checked rt w ks r lv nx ws full \<longleftrightarrow>
     loaded (w_prediction_orders w) (mpo_next_order ks) nx \<and> loaded (w_prediction_levels w) (mpo_worse_level ks) ws \<and>
     distinct (keys_of [Some (mpo_price_level ks), mpo_worse_level ks]) \<and>
     pl_better_price lv = None \<and> po_previous_order r = None \<and> (pl_order_count lv = 1 \<longleftrightarrow> po_next_order r = None) \<and>
     (if full then map_option key nx = po_next_order r else nx = None) \<and>
     (if full \<and> pl_order_count lv = 1
      then map_option key ws =
        map_option (prediction_level_address rt (mpo_market ks) (po_outcome r, po_side r)) (pl_worse_price lv)
      else ws = None)"

lemma prediction_take_view:
  assumes sep: "prediction_levels_separate rt (mpo_market ks)"
    and m: "w_predictions w (mpo_market ks) = Some m"
    and b: "w_prediction_books w (mpo_order_book ks) = Some b"
    and book: "mpo_order_book ks = address rt (PredictionBookPda (mpo_market ks))"
    and r: "w_prediction_orders w (mpo_maker_order ks) = Some r" "po_market r = mpo_market ks"
    and lv: "w_prediction_levels w (mpo_price_level ks) = Some lv"
    and level: "mpo_price_level ks = prediction_level_address rt (mpo_market ks) (po_outcome r, po_side r) (po_price r)"
    and rem: "po_remaining_quantity r - a \<noteq> 0" and lq: "checked_sub (pl_total_remaining_quantity lv) a = Some lq"
  shows "prediction_view rt (mpo_market ks) (fill_prediction ks (po_outcome r) m b r lv None None
      (po_remaining_quantity r - a) backing lq (pm_open_order_count m) (w\<lparr>w_positions := ps, w_spot := sp\<rparr>)) =
    g_take (po_outcome r, po_side r) (po_price r) (mpo_maker_order ks) a (prediction_view rt (mpo_market ks) w)"
    (is "prediction_view _ _ ?w' = _")
proof -
  let ?k = "mpo_market ks" and ?l = "(po_outcome r, po_side r)"
  note defs = fill_prediction_def Let_def save_opt_def
  have b': "w_prediction_books ?w' (address rt (PredictionBookPda ?k)) = Some b"
    and m': "w_predictions ?w' ?k = Some m"
    using rem by (simp_all add: defs book)
  note root = prediction_view_root [OF b [unfolded book]] prediction_view_root [OF b']
    prediction_view_open [OF m] prediction_view_open [OF m']
  show ?thesis
  proof (rule prediction_records.take_view [OF prediction_kept prediction_kept _ r, where
        r' = "r\<lparr>po_remaining_quantity := po_remaining_quantity r - a, po_locked_collateral := backing\<rparr>" and
        v = lv and v' = "lv\<lparr>pl_total_remaining_quantity := lq\<rparr>"])
    show "gb_best (prediction_view rt ?k ?w') = gb_best (prediction_view rt ?k w)"
      "gb_next_id (prediction_view rt ?k ?w') = gb_next_id (prediction_view rt ?k w)"
      "gb_open (prediction_view rt ?k ?w') = gb_open (prediction_view rt ?k w)"
      by (simp_all add: root)
  qed (use rem r lv level lq in \<open>auto simp: defs prediction_order_view_def prediction_level_view_def
      prediction_level_address_eq [OF sep] word_sub_eq\<close>)
qed

lemma prediction_fill_view:
  assumes sep: "prediction_levels_separate rt (mpo_market ks)"
    and m: "w_predictions w (mpo_market ks) = Some m"
    and b: "w_prediction_books w (mpo_order_book ks) = Some b"
    and book: "mpo_order_book ks = address rt (PredictionBookPda (mpo_market ks))"
    and r: "w_prediction_orders w (mpo_maker_order ks) = Some r" "po_market r = mpo_market ks"
    and lv: "w_prediction_levels w (mpo_price_level ks) = Some lv"
    and level: "mpo_price_level ks = prediction_level_address rt (mpo_market ks) (po_outcome r, po_side r) (po_price r)"
    and chk: "fill_checked rt w ks r lv nx ws True"
    and lq: "checked_sub (pl_total_remaining_quantity lv) (po_remaining_quantity r) = Some lq"
    and count: "checked_sub (pm_open_order_count m) 1 = Some nc"
  shows "prediction_view rt (mpo_market ks) (fill_prediction ks (po_outcome r) m b r lv nx ws 0 backing lq nc
      (w\<lparr>w_positions := ps, w_spot := sp\<rparr>)) =
    g_remove (po_outcome r, po_side r) (po_price r) (mpo_maker_order ks) 0 (prediction_order_view r)
      (prediction_level_view lv) (prediction_view rt (mpo_market ks) w)"
    (is "prediction_view _ _ ?w' = _")
proof (rule prediction_records.remove_view)
  let ?k = "mpo_market ks" and ?j = "mpo_maker_order ks" and ?l = "(po_outcome r, po_side r)" and ?p = "po_price r"
  let ?g = "prediction_view rt ?k w" and ?g' = "prediction_view rt ?k ?w'"
  note defs = fill_prediction_def Let_def
  note c = chk [unfolded fill_checked_def]
  have na: "loaded (w_prediction_orders w) (po_next_order r) nx" and no_prev: "po_previous_order r = None"
    and no_better: "pl_better_price lv = None"
    using c by (auto simp: loaded_def)
  have diffs: "pl_total_remaining_quantity lv - po_remaining_quantity r = lq" "pm_open_order_count m - 1 = nc"
    using lq count by (simp_all add: word_sub_eq)
  have b': "w_prediction_books ?w' (address rt (PredictionBookPda ?k)) =
      Some (if pl_order_count lv = 1 then set_best_price b (po_outcome r) (po_side r) (pl_worse_price lv) else b)"
    and m': "w_predictions ?w' ?k = Some (m\<lparr>pm_open_order_count := nc\<rparr>)"
    by (simp_all add: defs book)
  note root = prediction_view_root [OF b [unfolded book]] prediction_view_root [OF b']
    prediction_view_open [OF m] prediction_view_open [OF m']
  show "gb_orders ?g' x = gb_orders (g_remove ?l ?p ?j 0 (prediction_order_view r) (prediction_level_view lv) ?g) x" for x
    by (rule prediction_records.remove_orders [OF prediction_kept prediction_kept r, where
          r' = "r\<lparr>po_remaining_quantity := 0, po_locked_collateral := backing, po_status := Filled,
            po_previous_order := None, po_next_order := None\<rparr>"])
      (use r no_prev in \<open>auto simp: prediction_order_view_def defs save_opt_upd [OF na]\<close>)
  show "gb_levels ?g' (l', p') =
      gb_levels (g_remove ?l ?p ?j 0 (prediction_order_view r) (prediction_level_view lv) ?g) (l', p')" for l' p'
  proof (cases "pl_order_count lv = 1")
    case True
    then have wa: "loaded (w_prediction_levels w) (map_option (prediction_level_address rt ?k ?l) (pl_worse_price lv)) ws"
      using c by (auto simp: loaded_def)
    have at: "map_option (prediction_level_address rt ?k ?l) z = Some (prediction_level_address rt ?k l'' p'') \<longleftrightarrow>
        l'' = ?l \<and> z = Some p''" for z l'' p''
      by (cases z) (auto simp: prediction_level_address_eq [OF sep])
    have levels: "w_prediction_levels ?w' (prediction_level_address rt ?k l'' p'') = (if l'' = ?l \<and> p'' = ?p then None
        else if l'' = ?l \<and> gl_worse (prediction_level_view lv) = Some p''
          then map_option (pl_better_price_update (\<lambda>_. gl_better (prediction_level_view lv)))
            (w_prediction_levels w (prediction_level_address rt ?k l'' p''))
        else if l'' = ?l \<and> gl_better (prediction_level_view lv) = Some p''
          then map_option (pl_worse_price_update (\<lambda>_. gl_worse (prediction_level_view lv)))
            (w_prediction_levels w (prediction_level_address rt ?k l'' p''))
        else w_prediction_levels w (prediction_level_address rt ?k l'' p''))" for l'' p''
      using True no_better
      by (simp add: defs level save_opt_upd [OF wa] at prediction_level_address_eq [OF sep] del: map_option_eq_Some)
    show ?thesis
      using True no_better
      by (intro prediction_records.remove_levels_one [OF prediction_kept prediction_kept _ _ levels]) simp_all
  next
    case False
    with c have "ws = None" "po_next_order r \<noteq> None" by simp_all
    then show ?thesis
      by (intro prediction_records.remove_levels_many [OF prediction_kept prediction_kept, where
            v' = "lv\<lparr>pl_total_remaining_quantity := lq, pl_order_count := pl_order_count lv - 1,
              pl_first_order := po_next_order r\<rparr>"])
        (use False no_prev diffs in \<open>auto simp: defs level save_opt_def prediction_level_address_eq [OF sep]
          prediction_level_view_def\<close>)
  qed
  show "gb_best ?g' = (if gl_count (prediction_level_view lv) = 1 \<and> gl_better (prediction_level_view lv) = None
      then (gb_best ?g)(?l := gl_worse (prediction_level_view lv)) else gb_best ?g)"
    using no_better by (simp add: root)
  show "gb_next_id ?g' = gb_next_id ?g" by (simp add: root)
  show "gb_open ?g' = gb_open ?g - 1" by (simp add: root diffs)
qed

text \<open>The event a match performs, read off the maker's record before and after.\<close>

definition prediction_fill_event :: "world \<Rightarrow> pubkey \<Rightarrow> world \<Rightarrow> prediction_list gevent" where
  "prediction_fill_event w j w' =
     (let r = the (w_prediction_orders w j); r' = the (w_prediction_orders w' j); l = (po_outcome r, po_side r) in
      if po_status r' = Filled then GFillAll l (po_price r) j
      else GFillPart l (po_price r) j (po_remaining_quantity r - po_remaining_quantity r'))"

lemma check_promoted_key:
  assumes "check_promoted rt k oc a lk promotes nx = Inr u"
  shows "map_option key nx = (if promotes then po_next_order (inner a) else None)"
  using assms by (cases nx) (auto simp: check_promoted_def run_inversions case_prod_beta split: if_splits)

text \<open>The accounts a match named and the amounts it computed.\<close>

definition match_prediction_checked ::
  "runtime \<Rightarrow> world \<Rightarrow> MatchPredictionOrder \<Rightarrow> u64 \<Rightarrow> world \<Rightarrow> PredictionMarket \<Rightarrow> PredictionOrderBook \<Rightarrow>
     PredictionOrder \<Rightarrow> PredictionPriceLevel \<Rightarrow> bool" where
  "match_prediction_checked rt w ks q w' m b r lv \<longleftrightarrow>
     w_predictions w (mpo_market ks) = Some m \<and> w_prediction_books w (mpo_order_book ks) = Some b \<and>
     mpo_order_book ks = address rt (PredictionBookPda (mpo_market ks)) \<and>
     w_prediction_orders w (mpo_maker_order ks) = Some r \<and> po_market r = mpo_market ks \<and> po_status r = Open \<and>
     w_prediction_levels w (mpo_price_level ks) = Some lv \<and>
     mpo_price_level ks = prediction_level_address rt (mpo_market ks) (po_outcome r, po_side r) (po_price r) \<and>
     best_price b (po_outcome r) (po_side r) = Some (po_price r) \<and> pl_first_order lv = Some (mpo_maker_order ks) \<and>
     0 < q \<and> 0 < po_remaining_quantity r \<and>
     (let filled = min q (po_remaining_quantity r); rem = po_remaining_quantity r - filled in
      \<exists>nx ws backing lq nc ps sp. fill_checked rt w ks r lv nx ws (rem = 0) \<and>
        checked_sub (pl_total_remaining_quantity lv) filled = Some lq \<and>
        (if rem = 0 then checked_sub (pm_open_order_count m) 1 else Some (pm_open_order_count m)) = Some nc \<and>
        fill_prediction ks (po_outcome r) m b r lv nx ws rem backing lq nc (w\<lparr>w_positions := ps, w_spot := sp\<rparr>) = w')"

lemma match_prediction_ok:
  assumes "match_prediction_order rt w ks oc ts lim q = Inr w'"
  obtains m b r lv where "match_prediction_checked rt w ks q w' m b r lv" "po_outcome r = oc"
proof -
  let ?k = "mpo_market ks"
  obtain m b r lv nx ws backing lq nc nb mp' tp' accrued fees u u' where
    m: "w_predictions w ?k = Some m" and b: "w_prediction_books w (mpo_order_book ks) = Some b"
    and book: "mpo_order_book ks = address rt (PredictionBookPda ?k)"
    and r: "w_prediction_orders w (mpo_maker_order ks) = Some r" "po_market r = ?k" "po_outcome r = oc"
    and lv: "w_prediction_levels w (mpo_price_level ks) = Some lv"
    and level: "mpo_price_level ks = address rt (PredictionLevelPda ?k oc (po_side r) (po_price r))"
    and loads: "loaded (w_prediction_orders w) (mpo_next_order ks) nx"
      "loaded (w_prediction_levels w) (mpo_worse_level ks) ws"
    and dist: "distinct (keys_of [Some (mpo_price_level ks), mpo_worse_level ks])"
    and chk: "check_prediction_maker rt m b (Account (mpo_maker_order ks) r) lv (mpo_taker ks) oc ts lim q = Inr backing"
    and lq: "checked_sub (pl_total_remaining_quantity lv) (min q (po_remaining_quantity r)) = Some lq"
    and promoted: "check_promoted rt ?k oc (Account (mpo_maker_order ks) r) (mpo_price_level ks)
      (po_remaining_quantity r - min q (po_remaining_quantity r) = 0 \<and>
       \<not> (po_remaining_quantity r - min q (po_remaining_quantity r) = 0 \<and> pl_order_count lv = 1)) nx = Inr u"
    and emptied: "check_emptied rt ?k oc r lv lq
      (po_remaining_quantity r - min q (po_remaining_quantity r) = 0 \<and> pl_order_count lv = 1) ws
      (mpo_level_rent_recipient ks) = Inr u'"
    and count: "(if po_remaining_quantity r - min q (po_remaining_quantity r) = 0
      then checked_sub (pm_open_order_count m) 1 else Some (pm_open_order_count m)) = Some nc"
    and w': "fill_prediction ks oc m b r lv nx ws (po_remaining_quantity r - min q (po_remaining_quantity r)) nb lq nc
      (w\<lparr>w_positions := (w_positions w)(mpo_maker_position ks \<mapsto> mp', mpo_taker_position ks \<mapsto> tp'),
         w_spot := (w_spot w)\<lparr>ss_fees := save (upd_inner (\<lambda>f. f\<lparr>mf_accrued_quote_fees := accrued\<rparr>)
            (Account (mpo_market_fees ks) fees)) (ss_fees (w_spot w))\<rparr>\<rparr>) = w'"
    using assms unfolding match_prediction_order_def run_inversions load_opt_Inr
    by (elim exE conjE) (rule that; assumption)
  let ?rem = "po_remaining_quantity r - min q (po_remaining_quantity r)"
  note maker = check_prediction_maker_facts [OF chk, simplified]
  have nx: "if ?rem = 0 then map_option key nx = po_next_order r else nx = None"
    using check_promoted_key [OF promoted] maker(8) by (auto split: if_splits)
  have ws: "if ?rem = 0 \<and> pl_order_count lv = 1
    then map_option key ws = map_option (prediction_level_address rt ?k (oc, po_side r)) (pl_worse_price lv) else ws = None"
    using emptied
    by (auto simp: check_emptied_def run_inversions derive_is_pda prediction_level_address_def [abs_def] address_def
      split: if_splits)
  have "fill_checked rt w ks r lv nx ws (?rem = 0)"
    unfolding fill_checked_def using loads dist maker nx ws r(3) by (intro conjI) simp_all
  then have "match_prediction_checked rt w ks q w' m b r lv"
    unfolding match_prediction_checked_def Let_def r(3)
    using m b book r lv level maker lq count w' by (intro conjI exI) (assumption | simp add: prediction_level_address_def; fail)+
  then show thesis using that r(3) by blast
qed

lemma match_prediction_refines:
  assumes ok: "match_prediction_order rt w ks oc ts lim q = Inr w'"
    and sep: "prediction_levels_separate rt (mpo_market ks)"
  shows "gstep prediction_bid (prediction_view rt (mpo_market ks) w) (prediction_fill_event w (mpo_maker_order ks) w')
    (prediction_view rt (mpo_market ks) w')"
proof -
  let ?k = "mpo_market ks" and ?j = "mpo_maker_order ks"
  let ?g = "prediction_view rt ?k w"
  obtain m b r lv where chk: "match_prediction_checked rt w ks q w' m b r lv"
    by (rule match_prediction_ok [OF ok])
  let ?l = "(po_outcome r, po_side r)" and ?a = "min q (po_remaining_quantity r)"
  let ?rem = "po_remaining_quantity r - ?a"
  from chk have m: "w_predictions w ?k = Some m" and b: "w_prediction_books w (mpo_order_book ks) = Some b"
    and book: "mpo_order_book ks = address rt (PredictionBookPda ?k)"
    and r: "w_prediction_orders w ?j = Some r" "po_market r = ?k" "po_status r = Open"
    and lv: "w_prediction_levels w (mpo_price_level ks) = Some lv"
    and level: "mpo_price_level ks = prediction_level_address rt ?k ?l (po_price r)"
    and best: "best_price b (po_outcome r) (po_side r) = Some (po_price r)" "pl_first_order lv = Some ?j"
    unfolding match_prediction_checked_def by blast+
  from chk obtain nx ws backing lq nc ps sp where fill: "fill_checked rt w ks r lv nx ws (?rem = 0)"
    and lq: "checked_sub (pl_total_remaining_quantity lv) ?a = Some lq"
    and nc: "(if ?rem = 0 then checked_sub (pm_open_order_count m) 1 else Some (pm_open_order_count m)) = Some nc"
    and w': "w' = fill_prediction ks (po_outcome r) m b r lv nx ws ?rem backing lq nc (w\<lparr>w_positions := ps, w_spot := sp\<rparr>)"
    unfolding match_prediction_checked_def Let_def by blast
  have view: "gb_best ?g ?l = Some (po_price r)" "gb_levels ?g (?l, po_price r) = Some (prediction_level_view lv)"
    "gl_first (prediction_level_view lv) = Some ?j" "gb_orders ?g ?j = Some (prediction_order_view r)"
    using best lv level r by (simp_all add: prediction_view_root [OF b [unfolded book]] prediction_view_level prediction_view_order)
  show ?thesis
  proof (cases "?rem = 0")
    case False
    then have "nx = None" "ws = None" "nc = pm_open_order_count m" using fill nc by (simp_all add: fill_checked_def)
    then have v: "prediction_view rt ?k w' = g_take ?l (po_price r) ?j ?a ?g"
      using prediction_take_view [OF sep m b book r(1,2) lv level False lq] w' by simp
    have "?a < po_remaining_quantity r" using False by (auto simp: min_def split: if_splits)
    then have "unat ?a < remaining_of ?g ?j" using view(4) by (simp add: remaining_of_def word_less_nat_alt)
    from gstep.part [OF view(1,2,3) this] v
    have "gstep prediction_bid ?g (GFillPart ?l (po_price r) ?j ?a) (prediction_view rt ?k w')" by simp
    moreover have "prediction_fill_event w ?j w' = GFillPart ?l (po_price r) ?j ?a"
      using r False by (simp add: prediction_fill_event_def w' fill_prediction_def Let_def)
    ultimately show ?thesis by simp
  next
    case True
    then have whole: "?a = po_remaining_quantity r" by simp
    have fill': "fill_checked rt w ks r lv nx ws True" and nc': "checked_sub (pm_open_order_count m) 1 = Some nc"
      using fill nc True by simp_all
    have "prediction_view rt ?k w' =
        g_remove ?l (po_price r) ?j 0 (prediction_order_view r) (prediction_level_view lv) ?g"
      using prediction_fill_view [OF sep m b book r(1,2) lv level fill' lq [unfolded whole] nc'] w' True by simp
    with gstep.full [OF view]
    have "gstep prediction_bid ?g (GFillAll ?l (po_price r) ?j) (prediction_view rt ?k w')" by simp
    moreover have "prediction_fill_event w ?j w' = GFillAll ?l (po_price r) ?j"
      using r True by (simp add: prediction_fill_event_def w' fill_prediction_def Let_def)
    ultimately show ?thesis by simp
  qed
qed

section \<open>The book of a question\<close>

inductive prediction_book_step :: "runtime \<Rightarrow> pubkey \<Rightarrow> world \<Rightarrow> prediction_list gevent \<Rightarrow> world \<Rightarrow> bool"
  for rt :: runtime and k :: pubkey where
  book_place: "place_prediction_order (at_time now rt) w ks i oc sd p q = Inr w' \<Longrightarrow> ppo_market ks = k \<Longrightarrow>
    prediction_book_step rt k w (GInsert (oc, sd) p (ppo_order ks) q) w'"
| book_insert: "insert_prediction_order (at_time now rt) w ks bk wk i oc sd p q = Inr w' \<Longrightarrow> ppo_market ks = k \<Longrightarrow>
    prediction_book_step rt k w (GInsert (oc, sd) p (ppo_order ks) q) w'"
| book_append: "append_prediction_order (at_time now rt) w ks t i oc sd p q = Inr w' \<Longrightarrow> ppo_market ks = k \<Longrightarrow>
    prediction_book_step rt k w (GAppend (oc, sd) p (ppo_order ks) q) w'"
| book_cancel: "cancel_prediction_order (at_time now rt) w ks i = Inr w' \<Longrightarrow> cpo_market ks = k \<Longrightarrow>
    w_prediction_orders w (cpo_order ks) = Some r \<Longrightarrow>
    prediction_book_step rt k w (GCancel (po_outcome r, po_side r) (po_price r) (cpo_order ks)) w'"
| book_match: "match_prediction_order (at_time now rt) w ks oc ts lim q = Inr w' \<Longrightarrow> mpo_market ks = k \<Longrightarrow>
    prediction_book_step rt k w (prediction_fill_event w (mpo_maker_order ks) w') w'"

lemma prediction_step_refines:
  assumes sep: "prediction_levels_separate rt k" and step: "prediction_book_step rt k w e w'"
  shows "gstep prediction_bid (prediction_view rt k w) e (prediction_view rt k w')"
  using step
proof cases
  case (book_place now ks i oc sd p q)
  with place_prediction_refines [OF book_place(2)] sep show ?thesis by simp
next
  case (book_insert now ks bk wk i oc sd p q)
  with insert_prediction_refines [OF book_insert(2)] sep show ?thesis by simp
next
  case (book_append now ks t i oc sd p q)
  with append_prediction_refines [OF book_append(2)] sep show ?thesis by simp
next
  case (book_cancel now ks i r)
  with cancel_prediction_refines [OF book_cancel(2)] sep show ?thesis by auto
next
  case (book_match now ks oc ts lim q)
  with match_prediction_refines [OF book_match(2)] sep show ?thesis by simp
qed

interpretation prediction_book: order_book prediction_bid "prediction_view rt k" "\<lambda>_. prediction_levels_separate rt k"
  "prediction_book_step rt k" for rt k
  by unfold_locales (auto intro: prediction_step_refines)

section \<open>Properties\<close>

text \<open>A question without orders, levels or heads: what its creation leaves.\<close>

definition fresh_prediction_book :: "runtime \<Rightarrow> pubkey \<Rightarrow> world \<Rightarrow> bool" where
  "fresh_prediction_book rt k w \<longleftrightarrow>
     (\<exists>m. w_predictions w k = Some m \<and> pm_open_order_count m = 0) \<and>
     (\<exists>b. w_prediction_books w (address rt (PredictionBookPda k)) = Some b \<and> (\<forall>oc sd. best_price b oc sd = None)) \<and>
     (\<forall>j r. w_prediction_orders w j = Some r \<longrightarrow> po_market r \<noteq> k) \<and>
     (\<forall>l p. w_prediction_levels w (prediction_level_address rt k l p) = None)"

lemma fresh_prediction_book_inv:
  assumes "fresh_prediction_book rt k w"
  shows "book_inv prediction_bid (prediction_view rt k w)"
proof -
  obtain m b where m: "w_predictions w k = Some m" "pm_open_order_count m = 0"
    and b: "w_prediction_books w (address rt (PredictionBookPda k)) = Some b" "\<And>oc sd. best_price b oc sd = None"
    using assms by (auto simp: fresh_prediction_book_def)
  have none: "gb_orders (prediction_view rt k w) j = None" "gb_levels (prediction_view rt k w) (l, p) = None" for j l p
    using assms
    by (auto simp: fresh_prediction_book_def kept_inD(1) [OF prediction_kept] kept_inD(2) [OF prediction_kept]
      simp del: split_paired_All split: option.splits)
  have "book_rep prediction_bid (prediction_view rt k w) \<lparr>sp_prices = \<lambda>_. [], sp_queue = \<lambda>_. []\<rparr>"
    using b(2) m(2) none
    by (auto simp: book_rep_def prices_ok_def orders_ok_def count_ok_def open_keys_def prediction_view_root [OF b(1)]
      prediction_view_open [OF m(1)])
  then show ?thesis by (auto simp: book_inv_def)
qed

text \<open>C22: The book of a question stays well formed. From a fresh question on, every sequence of successful
  place, insert, append, cancel and match instructions, at any times, leaves in each of the four lists a
  strictly sorted chain of non-empty price levels headed by the root's best price, in each level a FIFO of
  open orders in id order with exact total and count, and an exact open-order counter.\<close>

theorem prediction_book_well_formed:
  assumes "prediction_levels_separate rt k"
    and "reach (fresh_prediction_book rt k) (\<lambda>v w. \<exists>e. prediction_book_step rt k v e w) w"
  shows "book_inv prediction_bid (prediction_view rt k w)"
  using assms(2)
proof induction
  case (reach_init w)
  then show ?case by (rule fresh_prediction_book_inv)
next
  case (reach_step v w)
  then show ?case using prediction_book.step_book_inv assms(1) by blast
qed

text \<open>C23: Price-time priority on a question. A match on a well-formed book consumes the maker that comes
  before every other open order of its outcome and side: better priced, or same priced and older.\<close>

theorem prediction_match_takes_best_order:
  assumes ok: "match_prediction_order (at_time now rt) w ks oc ts lim q = Inr w'"
    and sep: "prediction_levels_separate rt (mpo_market ks)"
    and inv: "book_inv prediction_bid (prediction_view rt (mpo_market ks) w)"
    and maker: "w_prediction_orders w (mpo_maker_order ks) = Some mk"
    and other: "w_prediction_orders w j = Some r" "po_market r = mpo_market ks" "po_status r = Open"
      "po_outcome r = oc" "po_side r = po_side mk" "j \<noteq> mpo_maker_order ks"
  shows "side_precedes (po_side mk) (po_price mk) (po_price r) \<or>
    (po_price r = po_price mk \<and> po_order_id mk < po_order_id r)"
proof -
  let ?k = "mpo_market ks" and ?j = "mpo_maker_order ks"
  obtain m b x lv where "match_prediction_checked (at_time now rt) w ks q w' m b x lv" "po_outcome x = oc"
    by (rule match_prediction_ok [OF ok])
  then have mk: "po_market mk = ?k" "po_outcome mk = oc" using maker by (auto simp: match_prediction_checked_def)
  then have id: "id_of (prediction_view rt ?k w) ?j = unat (po_order_id mk)"
    using prediction_view_order(1) [OF maker] by (simp add: id_of_def)
  have "prediction_book_step rt ?k w (prediction_fill_event w ?j w') w'" using ok by (rule book_match) simp
  then obtain a where step: "prediction_book_step rt ?k w (GFillPart (oc, po_side mk) (po_price mk) ?j a) w' \<or>
      prediction_book_step rt ?k w (GFillAll (oc, po_side mk) (po_price mk) ?j) w'"
    using maker mk by (auto simp: prediction_fill_event_def Let_def split: if_splits)
  have "precedes (prediction_bid (oc, po_side mk)) (po_price mk) (po_price r) \<or>
      (po_price r = po_price mk \<and> unat (po_order_id mk) < unat (po_order_id r))"
    using prediction_book.fill_takes_first [OF sep inv step prediction_view_order(1) [OF other(1,2)]] other
    by (simp add: id)
  then show ?thesis by (simp add: precedes_prediction word_less_nat_alt)
qed

end
