(* ===== verification/Prediction_Book_Demo.thy ===== *)
theory Prediction_Book_Demo
  imports Prediction_Priority Program_Demo
begin

text \<open>
  The book of a concrete question, evaluated step by step: two traders ask for YES contracts at one
  price, and a bidder takes from the older order. The run shows that the hypotheses of the properties
  of the prediction book are met.
\<close>

section \<open>The addresses of the question\<close>

lemma level_seed_ends:
  "take 12 (rev (concat (seeds (PredictionLevelPda k oc sd p)))) =
    rev (side_seed sd @ to_le_bytes p) @ [if oc = YesOutcome then 115 else 111]"
  by (cases oc) (simp_all add: ascii_def)

lemma example_prediction_levels: "prediction_levels_separate (example_runtime now) k"
  unfolding prediction_levels_separate_def collision_free_on_def
proof (intro ballI impI)
  fix a b
  assume "a \<in> range (\<lambda>(l, p). PredictionLevelPda k (fst l) (snd l) p)"
    "b \<in> range (\<lambda>(l, p). PredictionLevelPda k (fst l) (snd l) p)"
    and eq: "fst (pda (example_runtime now) a) = fst (pda (example_runtime now) b)"
  then obtain o1 s1 p1 o2 s2 p2 where ab: "a = PredictionLevelPda k o1 s1 p1" "b = PredictionLevelPda k o2 s2 p2"
    by auto
  have "take 32 (rev (concat (seeds a))) = take 32 (rev (concat (seeds b)))"
    by (rule example_address_inject [OF eq]) (simp_all add: ab)
  then have "take 12 (take 32 (rev (concat (seeds a)))) = take 12 (take 32 (rev (concat (seeds b))))"
    by (rule arg_cong)
  then have "take 12 (rev (concat (seeds a))) = take 12 (rev (concat (seeds b)))" by (simp only: take_take) simp
  then have "side_seed s1 @ to_le_bytes p1 = side_seed s2 @ to_le_bytes p2 \<and> (o1 = YesOutcome) = (o2 = YesOutcome)"
    unfolding ab level_seed_ends by (simp del: rev_append append_eq_append_conv2 split: if_splits)
  then show "concat (seeds a) = concat (seeds b)" by (cases o1; cases o2) (simp_all add: ab)
qed

definition pb_rt :: runtime where
  "pb_rt = example_runtime 0"

definition pb_market :: pubkey where
  "pb_market = address pb_rt (PredictionMarketPda 7)"

definition pb_position_key :: "pubkey \<Rightarrow> pubkey" where
  "pb_position_key owner = address pb_rt (PredictionPositionPda pb_market owner)"

definition pb_order :: "u64 \<Rightarrow> pubkey" where
  "pb_order i = address pb_rt (PredictionOrderPda pb_market i)"

definition pb_level :: pubkey where
  "pb_level = prediction_level_address pb_rt pb_market (YesOutcome, Ask) 7"

definition pb_book_key :: pubkey where
  "pb_book_key = address pb_rt (PredictionBookPda pb_market)"

lemma pb_orders_separate: "collision_free_on pb_rt (range (PredictionOrderPda k))"
  unfolding collision_free_on_def pb_rt_def
proof (intro ballI impI)
  fix a b
  assume "a \<in> range (PredictionOrderPda k)" "b \<in> range (PredictionOrderPda k)"
    and eq: "fst (pda (example_runtime 0) a) = fst (pda (example_runtime 0) b)"
  then obtain i j where ab: "a = PredictionOrderPda k i" "b = PredictionOrderPda k j" by blast
  have "take 8 (take 32 (rev (concat (seeds a)))) = take 8 (take 32 (rev (concat (seeds b))))"
    using example_address_inject [OF eq] by (simp add: ab seed_tags)
  then show "concat (seeds a) = concat (seeds b)" by (simp add: ab)
qed

lemma pb_positions_separate: "collision_free_on pb_rt (range (PredictionPositionPda k))"
  unfolding collision_free_on_def pb_rt_def
proof (intro ballI impI)
  fix a b
  assume "a \<in> range (PredictionPositionPda k)" "b \<in> range (PredictionPositionPda k)"
    and eq: "fst (pda (example_runtime 0) a) = fst (pda (example_runtime 0) b)"
  then obtain v w where ab: "a = PredictionPositionPda k v" "b = PredictionPositionPda k w" by blast
  have "rev (key_bytes v) = rev (key_bytes w)"
    using example_address_inject [OF eq] by (simp add: ab)
  then show "concat (seeds a) = concat (seeds b)" by (simp add: ab)
qed

lemma pb_address_eq [simp]:
  "pb_position_key v = pb_position_key w \<longleftrightarrow> v = w"
  "pb_order i = pb_order j \<longleftrightarrow> i = j"
  unfolding pb_position_key_def pb_order_def
  using address_eq [OF pb_positions_separate [of pb_market]] address_eq [OF pb_orders_separate [of pb_market]] by auto

lemma pb_addresses:
  "address pb_rt (PredictionMarketPda 7) = pb_market"
  "address pb_rt (PredictionPositionPda pb_market v) = pb_position_key v"
  "address pb_rt (PredictionOrderPda pb_market i) = pb_order i"
  "address pb_rt (PredictionLevelPda pb_market YesOutcome Ask 7) = pb_level"
  "address pb_rt (PredictionBookPda pb_market) = pb_book_key"
  by (simp_all add: pb_market_def pb_position_key_def pb_order_def pb_level_def pb_book_key_def
    prediction_level_address_def)

lemma pb_pda_time: "pda (at_time now pb_rt) r = pda pb_rt r"
  by (simp add: pda_def at_time_def)

section \<open>The run\<close>

definition pb_question :: "u64 \<Rightarrow> PredictionMarket" where
  "pb_question n = \<lparr>pm_market_id = 7, pm_authority = 1, pm_resolver = 1, pm_fallback = None, pm_collateral_mint = 13,
     pm_collateral_vault = 14, pm_metadata = 15, pm_question_hash = 1, pm_rules_hash = 1,
     pm_rules_uri = ascii ''ar://r'', pm_close_ts = 100, pm_earliest_resolution_ts = None,
     pm_resolution_delay_seconds = 10, pm_resolution_phase = Primary, pm_status = OpenTrading, pm_proposal = None,
     pm_final_outcome = None, pm_payout_per_contract = 10, pm_price_tick = 1, pm_yes_supply = 100,
     pm_no_supply = 100, pm_backing_reserve = 1000, pm_open_order_count = n, pm_bump = 255\<rparr>"

definition pb_root :: "u64 \<Rightarrow> u64 option \<Rightarrow> PredictionOrderBook" where
  "pb_root i ask = \<lparr>pob_market = pb_market, pob_next_order_id = i, pob_yes_best_bid = None, pob_yes_best_ask = ask,
     pob_no_best_bid = None, pob_no_best_ask = None, pob_bump = 255\<rparr>"

text \<open>A position: its owner, free cash, free and locked YES contracts.\<close>

definition pb_position :: "pubkey \<Rightarrow> u64 \<Rightarrow> u64 \<Rightarrow> u64 \<Rightarrow> PredictionPosition" where
  "pb_position owner cash yes locked = \<lparr>pos_market = pb_market, pos_owner = owner, pos_collateral_free = cash,
     pos_collateral_locked = 0, pos_yes_free = yes, pos_yes_locked = locked, pos_no_free = 0, pos_no_locked = 0,
     pos_bump = 255\<rparr>"

definition pb_fees :: "u64 \<Rightarrow> MarketFees" where
  "pb_fees n = \<lparr>mf_market = pb_market, mf_quote_mint = 13, mf_accrued_quote_fees = n, mf_bump = 255\<rparr>"

definition pb0 :: world where
  "pb0 = gov0\<lparr>w_predictions := [pb_market \<mapsto> pb_question 0],
     w_prediction_books := [pb_book_key \<mapsto> pb_root 1 None],
     w_positions := [pb_position_key 100 \<mapsto> pb_position 100 0 50 0, pb_position_key 101 \<mapsto> pb_position 101 0 50 0,
       pb_position_key 102 \<mapsto> pb_position 102 1000 0 0],
     w_spot := empty_spot\<lparr>ss_fees := [address pb_rt (MarketFeesPda pb_market) \<mapsto> pb_fees 0],
       ss_configs := [address pb_rt ProtocolConfigPda \<mapsto> \<lparr>cfg_super_admin = 1, cfg_taker_fee_bps = 100, cfg_bump = 255\<rparr>]\<rparr>\<rparr>"

definition pb_place_keys :: "pubkey \<Rightarrow> u64 \<Rightarrow> PlacePredictionOrder" where
  "pb_place_keys owner i = \<lparr>ppo_owner = owner, ppo_market = pb_market, ppo_position = pb_position_key owner,
     ppo_order_book = pb_book_key, ppo_price_level = pb_level, ppo_order = pb_order i\<rparr>"

definition pb_resting :: "pubkey \<Rightarrow> u64 \<Rightarrow> u64 \<Rightarrow> u64 \<Rightarrow> pubkey option \<Rightarrow> pubkey option \<Rightarrow> PredictionOrder" where
  "pb_resting owner i q left prev nxt = (new_prediction_order pb_rt (pb_place_keys owner i) i YesOutcome Ask 7 q left prev)
     \<lparr>po_next_order := nxt, po_remaining_quantity := left\<rparr>"

definition pb_queue :: "u64 \<Rightarrow> u64 \<Rightarrow> u64 \<Rightarrow> PredictionPriceLevel" where
  "pb_queue last_id n q = (new_prediction_level pb_rt (pb_place_keys 100 1) YesOutcome Ask 7 q None None)
     \<lparr>pl_last_order := Some (pb_order last_id), pl_order_count := n\<rparr>"

definition pb1 :: world where
  "pb1 = pb0\<lparr>w_predictions := [pb_market \<mapsto> pb_question 1], w_prediction_books := [pb_book_key \<mapsto> pb_root 2 (Some 7)],
     w_positions := (w_positions pb0)(pb_position_key 100 \<mapsto> pb_position 100 0 30 20),
     w_prediction_levels := [pb_level \<mapsto> pb_queue 1 1 20],
     w_prediction_orders := [pb_order 1 \<mapsto> pb_resting 100 1 20 20 None None]\<rparr>"

definition pb2 :: world where
  "pb2 = pb1\<lparr>w_predictions := [pb_market \<mapsto> pb_question 2], w_prediction_books := [pb_book_key \<mapsto> pb_root 3 (Some 7)],
     w_positions := (w_positions pb1)(pb_position_key 101 \<mapsto> pb_position 101 0 40 10),
     w_prediction_levels := [pb_level \<mapsto> pb_queue 2 2 30],
     w_prediction_orders := [pb_order 1 \<mapsto> pb_resting 100 1 20 20 None (Some (pb_order 2)),
       pb_order 2 \<mapsto> pb_resting 101 2 10 10 (Some (pb_order 1)) None]\<rparr>"

lemmas pb_values = pb_question_def pb_root_def pb_position_def pb_place_keys_def pb_resting_def pb_queue_def pb_fees_def
  new_prediction_order_def new_prediction_level_def

lemmas pb_worlds = pb0_def pb1_def pb2_def gov0_def empty_spot_def

lemmas pb_eval = load_prediction_def load_position_def load_prediction_book_def load_prediction_level_def load_def
  load_opt_def validate_resting_order_def lock_resting_funds_def checked_add_def checked_sub_def checked_mul_def
  ilt_def is_multiple_of_def try_in_def Let_def save_opt_def

lemma pb_place: "place_prediction_order (at_time 0 pb_rt) pb0 (pb_place_keys 100 1) 1 YesOutcome Ask 7 20 = Inr pb1"
  by (simp add: place_prediction_order_def pb_eval pb_worlds pb_values pb_addresses pb_pda_time)

lemma pb_append:
  "append_prediction_order (at_time 0 pb_rt) pb1 (pb_place_keys 101 2) (pb_order 1) 2 YesOutcome Ask 7 10 = Inr pb2"
  by (simp add: append_prediction_order_def check_prediction_tail_def pb_eval pb_worlds pb_values pb_addresses pb_pda_time)

definition pb_match_keys :: MatchPredictionOrder where
  "pb_match_keys = \<lparr>mpo_taker = 102, mpo_market = pb_market, mpo_order_book = pb_book_key,
     mpo_protocol_config = address pb_rt ProtocolConfigPda, mpo_market_fees = address pb_rt (MarketFeesPda pb_market),
     mpo_maker_order = pb_order 1, mpo_price_level = pb_level, mpo_maker_position = pb_position_key 100,
     mpo_taker_position = pb_position_key 102, mpo_next_order = None, mpo_worse_level = None,
     mpo_level_rent_recipient = None\<rparr>"

lemma pb_fee: "calculate_taker_fee 35 100 = Inr 1"
  by (simp add: calculate_taker_fee_Inr fee_ceiling_def)

lemma pb_match: "\<exists>w. match_prediction_order (at_time 0 pb_rt) pb2 pb_match_keys YesOutcome Bid 8 5 = Inr w"
  by (simp add: match_prediction_order_def check_prediction_maker_def expected_lock_def check_promoted_def
      check_emptied_def settle_prediction_def contracts_locked_def contracts_free_def min_def pb_match_keys_def pb_fee
      pb_eval pb_worlds pb_values pb_addresses pb_pda_time)

section \<open>The hypotheses are met\<close>

lemma pb_reach: "reach (fresh_prediction_book pb_rt pb_market)
    (\<lambda>v w. \<exists>e. prediction_book_step pb_rt pb_market v e w) pb2"
proof (rule reach_step [OF reach_step [OF reach_init]])
  have "best_price (pb_root 1 None) oc sd = None" for oc sd by (cases oc; cases sd) (simp_all add: pb_root_def)
  then show "fresh_prediction_book pb_rt pb_market pb0"
    by (simp add: fresh_prediction_book_def pb_addresses pb_worlds pb_question_def)
  have "ppo_market (pb_place_keys v i) = pb_market" for v i by (simp add: pb_place_keys_def)
  then show "\<exists>e. prediction_book_step pb_rt pb_market pb0 e pb1" "\<exists>e. prediction_book_step pb_rt pb_market pb1 e pb2"
    using pb_place pb_append by (blast intro: book_place book_append)+
qed

lemma pb_separate: "prediction_levels_separate pb_rt k"
  unfolding pb_rt_def by (rule example_prediction_levels)

lemma pb_inv: "book_inv prediction_bid (prediction_view pb_rt pb_market pb2)"
  using pb_reach
proof induction
  case (reach_init w)
  then show ?case by (rule fresh_prediction_book_inv)
next
  case (reach_step v w)
  then show ?case using prediction_book.step_book_inv pb_separate by blast
qed

theorem prediction_book_well_formed_witness: "book_inv prediction_bid (prediction_view pb_rt pb_market pb2)"
  by (rule prediction_book_well_formed [OF pb_separate pb_reach])

theorem prediction_match_takes_best_order_witness:
  "\<exists>maker other. w_prediction_orders pb2 (pb_order 1) = Some maker \<and> w_prediction_orders pb2 (pb_order 2) = Some other \<and>
     po_price other = po_price maker \<and> po_order_id maker < po_order_id other"
proof -
  obtain w where ok: "match_prediction_order (at_time 0 pb_rt) pb2 pb_match_keys YesOutcome Bid 8 5 = Inr w"
    using pb_match by blast
  have keys: "mpo_market pb_match_keys = pb_market" "mpo_maker_order pb_match_keys = pb_order 1"
    by (simp_all add: pb_match_keys_def)
  show ?thesis
    using prediction_match_takes_best_order [OF ok, of "pb_resting 100 1 20 20 None (Some (pb_order 2))" "pb_order 2"
        "pb_resting 101 2 10 10 (Some (pb_order 1)) None"] pb_separate pb_inv
    by (simp add: keys pb2_def pb_values side_precedes_def)
qed

end
