(* ===== verification/Borsh.thy ===== *)
theory Borsh
  imports Prelude
begin

text \<open>
  The serialization format between the program's events and the indexer. Borsh is a third-party
  crate: its primitive codecs are a parameter, with the round trip they document. What the sources
  write, derived structs (the fields in declaration order) and fieldless enums (the position of the
  variant in one byte), is composed from them, and the composition keeps the round trip.
\<close>

datatype 'a codec = Codec (enc: "'a \<Rightarrow> bytes") (dec: "bytes \<Rightarrow> ('a \<times> bytes) option") (fits: "'a \<Rightarrow> bool")

text \<open>\<open>fits\<close> says which values have an encoding (strings below 4 GiB). A decoder takes back exactly
  the encoding of a value and leaves the rest of the input.\<close>

definition codec_ok :: "'a codec \<Rightarrow> bool" where
  "codec_ok c \<longleftrightarrow>
     (\<forall>x rest. fits c x \<longrightarrow> dec c (enc c x @ rest) = Some (x, rest)) \<and>
     (\<forall>bs x rest. dec c bs = Some (x, rest) \<longrightarrow> fits c x \<and> bs = enc c x @ rest)"

named_theorems codec_intros "the composed codecs keep the round trip"

lemma codec_okI:
  assumes "\<And>x rest. fits c x \<Longrightarrow> dec c (enc c x @ rest) = Some (x, rest)"
    and "\<And>bs x rest. dec c bs = Some (x, rest) \<Longrightarrow> fits c x \<and> bs = enc c x @ rest"
  shows "codec_ok c"
  using assms by (simp add: codec_ok_def)

lemma codec_okD:
  assumes "codec_ok c"
  shows "fits c x \<Longrightarrow> dec c (enc c x @ rest) = Some (x, rest)"
    and "dec c bs = Some (x, rest) \<Longrightarrow> fits c x \<and> bs = enc c x @ rest"
  using assms by (simp_all add: codec_ok_def)

section \<open>Composition\<close>

definition pair_codec :: "'a codec \<Rightarrow> 'b codec \<Rightarrow> ('a \<times> 'b) codec" where
  "pair_codec c d = Codec
     (\<lambda>(x, y). enc c x @ enc d y)
     (\<lambda>bs. Option.bind (dec c bs) (\<lambda>(x, rest). map_option (\<lambda>(y, rest'). ((x, y), rest')) (dec d rest)))
     (\<lambda>(x, y). fits c x \<and> fits d y)"

text \<open>A struct is its tuple of fields: \<open>parts\<close> takes it apart and \<open>build\<close> builds it.\<close>

definition struct_codec :: "('a \<Rightarrow> 'b) \<Rightarrow> ('b \<Rightarrow> 'a) \<Rightarrow> 'b codec \<Rightarrow> 'a codec" where
  "struct_codec parts build c = Codec
     (\<lambda>r. enc c (parts r))
     (\<lambda>bs. map_option (\<lambda>(x, rest). (build x, rest)) (dec c bs))
     (\<lambda>r. fits c (parts r))"

text \<open>A fieldless enum is the position of the variant; other bytes are rejected.\<close>

definition enum_codec :: "u8 codec \<Rightarrow> 'a list \<Rightarrow> 'a codec" where
  "enum_codec c variants = Codec
     (\<lambda>x. enc c (of_nat (length (takeWhile (\<lambda>y. y \<noteq> x) variants))))
     (\<lambda>bs. Option.bind (dec c bs) (\<lambda>(n, rest).
        if unat n < length variants then Some (variants ! unat n, rest) else None))
     (\<lambda>x. x \<in> set variants)"

text \<open>\<open>borsh::from_slice\<close> accepts an input only when all of it is consumed.\<close>

definition from_slice :: "'a codec \<Rightarrow> bytes \<Rightarrow> 'a option" where
  "from_slice c bs = (case dec c bs of Some (x, []) \<Rightarrow> Some x | _ \<Rightarrow> None)"

lemma pair_codec_ok [codec_intros]:
  assumes "codec_ok c" "codec_ok d"
  shows "codec_ok (pair_codec c d)"
proof (rule codec_okI)
  fix p rest assume "fits (pair_codec c d) p"
  then show "dec (pair_codec c d) (enc (pair_codec c d) p @ rest) = Some (p, rest)"
    by (cases p) (simp add: pair_codec_def codec_okD(1) [OF assms(1)] codec_okD(1) [OF assms(2)])
next
  fix bs p rest assume "dec (pair_codec c d) bs = Some (p, rest)"
  then obtain x y r where "p = (x, y)" "dec c bs = Some (x, r)" "dec d r = Some (y, rest)"
    by (auto simp: pair_codec_def bind_eq_Some_conv)
  then show "fits (pair_codec c d) p \<and> bs = enc (pair_codec c d) p @ rest"
    using codec_okD(2) [OF assms(1)] codec_okD(2) [OF assms(2)] by (simp add: pair_codec_def)
qed

lemma struct_codec_ok [codec_intros]:
  assumes "codec_ok c" "\<And>r. build (parts r) = r" "\<And>x. parts (build x) = x"
  shows "codec_ok (struct_codec parts build c)"
proof (rule codec_okI)
  fix r rest assume "fits (struct_codec parts build c) r"
  then show "dec (struct_codec parts build c) (enc (struct_codec parts build c) r @ rest) = Some (r, rest)"
    by (simp add: struct_codec_def codec_okD(1) [OF assms(1)] assms(2))
next
  fix bs r rest assume "dec (struct_codec parts build c) bs = Some (r, rest)"
  then obtain x where "r = build x" "dec c bs = Some (x, rest)" by (auto simp: struct_codec_def)
  then show "fits (struct_codec parts build c) r \<and> bs = enc (struct_codec parts build c) r @ rest"
    using codec_okD(2) [OF assms(1)] by (simp add: struct_codec_def assms(3))
qed

lemma takeWhile_nth:
  "distinct xs \<Longrightarrow> i < length xs \<Longrightarrow> length (takeWhile (\<lambda>y. y \<noteq> xs ! i) xs) = i"
  by (induction xs arbitrary: i) (auto simp: nth_Cons split: nat.splits)

lemma nth_takeWhile: "x \<in> set xs \<Longrightarrow> length (takeWhile (\<lambda>y. y \<noteq> x) xs) < length xs \<and>
    xs ! length (takeWhile (\<lambda>y. y \<noteq> x) xs) = x"
  by (induction xs) auto

lemma enum_codec_ok [codec_intros]:
  assumes c: "codec_ok c" "\<And>n. fits c n" and xs: "distinct xs" "length xs \<le> 256"
  shows "codec_ok (enum_codec c xs)"
proof (rule codec_okI)
  fix x rest assume "fits (enum_codec c xs) x"
  then have "x \<in> set xs" by (simp add: enum_codec_def)
  from nth_takeWhile [OF this] xs(2) show "dec (enum_codec c xs) (enc (enum_codec c xs) x @ rest) = Some (x, rest)"
    by (simp add: enum_codec_def codec_okD(1) [OF c(1,2)] unat_of_nat)
next
  fix bs x rest assume "dec (enum_codec c xs) bs = Some (x, rest)"
  then obtain n where n: "dec c bs = Some (n, rest)" "unat n < length xs" "x = xs ! unat n"
    by (auto simp: enum_codec_def bind_eq_Some_conv split: if_splits)
  then show "fits (enum_codec c xs) x \<and> bs = enc (enum_codec c xs) x @ rest"
    using codec_okD(2) [OF c(1) n(1)] takeWhile_nth [OF xs(1) n(2)] by (simp add: enum_codec_def)
qed

lemma from_slice_iff: "codec_ok c \<Longrightarrow> from_slice c bs = Some x \<longleftrightarrow> fits c x \<and> bs = enc c x"
proof
  assume "codec_ok c" "from_slice c bs = Some x"
  then show "fits c x \<and> bs = enc c x"
    by (auto simp: from_slice_def split: option.splits list.splits dest: codec_okD(2))
next
  assume ok: "codec_ok c" and "fits c x \<and> bs = enc c x"
  then show "from_slice c bs = Some x" using codec_okD(1) [OF ok, of x "[]"] by (simp add: from_slice_def)
qed

lemma codec_sel [simp]:
  "enc (struct_codec parts build c) r = enc c (parts r)" "enc (pair_codec c d) (x, y) = enc c x @ enc d y"
  "fits (struct_codec parts build c) r = fits c (parts r)" "fits (pair_codec c d) (x, y) \<longleftrightarrow> fits c x \<and> fits d y"
  "fits (enum_codec c8 variants) z \<longleftrightarrow> z \<in> set variants"
  by (simp_all add: struct_codec_def pair_codec_def enum_codec_def)

section \<open>The primitive codecs\<close>

record borsh =
  b_u8 :: "u8 codec"
  b_u16 :: "u16 codec"
  b_u64 :: "u64 codec"
  b_bool :: "bool codec"
  b_key :: "pubkey codec"
  b_string :: "bytes codec"

definition borsh_law :: "borsh \<Rightarrow> bool" where
  "borsh_law b \<longleftrightarrow>
     codec_ok (b_u8 b) \<and> codec_ok (b_u16 b) \<and> codec_ok (b_u64 b) \<and> codec_ok (b_bool b) \<and> codec_ok (b_key b) \<and>
     codec_ok (b_string b) \<and> (\<forall>n. fits (b_u8 b) n) \<and> (\<forall>n. fits (b_u16 b) n) \<and> (\<forall>n. fits (b_u64 b) n) \<and>
     (\<forall>v. fits (b_bool b) v) \<and> (\<forall>k. fits (b_key b) k)"

lemma borsh_lawD [codec_intros]:
  assumes "borsh_law b"
  shows "codec_ok (b_u8 b)" "codec_ok (b_u16 b)" "codec_ok (b_u64 b)" "codec_ok (b_bool b)" "codec_ok (b_key b)"
    "codec_ok (b_string b)" "fits (b_u8 b) n"
  using assms by (simp_all add: borsh_law_def)

lemma borsh_fits:
  assumes "borsh_law b"
  shows "fits (b_u8 b) n8" "fits (b_u16 b) n16" "fits (b_u64 b) n64" "fits (b_bool b) v" "fits (b_key b) k"
  using assms by (simp_all add: borsh_law_def)

section \<open>An instance\<close>

lemma bit_from_le: "bit (from_le_bytes bs :: 'a::len word) i \<Longrightarrow> i < 8 * length bs"
proof (induction bs arbitrary: i)
  case (Cons b bs)
  show ?case
  proof (cases "i < 8")
    case False
    with Cons.prems have "bit (from_le_bytes bs :: 'a word) (i - 8)"
      by (auto simp: bit_or_iff bit_push_bit_iff bit_ucast_iff dest: bit_imp_le_length)
    with Cons.IH show ?thesis by fastforce
  qed simp
qed simp

lemma le_bytes_from_le:
  "8 * length bs \<le> LENGTH('a) \<Longrightarrow> le_bytes_n (length bs) (from_le_bytes bs :: 'a::len word) = bs"
proof (induction bs)
  case (Cons b bs)
  have low: "ucast (or (ucast b) (push_bit 8 x) :: 'a word) = b" for x
    using Cons.prems by (auto intro!: bit_word_eqI simp: bit_or_iff bit_push_bit_iff bit_ucast_iff)
  have "drop_bit 8 (or (ucast b) (push_bit 8 (from_le_bytes bs)) :: 'a word) = from_le_bytes bs"
  proof (rule bit_word_eqI)
    fix i assume "i < LENGTH('a)"
    have "\<not> bit b (i + 8)" using bit_imp_le_length [of b "i + 8"] by auto
    moreover have "bit (from_le_bytes bs :: 'a word) i \<Longrightarrow> i + 8 < LENGTH('a)"
      using bit_from_le [of bs i] Cons.prems by fastforce
    ultimately show "bit (drop_bit 8 (or (ucast b) (push_bit 8 (from_le_bytes bs)) :: 'a word)) i =
        bit (from_le_bytes bs :: 'a word) i"
      by (auto simp: bit_drop_bit_eq bit_or_iff bit_push_bit_iff bit_ucast_iff add.commute dest: bit_imp_le_length)
  qed
  with Cons low show ?case by simp
qed simp

definition fixed_codec :: "nat \<Rightarrow> 'a::len word codec" where
  "fixed_codec n = Codec (le_bytes_n n)
     (\<lambda>bs. if length bs < n then None else Some (from_le_bytes (take n bs), drop n bs)) (\<lambda>_. True)"

lemma fixed_codec_ok: "LENGTH('a) = 8 * n \<Longrightarrow> codec_ok (fixed_codec n :: 'a::len word codec)"
proof (rule codec_okI)
  fix bs rest and x :: "'a word"
  assume n: "LENGTH('a) = 8 * n" and "dec (fixed_codec n) bs = Some (x, rest)"
  then have "n \<le> length bs" "x = from_le_bytes (take n bs)" "rest = drop n bs"
    by (auto simp: fixed_codec_def split: if_splits)
  with le_bytes_from_le [of "take n bs", where 'a = 'a] n
  show "fits (fixed_codec n) x \<and> bs = enc (fixed_codec n) x @ rest" by (simp add: fixed_codec_def)
qed (simp add: fixed_codec_def from_le_bytes_n)

text \<open>A string is its length in four bytes and its bytes.\<close>

definition string_codec :: "bytes codec" where
  "string_codec = Codec (\<lambda>s. enc (fixed_codec 4) (of_nat (length s) :: 32 word) @ s)
     (\<lambda>bs. Option.bind (dec (fixed_codec 4 :: 32 word codec) bs) (\<lambda>(n, rest).
        if length rest < unat n then None else Some (take (unat n) rest, drop (unat n) rest)))
     (\<lambda>s. length s < 2 ^ 32)"

lemma string_codec_ok: "codec_ok string_codec"
proof (rule codec_okI)
  have ok: "codec_ok (fixed_codec 4 :: 32 word codec)" by (rule fixed_codec_ok) simp
  have all: "fits (fixed_codec 4 :: 32 word codec) n" for n by (simp add: fixed_codec_def)
  {
    fix s rest assume "fits string_codec s"
    then have "unat (of_nat (length s) :: 32 word) = length s" by (simp add: string_codec_def unat_of_nat)
    then show "dec string_codec (enc string_codec s @ rest) = Some (s, rest)"
      by (simp add: string_codec_def codec_okD(1) [OF ok all])
  next
    fix bs s rest assume "dec string_codec bs = Some (s, rest)"
    then obtain n r where n: "dec (fixed_codec 4 :: 32 word codec) bs = Some (n, r)" "unat n \<le> length r"
      "s = take (unat n) r" "rest = drop (unat n) r"
      by (auto simp: string_codec_def bind_eq_Some_conv split: if_splits)
    have "unat n < 2 ^ 32" using unsigned_less [of n] by simp
    then show "fits string_codec s \<and> bs = enc string_codec s @ rest"
      using codec_okD(2) [OF ok n(1)] n by (simp add: string_codec_def)
  }
qed

definition example_borsh :: borsh where
  "example_borsh = \<lparr>b_u8 = fixed_codec 1, b_u16 = fixed_codec 2, b_u64 = fixed_codec 8,
     b_bool = enum_codec (fixed_codec 1) [False, True], b_key = fixed_codec 32, b_string = string_codec\<rparr>"

lemma example_borsh_law: "borsh_law example_borsh"
  unfolding borsh_law_def example_borsh_def borsh.simps
  by (intro conjI allI fixed_codec_ok enum_codec_ok string_codec_ok)
    (auto simp: fixed_codec_def)

end
