(* ===== verification/Program_Events.thy ===== *)
theory Program_Events
  imports State Borsh
begin

text \<open>
  The events the program emits, \<open>events/*.rs\<close>, and their Anchor payloads: an eight-byte
  discriminator of the event's name followed by its fields in declaration order. The hash behind the
  discriminator is Anchor's and stays a parameter.
\<close>

section \<open>Events\<close>

record MarketInitializedEvent =
  on_market_initialized_market :: pubkey
  on_market_initialized_market_fees :: pubkey
  on_market_initialized_authority :: pubkey
  on_market_initialized_base_mint :: pubkey
  on_market_initialized_quote_mint :: pubkey
  on_market_initialized_base_vault :: pubkey
  on_market_initialized_quote_vault :: pubkey
  on_market_initialized_price_tick_size :: u64
  on_market_initialized_quantity_lot_size :: u64

record MarketStatusChangedEvent =
  on_market_status_changed_market :: pubkey
  on_market_status_changed_authority :: pubkey
  on_market_status_changed_status :: MarketStatus

record MarketClosedEvent =
  on_market_closed_market :: pubkey
  on_market_closed_market_fees :: pubkey
  on_market_closed_authority :: pubkey
  on_market_closed_base_mint :: pubkey
  on_market_closed_quote_mint :: pubkey
  on_market_closed_base_vault :: pubkey
  on_market_closed_quote_vault :: pubkey

record MarketMetadataInitializedEvent =
  on_market_metadata_initialized_metadata :: pubkey
  on_market_metadata_initialized_market :: pubkey
  on_market_metadata_initialized_authority :: pubkey
  on_market_metadata_initialized_base_symbol :: bytes
  on_market_metadata_initialized_quote_symbol :: bytes
  on_market_metadata_initialized_display_name :: bytes
  on_market_metadata_initialized_kind :: MarketKind

record MarketMetadataUpdatedEvent =
  on_market_metadata_updated_metadata :: pubkey
  on_market_metadata_updated_market :: pubkey
  on_market_metadata_updated_authority :: pubkey
  on_market_metadata_updated_base_symbol :: bytes
  on_market_metadata_updated_quote_symbol :: bytes
  on_market_metadata_updated_display_name :: bytes

record MarketMetadataClosedEvent =
  on_market_metadata_closed_metadata :: pubkey
  on_market_metadata_closed_market :: pubkey
  on_market_metadata_closed_authority :: pubkey
  on_market_metadata_closed_kind :: MarketKind

record OrderPlacedEvent =
  on_order_placed_market :: pubkey
  on_order_placed_order :: pubkey
  on_order_placed_order_id :: u64
  on_order_placed_owner :: pubkey
  on_order_placed_side :: OrderSide
  on_order_placed_price :: u64
  on_order_placed_quantity :: u64
  on_order_placed_locked_collateral :: u64
  on_order_placed_price_level :: pubkey

record OrderCanceledEvent =
  on_order_canceled_market :: pubkey
  on_order_canceled_order :: pubkey
  on_order_canceled_order_id :: u64
  on_order_canceled_owner :: pubkey
  on_order_canceled_side :: OrderSide
  on_order_canceled_price :: u64
  on_order_canceled_canceled_quantity :: u64
  on_order_canceled_released_collateral :: u64
  on_order_canceled_price_level :: pubkey
  on_order_canceled_price_level_closed :: bool

record FillEvent =
  on_fill_market :: pubkey
  on_fill_maker_order :: pubkey
  on_fill_maker_order_id :: u64
  on_fill_maker :: pubkey
  on_fill_taker :: pubkey
  on_fill_maker_side :: OrderSide
  on_fill_execution_price :: u64
  on_fill_base_quantity :: u64
  on_fill_quote_quantity :: u64
  on_fill_taker_fee_quote :: u64
  on_fill_maker_remaining_quantity :: u64
  on_fill_taker_remaining_quantity :: u64

record TraderBalanceInitializedEvent =
  on_trader_balance_initialized_market :: pubkey
  on_trader_balance_initialized_owner :: pubkey
  on_trader_balance_initialized_trader_balance :: pubkey

record DepositEvent =
  on_deposit_market :: pubkey
  on_deposit_owner :: pubkey
  on_deposit_trader_balance :: pubkey
  on_deposit_mint :: pubkey
  on_deposit_market_vault :: pubkey
  on_deposit_amount :: u64
  on_deposit_free_balance :: u64

record WithdrawalEvent =
  on_withdrawal_market :: pubkey
  on_withdrawal_owner :: pubkey
  on_withdrawal_trader_balance :: pubkey
  on_withdrawal_mint :: pubkey
  on_withdrawal_market_vault :: pubkey
  on_withdrawal_amount :: u64
  on_withdrawal_free_balance :: u64

record ProtocolInitializedEvent =
  on_protocol_initialized_protocol_config :: pubkey
  on_protocol_initialized_super_admin :: pubkey
  on_protocol_initialized_admin_record :: pubkey

record AdminAddedEvent =
  on_admin_added_admin_record :: pubkey
  on_admin_added_authority :: pubkey
  on_admin_added_added_by :: pubkey

record AdminStatusChangedEvent =
  on_admin_status_changed_admin_record :: pubkey
  on_admin_status_changed_authority :: pubkey
  on_admin_status_changed_changed_by :: pubkey
  on_admin_status_changed_status :: AdminStatus

record AdminRemovedEvent =
  on_admin_removed_admin_record :: pubkey
  on_admin_removed_authority :: pubkey
  on_admin_removed_removed_by :: pubkey

record TakerFeeUpdatedEvent =
  on_taker_fee_updated_protocol_config :: pubkey
  on_taker_fee_updated_super_admin :: pubkey
  on_taker_fee_updated_previous_taker_fee_bps :: u16
  on_taker_fee_updated_new_taker_fee_bps :: u16

record ProtocolFeesWithdrawnEvent =
  on_protocol_fees_withdrawn_market :: pubkey
  on_protocol_fees_withdrawn_market_fees :: pubkey
  on_protocol_fees_withdrawn_super_admin :: pubkey
  on_protocol_fees_withdrawn_quote_mint :: pubkey
  on_protocol_fees_withdrawn_quote_vault :: pubkey
  on_protocol_fees_withdrawn_destination_quote_account :: pubkey
  on_protocol_fees_withdrawn_amount :: u64
  on_protocol_fees_withdrawn_remaining_accrued_quote_fees :: u64

record TestFaucetInitializedEvent =
  on_test_faucet_initialized_market :: pubkey
  on_test_faucet_initialized_test_faucet :: pubkey
  on_test_faucet_initialized_faucet_authority :: pubkey
  on_test_faucet_initialized_base_mint :: pubkey
  on_test_faucet_initialized_quote_mint :: pubkey
  on_test_faucet_initialized_base_claim_amount :: u64
  on_test_faucet_initialized_quote_claim_amount :: u64

record TestFaucetClaimedEvent =
  on_test_faucet_claimed_market :: pubkey
  on_test_faucet_claimed_test_faucet :: pubkey
  on_test_faucet_claimed_claimant :: pubkey
  on_test_faucet_claimed_base_amount :: u64
  on_test_faucet_claimed_quote_amount :: u64

record TestFaucetClosedEvent =
  on_test_faucet_closed_market :: pubkey
  on_test_faucet_closed_test_faucet :: pubkey
  on_test_faucet_closed_authority :: pubkey
  on_test_faucet_closed_base_mint :: pubkey
  on_test_faucet_closed_quote_mint :: pubkey

section \<open>Serialization\<close>

definition status_variants :: "MarketStatus list" where
  "status_variants = [MarketActive, MarketPausedStatus]"

definition kind_variants :: "MarketKind list" where
  "kind_variants = [Spot, Prediction, Other]"

definition side_variants :: "OrderSide list" where
  "side_variants = [Bid, Ask]"

definition admin_variants :: "AdminStatus list" where
  "admin_variants = [AdminActive, AdminDisabledStatus]"

definition market_initialized_bytes :: "borsh \<Rightarrow> MarketInitializedEvent \<Rightarrow> bytes" where
  "market_initialized_bytes b e =
     enc (b_key b) (on_market_initialized_market e) @ enc (b_key b) (on_market_initialized_market_fees e) @ enc
     (b_key b) (on_market_initialized_authority e) @ enc (b_key b) (on_market_initialized_base_mint e) @ enc
     (b_key b) (on_market_initialized_quote_mint e) @ enc (b_key b) (on_market_initialized_base_vault e) @ enc
     (b_key b) (on_market_initialized_quote_vault e) @ enc (b_u64 b) (on_market_initialized_price_tick_size e) @
     enc (b_u64 b) (on_market_initialized_quantity_lot_size e)"

definition market_status_changed_bytes :: "borsh \<Rightarrow> MarketStatusChangedEvent \<Rightarrow> bytes" where
  "market_status_changed_bytes b e =
     enc (b_key b) (on_market_status_changed_market e) @ enc (b_key b) (on_market_status_changed_authority e) @
     enc (enum_codec (b_u8 b) status_variants) (on_market_status_changed_status e)"

definition market_closed_bytes :: "borsh \<Rightarrow> MarketClosedEvent \<Rightarrow> bytes" where
  "market_closed_bytes b e =
     enc (b_key b) (on_market_closed_market e) @ enc (b_key b) (on_market_closed_market_fees e) @ enc (b_key b)
     (on_market_closed_authority e) @ enc (b_key b) (on_market_closed_base_mint e) @ enc (b_key b)
     (on_market_closed_quote_mint e) @ enc (b_key b) (on_market_closed_base_vault e) @ enc (b_key b)
     (on_market_closed_quote_vault e)"

definition market_metadata_initialized_bytes :: "borsh \<Rightarrow> MarketMetadataInitializedEvent \<Rightarrow> bytes" where
  "market_metadata_initialized_bytes b e =
     enc (b_key b) (on_market_metadata_initialized_metadata e) @ enc (b_key b)
     (on_market_metadata_initialized_market e) @ enc (b_key b) (on_market_metadata_initialized_authority e) @
     enc (b_string b) (on_market_metadata_initialized_base_symbol e) @ enc (b_string b)
     (on_market_metadata_initialized_quote_symbol e) @ enc (b_string b)
     (on_market_metadata_initialized_display_name e) @ enc (enum_codec (b_u8 b) kind_variants)
     (on_market_metadata_initialized_kind e)"

definition market_metadata_updated_bytes :: "borsh \<Rightarrow> MarketMetadataUpdatedEvent \<Rightarrow> bytes" where
  "market_metadata_updated_bytes b e =
     enc (b_key b) (on_market_metadata_updated_metadata e) @ enc (b_key b) (on_market_metadata_updated_market e)
     @ enc (b_key b) (on_market_metadata_updated_authority e) @ enc (b_string b)
     (on_market_metadata_updated_base_symbol e) @ enc (b_string b) (on_market_metadata_updated_quote_symbol e) @
     enc (b_string b) (on_market_metadata_updated_display_name e)"

definition market_metadata_closed_bytes :: "borsh \<Rightarrow> MarketMetadataClosedEvent \<Rightarrow> bytes" where
  "market_metadata_closed_bytes b e =
     enc (b_key b) (on_market_metadata_closed_metadata e) @ enc (b_key b) (on_market_metadata_closed_market e) @
     enc (b_key b) (on_market_metadata_closed_authority e) @ enc (enum_codec (b_u8 b) kind_variants)
     (on_market_metadata_closed_kind e)"

definition order_placed_bytes :: "borsh \<Rightarrow> OrderPlacedEvent \<Rightarrow> bytes" where
  "order_placed_bytes b e =
     enc (b_key b) (on_order_placed_market e) @ enc (b_key b) (on_order_placed_order e) @ enc (b_u64 b)
     (on_order_placed_order_id e) @ enc (b_key b) (on_order_placed_owner e) @ enc (enum_codec (b_u8 b)
     side_variants) (on_order_placed_side e) @ enc (b_u64 b) (on_order_placed_price e) @ enc (b_u64 b)
     (on_order_placed_quantity e) @ enc (b_u64 b) (on_order_placed_locked_collateral e) @ enc (b_key b)
     (on_order_placed_price_level e)"

definition order_canceled_bytes :: "borsh \<Rightarrow> OrderCanceledEvent \<Rightarrow> bytes" where
  "order_canceled_bytes b e =
     enc (b_key b) (on_order_canceled_market e) @ enc (b_key b) (on_order_canceled_order e) @ enc (b_u64 b)
     (on_order_canceled_order_id e) @ enc (b_key b) (on_order_canceled_owner e) @ enc (enum_codec (b_u8 b)
     side_variants) (on_order_canceled_side e) @ enc (b_u64 b) (on_order_canceled_price e) @ enc (b_u64 b)
     (on_order_canceled_canceled_quantity e) @ enc (b_u64 b) (on_order_canceled_released_collateral e) @ enc
     (b_key b) (on_order_canceled_price_level e) @ enc (b_bool b) (on_order_canceled_price_level_closed e)"

definition fill_bytes :: "borsh \<Rightarrow> FillEvent \<Rightarrow> bytes" where
  "fill_bytes b e =
     enc (b_key b) (on_fill_market e) @ enc (b_key b) (on_fill_maker_order e) @ enc (b_u64 b)
     (on_fill_maker_order_id e) @ enc (b_key b) (on_fill_maker e) @ enc (b_key b) (on_fill_taker e) @ enc
     (enum_codec (b_u8 b) side_variants) (on_fill_maker_side e) @ enc (b_u64 b) (on_fill_execution_price e) @
     enc (b_u64 b) (on_fill_base_quantity e) @ enc (b_u64 b) (on_fill_quote_quantity e) @ enc (b_u64 b)
     (on_fill_taker_fee_quote e) @ enc (b_u64 b) (on_fill_maker_remaining_quantity e) @ enc (b_u64 b)
     (on_fill_taker_remaining_quantity e)"

definition trader_balance_initialized_bytes :: "borsh \<Rightarrow> TraderBalanceInitializedEvent \<Rightarrow> bytes" where
  "trader_balance_initialized_bytes b e =
     enc (b_key b) (on_trader_balance_initialized_market e) @ enc (b_key b) (on_trader_balance_initialized_owner
     e) @ enc (b_key b) (on_trader_balance_initialized_trader_balance e)"

definition deposit_bytes :: "borsh \<Rightarrow> DepositEvent \<Rightarrow> bytes" where
  "deposit_bytes b e =
     enc (b_key b) (on_deposit_market e) @ enc (b_key b) (on_deposit_owner e) @ enc (b_key b)
     (on_deposit_trader_balance e) @ enc (b_key b) (on_deposit_mint e) @ enc (b_key b) (on_deposit_market_vault
     e) @ enc (b_u64 b) (on_deposit_amount e) @ enc (b_u64 b) (on_deposit_free_balance e)"

definition withdrawal_bytes :: "borsh \<Rightarrow> WithdrawalEvent \<Rightarrow> bytes" where
  "withdrawal_bytes b e =
     enc (b_key b) (on_withdrawal_market e) @ enc (b_key b) (on_withdrawal_owner e) @ enc (b_key b)
     (on_withdrawal_trader_balance e) @ enc (b_key b) (on_withdrawal_mint e) @ enc (b_key b)
     (on_withdrawal_market_vault e) @ enc (b_u64 b) (on_withdrawal_amount e) @ enc (b_u64 b)
     (on_withdrawal_free_balance e)"

definition protocol_initialized_bytes :: "borsh \<Rightarrow> ProtocolInitializedEvent \<Rightarrow> bytes" where
  "protocol_initialized_bytes b e =
     enc (b_key b) (on_protocol_initialized_protocol_config e) @ enc (b_key b)
     (on_protocol_initialized_super_admin e) @ enc (b_key b) (on_protocol_initialized_admin_record e)"

definition admin_added_bytes :: "borsh \<Rightarrow> AdminAddedEvent \<Rightarrow> bytes" where
  "admin_added_bytes b e =
     enc (b_key b) (on_admin_added_admin_record e) @ enc (b_key b) (on_admin_added_authority e) @ enc (b_key b)
     (on_admin_added_added_by e)"

definition admin_status_changed_bytes :: "borsh \<Rightarrow> AdminStatusChangedEvent \<Rightarrow> bytes" where
  "admin_status_changed_bytes b e =
     enc (b_key b) (on_admin_status_changed_admin_record e) @ enc (b_key b) (on_admin_status_changed_authority
     e) @ enc (b_key b) (on_admin_status_changed_changed_by e) @ enc (enum_codec (b_u8 b) admin_variants)
     (on_admin_status_changed_status e)"

definition admin_removed_bytes :: "borsh \<Rightarrow> AdminRemovedEvent \<Rightarrow> bytes" where
  "admin_removed_bytes b e =
     enc (b_key b) (on_admin_removed_admin_record e) @ enc (b_key b) (on_admin_removed_authority e) @ enc (b_key
     b) (on_admin_removed_removed_by e)"

definition taker_fee_updated_bytes :: "borsh \<Rightarrow> TakerFeeUpdatedEvent \<Rightarrow> bytes" where
  "taker_fee_updated_bytes b e =
     enc (b_key b) (on_taker_fee_updated_protocol_config e) @ enc (b_key b) (on_taker_fee_updated_super_admin e)
     @ enc (b_u16 b) (on_taker_fee_updated_previous_taker_fee_bps e) @ enc (b_u16 b)
     (on_taker_fee_updated_new_taker_fee_bps e)"

definition protocol_fees_withdrawn_bytes :: "borsh \<Rightarrow> ProtocolFeesWithdrawnEvent \<Rightarrow> bytes" where
  "protocol_fees_withdrawn_bytes b e =
     enc (b_key b) (on_protocol_fees_withdrawn_market e) @ enc (b_key b) (on_protocol_fees_withdrawn_market_fees
     e) @ enc (b_key b) (on_protocol_fees_withdrawn_super_admin e) @ enc (b_key b)
     (on_protocol_fees_withdrawn_quote_mint e) @ enc (b_key b) (on_protocol_fees_withdrawn_quote_vault e) @ enc
     (b_key b) (on_protocol_fees_withdrawn_destination_quote_account e) @ enc (b_u64 b)
     (on_protocol_fees_withdrawn_amount e) @ enc (b_u64 b)
     (on_protocol_fees_withdrawn_remaining_accrued_quote_fees e)"

definition test_faucet_initialized_bytes :: "borsh \<Rightarrow> TestFaucetInitializedEvent \<Rightarrow> bytes" where
  "test_faucet_initialized_bytes b e =
     enc (b_key b) (on_test_faucet_initialized_market e) @ enc (b_key b) (on_test_faucet_initialized_test_faucet
     e) @ enc (b_key b) (on_test_faucet_initialized_faucet_authority e) @ enc (b_key b)
     (on_test_faucet_initialized_base_mint e) @ enc (b_key b) (on_test_faucet_initialized_quote_mint e) @ enc
     (b_u64 b) (on_test_faucet_initialized_base_claim_amount e) @ enc (b_u64 b)
     (on_test_faucet_initialized_quote_claim_amount e)"

definition test_faucet_claimed_bytes :: "borsh \<Rightarrow> TestFaucetClaimedEvent \<Rightarrow> bytes" where
  "test_faucet_claimed_bytes b e =
     enc (b_key b) (on_test_faucet_claimed_market e) @ enc (b_key b) (on_test_faucet_claimed_test_faucet e) @
     enc (b_key b) (on_test_faucet_claimed_claimant e) @ enc (b_u64 b) (on_test_faucet_claimed_base_amount e) @
     enc (b_u64 b) (on_test_faucet_claimed_quote_amount e)"

definition test_faucet_closed_bytes :: "borsh \<Rightarrow> TestFaucetClosedEvent \<Rightarrow> bytes" where
  "test_faucet_closed_bytes b e =
     enc (b_key b) (on_test_faucet_closed_market e) @ enc (b_key b) (on_test_faucet_closed_test_faucet e) @ enc
     (b_key b) (on_test_faucet_closed_authority e) @ enc (b_key b) (on_test_faucet_closed_base_mint e) @ enc
     (b_key b) (on_test_faucet_closed_quote_mint e)"

section \<open>Payloads\<close>

datatype ProgramEvent =
    EmitMarketInitialized MarketInitializedEvent
  | EmitMarketStatusChanged MarketStatusChangedEvent
  | EmitMarketClosed MarketClosedEvent
  | EmitMarketMetadataInitialized MarketMetadataInitializedEvent
  | EmitMarketMetadataUpdated MarketMetadataUpdatedEvent
  | EmitMarketMetadataClosed MarketMetadataClosedEvent
  | EmitOrderPlaced OrderPlacedEvent
  | EmitOrderCanceled OrderCanceledEvent
  | EmitFill FillEvent
  | EmitTraderBalanceInitialized TraderBalanceInitializedEvent
  | EmitDeposit DepositEvent
  | EmitWithdrawal WithdrawalEvent
  | EmitProtocolInitialized ProtocolInitializedEvent
  | EmitAdminAdded AdminAddedEvent
  | EmitAdminStatusChanged AdminStatusChangedEvent
  | EmitAdminRemoved AdminRemovedEvent
  | EmitTakerFeeUpdated TakerFeeUpdatedEvent
  | EmitProtocolFeesWithdrawn ProtocolFeesWithdrawnEvent
  | EmitTestFaucetInitialized TestFaucetInitializedEvent
  | EmitTestFaucetClaimed TestFaucetClaimedEvent
  | EmitTestFaucetClosed TestFaucetClosedEvent

fun event_name :: "ProgramEvent \<Rightarrow> string" where
  "event_name (EmitMarketInitialized _) = ''MarketInitializedEvent''"
| "event_name (EmitMarketStatusChanged _) = ''MarketStatusChangedEvent''"
| "event_name (EmitMarketClosed _) = ''MarketClosedEvent''"
| "event_name (EmitMarketMetadataInitialized _) = ''MarketMetadataInitializedEvent''"
| "event_name (EmitMarketMetadataUpdated _) = ''MarketMetadataUpdatedEvent''"
| "event_name (EmitMarketMetadataClosed _) = ''MarketMetadataClosedEvent''"
| "event_name (EmitOrderPlaced _) = ''OrderPlacedEvent''"
| "event_name (EmitOrderCanceled _) = ''OrderCanceledEvent''"
| "event_name (EmitFill _) = ''FillEvent''"
| "event_name (EmitTraderBalanceInitialized _) = ''TraderBalanceInitializedEvent''"
| "event_name (EmitDeposit _) = ''DepositEvent''"
| "event_name (EmitWithdrawal _) = ''WithdrawalEvent''"
| "event_name (EmitProtocolInitialized _) = ''ProtocolInitializedEvent''"
| "event_name (EmitAdminAdded _) = ''AdminAddedEvent''"
| "event_name (EmitAdminStatusChanged _) = ''AdminStatusChangedEvent''"
| "event_name (EmitAdminRemoved _) = ''AdminRemovedEvent''"
| "event_name (EmitTakerFeeUpdated _) = ''TakerFeeUpdatedEvent''"
| "event_name (EmitProtocolFeesWithdrawn _) = ''ProtocolFeesWithdrawnEvent''"
| "event_name (EmitTestFaucetInitialized _) = ''TestFaucetInitializedEvent''"
| "event_name (EmitTestFaucetClaimed _) = ''TestFaucetClaimedEvent''"
| "event_name (EmitTestFaucetClosed _) = ''TestFaucetClosedEvent''"

fun event_body :: "borsh \<Rightarrow> ProgramEvent \<Rightarrow> bytes" where
  "event_body b (EmitMarketInitialized e) = market_initialized_bytes b e"
| "event_body b (EmitMarketStatusChanged e) = market_status_changed_bytes b e"
| "event_body b (EmitMarketClosed e) = market_closed_bytes b e"
| "event_body b (EmitMarketMetadataInitialized e) = market_metadata_initialized_bytes b e"
| "event_body b (EmitMarketMetadataUpdated e) = market_metadata_updated_bytes b e"
| "event_body b (EmitMarketMetadataClosed e) = market_metadata_closed_bytes b e"
| "event_body b (EmitOrderPlaced e) = order_placed_bytes b e"
| "event_body b (EmitOrderCanceled e) = order_canceled_bytes b e"
| "event_body b (EmitFill e) = fill_bytes b e"
| "event_body b (EmitTraderBalanceInitialized e) = trader_balance_initialized_bytes b e"
| "event_body b (EmitDeposit e) = deposit_bytes b e"
| "event_body b (EmitWithdrawal e) = withdrawal_bytes b e"
| "event_body b (EmitProtocolInitialized e) = protocol_initialized_bytes b e"
| "event_body b (EmitAdminAdded e) = admin_added_bytes b e"
| "event_body b (EmitAdminStatusChanged e) = admin_status_changed_bytes b e"
| "event_body b (EmitAdminRemoved e) = admin_removed_bytes b e"
| "event_body b (EmitTakerFeeUpdated e) = taker_fee_updated_bytes b e"
| "event_body b (EmitProtocolFeesWithdrawn e) = protocol_fees_withdrawn_bytes b e"
| "event_body b (EmitTestFaucetInitialized e) = test_faucet_initialized_bytes b e"
| "event_body b (EmitTestFaucetClaimed e) = test_faucet_claimed_bytes b e"
| "event_body b (EmitTestFaucetClosed e) = test_faucet_closed_bytes b e"

text \<open>Anchor's discriminators: the first eight bytes of \<open>sha256("event:<name>")\<close>, computed outside for
  the names above. The hash function itself is a parameter; of it only these values are used.\<close>

definition anchor_event_hashes :: "(string \<times> bytes) list" where
  "anchor_event_hashes =
    [(''MarketInitializedEvent'', [70, 173, 96, 202, 100, 143, 45, 25]),
     (''MarketStatusChangedEvent'', [189, 57, 199, 130, 179, 34, 39, 53]),
     (''MarketClosedEvent'', [64, 193, 117, 138, 19, 11, 84, 44]),
     (''MarketMetadataInitializedEvent'', [11, 220, 65, 132, 82, 252, 105, 161]),
     (''MarketMetadataUpdatedEvent'', [185, 71, 148, 82, 13, 111, 45, 98]),
     (''MarketMetadataClosedEvent'', [229, 192, 37, 211, 210, 185, 186, 153]),
     (''OrderPlacedEvent'', [245, 198, 202, 247, 110, 231, 254, 156]),
     (''OrderCanceledEvent'', [10, 31, 133, 147, 181, 32, 34, 30]),
     (''FillEvent'', [13, 89, 41, 228, 105, 178, 45, 112]),
     (''TraderBalanceInitializedEvent'', [37, 85, 211, 33, 106, 44, 35, 255]),
     (''DepositEvent'', [120, 248, 61, 83, 31, 142, 107, 144]),
     (''WithdrawalEvent'', [161, 53, 185, 18, 98, 254, 54, 165]),
     (''ProtocolInitializedEvent'', [225, 159, 165, 209, 78, 191, 125, 73]),
     (''AdminAddedEvent'', [68, 183, 187, 200, 190, 214, 20, 77]),
     (''AdminStatusChangedEvent'', [103, 168, 116, 72, 83, 249, 142, 91]),
     (''AdminRemovedEvent'', [226, 5, 12, 53, 69, 56, 172, 132]),
     (''TakerFeeUpdatedEvent'', [99, 217, 115, 77, 244, 244, 75, 248]),
     (''ProtocolFeesWithdrawnEvent'', [142, 109, 101, 78, 169, 208, 188, 216]),
     (''TestFaucetInitializedEvent'', [247, 38, 39, 17, 66, 174, 194, 81]),
     (''TestFaucetClaimedEvent'', [149, 47, 203, 239, 92, 155, 247, 96]),
     (''TestFaucetClosedEvent'', [169, 116, 71, 236, 191, 44, 241, 40])]"

definition event_hash_law :: "(string \<Rightarrow> bytes) \<Rightarrow> bool" where
  "event_hash_law event_hash \<longleftrightarrow> list_all (\<lambda>(name, digest). event_hash name = digest) anchor_event_hashes"

text \<open>\<open>emit!\<close>: what \<open>sol_log_data\<close> receives; \<open>event_hash\<close> is the first eight bytes of
  \<open>sha256("event:<name>")\<close>.\<close>

definition event_payload :: "(string \<Rightarrow> bytes) \<Rightarrow> borsh \<Rightarrow> ProgramEvent \<Rightarrow> bytes" where
  "event_payload event_hash b e = event_hash (event_name e) @ event_body b e"

end
