(* ===== verification/Indexer_Events.thy ===== *)
theory Indexer_Events
  imports Borsh
begin

text \<open>
  The indexer's own declarations of the program's events, \<open>decoder/types.rs\<close>, with the derived
  Borsh decoders. Borsh is positional: a codec lists the fields in declaration order.
\<close>

section \<open>Enums\<close>

datatype MarketStatus = StatusActive | StatusPaused

datatype MarketKind = KindSpot | KindPrediction | KindOther

datatype OrderSide = SideBid | SideAsk

datatype AdminStatus = AdminIsActive | AdminIsDisabled

definition market_status_codec :: "borsh \<Rightarrow> MarketStatus codec" where
  "market_status_codec b = enum_codec (b_u8 b) [StatusActive, StatusPaused]"

definition market_kind_codec :: "borsh \<Rightarrow> MarketKind codec" where
  "market_kind_codec b = enum_codec (b_u8 b) [KindSpot, KindPrediction, KindOther]"

definition order_side_codec :: "borsh \<Rightarrow> OrderSide codec" where
  "order_side_codec b = enum_codec (b_u8 b) [SideBid, SideAsk]"

definition admin_status_codec :: "borsh \<Rightarrow> AdminStatus codec" where
  "admin_status_codec b = enum_codec (b_u8 b) [AdminIsActive, AdminIsDisabled]"

lemma enum_codecs_ok [codec_intros]:
  assumes "borsh_law b"
  shows "codec_ok (market_status_codec b)" "codec_ok (market_kind_codec b)" "codec_ok (order_side_codec b)"
    "codec_ok (admin_status_codec b)"
  unfolding market_status_codec_def market_kind_codec_def order_side_codec_def admin_status_codec_def
  by (rule enum_codec_ok; use assms in \<open>simp add: borsh_lawD\<close>)+

lemma enum_fits [simp]:
  "fits (market_status_codec b) s" "fits (market_kind_codec b) k" "fits (order_side_codec b) d"
  "fits (admin_status_codec b) a"
  by (cases s; cases k; cases d; cases a;
    simp add: market_status_codec_def market_kind_codec_def order_side_codec_def admin_status_codec_def)+

section \<open>Events\<close>

record MarketInitializedEvent =
  market_initialized_market :: pubkey
  market_initialized_market_fees :: pubkey
  market_initialized_authority :: pubkey
  market_initialized_base_mint :: pubkey
  market_initialized_quote_mint :: pubkey
  market_initialized_base_vault :: pubkey
  market_initialized_quote_vault :: pubkey
  market_initialized_price_tick_size :: u64
  market_initialized_quantity_lot_size :: u64

record MarketStatusChangedEvent =
  market_status_changed_market :: pubkey
  market_status_changed_authority :: pubkey
  market_status_changed_status :: MarketStatus

record MarketClosedEvent =
  market_closed_market :: pubkey
  market_closed_market_fees :: pubkey
  market_closed_authority :: pubkey
  market_closed_base_mint :: pubkey
  market_closed_quote_mint :: pubkey
  market_closed_base_vault :: pubkey
  market_closed_quote_vault :: pubkey

record MarketMetadataInitializedEvent =
  market_metadata_initialized_metadata :: pubkey
  market_metadata_initialized_market :: pubkey
  market_metadata_initialized_authority :: pubkey
  market_metadata_initialized_base_symbol :: bytes
  market_metadata_initialized_quote_symbol :: bytes
  market_metadata_initialized_display_name :: bytes
  market_metadata_initialized_kind :: MarketKind

record MarketMetadataUpdatedEvent =
  market_metadata_updated_metadata :: pubkey
  market_metadata_updated_market :: pubkey
  market_metadata_updated_authority :: pubkey
  market_metadata_updated_base_symbol :: bytes
  market_metadata_updated_quote_symbol :: bytes
  market_metadata_updated_display_name :: bytes

record MarketMetadataClosedEvent =
  market_metadata_closed_metadata :: pubkey
  market_metadata_closed_market :: pubkey
  market_metadata_closed_authority :: pubkey
  market_metadata_closed_kind :: MarketKind

record OrderPlacedEvent =
  order_placed_market :: pubkey
  order_placed_order :: pubkey
  order_placed_order_id :: u64
  order_placed_owner :: pubkey
  order_placed_side :: OrderSide
  order_placed_price :: u64
  order_placed_quantity :: u64
  order_placed_locked_collateral :: u64
  order_placed_price_level :: pubkey

record OrderCanceledEvent =
  order_canceled_market :: pubkey
  order_canceled_order :: pubkey
  order_canceled_order_id :: u64
  order_canceled_owner :: pubkey
  order_canceled_side :: OrderSide
  order_canceled_price :: u64
  order_canceled_canceled_quantity :: u64
  order_canceled_released_collateral :: u64
  order_canceled_price_level :: pubkey
  order_canceled_price_level_closed :: bool

record FillEvent =
  fill_market :: pubkey
  fill_maker_order :: pubkey
  fill_maker_order_id :: u64
  fill_maker :: pubkey
  fill_taker :: pubkey
  fill_maker_side :: OrderSide
  fill_execution_price :: u64
  fill_base_quantity :: u64
  fill_quote_quantity :: u64
  fill_taker_fee_quote :: u64
  fill_maker_remaining_quantity :: u64
  fill_taker_remaining_quantity :: u64

record TraderBalanceInitializedEvent =
  trader_balance_initialized_market :: pubkey
  trader_balance_initialized_owner :: pubkey
  trader_balance_initialized_trader_balance :: pubkey

record DepositEvent =
  deposit_market :: pubkey
  deposit_owner :: pubkey
  deposit_trader_balance :: pubkey
  deposit_mint :: pubkey
  deposit_market_vault :: pubkey
  deposit_amount :: u64
  deposit_free_balance :: u64

record WithdrawalEvent =
  withdrawal_market :: pubkey
  withdrawal_owner :: pubkey
  withdrawal_trader_balance :: pubkey
  withdrawal_mint :: pubkey
  withdrawal_market_vault :: pubkey
  withdrawal_amount :: u64
  withdrawal_free_balance :: u64

record ProtocolInitializedEvent =
  protocol_initialized_protocol_config :: pubkey
  protocol_initialized_super_admin :: pubkey
  protocol_initialized_admin_record :: pubkey

record AdminAddedEvent =
  admin_added_admin_record :: pubkey
  admin_added_authority :: pubkey
  admin_added_added_by :: pubkey

record AdminStatusChangedEvent =
  admin_status_changed_admin_record :: pubkey
  admin_status_changed_authority :: pubkey
  admin_status_changed_changed_by :: pubkey
  admin_status_changed_status :: AdminStatus

record AdminRemovedEvent =
  admin_removed_admin_record :: pubkey
  admin_removed_authority :: pubkey
  admin_removed_removed_by :: pubkey

record TakerFeeUpdatedEvent =
  taker_fee_updated_protocol_config :: pubkey
  taker_fee_updated_super_admin :: pubkey
  taker_fee_updated_previous_taker_fee_bps :: u16
  taker_fee_updated_new_taker_fee_bps :: u16

record ProtocolFeesWithdrawnEvent =
  protocol_fees_withdrawn_market :: pubkey
  protocol_fees_withdrawn_market_fees :: pubkey
  protocol_fees_withdrawn_super_admin :: pubkey
  protocol_fees_withdrawn_quote_mint :: pubkey
  protocol_fees_withdrawn_quote_vault :: pubkey
  protocol_fees_withdrawn_destination_quote_account :: pubkey
  protocol_fees_withdrawn_amount :: u64
  protocol_fees_withdrawn_remaining_accrued_quote_fees :: u64

record TestFaucetInitializedEvent =
  test_faucet_initialized_market :: pubkey
  test_faucet_initialized_test_faucet :: pubkey
  test_faucet_initialized_faucet_authority :: pubkey
  test_faucet_initialized_base_mint :: pubkey
  test_faucet_initialized_quote_mint :: pubkey
  test_faucet_initialized_base_claim_amount :: u64
  test_faucet_initialized_quote_claim_amount :: u64

record TestFaucetClaimedEvent =
  test_faucet_claimed_market :: pubkey
  test_faucet_claimed_test_faucet :: pubkey
  test_faucet_claimed_claimant :: pubkey
  test_faucet_claimed_base_amount :: u64
  test_faucet_claimed_quote_amount :: u64

record TestFaucetClosedEvent =
  test_faucet_closed_market :: pubkey
  test_faucet_closed_test_faucet :: pubkey
  test_faucet_closed_authority :: pubkey
  test_faucet_closed_base_mint :: pubkey
  test_faucet_closed_quote_mint :: pubkey

section \<open>Codecs\<close>

definition market_initialized_codec :: "borsh \<Rightarrow> MarketInitializedEvent codec" where
  "market_initialized_codec b = struct_codec
     (\<lambda>e. (market_initialized_market e, market_initialized_market_fees e, market_initialized_authority e,
        market_initialized_base_mint e, market_initialized_quote_mint e, market_initialized_base_vault e,
        market_initialized_quote_vault e, market_initialized_price_tick_size e,
        market_initialized_quantity_lot_size e))
     (\<lambda>(x0, x1, x2, x3, x4, x5, x6, x7, x8). \<lparr>market_initialized_market = x0, market_initialized_market_fees = x1, market_initialized_authority = x2,
        market_initialized_base_mint = x3, market_initialized_quote_mint = x4, market_initialized_base_vault =
        x5, market_initialized_quote_vault = x6, market_initialized_price_tick_size = x7,
        market_initialized_quantity_lot_size = x8\<rparr>)
     (pair_codec (b_key b) (pair_codec (b_key b) (pair_codec (b_key b) (pair_codec (b_key b) (pair_codec
        (b_key b) (pair_codec (b_key b) (pair_codec (b_key b) (pair_codec (b_u64 b) (b_u64 b)))))))))"

definition market_status_changed_codec :: "borsh \<Rightarrow> MarketStatusChangedEvent codec" where
  "market_status_changed_codec b = struct_codec
     (\<lambda>e. (market_status_changed_market e, market_status_changed_authority e, market_status_changed_status e))
     (\<lambda>(x0, x1, x2). \<lparr>market_status_changed_market = x0, market_status_changed_authority = x1, market_status_changed_status =
        x2\<rparr>)
     (pair_codec (b_key b) (pair_codec (b_key b) (market_status_codec b)))"

definition market_closed_codec :: "borsh \<Rightarrow> MarketClosedEvent codec" where
  "market_closed_codec b = struct_codec
     (\<lambda>e. (market_closed_market e, market_closed_market_fees e, market_closed_authority e, market_closed_base_mint
        e, market_closed_quote_mint e, market_closed_base_vault e, market_closed_quote_vault e))
     (\<lambda>(x0, x1, x2, x3, x4, x5, x6). \<lparr>market_closed_market = x0, market_closed_market_fees = x1, market_closed_authority = x2,
        market_closed_base_mint = x3, market_closed_quote_mint = x4, market_closed_base_vault = x5,
        market_closed_quote_vault = x6\<rparr>)
     (pair_codec (b_key b) (pair_codec (b_key b) (pair_codec (b_key b) (pair_codec (b_key b) (pair_codec
        (b_key b) (pair_codec (b_key b) (b_key b)))))))"

definition market_metadata_initialized_codec :: "borsh \<Rightarrow> MarketMetadataInitializedEvent codec" where
  "market_metadata_initialized_codec b = struct_codec
     (\<lambda>e. (market_metadata_initialized_metadata e, market_metadata_initialized_market e,
        market_metadata_initialized_authority e, market_metadata_initialized_base_symbol e,
        market_metadata_initialized_quote_symbol e, market_metadata_initialized_display_name e,
        market_metadata_initialized_kind e))
     (\<lambda>(x0, x1, x2, x3, x4, x5, x6). \<lparr>market_metadata_initialized_metadata = x0, market_metadata_initialized_market = x1,
        market_metadata_initialized_authority = x2, market_metadata_initialized_base_symbol = x3,
        market_metadata_initialized_quote_symbol = x4, market_metadata_initialized_display_name = x5,
        market_metadata_initialized_kind = x6\<rparr>)
     (pair_codec (b_key b) (pair_codec (b_key b) (pair_codec (b_key b) (pair_codec (b_string b) (pair_codec
        (b_string b) (pair_codec (b_string b) (market_kind_codec b)))))))"

definition market_metadata_updated_codec :: "borsh \<Rightarrow> MarketMetadataUpdatedEvent codec" where
  "market_metadata_updated_codec b = struct_codec
     (\<lambda>e. (market_metadata_updated_metadata e, market_metadata_updated_market e, market_metadata_updated_authority
        e, market_metadata_updated_base_symbol e, market_metadata_updated_quote_symbol e,
        market_metadata_updated_display_name e))
     (\<lambda>(x0, x1, x2, x3, x4, x5). \<lparr>market_metadata_updated_metadata = x0, market_metadata_updated_market = x1,
        market_metadata_updated_authority = x2, market_metadata_updated_base_symbol = x3,
        market_metadata_updated_quote_symbol = x4, market_metadata_updated_display_name = x5\<rparr>)
     (pair_codec (b_key b) (pair_codec (b_key b) (pair_codec (b_key b) (pair_codec (b_string b) (pair_codec
        (b_string b) (b_string b))))))"

definition market_metadata_closed_codec :: "borsh \<Rightarrow> MarketMetadataClosedEvent codec" where
  "market_metadata_closed_codec b = struct_codec
     (\<lambda>e. (market_metadata_closed_metadata e, market_metadata_closed_market e, market_metadata_closed_authority e,
        market_metadata_closed_kind e))
     (\<lambda>(x0, x1, x2, x3). \<lparr>market_metadata_closed_metadata = x0, market_metadata_closed_market = x1,
        market_metadata_closed_authority = x2, market_metadata_closed_kind = x3\<rparr>)
     (pair_codec (b_key b) (pair_codec (b_key b) (pair_codec (b_key b) (market_kind_codec b))))"

definition order_placed_codec :: "borsh \<Rightarrow> OrderPlacedEvent codec" where
  "order_placed_codec b = struct_codec
     (\<lambda>e. (order_placed_market e, order_placed_order e, order_placed_order_id e, order_placed_owner e,
        order_placed_side e, order_placed_price e, order_placed_quantity e, order_placed_locked_collateral e,
        order_placed_price_level e))
     (\<lambda>(x0, x1, x2, x3, x4, x5, x6, x7, x8). \<lparr>order_placed_market = x0, order_placed_order = x1, order_placed_order_id = x2, order_placed_owner = x3,
        order_placed_side = x4, order_placed_price = x5, order_placed_quantity = x6,
        order_placed_locked_collateral = x7, order_placed_price_level = x8\<rparr>)
     (pair_codec (b_key b) (pair_codec (b_key b) (pair_codec (b_u64 b) (pair_codec (b_key b) (pair_codec
        (order_side_codec b) (pair_codec (b_u64 b) (pair_codec (b_u64 b) (pair_codec (b_u64 b) (b_key b)))))))))"

definition order_canceled_codec :: "borsh \<Rightarrow> OrderCanceledEvent codec" where
  "order_canceled_codec b = struct_codec
     (\<lambda>e. (order_canceled_market e, order_canceled_order e, order_canceled_order_id e, order_canceled_owner e,
        order_canceled_side e, order_canceled_price e, order_canceled_canceled_quantity e,
        order_canceled_released_collateral e, order_canceled_price_level e, order_canceled_price_level_closed
        e))
     (\<lambda>(x0, x1, x2, x3, x4, x5, x6, x7, x8, x9). \<lparr>order_canceled_market = x0, order_canceled_order = x1, order_canceled_order_id = x2,
        order_canceled_owner = x3, order_canceled_side = x4, order_canceled_price = x5,
        order_canceled_canceled_quantity = x6, order_canceled_released_collateral = x7,
        order_canceled_price_level = x8, order_canceled_price_level_closed = x9\<rparr>)
     (pair_codec (b_key b) (pair_codec (b_key b) (pair_codec (b_u64 b) (pair_codec (b_key b) (pair_codec
        (order_side_codec b) (pair_codec (b_u64 b) (pair_codec (b_u64 b) (pair_codec (b_u64 b) (pair_codec
        (b_key b) (b_bool b))))))))))"

definition fill_codec :: "borsh \<Rightarrow> FillEvent codec" where
  "fill_codec b = struct_codec
     (\<lambda>e. (fill_market e, fill_maker_order e, fill_maker_order_id e, fill_maker e, fill_taker e, fill_maker_side
        e, fill_execution_price e, fill_base_quantity e, fill_quote_quantity e, fill_taker_fee_quote e,
        fill_maker_remaining_quantity e, fill_taker_remaining_quantity e))
     (\<lambda>(x0, x1, x2, x3, x4, x5, x6, x7, x8, x9, x10, x11). \<lparr>fill_market = x0, fill_maker_order = x1, fill_maker_order_id = x2, fill_maker = x3, fill_taker = x4,
        fill_maker_side = x5, fill_execution_price = x6, fill_base_quantity = x7, fill_quote_quantity = x8,
        fill_taker_fee_quote = x9, fill_maker_remaining_quantity = x10, fill_taker_remaining_quantity = x11\<rparr>)
     (pair_codec (b_key b) (pair_codec (b_key b) (pair_codec (b_u64 b) (pair_codec (b_key b) (pair_codec
        (b_key b) (pair_codec (order_side_codec b) (pair_codec (b_u64 b) (pair_codec (b_u64 b) (pair_codec
        (b_u64 b) (pair_codec (b_u64 b) (pair_codec (b_u64 b) (b_u64 b))))))))))))"

definition trader_balance_initialized_codec :: "borsh \<Rightarrow> TraderBalanceInitializedEvent codec" where
  "trader_balance_initialized_codec b = struct_codec
     (\<lambda>e. (trader_balance_initialized_market e, trader_balance_initialized_owner e,
        trader_balance_initialized_trader_balance e))
     (\<lambda>(x0, x1, x2). \<lparr>trader_balance_initialized_market = x0, trader_balance_initialized_owner = x1,
        trader_balance_initialized_trader_balance = x2\<rparr>)
     (pair_codec (b_key b) (pair_codec (b_key b) (b_key b)))"

definition deposit_codec :: "borsh \<Rightarrow> DepositEvent codec" where
  "deposit_codec b = struct_codec
     (\<lambda>e. (deposit_market e, deposit_owner e, deposit_trader_balance e, deposit_mint e, deposit_market_vault e,
        deposit_amount e, deposit_free_balance e))
     (\<lambda>(x0, x1, x2, x3, x4, x5, x6). \<lparr>deposit_market = x0, deposit_owner = x1, deposit_trader_balance = x2, deposit_mint = x3,
        deposit_market_vault = x4, deposit_amount = x5, deposit_free_balance = x6\<rparr>)
     (pair_codec (b_key b) (pair_codec (b_key b) (pair_codec (b_key b) (pair_codec (b_key b) (pair_codec
        (b_key b) (pair_codec (b_u64 b) (b_u64 b)))))))"

definition withdrawal_codec :: "borsh \<Rightarrow> WithdrawalEvent codec" where
  "withdrawal_codec b = struct_codec
     (\<lambda>e. (withdrawal_market e, withdrawal_owner e, withdrawal_trader_balance e, withdrawal_mint e,
        withdrawal_market_vault e, withdrawal_amount e, withdrawal_free_balance e))
     (\<lambda>(x0, x1, x2, x3, x4, x5, x6). \<lparr>withdrawal_market = x0, withdrawal_owner = x1, withdrawal_trader_balance = x2, withdrawal_mint = x3,
        withdrawal_market_vault = x4, withdrawal_amount = x5, withdrawal_free_balance = x6\<rparr>)
     (pair_codec (b_key b) (pair_codec (b_key b) (pair_codec (b_key b) (pair_codec (b_key b) (pair_codec
        (b_key b) (pair_codec (b_u64 b) (b_u64 b)))))))"

definition protocol_initialized_codec :: "borsh \<Rightarrow> ProtocolInitializedEvent codec" where
  "protocol_initialized_codec b = struct_codec
     (\<lambda>e. (protocol_initialized_protocol_config e, protocol_initialized_super_admin e,
        protocol_initialized_admin_record e))
     (\<lambda>(x0, x1, x2). \<lparr>protocol_initialized_protocol_config = x0, protocol_initialized_super_admin = x1,
        protocol_initialized_admin_record = x2\<rparr>)
     (pair_codec (b_key b) (pair_codec (b_key b) (b_key b)))"

definition admin_added_codec :: "borsh \<Rightarrow> AdminAddedEvent codec" where
  "admin_added_codec b = struct_codec
     (\<lambda>e. (admin_added_admin_record e, admin_added_authority e, admin_added_added_by e))
     (\<lambda>(x0, x1, x2). \<lparr>admin_added_admin_record = x0, admin_added_authority = x1, admin_added_added_by = x2\<rparr>)
     (pair_codec (b_key b) (pair_codec (b_key b) (b_key b)))"

definition admin_status_changed_codec :: "borsh \<Rightarrow> AdminStatusChangedEvent codec" where
  "admin_status_changed_codec b = struct_codec
     (\<lambda>e. (admin_status_changed_admin_record e, admin_status_changed_authority e, admin_status_changed_changed_by
        e, admin_status_changed_status e))
     (\<lambda>(x0, x1, x2, x3). \<lparr>admin_status_changed_admin_record = x0, admin_status_changed_authority = x1,
        admin_status_changed_changed_by = x2, admin_status_changed_status = x3\<rparr>)
     (pair_codec (b_key b) (pair_codec (b_key b) (pair_codec (b_key b) (admin_status_codec b))))"

definition admin_removed_codec :: "borsh \<Rightarrow> AdminRemovedEvent codec" where
  "admin_removed_codec b = struct_codec
     (\<lambda>e. (admin_removed_admin_record e, admin_removed_authority e, admin_removed_removed_by e))
     (\<lambda>(x0, x1, x2). \<lparr>admin_removed_admin_record = x0, admin_removed_authority = x1, admin_removed_removed_by = x2\<rparr>)
     (pair_codec (b_key b) (pair_codec (b_key b) (b_key b)))"

definition taker_fee_updated_codec :: "borsh \<Rightarrow> TakerFeeUpdatedEvent codec" where
  "taker_fee_updated_codec b = struct_codec
     (\<lambda>e. (taker_fee_updated_protocol_config e, taker_fee_updated_super_admin e,
        taker_fee_updated_previous_taker_fee_bps e, taker_fee_updated_new_taker_fee_bps e))
     (\<lambda>(x0, x1, x2, x3). \<lparr>taker_fee_updated_protocol_config = x0, taker_fee_updated_super_admin = x1,
        taker_fee_updated_previous_taker_fee_bps = x2, taker_fee_updated_new_taker_fee_bps = x3\<rparr>)
     (pair_codec (b_key b) (pair_codec (b_key b) (pair_codec (b_u16 b) (b_u16 b))))"

definition protocol_fees_withdrawn_codec :: "borsh \<Rightarrow> ProtocolFeesWithdrawnEvent codec" where
  "protocol_fees_withdrawn_codec b = struct_codec
     (\<lambda>e. (protocol_fees_withdrawn_market e, protocol_fees_withdrawn_market_fees e,
        protocol_fees_withdrawn_super_admin e, protocol_fees_withdrawn_quote_mint e,
        protocol_fees_withdrawn_quote_vault e, protocol_fees_withdrawn_destination_quote_account e,
        protocol_fees_withdrawn_amount e, protocol_fees_withdrawn_remaining_accrued_quote_fees e))
     (\<lambda>(x0, x1, x2, x3, x4, x5, x6, x7). \<lparr>protocol_fees_withdrawn_market = x0, protocol_fees_withdrawn_market_fees = x1,
        protocol_fees_withdrawn_super_admin = x2, protocol_fees_withdrawn_quote_mint = x3,
        protocol_fees_withdrawn_quote_vault = x4, protocol_fees_withdrawn_destination_quote_account = x5,
        protocol_fees_withdrawn_amount = x6, protocol_fees_withdrawn_remaining_accrued_quote_fees = x7\<rparr>)
     (pair_codec (b_key b) (pair_codec (b_key b) (pair_codec (b_key b) (pair_codec (b_key b) (pair_codec
        (b_key b) (pair_codec (b_key b) (pair_codec (b_u64 b) (b_u64 b))))))))"

definition test_faucet_initialized_codec :: "borsh \<Rightarrow> TestFaucetInitializedEvent codec" where
  "test_faucet_initialized_codec b = struct_codec
     (\<lambda>e. (test_faucet_initialized_market e, test_faucet_initialized_test_faucet e,
        test_faucet_initialized_faucet_authority e, test_faucet_initialized_base_mint e,
        test_faucet_initialized_quote_mint e, test_faucet_initialized_base_claim_amount e,
        test_faucet_initialized_quote_claim_amount e))
     (\<lambda>(x0, x1, x2, x3, x4, x5, x6). \<lparr>test_faucet_initialized_market = x0, test_faucet_initialized_test_faucet = x1,
        test_faucet_initialized_faucet_authority = x2, test_faucet_initialized_base_mint = x3,
        test_faucet_initialized_quote_mint = x4, test_faucet_initialized_base_claim_amount = x5,
        test_faucet_initialized_quote_claim_amount = x6\<rparr>)
     (pair_codec (b_key b) (pair_codec (b_key b) (pair_codec (b_key b) (pair_codec (b_key b) (pair_codec
        (b_key b) (pair_codec (b_u64 b) (b_u64 b)))))))"

definition test_faucet_claimed_codec :: "borsh \<Rightarrow> TestFaucetClaimedEvent codec" where
  "test_faucet_claimed_codec b = struct_codec
     (\<lambda>e. (test_faucet_claimed_market e, test_faucet_claimed_test_faucet e, test_faucet_claimed_claimant e,
        test_faucet_claimed_base_amount e, test_faucet_claimed_quote_amount e))
     (\<lambda>(x0, x1, x2, x3, x4). \<lparr>test_faucet_claimed_market = x0, test_faucet_claimed_test_faucet = x1, test_faucet_claimed_claimant =
        x2, test_faucet_claimed_base_amount = x3, test_faucet_claimed_quote_amount = x4\<rparr>)
     (pair_codec (b_key b) (pair_codec (b_key b) (pair_codec (b_key b) (pair_codec (b_u64 b) (b_u64 b)))))"

definition test_faucet_closed_codec :: "borsh \<Rightarrow> TestFaucetClosedEvent codec" where
  "test_faucet_closed_codec b = struct_codec
     (\<lambda>e. (test_faucet_closed_market e, test_faucet_closed_test_faucet e, test_faucet_closed_authority e,
        test_faucet_closed_base_mint e, test_faucet_closed_quote_mint e))
     (\<lambda>(x0, x1, x2, x3, x4). \<lparr>test_faucet_closed_market = x0, test_faucet_closed_test_faucet = x1, test_faucet_closed_authority = x2,
        test_faucet_closed_base_mint = x3, test_faucet_closed_quote_mint = x4\<rparr>)
     (pair_codec (b_key b) (pair_codec (b_key b) (pair_codec (b_key b) (pair_codec (b_key b) (b_key b)))))"

lemma event_codecs_ok [codec_intros]:
  assumes "borsh_law b"
  shows "codec_ok (market_initialized_codec b)"
    "codec_ok (market_status_changed_codec b)"
    "codec_ok (market_closed_codec b)"
    "codec_ok (market_metadata_initialized_codec b)"
    "codec_ok (market_metadata_updated_codec b)"
    "codec_ok (market_metadata_closed_codec b)"
    "codec_ok (order_placed_codec b)"
    "codec_ok (order_canceled_codec b)"
    "codec_ok (fill_codec b)"
    "codec_ok (trader_balance_initialized_codec b)"
    "codec_ok (deposit_codec b)"
    "codec_ok (withdrawal_codec b)"
    "codec_ok (protocol_initialized_codec b)"
    "codec_ok (admin_added_codec b)"
    "codec_ok (admin_status_changed_codec b)"
    "codec_ok (admin_removed_codec b)"
    "codec_ok (taker_fee_updated_codec b)"
    "codec_ok (protocol_fees_withdrawn_codec b)"
    "codec_ok (test_faucet_initialized_codec b)"
    "codec_ok (test_faucet_claimed_codec b)"
    "codec_ok (test_faucet_closed_codec b)"
  unfolding market_initialized_codec_def market_status_changed_codec_def market_closed_codec_def
    market_metadata_initialized_codec_def market_metadata_updated_codec_def market_metadata_closed_codec_def
    order_placed_codec_def order_canceled_codec_def fill_codec_def trader_balance_initialized_codec_def
    deposit_codec_def withdrawal_codec_def protocol_initialized_codec_def admin_added_codec_def
    admin_status_changed_codec_def admin_removed_codec_def taker_fee_updated_codec_def
    protocol_fees_withdrawn_codec_def test_faucet_initialized_codec_def test_faucet_claimed_codec_def
    test_faucet_closed_codec_def
  by (intro codec_intros assms; force)+

end
