(* ===== verification/Indexer_Logs.thy ===== *)
theory Indexer_Logs
  imports Prelude
begin

text \<open>
  The indexer's selection of event payloads from a transaction's logs,
  \<open>src/services/indexer/src/events.rs\<close>: an invocation stack is rebuilt from the runtime's log
  lines, and a \<open>Program data:\<close> line is taken only while the indexed program is on top of it.
  Rust's \<open>str\<close> is a list of characters.
\<close>

section \<open>String operations\<close>

text \<open>\<open>str::strip_suffix\<close> and \<open>str::split_once\<close>, which cuts at the first occurrence.\<close>

definition strip_suffix :: "string \<Rightarrow> string \<Rightarrow> string option" where
  "strip_suffix p s = map_option rev (strip_prefix (rev p) (rev s))"

fun split_once :: "string \<Rightarrow> string \<Rightarrow> (string \<times> string) option" where
  "split_once p [] = (if p = [] then Some ([], []) else None)"
| "split_once p (c # s) =
     (case strip_prefix p (c # s) of
        Some t \<Rightarrow> Some ([], t)
      | None \<Rightarrow> map_option (\<lambda>(a, b). (c # a, b)) (split_once p s))"

section \<open>The log lines\<close>

definition PROGRAM_PREFIX :: string where "PROGRAM_PREFIX = ''Program ''"
definition INVOKE_MARKER :: string where "INVOKE_MARKER = '' invoke [''"
definition SUCCESS_SUFFIX :: string where "SUCCESS_SUFFIX = '' success''"
definition FAILED_MARKER :: string where "FAILED_MARKER = '' failed: ''"
definition PROGRAM_DATA_PREFIX :: string where "PROGRAM_DATA_PREFIX = ''Program data: ''"

record RawEventLog =
  raw_log_index :: nat
  raw_payload_base64 :: string

definition parse_invocation :: "string \<Rightarrow> string option" where
  "parse_invocation log =
     Option.bind (strip_prefix PROGRAM_PREFIX log) (\<lambda>remainder.
       map_option fst (split_once INVOKE_MARKER remainder))"

definition parse_completion :: "string \<Rightarrow> string option" where
  "parse_completion log =
     Option.bind (strip_prefix PROGRAM_PREFIX log) (\<lambda>remainder.
       case strip_suffix SUCCESS_SUFFIX remainder of
         Some name \<Rightarrow> Some name
       | None \<Rightarrow> map_option fst (split_once FAILED_MARKER remainder))"

section \<open>Extraction\<close>

text \<open>One iteration of the loop, on the stack (its top first): the stack after the line, and the
  payload the line contributes.\<close>

definition scan_line :: "string \<Rightarrow> string list \<Rightarrow> string \<Rightarrow> string list \<times> string option" where
  "scan_line target stack log =
     (case parse_invocation log of
        Some invoked_program \<Rightarrow> (invoked_program # stack, None)
      | None \<Rightarrow>
     (case strip_prefix PROGRAM_DATA_PREFIX log of
        Some payload \<Rightarrow>
          (stack, if stack \<noteq> [] \<and> hd stack = target then Some payload else None)
      | None \<Rightarrow>
     (case parse_completion log of
        Some completed_program \<Rightarrow>
          (if stack \<noteq> [] \<and> hd stack = completed_program then tl stack else stack, None)
      | None \<Rightarrow> (stack, None))))"

fun scan_logs :: "string \<Rightarrow> string list \<Rightarrow> nat \<Rightarrow> string list \<Rightarrow> RawEventLog list" where
  "scan_logs target stack i [] = []"
| "scan_logs target stack i (log # logs) =
     (case scan_line target stack log of
        (stack', None) \<Rightarrow> scan_logs target stack' (Suc i) logs
      | (stack', Some payload) \<Rightarrow>
          \<lparr>raw_log_index = i, raw_payload_base64 = payload\<rparr> # scan_logs target stack' (Suc i) logs)"

text \<open>\<open>show_key\<close> is the Base58 rendering of a key (\<open>Pubkey::to_string\<close> of a third-party crate).\<close>

definition extract_program_data :: "(pubkey \<Rightarrow> string) \<Rightarrow> string list \<Rightarrow> pubkey \<Rightarrow> RawEventLog list" where
  "extract_program_data show_key logs program = scan_logs (show_key program) [] 0 logs"

section \<open>What the runtime logs\<close>

text \<open>A successful execution as a tree of invocations: a program emits data, logs messages of its
  choice, causes other runtime lines, and invokes programs, each of which completes. (A failed
  inner call fails the whole transaction, whose logs the indexer discards.)\<close>

datatype call_item =
    Data string
  | Message string
  | Note string
  | Call pubkey string "call_item list"

text \<open>Each line with the program that is active, and the payload it emits there, if any.\<close>

type_synonym logged = "(string \<times> (pubkey \<times> string) option) list"

fun logged_item :: "(pubkey \<Rightarrow> string) \<Rightarrow> pubkey option \<Rightarrow> call_item \<Rightarrow> logged" where
  "logged_item show_key active (Data payload) =
     [(''Program data: '' @ payload, map_option (\<lambda>p. (p, payload)) active)]"
| "logged_item show_key active (Message m) = [(''Program log: '' @ m, None)]"
| "logged_item show_key active (Note l) = [(l, None)]"
| "logged_item show_key active (Call p depth items) =
     [(''Program '' @ show_key p @ '' invoke ['' @ depth @ '']'', None)] @
     concat (map (logged_item show_key (Some p)) items) @
     [(''Program '' @ show_key p @ '' success'', None)]"

definition logged_items :: "(pubkey \<Rightarrow> string) \<Rightarrow> pubkey option \<Rightarrow> call_item list \<Rightarrow> logged" where
  "logged_items show_key active items = concat (map (logged_item show_key active) items)"

definition rendered :: "(pubkey \<Rightarrow> string) \<Rightarrow> call_item list \<Rightarrow> string list" where
  "rendered show_key items = map fst (logged_items show_key None items)"

text \<open>The data lines a program emitted itself, with their positions.\<close>

fun emitted_from :: "pubkey \<Rightarrow> nat \<Rightarrow> logged \<Rightarrow> RawEventLog list" where
  "emitted_from program i [] = []"
| "emitted_from program i ((_, Some (p, payload)) # ls) =
     (if p = program then [\<lparr>raw_log_index = i, raw_payload_base64 = payload\<rparr>] else []) @ emitted_from program (Suc i) ls"
| "emitted_from program i ((_, None) # ls) = emitted_from program (Suc i) ls"

definition emitted_by :: "(pubkey \<Rightarrow> string) \<Rightarrow> pubkey \<Rightarrow> call_item list \<Rightarrow> RawEventLog list" where
  "emitted_by show_key program items = emitted_from program 0 (logged_items show_key None items)"

section \<open>String lemmas\<close>

lemma strip_suffix_Some: "strip_suffix p s = Some t \<longleftrightarrow> s = t @ p"
proof -
  have "strip_suffix p s = Some t \<longleftrightarrow> rev s = rev p @ rev t"
    by (auto simp: strip_suffix_def strip_prefix_Some)
  also have "\<dots> \<longleftrightarrow> s = t @ p" by (metis rev_append rev_rev_ident)
  finally show ?thesis .
qed

lemma split_once_Some: "split_once p s = Some (a, b) \<Longrightarrow> s = a @ p @ b"
proof (induction s arbitrary: a)
  case (Cons c s)
  show ?case
  proof (cases "strip_prefix p (c # s)")
    case None
    with Cons.prems obtain a' where "a = c # a'" "split_once p s = Some (a', b)" by auto
    with Cons.IH show ?thesis by simp
  next
    case (Some t)
    with Cons.prems show ?thesis by (simp add: strip_prefix_Some)
  qed
qed (simp split: if_splits)

lemma split_once_first:
  assumes "hd p \<notin> set a" "p \<noteq> []"
  shows "split_once p (a @ p @ b) = Some (a, b)"
  using assms(1)
proof (induction a)
  case Nil
  have "strip_prefix p (p @ b) = Some b" by (simp add: strip_prefix_Some)
  then show ?case using assms(2) by (cases p) auto
next
  case (Cons c a)
  then have "strip_prefix p (c # a @ p @ b) = None"
    using assms(2) by (cases p) (auto simp: strip_prefix_None)
  with Cons show ?case by simp
qed

section \<open>Keys and lines\<close>

definition base58_alphabet :: string where
  "base58_alphabet = ''123456789ABCDEFGHJKLMNPQRSTUVWXYZabcdefghijkmnopqrstuvwxyz''"

text \<open>What the rendering of keys promises: Base58 text, one per key.\<close>

definition key_text_law :: "(pubkey \<Rightarrow> string) \<Rightarrow> bool" where
  "key_text_law show_key \<longleftrightarrow> inj show_key \<and> (\<forall>k. show_key k \<noteq> [] \<and> set (show_key k) \<subseteq> set base58_alphabet)"

lemma key_text_chars:
  assumes "key_text_law show_key"
  shows "CHR '' '' \<notin> set (show_key k)" "CHR '':'' \<notin> set (show_key k)"
proof -
  have "set (show_key k) \<subseteq> set base58_alphabet" using assms by (simp add: key_text_law_def)
  moreover have "CHR '' '' \<notin> set base58_alphabet" "CHR '':'' \<notin> set base58_alphabet"
    by (simp_all add: base58_alphabet_def)
  ultimately show "CHR '' '' \<notin> set (show_key k)" "CHR '':'' \<notin> set (show_key k)" by blast+
qed

lemma parse_invoke_line:
  assumes "CHR '' '' \<notin> set k"
  shows "parse_invocation (''Program '' @ k @ '' invoke ['' @ d) = Some k"
proof -
  have "strip_prefix PROGRAM_PREFIX (''Program '' @ k @ '' invoke ['' @ d) = Some (k @ '' invoke ['' @ d)"
    by (simp add: strip_prefix_Some PROGRAM_PREFIX_def)
  moreover have "split_once INVOKE_MARKER (k @ '' invoke ['' @ d) = Some (k, d)"
    using split_once_first [of INVOKE_MARKER k d] assms by (simp add: INVOKE_MARKER_def)
  ultimately show ?thesis by (simp add: parse_invocation_def)
qed

lemma no_marker:
  assumes "CHR ''['' \<notin> set s"
  shows "split_once INVOKE_MARKER s = None"
proof (cases "split_once INVOKE_MARKER s")
  case (Some ab)
  then have "s = fst ab @ INVOKE_MARKER @ snd ab" by (cases ab) (simp add: split_once_Some)
  with assms show ?thesis by (auto simp: INVOKE_MARKER_def)
qed simp

lemma parse_success_line:
  assumes "CHR ''['' \<notin> set k"
  shows "parse_invocation (''Program '' @ k @ '' success'') = None"
    and "parse_completion (''Program '' @ k @ '' success'') = Some k"
proof -
  have rest: "strip_prefix PROGRAM_PREFIX (''Program '' @ k @ '' success'') = Some (k @ '' success'')"
    by (simp add: strip_prefix_Some PROGRAM_PREFIX_def)
  show "parse_invocation (''Program '' @ k @ '' success'') = None"
    using rest assms by (simp add: parse_invocation_def no_marker)
  have "strip_suffix SUCCESS_SUFFIX (k @ '' success'') = Some k"
    by (simp add: strip_suffix_Some SUCCESS_SUFFIX_def)
  with rest show "parse_completion (''Program '' @ k @ '' success'') = Some k"
    by (simp add: parse_completion_def)
qed

text \<open>What a message line can be mistaken for never carries the name of a program.\<close>

lemma colon_in_name:
  "w @ CHR '':'' # m = c @ CHR '' '' # t \<Longrightarrow> CHR '' '' \<notin> set w \<Longrightarrow> CHR '':'' \<in> set c"
proof (induction w arbitrary: c)
  case Nil
  then show ?case by (cases c) auto
next
  case (Cons x w)
  then show ?case by (cases c) auto
qed

lemma message_name:
  "parse_invocation (''Program log: '' @ m) = Some c \<Longrightarrow> CHR '':'' \<in> set c"
  "parse_completion (''Program log: '' @ m) = Some c \<Longrightarrow> CHR '':'' \<in> set c"
proof -
  have rest: "strip_prefix PROGRAM_PREFIX (''Program log: '' @ m) = Some (''log: '' @ m)"
    by (simp add: strip_prefix_Some PROGRAM_PREFIX_def)
  {
    assume "parse_invocation (''Program log: '' @ m) = Some c"
    with rest obtain b where "split_once INVOKE_MARKER (''log: '' @ m) = Some (c, b)"
      by (auto simp: parse_invocation_def)
    from split_once_Some [OF this] have "''log: '' @ m = c @ INVOKE_MARKER @ b" .
    then show "CHR '':'' \<in> set c" by (intro colon_in_name [of "''log''" "CHR '' '' # m" c "''invoke ['' @ b"]) (simp_all add: INVOKE_MARKER_def)
  next
    assume L: "parse_completion (''Program log: '' @ m) = Some c"
    show "CHR '':'' \<in> set c"
    proof (cases "strip_suffix SUCCESS_SUFFIX (''log: '' @ m)")
      case None
      with L rest obtain b where "split_once FAILED_MARKER (''log: '' @ m) = Some (c, b)"
        by (auto simp: parse_completion_def)
      from split_once_Some [OF this] have "''log: '' @ m = c @ FAILED_MARKER @ b" .
      then show ?thesis by (intro colon_in_name [of "''log''" "CHR '' '' # m" c "''failed: '' @ b"]) (simp_all add: FAILED_MARKER_def)
    next
      case (Some c')
      with L rest have "c' = c" by (simp add: parse_completion_def)
      with Some have "''log: '' @ m = c @ SUCCESS_SUFFIX" using strip_suffix_Some by blast
      then show ?thesis by (intro colon_in_name [of "''log''" "CHR '' '' # m" c "''success''"]) (simp_all add: SUCCESS_SUFFIX_def)
    qed
  }
qed

section \<open>The stack along a trace\<close>

definition scan_stack :: "string \<Rightarrow> string list \<Rightarrow> string list \<Rightarrow> string list" where
  "scan_stack target stack logs = foldl (\<lambda>st l. fst (scan_line target st l)) stack logs"

lemma scan_stack_simps [simp]:
  "scan_stack t st [] = st" "scan_stack t st (l # ls) = scan_stack t (fst (scan_line t st l)) ls"
  "scan_stack t st (xs @ ys) = scan_stack t (scan_stack t st xs) ys"
  by (simp_all add: scan_stack_def)

lemma scan_logs_append:
  "scan_logs t st i (xs @ ys) = scan_logs t st i xs @ scan_logs t (scan_stack t st xs) (i + length xs) ys"
  by (induction xs arbitrary: st i) (auto split: prod.splits option.splits)

lemma emitted_from_append:
  "emitted_from p i (xs @ ys) = emitted_from p i xs @ emitted_from p (i + length xs) ys"
  by (induction p i xs rule: emitted_from.induct) simp_all

lemma scan_logs_take: "set (scan_logs t st i (take n logs)) \<subseteq> set (scan_logs t st i logs)"
  using scan_logs_append [of t st i "take n logs" "drop n logs"] by simp

text \<open>The traces the runtime can produce: payloads are Base64 text, and the runtime's other lines
  are none of the three forms the parser reacts to. What programs log is arbitrary, except that the
  indexed program and what it calls never log the invocation marker.\<close>

fun runtime_item :: "(pubkey \<Rightarrow> string) \<Rightarrow> call_item \<Rightarrow> bool" where
  "runtime_item show_key (Data payload) \<longleftrightarrow> CHR ''['' \<notin> set payload"
| "runtime_item show_key (Message m) \<longleftrightarrow> True"
| "runtime_item show_key (Note l) \<longleftrightarrow> parse_invocation l = None \<and> strip_prefix PROGRAM_DATA_PREFIX l = None \<and>
     (\<forall>c. parse_completion l = Some c \<longrightarrow> c \<notin> range show_key)"
| "runtime_item show_key (Call p depth items) \<longleftrightarrow> (\<forall>it\<in>set items. runtime_item show_key it)"

fun clean_item :: "call_item \<Rightarrow> bool" where
  "clean_item (Message m) \<longleftrightarrow> parse_invocation (''Program log: '' @ m) = None"
| "clean_item (Call p depth items) \<longleftrightarrow> (\<forall>it\<in>set items. clean_item it)"
| "clean_item _ \<longleftrightarrow> True"

fun clean_under :: "pubkey \<Rightarrow> call_item \<Rightarrow> bool" where
  "clean_under program (Call p depth items) \<longleftrightarrow>
     (if p = program then \<forall>it\<in>set items. clean_item it else \<forall>it\<in>set items. clean_under program it)"
| "clean_under program _ \<longleftrightarrow> True"

text \<open>Lines scanned exactly: the stack they start from has the active program on top and is left as it
  was, and the payloads taken are the program's own.\<close>

definition exactly :: "(pubkey \<Rightarrow> string) \<Rightarrow> pubkey \<Rightarrow> pubkey \<Rightarrow> logged \<Rightarrow> bool" where
  "exactly show_key program p ls \<longleftrightarrow> (\<forall>st i. st \<noteq> [] \<and> hd st = show_key p \<longrightarrow>
     scan_stack (show_key program) st (map fst ls) = st \<and>
     scan_logs (show_key program) st i (map fst ls) = emitted_from program i ls)"

text \<open>Lines of other programs may leave frames of their own behind, above the frame \<open>base\<close> of the
  active program, but never one of the indexed program.\<close>

definition frame_base :: "(pubkey \<Rightarrow> string) \<Rightarrow> pubkey \<Rightarrow> pubkey option \<Rightarrow> string list \<Rightarrow> bool" where
  "frame_base show_key program active base \<longleftrightarrow>
     (case active of None \<Rightarrow> base = [] | Some p \<Rightarrow> p \<noteq> program \<and> base \<noteq> [] \<and> hd base = show_key p)"

definition skims :: "(pubkey \<Rightarrow> string) \<Rightarrow> pubkey \<Rightarrow> pubkey option \<Rightarrow> logged \<Rightarrow> bool" where
  "skims show_key program active ls \<longleftrightarrow>
     (\<forall>ys base i. show_key program \<notin> set ys \<and> frame_base show_key program active base \<longrightarrow>
       (\<exists>ys'. scan_stack (show_key program) (ys @ base) (map fst ls) = ys' @ base \<and> show_key program \<notin> set ys') \<and>
       scan_logs (show_key program) (ys @ base) i (map fst ls) = emitted_from program i ls)"

lemma exactly_append: "exactly sk t p xs \<Longrightarrow> exactly sk t p ys \<Longrightarrow> exactly sk t p (xs @ ys)"
  by (simp add: exactly_def scan_logs_append emitted_from_append)

lemma exactly_concat: "(\<And>it. it \<in> set items \<Longrightarrow> exactly sk t p (f it)) \<Longrightarrow> exactly sk t p (concat (map f items))"
  by (induction items) (simp_all add: exactly_append, simp add: exactly_def)

lemma skims_append:
  assumes xs: "skims sk t active xs" and ys: "skims sk t active ys"
  shows "skims sk t active (xs @ ys)"
  unfolding skims_def
proof (intro allI impI)
  fix zs base i
  assume zs: "sk t \<notin> set zs \<and> frame_base sk t active base"
  with xs obtain zs' where X: "scan_stack (sk t) (zs @ base) (map fst xs) = zs' @ base" "sk t \<notin> set zs'"
    "scan_logs (sk t) (zs @ base) i (map fst xs) = emitted_from t i xs"
    using xs [unfolded skims_def, rule_format, OF zs, of i] by blast
  with ys zs show "(\<exists>ys'. scan_stack (sk t) (zs @ base) (map fst (xs @ ys)) = ys' @ base \<and> sk t \<notin> set ys') \<and>
      scan_logs (sk t) (zs @ base) i (map fst (xs @ ys)) = emitted_from t i (xs @ ys)"
    by (simp add: skims_def scan_logs_append emitted_from_append)
qed

lemma skims_concat: "(\<And>it. it \<in> set items \<Longrightarrow> skims sk t a (f it)) \<Longrightarrow> skims sk t a (concat (map f items))"
  by (induction items) (simp_all add: skims_append, auto simp: skims_def)

section \<open>One line\<close>

lemma scan_data:
  assumes "CHR ''['' \<notin> set payload"
  shows "scan_line t st (''Program data: '' @ payload) =
    (st, if st \<noteq> [] \<and> hd st = t then Some payload else None)"
proof -
  have "strip_prefix PROGRAM_PREFIX (''Program data: '' @ payload) = Some (''data: '' @ payload)"
    by (simp add: strip_prefix_Some PROGRAM_PREFIX_def)
  moreover have "split_once INVOKE_MARKER (''data: '' @ payload) = None"
    by (rule no_marker) (use assms in simp)
  ultimately have inv: "parse_invocation (''Program data: '' @ payload) = None"
    by (simp add: parse_invocation_def del: append_Cons)
  have data: "strip_prefix PROGRAM_DATA_PREFIX (''Program data: '' @ payload) = Some payload"
    by (simp add: strip_prefix_Some PROGRAM_DATA_PREFIX_def)
  show ?thesis by (simp add: scan_line_def inv data del: append_Cons append_Nil)
qed

lemma message_no_data: "strip_prefix PROGRAM_DATA_PREFIX (''Program log: '' @ m) = None"
  by (simp add: strip_prefix_None PROGRAM_DATA_PREFIX_def)

text \<open>A message pushes a name that is no key, pops such a name, or does nothing.\<close>

lemma scan_message:
  assumes law: "key_text_law show_key" and scan: "scan_line t st (''Program log: '' @ m) = (st', payload)"
  shows "payload = None"
    and "st' = st \<or> (\<exists>c. c \<notin> range show_key \<and> st' = c # st) \<or> (st \<noteq> [] \<and> hd st \<notin> range show_key \<and> st' = tl st)"
    and "parse_invocation (''Program log: '' @ m) = None \<Longrightarrow> st \<noteq> [] \<Longrightarrow> hd st \<in> range show_key \<Longrightarrow> st' = st"
proof -
  have name: "CHR '':'' \<in> set c \<Longrightarrow> c \<notin> range show_key" for c
    using key_text_chars(2) [OF law] by auto
  note unfold = scan [unfolded scan_line_def message_no_data]
  show "payload = None" using unfold by (auto split: option.splits if_splits)
  show "st' = st \<or> (\<exists>c. c \<notin> range show_key \<and> st' = c # st) \<or> (st \<noteq> [] \<and> hd st \<notin> range show_key \<and> st' = tl st)"
  proof (cases "parse_invocation (''Program log: '' @ m)")
    case None
    with unfold show ?thesis using message_name(2) name by (auto split: option.splits if_splits)
  next
    case (Some c)
    with unfold have "st' = c # st" by simp
    with message_name(1) [OF Some] name show ?thesis by blast
  qed
  show "st' = st" if "parse_invocation (''Program log: '' @ m) = None" "st \<noteq> []" "hd st \<in> range show_key"
    using unfold that message_name(2) name by (auto split: option.splits if_splits)
qed

lemma scan_note:
  assumes "runtime_item show_key (Note l)"
  shows "scan_line t st l = (st, None) \<or> (st \<noteq> [] \<and> hd st \<notin> range show_key \<and> scan_line t st l = (tl st, None))"
  using assms by (auto simp: scan_line_def split: option.splits)

lemma exactly_idle:
  assumes "\<And>st. st \<noteq> [] \<Longrightarrow> hd st \<in> range sk \<Longrightarrow> scan_line (sk t) st l = (st, None)"
  shows "exactly sk t p [(l, None)]"
  using assms by (simp add: exactly_def)

lemma skims_idle:
  assumes "\<And>st. \<exists>st'. scan_line (sk t) st l = (st', None) \<and>
      (st' = st \<or> (\<exists>c. c \<notin> range sk \<and> st' = c # st) \<or> (st \<noteq> [] \<and> hd st \<notin> range sk \<and> st' = tl st))"
  shows "skims sk t active [(l, None)]"
  unfolding skims_def
proof (intro allI impI)
  fix ys base i
  assume ys: "sk t \<notin> set ys \<and> frame_base sk t active base"
  have own: "base = [] \<or> hd base \<in> range sk" using ys by (cases active) (auto simp: frame_base_def)
  obtain st' where st': "scan_line (sk t) (ys @ base) l = (st', None)"
    "st' = ys @ base \<or> (\<exists>c. c \<notin> range sk \<and> st' = c # ys @ base) \<or>
     (ys @ base \<noteq> [] \<and> hd (ys @ base) \<notin> range sk \<and> st' = tl (ys @ base))"
    using assms by blast
  have "\<exists>ys'. st' = ys' @ base \<and> sk t \<notin> set ys'"
  proof (cases "ys @ base \<noteq> [] \<and> hd (ys @ base) \<notin> range sk \<and> st' = tl (ys @ base)")
    case True
    with own have "ys \<noteq> []" by auto
    with True ys show ?thesis by (intro exI [of _ "tl ys"]) (auto dest: list.set_sel(2))
  next
    case False
    with st'(2) ys show ?thesis by (metis append_Cons rangeI set_ConsD)
  qed
  with st'(1) show "(\<exists>ys'. scan_stack (sk t) (ys @ base) (map fst [(l, None)]) = ys' @ base \<and> sk t \<notin> set ys') \<and>
      scan_logs (sk t) (ys @ base) i (map fst [(l, None)]) = emitted_from t i [(l, None)]" by simp
qed

lemma scan_invoke:
  assumes "key_text_law sk"
  shows "scan_line t st (''Program '' @ sk q @ '' invoke ['' @ d @ '']'') = (sk q # st, None)"
  using parse_invoke_line [OF key_text_chars(1) [OF assms], of q "d @ '']''"] by (simp add: scan_line_def)

lemma scan_success:
  assumes law: "key_text_law sk"
  shows "scan_line t st (''Program '' @ sk q @ '' success'') = (if st \<noteq> [] \<and> hd st = sk q then tl st else st, None)"
proof -
  have "set (sk q) \<subseteq> set base58_alphabet" using law by (simp add: key_text_law_def)
  moreover have "CHR ''['' \<notin> set base58_alphabet" by (simp add: base58_alphabet_def)
  ultimately have key: "CHR ''['' \<notin> set (sk q)" by blast
  have "strip_prefix PROGRAM_DATA_PREFIX (''Program '' @ sk q @ '' success'') = None"
  proof (cases "strip_prefix PROGRAM_DATA_PREFIX (''Program '' @ sk q @ '' success'')")
    case (Some x)
    then have "''data'' @ CHR '':'' # CHR '' '' # x = sk q @ CHR '' '' # ''success''"
      by (simp add: strip_prefix_Some PROGRAM_DATA_PREFIX_def)
    from colon_in_name [OF this] key_text_chars(2) [OF law] show ?thesis by simp
  qed simp
  then show ?thesis using parse_success_line [OF key] by (simp add: scan_line_def)
qed

section \<open>Traces\<close>

lemma exactly_item:
  assumes law: "key_text_law sk"
  shows "runtime_item sk it \<Longrightarrow> clean_item it \<Longrightarrow> exactly sk t p (logged_item sk (Some p) it)"
proof (induction it arbitrary: p)
  case (Data payload)
  have "sk p = sk t \<longleftrightarrow> p = t" using law by (simp add: key_text_law_def inj_eq)
  then show ?case using Data by (simp add: exactly_def scan_data del: append_Cons)
next
  case (Message m)
  have "exactly sk t p [(''Program log: '' @ m, None)]"
  proof (rule exactly_idle)
    fix st assume st: "st \<noteq> []" "hd st \<in> range sk"
    obtain st' payload where "scan_line (sk t) st (''Program log: '' @ m) = (st', payload)" by fastforce
    with scan_message(1,3) [OF law this] st Message show "scan_line (sk t) st (''Program log: '' @ m) = (st, None)"
      by (simp del: append_Cons)
  qed
  then show ?case by simp
next
  case (Note l)
  have "exactly sk t p [(l, None)]"
    by (rule exactly_idle) (use scan_note [OF Note(1), of "sk t"] in blast)
  then show ?case by simp
next
  case (Call q d items)
  then have "exactly sk t q (concat (map (logged_item sk (Some q)) items))" by (intro exactly_concat) auto
  then show ?case
    by (simp add: exactly_def scan_logs_append emitted_from_append scan_invoke [OF law] scan_success [OF law] del: append_Cons)
qed

lemma skims_item:
  assumes law: "key_text_law sk"
  shows "runtime_item sk it \<Longrightarrow> clean_under t it \<Longrightarrow> active \<noteq> Some t \<Longrightarrow> skims sk t active (logged_item sk active it)"
proof (induction it arbitrary: active)
  case (Data payload)
  have other: "sk p = sk t \<longleftrightarrow> p = t" for p using law by (simp add: key_text_law_def inj_eq)
  have "scan_line (sk t) (ys @ base) (''Program data: '' @ payload) = (ys @ base, None)"
    if "sk t \<notin> set ys" "frame_base sk t active base" for ys base
  proof -
    have "\<not> (ys @ base \<noteq> [] \<and> hd (ys @ base) = sk t)"
      using that other by (cases ys; cases active) (auto simp: frame_base_def)
    moreover have "CHR ''['' \<notin> set payload" using Data(1) by simp
    ultimately show ?thesis using scan_data [of payload "sk t" "ys @ base"] by presburger
  qed
  then show ?case using Data(3) by (cases active) (auto simp: skims_def simp del: append_Cons)
next
  case (Message m)
  have "\<exists>st'. scan_line (sk t) st (''Program log: '' @ m) = (st', None) \<and>
      (st' = st \<or> (\<exists>c. c \<notin> range sk \<and> st' = c # st) \<or> (st \<noteq> [] \<and> hd st \<notin> range sk \<and> st' = tl st))" for st
    using scan_message(1,2) [OF law] by (metis surj_pair)
  then have "skims sk t active [(''Program log: '' @ m, None)]" by (rule skims_idle)
  then show ?case by simp
next
  case (Note l)
  have "skims sk t active [(l, None)]"
    by (rule skims_idle) (use scan_note [OF Note(1), of "sk t"] in blast)
  then show ?case by simp
next
  case (Call q d items)
  show ?case
  proof (cases "q = t")
    case True
    with Call have "exactly sk t t (concat (map (logged_item sk (Some t)) items))"
      by (intro exactly_concat exactly_item [OF law]) auto
    with True show ?thesis
      by (auto simp: exactly_def skims_def scan_logs_append emitted_from_append scan_invoke [OF law] scan_success [OF law]
          simp del: append_Cons)
  next
    case False
    with Call have inside: "skims sk t (Some q) (concat (map (logged_item sk (Some q)) items))"
      by (intro skims_concat) auto
    show ?thesis
      unfolding skims_def
    proof (intro allI impI)
      fix ys base i
      assume ys: "sk t \<notin> set ys \<and> frame_base sk t active base"
      have base: "frame_base sk t (Some q) (sk q # ys @ base)" using False by (simp add: frame_base_def)
      let ?ls = "concat (map (logged_item sk (Some q)) items)"
      from inside [unfolded skims_def, rule_format, of "[]" "sk q # ys @ base"] base
      obtain zs where zs: "scan_stack (sk t) (sk q # ys @ base) (map fst ?ls) = zs @ sk q # ys @ base" "sk t \<notin> set zs"
        "\<And>j. scan_logs (sk t) (sk q # ys @ base) j (map fst ?ls) = emitted_from t j ?ls"
        by auto
      let ?st = "if hd (zs @ sk q # ys @ base) = sk q then tl (zs @ sk q # ys @ base) else zs @ sk q # ys @ base"
      have "\<exists>ys'. ?st = ys' @ base \<and> sk t \<notin> set ys'"
      proof (cases zs)
        case Nil
        then show ?thesis using ys by auto
      next
        case (Cons z zs')
        have "sk q \<noteq> sk t" using law False by (auto simp: key_text_law_def inj_eq)
        then have "sk t \<notin> set (z # zs' @ sk q # ys)" "sk t \<notin> set (zs' @ sk q # ys)" using zs(2) Cons ys by auto
        then show ?thesis using Cons by (metis append_Cons append_assoc list.sel(1,3))
      qed
      with zs show "(\<exists>ys'. scan_stack (sk t) (ys @ base) (map fst (logged_item sk active (Call q d items))) = ys' @ base \<and>
          sk t \<notin> set ys') \<and> scan_logs (sk t) (ys @ base) i (map fst (logged_item sk active (Call q d items))) =
          emitted_from t i (logged_item sk active (Call q d items))"
        by (simp add: scan_logs_append emitted_from_append scan_invoke [OF law] scan_success [OF law] del: append_Cons)
    qed
  qed
qed

section \<open>Properties\<close>

text \<open>C34: The indexer reads exactly the program's own events. For every successful execution, however
  invocations nest and whatever the other programs emit and log (log lines that imitate invocations
  and completions included), the extraction returns precisely the payloads the indexed program
  emitted itself, in order and at their original log positions, provided that neither the program
  nor what it calls logs the text of an invocation marker. On a truncated log stream it returns a
  part of them.\<close>

theorem extraction_is_exact:
  assumes "key_text_law show_key"
    and "\<forall>it\<in>set items. runtime_item show_key it \<and> clean_under program it"
  shows "extract_program_data show_key (rendered show_key items) program = emitted_by show_key program items \<and>
    set (extract_program_data show_key (take n (rendered show_key items)) program) \<subseteq>
      set (emitted_by show_key program items)"
proof -
  have "skims show_key program None (logged_items show_key None items)"
    unfolding logged_items_def by (intro skims_concat skims_item [OF assms(1)]) (use assms(2) in auto)
  then have "extract_program_data show_key (rendered show_key items) program = emitted_by show_key program items"
    by (auto simp: skims_def extract_program_data_def rendered_def emitted_by_def frame_base_def
        dest: spec [of _ "[]"])
  then show ?thesis
    using scan_logs_take [of "show_key program" "[]" 0 n "rendered show_key items"] by (simp add: extract_program_data_def)
qed

text \<open>Without the proviso the parser can be misled: once a line of the indexed program is taken for an
  invocation, the program's frame stays on the stack after it returned, and its caller can expose it
  with a line that is taken for the completion of the imitated invocation.\<close>

lemma imitation_misleads:
  assumes law: "key_text_law show_key" and "caller \<noteq> program"
  shows "extract_program_data show_key (rendered show_key
      [Call caller ''1'' [Call program ''2'' [Message ''x invoke [''], Message ''x success'', Data ''AAAA'']]) program =
        [\<lparr>raw_log_index = 5, raw_payload_base64 = ''AAAA''\<rparr>] \<and>
    emitted_by show_key program
      [Call caller ''1'' [Call program ''2'' [Message ''x invoke [''], Message ''x success'', Data ''AAAA'']] = []"
proof -
  have inv: "parse_invocation ''Program log: x invoke ['' = Some ''log: x''"
    "parse_invocation ''Program log: x success'' = None" "parse_completion ''Program log: x success'' = Some ''log: x''"
    "strip_prefix PROGRAM_DATA_PREFIX ''Program log: x success'' = None"
    by (simp_all add: parse_invocation_def parse_completion_def strip_prefix_def strip_suffix_def PROGRAM_PREFIX_def
        INVOKE_MARKER_def SUCCESS_SUFFIX_def PROGRAM_DATA_PREFIX_def)
  have data: "scan_line t st ''Program data: AAAA'' = (st, if st \<noteq> [] \<and> hd st = t then Some ''AAAA'' else None)" for t st
    using scan_data [of "''AAAA''" t st] by simp
  have keys: "show_key p \<noteq> ''log: x''" for p
    using key_text_chars(1) [OF law, of p] by auto
  have inj: "show_key caller \<noteq> show_key program" using assms by (simp add: key_text_law_def inj_eq)
  note lines = scan_invoke [OF law, of _ _ _ "''1''", simplified] scan_invoke [OF law, of _ _ _ "''2''", simplified]
    scan_success [OF law, simplified]
  have msg: "scan_line t st ''Program log: x invoke ['' = (''log: x'' # st, None)"
    "scan_line t st ''Program log: x success'' = (if st \<noteq> [] \<and> hd st = ''log: x'' then tl st else st, None)" for t st
    by (simp_all add: scan_line_def inv)
  show ?thesis
    using assms(2) keys keys [symmetric] inj
    by (simp add: extract_program_data_def rendered_def logged_items_def emitted_by_def lines msg data)
qed

end
