(* ===== verification/Indexer_Decode.thy ===== *)
theory Indexer_Decode
  imports Indexer_Events Indexer_Logs
begin

text \<open>
  From a selected payload to a typed event, \<open>decoder.rs\<close>: Base64, the eight-byte discriminator that
  routes to one event type, and the strict Borsh decoding of the body. Base64 is a third-party crate
  and stays a parameter; the texts of its and Borsh's error messages are left out.
\<close>

section \<open>Discriminators\<close>

definition EVENT_DISCRIMINATOR_BYTES :: nat where "EVENT_DISCRIMINATOR_BYTES = 8"

definition MARKET_INITIALIZED_DISCRIMINATOR :: bytes where
  "MARKET_INITIALIZED_DISCRIMINATOR = [70, 173, 96, 202, 100, 143, 45, 25]"
definition MARKET_STATUS_CHANGED_DISCRIMINATOR :: bytes where
  "MARKET_STATUS_CHANGED_DISCRIMINATOR = [189, 57, 199, 130, 179, 34, 39, 53]"
definition MARKET_CLOSED_DISCRIMINATOR :: bytes where
  "MARKET_CLOSED_DISCRIMINATOR = [64, 193, 117, 138, 19, 11, 84, 44]"
definition MARKET_METADATA_INITIALIZED_DISCRIMINATOR :: bytes where
  "MARKET_METADATA_INITIALIZED_DISCRIMINATOR = [11, 220, 65, 132, 82, 252, 105, 161]"
definition MARKET_METADATA_UPDATED_DISCRIMINATOR :: bytes where
  "MARKET_METADATA_UPDATED_DISCRIMINATOR = [185, 71, 148, 82, 13, 111, 45, 98]"
definition MARKET_METADATA_CLOSED_DISCRIMINATOR :: bytes where
  "MARKET_METADATA_CLOSED_DISCRIMINATOR = [229, 192, 37, 211, 210, 185, 186, 153]"
definition ORDER_PLACED_DISCRIMINATOR :: bytes where
  "ORDER_PLACED_DISCRIMINATOR = [245, 198, 202, 247, 110, 231, 254, 156]"
definition ORDER_CANCELED_DISCRIMINATOR :: bytes where
  "ORDER_CANCELED_DISCRIMINATOR = [10, 31, 133, 147, 181, 32, 34, 30]"
definition FILL_EVENT_DISCRIMINATOR :: bytes where
  "FILL_EVENT_DISCRIMINATOR = [13, 89, 41, 228, 105, 178, 45, 112]"
definition TRADER_BALANCE_INITIALIZED_DISCRIMINATOR :: bytes where
  "TRADER_BALANCE_INITIALIZED_DISCRIMINATOR = [37, 85, 211, 33, 106, 44, 35, 255]"
definition DEPOSIT_EVENT_DISCRIMINATOR :: bytes where
  "DEPOSIT_EVENT_DISCRIMINATOR = [120, 248, 61, 83, 31, 142, 107, 144]"
definition WITHDRAWAL_EVENT_DISCRIMINATOR :: bytes where
  "WITHDRAWAL_EVENT_DISCRIMINATOR = [161, 53, 185, 18, 98, 254, 54, 165]"
definition PROTOCOL_INITIALIZED_DISCRIMINATOR :: bytes where
  "PROTOCOL_INITIALIZED_DISCRIMINATOR = [225, 159, 165, 209, 78, 191, 125, 73]"
definition ADMIN_ADDED_DISCRIMINATOR :: bytes where
  "ADMIN_ADDED_DISCRIMINATOR = [68, 183, 187, 200, 190, 214, 20, 77]"
definition ADMIN_STATUS_CHANGED_DISCRIMINATOR :: bytes where
  "ADMIN_STATUS_CHANGED_DISCRIMINATOR = [103, 168, 116, 72, 83, 249, 142, 91]"
definition ADMIN_REMOVED_DISCRIMINATOR :: bytes where
  "ADMIN_REMOVED_DISCRIMINATOR = [226, 5, 12, 53, 69, 56, 172, 132]"
definition TAKER_FEE_UPDATED_DISCRIMINATOR :: bytes where
  "TAKER_FEE_UPDATED_DISCRIMINATOR = [99, 217, 115, 77, 244, 244, 75, 248]"
definition PROTOCOL_FEES_WITHDRAWN_DISCRIMINATOR :: bytes where
  "PROTOCOL_FEES_WITHDRAWN_DISCRIMINATOR = [142, 109, 101, 78, 169, 208, 188, 216]"
definition TEST_FAUCET_INITIALIZED_DISCRIMINATOR :: bytes where
  "TEST_FAUCET_INITIALIZED_DISCRIMINATOR = [247, 38, 39, 17, 66, 174, 194, 81]"
definition TEST_FAUCET_CLAIMED_DISCRIMINATOR :: bytes where
  "TEST_FAUCET_CLAIMED_DISCRIMINATOR = [149, 47, 203, 239, 92, 155, 247, 96]"
definition TEST_FAUCET_CLOSED_DISCRIMINATOR :: bytes where
  "TEST_FAUCET_CLOSED_DISCRIMINATOR = [169, 116, 71, 236, 191, 44, 241, 40]"

lemmas discriminators =
  MARKET_INITIALIZED_DISCRIMINATOR_def MARKET_STATUS_CHANGED_DISCRIMINATOR_def MARKET_CLOSED_DISCRIMINATOR_def
  MARKET_METADATA_INITIALIZED_DISCRIMINATOR_def MARKET_METADATA_UPDATED_DISCRIMINATOR_def
  MARKET_METADATA_CLOSED_DISCRIMINATOR_def ORDER_PLACED_DISCRIMINATOR_def ORDER_CANCELED_DISCRIMINATOR_def
  FILL_EVENT_DISCRIMINATOR_def TRADER_BALANCE_INITIALIZED_DISCRIMINATOR_def DEPOSIT_EVENT_DISCRIMINATOR_def
  WITHDRAWAL_EVENT_DISCRIMINATOR_def PROTOCOL_INITIALIZED_DISCRIMINATOR_def ADMIN_ADDED_DISCRIMINATOR_def
  ADMIN_STATUS_CHANGED_DISCRIMINATOR_def ADMIN_REMOVED_DISCRIMINATOR_def TAKER_FEE_UPDATED_DISCRIMINATOR_def
  PROTOCOL_FEES_WITHDRAWN_DISCRIMINATOR_def TEST_FAUCET_INITIALIZED_DISCRIMINATOR_def
  TEST_FAUCET_CLAIMED_DISCRIMINATOR_def TEST_FAUCET_CLOSED_DISCRIMINATOR_def

section \<open>Events and errors\<close>

datatype GovernanceEvent =
    GovernanceProtocolInitialized ProtocolInitializedEvent
  | GovernanceAdminAdded AdminAddedEvent
  | GovernanceAdminStatusChanged AdminStatusChangedEvent
  | GovernanceAdminRemoved AdminRemovedEvent
  | GovernanceTakerFeeUpdated TakerFeeUpdatedEvent

datatype MarketEvent =
    MarketInitialized MarketInitializedEvent
  | MarketStatusChanged MarketStatusChangedEvent
  | MarketClosed MarketClosedEvent
  | MarketMetadataInitialized MarketMetadataInitializedEvent
  | MarketMetadataUpdated MarketMetadataUpdatedEvent
  | MarketMetadataClosed MarketMetadataClosedEvent

datatype OrderEvent =
    OrderPlaced OrderPlacedEvent
  | OrderCanceled OrderCanceledEvent

datatype BalanceEvent =
    BalanceInitialized TraderBalanceInitializedEvent
  | BalanceDeposited DepositEvent
  | BalanceWithdrawn WithdrawalEvent

datatype FeeEvent =
    FeeProtocolFeesWithdrawn ProtocolFeesWithdrawnEvent

datatype FaucetEvent =
    FaucetInitialized TestFaucetInitializedEvent
  | FaucetClaimed TestFaucetClaimedEvent
  | FaucetClosed TestFaucetClosedEvent

datatype TidebookEvent =
    Governance GovernanceEvent
  | MarketFamily MarketEvent
  | OrderFamily OrderEvent
  | Fill FillEvent
  | Balance BalanceEvent
  | Fee FeeEvent
  | Faucet FaucetEvent

record DecodedEventEnvelope =
  env_log_index :: nat
  env_payload_base64 :: string
  env_discriminator :: bytes
  env_body :: bytes

record DecodedEventLog =
  dec_log_index :: nat
  dec_payload_base64 :: string
  dec_event :: TidebookEvent

datatype EventDecodeError =
    InvalidBase64
  | MissingDiscriminator nat
  | UnknownDiscriminator bytes
  | InvalidEventBody string

section \<open>Decoding\<close>

definition decode_envelope ::
  "(string \<Rightarrow> bytes option) \<Rightarrow> RawEventLog \<Rightarrow> EventDecodeError + DecodedEventEnvelope" where
  "decode_envelope base64 raw =
     (case base64 (raw_payload_base64 raw) of
        None \<Rightarrow> Inl InvalidBase64
      | Some decoded \<Rightarrow>
          if length decoded < EVENT_DISCRIMINATOR_BYTES then Inl (MissingDiscriminator (length decoded))
          else Inr \<lparr>env_log_index = raw_log_index raw, env_payload_base64 = raw_payload_base64 raw,
            env_discriminator = take EVENT_DISCRIMINATOR_BYTES decoded,
            env_body = drop EVENT_DISCRIMINATOR_BYTES decoded\<rparr>)"

definition decode_body :: "'a codec \<Rightarrow> bytes \<Rightarrow> string \<Rightarrow> EventDecodeError + 'a" where
  "decode_body c body event_name =
     (case from_slice c body of None \<Rightarrow> Inl (InvalidEventBody event_name) | Some v \<Rightarrow> Inr v)"

text \<open>The match on the discriminator, as its list of arms (the constants differ pairwise).\<close>

definition event_arm :: "bytes \<Rightarrow> ('a \<Rightarrow> TidebookEvent) \<Rightarrow> 'a codec \<Rightarrow> string \<Rightarrow>
    bytes \<times> (bytes \<Rightarrow> EventDecodeError + TidebookEvent)" where
  "event_arm discriminator wrap c event_name =
     (discriminator, \<lambda>body. map_sum id wrap (decode_body c body event_name))"

definition event_arms :: "borsh \<Rightarrow> (bytes \<times> (bytes \<Rightarrow> EventDecodeError + TidebookEvent)) list" where
  "event_arms b =
    [event_arm MARKET_INITIALIZED_DISCRIMINATOR
       (MarketFamily \<circ> MarketInitialized) (market_initialized_codec b) ''MarketInitializedEvent'',
     event_arm MARKET_STATUS_CHANGED_DISCRIMINATOR
       (MarketFamily \<circ> MarketStatusChanged) (market_status_changed_codec b) ''MarketStatusChangedEvent'',
     event_arm MARKET_CLOSED_DISCRIMINATOR
       (MarketFamily \<circ> MarketClosed) (market_closed_codec b) ''MarketClosedEvent'',
     event_arm MARKET_METADATA_INITIALIZED_DISCRIMINATOR
       (MarketFamily \<circ> MarketMetadataInitialized) (market_metadata_initialized_codec b) ''MarketMetadataInitializedEvent'',
     event_arm MARKET_METADATA_UPDATED_DISCRIMINATOR
       (MarketFamily \<circ> MarketMetadataUpdated) (market_metadata_updated_codec b) ''MarketMetadataUpdatedEvent'',
     event_arm MARKET_METADATA_CLOSED_DISCRIMINATOR
       (MarketFamily \<circ> MarketMetadataClosed) (market_metadata_closed_codec b) ''MarketMetadataClosedEvent'',
     event_arm ORDER_PLACED_DISCRIMINATOR
       (OrderFamily \<circ> OrderPlaced) (order_placed_codec b) ''OrderPlacedEvent'',
     event_arm ORDER_CANCELED_DISCRIMINATOR
       (OrderFamily \<circ> OrderCanceled) (order_canceled_codec b) ''OrderCanceledEvent'',
     event_arm FILL_EVENT_DISCRIMINATOR
       Fill (fill_codec b) ''FillEvent'',
     event_arm TRADER_BALANCE_INITIALIZED_DISCRIMINATOR
       (Balance \<circ> BalanceInitialized) (trader_balance_initialized_codec b) ''TraderBalanceInitializedEvent'',
     event_arm DEPOSIT_EVENT_DISCRIMINATOR
       (Balance \<circ> BalanceDeposited) (deposit_codec b) ''DepositEvent'',
     event_arm WITHDRAWAL_EVENT_DISCRIMINATOR
       (Balance \<circ> BalanceWithdrawn) (withdrawal_codec b) ''WithdrawalEvent'',
     event_arm PROTOCOL_INITIALIZED_DISCRIMINATOR
       (Governance \<circ> GovernanceProtocolInitialized) (protocol_initialized_codec b) ''ProtocolInitializedEvent'',
     event_arm ADMIN_ADDED_DISCRIMINATOR
       (Governance \<circ> GovernanceAdminAdded) (admin_added_codec b) ''AdminAddedEvent'',
     event_arm ADMIN_STATUS_CHANGED_DISCRIMINATOR
       (Governance \<circ> GovernanceAdminStatusChanged) (admin_status_changed_codec b) ''AdminStatusChangedEvent'',
     event_arm ADMIN_REMOVED_DISCRIMINATOR
       (Governance \<circ> GovernanceAdminRemoved) (admin_removed_codec b) ''AdminRemovedEvent'',
     event_arm TAKER_FEE_UPDATED_DISCRIMINATOR
       (Governance \<circ> GovernanceTakerFeeUpdated) (taker_fee_updated_codec b) ''TakerFeeUpdatedEvent'',
     event_arm PROTOCOL_FEES_WITHDRAWN_DISCRIMINATOR
       (Fee \<circ> FeeProtocolFeesWithdrawn) (protocol_fees_withdrawn_codec b) ''ProtocolFeesWithdrawnEvent'',
     event_arm TEST_FAUCET_INITIALIZED_DISCRIMINATOR
       (Faucet \<circ> FaucetInitialized) (test_faucet_initialized_codec b) ''TestFaucetInitializedEvent'',
     event_arm TEST_FAUCET_CLAIMED_DISCRIMINATOR
       (Faucet \<circ> FaucetClaimed) (test_faucet_claimed_codec b) ''TestFaucetClaimedEvent'',
     event_arm TEST_FAUCET_CLOSED_DISCRIMINATOR
       (Faucet \<circ> FaucetClosed) (test_faucet_closed_codec b) ''TestFaucetClosedEvent'']"

definition route_event :: "borsh \<Rightarrow> bytes \<Rightarrow> bytes \<Rightarrow> EventDecodeError + TidebookEvent" where
  "route_event b discriminator body =
     (case map_of (event_arms b) discriminator of
        None \<Rightarrow> Inl (UnknownDiscriminator discriminator)
      | Some arm \<Rightarrow> arm body)"

definition decode_event ::
  "(string \<Rightarrow> bytes option) \<Rightarrow> borsh \<Rightarrow> RawEventLog \<Rightarrow> EventDecodeError + DecodedEventLog" where
  "decode_event base64 b raw =
     (case decode_envelope base64 raw of
        Inl e \<Rightarrow> Inl e
      | Inr envelope \<Rightarrow>
     (case route_event b (env_discriminator envelope) (env_body envelope) of
        Inl e \<Rightarrow> Inl e
      | Inr event \<Rightarrow> Inr \<lparr>dec_log_index = env_log_index envelope,
          dec_payload_base64 = env_payload_base64 envelope, dec_event = event\<rparr>))"

text \<open>The stored name of an event.\<close>

fun event_type :: "TidebookEvent \<Rightarrow> string" where
  "event_type (MarketFamily (MarketInitialized _)) = ''MarketInitializedEvent''"
| "event_type (MarketFamily (MarketStatusChanged _)) = ''MarketStatusChangedEvent''"
| "event_type (MarketFamily (MarketClosed _)) = ''MarketClosedEvent''"
| "event_type (MarketFamily (MarketMetadataInitialized _)) = ''MarketMetadataInitializedEvent''"
| "event_type (MarketFamily (MarketMetadataUpdated _)) = ''MarketMetadataUpdatedEvent''"
| "event_type (MarketFamily (MarketMetadataClosed _)) = ''MarketMetadataClosedEvent''"
| "event_type (OrderFamily (OrderPlaced _)) = ''OrderPlacedEvent''"
| "event_type (OrderFamily (OrderCanceled _)) = ''OrderCanceledEvent''"
| "event_type (Fill _) = ''FillEvent''"
| "event_type (Balance (BalanceInitialized _)) = ''TraderBalanceInitializedEvent''"
| "event_type (Balance (BalanceDeposited _)) = ''DepositEvent''"
| "event_type (Balance (BalanceWithdrawn _)) = ''WithdrawalEvent''"
| "event_type (Governance (GovernanceProtocolInitialized _)) = ''ProtocolInitializedEvent''"
| "event_type (Governance (GovernanceAdminAdded _)) = ''AdminAddedEvent''"
| "event_type (Governance (GovernanceAdminStatusChanged _)) = ''AdminStatusChangedEvent''"
| "event_type (Governance (GovernanceAdminRemoved _)) = ''AdminRemovedEvent''"
| "event_type (Governance (GovernanceTakerFeeUpdated _)) = ''TakerFeeUpdatedEvent''"
| "event_type (Fee (FeeProtocolFeesWithdrawn _)) = ''ProtocolFeesWithdrawnEvent''"
| "event_type (Faucet (FaucetInitialized _)) = ''TestFaucetInitializedEvent''"
| "event_type (Faucet (FaucetClaimed _)) = ''TestFaucetClaimedEvent''"
| "event_type (Faucet (FaucetClosed _)) = ''TestFaucetClosedEvent''"

section \<open>Decoded events are their encodings\<close>

fun event_discriminator :: "TidebookEvent \<Rightarrow> bytes" where
  "event_discriminator (MarketFamily (MarketInitialized x)) = MARKET_INITIALIZED_DISCRIMINATOR"
| "event_discriminator (MarketFamily (MarketStatusChanged x)) = MARKET_STATUS_CHANGED_DISCRIMINATOR"
| "event_discriminator (MarketFamily (MarketClosed x)) = MARKET_CLOSED_DISCRIMINATOR"
| "event_discriminator (MarketFamily (MarketMetadataInitialized x)) = MARKET_METADATA_INITIALIZED_DISCRIMINATOR"
| "event_discriminator (MarketFamily (MarketMetadataUpdated x)) = MARKET_METADATA_UPDATED_DISCRIMINATOR"
| "event_discriminator (MarketFamily (MarketMetadataClosed x)) = MARKET_METADATA_CLOSED_DISCRIMINATOR"
| "event_discriminator (OrderFamily (OrderPlaced x)) = ORDER_PLACED_DISCRIMINATOR"
| "event_discriminator (OrderFamily (OrderCanceled x)) = ORDER_CANCELED_DISCRIMINATOR"
| "event_discriminator (Fill x) = FILL_EVENT_DISCRIMINATOR"
| "event_discriminator (Balance (BalanceInitialized x)) = TRADER_BALANCE_INITIALIZED_DISCRIMINATOR"
| "event_discriminator (Balance (BalanceDeposited x)) = DEPOSIT_EVENT_DISCRIMINATOR"
| "event_discriminator (Balance (BalanceWithdrawn x)) = WITHDRAWAL_EVENT_DISCRIMINATOR"
| "event_discriminator (Governance (GovernanceProtocolInitialized x)) = PROTOCOL_INITIALIZED_DISCRIMINATOR"
| "event_discriminator (Governance (GovernanceAdminAdded x)) = ADMIN_ADDED_DISCRIMINATOR"
| "event_discriminator (Governance (GovernanceAdminStatusChanged x)) = ADMIN_STATUS_CHANGED_DISCRIMINATOR"
| "event_discriminator (Governance (GovernanceAdminRemoved x)) = ADMIN_REMOVED_DISCRIMINATOR"
| "event_discriminator (Governance (GovernanceTakerFeeUpdated x)) = TAKER_FEE_UPDATED_DISCRIMINATOR"
| "event_discriminator (Fee (FeeProtocolFeesWithdrawn x)) = PROTOCOL_FEES_WITHDRAWN_DISCRIMINATOR"
| "event_discriminator (Faucet (FaucetInitialized x)) = TEST_FAUCET_INITIALIZED_DISCRIMINATOR"
| "event_discriminator (Faucet (FaucetClaimed x)) = TEST_FAUCET_CLAIMED_DISCRIMINATOR"
| "event_discriminator (Faucet (FaucetClosed x)) = TEST_FAUCET_CLOSED_DISCRIMINATOR"

fun encode_event :: "borsh \<Rightarrow> TidebookEvent \<Rightarrow> bytes" where
  "encode_event b (MarketFamily (MarketInitialized x)) = enc (market_initialized_codec b) x"
| "encode_event b (MarketFamily (MarketStatusChanged x)) = enc (market_status_changed_codec b) x"
| "encode_event b (MarketFamily (MarketClosed x)) = enc (market_closed_codec b) x"
| "encode_event b (MarketFamily (MarketMetadataInitialized x)) = enc (market_metadata_initialized_codec b) x"
| "encode_event b (MarketFamily (MarketMetadataUpdated x)) = enc (market_metadata_updated_codec b) x"
| "encode_event b (MarketFamily (MarketMetadataClosed x)) = enc (market_metadata_closed_codec b) x"
| "encode_event b (OrderFamily (OrderPlaced x)) = enc (order_placed_codec b) x"
| "encode_event b (OrderFamily (OrderCanceled x)) = enc (order_canceled_codec b) x"
| "encode_event b (Fill x) = enc (fill_codec b) x"
| "encode_event b (Balance (BalanceInitialized x)) = enc (trader_balance_initialized_codec b) x"
| "encode_event b (Balance (BalanceDeposited x)) = enc (deposit_codec b) x"
| "encode_event b (Balance (BalanceWithdrawn x)) = enc (withdrawal_codec b) x"
| "encode_event b (Governance (GovernanceProtocolInitialized x)) = enc (protocol_initialized_codec b) x"
| "encode_event b (Governance (GovernanceAdminAdded x)) = enc (admin_added_codec b) x"
| "encode_event b (Governance (GovernanceAdminStatusChanged x)) = enc (admin_status_changed_codec b) x"
| "encode_event b (Governance (GovernanceAdminRemoved x)) = enc (admin_removed_codec b) x"
| "encode_event b (Governance (GovernanceTakerFeeUpdated x)) = enc (taker_fee_updated_codec b) x"
| "encode_event b (Fee (FeeProtocolFeesWithdrawn x)) = enc (protocol_fees_withdrawn_codec b) x"
| "encode_event b (Faucet (FaucetInitialized x)) = enc (test_faucet_initialized_codec b) x"
| "encode_event b (Faucet (FaucetClaimed x)) = enc (test_faucet_claimed_codec b) x"
| "encode_event b (Faucet (FaucetClosed x)) = enc (test_faucet_closed_codec b) x"

fun event_fits :: "borsh \<Rightarrow> TidebookEvent \<Rightarrow> bool" where
  "event_fits b (MarketFamily (MarketInitialized x)) \<longleftrightarrow> fits (market_initialized_codec b) x"
| "event_fits b (MarketFamily (MarketStatusChanged x)) \<longleftrightarrow> fits (market_status_changed_codec b) x"
| "event_fits b (MarketFamily (MarketClosed x)) \<longleftrightarrow> fits (market_closed_codec b) x"
| "event_fits b (MarketFamily (MarketMetadataInitialized x)) \<longleftrightarrow> fits (market_metadata_initialized_codec b) x"
| "event_fits b (MarketFamily (MarketMetadataUpdated x)) \<longleftrightarrow> fits (market_metadata_updated_codec b) x"
| "event_fits b (MarketFamily (MarketMetadataClosed x)) \<longleftrightarrow> fits (market_metadata_closed_codec b) x"
| "event_fits b (OrderFamily (OrderPlaced x)) \<longleftrightarrow> fits (order_placed_codec b) x"
| "event_fits b (OrderFamily (OrderCanceled x)) \<longleftrightarrow> fits (order_canceled_codec b) x"
| "event_fits b (Fill x) \<longleftrightarrow> fits (fill_codec b) x"
| "event_fits b (Balance (BalanceInitialized x)) \<longleftrightarrow> fits (trader_balance_initialized_codec b) x"
| "event_fits b (Balance (BalanceDeposited x)) \<longleftrightarrow> fits (deposit_codec b) x"
| "event_fits b (Balance (BalanceWithdrawn x)) \<longleftrightarrow> fits (withdrawal_codec b) x"
| "event_fits b (Governance (GovernanceProtocolInitialized x)) \<longleftrightarrow> fits (protocol_initialized_codec b) x"
| "event_fits b (Governance (GovernanceAdminAdded x)) \<longleftrightarrow> fits (admin_added_codec b) x"
| "event_fits b (Governance (GovernanceAdminStatusChanged x)) \<longleftrightarrow> fits (admin_status_changed_codec b) x"
| "event_fits b (Governance (GovernanceAdminRemoved x)) \<longleftrightarrow> fits (admin_removed_codec b) x"
| "event_fits b (Governance (GovernanceTakerFeeUpdated x)) \<longleftrightarrow> fits (taker_fee_updated_codec b) x"
| "event_fits b (Fee (FeeProtocolFeesWithdrawn x)) \<longleftrightarrow> fits (protocol_fees_withdrawn_codec b) x"
| "event_fits b (Faucet (FaucetInitialized x)) \<longleftrightarrow> fits (test_faucet_initialized_codec b) x"
| "event_fits b (Faucet (FaucetClaimed x)) \<longleftrightarrow> fits (test_faucet_claimed_codec b) x"
| "event_fits b (Faucet (FaucetClosed x)) \<longleftrightarrow> fits (test_faucet_closed_codec b) x"

lemma arm_discriminators: "map fst (event_arms b) =
    [MARKET_INITIALIZED_DISCRIMINATOR, MARKET_STATUS_CHANGED_DISCRIMINATOR, MARKET_CLOSED_DISCRIMINATOR,
      MARKET_METADATA_INITIALIZED_DISCRIMINATOR, MARKET_METADATA_UPDATED_DISCRIMINATOR,
      MARKET_METADATA_CLOSED_DISCRIMINATOR, ORDER_PLACED_DISCRIMINATOR, ORDER_CANCELED_DISCRIMINATOR,
      FILL_EVENT_DISCRIMINATOR, TRADER_BALANCE_INITIALIZED_DISCRIMINATOR, DEPOSIT_EVENT_DISCRIMINATOR,
      WITHDRAWAL_EVENT_DISCRIMINATOR, PROTOCOL_INITIALIZED_DISCRIMINATOR, ADMIN_ADDED_DISCRIMINATOR,
      ADMIN_STATUS_CHANGED_DISCRIMINATOR, ADMIN_REMOVED_DISCRIMINATOR, TAKER_FEE_UPDATED_DISCRIMINATOR,
      PROTOCOL_FEES_WITHDRAWN_DISCRIMINATOR, TEST_FAUCET_INITIALIZED_DISCRIMINATOR,
      TEST_FAUCET_CLAIMED_DISCRIMINATOR, TEST_FAUCET_CLOSED_DISCRIMINATOR]"
  by (simp add: event_arms_def event_arm_def)

lemma discriminators_distinct: "distinct (map fst (event_arms b))"
  unfolding arm_discriminators by (simp add: discriminators)

lemma discriminators_length: "length (event_discriminator ev) = EVENT_DISCRIMINATOR_BYTES"
  by (cases ev rule: event_discriminator.cases) (simp_all add: discriminators EVENT_DISCRIMINATOR_BYTES_def)

lemma decode_body_Inr: "codec_ok c \<Longrightarrow> decode_body c body name = Inr v \<longleftrightarrow> fits c v \<and> body = enc c v"
  using from_slice_iff [of c body v] by (auto simp: decode_body_def split: option.splits)

lemma map_sum_Inr: "map_sum id f x = Inr y \<longleftrightarrow> (\<exists>z. x = Inr z \<and> y = f z)"
  by (cases x) auto

text \<open>One arm decodes exactly the encodings of its event type.\<close>

lemma event_arm_Inr:
  assumes "codec_ok c"
  shows "snd (event_arm d wrap c name) body = Inr ev \<longleftrightarrow> (\<exists>x. ev = wrap x \<and> fits c x \<and> body = enc c x)"
  by (auto simp: event_arm_def map_sum_Inr decode_body_Inr [OF assms])

lemma fst_event_arm [simp]: "fst (event_arm d wrap c name) = d"
  by (simp add: event_arm_def)

lemma some_arm:
  assumes law: "borsh_law b"
  shows "(\<exists>arm\<in>set (event_arms b). fst arm = d \<and> snd arm body = Inr ev) \<longleftrightarrow>
    d = event_discriminator ev \<and> event_fits b ev \<and> body = encode_event b ev"
proof
  assume "\<exists>arm\<in>set (event_arms b). fst arm = d \<and> snd arm body = Inr ev"
  then show "d = event_discriminator ev \<and> event_fits b ev \<and> body = encode_event b ev"
    unfolding event_arms_def list.set bex_simps(5,7) fst_event_arm
    by (elim disjE conjE) (auto simp: event_arm_Inr event_codecs_ok [OF law])
next
  assume "d = event_discriminator ev \<and> event_fits b ev \<and> body = encode_event b ev"
  then show "\<exists>arm\<in>set (event_arms b). fst arm = d \<and> snd arm body = Inr ev"
    unfolding event_arms_def list.set bex_simps(5,7) fst_event_arm
    by (cases ev rule: event_discriminator.cases) (simp_all add: event_arm_Inr event_codecs_ok [OF law])
qed

lemma distinct_lookup:
  assumes "distinct (map fst xs)"
  shows "(\<exists>arm\<in>set xs. fst arm = d \<and> P (snd arm)) \<longleftrightarrow> (\<exists>f. map_of xs d = Some f \<and> P f)"
  using map_of_eq_Some_iff [OF assms] by (metis prod.collapse fst_conv snd_conv)

lemma route_event_Inr:
  assumes "borsh_law b"
  shows "route_event b d body = Inr ev \<longleftrightarrow>
    d = event_discriminator ev \<and> event_fits b ev \<and> body = encode_event b ev"
proof -
  have "route_event b d body = Inr ev \<longleftrightarrow> (\<exists>f. map_of (event_arms b) d = Some f \<and> f body = Inr ev)"
    by (simp add: route_event_def split: option.split)
  also have "\<dots> \<longleftrightarrow> (\<exists>arm\<in>set (event_arms b). fst arm = d \<and> snd arm body = Inr ev)"
    by (rule distinct_lookup [OF discriminators_distinct, symmetric])
  finally show ?thesis unfolding some_arm [OF assms] .
qed

lemma decode_event_steps:
  "decode_event base64 b raw = Inr d \<longleftrightarrow>
    (\<exists>bs ev. base64 (raw_payload_base64 raw) = Some bs \<and> EVENT_DISCRIMINATOR_BYTES \<le> length bs \<and>
      route_event b (take EVENT_DISCRIMINATOR_BYTES bs) (drop EVENT_DISCRIMINATOR_BYTES bs) = Inr ev \<and>
      d = \<lparr>dec_log_index = raw_log_index raw, dec_payload_base64 = raw_payload_base64 raw, dec_event = ev\<rparr>)"
  by (cases "base64 (raw_payload_base64 raw)") (auto simp: decode_event_def decode_envelope_def split: sum.split)

lemma discriminator_split:
  "EVENT_DISCRIMINATOR_BYTES \<le> length bs \<and> take EVENT_DISCRIMINATOR_BYTES bs = event_discriminator ev \<and>
      drop EVENT_DISCRIMINATOR_BYTES bs = rest \<longleftrightarrow> bs = event_discriminator ev @ rest"
  using discriminators_length [of ev] by (metis append_eq_conv_conj append_take_drop_id length_append le_add1)

lemma decode_event_Inr:
  assumes "borsh_law b"
  shows "decode_event base64 b raw = Inr d \<longleftrightarrow>
    (\<exists>ev. event_fits b ev \<and> base64 (raw_payload_base64 raw) = Some (event_discriminator ev @ encode_event b ev) \<and>
      d = \<lparr>dec_log_index = raw_log_index raw, dec_payload_base64 = raw_payload_base64 raw, dec_event = ev\<rparr>)"
  unfolding decode_event_steps route_event_Inr [OF assms] by (metis discriminator_split)

end
