(* ===== verification/Event_Pipeline.thy ===== *)
theory Event_Pipeline
  imports Program_Events Indexer_Decode
begin

text \<open>
  The program's events as the indexer reads them: each on-chain event has an off-chain mirror with
  the same fields by name, and the two crates agree on its bytes.
\<close>

section \<open>Enums\<close>

fun mirror_status :: "State.MarketStatus \<Rightarrow> Indexer_Events.MarketStatus" where
  "mirror_status MarketActive = StatusActive"
| "mirror_status MarketPausedStatus = StatusPaused"

fun mirror_kind :: "State.MarketKind \<Rightarrow> Indexer_Events.MarketKind" where
  "mirror_kind Spot = KindSpot"
| "mirror_kind Prediction = KindPrediction"
| "mirror_kind Other = KindOther"

fun mirror_side :: "State.OrderSide \<Rightarrow> Indexer_Events.OrderSide" where
  "mirror_side Bid = SideBid"
| "mirror_side Ask = SideAsk"

fun mirror_admin :: "State.AdminStatus \<Rightarrow> Indexer_Events.AdminStatus" where
  "mirror_admin AdminActive = AdminIsActive"
| "mirror_admin AdminDisabledStatus = AdminIsDisabled"

lemma mirror_variants:
  "enc (market_status_codec b) (mirror_status s) = enc (enum_codec (b_u8 b) status_variants) s"
  "enc (market_kind_codec b) (mirror_kind k) = enc (enum_codec (b_u8 b) kind_variants) k"
  "enc (order_side_codec b) (mirror_side d) = enc (enum_codec (b_u8 b) side_variants) d"
  "enc (admin_status_codec b) (mirror_admin a) = enc (enum_codec (b_u8 b) admin_variants) a"
  by (cases s; cases k; cases d; cases a;
    simp add: market_status_codec_def market_kind_codec_def order_side_codec_def admin_status_codec_def
      enum_codec_def status_variants_def kind_variants_def side_variants_def admin_variants_def)+

lemma mirror_onto:
  "\<exists>x. mirror_status x = s" "\<exists>x. mirror_kind x = k" "\<exists>x. mirror_side x = d" "\<exists>x. mirror_admin x = a"
  by (cases s; cases k; cases d; cases a; metis mirror_status.simps mirror_kind.simps mirror_side.simps mirror_admin.simps)+

section \<open>Events\<close>

definition mirror_market_initialized :: "Program_Events.MarketInitializedEvent \<Rightarrow> Indexer_Events.MarketInitializedEvent" where
  "mirror_market_initialized e =
     \<lparr>market_initialized_market = on_market_initialized_market e, market_initialized_market_fees =
       on_market_initialized_market_fees e, market_initialized_authority = on_market_initialized_authority e,
       market_initialized_base_mint = on_market_initialized_base_mint e, market_initialized_quote_mint =
       on_market_initialized_quote_mint e, market_initialized_base_vault = on_market_initialized_base_vault e,
       market_initialized_quote_vault = on_market_initialized_quote_vault e, market_initialized_price_tick_size
       = on_market_initialized_price_tick_size e, market_initialized_quantity_lot_size =
       on_market_initialized_quantity_lot_size e\<rparr>"

definition mirror_market_status_changed :: "Program_Events.MarketStatusChangedEvent \<Rightarrow> Indexer_Events.MarketStatusChangedEvent" where
  "mirror_market_status_changed e =
     \<lparr>market_status_changed_market = on_market_status_changed_market e, market_status_changed_authority =
       on_market_status_changed_authority e, market_status_changed_status = mirror_status
       (on_market_status_changed_status e)\<rparr>"

definition mirror_market_closed :: "Program_Events.MarketClosedEvent \<Rightarrow> Indexer_Events.MarketClosedEvent" where
  "mirror_market_closed e =
     \<lparr>market_closed_market = on_market_closed_market e, market_closed_market_fees =
       on_market_closed_market_fees e, market_closed_authority = on_market_closed_authority e,
       market_closed_base_mint = on_market_closed_base_mint e, market_closed_quote_mint =
       on_market_closed_quote_mint e, market_closed_base_vault = on_market_closed_base_vault e,
       market_closed_quote_vault = on_market_closed_quote_vault e\<rparr>"

definition mirror_market_metadata_initialized :: "Program_Events.MarketMetadataInitializedEvent \<Rightarrow> Indexer_Events.MarketMetadataInitializedEvent" where
  "mirror_market_metadata_initialized e =
     \<lparr>market_metadata_initialized_metadata = on_market_metadata_initialized_metadata e,
       market_metadata_initialized_market = on_market_metadata_initialized_market e,
       market_metadata_initialized_authority = on_market_metadata_initialized_authority e,
       market_metadata_initialized_base_symbol = on_market_metadata_initialized_base_symbol e,
       market_metadata_initialized_quote_symbol = on_market_metadata_initialized_quote_symbol e,
       market_metadata_initialized_display_name = on_market_metadata_initialized_display_name e,
       market_metadata_initialized_kind = mirror_kind (on_market_metadata_initialized_kind e)\<rparr>"

definition mirror_market_metadata_updated :: "Program_Events.MarketMetadataUpdatedEvent \<Rightarrow> Indexer_Events.MarketMetadataUpdatedEvent" where
  "mirror_market_metadata_updated e =
     \<lparr>market_metadata_updated_metadata = on_market_metadata_updated_metadata e, market_metadata_updated_market
       = on_market_metadata_updated_market e, market_metadata_updated_authority =
       on_market_metadata_updated_authority e, market_metadata_updated_base_symbol =
       on_market_metadata_updated_base_symbol e, market_metadata_updated_quote_symbol =
       on_market_metadata_updated_quote_symbol e, market_metadata_updated_display_name =
       on_market_metadata_updated_display_name e\<rparr>"

definition mirror_market_metadata_closed :: "Program_Events.MarketMetadataClosedEvent \<Rightarrow> Indexer_Events.MarketMetadataClosedEvent" where
  "mirror_market_metadata_closed e =
     \<lparr>market_metadata_closed_metadata = on_market_metadata_closed_metadata e, market_metadata_closed_market =
       on_market_metadata_closed_market e, market_metadata_closed_authority =
       on_market_metadata_closed_authority e, market_metadata_closed_kind = mirror_kind
       (on_market_metadata_closed_kind e)\<rparr>"

definition mirror_order_placed :: "Program_Events.OrderPlacedEvent \<Rightarrow> Indexer_Events.OrderPlacedEvent" where
  "mirror_order_placed e =
     \<lparr>order_placed_market = on_order_placed_market e, order_placed_order = on_order_placed_order e,
       order_placed_order_id = on_order_placed_order_id e, order_placed_owner = on_order_placed_owner e,
       order_placed_side = mirror_side (on_order_placed_side e), order_placed_price = on_order_placed_price e,
       order_placed_quantity = on_order_placed_quantity e, order_placed_locked_collateral =
       on_order_placed_locked_collateral e, order_placed_price_level = on_order_placed_price_level e\<rparr>"

definition mirror_order_canceled :: "Program_Events.OrderCanceledEvent \<Rightarrow> Indexer_Events.OrderCanceledEvent" where
  "mirror_order_canceled e =
     \<lparr>order_canceled_market = on_order_canceled_market e, order_canceled_order = on_order_canceled_order e,
       order_canceled_order_id = on_order_canceled_order_id e, order_canceled_owner = on_order_canceled_owner e,
       order_canceled_side = mirror_side (on_order_canceled_side e), order_canceled_price =
       on_order_canceled_price e, order_canceled_canceled_quantity = on_order_canceled_canceled_quantity e,
       order_canceled_released_collateral = on_order_canceled_released_collateral e, order_canceled_price_level
       = on_order_canceled_price_level e, order_canceled_price_level_closed =
       on_order_canceled_price_level_closed e\<rparr>"

definition mirror_fill :: "Program_Events.FillEvent \<Rightarrow> Indexer_Events.FillEvent" where
  "mirror_fill e =
     \<lparr>fill_market = on_fill_market e, fill_maker_order = on_fill_maker_order e, fill_maker_order_id =
       on_fill_maker_order_id e, fill_maker = on_fill_maker e, fill_taker = on_fill_taker e, fill_maker_side =
       mirror_side (on_fill_maker_side e), fill_execution_price = on_fill_execution_price e, fill_base_quantity
       = on_fill_base_quantity e, fill_quote_quantity = on_fill_quote_quantity e, fill_taker_fee_quote =
       on_fill_taker_fee_quote e, fill_maker_remaining_quantity = on_fill_maker_remaining_quantity e,
       fill_taker_remaining_quantity = on_fill_taker_remaining_quantity e\<rparr>"

definition mirror_trader_balance_initialized :: "Program_Events.TraderBalanceInitializedEvent \<Rightarrow> Indexer_Events.TraderBalanceInitializedEvent" where
  "mirror_trader_balance_initialized e =
     \<lparr>trader_balance_initialized_market = on_trader_balance_initialized_market e,
       trader_balance_initialized_owner = on_trader_balance_initialized_owner e,
       trader_balance_initialized_trader_balance = on_trader_balance_initialized_trader_balance e\<rparr>"

definition mirror_deposit :: "Program_Events.DepositEvent \<Rightarrow> Indexer_Events.DepositEvent" where
  "mirror_deposit e =
     \<lparr>deposit_market = on_deposit_market e, deposit_owner = on_deposit_owner e, deposit_trader_balance =
       on_deposit_trader_balance e, deposit_mint = on_deposit_mint e, deposit_market_vault =
       on_deposit_market_vault e, deposit_amount = on_deposit_amount e, deposit_free_balance =
       on_deposit_free_balance e\<rparr>"

definition mirror_withdrawal :: "Program_Events.WithdrawalEvent \<Rightarrow> Indexer_Events.WithdrawalEvent" where
  "mirror_withdrawal e =
     \<lparr>withdrawal_market = on_withdrawal_market e, withdrawal_owner = on_withdrawal_owner e,
       withdrawal_trader_balance = on_withdrawal_trader_balance e, withdrawal_mint = on_withdrawal_mint e,
       withdrawal_market_vault = on_withdrawal_market_vault e, withdrawal_amount = on_withdrawal_amount e,
       withdrawal_free_balance = on_withdrawal_free_balance e\<rparr>"

definition mirror_protocol_initialized :: "Program_Events.ProtocolInitializedEvent \<Rightarrow> Indexer_Events.ProtocolInitializedEvent" where
  "mirror_protocol_initialized e =
     \<lparr>protocol_initialized_protocol_config = on_protocol_initialized_protocol_config e,
       protocol_initialized_super_admin = on_protocol_initialized_super_admin e,
       protocol_initialized_admin_record = on_protocol_initialized_admin_record e\<rparr>"

definition mirror_admin_added :: "Program_Events.AdminAddedEvent \<Rightarrow> Indexer_Events.AdminAddedEvent" where
  "mirror_admin_added e =
     \<lparr>admin_added_admin_record = on_admin_added_admin_record e, admin_added_authority =
       on_admin_added_authority e, admin_added_added_by = on_admin_added_added_by e\<rparr>"

definition mirror_admin_status_changed :: "Program_Events.AdminStatusChangedEvent \<Rightarrow> Indexer_Events.AdminStatusChangedEvent" where
  "mirror_admin_status_changed e =
     \<lparr>admin_status_changed_admin_record = on_admin_status_changed_admin_record e,
       admin_status_changed_authority = on_admin_status_changed_authority e, admin_status_changed_changed_by =
       on_admin_status_changed_changed_by e, admin_status_changed_status = mirror_admin
       (on_admin_status_changed_status e)\<rparr>"

definition mirror_admin_removed :: "Program_Events.AdminRemovedEvent \<Rightarrow> Indexer_Events.AdminRemovedEvent" where
  "mirror_admin_removed e =
     \<lparr>admin_removed_admin_record = on_admin_removed_admin_record e, admin_removed_authority =
       on_admin_removed_authority e, admin_removed_removed_by = on_admin_removed_removed_by e\<rparr>"

definition mirror_taker_fee_updated :: "Program_Events.TakerFeeUpdatedEvent \<Rightarrow> Indexer_Events.TakerFeeUpdatedEvent" where
  "mirror_taker_fee_updated e =
     \<lparr>taker_fee_updated_protocol_config = on_taker_fee_updated_protocol_config e, taker_fee_updated_super_admin
       = on_taker_fee_updated_super_admin e, taker_fee_updated_previous_taker_fee_bps =
       on_taker_fee_updated_previous_taker_fee_bps e, taker_fee_updated_new_taker_fee_bps =
       on_taker_fee_updated_new_taker_fee_bps e\<rparr>"

definition mirror_protocol_fees_withdrawn :: "Program_Events.ProtocolFeesWithdrawnEvent \<Rightarrow> Indexer_Events.ProtocolFeesWithdrawnEvent" where
  "mirror_protocol_fees_withdrawn e =
     \<lparr>protocol_fees_withdrawn_market = on_protocol_fees_withdrawn_market e, protocol_fees_withdrawn_market_fees
       = on_protocol_fees_withdrawn_market_fees e, protocol_fees_withdrawn_super_admin =
       on_protocol_fees_withdrawn_super_admin e, protocol_fees_withdrawn_quote_mint =
       on_protocol_fees_withdrawn_quote_mint e, protocol_fees_withdrawn_quote_vault =
       on_protocol_fees_withdrawn_quote_vault e, protocol_fees_withdrawn_destination_quote_account =
       on_protocol_fees_withdrawn_destination_quote_account e, protocol_fees_withdrawn_amount =
       on_protocol_fees_withdrawn_amount e, protocol_fees_withdrawn_remaining_accrued_quote_fees =
       on_protocol_fees_withdrawn_remaining_accrued_quote_fees e\<rparr>"

definition mirror_test_faucet_initialized :: "Program_Events.TestFaucetInitializedEvent \<Rightarrow> Indexer_Events.TestFaucetInitializedEvent" where
  "mirror_test_faucet_initialized e =
     \<lparr>test_faucet_initialized_market = on_test_faucet_initialized_market e, test_faucet_initialized_test_faucet
       = on_test_faucet_initialized_test_faucet e, test_faucet_initialized_faucet_authority =
       on_test_faucet_initialized_faucet_authority e, test_faucet_initialized_base_mint =
       on_test_faucet_initialized_base_mint e, test_faucet_initialized_quote_mint =
       on_test_faucet_initialized_quote_mint e, test_faucet_initialized_base_claim_amount =
       on_test_faucet_initialized_base_claim_amount e, test_faucet_initialized_quote_claim_amount =
       on_test_faucet_initialized_quote_claim_amount e\<rparr>"

definition mirror_test_faucet_claimed :: "Program_Events.TestFaucetClaimedEvent \<Rightarrow> Indexer_Events.TestFaucetClaimedEvent" where
  "mirror_test_faucet_claimed e =
     \<lparr>test_faucet_claimed_market = on_test_faucet_claimed_market e, test_faucet_claimed_test_faucet =
       on_test_faucet_claimed_test_faucet e, test_faucet_claimed_claimant = on_test_faucet_claimed_claimant e,
       test_faucet_claimed_base_amount = on_test_faucet_claimed_base_amount e, test_faucet_claimed_quote_amount
       = on_test_faucet_claimed_quote_amount e\<rparr>"

definition mirror_test_faucet_closed :: "Program_Events.TestFaucetClosedEvent \<Rightarrow> Indexer_Events.TestFaucetClosedEvent" where
  "mirror_test_faucet_closed e =
     \<lparr>test_faucet_closed_market = on_test_faucet_closed_market e, test_faucet_closed_test_faucet =
       on_test_faucet_closed_test_faucet e, test_faucet_closed_authority = on_test_faucet_closed_authority e,
       test_faucet_closed_base_mint = on_test_faucet_closed_base_mint e, test_faucet_closed_quote_mint =
       on_test_faucet_closed_quote_mint e\<rparr>"

fun mirror_event :: "ProgramEvent \<Rightarrow> TidebookEvent" where
  "mirror_event (EmitMarketInitialized e) = MarketFamily (MarketInitialized (mirror_market_initialized e))"
| "mirror_event (EmitMarketStatusChanged e) = MarketFamily (MarketStatusChanged (mirror_market_status_changed e))"
| "mirror_event (EmitMarketClosed e) = MarketFamily (MarketClosed (mirror_market_closed e))"
| "mirror_event (EmitMarketMetadataInitialized e) = MarketFamily (MarketMetadataInitialized (mirror_market_metadata_initialized e))"
| "mirror_event (EmitMarketMetadataUpdated e) = MarketFamily (MarketMetadataUpdated (mirror_market_metadata_updated e))"
| "mirror_event (EmitMarketMetadataClosed e) = MarketFamily (MarketMetadataClosed (mirror_market_metadata_closed e))"
| "mirror_event (EmitOrderPlaced e) = OrderFamily (OrderPlaced (mirror_order_placed e))"
| "mirror_event (EmitOrderCanceled e) = OrderFamily (OrderCanceled (mirror_order_canceled e))"
| "mirror_event (EmitFill e) = Fill (mirror_fill e)"
| "mirror_event (EmitTraderBalanceInitialized e) = Balance (BalanceInitialized (mirror_trader_balance_initialized e))"
| "mirror_event (EmitDeposit e) = Balance (BalanceDeposited (mirror_deposit e))"
| "mirror_event (EmitWithdrawal e) = Balance (BalanceWithdrawn (mirror_withdrawal e))"
| "mirror_event (EmitProtocolInitialized e) = Governance (GovernanceProtocolInitialized (mirror_protocol_initialized e))"
| "mirror_event (EmitAdminAdded e) = Governance (GovernanceAdminAdded (mirror_admin_added e))"
| "mirror_event (EmitAdminStatusChanged e) = Governance (GovernanceAdminStatusChanged (mirror_admin_status_changed e))"
| "mirror_event (EmitAdminRemoved e) = Governance (GovernanceAdminRemoved (mirror_admin_removed e))"
| "mirror_event (EmitTakerFeeUpdated e) = Governance (GovernanceTakerFeeUpdated (mirror_taker_fee_updated e))"
| "mirror_event (EmitProtocolFeesWithdrawn e) = Fee (FeeProtocolFeesWithdrawn (mirror_protocol_fees_withdrawn e))"
| "mirror_event (EmitTestFaucetInitialized e) = Faucet (FaucetInitialized (mirror_test_faucet_initialized e))"
| "mirror_event (EmitTestFaucetClaimed e) = Faucet (FaucetClaimed (mirror_test_faucet_claimed e))"
| "mirror_event (EmitTestFaucetClosed e) = Faucet (FaucetClosed (mirror_test_faucet_closed e))"

lemma mirror_encodings:
  "enc (market_initialized_codec b) (mirror_market_initialized x0) = market_initialized_bytes b x0"
  "enc (market_status_changed_codec b) (mirror_market_status_changed x1) = market_status_changed_bytes b x1"
  "enc (market_closed_codec b) (mirror_market_closed x2) = market_closed_bytes b x2"
  "enc (market_metadata_initialized_codec b) (mirror_market_metadata_initialized x3) = market_metadata_initialized_bytes b x3"
  "enc (market_metadata_updated_codec b) (mirror_market_metadata_updated x4) = market_metadata_updated_bytes b x4"
  "enc (market_metadata_closed_codec b) (mirror_market_metadata_closed x5) = market_metadata_closed_bytes b x5"
  "enc (order_placed_codec b) (mirror_order_placed x6) = order_placed_bytes b x6"
  "enc (order_canceled_codec b) (mirror_order_canceled x7) = order_canceled_bytes b x7"
  "enc (fill_codec b) (mirror_fill x8) = fill_bytes b x8"
  "enc (trader_balance_initialized_codec b) (mirror_trader_balance_initialized x9) = trader_balance_initialized_bytes b x9"
  "enc (deposit_codec b) (mirror_deposit x10) = deposit_bytes b x10"
  "enc (withdrawal_codec b) (mirror_withdrawal x11) = withdrawal_bytes b x11"
  "enc (protocol_initialized_codec b) (mirror_protocol_initialized x12) = protocol_initialized_bytes b x12"
  "enc (admin_added_codec b) (mirror_admin_added x13) = admin_added_bytes b x13"
  "enc (admin_status_changed_codec b) (mirror_admin_status_changed x14) = admin_status_changed_bytes b x14"
  "enc (admin_removed_codec b) (mirror_admin_removed x15) = admin_removed_bytes b x15"
  "enc (taker_fee_updated_codec b) (mirror_taker_fee_updated x16) = taker_fee_updated_bytes b x16"
  "enc (protocol_fees_withdrawn_codec b) (mirror_protocol_fees_withdrawn x17) = protocol_fees_withdrawn_bytes b x17"
  "enc (test_faucet_initialized_codec b) (mirror_test_faucet_initialized x18) = test_faucet_initialized_bytes b x18"
  "enc (test_faucet_claimed_codec b) (mirror_test_faucet_claimed x19) = test_faucet_claimed_bytes b x19"
  "enc (test_faucet_closed_codec b) (mirror_test_faucet_closed x20) = test_faucet_closed_bytes b x20"
  unfolding market_initialized_codec_def mirror_market_initialized_def market_initialized_bytes_def
    market_status_changed_codec_def mirror_market_status_changed_def market_status_changed_bytes_def
    market_closed_codec_def mirror_market_closed_def market_closed_bytes_def
    market_metadata_initialized_codec_def mirror_market_metadata_initialized_def
    market_metadata_initialized_bytes_def market_metadata_updated_codec_def mirror_market_metadata_updated_def
    market_metadata_updated_bytes_def market_metadata_closed_codec_def mirror_market_metadata_closed_def
    market_metadata_closed_bytes_def order_placed_codec_def mirror_order_placed_def order_placed_bytes_def
    order_canceled_codec_def mirror_order_canceled_def order_canceled_bytes_def fill_codec_def mirror_fill_def
    fill_bytes_def trader_balance_initialized_codec_def mirror_trader_balance_initialized_def
    trader_balance_initialized_bytes_def deposit_codec_def mirror_deposit_def deposit_bytes_def
    withdrawal_codec_def mirror_withdrawal_def withdrawal_bytes_def protocol_initialized_codec_def
    mirror_protocol_initialized_def protocol_initialized_bytes_def admin_added_codec_def mirror_admin_added_def
    admin_added_bytes_def admin_status_changed_codec_def mirror_admin_status_changed_def
    admin_status_changed_bytes_def admin_removed_codec_def mirror_admin_removed_def admin_removed_bytes_def
    taker_fee_updated_codec_def mirror_taker_fee_updated_def taker_fee_updated_bytes_def
    protocol_fees_withdrawn_codec_def mirror_protocol_fees_withdrawn_def protocol_fees_withdrawn_bytes_def
    test_faucet_initialized_codec_def mirror_test_faucet_initialized_def test_faucet_initialized_bytes_def
    test_faucet_claimed_codec_def mirror_test_faucet_claimed_def test_faucet_claimed_bytes_def
    test_faucet_closed_codec_def mirror_test_faucet_closed_def test_faucet_closed_bytes_def
  by (simp_all add: mirror_variants)

lemma mirror_market_initialized_onto: "\<exists>e. mirror_market_initialized e = r"
  by (rule exI [of _ "\<lparr>on_market_initialized_market = market_initialized_market r, on_market_initialized_market_fees =
      market_initialized_market_fees r, on_market_initialized_authority = market_initialized_authority r,
      on_market_initialized_base_mint = market_initialized_base_mint r, on_market_initialized_quote_mint =
      market_initialized_quote_mint r, on_market_initialized_base_vault = market_initialized_base_vault r,
      on_market_initialized_quote_vault = market_initialized_quote_vault r,
      on_market_initialized_price_tick_size = market_initialized_price_tick_size r,
      on_market_initialized_quantity_lot_size = market_initialized_quantity_lot_size r\<rparr>"])
    (simp add: mirror_market_initialized_def)

lemma mirror_market_status_changed_onto: "\<exists>e. mirror_market_status_changed e = r"
proof -
  obtain v where "mirror_status v = market_status_changed_status r" using mirror_onto by metis
  then show ?thesis
    by (intro exI [of _ "\<lparr>on_market_status_changed_market = market_status_changed_market r, on_market_status_changed_authority =
        market_status_changed_authority r, on_market_status_changed_status = v\<rparr>"])
      (simp add: mirror_market_status_changed_def)
qed

lemma mirror_market_closed_onto: "\<exists>e. mirror_market_closed e = r"
  by (rule exI [of _ "\<lparr>on_market_closed_market = market_closed_market r, on_market_closed_market_fees = market_closed_market_fees
      r, on_market_closed_authority = market_closed_authority r, on_market_closed_base_mint =
      market_closed_base_mint r, on_market_closed_quote_mint = market_closed_quote_mint r,
      on_market_closed_base_vault = market_closed_base_vault r, on_market_closed_quote_vault =
      market_closed_quote_vault r\<rparr>"])
    (simp add: mirror_market_closed_def)

lemma mirror_market_metadata_initialized_onto: "\<exists>e. mirror_market_metadata_initialized e = r"
proof -
  obtain v where "mirror_kind v = market_metadata_initialized_kind r" using mirror_onto by metis
  then show ?thesis
    by (intro exI [of _ "\<lparr>on_market_metadata_initialized_metadata = market_metadata_initialized_metadata r,
        on_market_metadata_initialized_market = market_metadata_initialized_market r,
        on_market_metadata_initialized_authority = market_metadata_initialized_authority r,
        on_market_metadata_initialized_base_symbol = market_metadata_initialized_base_symbol r,
        on_market_metadata_initialized_quote_symbol = market_metadata_initialized_quote_symbol r,
        on_market_metadata_initialized_display_name = market_metadata_initialized_display_name r,
        on_market_metadata_initialized_kind = v\<rparr>"])
      (simp add: mirror_market_metadata_initialized_def)
qed

lemma mirror_market_metadata_updated_onto: "\<exists>e. mirror_market_metadata_updated e = r"
  by (rule exI [of _ "\<lparr>on_market_metadata_updated_metadata = market_metadata_updated_metadata r,
      on_market_metadata_updated_market = market_metadata_updated_market r, on_market_metadata_updated_authority
      = market_metadata_updated_authority r, on_market_metadata_updated_base_symbol =
      market_metadata_updated_base_symbol r, on_market_metadata_updated_quote_symbol =
      market_metadata_updated_quote_symbol r, on_market_metadata_updated_display_name =
      market_metadata_updated_display_name r\<rparr>"])
    (simp add: mirror_market_metadata_updated_def)

lemma mirror_market_metadata_closed_onto: "\<exists>e. mirror_market_metadata_closed e = r"
proof -
  obtain v where "mirror_kind v = market_metadata_closed_kind r" using mirror_onto by metis
  then show ?thesis
    by (intro exI [of _ "\<lparr>on_market_metadata_closed_metadata = market_metadata_closed_metadata r, on_market_metadata_closed_market
        = market_metadata_closed_market r, on_market_metadata_closed_authority =
        market_metadata_closed_authority r, on_market_metadata_closed_kind = v\<rparr>"])
      (simp add: mirror_market_metadata_closed_def)
qed

lemma mirror_order_placed_onto: "\<exists>e. mirror_order_placed e = r"
proof -
  obtain v where "mirror_side v = order_placed_side r" using mirror_onto by metis
  then show ?thesis
    by (intro exI [of _ "\<lparr>on_order_placed_market = order_placed_market r, on_order_placed_order = order_placed_order r,
        on_order_placed_order_id = order_placed_order_id r, on_order_placed_owner = order_placed_owner r,
        on_order_placed_side = v, on_order_placed_price = order_placed_price r, on_order_placed_quantity =
        order_placed_quantity r, on_order_placed_locked_collateral = order_placed_locked_collateral r,
        on_order_placed_price_level = order_placed_price_level r\<rparr>"])
      (simp add: mirror_order_placed_def)
qed

lemma mirror_order_canceled_onto: "\<exists>e. mirror_order_canceled e = r"
proof -
  obtain v where "mirror_side v = order_canceled_side r" using mirror_onto by metis
  then show ?thesis
    by (intro exI [of _ "\<lparr>on_order_canceled_market = order_canceled_market r, on_order_canceled_order = order_canceled_order r,
        on_order_canceled_order_id = order_canceled_order_id r, on_order_canceled_owner = order_canceled_owner
        r, on_order_canceled_side = v, on_order_canceled_price = order_canceled_price r,
        on_order_canceled_canceled_quantity = order_canceled_canceled_quantity r,
        on_order_canceled_released_collateral = order_canceled_released_collateral r,
        on_order_canceled_price_level = order_canceled_price_level r, on_order_canceled_price_level_closed =
        order_canceled_price_level_closed r\<rparr>"])
      (simp add: mirror_order_canceled_def)
qed

lemma mirror_fill_onto: "\<exists>e. mirror_fill e = r"
proof -
  obtain v where "mirror_side v = fill_maker_side r" using mirror_onto by metis
  then show ?thesis
    by (intro exI [of _ "\<lparr>on_fill_market = fill_market r, on_fill_maker_order = fill_maker_order r, on_fill_maker_order_id =
        fill_maker_order_id r, on_fill_maker = fill_maker r, on_fill_taker = fill_taker r, on_fill_maker_side =
        v, on_fill_execution_price = fill_execution_price r, on_fill_base_quantity = fill_base_quantity r,
        on_fill_quote_quantity = fill_quote_quantity r, on_fill_taker_fee_quote = fill_taker_fee_quote r,
        on_fill_maker_remaining_quantity = fill_maker_remaining_quantity r, on_fill_taker_remaining_quantity =
        fill_taker_remaining_quantity r\<rparr>"])
      (simp add: mirror_fill_def)
qed

lemma mirror_trader_balance_initialized_onto: "\<exists>e. mirror_trader_balance_initialized e = r"
  by (rule exI [of _ "\<lparr>on_trader_balance_initialized_market = trader_balance_initialized_market r,
      on_trader_balance_initialized_owner = trader_balance_initialized_owner r,
      on_trader_balance_initialized_trader_balance = trader_balance_initialized_trader_balance r\<rparr>"])
    (simp add: mirror_trader_balance_initialized_def)

lemma mirror_deposit_onto: "\<exists>e. mirror_deposit e = r"
  by (rule exI [of _ "\<lparr>on_deposit_market = deposit_market r, on_deposit_owner = deposit_owner r, on_deposit_trader_balance =
      deposit_trader_balance r, on_deposit_mint = deposit_mint r, on_deposit_market_vault = deposit_market_vault
      r, on_deposit_amount = deposit_amount r, on_deposit_free_balance = deposit_free_balance r\<rparr>"])
    (simp add: mirror_deposit_def)

lemma mirror_withdrawal_onto: "\<exists>e. mirror_withdrawal e = r"
  by (rule exI [of _ "\<lparr>on_withdrawal_market = withdrawal_market r, on_withdrawal_owner = withdrawal_owner r,
      on_withdrawal_trader_balance = withdrawal_trader_balance r, on_withdrawal_mint = withdrawal_mint r,
      on_withdrawal_market_vault = withdrawal_market_vault r, on_withdrawal_amount = withdrawal_amount r,
      on_withdrawal_free_balance = withdrawal_free_balance r\<rparr>"])
    (simp add: mirror_withdrawal_def)

lemma mirror_protocol_initialized_onto: "\<exists>e. mirror_protocol_initialized e = r"
  by (rule exI [of _ "\<lparr>on_protocol_initialized_protocol_config = protocol_initialized_protocol_config r,
      on_protocol_initialized_super_admin = protocol_initialized_super_admin r,
      on_protocol_initialized_admin_record = protocol_initialized_admin_record r\<rparr>"])
    (simp add: mirror_protocol_initialized_def)

lemma mirror_admin_added_onto: "\<exists>e. mirror_admin_added e = r"
  by (rule exI [of _ "\<lparr>on_admin_added_admin_record = admin_added_admin_record r, on_admin_added_authority = admin_added_authority
      r, on_admin_added_added_by = admin_added_added_by r\<rparr>"])
    (simp add: mirror_admin_added_def)

lemma mirror_admin_status_changed_onto: "\<exists>e. mirror_admin_status_changed e = r"
proof -
  obtain v where "mirror_admin v = admin_status_changed_status r" using mirror_onto by metis
  then show ?thesis
    by (intro exI [of _ "\<lparr>on_admin_status_changed_admin_record = admin_status_changed_admin_record r,
        on_admin_status_changed_authority = admin_status_changed_authority r, on_admin_status_changed_changed_by
        = admin_status_changed_changed_by r, on_admin_status_changed_status = v\<rparr>"])
      (simp add: mirror_admin_status_changed_def)
qed

lemma mirror_admin_removed_onto: "\<exists>e. mirror_admin_removed e = r"
  by (rule exI [of _ "\<lparr>on_admin_removed_admin_record = admin_removed_admin_record r, on_admin_removed_authority =
      admin_removed_authority r, on_admin_removed_removed_by = admin_removed_removed_by r\<rparr>"])
    (simp add: mirror_admin_removed_def)

lemma mirror_taker_fee_updated_onto: "\<exists>e. mirror_taker_fee_updated e = r"
  by (rule exI [of _ "\<lparr>on_taker_fee_updated_protocol_config = taker_fee_updated_protocol_config r,
      on_taker_fee_updated_super_admin = taker_fee_updated_super_admin r,
      on_taker_fee_updated_previous_taker_fee_bps = taker_fee_updated_previous_taker_fee_bps r,
      on_taker_fee_updated_new_taker_fee_bps = taker_fee_updated_new_taker_fee_bps r\<rparr>"])
    (simp add: mirror_taker_fee_updated_def)

lemma mirror_protocol_fees_withdrawn_onto: "\<exists>e. mirror_protocol_fees_withdrawn e = r"
  by (rule exI [of _ "\<lparr>on_protocol_fees_withdrawn_market = protocol_fees_withdrawn_market r,
      on_protocol_fees_withdrawn_market_fees = protocol_fees_withdrawn_market_fees r,
      on_protocol_fees_withdrawn_super_admin = protocol_fees_withdrawn_super_admin r,
      on_protocol_fees_withdrawn_quote_mint = protocol_fees_withdrawn_quote_mint r,
      on_protocol_fees_withdrawn_quote_vault = protocol_fees_withdrawn_quote_vault r,
      on_protocol_fees_withdrawn_destination_quote_account = protocol_fees_withdrawn_destination_quote_account
      r, on_protocol_fees_withdrawn_amount = protocol_fees_withdrawn_amount r,
      on_protocol_fees_withdrawn_remaining_accrued_quote_fees =
      protocol_fees_withdrawn_remaining_accrued_quote_fees r\<rparr>"])
    (simp add: mirror_protocol_fees_withdrawn_def)

lemma mirror_test_faucet_initialized_onto: "\<exists>e. mirror_test_faucet_initialized e = r"
  by (rule exI [of _ "\<lparr>on_test_faucet_initialized_market = test_faucet_initialized_market r,
      on_test_faucet_initialized_test_faucet = test_faucet_initialized_test_faucet r,
      on_test_faucet_initialized_faucet_authority = test_faucet_initialized_faucet_authority r,
      on_test_faucet_initialized_base_mint = test_faucet_initialized_base_mint r,
      on_test_faucet_initialized_quote_mint = test_faucet_initialized_quote_mint r,
      on_test_faucet_initialized_base_claim_amount = test_faucet_initialized_base_claim_amount r,
      on_test_faucet_initialized_quote_claim_amount = test_faucet_initialized_quote_claim_amount r\<rparr>"])
    (simp add: mirror_test_faucet_initialized_def)

lemma mirror_test_faucet_claimed_onto: "\<exists>e. mirror_test_faucet_claimed e = r"
  by (rule exI [of _ "\<lparr>on_test_faucet_claimed_market = test_faucet_claimed_market r, on_test_faucet_claimed_test_faucet =
      test_faucet_claimed_test_faucet r, on_test_faucet_claimed_claimant = test_faucet_claimed_claimant r,
      on_test_faucet_claimed_base_amount = test_faucet_claimed_base_amount r,
      on_test_faucet_claimed_quote_amount = test_faucet_claimed_quote_amount r\<rparr>"])
    (simp add: mirror_test_faucet_claimed_def)

lemma mirror_test_faucet_closed_onto: "\<exists>e. mirror_test_faucet_closed e = r"
  by (rule exI [of _ "\<lparr>on_test_faucet_closed_market = test_faucet_closed_market r, on_test_faucet_closed_test_faucet =
      test_faucet_closed_test_faucet r, on_test_faucet_closed_authority = test_faucet_closed_authority r,
      on_test_faucet_closed_base_mint = test_faucet_closed_base_mint r, on_test_faucet_closed_quote_mint =
      test_faucet_closed_quote_mint r\<rparr>"])
    (simp add: mirror_test_faucet_closed_def)

lemma mirror_event_onto: "\<exists>e. mirror_event e = ev"
proof (cases ev rule: event_discriminator.cases)
  case (1 x)
  then show ?thesis using mirror_market_initialized_onto [of x] mirror_event.simps(1) by metis
next
  case (2 x)
  then show ?thesis using mirror_market_status_changed_onto [of x] mirror_event.simps(2) by metis
next
  case (3 x)
  then show ?thesis using mirror_market_closed_onto [of x] mirror_event.simps(3) by metis
next
  case (4 x)
  then show ?thesis using mirror_market_metadata_initialized_onto [of x] mirror_event.simps(4) by metis
next
  case (5 x)
  then show ?thesis using mirror_market_metadata_updated_onto [of x] mirror_event.simps(5) by metis
next
  case (6 x)
  then show ?thesis using mirror_market_metadata_closed_onto [of x] mirror_event.simps(6) by metis
next
  case (7 x)
  then show ?thesis using mirror_order_placed_onto [of x] mirror_event.simps(7) by metis
next
  case (8 x)
  then show ?thesis using mirror_order_canceled_onto [of x] mirror_event.simps(8) by metis
next
  case (9 x)
  then show ?thesis using mirror_fill_onto [of x] mirror_event.simps(9) by metis
next
  case (10 x)
  then show ?thesis using mirror_trader_balance_initialized_onto [of x] mirror_event.simps(10) by metis
next
  case (11 x)
  then show ?thesis using mirror_deposit_onto [of x] mirror_event.simps(11) by metis
next
  case (12 x)
  then show ?thesis using mirror_withdrawal_onto [of x] mirror_event.simps(12) by metis
next
  case (13 x)
  then show ?thesis using mirror_protocol_initialized_onto [of x] mirror_event.simps(13) by metis
next
  case (14 x)
  then show ?thesis using mirror_admin_added_onto [of x] mirror_event.simps(14) by metis
next
  case (15 x)
  then show ?thesis using mirror_admin_status_changed_onto [of x] mirror_event.simps(15) by metis
next
  case (16 x)
  then show ?thesis using mirror_admin_removed_onto [of x] mirror_event.simps(16) by metis
next
  case (17 x)
  then show ?thesis using mirror_taker_fee_updated_onto [of x] mirror_event.simps(17) by metis
next
  case (18 x)
  then show ?thesis using mirror_protocol_fees_withdrawn_onto [of x] mirror_event.simps(18) by metis
next
  case (19 x)
  then show ?thesis using mirror_test_faucet_initialized_onto [of x] mirror_event.simps(19) by metis
next
  case (20 x)
  then show ?thesis using mirror_test_faucet_claimed_onto [of x] mirror_event.simps(20) by metis
next
  case (21 x)
  then show ?thesis using mirror_test_faucet_closed_onto [of x] mirror_event.simps(21) by metis
qed

lemma mirror_encode: "encode_event b (mirror_event e) = event_body b e"
  by (cases e) (simp_all add: mirror_encodings)

lemma mirror_name: "event_type (mirror_event e) = event_name e"
  by (cases e) simp_all

text \<open>The constants of the decoder are Anchor's hashes of the event names.\<close>

lemma event_hash_discriminator:
  assumes "event_hash_law event_hash"
  shows "event_hash (event_type ev) = event_discriminator ev"
  using assms
  by (cases ev rule: event_discriminator.cases) (simp_all add: event_hash_law_def anchor_event_hashes_def discriminators)

lemma mirror_payload:
  "event_hash_law event_hash \<Longrightarrow>
    event_discriminator (mirror_event e) @ encode_event b (mirror_event e) = event_payload event_hash b e"
  by (simp add: event_payload_def mirror_encode mirror_name [symmetric] event_hash_discriminator)

section \<open>Properties\<close>

text \<open>C35: The indexer decodes exactly what the program emits. A payload is accepted if and only if it is
  the Base64 text of an Anchor payload of some program event, and then the stored event is that
  event, field by field, with the log position and text kept: on-chain and off-chain declarations
  agree in field order, types and variant order, the decoder's discriminators are the SHA-256 prefixes
  Anchor derives from the event names (given as literal bytes), and truncated bodies, trailing bytes,
  unknown variants and unknown discriminators are all rejected.\<close>

theorem decoding_is_exact:
  assumes "borsh_law b" "event_hash_law event_hash"
  shows "decode_event base64 b raw = Inr d \<longleftrightarrow>
    (\<exists>e. event_fits b (mirror_event e) \<and> base64 (raw_payload_base64 raw) = Some (event_payload event_hash b e) \<and>
      d = \<lparr>dec_log_index = raw_log_index raw, dec_payload_base64 = raw_payload_base64 raw,
        dec_event = mirror_event e\<rparr>)"
  unfolding decode_event_Inr [OF assms(1)] mirror_payload [OF assms(2), symmetric] by (metis mirror_event_onto)

end
