(* ===== verification/Indexer_Demo.thy ===== *)
theory Indexer_Demo
  imports Event_Pipeline
begin

text \<open>
  The indexer's parameters instantiated: a rendering of keys, a text form of payloads and the
  discriminators as a table, each with the law it has to satisfy, and the pipeline run on a
  transaction in which a caller imitates the log lines of the runtime.
\<close>

section \<open>Instances of the parameters\<close>

definition example_key :: "pubkey \<Rightarrow> string" where
  "example_key k = map (\<lambda>i. if bit k i then CHR ''2'' else CHR ''1'') [0..<256]"

lemma example_key_law: "key_text_law example_key"
proof -
  have "j = k" if "example_key j = example_key k" for j k
  proof (rule bit_word_eqI)
    fix i assume "i < LENGTH(256)"
    then have "example_key j ! i = example_key k ! i" "i < 256" using that by simp_all
    then show "bit j i = bit k i" by (simp add: example_key_def split: if_splits)
  qed
  then have "inj example_key" by (rule injI)
  moreover have "example_key k \<noteq> []" for k by (simp add: example_key_def)
  moreover have "set (example_key k) \<subseteq> set base58_alphabet" for k by (auto simp: example_key_def base58_alphabet_def)
  ultimately show ?thesis by (simp add: key_text_law_def)
qed

definition example_text :: "bytes \<Rightarrow> string" where
  "example_text bs = map (\<lambda>x. char_of (unat x)) bs"

definition example_base64 :: "string \<Rightarrow> bytes option" where
  "example_base64 s = Some (map (\<lambda>c. word_of_nat (of_char c)) s)"

lemma example_base64_text [simp]: "example_base64 (example_text bs) = Some bs"
proof -
  have "word_of_nat (of_char (char_of (unat x))) = x" for x :: "8 word"
  proof -
    have "unat x < 256" using unat_less_2p [of x] by simp
    then show ?thesis by simp
  qed
  then show ?thesis by (simp add: example_base64_def example_text_def comp_def map_idI)
qed

definition example_hash :: "string \<Rightarrow> bytes" where
  "example_hash name = the (map_of anchor_event_hashes name)"

lemma example_hash_law: "event_hash_law example_hash"
  by (simp add: event_hash_law_def example_hash_def anchor_event_hashes_def)

section \<open>A transaction\<close>

text \<open>Program 1 imitates a completion and an invocation, and emits data of its own, around a call of
  program 2.\<close>

definition demo_trace :: "call_item list" where
  "demo_trace =
     [Call 1 ''1'' [Message ''x invoke [2]'', Data ''BBBB'', Call 2 ''2'' [Message ''ok'', Data ''AAAA''],
        Message ''y success'', Data ''CCCC'']]"

theorem extraction_is_exact_witness:
  "extract_program_data example_key (rendered example_key demo_trace) 2 = emitted_by example_key 2 demo_trace \<and>
   emitted_by example_key 2 demo_trace = [\<lparr>raw_log_index = 5, raw_payload_base64 = ''AAAA''\<rparr>]"
proof
  show "extract_program_data example_key (rendered example_key demo_trace) 2 = emitted_by example_key 2 demo_trace"
    by (rule extraction_is_exact [THEN conjunct1, OF example_key_law])
      (simp add: demo_trace_def parse_invocation_def PROGRAM_PREFIX_def INVOKE_MARKER_def strip_prefix_def)
  show "emitted_by example_key 2 demo_trace = [\<lparr>raw_log_index = 5, raw_payload_base64 = ''AAAA''\<rparr>]"
    by (simp add: emitted_by_def demo_trace_def logged_items_def)
qed

section \<open>An event\<close>

definition demo_deposit :: ProgramEvent where
  "demo_deposit = EmitDeposit
     \<lparr>on_deposit_market = 1, on_deposit_owner = 2, on_deposit_trader_balance = 3, on_deposit_mint = 4,
      on_deposit_market_vault = 5, on_deposit_amount = 700, on_deposit_free_balance = 900\<rparr>"

definition demo_payload :: string where
  "demo_payload = example_text (event_payload example_hash example_borsh demo_deposit)"

theorem decoding_is_exact_witness:
  "decode_event example_base64 example_borsh \<lparr>raw_log_index = 5, raw_payload_base64 = demo_payload\<rparr> =
     Inr \<lparr>dec_log_index = 5, dec_payload_base64 = demo_payload,
       dec_event = Balance (BalanceDeposited
         \<lparr>deposit_market = 1, deposit_owner = 2, deposit_trader_balance = 3, deposit_mint = 4,
          deposit_market_vault = 5, deposit_amount = 700, deposit_free_balance = 900\<rparr>)\<rparr>"
proof -
  let ?raw = "\<lparr>raw_log_index = 5, raw_payload_base64 = demo_payload\<rparr>"
  have fits: "event_fits example_borsh (mirror_event demo_deposit)"
    by (simp add: demo_deposit_def deposit_codec_def struct_codec_def pair_codec_def example_borsh_def fixed_codec_def)
  have "decode_event example_base64 example_borsh ?raw =
    Inr \<lparr>dec_log_index = raw_log_index ?raw, dec_payload_base64 = raw_payload_base64 ?raw,
      dec_event = mirror_event demo_deposit\<rparr>"
    unfolding decoding_is_exact [OF example_borsh_law example_hash_law]
    by (rule exI [of _ demo_deposit]) (simp add: fits demo_payload_def)
  then show ?thesis by (simp add: demo_deposit_def mirror_deposit_def)
qed

end
