(* ===== verification/Indexer_Store.thy ===== *)
theory Indexer_Store
  imports Indexer_Decode
begin

text \<open>
  The indexer's database, \<open>storage/*.rs\<close>: source transactions and their decoded events, written
  atomically and idempotently, and the two progress cursors. PostgreSQL stores signed integers, so
  every unsigned position is converted with a check. A failed statement leaves the database as it
  was: the functions return an error or the new database.
\<close>

section \<open>Signatures and records\<close>

type_synonym u32 = "32 word"
type_synonym i32 = "32 word"

text \<open>A transaction signature is 64 bytes; its Base58 text is made and read by a third-party crate.\<close>

type_synonym signature = "512 word"

record text_codec =
  sig_text :: "signature \<Rightarrow> string"
  sig_parse :: "string \<Rightarrow> signature option"

definition text_law :: "text_codec \<Rightarrow> bool" where
  "text_law tc \<longleftrightarrow> (\<forall>s. sig_parse tc (sig_text tc s) = Some s)"

record TransactionRecord =
  txr_signature :: string
  txr_slot :: u64
  txr_block_time :: "i64 option"
  txr_logs :: "string list"
  txr_transaction_index :: "u32 option"

section \<open>Checked conversions\<close>

definition i32_of :: "u32 \<Rightarrow> i32 option" where
  "i32_of n = (if unat n < 2 ^ 31 then Some n else None)"

definition i32_of_usize :: "nat \<Rightarrow> i32 option" where
  "i32_of_usize n = (if n < 2 ^ 31 then Some (of_nat n) else None)"

text \<open>\<open>u64::try_from\<close> of a signed value, and \<open>u32::try_from\<close>.\<close>

definition u64_of :: "i64 \<Rightarrow> u64 option" where
  "u64_of n = (if 0 \<le> sint n then Some n else None)"

definition u32_of :: "i32 \<Rightarrow> u32 option" where
  "u32_of n = (if 0 \<le> sint n then Some n else None)"

text \<open>\<open>Option::map(..).transpose()?\<close>\<close>

definition transpose_opt :: "('a \<Rightarrow> 'b option) \<Rightarrow> 'a option \<Rightarrow> 'b option option" where
  "transpose_opt f x = (case x of None \<Rightarrow> Some None | Some a \<Rightarrow> map_option Some (f a))"

section \<open>Rows\<close>

definition SOURCE_SCHEMA_VERSION :: i32 where "SOURCE_SCHEMA_VERSION = 1"

record TransactionInsert =
  ti_signature :: string
  ti_slot :: i64
  ti_transaction_index :: "i32 option"
  ti_block_time :: "i64 option"
  ti_raw_logs :: "string list"

record EventInsert =
  ei_log_index :: i32
  ei_event_type :: string
  ei_payload_base64 :: string
  ei_decoded_event :: TidebookEvent

datatype StorageModelError =
    SlotExceedsBigInt u64
  | LogIndexExceedsInteger nat
  | TransactionIndexExceedsInteger u32

datatype StorageError =
    ModelError StorageModelError
  | TransactionConflict string
  | EventConflict string i32

definition transaction_insert :: "TransactionRecord \<Rightarrow> StorageModelError + TransactionInsert" where
  "transaction_insert r =
     (case i64_try_from (txr_slot r) of
        None \<Rightarrow> Inl (SlotExceedsBigInt (txr_slot r))
      | Some slot \<Rightarrow>
     (case txr_transaction_index r of
        None \<Rightarrow> Inr \<lparr>ti_signature = txr_signature r, ti_slot = slot, ti_transaction_index = None,
          ti_block_time = txr_block_time r, ti_raw_logs = txr_logs r\<rparr>
      | Some i \<Rightarrow>
     (case i32_of i of
        None \<Rightarrow> Inl (TransactionIndexExceedsInteger i)
      | Some j \<Rightarrow> Inr \<lparr>ti_signature = txr_signature r, ti_slot = slot, ti_transaction_index = Some j,
          ti_block_time = txr_block_time r, ti_raw_logs = txr_logs r\<rparr>)))"

definition event_insert :: "DecodedEventLog \<Rightarrow> StorageModelError + EventInsert" where
  "event_insert d =
     (case i32_of_usize (dec_log_index d) of
        None \<Rightarrow> Inl (LogIndexExceedsInteger (dec_log_index d))
      | Some i \<Rightarrow> Inr \<lparr>ei_log_index = i, ei_event_type = event_type (dec_event d),
          ei_payload_base64 = dec_payload_base64 d, ei_decoded_event = dec_event d\<rparr>)"

text \<open>\<open>iter().map(f).collect::<Result<Vec<_>, _>>()\<close>: the first error, or all results.\<close>

fun collect_results :: "('a \<Rightarrow> 'e + 'b) \<Rightarrow> 'a list \<Rightarrow> 'e + 'b list" where
  "collect_results f [] = Inr []"
| "collect_results f (x # xs) =
     (case f x of
        Inl e \<Rightarrow> Inl e
      | Inr y \<Rightarrow> (case collect_results f xs of Inl e \<Rightarrow> Inl e | Inr ys \<Rightarrow> Inr (y # ys)))"

text \<open>The tables. Transactions keep their insertion order, so that queries over the table can be
  evaluated; the columns besides the key are the row.\<close>

record transaction_row =
  tr_slot :: i64
  tr_transaction_index :: "i32 option"
  tr_block_time :: "i64 option"
  tr_raw_logs :: "string list"
  tr_schema :: i32

record event_row =
  er_event_type :: string
  er_payload_base64 :: string
  er_decoded_event :: TidebookEvent
  er_schema :: i32

record LiveCheckpointRow =
  lcr_signature :: string
  lcr_slot :: i64
  lcr_transaction_index :: "i32 option"

record database =
  db_transactions :: "(string \<times> transaction_row) list"
  db_events :: "string \<times> i32 \<Rightarrow> event_row option"
  db_backfill :: "string \<Rightarrow> (string option \<times> bool) option"
  db_live :: "string \<Rightarrow> LiveCheckpointRow option"

section \<open>Writing a transaction\<close>

text \<open>\<open>INSERT ... ON CONFLICT DO UPDATE ... WHERE\<close> all columns agree: one affected row for a new row or
  an exact replay, none (here: no result) for a conflict.\<close>

definition upsert_transaction :: "TransactionInsert \<Rightarrow> database \<Rightarrow> database option" where
  "upsert_transaction t db =
     (let row = \<lparr>tr_slot = ti_slot t, tr_transaction_index = ti_transaction_index t,
        tr_block_time = ti_block_time t, tr_raw_logs = ti_raw_logs t, tr_schema = SOURCE_SCHEMA_VERSION\<rparr> in
      case map_of (db_transactions db) (ti_signature t) of
        None \<Rightarrow> Some (db\<lparr>db_transactions := db_transactions db @ [(ti_signature t, row)]\<rparr>)
      | Some stored \<Rightarrow> if stored = row then Some db else None)"

definition upsert_event :: "string \<Rightarrow> EventInsert \<Rightarrow> database \<Rightarrow> database option" where
  "upsert_event signature e db =
     (let row = \<lparr>er_event_type = ei_event_type e, er_payload_base64 = ei_payload_base64 e,
        er_decoded_event = ei_decoded_event e, er_schema = SOURCE_SCHEMA_VERSION\<rparr> in
      case db_events db (signature, ei_log_index e) of
        None \<Rightarrow> Some (db\<lparr>db_events := (db_events db)((signature, ei_log_index e) \<mapsto> row)\<rparr>)
      | Some stored \<Rightarrow> if stored = row then Some db else None)"

fun upsert_events :: "string \<Rightarrow> EventInsert list \<Rightarrow> database \<Rightarrow> StorageError + database" where
  "upsert_events signature [] db = Inr db"
| "upsert_events signature (e # es) db =
     (case upsert_event signature e db of
        None \<Rightarrow> Inl (EventConflict signature (ei_log_index e))
      | Some db' \<Rightarrow> upsert_events signature es db')"

definition persist_transaction ::
  "database \<Rightarrow> TransactionRecord \<Rightarrow> DecodedEventLog list \<Rightarrow> StorageError + database" where
  "persist_transaction db transaction events =
     (case transaction_insert transaction of
        Inl e \<Rightarrow> Inl (ModelError e)
      | Inr t \<Rightarrow>
     (case collect_results event_insert events of
        Inl e \<Rightarrow> Inl (ModelError e)
      | Inr es \<Rightarrow>
     (case upsert_transaction t db of
        None \<Rightarrow> Inl (TransactionConflict (ti_signature t))
      | Some db' \<Rightarrow> upsert_events (ti_signature t) es db')))"

section \<open>The backfill cursor\<close>

record BackfillCheckpoint =
  bc_before_signature :: "signature option"
  bc_completed :: bool

datatype CheckpointError = InvalidSignature

definition load_backfill_checkpoint ::
  "text_codec \<Rightarrow> database \<Rightarrow> string \<Rightarrow> CheckpointError + BackfillCheckpoint" where
  "load_backfill_checkpoint tc db program =
     (case db_backfill db program of
        None \<Rightarrow> Inr \<lparr>bc_before_signature = None, bc_completed = False\<rparr>
      | Some (before, completed) \<Rightarrow>
     (case transpose_opt (sig_parse tc) before of
        None \<Rightarrow> Inl InvalidSignature
      | Some cursor \<Rightarrow> Inr \<lparr>bc_before_signature = cursor, bc_completed = completed\<rparr>))"

definition save_backfill_checkpoint ::
  "text_codec \<Rightarrow> database \<Rightarrow> string \<Rightarrow> signature option \<Rightarrow> bool \<Rightarrow> database" where
  "save_backfill_checkpoint tc db program before completed =
     db\<lparr>db_backfill := (db_backfill db)(program \<mapsto> (map_option (sig_text tc) before, completed))\<rparr>"

end
