(* ===== verification/Live_Checkpoint.thy ===== *)
theory Live_Checkpoint
  imports Indexer_Store
begin

text \<open>
  The durable position of live ingestion, \<open>storage/live_checkpoint.rs\<close>: loading and checking the stored
  row, the decision whether an incoming position may replace it, and the bootstrap from the newest
  stored transaction. Each function is one database transaction, from the database to an error or the
  new database.
\<close>

section \<open>Positions\<close>

record LiveCheckpoint =
  lc_signature :: signature
  lc_slot :: u64
  lc_transaction_index :: "u32 option"

datatype LiveCheckpointError =
    InvalidLiveSignature
  | NegativeSlot i64
  | NegativeTransactionIndex i32
  | SlotOutOfRange u64
  | TransactionIndexOutOfRange u32
  | Backward LiveCheckpoint LiveCheckpoint
  | AmbiguousSameSlot LiveCheckpoint LiveCheckpoint
  | PositionConflict LiveCheckpoint LiveCheckpoint

definition live_checkpoint_try_from ::
  "text_codec \<Rightarrow> LiveCheckpointRow \<Rightarrow> LiveCheckpointError + LiveCheckpoint" where
  "live_checkpoint_try_from tc row =
     (case sig_parse tc (lcr_signature row) of
        None \<Rightarrow> Inl InvalidLiveSignature
      | Some signature \<Rightarrow>
     (case u64_of (lcr_slot row) of
        None \<Rightarrow> Inl (NegativeSlot (lcr_slot row))
      | Some slot \<Rightarrow>
     (case lcr_transaction_index row of
        None \<Rightarrow> Inr \<lparr>lc_signature = signature, lc_slot = slot, lc_transaction_index = None\<rparr>
      | Some index \<Rightarrow>
     (case u32_of index of
        None \<Rightarrow> Inl (NegativeTransactionIndex index)
      | Some i \<Rightarrow> Inr \<lparr>lc_signature = signature, lc_slot = slot, lc_transaction_index = Some i\<rparr>))))"

text \<open>\<open>row.map(LiveCheckpoint::try_from).transpose()\<close>.\<close>

definition try_from_row ::
  "text_codec \<Rightarrow> LiveCheckpointRow option \<Rightarrow> LiveCheckpointError + LiveCheckpoint option" where
  "try_from_row tc row =
     (case row of
        None \<Rightarrow> Inr None
      | Some r \<Rightarrow> (case live_checkpoint_try_from tc r of Inl e \<Rightarrow> Inl e | Inr c \<Rightarrow> Inr (Some c)))"

definition load_live_checkpoint ::
  "text_codec \<Rightarrow> database \<Rightarrow> string \<Rightarrow> LiveCheckpointError + LiveCheckpoint option" where
  "load_live_checkpoint tc db program = try_from_row tc (db_live db program)"

text \<open>\<open>ORDER BY slot DESC, transaction_index DESC NULLS LAST, signature DESC\<close>; \<open>collate\<close> is the order of
  texts the database is configured with.\<close>

definition index_before :: "i32 option \<Rightarrow> i32 option \<Rightarrow> bool" where
  "index_before a b =
     (case (a, b) of
        (None, Some _) \<Rightarrow> True
      | (Some i, Some j) \<Rightarrow> sint i < sint j
      | (_, None) \<Rightarrow> False)"

definition source_before ::
  "(string \<Rightarrow> string \<Rightarrow> bool) \<Rightarrow> string \<times> transaction_row \<Rightarrow> string \<times> transaction_row \<Rightarrow> bool" where
  "source_before collate a b \<longleftrightarrow>
     ilt (tr_slot (snd a)) (tr_slot (snd b)) \<or>
     tr_slot (snd a) = tr_slot (snd b) \<and>
       (index_before (tr_transaction_index (snd a)) (tr_transaction_index (snd b)) \<or>
        tr_transaction_index (snd a) = tr_transaction_index (snd b) \<and> collate (fst a) (fst b))"

fun newest_source ::
  "(string \<Rightarrow> string \<Rightarrow> bool) \<Rightarrow> (string \<times> transaction_row) list \<Rightarrow> (string \<times> transaction_row) option" where
  "newest_source collate [] = None"
| "newest_source collate (a # rows) =
     (case newest_source collate rows of
        None \<Rightarrow> Some a
      | Some b \<Rightarrow> Some (if source_before collate a b then b else a))"

definition source_row :: "string \<times> transaction_row \<Rightarrow> LiveCheckpointRow" where
  "source_row a = \<lparr>lcr_signature = fst a, lcr_slot = tr_slot (snd a),
     lcr_transaction_index = tr_transaction_index (snd a)\<rparr>"

definition load_latest_source_position ::
  "(string \<Rightarrow> string \<Rightarrow> bool) \<Rightarrow> text_codec \<Rightarrow> database \<Rightarrow> LiveCheckpointError + LiveCheckpoint option" where
  "load_latest_source_position collate tc db =
     try_from_row tc (map_option source_row (newest_source collate (db_transactions db)))"

section \<open>Advancing\<close>

datatype UpdateDecision = Keep | Replace

definition decide_update :: "LiveCheckpoint \<Rightarrow> LiveCheckpoint \<Rightarrow> LiveCheckpointError + UpdateDecision" where
  "decide_update stored incoming =
     (if lc_signature stored = lc_signature incoming then
        let conflicting_index =
          (case (lc_transaction_index stored, lc_transaction_index incoming) of
             (Some stored_index, Some incoming_index) \<Rightarrow> stored_index \<noteq> incoming_index
           | _ \<Rightarrow> False) in
        if lc_slot stored \<noteq> lc_slot incoming \<or> conflicting_index then Inl (PositionConflict stored incoming)
        else if lc_transaction_index stored = None \<and> lc_transaction_index incoming \<noteq> None then Inr Replace
        else Inr Keep
      else if lc_slot stored < lc_slot incoming then Inr Replace
      else if lc_slot incoming < lc_slot stored then Inl (Backward stored incoming)
      else
        (case (lc_transaction_index stored, lc_transaction_index incoming) of
           (Some stored_index, Some incoming_index) \<Rightarrow>
             if stored_index < incoming_index then Inr Replace
             else if incoming_index < stored_index then Inl (Backward stored incoming)
             else Inl (PositionConflict stored incoming)
         | _ \<Rightarrow> Inl (AmbiguousSameSlot stored incoming)))"

definition save_live_checkpoint ::
  "text_codec \<Rightarrow> database \<Rightarrow> string \<Rightarrow> LiveCheckpoint \<Rightarrow> LiveCheckpointError + database" where
  "save_live_checkpoint tc db program incoming =
     (case i64_try_from (lc_slot incoming) of
        None \<Rightarrow> Inl (SlotOutOfRange (lc_slot incoming))
      | Some slot \<Rightarrow>
     (case (case lc_transaction_index incoming of
              None \<Rightarrow> Inr None
            | Some index \<Rightarrow>
                (case i32_of index of None \<Rightarrow> Inl (TransactionIndexOutOfRange index) | Some i \<Rightarrow> Inr (Some i))) of
        Inl e \<Rightarrow> Inl e
      | Inr transaction_index \<Rightarrow>
     (let row = \<lparr>lcr_signature = sig_text tc (lc_signature incoming), lcr_slot = slot,
            lcr_transaction_index = transaction_index\<rparr>;
          written = db\<lparr>db_live := (db_live db)(program \<mapsto> row)\<rparr> in
      case db_live db program of
        None \<Rightarrow> Inr written
      | Some stored_row \<Rightarrow>
     (case live_checkpoint_try_from tc stored_row of
        Inl e \<Rightarrow> Inl e
      | Inr stored \<Rightarrow>
     (case decide_update stored incoming of
        Inl e \<Rightarrow> Inl e
      | Inr Replace \<Rightarrow> Inr written
      | Inr Keep \<Rightarrow> Inr db)))))"

end
