(* ===== verification/Indexer_Rpc.thy ===== *)
theory Indexer_Rpc
  imports Live_Checkpoint
begin

text \<open>
  The RPC access of the indexer, \<open>rpc.rs\<close>, and how its effects are run. The RPC node and the faults
  of the database connection are the environment: a function of a clock that every effect advances,
  so that any answer may fail and the chain may grow between two requests.
\<close>

section \<open>The environment and effects\<close>

text \<open>An entry of \<open>getSignaturesForAddress\<close> and the parts of \<open>getTransaction\<close> that the code reads.\<close>

record StatusEntry =
  sta_signature :: string
  sta_slot :: u64
  sta_failed :: bool
  sta_block_time :: "i64 option"
  sta_transaction_index :: "u32 option"

record TransactionMeta =
  meta_failed :: bool
  meta_log_messages :: "string list option"

record EncodedTransaction =
  etx_slot :: u64
  etx_block_time :: "i64 option"
  etx_meta :: "TransactionMeta option"

text \<open>A database request succeeds, is lost before its commit, or is committed without the
  acknowledgement reaching the indexer.\<close>

datatype db_outcome = Acknowledged | Lost | Unacknowledged

record environment =
  env_signatures :: "nat \<Rightarrow> signature option \<Rightarrow> signature option \<Rightarrow> nat \<Rightarrow> StatusEntry list option"
  env_transaction :: "nat \<Rightarrow> signature \<Rightarrow> EncodedTransaction option"
  env_database :: "nat \<Rightarrow> db_outcome"
  env_text :: text_codec
  env_key_text :: "pubkey \<Rightarrow> string"
  env_base64 :: "string \<Rightarrow> bytes option"
  env_borsh :: borsh
  env_collate :: "string \<Rightarrow> string \<Rightarrow> bool"

record indexer =
  ix_clock :: nat
  ix_db :: database

datatype IndexerError =
    RpcFailed
  | DatabaseFailed
  | InvalidSignatureText
  | UnusableMetadata string
  | DecodeFailed EventDecodeError
  | StorageFailed StorageError
  | CheckpointFailed CheckpointError
  | LiveCheckpointFailed LiveCheckpointError
  | InvalidLiveGapLimits
  | CursorDidNotAdvance
  | RecoveryOverCap

type_synonym 'a effect = "indexer \<Rightarrow> (IndexerError + 'a) \<times> indexer"

text \<open>\<open>Ok(x)\<close>, \<open>Err(e)\<close> and the sequence with \<open>?\<close>, which keeps what happened before an error.\<close>

definition done_with :: "'a \<Rightarrow> 'a effect" where
  "done_with x = (\<lambda>s. (Inr x, s))"

definition fail_with :: "IndexerError \<Rightarrow> 'a effect" where
  "fail_with e = (\<lambda>s. (Inl e, s))"

definition and_then :: "'a effect \<Rightarrow> ('a \<Rightarrow> 'b effect) \<Rightarrow> 'b effect" where
  "and_then m f = (\<lambda>s. case m s of (Inl e, s') \<Rightarrow> (Inl e, s') | (Inr x, s') \<Rightarrow> f x s')"

definition tick :: "indexer \<Rightarrow> indexer" where
  "tick s = s\<lparr>ix_clock := Suc (ix_clock s)\<rparr>"

definition rpc_call :: "(nat \<Rightarrow> 'a option) \<Rightarrow> 'a effect" where
  "rpc_call f = (\<lambda>s. (case f (ix_clock s) of None \<Rightarrow> Inl RpcFailed | Some x \<Rightarrow> Inr x, tick s))"

definition db_query :: "environment \<Rightarrow> (database \<Rightarrow> 'e + 'a) \<Rightarrow> ('e \<Rightarrow> IndexerError) \<Rightarrow> 'a effect" where
  "db_query env q err = (\<lambda>s.
     (if env_database env (ix_clock s) = Acknowledged
      then (case q (ix_db s) of Inl e \<Rightarrow> Inl (err e) | Inr x \<Rightarrow> Inr x)
      else Inl DatabaseFailed, tick s))"

definition db_write :: "environment \<Rightarrow> (database \<Rightarrow> 'e + database) \<Rightarrow> ('e \<Rightarrow> IndexerError) \<Rightarrow> unit effect" where
  "db_write env w err = (\<lambda>s.
     (case env_database env (ix_clock s) of
        Lost \<Rightarrow> (Inl DatabaseFailed, tick s)
      | outcome \<Rightarrow>
     (case w (ix_db s) of
        Inl e \<Rightarrow> (Inl (err e), tick s)
      | Inr db \<Rightarrow>
          (if outcome = Acknowledged then Inr () else Inl DatabaseFailed, (tick s)\<lparr>ix_db := db\<rparr>))))"

section \<open>Signature pages\<close>

record SignatureRecord =
  sr_signature :: string
  sr_slot :: u64
  sr_block_time :: "i64 option"
  sr_transaction_index :: "u32 option"

record SignaturePage =
  pg_records :: "SignatureRecord list"
  pg_next_before :: "signature option"

definition signature_record :: "StatusEntry \<Rightarrow> SignatureRecord" where
  "signature_record e = \<lparr>sr_signature = sta_signature e, sr_slot = sta_slot e,
     sr_block_time = sta_block_time e, sr_transaction_index = sta_transaction_index e\<rparr>"

definition successful :: "StatusEntry list \<Rightarrow> StatusEntry list" where
  "successful es = filter (\<lambda>e. \<not> sta_failed e) es"

definition build_signature_page :: "text_codec \<Rightarrow> StatusEntry list \<Rightarrow> IndexerError + SignaturePage" where
  "build_signature_page tc entries =
     (case transpose_opt (\<lambda>e. sig_parse tc (sta_signature e)) (if entries = [] then None else Some (last entries)) of
        None \<Rightarrow> Inl InvalidSignatureText
      | Some next_before \<Rightarrow>
          Inr \<lparr>pg_records = rev (map signature_record (successful entries)), pg_next_before = next_before\<rparr>)"

definition fetch_signature_page_with_bounds ::
  "environment \<Rightarrow> signature option \<Rightarrow> signature option \<Rightarrow> nat \<Rightarrow> SignaturePage effect" where
  "fetch_signature_page_with_bounds env before until limit =
     and_then (rpc_call (\<lambda>t. env_signatures env t before until limit)) (\<lambda>entries s.
       (build_signature_page (env_text env) entries, s))"

definition fetch_signature_page :: "environment \<Rightarrow> signature option \<Rightarrow> nat \<Rightarrow> SignaturePage effect" where
  "fetch_signature_page env before limit = fetch_signature_page_with_bounds env before None limit"

definition fetch_live_signature_page ::
  "environment \<Rightarrow> signature option \<Rightarrow> signature \<Rightarrow> nat \<Rightarrow> SignaturePage effect" where
  "fetch_live_signature_page env before until limit =
     fetch_signature_page_with_bounds env before (Some until) limit"

section \<open>Transactions\<close>

definition normalize_logs :: "bool \<Rightarrow> string list option \<Rightarrow> string list option" where
  "normalize_logs execution_failed log_messages =
     (if execution_failed then None
      else Some (case log_messages of Some logs \<Rightarrow> logs | None \<Rightarrow> []))"

definition fetch_transaction :: "environment \<Rightarrow> SignatureRecord \<Rightarrow> TransactionRecord option effect" where
  "fetch_transaction env r =
     (case sig_parse (env_text env) (sr_signature r) of
        None \<Rightarrow> fail_with InvalidSignatureText
      | Some signature \<Rightarrow>
          and_then (rpc_call (\<lambda>t. env_transaction env t signature)) (\<lambda>transaction. done_with
            (case etx_meta transaction of
               None \<Rightarrow> None
             | Some meta \<Rightarrow>
            (case normalize_logs (meta_failed meta) (meta_log_messages meta) of
               None \<Rightarrow> None
             | Some logs \<Rightarrow> Some \<lparr>txr_signature = sr_signature r, txr_slot = etx_slot transaction,
                 txr_block_time = etx_block_time transaction, txr_logs = logs,
                 txr_transaction_index = sr_transaction_index r\<rparr>))))"

section \<open>Processing one transaction\<close>

text \<open>\<open>processor.rs\<close>; the report to the console is left out.\<close>

definition process_signature :: "environment \<Rightarrow> pubkey \<Rightarrow> SignatureRecord \<Rightarrow> unit effect" where
  "process_signature env program r =
     and_then (fetch_transaction env r) (\<lambda>fetched.
       case fetched of
         None \<Rightarrow> fail_with (UnusableMetadata (sr_signature r))
       | Some transaction \<Rightarrow>
      (case collect_results (decode_event (env_base64 env) (env_borsh env))
              (extract_program_data (env_key_text env) (txr_logs transaction) program) of
         Inl e \<Rightarrow> fail_with (DecodeFailed e)
       | Inr decoded \<Rightarrow>
           db_write env (\<lambda>db. persist_transaction db transaction decoded) StorageFailed))"

section \<open>Effects, inverted\<close>

named_theorems effect_defs "the primitive effects"
lemmas [effect_defs] = done_with_def fail_with_def and_then_def rpc_call_def db_query_def db_write_def

lemma and_then_cases [consumes 1, case_names err ok]:
  assumes "and_then m f s = (r, s')"
  obtains (err) e where "m s = (Inl e, s')" "r = Inl e"
  | (ok) x s1 where "m s = (Inr x, s1)" "f x s1 = (r, s')"
  using assms by (auto simp: and_then_def split: prod.splits sum.splits)

lemma tick_simps [simp]: "ix_clock (tick s) = Suc (ix_clock s)" "ix_db (tick s) = ix_db s"
  by (simp_all add: tick_def)

lemma rpc_call_result:
  assumes "rpc_call f s = (r, s')"
  shows "s' = tick s" "r = Inr x \<Longrightarrow> f (ix_clock s) = Some x"
  using assms by (auto simp: rpc_call_def split: option.splits)

lemma db_query_result:
  assumes "db_query env q err s = (r, s')"
  shows "s' = tick s" "r = Inr x \<Longrightarrow> q (ix_db s) = Inr x"
  using assms by (auto simp: db_query_def split: sum.splits if_splits)

lemma db_write_result:
  assumes "db_write env w err s = (r, s')"
  shows "ix_clock s' = Suc (ix_clock s)"
    and "ix_db s' = ix_db s \<and> (\<exists>e. r = Inl e) \<or> w (ix_db s) = Inr (ix_db s')"
  using assms by (auto simp: db_write_def split: db_outcome.splits sum.splits if_splits)

end
