(* ===== verification/Indexer_Backfill.thy ===== *)
theory Indexer_Backfill
  imports Indexer_Rpc
begin

text \<open>
  Historical ingestion, \<open>backfill.rs\<close>: pages from the newest finalized transaction towards genesis,
  the cursor saved after each complete page.
\<close>

record BackfillConfig =
  bf_signature_page_limit :: nat
  bf_max_pages_per_run :: nat

datatype BackfillOutcome = AlreadyComplete | Completed | BackfillPageLimitReached

text \<open>\<open>for signature in page.records { process_signature(signature).await?; }\<close>\<close>

fun process_page :: "(SignatureRecord \<Rightarrow> unit effect) \<Rightarrow> SignatureRecord list \<Rightarrow> unit effect" where
  "process_page process [] = done_with ()"
| "process_page process (r # rs) = and_then (process r) (\<lambda>_. process_page process rs)"

text \<open>The state machine over its three effects; the first argument is the number of pages left.\<close>

fun run_pages ::
  "nat \<Rightarrow> signature option \<Rightarrow> nat \<Rightarrow> (signature option \<Rightarrow> nat \<Rightarrow> SignaturePage effect) \<Rightarrow>
   (SignatureRecord \<Rightarrow> unit effect) \<Rightarrow> (signature option \<Rightarrow> bool \<Rightarrow> unit effect) \<Rightarrow> BackfillOutcome effect" where
  "run_pages 0 before_signature limit fetch_page process save_checkpoint = done_with BackfillPageLimitReached"
| "run_pages (Suc pages) before_signature limit fetch_page process save_checkpoint =
     and_then (fetch_page before_signature limit) (\<lambda>page.
     and_then (process_page process (pg_records page)) (\<lambda>_.
       let next_before = pg_next_before page; completed = (next_before = None);
         checkpoint_before = (if next_before = None then before_signature else next_before) in
       and_then (save_checkpoint checkpoint_before completed) (\<lambda>_.
         if completed then done_with Completed
         else run_pages pages next_before limit fetch_page process save_checkpoint)))"

definition run_backfill :: "environment \<Rightarrow> pubkey \<Rightarrow> BackfillConfig \<Rightarrow> BackfillOutcome effect" where
  "run_backfill env program config =
     and_then (db_query env (\<lambda>db. load_backfill_checkpoint (env_text env) db (env_key_text env program)) CheckpointFailed)
       (\<lambda>checkpoint.
          if bc_completed checkpoint then done_with AlreadyComplete
          else run_pages (bf_max_pages_per_run config) (bc_before_signature checkpoint)
            (bf_signature_page_limit config) (fetch_signature_page env) (process_signature env program)
            (\<lambda>before completed. db_write env
               (\<lambda>db. Inr (save_backfill_checkpoint (env_text env) db (env_key_text env program) before completed))
               CheckpointFailed))"

end
