(* ===== verification/Indexer_Live.thy ===== *)
theory Indexer_Live
  imports Indexer_Backfill
begin

text \<open>
  Live ingestion, \<open>live.rs\<close>: the finalized transactions after the durable position are collected
  completely, put in chronological order and processed one by one, the position following each.
\<close>

record LiveGapConfig =
  lg_signature_page_limit :: nat
  lg_max_pages :: nat

datatype LiveGapOutcome = GapCaughtUp "SignatureRecord list" | GapPageLimitReached

datatype LiveCatchupOutcome = CaughtUp nat | CatchupPageLimitReached

text \<open>The loop of \<open>collect_gap_pages\<close>: the pages left, the cursor and the pages pushed so far.\<close>

fun collect_pages ::
  "nat \<Rightarrow> signature option \<Rightarrow> SignatureRecord list list \<Rightarrow> nat \<Rightarrow>
   (signature option \<Rightarrow> nat \<Rightarrow> SignaturePage effect) \<Rightarrow> LiveGapOutcome effect" where
  "collect_pages 0 before pages limit fetch_page = done_with GapPageLimitReached"
| "collect_pages (Suc n) before pages limit fetch_page =
     and_then (fetch_page before limit) (\<lambda>page.
       let next_before = pg_next_before page; pages' = pages @ [pg_records page] in
       if next_before = None then done_with (GapCaughtUp (concat (rev pages')))
       else if next_before = before then fail_with CursorDidNotAdvance
       else collect_pages n next_before pages' limit fetch_page)"

definition collect_gap_pages ::
  "LiveGapConfig \<Rightarrow> (signature option \<Rightarrow> nat \<Rightarrow> SignaturePage effect) \<Rightarrow> LiveGapOutcome effect" where
  "collect_gap_pages config fetch_page =
     (if lg_signature_page_limit config = 0 \<or> lg_max_pages config = 0 then fail_with InvalidLiveGapLimits
      else collect_pages (lg_max_pages config) None [] (lg_signature_page_limit config) fetch_page)"

text \<open>The loop of \<open>process_gap_records\<close>, with the number of records processed.\<close>

fun process_records ::
  "text_codec \<Rightarrow> (SignatureRecord \<Rightarrow> unit effect) \<Rightarrow> (LiveCheckpoint \<Rightarrow> unit effect) \<Rightarrow> nat \<Rightarrow>
   SignatureRecord list \<Rightarrow> nat effect" where
  "process_records tc process save_checkpoint processed [] = done_with processed"
| "process_records tc process save_checkpoint processed (r # rs) =
     (case sig_parse tc (sr_signature r) of
        None \<Rightarrow> fail_with InvalidSignatureText
      | Some signature \<Rightarrow>
          and_then (process r) (\<lambda>_.
          and_then (save_checkpoint \<lparr>lc_signature = signature, lc_slot = sr_slot r,
              lc_transaction_index = sr_transaction_index r\<rparr>) (\<lambda>_.
            process_records tc process save_checkpoint (Suc processed) rs)))"

definition process_gap_records ::
  "text_codec \<Rightarrow> LiveGapOutcome \<Rightarrow> (SignatureRecord \<Rightarrow> unit effect) \<Rightarrow> (LiveCheckpoint \<Rightarrow> unit effect) \<Rightarrow>
   LiveCatchupOutcome effect" where
  "process_gap_records tc gap process save_checkpoint =
     (case gap of
        GapPageLimitReached \<Rightarrow> done_with CatchupPageLimitReached
      | GapCaughtUp records \<Rightarrow>
          and_then (process_records tc process save_checkpoint 0 records) (\<lambda>n. done_with (CaughtUp n)))"

definition save_live :: "environment \<Rightarrow> pubkey \<Rightarrow> LiveCheckpoint \<Rightarrow> unit effect" where
  "save_live env program c = db_write env
     (\<lambda>db. save_live_checkpoint (env_text env) db (env_key_text env program) c) LiveCheckpointFailed"

definition run_live_catchup ::
  "environment \<Rightarrow> pubkey \<Rightarrow> LiveCheckpoint option \<Rightarrow> LiveGapConfig \<Rightarrow> LiveCatchupOutcome effect" where
  "run_live_catchup env program checkpoint config =
     and_then (collect_gap_pages config (\<lambda>before limit.
         case checkpoint of
           Some c \<Rightarrow> fetch_live_signature_page env before (lc_signature c) limit
         | None \<Rightarrow> fetch_signature_page env before limit))
       (\<lambda>gap. process_gap_records (env_text env) gap (process_signature env program) (save_live env program))"

text \<open>\<open>storage/live_checkpoint.rs\<close>: an existing position wins over the newest stored transaction.\<close>

definition load_or_initialize_live_checkpoint :: "environment \<Rightarrow> pubkey \<Rightarrow> LiveCheckpoint option effect" where
  "load_or_initialize_live_checkpoint env program =
     and_then (db_query env (\<lambda>db. load_live_checkpoint (env_text env) db (env_key_text env program)) LiveCheckpointFailed)
       (\<lambda>stored. case stored of
          Some checkpoint \<Rightarrow> done_with (Some checkpoint)
        | None \<Rightarrow>
            and_then (db_query env (\<lambda>db. load_latest_source_position (env_collate env) (env_text env) db)
                LiveCheckpointFailed) (\<lambda>source.
              case source of
                None \<Rightarrow> done_with None
              | Some source_position \<Rightarrow>
                  and_then (save_live env program source_position) (\<lambda>_. done_with (Some source_position))))"

definition recover_live_gap :: "environment \<Rightarrow> pubkey \<Rightarrow> LiveGapConfig \<Rightarrow> LiveCatchupOutcome effect" where
  "recover_live_gap env program config =
     and_then (load_or_initialize_live_checkpoint env program) (\<lambda>checkpoint.
       run_live_catchup env program checkpoint config)"

end
