(* ===== verification/Indexer_History.thy ===== *)
theory Indexer_History
  imports Indexer_Live
begin

text \<open>
  What the ingestion relies on and keeps: the finalized history as the RPC node reports it, the two
  interfaces of the page controllers (a source of pages and a processor of records), their lemmas,
  and the interpretations on the indexer's own effects.
\<close>

section \<open>The history\<close>

text \<open>The signatures of the successful entries, and those stored in the database.\<close>

definition sigs :: "StatusEntry list \<Rightarrow> string set" where
  "sigs es = sta_signature ` set (successful es)"

definition persisted :: "indexer \<Rightarrow> string set" where
  "persisted s = fst ` set (db_transactions (ix_db s))"

lemma persisted_tick [simp]: "persisted (tick s) = persisted s"
  by (simp add: persisted_def)

text \<open>The cursors exclude their own entry.\<close>

definition ends_at :: "text_codec \<Rightarrow> StatusEntry list \<Rightarrow> signature option \<Rightarrow> bool" where
  "ends_at tc es until \<longleftrightarrow>
     (case until of None \<Rightarrow> es = [] | Some c \<Rightarrow> es \<noteq> [] \<and> sta_signature (last es) = sig_text tc c)"

definition starts_at :: "text_codec \<Rightarrow> StatusEntry list \<Rightarrow> signature option \<Rightarrow> bool" where
  "starts_at tc es before \<longleftrightarrow>
     (case before of None \<Rightarrow> es = [] | Some c \<Rightarrow> es \<noteq> [] \<and> sta_signature (hd es) = sig_text tc c)"

text \<open>The documented behaviour of the RPC method on a finalized history (oldest first), which only
  grows: a request between two entries of it, when it is answered, returns the newest of the entries
  strictly between them, newest first, at most as many as asked for.\<close>

definition history_law :: "environment \<Rightarrow> (nat \<Rightarrow> StatusEntry list) \<Rightarrow> bool" where
  "history_law env hist \<longleftrightarrow>
     (\<forall>t. \<exists>new. hist (Suc t) = hist t @ new) \<and>
     (\<forall>t. distinct (map sta_signature (hist t))) \<and>
     (\<forall>t. \<forall>e\<in>set (hist t). \<exists>c. sta_signature e = sig_text (env_text env) c) \<and>
     (\<forall>t before until limit es older seg newer.
        env_signatures env t before until limit = Some es \<longrightarrow> 0 < limit \<longrightarrow> hist t = older @ seg @ newer \<longrightarrow>
        ends_at (env_text env) older until \<longrightarrow> starts_at (env_text env) newer before \<longrightarrow>
        es = take limit (rev seg))"

lemma history_grows:
  assumes "history_law env hist" "t \<le> t'"
  obtains new where "hist t' = hist t @ new"
proof -
  from assms(2) have "\<exists>new. hist t' = hist t @ new"
  proof (induction t' rule: dec_induct)
    case (step n)
    then show ?case using assms(1) unfolding history_law_def by (metis append_assoc)
  qed simp
  with that show ?thesis by blast
qed

lemma history_page:
  assumes "history_law env hist" "env_signatures env t before until limit = Some es" "0 < limit"
    "hist t = older @ seg @ newer" "ends_at (env_text env) older until" "starts_at (env_text env) newer before"
  shows "es = take limit (rev seg)"
  using assms unfolding history_law_def by blast

lemma history_text:
  "history_law env hist \<Longrightarrow> e \<in> set (hist t) \<Longrightarrow> \<exists>c. sta_signature e = sig_text (env_text env) c"
  by (auto simp: history_law_def)

lemma history_distinct: "history_law env hist \<Longrightarrow> distinct (map sta_signature (hist t))"
  by (simp add: history_law_def)

lemma successful_simps [simp]:
  "successful [] = []" "successful (xs @ ys) = successful xs @ successful ys" "successful (rev xs) = rev (successful xs)"
  by (simp_all add: successful_def rev_filter)

lemma sigs_simps [simp]: "sigs [] = {}" "sigs (xs @ ys) = sigs xs \<union> sigs ys"
  by (auto simp: sigs_def)

lemma sigs_take: "sigs (take n xs) \<subseteq> sigs xs"
  using sigs_simps(2) [of "take n xs" "drop n xs"] by simp

lemma sigs_take_mono: "m \<le> n \<Longrightarrow> sigs (take m xs) \<subseteq> sigs (take n xs)"
  using sigs_take [of m "take n xs"] by (simp add: min_def split: if_splits)

lemma sigs_records: "sr_signature ` set (map signature_record (successful es)) = sigs es"
  by (simp add: sigs_def signature_record_def image_image)

text \<open>A prefix of the successful entries is what is successful in a prefix.\<close>

lemma take_successful: "\<exists>j. take k (successful xs) = successful (take j xs)"
proof (induction xs arbitrary: k)
  case (Cons x xs)
  show ?case
  proof (cases k)
    case 0
    then show ?thesis by (intro exI [of _ 0]) simp
  next
    case (Suc k')
    obtain j where "take (if sta_failed x then k else k') (successful xs) = successful (take j xs)"
      using Cons.IH by blast
    then show ?thesis by (intro exI [of _ "Suc j"]) (use Suc in \<open>simp add: successful_def split: if_splits\<close>)
  qed
qed simp

section \<open>Interface: a source of pages\<close>

text \<open>A page holds the successful entries of the newest part of the segment asked for, oldest first,
  and its cursor is the oldest entry of that part, successful or not; it is empty only when the
  segment is. The promises about the chain hold in an environment that keeps its own.\<close>

locale page_source =
  fixes lawful :: bool and tc :: text_codec and hist :: "nat \<Rightarrow> StatusEntry list"
    and fetch :: "signature option \<Rightarrow> nat \<Rightarrow> SignaturePage effect" and until :: "signature option"
  assumes chain_grows: "lawful \<Longrightarrow> t \<le> t' \<Longrightarrow> \<exists>new. hist t' = hist t @ new"
    and fetch_state: "fetch before limit s = (r, s') \<Longrightarrow> s' = tick s"
    and fetch_page: "lawful \<Longrightarrow> fetch before limit s = (Inr page, s') \<Longrightarrow> 0 < limit \<Longrightarrow> hist (ix_clock s) = older @ seg @ newer \<Longrightarrow>
      ends_at tc older until \<Longrightarrow> starts_at tc newer before \<Longrightarrow>
      \<exists>left got. seg = left @ got \<and> pg_records page = map signature_record (successful got) \<and>
        starts_at tc got (pg_next_before page) \<and> (got = [] \<longrightarrow> left = [])"
begin

text \<open>A collected gap is complete and in chronological order.\<close>

lemma collect_pages_complete:
  assumes law: lawful
    and "collect_pages n before pages limit fetch s = (Inr (GapCaughtUp records), s')" "0 < limit"
    "hist (ix_clock s) = older @ seg @ newer" "ends_at tc older until" "starts_at tc newer before"
  shows "records = map signature_record (successful seg) @ concat (rev pages)"
  using assms(2-)
proof (induction n arbitrary: before pages s seg newer)
  case 0
  then show ?case by (simp add: done_with_def)
next
  case (Suc n)
  from Suc.prems(1) obtain page s1 where page: "fetch before limit s = (Inr page, s1)"
    and rest: "(let next_before = pg_next_before page; pages' = pages @ [pg_records page] in
       if next_before = None then done_with (GapCaughtUp (concat (rev pages')))
       else if next_before = before then fail_with CursorDidNotAdvance
       else collect_pages n next_before pages' limit fetch) s1 = (Inr (GapCaughtUp records), s')"
    by (auto elim!: and_then_cases)
  obtain left got where got: "seg = left @ got" "pg_records page = map signature_record (successful got)"
    "starts_at tc got (pg_next_before page)" "got = [] \<longrightarrow> left = []"
    using fetch_page [OF law page Suc.prems(2-5)] by blast
  show ?case
  proof (cases "pg_next_before page")
    case None
    with got rest show ?thesis by (auto simp: done_with_def starts_at_def)
  next
    case (Some c)
    have s1: "s1 = tick s" by (rule fetch_state [OF page])
    obtain new where "hist (ix_clock s1) = hist (ix_clock s) @ new"
      using chain_grows [OF law, of "ix_clock s" "ix_clock s1"] s1 by auto
    with Suc.prems(3) got(1) have "hist (ix_clock s1) = older @ left @ (got @ newer @ new)" by simp
    moreover have "starts_at tc (got @ newer @ new) (Some c)" using got(3) Some by (simp add: starts_at_def)
    moreover have "collect_pages n (Some c) (pages @ [pg_records page]) limit fetch s1 = (Inr (GapCaughtUp records), s')"
      using rest Some by (simp add: fail_with_def Let_def split: if_splits)
    ultimately have "records = map signature_record (successful left) @ concat (rev (pages @ [pg_records page]))"
      using Suc.IH Suc.prems(2,4) by blast
    with got show ?thesis by simp
  qed
qed

lemma collect_pages_state:
  "collect_pages n before pages limit fetch s = (r, s') \<Longrightarrow> ix_clock s \<le> ix_clock s' \<and> ix_db s' = ix_db s"
proof (induction n arbitrary: before pages s)
  case (Suc n)
  from Suc.prems [unfolded collect_pages.simps Let_def] show ?case
  proof (cases rule: and_then_cases)
    case (err e)
    then show ?thesis using fetch_state by fastforce
  next
    case (ok page s1)
    then have "s1 = tick s" using fetch_state by blast
    with ok Suc.IH [of "pg_next_before page" "pages @ [pg_records page]" s1] show ?thesis
      by (auto simp: done_with_def fail_with_def split: if_splits)
  qed
qed (simp add: done_with_def)

end

section \<open>Interface: a processor of records\<close>

locale ingestion =
  fixes process :: "SignatureRecord \<Rightarrow> unit effect"
  assumes process_clock: "process r s = (x, s') \<Longrightarrow> ix_clock s \<le> ix_clock s'"
    and process_cursors: "process r s = (x, s') \<Longrightarrow>
      db_backfill (ix_db s') = db_backfill (ix_db s) \<and> db_live (ix_db s') = db_live (ix_db s)"
    and process_stores: "process r s = (x, s') \<Longrightarrow>
      persisted s' = persisted s \<or> persisted s' = insert (sr_signature r) (persisted s)"
    and process_done: "process r s = (Inr u, s') \<Longrightarrow> sr_signature r \<in> persisted s'"
begin

lemma process_page_effect:
  "process_page process rs s = (x, s') \<Longrightarrow>
    ix_clock s \<le> ix_clock s' \<and> db_backfill (ix_db s') = db_backfill (ix_db s) \<and> db_live (ix_db s') = db_live (ix_db s) \<and>
    persisted s \<subseteq> persisted s' \<and> persisted s' \<subseteq> persisted s \<union> sr_signature ` set rs \<and>
    (x = Inr u \<longrightarrow> persisted s' = persisted s \<union> sr_signature ` set rs)"
proof (induction rs arbitrary: s)
  case (Cons r rs)
  have goal: "ix_clock s \<le> ix_clock s'" "db_backfill (ix_db s') = db_backfill (ix_db s)" "db_live (ix_db s') = db_live (ix_db s)"
    "persisted s \<subseteq> persisted s'" "persisted s' \<subseteq> persisted s \<union> sr_signature ` set (r # rs)"
    "x = Inr u \<longrightarrow> persisted s' = persisted s \<union> sr_signature ` set (r # rs)"
    if "process r s = (y, s1)" "ix_clock s1 \<le> ix_clock s'" "db_backfill (ix_db s') = db_backfill (ix_db s1)"
      "db_live (ix_db s') = db_live (ix_db s1)" "persisted s1 \<subseteq> persisted s'"
      "persisted s' \<subseteq> persisted s1 \<union> sr_signature ` set rs"
      "x = Inr u \<longrightarrow> (\<exists>v. y = Inr v) \<and> persisted s' = persisted s1 \<union> sr_signature ` set rs" for y s1
    using that process_clock [OF that(1)] process_cursors [OF that(1)] process_stores [OF that(1)]
      process_done [of r s _ s1] by auto
  from Cons.prems [unfolded process_page.simps] show ?case
  proof (cases rule: and_then_cases)
    case (err e)
    then show ?thesis using goal [of "Inl e" s'] by auto
  next
    case (ok v s1)
    from Cons.IH [OF ok(2)] show ?thesis using goal [OF ok(1)] by auto
  qed
qed (simp add: done_with_def)

end

end
