(* ===== verification/Indexer_Progress.thy ===== *)
theory Indexer_Progress
  imports Indexer_History
begin

text \<open>
  What the two cursors stand for. A backfill cursor says which part of the history is stored; the
  page controller of \<open>backfill.rs\<close> keeps that true under any failure. Live processing extends a
  stored prefix of the history. Both are proved over the interfaces and interpreted on the indexer's
  effects.
\<close>

section \<open>The backfill cursor\<close>

text \<open>The history is \<open>old @ new @ rest\<close>: everything successful in \<open>new\<close> is stored, which starts at the
  cursor; \<open>rest\<close> appeared after the backfill started its last pass. The first \<open>n\<close> entries are to be
  indexed.\<close>

definition backfilled ::
  "text_codec \<Rightarrow> signature option \<times> bool \<Rightarrow> nat \<Rightarrow> string set \<Rightarrow> StatusEntry list \<Rightarrow> bool" where
  "backfilled tc cur n stored h \<longleftrightarrow>
     (\<exists>old new rest. h = old @ new @ rest \<and> n \<le> length (old @ new) \<and> stored \<subseteq> sigs (old @ new) \<and> sigs new \<subseteq> stored \<and>
        (if snd cur then old = [] else case fst cur of None \<Rightarrow> new = [] | Some c \<Rightarrow> starts_at tc (new @ rest) (Some c)))"

lemma starts_at_append: "starts_at tc es (Some c) \<Longrightarrow> starts_at tc (es @ later) (Some c)"
  by (simp add: starts_at_def)

lemma backfilledI:
  assumes "h = old @ new @ rest" "n \<le> length (old @ new)" "stored \<subseteq> sigs (old @ new)" "sigs new \<subseteq> stored"
    "snd cur \<Longrightarrow> old = []" "\<not> snd cur \<Longrightarrow> fst cur = None \<Longrightarrow> new = []"
    "\<And>c. \<not> snd cur \<Longrightarrow> fst cur = Some c \<Longrightarrow> starts_at tc (new @ rest) (Some c)"
  shows "backfilled tc cur n stored h"
  unfolding backfilled_def
  by (rule exI [of _ old], rule exI [of _ new], rule exI [of _ rest])
    (use assms in \<open>auto split: option.splits\<close>)

lemma backfilledE:
  assumes "backfilled tc cur n stored h"
  obtains old new rest where "h = old @ new @ rest" "n \<le> length (old @ new)" "stored \<subseteq> sigs (old @ new)" "sigs new \<subseteq> stored"
    "snd cur \<Longrightarrow> old = []" "\<not> snd cur \<Longrightarrow> fst cur = None \<Longrightarrow> new = []"
    "\<And>c. \<not> snd cur \<Longrightarrow> fst cur = Some c \<Longrightarrow> starts_at tc (new @ rest) (Some c)"
  using assms unfolding backfilled_def by (auto split: if_splits option.splits)

lemma backfilled_grows:
  assumes "backfilled tc cur n stored h"
  shows "backfilled tc cur n stored (h @ later)"
proof -
  from assms obtain old new rest where h: "h = old @ new @ rest" "n \<le> length (old @ new)" "stored \<subseteq> sigs (old @ new)"
    "sigs new \<subseteq> stored" "snd cur \<Longrightarrow> old = []" "\<not> snd cur \<Longrightarrow> fst cur = None \<Longrightarrow> new = []"
    "\<And>c. \<not> snd cur \<Longrightarrow> fst cur = Some c \<Longrightarrow> starts_at tc (new @ rest) (Some c)"
    by (elim backfilledE) (rule that; assumption)
  show ?thesis
    by (rule backfilledI [of _ old new "rest @ later"])
      (use h starts_at_append [of tc "new @ rest"] in auto)
qed

text \<open>What a request with the cursor asks for, and what it leaves to be stored.\<close>

lemma backfilled_segment:
  assumes "backfilled tc (before, False) n stored h"
  obtains seg new rest where "h = seg @ new @ rest" "starts_at tc (new @ rest) before" "n \<le> length (seg @ new)"
    "stored \<subseteq> sigs (seg @ new)" "sigs new \<subseteq> stored"
proof -
  from assms obtain old new rest where h: "h = old @ new @ rest" "n \<le> length (old @ new)" "stored \<subseteq> sigs (old @ new)"
    "sigs new \<subseteq> stored" "before = None \<Longrightarrow> new = []" "\<And>c. before = Some c \<Longrightarrow> starts_at tc (new @ rest) (Some c)"
    by (elim backfilledE) (rule that; simp)
  show ?thesis
  proof (cases before)
    case None
    with h show ?thesis by (intro that [of h "[]" "[]"]) (auto simp: starts_at_def)
  next
    case (Some c)
    with h show ?thesis by (intro that [of old new rest]) auto
  qed
qed

lemma segment_backfilled:
  assumes "h = seg @ new @ rest" "starts_at tc (new @ rest) before" "n \<le> length (seg @ new)"
    "stored \<subseteq> sigs (seg @ new)" "sigs new \<subseteq> stored"
  shows "backfilled tc (before, False) n stored h"
  by (rule backfilledI [OF assms(1,3-5)]) (use assms(2) in \<open>auto simp: starts_at_def\<close>)

section \<open>Interface: the store of the backfill cursor\<close>

locale cursor_store =
  fixes lawful :: bool and save :: "signature option \<Rightarrow> bool \<Rightarrow> unit effect" and cursor :: "indexer \<Rightarrow> signature option \<times> bool"
  assumes cursor_db: "db_backfill (ix_db s') = db_backfill (ix_db s) \<Longrightarrow> cursor s' = cursor s"
    and save_clock: "save b c s = (x, s') \<Longrightarrow> ix_clock s \<le> ix_clock s'"
    and save_keeps: "save b c s = (x, s') \<Longrightarrow> persisted s' = persisted s \<and> db_live (ix_db s') = db_live (ix_db s)"
    and save_cursor: "lawful \<Longrightarrow> save b c s = (x, s') \<Longrightarrow> cursor s' = cursor s \<or> cursor s' = (b, c)"
    and save_done: "lawful \<Longrightarrow> save b c s = (Inr u, s') \<Longrightarrow> cursor s' = (b, c)"

locale backfill = page_source lawful tc hist fetch None + ingestion process + cursor_store lawful save cursor
  for lawful tc hist fetch process save cursor
begin

definition progress :: "nat \<Rightarrow> indexer \<Rightarrow> bool" where
  "progress n s \<longleftrightarrow> backfilled tc (cursor s) n (persisted s) (hist (ix_clock s))"

lemma progress_later:
  assumes lawful "progress n s" "ix_clock s \<le> ix_clock s'" "cursor s' = cursor s" "persisted s' = persisted s"
  shows "progress n s'"
  using chain_grows [OF assms(1,3)] assms by (auto simp: progress_def intro: backfilled_grows)

text \<open>One page.\<close>

lemma page_progress:
  assumes law: lawful and page: "fetch before limit s = (Inr page, s1)" "0 < limit"
    and start: "cursor s = (before, False)" "progress n s"
    and proc: "process_page process (pg_records page) s1 = (x, s2)"
  shows "ix_clock s \<le> ix_clock s2" "cursor s2 = cursor s" "db_live (ix_db s2) = db_live (ix_db s)" "progress n s2"
    and "x = Inr u \<Longrightarrow> save (if pg_next_before page = None then before else pg_next_before page)
        (pg_next_before page = None) s2 = (y, s3) \<Longrightarrow> progress n s3"
proof -
  have s1: "s1 = tick s" by (rule fetch_state [OF page(1)])
  from process_page_effect [OF proc] s1 show clock: "ix_clock s \<le> ix_clock s2"
    and "db_live (ix_db s2) = db_live (ix_db s)" by auto
  from process_page_effect [OF proc] s1 show cur: "cursor s2 = cursor s" by (intro cursor_db) auto
  obtain seg new rest where h: "hist (ix_clock s) = seg @ new @ rest" "starts_at tc (new @ rest) before"
    "n \<le> length (seg @ new)" "persisted s \<subseteq> sigs (seg @ new)" "sigs new \<subseteq> persisted s"
    using start backfilled_segment unfolding progress_def by metis
  obtain left got where got: "seg = left @ got" "pg_records page = map signature_record (successful got)"
    "starts_at tc got (pg_next_before page)" "got = [] \<longrightarrow> left = []"
    using fetch_page [OF law page(1) page(2), of "[]" seg "new @ rest"] h by (auto simp: ends_at_def)
  obtain later where later: "hist (ix_clock s2) = hist (ix_clock s) @ later" using chain_grows [OF law clock] by blast
  from process_page_effect [OF proc, unfolded got(2) sigs_records s1 persisted_tick]
  have stored: "persisted s \<subseteq> persisted s2" "persisted s2 \<subseteq> persisted s \<union> sigs got"
    "x = Inr u \<Longrightarrow> persisted s2 = persisted s \<union> sigs got"
    by blast+
  show prog: "progress n s2"
    unfolding progress_def cur start(1) later
    by (rule backfilled_grows, rule segment_backfilled [OF h(1-3)]) (use h(4,5) got(1) stored in auto)
  assume ok: "x = Inr u" and save: "save (if pg_next_before page = None then before else pg_next_before page)
    (pg_next_before page = None) s2 = (y, s3)"
  note s3 = save_clock [OF save] save_keeps [OF save]
  from save_cursor [OF law save] show "progress n s3"
  proof
    assume "cursor s3 = cursor s2"
    with law prog s3 show ?thesis by (auto intro: progress_later)
  next
    assume c: "cursor s3 = (if pg_next_before page = None then before else pg_next_before page, pg_next_before page = None)"
    obtain later' where later': "hist (ix_clock s3) = hist (ix_clock s2) @ later'" using chain_grows [OF law s3(1)] by blast
    show ?thesis
    proof (cases "pg_next_before page")
      case None
      with got have "seg = []" "got = []" by (auto simp: starts_at_def)
      with h stored(3) [OF ok] s3 c None show ?thesis
        unfolding progress_def later later' by (auto intro: backfilledI [where old = "[]" and new = new and rest = "rest @ later @ later'"])
    next
      case (Some d)
      then have "progress n s3 \<longleftrightarrow> backfilled tc (Some d, False) n (persisted s2) (hist (ix_clock s3))"
        using c s3 by (simp add: progress_def)
      moreover have "backfilled tc (Some d, False) n (persisted s2) (hist (ix_clock s3))"
        by (rule segment_backfilled [where seg = left and new = "got @ new" and rest = "rest @ later @ later'"])
          (use h got stored(3) [OF ok] later later' Some in \<open>auto simp: starts_at_def\<close>)
      ultimately show ?thesis by simp
    qed
  qed
qed

theorem run_pages_progress:
  assumes law: lawful
    and "run_pages pages before limit fetch process save s = (x, s')" "0 < limit"
    "cursor s = (before, False)" "progress n s"
  shows "ix_clock s \<le> ix_clock s' \<and> db_live (ix_db s') = db_live (ix_db s) \<and> progress n s' \<and>
    (x = Inr Completed \<longrightarrow> snd (cursor s')) \<and> x \<noteq> Inr AlreadyComplete"
  using assms(2-)
proof (induction pages arbitrary: before s)
  case 0
  then show ?case by (auto simp: done_with_def)
next
  case (Suc pages)
  from Suc.prems(1) [unfolded run_pages.simps Let_def] show ?case
  proof (cases rule: and_then_cases)
    case (err e)
    then have "s' = tick s" using fetch_state by blast
    with err Suc.prems show ?thesis using progress_later [OF law, of n s s'] cursor_db [of s' s] by (simp add: persisted_def)
  next
    case (ok page s1)
    from ok(2) show ?thesis
    proof (cases rule: and_then_cases)
      case (err e)
      with page_progress [OF law ok(1) Suc.prems(2-4) err(1)] show ?thesis by auto
    next
      case processed: (ok u s2)
      note step = page_progress [OF law ok(1) Suc.prems(2-4) processed(1)]
      from processed(2) show ?thesis
      proof (cases rule: and_then_cases)
        case (err e)
        with step(1,3) step(5) [OF refl err(1)] save_clock [OF err(1)] save_keeps [OF err(1)] show ?thesis by auto
      next
        case saved: (ok v s3)
        note s3 = step(1,3) step(5) [OF refl saved(1)] save_clock [OF saved(1)] save_keeps [OF saved(1)]
        show ?thesis
        proof (cases "pg_next_before page")
          case None
          with saved(2) have "s' = s3" "x = Inr Completed" by (auto simp: done_with_def)
          with None s3 save_done [OF law saved(1) [simplified]] show ?thesis by auto
        next
          case (Some d)
          with saved(2) have "run_pages pages (Some d) limit fetch process save s3 = (x, s')" by simp
          moreover have "cursor s3 = (Some d, False)" using Some save_done [OF law, of _ _ s2 v s3] saved(1) by simp
          ultimately show ?thesis using Suc.IH [of "Some d" s3] Suc.prems(2) s3 by auto
        qed
      qed
    qed
  qed
qed

end

section \<open>Interface: the store of the live position\<close>

locale position_store =
  fixes tc :: text_codec and save_position :: "LiveCheckpoint \<Rightarrow> unit effect" and position :: "indexer \<Rightarrow> string option"
  assumes position_db: "db_live (ix_db s') = db_live (ix_db s) \<Longrightarrow> position s' = position s"
    and position_clock: "save_position c s = (x, s') \<Longrightarrow> ix_clock s \<le> ix_clock s'"
    and position_keeps: "save_position c s = (x, s') \<Longrightarrow>
      persisted s' = persisted s \<and> db_backfill (ix_db s') = db_backfill (ix_db s)"
    and position_moves: "save_position c s = (x, s') \<Longrightarrow>
      position s' = position s \<or> position s' = Some (sig_text tc (lc_signature c))"

locale live = ingestion process + position_store tc save_position position
  for process tc save_position position
begin

text \<open>The records are stored in order, the position among them.\<close>

lemma process_records_effect:
  assumes "process_records tc process save_position k rs s = (x, s')"
    "\<forall>r\<in>set rs. \<exists>c. sr_signature r = sig_text tc c" "text_law tc"
  shows "ix_clock s \<le> ix_clock s' \<and> db_backfill (ix_db s') = db_backfill (ix_db s) \<and>
    (\<exists>j\<le>length rs. persisted s' = persisted s \<union> sr_signature ` set (take j rs) \<and>
       (\<forall>n. x = Inr n \<longrightarrow> j = length rs \<and> n = k + length rs) \<and>
       (position s' = position s \<or> (\<exists>c\<in>sr_signature ` set (take j rs). position s' = Some c)))"
  using assms
proof (induction rs arbitrary: k s)
  case Nil
  then show ?case by (auto simp: done_with_def)
next
  case (Cons r rs)
  obtain c where c: "sr_signature r = sig_text tc c" using Cons.prems(2) by auto
  then have parse: "sig_parse tc (sr_signature r) = Some c" using Cons.prems(3) by (simp add: text_law_def)
  let ?next = "\<lparr>lc_signature = c, lc_slot = sr_slot r, lc_transaction_index = sr_transaction_index r\<rparr>"
  from Cons.prems(1) [unfolded process_records.simps parse option.case] show ?case
  proof (cases rule: and_then_cases)
    case (err e)
    from process_stores [OF err(1)] have "\<exists>j\<le>length (r # rs). persisted s' = persisted s \<union> sr_signature ` set (take j (r # rs))"
    proof
      assume "persisted s' = persisted s"
      then show ?thesis by (intro exI [of _ 0]) simp
    next
      assume "persisted s' = insert (sr_signature r) (persisted s)"
      then show ?thesis by (intro exI [of _ 1]) simp
    qed
    then show ?thesis using process_clock [OF err(1)] process_cursors [OF err(1)] position_db [of s' s] err(2) by auto
  next
    case (ok u s1)
    have one: "ix_clock s \<le> ix_clock s1" "db_backfill (ix_db s1) = db_backfill (ix_db s)" "position s1 = position s"
      "persisted s1 = persisted s \<union> {sr_signature r}"
      using process_clock [OF ok(1)] process_cursors [OF ok(1)] position_db [of s1 s] process_stores [OF ok(1)]
        process_done [OF ok(1)] by auto
    from ok(2) show ?thesis
    proof (cases rule: and_then_cases)
      case (err e)
      have "position s' = position s \<or> position s' = Some (sr_signature r)"
        using position_moves [OF err(1)] one(3) c by simp
      then show ?thesis
        using one position_clock [OF err(1)] position_keeps [OF err(1)] err(2)
        by (intro conjI exI [of _ 1]) auto
    next
      case saved: (ok v s2)
      have two: "ix_clock s \<le> ix_clock s2" "db_backfill (ix_db s2) = db_backfill (ix_db s)"
        "position s2 = position s \<or> position s2 = Some (sr_signature r)" "persisted s2 = persisted s \<union> {sr_signature r}"
        using one position_clock [OF saved(1)] position_keeps [OF saved(1)] position_moves [OF saved(1)] c by auto
      from Cons.IH [OF saved(2)] Cons.prems(2,3) obtain j where j: "j \<le> length rs"
        "ix_clock s2 \<le> ix_clock s'" "db_backfill (ix_db s') = db_backfill (ix_db s2)"
        "persisted s' = persisted s2 \<union> sr_signature ` set (take j rs)"
        "\<forall>n. x = Inr n \<longrightarrow> j = length rs \<and> n = Suc k + length rs"
        "position s' = position s2 \<or> (\<exists>c\<in>sr_signature ` set (take j rs). position s' = Some c)"
        by auto
      have "position s' = position s \<or> (\<exists>c\<in>sr_signature ` set (take (Suc j) (r # rs)). position s' = Some c)"
        using j(6) two(3) by auto
      then show ?thesis
        using j two by (intro conjI exI [of _ "Suc j"]) auto
    qed
  qed
qed

end

section \<open>The indexer's effects provide the interfaces\<close>

definition lawful_env :: "environment \<Rightarrow> (nat \<Rightarrow> StatusEntry list) \<Rightarrow> bool" where
  "lawful_env env hist \<longleftrightarrow> history_law env hist \<and> text_law (env_text env)"

lemma last_page:
  assumes "0 < limit"
  obtains left got where "seg = left @ got" "take limit (rev seg) = rev got" "got = [] \<longrightarrow> left = []"
proof
  show "seg = take (length seg - limit) seg @ drop (length seg - limit) seg" by simp
  show "take limit (rev seg) = rev (drop (length seg - limit) seg)" by (simp add: take_rev)
  show "drop (length seg - limit) seg = [] \<longrightarrow> take (length seg - limit) seg = []"
    using assms by auto
qed

lemma page_of_got:
  assumes "lawful_env env hist" "build_signature_page (env_text env) (rev got) = Inr page" "set got \<subseteq> set (hist t)"
  shows "pg_records page = map signature_record (successful got)" "starts_at (env_text env) got (pg_next_before page)"
proof -
  show "pg_records page = map signature_record (successful got)"
    using assms(2) by (auto simp: build_signature_page_def rev_map split: option.splits)
  show "starts_at (env_text env) got (pg_next_before page)"
  proof (cases got)
    case Nil
    with assms(2) show ?thesis by (auto simp: build_signature_page_def transpose_opt_def starts_at_def)
  next
    case (Cons e es)
    then obtain c where c: "sta_signature e = sig_text (env_text env) c"
      using assms(1,3) history_text [of env hist e t] by (auto simp: lawful_env_def)
    then have "sig_parse (env_text env) (sta_signature e) = Some c" using assms(1) by (simp add: lawful_env_def text_law_def)
    with assms(2) Cons c show ?thesis by (auto simp: build_signature_page_def transpose_opt_def starts_at_def)
  qed
qed

interpretation rpc: page_source "lawful_env env hist" "env_text env" hist
  "\<lambda>before limit. fetch_signature_page_with_bounds env before until limit" until for env hist until
proof (unfold_locales, goal_cases)
  case (1 t t')
  then show ?case using history_grows by (metis lawful_env_def)
next
  case (2 before limit s r s')
  then show ?case
    by (auto simp: fetch_signature_page_with_bounds_def elim!: and_then_cases dest: rpc_call_result)
next
  case (3 before limit s page s' older seg newer)
  then obtain es where es: "env_signatures env (ix_clock s) before until limit = Some es"
    "build_signature_page (env_text env) es = Inr page"
    by (auto simp: fetch_signature_page_with_bounds_def elim!: and_then_cases dest: rpc_call_result)
  obtain left got where got: "seg = left @ got" "take limit (rev seg) = rev got" "got = [] \<longrightarrow> left = []"
    by (rule last_page [OF 3(3), of seg])
  have "es = rev got"
    using history_page [of env hist "ix_clock s" before until limit es older seg newer] es(1) 3(1,3-6) got(2)
    by (simp add: lawful_env_def)
  with es have "build_signature_page (env_text env) (rev got) = Inr page" by simp
  from page_of_got [OF 3(1) this, of "ix_clock s"] 3(4) got
  show ?case by (intro exI [of _ left] exI [of _ got]) auto
qed

lemma upsert_events_keeps:
  "upsert_events signature es db = Inr db' \<Longrightarrow>
    db_transactions db' = db_transactions db \<and> db_backfill db' = db_backfill db \<and> db_live db' = db_live db"
  by (induction es arbitrary: db)
    (fastforce simp: upsert_event_def Let_def split: option.splits if_splits)+

lemma persist_transaction_stores:
  assumes "persist_transaction db transaction decoded = Inr db'"
  shows "fst ` set (db_transactions db') = insert (txr_signature transaction) (fst ` set (db_transactions db))"
    "db_backfill db' = db_backfill db" "db_live db' = db_live db"
proof -
  from assms obtain t es db1 where t: "transaction_insert transaction = Inr t" and
    db1: "upsert_transaction t db = Some db1" and evs: "upsert_events (ti_signature t) es db1 = Inr db'"
    by (auto simp: persist_transaction_def split: sum.splits option.splits)
  have "ti_signature t = txr_signature transaction"
    using t by (auto simp: transaction_insert_def split: option.splits)
  moreover have "fst ` set (db_transactions db1) = insert (ti_signature t) (fst ` set (db_transactions db))"
    "db_backfill db1 = db_backfill db" "db_live db1 = db_live db"
    using db1 map_of_SomeD [of "db_transactions db" "ti_signature t"]
    by (auto simp: upsert_transaction_def Let_def split: option.splits if_splits intro: rev_image_eqI)
  ultimately show "fst ` set (db_transactions db') = insert (txr_signature transaction) (fst ` set (db_transactions db))"
    "db_backfill db' = db_backfill db" "db_live db' = db_live db"
    using upsert_events_keeps [OF evs] by auto
qed

text \<open>A stored transaction is fixed with its optional index: once the node reports an index, the replay of
  a transaction that was stored without one is a conflict.\<close>

lemma enriched_replay_conflicts:
  assumes "persist_transaction db transaction decoded = Inr db'" "txr_transaction_index transaction = None"
    "unat index < 2 ^ 31"
  shows "persist_transaction db' (transaction\<lparr>txr_transaction_index := Some index\<rparr>) decoded =
    Inl (TransactionConflict (txr_signature transaction))"
proof -
  from assms(1) obtain t es db1 where t: "transaction_insert transaction = Inr t"
    and es: "collect_results event_insert decoded = Inr es"
    and db1: "upsert_transaction t db = Some db1" and evs: "upsert_events (ti_signature t) es db1 = Inr db'"
    by (auto simp: persist_transaction_def split: sum.splits option.splits)
  obtain n where n: "t = \<lparr>ti_signature = txr_signature transaction, ti_slot = n, ti_transaction_index = None,
      ti_block_time = txr_block_time transaction, ti_raw_logs = txr_logs transaction\<rparr>"
    and slot: "i64_try_from (txr_slot transaction) = Some n"
    using t assms(2) by (auto simp: transaction_insert_def split: option.splits)
  have "\<exists>row. map_of (db_transactions db1) (txr_signature transaction) = Some row \<and> tr_transaction_index row = None"
    using db1 n by (auto simp: upsert_transaction_def Let_def map_add_def split: option.splits if_splits)
  moreover have "db_transactions db' = db_transactions db1" using upsert_events_keeps [OF evs] by simp
  ultimately show ?thesis
    using assms(3) es slot by (auto simp: persist_transaction_def transaction_insert_def i32_of_def upsert_transaction_def Let_def)
qed

lemma process_signature_result:
  assumes "process_signature env program r s = (x, s')"
  shows "ix_clock s \<le> ix_clock s' \<and>
    (ix_db s' = ix_db s \<and> (\<exists>e. x = Inl e) \<or>
     (\<exists>transaction decoded. txr_signature transaction = sr_signature r \<and>
        persist_transaction (ix_db s) transaction decoded = Inr (ix_db s')))"
proof -
  from assms [unfolded process_signature_def] show ?thesis
  proof (cases rule: and_then_cases)
    case (err e)
    then show ?thesis
      by (auto simp: fetch_transaction_def fail_with_def done_with_def split: option.splits
          elim!: and_then_cases dest!: rpc_call_result(1))
  next
    case (ok fetched s1)
    then have s1: "ix_clock s \<le> ix_clock s1" "ix_db s1 = ix_db s" and
      tx: "\<And>transaction. fetched = Some transaction \<Longrightarrow> txr_signature transaction = sr_signature r"
      by (auto simp: fetch_transaction_def fail_with_def done_with_def split: option.splits
          elim!: and_then_cases dest!: rpc_call_result(1))
    show ?thesis
    proof (cases fetched)
      case None
      with ok(2) s1 show ?thesis by (auto simp: fail_with_def)
    next
      case (Some transaction)
      show ?thesis
      proof (cases "collect_results (decode_event (env_base64 env) (env_borsh env))
          (extract_program_data (env_key_text env) (txr_logs transaction) program)")
        case (Inl e)
        with ok(2) Some s1 show ?thesis by (auto simp: fail_with_def)
      next
        case (Inr decoded)
        with ok(2) Some have
          "db_write env (\<lambda>db. persist_transaction db transaction decoded) StorageFailed s1 = (x, s')" by simp
        from db_write_result [OF this] s1 tx [OF Some] show ?thesis by auto
      qed
    qed
  qed
qed

lemma process_signature_effect:
  assumes "process_signature env program r s = (x, s')"
  shows "ix_db s' = ix_db s \<and> (\<exists>e. x = Inl e) \<or>
    persisted s' = insert (sr_signature r) (persisted s) \<and>
      db_backfill (ix_db s') = db_backfill (ix_db s) \<and> db_live (ix_db s') = db_live (ix_db s)"
  using process_signature_result [OF assms]
proof (elim conjE disjE exE)
  fix transaction decoded
  assume "txr_signature transaction = sr_signature r" "persist_transaction (ix_db s) transaction decoded = Inr (ix_db s')"
  with persist_transaction_stores [OF this(2)] show ?thesis by (simp add: persisted_def)
qed simp

interpretation processor: ingestion "process_signature env program" for env program
proof (unfold_locales, goal_cases)
  case (1 r s x s')
  then show ?case by (simp add: process_signature_result)
next
  case (2 r s x s')
  from process_signature_effect [OF 2] show ?case by auto
next
  case (3 r s x s')
  from process_signature_effect [OF 3] show ?case by (elim disjE) (simp_all add: persisted_def)
next
  case (4 r s u s')
  from process_signature_effect [OF 4] show ?case by simp
qed

text \<open>The stored backfill cursor and live position.\<close>

definition backfill_cursor :: "environment \<Rightarrow> pubkey \<Rightarrow> indexer \<Rightarrow> signature option \<times> bool" where
  "backfill_cursor env program s =
     (case db_backfill (ix_db s) (env_key_text env program) of
        None \<Rightarrow> (None, False)
      | Some (before, completed) \<Rightarrow> (Option.bind before (sig_parse (env_text env)), completed))"

definition live_position :: "environment \<Rightarrow> pubkey \<Rightarrow> indexer \<Rightarrow> string option" where
  "live_position env program s = map_option lcr_signature (db_live (ix_db s) (env_key_text env program))"

definition save_backfill :: "environment \<Rightarrow> pubkey \<Rightarrow> signature option \<Rightarrow> bool \<Rightarrow> unit effect" where
  "save_backfill env program before completed = db_write env
     (\<lambda>db. Inr (save_backfill_checkpoint (env_text env) db (env_key_text env program) before completed)) CheckpointFailed"

lemma load_backfill_cursor:
  "load_backfill_checkpoint (env_text env) (ix_db s) (env_key_text env program) = Inr checkpoint \<Longrightarrow>
    (bc_before_signature checkpoint, bc_completed checkpoint) = backfill_cursor env program s"
  by (auto simp: load_backfill_checkpoint_def backfill_cursor_def transpose_opt_def split: option.splits)

lemma save_backfill_result:
  assumes "save_backfill env program b c s = (x, s')"
  shows "ix_clock s' = Suc (ix_clock s)" "persisted s' = persisted s" "db_live (ix_db s') = db_live (ix_db s)"
    "text_law (env_text env) \<Longrightarrow> backfill_cursor env program s' = backfill_cursor env program s \<and> (\<exists>e. x = Inl e) \<or>
      backfill_cursor env program s' = (b, c)"
proof -
  note r = db_write_result [OF assms [unfolded save_backfill_def]]
  show "ix_clock s' = Suc (ix_clock s)" by (rule r(1))
  from r(2) have db: "ix_db s' = ix_db s \<and> (\<exists>e. x = Inl e) \<or>
      ix_db s' = save_backfill_checkpoint (env_text env) (ix_db s) (env_key_text env program) b c" by auto
  then show "persisted s' = persisted s" "db_live (ix_db s') = db_live (ix_db s)"
    by (auto simp: persisted_def save_backfill_checkpoint_def)
  assume "text_law (env_text env)"
  with db show "backfill_cursor env program s' = backfill_cursor env program s \<and> (\<exists>e. x = Inl e) \<or>
      backfill_cursor env program s' = (b, c)"
    by (cases b) (auto simp: backfill_cursor_def save_backfill_checkpoint_def text_law_def)
qed

interpretation cursors: cursor_store "lawful_env env hist" "save_backfill env program" "backfill_cursor env program"
  for env hist program
proof (unfold_locales, goal_cases)
  case (1 s' s)
  then show ?case by (simp add: backfill_cursor_def)
next
  case (2 b c s x s')
  from save_backfill_result(1) [OF this] show ?case by simp
next
  case (3 b c s x s')
  from save_backfill_result(2,3) [OF this] show ?case by simp
next
  case (4 b c s x s')
  from save_backfill_result(4) [OF 4(2)] 4(1) show ?case by (auto simp: lawful_env_def)
next
  case (5 b c s u s')
  from save_backfill_result(4) [OF 5(2)] 5(1) show ?case by (auto simp: lawful_env_def)
qed

interpretation history: backfill "lawful_env env hist" "env_text env" hist
  "\<lambda>before limit. fetch_signature_page_with_bounds env before None limit" "process_signature env program"
  "save_backfill env program" "backfill_cursor env program" for env hist program ..

lemma save_live_result:
  assumes "save_live env program c s = (x, s')"
  shows "ix_clock s' = Suc (ix_clock s)" "persisted s' = persisted s" "db_backfill (ix_db s') = db_backfill (ix_db s)"
    "live_position env program s' = live_position env program s \<or>
      live_position env program s' = Some (sig_text (env_text env) (lc_signature c))"
proof -
  note r = db_write_result [OF assms [unfolded save_live_def]]
  show "ix_clock s' = Suc (ix_clock s)" by (rule r(1))
  have "db_transactions db' = db_transactions db \<and> db_backfill db' = db_backfill db \<and>
      (db_live db' = db_live db \<or>
        map_option lcr_signature (db_live db' (env_key_text env program)) = Some (sig_text (env_text env) (lc_signature c)))"
    if "save_live_checkpoint (env_text env) db (env_key_text env program) c = Inr db'" for db db'
    using that by (auto simp: save_live_checkpoint_def Let_def split: option.splits sum.splits UpdateDecision.splits)
  note s = this
  from r(2) show "persisted s' = persisted s" "db_backfill (ix_db s') = db_backfill (ix_db s)"
    "live_position env program s' = live_position env program s \<or>
      live_position env program s' = Some (sig_text (env_text env) (lc_signature c))"
    by (auto simp: persisted_def live_position_def dest!: s)
qed

interpretation positions: position_store "env_text env" "save_live env program" "live_position env program" for env program
proof (unfold_locales, goal_cases)
  case (1 s' s)
  then show ?case by (simp add: live_position_def)
next
  case (2 c s x s')
  from save_live_result(1) [OF this] show ?case by simp
next
  case (3 c s x s')
  from save_live_result(2,3) [OF this] show ?case by simp
next
  case (4 c s x s')
  then show ?case by (rule save_live_result(4))
qed

interpretation gap: live "process_signature env program" "env_text env" "save_live env program"
  "live_position env program" for env program ..

end
