(* ===== verification/Indexer_Service.thy ===== *)
theory Indexer_Service
  imports Indexer_Progress
begin

text \<open>
  The service as a whole, \<open>main.rs\<close> and \<open>subscription.rs\<close>: the historical bootstrap, the live loop
  that recovers after every wake-up and reconnect, and the reconnect delays. The claims say that no
  interruption, failure or restart leaves a gap in the stored history.
\<close>

section \<open>The process\<close>

definition SIGNATURE_PAGE_LIMIT :: nat where "SIGNATURE_PAGE_LIMIT = 20"
definition MAX_PAGES_PER_RUN :: nat where "MAX_PAGES_PER_RUN = 10"

definition backfill_config :: BackfillConfig where
  "backfill_config = \<lparr>bf_signature_page_limit = SIGNATURE_PAGE_LIMIT, bf_max_pages_per_run = MAX_PAGES_PER_RUN\<rparr>"

definition live_config :: LiveGapConfig where
  "live_config = \<lparr>lg_signature_page_limit = SIGNATURE_PAGE_LIMIT, lg_max_pages = MAX_PAGES_PER_RUN\<rparr>"

definition recover_and_report :: "environment \<Rightarrow> pubkey \<Rightarrow> LiveGapConfig \<Rightarrow> unit effect" where
  "recover_and_report env program config =
     and_then (recover_live_gap env program config) (\<lambda>outcome.
       case outcome of CaughtUp processed \<Rightarrow> done_with () | CatchupPageLimitReached \<Rightarrow> fail_with RecoveryOverCap)"

text \<open>The process is stopped or in its live loop. A failed recovery reconnects, so that the loop goes
  on; what wakes it up has no influence on what it does.\<close>

datatype mode = Stopped | Live

inductive service_step :: "environment \<Rightarrow> pubkey \<Rightarrow> mode \<times> indexer \<Rightarrow> mode \<times> indexer \<Rightarrow> bool"
  for env program where
  wait: "service_step env program (mode, s) (mode, tick s)"
| backfill_ends: "run_backfill env program backfill_config s = (x, s') \<Longrightarrow>
    x \<noteq> Inr AlreadyComplete \<Longrightarrow> x \<noteq> Inr Completed \<Longrightarrow> service_step env program (Stopped, s) (Stopped, s')"
| goes_live: "run_backfill env program backfill_config s = (Inr outcome, s') \<Longrightarrow>
    outcome \<noteq> BackfillPageLimitReached \<Longrightarrow> service_step env program (Stopped, s) (Live, s')"
| recovers: "recover_and_report env program live_config s = (x, s') \<Longrightarrow> service_step env program (Live, s) (Live, s')"
| shutdown: "service_step env program (Live, s) (Stopped, s)"

inductive service_run :: "environment \<Rightarrow> pubkey \<Rightarrow> mode \<times> indexer \<Rightarrow> mode \<times> indexer \<Rightarrow> bool"
  for env program where
  run_refl: "service_run env program c c"
| run_step: "service_run env program c c' \<Longrightarrow> service_step env program c' c'' \<Longrightarrow> service_run env program c c''"

inductive_cases service_stepE: "service_step env program c c'"

text \<open>An empty database.\<close>

definition fresh :: "environment \<Rightarrow> pubkey \<Rightarrow> indexer \<Rightarrow> bool" where
  "fresh env program s \<longleftrightarrow> db_transactions (ix_db s) = [] \<and>
     db_backfill (ix_db s) (env_key_text env program) = None \<and> db_live (ix_db s) (env_key_text env program) = None"

section \<open>Reconnect delays\<close>

text \<open>Durations in milliseconds; \<open>Duration::saturating_mul\<close> does not saturate below the maximum.\<close>

record ReconnectBackoff =
  rb_initial :: nat
  rb_maximum :: nat
  rb_next :: nat

definition backoff_new :: "nat \<Rightarrow> nat \<Rightarrow> ReconnectBackoff option" where
  "backoff_new initial maximum =
     (if initial = 0 \<or> maximum = 0 \<or> maximum < initial then None
      else Some \<lparr>rb_initial = initial, rb_maximum = maximum, rb_next = initial\<rparr>)"

definition backoff_reset :: "ReconnectBackoff \<Rightarrow> ReconnectBackoff" where
  "backoff_reset b = b\<lparr>rb_next := rb_initial b\<rparr>"

definition next_delay :: "ReconnectBackoff \<Rightarrow> nat \<times> ReconnectBackoff" where
  "next_delay b = (rb_next b, b\<lparr>rb_next := min (rb_next b * 2) (rb_maximum b)\<rparr>)"

fun delays :: "nat \<Rightarrow> ReconnectBackoff \<Rightarrow> nat list" where
  "delays 0 b = []"
| "delays (Suc n) b = (case next_delay b of (d, b') \<Rightarrow> d # delays n b')"

lemma delays_bounded:
  assumes "backoff_new initial maximum = Some b" "i < n"
  shows "delays n b ! i = min (initial * 2 ^ i) maximum"
proof -
  have b: "b = \<lparr>rb_initial = initial, rb_maximum = maximum, rb_next = initial\<rparr>" "initial \<le> maximum"
    using assms(1) by (auto simp: backoff_new_def split: if_splits)
  have "delays n c ! i = min (rb_next c * 2 ^ i) (rb_maximum c)" if "rb_next c \<le> rb_maximum c" for c
    using assms(2) that
  proof (induction n arbitrary: c i)
    case (Suc n)
    show ?case
    proof (cases i)
      case 0
      with Suc.prems show ?thesis by (simp add: next_delay_def)
    next
      case (Suc j)
      then have "delays n (snd (next_delay c)) ! j = min (rb_next (snd (next_delay c)) * 2 ^ j) (rb_maximum c)"
        using Suc.IH [of j "snd (next_delay c)"] Suc.prems by (simp add: next_delay_def)
      also have "\<dots> = min (rb_next c * 2 ^ i) (rb_maximum c)"
      proof -
        have "min a m * k = min (a * k) (m * k)" for a m k :: nat by (simp add: min_def)
        moreover have "min (min a b) m = min a m" if "m \<le> b" for a b m :: nat using that by (simp add: min_def)
        ultimately show ?thesis using Suc by (simp add: next_delay_def mult.assoc)
      qed
      finally show ?thesis using Suc by (simp add: next_delay_def)
    qed
  qed simp
  with b show ?thesis by simp
qed

section \<open>The invariant\<close>

text \<open>The backfill cursor tells the truth, and a live position exists only after the backfill, at a
  stored transaction.\<close>

definition indexed :: "environment \<Rightarrow> (nat \<Rightarrow> StatusEntry list) \<Rightarrow> pubkey \<Rightarrow> nat \<Rightarrow> indexer \<Rightarrow> bool" where
  "indexed env hist program n s \<longleftrightarrow>
     backfilled (env_text env) (backfill_cursor env program s) n (persisted s) (hist (ix_clock s)) \<and>
     (\<forall>c. live_position env program s = Some c \<longrightarrow> snd (backfill_cursor env program s) \<and> c \<in> persisted s)"

lemma indexed_prefix:
  assumes "indexed env hist program n s" "snd (backfill_cursor env program s)"
  obtains m where "n \<le> m" "m \<le> length (hist (ix_clock s))" "persisted s = sigs (take m (hist (ix_clock s)))"
proof -
  from assms(1) have "backfilled (env_text env) (backfill_cursor env program s) n (persisted s) (hist (ix_clock s))"
    by (simp add: indexed_def)
  then obtain old new rest where "hist (ix_clock s) = old @ new @ rest" "n \<le> length (old @ new)"
    "persisted s \<subseteq> sigs (old @ new)" "sigs new \<subseteq> persisted s" "snd (backfill_cursor env program s) \<Longrightarrow> old = []"
    by (elim backfilledE) (rule that; assumption)
  with assms(2) have "hist (ix_clock s) = new @ rest" "n \<le> length new" "persisted s = sigs new" by auto
  then show ?thesis by (intro that [of "length new"]) simp_all
qed

lemma prefix_indexed:
  assumes "n \<le> m" "m \<le> length (hist (ix_clock s))" "persisted s = sigs (take m (hist (ix_clock s)))"
    "snd (backfill_cursor env program s)" "\<And>c. live_position env program s = Some c \<Longrightarrow> c \<in> persisted s"
  shows "indexed env hist program n s"
  unfolding indexed_def
  by (intro conjI backfilledI [of _ "[]" "take m (hist (ix_clock s))" "drop m (hist (ix_clock s))"])
    (use assms in auto)

lemma indexed_later:
  assumes "lawful_env env hist" "indexed env hist program n s" "ix_clock s \<le> ix_clock s'" "ix_db s' = ix_db s"
  shows "indexed env hist program n s'"
proof -
  obtain later where "hist (ix_clock s') = hist (ix_clock s) @ later"
    using history_grows assms(1,3) by (metis lawful_env_def)
  moreover have "persisted s' = persisted s" "backfill_cursor env program s' = backfill_cursor env program s"
    "live_position env program s' = live_position env program s"
    using assms(4) by (simp_all add: persisted_def backfill_cursor_def live_position_def)
  ultimately show ?thesis using assms(2) by (auto simp: indexed_def intro: backfilled_grows)
qed

lemma fresh_indexed:
  assumes "fresh env program s"
  shows "indexed env hist program (length (hist (ix_clock s))) s"
proof -
  have "persisted s = {}" "backfill_cursor env program s = (None, False)" "live_position env program s = None"
    using assms by (simp_all add: fresh_def persisted_def backfill_cursor_def live_position_def)
  then show ?thesis
    unfolding indexed_def by (auto intro: backfilledI [of _ "hist (ix_clock s)" "[]" "[]"])
qed

section \<open>The backfill keeps it\<close>

lemma run_backfill_indexed:
  assumes law: "lawful_env env hist" and run: "run_backfill env program config s = (x, s')"
    and inv: "indexed env hist program n s" and limit: "0 < bf_signature_page_limit config"
  shows "indexed env hist program n s' \<and> ix_clock s \<le> ix_clock s' \<and>
    (x = Inr Completed \<or> x = Inr AlreadyComplete \<longrightarrow> snd (backfill_cursor env program s'))"
proof -
  from run [unfolded run_backfill_def, folded save_backfill_def] show ?thesis
  proof (cases rule: and_then_cases)
    case (err e)
    with db_query_result(1) [OF err(1)] show ?thesis using indexed_later [OF law inv, of s'] by simp
  next
    case (ok checkpoint s1)
    have s1: "s1 = tick s" by (rule db_query_result(1) [OF ok(1)])
    have inv1: "indexed env hist program n s1" using indexed_later [OF law inv, of s1] s1 by simp
    have cursor: "backfill_cursor env program s1 = (bc_before_signature checkpoint, bc_completed checkpoint)"
      using load_backfill_cursor [OF db_query_result(2) [OF ok(1) refl]] s1 by (simp add: backfill_cursor_def)
    show ?thesis
    proof (cases "bc_completed checkpoint")
      case True
      with ok(2) inv1 s1 cursor show ?thesis by (auto simp: done_with_def)
    next
      case False
      then have run: "run_pages (bf_max_pages_per_run config) (bc_before_signature checkpoint)
          (bf_signature_page_limit config) (\<lambda>before limit. fetch_signature_page_with_bounds env before None limit)
          (process_signature env program) (save_backfill env program) s1 = (x, s')"
        using ok(2) by (simp add: fetch_signature_page_def [abs_def] save_backfill_def [abs_def])
      have start: "backfill_cursor env program s1 = (bc_before_signature checkpoint, False)" using cursor False by simp
      have "history.progress env hist program n s1"
        using inv1 by (simp add: history.progress_def indexed_def)
      from history.run_pages_progress [OF law run limit start this]
      have r: "ix_clock s1 \<le> ix_clock s'" "db_live (ix_db s') = db_live (ix_db s1)"
        "history.progress env hist program n s'" "x = Inr Completed \<longrightarrow> snd (backfill_cursor env program s')"
        "x \<noteq> Inr AlreadyComplete" by auto
      have "live_position env program s1 = None"
        using inv1 start by (cases "live_position env program s1") (auto simp: indexed_def)
      with r(2) have "live_position env program s' = None" by (simp add: live_position_def)
      with r s1 show ?thesis by (auto simp: indexed_def history.progress_def)
    qed
  qed
qed

section \<open>Recovery keeps it\<close>

lemma newest_source_stored: "newest_source collate rows = Some a \<Longrightarrow> a \<in> set rows"
  by (induction rows arbitrary: a) (auto split: option.splits if_splits)

lemma try_from_row_signature:
  "try_from_row tc row = Inr (Some c) \<Longrightarrow> \<exists>r. row = Some r \<and> sig_parse tc (lcr_signature r) = Some (lc_signature c)"
  by (auto simp: try_from_row_def live_checkpoint_try_from_def split: option.splits sum.splits)

text \<open>A stored signature is the text of one, in the stored part of the history.\<close>

lemma persisted_entry:
  assumes "lawful_env env hist" "c \<in> sigs (take m (hist t))"
  obtains older e newer d where "take m (hist t) = older @ e # newer" "sta_signature e = c"
    "c = sig_text (env_text env) d" "sig_parse (env_text env) c = Some d"
proof -
  from assms(2) obtain e where e: "e \<in> set (take m (hist t))" "sta_signature e = c"
    by (auto simp: sigs_def successful_def)
  then obtain d where "c = sig_text (env_text env) d"
    using history_text [of env hist e t] assms(1) in_set_takeD by (metis lawful_env_def)
  moreover from this have "sig_parse (env_text env) c = Some d" using assms(1) by (simp add: lawful_env_def text_law_def)
  ultimately show ?thesis using e that by (metis split_list)
qed

lemma load_or_initialize_effect:
  assumes law: "lawful_env env hist" and inv: "indexed env hist program n s" "snd (backfill_cursor env program s)"
    and run: "load_or_initialize_live_checkpoint env program s = (x, s')"
  shows "ix_clock s \<le> ix_clock s' \<and> indexed env hist program n s' \<and> snd (backfill_cursor env program s') \<and>
    persisted s' = persisted s \<and>
    (\<forall>c. x = Inr (Some c) \<longrightarrow> sig_text (env_text env) (lc_signature c) \<in> persisted s')"
proof -
  obtain m where m: "n \<le> m" "m \<le> length (hist (ix_clock s))" "persisted s = sigs (take m (hist (ix_clock s)))"
    by (rule indexed_prefix [OF inv])
  have stored: "sig_text (env_text env) (lc_signature c) \<in> persisted s"
    if "try_from_row (env_text env) row = Inr (Some c)" "\<And>r. row = Some r \<Longrightarrow> lcr_signature r \<in> persisted s" for row c
  proof -
    from try_from_row_signature [OF that(1)] obtain r where r: "row = Some r"
      "sig_parse (env_text env) (lcr_signature r) = Some (lc_signature c)" by blast
    with that(2) m(3) have "lcr_signature r \<in> sigs (take m (hist (ix_clock s)))" by simp
    from persisted_entry [OF law this] r that(2) show ?thesis by (metis option.inject)
  qed
  have same: "ix_clock s \<le> ix_clock t \<and> indexed env hist program n t \<and> snd (backfill_cursor env program t) \<and>
      persisted t = persisted s" if "ix_db t = ix_db s" "ix_clock s \<le> ix_clock t" for t
    using indexed_later [OF law inv(1) that(2,1)] inv(2) that by (simp add: persisted_def backfill_cursor_def)
  from run [unfolded load_or_initialize_live_checkpoint_def] show ?thesis
  proof (cases rule: and_then_cases)
    case (err e)
    with db_query_result(1) [OF err(1)] same [of s'] show ?thesis by simp
  next
    case (ok row s1)
    have s1: "s1 = tick s" by (rule db_query_result(1) [OF ok(1)])
    show ?thesis
    proof (cases row)
      case (Some c)
      have "try_from_row (env_text env) (db_live (ix_db s) (env_key_text env program)) = Inr (Some c)"
        using db_query_result(2) [OF ok(1) refl] Some by (simp add: load_live_checkpoint_def)
      then have "sig_text (env_text env) (lc_signature c) \<in> persisted s"
        using inv(1) by (elim stored) (simp add: indexed_def live_position_def)
      with ok(2) Some s1 same [of s1] show ?thesis by (auto simp: done_with_def)
    next
      case None
      with ok(2) have "and_then (db_query env (\<lambda>db. load_latest_source_position (env_collate env) (env_text env) db)
          LiveCheckpointFailed) (\<lambda>source. case source of None \<Rightarrow> done_with None
            | Some c \<Rightarrow> and_then (save_live env program c) (\<lambda>_. done_with (Some c))) s1 = (x, s')" by simp
      then show ?thesis
      proof (cases rule: and_then_cases)
        case (err e)
        with db_query_result(1) [OF err(1)] s1 same [of s'] show ?thesis by simp
      next
        case source: (ok src s2)
        have s2: "s2 = tick s1" by (rule db_query_result(1) [OF source(1)])
        show ?thesis
        proof (cases src)
          case None
          with source(2) s1 s2 same [of s2] show ?thesis by (auto simp: done_with_def)
        next
          case (Some c)
          have "try_from_row (env_text env) (map_option source_row (newest_source (env_collate env) (db_transactions (ix_db s)))) =
              Inr (Some c)"
            using db_query_result(2) [OF source(1)] Some s1 by (simp add: load_latest_source_position_def)
          then have c: "sig_text (env_text env) (lc_signature c) \<in> persisted s"
            by (elim stored) (auto simp: source_row_def persisted_def dest!: newest_source_stored intro: rev_image_eqI)
          from source(2) Some obtain y where save: "save_live env program c s2 = (y, s')" "x = Inr z \<Longrightarrow> z = Some c" for z
            by (auto simp: done_with_def elim!: and_then_cases)
          note r = save_live_result [OF save(1)]
          have cur: "backfill_cursor env program s' = backfill_cursor env program s" "persisted s' = persisted s"
            using r(2,3) s1 s2 by (simp_all add: backfill_cursor_def persisted_def)
          obtain later where later: "hist (ix_clock s') = hist (ix_clock s) @ later"
            using history_grows [of env hist "ix_clock s" "ix_clock s'"] law r(1) s1 s2 by (auto simp: lawful_env_def)
          have "indexed env hist program n s'"
          proof (rule prefix_indexed [OF m(1)])
            show "m \<le> length (hist (ix_clock s'))" "persisted s' = sigs (take m (hist (ix_clock s')))"
              using m(2,3) cur later by simp_all
            show "snd (backfill_cursor env program s')" using cur inv(2) by simp
            have "live_position env program s2 = live_position env program s" using s1 s2 by (simp add: live_position_def)
            then show "d \<in> persisted s'" if "live_position env program s' = Some d" for d
              using r(4) that c cur inv(1) by (auto simp: indexed_def)
          qed
          with r(1) s1 s2 cur c inv(2) save(2) show ?thesis by auto
        qed
      qed
    qed
  qed
qed

text \<open>The stored prefix grows with what is processed after one of its entries.\<close>

lemma prefix_extends:
  assumes "h = older @ seg" "length older \<le> m" "m \<le> length h"
  obtains k where "m \<le> k" "k \<le> length h" "sigs (take m h) \<union> sigs (take i seg) = sigs (take k h)"
    "length seg \<le> i \<Longrightarrow> k = length h"
proof (cases "m \<le> length older + min i (length seg)")
  case True
  let ?k = "length older + min i (length seg)"
  have "take ?k h = older @ take i seg" using assms(1) by (simp add: min_def)
  moreover have "sigs older \<subseteq> sigs (take m h)" using sigs_take_mono [OF assms(2), of h] assms(1) by simp
  moreover have "sigs (take m h) \<subseteq> sigs (take ?k h)" by (rule sigs_take_mono [OF True])
  ultimately have "sigs (take m h) \<union> sigs (take i seg) = sigs (take ?k h)" by auto
  with True assms(1) show ?thesis by (intro that [of ?k]) auto
next
  case False
  then have "take (length older + i) h = older @ take i seg" "length older + i \<le> m"
    using assms(1,3) by (simp_all add: min_def split: if_splits)
  then have "sigs (take i seg) \<subseteq> sigs (take m h)" using sigs_take_mono [of "length older + i" m h] by auto
  with False assms show ?thesis by (intro that [of m]) (auto simp: min_def split: if_splits)
qed

lemma run_live_catchup_effect:
  assumes law: "lawful_env env hist" and inv: "indexed env hist program n s" "snd (backfill_cursor env program s)"
    and from_stored: "\<forall>c. checkpoint = Some c \<longrightarrow> sig_text (env_text env) (lc_signature c) \<in> persisted s"
    and run: "run_live_catchup env program checkpoint config s = (x, s')"
  shows "ix_clock s \<le> ix_clock s' \<and> indexed env hist program n s' \<and> snd (backfill_cursor env program s') \<and>
    (\<forall>k. x = Inr (CaughtUp k) \<longrightarrow> sigs (hist (ix_clock s)) \<subseteq> persisted s') \<and>
    (x = Inr CatchupPageLimitReached \<longrightarrow> persisted s' = persisted s)"
proof -
  let ?tc = "env_text env" and ?until = "map_option lc_signature checkpoint"
  let ?fetch = "\<lambda>before limit. fetch_signature_page_with_bounds env before ?until limit"
  have fetch: "(\<lambda>before limit. case checkpoint of Some c \<Rightarrow> fetch_live_signature_page env before (lc_signature c) limit
      | None \<Rightarrow> fetch_signature_page env before limit) = ?fetch"
    by (cases checkpoint) (simp_all add: fetch_live_signature_page_def fetch_signature_page_def fun_eq_iff)
  from run [unfolded run_live_catchup_def fetch] show ?thesis
  proof (cases rule: and_then_cases)
    case (err e)
    then have "ix_clock s \<le> ix_clock s' \<and> ix_db s' = ix_db s"
      by (auto simp: collect_gap_pages_def fail_with_def split: if_splits dest: rpc.collect_pages_state)
    with indexed_later [OF law inv(1), of s'] err(2) inv(2) show ?thesis by (simp add: backfill_cursor_def)
  next
    case (ok gap s1)
    then have pages: "collect_pages (lg_max_pages config) None [] (lg_signature_page_limit config) ?fetch s = (Inr gap, s1)"
      and limit: "0 < lg_signature_page_limit config"
      by (auto simp: collect_gap_pages_def fail_with_def split: if_splits)
    have s1: "ix_clock s \<le> ix_clock s1" "ix_db s1 = ix_db s" using rpc.collect_pages_state [OF pages] by auto
    have inv1: "indexed env hist program n s1" by (rule indexed_later [OF law inv(1) s1])
    have done1: "snd (backfill_cursor env program s1)" using inv(2) s1 by (simp add: backfill_cursor_def)
    show ?thesis
    proof (cases gap)
      case GapPageLimitReached
      with ok(2) inv1 done1 s1 show ?thesis by (auto simp: process_gap_records_def done_with_def persisted_def)
    next
      case (GapCaughtUp records)
      let ?h = "hist (ix_clock s)"
      obtain m where m: "n \<le> m" "m \<le> length ?h" "persisted s = sigs (take m ?h)"
        by (rule indexed_prefix [OF inv])
      obtain older seg where h: "?h = older @ seg" "ends_at ?tc older ?until" "length older \<le> m"
      proof (cases checkpoint)
        case None
        then show ?thesis by (intro that [of "[]" ?h]) (simp_all add: ends_at_def)
      next
        case (Some c)
        with from_stored m(3) have "sig_text ?tc (lc_signature c) \<in> sigs (take m ?h)" by simp
        from persisted_entry [OF law this] obtain a e b where e: "take m ?h = a @ e # b"
          "sta_signature e = sig_text ?tc (lc_signature c)" by metis
        have "length (a @ [e]) \<le> length (take m ?h)" using e(1) by simp
        moreover have "?h = (a @ [e]) @ b @ drop m ?h" using e(1) append_take_drop_id [of m ?h] by simp
        ultimately show ?thesis using Some e(2) m(2) by (intro that [of "a @ [e]" "b @ drop m ?h"]) (simp_all add: ends_at_def)
      qed
      have records: "records = map signature_record (successful seg)"
        using rpc.collect_pages_complete [OF law pages [unfolded GapCaughtUp] limit, of older seg "[]"] h
        by (simp add: starts_at_def)
      from ok(2) GapCaughtUp obtain y where proc:
        "process_records ?tc (process_signature env program) (save_live env program) 0 records s1 = (y, s')"
        "x = Inr z \<Longrightarrow> (\<exists>k. y = Inr k) \<and> z \<noteq> CatchupPageLimitReached" for z
        by (auto simp: process_gap_records_def done_with_def elim!: and_then_cases)
      have texts: "\<forall>r\<in>set records. \<exists>c. sr_signature r = sig_text ?tc c"
        using history_text [of env hist _ "ix_clock s"] law h(1)
        by (auto simp: records signature_record_def successful_def lawful_env_def)
      from gap.process_records_effect [OF proc(1) texts] law obtain j where j: "ix_clock s1 \<le> ix_clock s'"
        "db_backfill (ix_db s') = db_backfill (ix_db s1)"
        "persisted s' = persisted s1 \<union> sr_signature ` set (take j records)" "\<forall>k. y = Inr k \<longrightarrow> j = length records"
        "live_position env program s' = live_position env program s1 \<or>
          (\<exists>c\<in>sr_signature ` set (take j records). live_position env program s' = Some c)"
        by (auto simp: lawful_env_def)
      obtain i where i: "take j (successful seg) = successful (take i seg)" using take_successful by blast
      have new: "sr_signature ` set (take j records) = sigs (take i seg)"
        by (simp only: records take_map i sigs_records)
      have stored: "persisted s' = sigs (take m ?h) \<union> sigs (take i seg)"
        using j(3) new m(3) s1(2) by (simp add: persisted_def)
      obtain k where k: "m \<le> k" "k \<le> length ?h" "sigs (take m ?h) \<union> sigs (take i seg) = sigs (take k ?h)"
        using prefix_extends [OF h(1,3) m(2)] by metis
      have clock: "ix_clock s \<le> ix_clock s'" using s1 j(1) by simp
      obtain later where later: "hist (ix_clock s') = ?h @ later"
        using history_grows [of env hist "ix_clock s" "ix_clock s'"] law clock by (auto simp: lawful_env_def)
      have "indexed env hist program n s'"
      proof (rule prefix_indexed)
        show "n \<le> k" using m(1) k(1) by simp
        show "k \<le> length (hist (ix_clock s'))" "persisted s' = sigs (take k (hist (ix_clock s')))"
          using k stored later by simp_all
        show "snd (backfill_cursor env program s')" using j(2) done1 by (simp add: backfill_cursor_def)
        show "c \<in> persisted s'" if "live_position env program s' = Some c" for c
          using j(3,5) that inv1 by (auto simp: indexed_def)
      qed
      moreover have "sigs ?h \<subseteq> persisted s'" if "x = Inr (CaughtUp z)" for z
      proof -
        from proc(2) [OF that] j(4) have "j = length records" by blast
        then have "sigs (take i seg) = sigs seg" using new sigs_records [of seg] by (simp add: records)
        moreover have "sigs older \<subseteq> sigs (take m ?h)" using sigs_take_mono [OF h(3), of ?h] h(1) by simp
        ultimately show ?thesis using stored h(1) by auto
      qed
      ultimately show ?thesis using clock j(2) done1 proc(2) by (auto simp: backfill_cursor_def)
    qed
  qed
qed

lemma recover_live_gap_effect:
  assumes law: "lawful_env env hist" and inv: "indexed env hist program n s" "snd (backfill_cursor env program s)"
    and run: "recover_live_gap env program config s = (x, s')"
  shows "ix_clock s \<le> ix_clock s' \<and> indexed env hist program n s' \<and> snd (backfill_cursor env program s') \<and>
    (\<forall>k. x = Inr (CaughtUp k) \<longrightarrow> sigs (hist (ix_clock s)) \<subseteq> persisted s') \<and>
    (x = Inr CatchupPageLimitReached \<longrightarrow> persisted s' = persisted s)"
  using run [unfolded recover_live_gap_def]
proof (cases rule: and_then_cases)
  case (err e)
  with load_or_initialize_effect [OF law inv err(1)] show ?thesis by auto
next
  case (ok checkpoint s1)
  from load_or_initialize_effect [OF law inv ok(1)]
  have s1: "ix_clock s \<le> ix_clock s1" "indexed env hist program n s1" "snd (backfill_cursor env program s1)"
    "\<forall>c. checkpoint = Some c \<longrightarrow> sig_text (env_text env) (lc_signature c) \<in> persisted s1" "persisted s1 = persisted s"
    by auto
  from run_live_catchup_effect [OF law s1(2-4) ok(2)]
  have r: "ix_clock s1 \<le> ix_clock s'" "indexed env hist program n s'" "snd (backfill_cursor env program s')"
    "\<forall>k. x = Inr (CaughtUp k) \<longrightarrow> sigs (hist (ix_clock s1)) \<subseteq> persisted s'"
    "x = Inr CatchupPageLimitReached \<longrightarrow> persisted s' = persisted s1" by auto
  obtain later where "hist (ix_clock s1) = hist (ix_clock s) @ later"
    using history_grows [of env hist "ix_clock s" "ix_clock s1"] law s1(1) by (auto simp: lawful_env_def)
  then have "sigs (hist (ix_clock s)) \<subseteq> sigs (hist (ix_clock s1))" by simp
  with r s1(1,5) show ?thesis by auto
qed

lemma recover_and_report_effect:
  assumes "lawful_env env hist" "indexed env hist program n s" "snd (backfill_cursor env program s)"
    "recover_and_report env program config s = (x, s')"
  shows "ix_clock s \<le> ix_clock s' \<and> indexed env hist program n s' \<and> snd (backfill_cursor env program s')"
proof -
  from assms(4) obtain y where "recover_live_gap env program config s = (y, s')"
    by (auto simp: recover_and_report_def done_with_def fail_with_def elim!: and_then_cases split: LiveCatchupOutcome.splits)
  from recover_live_gap_effect [OF assms(1-3) this] show ?thesis by auto
qed

section \<open>Every run of the service\<close>

lemma service_step_indexed:
  assumes "service_step env program c c'" "lawful_env env hist" "indexed env hist program n (snd c)"
    "fst c = Live \<longrightarrow> snd (backfill_cursor env program (snd c))"
  shows "ix_clock (snd c) \<le> ix_clock (snd c') \<and> indexed env hist program n (snd c') \<and>
    (fst c' = Live \<longrightarrow> snd (backfill_cursor env program (snd c')))"
  using assms
proof (induction rule: service_step.induct)
  case (wait mode s)
  then show ?case using indexed_later [of env hist program n s "tick s"] by (simp add: backfill_cursor_def)
next
  case (backfill_ends s x s')
  then show ?case using run_backfill_indexed [OF backfill_ends(4,1)] by (simp add: backfill_config_def SIGNATURE_PAGE_LIMIT_def)
next
  case (goes_live s outcome s')
  then show ?case using run_backfill_indexed [OF goes_live(3,1)]
    by (cases outcome) (simp_all add: backfill_config_def SIGNATURE_PAGE_LIMIT_def)
next
  case (recovers s x s')
  then show ?case using recover_and_report_effect [OF recovers(2) _ _ recovers(1)] by simp
qed simp

lemma service_run_indexed:
  assumes "service_run env program c c'" "lawful_env env hist" "indexed env hist program n (snd c)"
    "fst c = Live \<longrightarrow> snd (backfill_cursor env program (snd c))"
  shows "ix_clock (snd c) \<le> ix_clock (snd c') \<and> indexed env hist program n (snd c') \<and>
    (fst c' = Live \<longrightarrow> snd (backfill_cursor env program (snd c')))"
  using assms
proof (induction rule: service_run.induct)
  case (run_step c c' c'')
  then show ?case using service_step_indexed [OF run_step(2,4), of n] by auto
qed simp

section \<open>Properties\<close>

text \<open>C36: No interruption leaves a gap in the stored history. Start the service on an empty database and
  let it run, fail, restart and wait in any order, with any RPC and database failures, also at commits
  whose acknowledgement is lost, while the chain grows: at every moment the stored transactions are
  successful transactions of the finalized history; once the backfill cursor says completed, all
  that were finalized at the start are stored, and the stored ones are all the successful ones of a
  prefix of the history; and the live position never passes a transaction that is not stored.\<close>

theorem stored_history_has_no_gap:
  assumes "lawful_env env hist" "fresh env program s0" "service_run env program (Stopped, s0) (mode, s)"
  shows "persisted s \<subseteq> sigs (hist (ix_clock s)) \<and>
    (snd (backfill_cursor env program s) \<longrightarrow>
       sigs (hist (ix_clock s0)) \<subseteq> persisted s \<and> (\<exists>m. persisted s = sigs (take m (hist (ix_clock s))))) \<and>
    (\<forall>older e newer. hist (ix_clock s) = older @ e # newer \<longrightarrow> live_position env program s = Some (sta_signature e) \<longrightarrow>
       sigs (older @ [e]) \<subseteq> persisted s)"
proof -
  let ?n = "length (hist (ix_clock s0))" and ?h = "hist (ix_clock s)"
  from service_run_indexed [OF assms(3,1), of ?n] fresh_indexed [OF assms(2)]
  have run: "ix_clock s0 \<le> ix_clock s" "indexed env hist program ?n s" by auto
  obtain later where later: "?h = hist (ix_clock s0) @ later"
    using history_grows [of env hist "ix_clock s0" "ix_clock s"] assms(1) run(1) by (auto simp: lawful_env_def)
  have sub: "persisted s \<subseteq> sigs ?h"
    using run(2) by (auto simp: indexed_def elim!: backfilledE)
  have complete: "sigs (hist (ix_clock s0)) \<subseteq> persisted s \<and> (\<exists>m. persisted s = sigs (take m ?h))"
    if d: "snd (backfill_cursor env program s)"
  proof -
    obtain m where m: "?n \<le> m" "m \<le> length ?h" "persisted s = sigs (take m ?h)" by (rule indexed_prefix [OF run(2) d])
    have "sigs (take ?n ?h) \<subseteq> sigs (take m ?h)" by (rule sigs_take_mono [OF m(1)])
    moreover have "take ?n ?h = hist (ix_clock s0)" using later by simp
    ultimately have "sigs (hist (ix_clock s0)) \<subseteq> persisted s" by (simp only: m(3))
    then show ?thesis by (intro conjI exI [of _ m] m(3))
  qed
  have position: "sigs (older @ [e]) \<subseteq> persisted s"
    if h: "?h = older @ e # newer" "live_position env program s = Some (sta_signature e)" for older e newer
  proof -
    have d: "snd (backfill_cursor env program s)" "sta_signature e \<in> persisted s" using run(2) h(2) by (auto simp: indexed_def)
    obtain m where m: "m \<le> length ?h" "persisted s = sigs (take m ?h)" by (rule indexed_prefix [OF run(2) d(1)])
    then obtain e' where e': "e' \<in> set (take m ?h)" "sta_signature e' = sta_signature e"
      using d(2) by (auto simp: sigs_def successful_def)
    have "inj_on sta_signature (set ?h)"
      using history_distinct [of env hist] assms(1) by (simp add: lawful_env_def distinct_map)
    moreover have "e' \<in> set ?h" "e \<in> set ?h" using in_set_takeD [OF e'(1)] h(1) by (blast, simp)
    ultimately have "e' = e" using e'(2) by (simp only: inj_on_eq_iff)
    have "length older < m"
    proof (rule ccontr)
      assume "\<not> length older < m"
      then have "take m ?h = take m older" using h(1) by simp
      then have "e \<in> set older" using e'(1) \<open>e' = e\<close> in_set_takeD by fastforce
      then show False using history_distinct [of env hist "ix_clock s"] assms(1) h(1) by (auto simp: lawful_env_def)
    qed
    then have "sigs (take (Suc (length older)) ?h) \<subseteq> sigs (take m ?h)" by (intro sigs_take_mono) simp
    with m(2) h(1) show ?thesis by simp
  qed
  show ?thesis using sub complete position by blast
qed

text \<open>C37: A recovery is complete or does nothing. Whenever the live loop of any run of the service
  recovers and reports success, every successful transaction that was finalized when the recovery began is
  stored; and a gap that exceeds the page cap is left alone, no part of its newest pages stored.\<close>

theorem recovery_is_complete_or_nothing:
  assumes "lawful_env env hist" "fresh env program s0" "service_run env program (Stopped, s0) (Live, s)"
    "recover_live_gap env program live_config s = (outcome, s')"
  shows "(\<forall>processed. outcome = Inr (CaughtUp processed) \<longrightarrow> sigs (hist (ix_clock s)) \<subseteq> persisted s') \<and>
    (outcome = Inr CatchupPageLimitReached \<longrightarrow> persisted s' = persisted s)"
proof -
  let ?n = "length (hist (ix_clock s0))"
  from service_run_indexed [OF assms(3,1), of ?n] fresh_indexed [OF assms(2)]
  have "indexed env hist program ?n s" "snd (backfill_cursor env program s)" by auto
  from recover_live_gap_effect [OF assms(1) this assms(4)] show ?thesis by blast
qed

end
