(* ===== verification/Indexer_Session.thy ===== *)
theory Indexer_Session
  imports Indexer_Service
begin

text \<open>
  The process around the ingestion: its configuration (\<open>config.rs\<close>), the readiness it reports
  (\<open>health.rs\<close>), what it makes of a notification (\<open>subscription.rs\<close>), and the loop of \<open>main.rs\<close> phase by
  phase. The loop refines the abstract service of \<open>Indexer_Service\<close>, so that its claims hold of it. The
  WebSocket client, the operating system's signals and the database probe are the choices of a step.
\<close>

section \<open>Configuration\<close>

definition DEFAULT_RPC_URL :: string where "DEFAULT_RPC_URL = ''https://api.devnet.solana.com''"
definition DEFAULT_PROGRAM_ID :: string where
  "DEFAULT_PROGRAM_ID = ''AG4ztZvcZjzFKjoXLzH8M6U3if9CwVFTXH2FHjqg7SdL''"
definition DEFAULT_WEBSOCKET_URL :: string where "DEFAULT_WEBSOCKET_URL = ''wss://api.devnet.solana.com''"
definition DEFAULT_HEALTH_ADDRESS :: string where "DEFAULT_HEALTH_ADDRESS = ''0.0.0.0:8080''"

record Config =
  cf_rpc_url :: string
  cf_program_id :: string
  cf_database_url :: string
  cf_websocket_url :: string
  cf_health_address :: string

text \<open>\<open>std::env::VarError\<close>, and the one configuration error.\<close>

datatype VarError = NotPresent | NotUnicode
datatype ConfigError = DatabaseUrl VarError

definition unwrap_or :: "'e + 'a \<Rightarrow> 'a \<Rightarrow> 'a" where
  "unwrap_or r d = (case r of Inl e \<Rightarrow> d | Inr v \<Rightarrow> v)"

definition from_env :: "(string \<Rightarrow> VarError + string) \<Rightarrow> ConfigError + Config" where
  "from_env var =
     (case var ''DATABASE_URL'' of
        Inl e \<Rightarrow> Inl (DatabaseUrl e)
      | Inr database_url \<Rightarrow> Inr
          \<lparr>cf_rpc_url = unwrap_or (var ''SOLANA_RPC_URL'') DEFAULT_RPC_URL,
           cf_program_id = unwrap_or (var ''TIDEBOOK_PROGRAM_ID'') DEFAULT_PROGRAM_ID,
           cf_database_url = database_url,
           cf_websocket_url = unwrap_or (var ''SOLANA_WS_URL'') DEFAULT_WEBSOCKET_URL,
           cf_health_address = unwrap_or (var ''HEALTH_ADDRESS'') DEFAULT_HEALTH_ADDRESS\<rparr>)"

text \<open>The database is never chosen silently, and nothing else is required.\<close>

lemma from_env_needs_database: "(\<exists>c. from_env var = Inr c \<and> cf_database_url c = url) \<longleftrightarrow> var ''DATABASE_URL'' = Inr url"
  by (auto simp: from_env_def split: sum.splits)

section \<open>Health\<close>

record HealthState =
  caught_up :: bool

definition health_new :: HealthState where "health_new = \<lparr>caught_up = False\<rparr>"
definition mark_ready :: "HealthState \<Rightarrow> HealthState" where "mark_ready h = h\<lparr>caught_up := True\<rparr>"
definition mark_not_ready :: "HealthState \<Rightarrow> HealthState" where "mark_not_ready h = h\<lparr>caught_up := False\<rparr>"

lemma health_bits [simp]:
  "\<not> caught_up health_new" "caught_up (mark_ready h)" "\<not> caught_up (mark_not_ready h)"
  by (simp_all add: health_new_def mark_ready_def mark_not_ready_def)

text \<open>The two routes, as HTTP status and body; \<open>database_reachable\<close> is the answer of the probe.\<close>

definition liveness :: "nat \<times> string" where "liveness = (200, ''alive'')"

definition readiness :: "bool \<Rightarrow> HealthState \<Rightarrow> nat \<times> string" where
  "readiness database_reachable h =
     (let ready = caught_up h \<and> database_reachable
      in (if ready then 200 else 503, if ready then ''ready'' else ''not_ready''))"

section \<open>Notifications\<close>

text \<open>What is used of a \<open>Response<RpcLogsResponse>\<close>.\<close>

record LogNotification =
  nt_slot :: u64
  nt_signature :: string
  nt_failed :: bool

record LogWakeup =
  lw_signature :: signature
  lw_slot :: u64

datatype SessionError = Ingestion IndexerError | MalformedSignature | SubscriptionClosed | ConnectionFailed

definition notification_to_wakeup :: "text_codec \<Rightarrow> LogNotification \<Rightarrow> SessionError + LogWakeup option" where
  "notification_to_wakeup tc n =
     (if nt_failed n then Inr None
      else case sig_parse tc (nt_signature n) of
        None \<Rightarrow> Inl MalformedSignature
      | Some c \<Rightarrow> Inr (Some \<lparr>lw_signature = c, lw_slot = nt_slot n\<rparr>))"

section \<open>The loop\<close>

definition INITIAL_RECONNECT_DELAY :: nat where "INITIAL_RECONNECT_DELAY = 1000"
definition MAX_RECONNECT_DELAY :: nat where "MAX_RECONNECT_DELAY = 30000"

text \<open>The process does not run, opens a subscription, consumes its notifications, or waits to
  reconnect.\<close>

datatype phase = Off | Subscribing | Listening | Retrying nat

record session =
  ses_phase :: phase
  ses_health :: HealthState
  ses_observed_wakeup :: bool
  ses_backoff :: ReconnectBackoff
  ses_indexer :: indexer

definition loop_head :: "session \<Rightarrow> session" where
  "loop_head s = s\<lparr>ses_phase := Subscribing, ses_health := mark_not_ready (ses_health s), ses_observed_wakeup := False\<rparr>"

text \<open>The two callbacks and the treatment of one notification.\<close>

definition on_ready :: "environment \<Rightarrow> pubkey \<Rightarrow> session \<Rightarrow> (SessionError + unit) \<times> session" where
  "on_ready env program s =
     (case recover_and_report env program live_config (ses_indexer s) of
        (Inl e, ix) \<Rightarrow> (Inl (Ingestion e), s\<lparr>ses_indexer := ix\<rparr>)
      | (Inr _, ix) \<Rightarrow> (Inr (), s\<lparr>ses_indexer := ix, ses_health := mark_ready (ses_health s)\<rparr>))"

definition on_wakeup :: "environment \<Rightarrow> pubkey \<Rightarrow> LogWakeup \<Rightarrow> session \<Rightarrow> (SessionError + unit) \<times> session" where
  "on_wakeup env program wakeup s =
     (case recover_and_report env program live_config (ses_indexer s) of
        (Inl e, ix) \<Rightarrow> (Inl (Ingestion e), s\<lparr>ses_indexer := ix\<rparr>)
      | (Inr _, ix) \<Rightarrow> (Inr (), s\<lparr>ses_indexer := ix, ses_observed_wakeup := True\<rparr>))"

definition on_notification ::
  "environment \<Rightarrow> pubkey \<Rightarrow> LogNotification \<Rightarrow> session \<Rightarrow> (SessionError + unit) \<times> session" where
  "on_notification env program n s =
     (case notification_to_wakeup (env_text env) n of
        Inl e \<Rightarrow> (Inl e, s)
      | Inr None \<Rightarrow> (Inr (), s)
      | Inr (Some wakeup) \<Rightarrow> on_wakeup env program wakeup s)"

text \<open>\<open>run_log_subscription\<close> on a connection that opens or not, and on the notifications it delivers before
  it closes.\<close>

fun consume :: "environment \<Rightarrow> pubkey \<Rightarrow> LogNotification list \<Rightarrow> session \<Rightarrow> (SessionError + unit) \<times> session" where
  "consume env program [] s = (Inl SubscriptionClosed, s)"
| "consume env program (n # ns) s =
     (case on_notification env program n s of
        (Inl e, s') \<Rightarrow> (Inl e, s')
      | (Inr _, s') \<Rightarrow> consume env program ns s')"

definition run_log_subscription ::
  "environment \<Rightarrow> pubkey \<Rightarrow> bool \<Rightarrow> LogNotification list \<Rightarrow> session \<Rightarrow> (SessionError + unit) \<times> session" where
  "run_log_subscription env program connects notifications s =
     (if \<not> connects then (Inl ConnectionFailed, s)
      else case on_ready env program s of
        (Inl e, s') \<Rightarrow> (Inl e, s')
      | (Inr _, s') \<Rightarrow> consume env program notifications (s'\<lparr>ses_phase := Listening\<rparr>))"

text \<open>What follows the end of a subscription: the delay starts again after progress.\<close>

definition retry :: "session \<Rightarrow> session" where
  "retry s =
     (let b = if ses_observed_wakeup s then backoff_reset (ses_backoff s) else ses_backoff s;
          (delay, b') = next_delay b
      in s\<lparr>ses_phase := Retrying delay, ses_backoff := b'\<rparr>)"

definition loop_pass ::
  "environment \<Rightarrow> pubkey \<Rightarrow> bool \<Rightarrow> LogNotification list \<Rightarrow> session \<Rightarrow> session" where
  "loop_pass env program connects notifications s =
     retry (snd (run_log_subscription env program connects notifications s))"

inductive session_step :: "environment \<Rightarrow> pubkey \<Rightarrow> session \<Rightarrow> session \<Rightarrow> bool"
  for env program where
  time_passes: "session_step env program s (s\<lparr>ses_indexer := tick (ses_indexer s)\<rparr>)"
| start_ends: "ses_phase s = Off \<Longrightarrow> run_backfill env program backfill_config (ses_indexer s) = (x, ix) \<Longrightarrow>
    x \<noteq> Inr AlreadyComplete \<Longrightarrow> x \<noteq> Inr Completed \<Longrightarrow> session_step env program s (s\<lparr>ses_indexer := ix\<rparr>)"
| start_lives: "ses_phase s = Off \<Longrightarrow> run_backfill env program backfill_config (ses_indexer s) = (Inr outcome, ix) \<Longrightarrow>
    outcome \<noteq> BackfillPageLimitReached \<Longrightarrow>
    backoff_new INITIAL_RECONNECT_DELAY MAX_RECONNECT_DELAY = Some b \<Longrightarrow>
    session_step env program s (loop_head (s\<lparr>ses_indexer := ix, ses_backoff := b\<rparr>))"
| connection_fails: "ses_phase s = Subscribing \<Longrightarrow> session_step env program s (retry s)"
| becomes_ready: "ses_phase s = Subscribing \<Longrightarrow> on_ready env program s = (Inr u, s') \<Longrightarrow>
    session_step env program s (s'\<lparr>ses_phase := Listening\<rparr>)"
| ready_fails: "ses_phase s = Subscribing \<Longrightarrow> on_ready env program s = (Inl e, s') \<Longrightarrow>
    session_step env program s (retry s')"
| notified: "ses_phase s = Listening \<Longrightarrow> on_notification env program n s = (Inr u, s') \<Longrightarrow>
    session_step env program s s'"
| notification_fails: "ses_phase s = Listening \<Longrightarrow> on_notification env program n s = (Inl e, s') \<Longrightarrow>
    session_step env program s (retry s')"
| stream_closes: "ses_phase s = Listening \<Longrightarrow> session_step env program s (retry s)"
| reconnects: "ses_phase s = Retrying d \<Longrightarrow> session_step env program s (loop_head s)"
| stops: "ses_phase s \<noteq> Off \<Longrightarrow>
    session_step env program s (s\<lparr>ses_phase := Off, ses_health := health_new, ses_observed_wakeup := False\<rparr>)"

inductive_cases session_stepE: "session_step env program s s'"

text \<open>A process that has not started yet, over a fresh database.\<close>

definition unstarted :: "environment \<Rightarrow> pubkey \<Rightarrow> session \<Rightarrow> bool" where
  "unstarted env program s \<longleftrightarrow> ses_phase s = Off \<and> \<not> caught_up (ses_health s) \<and> fresh env program (ses_indexer s)"

section \<open>The loop refines the service\<close>

definition service_view :: "session \<Rightarrow> mode \<times> indexer" where
  "service_view s = (if ses_phase s = Off then Stopped else Live, ses_indexer s)"

lemma retry_fields [simp]:
  "ses_health (retry s) = ses_health s" "ses_indexer (retry s) = ses_indexer s"
  "ses_observed_wakeup (retry s) = ses_observed_wakeup s" "ses_phase (retry s) \<noteq> Off"
  "ses_phase (retry s) \<noteq> Subscribing" "ses_phase (retry s) \<noteq> Listening"
  by (simp_all add: retry_def Let_def next_delay_def)

lemma loop_head_fields [simp]:
  "ses_phase (loop_head s) = Subscribing" "ses_indexer (loop_head s) = ses_indexer s"
  "\<not> caught_up (ses_health (loop_head s))" "ses_backoff (loop_head s) = ses_backoff s"
  "\<not> ses_observed_wakeup (loop_head s)"
  by (simp_all add: loop_head_def)

text \<open>A subscription that ended leaves the readiness as it was, until the next one is opened.\<close>

lemma retry_keeps_readiness: "readiness reachable (ses_health (retry s)) = readiness reachable (ses_health s)"
  by simp

lemma on_ready_cases:
  assumes "on_ready env program s = (x, s')"
  obtains (failed) e ix where "recover_and_report env program live_config (ses_indexer s) = (Inl e, ix)"
      "x = Inl (Ingestion e)" "s' = s\<lparr>ses_indexer := ix\<rparr>"
  | (ready) ix where "recover_and_report env program live_config (ses_indexer s) = (Inr (), ix)" "x = Inr ()"
      "s' = s\<lparr>ses_indexer := ix, ses_health := mark_ready (ses_health s)\<rparr>"
  using assms by (auto simp: on_ready_def split: prod.splits sum.splits)

lemma on_notification_cases:
  assumes "on_notification env program n s = (x, s')"
  obtains (quiet) "s' = s" "x = Inr () \<or> x = Inl MalformedSignature"
  | (failed) e ix where "recover_and_report env program live_config (ses_indexer s) = (Inl e, ix)"
      "x = Inl (Ingestion e)" "s' = s\<lparr>ses_indexer := ix\<rparr>"
  | (woken) ix where "recover_and_report env program live_config (ses_indexer s) = (Inr (), ix)" "x = Inr ()"
      "s' = s\<lparr>ses_indexer := ix, ses_observed_wakeup := True\<rparr>"
proof (cases "notification_to_wakeup (env_text env) n")
  case (Inl e)
  then have "e = MalformedSignature" by (simp add: notification_to_wakeup_def split: if_splits option.splits)
  with Inl assms quiet show ?thesis by (simp add: on_notification_def)
next
  case (Inr wakeup)
  show ?thesis
  proof (cases wakeup)
    case None
    with Inr assms quiet show ?thesis by (simp add: on_notification_def)
  next
    case (Some wk)
    obtain r ix where r: "recover_and_report env program live_config (ses_indexer s) = (r, ix)" by fastforce
    show ?thesis
    proof (cases r)
      case (Inl e)
      with Some Inr r assms failed show ?thesis by (simp add: on_notification_def on_wakeup_def)
    next
      case right: (Inr u)
      with Some Inr r assms woken show ?thesis by (simp add: on_notification_def on_wakeup_def)
    qed
  qed
qed

lemma on_ready_fields:
  assumes "on_ready env program s = (x, s')"
  shows "ses_phase s' = ses_phase s" "ses_backoff s' = ses_backoff s" "ses_observed_wakeup s' = ses_observed_wakeup s"
  using assms by (auto elim: on_ready_cases)

lemma on_notification_fields:
  assumes "on_notification env program n s = (x, s')"
  shows "ses_phase s' = ses_phase s" "ses_backoff s' = ses_backoff s" "ses_health s' = ses_health s"
  using assms by (auto elim!: on_notification_cases)

lemma service_run_trans:
  "service_run env program b c \<Longrightarrow> service_run env program a b \<Longrightarrow> service_run env program a c"
  by (induction rule: service_run.induct) (auto intro: service_run.intros)

lemma one_service_step: "service_step env program c c' \<Longrightarrow> service_run env program c c'"
  by (blast intro: service_run.intros)

lemma session_step_refines:
  assumes "session_step env program s s'"
  shows "service_run env program (service_view s) (service_view s')"
  using assms
proof (cases rule: session_step.cases)
  case time_passes
  then show ?thesis by (simp add: service_view_def one_service_step service_step.wait)
next
  case (start_ends x ix)
  then show ?thesis using service_step.backfill_ends [OF start_ends(3-5)]
    by (simp add: service_view_def one_service_step)
next
  case (start_lives outcome ix b)
  then show ?thesis using service_step.goes_live [OF start_lives(3,4)]
    by (simp add: service_view_def one_service_step)
next
  case (becomes_ready u t)
  from becomes_ready(3) show ?thesis using becomes_ready(1,2)
    by (cases rule: on_ready_cases) (auto simp: service_view_def intro!: one_service_step service_step.recovers)
next
  case (ready_fails e t)
  from ready_fails(3) show ?thesis using ready_fails(1,2)
    by (cases rule: on_ready_cases) (auto simp: service_view_def intro!: one_service_step service_step.recovers)
next
  case (notified n u)
  from notified(2) show ?thesis using notified(1)
    by (cases rule: on_notification_cases)
      (auto simp: service_view_def intro!: service_run.run_refl one_service_step service_step.recovers)
next
  case (notification_fails n e t)
  from notification_fails(3) show ?thesis using notification_fails(1,2)
    by (cases rule: on_notification_cases)
      (auto simp: service_view_def intro!: service_run.run_refl one_service_step service_step.recovers)
next
  case stops
  then show ?thesis by (simp add: service_view_def one_service_step service_step.shutdown)
qed (simp_all add: service_view_def service_run.run_refl)

lemma session_run_refines:
  "(session_step env program)\<^sup>*\<^sup>* s s' \<Longrightarrow> service_run env program (service_view s) (service_view s')"
proof (induction rule: rtranclp_induct)
  case (step t u)
  then show ?case using session_step_refines service_run_trans by metis
qed (rule service_run.run_refl)

lemma consume_steps:
  assumes "ses_phase s = Listening"
  shows "(session_step env program)\<^sup>*\<^sup>* s (retry (snd (consume env program ns s)))"
  using assms
proof (induction ns arbitrary: s)
  case Nil
  then show ?case by (auto intro: session_step.stream_closes)
next
  case (Cons n ns)
  obtain x s' where n: "on_notification env program n s = (x, s')" by fastforce
  show ?case
  proof (cases x)
    case (Inl e)
    with n Cons.prems session_step.notification_fails [of s env program n e s'] show ?thesis by auto
  next
    case (Inr u)
    with n Cons.prems have "session_step env program s s'" by (auto intro: session_step.notified)
    moreover have "ses_phase s' = Listening" using on_notification_fields(1) [OF n] Cons.prems by simp
    ultimately show ?thesis using Cons.IH [of s'] n Inr by (auto intro: converse_rtranclp_into_rtranclp)
  qed
qed

lemma loop_pass_steps:
  assumes "ses_phase s = Subscribing"
  shows "(session_step env program)\<^sup>*\<^sup>* s (loop_pass env program connects ns s)"
proof (cases connects)
  case False
  with assms show ?thesis
    by (auto simp: loop_pass_def run_log_subscription_def intro: session_step.connection_fails)
next
  case True
  obtain x s' where r: "on_ready env program s = (x, s')" by fastforce
  show ?thesis
  proof (cases x)
    case (Inl e)
    with True r assms session_step.ready_fails [of s env program e s'] show ?thesis
      by (auto simp: loop_pass_def run_log_subscription_def)
  next
    case (Inr u)
    with r assms have "session_step env program s (s'\<lparr>ses_phase := Listening\<rparr>)" by (auto intro: session_step.becomes_ready)
    then show ?thesis using consume_steps [of "s'\<lparr>ses_phase := Listening\<rparr>" env program ns] True r Inr
      by (auto simp: loop_pass_def run_log_subscription_def intro: converse_rtranclp_into_rtranclp)
  qed
qed

section \<open>Readiness\<close>

text \<open>The steps within one subscription and the wait after it.\<close>

definition connected_step :: "environment \<Rightarrow> pubkey \<Rightarrow> session \<Rightarrow> session \<Rightarrow> bool" where
  "connected_step env program a b \<longleftrightarrow>
     session_step env program a b \<and> ses_phase b \<noteq> Subscribing \<and> ses_phase b \<noteq> Off"

lemma indexed_raise:
  assumes "indexed env hist program n s" "snd (backfill_cursor env program s)"
    "sigs (take k (hist (ix_clock s))) \<subseteq> persisted s" "k \<le> length (hist (ix_clock s))"
  shows "indexed env hist program k s"
proof -
  obtain m where m: "n \<le> m" "m \<le> length (hist (ix_clock s))" "persisted s = sigs (take m (hist (ix_clock s)))"
    by (rule indexed_prefix [OF assms(1,2)])
  have "persisted s = sigs (take (max k m) (hist (ix_clock s)))"
  proof (cases "k \<le> m")
    case True
    with m(3) show ?thesis by (simp add: max_absorb2)
  next
    case False
    then have "sigs (take m (hist (ix_clock s))) \<subseteq> sigs (take k (hist (ix_clock s)))" by (intro sigs_take_mono) simp
    with assms(3) m(3) False show ?thesis by (simp add: max_def)
  qed
  then show ?thesis
    using assms(1,2,4) m(2) by (intro prefix_indexed [of k "max k m"]) (auto simp: indexed_def)
qed

lemma indexed_covers:
  assumes "lawful_env env hist" "indexed env hist program (length (hist t)) s" "snd (backfill_cursor env program s)"
    "t \<le> ix_clock s"
  shows "sigs (hist t) \<subseteq> persisted s"
proof -
  obtain m where m: "length (hist t) \<le> m" "persisted s = sigs (take m (hist (ix_clock s)))"
    using indexed_prefix [OF assms(2,3)] by metis
  obtain later where "hist (ix_clock s) = hist t @ later"
    using history_grows [of env hist t "ix_clock s"] assms(1,4) by (auto simp: lawful_env_def)
  then have "hist t = take (length (hist t)) (hist (ix_clock s))" by simp
  with sigs_take_mono [OF m(1), of "hist (ix_clock s)"] m(2) show ?thesis by simp
qed

lemma recovery_raises:
  assumes "lawful_env env hist" "indexed env hist program n s" "snd (backfill_cursor env program s)"
    "recover_and_report env program live_config s = (Inr (), s')"
  shows "indexed env hist program (length (hist (ix_clock s))) s' \<and> snd (backfill_cursor env program s') \<and>
    ix_clock s \<le> ix_clock s'"
proof -
  obtain k where k: "recover_live_gap env program live_config s = (Inr (CaughtUp k), s')"
    using assms(4) by (auto simp: recover_and_report_def done_with_def fail_with_def elim!: and_then_cases
      split: LiveCatchupOutcome.splits)
  from recover_live_gap_effect [OF assms(1-3) k]
  have r: "ix_clock s \<le> ix_clock s'" "indexed env hist program n s'" "snd (backfill_cursor env program s')"
    "sigs (hist (ix_clock s)) \<subseteq> persisted s'" by auto
  obtain later where l: "hist (ix_clock s') = hist (ix_clock s) @ later"
    using history_grows [of env hist "ix_clock s" "ix_clock s'"] assms(1) r(1) by (auto simp: lawful_env_def)
  have "indexed env hist program (length (hist (ix_clock s))) s'"
    using r(4) l by (intro indexed_raise [OF r(2,3)]) simp_all
  with r show ?thesis by simp
qed

text \<open>Refinement carries the invariant of the service over to every step of the loop.\<close>

lemma session_step_indexed:
  assumes "lawful_env env hist" "session_step env program s s'" "indexed env hist program n (ses_indexer s)"
    "ses_phase s \<noteq> Off \<longrightarrow> snd (backfill_cursor env program (ses_indexer s))"
  shows "ix_clock (ses_indexer s) \<le> ix_clock (ses_indexer s') \<and> indexed env hist program n (ses_indexer s') \<and>
    (ses_phase s' \<noteq> Off \<longrightarrow> snd (backfill_cursor env program (ses_indexer s')))"
  using service_run_indexed [OF session_step_refines [OF assms(2)] assms(1), of n] assms(3,4)
  by (auto simp: service_view_def split: if_splits)

definition since_ready :: "environment \<Rightarrow> (nat \<Rightarrow> StatusEntry list) \<Rightarrow> pubkey \<Rightarrow> session \<Rightarrow> session \<Rightarrow> bool" where
  "since_ready env hist program s0 s \<longleftrightarrow>
     ses_phase s \<noteq> Off \<and> ses_phase s \<noteq> Subscribing \<and>
     (\<exists>s1. (session_step env program)\<^sup>*\<^sup>* s0 s1 \<and> ses_phase s1 = Subscribing \<and>
       (connected_step env program)\<^sup>*\<^sup>* s1 s \<and> ix_clock (ses_indexer s1) \<le> ix_clock (ses_indexer s) \<and>
       indexed env hist program (length (hist (ix_clock (ses_indexer s1)))) (ses_indexer s) \<and>
       snd (backfill_cursor env program (ses_indexer s)))"

lemma since_ready_step:
  assumes "lawful_env env hist" "since_ready env hist program s0 s" "session_step env program s s'"
    "ses_phase s' \<noteq> Off" "ses_phase s' \<noteq> Subscribing"
  shows "since_ready env hist program s0 s'"
proof -
  from assms(2) obtain s1 where s1: "(session_step env program)\<^sup>*\<^sup>* s0 s1" "ses_phase s1 = Subscribing"
    "(connected_step env program)\<^sup>*\<^sup>* s1 s" "ix_clock (ses_indexer s1) \<le> ix_clock (ses_indexer s)"
    "indexed env hist program (length (hist (ix_clock (ses_indexer s1)))) (ses_indexer s)"
    "snd (backfill_cursor env program (ses_indexer s))"
    by (auto simp: since_ready_def)
  from session_step_indexed [OF assms(1,3) s1(5)] s1(6) assms(4)
  have "ix_clock (ses_indexer s) \<le> ix_clock (ses_indexer s')"
    "indexed env hist program (length (hist (ix_clock (ses_indexer s1)))) (ses_indexer s')"
    "snd (backfill_cursor env program (ses_indexer s'))" by auto
  moreover have "(connected_step env program)\<^sup>*\<^sup>* s1 s'"
    using s1(3) assms(3-5) by (intro rtranclp.rtrancl_into_rtrancl [OF s1(3)]) (simp add: connected_step_def)
  ultimately show ?thesis using s1(1,2,4) assms(4,5) unfolding since_ready_def by (metis le_trans)
qed

lemma ready_begins:
  assumes "lawful_env env hist" "(session_step env program)\<^sup>*\<^sup>* s0 s" "ses_phase s = Subscribing"
    "on_ready env program s = (Inr u, s')" "indexed env hist program n (ses_indexer s)"
    "snd (backfill_cursor env program (ses_indexer s))"
  shows "since_ready env hist program s0 (s'\<lparr>ses_phase := Listening\<rparr>)"
proof -
  from assms(4) obtain ix where ix: "recover_and_report env program live_config (ses_indexer s) = (Inr (), ix)"
    "s' = s\<lparr>ses_indexer := ix, ses_health := mark_ready (ses_health s)\<rparr>" by (cases rule: on_ready_cases) auto
  have "session_step env program s (s'\<lparr>ses_phase := Listening\<rparr>)"
    using assms(3,4) by (rule session_step.becomes_ready)
  then have "(connected_step env program)\<^sup>*\<^sup>* s (s'\<lparr>ses_phase := Listening\<rparr>)"
    by (intro r_into_rtranclp) (simp add: connected_step_def)
  with recovery_raises [OF assms(1,5,6) ix(1)] assms(2,3) ix(2) show ?thesis
    by (auto simp: since_ready_def)
qed

lemma ready_since:
  assumes law: "lawful_env env hist" and start: "unstarted env program s0"
    and run: "(session_step env program)\<^sup>*\<^sup>* s0 s"
  shows "(\<exists>n. indexed env hist program n (ses_indexer s)) \<and>
    (ses_phase s \<noteq> Off \<longrightarrow> snd (backfill_cursor env program (ses_indexer s))) \<and>
    (caught_up (ses_health s) \<longrightarrow> since_ready env hist program s0 s)"
  using run
proof (induction rule: rtranclp_induct)
  case base
  then show ?case using start fresh_indexed [of env program "ses_indexer s0" hist] by (auto simp: unstarted_def)
next
  case (step s s')
  from step.IH obtain n where n: "indexed env hist program n (ses_indexer s)"
    and cursor: "ses_phase s \<noteq> Off \<longrightarrow> snd (backfill_cursor env program (ses_indexer s))"
    and ready: "caught_up (ses_health s) \<longrightarrow> since_ready env hist program s0 s" by blast
  note keeps = session_step_indexed [OF law step.hyps(2) n cursor]
  have "since_ready env hist program s0 s'" if up: "caught_up (ses_health s')"
    using step.hyps(2)
  proof (cases rule: session_step.cases)
    case (becomes_ready u t)
    then show ?thesis using ready_begins [OF law step.hyps(1) becomes_ready(2,3) n] cursor by simp
  next
    case time_passes
    with up ready since_ready_step [OF law _ step.hyps(2)] show ?thesis by (auto simp: since_ready_def)
  next
    case (start_ends x ix)
    with up ready show ?thesis by (simp add: since_ready_def)
  next
    case connection_fails
    with up ready show ?thesis by (simp add: since_ready_def)
  next
    case (ready_fails e t)
    from ready_fails(3) up ready ready_fails(1,2) show ?thesis
      by (cases rule: on_ready_cases) (simp_all add: since_ready_def)
  next
    case (notified x u)
    with up ready on_notification_fields [OF notified(2)] since_ready_step [OF law _ step.hyps(2)] show ?thesis by simp
  next
    case (notification_fails x e t)
    with up ready on_notification_fields [OF notification_fails(3)] since_ready_step [OF law _ step.hyps(2)]
    show ?thesis by simp
  next
    case stream_closes
    with up ready since_ready_step [OF law _ step.hyps(2)] show ?thesis by simp
  qed (use up in auto)
  with keeps n cursor show ?case by auto
qed

section \<open>Delays\<close>

definition paced :: "session \<Rightarrow> bool" where
  "paced s \<longleftrightarrow> (ses_phase s \<noteq> Off \<longrightarrow>
     rb_initial (ses_backoff s) = INITIAL_RECONNECT_DELAY \<and> rb_maximum (ses_backoff s) = MAX_RECONNECT_DELAY \<and>
     rb_next (ses_backoff s) \<in> {1000, 2000, 4000, 8000, 16000, 30000} \<and>
     (\<forall>d. ses_phase s = Retrying d \<longrightarrow> d \<in> {1000, 2000, 4000, 8000, 16000, 30000} \<and>
        rb_next (ses_backoff s) = min (2 * d) MAX_RECONNECT_DELAY \<and> (ses_observed_wakeup s \<longrightarrow> d = INITIAL_RECONNECT_DELAY)))"

lemma retry_paced:
  assumes "paced s" "ses_phase s \<noteq> Off"
  shows "paced (retry s)"
  using assms
  by (auto simp: paced_def retry_def Let_def next_delay_def backoff_reset_def INITIAL_RECONNECT_DELAY_def
    MAX_RECONNECT_DELAY_def)

lemma session_step_paced:
  assumes "session_step env program s s'" "paced s"
  shows "paced s'"
  using assms
proof (cases rule: session_step.cases)
  case (start_lives outcome ix b)
  then show ?thesis
    by (simp add: paced_def backoff_new_def INITIAL_RECONNECT_DELAY_def MAX_RECONNECT_DELAY_def) auto
next
  case (becomes_ready u t)
  then show ?thesis using on_ready_fields [OF becomes_ready(3)] assms(2) by (simp add: paced_def)
next
  case (ready_fails e t)
  then show ?thesis using on_ready_fields [OF ready_fails(3)] assms(2)
    unfolding ready_fails(1) by (intro retry_paced) (simp_all add: paced_def)
next
  case (notified n u)
  then show ?thesis using on_notification_fields [OF notified(2)] assms(2) by (simp add: paced_def)
next
  case (notification_fails n e t)
  then show ?thesis using on_notification_fields [OF notification_fails(3)] assms(2)
    unfolding notification_fails(1) by (intro retry_paced) (simp_all add: paced_def)
next
  case connection_fails
  then show ?thesis using retry_paced [OF assms(2)] by simp
next
  case stream_closes
  then show ?thesis using retry_paced [OF assms(2)] by simp
qed (use assms(2) in \<open>auto simp: paced_def\<close>)

section \<open>Properties\<close>

text \<open>C38: The loop of \<open>main.rs\<close> implements the service. Every sequence of its phases (subscribing, becoming
  ready, notifications of any content, failures, lost connections, delays, shutdown and restart) is a run
  of the abstract service, whose stored history has no gap; and one pass of the loop over any
  notifications, \<open>run_log_subscription\<close> with its callbacks, is such a sequence.\<close>

theorem main_loop_refines_service:
  "((session_step env program)\<^sup>*\<^sup>* s s' \<longrightarrow> service_run env program (service_view s) (service_view s')) \<and>
   (ses_phase s = Subscribing \<longrightarrow> (session_step env program)\<^sup>*\<^sup>* s (loop_pass env program connects notifications s))"
  using session_run_refines loop_pass_steps by blast

text \<open>C39: Ready means caught up. Whenever the readiness route answers 200, the database answered, and every
  successful transaction that was finalized when the current subscription began to recover is stored; only steps
  of that subscription, or of the wait after it, lie in between.\<close>

theorem ready_means_caught_up:
  assumes "lawful_env env hist" "unstarted env program s0" "(session_step env program)\<^sup>*\<^sup>* s0 s"
    "fst (readiness database_reachable (ses_health s)) = 200"
  shows "database_reachable \<and>
    (\<exists>s1. (session_step env program)\<^sup>*\<^sup>* s0 s1 \<and> ses_phase s1 = Subscribing \<and>
      (connected_step env program)\<^sup>*\<^sup>* s1 s \<and>
      sigs (hist (ix_clock (ses_indexer s1))) \<subseteq> persisted (ses_indexer s))"
proof -
  from assms(4) have up: "caught_up (ses_health s)" "database_reachable"
    by (auto simp: readiness_def Let_def split: if_splits)
  with ready_since [OF assms(1-3)] show ?thesis
    unfolding since_ready_def using indexed_covers [OF assms(1)] by blast
qed

text \<open>C40: Reconnects are paced. In every state the process can reach, the delay before the next
  connection is 1, 2, 4, 8, 16 or 30 seconds, the delay after it will be the double up to 30, and after a
  subscription that recovered on a notification it is one second again.\<close>

theorem reconnects_are_paced:
  assumes "ses_phase s0 = Off" "(session_step env program)\<^sup>*\<^sup>* s0 s" "ses_phase s = Retrying delay"
  shows "delay \<in> {1000, 2000, 4000, 8000, 16000, 30000} \<and>
    rb_next (ses_backoff s) = min (2 * delay) MAX_RECONNECT_DELAY \<and>
    (ses_observed_wakeup s \<longrightarrow> delay = INITIAL_RECONNECT_DELAY)"
proof -
  from assms(2) have "paced s"
  proof (induction rule: rtranclp_induct)
    case base
    with assms(1) show ?case by (simp add: paced_def)
  next
    case (step t u)
    then show ?case using session_step_paced by blast
  qed
  with assms(3) show ?thesis by (simp add: paced_def)
qed

end
