(* ===== verification/Service_Demo.thy ===== *)
theory Service_Demo
  imports Indexer_Service Indexer_Demo
begin

text \<open>
  A run of the service: the first bootstrap loses the acknowledgement of its first commit and ends,
  the second one completes and goes live, the chain grows, and a recovery picks up what is new. The
  environment satisfies the law of the history.
\<close>

section \<open>The environment\<close>

text \<open>Signatures as their bits.\<close>

definition example_sig :: "signature \<Rightarrow> string" where
  "example_sig c = map (\<lambda>i. if bit c i then CHR ''2'' else CHR ''1'') [0..<512]"

definition example_codec :: text_codec where
  "example_codec = \<lparr>sig_text = example_sig,
     sig_parse = (\<lambda>s. Some (horner_sum of_bool 2 (map (\<lambda>x. x = CHR ''2'') s)))\<rparr>"

lemma example_codec_parse [simp]: "sig_parse example_codec (sig_text example_codec c) = Some c"
proof -
  have "map (\<lambda>x. x = CHR ''2'') (example_sig c) = map (bit c) [0..<512]" by (simp add: example_sig_def comp_def)
  moreover have "horner_sum of_bool 2 (map (bit c) [0..<512]) = c"
    by (simp only: horner_sum_bit_eq_take_bit) (simp add: take_bit_word_eq_self)
  ultimately show ?thesis by (simp add: example_codec_def)
qed

lemma example_codec_inj [simp]: "sig_text example_codec c = sig_text example_codec d \<longleftrightarrow> c = d"
  by (metis example_codec_parse option.inject)

definition entry :: "signature \<Rightarrow> u64 \<Rightarrow> bool \<Rightarrow> StatusEntry" where
  "entry c n failed = \<lparr>sta_signature = sig_text example_codec c, sta_slot = n, sta_failed = failed,
     sta_block_time = None, sta_transaction_index = None\<rparr>"

text \<open>A node that answers with the segment between the cursors.\<close>

definition before_part :: "signature option \<Rightarrow> StatusEntry list \<Rightarrow> StatusEntry list" where
  "before_part before h = (case before of None \<Rightarrow> h
     | Some c \<Rightarrow> takeWhile (\<lambda>e. sta_signature e \<noteq> sig_text example_codec c) h)"

definition until_part :: "signature option \<Rightarrow> StatusEntry list \<Rightarrow> StatusEntry list" where
  "until_part until h = (case until of None \<Rightarrow> h
     | Some c \<Rightarrow> tl (dropWhile (\<lambda>e. sta_signature e \<noteq> sig_text example_codec c) h))"

definition demo_hist :: "nat \<Rightarrow> StatusEntry list" where
  "demo_hist t = [entry 1 10 False, entry 2 11 True] @ (if t < 11 then [] else [entry 3 12 False])"

definition demo_env :: environment where
  "demo_env = \<lparr>env_signatures = (\<lambda>t before until limit.
       Some (take limit (rev (until_part until (before_part before (demo_hist t)))))),
     env_transaction = (\<lambda>t c. Some \<lparr>etx_slot = 10, etx_block_time = None,
       etx_meta = Some \<lparr>meta_failed = False, meta_log_messages = None\<rparr>\<rparr>),
     env_database = (\<lambda>t. if t = 3 then Unacknowledged else Acknowledged),
     env_text = example_codec, env_key_text = example_key, env_base64 = example_base64, env_borsh = example_borsh,
     env_collate = (\<lambda>a b. False)\<rparr>"

lemma before_part_segment:
  assumes "distinct (map sta_signature (es @ newer))" "starts_at example_codec newer before"
  shows "before_part before (es @ newer) = es"
proof (cases before)
  case None
  with assms(2) show ?thesis by (simp add: before_part_def starts_at_def)
next
  case (Some c)
  then obtain e rest where n: "newer = e # rest" "sta_signature e = sig_text example_codec c"
    using assms(2) by (cases newer) (auto simp: starts_at_def)
  have "sig_text example_codec c \<notin> sta_signature ` set es" using assms(1) n by auto
  then have "\<forall>x\<in>set es. sta_signature x \<noteq> sig_text example_codec c" by (metis imageI)
  then show ?thesis using Some n by (simp add: before_part_def takeWhile_append2)
qed

lemma until_part_segment:
  assumes "distinct (map sta_signature (older @ seg))" "ends_at example_codec older until"
  shows "until_part until (older @ seg) = seg"
proof (cases until)
  case None
  with assms(2) show ?thesis by (simp add: until_part_def ends_at_def)
next
  case (Some c)
  then obtain es e where o: "older = es @ [e]" "sta_signature e = sig_text example_codec c"
    using assms(2) by (cases older rule: rev_cases) (auto simp: ends_at_def)
  have "sig_text example_codec c \<notin> sta_signature ` set es" using assms(1) o by auto
  then have "\<forall>x\<in>set es. sta_signature x \<noteq> sig_text example_codec c" by (metis imageI)
  then show ?thesis using Some o by (simp add: until_part_def dropWhile_append2)
qed

lemma demo_lawful: "lawful_env demo_env demo_hist"
proof -
  have dist: "distinct (map sta_signature (demo_hist t))" for t by (simp add: demo_hist_def entry_def)
  have "es = take limit (rev seg)"
    if "env_signatures demo_env t before until limit = Some es" "demo_hist t = older @ seg @ newer"
      "ends_at example_codec older until" "starts_at example_codec newer before"
    for t before until limit es older seg newer
  proof -
    have "distinct (map sta_signature ((older @ seg) @ newer))" "distinct (map sta_signature (older @ seg))"
      using dist [of t] that(2) by (auto simp: disjoint_iff)
    from before_part_segment [OF this(1) that(4)] until_part_segment [OF this(2) that(3)] that(1,2)
    show ?thesis by (simp add: demo_env_def)
  qed
  moreover have "\<exists>new. demo_hist (Suc t) = demo_hist t @ new" for t by (simp add: demo_hist_def)
  moreover have "\<exists>c. sta_signature e = sig_text example_codec c" if "e \<in> set (demo_hist t)" for e t
    using that by (auto simp: demo_hist_def entry_def split: if_splits)
  ultimately show ?thesis
    using dist by (simp add: lawful_env_def history_law_def text_law_def demo_env_def)
qed

section \<open>The run\<close>

definition stored_row :: transaction_row where
  "stored_row = \<lparr>tr_slot = 10, tr_transaction_index = None, tr_block_time = None, tr_raw_logs = [], tr_schema = 1\<rparr>"

definition demo_db :: "nat \<Rightarrow> database" where
  "demo_db n = \<lparr>db_transactions = map (\<lambda>c. (sig_text example_codec c, stored_row)) (take n [1, 3]),
     db_events = Map.empty, db_backfill = Map.empty, db_live = Map.empty\<rparr>"

definition demo_start :: indexer where "demo_start = \<lparr>ix_clock = 0, ix_db = demo_db 0\<rparr>"
definition demo_interrupted :: indexer where "demo_interrupted = \<lparr>ix_clock = 4, ix_db = demo_db 1\<rparr>"

definition demo_live :: indexer where
  "demo_live = \<lparr>ix_clock = 11, ix_db = (demo_db 1)
     \<lparr>db_backfill := [example_key 7 \<mapsto> (Some (sig_text example_codec 1), True)]\<rparr>\<rparr>"

text \<open>The environment and the effects on literal states.\<close>

lemma demo_env_simps [simp]:
  "env_text demo_env = example_codec" "env_key_text demo_env = example_key" "env_collate demo_env = (\<lambda>a b. False)"
  "env_database demo_env t = (if t = 3 then Unacknowledged else Acknowledged)"
  "env_signatures demo_env t before until limit =
     Some (take limit (rev (until_part until (before_part before (demo_hist t)))))"
  "env_transaction demo_env t c = Some \<lparr>etx_slot = 10, etx_block_time = None,
     etx_meta = Some \<lparr>meta_failed = False, meta_log_messages = None\<rparr>\<rparr>"
  by (simp_all add: demo_env_def)

lemma tick_literal [simp]: "tick \<lparr>ix_clock = t, ix_db = db\<rparr> = \<lparr>ix_clock = t + 1, ix_db = db\<rparr>"
  by (simp add: tick_def)

definition page :: "signature list \<Rightarrow> signature option \<Rightarrow> SignaturePage" where
  "page cs next = \<lparr>pg_records = map (\<lambda>c. signature_record (entry c (9 + ucast c) False)) cs, pg_next_before = next\<rparr>"

lemmas page_defs = fetch_signature_page_with_bounds_def and_then_def rpc_call_def build_signature_page_def
  until_part_def before_part_def demo_hist_def entry_def signature_record_def successful_def transpose_opt_def page_def

lemma demo_fetch:
  "t < 11 \<Longrightarrow> fetch_signature_page_with_bounds demo_env None None 20 \<lparr>ix_clock = t, ix_db = db\<rparr> =
     (Inr (page [1] (Some 1)), \<lparr>ix_clock = t + 1, ix_db = db\<rparr>)"
  "fetch_signature_page_with_bounds demo_env (Some 1) None 20 \<lparr>ix_clock = t, ix_db = db\<rparr> =
     (Inr (page [] None), \<lparr>ix_clock = t + 1, ix_db = db\<rparr>)"
  "\<not> t < 11 \<Longrightarrow> fetch_signature_page_with_bounds demo_env None (Some 1) 20 \<lparr>ix_clock = t, ix_db = db\<rparr> =
     (Inr (page [3] (Some 2)), \<lparr>ix_clock = t + 1, ix_db = db\<rparr>)"
  "fetch_signature_page_with_bounds demo_env (Some 2) (Some 1) 20 \<lparr>ix_clock = t, ix_db = db\<rparr> =
     (Inr (page [] None), \<lparr>ix_clock = t + 1, ix_db = db\<rparr>)"
  by (simp_all add: page_defs)

lemma demo_process:
  "process_signature demo_env 7 (signature_record (entry c n False)) \<lparr>ix_clock = t, ix_db = db\<rparr> =
     (case upsert_transaction \<lparr>ti_signature = sig_text example_codec c, ti_slot = 10, ti_transaction_index = None,
        ti_block_time = None, ti_raw_logs = []\<rparr> db of
        None \<Rightarrow> (Inl (StorageFailed (TransactionConflict (sig_text example_codec c))), \<lparr>ix_clock = t + 2, ix_db = db\<rparr>)
      | Some db' \<Rightarrow> (if t + 1 = 3 then Inl DatabaseFailed else Inr (), \<lparr>ix_clock = t + 2, ix_db = db'\<rparr>))"
  by (simp add: process_signature_def fetch_transaction_def and_then_def rpc_call_def signature_record_def entry_def
      done_with_def normalize_logs_def extract_program_data_def db_write_def persist_transaction_def
      transaction_insert_def i64_try_from_def split: option.split)

lemma demo_upsert:
  "upsert_transaction \<lparr>ti_signature = sig_text example_codec c, ti_slot = 10, ti_transaction_index = None,
        ti_block_time = None, ti_raw_logs = []\<rparr> db =
     (case map_of (db_transactions db) (sig_text example_codec c) of
        None \<Rightarrow> Some (db\<lparr>db_transactions := db_transactions db @ [(sig_text example_codec c, stored_row)]\<rparr>)
      | Some r \<Rightarrow> if r = stored_row then Some db else None)"
  by (simp add: upsert_transaction_def stored_row_def SOURCE_SCHEMA_VERSION_def Let_def split: option.split)

text \<open>Evaluation one effect at a time: what follows an effect waits for its result.\<close>

lemma and_then_apply:
  "and_then m f s = (case m s of (r, s') \<Rightarrow> (case r of Inl e \<Rightarrow> (Inl e, s') | Inr x \<Rightarrow> f x s'))"
  by (simp add: and_then_def split: prod.split sum.split)

lemma and_then_weak: "m = m' \<Longrightarrow> and_then m f = and_then m' f"
  by simp

lemma run_pages_numeral:
  "run_pages (numeral k) b l f p sv =
     and_then (f b l) (\<lambda>page. and_then (process_page p (pg_records page)) (\<lambda>_.
       and_then (sv (if pg_next_before page = None then b else pg_next_before page) (pg_next_before page = None)) (\<lambda>_.
         if pg_next_before page = None then done_with Completed
         else run_pages (pred_numeral k) (pg_next_before page) l f p sv)))"
  by (simp add: numeral_eq_Suc Let_def)

lemmas run_defs = run_backfill_def backfill_config_def SIGNATURE_PAGE_LIMIT_def MAX_PAGES_PER_RUN_def
  fetch_signature_page_def load_backfill_checkpoint_def save_backfill_checkpoint_def transpose_opt_def
  and_then_apply db_query_def db_write_def done_with_def page_def demo_db_def demo_fetch demo_process demo_upsert
  run_pages_numeral

lemma first_run: "run_backfill demo_env 7 backfill_config demo_start = (Inl DatabaseFailed, demo_interrupted)"
  by (simp add: run_defs demo_start_def demo_interrupted_def cong: and_then_weak)

lemma second_run: "run_backfill demo_env 7 backfill_config demo_interrupted = (Inr Completed, demo_live)"
  by (simp add: run_defs demo_live_def demo_interrupted_def cong: and_then_weak)

definition demo_caught :: indexer where
  "demo_caught = \<lparr>ix_clock = 19, ix_db = (demo_db 2)
     \<lparr>db_backfill := [example_key 7 \<mapsto> (Some (sig_text example_codec 1), True)],
      db_live := [example_key 7 \<mapsto>
        \<lparr>lcr_signature = sig_text example_codec 3, lcr_slot = 12, lcr_transaction_index = None\<rparr>]\<rparr>\<rparr>"

lemma collect_pages_numeral:
  "collect_pages (numeral k) b ps l f = and_then (f b l) (\<lambda>page.
     if pg_next_before page = None then done_with (GapCaughtUp (concat (rev (ps @ [pg_records page]))))
     else if pg_next_before page = b then fail_with CursorDidNotAdvance
     else collect_pages (pred_numeral k) (pg_next_before page) (ps @ [pg_records page]) l f)"
  by (simp add: numeral_eq_Suc Let_def)

lemma record_simps [simp]:
  "sr_signature (signature_record (entry c n f)) = sig_text example_codec c"
  "sr_slot (signature_record (entry c n f)) = n" "sr_transaction_index (signature_record (entry c n f)) = None"
  by (simp_all add: signature_record_def entry_def)

lemma demo_load: "load_or_initialize_live_checkpoint demo_env 7 demo_live =
    (Inr (Some \<lparr>lc_signature = 1, lc_slot = 10, lc_transaction_index = None\<rparr>),
     \<lparr>ix_clock = 14, ix_db = (ix_db demo_live)\<lparr>db_live := [example_key 7 \<mapsto>
        \<lparr>lcr_signature = sig_text example_codec 1, lcr_slot = 10, lcr_transaction_index = None\<rparr>]\<rparr>\<rparr>)"
  by (simp add: load_or_initialize_live_checkpoint_def load_live_checkpoint_def load_latest_source_position_def
      try_from_row_def live_checkpoint_try_from_def source_row_def stored_row_def save_live_def save_live_checkpoint_def
      u64_of_def i64_try_from_def Let_def demo_live_def demo_db_def and_then_apply db_query_def db_write_def done_with_def
      cong: and_then_weak)

lemma recovery: "recover_live_gap demo_env 7 live_config demo_live = (Inr (CaughtUp 1), demo_caught)"
  unfolding recover_live_gap_def and_then_apply demo_load prod.case sum.case
  by (simp add: and_then_apply run_live_catchup_def live_config_def SIGNATURE_PAGE_LIMIT_def MAX_PAGES_PER_RUN_def
      collect_gap_pages_def collect_pages_numeral fetch_live_signature_page_def demo_fetch page_def done_with_def
      process_gap_records_def demo_live_def
      demo_db_def demo_process demo_upsert save_live_def save_live_checkpoint_def live_checkpoint_try_from_def
      decide_update_def u64_of_def i64_try_from_def db_write_def Let_def demo_caught_def cong: and_then_weak)

section \<open>Witnesses\<close>

lemma demo_fresh: "fresh demo_env 7 demo_start"
  by (simp add: fresh_def demo_start_def demo_db_def)

lemma demo_service_live: "service_run demo_env 7 (Stopped, demo_start) (Live, demo_live)"
proof (rule run_step [OF run_step [OF run_refl]])
  show "service_step demo_env 7 (Stopped, demo_start) (Stopped, demo_interrupted)"
    by (rule backfill_ends [OF first_run]) simp_all
  show "service_step demo_env 7 (Stopped, demo_interrupted) (Live, demo_live)"
    by (rule goes_live [OF second_run]) simp
qed

lemma demo_service_caught: "service_run demo_env 7 (Stopped, demo_start) (Live, demo_caught)"
  by (rule run_step [OF demo_service_live], rule recovers [where x = "Inr ()"])
    (simp add: recover_and_report_def and_then_apply recovery done_with_def)

theorem stored_history_has_no_gap_witness:
  "snd (backfill_cursor demo_env 7 demo_caught) \<and> sigs (demo_hist (ix_clock demo_start)) \<subseteq> persisted demo_caught \<and>
   (\<exists>m. persisted demo_caught = sigs (take m (demo_hist (ix_clock demo_caught))))"
proof -
  have over: "snd (backfill_cursor demo_env 7 demo_caught)"
    by (simp add: backfill_cursor_def demo_caught_def)
  with stored_history_has_no_gap [OF demo_lawful demo_fresh demo_service_caught] show ?thesis by blast
qed

theorem recovery_is_complete_or_nothing_witness:
  "sigs (demo_hist (ix_clock demo_live)) \<subseteq> persisted demo_caught \<and>
   sigs (demo_hist (ix_clock demo_live)) = {sig_text example_codec 1, sig_text example_codec 3}"
proof
  show "sigs (demo_hist (ix_clock demo_live)) \<subseteq> persisted demo_caught"
    using recovery_is_complete_or_nothing [OF demo_lawful demo_fresh demo_service_live recovery] by blast
  show "sigs (demo_hist (ix_clock demo_live)) = {sig_text example_codec 1, sig_text example_codec 3}"
    by (simp add: demo_hist_def demo_live_def entry_def sigs_def successful_def)
qed

end
