(* ===== verification/Session_Demo.thy ===== *)
theory Session_Demo
  imports Indexer_Session Service_Demo
begin

text \<open>
  The run of \<open>Service_Demo\<close> as the process sees it: two starts, a subscription whose recovery succeeds,
  a lost connection and the delay that follows, in which the readiness route still answers 200.
\<close>

definition session_at :: "phase \<Rightarrow> bool \<Rightarrow> nat \<Rightarrow> indexer \<Rightarrow> session" where
  "session_at p ready next ix =
     \<lparr>ses_phase = p, ses_health = \<lparr>caught_up = ready\<rparr>, ses_observed_wakeup = False,
      ses_backoff = \<lparr>rb_initial = 1000, rb_maximum = 30000, rb_next = next\<rparr>, ses_indexer = ix\<rparr>"

lemma demo_unstarted: "unstarted demo_env 7 (session_at Off False 1000 demo_start)"
  by (simp add: unstarted_def session_at_def demo_fresh)

lemma demo_recovers: "recover_and_report demo_env 7 live_config demo_live = (Inr (), demo_caught)"
  by (simp add: recover_and_report_def and_then_apply recovery done_with_def)

lemma demo_subscribing:
  "(session_step demo_env 7)\<^sup>*\<^sup>* (session_at Off False 1000 demo_start) (session_at Subscribing False 1000 demo_live)"
proof (intro rtranclp.rtrancl_into_rtrancl [OF rtranclp.rtrancl_into_rtrancl [OF rtranclp.rtrancl_refl]])
  show "session_step demo_env 7 (session_at Off False 1000 demo_start) (session_at Off False 1000 demo_interrupted)"
    using session_step.start_ends [of "session_at Off False 1000 demo_start" demo_env 7, OF _ _ ] first_run
    by (simp add: session_at_def)
  show "session_step demo_env 7 (session_at Off False 1000 demo_interrupted) (session_at Subscribing False 1000 demo_live)"
    using session_step.start_lives [of "session_at Off False 1000 demo_interrupted" demo_env 7 Completed demo_live
      "\<lparr>rb_initial = 1000, rb_maximum = 30000, rb_next = 1000\<rparr>"] second_run
    by (simp add: session_at_def loop_head_def mark_not_ready_def backoff_new_def INITIAL_RECONNECT_DELAY_def
      MAX_RECONNECT_DELAY_def)
qed

lemma demo_listening:
  "session_step demo_env 7 (session_at Subscribing False 1000 demo_live) (session_at Listening True 1000 demo_caught)"
  using session_step.becomes_ready [of "session_at Subscribing False 1000 demo_live" demo_env 7 "()"
    "session_at Subscribing True 1000 demo_caught"]
  by (simp add: session_at_def on_ready_def demo_recovers mark_ready_def)

lemma demo_retrying:
  "session_step demo_env 7 (session_at Listening True 1000 demo_caught) (session_at (Retrying 1000) True 2000 demo_caught)"
  using session_step.stream_closes [of "session_at Listening True 1000 demo_caught" demo_env 7]
  by (simp add: session_at_def retry_def next_delay_def)

lemma demo_session:
  "(session_step demo_env 7)\<^sup>*\<^sup>* (session_at Off False 1000 demo_start) (session_at (Retrying 1000) True 2000 demo_caught)"
  using demo_subscribing demo_listening demo_retrying by (meson rtranclp.rtrancl_into_rtrancl)

section \<open>Witnesses\<close>

theorem main_loop_refines_service_witness:
  "service_run demo_env 7 (Stopped, demo_start) (Live, demo_caught)"
  using main_loop_refines_service [of demo_env 7 "session_at Off False 1000 demo_start"
      "session_at (Retrying 1000) True 2000 demo_caught"] demo_session
  by (simp add: service_view_def session_at_def)

theorem ready_means_caught_up_witness:
  "\<exists>s1. (connected_step demo_env 7)\<^sup>*\<^sup>* s1 (session_at (Retrying 1000) True 2000 demo_caught) \<and>
     ses_phase s1 = Subscribing \<and> sigs (demo_hist (ix_clock (ses_indexer s1))) \<subseteq> persisted demo_caught"
proof -
  have "fst (readiness True (ses_health (session_at (Retrying 1000) True 2000 demo_caught))) = 200"
    by (simp add: readiness_def session_at_def)
  from ready_means_caught_up [OF demo_lawful demo_unstarted demo_session this] show ?thesis
    by (auto simp: session_at_def)
qed

theorem reconnects_are_paced_witness:
  "rb_next (ses_backoff (session_at (Retrying 1000) True 2000 demo_caught)) = min (2 * 1000) MAX_RECONNECT_DELAY"
  using reconnects_are_paced [OF _ demo_session, of 1000] by (simp add: session_at_def)

end
