(* ===== verification/Program_Emit.thy ===== *)
theory Program_Emit
  imports Program Program_Events
begin

text \<open>
  What the handlers emit: the \<open>emit!\<close> statement of every instruction that has one, with its values
  computed from the accounts and arguments the way the handler computes its local variables. An
  instruction of the shared wallet or of a prediction question emits nothing.
\<close>

section \<open>Orders and fills\<close>

definition emit_insert_limit_order ::
  "spot_store \<Rightarrow> InsertLimitOrderKeys \<Rightarrow> OrderSide \<Rightarrow> u64 \<Rightarrow> u64 \<Rightarrow> ProgramEvent res" where
  "emit_insert_limit_order st ks side price quantity =
     load (ss_markets st) (ilk_market ks) (\<lambda>market.
     let order_id = mkt_next_order_id (inner market) in
     try_in (required_collateral side price quantity (mkt_base_decimals (inner market))) (\<lambda>locked_collateral.
     Inr (EmitOrderPlaced
       \<lparr>on_order_placed_market = key market, on_order_placed_order = ilk_order ks,
        on_order_placed_order_id = order_id, on_order_placed_owner = ilk_trader ks,
        on_order_placed_side = side, on_order_placed_price = price, on_order_placed_quantity = quantity,
        on_order_placed_locked_collateral = locked_collateral,
        on_order_placed_price_level = ilk_price_level ks\<rparr>)))"

definition emit_append_limit_order ::
  "spot_store \<Rightarrow> AppendLimitOrderKeys \<Rightarrow> OrderSide \<Rightarrow> u64 \<Rightarrow> u64 \<Rightarrow> ProgramEvent res" where
  "emit_append_limit_order st ks side price quantity =
     load (ss_markets st) (alk_market ks) (\<lambda>market.
     let order_id = mkt_next_order_id (inner market) in
     try_in (required_collateral side price quantity (mkt_base_decimals (inner market))) (\<lambda>locked_collateral.
     Inr (EmitOrderPlaced
       \<lparr>on_order_placed_market = key market, on_order_placed_order = alk_order ks,
        on_order_placed_order_id = order_id, on_order_placed_owner = alk_trader ks,
        on_order_placed_side = side, on_order_placed_price = price, on_order_placed_quantity = quantity,
        on_order_placed_locked_collateral = locked_collateral,
        on_order_placed_price_level = alk_price_level ks\<rparr>)))"

definition emit_cancel_limit_order :: "spot_store \<Rightarrow> CancelLimitOrderKeys \<Rightarrow> ProgramEvent res" where
  "emit_cancel_limit_order st ks =
     load (ss_orders st) (clk_order ks) (\<lambda>order.
     load (ss_levels st) (clk_price_level ks) (\<lambda>price_level.
     ok_or (checked_sub (lvl_order_count (inner price_level)) 1) PriceLevelOrderCountUnderflow
       (\<lambda>next_level_order_count.
     let removes_price_level = (next_level_order_count = 0) in
     Inr (EmitOrderCanceled
       \<lparr>on_order_canceled_market = clk_market ks, on_order_canceled_order = key order,
        on_order_canceled_order_id = ord_order_id (inner order), on_order_canceled_owner = ord_owner (inner order),
        on_order_canceled_side = ord_side (inner order), on_order_canceled_price = ord_price (inner order),
        on_order_canceled_canceled_quantity = ord_remaining_quantity (inner order),
        on_order_canceled_released_collateral = ord_locked_collateral (inner order),
        on_order_canceled_price_level = key price_level,
        on_order_canceled_price_level_closed = removes_price_level\<rparr>))))"

definition emit_match_limit_order ::
  "spot_store \<Rightarrow> MatchLimitOrderKeys \<Rightarrow> OrderSide \<Rightarrow> u64 \<Rightarrow> u64 \<Rightarrow> ProgramEvent res" where
  "emit_match_limit_order st ks taker_side limit_price quantity =
     load (ss_markets st) (mlk_market ks) (\<lambda>market.
     load (ss_configs st) (mlk_protocol_config ks) (\<lambda>protocol_config.
     load (ss_orders st) (mlk_maker_order ks) (\<lambda>maker_order.
     let maker = inner maker_order in
     try_in (calculate_settlement taker_side limit_price quantity (ord_side maker) (ord_price maker)
        (ord_remaining_quantity maker) (ord_locked_collateral maker) (mkt_base_decimals (inner market))) (\<lambda>plan.
     try_in (calculate_taker_fee (quote_quantity (fill plan)) (cfg_taker_fee_bps (inner protocol_config)))
       (\<lambda>taker_fee_quote.
     ok_or (checked_sub quantity (base_quantity (fill plan))) InvalidQuantity (\<lambda>taker_remaining_quantity.
     ok_or (checked_sub (ord_remaining_quantity maker) (base_quantity (fill plan))) PriceLevelQuantityUnderflow
       (\<lambda>next_order_remaining.
     Inr (EmitFill
       \<lparr>on_fill_market = key market, on_fill_maker_order = key maker_order,
        on_fill_maker_order_id = ord_order_id maker, on_fill_maker = ord_owner maker,
        on_fill_taker = mlk_taker ks, on_fill_maker_side = ord_side maker,
        on_fill_execution_price = execution_price (fill plan), on_fill_base_quantity = base_quantity (fill plan),
        on_fill_quote_quantity = quote_quantity (fill plan), on_fill_taker_fee_quote = taker_fee_quote,
        on_fill_maker_remaining_quantity = next_order_remaining,
        on_fill_taker_remaining_quantity = taker_remaining_quantity\<rparr>))))))))"

section \<open>Ledgers and fees\<close>

definition emit_initialize_trader_balance :: "InitializeTraderBalance \<Rightarrow> ProgramEvent res" where
  "emit_initialize_trader_balance ks =
     Inr (EmitTraderBalanceInitialized
       \<lparr>on_trader_balance_initialized_market = itb_market ks, on_trader_balance_initialized_owner = itb_owner ks,
        on_trader_balance_initialized_trader_balance = itb_trader_balance ks\<rparr>)"

definition emit_deposit :: "world \<Rightarrow> Deposit \<Rightarrow> u64 \<Rightarrow> ProgramEvent res" where
  "emit_deposit w ks amount =
     load (ss_markets (w_spot w)) (dep_market ks) (\<lambda>market.
     load (ss_balances (w_spot w)) (dep_trader_balance ks) (\<lambda>trader_balance.
     let mint = dep_deposit_mint ks in
     try_in (credit_free (inner market) mint (inner trader_balance) amount) (\<lambda>next_free_balance.
     Inr (EmitDeposit
       \<lparr>on_deposit_market = key market, on_deposit_owner = dep_owner ks,
        on_deposit_trader_balance = key trader_balance, on_deposit_mint = mint,
        on_deposit_market_vault = dep_market_vault ks, on_deposit_amount = amount,
        on_deposit_free_balance = next_free_balance\<rparr>))))"

definition emit_withdraw :: "world \<Rightarrow> Withdraw \<Rightarrow> u64 \<Rightarrow> ProgramEvent res" where
  "emit_withdraw w ks amount =
     load (ss_markets (w_spot w)) (wd_market ks) (\<lambda>market.
     load (ss_balances (w_spot w)) (wd_trader_balance ks) (\<lambda>trader_balance.
     let mint = wd_withdrawal_mint ks in
     try_in (debit_free (inner market) mint (inner trader_balance) amount) (\<lambda>next_free_balance.
     Inr (EmitWithdrawal
       \<lparr>on_withdrawal_market = key market, on_withdrawal_owner = wd_owner ks,
        on_withdrawal_trader_balance = key trader_balance, on_withdrawal_mint = mint,
        on_withdrawal_market_vault = wd_market_vault ks, on_withdrawal_amount = amount,
        on_withdrawal_free_balance = next_free_balance\<rparr>))))"

definition emit_withdraw_protocol_fees :: "world \<Rightarrow> WithdrawProtocolFees \<Rightarrow> u64 \<Rightarrow> ProgramEvent res" where
  "emit_withdraw_protocol_fees w ks amount =
     load (ss_fees (w_spot w)) (wpf_market_fees ks) (\<lambda>market_fees.
     ok_or (checked_sub (mf_accrued_quote_fees (inner market_fees)) amount) InsufficientAccruedFees
       (\<lambda>next_accrued_quote_fees.
     Inr (EmitProtocolFeesWithdrawn
       \<lparr>on_protocol_fees_withdrawn_market = wpf_market ks,
        on_protocol_fees_withdrawn_market_fees = key market_fees,
        on_protocol_fees_withdrawn_super_admin = wpf_super_admin ks,
        on_protocol_fees_withdrawn_quote_mint = wpf_quote_mint ks,
        on_protocol_fees_withdrawn_quote_vault = wpf_quote_vault ks,
        on_protocol_fees_withdrawn_destination_quote_account = wpf_destination_quote_account ks,
        on_protocol_fees_withdrawn_amount = amount,
        on_protocol_fees_withdrawn_remaining_accrued_quote_fees = next_accrued_quote_fees\<rparr>)))"

section \<open>Markets and their labels\<close>

definition emit_initialize_market :: "InitializeMarket \<Rightarrow> u64 \<Rightarrow> u64 \<Rightarrow> ProgramEvent res" where
  "emit_initialize_market ks price_tick_size quantity_lot_size =
     Inr (EmitMarketInitialized
       \<lparr>on_market_initialized_market = im_market ks, on_market_initialized_market_fees = im_market_fees ks,
        on_market_initialized_authority = im_authority ks, on_market_initialized_base_mint = im_base_mint ks,
        on_market_initialized_quote_mint = im_quote_mint ks, on_market_initialized_base_vault = im_base_vault ks,
        on_market_initialized_quote_vault = im_quote_vault ks,
        on_market_initialized_price_tick_size = price_tick_size,
        on_market_initialized_quantity_lot_size = quantity_lot_size\<rparr>)"

definition emit_pause_market :: "MarketAuthority \<Rightarrow> ProgramEvent res" where
  "emit_pause_market ks =
     Inr (EmitMarketStatusChanged
       \<lparr>on_market_status_changed_market = mau_market ks, on_market_status_changed_authority = mau_authority ks,
        on_market_status_changed_status = MarketPausedStatus\<rparr>)"

definition emit_unpause_market :: "MarketAuthority \<Rightarrow> ProgramEvent res" where
  "emit_unpause_market ks =
     Inr (EmitMarketStatusChanged
       \<lparr>on_market_status_changed_market = mau_market ks, on_market_status_changed_authority = mau_authority ks,
        on_market_status_changed_status = MarketActive\<rparr>)"

definition emit_close_market :: "world \<Rightarrow> CloseMarket \<Rightarrow> ProgramEvent res" where
  "emit_close_market w ks =
     load (ss_markets (w_spot w)) (cm_market ks) (\<lambda>market.
     Inr (EmitMarketClosed
       \<lparr>on_market_closed_market = key market, on_market_closed_market_fees = cm_market_fees ks,
        on_market_closed_authority = cm_authority ks,
        on_market_closed_base_mint = mkt_base_mint (inner market),
        on_market_closed_quote_mint = mkt_quote_mint (inner market),
        on_market_closed_base_vault = cm_base_vault ks, on_market_closed_quote_vault = cm_quote_vault ks\<rparr>))"

definition emit_initialize_market_metadata ::
  "InitializeMarketMetadata \<Rightarrow> bytes \<Rightarrow> bytes \<Rightarrow> bytes \<Rightarrow> MarketKind \<Rightarrow> ProgramEvent res" where
  "emit_initialize_market_metadata ks base_symbol quote_symbol display_name kind =
     Inr (EmitMarketMetadataInitialized
       \<lparr>on_market_metadata_initialized_metadata = imm_market_metadata ks,
        on_market_metadata_initialized_market = imm_market ks,
        on_market_metadata_initialized_authority = imm_authority ks,
        on_market_metadata_initialized_base_symbol = base_symbol,
        on_market_metadata_initialized_quote_symbol = quote_symbol,
        on_market_metadata_initialized_display_name = display_name,
        on_market_metadata_initialized_kind = kind\<rparr>)"

definition emit_update_market_metadata ::
  "world \<Rightarrow> UpdateMarketMetadata \<Rightarrow> bytes \<Rightarrow> bytes \<Rightarrow> bytes \<Rightarrow> ProgramEvent res" where
  "emit_update_market_metadata w ks base_symbol quote_symbol display_name =
     load (w_metadata w) (umm_market_metadata ks) (\<lambda>market_metadata.
     Inr (EmitMarketMetadataUpdated
       \<lparr>on_market_metadata_updated_metadata = key market_metadata,
        on_market_metadata_updated_market = md_market (inner market_metadata),
        on_market_metadata_updated_authority = umm_authority ks,
        on_market_metadata_updated_base_symbol = base_symbol,
        on_market_metadata_updated_quote_symbol = quote_symbol,
        on_market_metadata_updated_display_name = display_name\<rparr>))"

definition emit_close_market_metadata :: "world \<Rightarrow> CloseMarketMetadata \<Rightarrow> ProgramEvent res" where
  "emit_close_market_metadata w ks =
     load (w_metadata w) (cmm_market_metadata ks) (\<lambda>market_metadata.
     Inr (EmitMarketMetadataClosed
       \<lparr>on_market_metadata_closed_metadata = key market_metadata, on_market_metadata_closed_market = cmm_market ks,
        on_market_metadata_closed_authority = cmm_authority ks,
        on_market_metadata_closed_kind = md_kind (inner market_metadata)\<rparr>))"

section \<open>Governance\<close>

definition emit_initialize_protocol :: "InitializeProtocol \<Rightarrow> ProgramEvent res" where
  "emit_initialize_protocol ks =
     Inr (EmitProtocolInitialized
       \<lparr>on_protocol_initialized_protocol_config = ip_protocol_config ks,
        on_protocol_initialized_super_admin = ip_deployer ks,
        on_protocol_initialized_admin_record = ip_deployer_admin ks\<rparr>)"

definition emit_add_admin :: "AddAdmin \<Rightarrow> pubkey \<Rightarrow> ProgramEvent res" where
  "emit_add_admin ks new_admin =
     Inr (EmitAdminAdded
       \<lparr>on_admin_added_admin_record = aa_admin_record ks, on_admin_added_authority = new_admin,
        on_admin_added_added_by = aa_super_admin ks\<rparr>)"

definition emit_disable_admin :: "world \<Rightarrow> ManageAdmin \<Rightarrow> ProgramEvent res" where
  "emit_disable_admin w ks =
     load (w_admins w) (ma_admin_record ks) (\<lambda>admin_record.
     Inr (EmitAdminStatusChanged
       \<lparr>on_admin_status_changed_admin_record = key admin_record,
        on_admin_status_changed_authority = adm_authority (inner admin_record),
        on_admin_status_changed_changed_by = ma_super_admin ks,
        on_admin_status_changed_status = AdminDisabledStatus\<rparr>))"

definition emit_enable_admin :: "world \<Rightarrow> ManageAdmin \<Rightarrow> ProgramEvent res" where
  "emit_enable_admin w ks =
     load (w_admins w) (ma_admin_record ks) (\<lambda>admin_record.
     Inr (EmitAdminStatusChanged
       \<lparr>on_admin_status_changed_admin_record = key admin_record,
        on_admin_status_changed_authority = adm_authority (inner admin_record),
        on_admin_status_changed_changed_by = ma_super_admin ks,
        on_admin_status_changed_status = AdminActive\<rparr>))"

definition emit_remove_admin :: "world \<Rightarrow> ManageAdmin \<Rightarrow> ProgramEvent res" where
  "emit_remove_admin w ks =
     load (w_admins w) (ma_admin_record ks) (\<lambda>admin_record.
     Inr (EmitAdminRemoved
       \<lparr>on_admin_removed_admin_record = key admin_record,
        on_admin_removed_authority = adm_authority (inner admin_record),
        on_admin_removed_removed_by = ma_super_admin ks\<rparr>))"

definition emit_set_taker_fee :: "world \<Rightarrow> SetTakerFee \<Rightarrow> u16 \<Rightarrow> ProgramEvent res" where
  "emit_set_taker_fee w ks taker_fee_bps =
     load (ss_configs (w_spot w)) (sf_protocol_config ks) (\<lambda>protocol_config.
     Inr (EmitTakerFeeUpdated
       \<lparr>on_taker_fee_updated_protocol_config = key protocol_config,
        on_taker_fee_updated_super_admin = sf_super_admin ks,
        on_taker_fee_updated_previous_taker_fee_bps = cfg_taker_fee_bps (inner protocol_config),
        on_taker_fee_updated_new_taker_fee_bps = taker_fee_bps\<rparr>))"

section \<open>The test faucet\<close>

definition emit_initialize_test_faucet :: "InitializeTestFaucet \<Rightarrow> u64 \<Rightarrow> u64 \<Rightarrow> ProgramEvent res" where
  "emit_initialize_test_faucet ks base_claim_amount quote_claim_amount =
     Inr (EmitTestFaucetInitialized
       \<lparr>on_test_faucet_initialized_market = itf_market ks,
        on_test_faucet_initialized_test_faucet = itf_test_faucet ks,
        on_test_faucet_initialized_faucet_authority = itf_faucet_authority ks,
        on_test_faucet_initialized_base_mint = itf_base_mint ks,
        on_test_faucet_initialized_quote_mint = itf_quote_mint ks,
        on_test_faucet_initialized_base_claim_amount = base_claim_amount,
        on_test_faucet_initialized_quote_claim_amount = quote_claim_amount\<rparr>)"

definition emit_claim_test_tokens :: "world \<Rightarrow> ClaimTestTokens \<Rightarrow> ProgramEvent res" where
  "emit_claim_test_tokens w ks =
     load (w_faucets w) (ctt_test_faucet ks) (\<lambda>test_faucet.
     Inr (EmitTestFaucetClaimed
       \<lparr>on_test_faucet_claimed_market = ctt_market ks, on_test_faucet_claimed_test_faucet = key test_faucet,
        on_test_faucet_claimed_claimant = ctt_claimant ks,
        on_test_faucet_claimed_base_amount = tf_base_claim_amount (inner test_faucet),
        on_test_faucet_claimed_quote_amount = tf_quote_claim_amount (inner test_faucet)\<rparr>))"

definition emit_close_test_faucet :: "world \<Rightarrow> CloseTestFaucet \<Rightarrow> ProgramEvent res" where
  "emit_close_test_faucet w ks =
     load (w_faucets w) (ctf_test_faucet ks) (\<lambda>test_faucet.
     Inr (EmitTestFaucetClosed
       \<lparr>on_test_faucet_closed_market = ctf_market ks, on_test_faucet_closed_test_faucet = key test_faucet,
        on_test_faucet_closed_authority = ctf_authority ks,
        on_test_faucet_closed_base_mint = tf_base_mint (inner test_faucet),
        on_test_faucet_closed_quote_mint = tf_quote_mint (inner test_faucet)\<rparr>))"

section \<open>The events of an instruction\<close>

definition one_event :: "ProgramEvent res \<Rightarrow> ProgramEvent list res" where
  "one_event r = map_sum id (\<lambda>e. [e]) r"

primrec market_events :: "world \<Rightarrow> MarketInstruction \<Rightarrow> ProgramEvent res" where
  "market_events w (IxInitializeMarket ctx price_tick_size quantity_lot_size) =
     emit_initialize_market ctx price_tick_size quantity_lot_size"
| "market_events w (IxInitializeMarketMetadata ctx base_symbol quote_symbol display_name kind) =
     emit_initialize_market_metadata ctx base_symbol quote_symbol display_name kind"
| "market_events w (IxUpdateMarketMetadata ctx base_symbol quote_symbol display_name) =
     emit_update_market_metadata w ctx base_symbol quote_symbol display_name"
| "market_events w (IxCloseMarketMetadata ctx) = emit_close_market_metadata w ctx"
| "market_events w (IxPauseMarket ctx) = emit_pause_market ctx"
| "market_events w (IxUnpauseMarket ctx) = emit_unpause_market ctx"
| "market_events w (IxCloseMarket ctx) = emit_close_market w ctx"

primrec governance_events :: "world \<Rightarrow> GovernanceInstruction \<Rightarrow> ProgramEvent res" where
  "governance_events w (IxInitializeProtocol ctx) = emit_initialize_protocol ctx"
| "governance_events w (IxAddAdmin ctx new_admin) = emit_add_admin ctx new_admin"
| "governance_events w (IxDisableAdmin ctx target_admin) = emit_disable_admin w ctx"
| "governance_events w (IxEnableAdmin ctx target_admin) = emit_enable_admin w ctx"
| "governance_events w (IxRemoveAdmin ctx target_admin) = emit_remove_admin w ctx"
| "governance_events w (IxSetTakerFee ctx taker_fee_bps) = emit_set_taker_fee w ctx taker_fee_bps"

primrec faucet_events :: "world \<Rightarrow> FaucetInstruction \<Rightarrow> ProgramEvent res" where
  "faucet_events w (IxInitializeTestFaucet ctx base_claim_amount quote_claim_amount) =
     emit_initialize_test_faucet ctx base_claim_amount quote_claim_amount"
| "faucet_events w (IxClaimTestTokens ctx) = emit_claim_test_tokens w ctx"
| "faucet_events w (IxCloseTestFaucet ctx) = emit_close_test_faucet w ctx"

primrec spot_events :: "world \<Rightarrow> SpotInstruction \<Rightarrow> ProgramEvent res" where
  "spot_events w (IxCancelLimitOrder ctx order_id) = emit_cancel_limit_order (w_spot w) ctx"
| "spot_events w (IxAppendLimitOrder ctx side price quantity) =
     emit_append_limit_order (w_spot w) ctx side price quantity"
| "spot_events w (IxInsertLimitOrder ctx side price quantity) =
     emit_insert_limit_order (w_spot w) ctx side price quantity"
| "spot_events w (IxInitializeTraderBalance ctx) = emit_initialize_trader_balance ctx"
| "spot_events w (IxDeposit ctx amount) = emit_deposit w ctx amount"
| "spot_events w (IxWithdraw ctx amount) = emit_withdraw w ctx amount"
| "spot_events w (IxWithdrawProtocolFees ctx amount) = emit_withdraw_protocol_fees w ctx amount"
| "spot_events w (IxMatchLimitOrder ctx taker_side limit_price quantity) =
     emit_match_limit_order (w_spot w) ctx taker_side limit_price quantity"

primrec emitted :: "world \<Rightarrow> instruction \<Rightarrow> ProgramEvent list res" where
  "emitted w (Shared i) = Inr []"
| "emitted w (OfPrediction i) = Inr []"
| "emitted w (Collateral i) = Inr []"
| "emitted w (OfMarket i) = one_event (market_events w i)"
| "emitted w (OfProtocol i) = one_event (governance_events w i)"
| "emitted w (OfFaucet i) = one_event (faucet_events w i)"
| "emitted w (Spot i) = one_event (spot_events w i)"

text \<open>The chain with its log: the events of the successful instructions, in order. \<open>ok\<close> says which
  instructions the run contains.\<close>

inductive chain_log ::
  "runtime \<Rightarrow> token_program \<Rightarrow> (instruction \<Rightarrow> bool) \<Rightarrow> world \<Rightarrow> ProgramEvent list \<Rightarrow> world \<Rightarrow> bool"
  for rt tp ok where
  log_start: "chain_log rt tp ok w [] w"
| log_call: "chain_log rt tp ok w es w1 \<Longrightarrow> process (at_time now rt) tp ua w1 i = Inr w2 \<Longrightarrow> ok i \<Longrightarrow>
    (\<And>s r. signer i = Some s \<Longrightarrow> s \<noteq> address rt r) \<Longrightarrow> emitted w1 i = Inr new \<Longrightarrow>
    chain_log rt tp ok w (es @ new) w2"
| log_others: "chain_log rt tp ok w es w1 \<Longrightarrow> others_act rt w1 w2 \<Longrightarrow> chain_log rt tp ok w es w2"

end
