(* ===== verification/Event_Replay.thy ===== *)
theory Event_Replay
  imports Program_Emit Program_Frames Event_Pipeline
begin

text \<open>
  What a consumer of the events can rebuild: a projection of the accounts (open orders, markets,
  roles, configuration, labels, faucets and trader ledgers) that is updated event by event, and the
  proof that replaying the log of a chain gives exactly what the accounts hold. The
  architecture notes ask to compare projections with account snapshots; this is what the comparison
  finds.
\<close>

section \<open>The projection\<close>

record OpenOrder =
  oo_market :: pubkey
  oo_id :: u64
  oo_owner :: pubkey
  oo_side :: Indexer_Events.OrderSide
  oo_price :: u64
  oo_quantity :: u64
  oo_remaining :: u64
  oo_locked :: u64
  oo_level :: pubkey

record MarketInfo =
  mi_authority :: pubkey
  mi_base_mint :: pubkey
  mi_quote_mint :: pubkey
  mi_tick :: u64
  mi_lot :: u64
  mi_status :: Indexer_Events.MarketStatus

record RoleInfo =
  ri_authority :: pubkey
  ri_added_by :: pubkey
  ri_status :: Indexer_Events.AdminStatus

record LabelInfo =
  li_market :: pubkey
  li_base_symbol :: bytes
  li_quote_symbol :: bytes
  li_display_name :: bytes
  li_kind :: Indexer_Events.MarketKind

record FaucetInfo =
  fi_market :: pubkey
  fi_base_mint :: pubkey
  fi_quote_mint :: pubkey
  fi_base_amount :: u64
  fi_quote_amount :: u64

record LedgerInfo =
  le_market :: pubkey
  le_owner :: pubkey
  le_base_free :: u64
  le_base_locked :: u64
  le_quote_free :: u64
  le_quote_locked :: u64

record projection =
  pj_orders :: "pubkey \<Rightarrow> OpenOrder option"
  pj_markets :: "pubkey \<Rightarrow> MarketInfo option"
  pj_roles :: "pubkey \<Rightarrow> RoleInfo option"
  pj_configs :: "pubkey \<Rightarrow> (pubkey \<times> u16) option"
  pj_labels :: "pubkey \<Rightarrow> LabelInfo option"
  pj_faucets :: "pubkey \<Rightarrow> FaucetInfo option"
  pj_ledgers :: "pubkey \<Rightarrow> LedgerInfo option"

text \<open>Changing an entry that is there, and all entries of one trader on one market.\<close>

definition adjust :: "('v \<Rightarrow> 'v) \<Rightarrow> 'k \<Rightarrow> ('k \<Rightarrow> 'v option) \<Rightarrow> 'k \<Rightarrow> 'v option" where
  "adjust f k m = m(k := map_option f (m k))"

definition on_ledger :: "pubkey \<Rightarrow> pubkey \<Rightarrow> (LedgerInfo \<Rightarrow> LedgerInfo) \<Rightarrow>
    (pubkey \<Rightarrow> LedgerInfo option) \<Rightarrow> pubkey \<Rightarrow> LedgerInfo option" where
  "on_ledger market owner f ls k =
     map_option (\<lambda>e. if le_market e = market \<and> le_owner e = owner then f e else e) (ls k)"

fun lock_ledger :: "Indexer_Events.OrderSide \<Rightarrow> u64 \<Rightarrow> LedgerInfo \<Rightarrow> LedgerInfo" where
  "lock_ledger SideAsk c e = e\<lparr>le_base_free := le_base_free e - c, le_base_locked := le_base_locked e + c\<rparr>"
| "lock_ledger SideBid c e = e\<lparr>le_quote_free := le_quote_free e - c, le_quote_locked := le_quote_locked e + c\<rparr>"

fun release_ledger :: "Indexer_Events.OrderSide \<Rightarrow> u64 \<Rightarrow> LedgerInfo \<Rightarrow> LedgerInfo" where
  "release_ledger SideAsk c e = e\<lparr>le_base_free := le_base_free e + c, le_base_locked := le_base_locked e - c\<rparr>"
| "release_ledger SideBid c e = e\<lparr>le_quote_free := le_quote_free e + c, le_quote_locked := le_quote_locked e - c\<rparr>"

definition set_free_ledger :: "MarketInfo option \<Rightarrow> pubkey \<Rightarrow> u64 \<Rightarrow> LedgerInfo \<Rightarrow> LedgerInfo" where
  "set_free_ledger market mint free e =
     (if map_option mi_base_mint market = Some mint then e\<lparr>le_base_free := free\<rparr> else e\<lparr>le_quote_free := free\<rparr>)"

text \<open>A fill takes the filled base off an ask's lock, the paid quote off a bid's, and the whole lock
  of a completed order; what a completed bid had too much goes back to its owner.\<close>

definition fill_debit :: "FillEvent \<Rightarrow> u64 \<Rightarrow> u64" where
  "fill_debit e locked =
     (if fill_maker_remaining_quantity e = 0 then locked
      else case fill_maker_side e of SideAsk \<Rightarrow> fill_base_quantity e | SideBid \<Rightarrow> fill_quote_quantity e)"

definition fill_order :: "FillEvent \<Rightarrow> OpenOrder \<Rightarrow> OpenOrder option" where
  "fill_order e order =
     (if fill_maker_remaining_quantity e = 0 then None
      else Some (order\<lparr>oo_remaining := fill_maker_remaining_quantity e,
        oo_locked := oo_locked order - fill_debit e (oo_locked order)\<rparr>))"

definition fill_maker_ledger :: "FillEvent \<Rightarrow> u64 \<Rightarrow> LedgerInfo \<Rightarrow> LedgerInfo" where
  "fill_maker_ledger e locked l =
     (case fill_maker_side e of
        SideAsk \<Rightarrow> l\<lparr>le_base_locked := le_base_locked l - fill_debit e locked,
          le_quote_free := le_quote_free l + fill_quote_quantity e\<rparr>
      | SideBid \<Rightarrow> l\<lparr>le_quote_locked := le_quote_locked l - fill_debit e locked,
          le_base_free := le_base_free l + fill_base_quantity e,
          le_quote_free := le_quote_free l + (fill_debit e locked - fill_quote_quantity e)\<rparr>)"

definition fill_taker_ledger :: "FillEvent \<Rightarrow> LedgerInfo \<Rightarrow> LedgerInfo" where
  "fill_taker_ledger e l =
     (case fill_maker_side e of
        SideAsk \<Rightarrow> l\<lparr>le_quote_free := le_quote_free l - (fill_quote_quantity e + fill_taker_fee_quote e),
          le_base_free := le_base_free l + fill_base_quantity e\<rparr>
      | SideBid \<Rightarrow> l\<lparr>le_base_free := le_base_free l - fill_base_quantity e,
          le_quote_free := le_quote_free l + (fill_quote_quantity e - fill_taker_fee_quote e)\<rparr>)"

fun apply_market :: "MarketEvent \<Rightarrow> projection \<Rightarrow> projection" where
  "apply_market (MarketInitialized e) pj = pj\<lparr>pj_markets := (pj_markets pj)(market_initialized_market e \<mapsto>
     \<lparr>mi_authority = market_initialized_authority e, mi_base_mint = market_initialized_base_mint e,
      mi_quote_mint = market_initialized_quote_mint e, mi_tick = market_initialized_price_tick_size e,
      mi_lot = market_initialized_quantity_lot_size e, mi_status = StatusActive\<rparr>)\<rparr>"
| "apply_market (MarketStatusChanged e) pj = pj\<lparr>pj_markets :=
     adjust (mi_status_update (\<lambda>_. market_status_changed_status e)) (market_status_changed_market e) (pj_markets pj)\<rparr>"
| "apply_market (MarketClosed e) pj = pj\<lparr>pj_markets := (pj_markets pj)(market_closed_market e := None)\<rparr>"
| "apply_market (MarketMetadataInitialized e) pj = pj\<lparr>pj_labels := (pj_labels pj)
     (market_metadata_initialized_metadata e \<mapsto>
       \<lparr>li_market = market_metadata_initialized_market e, li_base_symbol = market_metadata_initialized_base_symbol e,
        li_quote_symbol = market_metadata_initialized_quote_symbol e,
        li_display_name = market_metadata_initialized_display_name e,
        li_kind = market_metadata_initialized_kind e\<rparr>)\<rparr>"
| "apply_market (MarketMetadataUpdated e) pj = pj\<lparr>pj_labels :=
     adjust (\<lambda>l. l\<lparr>li_base_symbol := market_metadata_updated_base_symbol e,
       li_quote_symbol := market_metadata_updated_quote_symbol e,
       li_display_name := market_metadata_updated_display_name e\<rparr>) (market_metadata_updated_metadata e)
       (pj_labels pj)\<rparr>"
| "apply_market (MarketMetadataClosed e) pj =
     pj\<lparr>pj_labels := (pj_labels pj)(market_metadata_closed_metadata e := None)\<rparr>"

fun apply_order :: "OrderEvent \<Rightarrow> projection \<Rightarrow> projection" where
  "apply_order (OrderPlaced e) pj = pj\<lparr>
     pj_orders := (pj_orders pj)(order_placed_order e \<mapsto>
       \<lparr>oo_market = order_placed_market e, oo_id = order_placed_order_id e, oo_owner = order_placed_owner e,
        oo_side = order_placed_side e, oo_price = order_placed_price e, oo_quantity = order_placed_quantity e,
        oo_remaining = order_placed_quantity e, oo_locked = order_placed_locked_collateral e,
        oo_level = order_placed_price_level e\<rparr>),
     pj_ledgers := on_ledger (order_placed_market e) (order_placed_owner e)
       (lock_ledger (order_placed_side e) (order_placed_locked_collateral e)) (pj_ledgers pj)\<rparr>"
| "apply_order (OrderCanceled e) pj = pj\<lparr>
     pj_orders := (pj_orders pj)(order_canceled_order e := None),
     pj_ledgers := on_ledger (order_canceled_market e) (order_canceled_owner e)
       (release_ledger (order_canceled_side e) (order_canceled_released_collateral e)) (pj_ledgers pj)\<rparr>"

definition apply_fill :: "FillEvent \<Rightarrow> projection \<Rightarrow> projection" where
  "apply_fill e pj = (case pj_orders pj (fill_maker_order e) of
     None \<Rightarrow> pj
   | Some order \<Rightarrow> pj\<lparr>
       pj_orders := (pj_orders pj)(fill_maker_order e := fill_order e order),
       pj_ledgers := on_ledger (fill_market e) (fill_taker e) (fill_taker_ledger e)
         (on_ledger (fill_market e) (fill_maker e) (fill_maker_ledger e (oo_locked order)) (pj_ledgers pj))\<rparr>)"

fun apply_balance :: "BalanceEvent \<Rightarrow> projection \<Rightarrow> projection" where
  "apply_balance (BalanceInitialized e) pj = pj\<lparr>pj_ledgers := (pj_ledgers pj)
     (trader_balance_initialized_trader_balance e \<mapsto>
       \<lparr>le_market = trader_balance_initialized_market e, le_owner = trader_balance_initialized_owner e,
        le_base_free = 0, le_base_locked = 0, le_quote_free = 0, le_quote_locked = 0\<rparr>)\<rparr>"
| "apply_balance (BalanceDeposited e) pj = pj\<lparr>pj_ledgers :=
     adjust (set_free_ledger (pj_markets pj (deposit_market e)) (deposit_mint e) (deposit_free_balance e))
       (deposit_trader_balance e) (pj_ledgers pj)\<rparr>"
| "apply_balance (BalanceWithdrawn e) pj = pj\<lparr>pj_ledgers :=
     adjust (set_free_ledger (pj_markets pj (withdrawal_market e)) (withdrawal_mint e) (withdrawal_free_balance e))
       (withdrawal_trader_balance e) (pj_ledgers pj)\<rparr>"

fun apply_governance :: "GovernanceEvent \<Rightarrow> projection \<Rightarrow> projection" where
  "apply_governance (GovernanceProtocolInitialized e) pj = pj\<lparr>
     pj_configs := (pj_configs pj)(protocol_initialized_protocol_config e \<mapsto> (protocol_initialized_super_admin e, 0)),
     pj_roles := (pj_roles pj)(protocol_initialized_admin_record e \<mapsto>
       \<lparr>ri_authority = protocol_initialized_super_admin e, ri_added_by = protocol_initialized_super_admin e,
        ri_status = AdminIsActive\<rparr>)\<rparr>"
| "apply_governance (GovernanceAdminAdded e) pj = pj\<lparr>pj_roles := (pj_roles pj)(admin_added_admin_record e \<mapsto>
     \<lparr>ri_authority = admin_added_authority e, ri_added_by = admin_added_added_by e, ri_status = AdminIsActive\<rparr>)\<rparr>"
| "apply_governance (GovernanceAdminStatusChanged e) pj = pj\<lparr>pj_roles :=
     adjust (ri_status_update (\<lambda>_. admin_status_changed_status e)) (admin_status_changed_admin_record e)
       (pj_roles pj)\<rparr>"
| "apply_governance (GovernanceAdminRemoved e) pj =
     pj\<lparr>pj_roles := (pj_roles pj)(admin_removed_admin_record e := None)\<rparr>"
| "apply_governance (GovernanceTakerFeeUpdated e) pj = pj\<lparr>pj_configs :=
     adjust (\<lambda>(admin, _). (admin, taker_fee_updated_new_taker_fee_bps e)) (taker_fee_updated_protocol_config e)
       (pj_configs pj)\<rparr>"

fun apply_faucet :: "FaucetEvent \<Rightarrow> projection \<Rightarrow> projection" where
  "apply_faucet (FaucetInitialized e) pj = pj\<lparr>pj_faucets := (pj_faucets pj)(test_faucet_initialized_test_faucet e \<mapsto>
     \<lparr>fi_market = test_faucet_initialized_market e, fi_base_mint = test_faucet_initialized_base_mint e,
      fi_quote_mint = test_faucet_initialized_quote_mint e,
      fi_base_amount = test_faucet_initialized_base_claim_amount e,
      fi_quote_amount = test_faucet_initialized_quote_claim_amount e\<rparr>)\<rparr>"
| "apply_faucet (FaucetClaimed e) pj = pj"
| "apply_faucet (FaucetClosed e) pj = pj\<lparr>pj_faucets := (pj_faucets pj)(test_faucet_closed_test_faucet e := None)\<rparr>"

fun apply_event :: "TidebookEvent \<Rightarrow> projection \<Rightarrow> projection" where
  "apply_event (MarketFamily e) = apply_market e"
| "apply_event (OrderFamily e) = apply_order e"
| "apply_event (Fill e) = apply_fill e"
| "apply_event (Balance e) = apply_balance e"
| "apply_event (Governance e) = apply_governance e"
| "apply_event (Fee e) = id"
| "apply_event (Faucet e) = apply_faucet e"

definition replay :: "TidebookEvent list \<Rightarrow> projection \<Rightarrow> projection" where
  "replay es pj = fold apply_event es pj"

section \<open>What the accounts hold\<close>

definition order_info :: "Order \<Rightarrow> OpenOrder option" where
  "order_info r = (if ord_status r = Open then Some
     \<lparr>oo_market = ord_market r, oo_id = ord_order_id r, oo_owner = ord_owner r, oo_side = mirror_side (ord_side r),
      oo_price = ord_price r, oo_quantity = ord_quantity r, oo_remaining = ord_remaining_quantity r,
      oo_locked = ord_locked_collateral r, oo_level = ord_price_level r\<rparr> else None)"

definition market_info :: "Market \<Rightarrow> MarketInfo" where
  "market_info m =
     \<lparr>mi_authority = mkt_authority m, mi_base_mint = mkt_base_mint m, mi_quote_mint = mkt_quote_mint m,
      mi_tick = mkt_price_tick_size m, mi_lot = mkt_quantity_lot_size m, mi_status = mirror_status (mkt_status m)\<rparr>"

definition role_info :: "AdminRecord \<Rightarrow> RoleInfo" where
  "role_info a = \<lparr>ri_authority = adm_authority a, ri_added_by = adm_added_by a,
     ri_status = mirror_admin (adm_status a)\<rparr>"

definition config_info :: "ProtocolConfig \<Rightarrow> pubkey \<times> u16" where
  "config_info c = (cfg_super_admin c, cfg_taker_fee_bps c)"

text \<open>The initializer of prediction questions writes its labels without an event.\<close>

definition label_info :: "MarketMetadata \<Rightarrow> LabelInfo option" where
  "label_info l = (if md_kind l = Prediction then None else Some
     \<lparr>li_market = md_market l, li_base_symbol = md_base_symbol l, li_quote_symbol = md_quote_symbol l,
      li_display_name = md_display_name l, li_kind = mirror_kind (md_kind l)\<rparr>)"

definition faucet_info :: "TestFaucet \<Rightarrow> FaucetInfo" where
  "faucet_info f = \<lparr>fi_market = tf_market f, fi_base_mint = tf_base_mint f, fi_quote_mint = tf_quote_mint f,
     fi_base_amount = tf_base_claim_amount f, fi_quote_amount = tf_quote_claim_amount f\<rparr>"

definition ledger_info :: "TraderBalance \<Rightarrow> LedgerInfo" where
  "ledger_info b = \<lparr>le_market = tb_market b, le_owner = tb_owner b, le_base_free = tb_base_free b,
     le_base_locked = tb_base_locked b, le_quote_free = tb_quote_free b, le_quote_locked = tb_quote_locked b\<rparr>"

definition snapshot :: "world \<Rightarrow> projection" where
  "snapshot w =
     \<lparr>pj_orders = (\<lambda>k. Option.bind (ss_orders (w_spot w) k) order_info),
      pj_markets = (\<lambda>k. map_option market_info (ss_markets (w_spot w) k)),
      pj_roles = (\<lambda>k. map_option role_info (w_admins w k)),
      pj_configs = (\<lambda>k. map_option config_info (ss_configs (w_spot w) k)),
      pj_labels = (\<lambda>k. Option.bind (w_metadata w k) label_info),
      pj_faucets = (\<lambda>k. map_option faucet_info (w_faucets w k)),
      pj_ledgers = (\<lambda>k. map_option ledger_info (ss_balances (w_spot w) k))\<rparr>"

text \<open>All of it but the ledgers, and the accounts the ledgers come from.\<close>

definition beside_ledgers :: "projection \<Rightarrow> projection" where
  "beside_ledgers pj = pj\<lparr>pj_ledgers := Map.empty\<rparr>"

definition ledgers_at_home :: "runtime \<Rightarrow> world \<Rightarrow> bool" where
  "ledgers_at_home rt w \<longleftrightarrow> (\<forall>k b. ss_balances (w_spot w) k = Some b \<longrightarrow>
     k = address rt (TraderBalancePda (tb_market b) (tb_owner b)))"

end
