(* ===== verification/Replay_Steps.thy ===== *)
theory Replay_Steps
  imports Event_Replay
begin

text \<open>
  Every instruction and its events agree: applying what a successful instruction emits to a snapshot of
  the accounts gives the snapshot of the accounts it leaves. From this the properties of whole
  logs follow by induction.
\<close>

section \<open>Snapshots\<close>

lemma projection_eqI:
  fixes a b :: projection
  assumes "pj_orders a = pj_orders b" "pj_markets a = pj_markets b" "pj_roles a = pj_roles b"
    "pj_configs a = pj_configs b" "pj_labels a = pj_labels b" "pj_faucets a = pj_faucets b"
    "pj_ledgers a = pj_ledgers b"
  shows "a = b"
  using assms by (cases a; cases b) simp

lemma snapshot_sel [simp]:
  "pj_orders (snapshot w) = (\<lambda>k. Option.bind (ss_orders (w_spot w) k) order_info)"
  "pj_markets (snapshot w) = (\<lambda>k. map_option market_info (ss_markets (w_spot w) k))"
  "pj_roles (snapshot w) = (\<lambda>k. map_option role_info (w_admins w k))"
  "pj_configs (snapshot w) = (\<lambda>k. map_option config_info (ss_configs (w_spot w) k))"
  "pj_labels (snapshot w) = (\<lambda>k. Option.bind (w_metadata w k) label_info)"
  "pj_faucets (snapshot w) = (\<lambda>k. map_option faucet_info (w_faucets w k))"
  "pj_ledgers (snapshot w) = (\<lambda>k. map_option ledger_info (ss_balances (w_spot w) k))"
  by (simp_all add: snapshot_def)

lemma beside_sel [simp]:
  "pj_orders (beside_ledgers pj) = pj_orders pj" "pj_markets (beside_ledgers pj) = pj_markets pj"
  "pj_roles (beside_ledgers pj) = pj_roles pj" "pj_configs (beside_ledgers pj) = pj_configs pj"
  "pj_labels (beside_ledgers pj) = pj_labels pj" "pj_faucets (beside_ledgers pj) = pj_faucets pj"
  "pj_ledgers (beside_ledgers pj) = Map.empty"
  by (simp_all add: beside_ledgers_def)

lemma info_simps [simp]:
  "market_info (m\<lparr>mkt_status := s\<rparr>) = market_info m\<lparr>mi_status := mirror_status s\<rparr>"
  "market_info (m\<lparr>mkt_next_order_id := i\<rparr>) = market_info m"
  "market_info (m\<lparr>mkt_open_order_count := n\<rparr>) = market_info m"
  "market_info (set_market_best m sd p) = market_info m"
  "role_info (a\<lparr>adm_status := st\<rparr>) = role_info a\<lparr>ri_status := mirror_admin st\<rparr>"
  "mi_base_mint (market_info m) = mkt_base_mint m"
  by (cases sd; simp add: market_info_def role_info_def)+

lemma order_info_links [simp]:
  "order_info (r\<lparr>ord_next_order := n\<rparr>) = order_info r"
  "order_info (r\<lparr>ord_previous_order := p\<rparr>) = order_info r"
  by (simp_all add: order_info_def)

lemma order_info_saved [simp]:
  assumes "loaded m k ao" "\<And>r. order_info (f r) = order_info r"
  shows "Option.bind (save_opt (map_option (upd_inner f) ao) m j) order_info = Option.bind (m j) order_info"
  using assms by (cases ao) (auto simp: save_opt_apply)

text \<open>Accounts the log is about, and what leaves them alone.\<close>

definition shown :: "world \<Rightarrow> (pubkey \<Rightarrow> Order option) \<times> (pubkey \<Rightarrow> Market option) \<times>
    (pubkey \<Rightarrow> MarketMetadata option)" where
  "shown w = (ss_orders (w_spot w), ss_markets (w_spot w), w_metadata w)"

abbreviation ledgers :: "world \<Rightarrow> pubkey \<Rightarrow> TraderBalance option" where
  "ledgers w \<equiv> ss_balances (w_spot w)"

lemma shown_beside:
  "shown w' = shown w \<Longrightarrow> keeps w w' \<Longrightarrow> beside_ledgers (snapshot w') = beside_ledgers (snapshot w)"
  by (rule projection_eqI) (simp_all add: shown_def registers_def)

lemma shown_snapshot:
  "shown w' = shown w \<Longrightarrow> keeps w w' \<Longrightarrow> ledgers w' = ledgers w \<Longrightarrow> snapshot w' = snapshot w"
  by (rule projection_eqI) (simp_all add: shown_def registers_def)

lemma shown_update [simp]:
  "shown (w\<lparr>w_admins := a\<rparr>) = shown w" "shown (w\<lparr>w_predictions := b\<rparr>) = shown w"
  "shown (w\<lparr>w_positions := c\<rparr>) = shown w" "shown (w\<lparr>w_prediction_books := d\<rparr>) = shown w"
  "shown (w\<lparr>w_prediction_levels := e\<rparr>) = shown w" "shown (w\<lparr>w_prediction_orders := f\<rparr>) = shown w"
  "shown (w\<lparr>w_assets := g\<rparr>) = shown w" "shown (w\<lparr>w_shared_books := h\<rparr>) = shown w"
  "shown (w\<lparr>w_shared_levels := i\<rparr>) = shown w" "shown (w\<lparr>w_shared_orders := j\<rparr>) = shown w"
  "shown (w\<lparr>w_tokens := k\<rparr>) = shown w" "shown (w\<lparr>w_mints := l\<rparr>) = shown w"
  "shown (w\<lparr>w_faucets := m\<rparr>) = shown w"
  "ss_orders st = ss_orders (w_spot w) \<Longrightarrow> ss_markets st = ss_markets (w_spot w) \<Longrightarrow>
     shown (w\<lparr>w_spot := st\<rparr>) = shown w"
  by (simp_all add: shown_def)

lemma shown_put [simp]:
  "shown (put_asset k1 a w) = shown w" "shown (put_balance k2 b ts w) = shown w"
  "shown (put_position k3 p w) = shown w" "shown (put_prediction k4 m w) = shown w"
  "shown (put_custody cu ts m' p' a' w) = shown w" "shown (save_claims cl w) = shown w"
  "shown (put_removal bk o1 k5 rm w) = shown w" "shown (put_placement q1 q2 q3 q4 q5 q6 q7 q8 q9 q10 w) = shown w"
  "shown (unlink_prediction u1 u2 u3 u4 u5 u6 u7 u8 u9 u10 u11 u12 w) = shown w"
  "shown (fill_prediction f1 f2 f3 f4 f5 f6 f7 f8 f9 f10 f11 f12 w) = shown w"
  unfolding put_asset_def put_balance_def put_position_def put_prediction_def put_custody_def save_claims_def
    put_removal_def put_placement_def unlink_prediction_def fill_prediction_def Let_def
  by (simp_all split: option.splits prod.splits)

lemma ledgers_put [simp]:
  "ledgers (put_asset k1 a w) = ledgers w"
  "ledgers (put_position k3 p w) = ledgers w" "ledgers (put_prediction k4 m w) = ledgers w"
  "ledgers (put_custody cu ts m' p' a' w) = ledgers w" "ledgers (save_claims cl w) = ledgers w"
  "ledgers (put_removal bk o1 k5 rm w) = ledgers w"
  "ledgers (put_placement q1 q2 q3 q4 q5 q6 q7 q8 q9 q10 w) = ledgers w"
  "ledgers (unlink_prediction u1 u2 u3 u4 u5 u6 u7 u8 u9 u10 u11 u12 w) = ledgers w"
  "ledgers (fill_prediction f1 f2 f3 f4 f5 f6 f7 f8 f9 f10 f11 f12 w) = ledgers w"
  unfolding put_asset_def put_position_def put_prediction_def put_custody_def save_claims_def
    put_removal_def put_placement_def unlink_prediction_def fill_prediction_def Let_def
  by (simp_all split: option.splits prod.splits)

section \<open>Instructions without events\<close>

abbreviation silent :: "world \<Rightarrow> world \<Rightarrow> bool" where
  "silent w w' \<equiv> shown w' = shown w \<and> ledgers w' = ledgers w"

lemma migrate_shown: "yields (\<lambda>w'. shown w' = shown w) (migrate_spot_asset rt tp w ctx amount)"
  by (unfold migrate_spot_asset_def Let_def; intro yields_rules; simp)

lemma shared_silent:
  assumes "\<And>ctx amount. i \<noteq> IxMigrateSpotAsset ctx amount"
  shows "yields (silent w) (process_shared rt tp w i)"
  using assms
  by (induction i; unfold process_shared.simps
      propose_prediction_def close_prediction_trading_def advance_prediction_def shared_complete_set_def
      redeem_prediction_def match_shared_order_def place_shared_order_def cancel_shared_order_def
      close_shared_book_def initialize_shared_book_def withdraw_shared_fees_def
      initialize_asset_balance_def deposit_asset_def withdraw_asset_def
      migrate_prediction_asset_def Let_def;
      (blast | intro yields_rules; simp))

lemma collateral_silent: "yields (silent w) (process_collateral rt tp w i)"
  by (induction i; unfold process_collateral.simps
      initialize_prediction_position_def deposit_prediction_collateral_def open_prediction_market_def
      withdraw_prediction_collateral_def split_prediction_complete_set_def
      merge_prediction_complete_set_def Let_def;
      intro yields_rules; simp)

lemma market_ledgers: "yields (\<lambda>w'. ledgers w' = ledgers w) (process_market rt tp w i)"
  by (induction i; unfold process_market.simps
      initialize_market_def initialize_market_metadata_def update_market_metadata_def
      close_market_metadata_def pause_market_def unpause_market_def close_market_def Let_def;
      intro yields_rules; simp)

lemma governance_ledgers: "yields (\<lambda>w'. ledgers w' = ledgers w) (process_governance rt ua w i)"
  by (induction i; unfold process_governance.simps initialize_protocol_def add_admin_def disable_admin_def
      enable_admin_def remove_admin_def set_taker_fee_def Let_def; intro yields_rules; simp)

lemma faucet_ledgers: "yields (\<lambda>w'. ledgers w' = ledgers w) (process_faucet rt tp w i)"
  by (induction i; unfold process_faucet.simps initialize_test_faucet_def claim_test_tokens_def close_test_faucet_def
      Let_def; intro yields_rules; simp)

text \<open>A new question writes its labels at a fresh address, of a kind that is not shown.\<close>

lemma question_spot: "yields (\<lambda>w'. ss_orders (w_spot w') = ss_orders (w_spot w) \<and>
    ss_markets (w_spot w') = ss_markets (w_spot w) \<and> ledgers w' = ledgers w)
  (initialize_prediction_market rt w ctx qid config name symbol)"
  by (unfold initialize_prediction_market_def Let_def; intro yields_rules; simp)

lemma question_snapshot:
  assumes ok: "initialize_prediction_market rt w ctx qid config name symbol = Inr w'"
  shows "snapshot w' = snapshot w"
proof -
  have "keeps w w'"
    using yieldsD [OF prediction_keeps [of w rt "IxInitializePredictionMarket ctx qid config name symbol"], of w'] ok
    by simp
  moreover have "(\<lambda>k. Option.bind (w_metadata w' k) label_info) = (\<lambda>k. Option.bind (w_metadata w k) label_info)"
    by (rule initialize_prediction_ok [OF ok]) (auto simp: label_info_def)
  ultimately show ?thesis
    using yieldsD [OF question_spot [of w rt ctx qid config name symbol] ok]
    by (intro projection_eqI) (simp_all add: registers_def)
qed

lemma prediction_silent:
  assumes "\<And>ctx qid config name symbol. i \<noteq> IxInitializePredictionMarket ctx qid config name symbol"
  shows "yields (silent w) (process_prediction rt w i)"
  using assms
  by (induction i; unfold process_prediction.simps
      match_prediction_order_def cancel_prediction_order_def insert_prediction_order_def
      append_prediction_order_def place_prediction_order_def Let_def;
      (blast | intro yields_rules; simp))

lemma prediction_snapshot:
  assumes ok: "process_prediction rt w i = Inr w'"
  shows "snapshot w' = snapshot w"
proof (cases "\<exists>ctx qid config name symbol. i = IxInitializePredictionMarket ctx qid config name symbol")
  case True
  then obtain ctx qid config name symbol where i: "i = IxInitializePredictionMarket ctx qid config name symbol"
    by blast
  have "initialize_prediction_market rt w ctx qid config name symbol = Inr w'"
    using ok by (simp only: i process_prediction.simps)
  then show ?thesis by (rule question_snapshot)
next
  case False
  have "silent w w'" by (rule yieldsD [OF prediction_silent ok]) (use False in blast)
  moreover have "keeps w w'" by (rule yieldsD [OF prediction_keeps ok])
  ultimately show ?thesis by (elim conjE) (rule shown_snapshot)
qed

lemma collateral_snapshot:
  assumes ok: "process_collateral rt tp w i = Inr w'"
  shows "snapshot w' = snapshot w"
proof -
  have "silent w w'" by (rule yieldsD [OF collateral_silent ok])
  moreover have "keeps w w'" by (rule yieldsD [OF collateral_keeps ok])
  ultimately show ?thesis by (elim conjE) (rule shown_snapshot)
qed

lemma shared_snapshot:
  assumes ok: "process_shared rt tp w i = Inr w'" and i: "\<And>ctx amount. i \<noteq> IxMigrateSpotAsset ctx amount"
  shows "snapshot w' = snapshot w"
proof -
  have "silent w w'" by (rule yieldsD [OF shared_silent ok]) (rule i)
  moreover have "keeps w w'" by (rule yieldsD [OF shared_keeps ok])
  ultimately show ?thesis by (elim conjE) (rule shown_snapshot)
qed

lemma shared_beside:
  assumes ok: "process_shared rt tp w i = Inr w'"
  shows "beside_ledgers (snapshot w') = beside_ledgers (snapshot w)"
proof (cases "\<exists>ctx amount. i = IxMigrateSpotAsset ctx amount")
  case True
  then obtain ctx amount where i: "i = IxMigrateSpotAsset ctx amount" by blast
  have "migrate_spot_asset rt tp w ctx amount = Inr w'" using ok by (simp only: i process_shared.simps)
  then have "shown w' = shown w" by (rule yieldsD [OF migrate_shown])
  then show ?thesis by (rule shown_beside) (rule yieldsD [OF shared_keeps ok])
next
  case False
  have "snapshot w' = snapshot w" by (rule shared_snapshot [OF ok]) (use False in blast)
  then show ?thesis by simp
qed

section \<open>Markets, roles and faucets\<close>

text \<open>What an instruction's events must do: the handler's success includes the event, and applying it
  takes the snapshot before to the snapshot after.\<close>

definition tells :: "world \<Rightarrow> world \<Rightarrow> ProgramEvent res \<Rightarrow> bool" where
  "tells w w' r \<longleftrightarrow> (\<exists>e. r = Inr e \<and> apply_event (mirror_event e) (snapshot w) = snapshot w')"

lemma tellsI: "r = Inr e \<Longrightarrow> apply_event (mirror_event e) (snapshot w) = snapshot w' \<Longrightarrow> tells w w' r"
  by (auto simp: tells_def)

named_theorems event_simps "the events of the handlers and their mirrors"

lemmas [event_simps] = emit_initialize_market_def emit_initialize_market_metadata_def
  emit_update_market_metadata_def emit_close_market_metadata_def emit_pause_market_def emit_unpause_market_def
  emit_close_market_def emit_initialize_protocol_def emit_add_admin_def emit_disable_admin_def
  emit_enable_admin_def emit_remove_admin_def emit_set_taker_fee_def emit_initialize_test_faucet_def
  emit_claim_test_tokens_def emit_close_test_faucet_def emit_initialize_trader_balance_def emit_deposit_def
  emit_withdraw_def emit_withdraw_protocol_fees_def
  mirror_market_initialized_def mirror_market_status_changed_def mirror_market_closed_def
  mirror_market_metadata_initialized_def mirror_market_metadata_updated_def mirror_market_metadata_closed_def
  mirror_order_placed_def mirror_order_canceled_def mirror_fill_def mirror_trader_balance_initialized_def
  mirror_deposit_def mirror_withdrawal_def mirror_protocol_initialized_def mirror_admin_added_def
  mirror_admin_status_changed_def mirror_admin_removed_def mirror_taker_fee_updated_def
  mirror_protocol_fees_withdrawn_def mirror_test_faucet_initialized_def mirror_test_faucet_claimed_def
  mirror_test_faucet_closed_def

lemmas info_defs = market_info_def role_info_def config_info_def label_info_def faucet_info_def ledger_info_def

lemma bind_upd [simp]:
  "(\<lambda>j. Option.bind ((m(k := v)) j) f) = (\<lambda>j. Option.bind (m j) f)(k := Option.bind v f)"
  by auto

lemma map_upd [simp]:
  "(\<lambda>j. map_option f ((m(k := v)) j)) = (\<lambda>j. map_option f (m j))(k := map_option f v)"
  by auto

lemma load_some: "m k = Some a \<Longrightarrow> load m k f = f (Account k a)"
  by (simp add: load_def)

lemma update_markets:
  "snapshot (w\<lparr>w_spot := (w_spot w)\<lparr>ss_markets := (ss_markets (w_spot w))(k := v)\<rparr>\<rparr>) =
     snapshot w\<lparr>pj_markets := (pj_markets (snapshot w))(k := map_option market_info v)\<rparr>"
  by (rule projection_eqI) (simp_all del: fun_upd_apply)

lemma update_labels:
  "snapshot (w\<lparr>w_metadata := (w_metadata w)(k := v)\<rparr>) =
     snapshot w\<lparr>pj_labels := (pj_labels (snapshot w))(k := Option.bind v label_info)\<rparr>"
  by (rule projection_eqI) (simp_all del: fun_upd_apply)

lemma update_roles:
  "snapshot (w\<lparr>w_admins := (w_admins w)(k := v)\<rparr>) =
     snapshot w\<lparr>pj_roles := (pj_roles (snapshot w))(k := map_option role_info v)\<rparr>"
  by (rule projection_eqI) (simp_all del: fun_upd_apply)

lemma update_configs:
  "snapshot (w\<lparr>w_spot := (w_spot w)\<lparr>ss_configs := (ss_configs (w_spot w))(k := v)\<rparr>\<rparr>) =
     snapshot w\<lparr>pj_configs := (pj_configs (snapshot w))(k := map_option config_info v)\<rparr>"
  by (rule projection_eqI) (simp_all del: fun_upd_apply)

lemma update_faucets:
  "snapshot (w\<lparr>w_faucets := (w_faucets w)(k := v)\<rparr>) =
     snapshot w\<lparr>pj_faucets := (pj_faucets (snapshot w))(k := map_option faucet_info v)\<rparr>"
  by (rule projection_eqI) (simp_all del: fun_upd_apply)

lemma update_ledgers:
  "snapshot (w\<lparr>w_spot := (w_spot w)\<lparr>ss_balances := (ledgers w)(k := v)\<rparr>\<rparr>) =
     snapshot w\<lparr>pj_ledgers := (pj_ledgers (snapshot w))(k := map_option ledger_info v)\<rparr>"
  by (rule projection_eqI) (simp_all del: fun_upd_apply)

lemma update_unseen:
  "snapshot (w\<lparr>w_tokens := ts\<rparr>) = snapshot w" "snapshot (w\<lparr>w_mints := ms\<rparr>) = snapshot w"
  "snapshot (w\<lparr>w_spot := (w_spot w)\<lparr>ss_fees := fs\<rparr>\<rparr>) = snapshot w"
  by (rule projection_eqI; simp)+

lemmas snapshot_update = update_markets update_labels update_roles update_configs update_faucets update_ledgers
  update_unseen

lemma initialize_market_tells:
  assumes "initialize_market rt w ks tick lot = Inr w'"
  shows "tells w w' (emit_initialize_market ks tick lot)"
  using assms unfolding initialize_market_def Let_def run_simps account.sel sum.inject
  by (elim exE conjE)
    (auto simp: event_simps tells_def market_info_def simp del: fun_upd_apply intro!: projection_eqI)

lemma metadata_tells:
  "initialize_market_metadata rt w iks bs qs dn kd = Inr w' \<Longrightarrow>
     tells w w' (emit_initialize_market_metadata iks bs qs dn kd)"
  "update_market_metadata rt w uks bs qs dn = Inr w' \<Longrightarrow> tells w w' (emit_update_market_metadata w uks bs qs dn)"
  "close_market_metadata rt w cks = Inr w' \<Longrightarrow> tells w w' (emit_close_market_metadata w cks)"
proof -
  show "tells w w' (emit_initialize_market_metadata iks bs qs dn kd)"
    if "initialize_market_metadata rt w iks bs qs dn kd = Inr w'"
    using that unfolding initialize_market_metadata_def run_simps account.sel sum.inject
    by (elim exE conjE) (auto simp: tells_def event_simps label_info_def snapshot_update simp del: fun_upd_apply)
  show "tells w w' (emit_update_market_metadata w uks bs qs dn)"
    if "update_market_metadata rt w uks bs qs dn = Inr w'"
    using that unfolding update_market_metadata_def run_simps account.sel sum.inject
    by (elim exE conjE)
      (auto simp: tells_def event_simps label_info_def snapshot_update load_some adjust_def save_def upd_inner_def
        simp del: fun_upd_apply)
  show "tells w w' (emit_close_market_metadata w cks)" if "close_market_metadata rt w cks = Inr w'"
    using that unfolding close_market_metadata_def run_simps account.sel sum.inject
    by (elim exE conjE) (auto simp: tells_def event_simps snapshot_update load_some simp del: fun_upd_apply)
qed

lemma pause_tells:
  "pause_market w ks = Inr w' \<Longrightarrow> tells w w' (emit_pause_market ks)"
  "unpause_market w ks = Inr w' \<Longrightarrow> tells w w' (emit_unpause_market ks)"
  unfolding pause_market_def unpause_market_def run_simps account.sel sum.inject
  by (elim exE conjE;
      auto simp: tells_def event_simps snapshot_update adjust_def save_def upd_inner_def simp del: fun_upd_apply)+

lemma close_market_tells:
  assumes "close_market rt tp w ks = Inr w'"
  shows "tells w w' (emit_close_market w ks)"
  by (rule close_market_ok [OF assms])
    (auto simp: event_simps tells_def load_some simp del: fun_upd_apply intro!: projection_eqI)

lemma market_tells:
  "process_market rt tp w i = Inr w' \<Longrightarrow> tells w w' (market_events w i)"
  by (cases i) (auto dest: initialize_market_tells metadata_tells pause_tells close_market_tells)

lemma admin_tells:
  "disable_admin rt w ks t = Inr w' \<Longrightarrow> tells w w' (emit_disable_admin w ks)"
  "enable_admin rt w ks t = Inr w' \<Longrightarrow> tells w w' (emit_enable_admin w ks)"
  "remove_admin rt w ks t = Inr w' \<Longrightarrow> tells w w' (emit_remove_admin w ks)"
  unfolding disable_admin_def enable_admin_def remove_admin_def run_simps account.sel sum.inject
  by (elim exE conjE;
      auto simp: tells_def event_simps snapshot_update load_some adjust_def save_def upd_inner_def
        simp del: fun_upd_apply)+

lemma super_admin_tells:
  "initialize_protocol rt ua w ips = Inr w' \<Longrightarrow> tells w w' (emit_initialize_protocol ips)"
  "add_admin rt w aks a = Inr w' \<Longrightarrow> tells w w' (emit_add_admin aks a)"
  "set_taker_fee rt w sks bps = Inr w' \<Longrightarrow> tells w w' (emit_set_taker_fee w sks bps)"
proof -
  show "tells w w' (emit_initialize_protocol ips)" if "initialize_protocol rt ua w ips = Inr w'"
    using that unfolding initialize_protocol_def Let_def run_simps account.sel sum.inject
    by (elim exE conjE)
      (auto simp: tells_def event_simps role_info_def config_info_def simp del: fun_upd_apply intro!: projection_eqI)
  show "tells w w' (emit_add_admin aks a)" if "add_admin rt w aks a = Inr w'"
    using that unfolding add_admin_def Let_def run_simps account.sel sum.inject
    by (elim exE conjE) (auto simp: tells_def event_simps role_info_def snapshot_update simp del: fun_upd_apply)
  show "tells w w' (emit_set_taker_fee w sks bps)" if "set_taker_fee rt w sks bps = Inr w'"
    using that unfolding set_taker_fee_def run_simps account.sel sum.inject
    by (elim exE conjE)
      (auto simp: tells_def event_simps config_info_def snapshot_update load_some adjust_def save_def upd_inner_def
        simp del: fun_upd_apply)
qed

lemma governance_tells:
  "process_governance rt ua w i = Inr w' \<Longrightarrow> tells w w' (governance_events w i)"
  by (cases i) (auto dest: admin_tells super_admin_tells)

lemma test_faucet_tells:
  "initialize_test_faucet rt tp w iks ba qa = Inr w' \<Longrightarrow> tells w w' (emit_initialize_test_faucet iks ba qa)"
  "claim_test_tokens rt tp w cks = Inr w' \<Longrightarrow> tells w w' (emit_claim_test_tokens w cks)"
  "close_test_faucet rt w dks = Inr w' \<Longrightarrow> tells w w' (emit_close_test_faucet w dks)"
proof -
  show "tells w w' (emit_initialize_test_faucet iks ba qa)" if "initialize_test_faucet rt tp w iks ba qa = Inr w'"
    using that unfolding initialize_test_faucet_def Let_def run_simps account.sel sum.inject
    by (elim exE conjE)
      (auto simp: tells_def event_simps faucet_info_def simp del: fun_upd_apply intro!: projection_eqI)
  show "tells w w' (emit_claim_test_tokens w cks)" if "claim_test_tokens rt tp w cks = Inr w'"
    using that unfolding claim_test_tokens_def run_simps account.sel sum.inject
    by (elim exE conjE) (auto simp: tells_def event_simps load_some simp del: fun_upd_apply intro!: projection_eqI)
  show "tells w w' (emit_close_test_faucet w dks)" if "close_test_faucet rt w dks = Inr w'"
    using that unfolding close_test_faucet_def run_simps account.sel sum.inject
    by (elim exE conjE) (auto simp: tells_def event_simps snapshot_update load_some simp del: fun_upd_apply)
qed

lemma faucet_tells:
  "process_faucet rt tp w i = Inr w' \<Longrightarrow> tells w w' (faucet_events w i)"
  by (cases i) (auto dest: test_faucet_tells)

section \<open>Orders, fills and ledgers\<close>

text \<open>A spot instruction tells of everything but the ledgers, and of the ledgers too when every ledger
  sits at its address, which it keeps so.\<close>

definition tells_spot :: "runtime \<Rightarrow> world \<Rightarrow> world \<Rightarrow> ProgramEvent res \<Rightarrow> bool" where
  "tells_spot rt w w' r \<longleftrightarrow> (\<exists>e. r = Inr e \<and>
     beside_ledgers (apply_event (mirror_event e) (snapshot w)) = beside_ledgers (snapshot w') \<and>
     (ledgers_at_home rt w \<longrightarrow> ledgers_at_home rt w' \<and>
        pj_ledgers (apply_event (mirror_event e) (snapshot w)) = pj_ledgers (snapshot w')))"

lemma word_sum:
  assumes "unat x = unat a + unat b"
  shows "x = a + (b :: 'a::len word)"
proof -
  have "unat a + unat b < 2 ^ LENGTH('a)" unfolding assms [symmetric] by (rule unsigned_less)
  with assms show ?thesis by (simp add: word_unat_eq_iff unat_word_ariths)
qed

lemma word_rest: "unat x = unat a + unat b \<Longrightarrow> b = x - (a :: 'a::len word)"
  using word_sum [of x a b] by simp

lemma checked_sub_le: "unat b \<le> unat a \<Longrightarrow> checked_sub a b = Some (a - (b :: 'a::len word))"
  by (simp add: unat_sub word_le_nat_alt)

lemma ledger_info_sel [simp]:
  "le_market (ledger_info b) = tb_market b" "le_owner (ledger_info b) = tb_owner b"
  "le_base_free (ledger_info b) = tb_base_free b" "le_base_locked (ledger_info b) = tb_base_locked b"
  "le_quote_free (ledger_info b) = tb_quote_free b" "le_quote_locked (ledger_info b) = tb_quote_locked b"
  by (simp_all add: ledger_info_def)

lemma ledger_infoI:
  assumes "le_market a = le_market b" "le_owner a = le_owner b" "le_base_free a = le_base_free b"
    "le_base_locked a = le_base_locked b" "le_quote_free a = le_quote_free b" "le_quote_locked a = le_quote_locked b"
  shows "a = (b :: LedgerInfo)"
  using assms by (cases a; cases b) simp

lemma lock_told:
  "lock_amounts side b c = Inr (free, locked) \<Longrightarrow>
     ledger_info (set_side_balance side free locked b) = lock_ledger (mirror_side side) c (ledger_info b)"
  unfolding lock_amounts_Inr by (cases side; rule ledger_infoI) (auto dest!: word_sum)

lemma release_told:
  "release_amounts side b c = Inr (free, locked) \<Longrightarrow>
     ledger_info (set_side_balance side free locked b) = release_ledger (mirror_side side) c (ledger_info b)"
  unfolding release_amounts_Inr by (cases side; rule ledger_infoI) (auto dest!: word_sum)

lemma one_ledger:
  assumes home: "ledgers_at_home rt w" and b: "ledgers w k = Some b" and mo: "tb_market b = m" "tb_owner b = ow"
  shows "on_ledger m ow f (pj_ledgers (snapshot w)) = (pj_ledgers (snapshot w))(k \<mapsto> f (ledger_info b))"
proof (rule ext)
  fix j
  show "on_ledger m ow f (pj_ledgers (snapshot w)) j = ((pj_ledgers (snapshot w))(k \<mapsto> f (ledger_info b))) j"
  proof (cases "j = k")
    case True
    with b mo show ?thesis by (simp add: on_ledger_def)
  next
    case False
    have "\<not> (tb_market b' = m \<and> tb_owner b' = ow)" if "ledgers w j = Some b'" for b'
      using home that b mo False unfolding ledgers_at_home_def by metis
    with False show ?thesis by (cases "ledgers w j") (auto simp: on_ledger_def)
  qed
qed

lemma home_update:
  assumes "ledgers_at_home rt w" "ledgers w k = Some b" "ledgers w' = (ledgers w)(k \<mapsto> b')"
    "tb_market b' = tb_market b" "tb_owner b' = tb_owner b"
  shows "ledgers_at_home rt w'"
  using assms by (simp add: ledgers_at_home_def)

lemma placed_told:
  assumes w': "w' = w\<lparr>w_spot := st'\<rparr>" and rest: "ss_configs st' = ss_configs (w_spot w)"
    and orders: "\<And>j. Option.bind (ss_orders st' j) order_info =
      ((pj_orders (snapshot w))(k \<mapsto> order)) j"
    and markets: "\<And>j. map_option market_info (ss_markets st' j) = pj_markets (snapshot w) j"
    and b: "ledgers w kb = Some b" "tb_market b = m" "tb_owner b = ow"
    and bals: "ss_balances st' = (ledgers w)(kb \<mapsto> set_side_balance side free locked b)"
    and lock: "lock_amounts side b c = Inr (free, locked)"
    and e: "order_placed_order e = k" "order_placed_market e = m" "order_placed_owner e = ow"
      "order_placed_side e = mirror_side side" "order_placed_locked_collateral e = c"
      "order = \<lparr>oo_market = m, oo_id = order_placed_order_id e, oo_owner = ow, oo_side = mirror_side side,
        oo_price = order_placed_price e, oo_quantity = order_placed_quantity e,
        oo_remaining = order_placed_quantity e, oo_locked = c, oo_level = order_placed_price_level e\<rparr>"
  shows "beside_ledgers (apply_order (OrderPlaced e) (snapshot w)) = beside_ledgers (snapshot w') \<and>
    (ledgers_at_home rt w \<longrightarrow> ledgers_at_home rt w' \<and>
      pj_ledgers (apply_order (OrderPlaced e) (snapshot w)) = pj_ledgers (snapshot w'))"
proof (intro conjI impI)
  show "beside_ledgers (apply_order (OrderPlaced e) (snapshot w)) = beside_ledgers (snapshot w')"
    using orders markets by (intro projection_eqI ext) (simp_all add: w' rest e)
next
  assume home: "ledgers_at_home rt w"
  show "ledgers_at_home rt w'"
    by (rule home_update [OF home b(1), of w' "set_side_balance side free locked b"]) (simp_all add: w' bals)
  show "pj_ledgers (apply_order (OrderPlaced e) (snapshot w)) = pj_ledgers (snapshot w')"
    using one_ledger [OF home b, of "lock_ledger (mirror_side side) c"] lock_told [OF lock]
    by (simp add: e w' bals del: fun_upd_apply)
qed

lemma insert_tells:
  assumes ok: "insert_limit_order rt (w_spot w) ks side p q = Inr st'"
  shows "tells_spot rt w (w\<lparr>w_spot := st'\<rparr>) (emit_insert_limit_order (w_spot w) ks side p q)"
proof (rule insert_limit_order_ok [OF ok])
  fix mk tb bl wl c free locked next_id next_open
  assume mk: "ss_markets (w_spot w) (ilk_market ks) = Some mk"
    and col: "required_collateral side p q (mkt_base_decimals mk) = Inr c"
    and tb: "ss_balances (w_spot w) (ilk_trader_balance ks) = Some tb" "tb_market tb = ilk_market ks"
      "tb_owner tb = ilk_trader ks"
    and lock: "lock_amounts side tb c = Inr (free, locked)"
    and st': "st' = insert_effect rt ks side p q mk bl wl tb c free locked next_id next_open (w_spot w)"
  let ?e = "\<lparr>order_placed_market = ilk_market ks, order_placed_order = ilk_order ks,
     order_placed_order_id = mkt_next_order_id mk, order_placed_owner = ilk_trader ks,
     order_placed_side = mirror_side side, order_placed_price = p, order_placed_quantity = q,
     order_placed_locked_collateral = c, order_placed_price_level = ilk_price_level ks\<rparr>"
  have told: "beside_ledgers (apply_order (OrderPlaced ?e) (snapshot w)) = beside_ledgers (snapshot (w\<lparr>w_spot := st'\<rparr>)) \<and>
    (ledgers_at_home rt w \<longrightarrow> ledgers_at_home rt (w\<lparr>w_spot := st'\<rparr>) \<and>
      pj_ledgers (apply_order (OrderPlaced ?e) (snapshot w)) = pj_ledgers (snapshot (w\<lparr>w_spot := st'\<rparr>)))"
    by (rule placed_told [OF refl _ _ _ tb _ lock]; simp add: st' insert_effect_def mk order_info_def placed_order_def)
  show ?thesis
    unfolding tells_spot_def using told mk col
    by (auto simp: emit_insert_limit_order_def load_some mirror_order_placed_def simp del: apply_order.simps)
qed

lemma append_tells:
  assumes ok: "append_limit_order rt (w_spot w) ks side p q = Inr st'"
  shows "tells_spot rt w (w\<lparr>w_spot := st'\<rparr>) (emit_append_limit_order (w_spot w) ks side p q)"
proof (rule append_limit_order_ok [OF ok])
  fix mk lv prev tb c free locked next_id next_open tot cnt
  assume mk: "ss_markets (w_spot w) (alk_market ks) = Some mk"
    and fresh: "ss_orders (w_spot w) (alk_order ks) = None"
    and prev: "ss_orders (w_spot w) (alk_previous_order ks) = Some prev"
    and col: "required_collateral side p q (mkt_base_decimals mk) = Inr c"
    and tb: "ss_balances (w_spot w) (alk_trader_balance ks) = Some tb" "tb_market tb = alk_market ks"
      "tb_owner tb = alk_trader ks"
    and lock: "lock_amounts side tb c = Inr (free, locked)"
    and st': "st' = append_effect rt ks side p q mk lv prev tb c free locked next_id next_open tot cnt (w_spot w)"
  let ?e = "\<lparr>order_placed_market = alk_market ks, order_placed_order = alk_order ks,
     order_placed_order_id = mkt_next_order_id mk, order_placed_owner = alk_trader ks,
     order_placed_side = mirror_side side, order_placed_price = p, order_placed_quantity = q,
     order_placed_locked_collateral = c, order_placed_price_level = alk_price_level ks\<rparr>"
  have told: "beside_ledgers (apply_order (OrderPlaced ?e) (snapshot w)) = beside_ledgers (snapshot (w\<lparr>w_spot := st'\<rparr>)) \<and>
    (ledgers_at_home rt w \<longrightarrow> ledgers_at_home rt (w\<lparr>w_spot := st'\<rparr>) \<and>
      pj_ledgers (apply_order (OrderPlaced ?e) (snapshot w)) = pj_ledgers (snapshot (w\<lparr>w_spot := st'\<rparr>)))"
    by (rule placed_told [OF refl _ _ _ tb _ lock];
        simp add: st' append_effect_def mk prev order_info_def placed_order_def)
  show ?thesis
    unfolding tells_spot_def using told mk col
    by (auto simp: emit_append_limit_order_def load_some mirror_order_placed_def simp del: apply_order.simps)
qed

lemma cancel_tells:
  assumes ok: "cancel_limit_order rt (w_spot w) ks i = Inr st'"
  shows "tells_spot rt w (w\<lparr>w_spot := st'\<rparr>) (emit_cancel_limit_order (w_spot w) ks)"
proof (rule cancel_limit_order_ok [OF ok])
  fix mk r lv tb pa na ba wa free locked next_open cnt tot
  assume mk: "ss_markets (w_spot w) (clk_market ks) = Some mk"
    and r: "ss_orders (w_spot w) (clk_order ks) = Some r" "ord_owner r = clk_owner ks"
    and lv: "ss_levels (w_spot w) (clk_price_level ks) = Some lv" "unat (lvl_order_count lv) = 1 + unat cnt"
    and links: "loaded (ss_orders (w_spot w)) (clk_previous_order ks) pa"
      "loaded (ss_orders (w_spot w)) (clk_next_order ks) na"
    and apart: "distinct (keys_of [Some (clk_order ks), clk_previous_order ks, clk_next_order ks])"
    and tb: "ss_balances (w_spot w) (clk_trader_balance ks) = Some tb" "tb_market tb = clk_market ks"
      "tb_owner tb = clk_owner ks"
    and free: "release_amounts (ord_side r) tb (ord_locked_collateral r) = Inr (free, locked)"
    and st': "st' = cancel_effect ks mk r lv tb pa na ba wa free locked next_open cnt tot (w_spot w)"
  let ?w = "w\<lparr>w_spot := st'\<rparr>"
  let ?e = "\<lparr>order_canceled_market = clk_market ks, order_canceled_order = clk_order ks,
     order_canceled_order_id = ord_order_id r, order_canceled_owner = ord_owner r,
     order_canceled_side = mirror_side (ord_side r), order_canceled_price = ord_price r,
     order_canceled_canceled_quantity = ord_remaining_quantity r,
     order_canceled_released_collateral = ord_locked_collateral r,
     order_canceled_price_level = clk_price_level ks, order_canceled_price_level_closed = (cnt = 0)\<rparr>"
  let ?pj = "apply_order (OrderCanceled ?e) (snapshot w)"
  have orders: "pj_orders (snapshot ?w) j = pj_orders ?pj j" for j
    using links apart
    by (cases pa; cases na) (auto simp: st' cancel_effect_def order_info_def closed_order_def save_opt_apply keys_of_def)
  have "beside_ledgers ?pj = beside_ledgers (snapshot ?w)"
    using orders mk by (intro projection_eqI ext) (auto simp: st' cancel_effect_def)
  moreover have "ledgers_at_home rt ?w \<and> pj_ledgers ?pj = pj_ledgers (snapshot ?w)" if home: "ledgers_at_home rt w"
  proof
    show "ledgers_at_home rt ?w"
      by (rule home_update [OF home tb(1), of ?w "set_side_balance (ord_side r) free locked tb"])
        (simp_all add: st' cancel_effect_def)
    show "pj_ledgers ?pj = pj_ledgers (snapshot ?w)"
      using one_ledger [OF home tb, of "release_ledger (mirror_side (ord_side r)) (ord_locked_collateral r)"]
        release_told [OF free] r(2)
      by (simp add: st' cancel_effect_def del: fun_upd_apply)
  qed
  moreover have "\<exists>ev. emit_cancel_limit_order (w_spot w) ks = Inr (EmitOrderCanceled ev) \<and> mirror_order_canceled ev = ?e"
    using r lv
    by (simp add: emit_cancel_limit_order_def load_some mirror_order_canceled_def checked_sub_Some [THEN iffD2] ok_or_def)
  ultimately show ?thesis
    unfolding tells_spot_def by (metis mirror_event.simps(8) apply_event.simps(2))
qed

text \<open>The fill event carries enough to settle both ledgers and the maker's order.\<close>

lemma fill_rest_plan:
  assumes "calculate_settlement ts lim q ms mp mr lc d = Inr plan" "unat mr = unat (base_quantity (fill plan)) + unat rem"
  shows "rem = 0 \<longleftrightarrow> maker_fully_filled plan"
  using assms by (simp add: calculate_settlement_Inr word_unat_eq_iff)

lemma fill_debit_plan:
  assumes plan: "calculate_settlement ts lim q ms mp mr lc d = Inr plan"
    and rem: "unat mr = unat (base_quantity (fill plan)) + unat rem"
    and e: "fill_maker_remaining_quantity e = rem" "fill_maker_side e = mirror_side ms"
      "fill_base_quantity e = base_quantity (fill plan)" "fill_quote_quantity e = quote_quantity (fill plan)"
  shows "fill_debit e lc = maker_locked_debit plan"
  using plan fill_rest_plan [OF plan rem] by (cases ms) (auto simp: calculate_settlement_Inr fill_debit_def e)

lemma settled_told:
  assumes plan: "calculate_settlement ts lim q ms mp mr lc d = Inr plan"
    and settle: "settle_balances ts plan fee tb mb = Inr (tb', mb')"
    and debit: "fill_debit e lc = maker_locked_debit plan"
    and e: "fill_maker_side e = mirror_side ms" "fill_taker_fee_quote e = fee"
      "fill_base_quantity e = base_quantity (fill plan)" "fill_quote_quantity e = quote_quantity (fill plan)"
  shows "ledger_info tb' = fill_taker_ledger e (ledger_info tb)"
    and "ledger_info mb' = fill_maker_ledger e lc (ledger_info mb)"
proof -
  let ?b = "base_quantity (fill plan)" and ?q = "quote_quantity (fill plan)"
  note id = settle_identity [OF settle]
  have "ledger_info tb' = fill_taker_ledger e (ledger_info tb) \<and> ledger_info mb' = fill_maker_ledger e lc (ledger_info mb)"
  proof (cases ts)
    case Bid
    then have ms: "ms = Ask" using plan by (cases ms) (auto simp: calculate_settlement_Inr)
    note ok = settle_Bid_ok [OF settle [unfolded Bid]]
    have "unat ?q + unat fee < 2 ^ 64" using ok(1) unat_u64_bound [of "tb_quote_free tb"] by simp
    then have "unat (tb_quote_free tb) = unat (?q + fee) + unat (tb_quote_free tb')"
      using ok(1) by (simp add: unat_word_ariths)
    note w = word_rest [OF this] word_sum [OF ok(2)] word_rest [OF ok(3)] word_sum [OF ok(4)]
    show ?thesis
      using ok(5,6) w by (intro conjI ledger_infoI)
        (simp_all add: id fill_taker_ledger_def fill_maker_ledger_def e ms debit)
  next
    case Ask
    then have ms: "ms = Bid" using plan by (cases ms) (auto simp: calculate_settlement_Inr)
    note ok = settle_Ask_ok [OF settle [unfolded Ask]]
    have "unat (tb_quote_free tb') = unat (tb_quote_free tb) + unat (?q - fee)"
      using ok(1,3) by (simp add: unat_sub word_le_nat_alt)
    note w = word_sum [OF this] word_rest [OF ok(2)] word_rest [OF ok(4)] word_sum [OF ok(5)] word_sum [OF ok(6)]
    have "maker_quote_refund plan = maker_locked_debit plan - ?q"
      using plan ms by (simp add: calculate_settlement_Inr)
    then show ?thesis
      using ok(7,8) w by (intro conjI ledger_infoI)
        (simp_all add: id fill_taker_ledger_def fill_maker_ledger_def e ms debit)
  qed
  then show "ledger_info tb' = fill_taker_ledger e (ledger_info tb)"
    and "ledger_info mb' = fill_maker_ledger e lc (ledger_info mb)" by simp_all
qed

lemma match_tells:
  assumes ok: "match_limit_order rt (w_spot w) ks ts lim q = Inr st'"
  shows "tells_spot rt w (w\<lparr>w_spot := st'\<rparr>) (emit_match_limit_order (w_spot w) ks ts lim q)"
proof (rule match_limit_order_ok [OF ok])
  fix mk cfg fees r lv na wa mb tb plan fee mb' tb' accrued rem coll tot cnt next_open
  assume mk: "ss_markets (w_spot w) (mlk_market ks) = Some mk"
    and cfg: "ss_configs (w_spot w) (mlk_protocol_config ks) = Some cfg"
    and r: "ss_orders (w_spot w) (mlk_maker_order ks) = Some r" "ord_market r = mlk_market ks" "ord_status r = Open"
    and na: "loaded (ss_orders (w_spot w)) (mlk_next_order ks) na" "mlk_next_order ks \<noteq> Some (mlk_maker_order ks)"
    and mb: "ss_balances (w_spot w) (mlk_maker_balance ks) = Some mb" "tb_market mb = mlk_market ks" "tb_owner mb = ord_owner r"
    and tb: "ss_balances (w_spot w) (mlk_taker_balance ks) = Some tb" "tb_market tb = mlk_market ks" "tb_owner tb = mlk_taker ks"
    and ne: "mlk_maker_balance ks \<noteq> mlk_taker_balance ks"
    and plan: "calculate_settlement ts lim q (ord_side r) (ord_price r) (ord_remaining_quantity r)
       (ord_locked_collateral r) (mkt_base_decimals mk) = Inr plan"
    and fee: "calculate_taker_fee (quote_quantity (fill plan)) (cfg_taker_fee_bps cfg) = Inr fee"
    and rem: "unat (ord_remaining_quantity r) = unat (base_quantity (fill plan)) + unat rem"
    and coll: "unat (ord_locked_collateral r) = unat (maker_locked_debit plan) + unat coll"
    and settle: "settle_balances ts plan fee tb mb = Inr (tb', mb')"
    and st': "st' = match_effect ks mk fees r lv na wa tb' mb' (maker_fully_filled plan) accrued rem coll tot
       cnt next_open (w_spot w)"
  let ?w = "w\<lparr>w_spot := st'\<rparr>"
  let ?e = "\<lparr>fill_market = mlk_market ks, fill_maker_order = mlk_maker_order ks, fill_maker_order_id = ord_order_id r,
     fill_maker = ord_owner r, fill_taker = mlk_taker ks, fill_maker_side = mirror_side (ord_side r),
     fill_execution_price = execution_price (fill plan), fill_base_quantity = base_quantity (fill plan),
     fill_quote_quantity = quote_quantity (fill plan), fill_taker_fee_quote = fee,
     fill_maker_remaining_quantity = rem, fill_taker_remaining_quantity = q - base_quantity (fill plan)\<rparr>"
  let ?pj = "apply_fill ?e (snapshot w)"
  have debit: "fill_debit ?e (ord_locked_collateral r) = maker_locked_debit plan"
    and full: "rem = 0 \<longleftrightarrow> maker_fully_filled plan"
    by (rule fill_debit_plan [OF plan rem]; simp) (rule fill_rest_plan [OF plan rem])
  note told = settled_told [OF plan settle debit]
  obtain info where info: "order_info r = Some info" "oo_locked info = ord_locked_collateral r"
    using r(3) by (simp add: order_info_def)
  have pj: "?pj = (snapshot w)\<lparr>pj_orders := (pj_orders (snapshot w))(mlk_maker_order ks := fill_order ?e info),
      pj_ledgers := on_ledger (mlk_market ks) (mlk_taker ks) (fill_taker_ledger ?e)
        (on_ledger (mlk_market ks) (ord_owner r) (fill_maker_ledger ?e (ord_locked_collateral r)) (pj_ledgers (snapshot w)))\<rparr>"
    using r(1) info by (simp add: apply_fill_def)
  have filled: "fill_order ?e info = order_info (if maker_fully_filled plan then closed_order Filled r
      else r\<lparr>ord_remaining_quantity := rem, ord_locked_collateral := coll\<rparr>)"
    using r(3) info full debit word_rest [OF coll] by (auto simp: fill_order_def order_info_def closed_order_def)
  have orders: "pj_orders (snapshot ?w) j = pj_orders ?pj j" for j
    unfolding pj using na filled
    by (cases na) (auto simp: st' match_effect_def save_opt_apply)
  have "beside_ledgers ?pj = beside_ledgers (snapshot ?w)"
    using orders mk unfolding pj by (intro projection_eqI ext) (auto simp: st' match_effect_def)
  moreover have "ledgers_at_home rt ?w \<and> pj_ledgers ?pj = pj_ledgers (snapshot ?w)" if home: "ledgers_at_home rt w"
  proof -
    let ?w1 = "w\<lparr>w_spot := (w_spot w)\<lparr>ss_balances := (ledgers w)(mlk_maker_balance ks \<mapsto> mb')\<rparr>\<rparr>"
    note id = settle_identity [OF settle]
    have home1: "ledgers_at_home rt ?w1" by (rule home_update [OF home mb(1), of ?w1 mb']) (simp_all add: id)
    have tb1: "ledgers ?w1 (mlk_taker_balance ks) = Some tb" using tb(1) ne by simp
    have "ledgers_at_home rt ?w"
      by (rule home_update [OF home1 tb1, of ?w tb']) (simp_all add: id st' match_effect_def)
    moreover have "pj_ledgers ?pj = pj_ledgers (snapshot ?w)"
      using one_ledger [OF home mb, of "fill_maker_ledger ?e (ord_locked_collateral r)"]
        one_ledger [OF home1 tb1 tb(2,3), of "fill_taker_ledger ?e"] told
      unfolding pj by (simp add: st' match_effect_def del: fun_upd_apply)
    ultimately show ?thesis by blast
  qed
  moreover have "\<exists>ev. emit_match_limit_order (w_spot w) ks ts lim q = Inr (EmitFill ev) \<and> mirror_fill ev = ?e"
  proof -
    have "unat (base_quantity (fill plan)) \<le> unat q"
      using plan by (simp add: calculate_settlement_Inr calculate_fill_Inr min_def word_le_nat_alt)
    then have "checked_sub q (base_quantity (fill plan)) = Some (q - base_quantity (fill plan))" by (rule checked_sub_le)
    then show ?thesis
      using mk cfg r(1) plan fee rem
      by (simp add: emit_match_limit_order_def load_some mirror_fill_def checked_sub_Some [THEN iffD2] ok_or_def)
  qed
  ultimately show ?thesis unfolding tells_spot_def by (metis mirror_event.simps(9) apply_event.simps(3))
qed

lemma spot_tellsI:
  assumes "r = Inr e" "apply_event (mirror_event e) (snapshot w) = snapshot w'"
    "ledgers_at_home rt w \<Longrightarrow> ledgers_at_home rt w'"
  shows "tells_spot rt w w' r"
  using assms by (auto simp: tells_spot_def)

lemma free_told:
  assumes "mint = mkt_base_mint mk \<or> mint = mkt_quote_mint mk"
  shows "ledger_info (set_free mk mint free b) = set_free_ledger (Some (market_info mk)) mint free (ledger_info b)"
  using assms by (intro ledger_infoI) (auto simp: set_free_def set_free_ledger_def)

lemma put_balance_snapshot:
  "snapshot (put_balance k b ts w) = snapshot w\<lparr>pj_ledgers := (pj_ledgers (snapshot w))(k \<mapsto> ledger_info b)\<rparr>"
  by (rule projection_eqI) (simp_all add: put_balance_def del: fun_upd_apply)

lemma deposit_tells:
  assumes ok: "deposit rt tp w ks amount = Inr w'"
  shows "tells_spot rt' w w' (emit_deposit w ks amount)"
proof (rule deposit_ok [OF ok])
  fix mk b dm ta free ts
  assume mk: "ss_markets (w_spot w) (dep_market ks) = Some mk"
    and b: "ledgers w (dep_trader_balance ks) = Some b"
    and free: "credit_free mk (dep_deposit_mint ks) b amount = Inr free"
    and w': "put_balance (dep_trader_balance ks) (set_free mk (dep_deposit_mint ks) free b) ts w = w'"
  have side: "dep_deposit_mint ks = mkt_base_mint mk \<or> dep_deposit_mint ks = mkt_quote_mint mk"
    using free by (auto simp: credit_free_Inr)
  show ?thesis
  proof (rule spot_tellsI)
    show "emit_deposit w ks amount = Inr (EmitDeposit
       \<lparr>on_deposit_market = dep_market ks, on_deposit_owner = dep_owner ks,
        on_deposit_trader_balance = dep_trader_balance ks, on_deposit_mint = dep_deposit_mint ks,
        on_deposit_market_vault = dep_market_vault ks, on_deposit_amount = amount, on_deposit_free_balance = free\<rparr>)"
      (is "_ = Inr ?e") using mk b free by (simp add: emit_deposit_def load_some Let_def)
    show "apply_event (mirror_event ?e) (snapshot w) = snapshot w'"
      using mk b free_told [OF side, of free b]
      by (simp add: mirror_deposit_def adjust_def w' [symmetric] put_balance_snapshot del: fun_upd_apply)
    show "ledgers_at_home rt' w'" if "ledgers_at_home rt' w"
      by (rule home_update [OF that b, of w' "set_free mk (dep_deposit_mint ks) free b"]) (simp_all add: w' [symmetric])
  qed
qed

lemma withdraw_tells:
  assumes ok: "withdraw rt tp w ks amount = Inr w'"
  shows "tells_spot rt' w w' (emit_withdraw w ks amount)"
proof (rule withdraw_ok [OF ok])
  fix mk b dm ta free ts
  assume mk: "ss_markets (w_spot w) (wd_market ks) = Some mk"
    and b: "ledgers w (wd_trader_balance ks) = Some b"
    and free: "debit_free mk (wd_withdrawal_mint ks) b amount = Inr free"
    and w': "put_balance (wd_trader_balance ks) (set_free mk (wd_withdrawal_mint ks) free b) ts w = w'"
  have side: "wd_withdrawal_mint ks = mkt_base_mint mk \<or> wd_withdrawal_mint ks = mkt_quote_mint mk"
    using free by (auto simp: debit_free_Inr)
  show ?thesis
  proof (rule spot_tellsI)
    show "emit_withdraw w ks amount = Inr (EmitWithdrawal
       \<lparr>on_withdrawal_market = wd_market ks, on_withdrawal_owner = wd_owner ks,
        on_withdrawal_trader_balance = wd_trader_balance ks, on_withdrawal_mint = wd_withdrawal_mint ks,
        on_withdrawal_market_vault = wd_market_vault ks, on_withdrawal_amount = amount,
        on_withdrawal_free_balance = free\<rparr>)"
      (is "_ = Inr ?e") using mk b free by (simp add: emit_withdraw_def load_some Let_def)
    show "apply_event (mirror_event ?e) (snapshot w) = snapshot w'"
      using mk b free_told [OF side, of free b]
      by (simp add: mirror_withdrawal_def adjust_def w' [symmetric] put_balance_snapshot del: fun_upd_apply)
    show "ledgers_at_home rt' w'" if "ledgers_at_home rt' w"
      by (rule home_update [OF that b, of w' "set_free mk (wd_withdrawal_mint ks) free b"]) (simp_all add: w' [symmetric])
  qed
qed

lemma fees_tells:
  assumes ok: "withdraw_protocol_fees rt tp w ks amount = Inr w'"
  shows "tells_spot rt' w w' (emit_withdraw_protocol_fees w ks amount)"
proof (rule withdraw_protocol_fees_ok [OF ok])
  fix c mk f dm next_fees ts
  assume f: "ss_fees (w_spot w) (wpf_market_fees ks) = Some f"
    and fees: "unat (mf_accrued_quote_fees f) = unat amount + unat next_fees"
    and w': "w\<lparr>w_spot := (w_spot w)\<lparr>ss_fees := save (upd_inner (\<lambda>f. f\<lparr>mf_accrued_quote_fees := next_fees\<rparr>)
        (Account (wpf_market_fees ks) f)) (ss_fees (w_spot w))\<rparr>, w_tokens := ts\<rparr> = w'"
  have "snapshot w' = snapshot w" unfolding w' [symmetric] by (rule projection_eqI) simp_all
  moreover have "ledgers w' = ledgers w" by (simp add: w' [symmetric])
  moreover have "\<exists>ev. emit_withdraw_protocol_fees w ks amount = Inr (EmitProtocolFeesWithdrawn ev)"
    using f fees by (simp add: emit_withdraw_protocol_fees_def load_some checked_sub_Some [THEN iffD2] ok_or_def)
  ultimately show ?thesis by (auto simp: ledgers_at_home_def intro: spot_tellsI)
qed

lemma open_ledger_tells:
  assumes ok: "initialize_trader_balance rt w ks = Inr w'"
  shows "tells_spot rt w w' (emit_initialize_trader_balance ks)"
proof -
  let ?k = "itb_trader_balance ks" and ?m = "itb_market ks" and ?o = "itb_owner ks"
  let ?b = "\<lparr>tb_market = ?m, tb_owner = ?o, tb_base_free = 0, tb_base_locked = 0, tb_quote_free = 0,
    tb_quote_locked = 0, tb_bump = snd (pda rt (TraderBalancePda ?m ?o))\<rparr>"
  have k: "?k = address rt (TraderBalancePda ?m ?o)"
    and w': "w' = w\<lparr>w_spot := (w_spot w)\<lparr>ss_balances := (ledgers w)(?k \<mapsto> ?b)\<rparr>\<rparr>"
    using ok unfolding initialize_trader_balance_def run_simps account.sel sum.inject by (elim exE conjE, simp)+
  show ?thesis
  proof (rule spot_tellsI)
    show "emit_initialize_trader_balance ks = Inr (EmitTraderBalanceInitialized
       \<lparr>on_trader_balance_initialized_market = ?m, on_trader_balance_initialized_owner = ?o,
        on_trader_balance_initialized_trader_balance = ?k\<rparr>)" (is "_ = Inr ?e")
      by (simp add: emit_initialize_trader_balance_def)
    show "apply_event (mirror_event ?e) (snapshot w) = snapshot w'"
      unfolding w' by (simp add: mirror_trader_balance_initialized_def snapshot_update ledger_info_def
          del: fun_upd_apply snapshot_sel)
    show "ledgers_at_home rt w'" if "ledgers_at_home rt w"
      using that k unfolding ledgers_at_home_def w' by simp
  qed
qed

lemma on_spot_result: "on_spot w r = Inr w' \<longleftrightarrow> (\<exists>st. r = Inr st \<and> w' = w\<lparr>w_spot := st\<rparr>)"
  by (cases r) (auto simp: on_spot_def)

lemma spot_tells:
  assumes "process_spot rt tp w i = Inr w'"
  shows "tells_spot rt w w' (spot_events w i)"
  using assms
  by (cases i) (auto simp: on_spot_result intro: insert_tells append_tells cancel_tells match_tells deposit_tells
      withdraw_tells fees_tells open_ledger_tells)

end
