(* ===== verification/Event_Log.thy ===== *)
theory Event_Log
  imports Replay_Steps
begin

text \<open>
  The log of a chain as an indexer reads it: whatever the program and others did, decoding the emitted
  payloads and replaying them rebuilds the accounts.
\<close>

section \<open>One instruction\<close>

lemma replay_append: "replay (xs @ ys) pj = replay ys (replay xs pj)"
  by (simp add: replay_def)

lemma replay_one [simp]: "replay [e] pj = apply_event e pj" "replay [] pj = pj"
  by (simp_all add: replay_def)

lemma ledgers_at_home_time [simp]: "ledgers_at_home (at_time now rt) w = ledgers_at_home rt w"
  by (simp add: ledgers_at_home_def)

text \<open>What an event does to everything but the ledgers does not depend on the ledgers.\<close>

lemma beside_eq_iff:
  "beside_ledgers a = beside_ledgers b \<longleftrightarrow> pj_orders a = pj_orders b \<and> pj_markets a = pj_markets b \<and>
     pj_roles a = pj_roles b \<and> pj_configs a = pj_configs b \<and> pj_labels a = pj_labels b \<and> pj_faucets a = pj_faucets b"
  by (auto intro: projection_eqI dest: arg_cong [of _ _ pj_orders] arg_cong [of _ _ pj_markets]
      arg_cong [of _ _ pj_roles] arg_cong [of _ _ pj_configs] arg_cong [of _ _ pj_labels] arg_cong [of _ _ pj_faucets])

lemma apply_market_beside:
  "beside_ledgers a = beside_ledgers b \<Longrightarrow> beside_ledgers (apply_market e a) = beside_ledgers (apply_market e b)"
  by (cases e) (simp_all add: beside_eq_iff)

lemma apply_order_beside:
  "beside_ledgers a = beside_ledgers b \<Longrightarrow> beside_ledgers (apply_order e a) = beside_ledgers (apply_order e b)"
  by (cases e) (simp_all add: beside_eq_iff)

lemma apply_fill_beside:
  "beside_ledgers a = beside_ledgers b \<Longrightarrow> beside_ledgers (apply_fill e a) = beside_ledgers (apply_fill e b)"
  by (cases "pj_orders b (fill_maker_order e)") (simp_all add: beside_eq_iff apply_fill_def)

lemma apply_balance_beside:
  "beside_ledgers a = beside_ledgers b \<Longrightarrow> beside_ledgers (apply_balance e a) = beside_ledgers (apply_balance e b)"
  by (cases e) (simp_all add: beside_eq_iff)

lemma apply_governance_beside:
  "beside_ledgers a = beside_ledgers b \<Longrightarrow> beside_ledgers (apply_governance e a) = beside_ledgers (apply_governance e b)"
  by (cases e) (simp_all add: beside_eq_iff)

lemma apply_faucet_beside:
  "beside_ledgers a = beside_ledgers b \<Longrightarrow> beside_ledgers (apply_faucet e a) = beside_ledgers (apply_faucet e b)"
  by (cases e) (simp_all add: beside_eq_iff)

lemma apply_event_beside:
  assumes "beside_ledgers a = beside_ledgers b"
  shows "beside_ledgers (apply_event e a) = beside_ledgers (apply_event e b)"
  by (cases e) (simp_all add: assms apply_market_beside [OF assms] apply_order_beside [OF assms]
      apply_fill_beside [OF assms] apply_balance_beside [OF assms] apply_governance_beside [OF assms]
      apply_faucet_beside [OF assms])

lemma replay_beside:
  "beside_ledgers a = beside_ledgers b \<Longrightarrow> beside_ledgers (replay es a) = beside_ledgers (replay es b)"
proof (induction es arbitrary: a b)
  case (Cons e es)
  from Cons.IH [OF apply_event_beside [OF Cons.prems, of e]] show ?case by (simp add: replay_def)
qed simp

text \<open>Equal snapshots have ledgers of the same markets and owners.\<close>

lemma home_snapshot:
  assumes same: "snapshot w' = snapshot w" and home: "ledgers_at_home rt w"
  shows "ledgers_at_home rt w'"
  unfolding ledgers_at_home_def
proof (intro allI impI)
  fix k b
  assume b: "ledgers w' k = Some b"
  have "map_option ledger_info (ledgers w' k) = map_option ledger_info (ledgers w k)"
    using fun_cong [OF arg_cong [OF same, of pj_ledgers], of k] by simp
  with b obtain b0 where "ledgers w k = Some b0" "ledger_info b0 = ledger_info b" by (cases "ledgers w k") auto
  then have "ledgers w k = Some b0" "tb_market b0 = tb_market b" "tb_owner b0 = tb_owner b"
    by (simp_all add: ledger_info_def)
  then show "k = address rt (TraderBalancePda (tb_market b) (tb_owner b))"
    using home unfolding ledgers_at_home_def by metis
qed

text \<open>An instruction and its events: the log keeps up with everything but the ledgers, and with the
  ledgers too unless the instruction moves a spot balance to the shared wallet.\<close>

definition told :: "runtime \<Rightarrow> world \<Rightarrow> world \<Rightarrow> instruction \<Rightarrow> ProgramEvent list \<Rightarrow> bool" where
  "told rt w w' i es \<longleftrightarrow>
    beside_ledgers (replay (map mirror_event es) (snapshot w)) = beside_ledgers (snapshot w') \<and>
    ((\<forall>ctx amount. i \<noteq> Shared (IxMigrateSpotAsset ctx amount)) \<longrightarrow> ledgers_at_home rt w \<longrightarrow>
      ledgers_at_home rt w' \<and> replay (map mirror_event es) (snapshot w) = snapshot w')"

lemma told_silent: "snapshot w' = snapshot w \<Longrightarrow> told rt w w' i []"
  unfolding told_def list.map replay_one by (intro conjI impI) (simp_all only: home_snapshot)

lemma told_event:
  assumes "tells w w' r" "ledgers w' = ledgers w"
  shows "\<exists>es. one_event r = Inr es \<and> told rt w w' i es"
proof -
  obtain e where e: "r = Inr e" "apply_event (mirror_event e) (snapshot w) = snapshot w'"
    using assms(1) unfolding tells_def by (elim exE conjE)
  have "told rt w w' i [e]"
    using assms(2) unfolding told_def list.map replay_one e(2) by (simp add: ledgers_at_home_def)
  moreover have "one_event r = Inr [e]" by (simp add: one_event_def e(1))
  ultimately show ?thesis by (intro exI conjI)
qed

lemma told_spot:
  assumes "tells_spot rt w w' r"
  shows "\<exists>es. one_event r = Inr es \<and> told rt w w' i es"
proof -
  obtain e where e: "r = Inr e"
    "beside_ledgers (apply_event (mirror_event e) (snapshot w)) = beside_ledgers (snapshot w')"
    "ledgers_at_home rt w \<longrightarrow> ledgers_at_home rt w' \<and>
        pj_ledgers (apply_event (mirror_event e) (snapshot w)) = pj_ledgers (snapshot w')"
    using assms unfolding tells_spot_def by (elim exE conjE)
  have "apply_event (mirror_event e) (snapshot w) = snapshot w'" if "ledgers_at_home rt w"
    by (rule projection_eqI) (use e(2,3) that in \<open>simp_all only: beside_eq_iff simp_thms\<close>)
  then have "told rt w w' i [e]"
    using e(2,3) unfolding told_def list.map replay_one by blast
  moreover have "one_event r = Inr [e]" by (simp add: one_event_def e(1))
  ultimately show ?thesis by (intro exI conjI)
qed

lemma process_told:
  assumes ok: "process rt tp ua w i = Inr w'"
  shows "\<exists>es. emitted w i = Inr es \<and> told rt w w' i es"
proof (cases i)
  case (Shared x)
  with ok have run: "process_shared rt tp w x = Inr w'" by (simp only: process.simps)
  show ?thesis
  proof (cases "\<exists>ctx amount. x = IxMigrateSpotAsset ctx amount")
    case True
    with shared_beside [OF run] show ?thesis unfolding told_def Shared emitted.simps by auto
  next
    case False
    have "snapshot w' = snapshot w" by (rule shared_snapshot [OF run]) (use False in blast)
    from told_silent [OF this] show ?thesis by (simp add: Shared)
  qed
next
  case (OfPrediction x)
  with ok have "process_prediction rt w x = Inr w'" by (simp only: process.simps)
  from told_silent [OF prediction_snapshot [OF this]] show ?thesis by (simp add: OfPrediction)
next
  case (Collateral x)
  with ok have "process_collateral rt tp w x = Inr w'" by (simp only: process.simps)
  from told_silent [OF collateral_snapshot [OF this]] show ?thesis by (simp add: Collateral)
next
  case (OfMarket x)
  with ok have run: "process_market rt tp w x = Inr w'" by (simp only: process.simps)
  show ?thesis unfolding OfMarket emitted.simps
    by (rule told_event [OF market_tells [OF run] yieldsD [OF market_ledgers run]])
next
  case (OfProtocol x)
  with ok have run: "process_governance rt ua w x = Inr w'" by (simp only: process.simps)
  show ?thesis unfolding OfProtocol emitted.simps
    by (rule told_event [OF governance_tells [OF run] yieldsD [OF governance_ledgers run]])
next
  case (OfFaucet x)
  with ok have run: "process_faucet rt tp w x = Inr w'" by (simp only: process.simps)
  show ?thesis unfolding OfFaucet emitted.simps
    by (rule told_event [OF faucet_tells [OF run] yieldsD [OF faucet_ledgers run]])
next
  case (Spot x)
  with ok have run: "process_spot rt tp w x = Inr w'" by (simp only: process.simps)
  show ?thesis unfolding Spot emitted.simps by (rule told_spot [OF spot_tells [OF run]])
qed

section \<open>Payloads\<close>

text \<open>Every text the program emits has an encoding: short printable labels do.\<close>

definition label_law :: "borsh \<Rightarrow> bool" where
  "label_law b \<longleftrightarrow> (\<forall>s. length s \<le> 64 \<longrightarrow> list_all (\<lambda>c. 32 \<le> c \<and> c \<le> 126) s \<longrightarrow> fits (b_string b) s)"

lemma labels_fit:
  assumes "label_law b" "validate_labels bs qs dn = Inr u"
  shows "fits (b_string b) bs \<and> fits (b_string b) qs \<and> fits (b_string b) dn"
proof -
  have sym: "fits (b_string b) s" if "valid_symbol s" for s
  proof -
    have "32 \<le> c \<and> c \<le> 126" if "is_ascii_alphanumeric c \<or> c = 46 \<or> c = 45 \<or> c = 95" for c
      using that by (auto simp: is_ascii_alphanumeric_def word_le_nat_alt)
    with that assms(1) show ?thesis
      by (auto simp: label_law_def valid_symbol_def MARKET_SYMBOL_MAX_LENGTH_def list_all_iff)
  qed
  have "32 \<le> c \<and> c \<le> 126" if "c = 32 \<or> is_ascii_graphic c" for c
    using that by (auto simp: is_ascii_graphic_def word_le_nat_alt)
  then have "fits (b_string b) dn" if "valid_display_name dn"
    using that assms(1)
    by (auto simp: label_law_def valid_display_name_def MARKET_DISPLAY_NAME_MAX_LENGTH_def list_all_iff)
  with sym assms(2) show ?thesis by (simp add: validate_labels_def require_Inr)
qed

lemma struct_fits [simp]:
  "fits (struct_codec parts build c) r = fits c (parts r)" "fits (pair_codec c d) (x, y) = (fits c x \<and> fits d y)"
  by (simp_all add: struct_codec_def pair_codec_def)

lemmas event_codec_defs = market_initialized_codec_def market_status_changed_codec_def market_closed_codec_def
  market_metadata_initialized_codec_def market_metadata_updated_codec_def market_metadata_closed_codec_def
  order_placed_codec_def order_canceled_codec_def fill_codec_def trader_balance_initialized_codec_def
  deposit_codec_def withdrawal_codec_def protocol_initialized_codec_def admin_added_codec_def
  admin_status_changed_codec_def admin_removed_codec_def taker_fee_updated_codec_def
  protocol_fees_withdrawn_codec_def test_faucet_initialized_codec_def test_faucet_claimed_codec_def
  test_faucet_closed_codec_def

text \<open>Only the labels of two events can be too long for an encoding.\<close>

fun labels_of :: "ProgramEvent \<Rightarrow> bytes list" where
  "labels_of (EmitMarketMetadataInitialized e) = [on_market_metadata_initialized_base_symbol e,
     on_market_metadata_initialized_quote_symbol e, on_market_metadata_initialized_display_name e]"
| "labels_of (EmitMarketMetadataUpdated e) = [on_market_metadata_updated_base_symbol e,
     on_market_metadata_updated_quote_symbol e, on_market_metadata_updated_display_name e]"
| "labels_of _ = []"

lemma event_fits_labels:
  assumes "borsh_law b" "list_all (fits (b_string b)) (labels_of e)"
  shows "event_fits b (mirror_event e)"
  using assms(2)
  by (cases e) (simp_all add: event_codec_defs borsh_fits [OF assms(1)] mirror_market_metadata_initialized_def
      mirror_market_metadata_updated_def)

lemma emitted_fits:
  assumes "borsh_law b" "label_law b" "process rt tp ua w i = Inr w'" "emitted w i = Inr es" "e \<in> set es"
  shows "event_fits b (mirror_event e)"
proof (rule event_fits_labels [OF assms(1)])
  show "list_all (fits (b_string b)) (labels_of e)"
  proof (cases i)
    case (OfMarket x)
    show ?thesis
    proof (cases x)
      case (IxInitializeMarketMetadata ks bs qs dn kd)
      with assms(3) OfMarket have "validate_labels bs qs dn = Inr ()"
        by (simp add: initialize_market_metadata_def run_simps)
      from labels_fit [OF assms(2) this] show ?thesis
        using assms(4,5) by (simp add: OfMarket IxInitializeMarketMetadata one_event_def
            emit_initialize_market_metadata_def) auto
    next
      case (IxUpdateMarketMetadata ks bs qs dn)
      with assms(3) OfMarket have "validate_labels bs qs dn = Inr ()"
        by (auto simp: update_market_metadata_def run_simps)
      from labels_fit [OF assms(2) this] show ?thesis
        using assms(4,5) by (auto simp: OfMarket IxUpdateMarketMetadata one_event_def map_sum_Inr load_Inr
            emit_update_market_metadata_def)
    qed (use assms(4,5) in \<open>auto simp: OfMarket one_event_def map_sum_Inr load_Inr emit_initialize_market_def
        emit_close_market_metadata_def emit_pause_market_def emit_unpause_market_def emit_close_market_def\<close>)
  next
    case (OfProtocol x)
    with assms(4,5) show ?thesis
      by (cases x) (auto simp: one_event_def map_sum_Inr load_Inr event_simps)
  next
    case (OfFaucet x)
    with assms(4,5) show ?thesis
      by (cases x) (auto simp: one_event_def map_sum_Inr load_Inr event_simps)
  next
    case (Spot x)
    have "labels_of e = []"
      using assms(4,5) unfolding Spot emitted.simps one_event_def map_sum_Inr
      by (cases x) (auto simp: load_Inr run_simps event_simps emit_insert_limit_order_def emit_append_limit_order_def
          emit_cancel_limit_order_def emit_match_limit_order_def Let_def)
    then show ?thesis by simp
  qed (use assms(4,5) in simp_all)
qed

section \<open>The whole log\<close>

lemma log_complete:
  assumes "(program_step rt tp)\<^sup>*\<^sup>* w w'"
  shows "\<exists>es. chain_log rt tp (\<lambda>_. True) w es w'"
  using assms
proof (induction rule: rtranclp_induct)
  case base
  show ?case by (rule exI) (rule log_start)
next
  case (step w1 w2)
  then obtain es where es: "chain_log rt tp (\<lambda>_. True) w es w1" by blast
  from step(2) show ?case
  proof cases
    case (program_call now ua i)
    obtain new where new: "emitted w1 i = Inr new" using process_told [OF program_call(1)] by (elim exE conjE)
    have "chain_log rt tp (\<lambda>_. True) w (es @ new) w2"
      by (rule log_call [OF es program_call(1) TrueI _ new]) (rule program_call(2))
    then show ?thesis by (rule exI)
  next
    case program_others
    from log_others [OF es this] show ?thesis by (rule exI)
  qed
qed

lemma others_snapshot:
  assumes "others_act rt w w'"
  shows "snapshot w' = snapshot w"
proof -
  obtain ms ts where "w' = w\<lparr>w_mints := ms, w_tokens := ts\<rparr>" using assms by (auto simp: others_act_def)
  then show ?thesis by (simp add: update_unseen)
qed

lemma log_beside:
  "chain_log rt tp ok w es w' \<Longrightarrow>
     beside_ledgers (replay (map mirror_event es) (snapshot w)) = beside_ledgers (snapshot w')"
proof (induction rule: chain_log.induct)
  case (log_call w es w1 now ua i w2 new)
  have "told (at_time now rt) w1 w2 i new" using process_told [OF log_call(2)] log_call(5) by auto
  then have "beside_ledgers (replay (map mirror_event new) (snapshot w1)) = beside_ledgers (snapshot w2)"
    unfolding told_def by blast
  with replay_beside [OF log_call.IH, of "map mirror_event new"] show ?case by (simp add: replay_append)
qed (simp_all add: others_snapshot)

lemma log_ledgers:
  "chain_log rt tp ok w es w' \<Longrightarrow> (\<And>ctx amount. \<not> ok (Shared (IxMigrateSpotAsset ctx amount))) \<Longrightarrow>
     ledgers_at_home rt w \<Longrightarrow> ledgers_at_home rt w' \<and> replay (map mirror_event es) (snapshot w) = snapshot w'"
proof (induction rule: chain_log.induct)
  case (log_call w es w1 now ua i w2 new)
  have "told (at_time now rt) w1 w2 i new" using process_told [OF log_call(2)] log_call(5) by auto
  moreover have "i \<noteq> Shared (IxMigrateSpotAsset ctx amount)" for ctx amount using log_call(3) log_call.prems(1) by blast
  moreover have "ledgers_at_home rt w1" "replay (map mirror_event es) (snapshot w) = snapshot w1"
    using log_call.IH log_call.prems by blast+
  ultimately show ?case unfolding told_def by (simp add: replay_append)
next
  case (log_others w es w1 w2)
  then show ?case using others_snapshot [OF log_others(2)] home_snapshot [of w2 w1 rt] by simp
qed simp

lemma log_fits:
  "chain_log rt tp ok w es w' \<Longrightarrow> borsh_law b \<Longrightarrow> label_law b \<Longrightarrow> e \<in> set es \<Longrightarrow> event_fits b (mirror_event e)"
proof (induction rule: chain_log.induct)
  case (log_call w es w1 now ua i w2 new)
  with emitted_fits [OF log_call(7,8,2,5)] show ?case by auto
qed simp_all

text \<open>The payloads of events decode to their mirrors.\<close>

lemma decode_payloads:
  assumes "borsh_law b" "event_hash_law event_hash" "\<forall>e\<in>set es. event_fits b (mirror_event e)"
    "list_all2 (\<lambda>raw e. base64 (raw_payload_base64 raw) = Some (event_payload event_hash b e)) raws es"
  shows "\<exists>ds. map (decode_event base64 b) raws = map Inr ds \<and> map dec_event ds = map mirror_event es"
  using assms(4,3)
proof (induction rule: list_all2_induct)
  case (Cons raw raws e es)
  let ?d = "\<lparr>dec_log_index = raw_log_index raw, dec_payload_base64 = raw_payload_base64 raw, dec_event = mirror_event e\<rparr>"
  have "decode_event base64 b raw = Inr ?d"
    using Cons(1) Cons.prems mirror_payload [OF assms(2), of e b]
    unfolding decode_event_Inr [OF assms(1)] by (intro exI [of _ "mirror_event e"]) simp
  moreover obtain ds where "map (decode_event base64 b) raws = map Inr ds" "map dec_event ds = map mirror_event es"
    using Cons.IH Cons.prems by auto
  ultimately show ?case by (intro exI [of _ "?d # ds"]) simp
qed simp

section \<open>Properties\<close>

text \<open>C32: The event log is a complete record of the spot exchange. Take any run of the chain, with any
  instructions of the program beside any other programs. Its successful instructions have a log, and
  an indexer that decodes the Base64 payloads of the log and replays the decoded events from a
  snapshot of the accounts rebuilds, entry by entry, the accounts at the end: all open orders (with
  remaining quantity and lock), markets and their status, administrators, configuration and fee
  rate, labels and faucets. No payload is refused.\<close>

theorem event_log_rebuilds_accounts:
  assumes "borsh_law b" "label_law b" "event_hash_law event_hash" "(program_step rt tp)\<^sup>*\<^sup>* w w'"
  shows "(\<exists>es. chain_log rt tp (\<lambda>_. True) w es w') \<and>
    (\<forall>es raws. chain_log rt tp (\<lambda>_. True) w es w' \<longrightarrow>
      list_all2 (\<lambda>raw e. base64 (raw_payload_base64 raw) = Some (event_payload event_hash b e)) raws es \<longrightarrow>
      (\<exists>ds. map (decode_event base64 b) raws = map Inr ds \<and>
        beside_ledgers (replay (map dec_event ds) (snapshot w)) = beside_ledgers (snapshot w')))"
proof (intro conjI allI impI)
  show "\<exists>es. chain_log rt tp (\<lambda>_. True) w es w'" by (rule log_complete [OF assms(4)])
next
  fix es and raws :: "RawEventLog list"
  assume log: "chain_log rt tp (\<lambda>_. True) w es w'"
    and raws: "list_all2 (\<lambda>raw e. base64 (raw_payload_base64 raw) = Some (event_payload event_hash b e)) raws es"
  have "\<forall>e\<in>set es. event_fits b (mirror_event e)" using log_fits [OF log assms(1,2)] by blast
  from decode_payloads [OF assms(1,3) this, of base64 raws] raws obtain ds
    where "map (decode_event base64 b) raws = map Inr ds" "map dec_event ds = map mirror_event es" by blast
  with log_beside [OF log] show "\<exists>ds. map (decode_event base64 b) raws = map Inr ds \<and>
      beside_ledgers (replay (map dec_event ds) (snapshot w)) = beside_ledgers (snapshot w')"
    by (intro exI [of _ ds]) simp
qed

text \<open>C33: The event log settles every ledger. In a run in which no spot balance is migrated to the shared
  wallet (that instruction emits nothing), replaying the events also gives every trader's ledger to the
  atom: what an order locks and a cancellation releases, the fee, the rounding dust a completed bid
  gets back. So a balance computed from the events is the balance on the chain.\<close>

theorem event_log_rebuilds_ledgers:
  assumes "chain_log rt tp ok w es w'" "\<forall>ctx amount. \<not> ok (Shared (IxMigrateSpotAsset ctx amount))"
    "ledgers_at_home rt w"
  shows "replay (map mirror_event es) (snapshot w) = snapshot w'"
  using log_ledgers [OF assms(1) _ assms(3)] assms(2) by blast

end
