(* ===== verification/Replay_Demo.thy ===== *)
theory Replay_Demo
  imports Chain_Demo Indexer_Demo Event_Log
begin

text \<open>
  A run whose log is replayed: on an open market one trader places an ask, another takes a part of
  it, and the events of both instructions rebuild the order and the two ledgers.
\<close>

section \<open>The run\<close>

definition rp_table :: "(pda_request \<times> pubkey) list" where
  "rp_table = [(ProtocolConfigPda, 2001), (MarketPda 11 12, 2010), (MarketFeesPda 2010, 2011),
     (TraderBalancePda 2010 5, 2015), (TraderBalancePda 2010 6, 2016), (OrderPda 2010 1, 2017),
     (PriceLevelPda 2010 Ask 7, 2018)]"

definition rp_rt :: runtime where
  "rp_rt = table_runtime rp_table"

lemma rp_now [simp]: "at_time 0 rp_rt = rp_rt"
  by (simp add: at_time_def rp_rt_def table_runtime_def)

lemma rp_pda [simp]:
  "pda rp_rt ProtocolConfigPda = (2001, 255)" "pda rp_rt (MarketPda 11 12) = (2010, 255)"
  "pda rp_rt (MarketFeesPda 2010) = (2011, 255)" "pda rp_rt (TraderBalancePda 2010 5) = (2015, 255)"
  "pda rp_rt (TraderBalancePda 2010 6) = (2016, 255)" "pda rp_rt (OrderPda 2010 1) = (2017, 255)"
  "pda rp_rt (PriceLevelPda 2010 Ask 7) = (2018, 255)"
  by (simp_all add: rp_rt_def table_pda rp_table_def)

lemma rp_addresses [simp]:
  "address rp_rt ProtocolConfigPda = 2001" "address rp_rt (MarketPda 11 12) = 2010"
  "address rp_rt (MarketFeesPda 2010) = 2011" "address rp_rt (TraderBalancePda 2010 5) = 2015"
  "address rp_rt (TraderBalancePda 2010 6) = 2016" "address rp_rt (OrderPda 2010 1) = 2017"
  "address rp_rt (PriceLevelPda 2010 Ask 7) = 2018"
  by (simp_all add: rp_rt_def table_address rp_table_def)

definition rp_balance :: "pubkey \<Rightarrow> u64 \<Rightarrow> u64 \<Rightarrow> TraderBalance" where
  "rp_balance owner base quote = \<lparr>tb_market = 2010, tb_owner = owner, tb_base_free = base, tb_base_locked = 0,
     tb_quote_free = quote, tb_quote_locked = 0, tb_bump = 255\<rparr>"

definition rp_fees :: MarketFees where
  "rp_fees = \<lparr>mf_market = 2010, mf_quote_mint = 12, mf_accrued_quote_fees = 0, mf_bump = 255\<rparr>"

definition rp_st0 :: spot_store where
  "rp_st0 = empty_spot\<lparr>ss_markets := [2010 \<mapsto> ch_market], ss_fees := [2011 \<mapsto> rp_fees],
     ss_configs := [2001 \<mapsto> ch_config 100],
     ss_balances := [2015 \<mapsto> rp_balance 5 50 0, 2016 \<mapsto> rp_balance 6 0 1000]\<rparr>"

definition rp0 :: world where
  "rp0 = gov0\<lparr>w_spot := rp_st0\<rparr>"

definition rp_place :: InsertLimitOrderKeys where
  "rp_place = \<lparr>ilk_trader = 5, ilk_market = 2010, ilk_order = 2017, ilk_price_level = 2018,
     ilk_trader_balance = 2015, ilk_better_level = None, ilk_worse_level = None\<rparr>"

definition rp_st1 :: spot_store where
  "rp_st1 = insert_effect rp_rt rp_place Ask 7 20 ch_market None None (rp_balance 5 50 0) 20 30 20 2 1 rp_st0"

definition rp_take :: MatchLimitOrderKeys where
  "rp_take = \<lparr>mlk_taker = 6, mlk_market = 2010, mlk_protocol_config = 2001, mlk_market_fees = 2011,
     mlk_maker_order = 2017, mlk_maker_price_level = 2018, mlk_next_order = None, mlk_worse_level = None,
     mlk_level_rent_recipient = None, mlk_maker_balance = 2015, mlk_taker_balance = 2016\<rparr>"

definition rp_st2 :: spot_store where
  "rp_st2 = match_effect rp_take (the (ss_markets rp_st1 2010)) rp_fees (the (ss_orders rp_st1 2017))
     (the (ss_levels rp_st1 2018)) None None
     ((rp_balance 6 0 1000)\<lparr>tb_quote_free := 964, tb_base_free := 5\<rparr>)
     ((rp_balance 5 30 0)\<lparr>tb_base_locked := 15, tb_quote_free := 35\<rparr>)
     False 1 15 15 15 1 1 rp_st1"

lemmas rp_stores = rp_st0_def rp_st1_def rp_st2_def rp_place_def rp_take_def insert_effect_def match_effect_def
  placed_order_def ch_market_def ch_config_def empty_spot_def rp_balance_def rp_fees_def

lemma rp_run_place: "insert_limit_order rp_rt rp_st0 rp_place Ask 7 20 = Inr rp_st1"
  by (simp add: insert_limit_order_def handle_insert_limit_order_def commit_insert_def check_insert_position_def
      rp_stores demo_eval save_def upd_inner_def)

lemma rp_run_take: "match_limit_order rp_rt rp_st1 rp_take Bid 8 5 = Inr rp_st2"
  by (simp add: match_limit_order_def handle_match_limit_order_def check_book_transition_def
      update_book_def rp_stores demo_eval demo_settlement demo_fee demo_plan_def closed_order_def save_def upd_inner_def)

definition rp_placed :: ProgramEvent where
  "rp_placed = EmitOrderPlaced
     \<lparr>on_order_placed_market = 2010, on_order_placed_order = 2017, on_order_placed_order_id = 1,
      on_order_placed_owner = 5, on_order_placed_side = Ask, on_order_placed_price = 7,
      on_order_placed_quantity = 20, on_order_placed_locked_collateral = 20, on_order_placed_price_level = 2018\<rparr>"

definition rp_filled :: ProgramEvent where
  "rp_filled = EmitFill
     \<lparr>on_fill_market = 2010, on_fill_maker_order = 2017, on_fill_maker_order_id = 1, on_fill_maker = 5,
      on_fill_taker = 6, on_fill_maker_side = Ask, on_fill_execution_price = 7, on_fill_base_quantity = 5,
      on_fill_quote_quantity = 35, on_fill_taker_fee_quote = 1, on_fill_maker_remaining_quantity = 15,
      on_fill_taker_remaining_quantity = 0\<rparr>"

definition rp1 :: world where "rp1 = rp0\<lparr>w_spot := rp_st1\<rparr>"
definition rp2 :: world where "rp2 = rp1\<lparr>w_spot := rp_st2\<rparr>"

definition trades_only :: "instruction \<Rightarrow> bool" where
  "trades_only i \<longleftrightarrow> (\<exists>s. i = instruction.Spot s)"

lemma rp_signer: "s \<in> {5, 6} \<Longrightarrow> s \<noteq> address rp_rt r"
  unfolding rp_rt_def by (intro table_signer) (auto simp: rp_table_def)

lemma rp_runs:
  "process rp_rt example_token_program None rp0 (instruction.Spot (IxInsertLimitOrder rp_place Ask 7 20)) = Inr rp1"
  "process rp_rt example_token_program None rp1 (instruction.Spot (IxMatchLimitOrder rp_take Bid 8 5)) = Inr rp2"
  by (simp_all add: on_spot_def rp0_def rp1_def rp2_def rp_run_place rp_run_take)

lemma rp_emits:
  "emitted rp0 (instruction.Spot (IxInsertLimitOrder rp_place Ask 7 20)) = Inr [rp_placed]"
  "emitted rp1 (instruction.Spot (IxMatchLimitOrder rp_take Bid 8 5)) = Inr [rp_filled]"
  by (simp_all add: one_event_def emit_insert_limit_order_def emit_match_limit_order_def rp0_def rp1_def rp_stores
      demo_eval demo_settlement demo_fee demo_plan_def rp_placed_def rp_filled_def)

lemma rp_log:
  assumes "\<And>s. ok (instruction.Spot s)"
  shows "chain_log rp_rt example_token_program ok rp0 [rp_placed, rp_filled] rp2"
proof -
  have "chain_log rp_rt example_token_program ok rp0 ([] @ [rp_placed]) rp1"
    by (rule log_call [OF log_start _ _ _ rp_emits(1), where now = 0 and ua = None])
      (use rp_runs(1) rp_signer [of 5] assms in \<open>simp_all add: rp_place_def\<close>)
  then have "chain_log rp_rt example_token_program ok rp0 (([] @ [rp_placed]) @ [rp_filled]) rp2"
    by (rule log_call [OF _ _ _ _ rp_emits(2), where now = 0 and ua = None])
      (use rp_runs(2) rp_signer [of 6] assms in \<open>simp_all add: rp_take_def\<close>)
  then show ?thesis by simp
qed

lemma rp_steps: "(program_step rp_rt example_token_program)\<^sup>*\<^sup>* rp0 rp2"
proof -
  have "program_step rp_rt example_token_program rp0 rp1"
    by (rule program_call [where now = 0 and ua = None and i = "instruction.Spot (IxInsertLimitOrder rp_place Ask 7 20)"])
      (use rp_runs(1) rp_signer [of 5] in \<open>auto simp: rp_place_def\<close>)
  moreover have "program_step rp_rt example_token_program rp1 rp2"
    by (rule program_call [where now = 0 and ua = None and i = "instruction.Spot (IxMatchLimitOrder rp_take Bid 8 5)"])
      (use rp_runs(2) rp_signer [of 6] in \<open>auto simp: rp_take_def\<close>)
  ultimately show ?thesis by (meson rtranclp.rtrancl_into_rtrancl rtranclp.rtrancl_refl)
qed

lemma example_label_law: "label_law example_borsh"
  by (simp add: label_law_def example_borsh_def string_codec_def)

definition rp_raw :: "ProgramEvent \<Rightarrow> RawEventLog" where
  "rp_raw e = \<lparr>raw_log_index = 0, raw_payload_base64 = example_text (event_payload example_hash example_borsh e)\<rparr>"

section \<open>What the events rebuild\<close>

theorem event_log_rebuilds_accounts_witness:
  "\<exists>ds. map (decode_event example_base64 example_borsh) [rp_raw rp_placed, rp_raw rp_filled] = map Inr ds \<and>
    pj_orders (snapshot rp0) 2017 = None \<and>
    pj_orders (replay (map dec_event ds) (snapshot rp0)) 2017 = Some
      \<lparr>oo_market = 2010, oo_id = 1, oo_owner = 5, oo_side = SideAsk, oo_price = 7, oo_quantity = 20,
       oo_remaining = 15, oo_locked = 15, oo_level = 2018\<rparr>"
proof -
  have raws: "list_all2 (\<lambda>raw e. example_base64 (raw_payload_base64 raw) =
      Some (event_payload example_hash example_borsh e)) [rp_raw rp_placed, rp_raw rp_filled] [rp_placed, rp_filled]"
    by (simp add: rp_raw_def)
  obtain ds where ds: "map (decode_event example_base64 example_borsh) [rp_raw rp_placed, rp_raw rp_filled] = map Inr ds"
    "beside_ledgers (replay (map dec_event ds) (snapshot rp0)) = beside_ledgers (snapshot rp2)"
    using event_log_rebuilds_accounts [OF example_borsh_law example_label_law example_hash_law rp_steps]
      rp_log [OF TrueI] raws by blast
  have "pj_orders (replay (map dec_event ds) (snapshot rp0)) 2017 = pj_orders (snapshot rp2) 2017"
    using arg_cong [OF ds(2), of pj_orders] by simp
  also have "\<dots> = Some
      \<lparr>oo_market = 2010, oo_id = 1, oo_owner = 5, oo_side = SideAsk, oo_price = 7, oo_quantity = 20,
       oo_remaining = 15, oo_locked = 15, oo_level = 2018\<rparr>"
    by (simp add: rp2_def rp_stores order_info_def)
  finally show ?thesis using ds(1) by (intro exI [of _ ds]) (simp add: rp0_def rp_stores)
qed

theorem event_log_rebuilds_ledgers_witness:
  "pj_ledgers (replay (map mirror_event [rp_placed, rp_filled]) (snapshot rp0)) 2015 = Some
     \<lparr>le_market = 2010, le_owner = 5, le_base_free = 30, le_base_locked = 15, le_quote_free = 35, le_quote_locked = 0\<rparr> \<and>
   pj_ledgers (replay (map mirror_event [rp_placed, rp_filled]) (snapshot rp0)) 2016 = Some
     \<lparr>le_market = 2010, le_owner = 6, le_base_free = 5, le_base_locked = 0, le_quote_free = 964, le_quote_locked = 0\<rparr>"
proof -
  have log: "chain_log rp_rt example_token_program trades_only rp0 [rp_placed, rp_filled] rp2"
    by (rule rp_log) (auto simp: trades_only_def)
  have trades: "\<forall>ctx amount. \<not> trades_only (Shared (IxMigrateSpotAsset ctx amount))" by (simp add: trades_only_def)
  have home: "ledgers_at_home rp_rt rp0" by (simp add: ledgers_at_home_def rp0_def rp_st0_def rp_balance_def)
  show ?thesis
    unfolding event_log_rebuilds_ledgers [OF log trades home]
    by (simp add: rp2_def rp_stores ledger_info_def)
qed

end
