(* ===== verification/Spec2Isabelle.thy ===== *)
theory Spec2Isabelle
  imports Spot_Ledger Spot_Demo Governance Custody Program_Demo Market_Metadata
    Prediction_Demo Shared_Wallet Shared_Demo Program_Roles Program_Questions Program_Lifecycle Program_Pause Chain_Demo
    Prediction_Book_Demo Indexer_Demo Session_Demo Replay_Demo
begin

text \<open>
  A verification library for Tidebook, an on-chain exchange for Solana with spot markets, prediction
  markets and a wallet shared between them (\<open>src/programs/tidebook/src\<close>, an Anchor program), and for the
  indexer that stores its events (\<open>src/services/indexer/src\<close>). Definitions follow the Rust sources:
  accounts are records, instructions are functions from a world of accounts to a new world or an
  error, in the order of the checks in the source; machine integers are words, with every checked
  operation an explicit branch.

  \<^bold>\<open>The program's parts and the theories that model them.\<close>

  \<^item> Vocabulary. \<open>Prelude\<close>: Rust's \<open>Result\<close> as the sum of an error and a value with early-return forms,
    checked arithmetic, keys and bytes, stores (finite maps) and their sums, transition systems and the locale
    \<open>transition_invariant\<close>. \<open>Errors\<close>: \<open>errors/catalog.rs\<close>. \<open>State\<close>: \<open>state.rs\<close> and \<open>state/*.rs\<close>. \<open>Pda\<close>:
    \<open>constants.rs\<close>, \<open>pda.rs\<close> and the seed lists of the account structs. \<open>Accounts\<close>: what Anchor's account
    layer does with named accounts. \<open>World\<close>: all accounts together, and the SPL token program.
  \<^item> Calculations. \<open>Fees\<close> (\<open>fees.rs\<close>) and \<open>Matching\<close> (\<open>matching.rs\<close>), with their \<open>u128\<close> intermediates.
  \<^item> The order book as a data structure. \<open>Linked\<close>: doubly linked lists in a store. \<open>Book_Index\<close>: levels and
    orders, the four edits, and what they do to the sorted lists the accounts stand for. \<open>Book_Steps\<close>: the edits
    under the guards of the instructions, as a transition system, and the locale \<open>order_book\<close>. \<open>Book_Records\<close>: books
    kept as account records, and the locale \<open>book_records\<close>.
  \<^item> Spot markets. \<open>Spot_Store\<close>, \<open>Spot_Place\<close>, \<open>Spot_Cancel\<close>, \<open>Spot_Match\<close>: the four order instructions with
    their account constraints. \<open>Spot_Book\<close> interprets \<open>order_book\<close> on them; \<open>Spot_Ledger\<close> follows the money.
    \<open>Custody\<close>: market creation, ledgers, deposits, withdrawals, fees, closing. \<open>Market_Metadata\<close>: labels.
  \<^item> Governance and faucet. \<open>Governance\<close>: protocol and admin instructions, fee rate, pausing.
    \<open>Test_Faucet\<close>: \<open>test_faucet.rs\<close>.
  \<^item> Prediction markets. \<open>Prediction_Config\<close> (terms and their validation), \<open>Prediction_Market\<close> (creation,
    opening, positions), \<open>Prediction_Resolution\<close> (proposals, corrections, freezing, fallback, finalization, on
    the chain's clock), \<open>Prediction_Collateral\<close> (cash and complete sets), \<open>Prediction_Orders\<close> and
    \<open>Prediction_Fills\<close> (the order book of a question). \<open>Prediction_Book\<close> and \<open>Prediction_Priority\<close>
    interpret \<open>book_records\<close> and \<open>order_book\<close> on its four lists. \<open>Prediction_Solvency\<close>, \<open>Prediction_Reserve\<close> and
    \<open>Prediction_Claims\<close> follow supplies, reserve and vault.
  \<^item> The shared wallet. \<open>Asset_Wallet\<close>: \<open>asset_wallet.rs\<close> and \<open>shared_prediction.rs\<close>. \<open>Shared_Rules\<close>,
    \<open>Shared_Remove\<close>, \<open>Shared_Place\<close>, \<open>Shared_Fill\<close>: \<open>shared_trading.rs\<close>, \<open>shared_orders.rs\<close>,
    \<open>shared_match.rs\<close>, \<open>shared_book.rs\<close>. \<open>Shared_Ledger\<close>: trading conserves value; \<open>Shared_Wallet\<close>: the
    vault covers all claims; \<open>Shared_Frozen\<close>: orders no instruction accepts any more.
  \<^item> The whole program. \<open>Program\<close>: the 52 entry points of \<open>lib.rs\<close> with accounts and arguments, their
    dispatch, who signs, and \<open>program_step\<close>: any instruction at any time of the clock, or an act of other
    programs, which may do anything with tokens and mints that no address of this program controls.
    \<open>Program_Frames\<close> and \<open>Program_Tokens\<close> say what each instruction can change at all;
    \<open>Program_Roles\<close>, \<open>Program_Custody\<close>, \<open>Program_Wallet\<close> and \<open>Program_Questions\<close> lift the invariants of
    the components to this system, so that they hold whatever mix of instructions runs. \<open>Program_Lifecycle\<close> proves
    that every instruction is a step of the lifecycle machine of \<open>Prediction_Resolution\<close> (in particular
    that funding, trading and redemption leave every lifecycle alone), so that all that is proved of that machine holds on
    the chain with its clock (\<open>clock_step\<close>). \<open>Program_Pause\<close> runs each instruction on two worlds that differ
    in the status of one market, and compares the outcomes.
  \<^item> The indexer. \<open>Indexer_Logs\<close>: \<open>events.rs\<close>, the invocation stack rebuilt from log lines. \<open>Borsh\<close>,
    \<open>Program_Events\<close> (\<open>events/*.rs\<close> of the program), \<open>Indexer_Events\<close> and \<open>Indexer_Decode\<close> (\<open>decoder.rs\<close>),
    composed in \<open>Event_Pipeline\<close>. \<open>Indexer_Store\<close> and \<open>Live_Checkpoint\<close>: \<open>storage/*.rs\<close> as transactions on
    tables. \<open>Indexer_Rpc\<close>, \<open>Indexer_Backfill\<close>, \<open>Indexer_Live\<close>: pages, gaps, cursors. \<open>Indexer_History\<close> and
    \<open>Indexer_Progress\<close>: what a cursor promises, with the page controllers as clients of locales for the RPC
    source, the processor and the cursor stores. \<open>Indexer_Service\<close>: bootstrap and recoveries of
    \<open>main.rs\<close> as an abstract service; \<open>Indexer_Session\<close>: its loop phase by phase with notifications, delays and
    readiness (\<open>subscription.rs\<close>, \<open>health.rs\<close>, \<open>config.rs\<close>), which refines that service.
  \<^item> From instruction to stored event. \<open>Program_Emit\<close>: the \<open>emit!\<close> statement of every handler that has one, and
    \<open>chain_log\<close>, the chain together with its log. \<open>Event_Replay\<close>: a projection of the accounts rebuilt event by
    event; \<open>Replay_Steps\<close> and \<open>Event_Log\<close>: decoding and replaying the log gives what the accounts hold.
  \<^item> Runs. \<open>Spot_Demo\<close>, \<open>Program_Demo\<close>, \<open>Prediction_Demo\<close>, \<open>Prediction_Book_Demo\<close>, \<open>Shared_Demo\<close>, \<open>Chain_Demo\<close>, \<open>Indexer_Demo\<close>,
    \<open>Service_Demo\<close>, \<open>Session_Demo\<close> and \<open>Replay_Demo\<close> evaluate concrete runs; each property with a hypothesis is applied to one of them.
    \<open>Prediction_Demo\<close> also defines the runtimes with a table of addresses that those runs use.

  \<^bold>\<open>What the lemmas show.\<close> Each component's theory ends with the section \<open>Properties\<close>. Books, spot and
  prediction: the linked index is always the sorted, FIFO book it stands for, and a fill takes the best and
  oldest order. Money:
  trading conserves custody, locks are exactly the collateral of open orders, and the vaults of a market, of a
  question and of a mint always cover the claims on them, on the whole chain. Questions: the handlers
  refine an abstract lifecycle, the outcome follows the published rules and is final, every question with a
  deadline resolves, and holders can redeem. Roles: only the super admin changes them; a pause stops
  trading and nothing else, and only the market's authority decides it; a closed faucet mints nothing. Events: whatever instructions run, each success emits its events, and
  the decoded log rebuilds orders, markets, labels, roles, fees and faucets exactly, ledgers too when nothing is
  migrated. Indexer: payload selection and decoding are exact, no transaction of the finalized history before
  a cursor is missing in the database, and a recovery is complete or leaves the cursor where it was, and
  a process that reports ready has caught up.

  \<^bold>\<open>Parameters.\<close> Code outside the sources is an argument of the model: the hash behind program addresses and the
  clock (\<open>runtime\<close>), the SPL token program (\<open>token_program\<close>; \<open>token_laws\<close> is what a success of its
  instructions says, and \<open>transfer_live\<close> when \<open>TransferChecked\<close> succeeds: right decimals, no frozen account,
  enough tokens; nothing is assumed of the amount a closed account held), the upgrade authority the loader recorded, the Borsh primitives, Base58 and Base64, the
  hash behind Anchor's event discriminators (the 21 prefixes it must have are literal bytes, \<open>anchor_event_hashes\<close>, not the
  decoder's constants), and the RPC node and database faults of the indexer (with the law of a finalized
  history). Claims that need distinct addresses say so for the addresses of one market, question, mint or
  faucet (\<open>own_addresses\<close>, \<open>no_question\<close>, \<open>no_market\<close>, \<open>own_asset_authority\<close>, \<open>own_faucet\<close>), because no
  hash into 32 bytes is injective on all requests; the runs show they can hold.

  \<^bold>\<open>Bounds and fuel.\<close> Every integer of the program keeps its width. The loops of the indexer recurse on the page
  budget their configuration gives them, as in the source; no definition uses fuel of its own.

  \<^bold>\<open>Not modelled.\<close> The log messages (\<open>msg!\<close>) of the handlers; rent, lamports and the byte layout of
  accounts (Anchor and Borsh); decoding of instruction data; transaction atomicity beyond one
  instruction (a failed instruction changes nothing). In the indexer: SQL text and connection pool, the
  WebSocket client, signals, the HTTP server and console reports: input and output around third-party crates.
\<close>

end
